(* ===== verification/Bt_Prelude.thy ===== *)
theory Bt_Prelude
  imports Main "HOL-Library.Word"
begin

text \<open>
  Shared vocabulary of the development: the machine-integer types of the sources, the
  collections of facts the component theories add to, and generic lemmas on lists, words
  and association lists that several components use.
\<close>

section \<open>Machine integers\<close>

unbundle bit_operations_syntax

type_synonym u8 = "8 word"
type_synonym u16 = "16 word"
type_synonym u32 = "32 word"
type_synonym u64 = "64 word"

text \<open>
  C++ division on unsigned operands. A zero divisor is undefined behaviour, which the
  model makes a value: \<^term>\<open>None\<close>.
\<close>

definition udiv :: "'w::len word \<Rightarrow> 'w word \<Rightarrow> 'w word option" where
  "udiv a b = (if b = 0 then None else Some (a div b))"

lemma udiv_nonzero [simp]: "b \<noteq> 0 \<Longrightarrow> udiv a b = Some (a div b)"
  by (simp add: udiv_def)

lemma udiv_zero [simp]: "udiv a 0 = None"
  by (simp add: udiv_def)

lemma unat_plus1_less:
  fixes c u :: "'w::len word"
  assumes "c < u"
  shows "unat (c + 1) = unat c + 1"
proof -
  have "unat c + 1 < 2 ^ LENGTH('w)"
  proof -
    have "unat u < 2 ^ LENGTH('w)" by (rule unsigned_less)
    with assms show ?thesis unfolding word_less_nat_alt by linarith
  qed
  then show ?thesis by (simp add: unat_word_ariths(1))
qed

section \<open>Collections of facts\<close>

named_theorems bits_simps "reading back bits that were written"
named_theorems session_defs "definitions of the session operations"
named_theorems port_defs "definitions of the device port operations"
named_theorems stream_defs "definitions of the stream operations"

section \<open>Lists\<close>

lemma fold_upt_Suc: "fold f [0..<Suc n] s = f n (fold f [0..<n] s)"
  by simp

lemma length_fold_update:
  "(\<And>i d. length (f i d) = length d) \<Longrightarrow> length (fold f is d) = length d"
  by (induction "is" arbitrary: d) auto

lemma find_member: "List.find P xs = Some x \<Longrightarrow> x \<in> set xs \<and> P x"
  by (induction xs) (auto split: if_splits)

lemma find_None: "List.find P xs = None \<longleftrightarrow> (\<forall>x \<in> set xs. \<not> P x)"
  by (induction xs) auto

section \<open>Association lists\<close>

text \<open>
  The unordered maps whose iteration order the code can observe (the registered callbacks)
  are association lists with distinct keys.
\<close>

definition alist_erase :: "'k \<Rightarrow> ('k \<times> 'v) list \<Rightarrow> ('k \<times> 'v) list" where
  "alist_erase k xs = filter (\<lambda>p. fst p \<noteq> k) xs"

lemma map_of_append_fresh:
  "k \<notin> fst ` set xs \<Longrightarrow> map_of (xs @ [(k, v)]) = (map_of xs)(k \<mapsto> v)"
  by (induction xs) (auto simp: fun_upd_twist)

lemma alist_erase_map_of: "map_of (alist_erase k xs) = (map_of xs)(k := None)"
  by (induction xs) (auto simp: alist_erase_def)

lemma alist_erase_keys: "fst ` set (alist_erase k xs) = fst ` set xs - {k}"
  by (auto simp: alist_erase_def)

lemma alist_erase_distinct:
  "distinct (map fst xs) \<Longrightarrow> distinct (map fst (alist_erase k xs))"
  by (simp add: alist_erase_def distinct_map_filter)

lemma alist_erase_length:
  "distinct (map fst xs) \<Longrightarrow>
     length (alist_erase k xs) = length xs - (if k \<in> fst ` set xs then 1 else 0)"
proof (induction xs)
  case Nil
  then show ?case by (simp add: alist_erase_def)
next
  case (Cons p xs)
  show ?case
  proof (cases "fst p = k")
    case True
    with Cons.prems have "k \<notin> fst ` set xs" by auto
    then have "filter (\<lambda>p. fst p \<noteq> k) xs = xs"
      by (intro filter_True ballI) (metis imageI)
    with True show ?thesis by (auto simp: alist_erase_def)
  next
    case False
    with Cons show ?thesis
      by (cases "xs = []") (auto simp: alist_erase_def Suc_diff_le)
  qed
qed

end
