(* ===== verification/A2dp_Bits.thy ===== *)
theory A2dp_Bits
  imports Bt_Prelude
begin

text \<open>
  The bit view of an A2DP codec capability or configuration: the class \<open>A2dpBits\<close> of
  \<open>bluetooth/audio/hal/A2dpBits.h\<close>. Bits are numbered from the most significant bit of
  byte 0. The data is the byte vector the class points into; the mutating operations
  return it updated.
\<close>

section \<open>Ranges\<close>

record Range =
  rfirst :: nat
  rlen :: nat

definition Range_between :: "nat \<Rightarrow> nat \<Rightarrow> Range" where
  "Range_between b l = \<lparr>rfirst = b, rlen = l - b + 1\<rparr>"

definition Range_at :: "nat \<Rightarrow> Range" where
  "Range_at i = \<lparr>rfirst = i, rlen = 1\<rparr>"

definition range_bits :: "Range \<Rightarrow> nat set" where
  "range_bits r = {rfirst r ..< rfirst r + rlen r}"

section \<open>Reading and writing bits\<close>

definition bits_get :: "u8 list \<Rightarrow> nat \<Rightarrow> bool" where
  "bits_get cdata b = bit (drop_bit (7 - b mod 8) (cdata ! (b div 8))) 0"

definition bits_get_range :: "u8 list \<Rightarrow> Range \<Rightarrow> u32" where
  "bits_get_range cdata r =
     fold (\<lambda>i v. v OR push_bit (rlen r - 1 - i) (of_bool (bits_get cdata (rfirst r + i))))
       [0..<rlen r] 0"

definition bits_set :: "u8 list \<Rightarrow> nat \<Rightarrow> bool \<Rightarrow> u8 list" where
  "bits_set data b value =
     (let m = push_bit (7 - b mod 8) 1 in
      if value then data[b div 8 := (data ! (b div 8)) OR m]
      else data[b div 8 := (data ! (b div 8)) AND NOT m])"

definition bits_set_range :: "u8 list \<Rightarrow> Range \<Rightarrow> int \<Rightarrow> u8 list" where
  "bits_set_range data r value =
     fold (\<lambda>i d. bits_set d (rfirst r + i) (bit (drop_bit (rlen r - 1 - i) value) 0))
       [0..<rlen r] data"

text \<open>The loop of \<open>find_active_bit\<close>: the least \<open>i < n\<close> whose bit is set, or \<open>n\<close>.\<close>

function first_set_bit :: "u32 \<Rightarrow> nat \<Rightarrow> nat \<Rightarrow> nat" where
  "first_set_bit v i n = (if i < n \<and> \<not> bit (drop_bit i v) 0 then first_set_bit v (Suc i) n else i)"
  by pat_completeness auto
termination
  by (relation "measure (\<lambda>(v, i, n). n - i)") auto

declare first_set_bit.simps [simp del]

definition find_active_bit :: "u8 list \<Rightarrow> Range \<Rightarrow> int" where
  "find_active_bit cdata r =
     (let v = bits_get_range cdata r;
          i = first_set_bit v 0 (rlen r)
      in if i < rlen r \<and> v XOR push_bit i 1 = 0
         then int (rfirst r + (rlen r - 1) - i) else - 1)"

section \<open>Single bits\<close>

lemma bits_get_bit: "bits_get d b = bit (d ! (b div 8)) (7 - b mod 8)"
  by (simp add: bits_get_def bit_drop_bit_eq)

lemma length_bits_set [simp]: "length (bits_set d b v) = length d"
  by (simp add: bits_set_def Let_def)

lemma length_bits_set_range [simp]: "length (bits_set_range d r v) = length d"
  unfolding bits_set_range_def by (rule length_fold_update) simp

lemma bits_get_bits_set [bits_simps]:
  assumes "b < 8 * length d"
  shows "bits_get (bits_set d b v) b' = (if b' = b then v else bits_get d b')"
proof (cases "b' div 8 = b div 8")
  case True
  have "(7 - b mod 8 = 7 - b' mod 8) = (b mod 8 = b' mod 8)"
    using mod_less_divisor [of 8 b] mod_less_divisor [of 8 b'] by linarith
  moreover have "(b = b') = (b mod 8 = b' mod 8)"
    using True by (metis div_mod_decomp)
  moreover have "b div 8 < length d" using assms by (simp add: less_mult_imp_div_less mult.commute)
  moreover have "7 - b' mod 8 < 8" by simp
  ultimately show ?thesis
    using True
    by (auto simp: bits_get_bit bits_set_def Let_def bit_or_iff bit_and_iff bit_not_iff
        bit_push_bit_iff bit_1_iff bit_exp_iff possible_bit_def)
next
  case False
  then have "b \<noteq> b'" by auto
  with False show ?thesis
    by (auto simp: bits_get_bit bits_set_def Let_def)
qed

lemma bits_get_zero [bits_simps]: "b < 8 * n \<Longrightarrow> \<not> bits_get (replicate n 0) b"
  by (simp add: bits_get_bit less_mult_imp_div_less mult.commute)

section \<open>Ranges of bits\<close>

lemma bit_fold_get:
  assumes "n \<le> l" "l \<le> 32"
  shows "bit (fold (\<lambda>i v. v OR push_bit (l - 1 - i) (of_bool (g i))) [0..<n] (0::u32)) k
     = (\<exists>i<n. k = l - 1 - i \<and> g i)"
  using assms
proof (induction n)
  case 0
  then show ?case by simp
next
  case (Suc n)
  have "bit (push_bit (l - 1 - n) (of_bool (g n)) :: u32) k = (k = l - 1 - n \<and> g n)"
    using Suc.prems by (auto simp: bit_push_bit_iff bit_1_iff of_bool_def)
  with Suc show ?case
    by (auto simp: bit_or_iff less_Suc_eq)
qed

lemma bit_bits_get_range:
  assumes "rlen r \<le> 32"
  shows "bit (bits_get_range d r) k = (k < rlen r \<and> bits_get d (rfirst r + (rlen r - 1 - k)))"
proof -
  have "bit (bits_get_range d r) k = (\<exists>i<rlen r. k = rlen r - 1 - i \<and> bits_get d (rfirst r + i))"
    unfolding bits_get_range_def using assms
    by (subst bit_fold_get [where g = "\<lambda>i. bits_get d (rfirst r + i)"]) auto
  also have "\<dots> = (k < rlen r \<and> bits_get d (rfirst r + (rlen r - 1 - k)))"
  proof
    assume "\<exists>i<rlen r. k = rlen r - 1 - i \<and> bits_get d (rfirst r + i)"
    then obtain i where "i < rlen r" "k = rlen r - 1 - i" "bits_get d (rfirst r + i)" by blast
    moreover from this have "rlen r - 1 - k = i" by simp
    ultimately show "k < rlen r \<and> bits_get d (rfirst r + (rlen r - 1 - k))" by auto
  next
    assume "k < rlen r \<and> bits_get d (rfirst r + (rlen r - 1 - k))"
    then show "\<exists>i<rlen r. k = rlen r - 1 - i \<and> bits_get d (rfirst r + i)"
      by (intro exI [of _ "rlen r - 1 - k"]) auto
  qed
  finally show ?thesis .
qed

lemma bits_get_fold_set:
  assumes "n \<le> l" "f + l \<le> 8 * length d"
  shows "bits_get (fold (\<lambda>i d. bits_set d (f + i) (g i)) [0..<n] d) b
     = (if f \<le> b \<and> b < f + n then g (b - f) else bits_get d b)"
  using assms
proof (induction n)
  case 0
  then show ?case by auto
next
  case (Suc n)
  have len: "length (fold (\<lambda>i d. bits_set d (f + i) (g i)) [0..<n] d) = length d"
    by (rule length_fold_update) simp
  from Suc show ?case
    by (auto simp: fold_upt_Suc bits_get_bits_set len less_Suc_eq)
qed

lemma bits_get_bits_set_range [bits_simps]:
  assumes "rfirst r + rlen r \<le> 8 * length d"
  shows "bits_get (bits_set_range d r v) b
     = (if b \<in> range_bits r then bit v (rlen r - 1 - (b - rfirst r)) else bits_get d b)"
  unfolding bits_set_range_def range_bits_def
  by (subst bits_get_fold_set [where l = "rlen r"])
    (use assms in \<open>auto simp: bit_drop_bit_eq\<close>)

text \<open>Writing a value into a range and reading it back: the value modulo the width.\<close>

lemma bits_get_range_set_range:
  assumes "rfirst r + rlen r \<le> 8 * length d" "rlen r \<le> 32"
  shows "bits_get_range (bits_set_range d r v) r = word_of_int (take_bit (rlen r) v)"
proof (rule bit_word_eqI)
  fix k :: nat
  assume k: "k < LENGTH(32)"
  show "bit (bits_get_range (bits_set_range d r v) r) k
      = bit (word_of_int (take_bit (rlen r) v) :: u32) k"
    using assms k
    by (auto simp: bit_bits_get_range bits_get_bits_set_range range_bits_def
        bit_word_of_int_iff bit_take_bit_iff)
qed

lemma bits_get_range_cong:
  assumes "rlen r \<le> 32" "\<And>b. b \<in> range_bits r \<Longrightarrow> bits_get d b = bits_get d' b"
  shows "bits_get_range d r = bits_get_range d' r"
proof (rule bit_word_eqI)
  fix k :: nat
  assume "k < LENGTH(32)"
  show "bit (bits_get_range d r) k = bit (bits_get_range d' r) k"
    using assms by (auto simp: bit_bits_get_range range_bits_def)
qed

section \<open>The active bit of a range\<close>

lemma first_set_bit_spec:
  assumes "i \<le> n"
  shows "i \<le> first_set_bit v i n \<and> first_set_bit v i n \<le> n
     \<and> (\<forall>k. i \<le> k \<and> k < first_set_bit v i n \<longrightarrow> \<not> bit v k)
     \<and> (first_set_bit v i n < n \<longrightarrow> bit v (first_set_bit v i n))"
  using assms
proof (induction v i n rule: first_set_bit.induct)
  case (1 v i n)
  show ?case
  proof (cases "i < n \<and> \<not> bit (drop_bit i v) 0")
    case True
    then have nb: "\<not> bit v i" by (simp add: bit_drop_bit_eq)
    have step: "first_set_bit v i n = first_set_bit v (Suc i) n"
      using True by (simp add: first_set_bit.simps [of v i n])
    note IH = "1.IH" [OF True]
    from True IH have "\<forall>k. i \<le> k \<and> k < first_set_bit v i n \<longrightarrow> \<not> bit v k"
      unfolding step using nb by (metis Suc_leI le_neq_implies_less)
    with True IH show ?thesis unfolding step by auto
  next
    case False
    have "first_set_bit v i n = i"
      by (subst first_set_bit.simps, subst if_not_P [OF False], rule refl)
    with False "1.prems" show ?thesis by (auto simp: bit_drop_bit_eq)
  qed
qed

text \<open>
  \<open>find_active_bit\<close> finds the one active bit of a range, and gives -1 where there is
  none or more than one.
\<close>

lemma find_active_bit_eq:
  assumes "rlen r \<le> 32"
  shows "find_active_bit d r = int b \<longleftrightarrow>
     b \<in> range_bits r \<and> bits_get d b \<and> (\<forall>b' \<in> range_bits r. bits_get d b' \<longrightarrow> b' = b)"
  (is "?L \<longleftrightarrow> ?R")
proof -
  define v where "v = bits_get_range d r"
  define i where "i = first_set_bit v 0 (rlen r)"
  have bv: "bit v k = (k < rlen r \<and> bits_get d (rfirst r + (rlen r - 1 - k)))" for k
    unfolding v_def by (rule bit_bits_get_range [OF assms])
  have lt32: "k < 32" if "bit v k" for k using bv [of k] that assms by simp
  have i_le: "i \<le> rlen r" and i_set: "i < rlen r \<Longrightarrow> bit v i"
    and i_min: "\<And>k. k < i \<Longrightarrow> \<not> bit v k"
    using first_set_bit_spec [of 0 "rlen r" v] by (auto simp: i_def)
  have single: "v XOR push_bit i 1 = 0 \<longleftrightarrow> (\<forall>k. bit v k \<longrightarrow> k = i)" if "i < rlen r"
  proof -
    have "v XOR push_bit i 1 = 0 \<longleftrightarrow> v = push_bit i 1"
      by (auto simp: bit_eq_iff bit_xor_iff)
    also have "\<dots> \<longleftrightarrow> (\<forall>k < 32. bit v k = (k = i))"
      using that assms
      by (auto simp: bit_eq_iff bit_push_bit_iff bit_1_iff bit_exp_iff dest: bit_imp_le_length)
    also have "\<dots> \<longleftrightarrow> (\<forall>k. bit v k \<longrightarrow> k = i)"
      using that assms i_set lt32 by auto
    finally show ?thesis .
  qed
  have fab: "find_active_bit d r
      = (if i < rlen r \<and> (\<forall>k. bit v k \<longrightarrow> k = i) then int (rfirst r + (rlen r - 1) - i) else - 1)"
    using single unfolding find_active_bit_def v_def [symmetric] Let_def i_def [symmetric] by auto
  show ?thesis
  proof
    assume ?L
    then have i: "i < rlen r" and only: "\<forall>k. bit v k \<longrightarrow> k = i"
      and b: "b = rfirst r + (rlen r - 1 - i)"
      unfolding fab by (auto split: if_splits)
    have "bits_get d b" using i_set [OF i] unfolding bv b by (rule conjunct2)
    moreover have "b' = b" if "b' \<in> range_bits r" "bits_get d b'" for b'
    proof -
      define k where "k = rlen r - 1 - (b' - rfirst r)"
      from that have "rfirst r + (rlen r - 1 - k) = b'" and "k < rlen r"
        by (auto simp: range_bits_def k_def)
      with that bv have "bit v k" by simp
      with only have "k = i" by blast
      with \<open>rfirst r + (rlen r - 1 - k) = b'\<close> b show ?thesis by simp
    qed
    moreover have "b \<in> range_bits r" using i b by (simp add: range_bits_def)
    ultimately show ?R by blast
  next
    assume R: ?R
    from R have b_in: "b \<in> range_bits r" and b_set: "bits_get d b" by blast+
    from R have uniq: "\<And>b'. b' \<in> range_bits r \<Longrightarrow> bits_get d b' \<Longrightarrow> b' = b" by blast
    define k where "k = rlen r - 1 - (b - rfirst r)"
    from b_in have k: "rfirst r + (rlen r - 1 - k) = b" "k < rlen r"
      by (auto simp: range_bits_def k_def)
    with b_set bv have "bit v k" by simp
    then have "i < rlen r" using i_min i_le k(2) by (metis le_neq_implies_less linorder_not_less)
    have only: "j = k" if "bit v j" for j
    proof -
      from that have j: "j < rlen r \<and> bits_get d (rfirst r + (rlen r - 1 - j))"
        unfolding bv .
      then have "rfirst r + (rlen r - 1 - j) \<in> range_bits r"
        unfolding range_bits_def atLeastLessThan_iff by linarith
      with j have "rfirst r + (rlen r - 1 - j) = b" by (intro uniq) blast+
      with j k show ?thesis by linarith
    qed
    have ik: "i = k" using only [OF i_set [OF \<open>i < rlen r\<close>]] .
    have "\<forall>k. bit v k \<longrightarrow> k = i" using only ik by blast
    then have "find_active_bit d r = int (rfirst r + (rlen r - 1) - i)"
      unfolding fab using \<open>i < rlen r\<close> by simp
    also have "rfirst r + (rlen r - 1) - i = b" using k ik by linarith
    finally show ?L .
  qed
qed

lemma find_active_bitI:
  assumes "rlen r \<le> 32" "b \<in> range_bits r" "bits_get d b"
    and "\<And>b'. b' \<in> range_bits r \<Longrightarrow> bits_get d b' \<Longrightarrow> b' = b"
  shows "find_active_bit d r = int b"
  unfolding find_active_bit_eq [OF assms(1)] using assms(2-) by blast

lemma find_active_bit_ge: "find_active_bit d r \<ge> - 1"
  by (simp add: find_active_bit_def Let_def)

lemma find_active_bit_nonneg:
  assumes "rlen r \<le> 32" "0 \<le> find_active_bit d r"
  obtains b where "find_active_bit d r = int b" "b \<in> range_bits r" "bits_get d b"
proof -
  have "find_active_bit d r = int (nat (find_active_bit d r))" using assms(2) by simp
  then show thesis using find_active_bit_eq [OF assms(1)] that by blast
qed

end
