(* ===== verification/Audio_Types.thy ===== *)
theory Audio_Types
  imports Bt_Prelude
begin

text \<open>
  The data types of the Bluetooth audio interfaces (\<open>android.hardware.bluetooth.audio\<close>)
  that the sources under \<open>bluetooth/audio\<close> exchange. The enumerators and fields are those
  the sources name; a payload whose fields the modelled code never reads is a single
  number standing for its content. Constructors carry the name of the C++ enumeration they
  belong to, because several enumerations share enumerator names.
\<close>

section \<open>Enumerations\<close>

datatype SessionType =
    ST_UNKNOWN
  | A2DP_SOFTWARE_ENCODING_DATAPATH
  | A2DP_HARDWARE_OFFLOAD_ENCODING_DATAPATH
  | HEARING_AID_SOFTWARE_ENCODING_DATAPATH
  | LE_AUDIO_SOFTWARE_ENCODING_DATAPATH
  | LE_AUDIO_SOFTWARE_DECODING_DATAPATH
  | LE_AUDIO_HARDWARE_OFFLOAD_ENCODING_DATAPATH
  | LE_AUDIO_HARDWARE_OFFLOAD_DECODING_DATAPATH
  | LE_AUDIO_BROADCAST_SOFTWARE_ENCODING_DATAPATH
  | LE_AUDIO_BROADCAST_HARDWARE_OFFLOAD_ENCODING_DATAPATH
  | A2DP_SOFTWARE_DECODING_DATAPATH
  | A2DP_HARDWARE_OFFLOAD_DECODING_DATAPATH
  | HFP_SOFTWARE_ENCODING_DATAPATH
  | HFP_SOFTWARE_DECODING_DATAPATH
  | HFP_HARDWARE_OFFLOAD_DATAPATH

datatype BluetoothAudioStatus =
    Status_UNKNOWN | SUCCESS | UNSUPPORTED_CODEC_CONFIGURATION | FAILURE | RECONFIGURATION

datatype LatencyMode =
    LM_UNKNOWN | LOW_LATENCY | FREE
  | DYNAMIC_SPATIAL_AUDIO_SOFTWARE | DYNAMIC_SPATIAL_AUDIO_HARDWARE

datatype ChannelMode = CM_UNKNOWN | CM_MONO | CM_STEREO | CM_DUALMONO

datatype A2dpCodec = A2dp_SBC | A2dp_AAC

datatype CodecId = CodecId_a2dp A2dpCodec | CodecId_core nat | CodecId_vendor nat nat

datatype A2dpStatus =
    A2dp_OK
  | BAD_LENGTH
  | INVALID_SAMPLING_FREQUENCY | NOT_SUPPORTED_SAMPLING_FREQUENCY
  | INVALID_CHANNEL_MODE | NOT_SUPPORTED_CHANNEL_MODE
  | INVALID_BLOCK_LENGTH
  | INVALID_SUBBANDS | NOT_SUPPORTED_SUBBANDS
  | INVALID_ALLOCATION_METHOD | NOT_SUPPORTED_ALLOCATION_METHOD
  | INVALID_MINIMUM_BITPOOL_VALUE | NOT_SUPPORTED_MINIMUM_BITPOOL_VALUE
  | INVALID_MAXIMUM_BITPOOL_VALUE | NOT_SUPPORTED_MAXIMUM_BITPOOL_VALUE
  | INVALID_OBJECT_TYPE | NOT_SUPPORTED_OBJECT_TYPE
  | INVALID_CHANNELS | NOT_SUPPORTED_CHANNELS
  | NOT_SUPPORTED_VBR | NOT_SUPPORTED_BIT_RATE
  | NOT_SUPPORTED_CODEC_TYPE

section \<open>Codec parameters of the extensible A2DP interface\<close>

record CodecParameters =
  channelMode :: ChannelMode
  samplingFrequencyHz :: int
  bitdepth :: int
  minBitrate :: int
  maxBitrate :: int

text \<open>The A2DP part of a codec's \<open>CodecInfo\<close>.\<close>

record A2dpInfo =
  info_id :: CodecId
  capabilities :: "u8 list"
  samplingFrequencies :: "int list"
  channelModes :: "ChannelMode list"
  bitdepths :: "int list"

section \<open>Audio configurations\<close>

record PcmConfiguration =
  sampleRateHz :: int
  pcm_channelMode :: ChannelMode
  bitsPerSample :: u8
  dataIntervalUs :: int

definition PcmConfiguration_default :: PcmConfiguration where
  "PcmConfiguration_default =
     \<lparr>sampleRateHz = 0, pcm_channelMode = CM_UNKNOWN, bitsPerSample = 0, dataIntervalUs = 0\<rparr>"

datatype CodecType =
    CT_UNKNOWN | CT_SBC | CT_AAC | CT_APTX | CT_APTX_HD | CT_LDAC | CT_LC3 | CT_VENDOR
  | CT_APTX_ADAPTIVE | CT_OPUS | CT_APTX_ADAPTIVE_LE | CT_APTX_ADAPTIVE_LEX

datatype SbcChannelMode =
    SbcCM_UNKNOWN | SbcCM_JOINT_STEREO | SbcCM_STEREO | SbcCM_DUAL | SbcCM_MONO
datatype SbcAllocMethod = ALLOC_MD_S | ALLOC_MD_L
datatype AacObjectType = MPEG2_LC | MPEG4_LC | MPEG4_LTP | MPEG4_SCALABLE
datatype LdacChannelMode = LdacCM_UNKNOWN | LdacCM_STEREO | LdacCM_DUAL | LdacCM_MONO
datatype LdacQualityIndex = LdacQI_HIGH | LdacQI_MID | LdacQI_LOW | LdacQI_ABR

record SbcConfiguration =
  sbc_sampleRateHz :: int
  sbc_channelMode :: SbcChannelMode
  sbc_blockLength :: u8
  sbc_numSubbands :: u8
  sbc_allocMethod :: SbcAllocMethod
  sbc_bitsPerSample :: u8
  sbc_minBitpool :: u8
  sbc_maxBitpool :: u8

record AacConfiguration =
  aac_objectType :: AacObjectType
  aac_sampleRateHz :: int
  aac_channelMode :: ChannelMode
  aac_variableBitRateEnabled :: bool
  aac_bitsPerSample :: u8

record LdacConfiguration =
  ldac_sampleRateHz :: int
  ldac_channelMode :: LdacChannelMode
  ldac_qualityIndex :: LdacQualityIndex
  ldac_bitsPerSample :: u8

record AptxConfiguration =
  aptx_sampleRateHz :: int
  aptx_channelMode :: ChannelMode
  aptx_bitsPerSample :: u8

record OpusConfiguration =
  opus_samplingFrequencyHz :: int
  opus_frameDurationUs :: int
  opus_channelMode :: ChannelMode

datatype CodecSpecific =
    sbcConfig SbcConfiguration
  | aacConfig AacConfiguration
  | ldacConfig LdacConfiguration
  | aptxConfig AptxConfiguration
  | opusConfig "OpusConfiguration option"
  | otherConfig nat

record CodecConfiguration =
  codecType :: CodecType
  encodedAudioBitrate :: int
  peerMtu :: int
  isScmstEnabled :: bool
  codec_config :: CodecSpecific

definition CodecConfiguration_default :: CodecConfiguration where
  "CodecConfiguration_default = \<lparr>codecType = CT_UNKNOWN, encodedAudioBitrate = 0, peerMtu = 0,
     isScmstEnabled = False, codec_config = otherConfig 0\<rparr>"

record A2dpStreamConfiguration =
  a2dp_codecId :: CodecId
  a2dp_configuration :: "u8 list"

text \<open>
  An entry of an LE audio stream map is its channel allocation; a broadcast stream has its
  own codec configuration. A configuration of another codec than LC3 is a number.
\<close>

record Lc3Configuration =
  lc3_pcmBitDepth :: u8
  lc3_samplingFrequencyHz :: int
  lc3_frameDurationUs :: int
  lc3_octetsPerFrame :: int
  lc3_blocksPerSdu :: u8

datatype LeAudioCodecConfiguration = lc3Config Lc3Configuration | otherLeConfig nat

record LeAudioConfiguration =
  le_codecConfig :: LeAudioCodecConfiguration
  le_streamMap :: "u32 list"

record LeAudioBroadcastConfiguration =
  bc_streamMap :: "(LeAudioCodecConfiguration \<times> u32) list"

definition LeAudioConfiguration_default :: LeAudioConfiguration where
  "LeAudioConfiguration_default =
     \<lparr>le_codecConfig = lc3Config \<lparr>lc3_pcmBitDepth = 0, lc3_samplingFrequencyHz = 0,
        lc3_frameDurationUs = 0, lc3_octetsPerFrame = 0, lc3_blocksPerSdu = 0\<rparr>, le_streamMap = []\<rparr>"

definition LeAudioBroadcastConfiguration_default :: LeAudioBroadcastConfiguration where
  "LeAudioBroadcastConfiguration_default = \<lparr>bc_streamMap = []\<rparr>"

datatype HfpConfiguration = HfpConfiguration nat

text \<open>A presentation position: the delay, the octets sent, and when that was.\<close>

record PresentationPosition =
  remoteDeviceAudioDelayNanos :: int
  transmittedOctets :: int
  timestamp_tvSec :: int
  timestamp_tvNSec :: int

datatype AudioConfiguration =
    pcmConfig PcmConfiguration
  | a2dpConfig CodecConfiguration
  | leAudioConfig LeAudioConfiguration
  | leAudioBroadcastConfig LeAudioBroadcastConfiguration
  | hfpConfig HfpConfiguration
  | a2dp A2dpStreamConfiguration

datatype AudioConfigurationTag =
    Tag_pcmConfig | Tag_a2dpConfig | Tag_leAudioConfig | Tag_leAudioBroadcastConfig
  | Tag_hfpConfig | Tag_a2dp

fun getTag :: "AudioConfiguration \<Rightarrow> AudioConfigurationTag" where
  "getTag (pcmConfig _) = Tag_pcmConfig"
| "getTag (a2dpConfig _) = Tag_a2dpConfig"
| "getTag (leAudioConfig _) = Tag_leAudioConfig"
| "getTag (leAudioBroadcastConfig _) = Tag_leAudioBroadcastConfig"
| "getTag (hfpConfig _) = Tag_hfpConfig"
| "getTag (a2dp _) = Tag_a2dp"

lemma getTag_pcm: "getTag c = Tag_pcmConfig \<longleftrightarrow> (\<exists>p. c = pcmConfig p)"
  by (cases c) auto

end
