(* ===== verification/Codec_Sbc.thy ===== *)
theory Codec_Sbc
  imports A2dp_Bits Audio_Types
begin

text \<open>
  The SBC codec of the A2DP offload provider: \<open>A2dpOffloadCodecSbc.cpp\<close> of
  \<open>bluetooth/audio/hal\<close>. A configuration is the 4-byte SBC element of A2DP 4.3.
  \<open>sbc_ParseConfiguration\<close> reads one, \<open>sbc_BuildConfiguration\<close> selects one from the
  capabilities of the remote device and the optional hint. Both compute bit rates by an
  integer division; a zero divisor is \<^term>\<open>None\<close>, and the lemmas show it never happens
  where the code divides.
\<close>

section \<open>Signalling format\<close>

definition sbc_kSamplingFrequency :: Range where "sbc_kSamplingFrequency = Range_between 0 3"
definition sbc_kChannelMode :: Range where "sbc_kChannelMode = Range_between 4 7"
definition sbc_kBlockLength :: Range where "sbc_kBlockLength = Range_between 8 11"
definition sbc_kSubbands :: Range where "sbc_kSubbands = Range_between 12 13"
definition sbc_kAllocationMethod :: Range where "sbc_kAllocationMethod = Range_between 14 15"
definition sbc_kMinimumBitpool :: Range where "sbc_kMinimumBitpool = Range_between 16 23"
definition sbc_kMaximumBitpool :: Range where "sbc_kMaximumBitpool = Range_between 24 31"

lemmas sbc_ranges = sbc_kSamplingFrequency_def sbc_kChannelMode_def sbc_kBlockLength_def
  sbc_kSubbands_def sbc_kAllocationMethod_def sbc_kMinimumBitpool_def sbc_kMaximumBitpool_def
  Range_between_def

abbreviation (input) sbc_kCapabilitiesSize :: nat where "sbc_kCapabilitiesSize \<equiv> 32 div 8"

abbreviation (input) sbc_kSamplingFrequency16000 :: nat where "sbc_kSamplingFrequency16000 \<equiv> 0"
abbreviation (input) sbc_kSamplingFrequency32000 :: nat where "sbc_kSamplingFrequency32000 \<equiv> 1"
abbreviation (input) sbc_kSamplingFrequency44100 :: nat where "sbc_kSamplingFrequency44100 \<equiv> 2"
abbreviation (input) sbc_kSamplingFrequency48000 :: nat where "sbc_kSamplingFrequency48000 \<equiv> 3"
abbreviation (input) sbc_kChannelModeMono :: nat where "sbc_kChannelModeMono \<equiv> 4"
abbreviation (input) sbc_kChannelModeDualChannel :: nat where "sbc_kChannelModeDualChannel \<equiv> 5"
abbreviation (input) sbc_kChannelModeStereo :: nat where "sbc_kChannelModeStereo \<equiv> 6"
abbreviation (input) sbc_kChannelModeJointStereo :: nat where "sbc_kChannelModeJointStereo \<equiv> 7"
abbreviation (input) sbc_kBlockLength4 :: nat where "sbc_kBlockLength4 \<equiv> 8"
abbreviation (input) sbc_kBlockLength8 :: nat where "sbc_kBlockLength8 \<equiv> 9"
abbreviation (input) sbc_kBlockLength12 :: nat where "sbc_kBlockLength12 \<equiv> 10"
abbreviation (input) sbc_kBlockLength16 :: nat where "sbc_kBlockLength16 \<equiv> 11"
abbreviation (input) sbc_kSubbands8 :: nat where "sbc_kSubbands8 \<equiv> 12"
abbreviation (input) sbc_kSubbands4 :: nat where "sbc_kSubbands4 \<equiv> 13"
abbreviation (input) sbc_kAllocationMethodSnr :: nat where "sbc_kAllocationMethodSnr \<equiv> 14"
abbreviation (input) sbc_kAllocationMethodLoudness :: nat where "sbc_kAllocationMethodLoudness \<equiv> 15"

abbreviation (input) sbc_kDefaultMinimumBitpool :: int where "sbc_kDefaultMinimumBitpool \<equiv> 2"
abbreviation (input) sbc_kDefaultMaximumBitpool :: int where "sbc_kDefaultMaximumBitpool \<equiv> 250"
abbreviation (input) sbc_kBitdepth :: int where "sbc_kBitdepth \<equiv> 16"

section \<open>Conversion functions\<close>

definition sbc_GetSamplingFrequencyBit :: "int \<Rightarrow> int" where
  "sbc_GetSamplingFrequencyBit sampling_frequency =
     (if sampling_frequency = 16000 then int sbc_kSamplingFrequency16000
      else if sampling_frequency = 32000 then int sbc_kSamplingFrequency32000
      else if sampling_frequency = 44100 then int sbc_kSamplingFrequency44100
      else if sampling_frequency = 48000 then int sbc_kSamplingFrequency48000
      else - 1)"

definition sbc_GetSamplingFrequencyValue :: "int \<Rightarrow> int" where
  "sbc_GetSamplingFrequencyValue sampling_frequency =
     (if sampling_frequency = int sbc_kSamplingFrequency16000 then 16000
      else if sampling_frequency = int sbc_kSamplingFrequency32000 then 32000
      else if sampling_frequency = int sbc_kSamplingFrequency44100 then 44100
      else if sampling_frequency = int sbc_kSamplingFrequency48000 then 48000
      else 0)"

definition sbc_GetChannelModeBit :: "ChannelMode \<Rightarrow> int" where
  "sbc_GetChannelModeBit m =
     (case m of
        CM_STEREO \<Rightarrow> int (sbc_kChannelModeJointStereo OR sbc_kChannelModeStereo)
      | CM_DUALMONO \<Rightarrow> int sbc_kChannelModeDualChannel
      | CM_MONO \<Rightarrow> int sbc_kChannelModeMono
      | _ \<Rightarrow> - 1)"

definition sbc_GetChannelModeEnum :: "int \<Rightarrow> ChannelMode" where
  "sbc_GetChannelModeEnum m =
     (if m = int sbc_kChannelModeMono then CM_MONO
      else if m = int sbc_kChannelModeDualChannel then CM_DUALMONO
      else if m = int sbc_kChannelModeStereo \<or> m = int sbc_kChannelModeJointStereo then CM_STEREO
      else CM_UNKNOWN)"

definition sbc_GetBlockLengthValue :: "int \<Rightarrow> int" where
  "sbc_GetBlockLengthValue block_length =
     (if block_length = int sbc_kBlockLength4 then 4
      else if block_length = int sbc_kBlockLength8 then 8
      else if block_length = int sbc_kBlockLength12 then 12
      else if block_length = int sbc_kBlockLength16 then 16
      else 0)"

definition sbc_GetSubbandsValue :: "int \<Rightarrow> int" where
  "sbc_GetSubbandsValue subbands =
     (if subbands = int sbc_kSubbands4 then 4
      else if subbands = int sbc_kSubbands8 then 8
      else 0)"

datatype AllocationMethod = SNR | LOUDNESS

definition sbc_GetAllocationMethodEnum :: "int \<Rightarrow> AllocationMethod" where
  "sbc_GetAllocationMethodEnum allocation_method =
     (if allocation_method = int sbc_kAllocationMethodSnr then SNR else LOUDNESS)"

definition sbc_SamplingFrequency_of :: "u8 list \<Rightarrow> int" where
  "sbc_SamplingFrequency_of configuration =
     sbc_GetSamplingFrequencyValue (find_active_bit configuration sbc_kSamplingFrequency)"

definition sbc_BlockLength_of :: "u8 list \<Rightarrow> int" where
  "sbc_BlockLength_of configuration =
     sbc_GetBlockLengthValue (find_active_bit configuration sbc_kBlockLength)"

definition sbc_Subbands_of :: "u8 list \<Rightarrow> int" where
  "sbc_Subbands_of configuration =
     sbc_GetSubbandsValue (find_active_bit configuration sbc_kSubbands)"

section \<open>Bit rates\<close>

abbreviation (input) sbc_kSbcHeaderSize :: int where "sbc_kSbcHeaderSize \<equiv> 4"

definition sbc_GetFrameSize :: "u8 list \<Rightarrow> int \<Rightarrow> int" where
  "sbc_GetFrameSize configuration bitpool =
     (let subbands = sbc_Subbands_of configuration;
          blocks = sbc_BlockLength_of configuration;
          bits = push_bit (of_bool (\<not> bits_get configuration sbc_kChannelModeMono)) (4 * subbands)
            + push_bit (of_bool (bits_get configuration sbc_kChannelModeDualChannel)) (blocks * bitpool)
            + (if bits_get configuration sbc_kChannelModeJointStereo then subbands else 0)
      in sbc_kSbcHeaderSize + drop_bit 3 (bits + 7))"

definition sbc_GetBitrate :: "u8 list \<Rightarrow> int \<Rightarrow> int option" where
  "sbc_GetBitrate configuration bitpool =
     (let sampling_frequency = sbc_SamplingFrequency_of configuration;
          subbands = sbc_Subbands_of configuration;
          blocks = sbc_BlockLength_of configuration;
          bits = 8 * sbc_GetFrameSize configuration bitpool
      in if blocks * subbands = 0 then None
         else Some ((bits * sampling_frequency) div (blocks * subbands)))"

text \<open>The loop \<open>for (int i = 128; i; i >>= 1)\<close> of \<open>GetBitpool\<close>.\<close>

function sbc_GetBitpool_loop :: "u8 list \<Rightarrow> int \<Rightarrow> nat \<Rightarrow> int \<Rightarrow> int option" where
  "sbc_GetBitpool_loop configuration bitrate i bitpool =
     (if i = 0 then Some bitpool
      else case sbc_GetBitrate configuration (bitpool + int i) of
             None \<Rightarrow> None
           | Some r \<Rightarrow> sbc_GetBitpool_loop configuration bitrate (i div 2)
               (if bitrate > r then bitpool + int i else bitpool))"
  by pat_completeness auto
termination
  by (relation "measure (\<lambda>(c, r, i, p). i)") auto

declare sbc_GetBitpool_loop.simps [simp del]

definition sbc_GetBitpool :: "u8 list \<Rightarrow> int \<Rightarrow> u8 option" where
  "sbc_GetBitpool configuration bitrate =
     map_option (\<lambda>bitpool. word_of_int (min (max bitpool 2) 250))
       (sbc_GetBitpool_loop configuration bitrate 128 0)"

section \<open>The local capabilities\<close>

definition sbc_capabilities :: "u8 list" where
  "sbc_capabilities =
     (let c = replicate sbc_kCapabilitiesSize 0;
          c = bits_set c sbc_kSamplingFrequency44100 True;
          c = bits_set c sbc_kSamplingFrequency48000 True;
          c = bits_set c sbc_kChannelModeMono True;
          c = bits_set c sbc_kChannelModeDualChannel True;
          c = bits_set c sbc_kChannelModeStereo True;
          c = bits_set c sbc_kChannelModeJointStereo True;
          c = bits_set c sbc_kBlockLength4 True;
          c = bits_set c sbc_kBlockLength8 True;
          c = bits_set c sbc_kBlockLength12 True;
          c = bits_set c sbc_kBlockLength16 True;
          c = bits_set c sbc_kSubbands4 True;
          c = bits_set c sbc_kSubbands8 True;
          c = bits_set c sbc_kSubbands4 True;
          c = bits_set c sbc_kSubbands8 True;
          c = bits_set c sbc_kAllocationMethodSnr True;
          c = bits_set c sbc_kAllocationMethodLoudness True;
          c = bits_set_range c sbc_kMinimumBitpool sbc_kDefaultMinimumBitpool;
          c = bits_set_range c sbc_kMaximumBitpool sbc_kDefaultMaximumBitpool
      in c)"

definition sbc_info :: A2dpInfo where
  "sbc_info =
     \<lparr>info_id = CodecId_a2dp A2dp_SBC,
      capabilities = sbc_capabilities,
      samplingFrequencies =
        filter (\<lambda>v. bits_get sbc_capabilities (nat (sbc_GetSamplingFrequencyBit v)))
          [16000, 32000, 44100, 48000],
      channelModes =
        filter (\<lambda>v. bits_get sbc_capabilities (nat (sbc_GetChannelModeBit v)))
          [CM_MONO, CM_DUALMONO, CM_STEREO],
      bitdepths = [sbc_kBitdepth]\<rparr>"

section \<open>ParseConfiguration\<close>

record SbcParameters = CodecParameters +
  allocation_method :: AllocationMethod
  block_length :: int
  subbands :: int
  min_bitpool :: int
  max_bitpool :: int

text \<open>
  \<open>Inl s\<close> is a return with the error status \<open>s\<close>, which leaves the output parameters
  alone; \<open>Inr p\<close> is \<open>A2dpStatus::OK\<close> with the parameters written.
\<close>

definition sbc_ParseConfiguration :: "u8 list \<Rightarrow> (A2dpStatus + SbcParameters) option" where
  "sbc_ParseConfiguration configuration =
     (let lcaps = sbc_capabilities;
          sampling_frequency = find_active_bit configuration sbc_kSamplingFrequency;
          channel_mode = find_active_bit configuration sbc_kChannelMode;
          blk = find_active_bit configuration sbc_kBlockLength;
          sb = find_active_bit configuration sbc_kSubbands;
          alloc = find_active_bit configuration sbc_kAllocationMethod;
          min_bp = ucast (bits_get_range configuration sbc_kMinimumBitpool) :: u8;
          max_bp = ucast (bits_get_range configuration sbc_kMaximumBitpool) :: u8
      in
      if length configuration \<noteq> length lcaps then Some (Inl BAD_LENGTH)
      else if sampling_frequency < 0 then Some (Inl INVALID_SAMPLING_FREQUENCY)
      else if \<not> bits_get lcaps (nat sampling_frequency)
      then Some (Inl NOT_SUPPORTED_SAMPLING_FREQUENCY)
      else if channel_mode < 0 then Some (Inl INVALID_CHANNEL_MODE)
      else if \<not> bits_get lcaps (nat channel_mode) then Some (Inl NOT_SUPPORTED_CHANNEL_MODE)
      else if blk < 0 then Some (Inl INVALID_BLOCK_LENGTH)
      else if sb < 0 then Some (Inl INVALID_SUBBANDS)
      else if \<not> bits_get lcaps (nat sb) then Some (Inl NOT_SUPPORTED_SUBBANDS)
      else if alloc < 0 then Some (Inl INVALID_ALLOCATION_METHOD)
      else if \<not> bits_get lcaps (nat alloc) then Some (Inl NOT_SUPPORTED_ALLOCATION_METHOD)
      else if min_bp < 2 \<or> min_bp > 250 then Some (Inl INVALID_MINIMUM_BITPOOL_VALUE)
      else if ucast min_bp < bits_get_range lcaps sbc_kMinimumBitpool
      then Some (Inl NOT_SUPPORTED_MINIMUM_BITPOOL_VALUE)
      else if max_bp < 2 \<or> max_bp > 250 then Some (Inl INVALID_MAXIMUM_BITPOOL_VALUE)
      else if ucast max_bp > bits_get_range lcaps sbc_kMaximumBitpool
      then Some (Inl NOT_SUPPORTED_MAXIMUM_BITPOOL_VALUE)
      else
        case (sbc_GetBitrate configuration (uint min_bp), sbc_GetBitrate configuration (uint max_bp)) of
          (Some minrate, Some maxrate) \<Rightarrow>
            Some (Inr
              \<lparr>channelMode = sbc_GetChannelModeEnum channel_mode,
               samplingFrequencyHz = sbc_GetSamplingFrequencyValue sampling_frequency,
               bitdepth = sbc_kBitdepth,
               minBitrate = minrate,
               maxBitrate = maxrate,
               allocation_method = sbc_GetAllocationMethodEnum alloc,
               block_length = sbc_GetBlockLengthValue blk,
               subbands = sbc_GetSubbandsValue sb,
               min_bitpool = uint min_bp,
               max_bitpool = uint max_bp\<rparr>)
        | _ \<Rightarrow> None)"

section \<open>BuildConfiguration\<close>

text \<open>A capability that both sides have.\<close>

definition both_caps :: "u8 list \<Rightarrow> u8 list \<Rightarrow> nat \<Rightarrow> bool" where
  "both_caps lcaps rcaps b \<longleftrightarrow> bits_get lcaps b \<and> bits_get rcaps b"

definition sbc_select_sampling_frequency ::
  "u8 list \<Rightarrow> u8 list \<Rightarrow> CodecParameters option \<Rightarrow> nat option" where
  "sbc_select_sampling_frequency lcaps rcaps hint =
     (let sf_hint = (case hint of
            Some h \<Rightarrow> sbc_GetSamplingFrequencyBit (samplingFrequencyHz h) | None \<Rightarrow> - 1) in
      if sf_hint \<ge> 0 \<and> both_caps lcaps rcaps (nat sf_hint) then Some (nat sf_hint)
      else if both_caps lcaps rcaps sbc_kSamplingFrequency44100
      then Some sbc_kSamplingFrequency44100
      else if both_caps lcaps rcaps sbc_kSamplingFrequency48000
      then Some sbc_kSamplingFrequency48000
      else None)"

definition sbc_select_channel_mode ::
  "u8 list \<Rightarrow> u8 list \<Rightarrow> CodecParameters option \<Rightarrow> nat option" where
  "sbc_select_channel_mode lcaps rcaps hint =
     (let cm_hint = (case hint of
            Some h \<Rightarrow> sbc_GetChannelModeBit (channelMode h) | None \<Rightarrow> - 1) in
      if cm_hint \<ge> 0 \<and> both_caps lcaps rcaps (nat cm_hint) then Some (nat cm_hint)
      else if both_caps lcaps rcaps sbc_kChannelModeJointStereo
      then Some sbc_kChannelModeJointStereo
      else if both_caps lcaps rcaps sbc_kChannelModeStereo then Some sbc_kChannelModeStereo
      else if both_caps lcaps rcaps sbc_kChannelModeDualChannel
      then Some sbc_kChannelModeDualChannel
      else if both_caps lcaps rcaps sbc_kChannelModeMono then Some sbc_kChannelModeMono
      else None)"

definition sbc_select_block_length :: "u8 list \<Rightarrow> u8 list \<Rightarrow> nat option" where
  "sbc_select_block_length lcaps rcaps =
     (if both_caps lcaps rcaps sbc_kBlockLength16 then Some sbc_kBlockLength16
      else if both_caps lcaps rcaps sbc_kBlockLength12 then Some sbc_kBlockLength12
      else if both_caps lcaps rcaps sbc_kBlockLength8 then Some sbc_kBlockLength8
      else if both_caps lcaps rcaps sbc_kBlockLength4 then Some sbc_kBlockLength4
      else None)"

definition sbc_select_subbands :: "u8 list \<Rightarrow> u8 list \<Rightarrow> nat option" where
  "sbc_select_subbands lcaps rcaps =
     (if both_caps lcaps rcaps sbc_kSubbands8 then Some sbc_kSubbands8
      else if both_caps lcaps rcaps sbc_kSubbands4 then Some sbc_kSubbands4
      else None)"

definition sbc_select_allocation_method :: "u8 list \<Rightarrow> u8 list \<Rightarrow> nat option" where
  "sbc_select_allocation_method lcaps rcaps =
     (if both_caps lcaps rcaps sbc_kAllocationMethodLoudness
      then Some sbc_kAllocationMethodLoudness
      else if both_caps lcaps rcaps sbc_kAllocationMethodSnr then Some sbc_kAllocationMethodSnr
      else None)"

text \<open>
  The bitpool bounds, before the hint: both limits are raised to at least the local ones
  (\<open>std::max\<close> in both statements of the source).
\<close>

definition sbc_base_bitpools :: "u8 list \<Rightarrow> u8 list \<Rightarrow> u8 \<times> u8" where
  "sbc_base_bitpools lcaps rcaps =
     (let mn = ucast (bits_get_range rcaps sbc_kMinimumBitpool) :: u8;
          mx = ucast (bits_get_range rcaps sbc_kMaximumBitpool) :: u8;
          (mn, mx) = (if mn < 2 \<or> mn > 250 \<or> mx < 2 \<or> mx > 250 \<or> mn > mx
                      then (2, 250) else (mn, mx))
      in (max mn (ucast (bits_get_range lcaps sbc_kMinimumBitpool)),
          max mx (ucast (bits_get_range lcaps sbc_kMaximumBitpool))))"

definition sbc_hint_bitpools ::
  "u8 list \<Rightarrow> CodecParameters option \<Rightarrow> u8 \<times> u8 \<Rightarrow> (u8 \<times> u8) option" where
  "sbc_hint_bitpools config hint bitpools =
     (case hint of
        None \<Rightarrow> Some bitpools
      | Some h \<Rightarrow>
          (case sbc_GetBitpool config (minBitrate h) of
             None \<Rightarrow> None
           | Some hmin \<Rightarrow>
               (if maxBitrate h \<noteq> 0 \<and> maxBitrate h \<ge> minBitrate h
                then (case sbc_GetBitpool config (maxBitrate h) of
                        None \<Rightarrow> None
                      | Some hmax \<Rightarrow> Some (max (fst bitpools) hmin, min (snd bitpools) hmax))
                else Some (max (fst bitpools) hmin, snd bitpools))))"

text \<open>
  \<open>Some None\<close> is a return of \<open>false\<close>, \<open>Some (Some c)\<close> a return of \<open>true\<close> with the
  configuration \<open>c\<close> written; \<open>None\<close> is a division by zero.
\<close>

definition sbc_BuildConfiguration ::
  "u8 list \<Rightarrow> CodecParameters option \<Rightarrow> u8 list option option" where
  "sbc_BuildConfiguration remote_capabilities hint =
     (let lcaps = sbc_capabilities; rcaps = remote_capabilities in
      if length rcaps \<noteq> length lcaps then Some None
      else let config = replicate (length lcaps) 0 in
      case sbc_select_sampling_frequency lcaps rcaps hint of None \<Rightarrow> Some None | Some sf \<Rightarrow>
      let config = bits_set config sf True in
      case sbc_select_channel_mode lcaps rcaps hint of None \<Rightarrow> Some None | Some cm \<Rightarrow>
      let config = bits_set config cm True in
      case sbc_select_block_length lcaps rcaps of None \<Rightarrow> Some None | Some bl \<Rightarrow>
      let config = bits_set config bl True in
      case sbc_select_subbands lcaps rcaps of None \<Rightarrow> Some None | Some sb \<Rightarrow>
      let config = bits_set config sb True in
      case sbc_select_allocation_method lcaps rcaps of None \<Rightarrow> Some None | Some am \<Rightarrow>
      let config = bits_set config am True in
      case sbc_hint_bitpools config hint (sbc_base_bitpools lcaps rcaps) of
        None \<Rightarrow> None
      | Some (mn, mx) \<Rightarrow>
          let config = bits_set_range config sbc_kMinimumBitpool (uint mn);
              config = bits_set_range config sbc_kMaximumBitpool (uint mx)
          in Some (Some config))"

section \<open>The local capabilities, computed\<close>

lemma sbc_capabilities_eq: "sbc_capabilities = [0x3f, 0xff, 0x02, 0xfa]"
  by code_simp

lemma length_sbc_capabilities [simp]: "length sbc_capabilities = 4"
  by (simp add: sbc_capabilities_eq)

lemma sbc_capabilities_min [simp]: "bits_get_range sbc_capabilities sbc_kMinimumBitpool = 2"
  by code_simp

lemma sbc_capabilities_max [simp]: "bits_get_range sbc_capabilities sbc_kMaximumBitpool = 250"
  by code_simp

section \<open>Bit rates are defined\<close>

lemma sbc_rlen_le [simp]:
  "rlen sbc_kSamplingFrequency \<le> 32" "rlen sbc_kChannelMode \<le> 32" "rlen sbc_kBlockLength \<le> 32"
  "rlen sbc_kSubbands \<le> 32" "rlen sbc_kAllocationMethod \<le> 32"
  by (simp_all add: sbc_ranges)

lemma sbc_range_bits:
  "range_bits sbc_kSamplingFrequency = {0, 1, 2, 3}"
  "range_bits sbc_kChannelMode = {4, 5, 6, 7}"
  "range_bits sbc_kBlockLength = {8, 9, 10, 11}"
  "range_bits sbc_kSubbands = {12, 13}"
  "range_bits sbc_kAllocationMethod = {14, 15}"
  "range_bits sbc_kMinimumBitpool = {16..<24}"
  "range_bits sbc_kMaximumBitpool = {24..<32}"
  by (auto simp: range_bits_def sbc_ranges)

lemma sbc_BlockLength_of_pos:
  assumes "0 \<le> find_active_bit c sbc_kBlockLength"
  shows "sbc_BlockLength_of c \<in> {4, 8, 12, 16}"
  by (rule find_active_bit_nonneg [OF _ assms])
    (auto simp: sbc_BlockLength_of_def sbc_GetBlockLengthValue_def sbc_range_bits)

lemma sbc_Subbands_of_pos:
  assumes "0 \<le> find_active_bit c sbc_kSubbands"
  shows "sbc_Subbands_of c \<in> {4, 8}"
  by (rule find_active_bit_nonneg [OF _ assms])
    (auto simp: sbc_Subbands_of_def sbc_GetSubbandsValue_def sbc_range_bits)

lemma sbc_SamplingFrequency_of_pos:
  assumes "0 \<le> find_active_bit c sbc_kSamplingFrequency"
  shows "sbc_SamplingFrequency_of c \<in> {16000, 32000, 44100, 48000}"
  by (rule find_active_bit_nonneg [OF _ assms])
    (auto simp: sbc_SamplingFrequency_of_def sbc_GetSamplingFrequencyValue_def sbc_range_bits)

lemma sbc_GetBitrate_defined:
  assumes "0 \<le> find_active_bit c sbc_kBlockLength" "0 \<le> find_active_bit c sbc_kSubbands"
  shows "\<exists>r. sbc_GetBitrate c bitpool = Some r"
  using sbc_BlockLength_of_pos [OF assms(1)] sbc_Subbands_of_pos [OF assms(2)]
  by (auto simp: sbc_GetBitrate_def Let_def)

lemma sbc_GetBitpool_loop_defined:
  assumes "0 \<le> find_active_bit c sbc_kBlockLength" "0 \<le> find_active_bit c sbc_kSubbands"
  shows "\<exists>p. sbc_GetBitpool_loop c bitrate i bitpool = Some p"
proof (induction i arbitrary: bitpool rule: less_induct)
  case (less i)
  obtain r where "sbc_GetBitrate c (bitpool + int i) = Some r"
    using sbc_GetBitrate_defined [OF assms] by blast
  with less show ?case by (subst sbc_GetBitpool_loop.simps) auto
qed

text \<open>Every intermediate value of the bit-rate computation fits a 32-bit \<open>int\<close>.\<close>

lemma sbc_GetFrameSize_bounds:
  assumes "sbc_BlockLength_of c \<in> {4, 8, 12, 16}" "sbc_Subbands_of c \<in> {4, 8}"
    "0 \<le> bitpool" "bitpool \<le> 255"
  shows "4 \<le> sbc_GetFrameSize c bitpool \<and> sbc_GetFrameSize c bitpool \<le> 1033"
  using assms
  by (cases "bits_get c sbc_kChannelModeDualChannel"; cases "bits_get c sbc_kChannelModeMono")
    (auto simp: sbc_GetFrameSize_def Let_def push_bit_eq_mult drop_bit_eq_div)

lemma sbc_GetBitrate_mono:
  assumes "sbc_GetBitrate c p = Some r" "sbc_GetBitrate c q = Some t" "p \<le> q"
    "sbc_BlockLength_of c \<in> {4, 8, 12, 16}" "sbc_Subbands_of c \<in> {4, 8}"
    "sbc_SamplingFrequency_of c \<ge> 0"
  shows "r \<le> t"
proof -
  have "sbc_GetFrameSize c p \<le> sbc_GetFrameSize c q"
    using assms(3-5)
    by (cases "bits_get c sbc_kChannelModeDualChannel")
      (auto simp: sbc_GetFrameSize_def Let_def push_bit_eq_mult drop_bit_eq_div
        intro!: zdiv_mono1)
  then have "8 * sbc_GetFrameSize c p * sbc_SamplingFrequency_of c
      \<le> 8 * sbc_GetFrameSize c q * sbc_SamplingFrequency_of c"
    using assms(6) by (intro mult_right_mono) auto
  moreover have "0 < sbc_BlockLength_of c * sbc_Subbands_of c"
    using assms(4,5) by auto
  ultimately show ?thesis
    using assms(1,2)
    by (auto simp: sbc_GetBitrate_def Let_def intro!: zdiv_mono1 split: if_splits)
qed

text \<open>
  The loop of \<open>GetBitpool\<close> is a binary search: started with the step \<open>2 ^ k\<close> it returns
  the last value of its window whose rate is below the wanted one.
\<close>

lemma sbc_GetBitpool_loop_search:
  assumes rate: "\<And>p. sbc_GetBitrate c p = Some (f p)"
    and mono: "\<And>p q. p \<le> q \<Longrightarrow> f p \<le> f q"
  shows "\<exists>r. sbc_GetBitpool_loop c bitrate (2 ^ k) b = Some r
     \<and> b \<le> r \<and> r < b + 2 ^ Suc k
     \<and> (\<forall>p. b < p \<and> p \<le> r \<longrightarrow> f p < bitrate)
     \<and> (\<forall>p. r < p \<and> p < b + 2 ^ Suc k \<longrightarrow> bitrate \<le> f p)"
proof (induction k arbitrary: b)
  case 0
  have "sbc_GetBitpool_loop c bitrate 1 b = Some (if f (b + 1) < bitrate then b + 1 else b)"
    by (subst sbc_GetBitpool_loop.simps, subst sbc_GetBitpool_loop.simps) (simp add: rate)
  moreover have "b < p \<Longrightarrow> p \<le> b + 1 \<Longrightarrow> p = b + 1" "b < p \<Longrightarrow> p < b + 2 \<Longrightarrow> p = b + 1" for p
    by linarith+
  ultimately show ?case by (cases "f (b + 1) < bitrate") fastforce+
next
  case (Suc k)
  define b' where "b' = (if f (b + 2 ^ Suc k) < bitrate then b + 2 ^ Suc k else b)"
  have step: "sbc_GetBitpool_loop c bitrate (2 ^ Suc k) b = sbc_GetBitpool_loop c bitrate (2 ^ k) b'"
    by (subst sbc_GetBitpool_loop.simps) (simp add: rate b'_def)
  from Suc.IH [of b'] obtain r where r: "sbc_GetBitpool_loop c bitrate (2 ^ k) b' = Some r"
    "b' \<le> r" "r < b' + 2 ^ Suc k"
    "\<forall>p. b' < p \<and> p \<le> r \<longrightarrow> f p < bitrate"
    "\<forall>p. r < p \<and> p < b' + 2 ^ Suc k \<longrightarrow> bitrate \<le> f p" by blast
  have low: "f p < bitrate" if "b < p" "p \<le> r" for p
  proof (cases "p \<le> b'")
    case True
    with that have "f p \<le> f (b + 2 ^ Suc k)" "f (b + 2 ^ Suc k) < bitrate"
      by (auto simp: b'_def intro!: mono split: if_splits)
    then show ?thesis by simp
  next
    case False
    with r(4) that show ?thesis by auto
  qed
  have high: "bitrate \<le> f p" if "r < p" "p < b + 2 ^ Suc (Suc k)" for p
  proof (cases "p < b' + 2 ^ Suc k")
    case True
    with r(5) that show ?thesis by auto
  next
    case False
    with that have "b' = b" by (auto simp: b'_def split: if_splits)
    with False have "bitrate \<le> f (b + 2 ^ Suc k)" "f (b + 2 ^ Suc k) \<le> f p"
      by (auto simp: b'_def intro!: mono split: if_splits)
    then show ?thesis by simp
  qed
  have "b \<le> r" "r < b + 2 ^ Suc (Suc k)"
    using r(2,3) by (auto simp: b'_def split: if_splits)
  with low high r(1) show ?case unfolding step by blast
qed

section \<open>The configuration that is built\<close>

definition sbc_selected :: "nat \<Rightarrow> nat \<Rightarrow> nat \<Rightarrow> nat \<Rightarrow> nat \<Rightarrow> u8 list" where
  "sbc_selected sf cm bl sb am =
     bits_set (bits_set (bits_set (bits_set (bits_set (replicate 4 0) sf True) cm True) bl True)
       sb True) am True"

lemma length_sbc_selected [simp]: "length (sbc_selected sf cm bl sb am) = 4"
  by (simp add: sbc_selected_def)

lemma sbc_select_sampling_frequency_Some:
  "sbc_select_sampling_frequency l r h = Some sf \<Longrightarrow>
     sf \<in> range_bits sbc_kSamplingFrequency \<and> both_caps l r sf"
  by (auto simp: sbc_select_sampling_frequency_def Let_def sbc_range_bits
      sbc_GetSamplingFrequencyBit_def split: option.splits if_splits)

lemma sbc_joint_or_stereo: "(sbc_kChannelModeJointStereo OR sbc_kChannelModeStereo) = sbc_kChannelModeJointStereo"
  by code_simp

lemma sbc_select_channel_mode_Some:
  "sbc_select_channel_mode l r h = Some cm \<Longrightarrow>
     cm \<in> range_bits sbc_kChannelMode \<and> both_caps l r cm"
  by (auto simp: sbc_select_channel_mode_def Let_def sbc_range_bits sbc_joint_or_stereo
      sbc_GetChannelModeBit_def split: option.splits if_splits ChannelMode.splits)

lemma sbc_select_block_length_Some:
  "sbc_select_block_length l r = Some bl \<Longrightarrow>
     bl \<in> range_bits sbc_kBlockLength \<and> both_caps l r bl"
  by (auto simp: sbc_select_block_length_def sbc_range_bits split: if_splits)

lemma sbc_select_subbands_Some:
  "sbc_select_subbands l r = Some sb \<Longrightarrow> sb \<in> range_bits sbc_kSubbands \<and> both_caps l r sb"
  by (auto simp: sbc_select_subbands_def sbc_range_bits split: if_splits)

lemma sbc_select_allocation_method_Some:
  "sbc_select_allocation_method l r = Some am \<Longrightarrow>
     am \<in> range_bits sbc_kAllocationMethod \<and> both_caps l r am"
  by (auto simp: sbc_select_allocation_method_def sbc_range_bits split: if_splits)

lemmas sbc_select_Some = sbc_select_sampling_frequency_Some sbc_select_channel_mode_Some
  sbc_select_block_length_Some sbc_select_subbands_Some sbc_select_allocation_method_Some

lemma bits_get_sbc_selected:
  assumes "{sf, cm, bl, sb, am} \<subseteq> {..<32}" "b < 32"
  shows "bits_get (sbc_selected sf cm bl sb am) b = (b \<in> {sf, cm, bl, sb, am})"
  using assms by (simp add: sbc_selected_def bits_simps)

text \<open>What is known of a selection: one bit of each of the five ranges.\<close>

definition sbc_selection :: "nat \<Rightarrow> nat \<Rightarrow> nat \<Rightarrow> nat \<Rightarrow> nat \<Rightarrow> bool" where
  "sbc_selection sf cm bl sb am \<longleftrightarrow>
     sf \<in> range_bits sbc_kSamplingFrequency \<and> cm \<in> range_bits sbc_kChannelMode \<and>
     bl \<in> range_bits sbc_kBlockLength \<and> sb \<in> range_bits sbc_kSubbands \<and>
     am \<in> range_bits sbc_kAllocationMethod"

lemma sbc_range_bits_iff:
  "j \<in> range_bits sbc_kSamplingFrequency \<longleftrightarrow> j < 4"
  "j \<in> range_bits sbc_kChannelMode \<longleftrightarrow> 4 \<le> j \<and> j < 8"
  "j \<in> range_bits sbc_kBlockLength \<longleftrightarrow> 8 \<le> j \<and> j < 12"
  "j \<in> range_bits sbc_kSubbands \<longleftrightarrow> 12 \<le> j \<and> j < 14"
  "j \<in> range_bits sbc_kAllocationMethod \<longleftrightarrow> 14 \<le> j \<and> j < 16"
  "j \<in> range_bits sbc_kMinimumBitpool \<longleftrightarrow> 16 \<le> j \<and> j < 24"
  "j \<in> range_bits sbc_kMaximumBitpool \<longleftrightarrow> 24 \<le> j \<and> j < 32"
  by (simp_all add: range_bits_def sbc_ranges)

lemma sbc_selection_bounds:
  "sbc_selection sf cm bl sb am \<Longrightarrow>
     sf < 4 \<and> 4 \<le> cm \<and> cm < 8 \<and> 8 \<le> bl \<and> bl < 12 \<and> 12 \<le> sb \<and> sb < 14 \<and> 14 \<le> am \<and> am < 16"
  by (simp add: sbc_selection_def sbc_range_bits_iff)

lemma sbc_active_bits:
  assumes sel: "sbc_selection sf cm bl sb am"
    and c: "\<And>b. b < 16 \<Longrightarrow> bits_get c b = (b \<in> {sf, cm, bl, sb, am})"
  shows "find_active_bit c sbc_kSamplingFrequency = int sf"
    "find_active_bit c sbc_kChannelMode = int cm"
    "find_active_bit c sbc_kBlockLength = int bl"
    "find_active_bit c sbc_kSubbands = int sb"
    "find_active_bit c sbc_kAllocationMethod = int am"
proof -
  note b = sbc_selection_bounds [OF sel]
  have c': "bits_get c b \<Longrightarrow> b < 16 \<Longrightarrow> b = sf \<or> b = cm \<or> b = bl \<or> b = sb \<or> b = am" for b
    using c by simp
  show "find_active_bit c sbc_kSamplingFrequency = int sf"
    by (rule find_active_bitI) (use b in \<open>auto simp: sbc_range_bits_iff c dest: c'\<close>)
  show "find_active_bit c sbc_kChannelMode = int cm"
    by (rule find_active_bitI) (use b in \<open>auto simp: sbc_range_bits_iff c dest: c'\<close>)
  show "find_active_bit c sbc_kBlockLength = int bl"
    by (rule find_active_bitI) (use b in \<open>auto simp: sbc_range_bits_iff c dest: c'\<close>)
  show "find_active_bit c sbc_kSubbands = int sb"
    by (rule find_active_bitI) (use b in \<open>auto simp: sbc_range_bits_iff c dest: c'\<close>)
  show "find_active_bit c sbc_kAllocationMethod = int am"
    by (rule find_active_bitI) (use b in \<open>auto simp: sbc_range_bits_iff c dest: c'\<close>)
qed

lemma sbc_active_bits_selected:
  assumes "sbc_selection sf cm bl sb am"
  shows "0 \<le> find_active_bit (sbc_selected sf cm bl sb am) sbc_kBlockLength"
    "0 \<le> find_active_bit (sbc_selected sf cm bl sb am) sbc_kSubbands"
  using sbc_active_bits [OF assms, of "sbc_selected sf cm bl sb am"] sbc_selection_bounds [OF assms]
  by (simp_all add: bits_get_sbc_selected)

section \<open>The bitpools that are built\<close>

definition bitpool_ok :: "u8 \<Rightarrow> bool" where
  "bitpool_ok p \<longleftrightarrow> 2 \<le> p \<and> p \<le> 250"

lemma bitpool_ok_max: "bitpool_ok p \<Longrightarrow> bitpool_ok q \<Longrightarrow> bitpool_ok (max p q)"
  by (auto simp: bitpool_ok_def max_def)

lemma bitpool_ok_min: "bitpool_ok p \<Longrightarrow> bitpool_ok q \<Longrightarrow> bitpool_ok (min p q)"
  by (auto simp: bitpool_ok_def min_def)

lemma ucast_u8_u32 [simp]: "ucast (ucast p :: u32) = (p :: u8)"
  by (rule bit_word_eqI) (simp add: bit_ucast_iff)

lemma unat_ucast_u8_u32 [simp]: "unat (ucast p :: u32) = unat (p :: u8)"
proof -
  have "unat p < 2 ^ 8" using unsigned_less [of p] by simp
  then show ?thesis by (simp add: unsigned_ucast_eq take_bit_nat_eq_self)
qed

lemma bitpool_ok_bounds:
  assumes "bitpool_ok p"
  shows "\<not> p < 2" "\<not> 250 < p" "\<not> (ucast p :: u32) < 2" "\<not> 250 < (ucast p :: u32)"
  using assms by (auto simp: bitpool_ok_def not_less word_le_nat_alt)

lemma sbc_base_bitpools_ok:
  "sbc_base_bitpools sbc_capabilities r = (mn, mx) \<Longrightarrow> bitpool_ok mn \<and> mx = 250"
proof -
  have le: "max p 250 = 250" if "p \<le> 250" for p :: u8 using that by (simp add: max_def)
  show "sbc_base_bitpools sbc_capabilities r = (mn, mx) \<Longrightarrow> bitpool_ok mn \<and> mx = 250"
    by (auto simp: sbc_base_bitpools_def Let_def bitpool_ok_def le not_less max_def
        split: if_splits)
qed

lemma sbc_GetBitpool_ok: "sbc_GetBitpool c r = Some p \<Longrightarrow> bitpool_ok p"
proof -
  have "bitpool_ok (word_of_int (min (max b 2) 250))" for b :: int
  proof -
    have "uint (word_of_int (min (max b 2) 250) :: u8) = min (max b 2) 250"
      by (simp add: uint_word_of_int)
    then show ?thesis by (simp add: bitpool_ok_def word_le_def)
  qed
  then show "sbc_GetBitpool c r = Some p \<Longrightarrow> bitpool_ok p"
    by (auto simp: sbc_GetBitpool_def)
qed

lemma sbc_hint_bitpools_ok:
  assumes "sbc_hint_bitpools c h (mn, mx) = Some (mn', mx')" "bitpool_ok mn" "bitpool_ok mx"
  shows "bitpool_ok mn' \<and> bitpool_ok mx'"
  using assms
  by (auto simp: sbc_hint_bitpools_def bitpool_ok_max bitpool_ok_min dest!: sbc_GetBitpool_ok
      split: option.splits if_splits)

section \<open>What building and parsing guarantee\<close>

lemma sbc_BuildConfiguration_Some:
  assumes "sbc_BuildConfiguration r h = Some (Some c)"
  obtains sf cm bl sb am mn mx where
    "length r = 4"
    "sbc_select_sampling_frequency sbc_capabilities r h = Some sf"
    "sbc_select_channel_mode sbc_capabilities r h = Some cm"
    "sbc_select_block_length sbc_capabilities r = Some bl"
    "sbc_select_subbands sbc_capabilities r = Some sb"
    "sbc_select_allocation_method sbc_capabilities r = Some am"
    "sbc_hint_bitpools (sbc_selected sf cm bl sb am) h (sbc_base_bitpools sbc_capabilities r)
       = Some (mn, mx)"
    "c = bits_set_range (bits_set_range (sbc_selected sf cm bl sb am) sbc_kMinimumBitpool (uint mn))
           sbc_kMaximumBitpool (uint mx)"
  using assms
  by (auto simp: sbc_BuildConfiguration_def Let_def sbc_selected_def
      split: if_splits option.splits)

lemma sbc_select_selection:
  assumes "sbc_select_sampling_frequency l r h = Some sf"
    "sbc_select_channel_mode l r h = Some cm"
    "sbc_select_block_length l r = Some bl"
    "sbc_select_subbands l r = Some sb"
    "sbc_select_allocation_method l r = Some am"
  shows "sbc_selection sf cm bl sb am"
    "\<And>b. b \<in> {sf, cm, bl, sb, am} \<Longrightarrow> both_caps l r b"
  using assms by (auto simp: sbc_selection_def dest: sbc_select_Some)

lemma bits_get_built:
  fixes mn mx :: u8
  assumes "sbc_selection sf cm bl sb am"
  defines "c \<equiv> bits_set_range (bits_set_range (sbc_selected sf cm bl sb am) sbc_kMinimumBitpool (uint mn))
           sbc_kMaximumBitpool (uint mx)"
  shows "\<And>b. b < 16 \<Longrightarrow> bits_get c b = (b \<in> {sf, cm, bl, sb, am})"
    "bits_get_range c sbc_kMinimumBitpool = ucast mn"
    "bits_get_range c sbc_kMaximumBitpool = ucast mx"
    "length c = 4"
proof -
  note b = sbc_selection_bounds [OF assms(1)]
  show "length c = 4" by (simp add: c_def)
  show "bits_get c b = (b \<in> {sf, cm, bl, sb, am})" if "b < 16" for b
    using that b
    by (simp add: c_def bits_get_bits_set_range sbc_range_bits_iff bits_get_sbc_selected
        sbc_kMinimumBitpool_def sbc_kMaximumBitpool_def Range_between_def range_bits_def)
  have take: "word_of_int (take_bit 8 (uint w)) = (ucast w :: u32)" for w :: u8
    by (rule bit_word_eqI)
      (auto simp: bit_word_of_int_iff bit_take_bit_iff bit_ucast_iff bit_uint_iff
        dest: bit_imp_le_length)
  have "bits_get_range c sbc_kMinimumBitpool
      = bits_get_range (bits_set_range (sbc_selected sf cm bl sb am) sbc_kMinimumBitpool (uint mn))
          sbc_kMinimumBitpool"
    by (rule bits_get_range_cong)
      (auto simp: c_def bits_get_bits_set_range sbc_ranges range_bits_def)
  also have "\<dots> = ucast mn"
    by (subst bits_get_range_set_range) (auto simp: sbc_ranges take)
  finally show "bits_get_range c sbc_kMinimumBitpool = ucast mn" .
  show "bits_get_range c sbc_kMaximumBitpool = ucast mx"
    unfolding c_def by (subst bits_get_range_set_range) (auto simp: sbc_ranges take)
qed

lemma sbc_no_div:
  "sbc_ParseConfiguration configuration \<noteq> None \<and> sbc_BuildConfiguration remote hint \<noteq> None"
proof
  show "sbc_ParseConfiguration configuration \<noteq> None"
  proof (cases "find_active_bit configuration sbc_kBlockLength < 0
      \<or> find_active_bit configuration sbc_kSubbands < 0")
    case True
    then show ?thesis by (auto simp: sbc_ParseConfiguration_def Let_def)
  next
    case False
    then have "\<exists>r. sbc_GetBitrate configuration p = Some r" for p
      by (intro sbc_GetBitrate_defined) auto
    then obtain f where "\<And>p. sbc_GetBitrate configuration p = Some (f p)" by metis
    then show ?thesis by (simp add: sbc_ParseConfiguration_def Let_def)
  qed
  show "sbc_BuildConfiguration remote hint \<noteq> None"
  proof
    assume "sbc_BuildConfiguration remote hint = None"
    then obtain sf cm bl sb am bp where sel:
      "sbc_select_sampling_frequency sbc_capabilities remote hint = Some sf"
      "sbc_select_channel_mode sbc_capabilities remote hint = Some cm"
      "sbc_select_block_length sbc_capabilities remote = Some bl"
      "sbc_select_subbands sbc_capabilities remote = Some sb"
      "sbc_select_allocation_method sbc_capabilities remote = Some am"
      and none: "sbc_hint_bitpools (sbc_selected sf cm bl sb am) hint bp = None"
      by (auto simp: sbc_BuildConfiguration_def Let_def sbc_selected_def
          split: if_splits option.splits)
    have "\<exists>p. sbc_GetBitpool (sbc_selected sf cm bl sb am) rate = Some p" for rate
      using sbc_GetBitpool_loop_defined [OF sbc_active_bits_selected [OF sbc_select_selection(1) [OF sel]]]
      by (auto simp: sbc_GetBitpool_def)
    then obtain g where "\<And>rate. sbc_GetBitpool (sbc_selected sf cm bl sb am) rate = Some (g rate)"
      by metis
    with none show False by (auto simp: sbc_hint_bitpools_def split: option.splits if_splits)
  qed
qed

text \<open>
  The division in \<open>GetBitrate\<close> never has a zero divisor: parsing any byte vector and
  building from any remote capabilities and hint always return.
\<close>

theorem sbc_no_division_by_zero:
  "sbc_ParseConfiguration configuration \<noteq> None \<and> sbc_BuildConfiguration remote hint \<noteq> None"
  by (rule sbc_no_div)

lemma sbc_built_parses:
  assumes "sbc_BuildConfiguration remote hint = Some (Some configuration)"
  shows "(\<exists>p. sbc_ParseConfiguration configuration = Some (Inr p))
     \<and> (\<forall>b < 16. bits_get configuration b \<longrightarrow> bits_get sbc_capabilities b \<and> bits_get remote b)"
proof -
  from assms obtain sf cm bl sb am mn mx where sel:
    "sbc_select_sampling_frequency sbc_capabilities remote hint = Some sf"
    "sbc_select_channel_mode sbc_capabilities remote hint = Some cm"
    "sbc_select_block_length sbc_capabilities remote = Some bl"
    "sbc_select_subbands sbc_capabilities remote = Some sb"
    "sbc_select_allocation_method sbc_capabilities remote = Some am"
    and bp: "sbc_hint_bitpools (sbc_selected sf cm bl sb am) hint
        (sbc_base_bitpools sbc_capabilities remote) = Some (mn, mx)"
    and c: "configuration = bits_set_range (bits_set_range (sbc_selected sf cm bl sb am)
        sbc_kMinimumBitpool (uint mn)) sbc_kMaximumBitpool (uint mx)"
    by (rule sbc_BuildConfiguration_Some)
  note s = sbc_select_selection(1) [OF sel] and caps = sbc_select_selection(2) [OF sel]
  note built = bits_get_built [OF s, where mn = mn and mx = mx, folded c]
  note act = sbc_active_bits [OF s built(1)]
  obtain bmn bmx where base: "sbc_base_bitpools sbc_capabilities remote = (bmn, bmx)" by fastforce
  have ok: "bitpool_ok mn" "bitpool_ok mx"
    using sbc_hint_bitpools_ok [OF bp [unfolded base]] sbc_base_bitpools_ok [OF base]
    by (auto simp: bitpool_ok_def)
  have "\<exists>r. sbc_GetBitrate configuration p = Some r" for p
    by (rule sbc_GetBitrate_defined) (simp_all add: act)
  then obtain f where f: "\<And>p. sbc_GetBitrate configuration p = Some (f p)" by metis
  have caps': "bits_get sbc_capabilities b" if "b \<in> {sf, cm, bl, sb, am}" for b
    using caps [OF that] by (simp add: both_caps_def)
  have "\<exists>p. sbc_ParseConfiguration configuration = Some (Inr p)"
    using bitpool_ok_bounds [OF ok(1)] bitpool_ok_bounds [OF ok(2)]
    by (simp add: sbc_ParseConfiguration_def Let_def act built f caps')
  moreover have "\<forall>b < 16. bits_get configuration b \<longrightarrow> bits_get sbc_capabilities b \<and> bits_get remote b"
    using built(1) caps by (auto simp: both_caps_def)
  ultimately show ?thesis ..
qed

text \<open>
  C11: A configuration that \<open>BuildConfiguration\<close> returns is one that \<open>ParseConfiguration\<close>
  accepts (the assertion of \<open>A2dpOffloadCodecFactory::GetConfiguration\<close>), and each
  coding option it selects is a capability of both sides.
\<close>

theorem sbc_build_then_parse:
  assumes "sbc_BuildConfiguration remote hint = Some (Some configuration)"
  shows "(\<exists>p. sbc_ParseConfiguration configuration = Some (Inr p))
     \<and> (\<forall>b < 16. bits_get configuration b \<longrightarrow> bits_get sbc_capabilities b \<and> bits_get remote b)"
  using assms by (rule sbc_built_parses)

theorem sbc_build_then_parse_witness:
  "sbc_BuildConfiguration [0x3f, 0xff, 0x02, 0x35] None = Some (Some [0x21, 0x19, 0x02, 0xfa])
     \<and> (\<exists>p. sbc_ParseConfiguration [0x21, 0x19, 0x02, 0xfa] = Some (Inr p))"
proof -
  have h: "sbc_BuildConfiguration [0x3f, 0xff, 0x02, 0x35] None = Some (Some [0x21, 0x19, 0x02, 0xfa])"
    by code_simp
  show ?thesis using h sbc_build_then_parse [OF h] by blast
qed

text \<open>
  Without a hint the maximum bitpool written is always 250, whatever maximum the remote
  device declared: the code raises the remote limit to the local one (\<open>std::max\<close>) where it
  would have to lower it.
\<close>

theorem sbc_build_ignores_remote_maximum:
  assumes "sbc_BuildConfiguration remote None = Some (Some configuration)"
  shows "bits_get_range configuration sbc_kMaximumBitpool = 250"
proof -
  from assms obtain sf cm bl sb am mn mx where sel:
    "sbc_select_sampling_frequency sbc_capabilities remote None = Some sf"
    "sbc_select_channel_mode sbc_capabilities remote None = Some cm"
    "sbc_select_block_length sbc_capabilities remote = Some bl"
    "sbc_select_subbands sbc_capabilities remote = Some sb"
    "sbc_select_allocation_method sbc_capabilities remote = Some am"
    and bp: "sbc_hint_bitpools (sbc_selected sf cm bl sb am) None
        (sbc_base_bitpools sbc_capabilities remote) = Some (mn, mx)"
    and c: "configuration = bits_set_range (bits_set_range (sbc_selected sf cm bl sb am)
        sbc_kMinimumBitpool (uint mn)) sbc_kMaximumBitpool (uint mx)"
    by (rule sbc_BuildConfiguration_Some)
  from bp have "mx = 250"
    by (auto simp: sbc_hint_bitpools_def dest: sbc_base_bitpools_ok)
  then show ?thesis
    using bits_get_built(3) [OF sbc_select_selection(1) [OF sel], where mn = mn and mx = mx]
    by (simp add: c)
qed

theorem sbc_build_ignores_remote_maximum_witness:
  "bits_get_range [0x3f, 0xff, 0x02, 0x35] sbc_kMaximumBitpool = 53
     \<and> sbc_BuildConfiguration [0x3f, 0xff, 0x02, 0x35] None = Some (Some [0x21, 0x19, 0x02, 0xfa])
     \<and> bits_get_range [0x21, 0x19, 0x02, 0xfa] sbc_kMaximumBitpool = 250"
proof -
  have h: "sbc_BuildConfiguration [0x3f, 0xff, 0x02, 0x35] None = Some (Some [0x21, 0x19, 0x02, 0xfa])"
    by code_simp
  have "bits_get_range [0x3f, 0xff, 0x02, 0x35] sbc_kMaximumBitpool = 53" by code_simp
  with h sbc_build_ignores_remote_maximum [OF h] show ?thesis by blast
qed

lemma sbc_ParseConfiguration_OK:
  assumes "sbc_ParseConfiguration c = Some (Inr p)"
  shows "length c = 4"
    "0 \<le> find_active_bit c sbc_kSamplingFrequency"
    "bits_get sbc_capabilities (nat (find_active_bit c sbc_kSamplingFrequency))"
    "0 \<le> find_active_bit c sbc_kChannelMode"
    "0 \<le> find_active_bit c sbc_kBlockLength"
    "0 \<le> find_active_bit c sbc_kSubbands"
    "bitpool_ok (ucast (bits_get_range c sbc_kMinimumBitpool))"
    "bitpool_ok (ucast (bits_get_range c sbc_kMaximumBitpool))"
    "samplingFrequencyHz p = sbc_SamplingFrequency_of c"
    "channelMode p = sbc_GetChannelModeEnum (find_active_bit c sbc_kChannelMode)"
    "block_length p = sbc_BlockLength_of c"
    "subbands p = sbc_Subbands_of c"
    "min_bitpool p = uint (ucast (bits_get_range c sbc_kMinimumBitpool) :: u8)"
    "max_bitpool p = uint (ucast (bits_get_range c sbc_kMaximumBitpool) :: u8)"
    "sbc_GetBitrate c (min_bitpool p) = Some (minBitrate p)"
    "sbc_GetBitrate c (max_bitpool p) = Some (maxBitrate p)"
  using assms
  by (simp_all add: sbc_ParseConfiguration_def Let_def bitpool_ok_def sbc_SamplingFrequency_of_def
      sbc_BlockLength_of_def sbc_Subbands_of_def not_less split: if_splits option.splits)
    (auto simp: not_less)

lemma bitpool_ok_uint: "bitpool_ok b \<longleftrightarrow> 2 \<le> uint b \<and> uint b \<le> 250"
  by (simp add: bitpool_ok_def word_le_def)

lemma sbc_bitrate_pos:
  assumes "sbc_GetBitrate c bp = Some r" "0 \<le> bp" "bp \<le> 255"
    "sbc_BlockLength_of c \<in> {4, 8, 12, 16}" "sbc_Subbands_of c \<in> {4, 8}"
    "sbc_SamplingFrequency_of c \<in> {44100, 48000}"
  shows "0 < r"
proof -
  have "4 \<le> sbc_GetFrameSize c bp" using sbc_GetFrameSize_bounds assms by blast
  moreover have "sbc_BlockLength_of c * sbc_Subbands_of c \<le> 128"
    "0 < sbc_BlockLength_of c * sbc_Subbands_of c" using assms(4,5) by auto
  moreover have "44100 \<le> sbc_SamplingFrequency_of c" using assms(6) by auto
  moreover have "4 * 44100 \<le> sbc_GetFrameSize c bp * sbc_SamplingFrequency_of c"
    using calculation by (intro mult_mono) auto
  ultimately show ?thesis
    using assms(1)
    by (auto simp: sbc_GetBitrate_def Let_def pos_imp_zdiv_pos_iff split: if_splits)
qed

text \<open>
  The parameters that a successful parse reports: a frequency and channel mode of the
  local capabilities, bitpools between 2 and 250, and positive bit rates for which no
  intermediate product of the computation leaves the 32-bit range.
\<close>

theorem sbc_parse_bounds:
  assumes "sbc_ParseConfiguration configuration = Some (Inr p)"
  shows "length configuration = 4
     \<and> samplingFrequencyHz p \<in> {44100, 48000} \<and> channelMode p \<noteq> CM_UNKNOWN
     \<and> block_length p \<in> {4, 8, 12, 16} \<and> subbands p \<in> {4, 8}
     \<and> 2 \<le> min_bitpool p \<and> min_bitpool p \<le> 250 \<and> 2 \<le> max_bitpool p \<and> max_bitpool p \<le> 250
     \<and> 0 < minBitrate p \<and> 0 < maxBitrate p
     \<and> (\<forall>bitpool. 0 \<le> bitpool \<and> bitpool \<le> 255 \<longrightarrow>
          8 * sbc_GetFrameSize configuration bitpool * samplingFrequencyHz p < 2 ^ 31)"
proof -
  note ok = sbc_ParseConfiguration_OK [OF assms]
  have bl: "sbc_BlockLength_of configuration \<in> {4, 8, 12, 16}" by (rule sbc_BlockLength_of_pos [OF ok(5)])
  have sb: "sbc_Subbands_of configuration \<in> {4, 8}" by (rule sbc_Subbands_of_pos [OF ok(6)])
  have sf: "sbc_SamplingFrequency_of configuration \<in> {44100, 48000}"
    using ok(2,3)
    by (auto simp: sbc_SamplingFrequency_of_def sbc_GetSamplingFrequencyValue_def sbc_range_bits
        sbc_capabilities_eq bits_get_def elim!: find_active_bit_nonneg [rotated])
  have cm: "channelMode p \<noteq> CM_UNKNOWN"
    unfolding ok(10) using ok(4)
    by (auto simp: sbc_GetChannelModeEnum_def sbc_range_bits elim!: find_active_bit_nonneg [rotated])
  have bp: "2 \<le> min_bitpool p \<and> min_bitpool p \<le> 250 \<and> 2 \<le> max_bitpool p \<and> max_bitpool p \<le> 250"
    using ok(7,8) unfolding bitpool_ok_uint ok(13,14) by blast
  have "0 < minBitrate p" "0 < maxBitrate p"
    using sbc_bitrate_pos [OF ok(15) _ _ bl sb sf] sbc_bitrate_pos [OF ok(16) _ _ bl sb sf] bp by auto
  moreover have "8 * sbc_GetFrameSize configuration b * samplingFrequencyHz p < 2 ^ 31"
    if "0 \<le> b" "b \<le> 255" for b
  proof -
    have "4 \<le> sbc_GetFrameSize configuration b" "sbc_GetFrameSize configuration b \<le> 1033"
      using sbc_GetFrameSize_bounds [OF bl sb that] by auto
    then have "sbc_GetFrameSize configuration b * samplingFrequencyHz p \<le> 1033 * 48000"
      using sf unfolding ok(9) by (intro mult_mono) auto
    moreover have "(2 :: int) ^ 31 = 2147483648" by simp
    ultimately show ?thesis unfolding mult.assoc by linarith
  qed
  ultimately show ?thesis using ok bl sb sf cm bp by auto
qed

theorem sbc_parse_bounds_witness:
  "\<exists>p. sbc_ParseConfiguration [0x21, 0x19, 0x02, 0x35] = Some (Inr p) \<and> maxBitrate p > 0
     \<and> max_bitpool p \<le> 250"
proof -
  have "case sbc_ParseConfiguration [0x21, 0x19, 0x02, 0x35] of Some (Inr _) \<Rightarrow> True | _ \<Rightarrow> False"
    by code_simp
  then obtain p where "sbc_ParseConfiguration [0x21, 0x19, 0x02, 0x35] = Some (Inr p)"
    by (auto split: option.splits sum.splits)
  with sbc_parse_bounds [OF this] show ?thesis by blast
qed

text \<open>
  C12: \<open>GetBitpool\<close> inverts the bit-rate function: before the final clamp its result is the
  last bitpool of 1..255 whose bit rate is below the wanted one (0 where there is none).
\<close>

theorem sbc_GetBitpool_correct:
  assumes "0 \<le> find_active_bit c sbc_kSamplingFrequency"
    "0 \<le> find_active_bit c sbc_kBlockLength" "0 \<le> find_active_bit c sbc_kSubbands"
  shows "\<exists>b. 0 \<le> b \<and> b \<le> 255
     \<and> sbc_GetBitpool c rate = Some (word_of_int (min (max b 2) 250))
     \<and> (\<forall>p r. 0 < p \<and> p \<le> b \<and> sbc_GetBitrate c p = Some r \<longrightarrow> r < rate)
     \<and> (\<forall>p r. b < p \<and> p \<le> 255 \<and> sbc_GetBitrate c p = Some r \<longrightarrow> rate \<le> r)"
proof -
  have "\<exists>r. sbc_GetBitrate c p = Some r" for p by (rule sbc_GetBitrate_defined [OF assms(2,3)])
  then obtain f where f: "\<And>p. sbc_GetBitrate c p = Some (f p)" by metis
  have mono: "f p \<le> f q" if "p \<le> q" for p q
    using sbc_GetBitrate_mono [OF f f that sbc_BlockLength_of_pos [OF assms(2)]
        sbc_Subbands_of_pos [OF assms(3)]] sbc_SamplingFrequency_of_pos [OF assms(1)] by auto
  from sbc_GetBitpool_loop_search [of c f rate 7 0, OF f mono]
  obtain b where b: "sbc_GetBitpool_loop c rate 128 0 = Some b" "0 \<le> b" "b < 256"
    "\<forall>p. 0 < p \<and> p \<le> b \<longrightarrow> f p < rate" "\<forall>p. b < p \<and> p < 256 \<longrightarrow> rate \<le> f p"
    by auto
  then show ?thesis by (intro exI [of _ b]) (auto simp: sbc_GetBitpool_def f)
qed

theorem sbc_GetBitpool_correct_witness:
  "sbc_GetBitpool [0x21, 0x19, 0x00, 0x00] 328000 = Some 53 \<and>
   (\<exists>b. Some 53 = Some (word_of_int (min (max b 2) 250) :: u8) \<and> b \<le> 255)"
proof -
  have v: "sbc_GetBitpool [0x21, 0x19, 0x00, 0x00] 328000 = Some 53" by code_simp
  have "0 \<le> find_active_bit [0x21, 0x19, 0x00, 0x00] sbc_kSamplingFrequency"
    "0 \<le> find_active_bit [0x21, 0x19, 0x00, 0x00] sbc_kBlockLength"
    "0 \<le> find_active_bit [0x21, 0x19, 0x00, 0x00] sbc_kSubbands" by code_simp+
  from sbc_GetBitpool_correct [OF this, of 328000] v show ?thesis by metis
qed

text \<open>
  The hint can leave the two bitpool limits crossed: the minimum that the remote device
  requires stays, the maximum drops to what the hinted bit rate needs, and parsing accepts
  the result.
\<close>

lemma sbc_hint_crosses_bitpools:
  "\<exists>remote hint c p. sbc_BuildConfiguration remote (Some hint) = Some (Some c)
     \<and> sbc_ParseConfiguration c = Some (Inr p) \<and> max_bitpool p < min_bitpool p"
proof -
  define hint where "hint = \<lparr>channelMode = CM_STEREO, samplingFrequencyHz = 44100, bitdepth = 16,
      minBitrate = 0, maxBitrate = 1\<rparr>"
  have "sbc_BuildConfiguration [0x3f, 0xff, 50, 250] (Some hint) = Some (Some [33, 25, 50, 2])"
    unfolding hint_def by code_simp
  moreover have "case sbc_ParseConfiguration [33, 25, 50, 2] of
      Some (Inr p) \<Rightarrow> max_bitpool p < min_bitpool p | _ \<Rightarrow> False" by code_simp
  ultimately show ?thesis by (auto split: option.splits sum.splits)
qed

end
