(* ===== verification/Codec_Aac.thy ===== *)
theory Codec_Aac
  imports A2dp_Bits Audio_Types
begin

text \<open>
  The AAC codec of the A2DP offload provider: \<open>A2dpOffloadCodecAac.cpp\<close> of
  \<open>bluetooth/audio/hal\<close>. A configuration is the 6-byte AAC element of A2DP 4.5.
\<close>

section \<open>Signalling format\<close>

definition aac_kObjectType :: Range where "aac_kObjectType = Range_between 0 6"
definition aac_kDrcEnable :: Range where "aac_kDrcEnable = Range_at 7"
definition aac_kSamplingFrequency :: Range where "aac_kSamplingFrequency = Range_between 8 19"
definition aac_kChannels :: Range where "aac_kChannels = Range_between 20 23"
definition aac_kVbrSupported :: Range where "aac_kVbrSupported = Range_at 24"
definition aac_kBitrate :: Range where "aac_kBitrate = Range_between 25 47"

lemmas aac_ranges = aac_kObjectType_def aac_kDrcEnable_def aac_kSamplingFrequency_def
  aac_kChannels_def aac_kVbrSupported_def aac_kBitrate_def Range_between_def Range_at_def

abbreviation (input) aac_kCapabilitiesSize :: nat where "aac_kCapabilitiesSize \<equiv> 48 div 8"

abbreviation (input) aac_kObjectTypeMpeg2AacLc :: nat where "aac_kObjectTypeMpeg2AacLc \<equiv> 0"
abbreviation (input) aac_kObjectTypeMpeg4AacLc :: nat where "aac_kObjectTypeMpeg4AacLc \<equiv> 1"
abbreviation (input) aac_kSamplingFrequency8000 :: nat where "aac_kSamplingFrequency8000 \<equiv> 8"
abbreviation (input) aac_kSamplingFrequency11025 :: nat where "aac_kSamplingFrequency11025 \<equiv> 9"
abbreviation (input) aac_kSamplingFrequency12000 :: nat where "aac_kSamplingFrequency12000 \<equiv> 10"
abbreviation (input) aac_kSamplingFrequency16000 :: nat where "aac_kSamplingFrequency16000 \<equiv> 11"
abbreviation (input) aac_kSamplingFrequency22050 :: nat where "aac_kSamplingFrequency22050 \<equiv> 12"
abbreviation (input) aac_kSamplingFrequency24000 :: nat where "aac_kSamplingFrequency24000 \<equiv> 13"
abbreviation (input) aac_kSamplingFrequency32000 :: nat where "aac_kSamplingFrequency32000 \<equiv> 14"
abbreviation (input) aac_kSamplingFrequency44100 :: nat where "aac_kSamplingFrequency44100 \<equiv> 15"
abbreviation (input) aac_kSamplingFrequency48000 :: nat where "aac_kSamplingFrequency48000 \<equiv> 16"
abbreviation (input) aac_kSamplingFrequency64000 :: nat where "aac_kSamplingFrequency64000 \<equiv> 17"
abbreviation (input) aac_kSamplingFrequency88200 :: nat where "aac_kSamplingFrequency88200 \<equiv> 18"
abbreviation (input) aac_kSamplingFrequency96000 :: nat where "aac_kSamplingFrequency96000 \<equiv> 19"
abbreviation (input) aac_kChannels1 :: nat where "aac_kChannels1 \<equiv> 20"
abbreviation (input) aac_kChannels2 :: nat where "aac_kChannels2 \<equiv> 21"

abbreviation (input) aac_kBitdepth :: int where "aac_kBitdepth \<equiv> 24"

section \<open>Conversion functions\<close>

datatype ObjectType = MPEG2_AAC_LC | MPEG4_AAC_LC

definition aac_GetObjectTypeEnum :: "int \<Rightarrow> ObjectType" where
  "aac_GetObjectTypeEnum object_type =
     (if object_type = int aac_kObjectTypeMpeg2AacLc then MPEG2_AAC_LC else MPEG4_AAC_LC)"

definition aac_GetSamplingFrequencyBit :: "int \<Rightarrow> int" where
  "aac_GetSamplingFrequencyBit f =
     (if f = 8000 then int aac_kSamplingFrequency8000
      else if f = 11025 then int aac_kSamplingFrequency11025
      else if f = 12000 then int aac_kSamplingFrequency12000
      else if f = 16000 then int aac_kSamplingFrequency16000
      else if f = 22050 then int aac_kSamplingFrequency22050
      else if f = 24000 then int aac_kSamplingFrequency24000
      else if f = 32000 then int aac_kSamplingFrequency32000
      else if f = 44100 then int aac_kSamplingFrequency44100
      else if f = 48000 then int aac_kSamplingFrequency48000
      else if f = 64000 then int aac_kSamplingFrequency64000
      else if f = 88200 then int aac_kSamplingFrequency88200
      else if f = 96000 then int aac_kSamplingFrequency96000
      else - 1)"

definition aac_GetSamplingFrequencyValue :: "int \<Rightarrow> int" where
  "aac_GetSamplingFrequencyValue b =
     (if b = int aac_kSamplingFrequency8000 then 8000
      else if b = int aac_kSamplingFrequency11025 then 11025
      else if b = int aac_kSamplingFrequency12000 then 12000
      else if b = int aac_kSamplingFrequency16000 then 16000
      else if b = int aac_kSamplingFrequency22050 then 22050
      else if b = int aac_kSamplingFrequency24000 then 24000
      else if b = int aac_kSamplingFrequency32000 then 32000
      else if b = int aac_kSamplingFrequency44100 then 44100
      else if b = int aac_kSamplingFrequency48000 then 48000
      else if b = int aac_kSamplingFrequency64000 then 64000
      else if b = int aac_kSamplingFrequency88200 then 88200
      else if b = int aac_kSamplingFrequency96000 then 96000
      else 0)"

definition aac_GetChannelsBit :: "ChannelMode \<Rightarrow> int" where
  "aac_GetChannelsBit m =
     (case m of CM_MONO \<Rightarrow> int aac_kChannels1 | CM_STEREO \<Rightarrow> int aac_kChannels2 | _ \<Rightarrow> - 1)"

definition aac_GetChannelModeEnum :: "int \<Rightarrow> ChannelMode" where
  "aac_GetChannelModeEnum m =
     (if m = int aac_kChannels1 then CM_MONO
      else if m = int aac_kChannels2 then CM_STEREO
      else CM_UNKNOWN)"

section \<open>The local capabilities\<close>

definition aac_capabilities :: "u8 list" where
  "aac_capabilities =
     (let c = replicate aac_kCapabilitiesSize 0;
          c = bits_set c aac_kObjectTypeMpeg2AacLc True;
          c = bits_set c aac_kObjectTypeMpeg4AacLc True;
          c = bits_set c aac_kSamplingFrequency44100 True;
          c = bits_set c aac_kSamplingFrequency48000 True;
          c = bits_set c aac_kSamplingFrequency88200 False;
          c = bits_set c aac_kSamplingFrequency96000 False;
          c = bits_set c aac_kChannels1 True;
          c = bits_set c aac_kChannels2 True;
          c = bits_set_range c aac_kVbrSupported 1
      in c)"

definition aac_info :: A2dpInfo where
  "aac_info =
     \<lparr>info_id = CodecId_a2dp A2dp_AAC,
      capabilities = aac_capabilities,
      samplingFrequencies =
        filter (\<lambda>v. bits_get aac_capabilities (nat (aac_GetSamplingFrequencyBit v)))
          [8000, 11025, 12000, 16000, 22050, 24000, 32000, 44100, 48000, 64000, 88200, 96000],
      channelModes =
        filter (\<lambda>v. bits_get aac_capabilities (nat (aac_GetChannelsBit v))) [CM_MONO, CM_STEREO],
      bitdepths = [aac_kBitdepth]\<rparr>"

section \<open>ParseConfiguration\<close>

record AacParameters = CodecParameters +
  object_type :: ObjectType

definition aac_ParseConfiguration :: "u8 list \<Rightarrow> A2dpStatus + AacParameters" where
  "aac_ParseConfiguration configuration =
     (let lcaps = aac_capabilities;
          ot = find_active_bit configuration aac_kObjectType;
          sampling_frequency = find_active_bit configuration aac_kSamplingFrequency;
          channels = find_active_bit configuration aac_kChannels;
          vbr = bits_get_range configuration aac_kVbrSupported \<noteq> 0;
          bitrate = bits_get_range configuration aac_kBitrate
      in
      if length configuration \<noteq> length lcaps then Inl BAD_LENGTH
      else if ot < 0 then Inl INVALID_OBJECT_TYPE
      else if \<not> bits_get lcaps (nat ot) then Inl NOT_SUPPORTED_OBJECT_TYPE
      else if sampling_frequency < 0 then Inl INVALID_SAMPLING_FREQUENCY
      else if \<not> bits_get lcaps (nat sampling_frequency) then Inl NOT_SUPPORTED_SAMPLING_FREQUENCY
      else if channels < 0 then Inl INVALID_CHANNELS
      else if \<not> bits_get lcaps (nat channels) then Inl NOT_SUPPORTED_CHANNELS
      else if vbr \<and> bits_get_range lcaps aac_kVbrSupported = 0 then Inl NOT_SUPPORTED_VBR
      else if vbr \<and> bits_get_range lcaps aac_kBitrate \<noteq> 0
        \<and> bitrate > bits_get_range lcaps aac_kBitrate then Inl NOT_SUPPORTED_BIT_RATE
      else Inr
        \<lparr>channelMode = aac_GetChannelModeEnum channels,
         samplingFrequencyHz = aac_GetSamplingFrequencyValue sampling_frequency,
         bitdepth = aac_kBitdepth,
         minBitrate = (if vbr then 0 else sint bitrate),
         maxBitrate = sint bitrate,
         object_type = aac_GetObjectTypeEnum ot\<rparr>)"

section \<open>BuildConfiguration\<close>

definition aac_select_object_type :: "u8 list \<Rightarrow> u8 list \<Rightarrow> nat option" where
  "aac_select_object_type lcaps rcaps =
     (if bits_get lcaps aac_kObjectTypeMpeg2AacLc \<and> bits_get rcaps aac_kObjectTypeMpeg2AacLc
      then Some aac_kObjectTypeMpeg2AacLc
      else if bits_get lcaps aac_kObjectTypeMpeg4AacLc \<and> bits_get rcaps aac_kObjectTypeMpeg4AacLc
      then Some aac_kObjectTypeMpeg4AacLc
      else None)"

definition aac_select_sampling_frequency ::
  "u8 list \<Rightarrow> u8 list \<Rightarrow> CodecParameters option \<Rightarrow> nat option" where
  "aac_select_sampling_frequency lcaps rcaps hint =
     (let sf_hint = (case hint of
            Some h \<Rightarrow> aac_GetSamplingFrequencyBit (samplingFrequencyHz h) | None \<Rightarrow> - 1);
          both = (\<lambda>b. bits_get lcaps b \<and> bits_get rcaps b) in
      if sf_hint \<ge> 0 \<and> both (nat sf_hint) then Some (nat sf_hint)
      else if both aac_kSamplingFrequency96000 then Some aac_kSamplingFrequency96000
      else if both aac_kSamplingFrequency88200 then Some aac_kSamplingFrequency88200
      else if both aac_kSamplingFrequency48000 then Some aac_kSamplingFrequency48000
      else if both aac_kSamplingFrequency44100 then Some aac_kSamplingFrequency44100
      else None)"

definition aac_select_channels ::
  "u8 list \<Rightarrow> u8 list \<Rightarrow> CodecParameters option \<Rightarrow> nat option" where
  "aac_select_channels lcaps rcaps hint =
     (let ch_hint = (case hint of
            Some h \<Rightarrow> aac_GetChannelsBit (channelMode h) | None \<Rightarrow> - 1);
          both = (\<lambda>b. bits_get lcaps b \<and> bits_get rcaps b) in
      if ch_hint \<ge> 0 \<and> both (nat ch_hint) then Some (nat ch_hint)
      else if both aac_kChannels2 then Some aac_kChannels2
      else if both aac_kChannels1 then Some aac_kChannels1
      else None)"

definition aac_select_bitrate :: "u8 list \<Rightarrow> CodecParameters option \<Rightarrow> int" where
  "aac_select_bitrate lcaps hint =
     (let bitrate = sint (bits_get_range lcaps aac_kBitrate) in
      case hint of
        None \<Rightarrow> bitrate
      | Some h \<Rightarrow> (if maxBitrate h > 0 \<and> bitrate \<noteq> 0 then min (maxBitrate h) bitrate
                   else if maxBitrate h > 0 then maxBitrate h else bitrate))"

definition aac_BuildConfiguration ::
  "u8 list \<Rightarrow> CodecParameters option \<Rightarrow> u8 list option" where
  "aac_BuildConfiguration remote_capabilities hint =
     (let lcaps = aac_capabilities; rcaps = remote_capabilities in
      if length rcaps \<noteq> length lcaps then None
      else let config = replicate (length lcaps) 0 in
      case aac_select_object_type lcaps rcaps of None \<Rightarrow> None | Some ot \<Rightarrow>
      let config = bits_set config ot True in
      case aac_select_sampling_frequency lcaps rcaps hint of None \<Rightarrow> None | Some sf \<Rightarrow>
      let config = bits_set config sf True in
      case aac_select_channels lcaps rcaps hint of None \<Rightarrow> None | Some ch \<Rightarrow>
      let config = bits_set config ch True;
          config = (if (case hint of None \<Rightarrow> True | Some h \<Rightarrow> minBitrate h = 0)
            then bits_set_range config aac_kVbrSupported
              (of_bool (bits_get_range lcaps aac_kVbrSupported \<noteq> 0
                \<and> bits_get_range rcaps aac_kVbrSupported \<noteq> 0))
            else config);
          config = bits_set_range config aac_kBitrate (aac_select_bitrate lcaps hint)
      in Some config)"

section \<open>The local capabilities, computed\<close>

lemma aac_capabilities_eq: "aac_capabilities = [0xc0, 0x01, 0x8c, 0x80, 0, 0]"
  by code_simp

lemma length_aac_capabilities [simp]: "length aac_capabilities = 6"
  by (simp add: aac_capabilities_eq)

lemma aac_capabilities_vbr [simp]: "bits_get_range aac_capabilities aac_kVbrSupported = 1"
  by code_simp

lemma aac_capabilities_bitrate [simp]: "bits_get_range aac_capabilities aac_kBitrate = 0"
  by code_simp

lemma aac_range_bits_iff:
  "j \<in> range_bits aac_kObjectType \<longleftrightarrow> j < 7"
  "j \<in> range_bits aac_kSamplingFrequency \<longleftrightarrow> 8 \<le> j \<and> j < 20"
  "j \<in> range_bits aac_kChannels \<longleftrightarrow> 20 \<le> j \<and> j < 24"
  "j \<in> range_bits aac_kVbrSupported \<longleftrightarrow> j = 24"
  "j \<in> range_bits aac_kBitrate \<longleftrightarrow> 25 \<le> j \<and> j < 48"
  by (auto simp: range_bits_def aac_ranges)

section \<open>The configuration that is built\<close>

lemma aac_select_object_type_Some:
  "aac_select_object_type l r = Some ot \<Longrightarrow> ot < 7 \<and> bits_get l ot \<and> bits_get r ot"
  by (auto simp: aac_select_object_type_def split: if_splits)

lemma aac_select_sampling_frequency_Some:
  "aac_select_sampling_frequency l r h = Some sf \<Longrightarrow>
     8 \<le> sf \<and> sf < 20 \<and> bits_get l sf \<and> bits_get r sf"
  by (auto simp: aac_select_sampling_frequency_def aac_GetSamplingFrequencyBit_def Let_def
      split: if_splits option.splits)

lemma aac_select_channels_Some:
  "aac_select_channels l r h = Some ch \<Longrightarrow> 20 \<le> ch \<and> ch < 24 \<and> bits_get l ch \<and> bits_get r ch"
  by (auto simp: aac_select_channels_def aac_GetChannelsBit_def Let_def
      split: if_splits option.splits ChannelMode.splits)

lemma aac_BuildConfiguration_Some:
  assumes "aac_BuildConfiguration r h = Some c"
  obtains ot sf ch where
    "length r = 6"
    "aac_select_object_type aac_capabilities r = Some ot"
    "aac_select_sampling_frequency aac_capabilities r h = Some sf"
    "aac_select_channels aac_capabilities r h = Some ch"
    "length c = 6"
    "\<forall>b < 24. bits_get c b = (b \<in> {ot, sf, ch})"
    "bits_get c 24 \<longrightarrow> bits_get r 24"
    "bits_get_range c aac_kBitrate = word_of_int (take_bit 23 (aac_select_bitrate aac_capabilities h))"
proof -
  from assms obtain ot sf ch where len: "length r = 6"
    and sel: "aac_select_object_type aac_capabilities r = Some ot"
    "aac_select_sampling_frequency aac_capabilities r h = Some sf"
    "aac_select_channels aac_capabilities r h = Some ch"
    and c: "c = bits_set_range
      (if (case h of None \<Rightarrow> True | Some h \<Rightarrow> minBitrate h = 0)
       then bits_set_range (bits_set (bits_set (bits_set (replicate 6 0) ot True) sf True) ch True)
              aac_kVbrSupported (of_bool (bits_get_range r aac_kVbrSupported \<noteq> 0))
       else bits_set (bits_set (bits_set (replicate 6 0) ot True) sf True) ch True)
      aac_kBitrate (aac_select_bitrate aac_capabilities h)"
    by (auto simp: aac_BuildConfiguration_def Let_def split: if_splits option.splits)
  have b: "ot < 7" "8 \<le> sf" "sf < 20" "20 \<le> ch" "ch < 24"
    using sel by (auto dest: aac_select_object_type_Some aac_select_sampling_frequency_Some
        aac_select_channels_Some)
  have vbr: "bits_get_range r aac_kVbrSupported = of_bool (bits_get r 24)"
    by (rule bit_word_eqI) (auto simp: bit_bits_get_range aac_ranges bit_1_iff)
  show thesis
  proof
    show "length r = 6" "aac_select_object_type aac_capabilities r = Some ot"
      "aac_select_sampling_frequency aac_capabilities r h = Some sf"
      "aac_select_channels aac_capabilities r h = Some ch" by fact+
    show "length c = 6" by (simp add: c)
    show "\<forall>k < 24. bits_get c k = (k \<in> {ot, sf, ch})"
      using b by (auto simp: c bits_simps range_bits_def aac_ranges)
    show "bits_get c 24 \<longrightarrow> bits_get r 24"
      using b unfolding c vbr
      by (cases "bits_get r 24") (auto simp: bits_simps range_bits_def aac_ranges split: if_splits)
    show "bits_get_range c aac_kBitrate
        = word_of_int (take_bit 23 (aac_select_bitrate aac_capabilities h))"
      unfolding c by (subst bits_get_range_set_range) (auto simp: aac_ranges)
  qed
qed

lemma aac_active_bits:
  assumes "ot < 7" "8 \<le> sf" "sf < 20" "20 \<le> ch" "ch < 24"
    and c: "\<And>b. b < 24 \<Longrightarrow> bits_get c b = (b \<in> {ot, sf, ch})"
  shows "find_active_bit c aac_kObjectType = int ot"
    "find_active_bit c aac_kSamplingFrequency = int sf"
    "find_active_bit c aac_kChannels = int ch"
proof -
  have c': "bits_get c b \<Longrightarrow> b < 24 \<Longrightarrow> b = ot \<or> b = sf \<or> b = ch" for b
    using c by simp
  have l: "rlen aac_kObjectType \<le> 32" "rlen aac_kSamplingFrequency \<le> 32" "rlen aac_kChannels \<le> 32"
    by (simp_all add: aac_ranges)
  show "find_active_bit c aac_kObjectType = int ot"
    by (rule find_active_bitI) (use assms(1-5) in \<open>auto simp: l aac_range_bits_iff c dest: c'\<close>)
  show "find_active_bit c aac_kSamplingFrequency = int sf"
    by (rule find_active_bitI) (use assms(1-5) in \<open>auto simp: l aac_range_bits_iff c dest: c'\<close>)
  show "find_active_bit c aac_kChannels = int ch"
    by (rule find_active_bitI) (use assms(1-5) in \<open>auto simp: l aac_range_bits_iff c dest: c'\<close>)
qed

lemma aac_built_parses:
  assumes "aac_BuildConfiguration remote hint = Some configuration"
  shows "(\<exists>p. aac_ParseConfiguration configuration = Inr p)
     \<and> (\<forall>b \<le> 24. bits_get configuration b \<longrightarrow> bits_get aac_capabilities b \<and> bits_get remote b)"
proof -
  from assms obtain ot sf ch where "length remote = 6" and
    sel: "aac_select_object_type aac_capabilities remote = Some ot"
      "aac_select_sampling_frequency aac_capabilities remote hint = Some sf"
      "aac_select_channels aac_capabilities remote hint = Some ch"
    and len: "length configuration = 6"
    and bits: "\<forall>b < 24. bits_get configuration b = (b \<in> {ot, sf, ch})"
    and vbr: "bits_get configuration 24 \<longrightarrow> bits_get remote 24"
    and "bits_get_range configuration aac_kBitrate
      = word_of_int (take_bit 23 (aac_select_bitrate aac_capabilities hint))"
    by (rule aac_BuildConfiguration_Some)
  note s = aac_select_object_type_Some [OF sel(1)] aac_select_sampling_frequency_Some [OF sel(2)]
    aac_select_channels_Some [OF sel(3)]
  have act: "find_active_bit configuration aac_kObjectType = int ot"
    "find_active_bit configuration aac_kSamplingFrequency = int sf"
    "find_active_bit configuration aac_kChannels = int ch"
    using s aac_active_bits [of ot sf ch configuration] bits by blast+
  have "\<exists>p. aac_ParseConfiguration configuration = Inr p"
    using s by (simp add: aac_ParseConfiguration_def Let_def act len)
  moreover have "bits_get aac_capabilities b \<and> bits_get remote b"
    if "b \<le> 24" "bits_get configuration b" for b
  proof (cases "b = 24")
    case True
    with vbr that show ?thesis by (simp add: aac_capabilities_eq bits_get_def)
  next
    case False
    with that bits s show ?thesis by auto
  qed
  ultimately show ?thesis by blast
qed

text \<open>
  A configuration that the AAC codec builds is accepted by its parser, selects only
  options of both sides, and asks for a variable bit rate only from a remote device that
  supports it.
\<close>

theorem aac_build_then_parse:
  assumes "aac_BuildConfiguration remote hint = Some configuration"
  shows "(\<exists>p. aac_ParseConfiguration configuration = Inr p)
     \<and> (\<forall>b \<le> 24. bits_get configuration b \<longrightarrow> bits_get aac_capabilities b \<and> bits_get remote b)"
  using assms by (rule aac_built_parses)

theorem aac_build_then_parse_witness:
  "aac_BuildConfiguration [0x80, 0x01, 0x84, 0x83, 0xe8, 0x00] None = Some [0x80, 0x00, 0x84, 0x80, 0, 0]
     \<and> (\<exists>p. aac_ParseConfiguration [0x80, 0x00, 0x84, 0x80, 0, 0] = Inr p)"
proof -
  have h: "aac_BuildConfiguration [0x80, 0x01, 0x84, 0x83, 0xe8, 0x00] None
      = Some [0x80, 0x00, 0x84, 0x80, 0, 0]" by code_simp
  show ?thesis using h aac_build_then_parse [OF h] by blast
qed

text \<open>
  The bit rate of an AAC configuration that is built: the hint's maximum, cut to the 23
  bits of the field, or 0 where the hint gives none. The bit rate that the remote device
  declares plays no part.
\<close>

theorem aac_build_bitrate:
  assumes "aac_BuildConfiguration remote hint = Some configuration"
  shows "uint (bits_get_range configuration aac_kBitrate)
     = (case hint of None \<Rightarrow> 0 | Some h \<Rightarrow> if maxBitrate h > 0 then maxBitrate h mod 2 ^ 23 else 0)"
proof -
  have u: "uint (word_of_int (take_bit 23 x) :: u32) = take_bit 23 x" for x :: int
    using pos_mod_bound [of "2 ^ 23" x]
    by (simp add: uint_word_of_int take_bit_eq_mod)
  obtain ot sf ch where
    "bits_get_range configuration aac_kBitrate
      = word_of_int (take_bit 23 (aac_select_bitrate aac_capabilities hint))"
    by (rule aac_BuildConfiguration_Some [OF assms])
  then have "uint (bits_get_range configuration aac_kBitrate)
      = take_bit 23 (aac_select_bitrate aac_capabilities hint)" by (simp only: u)
  also have "\<dots> = (case hint of None \<Rightarrow> 0
      | Some h \<Rightarrow> if maxBitrate h > 0 then maxBitrate h mod 2 ^ 23 else 0)"
    by (simp add: aac_select_bitrate_def take_bit_eq_mod split: option.split)
  finally show ?thesis .
qed

theorem aac_build_bitrate_witness:
  "uint (bits_get_range [0x80, 0x01, 0x84, 0x83, 0xe8, 0x00] aac_kBitrate) = 256000
     \<and> aac_BuildConfiguration [0x80, 0x01, 0x84, 0x83, 0xe8, 0x00] None = Some [0x80, 0x00, 0x84, 0x80, 0, 0]
     \<and> uint (bits_get_range [0x80, 0x00, 0x84, 0x80, 0, 0] aac_kBitrate) = 0"
proof -
  have h: "aac_BuildConfiguration [0x80, 0x01, 0x84, 0x83, 0xe8, 0x00] None
      = Some [0x80, 0x00, 0x84, 0x80, 0, 0]" by code_simp
  have "uint (bits_get_range [0x80, 0x01, 0x84, 0x83, 0xe8, 0x00] aac_kBitrate) = 256000"
    by code_simp
  then show ?thesis using h aac_build_bitrate [OF h] by simp
qed

end
