(* ===== verification/Codec_Factory.thy ===== *)
theory Codec_Factory
  imports Codec_Sbc Codec_Aac
begin

text \<open>
  The codec interface of the A2DP offload provider (\<open>A2dpOffloadCodec.h\<close>) and the factory
  that holds the codecs and negotiates a configuration (\<open>A2dpOffloadCodecFactory.cpp\<close>).
  A codec object is the record of its virtual methods. The contract that the factory relies
  on is the locale \<open>a2dp_codec\<close>, interpreted on the SBC and the AAC codec.
\<close>

section \<open>The codec interface\<close>

record A2dpOffloadCodec =
  codec_info :: A2dpInfo
  codec_ParseConfiguration :: "u8 list \<Rightarrow> (A2dpStatus + CodecParameters) option"
  codec_BuildConfiguration :: "u8 list \<Rightarrow> CodecParameters option \<Rightarrow> u8 list option option"

definition A2dpOffloadCodecSbc :: A2dpOffloadCodec where
  "A2dpOffloadCodecSbc =
     \<lparr>codec_info = sbc_info,
      codec_ParseConfiguration =
        (\<lambda>c. map_option (map_sum id CodecParameters.truncate) (sbc_ParseConfiguration c)),
      codec_BuildConfiguration = sbc_BuildConfiguration\<rparr>"

definition A2dpOffloadCodecAac :: A2dpOffloadCodec where
  "A2dpOffloadCodecAac =
     \<lparr>codec_info = aac_info,
      codec_ParseConfiguration =
        (\<lambda>c. Some (map_sum id CodecParameters.truncate (aac_ParseConfiguration c))),
      codec_BuildConfiguration = (\<lambda>r h. Some (aac_BuildConfiguration r h))\<rparr>"

locale a2dp_codec =
  fixes codec :: A2dpOffloadCodec
  assumes build_defined: "codec_BuildConfiguration codec remote hint \<noteq> None"
    and parse_defined: "codec_ParseConfiguration codec configuration \<noteq> None"
    and build_parses: "codec_BuildConfiguration codec remote hint = Some (Some configuration) \<Longrightarrow>
      \<exists>p. codec_ParseConfiguration codec configuration = Some (Inr p)"

interpretation sbc: a2dp_codec A2dpOffloadCodecSbc
proof unfold_locales
  show "codec_BuildConfiguration A2dpOffloadCodecSbc r h \<noteq> None" for r h
    using sbc_no_div by (simp add: A2dpOffloadCodecSbc_def)
  show "codec_ParseConfiguration A2dpOffloadCodecSbc c \<noteq> None" for c
    using sbc_no_div by (simp add: A2dpOffloadCodecSbc_def)
  show "\<exists>p. codec_ParseConfiguration A2dpOffloadCodecSbc c = Some (Inr p)"
    if "codec_BuildConfiguration A2dpOffloadCodecSbc r h = Some (Some c)" for r h c
    using that sbc_built_parses by (fastforce simp: A2dpOffloadCodecSbc_def)
qed

interpretation aac: a2dp_codec A2dpOffloadCodecAac
proof unfold_locales
  show "codec_BuildConfiguration A2dpOffloadCodecAac r h \<noteq> None" for r h
    by (simp add: A2dpOffloadCodecAac_def)
  show "codec_ParseConfiguration A2dpOffloadCodecAac c \<noteq> None" for c
    by (simp add: A2dpOffloadCodecAac_def)
  show "\<exists>p. codec_ParseConfiguration A2dpOffloadCodecAac c = Some (Inr p)"
    if "codec_BuildConfiguration A2dpOffloadCodecAac r h = Some (Some c)" for r h c
    using that aac_built_parses by (fastforce simp: A2dpOffloadCodecAac_def)
qed

section \<open>The factory\<close>

record A2dpRemoteCapabilities =
  remote_seid :: int
  remote_id :: CodecId
  remote_capabilities :: "u8 list"

record A2dpConfigurationHint =
  hint_codecId :: CodecId
  hint_codecParameters :: "CodecParameters option"

record A2dpConfiguration =
  cfg_remoteSeid :: int
  cfg_id :: CodecId
  cfg_configuration :: "u8 list"
  cfg_parameters :: CodecParameters

definition ranked_codecs :: "A2dpOffloadCodec list" where
  "ranked_codecs = [A2dpOffloadCodecAac, A2dpOffloadCodecSbc]"

definition GetCodec :: "CodecId \<Rightarrow> A2dpOffloadCodec option" where
  "GetCodec cid = List.find (\<lambda>c. cid = info_id (codec_info c)) ranked_codecs"

text \<open>
  How \<open>GetConfiguration\<close> ends: undefined behaviour (the end iterator is dereferenced, or a
  codec divides by zero), a failed assertion, a return of \<open>false\<close>, or a return of \<open>true\<close>
  with the configuration written.
\<close>

datatype negotiation =
  Undefined | AssertionFailed | NotConfigured | Configured A2dpConfiguration

fun try_codecs ::
  "A2dpOffloadCodec list \<Rightarrow> A2dpRemoteCapabilities list \<Rightarrow> A2dpConfigurationHint \<Rightarrow> negotiation"
where
  "try_codecs [] remotes hint = NotConfigured"
| "try_codecs (codec # codecs) remotes hint =
     (case List.find (\<lambda>rc. info_id (codec_info codec) = remote_id rc) remotes of
        None \<Rightarrow> try_codecs codecs remotes hint
      | Some rc \<Rightarrow>
          (case codec_BuildConfiguration codec (remote_capabilities rc) (hint_codecParameters hint) of
             None \<Rightarrow> Undefined
           | Some None \<Rightarrow> try_codecs codecs remotes hint
           | Some (Some configuration) \<Rightarrow>
               (case codec_ParseConfiguration codec configuration of
                  None \<Rightarrow> Undefined
                | Some (Inl status) \<Rightarrow> AssertionFailed
                | Some (Inr parameters) \<Rightarrow>
                    Configured
                      \<lparr>cfg_remoteSeid = remote_seid rc,
                       cfg_id = info_id (codec_info codec),
                       cfg_configuration = configuration,
                       cfg_parameters = parameters\<rparr>)))"

text \<open>The index of the first codec with the hinted id; pointer identity is the index.\<close>

fun find_index :: "('a \<Rightarrow> bool) \<Rightarrow> 'a list \<Rightarrow> nat option" where
  "find_index P [] = None"
| "find_index P (x # xs) = (if P x then Some 0 else map_option Suc (find_index P xs))"

definition GetConfiguration ::
  "A2dpRemoteCapabilities list \<Rightarrow> A2dpConfigurationHint \<Rightarrow> negotiation" where
  "GetConfiguration remotes hint =
     (case find_index (\<lambda>c. hint_codecId hint = info_id (codec_info c)) ranked_codecs of
        None \<Rightarrow> Undefined
      | Some hinted_codec \<Rightarrow>
          (let codecs = ranked_codecs ! hinted_codec
                 # map (\<lambda>i. ranked_codecs ! i)
                     (filter (\<lambda>i. i \<noteq> hinted_codec) [0..<length ranked_codecs])
           in try_codecs codecs remotes hint))"

section \<open>Negotiation relies on the codec contract\<close>

context a2dp_codec begin

lemma try_this_codec:
  assumes "try_codecs codecs remotes hint \<notin> {Undefined, AssertionFailed}"
  shows "try_codecs (codec # codecs) remotes hint \<notin> {Undefined, AssertionFailed}"
proof (cases "List.find (\<lambda>rc. info_id (codec_info codec) = remote_id rc) remotes")
  case None
  with assms show ?thesis by simp
next
  case (Some rc)
  obtain b where b: "codec_BuildConfiguration codec (remote_capabilities rc) (hint_codecParameters hint)
      = Some b"
    using build_defined by blast
  show ?thesis
  proof (cases b)
    case None
    with assms b Some show ?thesis by simp
  next
    case (Some configuration)
    with b build_parses obtain p where "codec_ParseConfiguration codec configuration = Some (Inr p)"
      by blast
    with b Some \<open>List.find _ _ = Some rc\<close> show ?thesis by simp
  qed
qed

end

lemma try_codecs_Configured:
  assumes "try_codecs codecs remotes hint = Configured cfg"
  shows "\<exists>codec \<in> set codecs. \<exists>rc \<in> set remotes.
     info_id (codec_info codec) = remote_id rc
     \<and> cfg_id cfg = remote_id rc \<and> cfg_remoteSeid cfg = remote_seid rc
     \<and> codec_BuildConfiguration codec (remote_capabilities rc) (hint_codecParameters hint)
         = Some (Some (cfg_configuration cfg))
     \<and> codec_ParseConfiguration codec (cfg_configuration cfg) = Some (Inr (cfg_parameters cfg))"
  using assms
proof (induction codecs remotes hint rule: try_codecs.induct)
  case (1 remotes hint)
  then show ?case by simp
next
  case (2 codec codecs remotes hint)
  show ?case
  proof (cases "\<exists>rc c p. List.find (\<lambda>rc. info_id (codec_info codec) = remote_id rc) remotes = Some rc
      \<and> codec_BuildConfiguration codec (remote_capabilities rc) (hint_codecParameters hint) = Some (Some c)
      \<and> codec_ParseConfiguration codec c = Some (Inr p)")
    case True
    then obtain rc c p where rc: "List.find (\<lambda>rc. info_id (codec_info codec) = remote_id rc) remotes = Some rc"
      and "codec_BuildConfiguration codec (remote_capabilities rc) (hint_codecParameters hint) = Some (Some c)"
      and "codec_ParseConfiguration codec c = Some (Inr p)" by blast
    moreover from this "2.prems" have "cfg = \<lparr>cfg_remoteSeid = remote_seid rc,
      cfg_id = info_id (codec_info codec), cfg_configuration = c, cfg_parameters = p\<rparr>" by simp
    moreover from rc have "rc \<in> set remotes" "info_id (codec_info codec) = remote_id rc"
      by (auto dest: find_member)
    ultimately show ?thesis by (intro bexI [of _ codec] bexI [of _ rc]) simp_all
  next
    case False
    with "2.prems" have "try_codecs codecs remotes hint = Configured cfg"
      by (auto split: option.splits sum.splits)
    with "2.IH" False "2.prems" show ?thesis
      by (auto split: option.splits sum.splits)
  qed
qed

lemma codec_ids [simp]:
  "info_id (codec_info A2dpOffloadCodecSbc) = CodecId_a2dp A2dp_SBC"
  "info_id (codec_info A2dpOffloadCodecAac) = CodecId_a2dp A2dp_AAC"
  by (simp_all add: A2dpOffloadCodecSbc_def A2dpOffloadCodecAac_def sbc_info_def aac_info_def)

lemma GetConfiguration_hinted:
  "hint_codecId hint = CodecId_a2dp A2dp_AAC \<Longrightarrow>
     GetConfiguration remotes hint = try_codecs [A2dpOffloadCodecAac, A2dpOffloadCodecSbc] remotes hint"
  "hint_codecId hint = CodecId_a2dp A2dp_SBC \<Longrightarrow>
     GetConfiguration remotes hint = try_codecs [A2dpOffloadCodecSbc, A2dpOffloadCodecAac] remotes hint"
  by (simp_all add: GetConfiguration_def ranked_codecs_def upt_rec numeral_2_eq_2 Let_def
      del: try_codecs.simps)

text \<open>
  C9: With a hint that names a codec of the factory, negotiation is defined and its
  assertion never fails, whatever the remote devices declare.
\<close>

theorem GetConfiguration_defined:
  assumes "hint_codecId hint \<in> {CodecId_a2dp A2dp_SBC, CodecId_a2dp A2dp_AAC}"
  shows "GetConfiguration remotes hint \<notin> {Undefined, AssertionFailed}"
proof -
  have nil: "try_codecs [] remotes hint \<notin> {Undefined, AssertionFailed}" by simp
  from assms show ?thesis
    using aac.try_this_codec [OF sbc.try_this_codec [OF nil]]
      sbc.try_this_codec [OF aac.try_this_codec [OF nil]]
    by (auto simp: GetConfiguration_hinted simp del: try_codecs.simps)
qed

theorem GetConfiguration_defined_witness:
  "GetConfiguration [] \<lparr>hint_codecId = CodecId_a2dp A2dp_SBC, hint_codecParameters = None\<rparr>
     \<notin> {Undefined, AssertionFailed}"
  by (rule GetConfiguration_defined) simp

text \<open>
  With a hint that names no codec of the factory the code dereferences the end iterator
  of the codec list (in the predicate of \<open>std::copy_if\<close>): undefined behaviour for every
  list of remote capabilities.
\<close>

theorem GetConfiguration_unknown_hint:
  "GetConfiguration remotes hint = Undefined \<longleftrightarrow>
     hint_codecId hint \<notin> {CodecId_a2dp A2dp_SBC, CodecId_a2dp A2dp_AAC}"
proof (cases "hint_codecId hint \<in> {CodecId_a2dp A2dp_SBC, CodecId_a2dp A2dp_AAC}")
  case True
  have nil: "try_codecs [] remotes hint \<notin> {Undefined, AssertionFailed}" by simp
  from True show ?thesis
    using aac.try_this_codec [OF sbc.try_this_codec [OF nil]]
      sbc.try_this_codec [OF aac.try_this_codec [OF nil]]
    by (auto simp: GetConfiguration_hinted simp del: try_codecs.simps)
next
  case False
  then show ?thesis by (simp add: GetConfiguration_def ranked_codecs_def)
qed

text \<open>
  C10: A negotiated configuration comes from one of the remote capabilities: it carries that
  endpoint's id, is what the codec builds from its capabilities, and the reported parameters
  are those of parsing it. The hinted codec wins whenever it can be configured.
\<close>

theorem GetConfiguration_result:
  assumes "GetConfiguration remotes hint = Configured cfg"
  shows "(\<exists>codec \<in> set ranked_codecs. \<exists>rc \<in> set remotes.
       cfg_id cfg = info_id (codec_info codec) \<and> remote_id rc = cfg_id cfg
     \<and> cfg_remoteSeid cfg = remote_seid rc
     \<and> codec_BuildConfiguration codec (remote_capabilities rc) (hint_codecParameters hint)
         = Some (Some (cfg_configuration cfg))
     \<and> codec_ParseConfiguration codec (cfg_configuration cfg) = Some (Inr (cfg_parameters cfg)))
     \<and> (cfg_id cfg \<noteq> hint_codecId hint \<longrightarrow>
        (\<forall>codec rc. GetCodec (hint_codecId hint) = Some codec
           \<and> List.find (\<lambda>rc. hint_codecId hint = remote_id rc) remotes = Some rc \<longrightarrow>
             codec_BuildConfiguration codec (remote_capabilities rc) (hint_codecParameters hint)
               = Some None))"
proof -
  from assms have "hint_codecId hint \<in> {CodecId_a2dp A2dp_SBC, CodecId_a2dp A2dp_AAC}"
    by (auto simp: GetConfiguration_def ranked_codecs_def split: if_splits)
  then consider (aac) "hint_codecId hint = CodecId_a2dp A2dp_AAC"
    | (sbc) "hint_codecId hint = CodecId_a2dp A2dp_SBC" by blast
  then show ?thesis
  proof cases
    case aac
    have t: "try_codecs [A2dpOffloadCodecAac, A2dpOffloadCodecSbc] remotes hint = Configured cfg"
      using assms aac by (simp only: GetConfiguration_hinted)
    then have 2: "cfg_id cfg \<noteq> hint_codecId hint \<Longrightarrow>
      List.find (\<lambda>rc. hint_codecId hint = remote_id rc) remotes = Some rc \<Longrightarrow>
      codec_BuildConfiguration A2dpOffloadCodecAac (remote_capabilities rc) (hint_codecParameters hint)
        = Some None" for rc
      using aac by (auto split: option.splits sum.splits)
    show ?thesis
      using try_codecs_Configured [OF t] 2 aac
      by (fastforce simp: ranked_codecs_def GetCodec_def)
  next
    case sbc
    have t: "try_codecs [A2dpOffloadCodecSbc, A2dpOffloadCodecAac] remotes hint = Configured cfg"
      using assms sbc by (simp only: GetConfiguration_hinted)
    then have 2: "cfg_id cfg \<noteq> hint_codecId hint \<Longrightarrow>
      List.find (\<lambda>rc. hint_codecId hint = remote_id rc) remotes = Some rc \<Longrightarrow>
      codec_BuildConfiguration A2dpOffloadCodecSbc (remote_capabilities rc) (hint_codecParameters hint)
        = Some None" for rc
      using sbc by (auto split: option.splits sum.splits)
    show ?thesis
      using try_codecs_Configured [OF t] 2 sbc
      by (fastforce simp: ranked_codecs_def GetCodec_def)
  qed
qed

theorem GetConfiguration_result_witness:
  "\<exists>cfg. GetConfiguration
       [\<lparr>remote_seid = 7, remote_id = CodecId_a2dp A2dp_SBC, remote_capabilities = [0x3f, 0xff, 0x02, 0x35]\<rparr>]
       \<lparr>hint_codecId = CodecId_a2dp A2dp_AAC, hint_codecParameters = None\<rparr> = Configured cfg
     \<and> cfg_id cfg \<in> set (map (\<lambda>c. info_id (codec_info c)) ranked_codecs)"
proof -
  let ?R = "[\<lparr>remote_seid = 7, remote_id = CodecId_a2dp A2dp_SBC,
    remote_capabilities = [0x3f, 0xff, 0x02, 0x35]\<rparr>]"
  let ?H = "\<lparr>hint_codecId = CodecId_a2dp A2dp_AAC, hint_codecParameters = None\<rparr>"
  have "case GetConfiguration ?R ?H of Configured _ \<Rightarrow> True | _ \<Rightarrow> False" by code_simp
  then obtain cfg where "GetConfiguration ?R ?H = Configured cfg"
    by (auto split: negotiation.splits)
  with GetConfiguration_result [OF this] show ?thesis by auto
qed

end
