(* ===== verification/Session.thy ===== *)
theory Session
  imports Audio_Types
begin

text \<open>
  The AIDL session (\<open>utils/aidl_session/BluetoothAudioSession.cpp\<close>): the object that the
  provider (the Bluetooth stack's side) and the audio HAL share. An operation is a function
  on the object's state. Calls that leave the object are data: the notifications delivered
  to the registered closures, and the calls made on the stack's binder interface, whose
  success is an argument of the operation. The numeric value of a session type comes from a
  generated header and is the parameter \<open>sc\<close>.
\<close>

section \<open>Cookies of observers\<close>

type_synonym session_code = "SessionType \<Rightarrow> u8"

definition kObserversCookieSize :: u16 where "kObserversCookieSize = 0x0010"

definition kObserversCookieUndefined :: "session_code \<Rightarrow> u16" where
  "kObserversCookieUndefined sc = push_bit 8 (ucast (sc ST_UNKNOWN)) AND 0xff00"

definition ObserversCookieGetSessionType :: "u16 \<Rightarrow> u8" where
  "ObserversCookieGetSessionType cookie = ucast (drop_bit 8 cookie AND 0x00ff)"

definition ObserversCookieGetInitValue :: "session_code \<Rightarrow> SessionType \<Rightarrow> u16" where
  "ObserversCookieGetInitValue sc session_type = push_bit 8 (ucast (sc session_type)) AND 0xff00"

definition ObserversCookieGetUpperBound :: "session_code \<Rightarrow> SessionType \<Rightarrow> u16" where
  "ObserversCookieGetUpperBound sc session_type =
     (push_bit 8 (ucast (sc session_type)) AND 0xff00) + kObserversCookieSize"

section \<open>State\<close>

text \<open>
  A callback is a \<open>std::function\<close>: a closure, named by a number, or empty.
\<close>

record PortStatusCallbacks =
  control_result_cb :: "nat option"
  session_changed_cb :: "nat option"
  audio_configuration_changed_cb :: "nat option"
  low_latency_mode_allowed_cb :: "nat option"

text \<open>
  What a notification loop does: it enters a closure with the given arguments, or calls an
  empty \<open>std::function\<close>, which throws \<open>std::bad_function_call\<close> and leaves the loop.
\<close>

datatype notification =
    ControlResult nat u16 bool BluetoothAudioStatus
  | SessionChanged nat u16
  | AudioConfigurationChanged nat u16
  | LowLatencyModeAllowed nat u16 bool
  | BadFunctionCall

text \<open>A message queue is its descriptor; whether a queue built from it is valid is a field.\<close>

record DataMQ =
  mq_descriptor :: nat
  mq_isValid :: bool

record AudioTrack =
  track_usage :: int
  track_contentType :: int
  track_source :: int
  track_gain :: int
  track_tags :: "string list"

datatype port_call =
    Call_startStream bool
  | Call_suspendStream
  | Call_stopStream
  | Call_getPresentationPosition
  | Call_updateSourceMetadata "AudioTrack list"
  | Call_updateSinkMetadata "AudioTrack list"
  | Call_setLatencyMode LatencyMode

record session =
  s_session_type :: SessionType
  s_stack_iface :: "nat option"
  s_data_mq :: "DataMQ option"
  s_audio_config :: "AudioConfiguration option"
  s_latency_modes :: "LatencyMode list"
  s_low_latency_allowed :: bool
  s_observers :: "(u16 \<times> PortStatusCallbacks) list"

definition BluetoothAudioSession :: "SessionType \<Rightarrow> session" where
  "BluetoothAudioSession session_type =
     \<lparr>s_session_type = session_type, s_stack_iface = None, s_data_mq = None, s_audio_config = None,
      s_latency_modes = [], s_low_latency_allowed = True, s_observers = []\<rparr>"

section \<open>Readiness and configuration\<close>

definition is_hardware_session :: "SessionType \<Rightarrow> bool" where
  "is_hardware_session t \<longleftrightarrow>
     t = A2DP_HARDWARE_OFFLOAD_ENCODING_DATAPATH
   \<or> t = LE_AUDIO_HARDWARE_OFFLOAD_ENCODING_DATAPATH
   \<or> t = LE_AUDIO_HARDWARE_OFFLOAD_DECODING_DATAPATH
   \<or> t = LE_AUDIO_BROADCAST_HARDWARE_OFFLOAD_ENCODING_DATAPATH
   \<or> t = A2DP_HARDWARE_OFFLOAD_DECODING_DATAPATH
   \<or> t = HFP_HARDWARE_OFFLOAD_DATAPATH"

definition IsSessionReady :: "session \<Rightarrow> bool" where
  "IsSessionReady s \<longleftrightarrow>
     (let is_mq_valid = (is_hardware_session (s_session_type s)
            \<or> (case s_data_mq s of None \<Rightarrow> False | Some mq \<Rightarrow> mq_isValid mq))
      in s_stack_iface s \<noteq> None \<and> is_mq_valid \<and> s_audio_config s \<noteq> None)"

definition UpdateDataPath :: "DataMQ option \<Rightarrow> session \<Rightarrow> bool \<times> session" where
  "UpdateDataPath mq_desc s =
     (case mq_desc of
        None \<Rightarrow> (True, s\<lparr>s_data_mq := None\<rparr>)
      | Some mq \<Rightarrow>
          (if \<not> mq_isValid mq then (False, s\<lparr>s_data_mq := None\<rparr>)
           else (True, s\<lparr>s_data_mq := Some mq\<rparr>)))"

definition is_software_session :: "SessionType \<Rightarrow> bool" where
  "is_software_session t \<longleftrightarrow>
     t = A2DP_SOFTWARE_ENCODING_DATAPATH
   \<or> t = HEARING_AID_SOFTWARE_ENCODING_DATAPATH
   \<or> t = HFP_SOFTWARE_ENCODING_DATAPATH
   \<or> t = HFP_SOFTWARE_DECODING_DATAPATH
   \<or> t = LE_AUDIO_SOFTWARE_DECODING_DATAPATH
   \<or> t = LE_AUDIO_SOFTWARE_ENCODING_DATAPATH
   \<or> t = LE_AUDIO_BROADCAST_SOFTWARE_ENCODING_DATAPATH
   \<or> t = A2DP_SOFTWARE_DECODING_DATAPATH"

definition config_accepted :: "SessionType \<Rightarrow> AudioConfiguration \<Rightarrow> bool" where
  "config_accepted t audio_config \<longleftrightarrow>
     (let is_offload_a2dp_session = (t = A2DP_HARDWARE_OFFLOAD_ENCODING_DATAPATH
            \<or> t = A2DP_HARDWARE_OFFLOAD_DECODING_DATAPATH);
          is_offload_hfp_session = (t = HFP_HARDWARE_OFFLOAD_DATAPATH);
          is_offload_le_audio_unicast_session = (t = LE_AUDIO_HARDWARE_OFFLOAD_ENCODING_DATAPATH
            \<or> t = LE_AUDIO_HARDWARE_OFFLOAD_DECODING_DATAPATH);
          is_offload_le_audio_broadcast_session =
            (t = LE_AUDIO_BROADCAST_HARDWARE_OFFLOAD_ENCODING_DATAPATH);
          tag = getTag audio_config
      in (is_software_session t \<and> tag = Tag_pcmConfig)
       \<or> (is_offload_a2dp_session \<and> (tag = Tag_a2dp \<or> tag = Tag_a2dpConfig))
       \<or> (is_offload_hfp_session \<and> tag = Tag_hfpConfig)
       \<or> (is_offload_le_audio_unicast_session \<and> tag = Tag_leAudioConfig)
       \<or> (is_offload_le_audio_broadcast_session \<and> tag = Tag_leAudioBroadcastConfig))"

definition UpdateAudioConfig :: "AudioConfiguration \<Rightarrow> session \<Rightarrow> bool \<times> session" where
  "UpdateAudioConfig audio_config s =
     (if \<not> config_accepted (s_session_type s) audio_config then (False, s)
      else (True, s\<lparr>s_audio_config := Some audio_config\<rparr>))"

fun default_audio_config :: "SessionType \<Rightarrow> AudioConfiguration" where
  "default_audio_config A2DP_HARDWARE_OFFLOAD_ENCODING_DATAPATH = a2dpConfig CodecConfiguration_default"
| "default_audio_config A2DP_HARDWARE_OFFLOAD_DECODING_DATAPATH = a2dpConfig CodecConfiguration_default"
| "default_audio_config HFP_HARDWARE_OFFLOAD_DATAPATH = hfpConfig (HfpConfiguration 0)"
| "default_audio_config LE_AUDIO_HARDWARE_OFFLOAD_ENCODING_DATAPATH = leAudioConfig LeAudioConfiguration_default"
| "default_audio_config LE_AUDIO_HARDWARE_OFFLOAD_DECODING_DATAPATH = leAudioConfig LeAudioConfiguration_default"
| "default_audio_config LE_AUDIO_BROADCAST_HARDWARE_OFFLOAD_ENCODING_DATAPATH =
     leAudioBroadcastConfig LeAudioBroadcastConfiguration_default"
| "default_audio_config _ = pcmConfig PcmConfiguration_default"

text \<open>
  \<open>*s_audio_config\<close> is read only when the session is ready, so the pointer is not null there;
  the equation for a null pointer is never used (see \<open>GetAudioConfig_defined\<close>).
\<close>

definition GetAudioConfig :: "session \<Rightarrow> AudioConfiguration option" where
  "GetAudioConfig s =
     (if \<not> IsSessionReady s then Some (default_audio_config (s_session_type s))
      else s_audio_config s)"

section \<open>Notification loops\<close>

fun notify_all :: "('o \<Rightarrow> notification list) \<Rightarrow> 'o list \<Rightarrow> notification list" where
  "notify_all f [] = []"
| "notify_all f (ob # obs) =
     (if BadFunctionCall \<in> set (f ob) then f ob else f ob @ notify_all f obs)"

definition ReportSessionStatus :: "session \<Rightarrow> notification list" where
  "ReportSessionStatus s =
     notify_all (\<lambda>(cookie, callback).
       case session_changed_cb callback of
         None \<Rightarrow> [BadFunctionCall]
       | Some f \<Rightarrow> [SessionChanged f cookie]) (s_observers s)"

definition ReportControlStatus ::
  "bool \<Rightarrow> BluetoothAudioStatus \<Rightarrow> session \<Rightarrow> notification list" where
  "ReportControlStatus start_resp status s =
     notify_all (\<lambda>(cookie, callback).
       case control_result_cb callback of
         None \<Rightarrow> [BadFunctionCall]
       | Some f \<Rightarrow> [ControlResult f cookie start_resp status]) (s_observers s)"

definition ReportAudioConfigChanged ::
  "AudioConfiguration \<Rightarrow> session \<Rightarrow> notification list \<times> session" where
  "ReportAudioConfigChanged audio_config s =
     (if s_session_type s \<noteq> LE_AUDIO_HARDWARE_OFFLOAD_ENCODING_DATAPATH
         \<and> s_session_type s \<noteq> LE_AUDIO_HARDWARE_OFFLOAD_DECODING_DATAPATH then ([], s)
      else if getTag audio_config \<noteq> Tag_leAudioConfig then ([], s)
      else
        (notify_all (\<lambda>(cookie, callback).
           case audio_configuration_changed_cb callback of
             None \<Rightarrow> []
           | Some f \<Rightarrow> [AudioConfigurationChanged f cookie]) (s_observers s),
         s\<lparr>s_audio_config := Some audio_config\<rparr>))"

definition ReportLowLatencyModeAllowedChanged ::
  "bool \<Rightarrow> session \<Rightarrow> notification list \<times> session" where
  "ReportLowLatencyModeAllowedChanged allowed s =
     (if s_session_type s \<noteq> A2DP_HARDWARE_OFFLOAD_ENCODING_DATAPATH then ([], s)
      else
        let s = s\<lparr>s_low_latency_allowed := allowed\<rparr>;
            s = (if s_low_latency_allowed s \<and> LOW_LATENCY \<notin> set (s_latency_modes s)
                 then s\<lparr>s_latency_modes := s_latency_modes s @ [LOW_LATENCY]\<rparr> else s)
        in (notify_all (\<lambda>(cookie, callback).
              case low_latency_mode_allowed_cb callback of
                None \<Rightarrow> []
              | Some f \<Rightarrow> [LowLatencyModeAllowed f cookie allowed]) (s_observers s), s))"

section \<open>Start and end of a session\<close>

definition OnSessionStarted ::
  "nat option \<Rightarrow> DataMQ option \<Rightarrow> AudioConfiguration \<Rightarrow> LatencyMode list \<Rightarrow> session
     \<Rightarrow> notification list \<times> session" where
  "OnSessionStarted stack_iface mq_desc audio_config latency_modes s =
     (if stack_iface = None then ([], s)
      else let (ok, s) = UpdateAudioConfig audio_config s in
      if \<not> ok then ([], s)
      else let (ok, s) = UpdateDataPath mq_desc s in
      if \<not> ok then ([], s\<lparr>s_audio_config := None\<rparr>)
      else let s = s\<lparr>s_stack_iface := stack_iface, s_latency_modes := latency_modes\<rparr>
      in (ReportSessionStatus s, s))"

definition OnSessionEnded :: "session \<Rightarrow> notification list \<times> session" where
  "OnSessionEnded s =
     (let toggled = IsSessionReady s;
          s = s\<lparr>s_audio_config := None, s_stack_iface := None\<rparr>;
          s = snd (UpdateDataPath None s)
      in (if toggled then ReportSessionStatus s else [], s))"

section \<open>Registration of observers\<close>

function next_cookie :: "(u16 \<times> 'c) list \<Rightarrow> u16 \<Rightarrow> u16 \<Rightarrow> u16" where
  "next_cookie observers cookie cookie_upper_bound =
     (if cookie < cookie_upper_bound \<and> cookie \<in> fst ` set observers
      then next_cookie observers (cookie + 1) cookie_upper_bound
      else cookie)"
  by pat_completeness auto
termination
proof (relation "measure (\<lambda>(obs, cookie, upper). unat upper - unat cookie)")
  fix obs :: "(u16 \<times> 'c) list" and cookie upper :: u16
  assume "cookie < upper \<and> cookie \<in> fst ` set obs"
  then have "unat cookie < unat upper" "unat (cookie + 1) = unat cookie + 1"
    using unat_plus1_less [of cookie upper] by (simp_all add: word_less_nat_alt)
  then show "((obs, cookie + 1, upper), obs, cookie, upper)
      \<in> measure (\<lambda>(obs, cookie, upper). unat upper - unat cookie)" by simp
qed simp

declare next_cookie.simps [simp del]

definition RegisterStatusCback ::
  "session_code \<Rightarrow> PortStatusCallbacks \<Rightarrow> session \<Rightarrow> u16 \<times> session" where
  "RegisterStatusCback sc callbacks s =
     (let cookie_upper_bound = ObserversCookieGetUpperBound sc (s_session_type s);
          cookie = next_cookie (s_observers s)
            (ObserversCookieGetInitValue sc (s_session_type s)) cookie_upper_bound
      in if cookie \<ge> cookie_upper_bound then (kObserversCookieUndefined sc, s)
         else (cookie, s\<lparr>s_observers := s_observers s @ [(cookie, callbacks)]\<rparr>))"

definition UnregisterStatusCback :: "u16 \<Rightarrow> session \<Rightarrow> session" where
  "UnregisterStatusCback cookie s = s\<lparr>s_observers := alist_erase cookie (s_observers s)\<rparr>"

section \<open>Control of the stream\<close>

text \<open>
  \<open>hal_ok\<close> is whether the binder call returned OK. The result is the returned value and the
  calls made on the stack's interface.
\<close>

definition StartStream :: "bool \<Rightarrow> bool \<Rightarrow> session \<Rightarrow> bool \<times> port_call list" where
  "StartStream is_low_latency hal_ok s =
     (if \<not> IsSessionReady s then (False, [])
      else if \<not> hal_ok then (False, [Call_startStream is_low_latency])
      else (True, [Call_startStream is_low_latency]))"

definition SuspendStream :: "bool \<Rightarrow> session \<Rightarrow> bool \<times> port_call list" where
  "SuspendStream hal_ok s =
     (if \<not> IsSessionReady s then (False, [])
      else if \<not> hal_ok then (False, [Call_suspendStream])
      else (True, [Call_suspendStream]))"

definition StopStream :: "session \<Rightarrow> port_call list" where
  "StopStream s = (if \<not> IsSessionReady s then [] else [Call_stopStream])"

text \<open>
  The binder call writes the position (\<open>None\<close>: the call failed). The third component is the
  position that the caller's variable receives.
\<close>

definition GetPresentationPosition ::
  "PresentationPosition option \<Rightarrow> session \<Rightarrow> bool \<times> port_call list \<times> PresentationPosition option"
where
  "GetPresentationPosition hal_position s =
     (if \<not> IsSessionReady s then (False, [], None)
      else let retval = False in
        case hal_position of
          None \<Rightarrow> (False, [Call_getPresentationPosition], None)
        | Some position \<Rightarrow> (retval, [Call_getPresentationPosition], Some position))"

definition is_a2dp_session :: "SessionType \<Rightarrow> bool" where
  "is_a2dp_session t \<longleftrightarrow>
     t = A2DP_SOFTWARE_ENCODING_DATAPATH \<or> t = A2DP_HARDWARE_OFFLOAD_ENCODING_DATAPATH
   \<or> t = A2DP_SOFTWARE_DECODING_DATAPATH \<or> t = A2DP_HARDWARE_OFFLOAD_DECODING_DATAPATH"

definition UpdateSourceMetadata ::
  "AudioTrack list \<Rightarrow> bool \<Rightarrow> session \<Rightarrow> bool \<times> port_call list" where
  "UpdateSourceMetadata hal_source_metadata hal_ok s =
     (if \<not> IsSessionReady s then (False, [])
      else if is_a2dp_session (s_session_type s) then (False, [])
      else (hal_ok, [Call_updateSourceMetadata hal_source_metadata]))"

definition UpdateSinkMetadata ::
  "AudioTrack list \<Rightarrow> bool \<Rightarrow> session \<Rightarrow> bool \<times> port_call list" where
  "UpdateSinkMetadata hal_sink_metadata hal_ok s =
     (if \<not> IsSessionReady s then (False, [])
      else if is_a2dp_session (s_session_type s) then (False, [])
      else (hal_ok, [Call_updateSinkMetadata hal_sink_metadata]))"

text \<open>
  The overloads on the framework's metadata copy the track fields the binder type has: the
  usage, content type and gain of a playback track, the source and gain of a record track.
\<close>

definition UpdateSourceMetadata_tracks ::
  "AudioTrack list \<Rightarrow> bool \<Rightarrow> session \<Rightarrow> bool \<times> port_call list" where
  "UpdateSourceMetadata_tracks tracks hal_ok s =
     UpdateSourceMetadata
       (map (\<lambda>t. \<lparr>track_usage = track_usage t, track_contentType = track_contentType t,
                 track_source = 0, track_gain = track_gain t, track_tags = []\<rparr>) tracks) hal_ok s"

definition UpdateSinkMetadata_tracks ::
  "AudioTrack list \<Rightarrow> bool \<Rightarrow> session \<Rightarrow> bool \<times> port_call list" where
  "UpdateSinkMetadata_tracks tracks hal_ok s =
     UpdateSinkMetadata
       (map (\<lambda>t. \<lparr>track_usage = 0, track_contentType = 0,
                 track_source = track_source t, track_gain = track_gain t, track_tags = []\<rparr>) tracks) hal_ok s"

definition GetSupportedLatencyModes :: "session \<Rightarrow> LatencyMode list" where
  "GetSupportedLatencyModes s =
     (if \<not> IsSessionReady s then []
      else if s_session_type s = LE_AUDIO_HARDWARE_OFFLOAD_ENCODING_DATAPATH
      then filter (\<lambda>mode. \<not> mode = LOW_LATENCY) (s_latency_modes s)
      else filter (\<lambda>mode. \<not> (\<not> s_low_latency_allowed s \<and> mode = LOW_LATENCY)
             \<and> \<not> (mode = DYNAMIC_SPATIAL_AUDIO_SOFTWARE \<or> mode = DYNAMIC_SPATIAL_AUDIO_HARDWARE))
             (s_latency_modes s))"

definition SetLatencyMode :: "LatencyMode \<Rightarrow> session \<Rightarrow> port_call list" where
  "SetLatencyMode latency_mode s =
     (if \<not> IsSessionReady s then [] else [Call_setLatencyMode latency_mode])"

text \<open>
  \<open>IsAidlAvailable\<close> asks the service manager once and remembers the answer.
\<close>

record aidl_check =
  is_aidl_checked :: bool
  is_aidl_available :: bool

definition IsAidlAvailable :: "bool \<Rightarrow> aidl_check \<Rightarrow> bool \<times> aidl_check" where
  "IsAidlAvailable service_found c =
     (if is_aidl_checked c then (is_aidl_available c, c)
      else (service_found, \<lparr>is_aidl_checked = True, is_aidl_available = service_found\<rparr>))"

section \<open>The PCM data path\<close>

text \<open>
  Each round of the transfer loops takes the lock anew, so it may find another state of the
  session. A round's view is a \<open>fmq_poll\<close>: the session, the room or data in the queue, and
  the outcome of writing or reading \<open>n\<close> bytes. The rounds of one call are a function of the
  round's number. A ready offload session has no queue: using it dereferences a null
  pointer, and the transfer is \<^term>\<open>None\<close>.
\<close>

record fmq_poll =
  poll_session :: session
  poll_available :: nat
  poll_write_ok :: bool
  poll_read :: "nat \<Rightarrow> u8 list option"

record pcm_transfer =
  pcm_total :: nat
  pcm_chunks :: "u8 list list"
  pcm_timeout_ms :: nat
  pcm_rounds :: nat

definition kFmqSendTimeoutMs :: nat where "kFmqSendTimeoutMs = 1000"
definition kFmqReceiveTimeoutMs :: nat where "kFmqReceiveTimeoutMs = 1000"
definition kWritePollMs :: nat where "kWritePollMs = 1"
definition kReadPollMs :: nat where "kReadPollMs = 1"

text \<open>
  The body runs with \<open>total_written < bytes\<close>: the function's guard gives it for the first
  round and the loop's condition for the others, so the loop is written with the condition
  in front.
\<close>

function OutWrite_loop ::
  "(nat \<Rightarrow> fmq_poll) \<Rightarrow> u8 list \<Rightarrow> nat \<Rightarrow> pcm_transfer \<Rightarrow> pcm_transfer option" where
  "OutWrite_loop polls buffer bytes t =
     (if \<not> pcm_total t < bytes then Some t
      else
        let poll = polls (pcm_rounds t); t = t\<lparr>pcm_rounds := pcm_rounds t + 1\<rparr> in
        if \<not> IsSessionReady (poll_session poll) then Some t
        else if s_data_mq (poll_session poll) = None then None
        else if poll_available poll \<noteq> 0 then
          (let num_bytes_to_write = min (poll_available poll) (bytes - pcm_total t) in
           if \<not> poll_write_ok poll then Some t
           else OutWrite_loop polls buffer bytes
             (t\<lparr>pcm_total := pcm_total t + num_bytes_to_write,
                pcm_chunks := pcm_chunks t
                  @ [take num_bytes_to_write (drop (pcm_total t) buffer)]\<rparr>))
        else if pcm_timeout_ms t \<ge> kWritePollMs then
          OutWrite_loop polls buffer bytes (t\<lparr>pcm_timeout_ms := pcm_timeout_ms t - kWritePollMs\<rparr>)
        else Some t)"
  by pat_completeness auto
termination
  by (relation "measure (\<lambda>(polls, buffer, bytes, t). bytes - pcm_total t + pcm_timeout_ms t)")
    (auto simp: kWritePollMs_def)

declare OutWrite_loop.simps [simp del]

definition OutWritePcmData ::
  "(nat \<Rightarrow> fmq_poll) \<Rightarrow> u8 list option \<Rightarrow> nat \<Rightarrow> pcm_transfer option" where
  "OutWritePcmData polls buffer bytes =
     (let t = \<lparr>pcm_total = 0, pcm_chunks = [], pcm_timeout_ms = kFmqSendTimeoutMs, pcm_rounds = 0\<rparr>
      in case buffer of
           None \<Rightarrow> Some t
         | Some b \<Rightarrow> if bytes = 0 then Some t else OutWrite_loop polls b bytes t)"

function InRead_loop ::
  "(nat \<Rightarrow> fmq_poll) \<Rightarrow> nat \<Rightarrow> pcm_transfer \<Rightarrow> pcm_transfer option" where
  "InRead_loop polls bytes t =
     (if \<not> pcm_total t < bytes then Some t
      else
        let poll = polls (pcm_rounds t); t = t\<lparr>pcm_rounds := pcm_rounds t + 1\<rparr> in
        if \<not> IsSessionReady (poll_session poll) then Some t
        else if s_data_mq (poll_session poll) = None then None
        else if poll_available poll \<noteq> 0 then
          (let num_bytes_to_read = min (poll_available poll) (bytes - pcm_total t) in
           case poll_read poll num_bytes_to_read of
             None \<Rightarrow> Some t
           | Some data \<Rightarrow> InRead_loop polls bytes
               (t\<lparr>pcm_total := pcm_total t + num_bytes_to_read, pcm_chunks := pcm_chunks t @ [data]\<rparr>))
        else if pcm_timeout_ms t \<ge> kReadPollMs then
          InRead_loop polls bytes (t\<lparr>pcm_timeout_ms := pcm_timeout_ms t - kReadPollMs\<rparr>)
        else Some t)"
  by pat_completeness auto
termination
  by (relation "measure (\<lambda>(polls, bytes, t). bytes - pcm_total t + pcm_timeout_ms t)")
    (auto simp: kReadPollMs_def)

declare InRead_loop.simps [simp del]

text \<open>The caller's buffer after a read: the chunks, over the front of what it held.\<close>

definition buffer_after_read :: "u8 list \<Rightarrow> pcm_transfer \<Rightarrow> u8 list" where
  "buffer_after_read buffer t = concat (pcm_chunks t) @ drop (length (concat (pcm_chunks t))) buffer"

definition InReadPcmData ::
  "(nat \<Rightarrow> fmq_poll) \<Rightarrow> u8 list option \<Rightarrow> nat \<Rightarrow> (u8 list option \<times> pcm_transfer) option" where
  "InReadPcmData polls buffer bytes =
     (let t = \<lparr>pcm_total = 0, pcm_chunks = [], pcm_timeout_ms = kFmqReceiveTimeoutMs, pcm_rounds = 0\<rparr>
      in case buffer of
           None \<Rightarrow> Some (None, t)
         | Some b \<Rightarrow>
             if bytes = 0 then Some (Some b, t)
             else map_option (\<lambda>t. (Some (buffer_after_read b t), t)) (InRead_loop polls bytes t))"

end
