(* ===== verification/Session_Facts.thy ===== *)
theory Session_Facts
  imports Session
begin

text \<open>
  What the AIDL session promises: the invariant of its state over every sequence of
  operations, the registration of observers (an instance of the registry contract that the
  device port relies on), who is notified when, and the bounds of the PCM transfers.
\<close>

section \<open>A registry of callbacks\<close>

text \<open>
  The contract of a session towards its observers, as the port uses it: registering gives a
  key nobody else holds, and unregistering gives it back. \<open>inv\<close> is the session's invariant,
  \<open>lookup\<close> what is registered under a key.
\<close>

locale callback_registry =
  fixes inv :: "'s \<Rightarrow> bool"
    and lookup :: "'s \<Rightarrow> 'k \<Rightarrow> 'c option"
    and register :: "'c \<Rightarrow> 's \<Rightarrow> 'k \<times> 's"
    and unregister :: "'k \<Rightarrow> 's \<Rightarrow> 's"
    and undefined_key :: 'k
  assumes register_inv: "inv s \<Longrightarrow> inv (snd (register c s))"
    and unregister_inv: "inv s \<Longrightarrow> inv (unregister k s)"
    and undefined_unused: "inv s \<Longrightarrow> lookup s undefined_key = None"
    and register_fails: "inv s \<Longrightarrow> fst (register c s) = undefined_key \<Longrightarrow>
      lookup (snd (register c s)) = lookup s"
    and register_fresh: "inv s \<Longrightarrow> lookup s (fst (register c s)) = None"
    and register_lookup: "inv s \<Longrightarrow> fst (register c s) \<noteq> undefined_key \<Longrightarrow>
      lookup (snd (register c s)) = (lookup s)(fst (register c s) \<mapsto> c)"
    and unregister_lookup: "inv s \<Longrightarrow> lookup (unregister k s) = (lookup s)(k := None)"
begin

lemma register_keeps_others:
  assumes "inv s" "lookup s k = Some d"
  shows "lookup (snd (register c s)) k = Some d"
  using assms register_fresh [of s c] register_lookup [of s c] register_fails [of s c] by fastforce

lemma register_unregister:
  assumes "inv s"
  shows "lookup (unregister (fst (register c s)) (snd (register c s))) = lookup s"
proof (cases "fst (register c s) = undefined_key")
  case True
  then show ?thesis
    using assms undefined_unused
    by (simp add: unregister_lookup [OF register_inv] register_fails fun_upd_idem)
next
  case False
  with assms show ?thesis
    by (simp add: unregister_lookup [OF register_inv] register_lookup register_fresh fun_upd_idem)
qed

lemma second_registration_differs:
  assumes "inv s" "fst (register c s) \<noteq> undefined_key"
  shows "fst (register d (snd (register c s))) \<noteq> fst (register c s)"
proof
  assume eq: "fst (register d (snd (register c s))) = fst (register c s)"
  from assms have "lookup (snd (register c s)) (fst (register c s)) = Some c"
    by (simp add: register_lookup)
  with register_fresh [OF register_inv [OF assms(1), of c], of d] eq show False by simp
qed

end

section \<open>The invariant\<close>

definition session_inv :: "session_code \<Rightarrow> session \<Rightarrow> bool" where
  "session_inv sc s \<longleftrightarrow>
     (\<forall>c. s_audio_config s = Some c \<longrightarrow> config_accepted (s_session_type s) c)
   \<and> (\<forall>mq. s_data_mq s = Some mq \<longrightarrow> mq_isValid mq)
   \<and> distinct (map fst (s_observers s))
   \<and> (\<forall>cookie \<in> fst ` set (s_observers s).
        ObserversCookieGetInitValue sc (s_session_type s) \<le> cookie
      \<and> cookie < ObserversCookieGetUpperBound sc (s_session_type s))"

text \<open>The states that a session of a given type can reach.\<close>

inductive session_reach :: "session_code \<Rightarrow> SessionType \<Rightarrow> session \<Rightarrow> bool"
  for sc :: session_code and t :: SessionType where
  created: "session_reach sc t (BluetoothAudioSession t)"
| started: "session_reach sc t s \<Longrightarrow>
    session_reach sc t (snd (OnSessionStarted stack_iface mq_desc audio_config latency_modes s))"
| ended: "session_reach sc t s \<Longrightarrow> session_reach sc t (snd (OnSessionEnded s))"
| reconfigured: "session_reach sc t s \<Longrightarrow>
    session_reach sc t (snd (ReportAudioConfigChanged audio_config s))"
| low_latency: "session_reach sc t s \<Longrightarrow>
    session_reach sc t (snd (ReportLowLatencyModeAllowedChanged allowed s))"
| registered: "session_reach sc t s \<Longrightarrow>
    session_reach sc t (snd (RegisterStatusCback sc callbacks s))"
| unregistered: "session_reach sc t s \<Longrightarrow>
    session_reach sc t (UnregisterStatusCback cookie s)"

lemmas session_ops [session_defs] =
  OnSessionStarted_def OnSessionEnded_def UpdateDataPath_def UpdateAudioConfig_def
  ReportAudioConfigChanged_def ReportLowLatencyModeAllowedChanged_def
  RegisterStatusCback_def UnregisterStatusCback_def BluetoothAudioSession_def Let_def

section \<open>Readiness\<close>

lemma IsSessionReady_iff:
  "IsSessionReady s \<longleftrightarrow> s_stack_iface s \<noteq> None \<and> s_audio_config s \<noteq> None
     \<and> (is_hardware_session (s_session_type s)
        \<or> (\<exists>mq. s_data_mq s = Some mq \<and> mq_isValid mq))"
  by (auto simp: IsSessionReady_def split: option.splits)

lemma hardware_or_software:
  "t \<noteq> ST_UNKNOWN \<Longrightarrow> is_hardware_session t \<longleftrightarrow> \<not> is_software_session t"
  by (cases t) (simp_all add: is_hardware_session_def is_software_session_def)

lemma config_accepted_default:
  "t \<noteq> ST_UNKNOWN \<Longrightarrow> config_accepted t (default_audio_config t)"
  by (cases t) (simp_all add: config_accepted_def is_software_session_def)

lemma config_accepted_same_tag:
  "config_accepted t c \<Longrightarrow> getTag c \<noteq> Tag_a2dp \<Longrightarrow> getTag c = getTag (default_audio_config t)"
  by (cases t) (auto simp: config_accepted_def is_software_session_def Let_def)

lemma config_accepted_software:
  "is_software_session t \<Longrightarrow> config_accepted t c \<longleftrightarrow> (\<exists>p. c = pcmConfig p)"
  by (cases t) (auto simp: config_accepted_def is_software_session_def Let_def getTag_pcm)

section \<open>The next free cookie\<close>

lemma next_cookie_spec:
  assumes "c \<le> u"
  shows "c \<le> next_cookie obs c u \<and> next_cookie obs c u \<le> u
     \<and> (\<forall>k. c \<le> k \<and> k < next_cookie obs c u \<longrightarrow> k \<in> fst ` set obs)
     \<and> (next_cookie obs c u < u \<longrightarrow> next_cookie obs c u \<notin> fst ` set obs)"
  using assms
proof (induction obs c u rule: next_cookie.induct)
  case (1 obs c u)
  show ?case
  proof (cases "c < u \<and> c \<in> fst ` set obs")
    case False
    with "1.prems" show ?thesis by (subst (1 2 3 4 5) next_cookie.simps) auto
  next
    case True
    then have s: "unat (c + 1) = unat c + 1" by (blast intro: unat_plus1_less)
    with True have "c + 1 \<le> u" by (simp add: word_le_nat_alt word_less_nat_alt)
    define r where "r = next_cookie obs (c + 1) u"
    have r: "next_cookie obs c u = r"
      unfolding r_def using True by (subst next_cookie.simps) simp
    from "1.IH" [OF True \<open>c + 1 \<le> u\<close>, folded r_def]
    have IH: "c + 1 \<le> r" "r \<le> u" "r < u \<longrightarrow> r \<notin> fst ` set obs"
      and above: "\<And>k. c + 1 \<le> k \<Longrightarrow> k < r \<Longrightarrow> k \<in> fst ` set obs"
      by blast+
    have "c \<le> c + 1" using s by (simp add: word_le_nat_alt)
    then have "c \<le> r" using IH(1) by (rule order.trans)
    moreover have "k \<in> fst ` set obs" if "c \<le> k" "k < r" for k
    proof (cases "k = c")
      case True
      with \<open>c < u \<and> c \<in> fst ` set obs\<close> show ?thesis by blast
    next
      case False
      with that(1) have "c + 1 \<le> k" by (simp add: inc_le)
      then show ?thesis using that(2) by (rule above)
    qed
    ultimately show ?thesis unfolding r using IH by blast
  qed
qed

lemma cookie_bounds:
  "unat (ObserversCookieGetInitValue sc t) = 256 * unat (sc t)"
  "unat (ObserversCookieGetUpperBound sc t) = 256 * unat (sc t) + 16"
proof -
  have b: "unat (sc t) < 256"
    using unsigned_less [of "sc t"] by simp
  have m: "(0xff00 :: u16) = push_bit 8 (mask 8)" by code_simp
  have e: "push_bit 8 (ucast (sc t)) AND 0xff00 = (push_bit 8 (ucast (sc t)) :: u16)"
    unfolding m push_bit_and [symmetric]
    by (rule bit_word_eqI) (auto simp: bit_simps dest: bit_imp_le_length)
  have p: "unat (push_bit 8 (ucast (sc t)) :: u16) = 256 * unat (sc t)"
  proof -
    have "unat (push_bit 8 (ucast (sc t)) :: u16)
        = take_bit 16 (push_bit 8 (take_bit 16 (unat (sc t))))"
      by (simp only: unsigned_push_bit_eq unsigned_ucast_eq) simp
    with b show ?thesis by (simp add: push_bit_eq_mult take_bit_nat_eq_self)
  qed
  show "unat (ObserversCookieGetInitValue sc t) = 256 * unat (sc t)"
    using p by (simp add: ObserversCookieGetInitValue_def e)
  show "unat (ObserversCookieGetUpperBound sc t) = 256 * unat (sc t) + 16"
    using b p by (simp add: ObserversCookieGetUpperBound_def e unat_word_ariths kObserversCookieSize_def)
qed

lemma cookie_interval:
  "ObserversCookieGetInitValue sc t \<le> k \<and> k < ObserversCookieGetUpperBound sc t
     \<longleftrightarrow> 256 * unat (sc t) \<le> unat k \<and> unat k < 256 * unat (sc t) + 16"
  by (simp add: word_le_nat_alt word_less_nat_alt cookie_bounds)

lemma cookie_bounds_le: "ObserversCookieGetInitValue sc t \<le> ObserversCookieGetUpperBound sc t"
  by (simp add: word_le_nat_alt cookie_bounds)

lemma cookie_session_type:
  assumes "ObserversCookieGetInitValue sc t \<le> k" "k < ObserversCookieGetUpperBound sc t"
  shows "ObserversCookieGetSessionType k = sc t"
proof -
  have m: "(0x00ff :: u16) = mask 8" by code_simp
  have "unat k < 2 ^ LENGTH(16)" by (rule unsigned_less)
  then have "unat (ObserversCookieGetSessionType k) = unat k div 256 mod 256"
    by (simp only: ObserversCookieGetSessionType_def m take_bit_eq_mask [symmetric]
        unsigned_ucast_eq unsigned_take_bit_eq unsigned_drop_bit_eq)
      (simp add: take_bit_eq_mod drop_bit_eq_div)
  moreover have "unat k div 256 = unat (sc t)"
    using assms cookie_interval [of sc t k] by (intro div_nat_eqI) auto
  moreover have "unat (sc t) < 256" using unsigned_less [of "sc t"] by simp
  ultimately show ?thesis by (simp add: word_unat_eq_iff)
qed

lemma undefined_cookie_type: "ObserversCookieGetSessionType (kObserversCookieUndefined sc) = sc ST_UNKNOWN"
  by (rule cookie_session_type)
    (simp_all add: kObserversCookieUndefined_def ObserversCookieGetInitValue_def [symmetric]
      word_less_nat_alt cookie_bounds)

text \<open>All sixteen cookies of a session type are taken exactly when it has sixteen observers.\<close>

lemma observers_full:
  assumes "session_inv sc s"
  shows "length (s_observers s) \<le> 16"
    and "(\<forall>k. ObserversCookieGetInitValue sc (s_session_type s) \<le> k
          \<and> k < ObserversCookieGetUpperBound sc (s_session_type s) \<longrightarrow> k \<in> fst ` set (s_observers s))
        \<longleftrightarrow> length (s_observers s) = 16"
proof -
  define a where "a = 256 * unat (sc (s_session_type s))"
  define K where "K = unat ` fst ` set (s_observers s)"
  have K: "K \<subseteq> {a..<a + 16}"
    using assms unfolding session_inv_def K_def a_def cookie_interval by auto
  have "card K = card (fst ` set (s_observers s))"
    unfolding K_def by (rule card_image, rule inj_onI) (simp add: word_unat_eq_iff)
  also have "\<dots> = length (s_observers s)"
    using assms unfolding session_inv_def by (metis distinct_card length_map set_map)
  finally have c: "card K = length (s_observers s)" .
  with card_mono [OF _ K] show "length (s_observers s) \<le> 16" by simp
  have "(\<forall>k. ObserversCookieGetInitValue sc (s_session_type s) \<le> k
      \<and> k < ObserversCookieGetUpperBound sc (s_session_type s) \<longrightarrow> k \<in> fst ` set (s_observers s))
    \<longleftrightarrow> K = {a..<a + 16}" (is "?all \<longleftrightarrow> _")
  proof
    assume all: ?all
    show "K = {a..<a + 16}"
    proof (rule equalityI [OF K subsetI])
      fix n assume n: "n \<in> {a..<a + 16}"
      have "unat (sc (s_session_type s)) < 256"
        using unsigned_less [of "sc (s_session_type s)"] by simp
      with n have "unat (word_of_nat n :: u16) = n"
        by (simp add: a_def unsigned_of_nat take_bit_nat_eq_self)
      with n all show "n \<in> K"
        unfolding K_def cookie_interval a_def by (metis atLeastLessThan_iff image_eqI)
    qed
  next
    assume "K = {a..<a + 16}"
    then show ?all unfolding cookie_interval K_def a_def
      by (metis (no_types, lifting) atLeastLessThan_iff imageE word_unat_eq_iff)
  qed
  also have "\<dots> \<longleftrightarrow> card K = 16"
    using card_subset_eq [OF _ K] by auto
  finally show "?all \<longleftrightarrow> length (s_observers s) = 16" unfolding c .
qed

section \<open>Every operation keeps the invariant\<close>

lemma session_inv_started:
  "session_inv sc s \<Longrightarrow> session_inv sc (snd (OnSessionStarted iface mq cfg modes s))"
  by (auto simp: session_inv_def session_defs split: option.splits)

lemma session_inv_ended: "session_inv sc s \<Longrightarrow> session_inv sc (snd (OnSessionEnded s))"
  by (auto simp: session_inv_def session_defs)

lemma session_inv_reconfigured:
  "session_inv sc s \<Longrightarrow> session_inv sc (snd (ReportAudioConfigChanged cfg s))"
  by (auto simp: session_inv_def session_defs config_accepted_def)

lemma session_inv_low_latency:
  "session_inv sc s \<Longrightarrow> session_inv sc (snd (ReportLowLatencyModeAllowedChanged allowed s))"
  by (auto simp: session_inv_def session_defs)

lemma session_inv_unregistered:
  "session_inv sc s \<Longrightarrow> session_inv sc (UnregisterStatusCback cookie s)"
  by (auto simp: session_inv_def session_defs alist_erase_distinct alist_erase_keys)

text \<open>The two outcomes of a registration.\<close>

lemma RegisterStatusCback_cases:
  assumes "session_inv sc s"
  obtains (full) "length (s_observers s) = 16"
      "RegisterStatusCback sc callbacks s = (kObserversCookieUndefined sc, s)"
    | (fresh) cookie where "length (s_observers s) < 16" "cookie \<notin> fst ` set (s_observers s)"
      "ObserversCookieGetInitValue sc (s_session_type s) \<le> cookie"
      "cookie < ObserversCookieGetUpperBound sc (s_session_type s)"
      "RegisterStatusCback sc callbacks s
         = (cookie, s\<lparr>s_observers := s_observers s @ [(cookie, callbacks)]\<rparr>)"
proof -
  define c where "c = next_cookie (s_observers s) (ObserversCookieGetInitValue sc (s_session_type s))
    (ObserversCookieGetUpperBound sc (s_session_type s))"
  have spec: "ObserversCookieGetInitValue sc (s_session_type s) \<le> c"
    "c \<le> ObserversCookieGetUpperBound sc (s_session_type s)"
    "\<forall>k. ObserversCookieGetInitValue sc (s_session_type s) \<le> k \<and> k < c \<longrightarrow> k \<in> fst ` set (s_observers s)"
    "c < ObserversCookieGetUpperBound sc (s_session_type s) \<longrightarrow> c \<notin> fst ` set (s_observers s)"
    using next_cookie_spec [OF cookie_bounds_le, of sc "s_session_type s" "s_observers s"]
    unfolding c_def by blast+
  have reg: "RegisterStatusCback sc callbacks s =
    (if ObserversCookieGetUpperBound sc (s_session_type s) \<le> c then (kObserversCookieUndefined sc, s)
     else (c, s\<lparr>s_observers := s_observers s @ [(c, callbacks)]\<rparr>))"
    by (simp add: RegisterStatusCback_def c_def Let_def)
  show thesis
  proof (cases "c < ObserversCookieGetUpperBound sc (s_session_type s)")
    case True
    then have "length (s_observers s) \<noteq> 16"
      using observers_full(2) [OF assms] spec by blast
    with observers_full(1) [OF assms] have "length (s_observers s) < 16" by simp
    with True reg spec show thesis by (intro fresh) auto
  next
    case False
    with spec(2) have "c = ObserversCookieGetUpperBound sc (s_session_type s)" by simp
    with spec(3) observers_full(2) [OF assms] reg show thesis by (intro full) auto
  qed
qed

lemma session_inv_registered:
  assumes "session_inv sc s"
  shows "session_inv sc (snd (RegisterStatusCback sc callbacks s))"
  by (rule RegisterStatusCback_cases [OF assms, of callbacks])
    (use assms in \<open>auto simp: session_inv_def\<close>)

lemma session_reach_type: "session_reach sc t s \<Longrightarrow> s_session_type s = t"
  by (induction rule: session_reach.induct) (auto simp: session_defs split: option.splits)

lemma session_reach_inv: "session_reach sc t s \<Longrightarrow> session_inv sc s"
proof (induction rule: session_reach.induct)
  case created
  show ?case by (simp add: session_inv_def BluetoothAudioSession_def)
qed (auto intro: session_inv_started session_inv_ended session_inv_reconfigured
    session_inv_low_latency session_inv_registered session_inv_unregistered)

section \<open>The session is a callback registry\<close>

definition registry_inv :: "session_code \<Rightarrow> session \<Rightarrow> bool" where
  "registry_inv sc s \<longleftrightarrow> session_inv sc s \<and> sc (s_session_type s) \<noteq> sc ST_UNKNOWN"

lemma undefined_not_registered:
  assumes "registry_inv sc s"
  shows "kObserversCookieUndefined sc \<notin> fst ` set (s_observers s)"
  using assms cookie_session_type [of sc "s_session_type s"] undefined_cookie_type [of sc]
  unfolding registry_inv_def session_inv_def by metis

lemma fresh_cookie_defined:
  assumes "registry_inv sc s" "ObserversCookieGetInitValue sc (s_session_type s) \<le> k"
    "k < ObserversCookieGetUpperBound sc (s_session_type s)"
  shows "k \<noteq> kObserversCookieUndefined sc"
  using assms cookie_session_type [of sc "s_session_type s"] undefined_cookie_type [of sc]
  unfolding registry_inv_def by metis

lemma RegisterStatusCback_type [simp]:
  "s_session_type (snd (RegisterStatusCback sc callbacks s)) = s_session_type s"
  by (simp add: RegisterStatusCback_def Let_def)

lemma observers_lookup_None:
  "map_of (s_observers s) k = None \<longleftrightarrow> k \<notin> fst ` set (s_observers s)"
  by (rule map_of_eq_None_iff)

interpretation aidl: callback_registry "registry_inv sc" "\<lambda>s. map_of (s_observers s)"
  "RegisterStatusCback sc" UnregisterStatusCback "kObserversCookieUndefined sc"
  for sc :: session_code
proof unfold_locales
  fix s c assume inv: "registry_inv sc s"
  then have i: "session_inv sc s" by (simp add: registry_inv_def)
  show "registry_inv sc (snd (RegisterStatusCback sc c s))"
    using inv by (simp add: registry_inv_def session_inv_registered)
  show "registry_inv sc (UnregisterStatusCback k s)" for k
    using inv session_inv_unregistered [OF i]
    by (simp add: registry_inv_def UnregisterStatusCback_def)
  show "map_of (s_observers s) (kObserversCookieUndefined sc) = None"
    using undefined_not_registered [OF inv] by (simp add: observers_lookup_None)
  show "map_of (s_observers (snd (RegisterStatusCback sc c s))) = map_of (s_observers s)"
    if "fst (RegisterStatusCback sc c s) = kObserversCookieUndefined sc"
    by (rule RegisterStatusCback_cases [OF i, of c])
      (use that fresh_cookie_defined [OF inv] in auto)
  show "map_of (s_observers s) (fst (RegisterStatusCback sc c s)) = None"
    by (rule RegisterStatusCback_cases [OF i, of c])
      (use undefined_not_registered [OF inv] in \<open>auto simp: observers_lookup_None\<close>)
  show "map_of (s_observers (snd (RegisterStatusCback sc c s)))
      = (map_of (s_observers s))(fst (RegisterStatusCback sc c s) \<mapsto> c)"
    if "fst (RegisterStatusCback sc c s) \<noteq> kObserversCookieUndefined sc"
    by (rule RegisterStatusCback_cases [OF i, of c])
      (use that in \<open>simp_all add: map_of_append_fresh del: map_of_append\<close>)
  show "map_of (s_observers (UnregisterStatusCback k s)) = (map_of (s_observers s))(k := None)" for k
    by (simp add: UnregisterStatusCback_def alist_erase_map_of)
qed

section \<open>Properties\<close>

text \<open>
  C1: In every reachable state of a session its configuration is of a kind that its type
  accepts, no two of its at most sixteen observers share a cookie, each cookie names the
  session's type, and a software session is ready only with a data queue.
\<close>

theorem session_reachable_invariant:
  assumes "session_reach sc t s" "t \<noteq> ST_UNKNOWN"
  shows "(\<exists>c. GetAudioConfig s = Some c \<and> config_accepted t c)
     \<and> distinct (map fst (s_observers s)) \<and> length (s_observers s) \<le> 16
     \<and> (\<forall>cookie \<in> fst ` set (s_observers s). ObserversCookieGetSessionType cookie = sc t)
     \<and> (IsSessionReady s \<and> is_software_session t \<longrightarrow> s_data_mq s \<noteq> None)"
proof (intro conjI)
  note inv = session_reach_inv [OF assms(1)] and type = session_reach_type [OF assms(1)]
  show "\<exists>c. GetAudioConfig s = Some c \<and> config_accepted t c"
    using inv config_accepted_default [OF assms(2)] type
    by (auto simp: GetAudioConfig_def session_inv_def IsSessionReady_iff)
  show "distinct (map fst (s_observers s))" "length (s_observers s) \<le> 16"
    using inv observers_full(1) [OF inv] by (simp_all add: session_inv_def)
  show "\<forall>cookie \<in> fst ` set (s_observers s). ObserversCookieGetSessionType cookie = sc t"
    using inv cookie_session_type type by (auto simp: session_inv_def)
  show "IsSessionReady s \<and> is_software_session t \<longrightarrow> s_data_mq s \<noteq> None"
    using type hardware_or_software [OF assms(2)] by (auto simp: IsSessionReady_iff)
qed

text \<open>A numbering of the session types, for the examples.\<close>

definition example_code :: session_code where
  "example_code t = (case t of ST_UNKNOWN \<Rightarrow> 0 | A2DP_SOFTWARE_ENCODING_DATAPATH \<Rightarrow> 1
     | LE_AUDIO_SOFTWARE_ENCODING_DATAPATH \<Rightarrow> 4 | _ \<Rightarrow> 14)"

definition example_callbacks :: PortStatusCallbacks where
  "example_callbacks = \<lparr>control_result_cb = Some 1, session_changed_cb = Some 1,
     audio_configuration_changed_cb = Some 1, low_latency_mode_allowed_cb = None\<rparr>"

definition example_session :: session where
  "example_session = snd (OnSessionStarted (Some 7) (Some \<lparr>mq_descriptor = 0, mq_isValid = True\<rparr>)
     (pcmConfig PcmConfiguration_default) [LOW_LATENCY]
     (snd (RegisterStatusCback example_code example_callbacks
       (BluetoothAudioSession A2DP_SOFTWARE_ENCODING_DATAPATH))))"

lemma example_reach:
  "session_reach example_code A2DP_SOFTWARE_ENCODING_DATAPATH example_session"
  unfolding example_session_def by (intro session_reach.intros)

theorem session_reachable_invariant_witness:
  "IsSessionReady example_session \<and> s_data_mq example_session \<noteq> None
     \<and> (\<exists>c. GetAudioConfig example_session = Some c
        \<and> config_accepted A2DP_SOFTWARE_ENCODING_DATAPATH c)"
proof -
  have "IsSessionReady example_session" by code_simp
  with session_reachable_invariant [OF example_reach] show ?thesis
    by (simp add: is_software_session_def)
qed

text \<open>
  C3: Registering an observer fails, with the undefined cookie and no change, exactly when
  the session has sixteen of them; otherwise the cookie is one that no observer holds, names
  the session's type, and is bound to the given callbacks with every other binding kept.
\<close>

theorem RegisterStatusCback_fresh:
  assumes "session_reach sc t s" "sc t \<noteq> sc ST_UNKNOWN"
    and "RegisterStatusCback sc callbacks s = (cookie, s')"
  shows "(cookie = kObserversCookieUndefined sc \<longleftrightarrow> length (s_observers s) = 16)
     \<and> (if length (s_observers s) = 16 then s' = s
        else cookie \<notin> fst ` set (s_observers s)
           \<and> ObserversCookieGetSessionType cookie = sc t
           \<and> map_of (s_observers s') = (map_of (s_observers s))(cookie \<mapsto> callbacks))"
proof -
  note inv = session_reach_inv [OF assms(1)] and type = session_reach_type [OF assms(1)]
  then have r: "registry_inv sc s" using assms(2) by (simp add: registry_inv_def)
  show ?thesis
  proof (rule RegisterStatusCback_cases [OF inv, of callbacks])
    assume "length (s_observers s) = 16"
      "RegisterStatusCback sc callbacks s = (kObserversCookieUndefined sc, s)"
    with assms(3) show ?thesis by simp
  next
    fix c assume c: "length (s_observers s) < 16" "c \<notin> fst ` set (s_observers s)"
      "ObserversCookieGetInitValue sc (s_session_type s) \<le> c"
      "c < ObserversCookieGetUpperBound sc (s_session_type s)"
      "RegisterStatusCback sc callbacks s
        = (c, s\<lparr>s_observers := s_observers s @ [(c, callbacks)]\<rparr>)"
    have e: "cookie = c" "s' = snd (RegisterStatusCback sc callbacks s)"
      using arg_cong [OF assms(3), of fst] arg_cong [OF assms(3), of snd] c(5) by simp_all
    have "c \<noteq> kObserversCookieUndefined sc" using fresh_cookie_defined [OF r c(3,4)] .
    moreover have "map_of (s_observers s') = (map_of (s_observers s))(c \<mapsto> callbacks)"
      using aidl.register_lookup [OF r, of callbacks] c(5) calculation e by simp
    moreover have "ObserversCookieGetSessionType c = sc t"
      using cookie_session_type [OF c(3,4)] type by simp
    ultimately show ?thesis using c(1,2) e by simp
  qed
qed

theorem RegisterStatusCback_fresh_witness:
  "fst (RegisterStatusCback example_code example_callbacks example_session) = 0x0101
     \<and> (0x0101 :: u16) \<notin> fst ` set (s_observers example_session)"
proof -
  have "fst (RegisterStatusCback example_code example_callbacks example_session) = 0x0101"
    "length (s_observers example_session) \<noteq> 16" by code_simp+
  moreover have "example_code A2DP_SOFTWARE_ENCODING_DATAPATH \<noteq> example_code ST_UNKNOWN"
    by (simp add: example_code_def)
  ultimately show ?thesis
    using RegisterStatusCback_fresh [OF example_reach _ prod.collapse [symmetric],
      of example_callbacks] by simp
qed

section \<open>Who is notified\<close>

lemma notify_all_map:
  assumes "\<And>ob. ob \<in> set obs \<Longrightarrow> f ob = [g ob]" "\<And>ob. ob \<in> set obs \<Longrightarrow> g ob \<noteq> BadFunctionCall"
  shows "notify_all f obs = map g obs"
  using assms
proof (induction obs)
  case (Cons ob obs)
  then have "notify_all f obs = map g obs" "f ob = [g ob]" "g ob \<noteq> BadFunctionCall" by auto
  then show ?case by auto
qed simp

lemma ReportSessionStatus_all:
  assumes "\<forall>ob \<in> set (s_observers s). session_changed_cb (snd ob) \<noteq> None"
  shows "ReportSessionStatus s
    = map (\<lambda>(cookie, cb). SessionChanged (the (session_changed_cb cb)) cookie) (s_observers s)"
  unfolding ReportSessionStatus_def using assms
  by (intro notify_all_map) auto

lemma ReportControlStatus_all:
  assumes "\<forall>ob \<in> set (s_observers s). control_result_cb (snd ob) \<noteq> None"
  shows "ReportControlStatus start_resp status s
    = map (\<lambda>(cookie, cb). ControlResult (the (control_result_cb cb)) cookie start_resp status)
        (s_observers s)"
  unfolding ReportControlStatus_def using assms
  by (intro notify_all_map) auto

text \<open>
  C8: A session start takes effect exactly when the stack gave an interface, the
  configuration is of the session's kind and the queue descriptor, if any, is valid; then
  every field is the given one and the observers are told, also those of an offload session
  that is ready without a queue. A start that is refused tells nobody; it leaves the session
  as ready as it was, except that an invalid descriptor makes a ready session not ready.
\<close>

theorem OnSessionStarted_outcome:
  "case OnSessionStarted stack_iface mq_desc audio_config latency_modes s of (notified, s') \<Rightarrow>
     if stack_iface \<noteq> None \<and> config_accepted (s_session_type s) audio_config
        \<and> (\<forall>mq. mq_desc = Some mq \<longrightarrow> mq_isValid mq)
     then notified = ReportSessionStatus s \<and> s_latency_modes s' = latency_modes
        \<and> (IsSessionReady s' \<longleftrightarrow> is_hardware_session (s_session_type s) \<or> mq_desc \<noteq> None)
        \<and> (IsSessionReady s' \<longrightarrow> GetAudioConfig s' = Some audio_config)
     else notified = [] \<and> s_observers s' = s_observers s
        \<and> (IsSessionReady s' \<longleftrightarrow> IsSessionReady s
             \<and> (stack_iface = None \<or> \<not> config_accepted (s_session_type s) audio_config))"
  by (auto simp: session_defs IsSessionReady_iff GetAudioConfig_def ReportSessionStatus_def
      split: option.splits)

theorem OnSessionStarted_outcome_witness:
  "\<exists>s'. OnSessionStarted (Some 7) None (hfpConfig (HfpConfiguration 0)) []
       (BluetoothAudioSession HFP_HARDWARE_OFFLOAD_DATAPATH) = ([], s')
     \<and> IsSessionReady s' \<and> GetAudioConfig s' = Some (hfpConfig (HfpConfiguration 0))"
proof -
  let ?s = "BluetoothAudioSession HFP_HARDWARE_OFFLOAD_DATAPATH"
  obtain notified s' where eq: "OnSessionStarted (Some 7) None (hfpConfig (HfpConfiguration 0)) [] ?s
      = (notified, s')" by (rule prod.exhaust)
  have "config_accepted (s_session_type ?s) (hfpConfig (HfpConfiguration 0))"
    "is_hardware_session (s_session_type ?s)" "ReportSessionStatus ?s = []" by code_simp+
  then show ?thesis
    using OnSessionStarted_outcome [where stack_iface = "Some 7" and mq_desc = None and s = ?s
        and audio_config = "hfpConfig (HfpConfiguration 0)" and latency_modes = "[]"] eq
    by simp
qed

text \<open>
  C7: The end of a session leaves it not ready, and each observer is told exactly once, in
  the order of the map, when the session was ready and otherwise not at all.
\<close>

theorem OnSessionEnded_notifies:
  assumes "\<forall>ob \<in> set (s_observers s). session_changed_cb (snd ob) \<noteq> None"
    and "OnSessionEnded s = (notified, s')"
  shows "\<not> IsSessionReady s' \<and> s_observers s' = s_observers s \<and> s_data_mq s' = None
     \<and> notified = (if IsSessionReady s
          then map (\<lambda>(cookie, cb). SessionChanged (the (session_changed_cb cb)) cookie) (s_observers s)
          else [])"
proof -
  have "\<forall>ob \<in> set (s_observers s'). session_changed_cb (snd ob) \<noteq> None"
    "s_observers s' = s_observers s"
    using assms by (auto simp: OnSessionEnded_def UpdateDataPath_def Let_def)
  then show ?thesis
    using assms(2) ReportSessionStatus_all [of s']
    by (auto simp: OnSessionEnded_def UpdateDataPath_def Let_def IsSessionReady_iff)
qed

theorem OnSessionEnded_notifies_witness:
  "fst (OnSessionEnded example_session) = [SessionChanged 1 0x0100]"
proof -
  have "\<forall>ob \<in> set (s_observers example_session). session_changed_cb (snd ob) \<noteq> None"
    "IsSessionReady example_session"
    "map (\<lambda>(cookie, cb). SessionChanged (the (session_changed_cb cb)) cookie)
       (s_observers example_session) = [SessionChanged 1 0x0100]" by code_simp+
  then show ?thesis
    using OnSessionEnded_notifies [OF _ prod.collapse [symmetric], of example_session] by simp
qed

section \<open>PCM transfers\<close>

text \<open>
  Why a transfer stops: all bytes are through, or in its last round the session was not
  ready, the queue refused, or the queue stayed empty for the whole timeout.
\<close>

definition transfer_stopped :: "(nat \<Rightarrow> fmq_poll) \<Rightarrow> nat \<Rightarrow> (fmq_poll \<Rightarrow> nat \<Rightarrow> bool) \<Rightarrow> pcm_transfer \<Rightarrow> bool" where
  "transfer_stopped polls bytes refuses t \<longleftrightarrow>
     (pcm_total t = bytes \<or>
      (0 < pcm_rounds t \<and>
       (let poll = polls (pcm_rounds t - 1) in
          \<not> IsSessionReady (poll_session poll)
        \<or> (poll_available poll \<noteq> 0 \<and> refuses poll (min (poll_available poll) (bytes - pcm_total t)))
        \<or> (poll_available poll = 0 \<and> pcm_timeout_ms t = 0))))"

definition write_post ::
  "(nat \<Rightarrow> fmq_poll) \<Rightarrow> u8 list \<Rightarrow> nat \<Rightarrow> pcm_transfer \<Rightarrow> pcm_transfer \<Rightarrow> bool" where
  "write_post polls buffer bytes t t' \<longleftrightarrow>
     pcm_total t' \<le> bytes \<and> concat (pcm_chunks t') = take (pcm_total t') buffer
     \<and> pcm_timeout_ms t' \<le> pcm_timeout_ms t
     \<and> pcm_rounds t' + pcm_timeout_ms t' + pcm_total t
          \<le> pcm_rounds t + pcm_timeout_ms t + pcm_total t' + 1
     \<and> transfer_stopped polls bytes (\<lambda>p n. \<not> poll_write_ok p) t'"

lemma OutWrite_loop_result:
  assumes queue: "\<forall>i. IsSessionReady (poll_session (polls i)) \<longrightarrow> s_data_mq (poll_session (polls i)) \<noteq> None"
    and bytes: "bytes \<le> length buffer" and "pcm_total t \<le> bytes"
    and "concat (pcm_chunks t) = take (pcm_total t) buffer"
  shows "\<exists>t'. OutWrite_loop polls buffer bytes t = Some t' \<and> write_post polls buffer bytes t t'"
  using assms(3,4)
proof (induction "bytes - pcm_total t + pcm_timeout_ms t" arbitrary: t rule: less_induct)
  case less
  define p where "p = polls (pcm_rounds t)"
  define n where "n = min (poll_available p) (bytes - pcm_total t)"
  define t1 where "t1 = t\<lparr>pcm_rounds := pcm_rounds t + 1\<rparr>"
  note simps = OutWrite_loop.simps [of polls buffer bytes t, unfolded Let_def, folded p_def t1_def]
  have mq: "s_data_mq (poll_session p) \<noteq> None" if "IsSessionReady (poll_session p)"
    using queue that by (simp add: p_def)
  have t1: "pcm_total t1 = pcm_total t" "pcm_chunks t1 = pcm_chunks t"
    "pcm_timeout_ms t1 = pcm_timeout_ms t" "pcm_rounds t1 = pcm_rounds t + 1"
    by (simp_all add: t1_def)
  consider (complete) "\<not> pcm_total t < bytes"
    | (stop) "pcm_total t < bytes" "\<not> IsSessionReady (poll_session p)
        \<or> (poll_available p \<noteq> 0 \<and> \<not> poll_write_ok p)
        \<or> (poll_available p = 0 \<and> pcm_timeout_ms t = 0)"
    | (transfer) "pcm_total t < bytes" "IsSessionReady (poll_session p)"
        "poll_available p \<noteq> 0" "poll_write_ok p"
    | (sleep) "pcm_total t < bytes" "IsSessionReady (poll_session p)"
        "poll_available p = 0" "0 < pcm_timeout_ms t" by fastforce
  then show ?case
  proof cases
    case complete
    with less.prems show ?thesis by (auto simp: simps transfer_stopped_def write_post_def)
  next
    case stop
    then have "OutWrite_loop polls buffer bytes t = Some t1"
      using mq by (auto simp: simps t1 kWritePollMs_def)
    moreover have "transfer_stopped polls bytes (\<lambda>p n. \<not> poll_write_ok p) t1"
      using stop(2) by (auto simp: transfer_stopped_def t1 p_def [symmetric])
    ultimately show ?thesis using less.prems by (simp add: t1 write_post_def)
  next
    case transfer
    define t2 where "t2 = t1\<lparr>pcm_total := pcm_total t1 + n,
      pcm_chunks := pcm_chunks t1 @ [take n (drop (pcm_total t1) buffer)]\<rparr>"
    have eq: "OutWrite_loop polls buffer bytes t = OutWrite_loop polls buffer bytes t2"
      using transfer mq by (auto simp: simps n_def t1 t2_def)
    have n: "0 < n" "pcm_total t + n \<le> bytes" using transfer by (auto simp: n_def)
    have t2: "pcm_total t2 = pcm_total t + n" "pcm_timeout_ms t2 = pcm_timeout_ms t"
      "pcm_rounds t2 = pcm_rounds t + 1" by (simp_all add: t2_def t1)
    have "concat (pcm_chunks t2) = take (pcm_total t2) buffer"
      using less.prems by (simp add: t2_def t1 take_add)
    moreover have "bytes - pcm_total t2 + pcm_timeout_ms t2 < bytes - pcm_total t + pcm_timeout_ms t"
      using n by (simp add: t2)
    ultimately obtain t' where "OutWrite_loop polls buffer bytes t2 = Some t'"
      "write_post polls buffer bytes t2 t'"
      using less.hyps [of t2] n by (auto simp: t2)
    then show ?thesis unfolding eq using n by (auto simp: t2 write_post_def)
  next
    case sleep
    define t2 where "t2 = t1\<lparr>pcm_timeout_ms := pcm_timeout_ms t1 - kWritePollMs\<rparr>"
    have eq: "OutWrite_loop polls buffer bytes t = OutWrite_loop polls buffer bytes t2"
      using sleep mq by (auto simp: simps t1 t2_def kWritePollMs_def)
    have t2: "pcm_total t2 = pcm_total t" "pcm_timeout_ms t2 = pcm_timeout_ms t - 1"
      "pcm_chunks t2 = pcm_chunks t" "pcm_rounds t2 = pcm_rounds t + 1"
      by (simp_all add: t2_def t1 kWritePollMs_def)
    have "bytes - pcm_total t2 + pcm_timeout_ms t2 < bytes - pcm_total t + pcm_timeout_ms t"
      using sleep by (simp add: t2)
    from less.hyps [OF this] obtain t' where "OutWrite_loop polls buffer bytes t2 = Some t'"
      "write_post polls buffer bytes t2 t'"
      using less.prems by (auto simp: t2)
    then show ?thesis unfolding eq using sleep by (auto simp: t2 write_post_def)
  qed
qed

text \<open>The queue's contract for reads: a read of \<open>n\<close> bytes that succeeds gives \<open>n\<close> bytes.\<close>

definition fmq_reads :: "(nat \<Rightarrow> fmq_poll) \<Rightarrow> bool" where
  "fmq_reads polls \<longleftrightarrow> (\<forall>i n d. poll_read (polls i) n = Some d \<longrightarrow> length d = n)"

definition read_post :: "(nat \<Rightarrow> fmq_poll) \<Rightarrow> nat \<Rightarrow> pcm_transfer \<Rightarrow> pcm_transfer \<Rightarrow> bool" where
  "read_post polls bytes t t' \<longleftrightarrow>
     pcm_total t' \<le> bytes \<and> length (concat (pcm_chunks t')) = pcm_total t'
     \<and> pcm_timeout_ms t' \<le> pcm_timeout_ms t
     \<and> pcm_rounds t' + pcm_timeout_ms t' + pcm_total t
          \<le> pcm_rounds t + pcm_timeout_ms t + pcm_total t' + 1
     \<and> transfer_stopped polls bytes (\<lambda>p n. poll_read p n = None) t'"

lemma InRead_loop_result:
  assumes queue: "\<forall>i. IsSessionReady (poll_session (polls i)) \<longrightarrow> s_data_mq (poll_session (polls i)) \<noteq> None"
    and reads: "fmq_reads polls" and "pcm_total t \<le> bytes"
    and "length (concat (pcm_chunks t)) = pcm_total t"
  shows "\<exists>t'. InRead_loop polls bytes t = Some t' \<and> read_post polls bytes t t'"
  using assms(3,4)
proof (induction "bytes - pcm_total t + pcm_timeout_ms t" arbitrary: t rule: less_induct)
  case less
  define p where "p = polls (pcm_rounds t)"
  define n where "n = min (poll_available p) (bytes - pcm_total t)"
  define t1 where "t1 = t\<lparr>pcm_rounds := pcm_rounds t + 1\<rparr>"
  note simps = InRead_loop.simps [of polls bytes t, unfolded Let_def, folded p_def t1_def]
  have mq: "s_data_mq (poll_session p) \<noteq> None" if "IsSessionReady (poll_session p)"
    using queue that by (simp add: p_def)
  have t1: "pcm_total t1 = pcm_total t" "pcm_chunks t1 = pcm_chunks t"
    "pcm_timeout_ms t1 = pcm_timeout_ms t" "pcm_rounds t1 = pcm_rounds t + 1"
    by (simp_all add: t1_def)
  consider (complete) "\<not> pcm_total t < bytes"
    | (stop) "pcm_total t < bytes" "\<not> IsSessionReady (poll_session p)
        \<or> (poll_available p \<noteq> 0 \<and> poll_read p n = None)
        \<or> (poll_available p = 0 \<and> pcm_timeout_ms t = 0)"
    | (transfer) data where "pcm_total t < bytes" "IsSessionReady (poll_session p)"
        "poll_available p \<noteq> 0" "poll_read p n = Some data"
    | (sleep) "pcm_total t < bytes" "IsSessionReady (poll_session p)"
        "poll_available p = 0" "0 < pcm_timeout_ms t" by fastforce
  then show ?case
  proof cases
    case complete
    with less.prems show ?thesis by (auto simp: simps transfer_stopped_def read_post_def)
  next
    case stop
    then have "InRead_loop polls bytes t = Some t1"
      using mq by (auto simp: simps t1 n_def kReadPollMs_def)
    moreover have "transfer_stopped polls bytes (\<lambda>p n. poll_read p n = None) t1"
      using stop(2) by (auto simp: transfer_stopped_def t1 n_def p_def [symmetric])
    ultimately show ?thesis using less.prems by (simp add: t1 read_post_def)
  next
    case transfer
    define t2 where "t2 = t1\<lparr>pcm_total := pcm_total t1 + n, pcm_chunks := pcm_chunks t1 @ [data]\<rparr>"
    have eq: "InRead_loop polls bytes t = InRead_loop polls bytes t2"
      using transfer mq by (auto simp: simps n_def t1 t2_def)
    have n: "0 < n" "pcm_total t + n \<le> bytes" using transfer by (auto simp: n_def)
    have t2: "pcm_total t2 = pcm_total t + n" "pcm_timeout_ms t2 = pcm_timeout_ms t"
      "pcm_rounds t2 = pcm_rounds t + 1" by (simp_all add: t2_def t1)
    have "length data = n" using transfer(4) reads unfolding fmq_reads_def p_def by blast
    then have "length (concat (pcm_chunks t2)) = pcm_total t2"
      using less.prems by (simp add: t2_def t1)
    moreover have "bytes - pcm_total t2 + pcm_timeout_ms t2 < bytes - pcm_total t + pcm_timeout_ms t"
      using n by (simp add: t2)
    ultimately obtain t' where "InRead_loop polls bytes t2 = Some t'" "read_post polls bytes t2 t'"
      using less.hyps [of t2] n by (auto simp: t2)
    then show ?thesis unfolding eq using n by (auto simp: t2 read_post_def)
  next
    case sleep
    define t2 where "t2 = t1\<lparr>pcm_timeout_ms := pcm_timeout_ms t1 - kReadPollMs\<rparr>"
    have eq: "InRead_loop polls bytes t = InRead_loop polls bytes t2"
      using sleep mq by (auto simp: simps t1 t2_def kReadPollMs_def)
    have t2: "pcm_total t2 = pcm_total t" "pcm_timeout_ms t2 = pcm_timeout_ms t - 1"
      "pcm_chunks t2 = pcm_chunks t" "pcm_rounds t2 = pcm_rounds t + 1"
      by (simp_all add: t2_def t1 kReadPollMs_def)
    have "bytes - pcm_total t2 + pcm_timeout_ms t2 < bytes - pcm_total t + pcm_timeout_ms t"
      using sleep by (simp add: t2)
    from less.hyps [OF this] obtain t' where "InRead_loop polls bytes t2 = Some t'"
      "read_post polls bytes t2 t'"
      using less.prems by (auto simp: t2)
    then show ?thesis unfolding eq using sleep by (auto simp: t2 read_post_def)
  qed
qed

text \<open>
  C4: A write to a session whose queue is there whenever it is ready always returns, within
  one second of waiting and one round per byte at most; the bytes that entered the queue are
  exactly the first \<open>total\<close> bytes of the caller's buffer, in order; and it stops short of
  all bytes only because the session stopped being ready, the queue refused, or it stayed
  full for the whole second.
\<close>

theorem OutWritePcmData_result:
  assumes "\<forall>i. IsSessionReady (poll_session (polls i)) \<longrightarrow> s_data_mq (poll_session (polls i)) \<noteq> None"
    and "bytes \<le> length buffer"
  shows "\<exists>t. OutWritePcmData polls (Some buffer) bytes = Some t
     \<and> pcm_total t \<le> bytes \<and> concat (pcm_chunks t) = take (pcm_total t) buffer
     \<and> pcm_timeout_ms t \<le> 1000
     \<and> pcm_rounds t \<le> pcm_total t + (1000 - pcm_timeout_ms t) + 1
     \<and> transfer_stopped polls bytes (\<lambda>p n. \<not> poll_write_ok p) t"
proof -
  let ?t = "\<lparr>pcm_total = 0, pcm_chunks = [], pcm_timeout_ms = 1000, pcm_rounds = 0\<rparr>"
  obtain t where "OutWrite_loop polls buffer bytes ?t = Some t" "write_post polls buffer bytes ?t t"
    using OutWrite_loop_result [OF assms, of ?t] by auto
  then show ?thesis
    by (cases "bytes = 0")
      (auto simp: OutWritePcmData_def kFmqSendTimeoutMs_def write_post_def transfer_stopped_def)
qed

text \<open>
  C5: A read likewise returns; the caller's buffer keeps its length, starts with exactly the
  bytes that left the queue, in order, and is unchanged after them.
\<close>

theorem InReadPcmData_result:
  assumes "\<forall>i. IsSessionReady (poll_session (polls i)) \<longrightarrow> s_data_mq (poll_session (polls i)) \<noteq> None"
    and "fmq_reads polls" "bytes \<le> length buffer"
  shows "\<exists>b t. InReadPcmData polls (Some buffer) bytes = Some (Some b, t)
     \<and> pcm_total t \<le> bytes \<and> length b = length buffer
     \<and> take (pcm_total t) b = concat (pcm_chunks t) \<and> drop (pcm_total t) b = drop (pcm_total t) buffer
     \<and> pcm_rounds t \<le> pcm_total t + (1000 - pcm_timeout_ms t) + 1
     \<and> transfer_stopped polls bytes (\<lambda>p n. poll_read p n = None) t"
proof -
  let ?t = "\<lparr>pcm_total = 0, pcm_chunks = [], pcm_timeout_ms = 1000, pcm_rounds = 0\<rparr>"
  obtain t where t: "InRead_loop polls bytes ?t = Some t" "read_post polls bytes ?t t"
    using InRead_loop_result [OF assms(1,2), of ?t bytes] by auto
  then have "length (buffer_after_read buffer t) = length buffer"
    "take (pcm_total t) (buffer_after_read buffer t) = concat (pcm_chunks t)"
    "drop (pcm_total t) (buffer_after_read buffer t) = drop (pcm_total t) buffer"
    using assms(3) by (simp_all add: read_post_def buffer_after_read_def)
  with t show ?thesis
    by (cases "bytes = 0")
      (auto simp: InReadPcmData_def kFmqReceiveTimeoutMs_def read_post_def transfer_stopped_def)
qed

text \<open>A queue that has room for four bytes in every other round, for the examples.\<close>

definition example_polls :: "nat \<Rightarrow> fmq_poll" where
  "example_polls i = \<lparr>poll_session = example_session, poll_available = (if even i then 0 else 4),
     poll_write_ok = True, poll_read = (\<lambda>n. Some (replicate n 9))\<rparr>"

lemma example_queue:
  "s_data_mq (poll_session (example_polls i)) \<noteq> None" "fmq_reads example_polls"
proof -
  have "s_data_mq example_session \<noteq> None" by code_simp
  then show "s_data_mq (poll_session (example_polls i)) \<noteq> None" by (simp add: example_polls_def)
  show "fmq_reads example_polls" by (auto simp: fmq_reads_def example_polls_def)
qed

theorem OutWritePcmData_result_witness:
  "\<exists>t. OutWritePcmData example_polls (Some [1, 2, 3, 4, 5, 6]) 6 = Some t \<and> pcm_total t = 6
     \<and> pcm_timeout_ms t = 998 \<and> concat (pcm_chunks t) = [1, 2, 3, 4, 5, 6]"
proof -
  have 1: "map_option (\<lambda>t. (pcm_total t, pcm_timeout_ms t))
    (OutWritePcmData example_polls (Some [1, 2, 3, 4, 5, 6]) 6) = Some (6, 998)" by code_simp
  obtain t where t: "OutWritePcmData example_polls (Some [1, 2, 3, 4, 5, 6]) 6 = Some t"
    "concat (pcm_chunks t) = take (pcm_total t) [1, 2, 3, 4, 5, 6]"
    using OutWritePcmData_result [of example_polls 6 "[1, 2, 3, 4, 5, 6]"] example_queue(1) by auto
  with 1 have "pcm_total t = 6" "pcm_timeout_ms t = 998" by simp_all
  with t show ?thesis by simp
qed

theorem InReadPcmData_result_witness:
  "\<exists>b t. InReadPcmData example_polls (Some [0, 0, 0, 0, 0, 7]) 5 = Some (Some b, t)
     \<and> b = [9, 9, 9, 9, 9, 7] \<and> drop (pcm_total t) b = drop (pcm_total t) [0, 0, 0, 0, 0, 7]"
proof -
  have 1: "map_option fst (InReadPcmData example_polls (Some [0, 0, 0, 0, 0, 7]) 5)
    = Some (Some [9, 9, 9, 9, 9, 7])" by code_simp
  obtain b t where t: "InReadPcmData example_polls (Some [0, 0, 0, 0, 0, 7]) 5 = Some (Some b, t)"
    "drop (pcm_total t) b = drop (pcm_total t) [0, 0, 0, 0, 0, 7]"
    using InReadPcmData_result [of example_polls 5 "[0, 0, 0, 0, 0, 7]"] example_queue by auto
  with 1 have "b = [9, 9, 9, 9, 9, 7]" by simp
  with t show ?thesis by blast
qed

text \<open>
  The readiness of an offload session does not depend on the queue. Writing or reading
  PCM data there dereferences a null queue; the callers are to use the software sessions only.
\<close>

theorem offload_session_pcm_undefined:
  assumes "is_hardware_session (s_session_type s)" "IsSessionReady s" "s_data_mq s = None"
    and "poll_session (polls 0) = s" "0 < bytes"
  shows "OutWritePcmData polls (Some buffer) bytes = None
     \<and> InReadPcmData polls (Some buffer) bytes = None"
  using assms
  by (simp add: OutWritePcmData_def InReadPcmData_def OutWrite_loop.simps InRead_loop.simps)

definition example_offload :: session where
  "example_offload = snd (OnSessionStarted (Some 7) None (hfpConfig (HfpConfiguration 0)) []
     (BluetoothAudioSession HFP_HARDWARE_OFFLOAD_DATAPATH))"

theorem offload_session_pcm_undefined_witness:
  "OutWritePcmData (\<lambda>i. (example_polls i)\<lparr>poll_session := example_offload\<rparr>) (Some [1]) 1 = None"
proof -
  have "is_hardware_session (s_session_type example_offload)" "IsSessionReady example_offload"
    "s_data_mq example_offload = None" by code_simp+
  from offload_session_pcm_undefined [OF this] show ?thesis by simp
qed

text \<open>
  The latency modes a client is offered: modes the stack gave, spatial audio only for LE
  audio offload encoding, low latency never there and elsewhere only while allowed. A change
  of the permission on a ready A2DP offload session decides whether low latency is offered,
  even when the stack had not listed it.
\<close>

theorem GetSupportedLatencyModes_spec:
  "(mode \<in> set (GetSupportedLatencyModes s) \<longleftrightarrow>
      IsSessionReady s \<and> mode \<in> set (s_latency_modes s)
    \<and> (if s_session_type s = LE_AUDIO_HARDWARE_OFFLOAD_ENCODING_DATAPATH then mode \<noteq> LOW_LATENCY
       else mode \<notin> {DYNAMIC_SPATIAL_AUDIO_SOFTWARE, DYNAMIC_SPATIAL_AUDIO_HARDWARE}
          \<and> (mode = LOW_LATENCY \<longrightarrow> s_low_latency_allowed s)))
   \<and> (s_session_type s = A2DP_HARDWARE_OFFLOAD_ENCODING_DATAPATH \<longrightarrow>
      (LOW_LATENCY \<in> set (GetSupportedLatencyModes (snd (ReportLowLatencyModeAllowedChanged allowed s)))
       \<longleftrightarrow> IsSessionReady s \<and> allowed))"
  by (auto simp: GetSupportedLatencyModes_def ReportLowLatencyModeAllowedChanged_def
      IsSessionReady_iff Let_def)

definition example_a2dp_offload :: session where
  "example_a2dp_offload = snd (OnSessionStarted (Some 7) None (a2dpConfig CodecConfiguration_default)
     [FREE] (BluetoothAudioSession A2DP_HARDWARE_OFFLOAD_ENCODING_DATAPATH))"

theorem GetSupportedLatencyModes_spec_witness:
  "LOW_LATENCY \<notin> set (GetSupportedLatencyModes example_a2dp_offload)
   \<and> LOW_LATENCY \<in> set (GetSupportedLatencyModes
        (snd (ReportLowLatencyModeAllowedChanged True example_a2dp_offload)))"
proof -
  have "IsSessionReady example_a2dp_offload" "LOW_LATENCY \<notin> set (s_latency_modes example_a2dp_offload)"
    "s_session_type example_a2dp_offload = A2DP_HARDWARE_OFFLOAD_ENCODING_DATAPATH" by code_simp+
  then show ?thesis
    using GetSupportedLatencyModes_spec [of LOW_LATENCY example_a2dp_offload True] by simp
qed

end
