(* ===== verification/Session_Control.thy ===== *)
theory Session_Control
  imports Session_Facts
begin

text \<open>
  The sessions of the process and the two static interfaces to them: the audio HAL's
  (\<open>BluetoothAudioSessionControl.h\<close>) and the provider's (\<open>BluetoothAudioSessionReport.h\<close>).
  The map of instances is the process-wide state. An instance is created by the first call
  that names its type and lives as long as the process, so a shared pointer to it is its type.
\<close>

type_synonym sessions_map = "SessionType \<Rightarrow> session option"

definition GetSessionInstance :: "SessionType \<Rightarrow> sessions_map \<Rightarrow> session \<times> sessions_map" where
  "GetSessionInstance session_type sessions =
     (case sessions session_type of
        Some s \<Rightarrow> (s, sessions)
      | None \<Rightarrow> (let s = BluetoothAudioSession session_type
                 in (s, sessions(session_type \<mapsto> s))))"

text \<open>A call of a method of the instance, which is never null.\<close>

definition on_session :: "SessionType \<Rightarrow> (session \<Rightarrow> 'r \<times> session) \<Rightarrow> sessions_map \<Rightarrow> 'r \<times> sessions_map"
where
  "on_session session_type method sessions =
     (let (s, sessions) = GetSessionInstance session_type sessions; (r, s') = method s
      in (r, sessions(session_type \<mapsto> s')))"

section \<open>The control interface\<close>

definition Control_IsSessionReady :: "SessionType \<Rightarrow> sessions_map \<Rightarrow> bool \<times> sessions_map" where
  "Control_IsSessionReady t = on_session t (\<lambda>s. (IsSessionReady s, s))"

definition RegisterControlResultCback ::
  "session_code \<Rightarrow> SessionType \<Rightarrow> PortStatusCallbacks \<Rightarrow> sessions_map \<Rightarrow> u16 \<times> sessions_map" where
  "RegisterControlResultCback sc t cbacks = on_session t (RegisterStatusCback sc cbacks)"

definition UnregisterControlResultCback :: "SessionType \<Rightarrow> u16 \<Rightarrow> sessions_map \<Rightarrow> sessions_map" where
  "UnregisterControlResultCback t cookie sessions =
     snd (on_session t (\<lambda>s. ((), UnregisterStatusCback cookie s)) sessions)"

definition Control_GetAudioConfig ::
  "SessionType \<Rightarrow> sessions_map \<Rightarrow> AudioConfiguration option \<times> sessions_map" where
  "Control_GetAudioConfig t = on_session t (\<lambda>s. (GetAudioConfig s, s))"

definition Control_StartStream ::
  "SessionType \<Rightarrow> bool \<Rightarrow> bool \<Rightarrow> sessions_map \<Rightarrow> (bool \<times> port_call list) \<times> sessions_map" where
  "Control_StartStream t low_latency hal_ok = on_session t (\<lambda>s. (StartStream low_latency hal_ok s, s))"

definition Control_SuspendStream ::
  "SessionType \<Rightarrow> bool \<Rightarrow> sessions_map \<Rightarrow> (bool \<times> port_call list) \<times> sessions_map" where
  "Control_SuspendStream t hal_ok = on_session t (\<lambda>s. (SuspendStream hal_ok s, s))"

definition Control_StopStream :: "SessionType \<Rightarrow> sessions_map \<Rightarrow> port_call list \<times> sessions_map" where
  "Control_StopStream t = on_session t (\<lambda>s. (StopStream s, s))"

definition Control_GetPresentationPosition ::
  "SessionType \<Rightarrow> PresentationPosition option \<Rightarrow> sessions_map
     \<Rightarrow> (bool \<times> port_call list \<times> PresentationPosition option) \<times> sessions_map" where
  "Control_GetPresentationPosition t hal_position =
     on_session t (\<lambda>s. (GetPresentationPosition hal_position s, s))"

definition Control_UpdateSourceMetadata ::
  "SessionType \<Rightarrow> AudioTrack list \<Rightarrow> bool \<Rightarrow> sessions_map \<Rightarrow> port_call list \<times> sessions_map" where
  "Control_UpdateSourceMetadata t tracks hal_ok =
     on_session t (\<lambda>s. (snd (UpdateSourceMetadata_tracks tracks hal_ok s), s))"

definition Control_UpdateSinkMetadata ::
  "SessionType \<Rightarrow> AudioTrack list \<Rightarrow> bool \<Rightarrow> sessions_map \<Rightarrow> port_call list \<times> sessions_map" where
  "Control_UpdateSinkMetadata t tracks hal_ok =
     on_session t (\<lambda>s. (snd (UpdateSinkMetadata_tracks tracks hal_ok s), s))"

definition Control_UpdateSourceMetadata_aidl ::
  "SessionType \<Rightarrow> AudioTrack list \<Rightarrow> bool \<Rightarrow> sessions_map \<Rightarrow> (bool \<times> port_call list) \<times> sessions_map"
where
  "Control_UpdateSourceMetadata_aidl t metadata hal_ok =
     on_session t (\<lambda>s. (UpdateSourceMetadata metadata hal_ok s, s))"

definition Control_UpdateSinkMetadata_aidl ::
  "SessionType \<Rightarrow> AudioTrack list \<Rightarrow> bool \<Rightarrow> sessions_map \<Rightarrow> (bool \<times> port_call list) \<times> sessions_map"
where
  "Control_UpdateSinkMetadata_aidl t metadata hal_ok =
     on_session t (\<lambda>s. (UpdateSinkMetadata metadata hal_ok s, s))"

definition Control_GetSupportedLatencyModes ::
  "SessionType \<Rightarrow> sessions_map \<Rightarrow> LatencyMode list \<times> sessions_map" where
  "Control_GetSupportedLatencyModes t = on_session t (\<lambda>s. (GetSupportedLatencyModes s, s))"

definition Control_SetLatencyMode ::
  "SessionType \<Rightarrow> LatencyMode \<Rightarrow> sessions_map \<Rightarrow> port_call list \<times> sessions_map" where
  "Control_SetLatencyMode t mode = on_session t (\<lambda>s. (SetLatencyMode mode s, s))"

text \<open>
  The PCM transfers look at the session anew in every round, so they take the rounds of the
  call in place of the map (see \<^theory_text>\<open>Session\<close>); creating the instance is their
  only effect on it.
\<close>

definition Control_OutWritePcmData ::
  "SessionType \<Rightarrow> (nat \<Rightarrow> fmq_poll) \<Rightarrow> u8 list option \<Rightarrow> nat \<Rightarrow> sessions_map
     \<Rightarrow> pcm_transfer option \<times> sessions_map" where
  "Control_OutWritePcmData t polls buffer bytes =
     on_session t (\<lambda>s. (OutWritePcmData polls buffer bytes, s))"

definition Control_InReadPcmData ::
  "SessionType \<Rightarrow> (nat \<Rightarrow> fmq_poll) \<Rightarrow> u8 list option \<Rightarrow> nat \<Rightarrow> sessions_map
     \<Rightarrow> (u8 list option \<times> pcm_transfer) option \<times> sessions_map" where
  "Control_InReadPcmData t polls buffer bytes =
     on_session t (\<lambda>s. (InReadPcmData polls buffer bytes, s))"

section \<open>The report interface\<close>

definition Report_OnSessionStarted ::
  "SessionType \<Rightarrow> nat option \<Rightarrow> DataMQ option \<Rightarrow> AudioConfiguration \<Rightarrow> LatencyMode list
     \<Rightarrow> sessions_map \<Rightarrow> notification list \<times> sessions_map" where
  "Report_OnSessionStarted t host_iface data_mq audio_config latency_modes =
     on_session t (OnSessionStarted host_iface data_mq audio_config latency_modes)"

definition Report_OnSessionEnded :: "SessionType \<Rightarrow> sessions_map \<Rightarrow> notification list \<times> sessions_map" where
  "Report_OnSessionEnded t = on_session t OnSessionEnded"

definition Report_ReportControlStatus ::
  "SessionType \<Rightarrow> bool \<Rightarrow> BluetoothAudioStatus \<Rightarrow> sessions_map \<Rightarrow> notification list \<times> sessions_map" where
  "Report_ReportControlStatus t start_resp status =
     on_session t (\<lambda>s. (ReportControlStatus start_resp status s, s))"

definition Report_ReportAudioConfigChanged ::
  "SessionType \<Rightarrow> AudioConfiguration \<Rightarrow> sessions_map \<Rightarrow> notification list \<times> sessions_map" where
  "Report_ReportAudioConfigChanged t audio_config = on_session t (ReportAudioConfigChanged audio_config)"

definition Report_ReportLowLatencyModeAllowedChanged ::
  "SessionType \<Rightarrow> bool \<Rightarrow> sessions_map \<Rightarrow> notification list \<times> sessions_map" where
  "Report_ReportLowLatencyModeAllowedChanged t allowed =
     on_session t (ReportLowLatencyModeAllowedChanged allowed)"

section \<open>The abstract view: one session per type\<close>

text \<open>
  Creation on demand cannot be observed: the sessions are a total function, and a call acts
  on its argument's value only.
\<close>

definition session_of :: "sessions_map \<Rightarrow> SessionType \<Rightarrow> session" where
  "session_of sessions t =
     (case sessions t of None \<Rightarrow> BluetoothAudioSession t | Some s \<Rightarrow> s)"

lemma on_session_result: "fst (on_session t method sessions) = fst (method (session_of sessions t))"
  by (simp add: on_session_def GetSessionInstance_def session_of_def Let_def split: option.split prod.split)

lemma on_session_session_of:
  "session_of (snd (on_session t method sessions))
     = (session_of sessions)(t := snd (method (session_of sessions t)))"
  by (rule ext)
    (simp add: on_session_def GetSessionInstance_def session_of_def Let_def split: option.split prod.split)

lemma session_of_start: "session_of (\<lambda>t. None) = BluetoothAudioSession"
  by (rule ext) (simp add: session_of_def)

text \<open>A query leaves every session as it is.\<close>

lemma on_session_query:
  "(\<And>s. snd (method s) = s) \<Longrightarrow> session_of (snd (on_session t method sessions)) = session_of sessions"
  by (simp add: on_session_session_of)

lemmas control_defs =
  Control_IsSessionReady_def RegisterControlResultCback_def UnregisterControlResultCback_def
  Control_GetAudioConfig_def Control_StartStream_def Control_SuspendStream_def
  Control_StopStream_def Control_GetPresentationPosition_def Control_UpdateSourceMetadata_def
  Control_UpdateSinkMetadata_def Control_GetSupportedLatencyModes_def Control_SetLatencyMode_def
  Control_OutWritePcmData_def Control_InReadPcmData_def

lemmas report_defs =
  Report_OnSessionStarted_def Report_OnSessionEnded_def Report_ReportControlStatus_def
  Report_ReportAudioConfigChanged_def Report_ReportLowLatencyModeAllowedChanged_def

definition sessions_inv :: "session_code \<Rightarrow> sessions_map \<Rightarrow> bool" where
  "sessions_inv sc sessions \<longleftrightarrow>
     (\<forall>t. session_inv sc (session_of sessions t) \<and> s_session_type (session_of sessions t) = t)"

lemma sessions_inv_update:
  assumes "sessions_inv sc sessions"
    and "\<And>s. session_inv sc s \<Longrightarrow> session_inv sc (snd (method s)) \<and> s_session_type (snd (method s)) = s_session_type s"
  shows "sessions_inv sc (snd (on_session t method sessions))"
  using assms unfolding sessions_inv_def on_session_session_of by auto

end
