(* ===== verification/Codec_Db.thy ===== *)
theory Codec_Db
  imports Audio_Types
begin

text \<open>
  The tables of supported configurations (\<open>utils/aidl_session/BluetoothAudioCodecs.cpp\<close>): what
  the providers advertise, and the checks a configuration passes before a session starts.
\<close>

section \<open>Capability tables\<close>

record PcmCapabilities =
  pcmcap_sampleRateHz :: "int list"
  pcmcap_channelMode :: "ChannelMode list"
  pcmcap_bitsPerSample :: "u8 list"
  pcmcap_dataIntervalUs :: "int list"

record SbcCapabilities =
  sbccap_sampleRateHz :: "int list"
  sbccap_channelMode :: "SbcChannelMode list"
  sbccap_blockLength :: "u8 list"
  sbccap_numSubbands :: "u8 list"
  sbccap_allocMethod :: "SbcAllocMethod list"
  sbccap_bitsPerSample :: "u8 list"
  sbccap_minBitpool :: u8
  sbccap_maxBitpool :: u8

record AacCapabilities =
  aaccap_objectType :: "AacObjectType list"
  aaccap_sampleRateHz :: "int list"
  aaccap_channelMode :: "ChannelMode list"
  aaccap_variableBitRateSupported :: bool
  aaccap_bitsPerSample :: "u8 list"

record LdacCapabilities =
  ldaccap_sampleRateHz :: "int list"
  ldaccap_channelMode :: "LdacChannelMode list"
  ldaccap_qualityIndex :: "LdacQualityIndex list"
  ldaccap_bitsPerSample :: "u8 list"

record AptxCapabilities =
  aptxcap_sampleRateHz :: "int list"
  aptxcap_channelMode :: "ChannelMode list"
  aptxcap_bitsPerSample :: "u8 list"

record OpusCapabilities =
  opuscap_samplingFrequencyHz :: "int list"
  opuscap_frameDurationUs :: "int list"
  opuscap_channelMode :: "ChannelMode list"

datatype Capabilities =
    noCapabilities
  | sbcCapabilities SbcCapabilities
  | aacCapabilities AacCapabilities
  | ldacCapabilities LdacCapabilities
  | aptxCapabilities AptxCapabilities
  | opusCapabilities OpusCapabilities

record CodecCapabilities =
  cap_codecType :: CodecType
  cap_capabilities :: Capabilities

definition kDefaultSoftwarePcmCapabilities :: PcmCapabilities where
  "kDefaultSoftwarePcmCapabilities =
     \<lparr>pcmcap_sampleRateHz = [8000, 16000, 24000, 32000, 44100, 48000, 88200, 96000],
      pcmcap_channelMode = [CM_MONO, CM_STEREO],
      pcmcap_bitsPerSample = [16, 24, 32],
      pcmcap_dataIntervalUs = []\<rparr>"

definition kDefaultOffloadSbcCapability :: SbcCapabilities where
  "kDefaultOffloadSbcCapability =
     \<lparr>sbccap_sampleRateHz = [44100],
      sbccap_channelMode = [SbcCM_MONO, SbcCM_JOINT_STEREO],
      sbccap_blockLength = [4, 8, 12, 16],
      sbccap_numSubbands = [8],
      sbccap_allocMethod = [ALLOC_MD_L],
      sbccap_bitsPerSample = [16],
      sbccap_minBitpool = 2,
      sbccap_maxBitpool = 53\<rparr>"

definition kDefaultOffloadAacCapability :: AacCapabilities where
  "kDefaultOffloadAacCapability =
     \<lparr>aaccap_objectType = [MPEG2_LC],
      aaccap_sampleRateHz = [44100],
      aaccap_channelMode = [CM_STEREO],
      aaccap_variableBitRateSupported = True,
      aaccap_bitsPerSample = [16]\<rparr>"

definition kDefaultOffloadLdacCapability :: LdacCapabilities where
  "kDefaultOffloadLdacCapability =
     \<lparr>ldaccap_sampleRateHz = [44100, 48000, 88200, 96000],
      ldaccap_channelMode = [LdacCM_DUAL, LdacCM_STEREO],
      ldaccap_qualityIndex = [LdacQI_HIGH],
      ldaccap_bitsPerSample = [16, 24, 32]\<rparr>"

definition kDefaultOffloadAptxCapability :: AptxCapabilities where
  "kDefaultOffloadAptxCapability =
     \<lparr>aptxcap_sampleRateHz = [44100, 48000],
      aptxcap_channelMode = [CM_STEREO],
      aptxcap_bitsPerSample = [16]\<rparr>"

definition kDefaultOffloadAptxHdCapability :: AptxCapabilities where
  "kDefaultOffloadAptxHdCapability =
     \<lparr>aptxcap_sampleRateHz = [44100, 48000],
      aptxcap_channelMode = [CM_STEREO],
      aptxcap_bitsPerSample = [24]\<rparr>"

definition kDefaultOffloadOpusCapability :: OpusCapabilities where
  "kDefaultOffloadOpusCapability =
     \<lparr>opuscap_samplingFrequencyHz = [48000],
      opuscap_frameDurationUs = [10000, 20000],
      opuscap_channelMode = [CM_MONO, CM_STEREO]\<rparr>"

definition kDefaultOffloadA2dpCodecCapabilities :: "CodecCapabilities list" where
  "kDefaultOffloadA2dpCodecCapabilities =
     map (\<lambda>t. \<lparr>cap_codecType = t, cap_capabilities = noCapabilities\<rparr>)
       [CT_SBC, CT_AAC, CT_LDAC, CT_APTX, CT_APTX_HD, CT_OPUS]"

section \<open>Checks of a configuration\<close>

definition ContainedInVector :: "'a list \<Rightarrow> 'a \<Rightarrow> bool" where
  "ContainedInVector vector target = (List.find (\<lambda>x. x = target) vector \<noteq> None)"

lemma ContainedInVector_iff [simp]: "ContainedInVector v x \<longleftrightarrow> x \<in> set v"
  using find_None [of "\<lambda>y. y = x" v] by (auto simp: ContainedInVector_def)

fun IsOffloadSbcConfigurationValid :: "CodecSpecific \<Rightarrow> bool" where
  "IsOffloadSbcConfigurationValid (sbcConfig sbc_data) =
     (let cap = kDefaultOffloadSbcCapability in
      ContainedInVector (sbccap_sampleRateHz cap) (sbc_sampleRateHz sbc_data)
    \<and> ContainedInVector (sbccap_blockLength cap) (sbc_blockLength sbc_data)
    \<and> ContainedInVector (sbccap_numSubbands cap) (sbc_numSubbands sbc_data)
    \<and> ContainedInVector (sbccap_bitsPerSample cap) (sbc_bitsPerSample sbc_data)
    \<and> ContainedInVector (sbccap_channelMode cap) (sbc_channelMode sbc_data)
    \<and> ContainedInVector (sbccap_allocMethod cap) (sbc_allocMethod sbc_data)
    \<and> sbc_minBitpool sbc_data \<le> sbc_maxBitpool sbc_data
    \<and> sbccap_minBitpool cap \<le> sbc_minBitpool sbc_data
    \<and> sbccap_maxBitpool cap \<ge> sbc_maxBitpool sbc_data)"
| "IsOffloadSbcConfigurationValid _ = False"

fun IsOffloadAacConfigurationValid :: "CodecSpecific \<Rightarrow> bool" where
  "IsOffloadAacConfigurationValid (aacConfig aac_data) =
     (let cap = kDefaultOffloadAacCapability in
      ContainedInVector (aaccap_sampleRateHz cap) (aac_sampleRateHz aac_data)
    \<and> ContainedInVector (aaccap_bitsPerSample cap) (aac_bitsPerSample aac_data)
    \<and> ContainedInVector (aaccap_channelMode cap) (aac_channelMode aac_data)
    \<and> ContainedInVector (aaccap_objectType cap) (aac_objectType aac_data)
    \<and> (\<not> aac_variableBitRateEnabled aac_data \<or> aaccap_variableBitRateSupported cap))"
| "IsOffloadAacConfigurationValid _ = False"

fun IsOffloadLdacConfigurationValid :: "CodecSpecific \<Rightarrow> bool" where
  "IsOffloadLdacConfigurationValid (ldacConfig ldac_data) =
     (let cap = kDefaultOffloadLdacCapability in
      ContainedInVector (ldaccap_sampleRateHz cap) (ldac_sampleRateHz ldac_data)
    \<and> ContainedInVector (ldaccap_bitsPerSample cap) (ldac_bitsPerSample ldac_data)
    \<and> ContainedInVector (ldaccap_channelMode cap) (ldac_channelMode ldac_data)
    \<and> ContainedInVector (ldaccap_qualityIndex cap) (ldac_qualityIndex ldac_data))"
| "IsOffloadLdacConfigurationValid _ = False"

fun IsOffloadAptxConfigurationValid :: "CodecSpecific \<Rightarrow> bool" where
  "IsOffloadAptxConfigurationValid (aptxConfig aptx_data) =
     (let cap = kDefaultOffloadAptxCapability in
      ContainedInVector (aptxcap_sampleRateHz cap) (aptx_sampleRateHz aptx_data)
    \<and> ContainedInVector (aptxcap_bitsPerSample cap) (aptx_bitsPerSample aptx_data)
    \<and> ContainedInVector (aptxcap_channelMode cap) (aptx_channelMode aptx_data))"
| "IsOffloadAptxConfigurationValid _ = False"

fun IsOffloadAptxHdConfigurationValid :: "CodecSpecific \<Rightarrow> bool" where
  "IsOffloadAptxHdConfigurationValid (aptxConfig aptx_data) =
     (let cap = kDefaultOffloadAptxHdCapability in
      ContainedInVector (aptxcap_sampleRateHz cap) (aptx_sampleRateHz aptx_data)
    \<and> ContainedInVector (aptxcap_bitsPerSample cap) (aptx_bitsPerSample aptx_data)
    \<and> ContainedInVector (aptxcap_channelMode cap) (aptx_channelMode aptx_data))"
| "IsOffloadAptxHdConfigurationValid _ = False"

fun IsOffloadOpusConfigurationValid :: "CodecSpecific \<Rightarrow> bool" where
  "IsOffloadOpusConfigurationValid (opusConfig (Some opus_data)) =
     (let cap = kDefaultOffloadOpusCapability in
      ContainedInVector (opuscap_samplingFrequencyHz cap) (opus_samplingFrequencyHz opus_data)
    \<and> ContainedInVector (opuscap_frameDurationUs cap) (opus_frameDurationUs opus_data)
    \<and> ContainedInVector (opuscap_channelMode cap) (opus_channelMode opus_data))"
| "IsOffloadOpusConfigurationValid _ = False"

definition IsSoftwarePcmConfigurationValid :: "PcmConfiguration \<Rightarrow> bool" where
  "IsSoftwarePcmConfigurationValid pcm_config \<longleftrightarrow>
     (let cap = kDefaultSoftwarePcmCapabilities in
      ContainedInVector (pcmcap_sampleRateHz cap) (sampleRateHz pcm_config)
    \<and> ContainedInVector (pcmcap_bitsPerSample cap) (bitsPerSample pcm_config)
    \<and> ContainedInVector (pcmcap_channelMode cap) (pcm_channelMode pcm_config))"

definition IsOffloadCodecConfigurationValid :: "SessionType \<Rightarrow> CodecConfiguration \<Rightarrow> bool" where
  "IsOffloadCodecConfigurationValid session_type cc =
     (if session_type \<noteq> A2DP_HARDWARE_OFFLOAD_ENCODING_DATAPATH
         \<and> session_type \<noteq> A2DP_HARDWARE_OFFLOAD_DECODING_DATAPATH then False
      else let codec_specific = codec_config cc in
      case codecType cc of
        CT_SBC \<Rightarrow> IsOffloadSbcConfigurationValid codec_specific
      | CT_AAC \<Rightarrow> IsOffloadAacConfigurationValid codec_specific
      | CT_LDAC \<Rightarrow> IsOffloadLdacConfigurationValid codec_specific
      | CT_APTX \<Rightarrow> IsOffloadAptxConfigurationValid codec_specific
      | CT_APTX_HD \<Rightarrow> IsOffloadAptxHdConfigurationValid codec_specific
      | CT_OPUS \<Rightarrow> IsOffloadOpusConfigurationValid codec_specific
      | _ \<Rightarrow> False)"

section \<open>What is advertised\<close>

definition GetSoftwarePcmCapabilities :: "PcmCapabilities list" where
  "GetSoftwarePcmCapabilities = [kDefaultSoftwarePcmCapabilities]"

fun fill_capability :: "CodecCapabilities \<Rightarrow> CodecCapabilities" where
  "fill_capability c =
     (case cap_codecType c of
        CT_SBC \<Rightarrow> c\<lparr>cap_capabilities := sbcCapabilities kDefaultOffloadSbcCapability\<rparr>
      | CT_AAC \<Rightarrow> c\<lparr>cap_capabilities := aacCapabilities kDefaultOffloadAacCapability\<rparr>
      | CT_LDAC \<Rightarrow> c\<lparr>cap_capabilities := ldacCapabilities kDefaultOffloadLdacCapability\<rparr>
      | CT_APTX \<Rightarrow> c\<lparr>cap_capabilities := aptxCapabilities kDefaultOffloadAptxCapability\<rparr>
      | CT_APTX_HD \<Rightarrow> c\<lparr>cap_capabilities := aptxCapabilities kDefaultOffloadAptxHdCapability\<rparr>
      | CT_OPUS \<Rightarrow> c\<lparr>cap_capabilities := opusCapabilities kDefaultOffloadOpusCapability\<rparr>
      | _ \<Rightarrow> c)"

definition GetA2dpOffloadCodecCapabilities :: "SessionType \<Rightarrow> CodecCapabilities list" where
  "GetA2dpOffloadCodecCapabilities session_type =
     (if session_type \<noteq> A2DP_HARDWARE_OFFLOAD_ENCODING_DATAPATH
         \<and> session_type \<noteq> A2DP_HARDWARE_OFFLOAD_DECODING_DATAPATH then []
      else map fill_capability kDefaultOffloadA2dpCodecCapabilities)"

definition is_le_offload_session :: "SessionType \<Rightarrow> bool" where
  "is_le_offload_session t \<longleftrightarrow>
     t = LE_AUDIO_HARDWARE_OFFLOAD_ENCODING_DATAPATH
   \<or> t = LE_AUDIO_HARDWARE_OFFLOAD_DECODING_DATAPATH
   \<or> t = LE_AUDIO_BROADCAST_HARDWARE_OFFLOAD_ENCODING_DATAPATH"

text \<open>
  The LE audio lists are cached in globals. \<open>parsed\<close> is what the settings file gives. In
  \<open>GetLeAudioOffloadCodecInfo\<close> the parsed map initialises a local variable that has the name
  of the global one, so the global stays as it was.
\<close>

definition GetLeAudioOffloadCodecCapabilities ::
  "'cap list \<Rightarrow> SessionType \<Rightarrow> 'cap list \<Rightarrow> 'cap list \<times> 'cap list" where
  "GetLeAudioOffloadCodecCapabilities parsed session_type global =
     (if \<not> is_le_offload_session session_type then ([], global)
      else let global = (if global = [] then parsed else global) in (global, global))"

definition GetLeAudioOffloadCodecInfo ::
  "(SessionType \<times> 'info list) list \<Rightarrow> SessionType \<Rightarrow> (SessionType \<times> 'info list) list
     \<Rightarrow> 'info list \<times> (SessionType \<times> 'info list) list" where
  "GetLeAudioOffloadCodecInfo parsed session_type global =
     (if \<not> is_le_offload_session session_type then ([], global)
      else let local_map = (if global = [] then parsed else []) in
        case map_of global session_type of
          None \<Rightarrow> ([], global)
        | Some info \<Rightarrow> (info, global))"

section \<open>Properties\<close>

text \<open>When an advertised capability admits a codec's settings.\<close>

fun capability_admits :: "Capabilities \<Rightarrow> CodecSpecific \<Rightarrow> bool" where
  "capability_admits (sbcCapabilities c) (sbcConfig s) \<longleftrightarrow>
     sbc_sampleRateHz s \<in> set (sbccap_sampleRateHz c) \<and> sbc_channelMode s \<in> set (sbccap_channelMode c)
   \<and> sbc_blockLength s \<in> set (sbccap_blockLength c) \<and> sbc_numSubbands s \<in> set (sbccap_numSubbands c)
   \<and> sbc_allocMethod s \<in> set (sbccap_allocMethod c) \<and> sbc_bitsPerSample s \<in> set (sbccap_bitsPerSample c)
   \<and> {sbc_minBitpool s..sbc_maxBitpool s} \<noteq> {}
   \<and> {sbc_minBitpool s..sbc_maxBitpool s} \<subseteq> {sbccap_minBitpool c..sbccap_maxBitpool c}"
| "capability_admits (aacCapabilities c) (aacConfig s) \<longleftrightarrow>
     aac_objectType s \<in> set (aaccap_objectType c) \<and> aac_sampleRateHz s \<in> set (aaccap_sampleRateHz c)
   \<and> aac_channelMode s \<in> set (aaccap_channelMode c) \<and> aac_bitsPerSample s \<in> set (aaccap_bitsPerSample c)
   \<and> (aac_variableBitRateEnabled s \<longrightarrow> aaccap_variableBitRateSupported c)"
| "capability_admits (ldacCapabilities c) (ldacConfig s) \<longleftrightarrow>
     ldac_sampleRateHz s \<in> set (ldaccap_sampleRateHz c) \<and> ldac_channelMode s \<in> set (ldaccap_channelMode c)
   \<and> ldac_qualityIndex s \<in> set (ldaccap_qualityIndex c) \<and> ldac_bitsPerSample s \<in> set (ldaccap_bitsPerSample c)"
| "capability_admits (aptxCapabilities c) (aptxConfig s) \<longleftrightarrow>
     aptx_sampleRateHz s \<in> set (aptxcap_sampleRateHz c) \<and> aptx_channelMode s \<in> set (aptxcap_channelMode c)
   \<and> aptx_bitsPerSample s \<in> set (aptxcap_bitsPerSample c)"
| "capability_admits (opusCapabilities c) (opusConfig (Some s)) \<longleftrightarrow>
     opus_samplingFrequencyHz s \<in> set (opuscap_samplingFrequencyHz c)
   \<and> opus_frameDurationUs s \<in> set (opuscap_frameDurationUs c)
   \<and> opus_channelMode s \<in> set (opuscap_channelMode c)"
| "capability_admits _ _ \<longleftrightarrow> False"

lemma advertised_capability:
  "t = A2DP_HARDWARE_OFFLOAD_ENCODING_DATAPATH \<or> t = A2DP_HARDWARE_OFFLOAD_DECODING_DATAPATH \<Longrightarrow>
     set (GetA2dpOffloadCodecCapabilities t) =
      {\<lparr>cap_codecType = CT_SBC, cap_capabilities = sbcCapabilities kDefaultOffloadSbcCapability\<rparr>,
       \<lparr>cap_codecType = CT_AAC, cap_capabilities = aacCapabilities kDefaultOffloadAacCapability\<rparr>,
       \<lparr>cap_codecType = CT_LDAC, cap_capabilities = ldacCapabilities kDefaultOffloadLdacCapability\<rparr>,
       \<lparr>cap_codecType = CT_APTX, cap_capabilities = aptxCapabilities kDefaultOffloadAptxCapability\<rparr>,
       \<lparr>cap_codecType = CT_APTX_HD, cap_capabilities = aptxCapabilities kDefaultOffloadAptxHdCapability\<rparr>,
       \<lparr>cap_codecType = CT_OPUS, cap_capabilities = opusCapabilities kDefaultOffloadOpusCapability\<rparr>}"
  by (auto simp: GetA2dpOffloadCodecCapabilities_def kDefaultOffloadA2dpCodecCapabilities_def)

lemma codec_checks_admit:
  "IsOffloadSbcConfigurationValid s \<longleftrightarrow> capability_admits (sbcCapabilities kDefaultOffloadSbcCapability) s"
  "IsOffloadAacConfigurationValid s \<longleftrightarrow> capability_admits (aacCapabilities kDefaultOffloadAacCapability) s"
  "IsOffloadLdacConfigurationValid s \<longleftrightarrow> capability_admits (ldacCapabilities kDefaultOffloadLdacCapability) s"
  "IsOffloadAptxConfigurationValid s \<longleftrightarrow> capability_admits (aptxCapabilities kDefaultOffloadAptxCapability) s"
  "IsOffloadAptxHdConfigurationValid s \<longleftrightarrow> capability_admits (aptxCapabilities kDefaultOffloadAptxHdCapability) s"
  "IsOffloadOpusConfigurationValid s \<longleftrightarrow> capability_admits (opusCapabilities kDefaultOffloadOpusCapability) s"
proof -
  show "IsOffloadOpusConfigurationValid s \<longleftrightarrow> capability_admits (opusCapabilities kDefaultOffloadOpusCapability) s"
    by (cases "(opusCapabilities kDefaultOffloadOpusCapability, s)" rule: capability_admits.cases)
      (auto simp: Let_def)
qed (cases s; auto simp: Let_def)+

text \<open>
  C13: A codec configuration passes the check of an A2DP offload session exactly when one of
  the capabilities that the session's provider advertises is for its codec and admits it.
\<close>

theorem IsOffloadCodecConfigurationValid_advertised:
  "IsOffloadCodecConfigurationValid session_type cc \<longleftrightarrow>
     (\<exists>cap \<in> set (GetA2dpOffloadCodecCapabilities session_type).
        cap_codecType cap = codecType cc \<and> capability_admits (cap_capabilities cap) (codec_config cc))"
proof (cases "session_type = A2DP_HARDWARE_OFFLOAD_ENCODING_DATAPATH
    \<or> session_type = A2DP_HARDWARE_OFFLOAD_DECODING_DATAPATH")
  case True
  then have "\<not> (session_type \<noteq> A2DP_HARDWARE_OFFLOAD_ENCODING_DATAPATH
      \<and> session_type \<noteq> A2DP_HARDWARE_OFFLOAD_DECODING_DATAPATH)" by blast
  then show ?thesis
    by (cases "codecType cc")
      (simp_all only: IsOffloadCodecConfigurationValid_def if_False simp_thms, simp_all add: IsOffloadCodecConfigurationValid_def Let_def advertised_capability [OF True]
        codec_checks_admit del: capability_admits.simps)
next
  case False
  then show ?thesis by (simp add: IsOffloadCodecConfigurationValid_def GetA2dpOffloadCodecCapabilities_def)
qed

text \<open>
  Whatever the settings file gives, no LE audio codec information is ever reported: the
  global map starts empty and the function leaves it so.
\<close>

theorem GetLeAudioOffloadCodecInfo_empty:
  "GetLeAudioOffloadCodecInfo parsed session_type [] = ([], [])"
  by (simp add: GetLeAudioOffloadCodecInfo_def)

end
