(* ===== verification/Provider.thy ===== *)
theory Provider
  imports Session_Control Codec_Db Codec_Factory "HOL-Library.Signed_Division"
begin

text \<open>
  The provider service (\<open>hal/BluetoothAudioProvider.cpp\<close>, its subclasses and
  \<open>hal/BluetoothAudioProviderFactory.cpp\<close>): one object per session type, driven by the
  Bluetooth stack over binder. A provider validates a configuration, keeps the stack's
  interface, and reports to the session of its type. The subclasses are the constructors of
  \<open>provider_class\<close>, and the overridden methods dispatch on it.
\<close>

section \<open>State and environment\<close>

datatype provider_class =
    A2dpSoftware | A2dpOffload | HearingAid | LeAudioSoftware | LeAudioOffload | HfpSoftware | HfpOffload

text \<open>
  The cookie of a death link: the context that \<open>startSession\<close> allocates, or the provider
  object itself, which is what \<open>endSession\<close> passes.
\<close>

datatype death_cookie = Ctx SessionType | This

type_synonym death_links = "(nat \<times> death_cookie) list"

text \<open>
  What the providers use of libbinder and libfmq: linking and unlinking of the death
  recipient, creation of a queue of a given size, and the queue that the audio HAL opens
  from the duplicated descriptor.
\<close>

record provider_env =
  env_linkToDeath :: "nat \<Rightarrow> death_cookie \<Rightarrow> death_links \<Rightarrow> death_links"
  env_unlinkToDeath :: "nat \<Rightarrow> death_cookie \<Rightarrow> death_links \<Rightarrow> death_links"
  env_new_mq :: "u32 \<Rightarrow> DataMQ"
  env_dupeDesc :: "DataMQ \<Rightarrow> DataMQ"

record provider =
  prov_class :: provider_class
  prov_session_type :: SessionType
  prov_stack_iface :: "nat option"
  prov_audio_config :: "AudioConfiguration option"
  prov_latency_modes :: "LatencyMode list"
  prov_data_mq :: "DataMQ option"
  prov_links :: death_links

datatype binder_status =
    StatusOk | EX_ILLEGAL_ARGUMENT | EX_UNSUPPORTED_OPERATION | STATUS_UNKNOWN_TRANSACTION

text \<open>The result of a call: status, queue descriptor written (if any is), notifications, state.\<close>

record call_result =
  res_status :: binder_status
  res_mq :: "DataMQ option option"
  res_notified :: "notification list"
  res_provider :: provider
  res_sessions :: sessions_map

definition new_provider :: "provider_class \<Rightarrow> SessionType \<Rightarrow> DataMQ option \<Rightarrow> provider" where
  "new_provider c t mq =
     \<lparr>prov_class = c, prov_session_type = t, prov_stack_iface = None, prov_audio_config = None,
      prov_latency_modes = [], prov_data_mq = mq, prov_links = []\<rparr>"

section \<open>Construction\<close>

definition A2dpSoftware_kDataMqSize :: u32 where
  "A2dpSoftware_kDataMqSize = (4 * 96) * 10 * 2"

definition HearingAid_kDataMqSize :: u32 where
  "HearingAid_kDataMqSize = (4 * 128) * 7 * 1"

definition A2dpSoftwareAudioProvider :: "provider_env \<Rightarrow> SessionType \<Rightarrow> provider" where
  "A2dpSoftwareAudioProvider env t =
     (let mq = env_new_mq env A2dpSoftware_kDataMqSize
      in new_provider A2dpSoftware t (if mq_isValid mq then Some mq else None))"

text \<open>
  Without a valid queue the constructor leaves \<open>session_type_\<close> uninitialised; \<open>isValid\<close>
  answers false then, whatever its value.
\<close>

definition HearingAidAudioProvider :: "provider_env \<Rightarrow> provider" where
  "HearingAidAudioProvider env =
     (let mq = env_new_mq env HearingAid_kDataMqSize
      in if mq_isValid mq then new_provider HearingAid HEARING_AID_SOFTWARE_ENCODING_DATAPATH (Some mq)
         else new_provider HearingAid ST_UNKNOWN None)"

fun isValid :: "provider \<Rightarrow> SessionType \<Rightarrow> bool" where
  "isValid p session_type =
     (case prov_class p of
        A2dpSoftware \<Rightarrow> session_type = prov_session_type p
          \<and> (case prov_data_mq p of None \<Rightarrow> False | Some mq \<Rightarrow> mq_isValid mq)
      | HearingAid \<Rightarrow> session_type = prov_session_type p
          \<and> (case prov_data_mq p of None \<Rightarrow> False | Some mq \<Rightarrow> mq_isValid mq)
      | _ \<Rightarrow> session_type = prov_session_type p)"

definition make_provider :: "provider_env \<Rightarrow> SessionType \<Rightarrow> provider option" where
  "make_provider env t =
     (case t of
        A2DP_SOFTWARE_ENCODING_DATAPATH \<Rightarrow> Some (A2dpSoftwareAudioProvider env t)
      | A2DP_HARDWARE_OFFLOAD_ENCODING_DATAPATH \<Rightarrow> Some (new_provider A2dpOffload t None)
      | HEARING_AID_SOFTWARE_ENCODING_DATAPATH \<Rightarrow> Some (HearingAidAudioProvider env)
      | LE_AUDIO_SOFTWARE_ENCODING_DATAPATH \<Rightarrow> Some (new_provider LeAudioSoftware t None)
      | LE_AUDIO_HARDWARE_OFFLOAD_ENCODING_DATAPATH \<Rightarrow> Some (new_provider LeAudioOffload t None)
      | LE_AUDIO_SOFTWARE_DECODING_DATAPATH \<Rightarrow> Some (new_provider LeAudioSoftware t None)
      | LE_AUDIO_HARDWARE_OFFLOAD_DECODING_DATAPATH \<Rightarrow> Some (new_provider LeAudioOffload t None)
      | LE_AUDIO_BROADCAST_SOFTWARE_ENCODING_DATAPATH \<Rightarrow> Some (new_provider LeAudioSoftware t None)
      | LE_AUDIO_BROADCAST_HARDWARE_OFFLOAD_ENCODING_DATAPATH \<Rightarrow> Some (new_provider LeAudioOffload t None)
      | A2DP_SOFTWARE_DECODING_DATAPATH \<Rightarrow> Some (A2dpSoftwareAudioProvider env t)
      | A2DP_HARDWARE_OFFLOAD_DECODING_DATAPATH \<Rightarrow> Some (new_provider A2dpOffload t None)
      | HFP_SOFTWARE_ENCODING_DATAPATH \<Rightarrow> Some (new_provider HfpSoftware t None)
      | HFP_SOFTWARE_DECODING_DATAPATH \<Rightarrow> Some (new_provider HfpSoftware t None)
      | HFP_HARDWARE_OFFLOAD_DATAPATH \<Rightarrow> Some (new_provider HfpOffload t None)
      | _ \<Rightarrow> None)"

definition openProvider :: "provider_env \<Rightarrow> SessionType \<Rightarrow> binder_status + provider" where
  "openProvider env session_type =
     (case make_provider env session_type of
        None \<Rightarrow> Inl EX_ILLEGAL_ARGUMENT
      | Some p \<Rightarrow> if \<not> isValid p session_type then Inl EX_ILLEGAL_ARGUMENT else Inr p)"

section \<open>The base class\<close>

text \<open>
  \<open>onSessionReady\<close> is entered from \<open>startSession\<close> only, which has just set \<open>audio_config_\<close>.
  The software classes report their queue, the offload classes report none.
\<close>

type_synonym ready_result = "DataMQ option option \<times> notification list \<times> sessions_map"

definition A2dpSoftware_onSessionReady ::
  "provider_env \<Rightarrow> provider \<Rightarrow> AudioConfiguration \<Rightarrow> sessions_map \<Rightarrow> ready_result" where
  "A2dpSoftware_onSessionReady env p audio_config sessions =
     (case prov_data_mq p of
        None \<Rightarrow> (Some None, [], sessions)
      | Some mq \<Rightarrow>
          if \<not> mq_isValid mq then (Some None, [], sessions)
          else let (ns, sessions) = Report_OnSessionStarted (prov_session_type p) (prov_stack_iface p)
                 (Some (env_dupeDesc env mq)) audio_config (prov_latency_modes p) sessions
               in (Some (Some mq), ns, sessions))"

definition HearingAid_onSessionReady ::
  "provider_env \<Rightarrow> provider \<Rightarrow> AudioConfiguration \<Rightarrow> sessions_map \<Rightarrow> ready_result" where
  "HearingAid_onSessionReady env p audio_config sessions =
     (case prov_data_mq p of
        None \<Rightarrow> (Some None, [], sessions)
      | Some mq \<Rightarrow>
          if \<not> mq_isValid mq then (Some None, [], sessions)
          else let (ns, sessions) = Report_OnSessionStarted (prov_session_type p) (prov_stack_iface p)
                 (Some (env_dupeDesc env mq)) audio_config (prov_latency_modes p) sessions
               in (Some (Some mq), ns, sessions))"

definition LeAudioSoftware_onSessionReady ::
  "provider_env \<Rightarrow> provider \<Rightarrow> AudioConfiguration \<Rightarrow> sessions_map \<Rightarrow> ready_result" where
  "LeAudioSoftware_onSessionReady env p audio_config sessions =
     (case prov_data_mq p of
        None \<Rightarrow> (Some None, [], sessions)
      | Some mq \<Rightarrow>
          if \<not> mq_isValid mq then (Some None, [], sessions)
          else let (ns, sessions) = Report_OnSessionStarted (prov_session_type p) (prov_stack_iface p)
                 (Some (env_dupeDesc env mq)) audio_config (prov_latency_modes p) sessions
               in (Some (Some mq), ns, sessions))"

definition HfpSoftware_onSessionReady ::
  "provider_env \<Rightarrow> provider \<Rightarrow> AudioConfiguration \<Rightarrow> sessions_map \<Rightarrow> ready_result" where
  "HfpSoftware_onSessionReady env p audio_config sessions =
     (case prov_data_mq p of
        None \<Rightarrow> (Some None, [], sessions)
      | Some mq \<Rightarrow>
          if \<not> mq_isValid mq then (Some None, [], sessions)
          else let (ns, sessions) = Report_OnSessionStarted (prov_session_type p) (prov_stack_iface p)
                 (Some (env_dupeDesc env mq)) audio_config (prov_latency_modes p) sessions
               in (Some (Some mq), ns, sessions))"

definition A2dpOffload_onSessionReady ::
  "provider \<Rightarrow> AudioConfiguration \<Rightarrow> sessions_map \<Rightarrow> ready_result" where
  "A2dpOffload_onSessionReady p audio_config sessions =
     (let (ns, sessions) = Report_OnSessionStarted (prov_session_type p) (prov_stack_iface p) None
            audio_config (prov_latency_modes p) sessions
      in (Some None, ns, sessions))"

definition LeAudioOffload_onSessionReady ::
  "provider \<Rightarrow> AudioConfiguration \<Rightarrow> sessions_map \<Rightarrow> ready_result" where
  "LeAudioOffload_onSessionReady p audio_config sessions =
     (let (ns, sessions) = Report_OnSessionStarted (prov_session_type p) (prov_stack_iface p) None
            audio_config (prov_latency_modes p) sessions
      in (Some None, ns, sessions))"

definition HfpOffload_onSessionReady ::
  "provider \<Rightarrow> AudioConfiguration \<Rightarrow> sessions_map \<Rightarrow> ready_result" where
  "HfpOffload_onSessionReady p audio_config sessions =
     (let (ns, sessions) = Report_OnSessionStarted (prov_session_type p) (prov_stack_iface p) None
            audio_config (prov_latency_modes p) sessions
      in (Some None, ns, sessions))"

definition onSessionReady ::
  "provider_env \<Rightarrow> provider \<Rightarrow> AudioConfiguration \<Rightarrow> sessions_map \<Rightarrow> ready_result" where
  "onSessionReady env p =
     (case prov_class p of
        A2dpSoftware \<Rightarrow> A2dpSoftware_onSessionReady env p
      | A2dpOffload \<Rightarrow> A2dpOffload_onSessionReady p
      | HearingAid \<Rightarrow> HearingAid_onSessionReady env p
      | LeAudioSoftware \<Rightarrow> LeAudioSoftware_onSessionReady env p
      | LeAudioOffload \<Rightarrow> LeAudioOffload_onSessionReady p
      | HfpSoftware \<Rightarrow> HfpSoftware_onSessionReady env p
      | HfpOffload \<Rightarrow> HfpOffload_onSessionReady p)"

lemmas onSessionReady_defs = onSessionReady_def A2dpSoftware_onSessionReady_def
  HearingAid_onSessionReady_def LeAudioSoftware_onSessionReady_def HfpSoftware_onSessionReady_def
  A2dpOffload_onSessionReady_def LeAudioOffload_onSessionReady_def HfpOffload_onSessionReady_def

definition base_startSession ::
  "provider_env \<Rightarrow> provider \<Rightarrow> nat option \<Rightarrow> AudioConfiguration \<Rightarrow> LatencyMode list \<Rightarrow> sessions_map
     \<Rightarrow> call_result" where
  "base_startSession env p host_if audio_config latencyModes sessions =
     (case host_if of
        None \<Rightarrow> \<lparr>res_status = EX_ILLEGAL_ARGUMENT, res_mq = Some None, res_notified = [],
                 res_provider = p, res_sessions = sessions\<rparr>
      | Some host \<Rightarrow>
          let p = p\<lparr>prov_latency_modes := latencyModes, prov_audio_config := Some audio_config,
                   prov_stack_iface := Some host,
                   prov_links := env_linkToDeath env host (Ctx (prov_session_type p)) (prov_links p)\<rparr>;
              (mq, ns, sessions) = onSessionReady env p audio_config sessions
          in \<lparr>res_status = StatusOk, res_mq = mq, res_notified = ns,
              res_provider = p, res_sessions = sessions\<rparr>)"

definition endSession :: "provider_env \<Rightarrow> provider \<Rightarrow> sessions_map \<Rightarrow> call_result" where
  "endSession env p sessions =
     (case prov_stack_iface p of
        Some host \<Rightarrow>
          let (ns, sessions) = Report_OnSessionEnded (prov_session_type p) sessions
          in \<lparr>res_status = StatusOk, res_mq = None, res_notified = ns,
              res_provider = p\<lparr>prov_links := env_unlinkToDeath env host This (prov_links p),
                prov_stack_iface := None, prov_audio_config := None\<rparr>,
              res_sessions = sessions\<rparr>
      | None \<Rightarrow>
          \<lparr>res_status = StatusOk, res_mq = None, res_notified = [],
           res_provider = p\<lparr>prov_stack_iface := None, prov_audio_config := None\<rparr>,
           res_sessions = sessions\<rparr>)"

definition streamStarted :: "BluetoothAudioStatus \<Rightarrow> provider \<Rightarrow> sessions_map \<Rightarrow> call_result" where
  "streamStarted status p sessions =
     (if prov_stack_iface p \<noteq> None
      then let (ns, sessions) = Report_ReportControlStatus (prov_session_type p) True status sessions
        in \<lparr>res_status = StatusOk, res_mq = None, res_notified = ns, res_provider = p, res_sessions = sessions\<rparr>
      else \<lparr>res_status = StatusOk, res_mq = None, res_notified = [], res_provider = p, res_sessions = sessions\<rparr>)"

definition streamSuspended :: "BluetoothAudioStatus \<Rightarrow> provider \<Rightarrow> sessions_map \<Rightarrow> call_result" where
  "streamSuspended status p sessions =
     (if prov_stack_iface p \<noteq> None
      then let (ns, sessions) = Report_ReportControlStatus (prov_session_type p) False status sessions
        in \<lparr>res_status = StatusOk, res_mq = None, res_notified = ns, res_provider = p, res_sessions = sessions\<rparr>
      else \<lparr>res_status = StatusOk, res_mq = None, res_notified = [], res_provider = p, res_sessions = sessions\<rparr>)"

definition updateAudioConfiguration ::
  "AudioConfiguration \<Rightarrow> provider \<Rightarrow> sessions_map \<Rightarrow> call_result" where
  "updateAudioConfiguration audio_config p sessions =
     (let failed = \<lparr>res_status = EX_ILLEGAL_ARGUMENT, res_mq = None, res_notified = [],
                    res_provider = p, res_sessions = sessions\<rparr> in
      if prov_stack_iface p = None then failed
      else case prov_audio_config p of
        None \<Rightarrow> failed
      | Some old \<Rightarrow>
          if getTag audio_config \<noteq> getTag old then failed
          else let (ns, sessions) = Report_ReportAudioConfigChanged (prov_session_type p) audio_config sessions
            in \<lparr>res_status = StatusOk, res_mq = None, res_notified = ns,
                res_provider = p\<lparr>prov_audio_config := Some audio_config\<rparr>, res_sessions = sessions\<rparr>)"

definition setLowLatencyModeAllowed :: "bool \<Rightarrow> provider \<Rightarrow> sessions_map \<Rightarrow> call_result" where
  "setLowLatencyModeAllowed allowed p sessions =
     (if prov_stack_iface p = None
      then \<lparr>res_status = EX_ILLEGAL_ARGUMENT, res_mq = None, res_notified = [], res_provider = p,
            res_sessions = sessions\<rparr>
      else let (ns, sessions) = Report_ReportLowLatencyModeAllowedChanged (prov_session_type p) allowed sessions
        in \<lparr>res_status = StatusOk, res_mq = None, res_notified = ns, res_provider = p, res_sessions = sessions\<rparr>)"

text \<open>The death callback of a link with a context: its session ends.\<close>

definition binderDiedCallbackAidl :: "death_cookie \<Rightarrow> sessions_map \<Rightarrow> notification list \<times> sessions_map" where
  "binderDiedCallbackAidl cookie sessions =
     (case cookie of
        Ctx session_type \<Rightarrow> Report_OnSessionEnded session_type sessions
      | This \<Rightarrow> ([], sessions))"

section \<open>The overridden \<open>startSession\<close>\<close>

definition illegal_argument :: "DataMQ option option \<Rightarrow> provider \<Rightarrow> sessions_map \<Rightarrow> call_result" where
  "illegal_argument mq p sessions =
     \<lparr>res_status = EX_ILLEGAL_ARGUMENT, res_mq = mq, res_notified = [], res_provider = p, res_sessions = sessions\<rparr>"

text \<open>
  A2DP offload: an extensible configuration has to parse with its codec, a fixed one has to
  pass the capability check. \<^term>\<open>None\<close> is a division by zero of the parser.
\<close>

definition A2dpOffload_startSession ::
  "provider_env \<Rightarrow> provider \<Rightarrow> nat option \<Rightarrow> AudioConfiguration \<Rightarrow> LatencyMode list \<Rightarrow> sessions_map
     \<Rightarrow> call_result option" where
  "A2dpOffload_startSession env p host_if audio_config latency_modes sessions =
     (case audio_config of
        a2dp a2dp_config \<Rightarrow>
          (case GetCodec (a2dp_codecId a2dp_config) of
             None \<Rightarrow> Some (illegal_argument None p sessions)
           | Some codec \<Rightarrow>
               (if info_id (codec_info codec) = CodecId_a2dp A2dp_SBC
                   \<or> info_id (codec_info codec) = CodecId_a2dp A2dp_AAC
                then (case codec_ParseConfiguration codec (a2dp_configuration a2dp_config) of
                        None \<Rightarrow> None
                      | Some (Inl status) \<Rightarrow> Some (illegal_argument (Some None) p sessions)
                      | Some (Inr parameters) \<Rightarrow>
                          Some (base_startSession env p host_if audio_config latency_modes sessions))
                else Some (illegal_argument (Some None) p sessions)))
      | a2dpConfig config \<Rightarrow>
          (if \<not> IsOffloadCodecConfigurationValid (prov_session_type p) config
           then Some (illegal_argument (Some None) p sessions)
           else Some (base_startSession env p host_if audio_config latency_modes sessions))
      | _ \<Rightarrow> Some (illegal_argument (Some None) p sessions))"

text \<open>A2DP software and hearing aid: a PCM configuration of the table.\<close>

definition A2dpSoftware_startSession ::
  "provider_env \<Rightarrow> provider \<Rightarrow> nat option \<Rightarrow> AudioConfiguration \<Rightarrow> LatencyMode list \<Rightarrow> sessions_map
     \<Rightarrow> call_result" where
  "A2dpSoftware_startSession env p host_if audio_config latency_modes sessions =
     (case audio_config of
        pcmConfig pcm_config \<Rightarrow>
          (if \<not> IsSoftwarePcmConfigurationValid pcm_config then illegal_argument (Some None) p sessions
           else base_startSession env p host_if audio_config latency_modes sessions)
      | _ \<Rightarrow> illegal_argument (Some None) p sessions)"

definition HearingAid_startSession ::
  "provider_env \<Rightarrow> provider \<Rightarrow> nat option \<Rightarrow> AudioConfiguration \<Rightarrow> LatencyMode list \<Rightarrow> sessions_map
     \<Rightarrow> call_result" where
  "HearingAid_startSession env p host_if audio_config latency_modes sessions =
     (case audio_config of
        pcmConfig pcm_config \<Rightarrow>
          (if \<not> IsSoftwarePcmConfigurationValid pcm_config then illegal_argument (Some None) p sessions
           else base_startSession env p host_if audio_config latency_modes sessions)
      | _ \<Rightarrow> illegal_argument (Some None) p sessions)"

definition channel_mode_to_channel_count :: "ChannelMode \<Rightarrow> int" where
  "channel_mode_to_channel_count m = (case m of CM_MONO \<Rightarrow> 1 | CM_STEREO \<Rightarrow> 2 | _ \<Rightarrow> 0)"

definition LeAudio_buffer_modifier :: "SessionType \<Rightarrow> int" where
  "LeAudio_buffer_modifier t =
     (if t = LE_AUDIO_SOFTWARE_ENCODING_DATAPATH \<or> t = LE_AUDIO_BROADCAST_SOFTWARE_ENCODING_DATAPATH then 2
      else if t = LE_AUDIO_SOFTWARE_DECODING_DATAPATH then 2 else 0)"

text \<open>
  The queue size of the LE audio software providers. The code computes it in \<open>double\<close> and
  converts to \<open>uint32_t\<close>; here the product is exact and cut towards zero. For the sampling
  rates of the table the two agree: the quotient by 1000 is exact or, for 44100 and 88200,
  its nearest double is above it, and the product stays within rounding of a whole number.
  The conversion of a negative value is undefined: \<^term>\<open>None\<close>.
\<close>

definition LeAudio_data_mq_size :: "SessionType \<Rightarrow> PcmConfiguration \<Rightarrow> u32 option" where
  "LeAudio_data_mq_size t pcm_config =
     (let bytes_per_sample = (if bitsPerSample pcm_config = 24 then 4 else uint (bitsPerSample pcm_config) div 8);
          size = (sampleRateHz pcm_config * channel_mode_to_channel_count (pcm_channelMode pcm_config)
             * bytes_per_sample * (dataIntervalUs pcm_config sdiv 1000) * LeAudio_buffer_modifier t) sdiv 1000
      in if size < 0 \<or> 2 ^ 32 \<le> size then None else Some (word_of_int size))"

definition LeAudioSoftware_startSession ::
  "provider_env \<Rightarrow> provider \<Rightarrow> nat option \<Rightarrow> AudioConfiguration \<Rightarrow> LatencyMode list \<Rightarrow> sessions_map
     \<Rightarrow> call_result option" where
  "LeAudioSoftware_startSession env p host_if audio_config latency_modes sessions =
     (case audio_config of
        pcmConfig pcm_config \<Rightarrow>
          (if \<not> IsSoftwarePcmConfigurationValid pcm_config then Some (illegal_argument None p sessions)
           else case LeAudio_data_mq_size (prov_session_type p) pcm_config of
             None \<Rightarrow> None
           | Some data_mq_size \<Rightarrow>
               (if data_mq_size \<le> 0 then Some (illegal_argument None p sessions)
                else let temp_data_mq = env_new_mq env data_mq_size in
                if \<not> mq_isValid temp_data_mq then Some (illegal_argument (Some None) p sessions)
                else Some (base_startSession env (p\<lparr>prov_data_mq := Some temp_data_mq\<rparr>)
                       host_if audio_config latency_modes sessions)))
      | _ \<Rightarrow> Some (illegal_argument None p sessions))"

text \<open>HFP software: mono 16-bit samples, three rates, 7.5 ms; the size is 32-bit arithmetic.\<close>

definition Hfp_data_mq_size :: "PcmConfiguration \<Rightarrow> u32" where
  "Hfp_data_mq_size pcm_config =
     (2 * word_of_int (uint (bitsPerSample pcm_config) div 8)
      * word_of_int (sampleRateHz pcm_config sdiv 1000) * word_of_int (dataIntervalUs pcm_config)) div 1000"

definition HfpSoftware_startSession ::
  "provider_env \<Rightarrow> provider \<Rightarrow> nat option \<Rightarrow> AudioConfiguration \<Rightarrow> LatencyMode list \<Rightarrow> sessions_map
     \<Rightarrow> call_result" where
  "HfpSoftware_startSession env p host_if audio_config latency_modes sessions =
     (case audio_config of
        pcmConfig pcm_config \<Rightarrow>
          (if \<not> IsSoftwarePcmConfigurationValid pcm_config then illegal_argument (Some None) p sessions
           else
             let isValidConfig = True;
                 isValidConfig = (if bitsPerSample pcm_config \<noteq> 16 then False else isValidConfig);
                 isValidConfig = (if sampleRateHz pcm_config \<noteq> 8000 \<and> sampleRateHz pcm_config \<noteq> 16000
                                     \<and> sampleRateHz pcm_config \<noteq> 32000 then False else isValidConfig);
                 isValidConfig = (if pcm_channelMode pcm_config \<noteq> CM_MONO then False else isValidConfig);
                 isValidConfig = (if dataIntervalUs pcm_config \<noteq> 7500 then False else isValidConfig);
                 data_mq_size = Hfp_data_mq_size pcm_config
             in if \<not> isValidConfig then illegal_argument None p sessions
                else let temp_data_mq = env_new_mq env data_mq_size in
                if \<not> mq_isValid temp_data_mq then illegal_argument (Some None) p sessions
                else base_startSession env (p\<lparr>prov_data_mq := Some temp_data_mq\<rparr>)
                       host_if audio_config latency_modes sessions)
      | _ \<Rightarrow> illegal_argument (Some None) p sessions)"

definition HfpOffload_startSession ::
  "provider_env \<Rightarrow> provider \<Rightarrow> nat option \<Rightarrow> AudioConfiguration \<Rightarrow> LatencyMode list \<Rightarrow> sessions_map
     \<Rightarrow> call_result" where
  "HfpOffload_startSession env p host_if audio_config latency_modes sessions =
     (if getTag audio_config \<noteq> Tag_hfpConfig then illegal_argument (Some None) p sessions
      else base_startSession env p host_if audio_config latency_modes sessions)"

definition LeAudioOffload_startSession ::
  "provider_env \<Rightarrow> provider \<Rightarrow> nat option \<Rightarrow> AudioConfiguration \<Rightarrow> LatencyMode list \<Rightarrow> sessions_map
     \<Rightarrow> call_result" where
  "LeAudioOffload_startSession env p host_if audio_config latency_modes sessions =
     (if prov_session_type p = LE_AUDIO_BROADCAST_HARDWARE_OFFLOAD_ENCODING_DATAPATH
      then (if getTag audio_config \<noteq> Tag_leAudioBroadcastConfig then illegal_argument (Some None) p sessions
            else base_startSession env p host_if audio_config latency_modes sessions)
      else if getTag audio_config \<noteq> Tag_leAudioConfig then illegal_argument (Some None) p sessions
      else base_startSession env p host_if audio_config latency_modes sessions)"

definition startSession ::
  "provider_env \<Rightarrow> provider \<Rightarrow> nat option \<Rightarrow> AudioConfiguration \<Rightarrow> LatencyMode list \<Rightarrow> sessions_map
     \<Rightarrow> call_result option" where
  "startSession env p host_if audio_config latency_modes sessions =
     (case prov_class p of
        A2dpSoftware \<Rightarrow> Some (A2dpSoftware_startSession env p host_if audio_config latency_modes sessions)
      | A2dpOffload \<Rightarrow> A2dpOffload_startSession env p host_if audio_config latency_modes sessions
      | HearingAid \<Rightarrow> Some (HearingAid_startSession env p host_if audio_config latency_modes sessions)
      | LeAudioSoftware \<Rightarrow> LeAudioSoftware_startSession env p host_if audio_config latency_modes sessions
      | LeAudioOffload \<Rightarrow> Some (LeAudioOffload_startSession env p host_if audio_config latency_modes sessions)
      | HfpSoftware \<Rightarrow> Some (HfpSoftware_startSession env p host_if audio_config latency_modes sessions)
      | HfpOffload \<Rightarrow> Some (HfpOffload_startSession env p host_if audio_config latency_modes sessions))"

section \<open>Queries of the A2DP offload provider and of the factory\<close>

definition kEnableA2dpCodecExtensibility :: bool where "kEnableA2dpCodecExtensibility = False"

text \<open>
  The two extensible A2DP queries. The base class refuses them; the offload class answers
  them only with the extensibility flag on. The first component is \<^term>\<open>None\<close> where the
  negotiation is undefined.
\<close>

definition parseA2dpConfiguration ::
  "provider \<Rightarrow> CodecId \<Rightarrow> u8 list
     \<Rightarrow> (binder_status \<times> (A2dpStatus + CodecParameters) option option) " where
  "parseA2dpConfiguration p codec_id configuration =
     (if prov_class p \<noteq> A2dpOffload then (EX_ILLEGAL_ARGUMENT, None)
      else if \<not> kEnableA2dpCodecExtensibility then (STATUS_UNKNOWN_TRANSACTION, None)
      else case GetCodec codec_id of
        None \<Rightarrow> (EX_ILLEGAL_ARGUMENT, None)
      | Some codec \<Rightarrow> (StatusOk, Some (codec_ParseConfiguration codec configuration)))"

definition getA2dpConfiguration ::
  "provider \<Rightarrow> A2dpRemoteCapabilities list \<Rightarrow> A2dpConfigurationHint \<Rightarrow> binder_status \<times> negotiation option"
where
  "getA2dpConfiguration p remote_a2dp_capabilities hint =
     (if prov_class p \<noteq> A2dpOffload then (EX_ILLEGAL_ARGUMENT, None)
      else if \<not> kEnableA2dpCodecExtensibility then (STATUS_UNKNOWN_TRANSACTION, None)
      else (StatusOk, Some (GetConfiguration remote_a2dp_capabilities hint)))"

datatype 'cap AudioCapabilities =
    pcmCapabilities PcmCapabilities | a2dpCapabilities CodecCapabilities | leAudioCapabilities 'cap

definition getProviderCapabilities ::
  "'cap list \<Rightarrow> 'cap list \<Rightarrow> SessionType \<Rightarrow> 'cap AudioCapabilities list \<times> 'cap list" where
  "getProviderCapabilities parsed global session_type =
     (if session_type = A2DP_HARDWARE_OFFLOAD_ENCODING_DATAPATH
         \<or> session_type = A2DP_HARDWARE_OFFLOAD_DECODING_DATAPATH
      then (map a2dpCapabilities (GetA2dpOffloadCodecCapabilities session_type), global)
      else if is_le_offload_session session_type
      then (let (db, global) = GetLeAudioOffloadCodecCapabilities parsed session_type global
            in (map leAudioCapabilities db, global))
      else if session_type \<noteq> ST_UNKNOWN
      then (map pcmCapabilities GetSoftwarePcmCapabilities, global)
      else ([], global))"

datatype 'info ProviderInfo = ProviderInfo string "'info list"

definition getProviderInfo ::
  "(SessionType \<times> 'info list) list \<Rightarrow> (SessionType \<times> 'info list) list \<Rightarrow> (A2dpInfo \<Rightarrow> 'info)
     \<Rightarrow> SessionType \<Rightarrow> (binder_status \<times> 'info ProviderInfo option) \<times> (SessionType \<times> 'info list) list" where
  "getProviderInfo parsed global to_info session_type =
     (if session_type = A2DP_HARDWARE_OFFLOAD_ENCODING_DATAPATH
         \<or> session_type = A2DP_HARDWARE_OFFLOAD_DECODING_DATAPATH
      then (if \<not> kEnableA2dpCodecExtensibility then ((STATUS_UNKNOWN_TRANSACTION, None), global)
            else ((StatusOk, Some (ProviderInfo ''Offload'' (map (to_info \<circ> codec_info) ranked_codecs))), global))
      else if is_le_offload_session session_type
      then (let (db, global) = GetLeAudioOffloadCodecInfo parsed session_type global in
            if db \<noteq> [] then ((StatusOk, Some (ProviderInfo ''LE_AUDIO_OFFLOAD_HARDWARE_OFFLOAD_PROVIDER'' db)), global)
            else ((StatusOk, None), global))
      else ((StatusOk, None), global))"

end
