(* ===== verification/Provider_Facts.thy ===== *)
theory Provider_Facts
  imports Provider
begin

text \<open>
  What the provider service promises to the Bluetooth stack: which session types can be
  opened, that a started session is ready with the given configuration, how sessions end,
  and how large the PCM queues are.
\<close>

section \<open>Reachable providers\<close>

text \<open>
  The states of the provider object of a session type. The sessions change in between by
  other hands, so each step may find any of them.
\<close>

inductive provider_reach :: "provider_env \<Rightarrow> SessionType \<Rightarrow> provider \<Rightarrow> bool"
  for env :: provider_env and t :: SessionType where
  opened: "openProvider env t = Inr p \<Longrightarrow> provider_reach env t p"
| started: "provider_reach env t p \<Longrightarrow> startSession env p host_if audio_config modes sessions = Some r \<Longrightarrow>
    provider_reach env t (res_provider r)"
| ended: "provider_reach env t p \<Longrightarrow> provider_reach env t (res_provider (endSession env p sessions))"
| updated: "provider_reach env t p \<Longrightarrow>
    provider_reach env t (res_provider (updateAudioConfiguration audio_config p sessions))"

definition serves :: "provider_class \<Rightarrow> SessionType \<Rightarrow> bool" where
  "serves c t \<longleftrightarrow>
     (case c of
        A2dpSoftware \<Rightarrow> t \<in> {A2DP_SOFTWARE_ENCODING_DATAPATH, A2DP_SOFTWARE_DECODING_DATAPATH}
      | A2dpOffload \<Rightarrow> t \<in> {A2DP_HARDWARE_OFFLOAD_ENCODING_DATAPATH, A2DP_HARDWARE_OFFLOAD_DECODING_DATAPATH}
      | HearingAid \<Rightarrow> t = HEARING_AID_SOFTWARE_ENCODING_DATAPATH
      | LeAudioSoftware \<Rightarrow> t \<in> {LE_AUDIO_SOFTWARE_ENCODING_DATAPATH, LE_AUDIO_SOFTWARE_DECODING_DATAPATH,
          LE_AUDIO_BROADCAST_SOFTWARE_ENCODING_DATAPATH}
      | LeAudioOffload \<Rightarrow> t \<in> {LE_AUDIO_HARDWARE_OFFLOAD_ENCODING_DATAPATH,
          LE_AUDIO_HARDWARE_OFFLOAD_DECODING_DATAPATH, LE_AUDIO_BROADCAST_HARDWARE_OFFLOAD_ENCODING_DATAPATH}
      | HfpSoftware \<Rightarrow> t \<in> {HFP_SOFTWARE_ENCODING_DATAPATH, HFP_SOFTWARE_DECODING_DATAPATH}
      | HfpOffload \<Rightarrow> t = HFP_HARDWARE_OFFLOAD_DATAPATH)"

definition provider_inv :: "SessionType \<Rightarrow> provider \<Rightarrow> bool" where
  "provider_inv t p \<longleftrightarrow> prov_session_type p = t \<and> serves (prov_class p) t
     \<and> (prov_class p \<in> {A2dpSoftware, HearingAid} \<longrightarrow> (\<exists>mq. prov_data_mq p = Some mq \<and> mq_isValid mq))
     \<and> (prov_stack_iface p \<noteq> None \<longleftrightarrow> prov_audio_config p \<noteq> None)"

lemmas provider_constructors =
  make_provider_def A2dpSoftwareAudioProvider_def HearingAidAudioProvider_def new_provider_def

lemma openProvider_inv: "openProvider env t = Inr p \<Longrightarrow> provider_inv t p"
  by (cases t)
    (auto simp: openProvider_def provider_constructors provider_inv_def serves_def Let_def split: if_splits)

lemma base_startSession_provider:
  "prov_class (res_provider (base_startSession env p h c l m)) = prov_class p"
  "prov_session_type (res_provider (base_startSession env p h c l m)) = prov_session_type p"
  "prov_data_mq (res_provider (base_startSession env p h c l m)) = prov_data_mq p"
  "prov_stack_iface (res_provider (base_startSession env p h c l m))
     = (case h of None \<Rightarrow> prov_stack_iface p | Some _ \<Rightarrow> h)"
  "prov_audio_config (res_provider (base_startSession env p h c l m))
     = (case h of None \<Rightarrow> prov_audio_config p | Some _ \<Rightarrow> Some c)"
  by (auto simp: base_startSession_def Let_def split: option.split prod.split)

lemma illegal_argument_simps [simp]:
  "res_provider (illegal_argument mq p m) = p" "res_sessions (illegal_argument mq p m) = m"
  "res_notified (illegal_argument mq p m) = []" "res_status (illegal_argument mq p m) = EX_ILLEGAL_ARGUMENT"
  by (simp_all add: illegal_argument_def)

text \<open>The two classes that make their queue in \<open>startSession\<close> keep it before the base class is entered.\<close>

definition keeps_new_queue :: "provider \<Rightarrow> provider \<Rightarrow> bool" where
  "keeps_new_queue p q \<longleftrightarrow> prov_class p \<in> {LeAudioSoftware, HfpSoftware}
     \<and> (\<exists>mq. mq_isValid mq \<and> q = p\<lparr>prov_data_mq := Some mq\<rparr>)"

text \<open>
  Every \<open>startSession\<close> either refuses, with the provider and the sessions as they were, or
  enters the base class with a configuration of the session's kind and, for a software
  session, a valid queue.
\<close>

lemma startSession_cases:
  assumes "startSession env p h c l m = Some r" "provider_inv t p"
  obtains (refused) mq where "r = illegal_argument mq p m"
    | (entered) q where "r = base_startSession env q h c l m" "provider_inv t q"
        "prov_class q = prov_class p" "prov_links q = prov_links p"
        "prov_stack_iface q = prov_stack_iface p" "config_accepted t c"
        "q = p \<or> keeps_new_queue p q"
        "prov_class p \<in> {A2dpOffload, LeAudioOffload, HfpOffload}
          \<or> (\<exists>mq. prov_data_mq q = Some mq \<and> mq_isValid mq)"
proof (cases "\<exists>mq. r = illegal_argument mq p m")
  case True
  then show thesis using refused by blast
next
  case False
  define k where "k = prov_class p"
  have t: "prov_session_type p = t" "serves k t" using assms(2) by (simp_all add: provider_inv_def k_def)
  have soft: "config_accepted t c" if "is_software_session t" "getTag c = Tag_pcmConfig"
    using that by (simp add: config_accepted_def)
  have inv_mq: "provider_inv t (p\<lparr>prov_data_mq := Some mq\<rparr>)" if "mq_isValid mq" for mq
    using assms(2) that by (simp add: provider_inv_def)
  show thesis
  proof (cases k)
    case A2dpSoftware
    have "r = base_startSession env p h c l m" "getTag c = Tag_pcmConfig"
      using assms(1) False A2dpSoftware
      by (auto simp: startSession_def A2dpSoftware_startSession_def k_def split: AudioConfiguration.splits if_splits)
    moreover have "is_software_session t" using t A2dpSoftware
      by (auto simp: serves_def is_software_session_def)
    ultimately show thesis using soft assms(2) A2dpSoftware
      by (intro entered [of p]) (auto simp: provider_inv_def k_def)
  next
    case HearingAid
    have "r = base_startSession env p h c l m" "getTag c = Tag_pcmConfig"
      using assms(1) False HearingAid
      by (auto simp: startSession_def HearingAid_startSession_def k_def split: AudioConfiguration.splits if_splits)
    moreover have "is_software_session t" using t HearingAid
      by (auto simp: serves_def is_software_session_def)
    ultimately show thesis using soft assms(2) HearingAid
      by (intro entered [of p]) (auto simp: provider_inv_def k_def)
  next
    case A2dpOffload
    then have "r = base_startSession env p h c l m" "getTag c = Tag_a2dp \<or> getTag c = Tag_a2dpConfig"
      using assms(1) False
      by (auto simp: startSession_def A2dpOffload_startSession_def k_def
          split: AudioConfiguration.splits if_splits option.splits sum.splits)
    then show thesis using entered [of p] assms(2) t A2dpOffload
      by (auto simp: serves_def k_def config_accepted_def)
  next
    case HfpOffload
    then have "r = base_startSession env p h c l m" "getTag c = Tag_hfpConfig"
      using assms(1) False
      by (auto simp: startSession_def HfpOffload_startSession_def k_def split: if_splits)
    then show thesis using entered [of p] assms(2) t HfpOffload
      by (auto simp: serves_def k_def config_accepted_def)
  next
    case LeAudioOffload
    then have "r = base_startSession env p h c l m" "config_accepted t c"
      using assms(1) False t
      by (auto simp: startSession_def LeAudioOffload_startSession_def k_def serves_def config_accepted_def
          split: if_splits)
    then show thesis using entered [of p] assms(2) LeAudioOffload by (auto simp: k_def)
  next
    case LeAudioSoftware
    obtain mq where "r = base_startSession env (p\<lparr>prov_data_mq := Some mq\<rparr>) h c l m"
      "getTag c = Tag_pcmConfig" "mq_isValid mq"
      using assms(1) False LeAudioSoftware
      by (auto simp: startSession_def LeAudioSoftware_startSession_def k_def Let_def
          split: AudioConfiguration.splits if_splits option.splits)
    moreover have "is_software_session t" using t LeAudioSoftware
      by (auto simp: serves_def is_software_session_def)
    ultimately show thesis using soft inv_mq LeAudioSoftware
      by (intro entered [of "p\<lparr>prov_data_mq := Some mq\<rparr>"]) (auto simp: keeps_new_queue_def k_def)
  next
    case HfpSoftware
    obtain mq where "r = base_startSession env (p\<lparr>prov_data_mq := Some mq\<rparr>) h c l m"
      "getTag c = Tag_pcmConfig" "mq_isValid mq"
      using assms(1) False HfpSoftware
      by (auto simp: startSession_def HfpSoftware_startSession_def k_def Let_def
          split: AudioConfiguration.splits if_splits option.splits)
    moreover have "is_software_session t" using t HfpSoftware
      by (auto simp: serves_def is_software_session_def)
    ultimately show thesis using soft inv_mq HfpSoftware
      by (intro entered [of "p\<lparr>prov_data_mq := Some mq\<rparr>"]) (auto simp: keeps_new_queue_def k_def)
  qed
qed

lemma provider_reach_inv: "provider_reach env t p \<Longrightarrow> provider_inv t p"
proof (induction rule: provider_reach.induct)
  case (opened p)
  then show ?case by (rule openProvider_inv)
next
  case (started p host_if audio_config modes sessions r)
  from started.hyps(2) started.IH show ?case
  proof (cases rule: startSession_cases)
    case (refused mq)
    then show ?thesis using started.IH by simp
  next
    case (entered q)
    then show ?thesis by (auto simp: provider_inv_def base_startSession_provider split: option.splits)
  qed
next
  case (ended p sessions)
  then show ?case
    by (auto simp: provider_inv_def endSession_def Let_def split: option.splits prod.splits)
next
  case (updated p audio_config sessions)
  then show ?case
    by (auto simp: provider_inv_def updateAudioConfiguration_def Let_def split: option.splits prod.splits)
qed

section \<open>Starting and ending a session\<close>

lemma onSessionReady_result:
  assumes "provider_inv t p" "prov_stack_iface p = Some h" "config_accepted t c"
    and "prov_class p \<in> {A2dpOffload, LeAudioOffload, HfpOffload}
      \<or> (\<exists>mq. prov_data_mq p = Some mq \<and> mq_isValid mq)"
    and dupe: "\<And>mq. mq_isValid mq \<Longrightarrow> mq_isValid (env_dupeDesc env mq)"
    and type: "s_session_type (session_of m t) = t"
  shows "\<exists>mq q. onSessionReady env p c m
     = (mq, on_session t (OnSessionStarted (Some h) q c (prov_latency_modes p)) m)
     \<and> (\<forall>x. q = Some x \<longrightarrow> mq_isValid x) \<and> (is_hardware_session t \<or> q \<noteq> None)"
proof (cases "prov_class p \<in> {A2dpOffload, LeAudioOffload, HfpOffload}")
  case True
  then have "is_hardware_session t"
    using assms(1) by (auto simp: provider_inv_def serves_def is_hardware_session_def)
  moreover have "onSessionReady env p c m
      = (Some None, on_session t (OnSessionStarted (Some h) None c (prov_latency_modes p)) m)"
    using True assms(1,2)
    by (auto simp: onSessionReady_defs report_defs provider_inv_def split: prod.split)
  ultimately show ?thesis by blast
next
  case False
  with assms(4) obtain mq where mq: "prov_data_mq p = Some mq" "mq_isValid mq" by blast
  have "onSessionReady env p c m = (Some (Some mq),
      on_session t (OnSessionStarted (Some h) (Some (env_dupeDesc env mq)) c (prov_latency_modes p)) m)"
    using False mq assms(1,2)
    by (cases "prov_class p")
      (simp_all add: onSessionReady_defs report_defs provider_inv_def Let_def split: prod.split)
  with dupe [OF mq(2)] show ?thesis by blast
qed

lemma OnSessionStarted_ready:
  assumes "config_accepted (s_session_type s) c" "\<forall>x. q = Some x \<longrightarrow> mq_isValid x"
    "is_hardware_session (s_session_type s) \<or> q \<noteq> None"
  shows "fst (OnSessionStarted (Some h) q c l s) = ReportSessionStatus s
     \<and> IsSessionReady (snd (OnSessionStarted (Some h) q c l s))
     \<and> s_stack_iface (snd (OnSessionStarted (Some h) q c l s)) = Some h
     \<and> s_latency_modes (snd (OnSessionStarted (Some h) q c l s)) = l
     \<and> s_audio_config (snd (OnSessionStarted (Some h) q c l s)) = Some c"
  using assms
  by (cases q) (auto simp: session_defs IsSessionReady_iff ReportSessionStatus_def)

text \<open>
  C2: A call of \<open>startSession\<close> on any provider that was opened: when it reports success the
  session of its type is ready with the stack's interface, the given configuration and
  latency modes, its observers have been told, and no other session has changed; when it
  refuses no session has changed and nobody was told, and the provider is as it was, except that
  a provider that makes its queue in \<open>startSession\<close>, called without an interface, keeps the new
  queue. It relies on a queue that is valid being valid again when it is opened from its
  duplicated descriptor.
\<close>

theorem startSession_ready:
  assumes "provider_reach env t p" "sessions_inv sc m"
    and "\<forall>mq. mq_isValid mq \<longrightarrow> mq_isValid (env_dupeDesc env mq)"
    and "startSession env p host_if audio_config modes m = Some r"
  shows "if res_status r = StatusOk
     then host_if \<noteq> None
        \<and> IsSessionReady (session_of (res_sessions r) t)
        \<and> s_stack_iface (session_of (res_sessions r) t) = host_if
        \<and> GetAudioConfig (session_of (res_sessions r) t) = Some audio_config
        \<and> s_latency_modes (session_of (res_sessions r) t) = modes
        \<and> res_notified r = ReportSessionStatus (session_of m t)
        \<and> (\<forall>u. u \<noteq> t \<longrightarrow> session_of (res_sessions r) u = session_of m u)
     else res_sessions r = m \<and> res_notified r = []
        \<and> (res_provider r = p \<or> host_if = None \<and> keeps_new_queue p (res_provider r))"
  using assms(4) provider_reach_inv [OF assms(1)]
proof (cases rule: startSession_cases)
  case (refused mq)
  then show ?thesis by simp
next
  case (entered q)
  show ?thesis
  proof (cases host_if)
    case None
    then show ?thesis using entered by (simp add: base_startSession_def)
  next
    case (Some h)
    define q' where "q' = q\<lparr>prov_latency_modes := modes, prov_audio_config := Some audio_config,
      prov_stack_iface := Some h,
      prov_links := env_linkToDeath env h (Ctx (prov_session_type q)) (prov_links q)\<rparr>"
    have type: "s_session_type (session_of m t) = t" using assms(2) by (simp add: sessions_inv_def)
    have "provider_inv t q'" "prov_stack_iface q' = Some h" "prov_latency_modes q' = modes"
      using entered(2) by (simp_all add: q'_def provider_inv_def)
    moreover have "prov_class q' \<in> {A2dpOffload, LeAudioOffload, HfpOffload}
        \<or> (\<exists>mq. prov_data_mq q' = Some mq \<and> mq_isValid mq)"
      using entered by (simp add: q'_def)
    ultimately obtain mq x where x: "onSessionReady env q' audio_config m
        = (mq, on_session t (OnSessionStarted (Some h) x audio_config modes) m)"
      "\<forall>y. x = Some y \<longrightarrow> mq_isValid y" "is_hardware_session t \<or> x \<noteq> None"
      using onSessionReady_result [of t q' h audio_config env m] entered(6) assms(3) type by auto
    have r: "r = \<lparr>res_status = StatusOk, res_mq = mq,
        res_notified = fst (on_session t (OnSessionStarted (Some h) x audio_config modes) m),
        res_provider = q', res_sessions = snd (on_session t (OnSessionStarted (Some h) x audio_config modes) m)\<rparr>"
      using entered(1) x(1) Some by (simp add: base_startSession_def q'_def [symmetric] split: prod.split)
    note ready = OnSessionStarted_ready [of "session_of m t" audio_config x h modes, unfolded type,
        OF entered(6) x(2,3)]
    then show ?thesis using Some
      by (simp add: r on_session_session_of on_session_result GetAudioConfig_def)
  qed
qed

text \<open>An environment in which every queue can be made, for the examples.\<close>

definition example_env :: provider_env where
  "example_env = \<lparr>env_linkToDeath = (\<lambda>h c ls. (h, c) # ls),
     env_unlinkToDeath = (\<lambda>h c ls. remove1 (h, c) ls),
     env_new_mq = (\<lambda>n. \<lparr>mq_descriptor = unat n, mq_isValid = True\<rparr>), env_dupeDesc = (\<lambda>mq. mq)\<rparr>"

definition example_pcm :: PcmConfiguration where
  "example_pcm = \<lparr>sampleRateHz = 48000, pcm_channelMode = CM_STEREO, bitsPerSample = 16, dataIntervalUs = 7500\<rparr>"

definition example_provider :: provider where
  "example_provider = new_provider LeAudioSoftware LE_AUDIO_SOFTWARE_ENCODING_DATAPATH None"

lemma example_provider_reach:
  "provider_reach example_env LE_AUDIO_SOFTWARE_ENCODING_DATAPATH example_provider"
  by (rule provider_reach.opened)
    (simp add: openProvider_def make_provider_def example_provider_def new_provider_def)

lemma example_env_dupe: "\<forall>mq. mq_isValid mq \<longrightarrow> mq_isValid (env_dupeDesc example_env mq)"
  by (simp add: example_env_def)

lemma sessions_inv_initial: "sessions_inv sc (\<lambda>t. None)"
  by (simp add: sessions_inv_def session_of_start session_inv_def BluetoothAudioSession_def)

lemma example_start_status:
  "map_option (\<lambda>r. (res_status r, res_mq r)) (startSession example_env example_provider (Some h)
      (pcmConfig example_pcm) [] (\<lambda>t. None))
     = Some (StatusOk, Some (Some \<lparr>mq_descriptor = 2688, mq_isValid = True\<rparr>))"
  by code_simp

theorem startSession_ready_witness:
  "\<exists>r. startSession example_env example_provider (Some 7) (pcmConfig example_pcm) [] (\<lambda>t. None) = Some r
     \<and> IsSessionReady (session_of (res_sessions r) LE_AUDIO_SOFTWARE_ENCODING_DATAPATH)"
proof -
  from example_start_status [of 7] obtain r where
    r: "startSession example_env example_provider (Some 7) (pcmConfig example_pcm) [] (\<lambda>t. None) = Some r"
    "res_status r = StatusOk" by auto
  from startSession_ready [OF example_provider_reach sessions_inv_initial example_env_dupe r(1)] r
  show ?thesis by simp
qed

text \<open>
  C6: Ending the session of a provider that has one leaves the session not ready and without
  a queue; a provider without one leaves every session as it was. Either way the provider
  refuses updates until the next start.
\<close>

theorem endSession_ends:
  assumes "provider_reach env t p" "endSession env p m = r"
  shows "res_status r = StatusOk
     \<and> (if prov_stack_iface p = None then res_sessions r = m \<and> res_notified r = []
        else \<not> IsSessionReady (session_of (res_sessions r) t)
           \<and> s_data_mq (session_of (res_sessions r) t) = None
           \<and> res_notified r = fst (OnSessionEnded (session_of m t))
           \<and> (\<forall>u. u \<noteq> t \<longrightarrow> session_of (res_sessions r) u = session_of m u))
     \<and> res_status (updateAudioConfiguration audio_config (res_provider r) m') = EX_ILLEGAL_ARGUMENT"
proof -
  have t: "prov_session_type p = t" using provider_reach_inv [OF assms(1)] by (simp add: provider_inv_def)
  have off: "\<not> IsSessionReady (snd (OnSessionEnded s)) \<and> s_data_mq (snd (OnSessionEnded s)) = None" for s
    by (simp add: OnSessionEnded_def UpdateDataPath_def IsSessionReady_iff Let_def)
  show ?thesis
  proof (cases "prov_stack_iface p")
    case None
    with assms(2) show ?thesis
      by (auto simp: endSession_def updateAudioConfiguration_def Let_def)
  next
    case (Some h)
    with assms(2) t have r: "res_status r = StatusOk" "res_sessions r = snd (on_session t OnSessionEnded m)"
      "res_notified r = fst (on_session t OnSessionEnded m)" "prov_stack_iface (res_provider r) = None"
      by (auto simp: endSession_def report_defs split: prod.split)
    with Some off show ?thesis
      by (simp add: on_session_session_of on_session_result updateAudioConfiguration_def Let_def)
  qed
qed

lemma example_start_iface:
  "map_option (\<lambda>r. (res_status r, prov_stack_iface (res_provider r))) (startSession example_env example_provider (Some h)
      (pcmConfig example_pcm) [] (\<lambda>t. None)) = Some (StatusOk, Some h)"
  by code_simp

theorem endSession_ends_witness:
  "\<exists>r. startSession example_env example_provider (Some 7) (pcmConfig example_pcm) [] (\<lambda>t. None) = Some r
     \<and> res_status r = StatusOk
     \<and> \<not> IsSessionReady (session_of (res_sessions (endSession example_env (res_provider r) (res_sessions r)))
           LE_AUDIO_SOFTWARE_ENCODING_DATAPATH)"
proof -
  from example_start_iface [of 7] obtain r where
    r: "startSession example_env example_provider (Some 7) (pcmConfig example_pcm) [] (\<lambda>t. None) = Some r"
    "res_status r = StatusOk" "prov_stack_iface (res_provider r) = Some 7" by auto
  from endSession_ends [OF provider_reach.started [OF example_provider_reach r(1)] refl, of "res_sessions r"] r
  show ?thesis by simp
qed

section \<open>Which providers can be opened\<close>

text \<open>
  \<open>openProvider\<close> serves every session type but the unknown one; it refuses only where
  the constructor cannot make the queue of the A2DP software or hearing aid provider. The
  provider it gives is for the type asked for and has no session.
\<close>

theorem openProvider_result:
  "case openProvider env t of
     Inl status \<Rightarrow> status = EX_ILLEGAL_ARGUMENT
       \<and> (t = ST_UNKNOWN
        \<or> (t \<in> {A2DP_SOFTWARE_ENCODING_DATAPATH, A2DP_SOFTWARE_DECODING_DATAPATH}
             \<and> \<not> mq_isValid (env_new_mq env 7680))
        \<or> (t = HEARING_AID_SOFTWARE_ENCODING_DATAPATH \<and> \<not> mq_isValid (env_new_mq env 3584)))
   | Inr p \<Rightarrow> t \<noteq> ST_UNKNOWN \<and> prov_session_type p = t \<and> serves (prov_class p) t
       \<and> prov_stack_iface p = None \<and> prov_audio_config p = None \<and> prov_links p = []"
  by (cases t)
    (auto simp: openProvider_def provider_constructors serves_def Let_def
      A2dpSoftware_kDataMqSize_def HearingAid_kDataMqSize_def)

section \<open>Sizes of the PCM queues\<close>

definition bytes_of_sample :: "PcmConfiguration \<Rightarrow> int" where
  "bytes_of_sample c = (if bitsPerSample c = 16 then 2 else 4)"

lemma pcm_valid_cases:
  assumes "IsSoftwarePcmConfigurationValid c"
  shows "sampleRateHz c \<in> {8000, 16000, 24000, 32000, 44100, 48000, 88200, 96000}"
    "pcm_channelMode c \<in> {CM_MONO, CM_STEREO}" "bitsPerSample c \<in> {16, 24, 32}"
  using assms by (auto simp: IsSoftwarePcmConfigurationValid_def kDefaultSoftwarePcmCapabilities_def)

lemma LeAudio_product:
  assumes "IsSoftwarePcmConfigurationValid c" "LeAudio_buffer_modifier t = 2" "0 \<le> dataIntervalUs c"
  shows "LeAudio_data_mq_size t c =
    (let size = 2 * (sampleRateHz c * channel_mode_to_channel_count (pcm_channelMode c) * bytes_of_sample c)
        * (dataIntervalUs c div 1000) div 1000
     in if 2 ^ 32 \<le> size then None else Some (word_of_int size))"
proof -
  have b: "(if bitsPerSample c = 24 then 4 else uint (bitsPerSample c) div 8) = bytes_of_sample c"
    using pcm_valid_cases(3) [OF assms(1)] by (auto simp: bytes_of_sample_def)
  have n: "0 \<le> sampleRateHz c * channel_mode_to_channel_count (pcm_channelMode c) * bytes_of_sample c"
    using pcm_valid_cases [OF assms(1)]
    by (auto simp: bytes_of_sample_def channel_mode_to_channel_count_def)
  have d: "x sdiv 1000 = x div 1000" if "0 \<le> x" for x :: int
    using that by (auto simp: signed_divide_int_def sgn_if)
  define k where "k = sampleRateHz c * channel_mode_to_channel_count (pcm_channelMode c) * bytes_of_sample c"
  define q where "q = dataIntervalUs c div 1000"
  have kq: "0 \<le> k * q" using n assms(3) by (simp add: k_def q_def)
  have e: "k * q * 2 = 2 * k * q" by simp
  have "\<not> 2 * k * q div 1000 < 0" using kq by (simp add: pos_imp_zdiv_neg_iff not_less)
  then show ?thesis
    unfolding LeAudio_data_mq_size_def b assms(2) Let_def
    using kq by (simp add: d assms(3) k_def [symmetric] q_def [symmetric] e)
qed

text \<open>
  The queue of an LE audio software session is described as two frames. With an interval
  of whole milliseconds it holds exactly two intervals of audio (up to the fraction of a byte);
  with the 7.5 ms interval it holds only two times 7 ms, and an interval below one
  millisecond makes it empty, which refuses the session.
\<close>

theorem LeAudio_queue_size:
  assumes "IsSoftwarePcmConfigurationValid c" "0 \<le> dataIntervalUs c" "dataIntervalUs c < 2 ^ 31"
    and "t \<in> {LE_AUDIO_SOFTWARE_ENCODING_DATAPATH, LE_AUDIO_SOFTWARE_DECODING_DATAPATH,
      LE_AUDIO_BROADCAST_SOFTWARE_ENCODING_DATAPATH}"
  defines "rate \<equiv> sampleRateHz c * channel_mode_to_channel_count (pcm_channelMode c) * bytes_of_sample c"
  shows "\<exists>n. LeAudio_data_mq_size t c = Some n
     \<and> (1000 dvd dataIntervalUs c \<longrightarrow> uint n = 2 * rate * dataIntervalUs c div 1000000)
     \<and> (dataIntervalUs c = 7500 \<longrightarrow> uint n = 2 * rate * 7 div 1000 \<and> uint n * 1000000 < 2 * rate * 7500)
     \<and> (n = 0 \<longleftrightarrow> dataIntervalUs c < 1000)"
proof -
  define q where "q = dataIntervalUs c div 1000"
  have "LeAudio_buffer_modifier t = 2" using assms(4) by (auto simp: LeAudio_buffer_modifier_def)
  note size = LeAudio_product [OF assms(1) this assms(2), folded rate_def q_def, unfolded Let_def]
  have rate: "16000 \<le> rate" "rate \<le> 768000"
    using pcm_valid_cases [OF assms(1)]
    by (auto simp: rate_def bytes_of_sample_def channel_mode_to_channel_count_def)
  have q: "0 \<le> q" "q \<le> 2147483" using assms(2,3) by (simp_all add: q_def)
  have "2 * rate * q \<le> 2 * 768000 * 2147483" using rate q by (intro mult_mono) simp_all
  then have b: "2 * rate * q div 1000 < 2 ^ 32" by simp
  have "0 \<le> 2 * rate * q" using rate q by simp
  then have "0 \<le> 2 * rate * q div 1000" by (simp only: pos_imp_zdiv_nonneg_iff zero_less_numeral)
  with b size have n: "LeAudio_data_mq_size t c = Some (word_of_int (2 * rate * q div 1000))"
    "uint (word_of_int (2 * rate * q div 1000) :: u32) = 2 * rate * q div 1000"
    by (simp_all add: uint_word_of_int_eq take_bit_int_eq_self)
  have "2 * rate * dataIntervalUs c div 1000000 = 2 * rate * q div 1000" if "1000 dvd dataIntervalUs c"
  proof -
    from that have "dataIntervalUs c = q * 1000" by (simp add: q_def)
    then have e: "2 * rate * dataIntervalUs c = (2 * rate * q) * 1000" by simp
    have m: "(1000000 :: int) = 1000 * 1000" by simp
    show ?thesis unfolding e m by (rule div_mult_mult2) simp
  qed
  moreover have "2 * rate * 7 div 1000 * 1000000 < 2 * rate * 7500" using rate(1) by simp
  moreover have "q = 7" if "dataIntervalUs c = 7500" using that by (simp add: q_def)
  moreover have "2 * rate * q div 1000 = 0 \<longleftrightarrow> dataIntervalUs c < 1000"
  proof (cases "q = 0")
    case True
    then show ?thesis using assms(2) by (auto simp: q_def)
  next
    case False
    with q(1) have "16000 * 1 \<le> rate * q" using rate(1) by (intro mult_mono) simp_all
    then have "32000 \<le> 2 * rate * q" by (simp add: mult.commute [of q])
    then have "32000 div 1000 \<le> 2 * rate * q div 1000" by (rule zdiv_mono1) simp
    then have "2 * rate * q div 1000 \<noteq> 0" by linarith
    moreover have "\<not> dataIntervalUs c < 1000" using False assms(2) by (auto simp: q_def)
    ultimately show ?thesis by blast
  qed
  moreover have "(word_of_int (2 * rate * q div 1000) :: u32) = 0 \<longleftrightarrow> 2 * rate * q div 1000 = 0"
    using n(2) by (metis uint_0_iff)
  ultimately show ?thesis using n by auto
qed

theorem LeAudio_queue_size_witness:
  "\<exists>n. LeAudio_data_mq_size LE_AUDIO_SOFTWARE_ENCODING_DATAPATH example_pcm = Some n
     \<and> uint n = 2688 \<and> uint n < 2 * 1440"
proof -
  have "IsSoftwarePcmConfigurationValid example_pcm" by code_simp
  from LeAudio_queue_size [OF this, of LE_AUDIO_SOFTWARE_ENCODING_DATAPATH] show ?thesis
    by (auto simp: example_pcm_def channel_mode_to_channel_count_def bytes_of_sample_def)
qed

text \<open>
  A hands-free software session is accepted only for mono 16-bit audio at 8, 16 or
  32 kHz with the 7.5 ms interval, and its queue then holds exactly two such intervals.
\<close>

theorem HfpSoftware_accepts:
  assumes "HfpSoftware_startSession env p (Some h) audio_config modes m = r" "res_status r = StatusOk"
  shows "\<exists>c mq. audio_config = pcmConfig c
     \<and> c = \<lparr>sampleRateHz = sampleRateHz c, pcm_channelMode = CM_MONO, bitsPerSample = 16, dataIntervalUs = 7500\<rparr>
     \<and> sampleRateHz c \<in> {8000, 16000, 32000}
     \<and> prov_data_mq (res_provider r) = Some mq
     \<and> mq = env_new_mq env (word_of_int (2 * (sampleRateHz c * 2 * 7500 div 1000000)))"
proof -
  have "\<exists>c. audio_config = pcmConfig c
     \<and> c = \<lparr>sampleRateHz = sampleRateHz c, pcm_channelMode = CM_MONO, bitsPerSample = 16, dataIntervalUs = 7500\<rparr>
     \<and> sampleRateHz c \<in> {8000, 16000, 32000}
     \<and> prov_data_mq (res_provider r) = Some (env_new_mq env (Hfp_data_mq_size c))"
    using assms
    by (auto simp: HfpSoftware_startSession_def Let_def base_startSession_provider
        split: AudioConfiguration.splits if_splits)
  then obtain c where c: "audio_config = pcmConfig c"
    "c = \<lparr>sampleRateHz = sampleRateHz c, pcm_channelMode = CM_MONO, bitsPerSample = 16, dataIntervalUs = 7500\<rparr>"
    "sampleRateHz c \<in> {8000, 16000, 32000}"
    "prov_data_mq (res_provider r) = Some (env_new_mq env (Hfp_data_mq_size c))" by blast
  have "Hfp_data_mq_size c = word_of_int (2 * (sampleRateHz c * 2 * 7500 div 1000000))"
    using c(3) by (subst c(2)) (auto simp: Hfp_data_mq_size_def)
  with c show ?thesis by metis
qed

theorem HfpSoftware_accepts_witness:
  "\<exists>c. pcmConfig \<lparr>sampleRateHz = 16000, pcm_channelMode = CM_MONO, bitsPerSample = 16, dataIntervalUs = 7500\<rparr> = pcmConfig c
     \<and> sampleRateHz c \<in> {8000, 16000, 32000}"
proof -
  let ?c = "pcmConfig \<lparr>sampleRateHz = 16000, pcm_channelMode = CM_MONO, bitsPerSample = 16, dataIntervalUs = 7500\<rparr>"
  have "res_status (HfpSoftware_startSession example_env
      (new_provider HfpSoftware HFP_SOFTWARE_ENCODING_DATAPATH None) (Some 7) ?c [] (\<lambda>t. None)) = StatusOk"
    by code_simp
  from HfpSoftware_accepts [OF refl this] show ?thesis by blast
qed

end
