(* ===== verification/Port_Aidl.thy ===== *)
theory Port_Aidl
  imports Session_Control
begin

text \<open>
  The AIDL device port (\<open>hw/device_port_proxy.cc\<close>): the stream HAL's handle on a session.
  A port registers closures with its session and follows the stream's state from what the
  stack reports through them. The world of a port is the process's sessions and the port
  itself. While a call waits, the stack acts: its actions are part of the call's environment.
\<close>

section \<open>Types\<close>

datatype BluetoothStreamState = DISABLED | STANDBY | STARTING | STARTED | SUSPENDING | BSS_UNKNOWN

datatype audio_channel_mask =
    AUDIO_CHANNEL_OUT_MONO | AUDIO_CHANNEL_OUT_STEREO | AUDIO_CHANNEL_IN_MONO | AUDIO_CHANNEL_IN_STEREO
  | OtherChannelMask u32

datatype audio_format =
    AUDIO_FORMAT_PCM_16_BIT | AUDIO_FORMAT_PCM_24_BIT_PACKED | AUDIO_FORMAT_PCM_8_24_BIT
  | AUDIO_FORMAT_PCM_32_BIT | OtherFormat u32

record audio_config =
  ac_sample_rate :: u32
  ac_channel_mask :: audio_channel_mask
  ac_format :: audio_format

datatype audio_device =
    AUDIO_DEVICE_OUT_BLUETOOTH_A2DP | AUDIO_DEVICE_OUT_BLUETOOTH_A2DP_HEADPHONES
  | AUDIO_DEVICE_OUT_BLUETOOTH_A2DP_SPEAKER | AUDIO_DEVICE_OUT_HEARING_AID
  | AUDIO_DEVICE_OUT_BLE_HEADSET | AUDIO_DEVICE_OUT_BLE_SPEAKER | AUDIO_DEVICE_IN_BLE_HEADSET
  | AUDIO_DEVICE_OUT_BLE_BROADCAST | OtherDevice nat

definition kBluetoothDefaultSampleRate :: u32 where "kBluetoothDefaultSampleRate = 44100"
definition kBluetoothDefaultAudioFormatBitsPerSample :: audio_format where
  "kBluetoothDefaultAudioFormatBitsPerSample = AUDIO_FORMAT_PCM_16_BIT"
definition kBluetoothDefaultOutputChannelModeMask :: audio_channel_mask where
  "kBluetoothDefaultOutputChannelModeMask = AUDIO_CHANNEL_OUT_STEREO"
definition kBluetoothDefaultInputChannelModeMask :: audio_channel_mask where
  "kBluetoothDefaultInputChannelModeMask = AUDIO_CHANNEL_IN_MONO"

fun OutputChannelModeToAudioFormat :: "ChannelMode \<Rightarrow> audio_channel_mask" where
  "OutputChannelModeToAudioFormat CM_MONO = AUDIO_CHANNEL_OUT_MONO"
| "OutputChannelModeToAudioFormat CM_STEREO = AUDIO_CHANNEL_OUT_STEREO"
| "OutputChannelModeToAudioFormat _ = kBluetoothDefaultOutputChannelModeMask"

fun InputChannelModeToAudioFormat :: "ChannelMode \<Rightarrow> audio_channel_mask" where
  "InputChannelModeToAudioFormat CM_MONO = AUDIO_CHANNEL_IN_MONO"
| "InputChannelModeToAudioFormat CM_STEREO = AUDIO_CHANNEL_IN_STEREO"
| "InputChannelModeToAudioFormat _ = kBluetoothDefaultInputChannelModeMask"

definition BitsPerSampleToAudioFormat :: "u8 \<Rightarrow> SessionType \<Rightarrow> audio_format" where
  "BitsPerSampleToAudioFormat bits_per_sample session_type =
     (if bits_per_sample = 16 then AUDIO_FORMAT_PCM_16_BIT
      else if bits_per_sample = 24 then
        (if session_type = A2DP_HARDWARE_OFFLOAD_ENCODING_DATAPATH
            \<or> session_type = A2DP_SOFTWARE_ENCODING_DATAPATH
         then AUDIO_FORMAT_PCM_24_BIT_PACKED else AUDIO_FORMAT_PCM_8_24_BIT)
      else if bits_per_sample = 32 then AUDIO_FORMAT_PCM_32_BIT
      else kBluetoothDefaultAudioFormatBitsPerSample)"

text \<open>
  \<open>strtok\<close> over a copy of the tags: the pieces between semicolons that are not empty. The
  copy holds at most \<open>tags_max - 1\<close> characters.
\<close>

fun strtok_all :: "char \<Rightarrow> string \<Rightarrow> string \<Rightarrow> string list" where
  "strtok_all delim tok [] = (if tok = [] then [] else [rev tok])"
| "strtok_all delim tok (c # cs) =
     (if c = delim then (if tok = [] then strtok_all delim [] cs else rev tok # strtok_all delim [] cs)
      else strtok_all delim (c # tok) cs)"

definition CovertAudioTagFromV7 :: "nat \<Rightarrow> string \<Rightarrow> string list" where
  "CovertAudioTagFromV7 tags_max tags_v7 = strtok_all CHR '';'' [] (take (tags_max - 1) tags_v7)"

section \<open>State, events and delivery\<close>

record aidl_port =
  port_cookie :: u16
  port_state :: BluetoothStreamState
  port_session_type :: SessionType
  port_is_stereo_to_mono :: bool

record world =
  w_sessions :: sessions_map
  w_port :: aidl_port

text \<open>
  The constants of a run: the numbering of session types, and the number that names the
  closures of this port.
\<close>

record port_ctx =
  pc_sc :: session_code
  pc_this :: nat

definition BluetoothAudioPortAidl :: "port_ctx \<Rightarrow> aidl_port" where
  "BluetoothAudioPortAidl ctx =
     \<lparr>port_cookie = kObserversCookieUndefined (pc_sc ctx), port_state = DISABLED,
      port_session_type = ST_UNKNOWN, port_is_stereo_to_mono = False\<rparr>"

definition in_use :: "port_ctx \<Rightarrow> aidl_port \<Rightarrow> bool" where
  "in_use ctx p \<longleftrightarrow> port_cookie p \<noteq> kObserversCookieUndefined (pc_sc ctx)"

definition ControlResultHandler :: "port_ctx \<Rightarrow> BluetoothAudioStatus \<Rightarrow> aidl_port \<Rightarrow> aidl_port" where
  "ControlResultHandler ctx status p =
     (if \<not> in_use ctx p then p
      else case port_state p of
        STARTED \<Rightarrow>
          (if status = RECONFIGURATION \<or> status = SUCCESS then p\<lparr>port_state := STANDBY\<rparr> else p)
      | STARTING \<Rightarrow>
          (if status = SUCCESS then p\<lparr>port_state := STARTED\<rparr> else p\<lparr>port_state := STANDBY\<rparr>)
      | SUSPENDING \<Rightarrow>
          (if status = SUCCESS then p\<lparr>port_state := STANDBY\<rparr> else p\<lparr>port_state := DISABLED\<rparr>)
      | _ \<Rightarrow> p)"

definition SessionChangedHandler :: "port_ctx \<Rightarrow> aidl_port \<Rightarrow> aidl_port" where
  "SessionChangedHandler ctx p =
     (if \<not> in_use ctx p then p else p\<lparr>port_state := DISABLED\<rparr>)"

text \<open>The closures that \<open>SetUp\<close> registers, entered for one notification.\<close>

fun deliver :: "port_ctx \<Rightarrow> notification \<Rightarrow> aidl_port \<Rightarrow> aidl_port" where
  "deliver ctx (ControlResult f cookie start_resp status) p =
     (if f \<noteq> pc_this ctx \<or> \<not> in_use ctx p \<or> port_cookie p \<noteq> cookie then p
      else ControlResultHandler ctx status p)"
| "deliver ctx (SessionChanged f cookie) p =
     (if f \<noteq> pc_this ctx \<or> \<not> in_use ctx p \<or> port_cookie p \<noteq> cookie then p
      else SessionChangedHandler ctx p)"
| "deliver ctx _ p = p"

text \<open>
  What others do to the sessions while a port lives: the reports of the providers, and other
  ports that register and unregister.
\<close>

datatype env_event =
    Ev_SessionStarted SessionType "nat option" "DataMQ option" AudioConfiguration "LatencyMode list"
  | Ev_SessionEnded SessionType
  | Ev_ControlStatus SessionType bool BluetoothAudioStatus
  | Ev_AudioConfigChanged SessionType AudioConfiguration
  | Ev_LowLatency SessionType bool
  | Ev_Register SessionType PortStatusCallbacks
  | Ev_Unregister SessionType u16

fun apply_event :: "port_ctx \<Rightarrow> env_event \<Rightarrow> sessions_map \<Rightarrow> notification list \<times> sessions_map" where
  "apply_event ctx (Ev_SessionStarted t i q c l) m = Report_OnSessionStarted t i q c l m"
| "apply_event ctx (Ev_SessionEnded t) m = Report_OnSessionEnded t m"
| "apply_event ctx (Ev_ControlStatus t b st) m = Report_ReportControlStatus t b st m"
| "apply_event ctx (Ev_AudioConfigChanged t c) m = Report_ReportAudioConfigChanged t c m"
| "apply_event ctx (Ev_LowLatency t b) m = Report_ReportLowLatencyModeAllowedChanged t b m"
| "apply_event ctx (Ev_Register t cb) m = ([], snd (RegisterControlResultCback (pc_sc ctx) t cb m))"
| "apply_event ctx (Ev_Unregister t k) m = ([], UnregisterControlResultCback t k m)"

definition env_step :: "port_ctx \<Rightarrow> env_event \<Rightarrow> world \<Rightarrow> world" where
  "env_step ctx e w =
     (let (ns, m) = apply_event ctx e (w_sessions w)
      in \<lparr>w_sessions = m, w_port = fold (deliver ctx) ns (w_port w)\<rparr>)"

definition env_steps :: "port_ctx \<Rightarrow> env_event list \<Rightarrow> world \<Rightarrow> world" where
  "env_steps ctx es w = fold (env_step ctx) es w"

text \<open>
  The environment of one call: whether the binder call is OK and what happens during it; the
  batches of events after each of which a waiting thread wakes, until the timeout; the
  position and the queue's rounds that the call finds.
\<close>

record port_env =
  pe_hal_ok :: bool
  pe_during :: "env_event list"
  pe_wait :: "env_event list list"
  pe_position :: "PresentationPosition option"
  pe_polls :: "nat \<Rightarrow> fmq_poll"

section \<open>Set-up and tear-down\<close>

definition init_session_type :: "audio_device \<Rightarrow> world \<Rightarrow> bool \<times> world" where
  "init_session_type device w =
     (let set = (\<lambda>t. let (ready, m) = Control_IsSessionReady t (w_sessions w)
            in (ready, \<lparr>w_sessions = m, w_port = (w_port w)\<lparr>port_session_type := t\<rparr>\<rparr>)) in
      case device of
        AUDIO_DEVICE_OUT_BLUETOOTH_A2DP \<Rightarrow> set A2DP_SOFTWARE_ENCODING_DATAPATH
      | AUDIO_DEVICE_OUT_BLUETOOTH_A2DP_HEADPHONES \<Rightarrow> set A2DP_SOFTWARE_ENCODING_DATAPATH
      | AUDIO_DEVICE_OUT_BLUETOOTH_A2DP_SPEAKER \<Rightarrow> set A2DP_SOFTWARE_ENCODING_DATAPATH
      | AUDIO_DEVICE_OUT_HEARING_AID \<Rightarrow> set HEARING_AID_SOFTWARE_ENCODING_DATAPATH
      | AUDIO_DEVICE_OUT_BLE_HEADSET \<Rightarrow> set LE_AUDIO_SOFTWARE_ENCODING_DATAPATH
      | AUDIO_DEVICE_OUT_BLE_SPEAKER \<Rightarrow> set LE_AUDIO_SOFTWARE_ENCODING_DATAPATH
      | AUDIO_DEVICE_IN_BLE_HEADSET \<Rightarrow> set LE_AUDIO_SOFTWARE_DECODING_DATAPATH
      | AUDIO_DEVICE_OUT_BLE_BROADCAST \<Rightarrow> set LE_AUDIO_BROADCAST_SOFTWARE_ENCODING_DATAPATH
      | OtherDevice _ \<Rightarrow> (False, w))"

definition port_callbacks :: "port_ctx \<Rightarrow> PortStatusCallbacks" where
  "port_callbacks ctx =
     \<lparr>control_result_cb = Some (pc_this ctx), session_changed_cb = Some (pc_this ctx),
      audio_configuration_changed_cb = None, low_latency_mode_allowed_cb = None\<rparr>"

definition SetUp :: "port_ctx \<Rightarrow> audio_device \<Rightarrow> world \<Rightarrow> bool \<times> world" where
  "SetUp ctx devices w =
     (let (ok, w) = init_session_type devices w in
      if \<not> ok then (False, w)
      else let p = (w_port w)\<lparr>port_state := STANDBY\<rparr>;
               (cookie, m) = RegisterControlResultCback (pc_sc ctx) (port_session_type p)
                  (port_callbacks ctx) (w_sessions w)
      in (cookie \<noteq> kObserversCookieUndefined (pc_sc ctx),
          \<lparr>w_sessions = m, w_port = p\<lparr>port_cookie := cookie\<rparr>\<rparr>))"

definition TearDown :: "port_ctx \<Rightarrow> world \<Rightarrow> world" where
  "TearDown ctx w =
     (let p = w_port w in
      if \<not> in_use ctx p then w
      else \<lparr>w_sessions = UnregisterControlResultCback (port_session_type p) (port_cookie p) (w_sessions w),
            w_port = p\<lparr>port_cookie := kObserversCookieUndefined (pc_sc ctx)\<rparr>\<rparr>)"

definition ForcePcmStereoToMono :: "bool \<Rightarrow> world \<Rightarrow> world" where
  "ForcePcmStereoToMono force w = w\<lparr>w_port := (w_port w)\<lparr>port_is_stereo_to_mono := force\<rparr>\<rparr>"

definition GetState :: "world \<Rightarrow> BluetoothStreamState" where
  "GetState w = port_state (w_port w)"

definition SetState :: "BluetoothStreamState \<Rightarrow> world \<Rightarrow> world" where
  "SetState state w = w\<lparr>w_port := (w_port w)\<lparr>port_state := state\<rparr>\<rparr>"

section \<open>Control path\<close>

text \<open>
  \<open>wait_for\<close> with a predicate: it returns true at the first wake-up that finds it true,
  otherwise what it finds at the timeout.
\<close>

fun wait_for :: "port_ctx \<Rightarrow> (BluetoothStreamState \<Rightarrow> bool) \<Rightarrow> env_event list list \<Rightarrow> world \<Rightarrow> bool \<times> world" where
  "wait_for ctx pred [] w = (pred (GetState w), w)"
| "wait_for ctx pred (batch # batches) w =
     (if pred (GetState w) then (True, w)
      else wait_for ctx pred batches (env_steps ctx batch w))"

definition CondwaitState ::
  "port_ctx \<Rightarrow> BluetoothStreamState \<Rightarrow> env_event list list \<Rightarrow> world \<Rightarrow> bool \<times> world" where
  "CondwaitState ctx state batches w =
     (case state of
        STARTING \<Rightarrow>
          (let (retval, w) = wait_for ctx (\<lambda>s. s \<noteq> STARTING) batches w
           in (retval \<and> GetState w = STARTED, w))
      | SUSPENDING \<Rightarrow>
          (let (retval, w) = wait_for ctx (\<lambda>s. s \<noteq> SUSPENDING) batches w
           in (retval \<and> GetState w = STANDBY, w))
      | _ \<Rightarrow> (False, w))"

definition Start :: "port_ctx \<Rightarrow> port_env \<Rightarrow> world \<Rightarrow> bool \<times> port_call list \<times> world" where
  "Start ctx env w =
     (if \<not> in_use ctx (w_port w) then (False, [], w)
      else if GetState w = STANDBY then
        let w = SetState STARTING w;
            ((ok, calls), m) = Control_StartStream (port_session_type (w_port w)) False
               (pe_hal_ok env) (w_sessions w);
            w = env_steps ctx (pe_during env) (w\<lparr>w_sessions := m\<rparr>)
        in if ok then (let (retval, w) = CondwaitState ctx STARTING (pe_wait env) w in (retval, calls, w))
           else (False, calls, w)
      else (False, [], w))"

definition Suspend :: "port_ctx \<Rightarrow> port_env \<Rightarrow> world \<Rightarrow> bool \<times> port_call list \<times> world" where
  "Suspend ctx env w =
     (if \<not> in_use ctx (w_port w) then (False, [], w)
      else if GetState w = STARTED then
        let w = SetState SUSPENDING w;
            ((ok, calls), m) = Control_SuspendStream (port_session_type (w_port w))
               (pe_hal_ok env) (w_sessions w);
            w = env_steps ctx (pe_during env) (w\<lparr>w_sessions := m\<rparr>)
        in if ok then (let (retval, w) = CondwaitState ctx SUSPENDING (pe_wait env) w in (retval, calls, w))
           else (False, calls, w)
      else (False, [], w))"

definition Stop :: "port_ctx \<Rightarrow> port_env \<Rightarrow> world \<Rightarrow> port_call list \<times> world" where
  "Stop ctx env w =
     (if \<not> in_use ctx (w_port w) then ([], w)
      else let w = SetState DISABLED w;
               (calls, m) = Control_StopStream (port_session_type (w_port w)) (w_sessions w)
      in (calls, env_steps ctx (pe_during env) (w\<lparr>w_sessions := m\<rparr>)))"

section \<open>Queries and data path\<close>

text \<open>
  These methods are \<open>const\<close>: they leave the port as it is, and the sessions too, because
  the session of a port in use exists. \<open>GetAudioConfig\<close> always has a value.
\<close>

definition hal_audio_config :: "world \<Rightarrow> AudioConfiguration" where
  "hal_audio_config w = the (fst (Control_GetAudioConfig (port_session_type (w_port w)) (w_sessions w)))"

definition GetPreferredDataIntervalUs :: "port_ctx \<Rightarrow> world \<Rightarrow> u64 option" where
  "GetPreferredDataIntervalUs ctx w =
     (if \<not> in_use ctx (w_port w) then None
      else case hal_audio_config w of
        pcmConfig pcm_cfg \<Rightarrow> Some (word_of_int (dataIntervalUs pcm_cfg))
      | _ \<Rightarrow> None)"

definition default_output_config :: audio_config where
  "default_output_config =
     \<lparr>ac_sample_rate = kBluetoothDefaultSampleRate,
      ac_channel_mask = kBluetoothDefaultOutputChannelModeMask,
      ac_format = kBluetoothDefaultAudioFormatBitsPerSample\<rparr>"

definition default_input_config :: audio_config where
  "default_input_config =
     \<lparr>ac_sample_rate = kBluetoothDefaultSampleRate,
      ac_channel_mask = kBluetoothDefaultInputChannelModeMask,
      ac_format = kBluetoothDefaultAudioFormatBitsPerSample\<rparr>"

definition Out_LoadAudioConfig :: "port_ctx \<Rightarrow> audio_config \<Rightarrow> world \<Rightarrow> bool \<times> audio_config" where
  "Out_LoadAudioConfig ctx audio_cfg w =
     (if \<not> in_use ctx (w_port w) then (False, default_output_config)
      else case hal_audio_config w of
        pcmConfig pcm_cfg \<Rightarrow>
          (if pcm_channelMode pcm_cfg = CM_UNKNOWN then (False, audio_cfg)
           else (True,
             \<lparr>ac_sample_rate = word_of_int (sampleRateHz pcm_cfg),
              ac_channel_mask = (if port_is_stereo_to_mono (w_port w) then AUDIO_CHANNEL_OUT_STEREO
                 else OutputChannelModeToAudioFormat (pcm_channelMode pcm_cfg)),
              ac_format = BitsPerSampleToAudioFormat (bitsPerSample pcm_cfg) (port_session_type (w_port w))\<rparr>))
      | _ \<Rightarrow> (False, default_output_config))"

definition In_LoadAudioConfig :: "port_ctx \<Rightarrow> audio_config \<Rightarrow> world \<Rightarrow> bool \<times> audio_config" where
  "In_LoadAudioConfig ctx audio_cfg w =
     (if \<not> in_use ctx (w_port w) then (False, default_input_config)
      else case hal_audio_config w of
        pcmConfig pcm_cfg \<Rightarrow>
          (if pcm_channelMode pcm_cfg = CM_UNKNOWN then (False, audio_cfg)
           else (True,
             \<lparr>ac_sample_rate = word_of_int (sampleRateHz pcm_cfg),
              ac_channel_mask = InputChannelModeToAudioFormat (pcm_channelMode pcm_cfg),
              ac_format = BitsPerSampleToAudioFormat (bitsPerSample pcm_cfg) (port_session_type (w_port w))\<rparr>))
      | _ \<Rightarrow> (False, default_input_config))"

text \<open>
  Writing. The mixer \<open>downmix_to_mono_i16_from_stereo_i16\<close> is library code: \<open>downmix buf n\<close>
  is what it makes of \<open>n\<close> frames. The result is the number returned and the transfer;
  \<^term>\<open>None\<close> is the null queue of an offload session.
\<close>

definition WriteData ::
  "port_ctx \<Rightarrow> (u8 list \<Rightarrow> nat \<Rightarrow> u8 list) \<Rightarrow> port_env \<Rightarrow> u8 list \<Rightarrow> nat \<Rightarrow> world
     \<Rightarrow> (nat \<times> u8 list list) option" where
  "WriteData ctx downmix env buffer bytes w =
     (if \<not> in_use ctx (w_port w) then Some (0, [])
      else if \<not> port_is_stereo_to_mono (w_port w) then
        map_option (\<lambda>t. (pcm_total t, pcm_chunks t))
          (fst (Control_OutWritePcmData (port_session_type (w_port w)) (pe_polls env)
             (Some buffer) bytes (w_sessions w)))
      else let write_frames = bytes div 4 in
        if write_frames = 0 then Some (0, [])
        else let dst = downmix buffer write_frames in
          map_option (\<lambda>t. (pcm_total t * 2, pcm_chunks t))
            (fst (Control_OutWritePcmData (port_session_type (w_port w)) (pe_polls env)
               (Some dst) (write_frames * 2) (w_sessions w))))"

definition ReadData ::
  "port_ctx \<Rightarrow> port_env \<Rightarrow> u8 list \<Rightarrow> nat \<Rightarrow> world \<Rightarrow> (nat \<times> u8 list) option" where
  "ReadData ctx env buffer bytes w =
     (if \<not> in_use ctx (w_port w) then Some (0, buffer)
      else map_option (\<lambda>(b, t). (pcm_total t, the b))
        (fst (Control_InReadPcmData (port_session_type (w_port w)) (pe_polls env)
           (Some buffer) bytes (w_sessions w))))"

text \<open>The position written when the session wrote none: the parcelable's defaults.\<close>

definition PresentationPosition_default :: PresentationPosition where
  "PresentationPosition_default = \<lparr>remoteDeviceAudioDelayNanos = 0, transmittedOctets = 0,
     timestamp_tvSec = 0, timestamp_tvNSec = 0\<rparr>"

record port_position =
  pos_delay_ns :: u64
  pos_bytes :: u64
  pos_sec :: int
  pos_nsec :: int

definition Port_GetPresentationPosition ::
  "port_ctx \<Rightarrow> port_env \<Rightarrow> world \<Rightarrow> bool \<times> port_position option" where
  "Port_GetPresentationPosition ctx env w =
     (if \<not> in_use ctx (w_port w) then (False, None)
      else let (retval, calls, pos) = fst (Control_GetPresentationPosition
                 (port_session_type (w_port w)) (pe_position env) (w_sessions w));
               presentation_position =
                 (case pos of None \<Rightarrow> PresentationPosition_default | Some p \<Rightarrow> p)
      in (retval, Some
            \<lparr>pos_delay_ns = word_of_int (remoteDeviceAudioDelayNanos presentation_position),
             pos_bytes = word_of_int (transmittedOctets presentation_position),
             pos_sec = timestamp_tvSec presentation_position,
             pos_nsec = timestamp_tvNSec presentation_position\<rparr>))"

text \<open>A track of the framework's metadata, version 7: the base fields and the tag string.\<close>

record track_v7 =
  v7_usage :: int
  v7_content_type :: int
  v7_source :: int
  v7_gain :: int
  v7_tags :: string

definition Port_UpdateSourceMetadata ::
  "port_ctx \<Rightarrow> nat \<Rightarrow> port_env \<Rightarrow> track_v7 list \<Rightarrow> world \<Rightarrow> port_call list" where
  "Port_UpdateSourceMetadata ctx tags_max env tracks w =
     (if \<not> in_use ctx (w_port w) then []
      else if length tracks = 0 then []
      else snd (fst (Control_UpdateSourceMetadata_aidl (port_session_type (w_port w))
        (map (\<lambda>t. \<lparr>track_usage = v7_usage t, track_contentType = v7_content_type t, track_source = 0,
                  track_gain = 0, track_tags = CovertAudioTagFromV7 tags_max (v7_tags t)\<rparr>) tracks)
        (pe_hal_ok env) (w_sessions w))))"

definition Port_UpdateSinkMetadata ::
  "port_ctx \<Rightarrow> nat \<Rightarrow> port_env \<Rightarrow> track_v7 list \<Rightarrow> world \<Rightarrow> port_call list" where
  "Port_UpdateSinkMetadata ctx tags_max env tracks w =
     (if \<not> in_use ctx (w_port w) then []
      else if length tracks = 0 then []
      else snd (fst (Control_UpdateSinkMetadata_aidl (port_session_type (w_port w))
        (map (\<lambda>t. \<lparr>track_usage = 0, track_contentType = 0, track_source = v7_source t,
                  track_gain = v7_gain t, track_tags = CovertAudioTagFromV7 tags_max (v7_tags t)\<rparr>) tracks)
        (pe_hal_ok env) (w_sessions w))))"

definition IsA2dp :: "world \<Rightarrow> bool" where
  "IsA2dp w \<longleftrightarrow> (let t = port_session_type (w_port w) in
     t = A2DP_SOFTWARE_ENCODING_DATAPATH \<or> t = A2DP_HARDWARE_OFFLOAD_ENCODING_DATAPATH)"

definition IsLeAudio :: "world \<Rightarrow> bool" where
  "IsLeAudio w \<longleftrightarrow> (let t = port_session_type (w_port w) in
     t = LE_AUDIO_SOFTWARE_ENCODING_DATAPATH \<or> t = LE_AUDIO_SOFTWARE_DECODING_DATAPATH
   \<or> t = LE_AUDIO_HARDWARE_OFFLOAD_ENCODING_DATAPATH \<or> t = LE_AUDIO_HARDWARE_OFFLOAD_DECODING_DATAPATH
   \<or> t = LE_AUDIO_BROADCAST_SOFTWARE_ENCODING_DATAPATH
   \<or> t = LE_AUDIO_BROADCAST_HARDWARE_OFFLOAD_ENCODING_DATAPATH)"

text \<open>The destructors of the output and the input port.\<close>

definition destroy_port :: "port_ctx \<Rightarrow> world \<Rightarrow> world" where
  "destroy_port ctx w = (if in_use ctx (w_port w) then TearDown ctx w else w)"

end
