(* ===== verification/Port_Facts.thy ===== *)
theory Port_Facts
  imports Port_Aidl
begin

text \<open>
  What the AIDL port promises: its state only ever moves in one direction while the stack
  acts, and a call that starts, suspends or stops the stream says truly where it ended. The
  registration of a port rests on the registry contract of the session.
\<close>

section \<open>The stack moves the state one way\<close>

text \<open>Where the reports of the stack can take a port from a state.\<close>

fun moves_to :: "BluetoothStreamState \<Rightarrow> BluetoothStreamState \<Rightarrow> bool" where
  "moves_to STARTING s = (s \<in> {STARTING, STARTED, STANDBY, DISABLED})"
| "moves_to STARTED s = (s \<in> {STARTED, STANDBY, DISABLED})"
| "moves_to SUSPENDING s = (s \<in> {SUSPENDING, STANDBY, DISABLED})"
| "moves_to STANDBY s = (s \<in> {STANDBY, DISABLED})"
| "moves_to DISABLED s = (s = DISABLED)"
| "moves_to BSS_UNKNOWN s = (s \<in> {BSS_UNKNOWN, DISABLED})"

lemma moves_to_refl [simp]: "moves_to s s"
  by (cases s) simp_all

lemma moves_to_trans: "moves_to a b \<Longrightarrow> moves_to b c \<Longrightarrow> moves_to a c"
  by (cases a; cases b; cases c) simp_all

lemma moves_to_DISABLED [simp]: "moves_to s DISABLED"
  by (cases s) simp_all

lemma moves_to_STARTED: "moves_to s STARTED \<longleftrightarrow> s = STARTED \<or> s = STARTING"
  by (cases s) simp_all

lemma moves_to_STARTING: "moves_to s STARTING \<longleftrightarrow> s = STARTING"
  by (cases s) simp_all

lemma moves_to_SUSPENDING: "moves_to s SUSPENDING \<longleftrightarrow> s = SUSPENDING"
  by (cases s) simp_all

text \<open>A port after some reports: the same registration, and a state it can move to.\<close>

definition port_follows :: "aidl_port \<Rightarrow> aidl_port \<Rightarrow> bool" where
  "port_follows p p' \<longleftrightarrow>
     moves_to (port_state p) (port_state p') \<and> p' = p\<lparr>port_state := port_state p'\<rparr>"

lemma port_follows_refl [simp]: "port_follows p p"
  by (simp add: port_follows_def)

lemma port_follows_trans: "port_follows p q \<Longrightarrow> port_follows q r \<Longrightarrow> port_follows p r"
  unfolding port_follows_def by (cases p; cases q; cases r) (auto intro: moves_to_trans)

lemma port_follows_same:
  assumes "port_follows p p'"
  shows "port_cookie p' = port_cookie p" "port_session_type p' = port_session_type p"
    "port_is_stereo_to_mono p' = port_is_stereo_to_mono p" "in_use ctx p' = in_use ctx p"
    "moves_to (port_state p) (port_state p')"
  using assms unfolding port_follows_def in_use_def by (cases p; cases p'; simp)+

lemma port_follows_DISABLED:
  "port_follows (p\<lparr>port_state := DISABLED\<rparr>) q \<Longrightarrow> q = p\<lparr>port_state := DISABLED\<rparr>"
  by (cases p; cases q) (simp add: port_follows_def)

lemma ControlResultHandler_follows: "port_follows p (ControlResultHandler ctx status p)"
  by (cases "port_state p") (auto simp: ControlResultHandler_def port_follows_def)

lemma deliver_follows: "port_follows p (deliver ctx n p)"
  using ControlResultHandler_follows
  by (cases "(ctx, n, p)" rule: deliver.cases)
    (auto simp: SessionChangedHandler_def port_follows_def)

lemma fold_deliver_follows: "port_follows p (fold (deliver ctx) ns p)"
  by (induction ns arbitrary: p) (auto intro: port_follows_trans deliver_follows)

lemma env_step_follows: "port_follows (w_port w) (w_port (env_step ctx e w))"
  by (simp add: env_step_def fold_deliver_follows split: prod.split)

lemma env_steps_follows: "port_follows (w_port w) (w_port (env_steps ctx es w))"
  unfolding env_steps_def
  by (induction es arbitrary: w) (auto intro: port_follows_trans env_step_follows)

lemma wait_for_follows: "port_follows (w_port w) (w_port (snd (wait_for ctx pred batches w)))"
  by (induction batches arbitrary: w) (auto intro: port_follows_trans env_steps_follows)

lemma wait_for_result:
  "fst (wait_for ctx pred batches w) \<longleftrightarrow> pred (GetState (snd (wait_for ctx pred batches w)))"
  by (induction batches arbitrary: w) auto

lemma CondwaitState_STARTING:
  "CondwaitState ctx STARTING batches w =
     (let w' = snd (wait_for ctx (\<lambda>s. s \<noteq> STARTING) batches w) in (GetState w' = STARTED, w'))"
  by (auto simp: CondwaitState_def Let_def case_prod_beta wait_for_result)

lemma CondwaitState_SUSPENDING:
  "CondwaitState ctx SUSPENDING batches w =
     (let w' = snd (wait_for ctx (\<lambda>s. s \<noteq> SUSPENDING) batches w) in (GetState w' = STANDBY, w'))"
  by (auto simp: CondwaitState_def Let_def case_prod_beta wait_for_result)

lemma SetState_port [simp]:
  "w_port (SetState s w) = (w_port w)\<lparr>port_state := s\<rparr>" "w_sessions (SetState s w) = w_sessions w"
  "GetState (SetState s w) = s"
  by (simp_all add: SetState_def GetState_def)

section \<open>The session seen by a call\<close>

definition port_session :: "world \<Rightarrow> session" where
  "port_session w = session_of (w_sessions w) (port_session_type (w_port w))"

lemma Control_results [simp]:
  "fst (Control_StartStream t b ok m) = StartStream b ok (session_of m t)"
  "fst (Control_SuspendStream t ok m) = SuspendStream ok (session_of m t)"
  "fst (Control_StopStream t m) = StopStream (session_of m t)"
  "fst (Control_IsSessionReady t m) = IsSessionReady (session_of m t)"
  by (simp_all add: control_defs on_session_result)

lemma Control_same_sessions [simp]:
  "session_of (snd (Control_StartStream t b ok m)) = session_of m"
  "session_of (snd (Control_SuspendStream t ok m)) = session_of m"
  "session_of (snd (Control_StopStream t m)) = session_of m"
  "session_of (snd (Control_IsSessionReady t m)) = session_of m"
  by (simp_all add: control_defs on_session_session_of)

section \<open>The control calls\<close>

text \<open>
  The world in which the port waits: its request was made, and the stack acted meanwhile.
\<close>

definition start_requested :: "port_ctx \<Rightarrow> port_env \<Rightarrow> world \<Rightarrow> world" where
  "start_requested ctx env w =
     env_steps ctx (pe_during env) ((SetState STARTING w)\<lparr>w_sessions :=
       snd (Control_StartStream (port_session_type (w_port w)) False (pe_hal_ok env) (w_sessions w))\<rparr>)"

definition suspend_requested :: "port_ctx \<Rightarrow> port_env \<Rightarrow> world \<Rightarrow> world" where
  "suspend_requested ctx env w =
     env_steps ctx (pe_during env) ((SetState SUSPENDING w)\<lparr>w_sessions :=
       snd (Control_SuspendStream (port_session_type (w_port w)) (pe_hal_ok env) (w_sessions w))\<rparr>)"

definition start_waited :: "port_ctx \<Rightarrow> port_env \<Rightarrow> world \<Rightarrow> world" where
  "start_waited ctx env w =
     snd (wait_for ctx (\<lambda>s. s \<noteq> STARTING) (pe_wait env) (start_requested ctx env w))"

definition suspend_waited :: "port_ctx \<Rightarrow> port_env \<Rightarrow> world \<Rightarrow> world" where
  "suspend_waited ctx env w =
     snd (wait_for ctx (\<lambda>s. s \<noteq> SUSPENDING) (pe_wait env) (suspend_requested ctx env w))"

lemma Start_cases:
  "Start ctx env w =
     (if \<not> in_use ctx (w_port w) \<or> GetState w \<noteq> STANDBY then (False, [], w)
      else if \<not> IsSessionReady (port_session w) then (False, [], start_requested ctx env w)
      else if \<not> pe_hal_ok env then (False, [Call_startStream False], start_requested ctx env w)
      else (GetState (start_waited ctx env w) = STARTED, [Call_startStream False],
            start_waited ctx env w))"
  by (auto simp: Start_def Let_def case_prod_beta start_waited_def start_requested_def port_session_def
      StartStream_def CondwaitState_STARTING)

lemma Suspend_cases:
  "Suspend ctx env w =
     (if \<not> in_use ctx (w_port w) \<or> GetState w \<noteq> STARTED then (False, [], w)
      else if \<not> IsSessionReady (port_session w) then (False, [], suspend_requested ctx env w)
      else if \<not> pe_hal_ok env then (False, [Call_suspendStream], suspend_requested ctx env w)
      else (GetState (suspend_waited ctx env w) = STANDBY, [Call_suspendStream],
            suspend_waited ctx env w))"
  by (auto simp: Suspend_def Let_def case_prod_beta suspend_waited_def suspend_requested_def port_session_def
      SuspendStream_def CondwaitState_SUSPENDING)

lemma start_requested_follows:
  "port_follows ((w_port w)\<lparr>port_state := STARTING\<rparr>) (w_port (start_requested ctx env w))"
  unfolding start_requested_def by (rule port_follows_trans [OF _ env_steps_follows]) simp

lemma suspend_requested_follows:
  "port_follows ((w_port w)\<lparr>port_state := SUSPENDING\<rparr>) (w_port (suspend_requested ctx env w))"
  unfolding suspend_requested_def by (rule port_follows_trans [OF _ env_steps_follows]) simp

lemma start_waited_follows:
  "port_follows ((w_port w)\<lparr>port_state := STARTING\<rparr>) (w_port (start_waited ctx env w))"
  unfolding start_waited_def by (rule port_follows_trans [OF start_requested_follows wait_for_follows])

lemma suspend_waited_follows:
  "port_follows ((w_port w)\<lparr>port_state := SUSPENDING\<rparr>) (w_port (suspend_waited ctx env w))"
  unfolding suspend_waited_def by (rule port_follows_trans [OF suspend_requested_follows wait_for_follows])

lemma port_follows_call:
  assumes "port_follows (p\<lparr>port_state := s\<rparr>) q"
  shows "in_use ctx q = in_use ctx p" "port_session_type q = port_session_type p"
    "moves_to s (port_state q)"
  using port_follows_same [OF assms] by (simp_all add: in_use_def)

lemma Start_same:
  "in_use ctx (w_port (snd (snd (Start ctx e w)))) = in_use ctx (w_port w)"
  using port_follows_call [OF start_requested_follows] port_follows_call [OF start_waited_follows]
  by (simp add: Start_cases)

lemma Suspend_same:
  "in_use ctx (w_port (snd (snd (Suspend ctx e w)))) = in_use ctx (w_port w)"
  "port_session_type (w_port (snd (snd (Suspend ctx e w)))) = port_session_type (w_port w)"
  "GetState w = STARTED \<Longrightarrow> in_use ctx (w_port w)
     \<Longrightarrow> moves_to SUSPENDING (GetState (snd (snd (Suspend ctx e w))))"
  using port_follows_call [OF suspend_requested_follows] port_follows_call [OF suspend_waited_follows]
  by (simp_all add: Suspend_cases GetState_def)

lemma Stop_follows:
  "in_use ctx (w_port w) \<Longrightarrow> w_port (snd (Stop ctx e w)) = (w_port w)\<lparr>port_state := DISABLED\<rparr>"
proof -
  let ?v = "(SetState DISABLED w)\<lparr>w_sessions :=
    snd (Control_StopStream (port_session_type (w_port w)) (w_sessions w))\<rparr>"
  have "w_port (env_steps ctx (pe_during e) ?v) = (w_port w)\<lparr>port_state := DISABLED\<rparr>"
    by (rule port_follows_DISABLED) (use env_steps_follows [of ?v ctx "pe_during e"] in simp)
  then show "in_use ctx (w_port w) \<Longrightarrow> ?thesis" by (simp add: Stop_def Let_def case_prod_beta)
qed

section \<open>A report reaches the port that registered\<close>

lemma fold_deliver_other:
  assumes "\<forall>ob \<in> set obs. control_result_cb (snd ob) \<noteq> None" "port_cookie p \<notin> fst ` set obs"
  shows "fold (deliver ctx)
    (map (\<lambda>(cookie, cb). ControlResult (the (control_result_cb cb)) cookie b st) obs) p = p"
  using assms by (induction obs) auto

lemma deliver_status:
  assumes "\<forall>ob \<in> set (s_observers s). control_result_cb (snd ob) \<noteq> None"
    and "distinct (map fst (s_observers s))" "in_use ctx p"
    and "map_of (s_observers s) (port_cookie p) = Some (port_callbacks ctx)"
  shows "fold (deliver ctx) (ReportControlStatus b st s) p = ControlResultHandler ctx st p"
proof -
  let ?report = "\<lambda>(cookie, cb). ControlResult (the (control_result_cb cb)) cookie b st"
  obtain xs ys where obs: "s_observers s = xs @ (port_cookie p, port_callbacks ctx) # ys"
    using map_of_SomeD [OF assms(4)] by (auto dest: split_list)
  have fresh: "port_cookie p \<notin> fst ` set xs" "port_cookie p \<notin> fst ` set ys"
    using assms(2) by (auto simp: obs)
  have p': "port_cookie (ControlResultHandler ctx st p) = port_cookie p"
    by (rule port_follows_same [OF ControlResultHandler_follows])
  have "fold (deliver ctx) (map ?report xs) p = p"
    by (rule fold_deliver_other) (use assms(1) fresh in \<open>simp_all add: obs\<close>)
  moreover have "fold (deliver ctx) (map ?report ys) (ControlResultHandler ctx st p) = ControlResultHandler ctx st p"
    by (rule fold_deliver_other) (use assms(1) fresh in \<open>simp_all add: obs p'\<close>)
  moreover have "deliver ctx (?report (port_cookie p, port_callbacks ctx)) p = ControlResultHandler ctx st p"
    using assms(3) by (simp add: port_callbacks_def)
  ultimately show ?thesis
    unfolding ReportControlStatus_all [OF assms(1)] by (simp add: obs)
qed

text \<open>
  A port is registered when its session holds its callbacks under its cookie, and every
  observer of the session can be called.
\<close>

definition port_registered :: "port_ctx \<Rightarrow> world \<Rightarrow> bool" where
  "port_registered ctx w \<longleftrightarrow>
     in_use ctx (w_port w)
   \<and> map_of (s_observers (port_session w)) (port_cookie (w_port w)) = Some (port_callbacks ctx)
   \<and> distinct (map fst (s_observers (port_session w)))
   \<and> (\<forall>ob \<in> set (s_observers (port_session w)). control_result_cb (snd ob) \<noteq> None)"

lemma env_step_status:
  assumes "port_registered ctx w" "t = port_session_type (w_port w)"
  shows "w_port (env_step ctx (Ev_ControlStatus t b st) w) = ControlResultHandler ctx st (w_port w)"
proof -
  have "fst (Report_ReportControlStatus t b st (w_sessions w)) = ReportControlStatus b st (port_session w)"
    by (simp add: report_defs on_session_result port_session_def assms(2))
  then show ?thesis
    using assms(1) by (simp add: env_step_def case_prod_beta port_registered_def deliver_status)
qed

lemma wait_for_refl: "pred (GetState w) \<Longrightarrow> wait_for ctx pred batches w = (True, w)"
  by (cases batches) auto

text \<open>When the stack answers a request at once, the wait ends with its answer.\<close>

lemma wait_for_answer:
  assumes "port_registered ctx w" "\<not> pred (GetState w)"
    and "pred (port_state (ControlResultHandler ctx st (w_port w)))"
  shows "GetState (snd (wait_for ctx pred ([Ev_ControlStatus (port_session_type (w_port w)) b st] # rest) w))
    = port_state (ControlResultHandler ctx st (w_port w))"
proof -
  let ?w = "env_step ctx (Ev_ControlStatus (port_session_type (w_port w)) b st) w"
  have s: "GetState ?w = port_state (ControlResultHandler ctx st (w_port w))"
    unfolding GetState_def by (subst env_step_status [OF assms(1) refl]) (rule refl)
  with assms(3) have "wait_for ctx pred rest ?w = (True, ?w)" by (simp add: wait_for_refl)
  with assms(2) s show ?thesis by (simp add: env_steps_def)
qed

lemma quiet_request:
  assumes "pe_during env = []"
  shows "w_port (start_requested ctx env w) = (w_port w)\<lparr>port_state := STARTING\<rparr>"
    "w_port (suspend_requested ctx env w) = (w_port w)\<lparr>port_state := SUSPENDING\<rparr>"
    "session_of (w_sessions (start_requested ctx env w)) = session_of (w_sessions w)"
    "session_of (w_sessions (suspend_requested ctx env w)) = session_of (w_sessions w)"
  using assms by (simp_all add: start_requested_def suspend_requested_def env_steps_def)

lemma quiet_request_registered:
  assumes "pe_during env = []" "port_registered ctx w"
  shows "port_registered ctx (start_requested ctx env w)"
    "port_registered ctx (suspend_requested ctx env w)"
  using assms(2) by (simp_all add: port_registered_def quiet_request [OF assms(1)] in_use_def port_session_def)

section \<open>Registration\<close>

lemma SetUp_cases:
  "SetUp ctx device w =
     (let (ok, w1) = init_session_type device w;
          t = port_session_type (w_port w1);
          reg = RegisterStatusCback (pc_sc ctx) (port_callbacks ctx) (session_of (w_sessions w1) t)
      in if \<not> ok then (False, w1)
         else (fst reg \<noteq> kObserversCookieUndefined (pc_sc ctx),
               \<lparr>w_sessions = snd (RegisterControlResultCback (pc_sc ctx) t (port_callbacks ctx) (w_sessions w1)),
                w_port = (w_port w1)\<lparr>port_state := STANDBY, port_cookie := fst reg\<rparr>\<rparr>))"
  by (simp add: SetUp_def Let_def case_prod_beta RegisterControlResultCback_def on_session_result)

lemma init_session_type_sessions:
  "session_of (w_sessions (snd (init_session_type device w))) = session_of (w_sessions w)"
  by (cases device) (simp_all add: init_session_type_def Let_def case_prod_beta)

lemma init_session_type_ready:
  "fst (init_session_type device w) \<Longrightarrow> IsSessionReady (port_session (snd (init_session_type device w)))
     \<and> port_session_type (w_port (snd (init_session_type device w))) \<noteq> ST_UNKNOWN"
  by (cases device) (simp_all add: init_session_type_def Let_def case_prod_beta port_session_def)

section \<open>Properties\<close>

text \<open>
  C14: A start reports success exactly when a port in use, in standby, with a ready session,
  got the request through and ended in the started state. The request goes out only then, as
  one start without low latency; a start in any other state changes nothing; and while it
  waits the port keeps its registration and moves only where the reports can take it.
\<close>

theorem Start_outcome:
  assumes "Start ctx env w = (ok, calls, w')"
  shows "(let requested = in_use ctx (w_port w) \<and> GetState w = STANDBY;
              ready = IsSessionReady (port_session w)
          in (ok \<longleftrightarrow> requested \<and> ready \<and> pe_hal_ok env \<and> GetState w' = STARTED)
           \<and> calls = (if requested \<and> ready then [Call_startStream False] else [])
           \<and> (if requested then port_follows ((w_port w)\<lparr>port_state := STARTING\<rparr>) (w_port w') else w' = w))"
  using assms start_requested_follows [of w ctx env] start_waited_follows [of w ctx env]
  unfolding Start_cases by (auto simp: Let_def split: if_splits)

text \<open>
  A suspend likewise reports success exactly when a started port of a ready session got
  the request through and ended in standby. A stop of a port in use always disables it, and
  no report of the stack takes it out of that state.
\<close>

theorem Suspend_Stop_outcome:
  assumes "Suspend ctx env w = (ok, calls, w')" "Stop ctx env w = (stop_calls, v)"
  shows "(let requested = in_use ctx (w_port w) \<and> GetState w = STARTED;
              ready = IsSessionReady (port_session w)
          in (ok \<longleftrightarrow> requested \<and> ready \<and> pe_hal_ok env \<and> GetState w' = STANDBY)
           \<and> calls = (if requested \<and> ready then [Call_suspendStream] else [])
           \<and> (if requested then port_follows ((w_port w)\<lparr>port_state := SUSPENDING\<rparr>) (w_port w') else w' = w)
           \<and> (if in_use ctx (w_port w)
              then w_port (env_steps ctx later v) = (w_port w)\<lparr>port_state := DISABLED\<rparr>
                 \<and> stop_calls = (if ready then [Call_stopStream] else [])
              else v = w \<and> stop_calls = []))"
proof -
  have "w_port (env_steps ctx later v) = (w_port w)\<lparr>port_state := DISABLED\<rparr>"
    if "in_use ctx (w_port w)"
  proof (rule port_follows_DISABLED)
    have "w_port v = (w_port w)\<lparr>port_state := DISABLED\<rparr>"
      using Stop_follows [OF that, of env] assms(2) by simp
    with env_steps_follows [of v ctx later]
    show "port_follows ((w_port w)\<lparr>port_state := DISABLED\<rparr>) (w_port (env_steps ctx later v))" by simp
  qed
  then show ?thesis
    using assms suspend_requested_follows [of w ctx env] suspend_waited_follows [of w ctx env]
    unfolding Suspend_cases Stop_def
    by (auto simp: Let_def case_prod_beta StopStream_def port_session_def split: if_splits)
qed

text \<open>
  C15: A registered port in standby whose session is ready does start, when the call gets
  through and the stack answers it with success before the time runs out, and the started
  port does suspend in the same way. An answer that is not a success ends the start in
  standby, from where it can be tried again, but ends the suspend disabled.
\<close>

theorem Start_Suspend_complete:
  assumes "port_registered ctx w" "IsSessionReady (port_session w)" "pe_hal_ok env" "pe_during env = []"
    and "pe_wait env = [Ev_ControlStatus (port_session_type (w_port w)) b status] # rest"
  shows "(GetState w = STANDBY \<longrightarrow> fst (Start ctx env w) = (status = SUCCESS)
            \<and> GetState (snd (snd (Start ctx env w))) = (if status = SUCCESS then STARTED else STANDBY))
       \<and> (GetState w = STARTED \<longrightarrow> fst (Suspend ctx env w) = (status = SUCCESS)
            \<and> GetState (snd (snd (Suspend ctx env w))) = (if status = SUCCESS then STANDBY else DISABLED))"
proof -
  note quiet = quiet_request [OF assms(4)]
  note reg = quiet_request_registered [OF assms(4,1)]
  have u: "in_use ctx (w_port w)" using assms(1) by (simp add: port_registered_def)
  then have h1: "ControlResultHandler ctx status ((w_port w)\<lparr>port_state := STARTING\<rparr>)
      = (w_port w)\<lparr>port_state := (if status = SUCCESS then STARTED else STANDBY)\<rparr>"
    and h2: "ControlResultHandler ctx status ((w_port w)\<lparr>port_state := SUSPENDING\<rparr>)
      = (w_port w)\<lparr>port_state := (if status = SUCCESS then STANDBY else DISABLED)\<rparr>"
    by (simp_all add: ControlResultHandler_def in_use_def)
  have "GetState (start_waited ctx env w) = (if status = SUCCESS then STARTED else STANDBY)"
    using wait_for_answer [OF reg(1), of "\<lambda>s. s \<noteq> STARTING" status b rest]
    by (simp add: start_waited_def assms(5) quiet h1 GetState_def)
  moreover have "GetState (suspend_waited ctx env w) = (if status = SUCCESS then STANDBY else DISABLED)"
    using wait_for_answer [OF reg(2), of "\<lambda>s. s \<noteq> SUSPENDING" status b rest]
    by (simp add: suspend_waited_def assms(5) quiet h2 GetState_def)
  ultimately show ?thesis
    using u assms(2,3) by (simp add: Start_cases Suspend_cases)
qed

text \<open>
  When the start request does not get through and the stack reports nothing, the port
  stays in the starting state, and from then on every start and every suspend is refused
  without a call, whatever their environment is; only a stop leaves that state.
\<close>

theorem failed_start_blocks_port:
  assumes "in_use ctx (w_port w)" "GetState w = STANDBY" "\<not> pe_hal_ok env" "pe_during env = []"
    and "Start ctx env w = (ok, calls, w')"
  shows "\<not> ok \<and> GetState w' = STARTING \<and> Start ctx env2 w' = (False, [], w')
     \<and> Suspend ctx env2 w' = (False, [], w') \<and> GetState (snd (Stop ctx env2 w')) = DISABLED"
proof -
  have w': "w' = start_requested ctx env w" "\<not> ok"
    using assms by (auto simp: Start_cases split: if_splits)
  then have "w_port w' = (w_port w)\<lparr>port_state := STARTING\<rparr>"
    by (simp add: quiet_request [OF assms(4)])
  moreover from this have "in_use ctx (w_port w')" using assms(1) by (simp add: in_use_def)
  moreover have "port_state (w_port (env_steps ctx es v)) = DISABLED"
    if "port_state (w_port v) = DISABLED" for es v
    using port_follows_same(5) [OF env_steps_follows [of v ctx es]] that by simp
  ultimately show ?thesis
    using w' by (simp add: Start_cases Suspend_cases Stop_def GetState_def Let_def case_prod_beta)
qed

text \<open>
  C17: Setting a port up succeeds exactly when its device names a session type, that session is
  ready and has room for one more observer; then the port is in use, in standby and
  registered. Tearing it down again leaves every session's callbacks as they were.
\<close>

theorem SetUp_TearDown:
  assumes "sessions_inv (pc_sc ctx) (w_sessions w)"
    and "\<forall>t. t \<noteq> ST_UNKNOWN \<longrightarrow> pc_sc ctx t \<noteq> pc_sc ctx ST_UNKNOWN"
    and "SetUp ctx device w = (ok, w')"
  shows "(ok \<longleftrightarrow> fst (init_session_type device w)
            \<and> length (s_observers (port_session (snd (init_session_type device w)))) < 16)
     \<and> (ok \<longrightarrow> in_use ctx (w_port w') \<and> GetState w' = STANDBY \<and> IsSessionReady (port_session w')
          \<and> map_of (s_observers (port_session w')) (port_cookie (w_port w')) = Some (port_callbacks ctx)
          \<and> (\<forall>t. map_of (s_observers (session_of (w_sessions (TearDown ctx w')) t))
                = map_of (s_observers (session_of (w_sessions w) t))))"
proof (cases "fst (init_session_type device w)")
  case False
  with assms(3) show ?thesis by (auto simp: SetUp_cases Let_def case_prod_beta)
next
  case True
  define t where "t = port_session_type (w_port (snd (init_session_type device w)))"
  define s where "s = session_of (w_sessions w) t"
  define reg where "reg = RegisterStatusCback (pc_sc ctx) (port_callbacks ctx) s"
  note init = init_session_type_ready [OF True]
  have s: "s_session_type s = t" "session_inv (pc_sc ctx) s"
    using assms(1) by (simp_all add: sessions_inv_def s_def)
  moreover have t: "t \<noteq> ST_UNKNOWN" using init by (simp add: t_def)
  ultimately have inv: "registry_inv (pc_sc ctx) s" using assms(2) by (simp add: registry_inv_def)
  have ps: "port_session (snd (init_session_type device w)) = s"
    by (simp add: port_session_def init_session_type_sessions s_def t_def)
  have ok: "ok = (fst reg \<noteq> kObserversCookieUndefined (pc_sc ctx))"
    and p': "w_port w' = (w_port (snd (init_session_type device w)))
      \<lparr>port_state := STANDBY, port_cookie := fst reg\<rparr>"
    and m': "session_of (w_sessions w') = (session_of (w_sessions w))(t := snd reg)"
    using assms(3) True
    by (auto simp: SetUp_cases Let_def case_prod_beta init_session_type_sessions reg_def s_def t_def
        RegisterControlResultCback_def on_session_session_of)
  have room: "ok \<longleftrightarrow> length (s_observers s) < 16"
    unfolding ok reg_def
    by (rule RegisterStatusCback_cases [OF s(2), of "port_callbacks ctx"])
      (use fresh_cookie_defined [OF inv] in auto)
  show ?thesis
  proof (cases ok)
    case ok_true: True
    then have u: "in_use ctx (w_port w')" using ok by (simp add: in_use_def p')
    have ps': "port_session w' = snd reg" by (simp add: port_session_def p' m' t_def)
    have "IsSessionReady (snd reg)"
      using init ps by (simp add: reg_def RegisterStatusCback_def Let_def IsSessionReady_iff)
    moreover have "map_of (s_observers (snd reg)) (fst reg) = Some (port_callbacks ctx)"
      using aidl.register_lookup [OF inv, of "port_callbacks ctx"] ok ok_true by (simp add: reg_def)
    moreover have "map_of (s_observers (session_of (w_sessions (TearDown ctx w')) t'))
        = map_of (s_observers (session_of (w_sessions w) t'))" for t'
      using aidl.register_unregister [OF inv, of "port_callbacks ctx"] u
      by (auto simp: TearDown_def Let_def UnregisterControlResultCback_def on_session_session_of
          m' p' t_def [symmetric] reg_def s_def)
    ultimately show ?thesis
      using True ok_true room u by (simp add: ps ps' GetState_def p')
  qed (use True room ps in auto)
qed

text \<open>A world with one port, set up on a session that is ready, for the examples.\<close>

definition example_ctx :: port_ctx where
  "example_ctx = \<lparr>pc_sc = example_code, pc_this = 3\<rparr>"

definition example_ready :: world where
  "example_ready =
     \<lparr>w_sessions = snd (Report_OnSessionStarted A2DP_SOFTWARE_ENCODING_DATAPATH (Some 7)
        (Some \<lparr>mq_descriptor = 0, mq_isValid = True\<rparr>) (pcmConfig PcmConfiguration_default) []
        (\<lambda>t. None)),
      w_port = BluetoothAudioPortAidl example_ctx\<rparr>"

definition example_up :: world where
  "example_up = snd (SetUp example_ctx AUDIO_DEVICE_OUT_BLUETOOTH_A2DP example_ready)"

definition example_answer :: "BluetoothAudioStatus \<Rightarrow> port_env" where
  "example_answer status =
     \<lparr>pe_hal_ok = True, pe_during = [],
      pe_wait = [[Ev_ControlStatus A2DP_SOFTWARE_ENCODING_DATAPATH True status]],
      pe_position = None, pe_polls = example_polls\<rparr>"

lemma OnSessionStarted_type:
  "s_session_type (snd (OnSessionStarted iface mq cfg modes s)) = s_session_type s"
  by (auto simp: session_defs split: option.splits)

lemma example_ready_inv: "sessions_inv (pc_sc example_ctx) (w_sessions example_ready)"
  unfolding example_ready_def Report_OnSessionStarted_def
proof (simp, rule sessions_inv_update)
  show "sessions_inv (pc_sc example_ctx) (\<lambda>t. None)"
    by (simp add: sessions_inv_def session_of_start session_inv_def BluetoothAudioSession_def)
qed (simp add: session_inv_started OnSessionStarted_type)

lemma example_up_facts:
  "in_use example_ctx (w_port example_up)" "GetState example_up = STANDBY"
  "IsSessionReady (port_session example_up)" "port_registered example_ctx example_up"
  "port_session_type (w_port example_up) = A2DP_SOFTWARE_ENCODING_DATAPATH"
proof -
  show 1: "in_use example_ctx (w_port example_up)" "GetState example_up = STANDBY"
    "IsSessionReady (port_session example_up)"
    "port_session_type (w_port example_up) = A2DP_SOFTWARE_ENCODING_DATAPATH" by code_simp+
  have "port_cookie (w_port example_up) = 0x0100"
    "s_observers (port_session example_up) = [(0x0100, port_callbacks example_ctx)]" by code_simp+
  with 1 show "port_registered example_ctx example_up"
    by (simp add: port_registered_def port_callbacks_def)
qed

theorem Start_outcome_witness:
  "\<exists>w'. Start example_ctx (example_answer SUCCESS) example_up = (True, [Call_startStream False], w')"
proof -
  obtain ok calls w' where eq: "Start example_ctx (example_answer SUCCESS) example_up = (ok, calls, w')"
    by (rule prod_cases3)
  have "GetState (snd (snd (Start example_ctx (example_answer SUCCESS) example_up))) = STARTED"
    by code_simp
  then show ?thesis
    using Start_outcome [OF eq] example_up_facts eq by (simp add: example_answer_def)
qed

definition example_started :: world where
  "example_started = SetState STARTED example_up"

theorem Suspend_Stop_outcome_witness:
  "(\<exists>w'. Suspend example_ctx (example_answer FAILURE) example_started = (False, [Call_suspendStream], w'))
   \<and> fst (Stop example_ctx (example_answer FAILURE) example_started) = [Call_stopStream]"
proof -
  obtain ok calls w' where eq: "Suspend example_ctx (example_answer FAILURE) example_started = (ok, calls, w')"
    by (rule prod_cases3)
  obtain stop_calls v where eq2: "Stop example_ctx (example_answer FAILURE) example_started = (stop_calls, v)"
    by (rule prod.exhaust)
  have "GetState (snd (snd (Suspend example_ctx (example_answer FAILURE) example_started))) = DISABLED"
    "IsSessionReady (port_session example_started)" "GetState example_started = STARTED"
    "in_use example_ctx (w_port example_started)"
    by code_simp+
  then show ?thesis
    using Suspend_Stop_outcome [OF eq eq2, of "[]"] eq eq2 by (simp add: example_answer_def)
qed

theorem Start_Suspend_complete_witness:
  "fst (Start example_ctx (example_answer SUCCESS) example_up)
   \<and> \<not> fst (Start example_ctx (example_answer FAILURE) example_up)"
  using Start_Suspend_complete [of example_ctx example_up "example_answer SUCCESS" True SUCCESS "[]"]
    Start_Suspend_complete [of example_ctx example_up "example_answer FAILURE" True FAILURE "[]"]
    example_up_facts by (simp add: example_answer_def)

theorem failed_start_blocks_port_witness:
  "GetState (snd (snd (Start example_ctx (example_answer SUCCESS\<lparr>pe_hal_ok := False\<rparr>) example_up))) = STARTING"
  using failed_start_blocks_port [of example_ctx example_up "example_answer SUCCESS\<lparr>pe_hal_ok := False\<rparr>"]
    example_up_facts
  by (metis example_answer_def port_env.select_convs(2) port_env.simps(1) port_env.update_convs(1) prod_cases3 snd_conv)

theorem SetUp_TearDown_witness:
  "fst (SetUp example_ctx AUDIO_DEVICE_OUT_BLUETOOTH_A2DP example_ready)
   \<and> map_of (s_observers (session_of (w_sessions (TearDown example_ctx example_up))
        A2DP_SOFTWARE_ENCODING_DATAPATH)) = Map.empty"
proof -
  let ?outcome = "SetUp example_ctx AUDIO_DEVICE_OUT_BLUETOOTH_A2DP example_ready"
  have c: "\<forall>t. t \<noteq> ST_UNKNOWN \<longrightarrow> pc_sc example_ctx t \<noteq> pc_sc example_ctx ST_UNKNOWN"
    by (auto simp: example_ctx_def example_code_def split: SessionType.split)
  have "fst ?outcome" by code_simp
  then have eq: "?outcome = (True, example_up)" by (simp add: example_up_def prod_eq_iff)
  have "s_observers (session_of (w_sessions example_ready) A2DP_SOFTWARE_ENCODING_DATAPATH) = []"
    by code_simp
  with SetUp_TearDown [OF example_ready_inv c eq] show ?thesis by (simp add: eq)
qed

end
