(* ===== verification/Port_Interface.thy ===== *)
theory Port_Interface
  imports Port_Facts
begin

text \<open>
  The abstract class \<open>BluetoothAudioPort\<close> (\<open>hw/device_port_proxy.h\<close>) through which a stream
  uses its port: a record of the virtual methods, the contract that the streams rely on as a
  locale, and the AIDL port as an object of the class that satisfies it. \<open>'w\<close> is the world
  of the port and \<open>'e\<close> what the stack does during one call.
\<close>

record ('w, 'e) port_ops =
  op_SetUp :: "audio_device \<Rightarrow> 'w \<Rightarrow> bool \<times> 'w"
  op_TearDown :: "'w \<Rightarrow> 'w"
  op_ForcePcmStereoToMono :: "bool \<Rightarrow> 'w \<Rightarrow> 'w"
  op_Start :: "'e \<Rightarrow> 'w \<Rightarrow> bool \<times> 'w"
  op_Suspend :: "'e \<Rightarrow> 'w \<Rightarrow> bool \<times> 'w"
  op_Stop :: "'e \<Rightarrow> 'w \<Rightarrow> 'w"
  op_GetPresentationPosition :: "'e \<Rightarrow> 'w \<Rightarrow> bool \<times> port_position option"
  op_GetState :: "'w \<Rightarrow> BluetoothStreamState"
  op_SetState :: "BluetoothStreamState \<Rightarrow> 'w \<Rightarrow> 'w"
  op_IsA2dp :: "'w \<Rightarrow> bool"
  op_IsLeAudio :: "'w \<Rightarrow> bool"
  op_GetPreferredDataIntervalUs :: "'w \<Rightarrow> u64 option"
  op_LoadAudioConfig :: "audio_config \<Rightarrow> 'w \<Rightarrow> bool \<times> audio_config"
  op_WriteData :: "'e \<Rightarrow> u8 list \<Rightarrow> nat \<Rightarrow> 'w \<Rightarrow> (nat \<times> u8 list list) option"
  op_ReadData :: "'e \<Rightarrow> u8 list \<Rightarrow> nat \<Rightarrow> 'w \<Rightarrow> (nat \<times> u8 list) option"

text \<open>
  The contract. \<open>usable\<close> says that a port is set up. \<open>sleep\<close> is no method of the class: it is
  the world after the caller slept while the stack reported.
\<close>

locale bluetooth_port =
  fixes ops :: "('w, 'e) port_ops" and usable :: "'w \<Rightarrow> bool" and sleep :: "'e \<Rightarrow> 'w \<Rightarrow> 'w"
  assumes state_set: "op_GetState ops (op_SetState ops s w) = s"
    and usable_set: "usable (op_SetState ops s w) = usable w"
    and start_true: "fst (op_Start ops e w) \<Longrightarrow>
      op_GetState ops w = STANDBY \<and> op_GetState ops (snd (op_Start ops e w)) = STARTED"
    and start_refused: "op_GetState ops w \<noteq> STANDBY \<or> \<not> usable w \<Longrightarrow> op_Start ops e w = (False, w)"
    and start_usable: "usable (snd (op_Start ops e w)) = usable w"
    and suspend_true: "fst (op_Suspend ops e w) \<Longrightarrow>
      op_GetState ops w = STARTED \<and> op_GetState ops (snd (op_Suspend ops e w)) = STANDBY"
    and suspend_refused: "op_GetState ops w \<noteq> STARTED \<or> \<not> usable w \<Longrightarrow> op_Suspend ops e w = (False, w)"
    and suspend_usable: "usable (snd (op_Suspend ops e w)) = usable w"
    and suspend_moves: "op_GetState ops w = STARTED \<Longrightarrow> usable w \<Longrightarrow>
      moves_to SUSPENDING (op_GetState ops (snd (op_Suspend ops e w)))"
    and stop_disables: "usable w \<Longrightarrow> op_GetState ops (op_Stop ops e w) = DISABLED"
    and stop_refused: "\<not> usable w \<Longrightarrow> op_Stop ops e w = w"
    and stop_usable: "usable (op_Stop ops e w) = usable w"
    and teardown_unusable: "\<not> usable (op_TearDown ops w)"
    and sleep_moves: "moves_to (op_GetState ops w) (op_GetState ops (sleep e w))"
    and sleep_usable: "usable (sleep e w) = usable w"
    and kind_set: "op_IsA2dp ops (op_SetState ops s w) = op_IsA2dp ops w"
    and kind_suspend: "op_IsA2dp ops (snd (op_Suspend ops e w)) = op_IsA2dp ops w"
    and write_bound: "op_WriteData ops e buffer n w = Some (k, sent) \<Longrightarrow> k \<le> n"
    and read_bound: "op_ReadData ops e buffer n w = Some (k, buffer') \<Longrightarrow> k \<le> n"
begin

end

section \<open>The AIDL port as an object\<close>

definition aidl_ops ::
  "port_ctx \<Rightarrow> (audio_config \<Rightarrow> world \<Rightarrow> bool \<times> audio_config) \<Rightarrow> (u8 list \<Rightarrow> nat \<Rightarrow> u8 list)
     \<Rightarrow> (world, port_env) port_ops" where
  "aidl_ops ctx load downmix =
     \<lparr>op_SetUp = SetUp ctx,
      op_TearDown = TearDown ctx,
      op_ForcePcmStereoToMono = ForcePcmStereoToMono,
      op_Start = (\<lambda>e w. let (ok, calls, w) = Start ctx e w in (ok, w)),
      op_Suspend = (\<lambda>e w. let (ok, calls, w) = Suspend ctx e w in (ok, w)),
      op_Stop = (\<lambda>e w. snd (Stop ctx e w)),
      op_GetPresentationPosition = Port_GetPresentationPosition ctx,
      op_GetState = GetState,
      op_SetState = SetState,
      op_IsA2dp = IsA2dp,
      op_IsLeAudio = IsLeAudio,
      op_GetPreferredDataIntervalUs = GetPreferredDataIntervalUs ctx,
      op_LoadAudioConfig = load,
      op_WriteData = WriteData ctx downmix,
      op_ReadData = ReadData ctx\<rparr>"

definition aidl_out_ops ::
  "port_ctx \<Rightarrow> (u8 list \<Rightarrow> nat \<Rightarrow> u8 list) \<Rightarrow> (world, port_env) port_ops" where
  "aidl_out_ops ctx downmix = aidl_ops ctx (Out_LoadAudioConfig ctx) downmix"

definition aidl_in_ops ::
  "port_ctx \<Rightarrow> (u8 list \<Rightarrow> nat \<Rightarrow> u8 list) \<Rightarrow> (world, port_env) port_ops" where
  "aidl_in_ops ctx downmix = aidl_ops ctx (In_LoadAudioConfig ctx) downmix"

definition aidl_sleep :: "port_ctx \<Rightarrow> port_env \<Rightarrow> world \<Rightarrow> world" where
  "aidl_sleep ctx e w = env_steps ctx (pe_during e) w"

lemma OutWrite_loop_bound:
  "OutWrite_loop polls buffer bytes t = Some t' \<Longrightarrow> pcm_total t \<le> bytes \<Longrightarrow> pcm_total t' \<le> bytes"
proof (induction "bytes - pcm_total t + pcm_timeout_ms t" arbitrary: t rule: less_induct)
  case less
  then show ?case
    by (subst (asm) (2) OutWrite_loop.simps)
      (auto simp: Let_def kWritePollMs_def split: if_splits option.splits intro: less.hyps [rotated])
qed

lemma InRead_loop_bound:
  "InRead_loop polls bytes t = Some t' \<Longrightarrow> pcm_total t \<le> bytes \<Longrightarrow> pcm_total t' \<le> bytes"
proof (induction "bytes - pcm_total t + pcm_timeout_ms t" arbitrary: t rule: less_induct)
  case less
  then show ?case
    by (subst (asm) (2) InRead_loop.simps)
      (auto simp: Let_def kReadPollMs_def split: if_splits option.splits intro: less.hyps [rotated])
qed

lemma OutWritePcmData_bound: "OutWritePcmData polls (Some b) n = Some t \<Longrightarrow> pcm_total t \<le> n"
  by (auto simp: OutWritePcmData_def Let_def dest: OutWrite_loop_bound split: if_splits)

lemma InReadPcmData_bound: "InReadPcmData polls (Some b) n = Some (b', t) \<Longrightarrow> pcm_total t \<le> n"
  by (auto simp: InReadPcmData_def Let_def dest: InRead_loop_bound split: if_splits)

lemma WriteData_bound:
  assumes "WriteData ctx downmix e buffer n w = Some (k, sent)"
  shows "k \<le> n"
proof -
  have "n div 4 * 2 * 2 \<le> n" by simp
  then show ?thesis
    using assms
    by (auto simp: WriteData_def control_defs on_session_result Let_def
        dest!: OutWritePcmData_bound split: if_splits)
qed

lemma ReadData_bound: "ReadData ctx e buffer n w = Some (k, buffer') \<Longrightarrow> k \<le> n"
  by (auto simp: ReadData_def control_defs on_session_result dest!: InReadPcmData_bound split: if_splits)

lemma aidl_ops_port:
  "bluetooth_port (aidl_ops ctx load downmix) (\<lambda>w. in_use ctx (w_port w)) (aidl_sleep ctx)"
proof
  fix w e n k s and buffer :: "u8 list"
  note ops = aidl_ops_def Let_def case_prod_beta
  let ?o = "aidl_ops ctx load downmix"
  show "op_GetState ?o (op_SetState ?o s w) = s"
    "in_use ctx (w_port (op_SetState ?o s w)) = in_use ctx (w_port w)"
    "op_IsA2dp ?o (op_SetState ?o s w) = op_IsA2dp ?o w"
    by (simp_all add: ops in_use_def IsA2dp_def)
  show "op_GetState ?o w = STANDBY \<and> op_GetState ?o (snd (op_Start ?o e w)) = STARTED"
    if "fst (op_Start ?o e w)"
    using that by (simp add: ops Start_cases split: if_splits)
  show "op_Start ?o e w = (False, w)" if "op_GetState ?o w \<noteq> STANDBY \<or> \<not> in_use ctx (w_port w)"
    using that by (auto simp: ops Start_cases)
  show "in_use ctx (w_port (snd (op_Start ?o e w))) = in_use ctx (w_port w)"
    by (simp add: ops Start_same)
  show "op_GetState ?o w = STARTED \<and> op_GetState ?o (snd (op_Suspend ?o e w)) = STANDBY"
    if "fst (op_Suspend ?o e w)"
    using that by (simp add: ops Suspend_cases split: if_splits)
  show "op_Suspend ?o e w = (False, w)" if "op_GetState ?o w \<noteq> STARTED \<or> \<not> in_use ctx (w_port w)"
    using that by (auto simp: ops Suspend_cases)
  show "in_use ctx (w_port (snd (op_Suspend ?o e w))) = in_use ctx (w_port w)"
    "op_IsA2dp ?o (snd (op_Suspend ?o e w)) = op_IsA2dp ?o w"
    by (simp_all add: ops Suspend_same IsA2dp_def)
  show "moves_to SUSPENDING (op_GetState ?o (snd (op_Suspend ?o e w)))"
    if "op_GetState ?o w = STARTED" "in_use ctx (w_port w)"
    using that Suspend_same(3) by (simp add: ops)
  show "op_GetState ?o (op_Stop ?o e w) = DISABLED" if "in_use ctx (w_port w)"
    using that by (simp add: ops Stop_follows GetState_def)
  show "op_Stop ?o e w = w" if "\<not> in_use ctx (w_port w)"
    using that by (simp add: ops Stop_def)
  show "in_use ctx (w_port (op_Stop ?o e w)) = in_use ctx (w_port w)"
    by (cases "in_use ctx (w_port w)") (simp_all add: ops Stop_follows, simp_all add: Stop_def in_use_def)
  show "\<not> in_use ctx (w_port (op_TearDown ?o w))"
    by (simp add: ops TearDown_def in_use_def)
  show "moves_to (op_GetState ?o w) (op_GetState ?o (aidl_sleep ctx e w))"
    "in_use ctx (w_port (aidl_sleep ctx e w)) = in_use ctx (w_port w)"
    using port_follows_same [OF env_steps_follows [of w ctx "pe_during e"]]
    by (simp_all add: ops aidl_sleep_def GetState_def)
  show "k \<le> n" if "op_WriteData ?o e buffer n w = Some (k, sent)" for sent
    using that by (simp add: ops WriteData_bound)
  show "k \<le> n" if "op_ReadData ?o e buffer n w = Some (k, b)" for b
    using that by (simp add: ops ReadData_bound)
qed

interpretation aidl_port: bluetooth_port "aidl_ops ctx load downmix" "\<lambda>w. in_use ctx (w_port w)"
  "aidl_sleep ctx" for ctx load downmix
  by (rule aidl_ops_port)

end
