(* ===== verification/Audio_Utils.thy ===== *)
theory Audio_Utils
  imports Bt_Prelude
begin

text \<open>
  The helpers of the stream HAL (\<open>hw/utils.cc\<close>): the parser of key/value parameter strings
  and the number of frames in an interval. \<open>android::base::Split\<close> is library code and a
  parameter; what it promises is the predicate \<open>is_split\<close>.
\<close>

section \<open>Splitting\<close>

fun join_with :: "'a \<Rightarrow> 'a list list \<Rightarrow> 'a list" where
  "join_with c [] = []"
| "join_with c [p] = p"
| "join_with c (p # ps) = p @ c # join_with c ps"

definition is_split :: "(string \<Rightarrow> char \<Rightarrow> string list) \<Rightarrow> bool" where
  "is_split split \<longleftrightarrow>
     (\<forall>s c. split s c \<noteq> [] \<and> join_with c (split s c) = s \<and> (\<forall>p \<in> set (split s c). c \<notin> set p))"

lemma join_with_unique:
  assumes "ps \<noteq> []" "qs \<noteq> []" "join_with c ps = join_with c qs"
    and "\<forall>p \<in> set ps. c \<notin> set p" "\<forall>p \<in> set qs. c \<notin> set p"
  shows "ps = qs"
  using assms
proof (induction ps arbitrary: qs)
  case (Cons p ps)
  obtain q qs' where qs: "qs = q # qs'" using Cons.prems(2) by (cases qs) auto
  show ?case
  proof (cases "ps = [] \<or> qs' = []")
    case True
    then show ?thesis
      using Cons.prems qs by (cases ps; cases qs') auto
  next
    case False
    then obtain p2 ps2 q2 qs2 where s: "ps = p2 # ps2" "qs' = q2 # qs2"
      by (meson neq_Nil_conv)
    from Cons.prems(3) have e: "p @ c # join_with c ps = q @ c # join_with c qs'"
      by (simp add: qs s)
    have "p = takeWhile (\<lambda>x. x \<noteq> c) (p @ c # join_with c ps)"
      using Cons.prems(4) by (subst takeWhile_append2) auto
    also have "\<dots> = q"
      unfolding e using Cons.prems(5) qs by (subst takeWhile_append2) auto
    finally have "p = q" .
    with e have "join_with c ps = join_with c qs'" by simp
    then have "ps = qs'" using Cons.IH [of qs'] Cons.prems(4,5) False qs by simp
    with \<open>p = q\<close> show ?thesis by (simp add: qs)
  qed
qed simp

lemma is_split_join:
  assumes "is_split split" "ps \<noteq> []" "\<forall>p \<in> set ps. c \<notin> set p"
  shows "split (join_with c ps) c = ps"
  using assms unfolding is_split_def by (intro join_with_unique) auto

text \<open>A function that splits, for the examples.\<close>

fun split_on :: "string \<Rightarrow> char \<Rightarrow> string list" where
  "split_on [] c = [[]]"
| "split_on (x # xs) c =
     (if x = c then [] # split_on xs c
      else case split_on xs c of [] \<Rightarrow> [[x]] | p # ps \<Rightarrow> (x # p) # ps)"

lemma split_on_is_split: "is_split split_on"
proof -
  have "split_on s c \<noteq> [] \<and> join_with c (split_on s c) = s \<and> (\<forall>p \<in> set (split_on s c). c \<notin> set p)" for s c
  proof (induction s)
    case (Cons x xs)
    obtain p ps where p: "split_on xs c = p # ps" using Cons by (cases "split_on xs c") auto
    with Cons show ?case by (cases ps) auto
  qed simp
  then show ?thesis by (simp add: is_split_def)
qed

section \<open>Parameter strings\<close>

fun parse_segments ::
  "(string \<Rightarrow> char \<Rightarrow> string list) \<Rightarrow> string list \<Rightarrow> (string \<Rightarrow> string option) \<Rightarrow> (string \<Rightarrow> string option)"
where
  "parse_segments split [] params_map = params_map"
| "parse_segments split (segment # segments) params_map =
     (if length segment = 0 then parse_segments split segments params_map
      else let kv = split segment CHR ''='' in
        if kv ! 0 = [] then parse_segments split segments params_map
        else parse_segments split segments
          (params_map(kv ! 0 \<mapsto> (if length kv > 1 then kv ! 1 else []))))"

definition ParseAudioParams ::
  "(string \<Rightarrow> char \<Rightarrow> string list) \<Rightarrow> string \<Rightarrow> string \<Rightarrow> string option" where
  "ParseAudioParams split params = parse_segments split (split params CHR '';'') (\<lambda>k. None)"

text \<open>\<open>params.empty()\<close> on the parsed map, decided on the segments.\<close>

definition params_empty :: "(string \<Rightarrow> char \<Rightarrow> string list) \<Rightarrow> string \<Rightarrow> bool" where
  "params_empty split params \<longleftrightarrow>
     (\<forall>segment \<in> set (split params CHR '';''). segment = [] \<or> split segment CHR ''='' ! 0 = [])"

lemma parse_segments_grows: "m k \<noteq> None \<Longrightarrow> parse_segments split segments m k \<noteq> None"
  by (induction split segments m rule: parse_segments.induct) (auto simp: Let_def)

lemma params_empty_iff: "params_empty split params \<longleftrightarrow> ParseAudioParams split params = (\<lambda>k. None)"
proof -
  have "(\<forall>segment \<in> set segments. segment = [] \<or> split segment CHR ''='' ! 0 = [])
      \<longleftrightarrow> parse_segments split segments m = m" if "\<forall>k. m k = None" for segments m
    using that
  proof (induction split segments m rule: parse_segments.induct)
    case (2 split segment segments m)
    show ?case
    proof (cases "segment = [] \<or> split segment CHR ''='' ! 0 = []")
      case True
      with 2 show ?thesis by (auto simp: Let_def)
    next
      case False
      let ?kv = "split segment CHR ''=''"
      have "parse_segments split segments
          (m(?kv ! 0 \<mapsto> (if length ?kv > 1 then ?kv ! 1 else []))) (?kv ! 0) \<noteq> None"
        by (rule parse_segments_grows) simp
      then have "parse_segments split (segment # segments) m (?kv ! 0) \<noteq> None"
        using False by (simp add: Let_def del: fun_upd_apply)
      with "2.prems" have "parse_segments split (segment # segments) m \<noteq> m" by metis
      with False show ?thesis by simp
    qed
  qed simp
  from this [of "\<lambda>k. None"] show ?thesis by (simp add: params_empty_def ParseAudioParams_def)
qed

text \<open>How a caller writes a parameter string.\<close>

definition print_params :: "(string \<times> string) list \<Rightarrow> string" where
  "print_params kvs = join_with CHR '';'' (map (\<lambda>(k, v). k @ CHR ''='' # v) kvs)"

definition param_ok :: "string \<times> string \<Rightarrow> bool" where
  "param_ok kv \<longleftrightarrow> fst kv \<noteq> [] \<and> CHR ''='' \<notin> set (fst kv) \<and> CHR ''='' \<notin> set (snd kv)
     \<and> CHR '';'' \<notin> set (fst kv) \<and> CHR '';'' \<notin> set (snd kv)"

lemma parse_segments_printed:
  assumes "is_split split" "\<forall>kv \<in> set kvs. param_ok kv"
  shows "parse_segments split (map (\<lambda>(k, v). k @ CHR ''='' # v) kvs) m = m ++ map_of (rev kvs)"
  using assms(2)
proof (induction kvs arbitrary: m)
  case (Cons kv kvs)
  obtain k v where kv: "kv = (k, v)" by force
  have "split (join_with CHR ''='' [k, v]) CHR ''='' = [k, v]"
    using Cons.prems by (intro is_split_join [OF assms(1)]) (auto simp: kv param_ok_def)
  then have "split (k @ CHR ''='' # v) CHR ''='' = [k, v]" by simp
  then show ?case
    using Cons.prems Cons.IH [of "m(k \<mapsto> v)"] by (simp add: kv param_ok_def Let_def del: fun_upd_apply)
qed simp

text \<open>
  C19: Parsing a printed list of parameters gives the map of its bindings, where a later one
  wins, for keys that are not empty and keys and values without delimiters.
\<close>

theorem ParseAudioParams_print:
  assumes "is_split split" "\<forall>kv \<in> set kvs. param_ok kv"
  shows "ParseAudioParams split (print_params kvs) = map_of (rev kvs)"
proof (cases "kvs = []")
  case True
  have "split [] CHR '';'' = [[]]"
    using is_split_join [OF assms(1), of "[[]]" "CHR '';''"] by simp
  then show ?thesis by (simp add: True ParseAudioParams_def print_params_def)
next
  case False
  have "split (print_params kvs) CHR '';'' = map (\<lambda>(k, v). k @ CHR ''='' # v) kvs"
    unfolding print_params_def using assms(2) False
    by (intro is_split_join [OF assms(1)]) (auto simp: param_ok_def)
  then show ?thesis
    using parse_segments_printed [OF assms, of Map.empty] by (simp add: ParseAudioParams_def)
qed

theorem ParseAudioParams_print_witness:
  "ParseAudioParams split_on ''closing=true;routing=2;closing=false'' ''closing'' = Some ''false''"
proof -
  let ?kvs = "[(''closing'', ''true''), (''routing'', ''2''), (''closing'', ''false'')]"
  have "\<forall>kv \<in> set ?kvs. param_ok kv" by (simp add: param_ok_def)
  from ParseAudioParams_print [OF split_on_is_split this]
  have "ParseAudioParams split_on (print_params ?kvs) = map_of (rev ?kvs)" .
  then show ?thesis by (simp add: print_params_def)
qed

section \<open>Frames in an interval\<close>

definition FrameCount :: "u64 \<Rightarrow> u32 \<Rightarrow> u64" where
  "FrameCount microseconds sample_rate = (microseconds * ucast sample_rate) div 1000000"

lemma FrameCount_exact:
  assumes "unat microseconds * unat sample_rate < 2 ^ 64"
  shows "unat (FrameCount microseconds sample_rate) = unat microseconds * unat sample_rate div 1000000"
proof -
  have "unat sample_rate < 2 ^ LENGTH(32)" by (rule unsigned_less)
  then have "unat (ucast sample_rate :: u64) = unat sample_rate"
    by (simp add: unsigned_ucast_eq take_bit_nat_eq_self)
  with assms show ?thesis
    by (simp add: FrameCount_def unat_div unat_word_ariths(2))
qed

lemma FrameCount_unit_tests:
  "FrameCount 120000 44100 = 5292" "FrameCount 7500 32000 = 240"
  by code_simp+

end
