(* ===== verification/Stream_Out.thy ===== *)
theory Stream_Out
  imports Port_Interface Audio_Utils
begin

text \<open>
  The output streams of the audio HAL (\<open>hw/stream_apis.cc\<close>). A stream owns a port and keeps
  the PCM configuration and the counters of frames; an operation is a function on the
  stream's record and the port's world, with the methods of the port as a parameter. The
  frame size of \<open>system/audio.h\<close>, the monotonic clock and the library's constants are
  parameters. A division by zero makes the result \<^term>\<open>None\<close>.
\<close>

section \<open>Constants and state\<close>

definition EIO :: int where "EIO = 5"
definition EBUSY :: int where "EBUSY = 16"
definition EINVAL :: int where "EINVAL = 22"
definition ENOSYS :: int where "ENOSYS = 38"

lemmas errno_defs = EIO_def EBUSY_def EINVAL_def ENOSYS_def

definition kMinimumDelayMs :: u64 where "kMinimumDelayMs = 50"
definition kMaximumDelayMs :: u64 where "kMaximumDelayMs = 1000"
definition kExtraAudioSyncMs :: u64 where "kExtraAudioSyncMs = 200"
definition kBluetoothDefaultOutputBufferMs :: u64 where "kBluetoothDefaultOutputBufferMs = 10"
definition kBluetoothSpatializerOutputBufferMs :: u64 where "kBluetoothSpatializerOutputBufferMs = 10"
definition kBluetoothDefaultInputBufferMs :: u64 where "kBluetoothDefaultInputBufferMs = 20"
definition kBluetoothDefaultInputStateTimeoutMs :: u16 where "kBluetoothDefaultInputStateTimeoutMs = 20"

text \<open>The constants of \<open>system/audio.h\<close> that the streams name.\<close>

record hal_consts =
  AUDIO_PARAMETER_STREAM_SUP_SAMPLING_RATES :: string
  AUDIO_PARAMETER_STREAM_SUP_CHANNELS :: string
  AUDIO_PARAMETER_STREAM_SUP_FORMATS :: string
  AUDIO_PARAMETER_KEY_CLOSING :: string
  AUDIO_PARAMETER_KEY_EXITING :: string
  AUDIO_OUTPUT_FLAG_FAST :: u32
  AUDIO_OUTPUT_FLAG_DEEP_BUFFER :: u32
  AUDIO_OUTPUT_FLAG_SPATIALIZER :: u32

type_synonym frame_size = "audio_channel_mask \<Rightarrow> audio_format \<Rightarrow> u64"

record timespec =
  tv_sec :: int
  tv_nsec :: int

text \<open>C++ division of signed operands truncates; the divisors here are positive constants.\<close>

definition timespec_us :: "timespec \<Rightarrow> int" where
  "timespec_us ts = (let ns = tv_sec ts * 1000000000 + tv_nsec ts
     in if ns < 0 then - ((- ns) div 1000) else ns div 1000)"

record BluetoothStreamOut =
  so_is_aidl :: bool
  so_last_write_time_us :: int
  so_sample_rate :: u32
  so_channel_mask :: audio_channel_mask
  so_format :: audio_format
  so_preferred_data_interval_us :: u64
  so_frames_count :: u64
  so_frames_rendered :: u64
  so_frames_presented :: u64

section \<open>Configuration queries\<close>

text \<open>The local \<open>audio_config_t\<close> is not initialised: its content is the argument \<open>junk\<close>.\<close>

definition out_get_sample_rate ::
  "('w, 'e) port_ops \<Rightarrow> audio_config \<Rightarrow> BluetoothStreamOut \<Rightarrow> 'w \<Rightarrow> u32" where
  "out_get_sample_rate ops junk out w =
     (let (ok, audio_cfg) = op_LoadAudioConfig ops junk w
      in if ok then ac_sample_rate audio_cfg else so_sample_rate out)"

definition out_set_sample_rate :: "u32 \<Rightarrow> BluetoothStreamOut \<Rightarrow> int" where
  "out_set_sample_rate rate out = (if rate = so_sample_rate out then 0 else -1)"

definition out_get_channels ::
  "('w, 'e) port_ops \<Rightarrow> audio_config \<Rightarrow> BluetoothStreamOut \<Rightarrow> 'w \<Rightarrow> audio_channel_mask" where
  "out_get_channels ops junk out w =
     (let (ok, audio_cfg) = op_LoadAudioConfig ops junk w
      in if ok then ac_channel_mask audio_cfg else so_channel_mask out)"

definition out_get_format ::
  "('w, 'e) port_ops \<Rightarrow> audio_config \<Rightarrow> BluetoothStreamOut \<Rightarrow> 'w \<Rightarrow> audio_format" where
  "out_get_format ops junk out w =
     (let (ok, audio_cfg) = op_LoadAudioConfig ops junk w
      in if ok then ac_format audio_cfg else so_format out)"

definition out_set_format :: "audio_format \<Rightarrow> BluetoothStreamOut \<Rightarrow> int" where
  "out_set_format format out = (if format = so_format out then 0 else -1)"

text \<open>
  \<open>audio_stream_out_frame_size\<close> is library code that asks the stream for its channels and
  format.
\<close>

definition out_frame_size ::
  "('w, 'e) port_ops \<Rightarrow> frame_size \<Rightarrow> audio_config \<Rightarrow> BluetoothStreamOut \<Rightarrow> 'w \<Rightarrow> u64" where
  "out_frame_size ops fsz junk out w =
     fsz (out_get_channels ops junk out w) (out_get_format ops junk out w)"

definition out_get_buffer_size ::
  "('w, 'e) port_ops \<Rightarrow> frame_size \<Rightarrow> audio_config \<Rightarrow> BluetoothStreamOut \<Rightarrow> 'w \<Rightarrow> u64" where
  "out_get_buffer_size ops fsz junk out w = so_frames_count out * out_frame_size ops fsz junk out w"

section \<open>Delay and position\<close>

text \<open>
  The position is written also when the port reports failure. The result has what the
  pointers that are not null receive.
\<close>

record feeding_delay =
  fd_latency_ms :: u32
  fd_frames :: u64
  fd_timestamp :: timespec

definition reported_position :: "port_position option \<Rightarrow> port_position" where
  "reported_position pos =
     (case pos of Some p \<Rightarrow> p | None \<Rightarrow> \<lparr>pos_delay_ns = 0, pos_bytes = 0, pos_sec = 0, pos_nsec = 0\<rparr>)"

definition presented_frames :: "u64 \<Rightarrow> u64 \<Rightarrow> u64 \<Rightarrow> u64" where
  "presented_frames frames_presented frames latency_frames =
     (let frames = (if frames_presented < frames then frames_presented
                    else if frames_presented - frames > latency_frames then frames_presented
                    else frames)
      in if frames > latency_frames then frames - latency_frames else 0)"

definition out_calculate_feeding_delay_ms ::
  "('w, 'e) port_ops \<Rightarrow> frame_size \<Rightarrow> audio_config \<Rightarrow> timespec \<Rightarrow> bool \<Rightarrow> bool \<Rightarrow> 'e
     \<Rightarrow> BluetoothStreamOut \<Rightarrow> 'w \<Rightarrow> feeding_delay option" where
  "out_calculate_feeding_delay_ms ops fsz junk clock want_frames want_timestamp e out w =
     (let (ok, pos) = op_GetPresentationPosition ops e w;
          position = reported_position pos;
          reported_ms = pos_delay_ns position div 1000000;
          timestamp_fetched = (ok \<and> kMinimumDelayMs < reported_ms \<and> reported_ms < kMaximumDelayMs);
          absorbed_timestamp = (if \<not> timestamp_fetched \<and> want_timestamp then clock
             else \<lparr>tv_sec = pos_sec position, tv_nsec = pos_nsec position\<rparr>)
      in case (if timestamp_fetched then Some reported_ms
               else map_option (\<lambda>d. d + kExtraAudioSyncMs)
                      (udiv (so_frames_count out * 1000) (ucast (so_sample_rate out)))) of
           None \<Rightarrow> None
         | Some delay_report_ms \<Rightarrow>
             (if \<not> want_frames
              then Some \<lparr>fd_latency_ms = ucast delay_report_ms, fd_frames = 0, fd_timestamp = absorbed_timestamp\<rparr>
              else let latency_frames = delay_report_ms * ucast (so_sample_rate out) div 1000
                in case udiv (pos_bytes position) (out_frame_size ops fsz junk out w) of
                     None \<Rightarrow> None
                   | Some frames \<Rightarrow> Some
                       \<lparr>fd_latency_ms = ucast delay_report_ms,
                        fd_frames = presented_frames (so_frames_presented out) frames latency_frames,
                        fd_timestamp = absorbed_timestamp\<rparr>))"

definition out_get_latency_ms ::
  "('w, 'e) port_ops \<Rightarrow> frame_size \<Rightarrow> audio_config \<Rightarrow> timespec \<Rightarrow> 'e \<Rightarrow> BluetoothStreamOut \<Rightarrow> 'w
     \<Rightarrow> u32 option" where
  "out_get_latency_ms ops fsz junk clock e out w =
     map_option fd_latency_ms (out_calculate_feeding_delay_ms ops fsz junk clock False False e out w)"

definition out_get_render_position ::
  "('w, 'e) port_ops \<Rightarrow> frame_size \<Rightarrow> audio_config \<Rightarrow> timespec \<Rightarrow> 'e \<Rightarrow> BluetoothStreamOut \<Rightarrow> 'w
     \<Rightarrow> u32 option" where
  "out_get_render_position ops fsz junk clock e out w =
     (case out_get_latency_ms ops fsz junk clock e out w of
        None \<Rightarrow> None
      | Some latency_ms \<Rightarrow>
          (let latency_frames = ucast latency_ms * ucast (so_sample_rate out) div 1000
           in Some (if so_frames_rendered out \<ge> latency_frames
                    then ucast (so_frames_rendered out - latency_frames) else 0)))"

definition out_get_presentation_position ::
  "('w, 'e) port_ops \<Rightarrow> frame_size \<Rightarrow> audio_config \<Rightarrow> timespec \<Rightarrow> 'e \<Rightarrow> BluetoothStreamOut \<Rightarrow> 'w
     \<Rightarrow> (u64 \<times> timespec) option" where
  "out_get_presentation_position ops fsz junk clock e out w =
     map_option (\<lambda>d. (fd_frames d, fd_timestamp d))
       (out_calculate_feeding_delay_ms ops fsz junk clock True True e out w)"

text \<open>The timestamp written and the value returned.\<close>

definition out_get_next_write_timestamp :: "int \<times> int" where
  "out_get_next_write_timestamp = (0, - EINVAL)"

definition out_set_volume :: int where "out_set_volume = -1"

section \<open>Standby, pause and resume\<close>

text \<open>Standby and pause have the same body.\<close>

definition out_standby ::
  "('w, 'e) port_ops \<Rightarrow> 'e \<Rightarrow> BluetoothStreamOut \<times> 'w \<Rightarrow> int \<times> BluetoothStreamOut \<times> 'w" where
  "out_standby ops e s =
     (let (out, w) = s in
      if op_GetState ops w = STARTED then
        (let out = out\<lparr>so_frames_rendered := 0\<rparr>; (ok, w) = op_Suspend ops e w
         in (if ok then 0 else - EIO, out, w))
      else if op_GetState ops w = STARTING \<or> op_GetState ops w = SUSPENDING then (- EBUSY, out, w)
      else (0, out, w))"

definition out_pause ::
  "('w, 'e) port_ops \<Rightarrow> 'e \<Rightarrow> BluetoothStreamOut \<times> 'w \<Rightarrow> int \<times> BluetoothStreamOut \<times> 'w" where
  "out_pause ops e s =
     (let (out, w) = s in
      if op_GetState ops w = STARTED then
        (let out = out\<lparr>so_frames_rendered := 0\<rparr>; (ok, w) = op_Suspend ops e w
         in (if ok then 0 else - EIO, out, w))
      else if op_GetState ops w = STARTING \<or> op_GetState ops w = SUSPENDING then (- EBUSY, out, w)
      else (0, out, w))"

definition out_resume ::
  "('w, 'e) port_ops \<Rightarrow> 'e \<Rightarrow> BluetoothStreamOut \<times> 'w \<Rightarrow> int \<times> BluetoothStreamOut \<times> 'w" where
  "out_resume ops e s =
     (let (out, w) = s in
      if op_GetState ops w = STANDBY then
        (let (ok, w) = op_Start ops e w in (if ok then 0 else - EIO, out, w))
      else if op_GetState ops w = STARTING \<or> op_GetState ops w = SUSPENDING then (- EBUSY, out, w)
      else if op_GetState ops w = DISABLED then (- EINVAL, out, w)
      else (0, out, w))"

section \<open>Writing\<close>

text \<open>
  The result of a write: the value returned, the bytes that entered the queue, and the time
  slept. The value of a \<open>size_t\<close> is returned as \<open>ssize_t\<close>.
\<close>

record write_result =
  wr_ret :: u64
  wr_sent :: "u8 list list"
  wr_sleep_us :: int

definition out_write ::
  "('w, 'e) port_ops \<Rightarrow> frame_size \<Rightarrow> audio_config \<Rightarrow> timespec \<Rightarrow> (nat \<Rightarrow> 'e) \<Rightarrow> u8 list \<Rightarrow> u64
     \<Rightarrow> BluetoothStreamOut \<times> 'w \<Rightarrow> (write_result \<times> BluetoothStreamOut \<times> 'w) option" where
  "out_write ops fsz junk clock es buffer bytes s =
     (let (out, w) = s;
          (resumed, out, w) =
            (if op_GetState ops w \<noteq> STARTED then out_resume ops (es 0) (out, w) else (0, out, w)) in
      if resumed \<noteq> 0 then
        Some (\<lparr>wr_ret = (if op_GetState ops w = DISABLED then bytes else 0), wr_sent = [],
               wr_sleep_us = uint (so_preferred_data_interval_us out)\<rparr>, out, w)
      else case op_WriteData ops (es 1) buffer (unat bytes) w of
        None \<Rightarrow> None
      | Some (n, sent) \<Rightarrow>
          (let totalWritten = word_of_nat n :: u64 in
           if totalWritten \<noteq> 0 then
             (case udiv bytes (out_frame_size ops fsz junk out w) of
                None \<Rightarrow> None
              | Some frames \<Rightarrow>
                  Some (\<lparr>wr_ret = totalWritten, wr_sent = sent, wr_sleep_us = 0\<rparr>,
                    out\<lparr>so_frames_rendered := so_frames_rendered out + frames,
                        so_frames_presented := so_frames_presented out + frames,
                        so_last_write_time_us := timespec_us clock\<rparr>, w))
           else
             let now = timespec_us clock;
                 elapsed_time_since_last_write = now - so_last_write_time_us out in
             (case udiv (bytes * 1000000) (out_frame_size ops fsz junk out w) of
                None \<Rightarrow> None
              | Some q \<Rightarrow>
                (case udiv q (ucast (out_get_sample_rate ops junk out w)) of
                   None \<Rightarrow> None
                 | Some play_time \<Rightarrow>
                   (let sleep_time = sint (play_time - word_of_int elapsed_time_since_last_write);
                        sleep_time = (if sleep_time > 0 then sleep_time else 0)
                    in Some (\<lparr>wr_ret = totalWritten, wr_sent = sent, wr_sleep_us = sleep_time\<rparr>,
                         out\<lparr>so_last_write_time_us := now + sleep_time\<rparr>, w))))))"

section \<open>Parameters\<close>

text \<open>What closing and exiting do: the counters are reset and the port is stopped.\<close>

definition out_stop_port ::
  "('w, 'e) port_ops \<Rightarrow> 'e \<Rightarrow> BluetoothStreamOut \<times> 'w \<Rightarrow> BluetoothStreamOut \<times> 'w" where
  "out_stop_port ops e s =
     (let (out, w) = s in
      if op_GetState ops w \<noteq> DISABLED
      then (out\<lparr>so_frames_rendered := 0, so_frames_presented := 0\<rparr>, op_Stop ops e w)
      else (out, w))"

definition out_a2dp_suspended ::
  "('w, 'e) port_ops \<Rightarrow> 'e \<Rightarrow> bool \<Rightarrow> BluetoothStreamOut \<times> 'w \<Rightarrow> BluetoothStreamOut \<times> 'w" where
  "out_a2dp_suspended ops e suspend s =
     (let (out, w) = s in
      if suspend then
        (let out = out\<lparr>so_frames_rendered := 0\<rparr> in
         if op_GetState ops w = STARTED then
           (let (ok, w) = op_Suspend ops e w in (out, op_SetState ops DISABLED w))
         else if op_GetState ops w \<noteq> DISABLED then (out, op_Stop ops e w)
         else (out, w))
      else if op_GetState ops w = DISABLED then (out, op_SetState ops STANDBY w)
      else (out, w))"

text \<open>
  The branch on \<open>LeAudioSuspended\<close> and the one on the routing only log.
\<close>

definition out_set_parameters ::
  "('w, 'e) port_ops \<Rightarrow> (string \<Rightarrow> char \<Rightarrow> string list) \<Rightarrow> hal_consts \<Rightarrow> audio_config \<Rightarrow> (nat \<Rightarrow> 'e)
     \<Rightarrow> string \<Rightarrow> BluetoothStreamOut \<times> 'w \<Rightarrow> int \<times> BluetoothStreamOut \<times> 'w" where
  "out_set_parameters ops split c junk es kvpairs s =
     (let params = ParseAudioParams split kvpairs in
      if params_empty split kvpairs then (0, s)
      else
        let (out, w) = s;
            out =
              (if params (AUDIO_PARAMETER_STREAM_SUP_SAMPLING_RATES c) \<noteq> None
                  \<or> params (AUDIO_PARAMETER_STREAM_SUP_CHANNELS c) \<noteq> None
                  \<or> params (AUDIO_PARAMETER_STREAM_SUP_FORMATS c) \<noteq> None
               then (let (ok, audio_cfg) = op_LoadAudioConfig ops junk w
                 in if ok then out\<lparr>so_sample_rate := ac_sample_rate audio_cfg,
                      so_channel_mask := ac_channel_mask audio_cfg, so_format := ac_format audio_cfg\<rparr>
                    else out)
               else out);
            s = (out, w);
            s = (if params ''A2dpSuspended'' \<noteq> None \<and> op_IsA2dp ops (snd s)
                 then out_a2dp_suspended ops (es 0) (params ''A2dpSuspended'' = Some ''true'') s else s);
            s = (if params (AUDIO_PARAMETER_KEY_CLOSING c) = Some ''true''
                 then out_stop_port ops (es 1) s else s);
            s = (if params (AUDIO_PARAMETER_KEY_EXITING c) = Some ''1''
                 then out_stop_port ops (es 2) s else s)
        in (0, s))"

text \<open>
  The parameters returned are an unordered map: \<open>order\<close> is the order in which its entries
  are visited.
\<close>

definition rate_param :: "u32 \<Rightarrow> string" where
  "rate_param rate =
     (if rate = 16000 then ''16000'' else if rate = 24000 then ''24000''
      else if rate = 44100 then ''44100'' else if rate = 48000 then ''48000''
      else if rate = 88200 then ''88200'' else if rate = 96000 then ''96000''
      else if rate = 176400 then ''176400'' else if rate = 192000 then ''192000'' else [])"

fun channel_param :: "audio_channel_mask \<Rightarrow> string" where
  "channel_param AUDIO_CHANNEL_OUT_MONO = ''AUDIO_CHANNEL_OUT_MONO''"
| "channel_param AUDIO_CHANNEL_OUT_STEREO = ''AUDIO_CHANNEL_OUT_STEREO''"
| "channel_param _ = []"

fun format_param :: "audio_format \<Rightarrow> string" where
  "format_param AUDIO_FORMAT_PCM_16_BIT = ''AUDIO_FORMAT_PCM_16_BIT''"
| "format_param AUDIO_FORMAT_PCM_24_BIT_PACKED = ''AUDIO_FORMAT_PCM_24_BIT_PACKED''"
| "format_param AUDIO_FORMAT_PCM_8_24_BIT = ''AUDIO_FORMAT_PCM_8_24_BIT''"
| "format_param AUDIO_FORMAT_PCM_32_BIT = ''AUDIO_FORMAT_PCM_32_BIT''"
| "format_param _ = []"

definition out_get_parameters ::
  "('w, 'e) port_ops \<Rightarrow> (string \<Rightarrow> char \<Rightarrow> string list) \<Rightarrow> hal_consts \<Rightarrow> audio_config
     \<Rightarrow> ((string \<times> string) list \<Rightarrow> (string \<times> string) list) \<Rightarrow> string \<Rightarrow> 'w \<Rightarrow> string" where
  "out_get_parameters ops split c junk order keys w =
     (let params = ParseAudioParams split keys in
      if params_empty split keys then []
      else
        let audio_cfg = snd (op_LoadAudioConfig ops junk w);
            return_params =
              (if params (AUDIO_PARAMETER_STREAM_SUP_SAMPLING_RATES c) \<noteq> None
               then [(AUDIO_PARAMETER_STREAM_SUP_SAMPLING_RATES c, rate_param (ac_sample_rate audio_cfg))] else [])
            @ (if params (AUDIO_PARAMETER_STREAM_SUP_CHANNELS c) \<noteq> None
               then [(AUDIO_PARAMETER_STREAM_SUP_CHANNELS c, channel_param (ac_channel_mask audio_cfg))] else [])
            @ (if params (AUDIO_PARAMETER_STREAM_SUP_FORMATS c) \<noteq> None
               then [(AUDIO_PARAMETER_STREAM_SUP_FORMATS c, format_param (ac_format audio_cfg))] else [])
        in concat (map (\<lambda>(k, v). k @ ''='' @ v @ '';'') (order return_params)))"

section \<open>Opening and closing\<close>

text \<open>The device's list of streams holds their addresses.\<close>

record BluetoothAudioDevice =
  opened_stream_outs :: "nat list"
  next_unique_id :: u32

definition adev_open_output_stream ::
  "('w, 'e) port_ops \<Rightarrow> hal_consts \<Rightarrow> bool \<Rightarrow> nat \<Rightarrow> audio_device \<Rightarrow> u32 \<Rightarrow> audio_config
     \<Rightarrow> BluetoothAudioDevice \<Rightarrow> 'w
     \<Rightarrow> int \<times> BluetoothStreamOut option \<times> audio_config \<times> BluetoothAudioDevice \<times> 'w" where
  "adev_open_output_stream ops c is_aidl address devices flags config dev w =
     (let (ok, w) = op_SetUp ops devices w in
      if \<not> ok then (- EINVAL, None, config, dev, w)
      else
        let (loaded, config) = op_LoadAudioConfig ops config w;
            (config, w) =
              (if ac_channel_mask config = AUDIO_CHANNEL_OUT_MONO \<and> ac_format config = AUDIO_FORMAT_PCM_16_BIT
               then (config\<lparr>ac_channel_mask := AUDIO_CHANNEL_OUT_STEREO\<rparr>, op_ForcePcmStereoToMono ops True w)
               else (config, w));
            interval =
              (case op_GetPreferredDataIntervalUs ops w of
                 Some us \<Rightarrow> if us \<noteq> 0 then us else kBluetoothDefaultOutputBufferMs * 1000
               | None \<Rightarrow> kBluetoothDefaultOutputBufferMs * 1000);
            interval =
              (if (flags = (AUDIO_OUTPUT_FLAG_FAST c OR AUDIO_OUTPUT_FLAG_DEEP_BUFFER c)
                   \<or> flags = AUDIO_OUTPUT_FLAG_SPATIALIZER c)
                  \<and> interval < kBluetoothSpatializerOutputBufferMs * 1000
               then kBluetoothSpatializerOutputBufferMs * 1000 else interval);
            out = \<lparr>so_is_aidl = is_aidl, so_last_write_time_us = 0,
                   so_sample_rate = ac_sample_rate config, so_channel_mask = ac_channel_mask config,
                   so_format = ac_format config, so_preferred_data_interval_us = interval,
                   so_frames_count = FrameCount interval (ac_sample_rate config),
                   so_frames_rendered = 0, so_frames_presented = 0\<rparr>
        in (0, Some out, config,
            dev\<lparr>opened_stream_outs := opened_stream_outs dev @ [address]\<rparr>, w))"

definition adev_close_output_stream ::
  "('w, 'e) port_ops \<Rightarrow> 'e \<Rightarrow> nat \<Rightarrow> BluetoothAudioDevice \<Rightarrow> BluetoothStreamOut \<times> 'w
     \<Rightarrow> BluetoothAudioDevice \<times> 'w" where
  "adev_close_output_stream ops e address dev s =
     (let dev = dev\<lparr>opened_stream_outs := filter (\<lambda>a. a \<noteq> address) (opened_stream_outs dev)\<rparr>;
          (out, w) = out_stop_port ops e s
      in (dev, op_TearDown ops w))"

section \<open>Metadata\<close>

text \<open>
  The HIDL port receives one track; \<open>hidl_update\<close> is its method and the conversion from the
  version-7 track.
\<close>

definition out_update_source_metadata_v7 ::
  "(track_v7 list \<Rightarrow> 'w \<Rightarrow> 'c) \<Rightarrow> (nat \<times> track_v7 \<Rightarrow> 'w \<Rightarrow> 'c) \<Rightarrow> track_v7 list option
     \<Rightarrow> BluetoothStreamOut \<times> 'w \<Rightarrow> 'c option" where
  "out_update_source_metadata_v7 aidl_update hidl_update source_metadata s =
     (let (out, w) = s in
      case source_metadata of
        None \<Rightarrow> None
      | Some [] \<Rightarrow> None
      | Some (track # tracks) \<Rightarrow>
          (if \<not> so_is_aidl out then Some (hidl_update (length (track # tracks), track) w)
           else Some (aidl_update (track # tracks) w)))"

end
