(* ===== verification/Stream_Device.thy ===== *)
theory Stream_Device
  imports Stream_Out
begin

text \<open>
  The audio HAL's device (\<open>hw/audio_bluetooth_hw.cc\<close>): the methods of \<open>audio_hw_device\<close>
  beside the ones that open and close streams.
\<close>

text \<open>
  A null array is \<^term>\<open>None\<close>; the number of elements is the list's length.
\<close>

datatype audio_port_type = AUDIO_PORT_TYPE_NONE | AUDIO_PORT_TYPE_DEVICE | AUDIO_PORT_TYPE_MIX | AUDIO_PORT_TYPE_SESSION

text \<open>
  The streams' \<open>set_parameters\<close> run in the order of the list; \<open>set_parameters a\<close> is what it
  does to the world of all streams for the stream at address \<open>a\<close>.
\<close>

definition adev_set_parameters ::
  "(string \<Rightarrow> char \<Rightarrow> string list) \<Rightarrow> (nat \<Rightarrow> string \<Rightarrow> 'd \<Rightarrow> 'd) \<Rightarrow> string \<Rightarrow> BluetoothAudioDevice \<Rightarrow> 'd \<Rightarrow> int \<times> 'd"
where
  "adev_set_parameters split set_parameters kvpairs dev d =
     (let params = ParseAudioParams split kvpairs in
      if params_empty split kvpairs then (0, d)
      else if params ''A2dpSuspended'' = None \<and> params ''LeAudioSuspended'' = None then (- ENOSYS, d)
      else (0, fold (\<lambda>a. set_parameters a kvpairs) (opened_stream_outs dev) d))"

definition adev_get_parameters :: "string \<Rightarrow> string" where
  "adev_get_parameters keys = []"

text \<open>The methods that do nothing, with the value they return.\<close>

datatype adev_unsupported =
    adev_init_check | adev_set_voice_volume | adev_set_master_volume | adev_get_master_volume
  | adev_set_master_mute | adev_get_master_mute | adev_set_mode | adev_set_mic_mute
  | adev_get_mic_mute | adev_dump

fun adev_unsupported_result :: "adev_unsupported \<Rightarrow> int" where
  "adev_unsupported_result adev_init_check = 0"
| "adev_unsupported_result adev_set_voice_volume = - ENOSYS"
| "adev_unsupported_result adev_set_master_volume = - ENOSYS"
| "adev_unsupported_result adev_get_master_volume = - ENOSYS"
| "adev_unsupported_result adev_set_master_mute = - ENOSYS"
| "adev_unsupported_result adev_get_master_mute = - ENOSYS"
| "adev_unsupported_result adev_set_mode = 0"
| "adev_unsupported_result adev_set_mic_mute = - ENOSYS"
| "adev_unsupported_result adev_get_mic_mute = - ENOSYS"
| "adev_unsupported_result adev_dump = 0"

text \<open>
  \<open>ports_max\<close> and \<open>handle_none\<close> are \<open>AUDIO_PATCH_PORTS_MAX\<close> and \<open>AUDIO_PATCH_HANDLE_NONE\<close>.
\<close>

definition adev_create_audio_patch ::
  "nat \<Rightarrow> u32 \<Rightarrow> BluetoothAudioDevice option \<Rightarrow> audio_port_type list option \<Rightarrow> audio_port_type list option
     \<Rightarrow> u32 option \<Rightarrow> int \<times> u32 option \<times> BluetoothAudioDevice option" where
  "adev_create_audio_patch ports_max handle_none device sources sinks patch_handle =
     (case (device, sources, sinks, patch_handle) of
        (Some dev, Some srcs, Some snks, Some h) \<Rightarrow>
          (if length srcs \<noteq> 1 \<or> length snks = 0 \<or> length snks > ports_max
           then (- EINVAL, patch_handle, device)
           else if (srcs ! 0 = AUDIO_PORT_TYPE_DEVICE
                    \<and> (length snks \<noteq> 1 \<or> snks ! 0 \<noteq> AUDIO_PORT_TYPE_MIX))
                 \<or> (srcs ! 0 = AUDIO_PORT_TYPE_MIX \<and> (\<exists>t \<in> set snks. t \<noteq> AUDIO_PORT_TYPE_DEVICE))
                 \<or> (srcs ! 0 \<noteq> AUDIO_PORT_TYPE_DEVICE \<and> srcs ! 0 \<noteq> AUDIO_PORT_TYPE_MIX)
           then (- EINVAL, patch_handle, device)
           else if h = handle_none
           then (0, Some (next_unique_id dev + 1), Some (dev\<lparr>next_unique_id := next_unique_id dev + 1\<rparr>))
           else (0, Some h, device))
      | _ \<Rightarrow> (- EINVAL, patch_handle, device))"

definition adev_release_audio_patch :: "BluetoothAudioDevice option \<Rightarrow> u32 \<Rightarrow> int" where
  "adev_release_audio_patch device patch_handle = (if device = None then - EINVAL else 0)"

definition adev_get_audio_port :: "BluetoothAudioDevice option \<Rightarrow> 'p option \<Rightarrow> int" where
  "adev_get_audio_port device audio_port =
     (if device = None \<or> audio_port = None then - EINVAL else - ENOSYS)"

text \<open>\<open>interface_name\<close> is \<open>AUDIO_HARDWARE_INTERFACE\<close>.\<close>

definition adev_open :: "string \<Rightarrow> string \<Rightarrow> int \<times> BluetoothAudioDevice option" where
  "adev_open interface_name name =
     (if name \<noteq> interface_name then (- EINVAL, None)
      else (0, Some \<lparr>opened_stream_outs = [], next_unique_id = 1\<rparr>))"

section \<open>Patch handles\<close>

text \<open>Requests for new patches give distinct handles until the 32-bit counter wraps.\<close>

fun new_patches :: "nat \<Rightarrow> nat \<Rightarrow> BluetoothAudioDevice \<Rightarrow> u32 option list" where
  "new_patches ports_max 0 dev = []"
| "new_patches ports_max (Suc n) dev =
     (case adev_create_audio_patch ports_max 0 (Some dev) (Some [AUDIO_PORT_TYPE_MIX])
        (Some [AUDIO_PORT_TYPE_DEVICE]) (Some 0) of
        (_, h, Some dev') \<Rightarrow> h # new_patches ports_max n dev'
      | (_, h, None) \<Rightarrow> [h])"

lemma new_patches_handles:
  assumes "0 < ports_max"
  shows "new_patches ports_max n dev
    = map (\<lambda>i. Some (next_unique_id dev + 1 + word_of_nat i)) [0..<n]"
proof (induction n arbitrary: dev)
  case (Suc n)
  have "[0..<Suc n] = 0 # map Suc [0..<n]" by (simp add: map_Suc_upt upt_conv_Cons del: upt_Suc)
  then show ?case
    using Suc assms by (simp add: adev_create_audio_patch_def del: upt_Suc)
qed simp

lemma new_patches_distinct:
  assumes "0 < ports_max" "n \<le> 2 ^ 32"
  shows "distinct (new_patches ports_max n dev)"
proof -
  have "a = b" if "a < n" "b < n" "(word_of_nat a :: u32) = word_of_nat b" for a b
  proof -
    have "a < 2 ^ LENGTH(32)" "b < 2 ^ LENGTH(32)" using that(1,2) assms(2) by simp_all
    then show ?thesis
      using arg_cong [OF that(3), of unat] by (simp add: unsigned_of_nat take_bit_nat_eq_self)
  qed
  then have "inj_on (\<lambda>i. Some (next_unique_id dev + 1 + word_of_nat i)) {0..<n}"
    by (auto simp: inj_on_def)
  then show ?thesis
    by (simp add: new_patches_handles [OF assms(1)] distinct_map)
qed

end
