(* ===== verification/Stream_Out_Facts.thy ===== *)
theory Stream_Out_Facts
  imports Stream_Out
begin

text \<open>
  What the output streams promise, for every port that keeps the contract of its class, and
  then for the AIDL port.
\<close>

lemmas stream_out_defs [stream_defs] =
  out_standby_def out_pause_def out_resume_def out_stop_port_def out_a2dp_suspended_def
  out_set_parameters_def adev_close_output_stream_def

lemma errno_nonzero [simp]: "EIO \<noteq> 0" "EBUSY \<noteq> 0" "EINVAL \<noteq> 0" "ENOSYS \<noteq> 0"
  by (simp_all add: errno_defs)

lemma out_pause_standby: "out_pause = out_standby"
  by (intro ext) (simp add: out_pause_def out_standby_def)

section \<open>For every port\<close>

context bluetooth_port
begin

lemma out_resume_spec:
  assumes "out_resume ops e (out, w) = (r, out', w')" "op_GetState ops w \<noteq> BSS_UNKNOWN"
  shows "out' = out \<and> (r = 0 \<longrightarrow> op_GetState ops w' = STARTED)
     \<and> (op_GetState ops w \<noteq> STANDBY \<longrightarrow> w' = w)
     \<and> (op_GetState ops w = DISABLED \<longrightarrow> r \<noteq> 0)
     \<and> (r \<noteq> 0 \<longrightarrow> \<not> fst (op_Start ops e w) \<or> op_GetState ops w \<noteq> STANDBY)"
  using assms start_true [of e w]
  by (cases "op_GetState ops w") (auto simp: out_resume_def case_prod_beta Let_def split: if_splits)

lemma out_standby_spec:
  assumes "out_standby ops e (out, w) = (r, out', w')" "usable w"
  shows "(r = 0 \<longrightarrow> op_GetState ops w' \<in> {STANDBY, DISABLED, BSS_UNKNOWN})
     \<and> (r = - EIO \<longrightarrow> op_GetState ops w = STARTED \<and> op_GetState ops w' \<in> {SUSPENDING, STANDBY, DISABLED})
     \<and> (r = - EBUSY \<longleftrightarrow> op_GetState ops w \<in> {STARTING, SUSPENDING})
     \<and> (op_GetState ops w \<noteq> STARTED \<longrightarrow> out' = out \<and> w' = w)
     \<and> out' = out\<lparr>so_frames_rendered := (if op_GetState ops w = STARTED then 0 else so_frames_rendered out)\<rparr>
     \<and> r \<in> {0, - EIO, - EBUSY}"
  using assms suspend_true [of e w] suspend_moves [of w e]
  by (cases "op_GetState ops w")
    (auto simp: out_standby_def case_prod_beta Let_def errno_defs split: if_splits)

lemma out_stop_port_spec:
  assumes "usable (snd s)"
  shows "op_GetState ops (snd (out_stop_port ops e s)) = DISABLED"
    "usable (snd (out_stop_port ops e s))"
    "op_GetState ops (snd s) = DISABLED \<Longrightarrow> out_stop_port ops e s = s"
  using assms stop_disables [of "snd s" e] stop_usable [of e "snd s"]
  by (simp_all add: out_stop_port_def case_prod_beta)

lemma out_a2dp_suspended_spec:
  assumes "usable (snd s)"
  shows "op_GetState ops (snd (out_a2dp_suspended ops e True s)) = DISABLED"
    "usable (snd (out_a2dp_suspended ops e b s))"
    "op_GetState ops (snd s) = DISABLED \<Longrightarrow>
       op_GetState ops (snd (out_a2dp_suspended ops e False s)) = STANDBY"
    "op_GetState ops (snd s) \<noteq> DISABLED \<Longrightarrow> out_a2dp_suspended ops e False s = s"
  using assms stop_disables [of "snd s" e] stop_usable [of e "snd s"] suspend_usable [of e "snd s"]
  by (simp_all add: out_a2dp_suspended_def case_prod_beta Let_def state_set usable_set)

lemma out_set_parameters_suspend:
  assumes "usable w" "op_IsA2dp ops w" "ParseAudioParams split kvpairs ''A2dpSuspended'' = Some ''true''"
  shows "op_GetState ops (snd (snd (out_set_parameters ops split c junk es kvpairs (out, w)))) = DISABLED"
    "usable (snd (snd (out_set_parameters ops split c junk es kvpairs (out, w))))"
proof -
  have ne: "\<not> params_empty split kvpairs" using assms(3) by (auto simp: params_empty_iff)
  have closed: "op_GetState ops (snd s2) = DISABLED \<and> usable (snd s2)"
    if "op_GetState ops (snd s1) = DISABLED" "usable (snd s1)"
      "s2 = (if b then out_stop_port ops e s1 else s1)" for s1 s2 b e
    using that out_stop_port_spec [of s1 e] by auto
  define s1 where "s1 = out_a2dp_suspended ops (es 0) True
    (if ParseAudioParams split kvpairs (AUDIO_PARAMETER_STREAM_SUP_SAMPLING_RATES c) \<noteq> None
        \<or> ParseAudioParams split kvpairs (AUDIO_PARAMETER_STREAM_SUP_CHANNELS c) \<noteq> None
        \<or> ParseAudioParams split kvpairs (AUDIO_PARAMETER_STREAM_SUP_FORMATS c) \<noteq> None
     then (let (ok, audio_cfg) = op_LoadAudioConfig ops junk w
       in if ok then out\<lparr>so_sample_rate := ac_sample_rate audio_cfg,
            so_channel_mask := ac_channel_mask audio_cfg, so_format := ac_format audio_cfg\<rparr>
          else out)
     else out, w)"
  define s2 where "s2 = (if ParseAudioParams split kvpairs (AUDIO_PARAMETER_KEY_CLOSING c) = Some ''true''
    then out_stop_port ops (es 1) s1 else s1)"
  define s3 where "s3 = (if ParseAudioParams split kvpairs (AUDIO_PARAMETER_KEY_EXITING c) = Some ''1''
    then out_stop_port ops (es 2) s2 else s2)"
  have "snd (out_set_parameters ops split c junk es kvpairs (out, w)) = s3"
    using ne assms(2,3) by (simp add: out_set_parameters_def s1_def s2_def s3_def Let_def)
  moreover have "op_GetState ops (snd s1) = DISABLED" "usable (snd s1)"
    using out_a2dp_suspended_spec assms(1) by (simp_all add: s1_def)
  ultimately show "op_GetState ops (snd (snd (out_set_parameters ops split c junk es kvpairs (out, w)))) = DISABLED"
    "usable (snd (snd (out_set_parameters ops split c junk es kvpairs (out, w))))"
    using closed [of s2 s3] closed [of s1 s2] s2_def s3_def by metis+
qed

text \<open>A write to a disabled stream drops the data.\<close>

lemma out_write_disabled:
  assumes "op_GetState ops w = DISABLED"
  shows "out_write ops fsz junk clock es buffer bytes (out, w) =
    Some (\<lparr>wr_ret = bytes, wr_sent = [], wr_sleep_us = uint (so_preferred_data_interval_us out)\<rparr>, out, w)"
  using assms by (simp add: out_write_def out_resume_def)

lemma out_write_spec:
  assumes "out_write ops fsz junk clock es buffer bytes (out, w) = Some (r, out', w')"
    and "op_GetState ops w \<noteq> BSS_UNKNOWN"
  shows "wr_ret r \<le> bytes
   \<and> ((out' = out \<and> wr_sent r = [] \<and> wr_ret r = (if op_GetState ops w' = DISABLED then bytes else 0))
      \<or> (op_GetState ops w' = STARTED
         \<and> op_WriteData ops (es 1) buffer (unat bytes) w' = Some (unat (wr_ret r), wr_sent r)
         \<and> so_frames_presented out' = so_frames_presented out +
             (if wr_ret r = 0 then 0 else bytes div out_frame_size ops fsz junk out w')))"
proof -
  obtain c out1 w1 where res: "(if op_GetState ops w \<noteq> STARTED then out_resume ops (es 0) (out, w)
      else (0, out, w)) = (c, out1, w1)" by (rule prod_cases3)
  have out1: "out1 = out" and st: "c = 0 \<Longrightarrow> op_GetState ops w1 = STARTED"
    using res out_resume_spec [of "es 0" out w c out1 w1] assms(2) by (auto split: if_splits)
  show ?thesis
  proof (cases "c = 0")
    case False
    then show ?thesis using assms(1) res out1 by (auto simp: out_write_def)
  next
    case True
    then obtain n sent where wd: "op_WriteData ops (es 1) buffer (unat bytes) w1 = Some (n, sent)"
      using assms(1) res by (auto simp: out_write_def split: option.splits)
    have n: "n \<le> unat bytes" by (rule write_bound [OF wd])
    then have b: "unat (word_of_nat n :: u64) = n"
    proof -
      have "unat bytes < 2 ^ LENGTH(64)" by (rule unsigned_less)
      with n show ?thesis by (simp add: unsigned_of_nat take_bit_nat_eq_self)
    qed
    have w': "w' = w1" and r: "wr_ret r = word_of_nat n" "wr_sent r = sent"
      and f: "so_frames_presented out' = so_frames_presented out +
             (if wr_ret r = 0 then 0 else bytes div out_frame_size ops fsz junk out w1)"
      using assms(1) True res wd out1
      by (auto simp: out_write_def Let_def udiv_def split: option.splits if_splits)
    with wd n b st True show ?thesis by (auto simp: word_le_nat_alt)
  qed
qed

end

section \<open>Properties of streams on the AIDL port\<close>

lemma aidl_out_ops_simps [simp]:
  "op_GetState (aidl_out_ops ctx downmix) = GetState"
  "op_SetState (aidl_out_ops ctx downmix) = SetState"
  "op_IsA2dp (aidl_out_ops ctx downmix) = IsA2dp"
  "op_WriteData (aidl_out_ops ctx downmix) = WriteData ctx downmix"
  "op_LoadAudioConfig (aidl_out_ops ctx downmix) = Out_LoadAudioConfig ctx"
  "op_GetPresentationPosition (aidl_out_ops ctx downmix) = Port_GetPresentationPosition ctx"
  "op_SetUp (aidl_out_ops ctx downmix) = SetUp ctx"
  "op_TearDown (aidl_out_ops ctx downmix) = TearDown ctx"
  "op_GetPreferredDataIntervalUs (aidl_out_ops ctx downmix) = GetPreferredDataIntervalUs ctx"
  "op_ForcePcmStereoToMono (aidl_out_ops ctx downmix) = ForcePcmStereoToMono"
  by (simp_all add: aidl_out_ops_def aidl_ops_def)

text \<open>
  C16: A write that is defined returns at most the bytes given. Either it could not resume the
  port, then the stream is unchanged, nothing is sent, and all bytes count as written exactly
  when the port is disabled; or the port is started and the value returned is what the port
  wrote, and the stream's position moves by the frames of all the bytes given, however few of
  them were written.
\<close>

theorem out_write_outcome:
  assumes "out_write (aidl_out_ops ctx downmix) fsz junk clock es buffer bytes (out, w) = Some (r, out', w')"
    and "GetState w \<noteq> BSS_UNKNOWN"
  shows "wr_ret r \<le> bytes
   \<and> ((out' = out \<and> wr_sent r = [] \<and> wr_ret r = (if GetState w' = DISABLED then bytes else 0))
      \<or> (GetState w' = STARTED
         \<and> WriteData ctx downmix (es 1) buffer (unat bytes) w' = Some (unat (wr_ret r), wr_sent r)
         \<and> so_frames_presented out' = so_frames_presented out +
             (if wr_ret r = 0 then 0
              else bytes div out_frame_size (aidl_out_ops ctx downmix) fsz junk out w')))"
  using aidl_port.out_write_spec [of ctx "Out_LoadAudioConfig ctx" downmix, folded aidl_out_ops_def, OF assms(1)]
    assms(2) by simp

text \<open>
  Standby (and pause) of a stream whose port is in use returns 0 only when the port ends
  idle, and then or after an I/O error the rendered frames restart from zero; it is busy
  exactly in the transient states, and leaves a port that was not started as it was.
\<close>

theorem out_standby_outcome:
  assumes "out_standby (aidl_out_ops ctx downmix) e (out, w) = (r, out', w')" "in_use ctx (w_port w)"
  shows "(r = 0 \<longrightarrow> GetState w' \<in> {STANDBY, DISABLED, BSS_UNKNOWN})
     \<and> (r = - EIO \<longrightarrow> GetState w = STARTED \<and> GetState w' \<in> {SUSPENDING, STANDBY, DISABLED})
     \<and> (r = - EBUSY \<longleftrightarrow> GetState w \<in> {STARTING, SUSPENDING})
     \<and> (GetState w \<noteq> STARTED \<longrightarrow> out' = out \<and> w' = w)
     \<and> out' = out\<lparr>so_frames_rendered := (if GetState w = STARTED then 0 else so_frames_rendered out)\<rparr>
     \<and> r \<in> {0, - EIO, - EBUSY}
     \<and> out_pause (aidl_out_ops ctx downmix) e (out, w) = (r, out', w')"
  using aidl_port.out_standby_spec [of ctx "Out_LoadAudioConfig ctx" downmix, folded aidl_out_ops_def, OF assms(1)]
    assms unfolding out_pause_standby by auto

text \<open>
  After the parameter A2dpSuspended=true, whatever state the A2DP port was in and
  whatever else the parameters say, the port is disabled; from then on every write is
  swallowed whole: it returns all its bytes, sends none and changes nothing.
\<close>

theorem suspended_stream_drops_writes:
  assumes "in_use ctx (w_port w)" "IsA2dp w"
    and "ParseAudioParams split kvpairs ''A2dpSuspended'' = Some ''true''"
    and "out_set_parameters (aidl_out_ops ctx downmix) split c junk es kvpairs (out, w) = (r, s)"
  shows "GetState (snd s) = DISABLED
     \<and> (\<forall>fsz clock es2 buffer bytes.
          \<exists>sleep_us. out_write (aidl_out_ops ctx downmix) fsz junk clock es2 buffer bytes s
            = Some (\<lparr>wr_ret = bytes, wr_sent = [], wr_sleep_us = sleep_us\<rparr>, s))"
proof -
  note sup = aidl_port.out_set_parameters_suspend [where ctx = ctx and downmix = downmix
      and load = "Out_LoadAudioConfig ctx", folded aidl_out_ops_def, simplified, OF assms(1-3)]
  have d: "GetState (snd s) = DISABLED" using sup(1) [of c junk es out] assms(4) by simp
  with aidl_port.out_write_disabled [where ctx = ctx and downmix = downmix
      and load = "Out_LoadAudioConfig ctx", folded aidl_out_ops_def, simplified]
  show ?thesis by (metis prod.collapse)
qed

lemma Port_GetPresentationPosition_false: "fst (Port_GetPresentationPosition ctx e w) = False"
  by (simp add: Port_GetPresentationPosition_def control_defs on_session_result Let_def
      GetPresentationPosition_def case_prod_beta split: option.split)

lemma presented_frames_le: "presented_frames p f l \<le> p"
proof -
  define g where "g = (if p < f then p else if p - f > l then p else f)"
  have "g \<le> p" by (auto simp: g_def)
  moreover have "presented_frames p f l = (if g > l then g - l else 0)"
    by (simp add: presented_frames_def g_def Let_def)
  moreover have "g > l \<Longrightarrow> g - l \<le> g"
    by (simp add: word_sub_le order.strict_implies_order)
  ultimately show ?thesis using order.trans [of "g - l" g p] by auto
qed

text \<open>
  The delay of a stream on an AIDL port never follows what the remote device reports: it
  is the play time of one buffer plus 200 ms, and undefined exactly when the sample rate is
  zero. The presented frames never exceed the frames written, whatever the counters of the
  stack say.
\<close>

theorem out_latency_position:
  shows "out_get_latency_ms (aidl_out_ops ctx downmix) fsz junk clock e out w =
      (if so_sample_rate out = 0 then None
       else Some (ucast (so_frames_count out * 1000 div ucast (so_sample_rate out) + 200)))
    \<and> (case out_get_presentation_position (aidl_out_ops ctx downmix) fsz junk clock e out w of
         None \<Rightarrow> so_sample_rate out = 0
           \<or> out_frame_size (aidl_out_ops ctx downmix) fsz junk out w = 0
       | Some (frames, timestamp) \<Rightarrow> frames \<le> so_frames_presented out \<and> timestamp = clock)"
proof -
  obtain pos where pos: "Port_GetPresentationPosition ctx e w = (False, pos)"
    using Port_GetPresentationPosition_false [of ctx e w] by (metis prod.collapse)
  have z: "(ucast r :: u64) = 0 \<longleftrightarrow> r = 0" for r :: u32
  proof -
    have "unat r < 2 ^ LENGTH(32)" by (rule unsigned_less)
    then have "unat (ucast r :: u64) = unat r" by (simp add: unsigned_ucast_eq take_bit_nat_eq_self)
    then show ?thesis by (metis unsigned_0 word_unat_eq_iff)
  qed
  show ?thesis
    by (simp add: out_get_latency_ms_def out_get_presentation_position_def
        out_calculate_feeding_delay_ms_def pos Let_def udiv_def z kExtraAudioSyncMs_def
        presented_frames_le)
qed

text \<open>The interval of a stream: what the session prefers, or 10 ms; at least 10 ms for a spatializer.\<close>

definition stream_interval :: "hal_consts \<Rightarrow> u32 \<Rightarrow> int \<Rightarrow> u64" where
  "stream_interval c flags us =
     (let interval = (if word_of_int us = (0 :: u64) then 10000 else word_of_int us)
      in if (flags = (AUDIO_OUTPUT_FLAG_FAST c OR AUDIO_OUTPUT_FLAG_DEEP_BUFFER c)
            \<or> flags = AUDIO_OUTPUT_FLAG_SPATIALIZER c) \<and> interval < 10000 then 10000 else interval)"

lemma SetUp_state: "fst (SetUp ctx device w) \<Longrightarrow> in_use ctx (w_port (snd (SetUp ctx device w)))
    \<and> GetState (snd (SetUp ctx device w)) = STANDBY
    \<and> port_is_stereo_to_mono (w_port (snd (SetUp ctx device w))) = port_is_stereo_to_mono (w_port w)"
  by (cases device; auto simp: SetUp_cases init_session_type_def Let_def case_prod_beta in_use_def GetState_def
      split: if_splits)

lemma ForcePcm_simps [simp]:
  "hal_audio_config (ForcePcmStereoToMono b w) = hal_audio_config w"
  "in_use ctx (w_port (ForcePcmStereoToMono b w)) = in_use ctx (w_port w)"
  "GetState (ForcePcmStereoToMono b w) = GetState w"
  "port_is_stereo_to_mono (w_port (ForcePcmStereoToMono b w)) = b"
  "port_session_type (w_port (ForcePcmStereoToMono b w)) = port_session_type (w_port w)"
  by (simp_all add: ForcePcmStereoToMono_def hal_audio_config_def in_use_def GetState_def)

lemma adev_open_up:
  assumes "SetUp ctx device w = (True, v)" "GetState v = STANDBY"
  obtains out config' u where
    "adev_open_output_stream (aidl_out_ops ctx downmix) c is_aidl address device flags config dev w
      = (0, Some out, config', dev\<lparr>opened_stream_outs := opened_stream_outs dev @ [address]\<rparr>, u)"
    "so_frames_presented out = 0"
    "so_frames_count out = FrameCount (so_preferred_data_interval_us out) (so_sample_rate out)"
    "GetState u = STANDBY"
  using assms by (simp add: adev_open_output_stream_def Let_def case_prod_beta)

lemma adev_open_interval:
  assumes "in_use ctx (w_port u)" "hal_audio_config u = pcmConfig p"
  shows "(let interval =
      (case GetPreferredDataIntervalUs ctx u of
         Some us \<Rightarrow> if us \<noteq> 0 then us else kBluetoothDefaultOutputBufferMs * 1000
       | None \<Rightarrow> kBluetoothDefaultOutputBufferMs * 1000)
    in if (flags = (AUDIO_OUTPUT_FLAG_FAST c OR AUDIO_OUTPUT_FLAG_DEEP_BUFFER c)
           \<or> flags = AUDIO_OUTPUT_FLAG_SPATIALIZER c) \<and> interval < kBluetoothSpatializerOutputBufferMs * 1000
       then kBluetoothSpatializerOutputBufferMs * 1000 else interval) = stream_interval c flags (dataIntervalUs p)"
  using assms by (simp add: GetPreferredDataIntervalUs_def stream_interval_def
      kBluetoothDefaultOutputBufferMs_def kBluetoothSpatializerOutputBufferMs_def Let_def)

text \<open>The stream that is opened on a PCM session.\<close>

lemma adev_open_pcm:
  assumes "SetUp ctx device w = (True, v)"
    and v: "in_use ctx (w_port v)" "GetState v = STANDBY" "\<not> port_is_stereo_to_mono (w_port v)"
    and "adev_open_output_stream (aidl_out_ops ctx downmix) c is_aidl address device flags config dev w
      = (0, Some out, config', dev', u)"
    and "hal_audio_config u = pcmConfig p" "pcm_channelMode p \<noteq> CM_UNKNOWN"
  shows "(let fmt = BitsPerSampleToAudioFormat (bitsPerSample p) (port_session_type (w_port u));
              mix = (pcm_channelMode p = CM_MONO \<and> fmt = AUDIO_FORMAT_PCM_16_BIT)
    in so_sample_rate out = word_of_int (sampleRateHz p) \<and> so_format out = fmt
     \<and> so_channel_mask out = (if mix then AUDIO_CHANNEL_OUT_STEREO
          else OutputChannelModeToAudioFormat (pcm_channelMode p))
     \<and> port_is_stereo_to_mono (w_port u) = mix
     \<and> so_preferred_data_interval_us out = stream_interval c flags (dataIntervalUs p))"
proof -
  have mask: "OutputChannelModeToAudioFormat m = AUDIO_CHANNEL_OUT_MONO \<longleftrightarrow> m = CM_MONO" for m
    by (cases m) (simp_all add: kBluetoothDefaultOutputChannelModeMask_def)
  define fmt where "fmt = BitsPerSampleToAudioFormat (bitsPerSample p) (port_session_type (w_port v))"
  define mix where "mix = (pcm_channelMode p = CM_MONO \<and> fmt = AUDIO_FORMAT_PCM_16_BIT)"
  have "u = v \<or> u = ForcePcmStereoToMono True v"
    using assms(1,5) by (auto simp: adev_open_output_stream_def Let_def case_prod_beta split: if_splits)
  then have hal: "hal_audio_config v = pcmConfig p" using assms(6) by auto
  have load: "Out_LoadAudioConfig ctx config v = (True, \<lparr>ac_sample_rate = word_of_int (sampleRateHz p),
      ac_channel_mask = OutputChannelModeToAudioFormat (pcm_channelMode p), ac_format = fmt\<rparr>)"
    using v hal assms(7) by (simp add: Out_LoadAudioConfig_def fmt_def)
  have "so_sample_rate out = word_of_int (sampleRateHz p) \<and> so_format out = fmt
     \<and> so_channel_mask out = (if mix then AUDIO_CHANNEL_OUT_STEREO
          else OutputChannelModeToAudioFormat (pcm_channelMode p))
     \<and> u = (if mix then ForcePcmStereoToMono True v else v)
     \<and> so_preferred_data_interval_us out = stream_interval c flags (dataIntervalUs p)"
    using assms(1,5) adev_open_interval [of ctx v p flags c, OF v(1) hal]
      adev_open_interval [of ctx "ForcePcmStereoToMono True v" p flags c] v(1) hal
    by (cases mix) (auto simp: adev_open_output_stream_def load mask mix_def [symmetric] Let_def)
  then show ?thesis using v(3) by (simp add: Let_def fmt_def mix_def)
qed

text \<open>
  C18: Opening an output stream succeeds exactly when its port can be set up, and otherwise
  reports an invalid argument and opens nothing. A stream opened on a PCM session has the
  session's rate and format, its buffer holds one interval of frames, and mono 16-bit audio
  is taken as stereo that the port mixes down. Closing it leaves the port unused and takes
  the stream off the device's list.
\<close>

theorem adev_open_close_output_stream:
  assumes "adev_open_output_stream (aidl_out_ops ctx downmix) c is_aidl address device flags config dev w
      = (r, opened, config', dev', w')"
    and "\<not> port_is_stereo_to_mono (w_port w)"
  shows "(if fst (SetUp ctx device w) then
       (case opened of None \<Rightarrow> False | Some out \<Rightarrow>
          r = 0 \<and> GetState w' = STANDBY \<and> so_frames_presented out = 0
        \<and> so_frames_count out = FrameCount (so_preferred_data_interval_us out) (so_sample_rate out)
        \<and> (case hal_audio_config w' of
             pcmConfig p \<Rightarrow>
               (let fmt = BitsPerSampleToAudioFormat (bitsPerSample p) (port_session_type (w_port w'));
                    mix = (pcm_channelMode p = CM_MONO \<and> fmt = AUDIO_FORMAT_PCM_16_BIT) in
                pcm_channelMode p = CM_UNKNOWN
              \<or> so_sample_rate out = word_of_int (sampleRateHz p) \<and> so_format out = fmt
                \<and> so_channel_mask out = (if mix then AUDIO_CHANNEL_OUT_STEREO
                     else OutputChannelModeToAudioFormat (pcm_channelMode p))
                \<and> port_is_stereo_to_mono (w_port w') = mix
                \<and> so_preferred_data_interval_us out = stream_interval c flags (dataIntervalUs p))
           | _ \<Rightarrow> True)
        \<and> (case adev_close_output_stream (aidl_out_ops ctx downmix) e address dev' (out, w') of
             (dev'', w'') \<Rightarrow> \<not> in_use ctx (w_port w'')
               \<and> opened_stream_outs dev'' = filter (\<lambda>a. a \<noteq> address) (opened_stream_outs dev)))
     else r = - EINVAL \<and> opened = None \<and> config' = config \<and> dev' = dev)"
proof (cases "fst (SetUp ctx device w)")
  case False
  with assms(1) show ?thesis by (simp add: adev_open_output_stream_def case_prod_beta)
next
  case True
  define v where "v = snd (SetUp ctx device w)"
  have up: "SetUp ctx device w = (True, v)" using True by (simp add: v_def prod_eq_iff)
  have v: "in_use ctx (w_port v)" "GetState v = STANDBY" "\<not> port_is_stereo_to_mono (w_port v)"
    using SetUp_state [OF True] assms(2) by (simp_all add: v_def)
  have closed: "\<not> in_use ctx (w_port (TearDown ctx u))" for u
    by (simp add: TearDown_def Let_def in_use_def)
  obtain out config2 u where o: "adev_open_output_stream (aidl_out_ops ctx downmix) c is_aidl address device flags config dev w
      = (0, Some out, config2, dev\<lparr>opened_stream_outs := opened_stream_outs dev @ [address]\<rparr>, u)"
    "so_frames_presented out = 0"
    "so_frames_count out = FrameCount (so_preferred_data_interval_us out) (so_sample_rate out)"
    and u: "GetState u = STANDBY"
    by (rule adev_open_up [OF up v(2)])
  have r: "r = 0" "opened = Some out" "w' = u"
    "dev' = dev\<lparr>opened_stream_outs := opened_stream_outs dev @ [address]\<rparr>"
    using assms(1) o(1) by simp_all
  have close: "case adev_close_output_stream (aidl_out_ops ctx downmix) e address dev' (out, w') of
             (dev'', w'') \<Rightarrow> \<not> in_use ctx (w_port w'')
               \<and> opened_stream_outs dev'' = filter (\<lambda>a. a \<noteq> address) (opened_stream_outs dev)"
    by (simp add: adev_close_output_stream_def closed case_prod_beta Let_def r)
  show ?thesis
  proof (cases "\<exists>p. hal_audio_config w' = pcmConfig p \<and> pcm_channelMode p \<noteq> CM_UNKNOWN")
    case False
    then show ?thesis using close True r o u by (auto split: AudioConfiguration.split)
  next
    case pcm: True
    then obtain p where p: "hal_audio_config w' = pcmConfig p" "pcm_channelMode p \<noteq> CM_UNKNOWN" by blast
    show ?thesis using close True r o u p adev_open_pcm [OF up v o(1)] by (simp add: Let_def)
  qed
qed

section \<open>Examples\<close>

definition example_consts :: hal_consts where
  "example_consts =
     \<lparr>AUDIO_PARAMETER_STREAM_SUP_SAMPLING_RATES = ''sup_sampling_rates'',
      AUDIO_PARAMETER_STREAM_SUP_CHANNELS = ''sup_channels'',
      AUDIO_PARAMETER_STREAM_SUP_FORMATS = ''sup_formats'',
      AUDIO_PARAMETER_KEY_CLOSING = ''closing'', AUDIO_PARAMETER_KEY_EXITING = ''exiting'',
      AUDIO_OUTPUT_FLAG_FAST = 4, AUDIO_OUTPUT_FLAG_DEEP_BUFFER = 8, AUDIO_OUTPUT_FLAG_SPATIALIZER = 16\<rparr>"

definition example_mono_ready :: world where
  "example_mono_ready =
     \<lparr>w_sessions = snd (Report_OnSessionStarted A2DP_SOFTWARE_ENCODING_DATAPATH (Some 7)
        (Some \<lparr>mq_descriptor = 0, mq_isValid = True\<rparr>)
        (pcmConfig \<lparr>sampleRateHz = 44100, pcm_channelMode = CM_MONO, bitsPerSample = 16, dataIntervalUs = 0\<rparr>) []
        (\<lambda>t. None)),
      w_port = BluetoothAudioPortAidl example_ctx\<rparr>"

definition example_ops :: "(world, port_env) port_ops" where
  "example_ops = aidl_out_ops example_ctx (\<lambda>buffer n. take (2 * n) buffer)"

definition example_junk :: audio_config where
  "example_junk = \<lparr>ac_sample_rate = 0, ac_channel_mask = OtherChannelMask 0, ac_format = OtherFormat 0\<rparr>"

definition example_frame_size :: frame_size where
  "example_frame_size ch fmt = 4"

definition example_open ::
  "int \<times> BluetoothStreamOut option \<times> audio_config \<times> BluetoothAudioDevice \<times> world" where
  "example_open = adev_open_output_stream example_ops example_consts True 1
     AUDIO_DEVICE_OUT_BLUETOOTH_A2DP 0 example_junk \<lparr>opened_stream_outs = [], next_unique_id = 1\<rparr> example_mono_ready"

definition example_out :: BluetoothStreamOut where "example_out = the (fst (snd example_open))"
definition example_out_world :: world where "example_out_world = snd (snd (snd (snd example_open)))"

theorem adev_open_close_output_stream_witness:
  "so_sample_rate example_out = 44100 \<and> so_channel_mask example_out = AUDIO_CHANNEL_OUT_STEREO
     \<and> port_is_stereo_to_mono (w_port example_out_world)"
proof -
  have o: "fst (SetUp example_ctx AUDIO_DEVICE_OUT_BLUETOOTH_A2DP example_mono_ready)"
    "port_session_type (w_port example_out_world) = A2DP_SOFTWARE_ENCODING_DATAPATH"
    "hal_audio_config example_out_world =
      pcmConfig \<lparr>sampleRateHz = 44100, pcm_channelMode = CM_MONO, bitsPerSample = 16, dataIntervalUs = 0\<rparr>"
    "\<not> port_is_stereo_to_mono (w_port example_mono_ready)"
    by code_simp+
  obtain r opened config' dev' where eq: "example_open = (r, opened, config', dev', example_out_world)"
    by (metis example_out_world_def prod.collapse)
  note open_facts = adev_open_close_output_stream
    [OF eq [unfolded example_open_def example_ops_def] o(4), of "example_answer SUCCESS"]
  show ?thesis
  proof (cases opened)
    case None
    with open_facts o(1) show ?thesis by simp
  next
    case (Some out)
    then have "example_out = out" by (simp add: example_out_def eq)
    with Some open_facts o(1-3) show ?thesis
      by (simp add: Let_def BitsPerSampleToAudioFormat_def)
  qed
qed

text \<open>The stream of the examples, started, with a queue that takes four bytes in two rounds.\<close>

definition example_write ::
  "(write_result \<times> BluetoothStreamOut \<times> world) option" where
  "example_write = out_write example_ops example_frame_size example_junk \<lparr>tv_sec = 1, tv_nsec = 0\<rparr>
     (\<lambda>i. example_answer SUCCESS) [1, 2, 3, 4, 5, 6, 7, 8] 8 (example_out, example_out_world)"

theorem out_write_outcome_witness:
  "\<exists>r out' w'. example_write = Some (r, out', w') \<and> wr_ret r \<le> 8 \<and> wr_ret r \<noteq> 0 \<and> GetState w' = STARTED"
proof -
  have 1: "map_option (\<lambda>x. GetState (snd (snd x))) example_write = Some STARTED"
    "map_option (\<lambda>x. wr_ret (fst x)) example_write = Some 8" "GetState example_out_world = STANDBY"
    by code_simp+
  then have st: "GetState example_out_world \<noteq> BSS_UNKNOWN" by simp
  obtain x where "example_write = Some x" using 1 by (cases example_write) auto
  then obtain r out' w' where eq: "example_write = Some (r, out', w')" by (cases x) auto
  have "GetState w' = STARTED" using 1(1) unfolding eq by simp
  moreover have "wr_ret r \<noteq> 0" using 1(2) unfolding eq by simp
  moreover have "wr_ret r \<le> 8"
    using out_write_outcome [OF eq [unfolded example_write_def example_ops_def] st] by simp
  ultimately show ?thesis using eq by blast
qed

theorem out_standby_outcome_witness:
  "fst (out_standby example_ops (example_answer SUCCESS) (example_out, SetState STARTED example_out_world)) = 0
   \<and> fst (out_standby example_ops (example_answer SUCCESS) (example_out, SetState STARTING example_out_world)) = - EBUSY"
proof -
  have use: "in_use example_ctx (w_port (SetState s example_out_world))" for s
  proof -
    have "in_use example_ctx (w_port example_out_world)" by code_simp
    then show ?thesis by (simp add: in_use_def)
  qed
  obtain r out' w' where 1: "out_standby example_ops (example_answer SUCCESS)
    (example_out, SetState STARTED example_out_world) = (r, out', w')" by (rule prod_cases3)
  obtain r2 out2 w2 where 2: "out_standby example_ops (example_answer SUCCESS)
    (example_out, SetState STARTING example_out_world) = (r2, out2, w2)" by (rule prod_cases3)
  have "fst (out_standby example_ops (example_answer SUCCESS)
    (example_out, SetState STARTED example_out_world)) = 0" by code_simp
  moreover have "r2 = - EBUSY"
    using out_standby_outcome [OF 2 [unfolded example_ops_def] use] by simp
  ultimately show ?thesis
    using out_standby_outcome [OF 1 [unfolded example_ops_def] use] 1 2 by simp
qed

theorem suspended_stream_drops_writes_witness:
  "\<exists>sleep_us s. out_write example_ops example_frame_size example_junk \<lparr>tv_sec = 1, tv_nsec = 0\<rparr>
      (\<lambda>i. example_answer SUCCESS) [1, 2, 3] 3
      (snd (out_set_parameters example_ops split_on example_consts example_junk (\<lambda>i. example_answer SUCCESS)
        ''A2dpSuspended=true'' (example_out, example_out_world)))
    = Some (\<lparr>wr_ret = 3, wr_sent = [], wr_sleep_us = sleep_us\<rparr>, s)"
proof -
  have "in_use example_ctx (w_port example_out_world)" "IsA2dp example_out_world"
    "ParseAudioParams split_on ''A2dpSuspended=true'' ''A2dpSuspended'' = Some ''true''"
    by code_simp+
  from suspended_stream_drops_writes [OF this prod.collapse [symmetric]]
  show ?thesis unfolding example_ops_def by blast
qed

end
