(* ===== verification/Stream_In.thy ===== *)
theory Stream_In
  imports Stream_Out_Facts
begin

text \<open>
  The input streams of the audio HAL (\<open>hw/stream_apis.cc\<close>), in the style of the output
  streams. An input stream waits for transient states of its port in rounds of one
  millisecond; \<open>sleep\<close> is the world after such a round.
\<close>

record BluetoothStreamIn =
  si_is_aidl :: bool
  si_last_read_time_us :: int
  si_sample_rate :: u32
  si_channel_mask :: audio_channel_mask
  si_format :: audio_format
  si_preferred_data_interval_us :: u64
  si_frames_count :: u64
  si_frames_presented :: u64

section \<open>Configuration\<close>

definition adev_get_input_buffer_size :: u64 where "adev_get_input_buffer_size = 320"

definition in_get_sample_rate :: "BluetoothStreamIn \<Rightarrow> u32" where
  "in_get_sample_rate s_in = si_sample_rate s_in"

definition in_set_sample_rate :: "u32 \<Rightarrow> BluetoothStreamIn \<Rightarrow> int" where
  "in_set_sample_rate rate s_in = (if rate = si_sample_rate s_in then 0 else - ENOSYS)"

definition in_get_channels ::
  "('w, 'e) port_ops \<Rightarrow> audio_config \<Rightarrow> BluetoothStreamIn \<Rightarrow> 'w \<Rightarrow> audio_channel_mask" where
  "in_get_channels ops junk s_in w =
     (let (ok, audio_cfg) = op_LoadAudioConfig ops junk w
      in if ok then ac_channel_mask audio_cfg else si_channel_mask s_in)"

definition in_get_format ::
  "('w, 'e) port_ops \<Rightarrow> audio_config \<Rightarrow> BluetoothStreamIn \<Rightarrow> 'w \<Rightarrow> audio_format" where
  "in_get_format ops junk s_in w =
     (let (ok, audio_cfg) = op_LoadAudioConfig ops junk w
      in if ok then ac_format audio_cfg else si_format s_in)"

definition in_set_format :: "audio_format \<Rightarrow> BluetoothStreamIn \<Rightarrow> int" where
  "in_set_format format s_in = (if format = si_format s_in then 0 else - ENOSYS)"

definition in_frame_size ::
  "('w, 'e) port_ops \<Rightarrow> frame_size \<Rightarrow> audio_config \<Rightarrow> BluetoothStreamIn \<Rightarrow> 'w \<Rightarrow> u64" where
  "in_frame_size ops fsz junk s_in w =
     fsz (in_get_channels ops junk s_in w) (in_get_format ops junk s_in w)"

definition in_get_buffer_size ::
  "('w, 'e) port_ops \<Rightarrow> frame_size \<Rightarrow> audio_config \<Rightarrow> BluetoothStreamIn \<Rightarrow> 'w \<Rightarrow> u64" where
  "in_get_buffer_size ops fsz junk s_in w = si_frames_count s_in * in_frame_size ops fsz junk s_in w"

section \<open>Position\<close>

text \<open>The frames and the time that the caller's variables receive.\<close>

definition in_calculate_starving_delay_ms ::
  "('w, 'e) port_ops \<Rightarrow> frame_size \<Rightarrow> audio_config \<Rightarrow> 'e \<Rightarrow> BluetoothStreamIn \<Rightarrow> 'w \<Rightarrow> (int \<times> int) option"
where
  "in_calculate_starving_delay_ms ops fsz junk e s_in w =
     (let position = reported_position (snd (op_GetPresentationPosition ops e w));
          delay_report_ms = pos_delay_ns position div 1000000;
          latency_frames = delay_report_ms * ucast (si_sample_rate s_in) div 1000
      in case udiv (pos_bytes position) (in_frame_size ops fsz junk s_in w) of
           None \<Rightarrow> None
         | Some frames \<Rightarrow>
             Some (sint (presented_frames (si_frames_presented s_in) frames latency_frames),
               timespec_us \<lparr>tv_sec = pos_sec position, tv_nsec = pos_nsec position\<rparr>))"

definition in_get_capture_position ::
  "('w, 'e) port_ops \<Rightarrow> frame_size \<Rightarrow> audio_config \<Rightarrow> 'e \<Rightarrow> BluetoothStreamIn \<Rightarrow> 'w
     \<Rightarrow> (int \<times> (int \<times> int) option) option" where
  "in_get_capture_position ops fsz junk e s_in w =
     (if op_GetState ops w = STANDBY then Some (- ENOSYS, None)
      else case in_calculate_starving_delay_ms ops fsz junk e s_in w of
        None \<Rightarrow> None
      | Some position \<Rightarrow> Some (0, Some position))"

section \<open>Waiting for a transient state to pass\<close>

text \<open>
  The counter is a 16-bit unsigned number that is decremented before it is compared, so a
  timeout of 0 would wrap around. \<open>i\<close> counts the rounds.
\<close>

function in_state_transition_timeout ::
  "('w, 'e) port_ops \<Rightarrow> ('e \<Rightarrow> 'w \<Rightarrow> 'w) \<Rightarrow> (nat \<Rightarrow> 'e) \<Rightarrow> BluetoothStreamState \<Rightarrow> u16 \<Rightarrow> nat \<Rightarrow> 'w
     \<Rightarrow> bool \<times> nat \<times> 'w" where
  "in_state_transition_timeout ops sleep es state timeout_ms i w =
     (if op_GetState ops w = state then
        (let w = sleep (es i) w; timeout_ms = timeout_ms - 1 in
         if timeout_ms \<le> 0 then (False, i + 1, w)
         else in_state_transition_timeout ops sleep es state timeout_ms (i + 1) w)
      else (True, i, w))"
  by pat_completeness auto
termination
proof (relation "measure (\<lambda>(ops, sleep, es, state, t, i, w). if t = 0 then 65536 else unat t)")
  fix t x :: u16 and ops :: "('w, 'e) port_ops" and sleep :: "'e \<Rightarrow> 'w \<Rightarrow> 'w" and es state i w v
  assume x: "x = t - 1" and pos: "\<not> x \<le> 0"
  have "(if x = 0 then 65536 else unat x) < (if t = 0 then 65536 else unat t)"
  proof (cases "t = 0")
    case True
    have "unat x < 2 ^ LENGTH(16)" by (rule unsigned_less)
    with True pos show ?thesis by simp
  next
    case False
    then have "unat (t - 1) < unat t" by (simp add: unat_minus_one unat_gt_0)
    with False pos x show ?thesis by simp
  qed
  then show "((ops, sleep, es, state, x, i + 1, v), ops, sleep, es, state, t, i, w)
      \<in> measure (\<lambda>(ops, sleep, es, state, t, i, w). if t = 0 then 65536 else unat t)" by simp
qed simp

declare in_state_transition_timeout.simps [simp del]

section \<open>Standby and reading\<close>

definition in_standby ::
  "('w, 'e) port_ops \<Rightarrow> ('e \<Rightarrow> 'w \<Rightarrow> 'w) \<Rightarrow> (nat \<Rightarrow> 'e) \<Rightarrow> 'e \<Rightarrow> (nat \<Rightarrow> 'e) \<Rightarrow> 'w \<Rightarrow> int \<times> 'w" where
  "in_standby ops sleep es e es2 w =
     (let (ready, _, w) =
            in_state_transition_timeout ops sleep es STARTING kBluetoothDefaultInputStateTimeoutMs 0 w in
      if \<not> ready then (0, w)
      else
        let (retval, w, standby_already) =
          (if op_GetState ops w = STARTED then
             (let (ok, w) = op_Suspend ops e w in (if ok then 0 else - EIO, w, False))
           else if op_GetState ops w \<noteq> SUSPENDING then (0, w, True)
           else (0, w, False)) in
        if standby_already then (retval, w)
        else
          let (ready, _, w) =
            in_state_transition_timeout ops sleep es2 SUSPENDING kBluetoothDefaultInputStateTimeoutMs 0 w
          in if \<not> ready then (0, w) else (retval, w))"

record read_result =
  rr_ret :: int
  rr_buffer :: "u8 list"

definition in_start_to_read :: "('w, 'e) port_ops \<Rightarrow> 'e \<Rightarrow> 'w \<Rightarrow> int \<times> 'w" where
  "in_start_to_read ops e w =
     (if op_GetState ops w \<noteq> STARTED then
        (if op_GetState ops w = STANDBY then
           (let (ok, w) = op_Start ops e w in (if ok then 0 else - EIO, w))
         else if op_GetState ops w = SUSPENDING then (- EBUSY, w)
         else if op_GetState ops w = DISABLED then (- EINVAL, w)
         else (0, w))
      else (0, w))"

definition in_read ::
  "('w, 'e) port_ops \<Rightarrow> ('e \<Rightarrow> 'w \<Rightarrow> 'w) \<Rightarrow> frame_size \<Rightarrow> audio_config \<Rightarrow> timespec \<Rightarrow> (nat \<Rightarrow> 'e) \<Rightarrow> 'e \<Rightarrow> 'e
     \<Rightarrow> u8 list \<Rightarrow> u64 \<Rightarrow> BluetoothStreamIn \<times> 'w \<Rightarrow> (read_result \<times> BluetoothStreamIn \<times> 'w) option" where
  "in_read ops sleep fsz junk clock es e e2 buffer bytes s =
     (let (s_in, w) = s;
          (ready, _, w) =
            in_state_transition_timeout ops sleep es STARTING kBluetoothDefaultInputStateTimeoutMs 0 w in
      if \<not> ready then Some (\<lparr>rr_ret = - EBUSY, rr_buffer = buffer\<rparr>, s_in, w)
      else
        let (retval, w) = in_start_to_read ops e w in
        if retval \<noteq> 0 then Some (\<lparr>rr_ret = retval, rr_buffer = buffer\<rparr>, s_in, w)
        else case op_ReadData ops e2 buffer (unat bytes) w of
          None \<Rightarrow> None
        | Some (n, buffer) \<Rightarrow>
            (let totalRead = word_of_nat n :: u64 in
             case udiv totalRead (in_frame_size ops fsz junk s_in w) of
               None \<Rightarrow> None
             | Some frames \<Rightarrow> Some (\<lparr>rr_ret = sint totalRead, rr_buffer = buffer\<rparr>,
                 s_in\<lparr>si_last_read_time_us := timespec_us clock,
                      si_frames_presented := si_frames_presented s_in + frames\<rparr>, w)))"

section \<open>Parameters and unsupported operations\<close>

text \<open>The parameters are parsed and logged only.\<close>

definition in_set_parameters :: "string \<Rightarrow> int" where
  "in_set_parameters kvpairs = 0"

definition in_get_parameters :: "string \<Rightarrow> string" where
  "in_get_parameters keys = []"

text \<open>The operations that are not handled, with the value they return.\<close>

datatype in_unsupported =
    in_add_audio_effect | in_remove_audio_effect | in_set_gain | in_get_input_frames_lost
  | in_start | in_stop | in_create_mmap_buffer | in_get_mmap_position | in_get_active_microphones
  | in_set_microphone_direction | in_set_microphone_field_dimension

fun in_unsupported_result :: "in_unsupported \<Rightarrow> int" where
  "in_unsupported_result in_add_audio_effect = 0"
| "in_unsupported_result in_remove_audio_effect = 0"
| "in_unsupported_result in_set_gain = 0"
| "in_unsupported_result in_get_input_frames_lost = 0"
| "in_unsupported_result in_start = 0"
| "in_unsupported_result in_stop = 0"
| "in_unsupported_result in_create_mmap_buffer = - ENOSYS"
| "in_unsupported_result in_get_mmap_position = - ENOSYS"
| "in_unsupported_result in_get_active_microphones = - ENOSYS"
| "in_unsupported_result in_set_microphone_direction = - ENOSYS"
| "in_unsupported_result in_set_microphone_field_dimension = - ENOSYS"

definition in_update_sink_metadata_v7 ::
  "(track_v7 list \<Rightarrow> 'w \<Rightarrow> 'c) \<Rightarrow> track_v7 list option \<Rightarrow> BluetoothStreamIn \<times> 'w \<Rightarrow> 'c option" where
  "in_update_sink_metadata_v7 aidl_update sink_metadata s =
     (let (s_in, w) = s in
      case sink_metadata of
        None \<Rightarrow> None
      | Some [] \<Rightarrow> None
      | Some tracks \<Rightarrow> (if \<not> si_is_aidl s_in then None else Some (aidl_update tracks w)))"

section \<open>Opening and closing\<close>

text \<open>
  A stream that is not returned is destroyed with its port; \<open>destroy\<close> is the port's
  destructor.
\<close>

definition adev_open_input_stream ::
  "('w, 'e) port_ops \<Rightarrow> ('w \<Rightarrow> 'w) \<Rightarrow> bool \<Rightarrow> audio_device \<Rightarrow> audio_config \<Rightarrow> 'w
     \<Rightarrow> int \<times> BluetoothStreamIn option \<times> audio_config \<times> 'w" where
  "adev_open_input_stream ops destroy is_aidl devices config w =
     (let (ok, w) = op_SetUp ops devices w in
      if \<not> ok then (- EINVAL, None, config, w)
      else
        let (loaded, config) = op_LoadAudioConfig ops config w in
        if \<not> loaded then (- EINVAL, None, config, destroy w)
        else
          let interval =
            (case op_GetPreferredDataIntervalUs ops w of
               Some us \<Rightarrow> if us \<noteq> 0 then us else kBluetoothDefaultInputBufferMs * 1000
             | None \<Rightarrow> kBluetoothDefaultInputBufferMs * 1000)
          in (0, Some
               \<lparr>si_is_aidl = is_aidl, si_last_read_time_us = 0, si_sample_rate = ac_sample_rate config,
                si_channel_mask = ac_channel_mask config, si_format = ac_format config,
                si_preferred_data_interval_us = interval,
                si_frames_count = FrameCount interval (ac_sample_rate config),
                si_frames_presented = 0\<rparr>, config, w))"

definition adev_close_input_stream :: "('w, 'e) port_ops \<Rightarrow> 'e \<Rightarrow> 'w \<Rightarrow> 'w" where
  "adev_close_input_stream ops e w =
     (let w = (if op_GetState ops w \<noteq> DISABLED then op_Stop ops e w else w) in op_TearDown ops w)"

end
