(* ===== verification/Stream_In_Facts.thy ===== *)
theory Stream_In_Facts
  imports Stream_In
begin

text \<open>
  What the input streams promise: the wait for a transient state is bounded, standby and
  reading end in the states they report, and where standby reports more than it did.
\<close>

section \<open>For every port\<close>

context bluetooth_port
begin

lemma transition_timeout_spec:
  assumes "in_state_transition_timeout ops sleep es state t i w = (ok, n, w')" "t \<noteq> 0"
  shows "(ok \<longrightarrow> op_GetState ops w' \<noteq> state \<and> n < i + unat t) \<and> (\<not> ok \<longrightarrow> n = i + unat t)
     \<and> moves_to (op_GetState ops w) (op_GetState ops w') \<and> usable w' = usable w"
  using assms
proof (induction "unat t" arbitrary: t i w rule: less_induct)
  case less
  show ?case
  proof (cases "op_GetState ops w = state")
    case False
    with less.prems show ?thesis
      by (subst (asm) in_state_transition_timeout.simps) (auto simp: unat_gt_0)
  next
    case True
    define v where "v = sleep (es i) w"
    have v: "moves_to (op_GetState ops w) (op_GetState ops v)" "usable v = usable w"
      by (simp_all add: v_def sleep_moves sleep_usable)
    have t: "unat (t - 1) = unat t - 1" "0 < unat t"
      using less.prems(2) by (simp_all add: unat_minus_one unat_gt_0)
    show ?thesis
    proof (cases "t - 1 = 0")
      case last: True
      then have "unat t = 1" by simp
      with last True less.prems(1) v show ?thesis
        by (subst (asm) in_state_transition_timeout.simps) (auto simp: v_def Let_def)
    next
      case False
      have step: "in_state_transition_timeout ops sleep es state (t - 1) (i + 1) v = (ok, n, w')"
        using True less.prems(1) False
        by (subst (asm) in_state_transition_timeout.simps) (auto simp: v_def Let_def)
      have "unat (t - 1) < unat t" using t by simp
      from less.hyps [OF this step False] t v show ?thesis
        by (auto intro: moves_to_trans)
    qed
  qed
qed

lemma transition_timeout_20:
  assumes "in_state_transition_timeout ops sleep es state kBluetoothDefaultInputStateTimeoutMs 0 w = (ok, n, w')"
  shows "(ok \<longrightarrow> op_GetState ops w' \<noteq> state) \<and> n \<le> 20
     \<and> moves_to (op_GetState ops w) (op_GetState ops w') \<and> usable w' = usable w"
  using transition_timeout_spec [OF assms] by (auto simp: kBluetoothDefaultInputStateTimeoutMs_def)

text \<open>A port that hears nothing for the whole time keeps its state and fails the wait.\<close>

lemma transition_timeout_stuck:
  assumes "op_GetState ops w = state" "\<And>i v. op_GetState ops (sleep (es i) v) = op_GetState ops v" "t \<noteq> 0"
  shows "fst (in_state_transition_timeout ops sleep es state t i w) = False
     \<and> op_GetState ops (snd (snd (in_state_transition_timeout ops sleep es state t i w))) = state"
  using assms(1,3)
proof (induction "unat t" arbitrary: t i w rule: less_induct)
  case less
  have t: "unat (t - 1) < unat t" using less.prems(2) by (simp add: unat_minus_one unat_gt_0)
  show ?case
    using less.hyps [OF t, of "sleep (es i) w" "Suc i"] less.prems(1) assms(2)
    by (subst (1 2) in_state_transition_timeout.simps) (auto simp: Let_def)
qed

lemma in_standby_spec:
  assumes "in_standby ops sleep es e es2 w = (r, w')" "usable w"
  shows "case in_state_transition_timeout ops sleep es STARTING kBluetoothDefaultInputStateTimeoutMs 0 w of
      (ok, n, w1) \<Rightarrow> n \<le> 20 \<and>
        (if ok then r \<in> {0, - EIO} \<and> op_GetState ops w' \<in> {SUSPENDING, STANDBY, DISABLED, BSS_UNKNOWN}
           \<and> (op_GetState ops w' = SUSPENDING \<longrightarrow> r = 0)
         else r = 0 \<and> w' = w1)"
proof -
  obtain ok n w1 where 1: "in_state_transition_timeout ops sleep es STARTING
      kBluetoothDefaultInputStateTimeoutMs 0 w = (ok, n, w1)" by (rule prod_cases3)
  note first = transition_timeout_20 [OF 1]
  show ?thesis
  proof (cases "ok \<and> op_GetState ops w1 \<in> {STARTED, SUSPENDING}")
    case False
    then show ?thesis
      using assms(1) first by (cases "op_GetState ops w1") (auto simp: in_standby_def 1 Let_def)
  next
    case True
    define v where "v = (if op_GetState ops w1 = STARTED then snd (op_Suspend ops e w1) else w1)"
    obtain ok2 n2 w2 where 2: "in_state_transition_timeout ops sleep es2 SUSPENDING
        kBluetoothDefaultInputStateTimeoutMs 0 v = (ok2, n2, w2)" by (rule prod_cases3)
    have u1: "usable w1" using first assms(2) by simp
    have "moves_to SUSPENDING (op_GetState ops v)"
      using True u1 suspend_moves [of w1 e] by (auto simp: v_def)
    then have "moves_to SUSPENDING (op_GetState ops w2)"
      using transition_timeout_20 [OF 2] moves_to_trans by blast
    moreover have "w' = w2" "\<not> ok2 \<longrightarrow> r = 0" "r \<in> {0, - EIO}"
      using assms(1) True 2 by (auto simp: in_standby_def 1 v_def Let_def case_prod_beta split: if_splits)
    ultimately show ?thesis
      using True first transition_timeout_20 [OF 2] by (auto simp: 1)
  qed
qed

lemma in_read_spec:
  assumes "in_read ops sleep fsz junk clock es e e2 buffer bytes (s_in, w) = Some (r, s_in', w')"
    and "op_GetState ops w \<noteq> BSS_UNKNOWN" "unat bytes < 2 ^ 63"
  shows "(rr_ret r < 0 \<longrightarrow> rr_ret r \<in> {- EBUSY, - EIO, - EINVAL} \<and> rr_buffer r = buffer \<and> s_in' = s_in)
     \<and> (0 \<le> rr_ret r \<longrightarrow> op_GetState ops w' = STARTED \<and> nat (rr_ret r) \<le> unat bytes
          \<and> op_ReadData ops e2 buffer (unat bytes) w' = Some (nat (rr_ret r), rr_buffer r)
          \<and> si_frames_presented s_in' = si_frames_presented s_in
              + word_of_int (rr_ret r) div in_frame_size ops fsz junk s_in w')"
proof -
  obtain ok n w1 where 1: "in_state_transition_timeout ops sleep es STARTING
      kBluetoothDefaultInputStateTimeoutMs 0 w = (ok, n, w1)" by (rule prod_cases3)
  note first = transition_timeout_20 [OF 1]
  have known: "op_GetState ops w1 \<noteq> BSS_UNKNOWN"
    using first assms(2) by (cases "op_GetState ops w") auto
  obtain c v where rw: "in_start_to_read ops e w1 = (c, v)" by (rule prod.exhaust)
  have c: "c = 0 \<Longrightarrow> ok \<Longrightarrow> op_GetState ops v = STARTED" "c \<in> {0, - EBUSY, - EIO, - EINVAL}"
    using rw first known start_true [of e w1]
    by (cases "op_GetState ops w1"; auto simp: in_start_to_read_def case_prod_beta Let_def split: if_splits)+
  have read: "in_read ops sleep fsz junk clock es e e2 buffer bytes (s_in, w) =
    (if \<not> ok then Some (\<lparr>rr_ret = - EBUSY, rr_buffer = buffer\<rparr>, s_in, w1)
     else if c \<noteq> 0 then Some (\<lparr>rr_ret = c, rr_buffer = buffer\<rparr>, s_in, v)
     else case op_ReadData ops e2 buffer (unat bytes) (v) of
          None \<Rightarrow> None
        | Some (n, buffer) \<Rightarrow>
            (case udiv (word_of_nat n) (in_frame_size ops fsz junk s_in (v)) of
               None \<Rightarrow> None
             | Some frames \<Rightarrow> Some (\<lparr>rr_ret = sint (word_of_nat n :: u64), rr_buffer = buffer\<rparr>,
                 s_in\<lparr>si_last_read_time_us := timespec_us clock,
                      si_frames_presented := si_frames_presented s_in + frames\<rparr>, v)))"
    unfolding in_read_def Let_def by (simp add: 1 rw)
  show ?thesis
  proof (cases "ok \<and> c = 0")
    case False
    then show ?thesis using assms(1) c(2) unfolding read by (auto simp: errno_defs split: if_splits)
  next
    case True
    then obtain k b where k: "op_ReadData ops e2 buffer (unat bytes) (v) = Some (k, b)"
      using assms(1) unfolding read by (auto split: option.splits)
    have "k \<le> unat bytes" by (rule read_bound [OF k])
    moreover from this have "sint (word_of_nat k :: u64) = int k"
      using assms(3) by (simp add: signed_of_nat signed_take_bit_int_eq_self)
    ultimately show ?thesis
      using True k assms(1) c(1) unfolding read
      by (auto simp: udiv_def split: option.splits if_splits)
  qed
qed

end

section \<open>Properties of streams on the AIDL port\<close>

lemma aidl_in_ops_simps [simp]:
  "op_GetState (aidl_in_ops ctx downmix) = GetState"
  "op_ReadData (aidl_in_ops ctx downmix) = ReadData ctx"
  by (simp_all add: aidl_in_ops_def aidl_ops_def)

text \<open>
  Standby of an input stream waits at most twenty rounds for a start that is under way.
  If that ends in time, the port of the stream is left stopped or at worst still suspending,
  and an I/O error is only reported when the suspend failed. If it does not end in time,
  standby reports success and leaves the port as it is: a port that hears nothing in those
  rounds is still starting when its standby has returned 0.
\<close>

theorem in_standby_outcome:
  assumes "in_standby (aidl_in_ops ctx downmix) (aidl_sleep ctx) es e es2 w = (r, w')"
    and "in_use ctx (w_port w)"
  shows "(case in_state_transition_timeout (aidl_in_ops ctx downmix) (aidl_sleep ctx) es STARTING
            kBluetoothDefaultInputStateTimeoutMs 0 w of
      (ok, n, w1) \<Rightarrow> n \<le> 20 \<and>
        (if ok then r \<in> {0, - EIO} \<and> GetState w' \<in> {SUSPENDING, STANDBY, DISABLED, BSS_UNKNOWN}
           \<and> (GetState w' = SUSPENDING \<longrightarrow> r = 0)
         else r = 0 \<and> w' = w1))
    \<and> (GetState w = STARTING \<and> (\<forall>i. pe_during (es i) = []) \<longrightarrow> r = 0 \<and> GetState w' = STARTING)"
proof
  let ?ops = "aidl_in_ops ctx downmix"
  note spec = aidl_port.in_standby_spec [of ctx "In_LoadAudioConfig ctx" downmix, folded aidl_in_ops_def,
      OF assms(1,2), unfolded aidl_in_ops_simps]
  then show "case in_state_transition_timeout ?ops (aidl_sleep ctx) es STARTING
            kBluetoothDefaultInputStateTimeoutMs 0 w of
      (ok, n, w1) \<Rightarrow> n \<le> 20 \<and>
        (if ok then r \<in> {0, - EIO} \<and> GetState w' \<in> {SUSPENDING, STANDBY, DISABLED, BSS_UNKNOWN}
           \<and> (GetState w' = SUSPENDING \<longrightarrow> r = 0)
         else r = 0 \<and> w' = w1)" .
  show "GetState w = STARTING \<and> (\<forall>i. pe_during (es i) = []) \<longrightarrow> r = 0 \<and> GetState w' = STARTING"
  proof
    assume quiet: "GetState w = STARTING \<and> (\<forall>i. pe_during (es i) = [])"
    then have "op_GetState ?ops (aidl_sleep ctx (es i) v) = op_GetState ?ops v" for i v
      by (simp add: aidl_sleep_def env_steps_def)
    with quiet have "fst (in_state_transition_timeout ?ops (aidl_sleep ctx) es STARTING
        kBluetoothDefaultInputStateTimeoutMs 0 w) = False
      \<and> GetState (snd (snd (in_state_transition_timeout ?ops (aidl_sleep ctx) es STARTING
        kBluetoothDefaultInputStateTimeoutMs 0 w))) = STARTING"
      using aidl_port.transition_timeout_stuck [where ctx = ctx and load = "In_LoadAudioConfig ctx"
          and downmix = downmix, folded aidl_in_ops_def, of w STARTING es kBluetoothDefaultInputStateTimeoutMs 0]
      by (simp add: kBluetoothDefaultInputStateTimeoutMs_def)
    with spec show "r = 0 \<and> GetState w' = STARTING" by (auto split: prod.splits)
  qed
qed

text \<open>
  A read that is defined and asks for a size the result can express either reports one of
  three errors and leaves the buffer and the stream as they were, or the port is started and
  the value returned is what the port read, at most the bytes asked for; the stream's
  position moves by the frames that were read.
\<close>

theorem in_read_outcome:
  assumes "in_read (aidl_in_ops ctx downmix) (aidl_sleep ctx) fsz junk clock es e e2 buffer bytes (s_in, w)
      = Some (r, s_in', w')"
    and "GetState w \<noteq> BSS_UNKNOWN" "unat bytes < 2 ^ 63"
  shows "(rr_ret r < 0 \<longrightarrow> rr_ret r \<in> {- EBUSY, - EIO, - EINVAL} \<and> rr_buffer r = buffer \<and> s_in' = s_in)
     \<and> (0 \<le> rr_ret r \<longrightarrow> GetState w' = STARTED \<and> nat (rr_ret r) \<le> unat bytes
          \<and> ReadData ctx e2 buffer (unat bytes) w' = Some (nat (rr_ret r), rr_buffer r)
          \<and> si_frames_presented s_in' = si_frames_presented s_in
              + word_of_int (rr_ret r) div in_frame_size (aidl_in_ops ctx downmix) fsz junk s_in w')"
  using aidl_port.in_read_spec [of ctx "In_LoadAudioConfig ctx" downmix, folded aidl_in_ops_def, OF assms(1)]
    assms(2,3) by simp

section \<open>Examples\<close>

definition example_in_ops :: "(world, port_env) port_ops" where
  "example_in_ops = aidl_in_ops example_ctx (\<lambda>buffer n. take (2 * n) buffer)"

definition example_quiet :: port_env where
  "example_quiet = \<lparr>pe_hal_ok = True, pe_during = [], pe_wait = [], pe_position = None,
     pe_polls = example_polls\<rparr>"

definition example_in :: BluetoothStreamIn where
  "example_in = \<lparr>si_is_aidl = True, si_last_read_time_us = 0, si_sample_rate = 16000,
     si_channel_mask = AUDIO_CHANNEL_IN_MONO, si_format = AUDIO_FORMAT_PCM_16_BIT,
     si_preferred_data_interval_us = 20000, si_frames_count = 320, si_frames_presented = 0\<rparr>"

theorem in_standby_outcome_witness:
  "fst (in_standby example_in_ops (aidl_sleep example_ctx) (\<lambda>i. example_quiet) example_quiet
      (\<lambda>i. example_quiet) (SetState STARTING example_up)) = 0"
proof -
  obtain r w' where eq: "in_standby example_in_ops (aidl_sleep example_ctx) (\<lambda>i. example_quiet) example_quiet
      (\<lambda>i. example_quiet) (SetState STARTING example_up) = (r, w')" by (rule prod.exhaust)
  have "in_use example_ctx (w_port (SetState STARTING example_up))"
    using example_up_facts(1) by (simp add: in_use_def)
  from in_standby_outcome [OF eq [unfolded example_in_ops_def] this] eq show ?thesis
    by (simp add: example_quiet_def)
qed

definition example_read :: "(read_result \<times> BluetoothStreamIn \<times> world) option" where
  "example_read = in_read example_in_ops (aidl_sleep example_ctx) (\<lambda>ch fmt. 2) example_junk
     \<lparr>tv_sec = 1, tv_nsec = 0\<rparr> (\<lambda>i. example_quiet) (example_answer SUCCESS) example_quiet
     [0, 0, 0, 0, 0, 0] 4 (example_in, example_up)"

theorem in_read_outcome_witness:
  "map_option (\<lambda>x. rr_buffer (fst x)) example_read = Some [9, 9, 9, 9, 0, 0]
     \<and> map_option (\<lambda>x. GetState (snd (snd x))) example_read = Some STARTED"
proof -
  have 1: "map_option (\<lambda>x. rr_buffer (fst x)) example_read = Some [9, 9, 9, 9, 0, 0]"
    "map_option (\<lambda>x. rr_ret (fst x)) example_read = Some 4" by code_simp+
  obtain x where "example_read = Some x" using 1 by (cases example_read) auto
  then obtain r s_in' w' where eq: "example_read = Some (r, s_in', w')" by (cases x) auto
  have "rr_ret r = 4" using 1(2) unfolding eq by simp
  moreover have "GetState example_up \<noteq> BSS_UNKNOWN" using example_up_facts(2) by simp
  ultimately have "GetState w' = STARTED"
    using in_read_outcome [OF eq [unfolded example_read_def example_in_ops_def]] by simp
  with 1(1) show ?thesis by (simp add: eq)
qed

end
