(* ===== verification/LeAudio_Types.thy ===== *)
theory LeAudio_Types
  imports Audio_Types
begin

text \<open>
  The LE audio data of \<open>android.hardware.bluetooth.audio\<close>: codec configurations and
  capabilities as lists of tagged values, stream and broadcast configurations, and what a
  caller requires of them. An AIDL bit mask is its 32-bit value. A field the sources copy and
  never read is a number, and the number of a value-initialised field is 0.
\<close>

section \<open>Enumerations and constants\<close>

datatype SamplingFrequency =
    HZ8000 | HZ11025 | HZ16000 | HZ22050 | HZ24000 | HZ32000 | HZ44100 | HZ48000 | HZ88200
  | HZ96000 | HZ176400 | HZ192000 | HZ384000
  | SamplingFrequency_default

datatype FrameDuration = US7500 | US10000 | FrameDuration_default

text \<open>
  \<open>SamplingFrequency_default\<close> and \<open>FrameDuration_default\<close> are the value-initialised
  enumerations, which \<open>operator[]\<close> of a map inserts for a key it does not have.
\<close>

datatype ChannelLocation =
    NOT_ALLOWED | FRONT_LEFT | FRONT_RIGHT | FRONT_CENTER | LOW_FREQUENCY_EFFECTS_1 | BACK_LEFT
  | BACK_RIGHT | FRONT_LEFT_OF_CENTER | FRONT_RIGHT_OF_CENTER | BACK_CENTER
  | LOW_FREQUENCY_EFFECTS_2 | SIDE_LEFT | SIDE_RIGHT | TOP_FRONT_LEFT | TOP_FRONT_RIGHT
  | TOP_FRONT_CENTER | TOP_CENTER | TOP_BACK_LEFT | TOP_BACK_RIGHT | TOP_SIDE_LEFT
  | TOP_SIDE_RIGHT | TOP_BACK_CENTER | BOTTOM_FRONT_CENTER | BOTTOM_FRONT_LEFT
  | BOTTOM_FRONT_RIGHT | FRONT_LEFT_WIDE | FRONT_RIGHT_WIDE | LEFT_SURROUND | RIGHT_SURROUND

datatype ContextName =
    UNSPECIFIED | CONVERSATIONAL | MEDIA | GAME | INSTRUCTIONAL | VOICE_ASSISTANTS | LIVE_AUDIO
  | NOTIFICATIONS | RINGTONE_ALERTS | ALERTS | EMERGENCY_ALARM

text \<open>The numbers the interface gives to the enumerators above, which the sources do not state.\<close>

record aidl_numbers =
  num_SupportedSamplingFrequencies :: "SamplingFrequency \<Rightarrow> u32"
  num_SupportedFrameDurations :: "FrameDuration \<Rightarrow> u32"
  num_AudioChannelAllocation :: "ChannelLocation \<Rightarrow> u32"
  num_AudioContext :: "ContextName \<Rightarrow> u32"
  num_CODEC_PRIORITY_DISABLED :: u32
  num_LC3 :: u8

datatype TargetLatency = TL_UNDEFINED | LOWER | BALANCED_LATENCY_RELIABILITY | HIGHER_RELIABILITY

datatype Phy = TWO_M | Phy_other nat

section \<open>Tagged values\<close>

datatype CodecSpecificConfigurationLtv =
    codecFrameBlocksPerSDU int
  | samplingFrequency SamplingFrequency
  | frameDuration FrameDuration
  | octetsPerCodecFrame int
  | audioChannelAllocation u32

datatype CfgTag =
    Tag_codecFrameBlocksPerSDU | Tag_samplingFrequency | Tag_frameDuration
  | Tag_octetsPerCodecFrame | Tag_audioChannelAllocation

fun cfg_getTag :: "CodecSpecificConfigurationLtv \<Rightarrow> CfgTag" where
  "cfg_getTag (codecFrameBlocksPerSDU _) = Tag_codecFrameBlocksPerSDU"
| "cfg_getTag (samplingFrequency _) = Tag_samplingFrequency"
| "cfg_getTag (frameDuration _) = Tag_frameDuration"
| "cfg_getTag (octetsPerCodecFrame _) = Tag_octetsPerCodecFrame"
| "cfg_getTag (audioChannelAllocation _) = Tag_audioChannelAllocation"

datatype CodecSpecificCapabilitiesLtv =
    supportedSamplingFrequencies u32
  | supportedFrameDurations u32
  | supportedAudioChannelCounts u32
  | supportedMaxCodecFramesPerSDU int
  | supportedOctetsPerCodecFrame int int

datatype MetadataLtv = preferredAudioContexts u32 | otherMetadata nat

section \<open>Unicast configurations\<close>

record LeAudioAseConfiguration =
  targetLatency :: TargetLatency
  targetPhy :: Phy
  ase_codecId :: "CodecId option"
  ase_codecConfiguration :: "CodecSpecificConfigurationLtv list"

record LeAudioAseQosConfiguration =
  qos_maxTransportLatencyMs :: int
  qos_retransmissionNum :: int

record LeAudioDataPathConfiguration =
  path_isTransparent :: bool
  path_dataPathId :: u8

record AseDirectionConfiguration =
  aseConfiguration :: LeAudioAseConfiguration
  qosConfiguration :: "LeAudioAseQosConfiguration option"
  dataPathConfiguration :: "LeAudioDataPathConfiguration option"

type_synonym direction_list = "AseDirectionConfiguration option list"

record LeAudioAseConfigurationSetting =
  setting_audioContext :: u32
  setting_packing :: nat
  sinkAseConfiguration :: "direction_list option"
  sourceAseConfiguration :: "direction_list option"
  setting_flags :: "nat option"

record LeAudioDeviceCapabilities =
  devcap_codecId :: CodecId
  codecSpecificCapabilities :: "CodecSpecificCapabilitiesLtv list"
  devcap_metadata :: "MetadataLtv option list option"

record AseDirectionRequirement =
  req_aseConfiguration :: LeAudioAseConfiguration

record LeAudioConfigurationRequirement =
  req_audioContext :: u32
  sinkAseRequirement :: "AseDirectionRequirement option list option"
  sourceAseRequirement :: "AseDirectionRequirement option list option"

record AseQosDirectionRequirement =
  qosreq_maxTransportLatencyMs :: int
  qosreq_preferredRetransmissionNum :: int
  qosreq_aseConfiguration :: LeAudioAseConfiguration

record LeAudioAseQosConfigurationRequirement =
  qosreq_audioContext :: u32
  sinkAseQosRequirement :: "AseQosDirectionRequirement option"
  sourceAseQosRequirement :: "AseQosDirectionRequirement option"

record LeAudioAseQosConfigurationPair =
  sinkQosConfiguration :: "LeAudioAseQosConfiguration option"
  sourceQosConfiguration :: "LeAudioAseQosConfiguration option"

section \<open>Broadcast configurations\<close>

record LeAudioBisConfiguration =
  bis_codecId :: CodecId
  bis_codecConfiguration :: "CodecSpecificConfigurationLtv list"

record LeAudioSubgroupBisConfiguration =
  subbis_numBis :: int
  bisConfiguration :: LeAudioBisConfiguration

record LeAudioBroadcastSubgroupConfiguration =
  bisConfigurations :: "LeAudioSubgroupBisConfiguration list"

record LeAudioBroadcastConfigurationSetting =
  bset_numBis :: int
  bset_phy :: "Phy list"
  subgroupsConfigurations :: "LeAudioBroadcastSubgroupConfiguration list"

record LeAudioBroadcastSubgroupConfigurationRequirement =
  bisNumPerSubgroup :: int

section \<open>Codec information\<close>

record LeAudioTransport =
  le_channelMode :: "ChannelMode list"
  le_samplingFrequencyHz :: "int list"
  le_frameDurationUs :: "int list"
  le_bitdepth :: "int list"

datatype CodecTransport = Transport_leAudio LeAudioTransport | Transport_other nat

record CodecInfo =
  ci_id :: CodecId
  ci_name :: string
  ci_transport :: CodecTransport

section \<open>Faults\<close>

text \<open>
  What ends a call without a result: an empty optional whose value is taken, a null pointer
  dereferenced, a read outside a vector. A computation that can fault has a sum as its value.
\<close>

datatype le_fault = Bad_optional_access | Null_dereference | Out_of_range

fun or_fault :: "'e + 'a \<Rightarrow> ('a \<Rightarrow> 'e + 'b) \<Rightarrow> 'e + 'b" where
  "or_fault (Inl e) f = Inl e"
| "or_fault (Inr x) f = f x"

lemma or_fault_Inr_iff [simp]: "or_fault r f = Inr y \<longleftrightarrow> (\<exists>x. r = Inr x \<and> f x = Inr y)"
  by (cases r) auto

lemma or_fault_Inl_iff: "or_fault r f = Inl e \<longleftrightarrow> r = Inl e \<or> (\<exists>x. r = Inr x \<and> f x = Inl e)"
  by (cases r) auto

lemma or_fault_total: "(\<And>x. \<not> isl (f x)) \<Longrightarrow> isl (or_fault r f) \<longleftrightarrow> isl r"
  by (cases r) auto

lemma or_fault_defined:
  "(\<And>x. \<not> isl (f x) \<longleftrightarrow> B) \<Longrightarrow> \<not> isl (or_fault r f) \<longleftrightarrow> \<not> isl r \<and> B"
  by (cases r) auto

fun collect :: "('a \<Rightarrow> 'e + 'b list) \<Rightarrow> 'a list \<Rightarrow> 'e + 'b list" where
  "collect f [] = Inr []"
| "collect f (x # xs) = or_fault (f x) (\<lambda>ys. or_fault (collect f xs) (\<lambda>zs. Inr (ys @ zs)))"

lemma collect_Inr:
  "(\<And>x. x \<in> set xs \<Longrightarrow> f x = Inr (g x)) \<Longrightarrow> collect f xs = Inr (concat (map g xs))"
  by (induction xs) auto

lemma collect_append:
  "collect f (xs @ ys) = or_fault (collect f xs) (\<lambda>us. or_fault (collect f ys) (\<lambda>vs. Inr (us @ vs)))"
proof (induction xs)
  case Nil
  then show ?case by (cases "collect f ys") auto
next
  case (Cons x xs)
  then show ?case by (cases "f x"; cases "collect f xs"; cases "collect f ys") auto
qed

lemma collect_Inr_D:
  "collect f xs = Inr ys \<Longrightarrow> x \<in> set xs \<Longrightarrow> \<exists>zs. f x = Inr zs \<and> set zs \<subseteq> set ys"
  by (induction xs arbitrary: ys) fastforce+

lemma collect_Inr_member:
  "collect f xs = Inr ys \<Longrightarrow> y \<in> set ys \<Longrightarrow> \<exists>x \<in> set xs. \<exists>zs. f x = Inr zs \<and> y \<in> set zs"
  by (induction xs arbitrary: ys) auto

end
