(* ===== verification/LeAudio_Codecs.thy ===== *)
theory LeAudio_Codecs
  imports LeAudio_Types Codec_Db "HOL-Library.List_Lexorder" "HOL-Library.Char_ord"
begin

text \<open>
  The provider of LE audio codec capabilities
  (\<open>utils/aidl_session/BluetoothLeAudioCodecsProvider.cpp\<close>): it turns the offload settings file
  into the capabilities of each scenario and into the codecs of each session type. The tables
  of the file (\<open>utils/le_audio_codec_capabilities/*.xsd\<close>) are records whose optional attributes
  are options; a list of the file that is absent is empty. Reading the file is the parameter
  \<open>read\<close>.
\<close>

section \<open>The settings file\<close>

datatype setting_AudioLocation = setting_MONO | setting_STEREO | setting_AL_UNKNOWN

datatype setting_CodecType =
    setting_LC3 | setting_APTX_ADAPTIVE_LE | setting_APTX_ADAPTIVE_LEX | setting_CT_UNKNOWN

record Scenario =
  sc_encode :: "string option"
  sc_decode :: "string option"
  sc_broadcast :: "string option"

record SettingConfiguration =
  scfg_name :: "string option"
  scfg_codecConfiguration :: "string option"
  scfg_strategyConfiguration :: "string option"

record SettingCodecConfiguration =
  scc_name :: "string option"
  scc_codec :: "setting_CodecType option"
  scc_samplingFrequency :: "int option"
  scc_frameDurationUs :: "int option"
  scc_octetsPerCodecFrame :: "int option"

record StrategyConfiguration =
  strat_name :: "string option"
  strat_audioLocation :: "setting_AudioLocation option"
  strat_connectedDevice :: "u8 option"
  strat_channelCount :: "u8 option"

record LeAudioOffloadSetting =
  scenarioList :: "Scenario list list"
  configurationList :: "SettingConfiguration list list"
  codecConfigurationList :: "SettingCodecConfiguration list list"
  strategyConfigurationList :: "StrategyConfiguration list list"

section \<open>Capabilities\<close>

text \<open>The locations of the interface; \<open>AL_both\<close> is the disjunction of its two front channels.\<close>

datatype AudioLocation = AL_UNKNOWN | AL_FRONT_LEFT | AL_FRONT_RIGHT | AL_both

definition kStereoAudio :: AudioLocation where
  "kStereoAudio = AL_both"

definition kMonoAudio :: AudioLocation where
  "kMonoAudio = AL_UNKNOWN"

record FrameCapabilities =
  fcap_samplingFrequencyHz :: "int list"
  fcap_frameDurationUs :: "int list"
  fcap_octetsPerFrame :: "int list"

datatype LeAudioCodecCapabilities =
    lc3Capabilities FrameCapabilities
  | aptxAdaptiveLeCapabilities FrameCapabilities
  | no_leAudioCodecCapabilities

record UnicastCapability =
  uni_codecType :: CodecType
  uni_supportedChannel :: AudioLocation
  uni_deviceCount :: u8
  uni_channelCountPerDevice :: u8
  uni_leAudioCodecCapabilities :: LeAudioCodecCapabilities

record BroadcastCapability =
  bcast_codecType :: CodecType
  bcast_supportedChannel :: AudioLocation
  bcast_channelCountPerStream :: u8
  bcast_leAudioCodecCapabilities :: "FrameCapabilities option list option"

record LeAudioCodecCapabilitiesSetting =
  unicastEncodeCapability :: UnicastCapability
  unicastDecodeCapability :: UnicastCapability
  broadcastCapability :: BroadcastCapability

definition unknown_unicast :: UnicastCapability where
  "unknown_unicast =
     \<lparr>uni_codecType = CT_UNKNOWN, uni_supportedChannel = AL_UNKNOWN, uni_deviceCount = 0,
      uni_channelCountPerDevice = 0, uni_leAudioCodecCapabilities = no_leAudioCodecCapabilities\<rparr>"

definition unknown_broadcast :: BroadcastCapability where
  "unknown_broadcast =
     \<lparr>bcast_codecType = CT_UNKNOWN, bcast_supportedChannel = AL_UNKNOWN,
      bcast_channelCountPerStream = 0, bcast_leAudioCodecCapabilities = None\<rparr>"

section \<open>State\<close>

text \<open>
  The globals and static members. The maps are association lists with distinct keys; nothing
  depends on the order of the unordered ones.
\<close>

record codecs_provider =
  leAudioCodecCapabilities :: "LeAudioCodecCapabilitiesSetting list"
  isInvalidFileContent :: bool
  supported_scenarios :: "Scenario list"
  configuration_map :: "(string \<times> SettingConfiguration) list"
  codec_configuration_map :: "(string \<times> SettingCodecConfiguration) list"
  strategy_configuration_map :: "(string \<times> StrategyConfiguration) list"
  session_codecs_map :: "(SessionType \<times> CodecInfo list) list"

definition codecs_provider_initial :: codecs_provider where
  "codecs_provider_initial =
     \<lparr>leAudioCodecCapabilities = [], isInvalidFileContent = False, supported_scenarios = [],
      configuration_map = [], codec_configuration_map = [], strategy_configuration_map = [],
      session_codecs_map = []\<rparr>"

definition map_insert :: "'k \<Rightarrow> 'v \<Rightarrow> ('k \<times> 'v) list \<Rightarrow> ('k \<times> 'v) list" where
  "map_insert k v m = (case map_of m k of None \<Rightarrow> m @ [(k, v)] | Some _ \<Rightarrow> m)"

section \<open>Loading\<close>

definition ParseFromLeAudioOffloadSettingFile ::
  "LeAudioOffloadSetting option \<Rightarrow> codecs_provider \<Rightarrow> LeAudioOffloadSetting option" where
  "ParseFromLeAudioOffloadSettingFile read st =
     (if leAudioCodecCapabilities st \<noteq> [] \<or> isInvalidFileContent st then None else read)"

definition ClearLeAudioCodecCapabilities :: "codecs_provider \<Rightarrow> codecs_provider" where
  "ClearLeAudioCodecCapabilities st =
     st\<lparr>leAudioCodecCapabilities := [], configuration_map := [], codec_configuration_map := [],
        strategy_configuration_map := [], session_codecs_map := [], supported_scenarios := []\<rparr>"

definition GetScenarios :: "LeAudioOffloadSetting \<Rightarrow> Scenario list" where
  "GetScenarios setting =
     filter (\<lambda>s. sc_encode s \<noteq> None \<and> sc_decode s \<noteq> None) (concat (scenarioList setting))"

definition IsValidCodecConfiguration :: "SettingCodecConfiguration \<Rightarrow> bool" where
  "IsValidCodecConfiguration c =
     (scc_name c \<noteq> None \<and> scc_codec c \<noteq> None \<and> scc_samplingFrequency c \<noteq> None
    \<and> scc_frameDurationUs c \<noteq> None \<and> scc_octetsPerCodecFrame c \<noteq> None)"

definition IsValidStrategyConfiguration :: "StrategyConfiguration \<Rightarrow> bool" where
  "IsValidStrategyConfiguration s =
     (if strat_name s = None \<or> strat_audioLocation s = None \<or> strat_connectedDevice s = None
         \<or> strat_channelCount s = None then False
      else if strat_audioLocation s = Some setting_STEREO then
        (if (strat_connectedDevice s = Some 2 \<and> strat_channelCount s = Some 1)
            \<or> (strat_connectedDevice s = Some 1 \<and> strat_channelCount s = Some 2) then True
         else if strat_connectedDevice s = Some 0 \<and> strat_channelCount s = Some 2 then True
         else False)
      else if strat_audioLocation s = Some setting_MONO then
        (if strat_connectedDevice s = Some 1 \<and> strat_channelCount s = Some 1 then True else False)
      else False)"

definition UpdateConfigurationsToMap :: "LeAudioOffloadSetting \<Rightarrow> codecs_provider \<Rightarrow> codecs_provider" where
  "UpdateConfigurationsToMap setting st =
     st\<lparr>configuration_map := fold (\<lambda>c m.
          if scfg_name c \<noteq> None \<and> scfg_codecConfiguration c \<noteq> None \<and> scfg_strategyConfiguration c \<noteq> None
          then map_insert (the (scfg_name c)) c m else m)
        (concat (configurationList setting)) (configuration_map st)\<rparr>"

definition UpdateCodecConfigurationsToMap ::
  "LeAudioOffloadSetting \<Rightarrow> codecs_provider \<Rightarrow> codecs_provider" where
  "UpdateCodecConfigurationsToMap setting st =
     st\<lparr>codec_configuration_map := fold (\<lambda>c m.
          if IsValidCodecConfiguration c then map_insert (the (scc_name c)) c m else m)
        (concat (codecConfigurationList setting)) (codec_configuration_map st)\<rparr>"

definition UpdateStrategyConfigurationsToMap ::
  "LeAudioOffloadSetting \<Rightarrow> codecs_provider \<Rightarrow> codecs_provider" where
  "UpdateStrategyConfigurationsToMap setting st =
     st\<lparr>strategy_configuration_map := fold (\<lambda>s m.
          if IsValidStrategyConfiguration s then map_insert (the (strat_name s)) s m else m)
        (concat (strategyConfigurationList setting)) (strategy_configuration_map st)\<rparr>"

definition LoadConfigurationToMap :: "LeAudioOffloadSetting \<Rightarrow> codecs_provider \<Rightarrow> codecs_provider" where
  "LoadConfigurationToMap setting st =
     (let st = ClearLeAudioCodecCapabilities st;
          st = st\<lparr>supported_scenarios := GetScenarios setting\<rparr>
      in if supported_scenarios st = [] then st
      else let st = UpdateConfigurationsToMap setting st
      in if configuration_map st = [] then st
      else let st = UpdateCodecConfigurationsToMap setting st
      in if codec_configuration_map st = [] then st
      else UpdateStrategyConfigurationsToMap setting st)"

definition incomplete :: "codecs_provider \<Rightarrow> bool" where
  "incomplete st =
     (supported_scenarios st = [] \<or> configuration_map st = []
    \<or> codec_configuration_map st = [] \<or> strategy_configuration_map st = [])"

section \<open>Capabilities of a scenario\<close>

fun GetAudioLocation :: "setting_AudioLocation \<Rightarrow> AudioLocation" where
  "GetAudioLocation setting_MONO = kMonoAudio"
| "GetAudioLocation setting_STEREO = kStereoAudio"
| "GetAudioLocation _ = AL_UNKNOWN"

fun GetCodecType :: "setting_CodecType \<Rightarrow> CodecType" where
  "GetCodecType setting_LC3 = CT_LC3"
| "GetCodecType setting_APTX_ADAPTIVE_LE = CT_APTX_ADAPTIVE_LE"
| "GetCodecType setting_APTX_ADAPTIVE_LEX = CT_APTX_ADAPTIVE_LEX"
| "GetCodecType _ = CT_UNKNOWN"

definition ComposeLc3Capability :: "SettingCodecConfiguration \<Rightarrow> FrameCapabilities" where
  "ComposeLc3Capability c =
     \<lparr>fcap_samplingFrequencyHz = [the (scc_samplingFrequency c)],
      fcap_frameDurationUs = [the (scc_frameDurationUs c)],
      fcap_octetsPerFrame = [the (scc_octetsPerCodecFrame c)]\<rparr>"

definition ComposeAptxAdaptiveLeCapability :: "SettingCodecConfiguration \<Rightarrow> FrameCapabilities" where
  "ComposeAptxAdaptiveLeCapability c =
     \<lparr>fcap_samplingFrequencyHz = [the (scc_samplingFrequency c)],
      fcap_frameDurationUs = [the (scc_frameDurationUs c)],
      fcap_octetsPerFrame = [the (scc_octetsPerCodecFrame c)]\<rparr>"

definition ComposeUnicastCapability ::
  "CodecType \<Rightarrow> AudioLocation \<Rightarrow> u8 \<Rightarrow> u8 \<Rightarrow> LeAudioCodecCapabilities \<Rightarrow> UnicastCapability" where
  "ComposeUnicastCapability codec_type audio_location device_cnt channel_count capability =
     \<lparr>uni_codecType = codec_type, uni_supportedChannel = audio_location,
      uni_deviceCount = device_cnt, uni_channelCountPerDevice = channel_count,
      uni_leAudioCodecCapabilities = capability\<rparr>"

definition ComposeBroadcastCapability ::
  "CodecType \<Rightarrow> AudioLocation \<Rightarrow> u8 \<Rightarrow> FrameCapabilities option list \<Rightarrow> BroadcastCapability" where
  "ComposeBroadcastCapability codec_type audio_location channel_count capability =
     \<lparr>bcast_codecType = codec_type, bcast_supportedChannel = audio_location,
      bcast_channelCountPerStream = channel_count,
      bcast_leAudioCodecCapabilities = Some capability\<rparr>"

text \<open>The three lookups that the capabilities and the codec information share.\<close>

definition find_configuration ::
  "codecs_provider \<Rightarrow> string \<Rightarrow> (SettingCodecConfiguration \<times> StrategyConfiguration) option" where
  "find_configuration st name =
     (case map_of (configuration_map st) name of
        None \<Rightarrow> None
      | Some cfg \<Rightarrow>
          (case map_of (codec_configuration_map st) (the (scfg_codecConfiguration cfg)) of
             None \<Rightarrow> None
           | Some codec \<Rightarrow>
               (case map_of (strategy_configuration_map st) (the (scfg_strategyConfiguration cfg)) of
                  None \<Rightarrow> None
                | Some strategy \<Rightarrow> Some (codec, strategy))))"

definition GetUnicastCapability :: "codecs_provider \<Rightarrow> string \<Rightarrow> UnicastCapability" where
  "GetUnicastCapability st coding_direction =
     (if coding_direction = ''invalid'' then unknown_unicast
      else case find_configuration st coding_direction of
        None \<Rightarrow> unknown_unicast
      | Some (codec, strategy) \<Rightarrow>
          let codec_type = GetCodecType (the (scc_codec codec));
              location = GetAudioLocation (the (strat_audioLocation strategy));
              devices = the (strat_connectedDevice strategy);
              channels = the (strat_channelCount strategy)
          in if codec_type = CT_LC3
             then ComposeUnicastCapability codec_type location devices channels
                    (lc3Capabilities (ComposeLc3Capability codec))
             else if codec_type = CT_APTX_ADAPTIVE_LE \<or> codec_type = CT_APTX_ADAPTIVE_LEX
             then ComposeUnicastCapability codec_type location devices channels
                    (aptxAdaptiveLeCapabilities (ComposeAptxAdaptiveLeCapability codec))
             else unknown_unicast)"

definition GetBroadcastCapability :: "codecs_provider \<Rightarrow> string \<Rightarrow> BroadcastCapability" where
  "GetBroadcastCapability st coding_direction =
     (if coding_direction = ''invalid'' then unknown_broadcast
      else case find_configuration st coding_direction of
        None \<Rightarrow> unknown_broadcast
      | Some (codec, strategy) \<Rightarrow>
          let codec_type = GetCodecType (the (scc_codec codec));
              bcastLc3Cap = [Some (ComposeLc3Capability codec)]
          in if codec_type = CT_LC3
             then ComposeBroadcastCapability codec_type
                    (GetAudioLocation (the (strat_audioLocation strategy)))
                    (the (strat_channelCount strategy)) bcastLc3Cap
             else unknown_broadcast)"

fun ComposeLeAudioCodecCapabilities ::
  "codecs_provider \<Rightarrow> Scenario list \<Rightarrow> LeAudioCodecCapabilitiesSetting list" where
  "ComposeLeAudioCodecCapabilities st [] = []"
| "ComposeLeAudioCodecCapabilities st (scenario # rest) =
     (let encode = GetUnicastCapability st (the (sc_encode scenario));
          decode = GetUnicastCapability st (the (sc_decode scenario));
          broadcast = (case sc_broadcast scenario of
                         None \<Rightarrow> unknown_broadcast
                       | Some b \<Rightarrow> GetBroadcastCapability st b)
      in if uni_codecType encode = CT_UNKNOWN \<and> uni_codecType decode = CT_UNKNOWN
            \<and> bcast_codecType broadcast = CT_UNKNOWN
         then ComposeLeAudioCodecCapabilities st rest
         else \<lparr>unicastEncodeCapability = encode, unicastDecodeCapability = decode,
               broadcastCapability = broadcast\<rparr> # ComposeLeAudioCodecCapabilities st rest)"

definition GetLeAudioCodecCapabilities ::
  "LeAudioOffloadSetting option \<Rightarrow> codecs_provider
     \<Rightarrow> LeAudioCodecCapabilitiesSetting list \<times> codecs_provider" where
  "GetLeAudioCodecCapabilities setting st =
     (if leAudioCodecCapabilities st \<noteq> [] then (leAudioCodecCapabilities st, st)
      else let st = st\<lparr>isInvalidFileContent := True\<rparr>
      in case setting of
           None \<Rightarrow> ([], st)
         | Some s \<Rightarrow>
             let st = LoadConfigurationToMap s st
             in if incomplete st then ([], st)
                else let caps = ComposeLeAudioCodecCapabilities st (supported_scenarios st)
                in (caps, st\<lparr>leAudioCodecCapabilities := caps, isInvalidFileContent := (caps = [])\<rparr>))"

section \<open>Codecs of a session type\<close>

definition codec_info_of ::
  "aidl_numbers \<Rightarrow> SettingCodecConfiguration \<Rightarrow> StrategyConfiguration \<Rightarrow> CodecInfo" where
  "codec_info_of nums codec strategy =
     \<lparr>ci_id = (if scc_codec codec = Some setting_LC3 then CodecId_core (unat (num_LC3 nums))
               else CodecId_vendor 0 0),
      ci_name = (if scc_codec codec = Some setting_LC3 then ''LC3'' else ''UNDEFINE''),
      ci_transport = Transport_leAudio
        \<lparr>le_channelMode =
           [if strat_audioLocation strategy = Some setting_MONO
            then (if strat_channelCount strategy = Some 1 then CM_MONO else CM_DUALMONO)
            else if strat_audioLocation strategy = Some setting_STEREO then CM_STEREO
            else CM_UNKNOWN],
         le_samplingFrequencyHz = [the (scc_samplingFrequency codec)],
         le_frameDurationUs = [the (scc_frameDurationUs codec)],
         le_bitdepth = [the (scc_octetsPerCodecFrame codec)]\<rparr>\<rparr>"

text \<open>\<open>info0\<close> is the value-initialised \<open>CodecInfo\<close> of a configuration that is not found.\<close>

definition config_codec_info_map ::
  "aidl_numbers \<Rightarrow> CodecInfo \<Rightarrow> codecs_provider \<Rightarrow> (string \<times> CodecInfo) list" where
  "config_codec_info_map nums info0 st =
     map (\<lambda>(name, _). (name,
         case find_configuration st name of
           None \<Rightarrow> info0
         | Some (codec, strategy) \<Rightarrow> codec_info_of nums codec strategy)) (configuration_map st)"

definition string_set :: "string option list \<Rightarrow> string list" where
  "string_set names = sort (remdups (map the (filter (\<lambda>n. n \<noteq> None) names)))"

definition infos_of :: "CodecInfo \<Rightarrow> (string \<times> CodecInfo) list \<Rightarrow> string list \<Rightarrow> CodecInfo list" where
  "infos_of info0 infos names =
     map (\<lambda>c. case map_of infos c of None \<Rightarrow> info0 | Some info \<Rightarrow> info) names"

definition GetLeAudioCodecInfo ::
  "aidl_numbers \<Rightarrow> CodecInfo \<Rightarrow> LeAudioOffloadSetting option \<Rightarrow> codecs_provider
     \<Rightarrow> (SessionType \<times> CodecInfo list) list \<times> codecs_provider" where
  "GetLeAudioCodecInfo nums info0 setting st =
     (if session_codecs_map st \<noteq> [] then (session_codecs_map st, st)
      else let st = st\<lparr>isInvalidFileContent := True\<rparr>
      in case setting of
           None \<Rightarrow> ([], st)
         | Some s \<Rightarrow>
             let st = LoadConfigurationToMap s st
             in if incomplete st then ([], st)
                else let infos = config_codec_info_map nums info0 st;
                         encoding = string_set (map sc_encode (supported_scenarios st));
                         decoding = string_set (map sc_decode (supported_scenarios st));
                         broadcast = string_set (map sc_broadcast (supported_scenarios st));
                         m = [(LE_AUDIO_HARDWARE_OFFLOAD_ENCODING_DATAPATH, infos_of info0 infos encoding),
                              (LE_AUDIO_HARDWARE_OFFLOAD_DECODING_DATAPATH, infos_of info0 infos decoding),
                              (LE_AUDIO_BROADCAST_HARDWARE_OFFLOAD_ENCODING_DATAPATH, infos_of info0 infos broadcast)]
                in (m, st\<lparr>session_codecs_map := m, isInvalidFileContent := (m = [])\<rparr>))"

section \<open>As the tables call it\<close>

text \<open>
  \<open>GetLeAudioOffloadCodecCapabilities\<close> and \<open>GetLeAudioOffloadCodecInfo\<close> of the codec tables with
  the provider behind them: they parse the file, and ask, when their own list is empty.
\<close>

definition offload_codec_capabilities ::
  "LeAudioOffloadSetting option \<Rightarrow> SessionType \<Rightarrow> LeAudioCodecCapabilitiesSetting list
     \<Rightarrow> codecs_provider
     \<Rightarrow> LeAudioCodecCapabilitiesSetting list \<times> LeAudioCodecCapabilitiesSetting list \<times> codecs_provider" where
  "offload_codec_capabilities read session_type global st =
     (let (parsed, st') =
        (if is_le_offload_session session_type \<and> global = []
         then GetLeAudioCodecCapabilities (ParseFromLeAudioOffloadSettingFile read st) st
         else ([], st));
        (answer, global) = GetLeAudioOffloadCodecCapabilities parsed session_type global
      in (answer, global, st'))"

definition offload_codec_info ::
  "aidl_numbers \<Rightarrow> CodecInfo \<Rightarrow> LeAudioOffloadSetting option \<Rightarrow> SessionType
     \<Rightarrow> (SessionType \<times> CodecInfo list) list \<Rightarrow> codecs_provider
     \<Rightarrow> CodecInfo list \<times> (SessionType \<times> CodecInfo list) list \<times> codecs_provider" where
  "offload_codec_info nums info0 read session_type global st =
     (let (parsed, st') =
        (if is_le_offload_session session_type \<and> global = []
         then GetLeAudioCodecInfo nums info0 (ParseFromLeAudioOffloadSettingFile read st) st
         else ([], st));
        (answer, global) = GetLeAudioOffloadCodecInfo parsed session_type global
      in (answer, global, st'))"

section \<open>What is reported\<close>

text \<open>What the maps hold, and what a lookup gives.\<close>

definition maps_valid :: "codecs_provider \<Rightarrow> bool" where
  "maps_valid st \<longleftrightarrow>
     (\<forall>c \<in> snd ` set (codec_configuration_map st). IsValidCodecConfiguration c)
   \<and> (\<forall>s \<in> snd ` set (strategy_configuration_map st). IsValidStrategyConfiguration s)"

lemma fold_map_insert_valid:
  "(\<forall>v \<in> snd ` set m. P v) \<Longrightarrow>
     \<forall>v \<in> snd ` set (fold (\<lambda>c m. if P c then map_insert (key c) c m else m) cs m). P v"
proof (induction cs arbitrary: m)
  case (Cons c cs)
  have "\<forall>v \<in> snd ` set (if P c then map_insert (key c) c m else m). P v"
    using Cons.prems by (auto simp: map_insert_def split: option.splits)
  from Cons.IH [OF this] show ?case by simp
qed simp

lemma maps_valid_if: "maps_valid a \<Longrightarrow> maps_valid b \<Longrightarrow> maps_valid (if c then a else b)"
  by simp

lemma maps_valid_Clear: "maps_valid (ClearLeAudioCodecCapabilities st\<lparr>supported_scenarios := ss\<rparr>)"
  by (simp add: maps_valid_def ClearLeAudioCodecCapabilities_def)

lemma maps_valid_UpdateConfigurations: "maps_valid st \<Longrightarrow> maps_valid (UpdateConfigurationsToMap s st)"
  by (simp add: maps_valid_def UpdateConfigurationsToMap_def)

lemma maps_valid_UpdateCodec: "maps_valid st \<Longrightarrow> maps_valid (UpdateCodecConfigurationsToMap s st)"
  unfolding maps_valid_def UpdateCodecConfigurationsToMap_def
  by (simp del: ball_simps) (rule fold_map_insert_valid, simp)

lemma maps_valid_UpdateStrategy: "maps_valid st \<Longrightarrow> maps_valid (UpdateStrategyConfigurationsToMap s st)"
  unfolding maps_valid_def UpdateStrategyConfigurationsToMap_def
  by (simp del: ball_simps) (rule fold_map_insert_valid, simp)

lemmas maps_valid_Update = maps_valid_Clear maps_valid_UpdateConfigurations
  maps_valid_UpdateCodec maps_valid_UpdateStrategy

lemma LoadConfigurationToMap_valid: "maps_valid (LoadConfigurationToMap s st)"
  unfolding LoadConfigurationToMap_def Let_def
  by (intro maps_valid_if maps_valid_Update)

lemma find_configuration_valid:
  assumes "maps_valid st" "find_configuration st name = Some (codec, strategy)"
  shows "IsValidCodecConfiguration codec \<and> IsValidStrategyConfiguration strategy"
  using assms by (force simp: find_configuration_def maps_valid_def split: option.splits
      dest: map_of_SomeD)

definition allowed_strategies :: "(AudioLocation \<times> u8 \<times> u8) set" where
  "allowed_strategies =
     {(kStereoAudio, 2, 1), (kStereoAudio, 1, 2), (kStereoAudio, 0, 2), (kMonoAudio, 1, 1)}"

lemma strategy_allowed:
  "IsValidStrategyConfiguration s \<Longrightarrow>
     (GetAudioLocation (the (strat_audioLocation s)), the (strat_connectedDevice s),
      the (strat_channelCount s)) \<in> allowed_strategies"
  by (auto simp: IsValidStrategyConfiguration_def allowed_strategies_def split: if_splits)

definition unicast_wf :: "UnicastCapability \<Rightarrow> bool" where
  "unicast_wf u \<longleftrightarrow>
     u = unknown_unicast
   \<or> (uni_supportedChannel u, uni_deviceCount u, uni_channelCountPerDevice u) \<in> allowed_strategies
     \<and> (\<exists>f d n. let frame = \<lparr>fcap_samplingFrequencyHz = [f], fcap_frameDurationUs = [d],
                            fcap_octetsPerFrame = [n]\<rparr> in
          uni_codecType u = CT_LC3 \<and> uni_leAudioCodecCapabilities u = lc3Capabilities frame
        \<or> uni_codecType u \<in> {CT_APTX_ADAPTIVE_LE, CT_APTX_ADAPTIVE_LEX}
          \<and> uni_leAudioCodecCapabilities u = aptxAdaptiveLeCapabilities frame)"

definition broadcast_wf :: "BroadcastCapability \<Rightarrow> bool" where
  "broadcast_wf b \<longleftrightarrow>
     b = unknown_broadcast
   \<or> bcast_codecType b = CT_LC3
     \<and> (\<exists>devices. (bcast_supportedChannel b, devices, bcast_channelCountPerStream b) \<in> allowed_strategies)
     \<and> (\<exists>cap. bcast_leAudioCodecCapabilities b = Some [Some cap])"

lemma GetUnicastCapability_wf: "maps_valid st \<Longrightarrow> unicast_wf (GetUnicastCapability st name)"
  by (auto simp: GetUnicastCapability_def unicast_wf_def Let_def ComposeUnicastCapability_def
      ComposeLc3Capability_def ComposeAptxAdaptiveLeCapability_def
      dest!: find_configuration_valid strategy_allowed split: option.splits)

lemma GetBroadcastCapability_wf: "maps_valid st \<Longrightarrow> broadcast_wf (GetBroadcastCapability st name)"
  by (auto simp: GetBroadcastCapability_def broadcast_wf_def Let_def ComposeBroadcastCapability_def
      dest!: find_configuration_valid strategy_allowed split: option.splits)

definition capability_setting_wf :: "LeAudioCodecCapabilitiesSetting \<Rightarrow> bool" where
  "capability_setting_wf c \<longleftrightarrow>
     unicast_wf (unicastEncodeCapability c) \<and> unicast_wf (unicastDecodeCapability c)
   \<and> broadcast_wf (broadcastCapability c)
   \<and> (uni_codecType (unicastEncodeCapability c) \<noteq> CT_UNKNOWN
      \<or> uni_codecType (unicastDecodeCapability c) \<noteq> CT_UNKNOWN
      \<or> bcast_codecType (broadcastCapability c) \<noteq> CT_UNKNOWN)"

lemma ComposeLeAudioCodecCapabilities_wf:
  assumes "maps_valid st"
  shows "c \<in> set (ComposeLeAudioCodecCapabilities st ss) \<Longrightarrow> capability_setting_wf c"
proof (induction ss)
  case (Cons s ss)
  have "broadcast_wf (case sc_broadcast s of None \<Rightarrow> unknown_broadcast | Some b \<Rightarrow> GetBroadcastCapability st b)"
    using GetBroadcastCapability_wf [OF assms] by (auto simp: broadcast_wf_def split: option.splits)
  with Cons GetUnicastCapability_wf [OF assms] show ?case
    by (auto simp: capability_setting_wf_def Let_def split: if_splits)
qed simp

text \<open>
  Well-formedness of the capabilities. Every capability reported for a scenario has a known
  codec on one side at least; a unicast side is unknown, or LC3 or aptX adaptive with one rate,
  one duration, one frame size and one of the four strategies the file format allows; a
  broadcast side is unknown or LC3. So it is in every later call, whatever it is given.
\<close>

theorem GetLeAudioCodecCapabilities_wf:
  assumes "\<forall>c \<in> set (leAudioCodecCapabilities st). capability_setting_wf c"
    and "GetLeAudioCodecCapabilities setting st = (caps, st')"
  shows "(\<forall>c \<in> set caps. capability_setting_wf c)
       \<and> (caps \<noteq> [] \<longrightarrow> GetLeAudioCodecCapabilities setting' st' = (caps, st'))"
proof (cases "leAudioCodecCapabilities st = [] \<and> setting \<noteq> None")
  case True
  then obtain s where s: "setting = Some s" and empty: "leAudioCodecCapabilities st = []" by auto
  define st1 where "st1 = LoadConfigurationToMap s (st\<lparr>isInvalidFileContent := True\<rparr>)"
  have "caps = [] \<or> caps = ComposeLeAudioCodecCapabilities st1 (supported_scenarios st1)
      \<and> leAudioCodecCapabilities st' = caps"
    using assms(2) by (auto simp: GetLeAudioCodecCapabilities_def s empty Let_def st1_def split: if_splits)
  moreover have "maps_valid st1" unfolding st1_def by (rule LoadConfigurationToMap_valid)
  ultimately show ?thesis
    using ComposeLeAudioCodecCapabilities_wf by (auto simp: GetLeAudioCodecCapabilities_def)
next
  case False
  with assms show ?thesis
    by (auto simp: GetLeAudioCodecCapabilities_def Let_def split: if_splits option.splits)
qed

section \<open>The two stores\<close>

text \<open>The states of the provider that the two queries lead to, with any file at each call.\<close>

inductive codecs_reachable :: "aidl_numbers \<Rightarrow> CodecInfo \<Rightarrow> codecs_provider \<Rightarrow> bool"
  for nums :: aidl_numbers and info0 :: CodecInfo where
  initial: "codecs_reachable nums info0 codecs_provider_initial"
| capabilities: "codecs_reachable nums info0 st \<Longrightarrow>
    GetLeAudioCodecCapabilities (ParseFromLeAudioOffloadSettingFile read st) st = (caps, st') \<Longrightarrow>
    codecs_reachable nums info0 st'"
| information: "codecs_reachable nums info0 st \<Longrightarrow>
    GetLeAudioCodecInfo nums info0 (ParseFromLeAudioOffloadSettingFile read st) st = (infos, st') \<Longrightarrow>
    codecs_reachable nums info0 st'"

lemma LoadConfigurationToMap_stores:
  "leAudioCodecCapabilities (LoadConfigurationToMap s st) = []
 \<and> session_codecs_map (LoadConfigurationToMap s st) = []"
  by (simp add: LoadConfigurationToMap_def ClearLeAudioCodecCapabilities_def Let_def
      UpdateConfigurationsToMap_def UpdateCodecConfigurationsToMap_def
      UpdateStrategyConfigurationsToMap_def)

lemma GetLeAudioCodecCapabilities_stores:
  "GetLeAudioCodecCapabilities setting st = (caps, st') \<Longrightarrow>
     leAudioCodecCapabilities st = [] \<or> session_codecs_map st = [] \<Longrightarrow>
     leAudioCodecCapabilities st' = [] \<or> session_codecs_map st' = []"
  using LoadConfigurationToMap_stores
  by (auto simp: GetLeAudioCodecCapabilities_def Let_def split: if_splits option.splits)

lemma GetLeAudioCodecInfo_stores:
  "GetLeAudioCodecInfo nums info0 setting st = (infos, st') \<Longrightarrow>
     leAudioCodecCapabilities st = [] \<or> session_codecs_map st = [] \<Longrightarrow>
     leAudioCodecCapabilities st' = [] \<or> session_codecs_map st' = []"
  using LoadConfigurationToMap_stores
  by (auto simp: GetLeAudioCodecInfo_def Let_def split: if_splits option.splits)

lemma codecs_reachable_stores:
  "codecs_reachable nums info0 st \<Longrightarrow> leAudioCodecCapabilities st = [] \<or> session_codecs_map st = []"
  by (induction rule: codecs_reachable.induct)
     (auto simp: codecs_provider_initial_def dest: GetLeAudioCodecCapabilities_stores
       GetLeAudioCodecInfo_stores)

text \<open>
  The two stores exclude each other. In every reachable state of the provider the
  capabilities or the codec information are empty. Once capabilities are loaded they stay, and
  no query of the codec information finds anything any more, whatever the file holds; loading
  the capabilities drops codec information that was loaded before.
\<close>

theorem codecs_stores_exclusive:
  assumes "codecs_reachable nums info0 st"
  shows "(leAudioCodecCapabilities st = [] \<or> session_codecs_map st = [])
   \<and> (leAudioCodecCapabilities st \<noteq> [] \<longrightarrow>
        (\<forall>read infos st'. GetLeAudioCodecInfo nums info0 (ParseFromLeAudioOffloadSettingFile read st) st
            = (infos, st') \<longrightarrow>
          infos = [] \<and> leAudioCodecCapabilities st' = leAudioCodecCapabilities st))
   \<and> (\<forall>setting caps st'. GetLeAudioCodecCapabilities setting st = (caps, st') \<and> caps \<noteq> [] \<longrightarrow>
        leAudioCodecCapabilities st' = caps \<and> session_codecs_map st' = [])"
proof (intro conjI impI allI)
  note stores = codecs_reachable_stores [OF assms]
  then show "leAudioCodecCapabilities st = [] \<or> session_codecs_map st = []" .
  {
    fix read infos st'
    assume "leAudioCodecCapabilities st \<noteq> []"
      and "GetLeAudioCodecInfo nums info0 (ParseFromLeAudioOffloadSettingFile read st) st = (infos, st')"
    with stores show "infos = []" "leAudioCodecCapabilities st' = leAudioCodecCapabilities st"
      by (auto simp: ParseFromLeAudioOffloadSettingFile_def GetLeAudioCodecInfo_def)
  }
  fix setting caps st'
  assume call: "GetLeAudioCodecCapabilities setting st = (caps, st') \<and> caps \<noteq> []"
  then show caps: "leAudioCodecCapabilities st' = caps"
    by (auto simp: GetLeAudioCodecCapabilities_def Let_def split: if_splits option.splits)
  from call stores have "leAudioCodecCapabilities st' = [] \<or> session_codecs_map st' = []"
    using GetLeAudioCodecCapabilities_stores by blast
  with caps call show "session_codecs_map st' = []" by auto
qed

definition example_offload_setting :: LeAudioOffloadSetting where
  "example_offload_setting =
     \<lparr>scenarioList = [[\<lparr>sc_encode = Some ''OneChan'', sc_decode = Some ''invalid'', sc_broadcast = None\<rparr>]],
      configurationList = [[\<lparr>scfg_name = Some ''OneChan'', scfg_codecConfiguration = Some ''LC3_48'',
                             scfg_strategyConfiguration = Some ''STEREO''\<rparr>]],
      codecConfigurationList =
        [[\<lparr>scc_name = Some ''LC3_48'', scc_codec = Some setting_LC3, scc_samplingFrequency = Some 48000,
           scc_frameDurationUs = Some 10000, scc_octetsPerCodecFrame = Some 120\<rparr>]],
      strategyConfigurationList =
        [[\<lparr>strat_name = Some ''STEREO'', strat_audioLocation = Some setting_STEREO,
           strat_connectedDevice = Some 2, strat_channelCount = Some 1\<rparr>]]\<rparr>"

lemma example_capabilities:
  "fst (GetLeAudioCodecCapabilities (Some example_offload_setting) codecs_provider_initial) =
     [\<lparr>unicastEncodeCapability =
         \<lparr>uni_codecType = CT_LC3, uni_supportedChannel = AL_both, uni_deviceCount = 2,
          uni_channelCountPerDevice = 1,
          uni_leAudioCodecCapabilities = lc3Capabilities
            \<lparr>fcap_samplingFrequencyHz = [48000], fcap_frameDurationUs = [10000],
             fcap_octetsPerFrame = [120]\<rparr>\<rparr>,
       unicastDecodeCapability = unknown_unicast, broadcastCapability = unknown_broadcast\<rparr>]"
  by code_simp

theorem GetLeAudioCodecCapabilities_wf_witness:
  "list_all capability_setting_wf
     (fst (GetLeAudioCodecCapabilities (Some example_offload_setting) codecs_provider_initial))"
  using GetLeAudioCodecCapabilities_wf [of codecs_provider_initial, OF _ prod.collapse [symmetric]]
  by (simp add: codecs_provider_initial_def list_all_iff)

definition example_capabilities_loaded :: codecs_provider where
  "example_capabilities_loaded =
     snd (GetLeAudioCodecCapabilities (Some example_offload_setting) codecs_provider_initial)"

theorem codecs_stores_exclusive_witness:
  "\<forall>read nums info0.
     leAudioCodecCapabilities example_capabilities_loaded \<noteq> []
   \<and> fst (GetLeAudioCodecInfo nums info0
        (ParseFromLeAudioOffloadSettingFile read example_capabilities_loaded) example_capabilities_loaded) = []"
proof (intro allI)
  fix read nums info0
  define st where "st = example_capabilities_loaded"
  then have st: "st = snd (GetLeAudioCodecCapabilities (Some example_offload_setting) codecs_provider_initial)"
    by (simp add: example_capabilities_loaded_def)
  have parse: "ParseFromLeAudioOffloadSettingFile (Some example_offload_setting) codecs_provider_initial
      = Some example_offload_setting"
    by (simp add: ParseFromLeAudioOffloadSettingFile_def codecs_provider_initial_def)
  have reach: "codecs_reachable nums info0 st"
    unfolding st
    by (rule codecs_reachable.capabilities [where read = "Some example_offload_setting",
          OF codecs_reachable.initial, unfolded parse, OF prod.collapse [symmetric]])
  have "GetLeAudioCodecCapabilities (Some example_offload_setting) codecs_provider_initial =
      (fst (GetLeAudioCodecCapabilities (Some example_offload_setting) codecs_provider_initial), st)"
    by (simp add: st)
  moreover have "fst (GetLeAudioCodecCapabilities (Some example_offload_setting) codecs_provider_initial) \<noteq> []"
    by (simp add: example_capabilities)
  moreover have "leAudioCodecCapabilities st
      = fst (GetLeAudioCodecCapabilities (Some example_offload_setting) codecs_provider_initial)"
    using codecs_stores_exclusive [OF codecs_reachable.initial [of nums info0]] calculation by blast
  ultimately have "leAudioCodecCapabilities st \<noteq> []" by simp
  with codecs_stores_exclusive [OF reach] prod.collapse have "leAudioCodecCapabilities st \<noteq> []
      \<and> fst (GetLeAudioCodecInfo nums info0 (ParseFromLeAudioOffloadSettingFile read st) st) = []"
    by metis
  then show "leAudioCodecCapabilities example_capabilities_loaded \<noteq> []
   \<and> fst (GetLeAudioCodecInfo nums info0
        (ParseFromLeAudioOffloadSettingFile read example_capabilities_loaded) example_capabilities_loaded) = []"
    by (simp add: st_def)
qed

end
