(* ===== verification/LeAudio_Settings.thy ===== *)
theory LeAudio_Settings
  imports LeAudio_Types "HOL-Library.AList"
begin

text \<open>
  The provider of unicast configuration settings
  (\<open>utils/aidl_session/BluetoothLeAudioAseConfigurationSettingProvider.cpp\<close>). Its two files are
  flatbuffers tables; the records below are the tables of
  \<open>utils/le_audio_configuration_set/*.fbs\<close>, whose required fields the flatbuffers parser
  guarantees. Reading and parsing a file is the parameter \<open>load\<close>: \<open>None\<close> for a file that
  cannot be loaded or does not conform to its schema.
\<close>

section \<open>The tables\<close>

record FlatCodecSpecificConfiguration =
  fparam_type :: u8
  fparam_compound_value :: "u8 list option"

record FlatSubConfiguration =
  fsub_direction :: u8
  fsub_coding_format :: u8
  fsub_vendor_company_id :: u16
  fsub_vendor_codec_id :: u16
  fsub_codec_configuration :: "FlatCodecSpecificConfiguration list"

record FlatCodecConfiguration =
  fcodec_name :: string
  fcodec_subconfigurations :: "FlatSubConfiguration list"

record FlatQosConfiguration =
  fqos_name :: string
  fqos_target_latency :: u8
  fqos_retransmission_number :: u8
  fqos_max_transport_latency :: u16

record FlatConfiguration =
  fcfg_name :: string
  fcfg_codec_config_name :: string
  fcfg_qos_config_name :: "string list"

record FlatConfigurations =
  froot_configurations :: "FlatConfiguration list"
  froot_codec_configurations :: "FlatCodecConfiguration list"
  froot_qos_configurations :: "FlatQosConfiguration list"

record FlatScenario =
  fscen_name :: string
  fscen_configurations :: "string list"

datatype CodecLocation = HOST | ADSP | CONTROLLER

section \<open>Constants\<close>

definition kIsoDataPathHci :: u8 where
  "kIsoDataPathHci = 0x00"
definition kIsoDataPathPlatformDefault :: u8 where
  "kIsoDataPathPlatformDefault = 0x01"
definition kLeAudioDirectionSink :: u8 where
  "kLeAudioDirectionSink = 0x01"
definition kLeAudioDirectionSource :: u8 where
  "kLeAudioDirectionSource = 0x02"

definition sampling_freq_map :: "(u8 \<times> SamplingFrequency) list" where
  "sampling_freq_map =
     [(0x01, HZ8000), (0x03, HZ16000), (0x05, HZ24000), (0x06, HZ32000), (0x07, HZ44100),
      (0x08, HZ48000)]"

definition frame_duration_map :: "(u8 \<times> FrameDuration) list" where
  "frame_duration_map = [(0x00, US7500), (0x01, US10000)]"

fun kLeAudioLocation :: "ChannelLocation \<Rightarrow> u32" where
  "kLeAudioLocation NOT_ALLOWED = 0x00000000"
| "kLeAudioLocation FRONT_LEFT = 0x00000001"
| "kLeAudioLocation FRONT_RIGHT = 0x00000002"
| "kLeAudioLocation FRONT_CENTER = 0x00000004"
| "kLeAudioLocation LOW_FREQUENCY_EFFECTS_1 = 0x00000008"
| "kLeAudioLocation BACK_LEFT = 0x00000010"
| "kLeAudioLocation BACK_RIGHT = 0x00000020"
| "kLeAudioLocation FRONT_LEFT_OF_CENTER = 0x00000040"
| "kLeAudioLocation FRONT_RIGHT_OF_CENTER = 0x00000080"
| "kLeAudioLocation BACK_CENTER = 0x00000100"
| "kLeAudioLocation LOW_FREQUENCY_EFFECTS_2 = 0x00000200"
| "kLeAudioLocation SIDE_LEFT = 0x00000400"
| "kLeAudioLocation SIDE_RIGHT = 0x00000800"
| "kLeAudioLocation TOP_FRONT_LEFT = 0x00001000"
| "kLeAudioLocation TOP_FRONT_RIGHT = 0x00002000"
| "kLeAudioLocation TOP_FRONT_CENTER = 0x00004000"
| "kLeAudioLocation TOP_CENTER = 0x00008000"
| "kLeAudioLocation TOP_BACK_LEFT = 0x00010000"
| "kLeAudioLocation TOP_BACK_RIGHT = 0x00020000"
| "kLeAudioLocation TOP_SIDE_LEFT = 0x00040000"
| "kLeAudioLocation TOP_SIDE_RIGHT = 0x00080000"
| "kLeAudioLocation TOP_BACK_CENTER = 0x00100000"
| "kLeAudioLocation BOTTOM_FRONT_CENTER = 0x00200000"
| "kLeAudioLocation BOTTOM_FRONT_LEFT = 0x00400000"
| "kLeAudioLocation BOTTOM_FRONT_RIGHT = 0x00800000"
| "kLeAudioLocation FRONT_LEFT_WIDE = 0x01000000"
| "kLeAudioLocation FRONT_RIGHT_WIDE = 0x02000000"
| "kLeAudioLocation LEFT_SURROUND = 0x04000000"
| "kLeAudioLocation RIGHT_SURROUND = 0x08000000"

definition audio_channel_locations :: "ChannelLocation list" where
  "audio_channel_locations =
     [NOT_ALLOWED, FRONT_LEFT, FRONT_RIGHT, FRONT_CENTER, LOW_FREQUENCY_EFFECTS_1, BACK_LEFT,
      BACK_RIGHT, FRONT_LEFT_OF_CENTER, FRONT_RIGHT_OF_CENTER, BACK_CENTER,
      LOW_FREQUENCY_EFFECTS_2, SIDE_LEFT, SIDE_RIGHT, TOP_FRONT_LEFT, TOP_FRONT_RIGHT,
      TOP_FRONT_CENTER, TOP_CENTER, TOP_BACK_LEFT, TOP_BACK_RIGHT, TOP_SIDE_LEFT,
      TOP_SIDE_RIGHT, TOP_BACK_CENTER, BOTTOM_FRONT_CENTER, BOTTOM_FRONT_LEFT,
      BOTTOM_FRONT_RIGHT, FRONT_LEFT_WIDE, FRONT_RIGHT_WIDE, LEFT_SURROUND, RIGHT_SURROUND]"

definition audio_channel_allocation_map :: "aidl_numbers \<Rightarrow> (u32 \<times> u32) list" where
  "audio_channel_allocation_map nums =
     map (\<lambda>l. (kLeAudioLocation l, num_AudioChannelAllocation nums l)) audio_channel_locations"

section \<open>Codec parameters\<close>

definition stream_to_uint8 :: "u8 list \<Rightarrow> le_fault + u8" where
  "stream_to_uint8 p = (case p of b0 # _ \<Rightarrow> Inr b0 | [] \<Rightarrow> Inl Out_of_range)"

definition stream_to_uint16 :: "u8 list \<Rightarrow> le_fault + u16" where
  "stream_to_uint16 p =
     (case p of b0 # b1 # _ \<Rightarrow> Inr (ucast b0 + push_bit 8 (ucast b1)) | _ \<Rightarrow> Inl Out_of_range)"

definition stream_to_uint32 :: "u8 list \<Rightarrow> le_fault + u32" where
  "stream_to_uint32 p =
     (case p of
        b0 # b1 # b2 # b3 # _ \<Rightarrow>
          Inr (ucast b0 + push_bit 8 (ucast b1) + push_bit 16 (ucast b2) + push_bit 24 (ucast b3))
      | _ \<Rightarrow> Inl Out_of_range)"

definition LookupCodecSpecificParam ::
  "FlatCodecSpecificConfiguration list \<Rightarrow> u8 \<Rightarrow> FlatCodecSpecificConfiguration option" where
  "LookupCodecSpecificParam params type = List.find (\<lambda>csc. fparam_type csc = type) params"

text \<open>A parameter that is not listed keeps its initial value 0.\<close>

definition read_param ::
  "(u8 list \<Rightarrow> le_fault + 'w::zero) \<Rightarrow> FlatCodecSpecificConfiguration list \<Rightarrow> u8 \<Rightarrow> le_fault + 'w" where
  "read_param stream_to params type =
     (case LookupCodecSpecificParam params type of
        None \<Rightarrow> Inr 0
      | Some param \<Rightarrow>
          (case fparam_compound_value param of
             None \<Rightarrow> Inl Null_dereference
           | Some bytes \<Rightarrow> stream_to bytes))"

definition populateAudioChannelAllocation :: "aidl_numbers \<Rightarrow> u32 \<Rightarrow> u32" where
  "populateAudioChannelAllocation nums audio_location =
     fold (\<lambda>(allocation, bitmask) acc.
             if audio_location AND allocation \<noteq> 0 then acc OR bitmask else acc)
       (audio_channel_allocation_map nums) 0"

definition option_list :: "'a option \<Rightarrow> 'a list" where
  "option_list r = (case r of None \<Rightarrow> [] | Some x \<Rightarrow> [x])"

definition populateConfigurationData ::
  "aidl_numbers \<Rightarrow> FlatCodecSpecificConfiguration list
     \<Rightarrow> le_fault + CodecSpecificConfigurationLtv list" where
  "populateConfigurationData nums params =
     or_fault (read_param stream_to_uint8 params 0x01) (\<lambda>sampling_frequency.
     or_fault (read_param stream_to_uint8 params 0x02) (\<lambda>frame_duration.
     or_fault (read_param stream_to_uint32 params 0x03) (\<lambda>audio_channel_allocation.
     or_fault (read_param stream_to_uint16 params 0x04) (\<lambda>octets_per_codec_frame.
     or_fault (read_param stream_to_uint8 params 0x05) (\<lambda>codec_frames_blocks_per_sdu.
       Inr (map samplingFrequency (option_list (map_of sampling_freq_map sampling_frequency))
          @ map frameDuration (option_list (map_of frame_duration_map frame_duration))
          @ [audioChannelAllocation (populateAudioChannelAllocation nums audio_channel_allocation),
             octetsPerCodecFrame (uint octets_per_codec_frame),
             codecFrameBlocksPerSDU (uint codec_frames_blocks_per_sdu)]))))))"

text \<open>
  A configuration that names no QoS entry of the file reaches the functions below with a null
  pointer, which they dereference: the \<open>None\<close> of their last argument.
\<close>

definition populateAseConfiguration ::
  "aidl_numbers \<Rightarrow> FlatSubConfiguration \<Rightarrow> FlatQosConfiguration option
     \<Rightarrow> le_fault + LeAudioAseConfiguration" where
  "populateAseConfiguration nums subconfig qos_cfg =
     (case qos_cfg of
        None \<Rightarrow> Inl Null_dereference
      | Some qos \<Rightarrow>
          or_fault (populateConfigurationData nums (fsub_codec_configuration subconfig)) (\<lambda>data.
            Inr \<lparr>targetLatency =
                   (if fqos_target_latency qos = 0x02 then BALANCED_LATENCY_RELIABILITY
                    else if fqos_target_latency qos = 0x03 then HIGHER_RELIABILITY
                    else if fqos_target_latency qos = 0x01 then LOWER
                    else TL_UNDEFINED),
                 targetPhy = TWO_M,
                 ase_codecId =
                   Some (if fsub_coding_format subconfig = num_LC3 nums
                         then CodecId_core (unat (num_LC3 nums))
                         else CodecId_vendor (unat (fsub_vendor_company_id subconfig))
                                (unat (fsub_vendor_codec_id subconfig))),
                 ase_codecConfiguration = data\<rparr>))"

definition populateAseQosConfiguration :: "FlatQosConfiguration \<Rightarrow> LeAudioAseQosConfiguration" where
  "populateAseQosConfiguration qos =
     \<lparr>qos_maxTransportLatencyMs = uint (fqos_max_transport_latency qos),
      qos_retransmissionNum = uint (fqos_retransmission_number qos)\<rparr>"

fun data_path_of :: "CodecLocation \<Rightarrow> LeAudioDataPathConfiguration" where
  "data_path_of ADSP = \<lparr>path_isTransparent = True, path_dataPathId = kIsoDataPathPlatformDefault\<rparr>"
| "data_path_of HOST = \<lparr>path_isTransparent = True, path_dataPathId = kIsoDataPathHci\<rparr>"
| "data_path_of CONTROLLER = \<lparr>path_isTransparent = False, path_dataPathId = kIsoDataPathPlatformDefault\<rparr>"

definition SetConfigurationFromFlatSubconfig ::
  "aidl_numbers \<Rightarrow> FlatSubConfiguration \<Rightarrow> FlatQosConfiguration option \<Rightarrow> CodecLocation
     \<Rightarrow> le_fault + AseDirectionConfiguration" where
  "SetConfigurationFromFlatSubconfig nums subconfig qos_cfg location =
     or_fault (populateAseConfiguration nums subconfig qos_cfg) (\<lambda>ase.
       case qos_cfg of
         None \<Rightarrow> Inl Null_dereference
       | Some qos \<Rightarrow>
           Inr \<lparr>aseConfiguration = ase,
                qosConfiguration = Some (populateAseQosConfiguration qos),
                dataPathConfiguration = Some (data_path_of location)\<rparr>)"

section \<open>One configuration\<close>

type_synonym direction_pair = "direction_list \<times> direction_list"

text \<open>Pairs of lists are in the order source, sink, as in the map of configurations.\<close>

fun process_subconfigs ::
  "aidl_numbers \<Rightarrow> FlatQosConfiguration option \<Rightarrow> FlatQosConfiguration option \<Rightarrow> CodecLocation
     \<Rightarrow> FlatSubConfiguration list \<Rightarrow> direction_pair \<Rightarrow> le_fault + direction_pair" where
  "process_subconfigs nums qos_sink qos_source location [] acc = Inr acc"
| "process_subconfigs nums qos_sink qos_source location (subconfig # rest) (source, sink) =
     (if fsub_direction subconfig = kLeAudioDirectionSink
      then or_fault (SetConfigurationFromFlatSubconfig nums subconfig qos_sink location) (\<lambda>d.
             process_subconfigs nums qos_sink qos_source location rest (source, sink @ [Some d]))
      else or_fault (SetConfigurationFromFlatSubconfig nums subconfig qos_source location) (\<lambda>d.
             process_subconfigs nums qos_sink qos_source location rest (source @ [Some d], sink)))"

definition default_qos :: string where
  "default_qos = ''QoS_Config_Balanced_Reliability''"

fun qos_keys :: "string list \<Rightarrow> string \<times> string" where
  "qos_keys [] = (default_qos, default_qos)"
| "qos_keys [k] = (k, k)"
| "qos_keys (k1 # k2 # _) = (k1, k2)"

definition PopulateAseConfigurationFromFlat ::
  "aidl_numbers \<Rightarrow> FlatConfiguration option \<Rightarrow> FlatCodecConfiguration list
     \<Rightarrow> FlatQosConfiguration list \<Rightarrow> CodecLocation \<Rightarrow> direction_pair \<Rightarrow> le_fault + direction_pair" where
  "PopulateAseConfigurationFromFlat nums flat_cfg codec_cfgs qos_cfgs location acc =
     (case flat_cfg of
        None \<Rightarrow> Inr acc
      | Some cfg \<Rightarrow>
          let (qos_sink_key, qos_source_key) = qos_keys (fcfg_qos_config_name cfg);
              qos_sink_cfg = List.find (\<lambda>q. fqos_name q = qos_sink_key) qos_cfgs;
              qos_source_cfg = List.find (\<lambda>q. fqos_name q = qos_source_key) qos_cfgs;
              codec_cfg = List.find (\<lambda>c. fcodec_name c = fcfg_codec_config_name cfg) codec_cfgs
          in case codec_cfg of
               None \<Rightarrow> Inr acc
             | Some c \<Rightarrow> process_subconfigs nums qos_sink_cfg qos_source_cfg location
                           (fcodec_subconfigurations c) acc)"

section \<open>Loading\<close>

text \<open>The two globals. The flags of a configuration are never filled in: the number 0.\<close>

type_synonym configuration_map = "(string \<times> (direction_list \<times> direction_list \<times> nat)) list"

record settings_state =
  configurations :: configuration_map
  ase_configuration_settings :: "LeAudioAseConfigurationSetting list"

definition settings_initial :: settings_state where
  "settings_initial = \<lparr>configurations = [], ase_configuration_settings = []\<rparr>"

record settings_files =
  load_configurations :: "string \<times> string \<Rightarrow> FlatConfigurations option"
  load_scenarios :: "string \<times> string \<Rightarrow> FlatScenario list option"

fun add_configurations ::
  "aidl_numbers \<Rightarrow> FlatCodecConfiguration list \<Rightarrow> FlatQosConfiguration list \<Rightarrow> CodecLocation
     \<Rightarrow> FlatConfiguration list \<Rightarrow> configuration_map \<Rightarrow> le_fault + configuration_map" where
  "add_configurations nums codec_cfgs qos_cfgs location [] m = Inr m"
| "add_configurations nums codec_cfgs qos_cfgs location (flat_cfg # rest) m =
     or_fault (PopulateAseConfigurationFromFlat nums (Some flat_cfg) codec_cfgs qos_cfgs location ([], []))
       (\<lambda>(source, sink).
          add_configurations nums codec_cfgs qos_cfgs location rest
            (if source = [] \<and> sink = [] then m
             else AList.update (fcfg_name flat_cfg) (source, sink, 0) m))"

definition LoadConfigurationsFromFiles ::
  "aidl_numbers \<Rightarrow> settings_files \<Rightarrow> string \<times> string \<Rightarrow> CodecLocation \<Rightarrow> settings_state
     \<Rightarrow> le_fault + bool \<times> settings_state" where
  "LoadConfigurationsFromFiles nums files file location st =
     (case load_configurations files file of
        None \<Rightarrow> Inr (False, st)
      | Some root \<Rightarrow>
          if froot_qos_configurations root = [] then Inr (False, st)
          else if froot_codec_configurations root = [] then Inr (False, st)
          else if froot_configurations root = [] then Inr (False, st)
          else or_fault (add_configurations nums (froot_codec_configurations root)
                           (froot_qos_configurations root) location (froot_configurations root)
                           (configurations st))
                 (\<lambda>m. Inr (True, st\<lparr>configurations := m\<rparr>)))"

definition context_of_scenario :: "aidl_numbers \<Rightarrow> string \<Rightarrow> u32" where
  "context_of_scenario nums scenario_name =
     (let c = num_AudioContext nums in
      if scenario_name = ''Media''
      then c ALERTS OR c INSTRUCTIONAL OR c NOTIFICATIONS OR c EMERGENCY_ALARM OR c UNSPECIFIED OR c MEDIA
      else if scenario_name = ''Conversational'' then c RINGTONE_ALERTS OR c CONVERSATIONAL
      else if scenario_name = ''Live'' then c LIVE_AUDIO
      else if scenario_name = ''Game'' then c GAME
      else if scenario_name = ''VoiceAssistants'' then c VOICE_ASSISTANTS
      else 0)"

definition setting_of :: "u32 \<Rightarrow> direction_list \<times> direction_list \<times> nat \<Rightarrow> LeAudioAseConfigurationSetting" where
  "setting_of context entry =
     (case entry of (source, sink, flags) \<Rightarrow>
        \<lparr>setting_audioContext = context, setting_packing = 0,
         sinkAseConfiguration = Some sink, sourceAseConfiguration = Some source,
         setting_flags = Some flags\<rparr>)"

fun settings_of_scenario ::
  "u32 \<Rightarrow> configuration_map \<Rightarrow> string list \<Rightarrow> LeAudioAseConfigurationSetting list" where
  "settings_of_scenario context m [] = []"
| "settings_of_scenario context m (config_name # rest) =
     (case map_of m config_name of
        None \<Rightarrow> settings_of_scenario context m rest
      | Some entry \<Rightarrow> setting_of context entry # settings_of_scenario context m rest)"

definition LoadScenariosFromFiles ::
  "aidl_numbers \<Rightarrow> settings_files \<Rightarrow> string \<times> string \<Rightarrow> settings_state \<Rightarrow> bool \<times> settings_state" where
  "LoadScenariosFromFiles nums files file st =
     (case load_scenarios files file of
        None \<Rightarrow> (False, st)
      | Some flat_scenarios \<Rightarrow>
          if flat_scenarios = [] then (False, st)
          else (True, st\<lparr>ase_configuration_settings :=
                  fold (\<lambda>scenario acc. acc @ settings_of_scenario
                          (context_of_scenario nums (fscen_name scenario)) (configurations st)
                          (fscen_configurations scenario))
                    flat_scenarios (ase_configuration_settings st)\<rparr>))"

fun load_all_configurations ::
  "aidl_numbers \<Rightarrow> settings_files \<Rightarrow> (string \<times> string) list \<Rightarrow> CodecLocation \<Rightarrow> settings_state
     \<Rightarrow> le_fault + bool \<times> settings_state" where
  "load_all_configurations nums files [] location st = Inr (True, st)"
| "load_all_configurations nums files (file # rest) location st =
     or_fault (LoadConfigurationsFromFiles nums files file location st) (\<lambda>(ok, st).
       if \<not> ok then Inr (False, st) else load_all_configurations nums files rest location st)"

fun load_all_scenarios ::
  "aidl_numbers \<Rightarrow> settings_files \<Rightarrow> (string \<times> string) list \<Rightarrow> settings_state \<Rightarrow> bool \<times> settings_state" where
  "load_all_scenarios nums files [] st = (True, st)"
| "load_all_scenarios nums files (file # rest) st =
     (let (ok, st) = LoadScenariosFromFiles nums files file st in
      if \<not> ok then (False, st) else load_all_scenarios nums files rest st)"

definition LoadContent ::
  "aidl_numbers \<Rightarrow> settings_files \<Rightarrow> (string \<times> string) list \<Rightarrow> (string \<times> string) list \<Rightarrow> CodecLocation
     \<Rightarrow> settings_state \<Rightarrow> le_fault + bool \<times> settings_state" where
  "LoadContent nums files config_files scenario_files location st =
     or_fault (load_all_configurations nums files config_files location st) (\<lambda>(ok, st).
       if \<not> ok then Inr (False, st) else Inr (load_all_scenarios nums files scenario_files st))"

definition kLeAudioSetConfigs :: "(string \<times> string) list" where
  "kLeAudioSetConfigs =
     [(''/vendor/etc/aidl/le_audio/aidl_audio_set_configurations.bfbs'',
       ''/vendor/etc/aidl/le_audio/aidl_audio_set_configurations.json'')]"

definition kLeAudioSetScenarios :: "(string \<times> string) list" where
  "kLeAudioSetScenarios =
     [(''/vendor/etc/aidl/le_audio/aidl_audio_set_scenarios.bfbs'',
       ''/vendor/etc/aidl/le_audio/aidl_audio_set_scenarios.json'')]"

definition LoadAudioSetConfigurationProviderJson ::
  "aidl_numbers \<Rightarrow> settings_files \<Rightarrow> settings_state \<Rightarrow> le_fault + settings_state" where
  "LoadAudioSetConfigurationProviderJson nums files st =
     (if configurations st = [] \<or> ase_configuration_settings st = []
      then or_fault (LoadContent nums files kLeAudioSetConfigs kLeAudioSetScenarios HOST
                       (st\<lparr>ase_configuration_settings := [], configurations := []\<rparr>))
             (\<lambda>(loaded, st). Inr st)
      else Inr st)"

definition GetLeAudioAseConfigurationSettings ::
  "aidl_numbers \<Rightarrow> settings_files \<Rightarrow> settings_state
     \<Rightarrow> le_fault + LeAudioAseConfigurationSetting list \<times> settings_state" where
  "GetLeAudioAseConfigurationSettings nums files st =
     or_fault (LoadAudioSetConfigurationProviderJson nums files st)
       (\<lambda>st. Inr (ase_configuration_settings st, st))"

end
