(* ===== verification/LeAudio_Offload.thy ===== *)
theory LeAudio_Offload
  imports Provider LeAudio_Settings
begin

text \<open>
  The LE audio offload provider (\<open>hal/LeAudioOffloadAudioProvider.cpp\<close>) apart from its session
  start, which is in \<open>Provider\<close>: the stack asks it for unicast and broadcast configurations,
  and it matches the settings it knows with what the remote device can do and with what the
  stack requires. The two members of the class that the queries use are the record
  \<open>le_provider\<close>; the settings come from \<open>LeAudio_Settings\<close> and \<open>Codec_Db\<close>.
\<close>

record le_provider =
  codec_priority_map :: "CodecId \<rightharpoonup> u32"
  broadcast_settings :: "LeAudioBroadcastConfigurationSetting list"

definition le_provider_new :: le_provider where
  "le_provider_new = \<lparr>codec_priority_map = Map.empty, broadcast_settings = []\<rparr>"

datatype direction = kDirectionSink | kDirectionSource | kDirectionNone

section \<open>Tables\<close>

definition freq_to_support_bitmask_map :: "aidl_numbers \<Rightarrow> (SamplingFrequency \<times> u32) list" where
  "freq_to_support_bitmask_map nums =
     map (\<lambda>f. (f, num_SupportedSamplingFrequencies nums f))
       [HZ8000, HZ11025, HZ16000, HZ22050, HZ24000, HZ32000, HZ48000, HZ88200, HZ96000, HZ176400,
        HZ192000, HZ384000]"

fun cap_to_cfg_tag_map :: "CodecSpecificCapabilitiesLtv \<Rightarrow> CfgTag" where
  "cap_to_cfg_tag_map (supportedSamplingFrequencies _) = Tag_samplingFrequency"
| "cap_to_cfg_tag_map (supportedMaxCodecFramesPerSDU _) = Tag_codecFrameBlocksPerSDU"
| "cap_to_cfg_tag_map (supportedFrameDurations _) = Tag_frameDuration"
| "cap_to_cfg_tag_map (supportedAudioChannelCounts _) = Tag_audioChannelAllocation"
| "cap_to_cfg_tag_map (supportedOctetsPerCodecFrame _ _) = Tag_octetsPerCodecFrame"

definition fduration_to_support_fduration_map :: "aidl_numbers \<Rightarrow> (FrameDuration \<times> u32) list" where
  "fduration_to_support_fduration_map nums =
     map (\<lambda>d. (d, num_SupportedFrameDurations nums d)) [US7500, US10000]"

definition broadcast_sampling_freq_map :: "(int \<times> SamplingFrequency) list" where
  "broadcast_sampling_freq_map = [(16000, HZ16000), (48000, HZ48000), (96000, HZ96000)]"

definition broadcast_frame_duration_map :: "(int \<times> FrameDuration) list" where
  "broadcast_frame_duration_map = [(7500, US7500), (10000, US10000)]"

text \<open>\<open>operator[]\<close> of a map.\<close>

definition map_index :: "'v \<Rightarrow> ('k \<times> 'v) list \<Rightarrow> 'k \<Rightarrow> 'v" where
  "map_index dflt m k = (case map_of m k of None \<Rightarrow> dflt | Some v \<Rightarrow> v)"

section \<open>Matching\<close>

definition setCodecPriority :: "CodecId \<Rightarrow> u32 \<Rightarrow> le_provider \<Rightarrow> binder_status \<times> le_provider" where
  "setCodecPriority codecId priority p =
     (StatusOk, p\<lparr>codec_priority_map := (codec_priority_map p)(codecId \<mapsto> priority)\<rparr>)"

definition isMatchedValidCodec :: "aidl_numbers \<Rightarrow> le_provider \<Rightarrow> CodecId \<Rightarrow> CodecId \<Rightarrow> bool" where
  "isMatchedValidCodec nums p cfg_codec req_codec =
     (case codec_priority_map p cfg_codec of
        Some priority \<Rightarrow>
          if priority = num_CODEC_PRIORITY_DISABLED nums then False else cfg_codec = req_codec
      | None \<Rightarrow> cfg_codec = req_codec)"

definition isCapabilitiesMatchedContext :: "u32 \<Rightarrow> LeAudioDeviceCapabilities \<Rightarrow> bool" where
  "isCapabilitiesMatchedContext setting_context dev_capabilities =
     (case devcap_metadata dev_capabilities of
        None \<Rightarrow> True
      | Some metadata \<Rightarrow>
          list_ex (\<lambda>m. case m of
              Some (preferredAudioContexts context) \<Rightarrow> setting_context AND context \<noteq> 0
            | _ \<Rightarrow> False) metadata)"

definition isMatchedSamplingFreq :: "aidl_numbers \<Rightarrow> SamplingFrequency \<Rightarrow> u32 \<Rightarrow> bool" where
  "isMatchedSamplingFreq nums cfg_freq capability_freq =
     (case map_of (freq_to_support_bitmask_map nums) cfg_freq of
        None \<Rightarrow> False
      | Some bitmask \<Rightarrow> capability_freq AND bitmask \<noteq> 0)"

definition isMatchedFrameDuration :: "aidl_numbers \<Rightarrow> FrameDuration \<Rightarrow> u32 \<Rightarrow> bool" where
  "isMatchedFrameDuration nums cfg_fduration capability_fduration =
     (case map_of (fduration_to_support_fduration_map nums) cfg_fduration of
        None \<Rightarrow> False
      | Some bitmask \<Rightarrow> capability_fduration AND bitmask \<noteq> 0)"

definition isMatchedAudioChannel :: "u32 \<Rightarrow> u32 \<Rightarrow> bool" where
  "isMatchedAudioChannel cfg_channel capability_channel = True"

definition isMatchedCodecFramesPerSDU :: "int \<Rightarrow> int \<Rightarrow> bool" where
  "isMatchedCodecFramesPerSDU cfg_frame_sdu capability_frame_sdu = (cfg_frame_sdu \<le> capability_frame_sdu)"

definition isMatchedOctetsPerCodecFrame :: "int \<Rightarrow> int \<Rightarrow> int \<Rightarrow> bool" where
  "isMatchedOctetsPerCodecFrame cfg_octets cap_min cap_max = (cfg_octets \<ge> cap_min \<and> cfg_octets \<le> cap_max)"

definition cfg_tag_map ::
  "CodecSpecificConfigurationLtv list \<Rightarrow> CfgTag \<rightharpoonup> CodecSpecificConfigurationLtv" where
  "cfg_tag_map codec_cfg = fold (\<lambda>d m. m(cfg_getTag d \<mapsto> d)) codec_cfg Map.empty"

text \<open>
  The configuration found has the tag the capability asks for, so the last clause is never
  used: see \<open>cfg_tag_map_tag\<close>.
\<close>

fun capability_matches ::
  "aidl_numbers \<Rightarrow> CodecSpecificCapabilitiesLtv \<Rightarrow> CodecSpecificConfigurationLtv \<Rightarrow> bool" where
  "capability_matches nums (supportedSamplingFrequencies c) (samplingFrequency f) = isMatchedSamplingFreq nums f c"
| "capability_matches nums (supportedFrameDurations c) (frameDuration d) = isMatchedFrameDuration nums d c"
| "capability_matches nums (supportedAudioChannelCounts c) (audioChannelAllocation a) = isMatchedAudioChannel a c"
| "capability_matches nums (supportedMaxCodecFramesPerSDU c) (codecFrameBlocksPerSDU n) = isMatchedCodecFramesPerSDU n c"
| "capability_matches nums (supportedOctetsPerCodecFrame lo hi) (octetsPerCodecFrame n) = isMatchedOctetsPerCodecFrame n lo hi"
| "capability_matches nums _ _ = False"

fun capabilities_match_map ::
  "aidl_numbers \<Rightarrow> (CfgTag \<rightharpoonup> CodecSpecificConfigurationLtv) \<Rightarrow> CodecSpecificCapabilitiesLtv list \<Rightarrow> bool" where
  "capabilities_match_map nums m [] = True"
| "capabilities_match_map nums m (codec_capability # rest) =
     (case m (cap_to_cfg_tag_map codec_capability) of
        None \<Rightarrow> False
      | Some cfg \<Rightarrow>
          if \<not> capability_matches nums codec_capability cfg then False
          else capabilities_match_map nums m rest)"

definition isCapabilitiesMatchedCodecConfiguration ::
  "aidl_numbers \<Rightarrow> CodecSpecificConfigurationLtv list \<Rightarrow> CodecSpecificCapabilitiesLtv list \<Rightarrow> bool" where
  "isCapabilitiesMatchedCodecConfiguration nums codec_cfg codec_capabilities =
     capabilities_match_map nums (cfg_tag_map codec_cfg) codec_capabilities"

fun requirements_match_map ::
  "(CfgTag \<rightharpoonup> CodecSpecificConfigurationLtv) \<Rightarrow> CodecSpecificConfigurationLtv list \<Rightarrow> bool" where
  "requirements_match_map m [] = True"
| "requirements_match_map m (requirement_cfg # rest) =
     (case m (cfg_getTag requirement_cfg) of
        None \<Rightarrow> False
      | Some cfg \<Rightarrow> if cfg \<noteq> requirement_cfg then False else requirements_match_map m rest)"

definition isMatchedAseConfiguration ::
  "aidl_numbers \<Rightarrow> le_provider \<Rightarrow> LeAudioAseConfiguration \<Rightarrow> LeAudioAseConfiguration \<Rightarrow> bool" where
  "isMatchedAseConfiguration nums p setting_cfg requirement_cfg =
     (let codec_ok =
        (case ase_codecId requirement_cfg of
           None \<Rightarrow> True
         | Some req \<Rightarrow>
             (case ase_codecId setting_cfg of
                None \<Rightarrow> False
              | Some cfg \<Rightarrow> isMatchedValidCodec nums p cfg req))
      in if \<not> codec_ok then False
         else if targetLatency setting_cfg \<noteq> targetLatency requirement_cfg then False
         else requirements_match_map (cfg_tag_map (ase_codecConfiguration setting_cfg))
                (ase_codecConfiguration requirement_cfg))"

definition isMatchedBISConfiguration ::
  "aidl_numbers \<Rightarrow> le_provider \<Rightarrow> LeAudioBisConfiguration \<Rightarrow> LeAudioDeviceCapabilities \<Rightarrow> bool" where
  "isMatchedBISConfiguration nums p bis_cfg dev_capabilities =
     (if \<not> isMatchedValidCodec nums p (bis_codecId bis_cfg) (devcap_codecId dev_capabilities) then False
      else if \<not> isCapabilitiesMatchedCodecConfiguration nums (bis_codecConfiguration bis_cfg)
                  (codecSpecificCapabilities dev_capabilities) then False
      else True)"

section \<open>Unicast configurations\<close>

fun filterCapabilitiesAseDirectionConfiguration ::
  "aidl_numbers \<Rightarrow> le_provider \<Rightarrow> direction_list \<Rightarrow> LeAudioDeviceCapabilities \<Rightarrow> direction_list
     \<Rightarrow> direction_list" where
  "filterCapabilitiesAseDirectionConfiguration nums p [] dev_capabilities valid = valid"
| "filterCapabilitiesAseDirectionConfiguration nums p (None # rest) dev_capabilities valid =
     filterCapabilitiesAseDirectionConfiguration nums p rest dev_capabilities valid"
| "filterCapabilitiesAseDirectionConfiguration nums p (Some d # rest) dev_capabilities valid =
     filterCapabilitiesAseDirectionConfiguration nums p rest dev_capabilities
       (case ase_codecId (aseConfiguration d) of
          None \<Rightarrow> valid
        | Some codec \<Rightarrow>
            if \<not> isMatchedValidCodec nums p codec (devcap_codecId dev_capabilities) then valid
            else if \<not> isCapabilitiesMatchedCodecConfiguration nums
                        (ase_codecConfiguration (aseConfiguration d))
                        (codecSpecificCapabilities dev_capabilities) then valid
            else valid @ [Some d])"

fun filterRequirementAseDirectionConfiguration ::
  "aidl_numbers \<Rightarrow> le_provider \<Rightarrow> direction_list \<Rightarrow> AseDirectionRequirement option list option
     \<Rightarrow> direction_list \<Rightarrow> direction_list" where
  "filterRequirementAseDirectionConfiguration nums p [] requirements valid = valid"
| "filterRequirementAseDirectionConfiguration nums p (d # rest) requirements valid =
     filterRequirementAseDirectionConfiguration nums p rest requirements
       (case requirements of
          None \<Rightarrow> valid @ [d]
        | Some reqs \<Rightarrow>
            (case d of
               None \<Rightarrow> valid
             | Some cfg \<Rightarrow>
                 if list_ex (\<lambda>r. case r of
                        None \<Rightarrow> False
                      | Some requirement \<Rightarrow> isMatchedAseConfiguration nums p (aseConfiguration cfg)
                                              (req_aseConfiguration requirement)) reqs
                 then valid @ [d] else valid))"

definition getCapabilitiesMatchedAseConfigurationSettings ::
  "aidl_numbers \<Rightarrow> le_provider \<Rightarrow> LeAudioAseConfigurationSetting \<Rightarrow> LeAudioDeviceCapabilities
     \<Rightarrow> direction \<Rightarrow> LeAudioAseConfigurationSetting option" where
  "getCapabilitiesMatchedAseConfigurationSettings nums p setting dev_capabilities dir =
     (if \<not> isCapabilitiesMatchedContext (setting_audioContext setting) dev_capabilities then None
      else case (if dir = kDirectionSink then sinkAseConfiguration setting
                 else sourceAseConfiguration setting) of
        None \<Rightarrow> None
      | Some direction_configuration \<Rightarrow>
          let valid = filterCapabilitiesAseDirectionConfiguration nums p direction_configuration dev_capabilities []
          in if valid = [] then None
             else Some \<lparr>setting_audioContext = setting_audioContext setting,
                        setting_packing = setting_packing setting,
                        sinkAseConfiguration = (if dir = kDirectionSink then Some valid else None),
                        sourceAseConfiguration = (if dir = kDirectionSink then None else Some valid),
                        setting_flags = setting_flags setting\<rparr>)"

definition getRequirementMatchedAseConfigurationSettings ::
  "aidl_numbers \<Rightarrow> le_provider \<Rightarrow> LeAudioAseConfigurationSetting \<Rightarrow> LeAudioConfigurationRequirement
     \<Rightarrow> le_fault + LeAudioAseConfigurationSetting option" where
  "getRequirementMatchedAseConfigurationSettings nums p setting requirement =
     (if setting_audioContext setting \<noteq> req_audioContext requirement then Inr None
      else or_fault
        (case sinkAseConfiguration setting of
           Some sink \<Rightarrow> Inr (sink, sinkAseRequirement requirement)
         | None \<Rightarrow>
             (case sourceAseConfiguration setting of
                None \<Rightarrow> Inl Bad_optional_access
              | Some source \<Rightarrow> Inr (source, sourceAseRequirement requirement)))
        (\<lambda>(direction_configuration, direction_requirement).
           let valid = filterRequirementAseDirectionConfiguration nums p direction_configuration
                         direction_requirement []
           in Inr (if valid = [] then None
              else Some \<lparr>setting_audioContext = setting_audioContext setting,
                         setting_packing = setting_packing setting,
                         sinkAseConfiguration =
                           (if sinkAseConfiguration setting \<noteq> None then Some valid else None),
                         sourceAseConfiguration =
                           (if sinkAseConfiguration setting \<noteq> None then None else Some valid),
                         setting_flags = setting_flags setting\<rparr>)))"

text \<open>The capabilities of a direction are an optional whose value the loop over settings takes.\<close>

definition match_capabilities ::
  "aidl_numbers \<Rightarrow> le_provider \<Rightarrow> LeAudioDeviceCapabilities option list option \<Rightarrow> direction
     \<Rightarrow> LeAudioAseConfigurationSetting \<Rightarrow> le_fault + LeAudioAseConfigurationSetting list" where
  "match_capabilities nums p remote dir setting =
     (case remote of
        None \<Rightarrow> Inl Bad_optional_access
      | Some caps \<Rightarrow> Inr (concat (map (\<lambda>c. case c of
            None \<Rightarrow> []
          | Some capability \<Rightarrow> option_list
              (getCapabilitiesMatchedAseConfigurationSettings nums p setting capability dir)) caps)))"

definition match_requirements ::
  "aidl_numbers \<Rightarrow> le_provider \<Rightarrow> LeAudioConfigurationRequirement list
     \<Rightarrow> LeAudioAseConfigurationSetting \<Rightarrow> le_fault + LeAudioAseConfigurationSetting list" where
  "match_requirements nums p requirements setting =
     collect (\<lambda>requirement. or_fault
         (getRequirementMatchedAseConfigurationSettings nums p setting requirement)
         (\<lambda>r. Inr (option_list r))) requirements"

definition getLeAudioAseConfiguration ::
  "aidl_numbers \<Rightarrow> settings_files \<Rightarrow> le_provider \<Rightarrow> LeAudioDeviceCapabilities option list option
     \<Rightarrow> LeAudioDeviceCapabilities option list option \<Rightarrow> LeAudioConfigurationRequirement list
     \<Rightarrow> settings_state \<Rightarrow> le_fault + binder_status \<times> LeAudioAseConfigurationSetting list \<times> settings_state" where
  "getLeAudioAseConfiguration nums files p remoteSink remoteSource requirements st =
     or_fault (GetLeAudioAseConfigurationSettings nums files st) (\<lambda>(settings, st).
       let (dir, remote) =
             (case remoteSink of Some _ \<Rightarrow> (kDirectionSink, remoteSink) | None \<Rightarrow> (kDirectionSource, remoteSource))
       in or_fault (collect (match_capabilities nums p remote dir) settings) (\<lambda>matched.
          or_fault (collect (match_requirements nums p requirements) matched) (\<lambda>result.
            Inr (StatusOk, result, st))))"

section \<open>Quality of service\<close>

definition isMatchedQosRequirement ::
  "LeAudioAseQosConfiguration \<Rightarrow> AseQosDirectionRequirement \<Rightarrow> bool" where
  "isMatchedQosRequirement setting_qos requirement_qos =
     (if qos_retransmissionNum setting_qos \<noteq> qosreq_preferredRetransmissionNum requirement_qos then False
      else if qos_maxTransportLatencyMs setting_qos > qosreq_maxTransportLatencyMs requirement_qos then False
      else True)"

definition empty_qos_pair :: LeAudioAseQosConfigurationPair where
  "empty_qos_pair = \<lparr>sinkQosConfiguration = None, sourceQosConfiguration = None\<rparr>"

text \<open>What the inner loop returns for one entry: \<open>None\<close> to go on, or the answer of the call.\<close>

definition qos_of_direction ::
  "aidl_numbers \<Rightarrow> le_provider \<Rightarrow> direction \<Rightarrow> AseQosDirectionRequirement option
     \<Rightarrow> AseDirectionConfiguration option \<Rightarrow> LeAudioAseQosConfigurationPair option" where
  "qos_of_direction nums p dir requirement cfg =
     (case cfg of
        None \<Rightarrow> None
      | Some d \<Rightarrow>
          (case requirement of
             None \<Rightarrow> Some \<lparr>sinkQosConfiguration = qosConfiguration d,
                           sourceQosConfiguration = qosConfiguration d\<rparr>
           | Some req \<Rightarrow>
               (case qosConfiguration d of
                  None \<Rightarrow> None
                | Some qos \<Rightarrow>
                    if isMatchedAseConfiguration nums p (aseConfiguration d) (qosreq_aseConfiguration req)
                       \<and> isMatchedQosRequirement qos req
                    then Some (if dir = kDirectionSink
                               then empty_qos_pair\<lparr>sinkQosConfiguration := Some qos\<rparr>
                               else empty_qos_pair\<lparr>sourceQosConfiguration := Some qos\<rparr>)
                    else None)))"

fun first_some :: "('a \<Rightarrow> 'b option) \<Rightarrow> 'a list \<Rightarrow> 'b option" where
  "first_some f [] = None"
| "first_some f (x # xs) = (case f x of None \<Rightarrow> first_some f xs | Some y \<Rightarrow> Some y)"

definition qos_of_setting ::
  "aidl_numbers \<Rightarrow> le_provider \<Rightarrow> u32 \<Rightarrow> direction \<Rightarrow> AseQosDirectionRequirement option
     \<Rightarrow> LeAudioAseConfigurationSetting \<Rightarrow> LeAudioAseQosConfigurationPair option" where
  "qos_of_setting nums p context dir requirement setting =
     (if setting_audioContext setting \<noteq> context then None
      else case (if dir = kDirectionSink then sinkAseConfiguration setting
                 else sourceAseConfiguration setting) of
        None \<Rightarrow> None
      | Some direction_configuration \<Rightarrow>
          first_some (qos_of_direction nums p dir requirement) direction_configuration)"

definition getLeAudioAseQosConfiguration ::
  "aidl_numbers \<Rightarrow> settings_files \<Rightarrow> le_provider \<Rightarrow> LeAudioAseQosConfigurationRequirement
     \<Rightarrow> settings_state \<Rightarrow> le_fault + binder_status \<times> LeAudioAseQosConfigurationPair \<times> settings_state" where
  "getLeAudioAseQosConfiguration nums files p req st =
     or_fault (GetLeAudioAseConfigurationSettings nums files st) (\<lambda>(settings, st).
       let (dir, requirement) =
             (case sinkAseQosRequirement req of
                Some r \<Rightarrow> (kDirectionSink, Some r)
              | None \<Rightarrow>
                  (case sourceAseQosRequirement req of
                     Some r \<Rightarrow> (kDirectionSource, Some r)
                   | None \<Rightarrow> (kDirectionNone, None)))
       in Inr (StatusOk,
               (case first_some (qos_of_setting nums p (qosreq_audioContext req) dir requirement) settings of
                  Some pair \<Rightarrow> pair
                | None \<Rightarrow> empty_qos_pair),
               st))"

definition onSinkAseMetadataChanged :: binder_status where
  "onSinkAseMetadataChanged = EX_UNSUPPORTED_OPERATION"

definition onSourceAseMetadataChanged :: binder_status where
  "onSourceAseMetadataChanged = EX_UNSUPPORTED_OPERATION"

section \<open>Broadcast configurations\<close>

definition vector_front :: "'a list \<Rightarrow> le_fault + 'a" where
  "vector_front v = (case v of [] \<Rightarrow> Inl Out_of_range | x # _ \<Rightarrow> Inr x)"

definition broadcast_setting_of ::
  "aidl_numbers \<Rightarrow> CodecInfo \<Rightarrow> le_fault + LeAudioBroadcastConfigurationSetting list" where
  "broadcast_setting_of nums le_codec_info =
     (case ci_transport le_codec_info of
        Transport_leAudio transport \<Rightarrow>
          or_fault (vector_front (le_bitdepth transport)) (\<lambda>octets.
          or_fault (vector_front (le_samplingFrequencyHz transport)) (\<lambda>freq.
          or_fault (vector_front (le_frameDurationUs transport)) (\<lambda>duration.
            let bis_cfg = \<lparr>bis_codecId = ci_id le_codec_info,
                  bis_codecConfiguration =
                    [samplingFrequency (map_index SamplingFrequency_default broadcast_sampling_freq_map freq),
                     octetsPerCodecFrame octets,
                     frameDuration (map_index FrameDuration_default broadcast_frame_duration_map duration),
                     audioChannelAllocation (num_AudioChannelAllocation nums FRONT_CENTER)]\<rparr>
            in Inr [\<lparr>bset_numBis = 1, bset_phy = [TWO_M],
                     subgroupsConfigurations =
                       [\<lparr>bisConfigurations = [\<lparr>subbis_numBis = 1, bisConfiguration = bis_cfg\<rparr>]\<rparr>]\<rparr>])))
      | _ \<Rightarrow> Inr [])"

definition getBroadcastSettings ::
  "aidl_numbers \<Rightarrow> CodecInfo list \<Rightarrow> le_provider \<Rightarrow> le_fault + le_provider" where
  "getBroadcastSettings nums db_codec_info p =
     (if broadcast_settings p \<noteq> [] then Inr p
      else or_fault (collect (broadcast_setting_of nums) db_codec_info) (\<lambda>settings.
             Inr (p\<lparr>broadcast_settings := settings\<rparr>)))"

definition getCapabilitiesMatchedBroadcastConfigurationSettings ::
  "aidl_numbers \<Rightarrow> le_provider \<Rightarrow> LeAudioBroadcastConfigurationSetting \<Rightarrow> LeAudioDeviceCapabilities
     \<Rightarrow> LeAudioBroadcastConfigurationSetting option" where
  "getCapabilitiesMatchedBroadcastConfigurationSettings nums p setting dev_capabilities =
     (let filter_subgroup =
        concat (map (\<lambda>sub_cfg.
            let filtered_bis_cfg =
                  filter (\<lambda>bis_cfg. isMatchedBISConfiguration nums p (bisConfiguration bis_cfg) dev_capabilities)
                    (bisConfigurations sub_cfg)
            in if filtered_bis_cfg \<noteq> [] then [\<lparr>bisConfigurations = filtered_bis_cfg\<rparr>] else [])
          (subgroupsConfigurations setting))
      in if filter_subgroup = [] then None
         else Some (setting\<lparr>subgroupsConfigurations := filter_subgroup\<rparr>))"

definition subgroup_required ::
  "LeAudioBroadcastSubgroupConfigurationRequirement list \<Rightarrow> LeAudioBroadcastSubgroupConfiguration \<Rightarrow> bool" where
  "subgroup_required requirements sub_cfg =
     list_ex (\<lambda>sub_req. bisNumPerSubgroup sub_req = int (length (bisConfigurations sub_cfg))) requirements"

fun first_required ::
  "LeAudioBroadcastSubgroupConfigurationRequirement list \<Rightarrow> LeAudioBroadcastConfigurationSetting list
     \<Rightarrow> LeAudioBroadcastConfigurationSetting option" where
  "first_required requirements [] = None"
| "first_required requirements (setting # rest) =
     (let subgroups = filter (subgroup_required requirements) (subgroupsConfigurations setting)
      in if subgroups \<noteq> [] then Some (setting\<lparr>subgroupsConfigurations := subgroups\<rparr>)
         else first_required requirements rest)"

definition filtered_broadcast_settings ::
  "aidl_numbers \<Rightarrow> le_provider \<Rightarrow> LeAudioDeviceCapabilities option list
     \<Rightarrow> LeAudioBroadcastConfigurationSetting list" where
  "filtered_broadcast_settings nums p caps =
     concat (map (\<lambda>setting. concat (map (\<lambda>c. case c of
           None \<Rightarrow> []
         | Some capability \<Rightarrow> option_list
             (getCapabilitiesMatchedBroadcastConfigurationSettings nums p setting capability)) caps))
       (broadcast_settings p))"

text \<open>
  The out parameter is a pointer that the function sets to null before it uses it. \<open>write_return\<close>
  assigns through it; the result is what the caller's variable receives, if anything.
\<close>

definition write_return :: "bool \<Rightarrow> 'a \<Rightarrow> le_fault + 'a option" where
  "write_return pointer_set v = (if pointer_set then Inr (Some v) else Inl Null_dereference)"

definition getLeAudioBroadcastConfiguration ::
  "aidl_numbers \<Rightarrow> CodecInfo list \<Rightarrow> LeAudioDeviceCapabilities option list option
     \<Rightarrow> LeAudioBroadcastSubgroupConfigurationRequirement list \<Rightarrow> le_provider
     \<Rightarrow> le_fault + binder_status \<times> LeAudioBroadcastConfigurationSetting option \<times> le_provider" where
  "getLeAudioBroadcastConfiguration nums db_codec_info remoteSink requirements p =
     or_fault (getBroadcastSettings nums db_codec_info p) (\<lambda>p.
       let aidl_return = False
       in case remoteSink of
            None \<Rightarrow> Inr (StatusOk, None, p)
          | Some caps \<Rightarrow>
              let filtered_settings = filtered_broadcast_settings nums p caps
              in if filtered_settings = [] then Inr (StatusOk, None, p)
                 else if requirements = []
                 then or_fault (write_return aidl_return (hd filtered_settings)) (\<lambda>r. Inr (StatusOk, r, p))
                 else (case first_required requirements filtered_settings of
                         None \<Rightarrow> Inr (StatusOk, None, p)
                       | Some setting \<Rightarrow>
                           or_fault (write_return aidl_return setting) (\<lambda>r. Inr (StatusOk, r, p))))"

end
