(* ===== verification/LeAudio_Settings_Facts.thy ===== *)
theory LeAudio_Settings_Facts
  imports LeAudio_Settings
begin

text \<open>
  The settings provider: the channel allocation it reports, when loading its files is defined,
  the shape of the settings it gives, and that they are loaded once.
\<close>

section \<open>Channel allocation\<close>

lemma single_bit_test:
  fixes w m :: "'w::len word"
  assumes "m = 0 \<or> m = push_bit n 1"
  shows "(if w AND m \<noteq> 0 then acc OR m else acc) = acc OR (w AND m)"
proof (cases "m = 0")
  case False
  then have m: "m = push_bit n 1" using assms by simp
  show ?thesis
  proof (cases "bit w n")
    case True
    then have "w AND m = m"
      by (intro bit_eqI) (auto simp: m bit_and_iff bit_exp_iff)
    moreover have "m \<noteq> 0" using False .
    ultimately show ?thesis by simp
  next
    case nb: False
    then have "w AND m = 0"
      by (intro bit_eqI) (auto simp: m bit_and_iff bit_exp_iff)
    then show ?thesis by simp
  qed
qed simp

lemma kLeAudioLocation_bit:
  "kLeAudioLocation l = 0 \<or> (\<exists>n. kLeAudioLocation l = push_bit n 1)"
proof -
  have "\<exists>n \<in> set [0..<28]. kLeAudioLocation l = push_bit n 1" if "l \<noteq> NOT_ALLOWED"
    using that by (cases l) (simp_all add: upt_rec)
  then show ?thesis by (cases "l = NOT_ALLOWED") auto
qed

lemma fold_locations:
  assumes "\<And>l. num_AudioChannelAllocation nums l = kLeAudioLocation l"
  shows "fold (\<lambda>(allocation, bitmask) acc. if w AND allocation \<noteq> 0 then acc OR bitmask else acc)
           (map (\<lambda>l. (kLeAudioLocation l, num_AudioChannelAllocation nums l)) ls) acc
         = acc OR (w AND fold (\<lambda>l m. m OR kLeAudioLocation l) ls 0)"
proof (induction ls rule: rev_induct)
  case (snoc l ls)
  obtain n where "kLeAudioLocation l = 0 \<or> kLeAudioLocation l = push_bit n 1"
    using kLeAudioLocation_bit by blast
  note step = single_bit_test [OF this]
  show ?case using snoc by (simp add: assms step bit.conj_disj_distrib or.assoc)
qed simp

lemma all_locations_mask: "fold (\<lambda>l m. m OR kLeAudioLocation l) audio_channel_locations 0 = 0x0FFFFFFF"
  by (simp add: audio_channel_locations_def)

section \<open>When the parameters of a subconfiguration can be read\<close>

definition param_readable :: "FlatCodecSpecificConfiguration list \<Rightarrow> u8 \<Rightarrow> nat \<Rightarrow> bool" where
  "param_readable params type n \<longleftrightarrow>
     (case LookupCodecSpecificParam params type of
        None \<Rightarrow> True
      | Some p \<Rightarrow> (case fparam_compound_value p of None \<Rightarrow> False | Some bytes \<Rightarrow> n \<le> length bytes))"

definition params_readable :: "FlatCodecSpecificConfiguration list \<Rightarrow> bool" where
  "params_readable params \<longleftrightarrow>
     param_readable params 1 1 \<and> param_readable params 2 1 \<and> param_readable params 3 4
   \<and> param_readable params 4 2 \<and> param_readable params 5 1"

lemma stream_to_defined:
  "\<not> isl (stream_to_uint8 p) \<longleftrightarrow> 1 \<le> length p"
  "\<not> isl (stream_to_uint16 p) \<longleftrightarrow> 2 \<le> length p"
  "\<not> isl (stream_to_uint32 p) \<longleftrightarrow> 4 \<le> length p"
  by (auto simp: stream_to_uint8_def stream_to_uint16_def stream_to_uint32_def Suc_le_length_iff
      numeral_eq_Suc split: list.splits)

lemma read_param_defined:
  assumes "\<And>p. \<not> isl (f p) \<longleftrightarrow> n \<le> length p"
  shows "\<not> isl (read_param f params type) \<longleftrightarrow> param_readable params type n"
  using assms [symmetric] by (simp add: read_param_def param_readable_def split: option.splits)

lemmas read_params_defined = read_param_defined [OF stream_to_defined(1)]
  read_param_defined [OF stream_to_defined(2)] read_param_defined [OF stream_to_defined(3)]

lemma populateConfigurationData_defined:
  "\<not> isl (populateConfigurationData nums params) \<longleftrightarrow> params_readable params"
  unfolding params_readable_def read_params_defined [symmetric] populateConfigurationData_def
  by (cases "read_param stream_to_uint8 params 1"; cases "read_param stream_to_uint8 params 2";
      cases "read_param stream_to_uint32 params 3"; cases "read_param stream_to_uint16 params 4";
      cases "read_param stream_to_uint8 params 5") simp_all

lemma SetConfigurationFromFlatSubconfig_defined:
  "\<not> isl (SetConfigurationFromFlatSubconfig nums sub qos location)
     \<longleftrightarrow> qos \<noteq> None \<and> params_readable (fsub_codec_configuration sub)"
  unfolding populateConfigurationData_defined [of nums, symmetric]
  by (cases qos; cases "populateConfigurationData nums (fsub_codec_configuration sub)")
     (simp_all add: SetConfigurationFromFlatSubconfig_def populateAseConfiguration_def)

lemma process_subconfigs_defined:
  "\<not> isl (process_subconfigs nums qos_sink qos_source location subs acc) \<longleftrightarrow>
     (\<forall>sub \<in> set subs. params_readable (fsub_codec_configuration sub)
        \<and> (if fsub_direction sub = kLeAudioDirectionSink then qos_sink \<noteq> None else qos_source \<noteq> None))"
proof (induction subs arbitrary: acc)
  case (Cons sub subs)
  obtain source sink where acc: "acc = (source, sink)" by (cases acc)
  show ?case
  proof (cases "fsub_direction sub = kLeAudioDirectionSink")
    case True
    show ?thesis
      unfolding acc process_subconfigs.simps if_P [OF True] or_fault_defined [OF Cons.IH]
        SetConfigurationFromFlatSubconfig_defined
      using True by auto
  next
    case False
    show ?thesis
      unfolding acc process_subconfigs.simps if_not_P [OF False] or_fault_defined [OF Cons.IH]
        SetConfigurationFromFlatSubconfig_defined
      using False by auto
  qed
qed simp

text \<open>
  A configuration of the file is complete when its codec entry is missing, or every
  subconfiguration of it has readable parameters and a QoS entry for its direction.
\<close>

definition configuration_complete ::
  "FlatCodecConfiguration list \<Rightarrow> FlatQosConfiguration list \<Rightarrow> FlatConfiguration \<Rightarrow> bool" where
  "configuration_complete codec_cfgs qos_cfgs cfg \<longleftrightarrow>
     (case List.find (\<lambda>c. fcodec_name c = fcfg_codec_config_name cfg) codec_cfgs of
        None \<Rightarrow> True
      | Some c \<Rightarrow>
          list_all (\<lambda>sub. params_readable (fsub_codec_configuration sub)
            \<and> list_ex (\<lambda>q. fqos_name q = (if fsub_direction sub = kLeAudioDirectionSink
                 then fst (qos_keys (fcfg_qos_config_name cfg))
                 else snd (qos_keys (fcfg_qos_config_name cfg)))) qos_cfgs)
            (fcodec_subconfigurations c))"

lemma Populate_defined:
  "\<not> isl (PopulateAseConfigurationFromFlat nums (Some cfg) codec_cfgs qos_cfgs location acc)
     \<longleftrightarrow> configuration_complete codec_cfgs qos_cfgs cfg"
proof -
  have found: "List.find P xs \<noteq> None \<longleftrightarrow> list_ex P xs" for P and xs :: "'c list"
    by (simp add: find_None list_ex_iff)
  show ?thesis
    by (cases "List.find (\<lambda>c. fcodec_name c = fcfg_codec_config_name cfg) codec_cfgs")
       (simp_all add: PopulateAseConfigurationFromFlat_def configuration_complete_def Let_def
         case_prod_beta process_subconfigs_defined found list_all_iff del: not_None_eq)
qed

lemma add_configurations_defined:
  "\<not> isl (add_configurations nums codec_cfgs qos_cfgs location cfgs m)
     \<longleftrightarrow> (\<forall>cfg \<in> set cfgs. configuration_complete codec_cfgs qos_cfgs cfg)"
proof (induction cfgs arbitrary: m)
  case (Cons cfg cfgs)
  have step: "\<not> isl (case p of (source, sink) \<Rightarrow> add_configurations nums codec_cfgs qos_cfgs location cfgs
            (if source = [] \<and> sink = [] then m
             else AList.update (fcfg_name cfg) (source, sink, 0) m))
      \<longleftrightarrow> (\<forall>cfg \<in> set cfgs. configuration_complete codec_cfgs qos_cfgs cfg)" for p
    unfolding case_prod_beta by (rule Cons.IH)
  show ?case
    unfolding add_configurations.simps or_fault_defined [OF step] Populate_defined by simp
qed simp

definition configurations_file_ok :: "settings_files \<Rightarrow> bool" where
  "configurations_file_ok files \<longleftrightarrow>
     (case load_configurations files (hd kLeAudioSetConfigs) of
        None \<Rightarrow> True
      | Some root \<Rightarrow>
          froot_qos_configurations root = [] \<or> froot_codec_configurations root = []
        \<or> list_all (configuration_complete (froot_codec_configurations root)
             (froot_qos_configurations root)) (froot_configurations root))"

lemma LoadConfigurationsFromFiles_defined:
  "\<not> isl (LoadConfigurationsFromFiles nums files (hd kLeAudioSetConfigs) location st)
     \<longleftrightarrow> configurations_file_ok files"
proof (cases "load_configurations files (hd kLeAudioSetConfigs)")
  case (Some root)
  have "\<not> isl (or_fault (add_configurations nums (froot_codec_configurations root)
          (froot_qos_configurations root) location (froot_configurations root) (configurations st))
        (\<lambda>m. Inr (True, st\<lparr>configurations := m\<rparr>)))
      \<longleftrightarrow> (\<forall>cfg \<in> set (froot_configurations root).
            configuration_complete (froot_codec_configurations root) (froot_qos_configurations root) cfg)"
    by (simp add: or_fault_total add_configurations_defined)
  with Some show ?thesis
    by (auto simp: LoadConfigurationsFromFiles_def configurations_file_ok_def list_all_iff)
qed (simp add: LoadConfigurationsFromFiles_def configurations_file_ok_def)

lemma load_all_configurations_file:
  "load_all_configurations nums files kLeAudioSetConfigs location st =
     LoadConfigurationsFromFiles nums files (hd kLeAudioSetConfigs) location st"
proof (cases "LoadConfigurationsFromFiles nums files (hd kLeAudioSetConfigs) location st")
  case (Inr r)
  obtain b st' where "r = (b, st')" by (cases r)
  with Inr show ?thesis by (cases b) (simp_all add: kLeAudioSetConfigs_def)
qed (simp add: kLeAudioSetConfigs_def)

text \<open>
  C21: The settings can be loaded, without a null pointer being dereferenced or a parameter read
  past its end, exactly when they are cached or every configuration of the file that has a
  codec entry names an existing QoS entry for each direction it uses and has complete
  parameters. Only the absence of the codec entry is checked by the code.
\<close>

theorem GetLeAudioAseConfigurationSettings_defined:
  "\<not> isl (GetLeAudioAseConfigurationSettings nums files st) \<longleftrightarrow>
     (configurations st \<noteq> [] \<and> ase_configuration_settings st \<noteq> []) \<or> configurations_file_ok files"
proof -
  have content: "\<not> isl (LoadContent nums files kLeAudioSetConfigs scenario_files location s)
      \<longleftrightarrow> configurations_file_ok files" for scenario_files location s
    unfolding LoadContent_def load_all_configurations_file
    by (subst or_fault_total) (simp_all add: case_prod_beta LoadConfigurationsFromFiles_defined)
  show ?thesis
    unfolding GetLeAudioAseConfigurationSettings_def LoadAudioSetConfigurationProviderJson_def
    by (simp add: or_fault_total case_prod_beta content)
qed

section \<open>The shape of the settings\<close>

definition direction_wf :: "AseDirectionConfiguration option \<Rightarrow> bool" where
  "direction_wf d \<longleftrightarrow>
     (case d of
        None \<Rightarrow> False
      | Some d \<Rightarrow>
          ase_codecId (aseConfiguration d) \<noteq> None \<and> targetPhy (aseConfiguration d) = TWO_M
        \<and> qosConfiguration d \<noteq> None \<and> dataPathConfiguration d = Some (data_path_of HOST)
        \<and> distinct (map cfg_getTag (ase_codecConfiguration (aseConfiguration d))))"

definition entry_wf :: "direction_list \<times> direction_list \<times> nat \<Rightarrow> bool" where
  "entry_wf e \<longleftrightarrow>
     (case e of (source, sink, flags) \<Rightarrow>
        (source \<noteq> [] \<or> sink \<noteq> []) \<and> list_all direction_wf source \<and> list_all direction_wf sink)"

definition setting_wf :: "LeAudioAseConfigurationSetting \<Rightarrow> bool" where
  "setting_wf s \<longleftrightarrow>
     (case (sourceAseConfiguration s, sinkAseConfiguration s) of
        (Some source, Some sink) \<Rightarrow> entry_wf (source, sink, 0)
      | _ \<Rightarrow> False)"

definition settings_inv :: "settings_state \<Rightarrow> bool" where
  "settings_inv st \<longleftrightarrow>
     (\<forall>(k, e) \<in> set (configurations st). entry_wf e)
   \<and> (\<forall>s \<in> set (ase_configuration_settings st). setting_wf s)
   \<and> (ase_configuration_settings st \<noteq> [] \<longrightarrow> configurations st \<noteq> [])"

lemma option_list_tags: "distinct (map f (map samplingFrequency (option_list r)))"
  "distinct (map g (map frameDuration (option_list q)))"
  by (auto simp: option_list_def split: option.splits)

lemma populateConfigurationData_tags:
  "populateConfigurationData nums params = Inr data \<Longrightarrow> distinct (map cfg_getTag data)"
  by (auto simp: populateConfigurationData_def option_list_def split: option.splits)

lemma SetConfiguration_wf:
  "SetConfigurationFromFlatSubconfig nums sub qos HOST = Inr d \<Longrightarrow> direction_wf (Some d)"
  by (auto simp: SetConfigurationFromFlatSubconfig_def populateAseConfiguration_def direction_wf_def
      dest: populateConfigurationData_tags split: option.splits)

lemma process_subconfigs_wf:
  "process_subconfigs nums qos_sink qos_source HOST subs (source, sink) = Inr (source', sink') \<Longrightarrow>
     list_all direction_wf source \<and> list_all direction_wf sink \<Longrightarrow>
     list_all direction_wf source' \<and> list_all direction_wf sink'"
proof (induction subs arbitrary: source sink)
  case (Cons sub subs)
  from Cons.prems(1) obtain d source1 sink1 where
    "process_subconfigs nums qos_sink qos_source HOST subs (source1, sink1) = Inr (source', sink')"
    and "\<exists>qos. SetConfigurationFromFlatSubconfig nums sub qos HOST = Inr d"
    and "(source1 = source \<and> sink1 = sink @ [Some d]) \<or> (source1 = source @ [Some d] \<and> sink1 = sink)"
    by (auto split: if_splits)
  with Cons.prems(2) Cons.IH [of source1 sink1] SetConfiguration_wf show ?case by fastforce
qed simp

lemma Populate_wf:
  "PopulateAseConfigurationFromFlat nums (Some cfg) codec_cfgs qos_cfgs HOST ([], []) = Inr (source, sink)
     \<Longrightarrow> list_all direction_wf source \<and> list_all direction_wf sink"
  by (auto simp: PopulateAseConfigurationFromFlat_def Let_def case_prod_beta
      dest: process_subconfigs_wf split: option.splits)

lemma update_member: "(k, e) \<in> set (AList.update k' e' m) \<Longrightarrow> (k, e) = (k', e') \<or> (k, e) \<in> set m"
  by (induction m) (auto split: if_splits)

lemma update_not_Nil: "AList.update k e m \<noteq> []"
  by (cases m) auto

lemma add_configurations_wf:
  "add_configurations nums codec_cfgs qos_cfgs HOST cfgs m = Inr m' \<Longrightarrow>
     (\<forall>(k, e) \<in> set m. entry_wf e) \<Longrightarrow> (\<forall>(k, e) \<in> set m'. entry_wf e)"
proof (induction cfgs arbitrary: m)
  case (Cons cfg cfgs)
  from Cons.prems(1) obtain source sink where
    pop: "PopulateAseConfigurationFromFlat nums (Some cfg) codec_cfgs qos_cfgs HOST ([], [])
            = Inr (source, sink)"
    and rest: "add_configurations nums codec_cfgs qos_cfgs HOST cfgs
       (if source = [] \<and> sink = [] then m else AList.update (fcfg_name cfg) (source, sink, 0) m) = Inr m'"
    by auto
  have "\<forall>(k, e) \<in> set (if source = [] \<and> sink = [] then m
                      else AList.update (fcfg_name cfg) (source, sink, 0) m). entry_wf e"
    using Cons.prems(2) Populate_wf [OF pop] by (auto dest!: update_member simp: entry_wf_def)
  with rest Cons.IH show ?case by blast
qed simp

lemma settings_of_scenario_wf:
  "(\<forall>(k, e) \<in> set m. entry_wf e) \<Longrightarrow> s \<in> set (settings_of_scenario context m names) \<Longrightarrow>
     setting_wf s \<and> m \<noteq> []"
proof (induction names)
  case (Cons name names)
  show ?case
  proof (cases "map_of m name")
    case None
    with Cons show ?thesis by simp
  next
    case (Some e)
    then have mem: "(name, e) \<in> set m" by (rule map_of_SomeD)
    obtain source sink flags where e: "e = (source, sink, flags)" by (cases e)
    from mem Cons.prems(1) have "entry_wf e" by auto
    then have "setting_wf (setting_of context e)" by (simp add: setting_wf_def setting_of_def e entry_wf_def)
    with Cons Some mem show ?thesis by auto
  qed
qed simp

lemma LoadScenariosFromFiles_inv:
  "settings_inv st \<Longrightarrow> LoadScenariosFromFiles nums files file st = (ok, st') \<Longrightarrow> settings_inv st'"
proof -
  assume inv: "settings_inv st" and load: "LoadScenariosFromFiles nums files file st = (ok, st')"
  define step where "step = (\<lambda>(scenario :: FlatScenario) acc. acc @ settings_of_scenario
      (context_of_scenario nums (fscen_name scenario)) (configurations st) (fscen_configurations scenario))"
  have folded: "(\<forall>s \<in> set (fold step scens acc). setting_wf s) \<and> (fold step scens acc \<noteq> [] \<longrightarrow> configurations st \<noteq> [])"
    if "(\<forall>s \<in> set acc. setting_wf s) \<and> (acc \<noteq> [] \<longrightarrow> configurations st \<noteq> [])" for scens acc
    using that
  proof (induction scens arbitrary: acc)
    case (Cons scen scens)
    let ?new = "settings_of_scenario (context_of_scenario nums (fscen_name scen)) (configurations st)
                  (fscen_configurations scen)"
    have "setting_wf s \<and> configurations st \<noteq> []" if "s \<in> set ?new" for s
      using settings_of_scenario_wf [OF _ that] inv by (auto simp: settings_inv_def)
    then have "(\<forall>s \<in> set (step scen acc). setting_wf s) \<and> (step scen acc \<noteq> [] \<longrightarrow> configurations st \<noteq> [])"
      using Cons.prems by (cases ?new) (auto simp: step_def)
    from Cons.IH [OF this] show ?case by (simp only: fold.simps o_apply)
  qed simp
  from load have st': "st' = st \<or> (\<exists>scens. st' = st\<lparr>ase_configuration_settings :=
      fold step scens (ase_configuration_settings st)\<rparr>)"
  proof (cases "load_scenarios files file")
    case (Some scens)
    with load have "st' = st \<or> st' = st\<lparr>ase_configuration_settings :=
        fold step scens (ase_configuration_settings st)\<rparr>"
      by (auto simp: LoadScenariosFromFiles_def step_def split: if_splits)
    then show ?thesis by blast
  qed (use load in \<open>simp add: LoadScenariosFromFiles_def\<close>)
  from inv folded [of "ase_configuration_settings st"] st' show "settings_inv st'"
    unfolding settings_inv_def by (elim disjE exE conjE) simp_all
qed

lemma load_all_scenarios_inv:
  "settings_inv st \<Longrightarrow> load_all_scenarios nums files fs st = (ok, st') \<Longrightarrow> settings_inv st'"
proof (induction fs arbitrary: st)
  case (Cons f fs)
  obtain ok1 st1 where one: "LoadScenariosFromFiles nums files f st = (ok1, st1)" by fastforce
  with Cons.prems(1) have "settings_inv st1" by (rule LoadScenariosFromFiles_inv)
  with one Cons show ?case by (auto split: if_splits)
qed simp

lemma LoadConfigurationsFromFiles_inv:
  "settings_inv st \<Longrightarrow> ase_configuration_settings st = [] \<Longrightarrow>
     LoadConfigurationsFromFiles nums files file HOST st = Inr (ok, st') \<Longrightarrow> settings_inv st'"
  by (auto simp: LoadConfigurationsFromFiles_def settings_inv_def dest!: add_configurations_wf
      split: option.splits if_splits)

lemma LoadAudioSet_inv:
  assumes inv: "settings_inv st"
    and load: "LoadAudioSetConfigurationProviderJson nums files st = Inr st'"
  shows "settings_inv st'"
proof (cases "configurations st = [] \<or> ase_configuration_settings st = []")
  case True
  define st0 where "st0 = st\<lparr>ase_configuration_settings := [], configurations := []\<rparr>"
  have inv0: "settings_inv st0" and empty: "ase_configuration_settings st0 = []"
    by (auto simp: settings_inv_def st0_def)
  from load True obtain ok1 st1 where
    one: "LoadConfigurationsFromFiles nums files (hd kLeAudioSetConfigs) HOST st0 = Inr (ok1, st1)"
    and two: "st' = st1 \<or> (\<exists>ok2. load_all_scenarios nums files kLeAudioSetScenarios st1 = (ok2, st'))"
    by (auto simp: LoadAudioSetConfigurationProviderJson_def LoadContent_def
        load_all_configurations_file st0_def [symmetric] split: if_splits prod.splits)
  from LoadConfigurationsFromFiles_inv [OF inv0 empty one] have "settings_inv st1" .
  with two load_all_scenarios_inv show ?thesis by blast
qed (use assms in \<open>simp add: LoadAudioSetConfigurationProviderJson_def\<close>)

lemma settings_cached:
  assumes "settings_inv st" "ase_configuration_settings st \<noteq> []"
  shows "GetLeAudioAseConfigurationSettings nums files st = Inr (ase_configuration_settings st, st)"
  using assms
  by (auto simp: settings_inv_def GetLeAudioAseConfigurationSettings_def
      LoadAudioSetConfigurationProviderJson_def)

lemma settings_initial_inv: "settings_inv settings_initial"
  by (simp add: settings_inv_def settings_initial_def)

lemma LeAudio_load_wf:
  assumes "settings_inv st" "GetLeAudioAseConfigurationSettings nums files st = Inr (settings, st')"
  shows "\<forall>s \<in> set settings. setting_wf s"
proof -
  from assms(2) have "settings = ase_configuration_settings st'"
    and "LoadAudioSetConfigurationProviderJson nums files st = Inr st'"
    by (auto simp: GetLeAudioAseConfigurationSettings_def)
  with LoadAudioSet_inv [OF assms(1)] show ?thesis by (auto simp: settings_inv_def)
qed

text \<open>
  C22: Well-formedness of the settings. A successful call keeps the invariant of the provider's
  globals; every setting it returns has a list for both directions, not both empty, and each
  entry of them has a codec, a QoS, the 2M PHY, the data path of the host and parameters with
  distinct tags; and once settings were returned every later call returns the same ones,
  whatever the files hold by then.
\<close>

theorem GetLeAudioAseConfigurationSettings_wf:
  assumes "settings_inv st" "GetLeAudioAseConfigurationSettings nums files st = Inr (settings, st')"
  shows "settings_inv st' \<and> (\<forall>s \<in> set settings. setting_wf s)
       \<and> (settings \<noteq> [] \<longrightarrow>
            GetLeAudioAseConfigurationSettings nums' files' st' = Inr (settings, st'))"
proof -
  from assms(2) have settings: "settings = ase_configuration_settings st'"
    and load: "LoadAudioSetConfigurationProviderJson nums files st = Inr st'"
    by (auto simp: GetLeAudioAseConfigurationSettings_def)
  from LoadAudioSet_inv [OF assms(1) load] have inv: "settings_inv st'" .
  with settings settings_cached [OF inv] show ?thesis by (auto simp: settings_inv_def)
qed

section \<open>An example file\<close>

definition example_nums :: aidl_numbers where
  "example_nums =
     \<lparr>num_SupportedSamplingFrequencies =
        (\<lambda>f. case map_of (zip [HZ8000, HZ11025, HZ16000, HZ22050, HZ24000, HZ32000, HZ44100, HZ48000,
                HZ88200, HZ96000, HZ176400, HZ192000, HZ384000] [0..<13]) f of
               None \<Rightarrow> 0 | Some n \<Rightarrow> push_bit n 1),
      num_SupportedFrameDurations = (\<lambda>d. case d of US7500 \<Rightarrow> 1 | US10000 \<Rightarrow> 2 | _ \<Rightarrow> 0),
      num_AudioChannelAllocation = kLeAudioLocation,
      num_AudioContext =
        (\<lambda>c. case map_of (zip [UNSPECIFIED, CONVERSATIONAL, MEDIA, GAME, INSTRUCTIONAL,
                VOICE_ASSISTANTS, LIVE_AUDIO, NOTIFICATIONS, RINGTONE_ALERTS, ALERTS, EMERGENCY_ALARM]
                [0, 1, 2, 3, 4, 5, 6, 8, 9, 10, 11]) c of
               None \<Rightarrow> 0 | Some n \<Rightarrow> push_bit n 1),
      num_CODEC_PRIORITY_DISABLED = -1, num_LC3 = 6\<rparr>"

definition example_subconfig :: "u8 \<Rightarrow> FlatSubConfiguration" where
  "example_subconfig direction =
     \<lparr>fsub_direction = direction, fsub_coding_format = 6, fsub_vendor_company_id = 0,
      fsub_vendor_codec_id = 0,
      fsub_codec_configuration =
        [\<lparr>fparam_type = 1, fparam_compound_value = Some [8]\<rparr>,
         \<lparr>fparam_type = 2, fparam_compound_value = Some [1]\<rparr>,
         \<lparr>fparam_type = 3, fparam_compound_value = Some [3, 0, 0, 0]\<rparr>,
         \<lparr>fparam_type = 4, fparam_compound_value = Some [100, 0]\<rparr>,
         \<lparr>fparam_type = 5, fparam_compound_value = Some [1]\<rparr>]\<rparr>"

definition example_files :: settings_files where
  "example_files =
     \<lparr>load_configurations = (\<lambda>_. Some
        \<lparr>froot_configurations =
           [\<lparr>fcfg_name = ''One'', fcfg_codec_config_name = ''LC3_48_2'', fcfg_qos_config_name = [''QoS'']\<rparr>],
         froot_codec_configurations =
           [\<lparr>fcodec_name = ''LC3_48_2'', fcodec_subconfigurations = [example_subconfig 1]\<rparr>],
         froot_qos_configurations =
           [\<lparr>fqos_name = ''QoS'', fqos_target_latency = 1, fqos_retransmission_number = 5,
              fqos_max_transport_latency = 20\<rparr>]\<rparr>),
      load_scenarios = (\<lambda>_. Some [\<lparr>fscen_name = ''Media'', fscen_configurations = [''One'', ''Two'']\<rparr>])\<rparr>"

definition example_direction :: AseDirectionConfiguration where
  "example_direction =
     \<lparr>aseConfiguration =
        \<lparr>targetLatency = LOWER, targetPhy = TWO_M, ase_codecId = Some (CodecId_core 6),
         ase_codecConfiguration =
           [samplingFrequency HZ48000, frameDuration US10000, audioChannelAllocation 3,
            octetsPerCodecFrame 100, codecFrameBlocksPerSDU 1]\<rparr>,
      qosConfiguration = Some \<lparr>qos_maxTransportLatencyMs = 20, qos_retransmissionNum = 5\<rparr>,
      dataPathConfiguration = Some \<lparr>path_isTransparent = True, path_dataPathId = 0\<rparr>\<rparr>"

definition example_setting :: LeAudioAseConfigurationSetting where
  "example_setting =
     \<lparr>setting_audioContext = 0xD15, setting_packing = 0,
      sinkAseConfiguration = Some [Some example_direction], sourceAseConfiguration = Some [],
      setting_flags = Some 0\<rparr>"

lemma example_loaded:
  "GetLeAudioAseConfigurationSettings example_nums example_files settings_initial =
     Inr ([example_setting],
          \<lparr>configurations = [(''One'', ([], [Some example_direction], 0))],
           ase_configuration_settings = [example_setting]\<rparr>)"
proof -
  have alloc: "populateAudioChannelAllocation example_nums 3 = 3"
    by (simp add: populateAudioChannelAllocation_def audio_channel_allocation_map_def
        example_nums_def audio_channel_locations_def)
  have data: "populateConfigurationData example_nums (fsub_codec_configuration (example_subconfig 1))
      = Inr (ase_codecConfiguration (aseConfiguration example_direction))"
    by (simp add: populateConfigurationData_def read_param_def LookupCodecSpecificParam_def alloc
        example_subconfig_def example_direction_def stream_to_uint8_def stream_to_uint16_def
        stream_to_uint32_def sampling_freq_map_def frame_duration_map_def option_list_def)
  have direction: "SetConfigurationFromFlatSubconfig example_nums (example_subconfig 1)
       (Some \<lparr>fqos_name = ''QoS'', fqos_target_latency = 1, fqos_retransmission_number = 5,
              fqos_max_transport_latency = 20\<rparr>) HOST = Inr example_direction"
    by (simp add: SetConfigurationFromFlatSubconfig_def populateAseConfiguration_def data
        populateAseQosConfiguration_def kIsoDataPathHci_def)
      (simp add: example_direction_def example_subconfig_def example_nums_def)
  have direction1: "fsub_direction (example_subconfig 1) = kLeAudioDirectionSink"
    by (simp add: example_subconfig_def kLeAudioDirectionSink_def)
  show ?thesis
    by (simp add: GetLeAudioAseConfigurationSettings_def LoadAudioSetConfigurationProviderJson_def
        LoadContent_def LoadConfigurationsFromFiles_def LoadScenariosFromFiles_def settings_initial_def
        kLeAudioSetConfigs_def kLeAudioSetScenarios_def example_files_def direction direction1
        PopulateAseConfigurationFromFlat_def setting_of_def example_setting_def context_of_scenario_def)
      (simp add: example_nums_def)
qed

theorem GetLeAudioAseConfigurationSettings_wf_witness:
  "setting_wf example_setting"
  using GetLeAudioAseConfigurationSettings_wf [OF settings_initial_inv example_loaded] by simp

text \<open>
  With the interface's numbering of the channel locations, which is that of the constants
  in the source, the allocation reported for a configuration is the file's 32-bit location
  mask without its four undefined top bits.
\<close>

theorem populateAudioChannelAllocation_mask:
  assumes "\<And>l. num_AudioChannelAllocation nums l = kLeAudioLocation l"
  shows "populateAudioChannelAllocation nums audio_location = audio_location AND 0x0FFFFFFF"
  unfolding populateAudioChannelAllocation_def audio_channel_allocation_map_def
  by (simp add: fold_locations [OF assms] all_locations_mask)

theorem populateAudioChannelAllocation_mask_witness:
  "populateAudioChannelAllocation example_nums 0xF0000003 = 3"
  using populateAudioChannelAllocation_mask
  by (simp add: example_nums_def)

end
