(* ===== verification/LeAudio_Offload_Facts.thy ===== *)
theory LeAudio_Offload_Facts
  imports LeAudio_Offload LeAudio_Settings_Facts
begin

text \<open>
  What the LE audio offload provider answers: the matching functions as set conditions, the
  unicast answer as a set of restricted settings, the quality of service it picks, the effect
  of a codec's priority, and the broadcast answer that is never delivered.
\<close>

section \<open>Matching as set conditions\<close>

lemma cfg_tag_map_find:
  "cfg_tag_map cfgs t = List.find (\<lambda>c. cfg_getTag c = t) (rev cfgs)"
proof -
  have find_append: "List.find P (xs @ ys) = (case List.find P xs of None \<Rightarrow> List.find P ys | Some x \<Rightarrow> Some x)"
    for P and xs ys :: "'b list" by (induction xs) auto
  have "fold (\<lambda>d m. m(cfg_getTag d \<mapsto> d)) cfgs m t =
      (case List.find (\<lambda>c. cfg_getTag c = t) (rev cfgs) of None \<Rightarrow> m t | Some x \<Rightarrow> Some x)" for m
    by (induction cfgs arbitrary: m) (auto simp: find_append split: option.splits)
  then show ?thesis by (simp add: cfg_tag_map_def split: option.splits)
qed

lemma cfg_tag_map_tag:
  "cfg_tag_map cfgs t = Some c \<Longrightarrow> cfg_getTag c = t \<and> c \<in> set cfgs"
  unfolding cfg_tag_map_find by (drule find_member) auto

lemma cfg_tag_map_distinct:
  assumes "distinct (map cfg_getTag cfgs)"
  shows "cfg_tag_map cfgs t = Some c \<longleftrightarrow> c \<in> set cfgs \<and> cfg_getTag c = t"
proof
  assume c: "c \<in> set cfgs \<and> cfg_getTag c = t"
  then have "cfg_tag_map cfgs t \<noteq> None"
    unfolding cfg_tag_map_find find_None by auto
  then obtain c' where c': "cfg_tag_map cfgs t = Some c'" by blast
  from cfg_tag_map_tag [OF this] c assms have "c' = c"
    by (auto simp: distinct_map dest: inj_onD)
  with c' show "cfg_tag_map cfgs t = Some c" by simp
qed (rule cfg_tag_map_tag [THEN conj_commute [THEN iffD1]])

lemma capability_matches_tag:
  "capability_matches nums cap cfg \<Longrightarrow> cfg_getTag cfg = cap_to_cfg_tag_map cap"
  by (cases "(nums, cap, cfg)" rule: capability_matches.cases) auto

lemma capabilities_match_map_iff:
  "capabilities_match_map nums m caps \<longleftrightarrow>
     (\<forall>cap \<in> set caps. \<exists>cfg. m (cap_to_cfg_tag_map cap) = Some cfg \<and> capability_matches nums cap cfg)"
  by (induction caps) (auto split: option.splits)

lemma requirements_match_map_iff:
  "requirements_match_map m reqs \<longleftrightarrow> (\<forall>r \<in> set reqs. m (cfg_getTag r) = Some r)"
  by (induction reqs) (auto split: option.splits)

lemma isMatchedValidCodec_iff:
  "isMatchedValidCodec nums p cfg req \<longleftrightarrow>
     cfg = req \<and> codec_priority_map p cfg \<noteq> Some (num_CODEC_PRIORITY_DISABLED nums)"
  by (auto simp: isMatchedValidCodec_def split: option.splits)

lemma isCapabilitiesMatchedCodecConfiguration_iff:
  assumes "distinct (map cfg_getTag cfgs)"
  shows "isCapabilitiesMatchedCodecConfiguration nums cfgs caps \<longleftrightarrow>
     (\<forall>cap \<in> set caps. \<exists>cfg \<in> set cfgs. capability_matches nums cap cfg)"
  unfolding isCapabilitiesMatchedCodecConfiguration_def capabilities_match_map_iff
    cfg_tag_map_distinct [OF assms]
  by (meson capability_matches_tag)

lemma isMatchedAseConfiguration_iff:
  assumes "distinct (map cfg_getTag (ase_codecConfiguration cfg))"
  shows "isMatchedAseConfiguration nums p cfg req \<longleftrightarrow>
     (\<forall>codec. ase_codecId req = Some codec \<longrightarrow> ase_codecId cfg = Some codec
        \<and> codec_priority_map p codec \<noteq> Some (num_CODEC_PRIORITY_DISABLED nums))
   \<and> targetLatency cfg = targetLatency req
   \<and> set (ase_codecConfiguration req) \<subseteq> set (ase_codecConfiguration cfg)"
  unfolding isMatchedAseConfiguration_def Let_def requirements_match_map_iff
    cfg_tag_map_distinct [OF assms]
  by (cases "ase_codecId req"; cases "ase_codecId cfg") (auto simp: isMatchedValidCodec_iff)

section \<open>The two filters\<close>

text \<open>When a remote capability admits, and a requirement asks for, an entry of a setting.\<close>

fun direction_admitted ::
  "aidl_numbers \<Rightarrow> le_provider \<Rightarrow> LeAudioDeviceCapabilities \<Rightarrow> AseDirectionConfiguration option \<Rightarrow> bool" where
  "direction_admitted nums p cap None = False"
| "direction_admitted nums p cap (Some d) \<longleftrightarrow>
     ase_codecId (aseConfiguration d) = Some (devcap_codecId cap)
   \<and> codec_priority_map p (devcap_codecId cap) \<noteq> Some (num_CODEC_PRIORITY_DISABLED nums)
   \<and> (\<forall>c \<in> set (codecSpecificCapabilities cap).
        \<exists>cfg \<in> set (ase_codecConfiguration (aseConfiguration d)). capability_matches nums c cfg)"

fun direction_required ::
  "aidl_numbers \<Rightarrow> le_provider \<Rightarrow> AseDirectionRequirement option list option
     \<Rightarrow> AseDirectionConfiguration option \<Rightarrow> bool" where
  "direction_required nums p None d = True"
| "direction_required nums p (Some reqs) None = False"
| "direction_required nums p (Some reqs) (Some d) \<longleftrightarrow>
     (\<exists>x \<in> set reqs. case x of
          None \<Rightarrow> False
        | Some r \<Rightarrow> isMatchedAseConfiguration nums p (aseConfiguration d) (req_aseConfiguration r))"

lemma filterCapabilities_eq:
  "list_all direction_wf ds \<Longrightarrow>
     filterCapabilitiesAseDirectionConfiguration nums p ds cap valid =
       valid @ filter (direction_admitted nums p cap) ds"
proof (induction ds arbitrary: valid)
  case (Cons d ds)
  from Cons.prems have ds: "list_all direction_wf ds" and "direction_wf d" by simp_all
  then obtain c where d: "d = Some c" and wf: "direction_wf (Some c)"
    by (cases d) (auto simp: direction_wf_def)
  have "distinct (map cfg_getTag (ase_codecConfiguration (aseConfiguration c)))"
    using wf by (simp add: direction_wf_def)
  then show ?case
    by (auto simp: d Cons.IH [OF ds] isCapabilitiesMatchedCodecConfiguration_iff
        isMatchedValidCodec_iff split: option.splits)
qed simp

lemma filterRequirement_eq:
  "filterRequirementAseDirectionConfiguration nums p ds reqs valid =
     valid @ filter (direction_required nums p reqs) ds"
proof (induction ds arbitrary: valid)
  case (Cons d ds)
  have "filterRequirementAseDirectionConfiguration nums p (d # ds) reqs valid =
      filterRequirementAseDirectionConfiguration nums p ds reqs
        (if direction_required nums p reqs d then valid @ [d] else valid)"
    by (cases reqs; cases d; simp add: list_ex_iff)
  with Cons.IH show ?case by simp
qed simp

section \<open>Unicast answers\<close>

definition direction_list_of :: "direction \<Rightarrow> LeAudioAseConfigurationSetting \<Rightarrow> direction_list option" where
  "direction_list_of dir s = (if dir = kDirectionSink then sinkAseConfiguration s else sourceAseConfiguration s)"

definition requirements_of ::
  "direction \<Rightarrow> LeAudioConfigurationRequirement \<Rightarrow> AseDirectionRequirement option list option" where
  "requirements_of dir r = (if dir = kDirectionSink then sinkAseRequirement r else sourceAseRequirement r)"

definition restrict_setting ::
  "direction \<Rightarrow> direction_list \<Rightarrow> LeAudioAseConfigurationSetting \<Rightarrow> LeAudioAseConfigurationSetting" where
  "restrict_setting dir ds s =
     s\<lparr>sinkAseConfiguration := (if dir = kDirectionSink then Some ds else None),
       sourceAseConfiguration := (if dir = kDirectionSink then None else Some ds)\<rparr>"

lemma restrict_setting_simps [simp]:
  "setting_audioContext (restrict_setting dir ds s) = setting_audioContext s"
  "restrict_setting dir ds' (restrict_setting dir ds s) = restrict_setting dir ds' s"
  "direction_list_of dir (restrict_setting dir ds s) = Some ds"
  by (simp_all add: restrict_setting_def direction_list_of_def)

lemma wf_direction_list:
  "setting_wf s \<Longrightarrow> \<exists>ds. direction_list_of dir s = Some ds \<and> list_all direction_wf ds"
  by (cases "dir = kDirectionSink")
     (auto simp: setting_wf_def entry_wf_def direction_list_of_def split: option.splits)

lemma capabilities_matched_eq:
  assumes "direction_list_of dir s = Some ds" "list_all direction_wf ds"
  shows "getCapabilitiesMatchedAseConfigurationSettings nums p s cap dir =
     (let valid = filter (direction_admitted nums p cap) ds
      in if isCapabilitiesMatchedContext (setting_audioContext s) cap \<and> valid \<noteq> []
         then Some (restrict_setting dir valid s) else None)"
  using assms
  by (simp add: getCapabilitiesMatchedAseConfigurationSettings_def direction_list_of_def Let_def
      filterCapabilities_eq restrict_setting_def)

lemma requirement_matched_eq:
  "getRequirementMatchedAseConfigurationSettings nums p (restrict_setting dir ds s) req =
     Inr (let valid = filter (direction_required nums p (requirements_of dir req)) ds
      in if setting_audioContext s = req_audioContext req \<and> valid \<noteq> []
         then Some (restrict_setting dir valid s) else None)"
  by (simp add: getRequirementMatchedAseConfigurationSettings_def filterRequirement_eq Let_def
      restrict_setting_def requirements_of_def)

text \<open>What one setting contributes to the answer, for a capability and a requirement.\<close>

definition answer_of ::
  "aidl_numbers \<Rightarrow> le_provider \<Rightarrow> direction \<Rightarrow> LeAudioAseConfigurationSetting
     \<Rightarrow> LeAudioDeviceCapabilities \<Rightarrow> LeAudioConfigurationRequirement
     \<Rightarrow> LeAudioAseConfigurationSetting option" where
  "answer_of nums p dir s cap req =
     (let ds = filter (\<lambda>d. direction_admitted nums p cap d
                 \<and> direction_required nums p (requirements_of dir req) d) (the (direction_list_of dir s))
      in if isCapabilitiesMatchedContext (setting_audioContext s) cap
            \<and> setting_audioContext s = req_audioContext req \<and> ds \<noteq> []
         then Some (restrict_setting dir ds s) else None)"

definition answers_for ::
  "aidl_numbers \<Rightarrow> le_provider \<Rightarrow> direction \<Rightarrow> LeAudioDeviceCapabilities option list
     \<Rightarrow> LeAudioConfigurationRequirement list \<Rightarrow> LeAudioAseConfigurationSetting
     \<Rightarrow> LeAudioAseConfigurationSetting set" where
  "answers_for nums p dir caps reqs s =
     {x. \<exists>cap req. Some cap \<in> set caps \<and> req \<in> set reqs \<and> answer_of nums p dir s cap req = Some x}"

lemma match_requirements_restricted:
  assumes "direction_list_of dir s = Some ds"
    "isCapabilitiesMatchedContext (setting_audioContext s) cap"
  shows "match_requirements nums p reqs (restrict_setting dir (filter (direction_admitted nums p cap) ds) s) =
     Inr (concat (map (\<lambda>req. option_list (answer_of nums p dir s cap req)) reqs))"
  unfolding match_requirements_def requirement_matched_eq
  by (rule collect_Inr) (simp add: assms option_list_def Let_def answer_of_def)

lemma match_capabilities_eq:
  assumes "direction_list_of dir s = Some ds" "list_all direction_wf ds"
  shows "match_capabilities nums p (Some caps) dir s =
     Inr (map (\<lambda>cap. restrict_setting dir (filter (direction_admitted nums p cap) ds) s)
       (filter (\<lambda>cap. isCapabilitiesMatchedContext (setting_audioContext s) cap
                    \<and> filter (direction_admitted nums p cap) ds \<noteq> [])
         (map the (filter (\<lambda>c. c \<noteq> None) caps))))"
  unfolding match_capabilities_def option.case
  by (rule arg_cong [where f = Inr], induction caps)
     (auto simp: capabilities_matched_eq [OF assms] option_list_def Let_def split: option.splits)

lemma matched_requirements_set:
  assumes "setting_wf s" "match_capabilities nums p (Some caps) dir s = Inr matched"
  shows "\<exists>result. collect (match_requirements nums p reqs) matched = Inr result
       \<and> set result = answers_for nums p dir caps reqs s"
proof -
  obtain ds where ds: "direction_list_of dir s = Some ds" "list_all direction_wf ds"
    using wf_direction_list [OF assms(1)] by blast
  define caps' where "caps' = filter (\<lambda>cap. isCapabilitiesMatchedContext (setting_audioContext s) cap
      \<and> filter (direction_admitted nums p cap) ds \<noteq> []) (map the (filter (\<lambda>c. c \<noteq> None) caps))"
  have matched: "matched = map (\<lambda>cap. restrict_setting dir (filter (direction_admitted nums p cap) ds) s) caps'"
    using assms(2) match_capabilities_eq [OF ds] by (simp add: caps'_def)
  have members: "cap \<in> set caps' \<longleftrightarrow> Some cap \<in> set caps
      \<and> isCapabilitiesMatchedContext (setting_audioContext s) cap
      \<and> filter (direction_admitted nums p cap) ds \<noteq> []" for cap
    unfolding caps'_def by force
  define answer where "answer = (\<lambda>cap. concat (map (\<lambda>req. option_list (answer_of nums p dir s cap req)) reqs))"
  have "collect (match_requirements nums p reqs)
        (map (\<lambda>cap. restrict_setting dir (filter (direction_admitted nums p cap) ds) s) cs)
      = Inr (concat (map answer cs))" if "set cs \<subseteq> set caps'" for cs
    using that
    by (induction cs) (simp_all add: members match_requirements_restricted [OF ds(1)] answer_def)
  then have collected: "collect (match_requirements nums p reqs) matched = Inr (concat (map answer caps'))"
    by (simp add: matched)
  have "cap \<in> set caps'" if "Some cap \<in> set caps" "answer_of nums p dir s cap req = Some x" for cap req x
    using that ds(1) by (auto simp: members answer_of_def Let_def filter_empty_conv split: if_splits)
  moreover have "x \<in> set (answer cap) \<longleftrightarrow> (\<exists>req \<in> set reqs. answer_of nums p dir s cap req = Some x)" for x cap
    unfolding answer_def option_list_def set_concat set_map by (force split: option.splits)
  ultimately have "set (concat (map answer caps')) = answers_for nums p dir caps reqs s"
    using members by (fastforce simp: answers_for_def)
  with collected show ?thesis by blast
qed

lemma collect_matched:
  assumes "\<And>s. s \<in> set settings \<Longrightarrow> setting_wf s"
  shows "\<exists>matched result. collect (match_capabilities nums p (Some caps) dir) settings = Inr matched
       \<and> collect (match_requirements nums p reqs) matched = Inr result
       \<and> set result = (\<Union>s \<in> set settings. answers_for nums p dir caps reqs s)"
  using assms
proof (induction settings)
  case (Cons s settings)
  from Cons obtain matched result where
    IH: "collect (match_capabilities nums p (Some caps) dir) settings = Inr matched"
      "collect (match_requirements nums p reqs) matched = Inr result"
      "set result = (\<Union>s \<in> set settings. answers_for nums p dir caps reqs s)" by auto
  obtain m where m: "match_capabilities nums p (Some caps) dir s = Inr m"
    by (auto simp: match_capabilities_def)
  from matched_requirements_set [OF _ m, of reqs] Cons.prems obtain r where
    r: "collect (match_requirements nums p reqs) m = Inr r" "set r = answers_for nums p dir caps reqs s"
    by auto
  have "collect (match_requirements nums p reqs) (m @ matched) = Inr (r @ result)"
    using r(1) IH(2) by (simp add: collect_append)
  with m IH r show ?case by auto
qed simp

text \<open>
  C20: The unicast answer. Once the settings are loaded, the call takes the sink capabilities
  when they are given and else the source ones; with neither it takes the value of an empty
  optional as soon as there is a setting. Otherwise it returns, and its answer is exactly the
  settings restricted, for a capability and a requirement given, to the entries of that
  direction that the capability admits and the requirement asks for: those whose codec is the
  capability's and enabled, whose parameters satisfy every capability value, and which match a
  required entry if any is listed; a setting with no such entry, or with another context, is
  not answered.
\<close>

theorem getLeAudioAseConfiguration_answer:
  assumes inv: "settings_inv st"
    and load: "GetLeAudioAseConfigurationSettings nums files st = Inr (settings, st')"
    and dir: "(dir, remote) = (if sink \<noteq> None then (kDirectionSink, sink) else (kDirectionSource, source))"
  shows "case remote of
      None \<Rightarrow> getLeAudioAseConfiguration nums files p sink source reqs st =
                (if settings = [] then Inr (StatusOk, [], st') else Inl Bad_optional_access)
    | Some caps \<Rightarrow> \<exists>result.
          getLeAudioAseConfiguration nums files p sink source reqs st = Inr (StatusOk, result, st')
        \<and> set result = (\<Union>s \<in> set settings. answers_for nums p dir caps reqs s)"
proof -
  have chosen: "(case sink of None \<Rightarrow> (kDirectionSource, source) | Some x \<Rightarrow> (kDirectionSink, sink)) = (dir, remote)"
    using dir by (auto split: option.splits)
  have call: "getLeAudioAseConfiguration nums files p sink source reqs st =
      or_fault (collect (match_capabilities nums p remote dir) settings) (\<lambda>matched.
        or_fault (collect (match_requirements nums p reqs) matched) (\<lambda>result. Inr (StatusOk, result, st')))"
    by (simp add: getLeAudioAseConfiguration_def load chosen)
  show ?thesis
  proof (cases remote)
    case None
    then show ?thesis by (cases settings) (simp_all add: call match_capabilities_def match_requirements_def)
  next
    case (Some caps)
    have "setting_wf s" if "s \<in> set settings" for s
      using LeAudio_load_wf [OF inv load] that by blast
    from collect_matched [OF this] Some show ?thesis by (fastforce simp: call)
  qed
qed

definition example_capability :: LeAudioDeviceCapabilities where
  "example_capability =
     \<lparr>devcap_codecId = CodecId_core 6,
      codecSpecificCapabilities =
        [supportedSamplingFrequencies 0x80, supportedFrameDurations 2, supportedAudioChannelCounts 1,
         supportedOctetsPerCodecFrame 40 120, supportedMaxCodecFramesPerSDU 2],
      devcap_metadata = Some [None, Some (preferredAudioContexts 4)]\<rparr>"

definition example_requirement :: LeAudioConfigurationRequirement where
  "example_requirement =
     \<lparr>req_audioContext = 0xD15,
      sinkAseRequirement = Some [Some \<lparr>req_aseConfiguration =
        \<lparr>targetLatency = LOWER, targetPhy = TWO_M, ase_codecId = Some (CodecId_core 6),
         ase_codecConfiguration = [samplingFrequency HZ48000]\<rparr>\<rparr>],
      sourceAseRequirement = None\<rparr>"

lemma example_answer_of:
  "answer_of example_nums le_provider_new kDirectionSink example_setting example_capability
     example_requirement = Some (example_setting\<lparr>sourceAseConfiguration := None\<rparr>)"
  by code_simp

theorem getLeAudioAseConfiguration_answer_witness:
  "\<exists>result st'.
     getLeAudioAseConfiguration example_nums example_files le_provider_new (Some [None, Some example_capability])
       None [example_requirement] settings_initial = Inr (StatusOk, result, st')
   \<and> example_setting\<lparr>sourceAseConfiguration := None\<rparr> \<in> set result"
proof -
  have "example_setting\<lparr>sourceAseConfiguration := None\<rparr> \<in>
      answers_for example_nums le_provider_new kDirectionSink [None, Some example_capability]
        [example_requirement] example_setting"
    using example_answer_of by (auto simp: answers_for_def)
  with getLeAudioAseConfiguration_answer [OF settings_initial_inv example_loaded, where
      sink = "Some [None, Some example_capability]" and source = None and dir = kDirectionSink
      and p = le_provider_new and reqs = "[example_requirement]"]
  show ?thesis by auto
qed

section \<open>Codec priorities\<close>

lemma answers_disabled:
  assumes "codec_priority_map p codec = Some (num_CODEC_PRIORITY_DISABLED nums)"
    and "x \<in> answers_for nums p dir caps reqs s" "direction_list_of dir x = Some ds" "Some d \<in> set ds"
  shows "ase_codecId (aseConfiguration d) \<noteq> Some codec"
  using assms by (auto simp: answers_for_def answer_of_def Let_def split: if_splits)

lemma answer_of_priority:
  assumes "\<And>c. (codec_priority_map p c = Some (num_CODEC_PRIORITY_DISABLED nums))
               = (codec_priority_map q c = Some (num_CODEC_PRIORITY_DISABLED nums))"
  shows "answer_of nums p dir s cap req = answer_of nums q dir s cap req"
proof -
  have valid: "isMatchedValidCodec nums p = isMatchedValidCodec nums q"
    by (intro ext) (simp add: isMatchedValidCodec_iff assms)
  have ase: "isMatchedAseConfiguration nums p = isMatchedAseConfiguration nums q"
    by (intro ext) (simp only: isMatchedAseConfiguration_def valid)
  have "direction_admitted nums p cap d = direction_admitted nums q cap d" for d
    by (cases d) (simp_all add: assms)
  moreover have "direction_required nums p rs d = direction_required nums q rs d" for rs d
    by (cases "(nums, p, rs, d)" rule: direction_required.cases) (simp_all add: ase cong: option.case_cong)
  ultimately show ?thesis by (simp add: answer_of_def)
qed

text \<open>
  The effect of a codec's priority on the unicast answer. After a codec was given the
  disabled priority no entry answered has it; any other priority answers as if none had been
  set for the codec.
\<close>

theorem setCodecPriority_effect:
  assumes "snd (setCodecPriority codec priority p) = q"
  shows "if priority = num_CODEC_PRIORITY_DISABLED nums
     then (\<forall>x ds d. x \<in> answers_for nums q dir caps reqs s \<and> direction_list_of dir x = Some ds
             \<and> Some d \<in> set ds \<longrightarrow> ase_codecId (aseConfiguration d) \<noteq> Some codec)
     else answers_for nums q dir caps reqs s =
          answers_for nums (p\<lparr>codec_priority_map := (codec_priority_map p)(codec := None)\<rparr>) dir caps reqs s"
proof (cases "priority = num_CODEC_PRIORITY_DISABLED nums")
  case True
  with assms have "codec_priority_map q codec = Some (num_CODEC_PRIORITY_DISABLED nums)"
    by (auto simp: setCodecPriority_def)
  with True answers_disabled show ?thesis by (metis (no_types, lifting))
next
  case False
  with assms have "answer_of nums q dir s cap req =
      answer_of nums (p\<lparr>codec_priority_map := (codec_priority_map p)(codec := None)\<rparr>) dir s cap req"
    for cap req by (intro answer_of_priority) (auto simp: setCodecPriority_def)
  with False show ?thesis by (simp add: answers_for_def)
qed

theorem setCodecPriority_effect_witness:
  "answers_for example_nums (snd (setCodecPriority (CodecId_core 6) 1 le_provider_new)) kDirectionSink
     [Some example_capability] [example_requirement] example_setting \<noteq> {}"
proof -
  have "(1 :: u32) \<noteq> num_CODEC_PRIORITY_DISABLED example_nums" by (simp add: example_nums_def)
  moreover have "le_provider_new\<lparr>codec_priority_map := (codec_priority_map le_provider_new)(c := None)\<rparr>
      = le_provider_new" for c by (simp add: le_provider_new_def)
  ultimately have "answers_for example_nums (snd (setCodecPriority (CodecId_core 6) 1 le_provider_new))
      kDirectionSink [Some example_capability] [example_requirement] example_setting
    = answers_for example_nums le_provider_new kDirectionSink
        [Some example_capability] [example_requirement] example_setting"
    using setCodecPriority_effect [OF refl, where codec = "CodecId_core 6" and priority = 1
        and p = le_provider_new and nums = example_nums and dir = kDirectionSink
        and caps = "[Some example_capability]" and reqs = "[example_requirement]"
        and s = example_setting] by simp
  then show ?thesis using example_answer_of by (auto simp: answers_for_def)
qed

section \<open>Quality of service\<close>

lemma first_some_split:
  "first_some f xs = Some y \<Longrightarrow>
     \<exists>ys x zs. xs = ys @ x # zs \<and> f x = Some y \<and> (\<forall>u \<in> set ys. f u = None)"
proof (induction xs)
  case (Cons a xs)
  show ?case
  proof (cases "f a")
    case None
    with Cons obtain ys x zs where "xs = ys @ x # zs \<and> f x = Some y \<and> (\<forall>u \<in> set ys. f u = None)"
      by auto
    with None show ?thesis by (intro exI [of _ "a # ys"] exI [of _ x] exI [of _ zs]) simp
  next
    case (Some b)
    with Cons.prems show ?thesis by (intro exI [of _ "[]"] exI [of _ a] exI [of _ xs]) simp
  qed
qed simp

lemma first_some_concat: "first_some (\<lambda>s. first_some f (g s)) ss = first_some f (concat (map g ss))"
proof -
  have "first_some f (xs @ ys) = (case first_some f xs of None \<Rightarrow> first_some f ys | Some y \<Rightarrow> Some y)" for xs ys
    by (induction xs) (auto split: option.splits)
  then show ?thesis by (induction ss) (simp_all cong: option.case_cong)
qed

lemma first_some_eq_None: "first_some f xs = None \<longleftrightarrow> (\<forall>x \<in> set xs. f x = None)"
  by (induction xs) (auto split: option.splits)

text \<open>An entry of a setting that meets a QoS requirement.\<close>

definition meets_qos ::
  "aidl_numbers \<Rightarrow> le_provider \<Rightarrow> AseQosDirectionRequirement \<Rightarrow> AseDirectionConfiguration
     \<Rightarrow> LeAudioAseQosConfiguration \<Rightarrow> bool" where
  "meets_qos nums p req d qos \<longleftrightarrow>
     qosConfiguration d = Some qos
   \<and> isMatchedAseConfiguration nums p (aseConfiguration d) (qosreq_aseConfiguration req)
   \<and> qos_retransmissionNum qos = qosreq_preferredRetransmissionNum req
   \<and> qos_maxTransportLatencyMs qos \<le> qosreq_maxTransportLatencyMs req"

lemma qos_of_direction_iff:
  "qos_of_direction nums p dir (Some req) (Some d) = Some pair \<longleftrightarrow>
     (\<exists>qos. meets_qos nums p req d qos
        \<and> pair = (if dir = kDirectionSink then \<lparr>sinkQosConfiguration = Some qos, sourceQosConfiguration = None\<rparr>
                  else \<lparr>sinkQosConfiguration = None, sourceQosConfiguration = Some qos\<rparr>))"
  by (auto simp: qos_of_direction_def meets_qos_def isMatchedQosRequirement_def empty_qos_pair_def
      split: option.splits if_splits)

lemma qos_of_direction_None:
  "qos_of_direction nums p dir (Some req) e = None \<longleftrightarrow>
     (\<forall>d qos. e = Some d \<longrightarrow> \<not> meets_qos nums p req d qos)"
proof (cases e)
  case (Some d)
  have "qos_of_direction nums p dir (Some req) (Some d) = None \<longleftrightarrow>
      (\<nexists>pair. qos_of_direction nums p dir (Some req) (Some d) = Some pair)" by simp
  then show ?thesis unfolding Some qos_of_direction_iff by auto
qed (simp add: qos_of_direction_def)

text \<open>The entries searched, in order.\<close>

definition qos_candidates ::
  "direction \<Rightarrow> u32 \<Rightarrow> LeAudioAseConfigurationSetting list \<Rightarrow> direction_list" where
  "qos_candidates dir context settings =
     concat (map (\<lambda>s. if setting_audioContext s = context
                     then (case direction_list_of dir s of None \<Rightarrow> [] | Some ds \<Rightarrow> ds) else []) settings)"

lemma qos_search:
  "first_some (qos_of_setting nums p context dir requirement) settings =
     first_some (qos_of_direction nums p dir requirement) (qos_candidates dir context settings)"
proof -
  have one: "qos_of_setting nums p context dir requirement = (\<lambda>s. first_some (qos_of_direction nums p dir requirement)
      (if setting_audioContext s = context
       then (case direction_list_of dir s of None \<Rightarrow> [] | Some ds \<Rightarrow> ds) else []))"
    by (intro ext) (simp add: qos_of_setting_def direction_list_of_def split: option.splits)
  show ?thesis unfolding one qos_candidates_def by (rule first_some_concat)
qed

text \<open>
  The quality of service chosen for a requirement. Among the entries of the settings with
  the requested context, in their order and on the side of the requirement (the sink's when it
  is given), the answer is the QoS of the first one that matches the required configuration
  with the preferred number of retransmissions and no more than the maximum latency, on that
  side only; when no entry does, both sides of the answer are empty.
\<close>

theorem getLeAudioAseQosConfiguration_answer:
  assumes load: "GetLeAudioAseConfigurationSettings nums files st = Inr (settings, st')"
    and req: "(sinkAseQosRequirement r = Some q \<and> dir = kDirectionSink)
       \<or> (sinkAseQosRequirement r = None \<and> sourceAseQosRequirement r = Some q \<and> dir = kDirectionSource)"
  shows "\<exists>pair. getLeAudioAseQosConfiguration nums files p r st = Inr (StatusOk, pair, st')
     \<and> (\<forall>candidates. candidates = qos_candidates dir (qosreq_audioContext r) settings \<longrightarrow>
          (\<exists>before d qos rest. candidates = before @ Some d # rest \<and> meets_qos nums p q d qos
             \<and> (\<forall>e qos'. Some e \<in> set before \<longrightarrow> \<not> meets_qos nums p q e qos')
             \<and> pair = (if dir = kDirectionSink
                       then \<lparr>sinkQosConfiguration = Some qos, sourceQosConfiguration = None\<rparr>
                       else \<lparr>sinkQosConfiguration = None, sourceQosConfiguration = Some qos\<rparr>))
        \<or> (\<forall>e qos. Some e \<in> set candidates \<longrightarrow> \<not> meets_qos nums p q e qos) \<and> pair = empty_qos_pair)"
proof -
  define candidates where "candidates = qos_candidates dir (qosreq_audioContext r) settings"
  define found where "found = first_some (qos_of_direction nums p dir (Some q)) candidates"
  have call: "getLeAudioAseQosConfiguration nums files p r st =
      Inr (StatusOk, (case found of Some pair \<Rightarrow> pair | None \<Rightarrow> empty_qos_pair), st')"
    using req by (auto simp: getLeAudioAseQosConfiguration_def load qos_search found_def candidates_def)
  show ?thesis
  proof (cases found)
    case None
    then have "\<forall>e qos. Some e \<in> set candidates \<longrightarrow> \<not> meets_qos nums p q e qos"
      by (auto simp: found_def first_some_eq_None qos_of_direction_None)
    with None show ?thesis by (simp add: call candidates_def)
  next
    case (Some pair)
    from first_some_split [OF Some [unfolded found_def]] obtain before x rest where
      split: "candidates = before @ x # rest" "qos_of_direction nums p dir (Some q) x = Some pair"
        "\<forall>u \<in> set before. qos_of_direction nums p dir (Some q) u = None" by blast
    from split(2) obtain d where x: "x = Some d"
      by (cases x) (auto simp: qos_of_direction_def)
    have "\<forall>e qos'. Some e \<in> set before \<longrightarrow> \<not> meets_qos nums p q e qos'"
      using split(3) by (auto simp: qos_of_direction_None)
    moreover from split(2) [unfolded x qos_of_direction_iff] obtain qos where
      "meets_qos nums p q d qos"
      "pair = (if dir = kDirectionSink then \<lparr>sinkQosConfiguration = Some qos, sourceQosConfiguration = None\<rparr>
               else \<lparr>sinkQosConfiguration = None, sourceQosConfiguration = Some qos\<rparr>)" by blast
    ultimately have "\<exists>before d qos rest. candidates = before @ Some d # rest \<and> meets_qos nums p q d qos
             \<and> (\<forall>e qos'. Some e \<in> set before \<longrightarrow> \<not> meets_qos nums p q e qos')
             \<and> pair = (if dir = kDirectionSink
                       then \<lparr>sinkQosConfiguration = Some qos, sourceQosConfiguration = None\<rparr>
                       else \<lparr>sinkQosConfiguration = None, sourceQosConfiguration = Some qos\<rparr>)"
      using split(1) x by blast
    with Some show ?thesis
      unfolding call candidates_def [symmetric] by (intro exI [of _ pair]) simp
  qed
qed

definition example_qos_requirement :: LeAudioAseQosConfigurationRequirement where
  "example_qos_requirement =
     \<lparr>qosreq_audioContext = 0xD15,
      sinkAseQosRequirement = Some
        \<lparr>qosreq_maxTransportLatencyMs = 20, qosreq_preferredRetransmissionNum = 5,
         qosreq_aseConfiguration =
           \<lparr>targetLatency = LOWER, targetPhy = TWO_M, ase_codecId = None, ase_codecConfiguration = []\<rparr>\<rparr>,
      sourceAseQosRequirement = None\<rparr>"

lemma example_meets:
  "meets_qos example_nums le_provider_new (the (sinkAseQosRequirement example_qos_requirement))
     example_direction \<lparr>qos_maxTransportLatencyMs = 20, qos_retransmissionNum = 5\<rparr>"
  by code_simp

theorem getLeAudioAseQosConfiguration_answer_witness:
  "\<exists>pair st'. getLeAudioAseQosConfiguration example_nums example_files le_provider_new
       example_qos_requirement settings_initial = Inr (StatusOk, pair, st')
     \<and> pair \<noteq> empty_qos_pair"
proof -
  have q: "sinkAseQosRequirement example_qos_requirement
      = Some (the (sinkAseQosRequirement example_qos_requirement))"
    by (simp add: example_qos_requirement_def)
  have "Some example_direction \<in> set (qos_candidates kDirectionSink
      (qosreq_audioContext example_qos_requirement) [example_setting])"
    by (simp add: qos_candidates_def direction_list_of_def example_setting_def example_qos_requirement_def)
  with getLeAudioAseQosConfiguration_answer [OF example_loaded, of example_qos_requirement _ kDirectionSink
      le_provider_new] q example_meets
  show ?thesis by (fastforce simp: empty_qos_pair_def)
qed

section \<open>Broadcast answers\<close>

text \<open>
  No broadcast configuration is ever delivered. The function clears its pointer to the
  result before it looks for one: whenever it returns it has written nothing, and when the
  remote device matches a known setting and no requirement is listed it dereferences the null
  pointer. With the codec information that the tables report, which is always empty, a fresh
  provider never gets there.
\<close>

theorem getLeAudioBroadcastConfiguration_undelivered:
  "(\<forall>status r p'. getLeAudioBroadcastConfiguration nums db remote reqs p = Inr (status, r, p') \<longrightarrow>
      status = StatusOk \<and> r = None)
   \<and> (broadcast_settings p \<noteq> [] \<longrightarrow> reqs = [] \<longrightarrow>
       (\<exists>caps cap setting sub_cfg bis. remote = Some caps \<and> Some cap \<in> set caps
          \<and> setting \<in> set (broadcast_settings p) \<and> sub_cfg \<in> set (subgroupsConfigurations setting)
          \<and> bis \<in> set (bisConfigurations sub_cfg)
          \<and> isMatchedBISConfiguration nums p (bisConfiguration bis) cap) \<longrightarrow>
       getLeAudioBroadcastConfiguration nums db remote reqs p = Inl Null_dereference)
   \<and> getLeAudioBroadcastConfiguration nums
        (fst (GetLeAudioOffloadCodecInfo parsed LE_AUDIO_BROADCAST_HARDWARE_OFFLOAD_ENCODING_DATAPATH []))
        remote reqs le_provider_new = Inr (StatusOk, None, le_provider_new)"
proof (intro conjI impI allI)
  fix status r p'
  assume "getLeAudioBroadcastConfiguration nums db remote reqs p = Inr (status, r, p')"
  then show "status = StatusOk" "r = None"
    by (auto simp: getLeAudioBroadcastConfiguration_def write_return_def Let_def
        split: option.splits if_splits)
next
  assume settings: "broadcast_settings p \<noteq> []" and reqs: "reqs = []"
    and "\<exists>caps cap setting sub_cfg bis. remote = Some caps \<and> Some cap \<in> set caps
          \<and> setting \<in> set (broadcast_settings p) \<and> sub_cfg \<in> set (subgroupsConfigurations setting)
          \<and> bis \<in> set (bisConfigurations sub_cfg)
          \<and> isMatchedBISConfiguration nums p (bisConfiguration bis) cap"
  then obtain caps cap setting sub_cfg bis where match: "remote = Some caps" "Some cap \<in> set caps"
    "setting \<in> set (broadcast_settings p)" "sub_cfg \<in> set (subgroupsConfigurations setting)"
    "bis \<in> set (bisConfigurations sub_cfg)" "isMatchedBISConfiguration nums p (bisConfiguration bis) cap"
    by blast
  from match(4-6) have "getCapabilitiesMatchedBroadcastConfigurationSettings nums p setting cap \<noteq> None"
    by (auto simp: getCapabilitiesMatchedBroadcastConfigurationSettings_def Let_def filter_empty_conv)
  with match(2,3) have "filtered_broadcast_settings nums p caps \<noteq> []"
    by (force simp: filtered_broadcast_settings_def option_list_def split: option.splits)
  with settings reqs match(1) show
    "getLeAudioBroadcastConfiguration nums db remote reqs p = Inl Null_dereference"
    by (simp add: getLeAudioBroadcastConfiguration_def getBroadcastSettings_def write_return_def
        Let_def)
next
  have "filtered_broadcast_settings nums le_provider_new caps = []" for caps
    by (simp add: filtered_broadcast_settings_def le_provider_new_def)
  then show "getLeAudioBroadcastConfiguration nums
        (fst (GetLeAudioOffloadCodecInfo parsed LE_AUDIO_BROADCAST_HARDWARE_OFFLOAD_ENCODING_DATAPATH []))
        remote reqs le_provider_new = Inr (StatusOk, None, le_provider_new)"
    by (simp add: getLeAudioBroadcastConfiguration_def getBroadcastSettings_def
        GetLeAudioOffloadCodecInfo_def le_provider_new_def split: option.splits)
qed

definition example_broadcast_provider :: le_provider where
  "example_broadcast_provider = le_provider_new\<lparr>broadcast_settings :=
     [\<lparr>bset_numBis = 1, bset_phy = [TWO_M], subgroupsConfigurations = [\<lparr>bisConfigurations =
        [\<lparr>subbis_numBis = 1, bisConfiguration =
            \<lparr>bis_codecId = CodecId_core 6, bis_codecConfiguration =
               ase_codecConfiguration (aseConfiguration example_direction)\<rparr>\<rparr>]\<rparr>]\<rparr>]\<rparr>"

theorem getLeAudioBroadcastConfiguration_undelivered_witness:
  "getLeAudioBroadcastConfiguration example_nums [] (Some [Some example_capability]) []
     example_broadcast_provider = Inl Null_dereference"
proof -
  let ?bis = "\<lparr>subbis_numBis = 1, bisConfiguration =
      \<lparr>bis_codecId = CodecId_core 6, bis_codecConfiguration =
         ase_codecConfiguration (aseConfiguration example_direction)\<rparr>\<rparr>"
  have match: "isMatchedBISConfiguration example_nums example_broadcast_provider (bisConfiguration ?bis)
      example_capability" by code_simp
  have some: "broadcast_settings example_broadcast_provider \<noteq> []"
    by (simp add: example_broadcast_provider_def)
  have "\<exists>caps cap setting sub_cfg bis. Some [Some example_capability] = Some caps \<and> Some cap \<in> set caps
          \<and> setting \<in> set (broadcast_settings example_broadcast_provider)
          \<and> sub_cfg \<in> set (subgroupsConfigurations setting) \<and> bis \<in> set (bisConfigurations sub_cfg)
          \<and> isMatchedBISConfiguration example_nums example_broadcast_provider (bisConfiguration bis) cap"
    by (intro exI [of _ "[Some example_capability]"] exI [of _ example_capability]
        exI [of _ "hd (broadcast_settings example_broadcast_provider)"]
        exI [of _ "\<lparr>bisConfigurations = [?bis]\<rparr>"] exI [of _ ?bis] conjI match)
       (simp_all add: example_broadcast_provider_def)
  with some show ?thesis
    using getLeAudioBroadcastConfiguration_undelivered [where nums = example_nums and db = "[]"
        and remote = "Some [Some example_capability]" and reqs = "[]" and p = example_broadcast_provider]
    by blast
qed

end
