(* ===== verification/Hidl_Types.thy ===== *)
theory Hidl_Types
  imports Audio_Types
begin

text \<open>
  The data of the older HIDL interfaces 2.0 and 2.1, and the translation of AIDL data to it
  (the functions \<open>to_hidl_*\<close> of \<open>utils/aidl_session/HidlToAidlMiddleware.cpp\<close>). An enumeration
  of 2.1 extends the one of 2.0 without renumbering it, so both are one type and a cast
  between them is the identity. An object that the code leaves partly uninitialised starts
  from an argument \<open>junk\<close>; a call that aborts the process (\<open>LOG(FATAL)\<close>, or the wrong member of
  a union) is \<^term>\<open>None\<close>.
\<close>

section \<open>HIDL types\<close>

datatype HidlSessionType =
    HST_UNKNOWN
  | HST_A2DP_SOFTWARE_ENCODING_DATAPATH
  | HST_A2DP_HARDWARE_OFFLOAD_DATAPATH
  | HST_HEARING_AID_SOFTWARE_ENCODING_DATAPATH
  | HST_LE_AUDIO_SOFTWARE_ENCODING_DATAPATH
  | HST_LE_AUDIO_SOFTWARE_DECODED_DATAPATH
  | HST_LE_AUDIO_HARDWARE_OFFLOAD_ENCODING_DATAPATH
  | HST_LE_AUDIO_HARDWARE_OFFLOAD_DECODING_DATAPATH

datatype HidlStatus =
  HIDL_UNKNOWN | HIDL_SUCCESS | HIDL_UNSUPPORTED_CODEC_CONFIGURATION | HIDL_FAILURE

datatype SampleRate =
    RATE_UNKNOWN | RATE_8000 | RATE_16000 | RATE_24000 | RATE_32000 | RATE_44100 | RATE_48000
  | RATE_88200 | RATE_96000 | RATE_176400 | RATE_192000

datatype BitsPerSample = BITS_UNKNOWN | BITS_16 | BITS_24 | BITS_32

datatype HidlChannelMode = HCM_UNKNOWN | HCM_MONO | HCM_STEREO

datatype HidlCodecType = HCT_UNKNOWN | HCT_SBC | HCT_AAC | HCT_APTX | HCT_APTX_HD | HCT_LDAC

datatype HidlSbcChannelMode =
    HSbcCM_UNKNOWN | HSbcCM_JOINT_STEREO | HSbcCM_STEREO | HSbcCM_DUAL | HSbcCM_MONO
datatype HidlSbcBlockLength = BLOCKS_4 | BLOCKS_8 | BLOCKS_12 | BLOCKS_16
datatype HidlSbcNumSubbands = SUBBAND_4 | SUBBAND_8
datatype HidlSbcAllocMethod = HALLOC_MD_S | HALLOC_MD_L
datatype HidlAacObjectType = HMPEG2_LC | HMPEG4_LC | HMPEG4_LTP | HMPEG4_SCALABLE
datatype HidlAacVariableBitRate = VBR_ENABLED | VBR_DISABLED
datatype HidlLdacChannelMode = HLdacCM_UNKNOWN | HLdacCM_STEREO | HLdacCM_DUAL | HLdacCM_MONO
datatype HidlLdacQualityIndex = QUALITY_HIGH | QUALITY_MID | QUALITY_LOW | QUALITY_ABR

record HidlPcmParameters =
  hpcm_sampleRate :: SampleRate
  hpcm_channelMode :: HidlChannelMode
  hpcm_bitsPerSample :: BitsPerSample

record HidlPcmParameters_2_1 =
  hpcm21_sampleRate :: SampleRate
  hpcm21_channelMode :: HidlChannelMode
  hpcm21_bitsPerSample :: BitsPerSample
  hpcm21_dataIntervalUs :: u32

record HidlSbcParameters =
  hsbc_sampleRate :: SampleRate
  hsbc_channelMode :: HidlSbcChannelMode
  hsbc_blockLength :: HidlSbcBlockLength
  hsbc_numSubbands :: HidlSbcNumSubbands
  hsbc_allocMethod :: HidlSbcAllocMethod
  hsbc_bitsPerSample :: BitsPerSample
  hsbc_minBitpool :: u8
  hsbc_maxBitpool :: u8

record HidlAacParameters =
  haac_objectType :: HidlAacObjectType
  haac_sampleRate :: SampleRate
  haac_channelMode :: HidlChannelMode
  haac_variableBitRateEnabled :: HidlAacVariableBitRate
  haac_bitsPerSample :: BitsPerSample

record HidlLdacParameters =
  hldac_sampleRate :: SampleRate
  hldac_channelMode :: HidlLdacChannelMode
  hldac_qualityIndex :: HidlLdacQualityIndex
  hldac_bitsPerSample :: BitsPerSample

record HidlAptxParameters =
  haptx_sampleRate :: SampleRate
  haptx_channelMode :: HidlChannelMode
  haptx_bitsPerSample :: BitsPerSample

datatype HidlCodecSpecific =
    hsbcConfig HidlSbcParameters
  | haacConfig HidlAacParameters
  | hldacConfig HidlLdacParameters
  | haptxConfig HidlAptxParameters

record HidlCodecConfiguration =
  hcodecType :: HidlCodecType
  hencodedAudioBitrate :: u32
  hpeerMtu :: u32
  hisScmstEnabled :: bool
  hconfig :: HidlCodecSpecific

datatype Lc3FrameDuration = DURATION_10000US | DURATION_7500US

record HidlLc3Parameters =
  hlc3_pcmBitDepth :: BitsPerSample
  hlc3_samplingFrequency :: SampleRate
  hlc3_frameDuration :: Lc3FrameDuration
  hlc3_octetsPerFrame :: u32
  hlc3_blocksPerSdu :: u32

record HidlLc3CodecConfiguration =
  hlc3_config :: HidlLc3Parameters
  hlc3_audioChannelAllocation :: u32

datatype HidlAudioConfiguration =
    H20_pcmConfig HidlPcmParameters
  | H20_codecConfig HidlCodecConfiguration

datatype HidlAudioConfiguration_2_1 =
    H21_pcmConfig HidlPcmParameters_2_1
  | H21_codecConfig HidlCodecConfiguration
  | H21_leAudioCodecConfig HidlLc3CodecConfiguration

text \<open>
  What HIDL objects hold that the code does not assign: \<open>junk_\<close> is the arbitrary content of a
  local variable, \<open>zero_lc3\<close> and the unions are what initialisation by the generated types
  leaves.
\<close>

record hidl_junk =
  junk_sbc :: HidlSbcParameters
  junk_aac :: HidlAacParameters
  junk_ldac :: HidlLdacParameters
  union_codec :: HidlCodecSpecific
  junk_lc3 :: HidlLc3Parameters
  zero_lc3 :: HidlLc3Parameters
  union_2_0 :: HidlAudioConfiguration
  union_2_1 :: HidlAudioConfiguration_2_1

section \<open>Tables\<close>

definition session_type_2_1_to_aidl_map :: "(HidlSessionType \<times> SessionType) list" where
  "session_type_2_1_to_aidl_map =
     [(HST_A2DP_SOFTWARE_ENCODING_DATAPATH, A2DP_SOFTWARE_ENCODING_DATAPATH),
      (HST_A2DP_HARDWARE_OFFLOAD_DATAPATH, A2DP_HARDWARE_OFFLOAD_ENCODING_DATAPATH),
      (HST_HEARING_AID_SOFTWARE_ENCODING_DATAPATH, HEARING_AID_SOFTWARE_ENCODING_DATAPATH),
      (HST_LE_AUDIO_SOFTWARE_ENCODING_DATAPATH, LE_AUDIO_SOFTWARE_ENCODING_DATAPATH),
      (HST_LE_AUDIO_SOFTWARE_DECODED_DATAPATH, LE_AUDIO_SOFTWARE_DECODING_DATAPATH),
      (HST_LE_AUDIO_HARDWARE_OFFLOAD_ENCODING_DATAPATH, LE_AUDIO_HARDWARE_OFFLOAD_ENCODING_DATAPATH),
      (HST_LE_AUDIO_HARDWARE_OFFLOAD_DECODING_DATAPATH, LE_AUDIO_HARDWARE_OFFLOAD_DECODING_DATAPATH)]"

definition sample_rate_to_hidl_2_1_map :: "(int \<times> SampleRate) list" where
  "sample_rate_to_hidl_2_1_map =
     [(44100, RATE_44100), (48000, RATE_48000), (88200, RATE_88200), (96000, RATE_96000),
      (176400, RATE_176400), (192000, RATE_192000), (16000, RATE_16000), (24000, RATE_24000),
      (8000, RATE_8000), (32000, RATE_32000)]"

definition codec_type_to_hidl_2_0_map :: "(CodecType \<times> HidlCodecType) list" where
  "codec_type_to_hidl_2_0_map =
     [(CT_UNKNOWN, HCT_UNKNOWN), (CT_SBC, HCT_SBC), (CT_AAC, HCT_AAC), (CT_APTX, HCT_APTX),
      (CT_APTX_HD, HCT_APTX_HD), (CT_LDAC, HCT_LDAC), (CT_LC3, HCT_UNKNOWN)]"

definition sbc_channel_mode_to_hidl_2_0_map :: "(SbcChannelMode \<times> HidlSbcChannelMode) list" where
  "sbc_channel_mode_to_hidl_2_0_map =
     [(SbcCM_UNKNOWN, HSbcCM_UNKNOWN), (SbcCM_JOINT_STEREO, HSbcCM_JOINT_STEREO),
      (SbcCM_STEREO, HSbcCM_STEREO), (SbcCM_DUAL, HSbcCM_DUAL), (SbcCM_MONO, HSbcCM_MONO)]"

definition sbc_block_length_to_hidl_map :: "(u8 \<times> HidlSbcBlockLength) list" where
  "sbc_block_length_to_hidl_map = [(4, BLOCKS_4), (8, BLOCKS_8), (12, BLOCKS_12), (16, BLOCKS_16)]"

definition sbc_subbands_to_hidl_map :: "(u8 \<times> HidlSbcNumSubbands) list" where
  "sbc_subbands_to_hidl_map = [(4, SUBBAND_4), (8, SUBBAND_8)]"

definition sbc_alloc_method_to_hidl_map :: "(SbcAllocMethod \<times> HidlSbcAllocMethod) list" where
  "sbc_alloc_method_to_hidl_map = [(ALLOC_MD_S, HALLOC_MD_S), (ALLOC_MD_L, HALLOC_MD_L)]"

definition aac_object_type_to_hidl_map :: "(AacObjectType \<times> HidlAacObjectType) list" where
  "aac_object_type_to_hidl_map =
     [(MPEG2_LC, HMPEG2_LC), (MPEG4_LC, HMPEG4_LC), (MPEG4_LTP, HMPEG4_LTP),
      (MPEG4_SCALABLE, HMPEG4_SCALABLE)]"

definition ldac_channel_mode_to_hidl_map :: "(LdacChannelMode \<times> HidlLdacChannelMode) list" where
  "ldac_channel_mode_to_hidl_map =
     [(LdacCM_UNKNOWN, HLdacCM_UNKNOWN), (LdacCM_STEREO, HLdacCM_STEREO),
      (LdacCM_DUAL, HLdacCM_DUAL), (LdacCM_MONO, HLdacCM_MONO)]"

definition ldac_qindex_to_hidl_map :: "(LdacQualityIndex \<times> HidlLdacQualityIndex) list" where
  "ldac_qindex_to_hidl_map =
     [(LdacQI_HIGH, QUALITY_HIGH), (LdacQI_MID, QUALITY_MID), (LdacQI_LOW, QUALITY_LOW),
      (LdacQI_ABR, QUALITY_ABR)]"

section \<open>Scalars\<close>

definition from_session_type_2_1 :: "HidlSessionType \<Rightarrow> SessionType" where
  "from_session_type_2_1 session_type_hidl =
     (case map_of session_type_2_1_to_aidl_map session_type_hidl of Some t \<Rightarrow> t | None \<Rightarrow> ST_UNKNOWN)"

definition from_session_type_2_0 :: "HidlSessionType \<Rightarrow> SessionType" where
  "from_session_type_2_0 session_type_hidl = from_session_type_2_1 session_type_hidl"

fun to_hidl_status :: "BluetoothAudioStatus \<Rightarrow> HidlStatus" where
  "to_hidl_status SUCCESS = HIDL_SUCCESS"
| "to_hidl_status UNSUPPORTED_CODEC_CONFIGURATION = HIDL_UNSUPPORTED_CODEC_CONFIGURATION"
| "to_hidl_status _ = HIDL_FAILURE"

definition to_hidl_sample_rate_2_1 :: "int \<Rightarrow> SampleRate" where
  "to_hidl_sample_rate_2_1 sample_rate_hz =
     (case map_of sample_rate_to_hidl_2_1_map sample_rate_hz of Some r \<Rightarrow> r | None \<Rightarrow> RATE_UNKNOWN)"

definition to_hidl_sample_rate_2_0 :: "int \<Rightarrow> SampleRate" where
  "to_hidl_sample_rate_2_0 sample_rate_hz =
     (case map_of sample_rate_to_hidl_2_1_map sample_rate_hz of Some r \<Rightarrow> r | None \<Rightarrow> RATE_UNKNOWN)"

definition to_hidl_bits_per_sample :: "u8 \<Rightarrow> BitsPerSample" where
  "to_hidl_bits_per_sample bit_per_sample =
     (if bit_per_sample = 16 then BITS_16 else if bit_per_sample = 24 then BITS_24
      else if bit_per_sample = 32 then BITS_32 else BITS_UNKNOWN)"

fun to_hidl_channel_mode :: "ChannelMode \<Rightarrow> HidlChannelMode" where
  "to_hidl_channel_mode CM_MONO = HCM_MONO"
| "to_hidl_channel_mode CM_STEREO = HCM_STEREO"
| "to_hidl_channel_mode _ = HCM_UNKNOWN"

definition to_hidl_codec_type_2_0 :: "CodecType \<Rightarrow> HidlCodecType" where
  "to_hidl_codec_type_2_0 codec_type =
     (case map_of codec_type_to_hidl_2_0_map codec_type of Some t \<Rightarrow> t | None \<Rightarrow> HCT_UNKNOWN)"

text \<open>\<open>if (table.find(k) != table.end()) field = table.at(k)\<close>: the field keeps what it had.\<close>

definition table_or :: "('k \<times> 'v) list \<Rightarrow> 'k \<Rightarrow> 'v \<Rightarrow> 'v" where
  "table_or table k old = (case map_of table k of Some v \<Rightarrow> v | None \<Rightarrow> old)"

section \<open>Configurations\<close>

definition to_hidl_pcm_config_2_0 :: "PcmConfiguration \<Rightarrow> HidlPcmParameters" where
  "to_hidl_pcm_config_2_0 pcm_config =
     \<lparr>hpcm_sampleRate = to_hidl_sample_rate_2_0 (sampleRateHz pcm_config),
      hpcm_channelMode = to_hidl_channel_mode (pcm_channelMode pcm_config),
      hpcm_bitsPerSample = to_hidl_bits_per_sample (bitsPerSample pcm_config)\<rparr>"

definition to_hidl_sbc_config :: "HidlSbcParameters \<Rightarrow> SbcConfiguration \<Rightarrow> HidlSbcParameters" where
  "to_hidl_sbc_config junk sbc_cfg =
     \<lparr>hsbc_sampleRate = to_hidl_sample_rate_2_0 (sbc_sampleRateHz sbc_cfg),
      hsbc_channelMode = table_or sbc_channel_mode_to_hidl_2_0_map (sbc_channelMode sbc_cfg) (hsbc_channelMode junk),
      hsbc_blockLength = table_or sbc_block_length_to_hidl_map (sbc_blockLength sbc_cfg) (hsbc_blockLength junk),
      hsbc_numSubbands = table_or sbc_subbands_to_hidl_map (sbc_numSubbands sbc_cfg) (hsbc_numSubbands junk),
      hsbc_allocMethod = table_or sbc_alloc_method_to_hidl_map (sbc_allocMethod sbc_cfg) (hsbc_allocMethod junk),
      hsbc_bitsPerSample = to_hidl_bits_per_sample (sbc_bitsPerSample sbc_cfg),
      hsbc_minBitpool = sbc_minBitpool sbc_cfg,
      hsbc_maxBitpool = sbc_maxBitpool sbc_cfg\<rparr>"

definition to_hidl_aac_config :: "HidlAacParameters \<Rightarrow> AacConfiguration \<Rightarrow> HidlAacParameters" where
  "to_hidl_aac_config junk aac_cfg =
     \<lparr>haac_objectType = table_or aac_object_type_to_hidl_map (aac_objectType aac_cfg) (haac_objectType junk),
      haac_sampleRate = to_hidl_sample_rate_2_0 (aac_sampleRateHz aac_cfg),
      haac_channelMode = to_hidl_channel_mode (aac_channelMode aac_cfg),
      haac_variableBitRateEnabled = (if aac_variableBitRateEnabled aac_cfg then VBR_ENABLED else VBR_DISABLED),
      haac_bitsPerSample = to_hidl_bits_per_sample (aac_bitsPerSample aac_cfg)\<rparr>"

definition to_hidl_ldac_config :: "HidlLdacParameters \<Rightarrow> LdacConfiguration \<Rightarrow> HidlLdacParameters" where
  "to_hidl_ldac_config junk ldac_cfg =
     \<lparr>hldac_sampleRate = to_hidl_sample_rate_2_0 (ldac_sampleRateHz ldac_cfg),
      hldac_channelMode = table_or ldac_channel_mode_to_hidl_map (ldac_channelMode ldac_cfg) (hldac_channelMode junk),
      hldac_qualityIndex = table_or ldac_qindex_to_hidl_map (ldac_qualityIndex ldac_cfg) (hldac_qualityIndex junk),
      hldac_bitsPerSample = to_hidl_bits_per_sample (ldac_bitsPerSample ldac_cfg)\<rparr>"

definition to_hidl_aptx_config :: "AptxConfiguration \<Rightarrow> HidlAptxParameters" where
  "to_hidl_aptx_config aptx_cfg =
     \<lparr>haptx_sampleRate = to_hidl_sample_rate_2_0 (aptx_sampleRateHz aptx_cfg),
      haptx_channelMode = to_hidl_channel_mode (aptx_channelMode aptx_cfg),
      haptx_bitsPerSample = to_hidl_bits_per_sample (aptx_bitsPerSample aptx_cfg)\<rparr>"

definition to_hidl_codec_config_2_0 :: "hidl_junk \<Rightarrow> CodecConfiguration \<Rightarrow> HidlCodecConfiguration" where
  "to_hidl_codec_config_2_0 junk cc =
     \<lparr>hcodecType = to_hidl_codec_type_2_0 (codecType cc),
      hencodedAudioBitrate = word_of_int (encodedAudioBitrate cc),
      hpeerMtu = word_of_int (peerMtu cc),
      hisScmstEnabled = isScmstEnabled cc,
      hconfig = (case codec_config cc of
          sbcConfig c \<Rightarrow> hsbcConfig (to_hidl_sbc_config (junk_sbc junk) c)
        | aacConfig c \<Rightarrow> haacConfig (to_hidl_aac_config (junk_aac junk) c)
        | ldacConfig c \<Rightarrow> hldacConfig (to_hidl_ldac_config (junk_ldac junk) c)
        | aptxConfig c \<Rightarrow> haptxConfig (to_hidl_aptx_config c)
        | _ \<Rightarrow> union_codec junk)\<rparr>"

definition to_hidl_audio_config_2_0 :: "hidl_junk \<Rightarrow> AudioConfiguration \<Rightarrow> HidlAudioConfiguration" where
  "to_hidl_audio_config_2_0 junk audio_config =
     (case audio_config of
        pcmConfig c \<Rightarrow> H20_pcmConfig (to_hidl_pcm_config_2_0 c)
      | a2dpConfig c \<Rightarrow> H20_codecConfig (to_hidl_codec_config_2_0 junk c)
      | _ \<Rightarrow> union_2_0 junk)"

definition to_hidl_pcm_config_2_1 :: "PcmConfiguration \<Rightarrow> HidlPcmParameters_2_1" where
  "to_hidl_pcm_config_2_1 pcm_config =
     \<lparr>hpcm21_sampleRate = to_hidl_sample_rate_2_1 (sampleRateHz pcm_config),
      hpcm21_channelMode = to_hidl_channel_mode (pcm_channelMode pcm_config),
      hpcm21_bitsPerSample = to_hidl_bits_per_sample (bitsPerSample pcm_config),
      hpcm21_dataIntervalUs = word_of_int (dataIntervalUs pcm_config)\<rparr>"

text \<open>The frame duration is chosen by the sampling frequency, as the source has it.\<close>

definition to_hidl_lc3_config_2_1 :: "HidlLc3Parameters \<Rightarrow> Lc3Configuration \<Rightarrow> HidlLc3Parameters" where
  "to_hidl_lc3_config_2_1 junk lc3_cfg =
     \<lparr>hlc3_pcmBitDepth = to_hidl_bits_per_sample (lc3_pcmBitDepth lc3_cfg),
      hlc3_samplingFrequency = to_hidl_sample_rate_2_1 (lc3_samplingFrequencyHz lc3_cfg),
      hlc3_frameDuration =
        (if lc3_samplingFrequencyHz lc3_cfg = 10000 then DURATION_10000US
         else if lc3_samplingFrequencyHz lc3_cfg = 7500 then DURATION_7500US
         else hlc3_frameDuration junk),
      hlc3_octetsPerFrame = word_of_int (lc3_octetsPerFrame lc3_cfg),
      hlc3_blocksPerSdu = scast (lc3_blocksPerSdu lc3_cfg)\<rparr>"

text \<open>
  The unicast translation aborts on an LC3 configuration, and the access to the LC3 member
  aborts on any other one.
\<close>

fun is_lc3Config :: "LeAudioCodecConfiguration \<Rightarrow> bool" where
  "is_lc3Config (lc3Config _) = True"
| "is_lc3Config (otherLeConfig _) = False"

definition to_hidl_leaudio_config_2_1 ::
  "HidlLc3Parameters \<Rightarrow> LeAudioConfiguration \<Rightarrow> HidlLc3CodecConfiguration option" where
  "to_hidl_leaudio_config_2_1 junk unicast_config =
     (if is_lc3Config (le_codecConfig unicast_config) then None
      else case le_codecConfig unicast_config of
        otherLeConfig _ \<Rightarrow> None
      | lc3Config le_codec_config \<Rightarrow> Some
          \<lparr>hlc3_config = to_hidl_lc3_config_2_1 junk le_codec_config,
           hlc3_audioChannelAllocation = fold (\<lambda>m a. a OR m) (le_streamMap unicast_config) 0\<rparr>)"

definition to_hidl_leaudio_broadcast_config_2_1 ::
  "hidl_junk \<Rightarrow> LeAudioBroadcastConfiguration \<Rightarrow> HidlLc3CodecConfiguration option" where
  "to_hidl_leaudio_broadcast_config_2_1 junk broadcast_config =
     (case bc_streamMap broadcast_config of
        [] \<Rightarrow> Some \<lparr>hlc3_config = zero_lc3 junk, hlc3_audioChannelAllocation = 0\<rparr>
      | (codec, _) # _ \<Rightarrow>
         (case codec of
            otherLeConfig _ \<Rightarrow> None
          | lc3Config le_codec_config \<Rightarrow> Some
              \<lparr>hlc3_config = to_hidl_lc3_config_2_1 (junk_lc3 junk) le_codec_config,
               hlc3_audioChannelAllocation =
                 fold (\<lambda>m a. a OR snd m) (bc_streamMap broadcast_config) 0\<rparr>))"

definition to_hidl_audio_config_2_1 ::
  "hidl_junk \<Rightarrow> AudioConfiguration \<Rightarrow> HidlAudioConfiguration_2_1 option" where
  "to_hidl_audio_config_2_1 junk audio_config =
     (case audio_config of
        pcmConfig c \<Rightarrow> Some (H21_pcmConfig (to_hidl_pcm_config_2_1 c))
      | a2dpConfig c \<Rightarrow> Some (H21_codecConfig (to_hidl_codec_config_2_0 junk c))
      | a2dp _ \<Rightarrow> Some (union_2_1 junk)
      | leAudioConfig c \<Rightarrow>
          map_option H21_leAudioCodecConfig (to_hidl_leaudio_config_2_1 (junk_lc3 junk) c)
      | leAudioBroadcastConfig c \<Rightarrow>
          map_option H21_leAudioCodecConfig (to_hidl_leaudio_broadcast_config_2_1 junk c)
      | hfpConfig _ \<Rightarrow> None)"

end
