(* ===== verification/Hidl_Middleware.thy ===== *)
theory Hidl_Middleware
  imports Hidl_Types Port_Interface
begin

text \<open>
  The middleware between the HIDL control interface and the AIDL session
  (\<open>utils/aidl_session/HidlToAidlMiddleware.cpp\<close>). Every call is made on the AIDL session of
  the translated type. A registration wraps the HIDL closures: what the AIDL session holds are
  closures of the middleware, which look the HIDL closures up in a table by the cookie.
\<close>

section \<open>State\<close>

text \<open>
  The HIDL closures of an observer, numbered like the AIDL ones, and what the middleware does
  with a notification: it enters a HIDL closure, or throws at an empty one.
\<close>

record HidlCallbacks =
  hcb_control_result :: "nat option"
  hcb_session_changed :: "nat option"

datatype hidl_notification =
    HidlControlResult nat u16 bool HidlStatus
  | HidlSessionChanged nat u16
  | HidlBadFunctionCall

type_synonym callback_table = "u16 \<Rightarrow> HidlCallbacks option"

record middleware =
  mw_sessions :: sessions_map
  legacy_callback_table :: "SessionType \<Rightarrow> callback_table"

text \<open>
  The constants of a run: the numbers of the session types, and the number that names the
  middleware's closures over the table of a session type.
\<close>

record mw_ctx =
  mc_sc :: session_code
  mc_closure :: "SessionType \<Rightarrow> nat"

section \<open>Registration\<close>

definition mw_callbacks :: "mw_ctx \<Rightarrow> SessionType \<Rightarrow> HidlCallbacks \<Rightarrow> PortStatusCallbacks" where
  "mw_callbacks ctx t cbacks =
     \<lparr>control_result_cb = map_option (\<lambda>_. mc_closure ctx t) (hcb_control_result cbacks),
      session_changed_cb = map_option (\<lambda>_. mc_closure ctx t) (hcb_session_changed cbacks),
      audio_configuration_changed_cb = None, low_latency_mode_allowed_cb = None\<rparr>"

text \<open>
  The two steps of a registration; the stack may report in between, because the session's
  lock is released with the first.
\<close>

definition mw_register_session ::
  "mw_ctx \<Rightarrow> HidlSessionType \<Rightarrow> HidlCallbacks \<Rightarrow> middleware \<Rightarrow> u16 \<times> middleware" where
  "mw_register_session ctx session_type cbacks m =
     (let t = from_session_type_2_0 session_type;
          (cookie, ss) = RegisterControlResultCback (mc_sc ctx) t (mw_callbacks ctx t cbacks) (mw_sessions m)
      in (cookie, m\<lparr>mw_sessions := ss\<rparr>))"

definition mw_register_table ::
  "HidlSessionType \<Rightarrow> u16 \<Rightarrow> HidlCallbacks \<Rightarrow> middleware \<Rightarrow> middleware" where
  "mw_register_table session_type cookie cbacks m =
     (let t = from_session_type_2_0 session_type
      in m\<lparr>legacy_callback_table :=
        (legacy_callback_table m)(t := (legacy_callback_table m t)(cookie \<mapsto> cbacks))\<rparr>)"

definition Mw_RegisterControlResultCback ::
  "mw_ctx \<Rightarrow> HidlSessionType \<Rightarrow> HidlCallbacks \<Rightarrow> middleware \<Rightarrow> u16 \<times> middleware" where
  "Mw_RegisterControlResultCback ctx session_type cbacks m =
     (let (cookie, m) = mw_register_session ctx session_type cbacks m
      in (cookie, mw_register_table session_type cookie cbacks m))"

definition Mw_UnregisterControlResultCback ::
  "HidlSessionType \<Rightarrow> u16 \<Rightarrow> middleware \<Rightarrow> middleware" where
  "Mw_UnregisterControlResultCback session_type cookie m =
     (let t = from_session_type_2_0 session_type;
          m = m\<lparr>mw_sessions := UnregisterControlResultCback t cookie (mw_sessions m)\<rparr>
      in if legacy_callback_table m t cookie \<noteq> None
         then m\<lparr>legacy_callback_table :=
                (legacy_callback_table m)(t := (legacy_callback_table m t)(cookie := None))\<rparr>
         else m)"

text \<open>
  A closure of the middleware over the table \<open>table\<close>, entered with a cookie. An unknown
  cookie is logged and ignored.
\<close>

definition mw_control_result ::
  "callback_table \<Rightarrow> u16 \<Rightarrow> bool \<Rightarrow> BluetoothAudioStatus \<Rightarrow> hidl_notification list" where
  "mw_control_result table cookie start_resp status =
     (case table cookie of
        None \<Rightarrow> []
      | Some cback \<Rightarrow>
         (case hcb_control_result cback of
            None \<Rightarrow> [HidlBadFunctionCall]
          | Some f \<Rightarrow> [HidlControlResult f cookie start_resp (to_hidl_status status)]))"

definition mw_session_changed :: "callback_table \<Rightarrow> u16 \<Rightarrow> hidl_notification list" where
  "mw_session_changed table cookie =
     (case table cookie of
        None \<Rightarrow> []
      | Some cback \<Rightarrow>
         (case hcb_session_changed cback of
            None \<Rightarrow> [HidlBadFunctionCall]
          | Some f \<Rightarrow> [HidlSessionChanged f cookie]))"

text \<open>
  What a notification of the AIDL session of type \<open>t\<close> becomes: the middleware's closures over
  the table of that type act, and other closures are not the middleware's.
\<close>

fun mw_deliver :: "mw_ctx \<Rightarrow> SessionType \<Rightarrow> middleware \<Rightarrow> notification \<Rightarrow> hidl_notification list" where
  "mw_deliver ctx t m (ControlResult f cookie start_resp status) =
     (if f = mc_closure ctx t then mw_control_result (legacy_callback_table m t) cookie start_resp status else [])"
| "mw_deliver ctx t m (SessionChanged f cookie) =
     (if f = mc_closure ctx t then mw_session_changed (legacy_callback_table m t) cookie else [])"
| "mw_deliver ctx t m _ = []"

text \<open>The session's loop ends when a closure throws.\<close>

fun mw_deliver_all :: "mw_ctx \<Rightarrow> SessionType \<Rightarrow> middleware \<Rightarrow> notification list \<Rightarrow> hidl_notification list" where
  "mw_deliver_all ctx t m [] = []"
| "mw_deliver_all ctx t m (n # ns) =
     (let d = mw_deliver ctx t m n
      in if HidlBadFunctionCall \<in> set d then d else d @ mw_deliver_all ctx t m ns)"

section \<open>Calls on the AIDL session\<close>

definition on_aidl ::
  "HidlSessionType \<Rightarrow> (SessionType \<Rightarrow> sessions_map \<Rightarrow> 'r \<times> sessions_map) \<Rightarrow> middleware \<Rightarrow> 'r \<times> middleware" where
  "on_aidl session_type call m =
     (let (r, ss) = call (from_session_type_2_0 session_type) (mw_sessions m) in (r, m\<lparr>mw_sessions := ss\<rparr>))"

definition Mw_IsSessionReady :: "HidlSessionType \<Rightarrow> middleware \<Rightarrow> bool \<times> middleware" where
  "Mw_IsSessionReady session_type = on_aidl session_type Control_IsSessionReady"

definition Mw_GetAudioConfig ::
  "hidl_junk \<Rightarrow> HidlSessionType \<Rightarrow> middleware \<Rightarrow> HidlAudioConfiguration \<times> middleware" where
  "Mw_GetAudioConfig junk session_type m =
     (let (c, m) = on_aidl session_type Control_GetAudioConfig m in (to_hidl_audio_config_2_0 junk (the c), m))"

text \<open>\<^term>\<open>None\<close>: the translation aborted.\<close>

definition Mw_GetAudioConfig_2_1 ::
  "hidl_junk \<Rightarrow> HidlSessionType \<Rightarrow> middleware \<Rightarrow> HidlAudioConfiguration_2_1 option \<times> middleware" where
  "Mw_GetAudioConfig_2_1 junk session_type m =
     (let (c, ss) = Control_GetAudioConfig (from_session_type_2_1 session_type) (mw_sessions m)
      in (to_hidl_audio_config_2_1 junk (the c), m\<lparr>mw_sessions := ss\<rparr>))"

definition Mw_StartStream :: "HidlSessionType \<Rightarrow> bool \<Rightarrow> middleware \<Rightarrow> (bool \<times> port_call list) \<times> middleware" where
  "Mw_StartStream session_type hal_ok =
     on_aidl session_type (\<lambda>t. Control_StartStream t False hal_ok)"

definition Mw_StopStream :: "HidlSessionType \<Rightarrow> middleware \<Rightarrow> port_call list \<times> middleware" where
  "Mw_StopStream session_type = on_aidl session_type Control_StopStream"

definition Mw_SuspendStream :: "HidlSessionType \<Rightarrow> bool \<Rightarrow> middleware \<Rightarrow> (bool \<times> port_call list) \<times> middleware" where
  "Mw_SuspendStream session_type hal_ok =
     on_aidl session_type (\<lambda>t. Control_SuspendStream t hal_ok)"

text \<open>
  All out parameters are written, from a position that holds the parcelable's defaults when
  the session wrote none.
\<close>

definition Mw_GetPresentationPosition ::
  "HidlSessionType \<Rightarrow> PresentationPosition option \<Rightarrow> middleware \<Rightarrow> (bool \<times> port_position) \<times> middleware" where
  "Mw_GetPresentationPosition session_type hal_position m =
     (let ((ret_val, _, pos), m) =
            on_aidl session_type (\<lambda>t. Control_GetPresentationPosition t hal_position) m;
          presentation_position = (case pos of None \<Rightarrow> PresentationPosition_default | Some p \<Rightarrow> p)
      in ((ret_val,
           \<lparr>pos_delay_ns = word_of_int (remoteDeviceAudioDelayNanos presentation_position),
            pos_bytes = word_of_int (transmittedOctets presentation_position),
            pos_sec = timestamp_tvSec presentation_position,
            pos_nsec = timestamp_tvNSec presentation_position\<rparr>), m))"

definition Mw_UpdateTracksMetadata ::
  "HidlSessionType \<Rightarrow> AudioTrack list \<Rightarrow> bool \<Rightarrow> middleware \<Rightarrow> port_call list \<times> middleware" where
  "Mw_UpdateTracksMetadata session_type tracks hal_ok =
     on_aidl session_type (\<lambda>t. Control_UpdateSourceMetadata t tracks hal_ok)"

definition Mw_OutWritePcmData ::
  "HidlSessionType \<Rightarrow> (nat \<Rightarrow> fmq_poll) \<Rightarrow> u8 list option \<Rightarrow> nat \<Rightarrow> middleware
     \<Rightarrow> pcm_transfer option \<times> middleware" where
  "Mw_OutWritePcmData session_type polls buffer bytes =
     on_aidl session_type (\<lambda>t. Control_OutWritePcmData t polls buffer bytes)"

definition Mw_InReadPcmData ::
  "HidlSessionType \<Rightarrow> (nat \<Rightarrow> fmq_poll) \<Rightarrow> u8 list option \<Rightarrow> nat \<Rightarrow> middleware
     \<Rightarrow> (u8 list option \<times> pcm_transfer) option \<times> middleware" where
  "Mw_InReadPcmData session_type polls buffer bytes =
     on_aidl session_type (\<lambda>t. Control_InReadPcmData t polls buffer bytes)"

end
