(* ===== verification/Hidl_Session.thy ===== *)
theory Hidl_Session
  imports Hidl_Middleware
begin

text \<open>
  The HIDL session (\<open>utils/session/BluetoothAudioSession.cpp\<close>, \<open>BluetoothAudioSession_2_1.cpp\<close>).
  When the AIDL service is available, the control operations are calls on the middleware;
  otherwise the session works on its own members, like the AIDL one. A method takes and
  returns the object and the middleware. Whether the service is available is asked once and
  remembered (\<^const>\<open>IsAidlAvailable\<close>), so it is a constant of the process.
\<close>

lemma IsAidlAvailable_remembered:
  "fst (IsAidlAvailable found' (snd (IsAidlAvailable found c))) = fst (IsAidlAvailable found c)"
  by (simp add: IsAidlAvailable_def)

section \<open>State\<close>

record hidl_ctx =
  hx_mw :: mw_ctx
  hx_code :: "HidlSessionType \<Rightarrow> u8"
  hx_junk :: hidl_junk
  hx_aidl :: bool

record hidl_session =
  hs_session_type :: HidlSessionType
  hs_stack_iface :: "nat option"
  hs_mDataMQ :: "DataMQ option"
  hs_audio_config :: HidlAudioConfiguration
  hs_observers :: "(u16 \<times> HidlCallbacks) list"

definition Hidl_BluetoothAudioSession :: "hidl_ctx \<Rightarrow> HidlSessionType \<Rightarrow> hidl_session" where
  "Hidl_BluetoothAudioSession ctx session_type =
     \<lparr>hs_session_type = session_type, hs_stack_iface = None, hs_mDataMQ = None,
      hs_audio_config = union_2_0 (hx_junk ctx), hs_observers = []\<rparr>"

definition Hidl_kObserversCookieUndefined :: "(HidlSessionType \<Rightarrow> u8) \<Rightarrow> u16" where
  "Hidl_kObserversCookieUndefined hc = push_bit 8 (ucast (hc HST_UNKNOWN)) AND 0xff00"

definition Hidl_ObserversCookieGetInitValue :: "(HidlSessionType \<Rightarrow> u8) \<Rightarrow> HidlSessionType \<Rightarrow> u16" where
  "Hidl_ObserversCookieGetInitValue hc session_type = push_bit 8 (ucast (hc session_type)) AND 0xff00"

definition Hidl_ObserversCookieGetUpperBound :: "(HidlSessionType \<Rightarrow> u8) \<Rightarrow> HidlSessionType \<Rightarrow> u16" where
  "Hidl_ObserversCookieGetUpperBound hc session_type =
     (push_bit 8 (ucast (hc session_type)) AND 0xff00) + kObserversCookieSize"

definition kInvalidPcmParameters :: HidlPcmParameters where
  "kInvalidPcmParameters =
     \<lparr>hpcm_sampleRate = RATE_UNKNOWN, hpcm_channelMode = HCM_UNKNOWN, hpcm_bitsPerSample = BITS_UNKNOWN\<rparr>"

definition kInvalidCodecConfiguration :: "hidl_ctx \<Rightarrow> HidlCodecConfiguration" where
  "kInvalidCodecConfiguration ctx =
     \<lparr>hcodecType = HCT_UNKNOWN, hencodedAudioBitrate = 0, hpeerMtu = 0xffff, hisScmstEnabled = False,
      hconfig = union_codec (hx_junk ctx)\<rparr>"

text \<open>
  The two static configurations are set by the constructor, before any method can read them.
\<close>

definition kInvalidSoftwareAudioConfiguration :: HidlAudioConfiguration where
  "kInvalidSoftwareAudioConfiguration = H20_pcmConfig kInvalidPcmParameters"

definition kInvalidOffloadAudioConfiguration :: "hidl_ctx \<Rightarrow> HidlAudioConfiguration" where
  "kInvalidOffloadAudioConfiguration ctx = H20_codecConfig (kInvalidCodecConfiguration ctx)"

definition hidl_invalid_config :: "hidl_ctx \<Rightarrow> HidlSessionType \<Rightarrow> HidlAudioConfiguration" where
  "hidl_invalid_config ctx t =
     (if t = HST_A2DP_HARDWARE_OFFLOAD_DATAPATH then kInvalidOffloadAudioConfiguration ctx
      else kInvalidSoftwareAudioConfiguration)"

section \<open>Readiness, configuration and data path\<close>

type_synonym 'r hidl_method = "hidl_session \<Rightarrow> middleware \<Rightarrow> 'r \<times> hidl_session \<times> middleware"

text \<open>A call on the middleware leaves the object as it is.\<close>

definition via_middleware :: "(middleware \<Rightarrow> 'r \<times> middleware) \<Rightarrow> 'r hidl_method" where
  "via_middleware call s m = (let (r, m) = call m in (r, s, m))"

definition hidl_ready :: "hidl_session \<Rightarrow> bool" where
  "hidl_ready s \<longleftrightarrow>
     (let dataMQ_valid = (hs_session_type s = HST_A2DP_HARDWARE_OFFLOAD_DATAPATH
            \<or> (case hs_mDataMQ s of None \<Rightarrow> False | Some mq \<Rightarrow> mq_isValid mq))
      in hs_stack_iface s \<noteq> None \<and> dataMQ_valid)"

definition Hidl_IsSessionReady :: "hidl_ctx \<Rightarrow> bool hidl_method" where
  "Hidl_IsSessionReady ctx s m =
     (if hx_aidl ctx then via_middleware (Mw_IsSessionReady (hs_session_type s)) s m
      else (hidl_ready s, s, m))"

definition Hidl_UpdateDataPath :: "DataMQ option \<Rightarrow> hidl_session \<Rightarrow> bool \<times> hidl_session" where
  "Hidl_UpdateDataPath dataMQ s =
     (case dataMQ of
        None \<Rightarrow> (True, s\<lparr>hs_mDataMQ := None\<rparr>)
      | Some tempDataMQ \<Rightarrow>
          (if \<not> mq_isValid tempDataMQ then (False, s\<lparr>hs_mDataMQ := None\<rparr>)
           else (True, s\<lparr>hs_mDataMQ := Some tempDataMQ\<rparr>)))"

fun is_H20_pcm :: "HidlAudioConfiguration \<Rightarrow> bool" where
  "is_H20_pcm (H20_pcmConfig _) = True"
| "is_H20_pcm (H20_codecConfig _) = False"

definition hidl_config_accepted :: "HidlSessionType \<Rightarrow> HidlAudioConfiguration \<Rightarrow> bool" where
  "hidl_config_accepted t audio_config \<longleftrightarrow>
     (let is_software_session = (t = HST_A2DP_SOFTWARE_ENCODING_DATAPATH
            \<or> t = HST_HEARING_AID_SOFTWARE_ENCODING_DATAPATH);
          is_offload_session = (t = HST_A2DP_HARDWARE_OFFLOAD_DATAPATH)
      in (is_software_session \<and> is_H20_pcm audio_config)
       \<or> (is_offload_session \<and> \<not> is_H20_pcm audio_config))"

definition Hidl_UpdateAudioConfig :: "HidlAudioConfiguration \<Rightarrow> hidl_session \<Rightarrow> bool \<times> hidl_session" where
  "Hidl_UpdateAudioConfig audio_config s =
     (if \<not> hidl_config_accepted (hs_session_type s) audio_config then (False, s)
      else (True, s\<lparr>hs_audio_config := audio_config\<rparr>))"

definition Hidl_GetAudioConfig :: "hidl_ctx \<Rightarrow> HidlAudioConfiguration hidl_method" where
  "Hidl_GetAudioConfig ctx s m =
     (if hx_aidl ctx then
        let (c, m) = Mw_GetAudioConfig (hx_junk ctx) (hs_session_type s) m
        in (c, s\<lparr>hs_audio_config := c\<rparr>, m)
      else if hidl_ready s then (hs_audio_config s, s, m)
      else (hidl_invalid_config ctx (hs_session_type s), s, m))"

section \<open>Reports of the stack\<close>

fun hidl_notify_all :: "('o \<Rightarrow> hidl_notification) \<Rightarrow> 'o list \<Rightarrow> hidl_notification list" where
  "hidl_notify_all f [] = []"
| "hidl_notify_all f (ob # obs) =
     (if f ob = HidlBadFunctionCall then [f ob] else f ob # hidl_notify_all f obs)"

definition Hidl_ReportSessionStatus :: "hidl_session \<Rightarrow> hidl_notification list" where
  "Hidl_ReportSessionStatus s =
     hidl_notify_all (\<lambda>(cookie, cb).
       case hcb_session_changed cb of
         None \<Rightarrow> HidlBadFunctionCall
       | Some f \<Rightarrow> HidlSessionChanged f cookie) (hs_observers s)"

definition Hidl_ReportControlStatus :: "bool \<Rightarrow> HidlStatus \<Rightarrow> hidl_session \<Rightarrow> hidl_notification list" where
  "Hidl_ReportControlStatus start_resp status s =
     hidl_notify_all (\<lambda>(cookie, cb).
       case hcb_control_result cb of
         None \<Rightarrow> HidlBadFunctionCall
       | Some f \<Rightarrow> HidlControlResult f cookie start_resp status) (hs_observers s)"

definition Hidl_OnSessionStarted ::
  "hidl_ctx \<Rightarrow> nat option \<Rightarrow> DataMQ option \<Rightarrow> HidlAudioConfiguration \<Rightarrow> hidl_session
     \<Rightarrow> hidl_notification list \<times> hidl_session" where
  "Hidl_OnSessionStarted ctx stack_iface dataMQ audio_config s =
     (if stack_iface = None then ([], s)
      else let (ok, s) = Hidl_UpdateAudioConfig audio_config s in
      if \<not> ok then ([], s)
      else let (ok, s) = Hidl_UpdateDataPath dataMQ s in
      if \<not> ok then ([], s\<lparr>hs_audio_config := hidl_invalid_config ctx (hs_session_type s)\<rparr>)
      else let s = s\<lparr>hs_stack_iface := stack_iface\<rparr> in (Hidl_ReportSessionStatus s, s))"

definition Hidl_OnSessionEnded :: "hidl_ctx \<Rightarrow> (hidl_notification list) hidl_method" where
  "Hidl_OnSessionEnded ctx s m =
     (let (toggled, s, m) = Hidl_IsSessionReady ctx s m;
          s = s\<lparr>hs_audio_config := hidl_invalid_config ctx (hs_session_type s), hs_stack_iface := None\<rparr>;
          s = snd (Hidl_UpdateDataPath None s)
      in (if toggled then Hidl_ReportSessionStatus s else [], s, m))"

section \<open>Registration of observers\<close>

definition hidl_register :: "hidl_ctx \<Rightarrow> HidlCallbacks \<Rightarrow> hidl_session \<Rightarrow> u16 \<times> hidl_session" where
  "hidl_register ctx cbacks s =
     (let cookie_upper_bound = Hidl_ObserversCookieGetUpperBound (hx_code ctx) (hs_session_type s);
          cookie = next_cookie (hs_observers s)
            (Hidl_ObserversCookieGetInitValue (hx_code ctx) (hs_session_type s)) cookie_upper_bound
      in if cookie \<ge> cookie_upper_bound then (Hidl_kObserversCookieUndefined (hx_code ctx), s)
         else (cookie, s\<lparr>hs_observers := hs_observers s @ [(cookie, cbacks)]\<rparr>))"

definition Hidl_RegisterStatusCback :: "hidl_ctx \<Rightarrow> HidlCallbacks \<Rightarrow> u16 hidl_method" where
  "Hidl_RegisterStatusCback ctx cbacks s m =
     (if hx_aidl ctx then
        via_middleware (Mw_RegisterControlResultCback (hx_mw ctx) (hs_session_type s) cbacks) s m
      else let (cookie, s) = hidl_register ctx cbacks s in (cookie, s, m))"

definition hidl_unregister :: "u16 \<Rightarrow> hidl_session \<Rightarrow> hidl_session" where
  "hidl_unregister cookie s = s\<lparr>hs_observers := alist_erase cookie (hs_observers s)\<rparr>"

definition Hidl_UnregisterStatusCback :: "hidl_ctx \<Rightarrow> u16 \<Rightarrow> unit hidl_method" where
  "Hidl_UnregisterStatusCback ctx cookie s m =
     (if hx_aidl ctx then
        via_middleware (\<lambda>m. ((), Mw_UnregisterControlResultCback (hs_session_type s) cookie m)) s m
      else ((), hidl_unregister cookie s, m))"

section \<open>Control of the stream\<close>

definition Hidl_StartStream :: "hidl_ctx \<Rightarrow> bool \<Rightarrow> (bool \<times> port_call list) hidl_method" where
  "Hidl_StartStream ctx hal_ok s m =
     (if hx_aidl ctx then via_middleware (Mw_StartStream (hs_session_type s) hal_ok) s m
      else if \<not> hidl_ready s then ((False, []), s, m)
      else if \<not> hal_ok then ((False, [Call_startStream False]), s, m)
      else ((True, [Call_startStream False]), s, m))"

definition Hidl_SuspendStream :: "hidl_ctx \<Rightarrow> bool \<Rightarrow> (bool \<times> port_call list) hidl_method" where
  "Hidl_SuspendStream ctx hal_ok s m =
     (if hx_aidl ctx then via_middleware (Mw_SuspendStream (hs_session_type s) hal_ok) s m
      else if \<not> hidl_ready s then ((False, []), s, m)
      else if \<not> hal_ok then ((False, [Call_suspendStream]), s, m)
      else ((True, [Call_suspendStream]), s, m))"

definition Hidl_StopStream :: "hidl_ctx \<Rightarrow> (port_call list) hidl_method" where
  "Hidl_StopStream ctx s m =
     (if hx_aidl ctx then via_middleware (Mw_StopStream (hs_session_type s)) s m
      else if \<not> hidl_ready s then ([], s, m)
      else ([Call_stopStream], s, m))"

text \<open>
  The answer of the HIDL port to a position query: a status and the values of the callback,
  or \<^term>\<open>None\<close> when the call was not OK. The out parameters are written on success only.
\<close>

record hidl_position =
  hpos_status :: HidlStatus
  hpos_remoteDeviceAudioDelayNanos :: u64
  hpos_transmittedOctets :: u64
  hpos_tvSec :: u64
  hpos_tvNSec :: u64

definition Hidl_GetPresentationPosition ::
  "hidl_ctx \<Rightarrow> PresentationPosition option \<Rightarrow> hidl_position option
     \<Rightarrow> (bool \<times> port_position option) hidl_method" where
  "Hidl_GetPresentationPosition ctx aidl_position hal_answer s m =
     (if hx_aidl ctx then
        let ((r, pos), m) = Mw_GetPresentationPosition (hs_session_type s) aidl_position m
        in ((r, Some pos), s, m)
      else if \<not> hidl_ready s then ((False, None), s, m)
      else case hal_answer of
        None \<Rightarrow> ((False, None), s, m)
      | Some a \<Rightarrow>
          (if hpos_status a = HIDL_SUCCESS then
             ((True, Some
                \<lparr>pos_delay_ns = hpos_remoteDeviceAudioDelayNanos a,
                 pos_bytes = hpos_transmittedOctets a,
                 pos_sec = sint (hpos_tvSec a), pos_nsec = sint (hpos_tvNSec a)\<rparr>), s, m)
           else ((False, None), s, m)))"

definition Hidl_UpdateTracksMetadata ::
  "hidl_ctx \<Rightarrow> AudioTrack list \<Rightarrow> bool \<Rightarrow> (port_call list) hidl_method" where
  "Hidl_UpdateTracksMetadata ctx tracks hal_ok s m =
     (if hx_aidl ctx then via_middleware (Mw_UpdateTracksMetadata (hs_session_type s) tracks hal_ok) s m
      else if \<not> hidl_ready s then ([], s, m)
      else if hs_session_type s = HST_A2DP_SOFTWARE_ENCODING_DATAPATH
           \<or> hs_session_type s = HST_A2DP_HARDWARE_OFFLOAD_DATAPATH then ([], s, m)
      else ([Call_updateSourceMetadata
              (map (\<lambda>t. \<lparr>track_usage = track_usage t, track_contentType = track_contentType t,
                 track_source = 0, track_gain = track_gain t, track_tags = []\<rparr>) tracks)], s, m))"

section \<open>The PCM data path\<close>

text \<open>
  As in the AIDL session, a round of a loop looks at the session anew. The loops differ from
  the AIDL ones in the readiness they test.
\<close>

record hidl_poll =
  hpoll_session :: hidl_session
  hpoll_available :: nat
  hpoll_write_ok :: bool
  hpoll_read :: "nat \<Rightarrow> u8 list option"

function Hidl_OutWrite_loop ::
  "(nat \<Rightarrow> hidl_poll) \<Rightarrow> u8 list \<Rightarrow> nat \<Rightarrow> pcm_transfer \<Rightarrow> pcm_transfer option" where
  "Hidl_OutWrite_loop polls buffer bytes t =
     (if \<not> pcm_total t < bytes then Some t
      else
        let poll = polls (pcm_rounds t); t = t\<lparr>pcm_rounds := pcm_rounds t + 1\<rparr> in
        if \<not> hidl_ready (hpoll_session poll) then Some t
        else if hs_mDataMQ (hpoll_session poll) = None then None
        else if hpoll_available poll \<noteq> 0 then
          (let availableToWrite = min (hpoll_available poll) (bytes - pcm_total t) in
           if \<not> hpoll_write_ok poll then Some t
           else Hidl_OutWrite_loop polls buffer bytes
             (t\<lparr>pcm_total := pcm_total t + availableToWrite,
                pcm_chunks := pcm_chunks t @ [take availableToWrite (drop (pcm_total t) buffer)]\<rparr>))
        else if pcm_timeout_ms t \<ge> kWritePollMs then
          Hidl_OutWrite_loop polls buffer bytes (t\<lparr>pcm_timeout_ms := pcm_timeout_ms t - kWritePollMs\<rparr>)
        else Some t)"
  by pat_completeness auto
termination
  by (relation "measure (\<lambda>(polls, buffer, bytes, t). bytes - pcm_total t + pcm_timeout_ms t)")
    (auto simp: kWritePollMs_def)

declare Hidl_OutWrite_loop.simps [simp del]

function Hidl_InRead_loop ::
  "(nat \<Rightarrow> hidl_poll) \<Rightarrow> nat \<Rightarrow> pcm_transfer \<Rightarrow> pcm_transfer option" where
  "Hidl_InRead_loop polls bytes t =
     (if \<not> pcm_total t < bytes then Some t
      else
        let poll = polls (pcm_rounds t); t = t\<lparr>pcm_rounds := pcm_rounds t + 1\<rparr> in
        if \<not> hidl_ready (hpoll_session poll) then Some t
        else if hs_mDataMQ (hpoll_session poll) = None then None
        else if hpoll_available poll \<noteq> 0 then
          (let availableToRead = min (hpoll_available poll) (bytes - pcm_total t) in
           case hpoll_read poll availableToRead of
             None \<Rightarrow> Some t
           | Some data \<Rightarrow> Hidl_InRead_loop polls bytes
               (t\<lparr>pcm_total := pcm_total t + availableToRead, pcm_chunks := pcm_chunks t @ [data]\<rparr>))
        else if pcm_timeout_ms t \<ge> kReadPollMs then
          Hidl_InRead_loop polls bytes (t\<lparr>pcm_timeout_ms := pcm_timeout_ms t - kReadPollMs\<rparr>)
        else Some t)"
  by pat_completeness auto
termination
  by (relation "measure (\<lambda>(polls, bytes, t). bytes - pcm_total t + pcm_timeout_ms t)")
    (auto simp: kReadPollMs_def)

declare Hidl_InRead_loop.simps [simp del]

definition Hidl_OutWritePcmData ::
  "hidl_ctx \<Rightarrow> (nat \<Rightarrow> fmq_poll) \<Rightarrow> (nat \<Rightarrow> hidl_poll) \<Rightarrow> u8 list option \<Rightarrow> nat
     \<Rightarrow> (pcm_transfer option) hidl_method" where
  "Hidl_OutWritePcmData ctx aidl_polls polls buffer bytes s m =
     (if hx_aidl ctx then
        via_middleware (Mw_OutWritePcmData (hs_session_type s) aidl_polls buffer bytes) s m
      else let t = \<lparr>pcm_total = 0, pcm_chunks = [], pcm_timeout_ms = kFmqSendTimeoutMs, pcm_rounds = 0\<rparr>
      in (case buffer of
            None \<Rightarrow> Some t
          | Some b \<Rightarrow> if bytes = 0 then Some t else Hidl_OutWrite_loop polls b bytes t, s, m))"

definition Hidl_InReadPcmData ::
  "hidl_ctx \<Rightarrow> (nat \<Rightarrow> fmq_poll) \<Rightarrow> (nat \<Rightarrow> hidl_poll) \<Rightarrow> u8 list option \<Rightarrow> nat
     \<Rightarrow> ((u8 list option \<times> pcm_transfer) option) hidl_method" where
  "Hidl_InReadPcmData ctx aidl_polls polls buffer bytes s m =
     (if hx_aidl ctx then
        via_middleware (Mw_InReadPcmData (hs_session_type s) aidl_polls buffer bytes) s m
      else let t = \<lparr>pcm_total = 0, pcm_chunks = [], pcm_timeout_ms = kFmqReceiveTimeoutMs, pcm_rounds = 0\<rparr>
      in (case buffer of
            None \<Rightarrow> Some (None, t)
          | Some b \<Rightarrow>
              if bytes = 0 then Some (Some b, t)
              else map_option (\<lambda>t. (Some (buffer_after_read b t), t)) (Hidl_InRead_loop polls bytes t),
          s, m))"

end
