(* ===== verification/Hidl_Control.thy ===== *)
theory Hidl_Control
  imports Hidl_Session
begin

text \<open>
  The sessions of version 2.1 (\<open>utils/session/BluetoothAudioSession_2_1.cpp\<close>), the instances of
  both versions, and the four static interfaces to them (\<open>BluetoothAudioSessionControl.h\<close>,
  \<open>BluetoothAudioSessionReport.h\<close> and their \<open>_2_1\<close> variants). A session of version 2.1 owns no
  queue and no observers: it refers to the session of version 2.0 of its type, which is
  created with it and lives as long as the process.
\<close>

section \<open>State\<close>

record hidl_session_2_1 =
  hs21_session_type_2_1 :: HidlSessionType
  hs21_raw_session_type :: HidlSessionType
  hs21_audio_config_2_1 :: HidlAudioConfiguration_2_1

record hidl_process =
  hp_middleware :: middleware
  hp_sessions :: "HidlSessionType \<Rightarrow> hidl_session option"
  hp_sessions_2_1 :: "HidlSessionType \<Rightarrow> hidl_session_2_1 option"

definition is_2_0_session_type :: "HidlSessionType \<Rightarrow> bool" where
  "is_2_0_session_type session_type \<longleftrightarrow>
     session_type = HST_A2DP_SOFTWARE_ENCODING_DATAPATH
   \<or> session_type = HST_A2DP_HARDWARE_OFFLOAD_DATAPATH
   \<or> session_type = HST_HEARING_AID_SOFTWARE_ENCODING_DATAPATH"

definition is_unsupported_2_1_session_type :: "HidlSessionType \<Rightarrow> bool" where
  "is_unsupported_2_1_session_type session_type \<longleftrightarrow>
     session_type = HST_LE_AUDIO_HARDWARE_OFFLOAD_ENCODING_DATAPATH
   \<or> session_type = HST_LE_AUDIO_HARDWARE_OFFLOAD_DECODING_DATAPATH"

definition Hidl_GetSessionInstance ::
  "hidl_ctx \<Rightarrow> HidlSessionType \<Rightarrow> hidl_process \<Rightarrow> hidl_session \<times> hidl_process" where
  "Hidl_GetSessionInstance ctx session_type p =
     (case hp_sessions p session_type of
        Some s \<Rightarrow> (s, p)
      | None \<Rightarrow> (let s = Hidl_BluetoothAudioSession ctx session_type
                 in (s, p\<lparr>hp_sessions := (hp_sessions p)(session_type \<mapsto> s)\<rparr>)))"

text \<open>\<open>audio_config_2_1_\<close> and the static configurations of 2.1 are default unions, never set.\<close>

definition Hidl_BluetoothAudioSession_2_1 ::
  "hidl_ctx \<Rightarrow> HidlSessionType \<Rightarrow> hidl_process \<Rightarrow> hidl_session_2_1 \<times> hidl_process" where
  "Hidl_BluetoothAudioSession_2_1 ctx session_type p =
     (let (audio_session, p) = Hidl_GetSessionInstance ctx session_type p
      in (\<lparr>hs21_session_type_2_1 =
             (if is_2_0_session_type session_type \<or> is_unsupported_2_1_session_type session_type
              then HST_UNKNOWN else session_type),
           hs21_raw_session_type = session_type,
           hs21_audio_config_2_1 = union_2_1 (hx_junk ctx)\<rparr>, p))"

definition kInvalidSoftwareAudioConfiguration_2_1 :: "hidl_ctx \<Rightarrow> HidlAudioConfiguration_2_1" where
  "kInvalidSoftwareAudioConfiguration_2_1 ctx = union_2_1 (hx_junk ctx)"

definition kInvalidOffloadAudioConfiguration_2_1 :: "hidl_ctx \<Rightarrow> HidlAudioConfiguration_2_1" where
  "kInvalidOffloadAudioConfiguration_2_1 ctx = union_2_1 (hx_junk ctx)"

definition Hidl_GetSessionInstance_2_1 ::
  "hidl_ctx \<Rightarrow> HidlSessionType \<Rightarrow> hidl_process \<Rightarrow> hidl_session_2_1 \<times> hidl_process" where
  "Hidl_GetSessionInstance_2_1 ctx session_type p =
     (case hp_sessions_2_1 p session_type of
        Some s \<Rightarrow> (s, p)
      | None \<Rightarrow> (let (s, p) = Hidl_BluetoothAudioSession_2_1 ctx session_type p
                 in (s, p\<lparr>hp_sessions_2_1 := (hp_sessions_2_1 p)(session_type \<mapsto> s)\<rparr>)))"

text \<open>A call of a method of the instance of version 2.0, and the same through one of 2.1.\<close>

definition on_hidl :: "hidl_ctx \<Rightarrow> HidlSessionType \<Rightarrow> 'r hidl_method \<Rightarrow> hidl_process \<Rightarrow> 'r \<times> hidl_process" where
  "on_hidl ctx session_type method p =
     (let (s, p) = Hidl_GetSessionInstance ctx session_type p;
          (r, s, m) = method s (hp_middleware p)
      in (r, p\<lparr>hp_sessions := (hp_sessions p)(session_type \<mapsto> s), hp_middleware := m\<rparr>))"

definition on_hidl_2_1 ::
  "hidl_ctx \<Rightarrow> HidlSessionType \<Rightarrow> 'r hidl_method \<Rightarrow> hidl_process \<Rightarrow> 'r \<times> hidl_process" where
  "on_hidl_2_1 ctx session_type method p =
     (let (s21, p) = Hidl_GetSessionInstance_2_1 ctx session_type p
      in on_hidl ctx (hs21_raw_session_type s21) method p)"

section \<open>Sessions of version 2.1\<close>

text \<open>
  \<^term>\<open>None\<close> is an abort: an access to a member that the union does not hold.
\<close>

definition config_to_2_1 :: "hidl_ctx \<Rightarrow> HidlAudioConfiguration \<Rightarrow> HidlAudioConfiguration_2_1 option" where
  "config_to_2_1 ctx fromConf =
     (case fromConf of
        H20_codecConfig c \<Rightarrow> Some (H21_codecConfig c)
      | H20_pcmConfig c \<Rightarrow>
         (case union_2_1 (hx_junk ctx) of
            H21_pcmConfig _ \<Rightarrow> Some (H21_pcmConfig
              \<lparr>hpcm21_sampleRate = hpcm_sampleRate c, hpcm21_channelMode = hpcm_channelMode c,
               hpcm21_bitsPerSample = hpcm_bitsPerSample c, hpcm21_dataIntervalUs = 0\<rparr>)
          | _ \<Rightarrow> None))"

definition Hidl_GetAudioConfig_2_1 ::
  "hidl_ctx \<Rightarrow> HidlSessionType \<Rightarrow> hidl_process \<Rightarrow> HidlAudioConfiguration_2_1 option \<times> hidl_process" where
  "Hidl_GetAudioConfig_2_1 ctx session_type p =
     (let (s21, p) = Hidl_GetSessionInstance_2_1 ctx session_type p in
      if hx_aidl ctx then
        let (c, m) = Mw_GetAudioConfig_2_1 (hx_junk ctx) (hs21_raw_session_type s21) (hp_middleware p)
        in (c, p\<lparr>hp_middleware := m\<rparr>)
      else let (ready, p) = on_hidl ctx (hs21_raw_session_type s21) (Hidl_IsSessionReady ctx) p in
      if ready then
        (if hs21_session_type_2_1 s21 \<noteq> HST_UNKNOWN then (Some (hs21_audio_config_2_1 s21), p)
         else let (fromConf, p) = on_hidl ctx (hs21_raw_session_type s21) (Hidl_GetAudioConfig ctx) p
              in (config_to_2_1 ctx fromConf, p))
      else if hs21_session_type_2_1 s21 = HST_A2DP_HARDWARE_OFFLOAD_DATAPATH
      then (Some (kInvalidOffloadAudioConfiguration_2_1 ctx), p)
      else (Some (kInvalidSoftwareAudioConfiguration_2_1 ctx), p))"

fun is_H21_pcm :: "HidlAudioConfiguration_2_1 \<Rightarrow> bool" where
  "is_H21_pcm (H21_pcmConfig _) = True"
| "is_H21_pcm _ = False"

fun is_H21_codec :: "HidlAudioConfiguration_2_1 \<Rightarrow> bool" where
  "is_H21_codec (H21_codecConfig _) = True"
| "is_H21_codec _ = False"

definition hidl_config_accepted_2_1 :: "HidlSessionType \<Rightarrow> HidlAudioConfiguration_2_1 \<Rightarrow> bool" where
  "hidl_config_accepted_2_1 t audio_config \<longleftrightarrow>
     (let is_software_session = (t = HST_A2DP_SOFTWARE_ENCODING_DATAPATH
            \<or> t = HST_HEARING_AID_SOFTWARE_ENCODING_DATAPATH
            \<or> t = HST_LE_AUDIO_SOFTWARE_ENCODING_DATAPATH
            \<or> t = HST_LE_AUDIO_SOFTWARE_DECODED_DATAPATH);
          is_offload_a2dp_session = (t = HST_A2DP_HARDWARE_OFFLOAD_DATAPATH)
      in (is_software_session \<and> is_H21_pcm audio_config)
       \<or> (is_offload_a2dp_session \<and> is_H21_codec audio_config))"

definition Hidl_UpdateAudioConfig_2_1 ::
  "HidlAudioConfiguration_2_1 \<Rightarrow> hidl_session_2_1 \<Rightarrow> bool \<times> hidl_session_2_1" where
  "Hidl_UpdateAudioConfig_2_1 audio_config s21 =
     (if \<not> hidl_config_accepted_2_1 (hs21_session_type_2_1 s21) audio_config then (False, s21)
      else (True, s21\<lparr>hs21_audio_config_2_1 := audio_config\<rparr>))"

definition config_to_2_0 :: "HidlAudioConfiguration_2_1 \<Rightarrow> HidlAudioConfiguration option" where
  "config_to_2_0 audio_config =
     (case audio_config of
        H21_codecConfig c \<Rightarrow> Some (H20_codecConfig c)
      | H21_pcmConfig tmpPcm \<Rightarrow> Some (H20_pcmConfig
          \<lparr>hpcm_sampleRate = hpcm21_sampleRate tmpPcm, hpcm_channelMode = hpcm21_channelMode tmpPcm,
           hpcm_bitsPerSample = hpcm21_bitsPerSample tmpPcm\<rparr>)
      | H21_leAudioCodecConfig _ \<Rightarrow> None)"

text \<open>
  The start of a session that version 2.1 keeps itself, on both objects; \<open>s\<close> is the object of
  version 2.0.
\<close>

definition start_2_1 ::
  "hidl_ctx \<Rightarrow> nat option \<Rightarrow> DataMQ option \<Rightarrow> HidlAudioConfiguration_2_1
     \<Rightarrow> hidl_session_2_1 \<Rightarrow> hidl_session \<Rightarrow> hidl_notification list \<times> hidl_session_2_1 \<times> hidl_session" where
  "start_2_1 ctx stack_iface dataMQ audio_config s21 s =
     (if stack_iface = None then ([], s21, s)
      else let (ok, s21) = Hidl_UpdateAudioConfig_2_1 audio_config s21 in
      if \<not> ok then ([], s21, s)
      else let (ok, s) = Hidl_UpdateDataPath dataMQ s in
      if \<not> ok then
        ([], s21\<lparr>hs21_audio_config_2_1 :=
           (if hs21_session_type_2_1 s21 = HST_A2DP_HARDWARE_OFFLOAD_DATAPATH
            then kInvalidOffloadAudioConfiguration_2_1 ctx
            else kInvalidSoftwareAudioConfiguration_2_1 ctx)\<rparr>, s)
      else let s = s\<lparr>hs_stack_iface := stack_iface\<rparr> in (Hidl_ReportSessionStatus s, s21, s))"

definition Hidl_OnSessionStarted_2_1 ::
  "hidl_ctx \<Rightarrow> HidlSessionType \<Rightarrow> nat option \<Rightarrow> DataMQ option \<Rightarrow> HidlAudioConfiguration_2_1
     \<Rightarrow> hidl_process \<Rightarrow> (hidl_notification list \<times> hidl_process) option" where
  "Hidl_OnSessionStarted_2_1 ctx session_type stack_iface dataMQ audio_config p =
     (let (s21, p) = Hidl_GetSessionInstance_2_1 ctx session_type p in
      if hs21_session_type_2_1 s21 = HST_UNKNOWN then
        (case config_to_2_0 audio_config of
           None \<Rightarrow> None
         | Some cfg \<Rightarrow> Some (on_hidl ctx (hs21_raw_session_type s21)
             (\<lambda>s m. let (ns, s) = Hidl_OnSessionStarted ctx stack_iface dataMQ cfg s in (ns, s, m)) p))
      else
        let (s, p) = Hidl_GetSessionInstance ctx (hs21_raw_session_type s21) p;
            (ns, s21', s) = start_2_1 ctx stack_iface dataMQ audio_config s21 s
        in Some (ns, p\<lparr>hp_sessions := (hp_sessions p)(hs21_raw_session_type s21 \<mapsto> s),
                       hp_sessions_2_1 := (hp_sessions_2_1 p)(session_type \<mapsto> s21')\<rparr>))"

section \<open>The control interfaces\<close>

text \<open>Version 2.0; it has no transfer of input data.\<close>

definition HControl_IsSessionReady ::
  "hidl_ctx \<Rightarrow> HidlSessionType \<Rightarrow> hidl_process \<Rightarrow> bool \<times> hidl_process" where
  "HControl_IsSessionReady ctx t = on_hidl ctx t (Hidl_IsSessionReady ctx)"

definition HControl_RegisterControlResultCback ::
  "hidl_ctx \<Rightarrow> HidlSessionType \<Rightarrow> HidlCallbacks \<Rightarrow> hidl_process \<Rightarrow> u16 \<times> hidl_process" where
  "HControl_RegisterControlResultCback ctx t cbacks = on_hidl ctx t (Hidl_RegisterStatusCback ctx cbacks)"

definition HControl_UnregisterControlResultCback ::
  "hidl_ctx \<Rightarrow> HidlSessionType \<Rightarrow> u16 \<Rightarrow> hidl_process \<Rightarrow> unit \<times> hidl_process" where
  "HControl_UnregisterControlResultCback ctx t cookie = on_hidl ctx t (Hidl_UnregisterStatusCback ctx cookie)"

definition HControl_GetAudioConfig ::
  "hidl_ctx \<Rightarrow> HidlSessionType \<Rightarrow> hidl_process \<Rightarrow> HidlAudioConfiguration \<times> hidl_process" where
  "HControl_GetAudioConfig ctx t = on_hidl ctx t (Hidl_GetAudioConfig ctx)"

definition HControl_StartStream ::
  "hidl_ctx \<Rightarrow> HidlSessionType \<Rightarrow> bool \<Rightarrow> hidl_process \<Rightarrow> (bool \<times> port_call list) \<times> hidl_process" where
  "HControl_StartStream ctx t hal_ok = on_hidl ctx t (Hidl_StartStream ctx hal_ok)"

definition HControl_SuspendStream ::
  "hidl_ctx \<Rightarrow> HidlSessionType \<Rightarrow> bool \<Rightarrow> hidl_process \<Rightarrow> (bool \<times> port_call list) \<times> hidl_process" where
  "HControl_SuspendStream ctx t hal_ok = on_hidl ctx t (Hidl_SuspendStream ctx hal_ok)"

definition HControl_StopStream ::
  "hidl_ctx \<Rightarrow> HidlSessionType \<Rightarrow> hidl_process \<Rightarrow> port_call list \<times> hidl_process" where
  "HControl_StopStream ctx t = on_hidl ctx t (Hidl_StopStream ctx)"

definition HControl_GetPresentationPosition ::
  "hidl_ctx \<Rightarrow> HidlSessionType \<Rightarrow> PresentationPosition option \<Rightarrow> hidl_position option \<Rightarrow> hidl_process \<Rightarrow> (bool \<times> port_position option) \<times> hidl_process" where
  "HControl_GetPresentationPosition ctx t aidl_position hal_answer = on_hidl ctx t (Hidl_GetPresentationPosition ctx aidl_position hal_answer)"

definition HControl_UpdateTracksMetadata ::
  "hidl_ctx \<Rightarrow> HidlSessionType \<Rightarrow> AudioTrack list \<Rightarrow> bool \<Rightarrow> hidl_process \<Rightarrow> port_call list \<times> hidl_process" where
  "HControl_UpdateTracksMetadata ctx t tracks hal_ok = on_hidl ctx t (Hidl_UpdateTracksMetadata ctx tracks hal_ok)"

definition HControl_OutWritePcmData ::
  "hidl_ctx \<Rightarrow> HidlSessionType \<Rightarrow> (nat \<Rightarrow> fmq_poll) \<Rightarrow> (nat \<Rightarrow> hidl_poll) \<Rightarrow> u8 list option \<Rightarrow> nat \<Rightarrow> hidl_process \<Rightarrow> pcm_transfer option \<times> hidl_process" where
  "HControl_OutWritePcmData ctx t aidl_polls polls buffer bytes = on_hidl ctx t (Hidl_OutWritePcmData ctx aidl_polls polls buffer bytes)"

text \<open>Version 2.1, which the device port uses.\<close>

definition HControl21_IsSessionReady ::
  "hidl_ctx \<Rightarrow> HidlSessionType \<Rightarrow> hidl_process \<Rightarrow> bool \<times> hidl_process" where
  "HControl21_IsSessionReady ctx t = on_hidl_2_1 ctx t (Hidl_IsSessionReady ctx)"

definition HControl21_RegisterControlResultCback ::
  "hidl_ctx \<Rightarrow> HidlSessionType \<Rightarrow> HidlCallbacks \<Rightarrow> hidl_process \<Rightarrow> u16 \<times> hidl_process" where
  "HControl21_RegisterControlResultCback ctx t cbacks = on_hidl_2_1 ctx t (Hidl_RegisterStatusCback ctx cbacks)"

definition HControl21_UnregisterControlResultCback ::
  "hidl_ctx \<Rightarrow> HidlSessionType \<Rightarrow> u16 \<Rightarrow> hidl_process \<Rightarrow> unit \<times> hidl_process" where
  "HControl21_UnregisterControlResultCback ctx t cookie = on_hidl_2_1 ctx t (Hidl_UnregisterStatusCback ctx cookie)"

definition HControl21_GetAudioConfig ::
  "hidl_ctx \<Rightarrow> HidlSessionType \<Rightarrow> hidl_process \<Rightarrow> HidlAudioConfiguration_2_1 option \<times> hidl_process" where
  "HControl21_GetAudioConfig ctx t p = Hidl_GetAudioConfig_2_1 ctx t p"

definition HControl21_StartStream ::
  "hidl_ctx \<Rightarrow> HidlSessionType \<Rightarrow> bool \<Rightarrow> hidl_process \<Rightarrow> (bool \<times> port_call list) \<times> hidl_process" where
  "HControl21_StartStream ctx t hal_ok = on_hidl_2_1 ctx t (Hidl_StartStream ctx hal_ok)"

definition HControl21_SuspendStream ::
  "hidl_ctx \<Rightarrow> HidlSessionType \<Rightarrow> bool \<Rightarrow> hidl_process \<Rightarrow> (bool \<times> port_call list) \<times> hidl_process" where
  "HControl21_SuspendStream ctx t hal_ok = on_hidl_2_1 ctx t (Hidl_SuspendStream ctx hal_ok)"

definition HControl21_StopStream ::
  "hidl_ctx \<Rightarrow> HidlSessionType \<Rightarrow> hidl_process \<Rightarrow> port_call list \<times> hidl_process" where
  "HControl21_StopStream ctx t = on_hidl_2_1 ctx t (Hidl_StopStream ctx)"

definition HControl21_GetPresentationPosition ::
  "hidl_ctx \<Rightarrow> HidlSessionType \<Rightarrow> PresentationPosition option \<Rightarrow> hidl_position option \<Rightarrow> hidl_process \<Rightarrow> (bool \<times> port_position option) \<times> hidl_process" where
  "HControl21_GetPresentationPosition ctx t aidl_position hal_answer = on_hidl_2_1 ctx t (Hidl_GetPresentationPosition ctx aidl_position hal_answer)"

definition HControl21_UpdateTracksMetadata ::
  "hidl_ctx \<Rightarrow> HidlSessionType \<Rightarrow> AudioTrack list \<Rightarrow> bool \<Rightarrow> hidl_process \<Rightarrow> port_call list \<times> hidl_process" where
  "HControl21_UpdateTracksMetadata ctx t tracks hal_ok = on_hidl_2_1 ctx t (Hidl_UpdateTracksMetadata ctx tracks hal_ok)"

definition HControl21_OutWritePcmData ::
  "hidl_ctx \<Rightarrow> HidlSessionType \<Rightarrow> (nat \<Rightarrow> fmq_poll) \<Rightarrow> (nat \<Rightarrow> hidl_poll) \<Rightarrow> u8 list option \<Rightarrow> nat \<Rightarrow> hidl_process \<Rightarrow> pcm_transfer option \<times> hidl_process" where
  "HControl21_OutWritePcmData ctx t aidl_polls polls buffer bytes = on_hidl_2_1 ctx t (Hidl_OutWritePcmData ctx aidl_polls polls buffer bytes)"

definition HControl21_InReadPcmData ::
  "hidl_ctx \<Rightarrow> HidlSessionType \<Rightarrow> (nat \<Rightarrow> fmq_poll) \<Rightarrow> (nat \<Rightarrow> hidl_poll) \<Rightarrow> u8 list option \<Rightarrow> nat \<Rightarrow> hidl_process \<Rightarrow> (u8 list option \<times> pcm_transfer) option \<times> hidl_process" where
  "HControl21_InReadPcmData ctx t aidl_polls polls buffer bytes = on_hidl_2_1 ctx t (Hidl_InReadPcmData ctx aidl_polls polls buffer bytes)"

section \<open>The report interfaces\<close>

definition HReport_OnSessionStarted ::
  "hidl_ctx \<Rightarrow> HidlSessionType \<Rightarrow> nat option \<Rightarrow> DataMQ option \<Rightarrow> HidlAudioConfiguration
     \<Rightarrow> hidl_process \<Rightarrow> hidl_notification list \<times> hidl_process" where
  "HReport_OnSessionStarted ctx t host_iface dataMQ audio_config =
     on_hidl ctx t (\<lambda>s m. let (ns, s) = Hidl_OnSessionStarted ctx host_iface dataMQ audio_config s in (ns, s, m))"

definition HReport_OnSessionEnded ::
  "hidl_ctx \<Rightarrow> HidlSessionType \<Rightarrow> hidl_process \<Rightarrow> hidl_notification list \<times> hidl_process" where
  "HReport_OnSessionEnded ctx t = on_hidl ctx t (Hidl_OnSessionEnded ctx)"

definition HReport_ReportControlStatus ::
  "hidl_ctx \<Rightarrow> HidlSessionType \<Rightarrow> bool \<Rightarrow> HidlStatus \<Rightarrow> hidl_process
     \<Rightarrow> hidl_notification list \<times> hidl_process" where
  "HReport_ReportControlStatus ctx t start_resp status =
     on_hidl ctx t (\<lambda>s m. (Hidl_ReportControlStatus start_resp status s, s, m))"

definition HReport21_OnSessionStarted ::
  "hidl_ctx \<Rightarrow> HidlSessionType \<Rightarrow> nat option \<Rightarrow> DataMQ option \<Rightarrow> HidlAudioConfiguration_2_1
     \<Rightarrow> hidl_process \<Rightarrow> (hidl_notification list \<times> hidl_process) option" where
  "HReport21_OnSessionStarted ctx t host_iface dataMQ audio_config =
     Hidl_OnSessionStarted_2_1 ctx t host_iface dataMQ audio_config"

definition HReport21_OnSessionEnded ::
  "hidl_ctx \<Rightarrow> HidlSessionType \<Rightarrow> hidl_process \<Rightarrow> hidl_notification list \<times> hidl_process" where
  "HReport21_OnSessionEnded ctx t = on_hidl_2_1 ctx t (Hidl_OnSessionEnded ctx)"

definition HReport21_ReportControlStatus ::
  "hidl_ctx \<Rightarrow> HidlSessionType \<Rightarrow> bool \<Rightarrow> HidlStatus \<Rightarrow> hidl_process
     \<Rightarrow> hidl_notification list \<times> hidl_process" where
  "HReport21_ReportControlStatus ctx t start_resp status =
     on_hidl_2_1 ctx t (\<lambda>s m. (Hidl_ReportControlStatus start_resp status s, s, m))"

end
