(* ===== verification/Hidl_Port.thy ===== *)
theory Hidl_Port
  imports Hidl_Control
begin

text \<open>
  The HIDL device port (\<open>hw/device_port_proxy_hidl.cc\<close>), the second implementation of
  \<open>BluetoothAudioPort\<close>. Its world is the HIDL process and the port's members. It registers its
  closures through the control interface of version 2.1; what others do while a call waits is
  a list of events on the process, on the AIDL side or on the HIDL side.
\<close>

section \<open>State\<close>

record hidl_port =
  hport_session_type :: HidlSessionType
  hport_cookie :: u16
  hport_state :: BluetoothStreamState
  hport_is_stereo_to_mono :: bool

record hidl_world =
  hw_process :: hidl_process
  hw_port :: hidl_port

text \<open>The constants of a run; \<open>hpc_this\<close> names the closures of this port.\<close>

record hport_ctx =
  hpc_ctx :: hidl_ctx
  hpc_this :: nat

abbreviation hpc_undefined :: "hport_ctx \<Rightarrow> u16" where
  "hpc_undefined ctx \<equiv> Hidl_kObserversCookieUndefined (hx_code (hpc_ctx ctx))"

definition BluetoothAudioPortHidl :: "hport_ctx \<Rightarrow> hidl_port" where
  "BluetoothAudioPortHidl ctx =
     \<lparr>hport_session_type = HST_UNKNOWN, hport_cookie = hpc_undefined ctx, hport_state = DISABLED,
      hport_is_stereo_to_mono = False\<rparr>"

definition HPort_in_use :: "hport_ctx \<Rightarrow> hidl_port \<Rightarrow> bool" where
  "HPort_in_use ctx p \<longleftrightarrow> hport_cookie p \<noteq> hpc_undefined ctx"

definition HPort_ControlResultHandler :: "hport_ctx \<Rightarrow> HidlStatus \<Rightarrow> hidl_port \<Rightarrow> hidl_port" where
  "HPort_ControlResultHandler ctx status p =
     (if \<not> HPort_in_use ctx p then p
      else case hport_state p of
        STARTED \<Rightarrow> (if status = HIDL_SUCCESS then p\<lparr>hport_state := STANDBY\<rparr> else p)
      | STARTING \<Rightarrow>
          (if status = HIDL_SUCCESS then p\<lparr>hport_state := STARTED\<rparr> else p\<lparr>hport_state := STANDBY\<rparr>)
      | SUSPENDING \<Rightarrow>
          (if status = HIDL_SUCCESS then p\<lparr>hport_state := STANDBY\<rparr> else p\<lparr>hport_state := DISABLED\<rparr>)
      | _ \<Rightarrow> p)"

definition HPort_SessionChangedHandler :: "hport_ctx \<Rightarrow> hidl_port \<Rightarrow> hidl_port" where
  "HPort_SessionChangedHandler ctx p =
     (if \<not> HPort_in_use ctx p then p else p\<lparr>hport_state := DISABLED\<rparr>)"

text \<open>The closures that \<open>SetUp\<close> registers, entered for one notification.\<close>

fun HPort_deliver :: "hport_ctx \<Rightarrow> hidl_notification \<Rightarrow> hidl_port \<Rightarrow> hidl_port" where
  "HPort_deliver ctx (HidlControlResult f cookie start_resp status) p =
     (if f \<noteq> hpc_this ctx \<or> \<not> HPort_in_use ctx p \<or> hport_cookie p \<noteq> cookie then p
      else HPort_ControlResultHandler ctx status p)"
| "HPort_deliver ctx (HidlSessionChanged f cookie) p =
     (if f \<noteq> hpc_this ctx \<or> \<not> HPort_in_use ctx p \<or> hport_cookie p \<noteq> cookie then p
      else HPort_SessionChangedHandler ctx p)"
| "HPort_deliver ctx HidlBadFunctionCall p = p"

section \<open>Events\<close>

text \<open>
  What others do to the process while the port lives: anything that reaches the AIDL sessions
  (its notifications pass the middleware), the reports of the HIDL providers, and other HIDL
  clients that register and unregister. An event that aborts the process has no successor;
  it leaves the world as it is, because the port is gone with the process.
\<close>

datatype hidl_event =
    HEv_aidl env_event
  | HEv_SessionStarted HidlSessionType "nat option" "DataMQ option" HidlAudioConfiguration_2_1
  | HEv_SessionEnded HidlSessionType
  | HEv_ControlStatus HidlSessionType bool HidlStatus
  | HEv_Register HidlSessionType HidlCallbacks
  | HEv_Unregister HidlSessionType u16

fun event_type :: "env_event \<Rightarrow> SessionType" where
  "event_type (Ev_SessionStarted t _ _ _ _) = t"
| "event_type (Ev_SessionEnded t) = t"
| "event_type (Ev_ControlStatus t _ _) = t"
| "event_type (Ev_AudioConfigChanged t _) = t"
| "event_type (Ev_LowLatency t _) = t"
| "event_type (Ev_Register t _) = t"
| "event_type (Ev_Unregister t _) = t"

definition mw_event :: "mw_ctx \<Rightarrow> env_event \<Rightarrow> middleware \<Rightarrow> hidl_notification list \<times> middleware" where
  "mw_event ctx e m =
     (let (ns, ss) = apply_event \<lparr>pc_sc = mc_sc ctx, pc_this = 0\<rparr> e (mw_sessions m)
      in (mw_deliver_all ctx (event_type e) m ns, m\<lparr>mw_sessions := ss\<rparr>))"

fun hidl_apply_event ::
  "hidl_ctx \<Rightarrow> hidl_event \<Rightarrow> hidl_process \<Rightarrow> hidl_notification list \<times> hidl_process" where
  "hidl_apply_event ctx (HEv_aidl e) p =
     (let (ns, m) = mw_event (hx_mw ctx) e (hp_middleware p) in (ns, p\<lparr>hp_middleware := m\<rparr>))"
| "hidl_apply_event ctx (HEv_SessionStarted t i q c) p =
     (case HReport21_OnSessionStarted ctx t i q c p of None \<Rightarrow> ([], p) | Some r \<Rightarrow> r)"
| "hidl_apply_event ctx (HEv_SessionEnded t) p = HReport21_OnSessionEnded ctx t p"
| "hidl_apply_event ctx (HEv_ControlStatus t b st) p = HReport21_ReportControlStatus ctx t b st p"
| "hidl_apply_event ctx (HEv_Register t cb) p = ([], snd (HControl21_RegisterControlResultCback ctx t cb p))"
| "hidl_apply_event ctx (HEv_Unregister t k) p = ([], snd (HControl21_UnregisterControlResultCback ctx t k p))"

definition hidl_env_step :: "hport_ctx \<Rightarrow> hidl_event \<Rightarrow> hidl_world \<Rightarrow> hidl_world" where
  "hidl_env_step ctx e w =
     (let (ns, p) = hidl_apply_event (hpc_ctx ctx) e (hw_process w)
      in \<lparr>hw_process = p, hw_port = fold (HPort_deliver ctx) ns (hw_port w)\<rparr>)"

definition hidl_env_steps :: "hport_ctx \<Rightarrow> hidl_event list \<Rightarrow> hidl_world \<Rightarrow> hidl_world" where
  "hidl_env_steps ctx es w = fold (hidl_env_step ctx) es w"

record hidl_env =
  he_hal_ok :: bool
  he_during :: "hidl_event list"
  he_wait :: "hidl_event list list"
  he_position :: "PresentationPosition option"
  he_hidl_position :: "hidl_position option"
  he_polls :: "nat \<Rightarrow> fmq_poll"
  he_hidl_polls :: "nat \<Rightarrow> hidl_poll"

section \<open>Set-up and tear-down\<close>

fun hidl_session_type_of :: "audio_device \<Rightarrow> HidlSessionType option" where
  "hidl_session_type_of AUDIO_DEVICE_OUT_BLUETOOTH_A2DP = Some HST_A2DP_SOFTWARE_ENCODING_DATAPATH"
| "hidl_session_type_of AUDIO_DEVICE_OUT_BLUETOOTH_A2DP_HEADPHONES = Some HST_A2DP_SOFTWARE_ENCODING_DATAPATH"
| "hidl_session_type_of AUDIO_DEVICE_OUT_BLUETOOTH_A2DP_SPEAKER = Some HST_A2DP_SOFTWARE_ENCODING_DATAPATH"
| "hidl_session_type_of AUDIO_DEVICE_OUT_HEARING_AID = Some HST_HEARING_AID_SOFTWARE_ENCODING_DATAPATH"
| "hidl_session_type_of AUDIO_DEVICE_OUT_BLE_HEADSET = Some HST_LE_AUDIO_SOFTWARE_ENCODING_DATAPATH"
| "hidl_session_type_of AUDIO_DEVICE_OUT_BLE_SPEAKER = Some HST_LE_AUDIO_SOFTWARE_ENCODING_DATAPATH"
| "hidl_session_type_of AUDIO_DEVICE_IN_BLE_HEADSET = Some HST_LE_AUDIO_SOFTWARE_DECODED_DATAPATH"
| "hidl_session_type_of _ = None"

definition HPort_init_session_type :: "hport_ctx \<Rightarrow> audio_device \<Rightarrow> hidl_world \<Rightarrow> bool \<times> hidl_world" where
  "HPort_init_session_type ctx device w =
     (case hidl_session_type_of device of
        None \<Rightarrow> (False, w)
      | Some t \<Rightarrow>
          let (ready, p) = HControl21_IsSessionReady (hpc_ctx ctx) t (hw_process w)
          in (ready, \<lparr>hw_process = p, hw_port = (hw_port w)\<lparr>hport_session_type := t\<rparr>\<rparr>))"

definition HPort_callbacks :: "hport_ctx \<Rightarrow> HidlCallbacks" where
  "HPort_callbacks ctx =
     \<lparr>hcb_control_result = Some (hpc_this ctx), hcb_session_changed = Some (hpc_this ctx)\<rparr>"

definition HPort_SetUp :: "hport_ctx \<Rightarrow> audio_device \<Rightarrow> hidl_world \<Rightarrow> bool \<times> hidl_world" where
  "HPort_SetUp ctx devices w =
     (let (ok, w) = HPort_init_session_type ctx devices w in
      if \<not> ok then (False, w)
      else let port = (hw_port w)\<lparr>hport_state := STANDBY\<rparr>;
               (cookie, p) = HControl21_RegisterControlResultCback (hpc_ctx ctx)
                  (hport_session_type port) (HPort_callbacks ctx) (hw_process w)
      in (cookie \<noteq> hpc_undefined ctx, \<lparr>hw_process = p, hw_port = port\<lparr>hport_cookie := cookie\<rparr>\<rparr>))"

definition HPort_TearDown :: "hport_ctx \<Rightarrow> hidl_world \<Rightarrow> hidl_world" where
  "HPort_TearDown ctx w =
     (let port = hw_port w in
      if \<not> HPort_in_use ctx port then w
      else \<lparr>hw_process = snd (HControl21_UnregisterControlResultCback (hpc_ctx ctx)
               (hport_session_type port) (hport_cookie port) (hw_process w)),
            hw_port = port\<lparr>hport_cookie := hpc_undefined ctx\<rparr>\<rparr>)"

definition HPort_ForcePcmStereoToMono :: "bool \<Rightarrow> hidl_world \<Rightarrow> hidl_world" where
  "HPort_ForcePcmStereoToMono force w = w\<lparr>hw_port := (hw_port w)\<lparr>hport_is_stereo_to_mono := force\<rparr>\<rparr>"

definition HPort_GetState :: "hidl_world \<Rightarrow> BluetoothStreamState" where
  "HPort_GetState w = hport_state (hw_port w)"

definition HPort_SetState :: "BluetoothStreamState \<Rightarrow> hidl_world \<Rightarrow> hidl_world" where
  "HPort_SetState state w = w\<lparr>hw_port := (hw_port w)\<lparr>hport_state := state\<rparr>\<rparr>"

section \<open>Control path\<close>

fun hidl_wait_for ::
  "hport_ctx \<Rightarrow> (BluetoothStreamState \<Rightarrow> bool) \<Rightarrow> hidl_event list list \<Rightarrow> hidl_world \<Rightarrow> bool \<times> hidl_world" where
  "hidl_wait_for ctx pred [] w = (pred (HPort_GetState w), w)"
| "hidl_wait_for ctx pred (batch # batches) w =
     (if pred (HPort_GetState w) then (True, w)
      else hidl_wait_for ctx pred batches (hidl_env_steps ctx batch w))"

definition HPort_CondwaitState ::
  "hport_ctx \<Rightarrow> BluetoothStreamState \<Rightarrow> hidl_event list list \<Rightarrow> hidl_world \<Rightarrow> bool \<times> hidl_world" where
  "HPort_CondwaitState ctx state batches w =
     (case state of
        STARTING \<Rightarrow>
          (let (retval, w) = hidl_wait_for ctx (\<lambda>s. s \<noteq> STARTING) batches w
           in (retval \<and> HPort_GetState w = STARTED, w))
      | SUSPENDING \<Rightarrow>
          (let (retval, w) = hidl_wait_for ctx (\<lambda>s. s \<noteq> SUSPENDING) batches w
           in (retval \<and> HPort_GetState w = STANDBY, w))
      | _ \<Rightarrow> (False, w))"

definition HPort_Start :: "hport_ctx \<Rightarrow> hidl_env \<Rightarrow> hidl_world \<Rightarrow> bool \<times> port_call list \<times> hidl_world" where
  "HPort_Start ctx env w =
     (if \<not> HPort_in_use ctx (hw_port w) then (False, [], w)
      else if HPort_GetState w = STANDBY then
        let w = HPort_SetState STARTING w;
            ((ok, calls), p) = HControl21_StartStream (hpc_ctx ctx) (hport_session_type (hw_port w))
               (he_hal_ok env) (hw_process w);
            w = hidl_env_steps ctx (he_during env) (w\<lparr>hw_process := p\<rparr>)
        in if ok then (let (retval, w) = HPort_CondwaitState ctx STARTING (he_wait env) w in (retval, calls, w))
           else (False, calls, w)
      else (False, [], w))"

definition HPort_Suspend :: "hport_ctx \<Rightarrow> hidl_env \<Rightarrow> hidl_world \<Rightarrow> bool \<times> port_call list \<times> hidl_world" where
  "HPort_Suspend ctx env w =
     (if \<not> HPort_in_use ctx (hw_port w) then (False, [], w)
      else if HPort_GetState w = STARTED then
        let w = HPort_SetState SUSPENDING w;
            ((ok, calls), p) = HControl21_SuspendStream (hpc_ctx ctx) (hport_session_type (hw_port w))
               (he_hal_ok env) (hw_process w);
            w = hidl_env_steps ctx (he_during env) (w\<lparr>hw_process := p\<rparr>)
        in if ok then (let (retval, w) = HPort_CondwaitState ctx SUSPENDING (he_wait env) w in (retval, calls, w))
           else (False, calls, w)
      else (False, [], w))"

definition HPort_Stop :: "hport_ctx \<Rightarrow> hidl_env \<Rightarrow> hidl_world \<Rightarrow> port_call list \<times> hidl_world" where
  "HPort_Stop ctx env w =
     (if \<not> HPort_in_use ctx (hw_port w) then ([], w)
      else let w = HPort_SetState DISABLED w;
               (calls, p) = HControl21_StopStream (hpc_ctx ctx) (hport_session_type (hw_port w)) (hw_process w)
      in (calls, hidl_env_steps ctx (he_during env) (w\<lparr>hw_process := p\<rparr>)))"

section \<open>Queries and data path\<close>

text \<open>
  These methods are \<open>const\<close>: they leave the port as it is, and the sessions too, because the
  session of a port in use exists. A configuration that cannot be translated aborts the
  process: the value is \<^term>\<open>None\<close>.
\<close>

definition hidl_hal_audio_config :: "hport_ctx \<Rightarrow> hidl_world \<Rightarrow> HidlAudioConfiguration_2_1 option" where
  "hidl_hal_audio_config ctx w =
     fst (HControl21_GetAudioConfig (hpc_ctx ctx) (hport_session_type (hw_port w)) (hw_process w))"

definition HPort_GetPreferredDataIntervalUs :: "hport_ctx \<Rightarrow> hidl_world \<Rightarrow> u64 option option" where
  "HPort_GetPreferredDataIntervalUs ctx w =
     (if \<not> HPort_in_use ctx (hw_port w) then Some None
      else map_option (\<lambda>c. case c of
          H21_pcmConfig pcm_cfg \<Rightarrow> Some (ucast (hpcm21_dataIntervalUs pcm_cfg))
        | _ \<Rightarrow> None) (hidl_hal_audio_config ctx w))"

fun SampleRateToAudioFormat :: "SampleRate \<Rightarrow> u32" where
  "SampleRateToAudioFormat RATE_8000 = 8000"
| "SampleRateToAudioFormat RATE_16000 = 16000"
| "SampleRateToAudioFormat RATE_24000 = 24000"
| "SampleRateToAudioFormat RATE_32000 = 32000"
| "SampleRateToAudioFormat RATE_44100 = 44100"
| "SampleRateToAudioFormat RATE_48000 = 48000"
| "SampleRateToAudioFormat RATE_88200 = 88200"
| "SampleRateToAudioFormat RATE_96000 = 96000"
| "SampleRateToAudioFormat RATE_176400 = 176400"
| "SampleRateToAudioFormat RATE_192000 = 192000"
| "SampleRateToAudioFormat RATE_UNKNOWN = kBluetoothDefaultSampleRate"

fun Hidl_OutputChannelModeToAudioFormat :: "HidlChannelMode \<Rightarrow> audio_channel_mask" where
  "Hidl_OutputChannelModeToAudioFormat HCM_MONO = AUDIO_CHANNEL_OUT_MONO"
| "Hidl_OutputChannelModeToAudioFormat HCM_STEREO = AUDIO_CHANNEL_OUT_STEREO"
| "Hidl_OutputChannelModeToAudioFormat _ = kBluetoothDefaultOutputChannelModeMask"

fun Hidl_InputChannelModeToAudioFormat :: "HidlChannelMode \<Rightarrow> audio_channel_mask" where
  "Hidl_InputChannelModeToAudioFormat HCM_MONO = AUDIO_CHANNEL_IN_MONO"
| "Hidl_InputChannelModeToAudioFormat HCM_STEREO = AUDIO_CHANNEL_IN_STEREO"
| "Hidl_InputChannelModeToAudioFormat _ = kBluetoothDefaultInputChannelModeMask"

fun Hidl_BitsPerSampleToAudioFormat :: "BitsPerSample \<Rightarrow> audio_format" where
  "Hidl_BitsPerSampleToAudioFormat BITS_16 = AUDIO_FORMAT_PCM_16_BIT"
| "Hidl_BitsPerSampleToAudioFormat BITS_24 = AUDIO_FORMAT_PCM_24_BIT_PACKED"
| "Hidl_BitsPerSampleToAudioFormat BITS_32 = AUDIO_FORMAT_PCM_32_BIT"
| "Hidl_BitsPerSampleToAudioFormat _ = kBluetoothDefaultAudioFormatBitsPerSample"

definition HPort_In_LoadAudioConfig ::
  "hport_ctx \<Rightarrow> audio_config \<Rightarrow> hidl_world \<Rightarrow> (bool \<times> audio_config) option" where
  "HPort_In_LoadAudioConfig ctx audio_cfg w =
     (if \<not> HPort_in_use ctx (hw_port w) then Some (False, default_input_config)
      else map_option (\<lambda>c. case c of
        H21_pcmConfig pcm_cfg \<Rightarrow>
          (if hpcm21_sampleRate pcm_cfg = RATE_UNKNOWN \<or> hpcm21_channelMode pcm_cfg = HCM_UNKNOWN
              \<or> hpcm21_bitsPerSample pcm_cfg = BITS_UNKNOWN then (False, audio_cfg)
           else (True,
             \<lparr>ac_sample_rate = SampleRateToAudioFormat (hpcm21_sampleRate pcm_cfg),
              ac_channel_mask = Hidl_InputChannelModeToAudioFormat (hpcm21_channelMode pcm_cfg),
              ac_format = Hidl_BitsPerSampleToAudioFormat (hpcm21_bitsPerSample pcm_cfg)\<rparr>))
      | _ \<Rightarrow> (False, default_input_config)) (hidl_hal_audio_config ctx w))"

definition HPort_Out_LoadAudioConfig ::
  "hport_ctx \<Rightarrow> audio_config \<Rightarrow> hidl_world \<Rightarrow> (bool \<times> audio_config) option" where
  "HPort_Out_LoadAudioConfig ctx audio_cfg w =
     (if \<not> HPort_in_use ctx (hw_port w) then Some (False, default_output_config)
      else map_option (\<lambda>c. case c of
        H21_pcmConfig pcm_cfg \<Rightarrow>
          (if hpcm21_sampleRate pcm_cfg = RATE_UNKNOWN \<or> hpcm21_channelMode pcm_cfg = HCM_UNKNOWN
              \<or> hpcm21_bitsPerSample pcm_cfg = BITS_UNKNOWN then (False, audio_cfg)
           else (True,
             \<lparr>ac_sample_rate = SampleRateToAudioFormat (hpcm21_sampleRate pcm_cfg),
              ac_channel_mask = (if hport_is_stereo_to_mono (hw_port w) then AUDIO_CHANNEL_OUT_STEREO
                 else Hidl_OutputChannelModeToAudioFormat (hpcm21_channelMode pcm_cfg)),
              ac_format = Hidl_BitsPerSampleToAudioFormat (hpcm21_bitsPerSample pcm_cfg)\<rparr>))
      | _ \<Rightarrow> (False, default_output_config)) (hidl_hal_audio_config ctx w))"

definition HPort_WriteData ::
  "hport_ctx \<Rightarrow> (u8 list \<Rightarrow> nat \<Rightarrow> u8 list) \<Rightarrow> hidl_env \<Rightarrow> u8 list \<Rightarrow> nat \<Rightarrow> hidl_world
     \<Rightarrow> (nat \<times> u8 list list) option" where
  "HPort_WriteData ctx downmix env buffer bytes w =
     (if \<not> HPort_in_use ctx (hw_port w) then Some (0, [])
      else if \<not> hport_is_stereo_to_mono (hw_port w) then
        map_option (\<lambda>t. (pcm_total t, pcm_chunks t))
          (fst (HControl21_OutWritePcmData (hpc_ctx ctx) (hport_session_type (hw_port w))
             (he_polls env) (he_hidl_polls env) (Some buffer) bytes (hw_process w)))
      else let write_frames = bytes div 4 in
        if write_frames = 0 then Some (0, [])
        else let dst = downmix buffer write_frames in
          map_option (\<lambda>t. (pcm_total t * 2, pcm_chunks t))
            (fst (HControl21_OutWritePcmData (hpc_ctx ctx) (hport_session_type (hw_port w))
               (he_polls env) (he_hidl_polls env) (Some dst) (write_frames * 2) (hw_process w))))"

definition HPort_ReadData ::
  "hport_ctx \<Rightarrow> hidl_env \<Rightarrow> u8 list \<Rightarrow> nat \<Rightarrow> hidl_world \<Rightarrow> (nat \<times> u8 list) option" where
  "HPort_ReadData ctx env buffer bytes w =
     (if \<not> HPort_in_use ctx (hw_port w) then Some (0, buffer)
      else map_option (\<lambda>(b, t). (pcm_total t, the b))
        (fst (HControl21_InReadPcmData (hpc_ctx ctx) (hport_session_type (hw_port w))
           (he_polls env) (he_hidl_polls env) (Some buffer) bytes (hw_process w))))"

definition HPort_GetPresentationPosition ::
  "hport_ctx \<Rightarrow> hidl_env \<Rightarrow> hidl_world \<Rightarrow> bool \<times> port_position option" where
  "HPort_GetPresentationPosition ctx env w =
     (if \<not> HPort_in_use ctx (hw_port w) then (False, None)
      else fst (HControl21_GetPresentationPosition (hpc_ctx ctx) (hport_session_type (hw_port w))
             (he_position env) (he_hidl_position env) (hw_process w)))"

definition HPort_UpdateTracksMetadata ::
  "hport_ctx \<Rightarrow> hidl_env \<Rightarrow> AudioTrack list \<Rightarrow> hidl_world \<Rightarrow> port_call list" where
  "HPort_UpdateTracksMetadata ctx env tracks w =
     (if \<not> HPort_in_use ctx (hw_port w) then []
      else if length tracks = 0 then []
      else fst (HControl21_UpdateTracksMetadata (hpc_ctx ctx) (hport_session_type (hw_port w))
             tracks (he_hal_ok env) (hw_process w)))"

definition HPort_IsA2dp :: "hidl_world \<Rightarrow> bool" where
  "HPort_IsA2dp w \<longleftrightarrow> (let t = hport_session_type (hw_port w) in
     t = HST_A2DP_SOFTWARE_ENCODING_DATAPATH \<or> t = HST_A2DP_HARDWARE_OFFLOAD_DATAPATH)"

definition HPort_IsLeAudio :: "hidl_world \<Rightarrow> bool" where
  "HPort_IsLeAudio w \<longleftrightarrow> (let t = hport_session_type (hw_port w) in
     t = HST_LE_AUDIO_SOFTWARE_ENCODING_DATAPATH \<or> t = HST_LE_AUDIO_SOFTWARE_DECODED_DATAPATH
   \<or> t = HST_LE_AUDIO_HARDWARE_OFFLOAD_ENCODING_DATAPATH \<or> t = HST_LE_AUDIO_HARDWARE_OFFLOAD_DECODING_DATAPATH)"

definition HPort_destroy :: "hport_ctx \<Rightarrow> hidl_world \<Rightarrow> hidl_world" where
  "HPort_destroy ctx w = (if HPort_in_use ctx (hw_port w) then HPort_TearDown ctx w else w)"

end
