(* ===== verification/Hidl_Middleware_Facts.thy ===== *)
theory Hidl_Middleware_Facts
  imports Hidl_Port
begin

text \<open>
  What the middleware promises to a HIDL client: it is a callback registry like the session
  behind it, every report of the AIDL session reaches each registered HIDL observer exactly
  once and translated, and the translation of data loses nothing that HIDL can express.
\<close>

section \<open>The sessions behind the middleware\<close>

abbreviation mw_session :: "middleware \<Rightarrow> SessionType \<Rightarrow> session" where
  "mw_session m t \<equiv> session_of (mw_sessions m) t"

lemma on_aidl_result: "fst (on_aidl h call m) = fst (call (from_session_type_2_0 h) (mw_sessions m))"
  by (simp add: on_aidl_def case_prod_beta)

lemma on_aidl_state:
  "snd (on_aidl h call m) = m\<lparr>mw_sessions := snd (call (from_session_type_2_0 h) (mw_sessions m))\<rparr>"
  by (simp add: on_aidl_def case_prod_beta)

section \<open>The invariant\<close>

text \<open>A callback whose closures are the middleware's.\<close>

definition mw_owned :: "mw_ctx \<Rightarrow> SessionType \<Rightarrow> PortStatusCallbacks \<Rightarrow> bool" where
  "mw_owned ctx t cb \<longleftrightarrow>
     control_result_cb cb = Some (mc_closure ctx t) \<or> session_changed_cb cb = Some (mc_closure ctx t)"

text \<open>
  For a type whose number is not that of the unknown type: an entry of the table that is not
  under the undefined cookie belongs to an observer of the session, and an observer with the
  middleware's closures has an entry.
\<close>

definition mw_table_inv :: "mw_ctx \<Rightarrow> SessionType \<Rightarrow> middleware \<Rightarrow> bool" where
  "mw_table_inv ctx t m \<longleftrightarrow>
     (\<forall>k h. legacy_callback_table m t k = Some h \<and> k \<noteq> kObserversCookieUndefined (mc_sc ctx) \<longrightarrow>
        map_of (s_observers (mw_session m t)) k = Some (mw_callbacks ctx t h))
   \<and> (\<forall>k cb. map_of (s_observers (mw_session m t)) k = Some cb \<and> mw_owned ctx t cb \<longrightarrow>
        legacy_callback_table m t k \<noteq> None)"

definition mw_inv :: "mw_ctx \<Rightarrow> middleware \<Rightarrow> bool" where
  "mw_inv ctx m \<longleftrightarrow> sessions_inv (mc_sc ctx) (mw_sessions m)
     \<and> (\<forall>t. mc_sc ctx t \<noteq> mc_sc ctx ST_UNKNOWN \<longrightarrow> mw_table_inv ctx t m)"

text \<open>What the middleware has registered under a cookie.\<close>

definition mw_lookup :: "mw_ctx \<Rightarrow> SessionType \<Rightarrow> middleware \<Rightarrow> callback_table" where
  "mw_lookup ctx t m = (legacy_callback_table m t)(kObserversCookieUndefined (mc_sc ctx) := None)"

lemma mw_registry_inv:
  "mw_inv ctx m \<Longrightarrow> mc_sc ctx t \<noteq> mc_sc ctx ST_UNKNOWN \<Longrightarrow> registry_inv (mc_sc ctx) (mw_session m t)"
  by (simp add: mw_inv_def sessions_inv_def registry_inv_def)

lemma mw_undefined_unused:
  "mw_inv ctx m \<Longrightarrow> mc_sc ctx t \<noteq> mc_sc ctx ST_UNKNOWN \<Longrightarrow>
     map_of (s_observers (mw_session m t)) (kObserversCookieUndefined (mc_sc ctx)) = None"
  by (rule aidl.undefined_unused) (rule mw_registry_inv)

lemma mw_lookup_observer:
  assumes "mw_inv ctx m" "mc_sc ctx t \<noteq> mc_sc ctx ST_UNKNOWN" "mw_lookup ctx t m k = Some h"
  shows "map_of (s_observers (mw_session m t)) k = Some (mw_callbacks ctx t h)"
  using assms by (auto simp: mw_lookup_def mw_inv_def mw_table_inv_def split: if_splits)

lemma mw_observer_lookup:
  assumes "mw_inv ctx m" "mc_sc ctx t \<noteq> mc_sc ctx ST_UNKNOWN"
    "map_of (s_observers (mw_session m t)) k = Some cb" "mw_owned ctx t cb"
  obtains h where "mw_lookup ctx t m k = Some h" "cb = mw_callbacks ctx t h"
proof -
  have "k \<noteq> kObserversCookieUndefined (mc_sc ctx)"
    using assms mw_undefined_unused by fastforce
  moreover obtain h where "legacy_callback_table m t k = Some h"
    using assms unfolding mw_inv_def mw_table_inv_def by blast
  ultimately have "mw_lookup ctx t m k = Some h" by (simp add: mw_lookup_def)
  with mw_lookup_observer [OF assms(1,2) this] assms(3) show thesis by (auto intro: that)
qed

section \<open>Registration\<close>

abbreviation mw_reg ::
  "mw_ctx \<Rightarrow> HidlSessionType \<Rightarrow> HidlCallbacks \<Rightarrow> middleware \<Rightarrow> u16 \<times> session" where
  "mw_reg ctx h c m \<equiv> (let t = from_session_type_2_0 h
     in RegisterStatusCback (mc_sc ctx) (mw_callbacks ctx t c) (mw_session m t))"

lemma Mw_Register_parts:
  fixes h defines "t \<equiv> from_session_type_2_0 h"
  shows "fst (Mw_RegisterControlResultCback ctx h c m) = fst (mw_reg ctx h c m)"
    "session_of (mw_sessions (snd (Mw_RegisterControlResultCback ctx h c m)))
       = (session_of (mw_sessions m))(t := snd (mw_reg ctx h c m))"
    "legacy_callback_table (snd (Mw_RegisterControlResultCback ctx h c m))
       = (legacy_callback_table m)(t := (legacy_callback_table m t)(fst (mw_reg ctx h c m) \<mapsto> c))"
  by (simp_all add: Mw_RegisterControlResultCback_def mw_register_session_def mw_register_table_def
      RegisterControlResultCback_def Let_def case_prod_beta on_session_result on_session_session_of t_def)

lemma Mw_Unregister_parts:
  fixes h defines "t \<equiv> from_session_type_2_0 h"
  shows "session_of (mw_sessions (Mw_UnregisterControlResultCback h k m))
       = (session_of (mw_sessions m))(t := UnregisterStatusCback k (mw_session m t))"
    "legacy_callback_table (Mw_UnregisterControlResultCback h k m)
       = (legacy_callback_table m)(t := (legacy_callback_table m t)(k := None))"
  by (auto simp: Mw_UnregisterControlResultCback_def UnregisterControlResultCback_def Let_def
      on_session_session_of t_def fun_upd_idem)

lemma mw_table_inv_other:
  assumes "mw_table_inv ctx u m" "mw_session m' u = mw_session m u"
    "legacy_callback_table m' u = legacy_callback_table m u"
  shows "mw_table_inv ctx u m'"
  using assms by (simp add: mw_table_inv_def)

lemma sessions_inv_at:
  assumes "sessions_inv sc ss" "session_of ss' = (session_of ss)(t := s)" "session_inv sc s"
    "s_session_type s = t"
  shows "sessions_inv sc ss'"
  using assms by (simp add: sessions_inv_def)

lemma mw_inv_at:
  assumes "mw_inv ctx m" "session_of (mw_sessions m') = (session_of (mw_sessions m))(t := s)"
    "legacy_callback_table m' = (legacy_callback_table m)(t := table)"
    "session_inv (mc_sc ctx) s" "s_session_type s = t"
    "mc_sc ctx t \<noteq> mc_sc ctx ST_UNKNOWN \<Longrightarrow> mw_table_inv ctx t m'"
  shows "mw_inv ctx m'"
  unfolding mw_inv_def
proof (intro conjI allI impI)
  show "sessions_inv (mc_sc ctx) (mw_sessions m')"
    using sessions_inv_at assms(1,2,4,5) unfolding mw_inv_def by blast
  fix u assume "mc_sc ctx u \<noteq> mc_sc ctx ST_UNKNOWN"
  with assms(1,6) show "mw_table_inv ctx u m'"
    using mw_table_inv_other [of ctx u m m'] by (cases "u = t") (auto simp: mw_inv_def assms(2,3))
qed

lemma mw_register_inv:
  assumes "mw_inv ctx m"
  shows "mw_inv ctx (snd (Mw_RegisterControlResultCback ctx h c m))"
proof -
  define t where "t = from_session_type_2_0 h"
  define s where "s = mw_session m t"
  define r where "r = RegisterStatusCback (mc_sc ctx) (mw_callbacks ctx t c) s"
  note parts = Mw_Register_parts [of ctx h c m, unfolded Let_def, folded t_def, folded s_def, folded r_def]
  have i: "session_inv (mc_sc ctx) s" "s_session_type s = t"
    using assms by (simp_all add: mw_inv_def sessions_inv_def s_def)
  show ?thesis
  proof (rule mw_inv_at [OF assms parts(2,3)])
    show "session_inv (mc_sc ctx) (snd r)" "s_session_type (snd r) = t"
      using i by (simp_all add: r_def session_inv_registered)
    assume known: "mc_sc ctx t \<noteq> mc_sc ctx ST_UNKNOWN"
    then have reg: "registry_inv (mc_sc ctx) s" using i by (simp add: registry_inv_def)
    have inv: "mw_table_inv ctx t m" using assms known by (simp add: mw_inv_def)
    show "mw_table_inv ctx t (snd (Mw_RegisterControlResultCback ctx h c m))"
    proof (cases "fst r = kObserversCookieUndefined (mc_sc ctx)")
      case True
      then have "map_of (s_observers (snd r)) = map_of (s_observers s)"
        using aidl.register_fails [OF reg] by (simp add: r_def)
      with inv True mw_undefined_unused [OF assms known] show ?thesis
        unfolding mw_table_inv_def parts by (auto simp: s_def)
    next
      case False
      then have "map_of (s_observers (snd r)) = (map_of (s_observers s))(fst r \<mapsto> mw_callbacks ctx t c)"
        using aidl.register_lookup [OF reg] by (simp add: r_def)
      with inv show ?thesis
        unfolding mw_table_inv_def parts by (auto simp: s_def)
    qed
  qed
qed

lemma mw_unregister_inv:
  assumes "mw_inv ctx m"
  shows "mw_inv ctx (Mw_UnregisterControlResultCback h k m)"
proof -
  define t where "t = from_session_type_2_0 h"
  note parts = Mw_Unregister_parts [of h k m, folded t_def]
  have i: "session_inv (mc_sc ctx) (mw_session m t)" "s_session_type (mw_session m t) = t"
    using assms by (simp_all add: mw_inv_def sessions_inv_def)
  show ?thesis
  proof (rule mw_inv_at [OF assms parts])
    show "session_inv (mc_sc ctx) (UnregisterStatusCback k (mw_session m t))"
      "s_session_type (UnregisterStatusCback k (mw_session m t)) = t"
      using i session_inv_unregistered by (simp_all add: UnregisterStatusCback_def)
    assume "mc_sc ctx t \<noteq> mc_sc ctx ST_UNKNOWN"
    then have "mw_table_inv ctx t m" using assms by (simp add: mw_inv_def)
    then show "mw_table_inv ctx t (Mw_UnregisterControlResultCback h k m)"
      unfolding mw_table_inv_def parts by (auto simp: UnregisterStatusCback_def alist_erase_map_of)
  qed
qed

definition mw_registry_ok :: "mw_ctx \<Rightarrow> HidlSessionType \<Rightarrow> middleware \<Rightarrow> bool" where
  "mw_registry_ok ctx h m \<longleftrightarrow>
     mw_inv ctx m \<and> mc_sc ctx (from_session_type_2_0 h) \<noteq> mc_sc ctx ST_UNKNOWN"

interpretation mw: callback_registry "mw_registry_ok ctx h" "mw_lookup ctx (from_session_type_2_0 h)"
  "Mw_RegisterControlResultCback ctx h" "Mw_UnregisterControlResultCback h"
  "kObserversCookieUndefined (mc_sc ctx)"
  for ctx h
proof unfold_locales
  fix m c assume ok: "mw_registry_ok ctx h m"
  define t where "t = from_session_type_2_0 h"
  have inv: "mw_inv ctx m" and known: "mc_sc ctx t \<noteq> mc_sc ctx ST_UNKNOWN"
    using ok by (simp_all add: mw_registry_ok_def t_def)
  note parts = Mw_Register_parts [of ctx h c m, unfolded Let_def, folded t_def]
  note reg = mw_registry_inv [OF inv known]
  let ?r = "RegisterStatusCback (mc_sc ctx) (mw_callbacks ctx t c) (mw_session m t)"
  show "mw_registry_ok ctx h (snd (Mw_RegisterControlResultCback ctx h c m))"
    using ok mw_register_inv by (simp add: mw_registry_ok_def)
  show "mw_registry_ok ctx h (Mw_UnregisterControlResultCback h k m)" for k
    using ok mw_unregister_inv by (simp add: mw_registry_ok_def)
  show "mw_lookup ctx t m (kObserversCookieUndefined (mc_sc ctx)) = None"
    by (simp add: mw_lookup_def)
  show "mw_lookup ctx t (snd (Mw_RegisterControlResultCback ctx h c m)) = mw_lookup ctx t m"
    if "fst (Mw_RegisterControlResultCback ctx h c m) = kObserversCookieUndefined (mc_sc ctx)"
    using that unfolding parts mw_lookup_def by simp
  show "mw_lookup ctx t m (fst (Mw_RegisterControlResultCback ctx h c m)) = None"
  proof (rule ccontr)
    assume "mw_lookup ctx t m (fst (Mw_RegisterControlResultCback ctx h c m)) \<noteq> None"
    then obtain d where "mw_lookup ctx t m (fst ?r) = Some d" unfolding parts by blast
    from mw_lookup_observer [OF inv known this] aidl.register_fresh [OF reg] show False by simp
  qed
  show "mw_lookup ctx t (snd (Mw_RegisterControlResultCback ctx h c m))
      = (mw_lookup ctx t m)(fst (Mw_RegisterControlResultCback ctx h c m) \<mapsto> c)"
    if "fst (Mw_RegisterControlResultCback ctx h c m) \<noteq> kObserversCookieUndefined (mc_sc ctx)"
    using that unfolding parts mw_lookup_def by (simp add: fun_upd_twist)
  show "mw_lookup ctx t (Mw_UnregisterControlResultCback h k m) = (mw_lookup ctx t m)(k := None)" for k
    unfolding Mw_Unregister_parts mw_lookup_def t_def by (auto simp: fun_upd_def)
qed

section \<open>Reachable states\<close>

text \<open>
  What other clients of the AIDL sessions do: they register closures of their own, and
  unregister cookies of their own.
\<close>

fun native_event :: "mw_ctx \<Rightarrow> middleware \<Rightarrow> env_event \<Rightarrow> bool" where
  "native_event ctx m (Ev_Register t cb) = (\<not> mw_owned ctx t cb)"
| "native_event ctx m (Ev_Unregister t k) = (mw_lookup ctx t m k = None)"
| "native_event ctx m _ = True"

inductive mw_reach :: "mw_ctx \<Rightarrow> middleware \<Rightarrow> bool" for ctx :: mw_ctx where
  initial: "mw_reach ctx \<lparr>mw_sessions = (\<lambda>t. None), legacy_callback_table = (\<lambda>t k. None)\<rparr>"
| registered: "mw_reach ctx m \<Longrightarrow> mw_reach ctx (snd (Mw_RegisterControlResultCback ctx h c m))"
| unregistered: "mw_reach ctx m \<Longrightarrow> mw_reach ctx (Mw_UnregisterControlResultCback h k m)"
| native: "mw_reach ctx m \<Longrightarrow> native_event ctx m e \<Longrightarrow> mw_reach ctx (snd (mw_event ctx e m))"
| queried: "mw_reach ctx m \<Longrightarrow> session_of ss = session_of (mw_sessions m) \<Longrightarrow>
    mw_reach ctx (m\<lparr>mw_sessions := ss\<rparr>)"

lemma report_keeps_observers:
  "s_observers (snd (OnSessionStarted i q c l s)) = s_observers s"
  "s_observers (snd (OnSessionEnded s)) = s_observers s"
  "s_observers (snd (ReportAudioConfigChanged c s)) = s_observers s"
  "s_observers (snd (ReportLowLatencyModeAllowedChanged b s)) = s_observers s"
  by (auto simp: session_defs split: option.splits)

lemma report_keeps_type:
  "s_session_type (snd (OnSessionStarted i q c l s)) = s_session_type s"
  "s_session_type (snd (OnSessionEnded s)) = s_session_type s"
  "s_session_type (snd (ReportAudioConfigChanged c s)) = s_session_type s"
  "s_session_type (snd (ReportLowLatencyModeAllowedChanged b s)) = s_session_type s"
  "s_session_type (UnregisterStatusCback k s) = s_session_type s"
  by (auto simp: session_defs split: option.splits)

text \<open>The effect of an event on the sessions: one method on the session of its type.\<close>

fun event_method :: "session_code \<Rightarrow> env_event \<Rightarrow> session \<Rightarrow> session" where
  "event_method sc (Ev_SessionStarted t i q c l) s = snd (OnSessionStarted i q c l s)"
| "event_method sc (Ev_SessionEnded t) s = snd (OnSessionEnded s)"
| "event_method sc (Ev_ControlStatus t b st) s = s"
| "event_method sc (Ev_AudioConfigChanged t c) s = snd (ReportAudioConfigChanged c s)"
| "event_method sc (Ev_LowLatency t b) s = snd (ReportLowLatencyModeAllowedChanged b s)"
| "event_method sc (Ev_Register t cb) s = snd (RegisterStatusCback sc cb s)"
| "event_method sc (Ev_Unregister t k) s = UnregisterStatusCback k s"

lemma mw_event_parts:
  "session_of (mw_sessions (snd (mw_event ctx e m))) = (session_of (mw_sessions m))
     (event_type e := event_method (mc_sc ctx) e (mw_session m (event_type e)))"
  "legacy_callback_table (snd (mw_event ctx e m)) = legacy_callback_table m"
  by (cases e; simp add: mw_event_def case_prod_beta report_defs RegisterControlResultCback_def
      UnregisterControlResultCback_def on_session_session_of)+

lemma event_method_inv:
  "session_inv sc s \<Longrightarrow> session_inv sc (event_method sc e s)"
  "s_session_type (event_method sc e s) = s_session_type s"
  by (cases e; simp add: session_inv_started session_inv_ended session_inv_reconfigured
      session_inv_low_latency session_inv_registered session_inv_unregistered report_keeps_type)+

lemma mw_event_inv:
  assumes "mw_inv ctx m" "native_event ctx m e"
  shows "mw_inv ctx (snd (mw_event ctx e m))"
proof -
  define t where "t = event_type e"
  define s where "s = mw_session m t"
  note parts = mw_event_parts [of ctx e m, folded t_def, folded s_def]
  have i: "session_inv (mc_sc ctx) s" "s_session_type s = t"
    using assms(1) by (simp_all add: mw_inv_def sessions_inv_def s_def)
  show ?thesis
  proof (rule mw_inv_at [OF assms(1) parts(1)])
    show "legacy_callback_table (snd (mw_event ctx e m))
        = (legacy_callback_table m)(t := legacy_callback_table m t)"
      by (simp add: parts)
    show "session_inv (mc_sc ctx) (event_method (mc_sc ctx) e s)"
      "s_session_type (event_method (mc_sc ctx) e s) = t"
      using event_method_inv(1) [OF i(1)] event_method_inv(2) i(2) by simp_all
    assume known: "mc_sc ctx t \<noteq> mc_sc ctx ST_UNKNOWN"
    then have inv: "mw_table_inv ctx t m" using assms(1) by (simp add: mw_inv_def)
    have reg: "registry_inv (mc_sc ctx) s" using i known by (simp add: registry_inv_def)
    have new: "mw_table_inv ctx t (snd (mw_event ctx e m)) \<longleftrightarrow>
      (\<forall>k h. legacy_callback_table m t k = Some h \<and> k \<noteq> kObserversCookieUndefined (mc_sc ctx) \<longrightarrow>
        map_of (s_observers (event_method (mc_sc ctx) e s)) k = Some (mw_callbacks ctx t h))
      \<and> (\<forall>k cb. map_of (s_observers (event_method (mc_sc ctx) e s)) k = Some cb \<and> mw_owned ctx t cb \<longrightarrow>
        legacy_callback_table m t k \<noteq> None)"
      unfolding mw_table_inv_def parts by simp
    have same: "mw_table_inv ctx t (snd (mw_event ctx e m))"
      if "s_observers (event_method (mc_sc ctx) e s) = s_observers s"
      unfolding new that by (rule inv [unfolded mw_table_inv_def, folded s_def])
    show "mw_table_inv ctx t (snd (mw_event ctx e m))"
    proof (cases e)
      case (Ev_Register u cb)
      then have own: "\<not> mw_owned ctx t cb" using assms(2) by (simp add: t_def)
      show ?thesis
      proof (cases "fst (RegisterStatusCback (mc_sc ctx) cb s) = kObserversCookieUndefined (mc_sc ctx)")
        case True
        show ?thesis
          unfolding new unfolding Ev_Register event_method.simps aidl.register_fails [OF reg True]
          by (rule inv [unfolded mw_table_inv_def, folded s_def])
      next
        case False
        note lookup = aidl.register_lookup [OF reg False] and fresh = aidl.register_fresh [OF reg, of cb]
        show ?thesis
          unfolding new unfolding Ev_Register event_method.simps lookup
          using inv [unfolded mw_table_inv_def, folded s_def] own fresh
          by (metis fun_upd_apply option.inject option.distinct(1))
      qed
    next
      case (Ev_Unregister u k)
      then have "mw_lookup ctx t m k = None" using assms(2) by (simp add: t_def)
      then show ?thesis
        unfolding new unfolding Ev_Unregister event_method.simps mw_lookup_def
        using inv [unfolded mw_table_inv_def, folded s_def]
        by (simp add: UnregisterStatusCback_def alist_erase_map_of split: if_splits)
    qed (rule same, simp add: report_keeps_observers)+
  qed
qed

lemma mw_reach_inv: "mw_reach ctx m \<Longrightarrow> mw_inv ctx m"
proof (induction rule: mw_reach.induct)
  case initial
  show ?case
    by (simp add: mw_inv_def mw_table_inv_def sessions_inv_def session_of_def session_inv_def
        BluetoothAudioSession_def)
next
  case (queried m ss)
  then show ?case
    by (simp add: mw_inv_def mw_table_inv_def sessions_inv_def)
qed (simp_all add: mw_register_inv mw_unregister_inv mw_event_inv)

section \<open>Delivery\<close>

fun notified_cookie :: "hidl_notification \<Rightarrow> u16 option" where
  "notified_cookie (HidlControlResult f k start_resp status) = Some k"
| "notified_cookie (HidlSessionChanged f k) = Some k"
| "notified_cookie HidlBadFunctionCall = None"

lemma mw_deliver_all_concat:
  "(\<And>n. n \<in> set ns \<Longrightarrow> HidlBadFunctionCall \<notin> set (mw_deliver ctx t m n)) \<Longrightarrow>
     mw_deliver_all ctx t m ns = concat (map (mw_deliver ctx t m) ns)"
  by (induction ns) (auto simp: Let_def)

lemma distinct_concat_keys:
  assumes "distinct (map fst obs)" "\<And>ob. ob \<in> set obs \<Longrightarrow> distinct (d ob)"
    "\<And>ob x. ob \<in> set obs \<Longrightarrow> x \<in> set (d ob) \<Longrightarrow> key x = Some (fst ob)"
  shows "distinct (concat (map d obs))"
  using assms
proof (induction obs)
  case (Cons ob obs)
  have "x \<notin> set (d ob')" if "x \<in> set (d ob)" "ob' \<in> set obs" for x ob'
  proof
    assume "x \<in> set (d ob')"
    with Cons.prems(3) [of ob x] Cons.prems(3) [of ob' x] that have "fst ob = fst ob'" by auto
    with Cons.prems(1) that(2) show False by auto
  qed
  with Cons show ?case by auto
qed simp

text \<open>
  A message \<open>msg\<close> to every observer, when each delivery depends on the entry of the cookie
  only: every entry gets the translated message \<open>out\<close> once, and nobody else gets one.
\<close>

lemma deliver_entries:
  assumes inv: "mw_inv ctx m" "mc_sc ctx t \<noteq> mc_sc ctx ST_UNKNOWN"
    and each: "\<And>k cb. (k, cb) \<in> set (s_observers (mw_session m t)) \<Longrightarrow>
      mw_deliver ctx t m (msg k cb)
        = (case mw_lookup ctx t m k of None \<Rightarrow> [] | Some h \<Rightarrow> [out k h])"
    and key: "\<And>k h. notified_cookie (out k h) = Some k"
  shows "distinct (mw_deliver_all ctx t m (map (\<lambda>(k, cb). msg k cb) (s_observers (mw_session m t))))
    \<and> set (mw_deliver_all ctx t m (map (\<lambda>(k, cb). msg k cb) (s_observers (mw_session m t))))
      = {out k h | k h. mw_lookup ctx t m k = Some h}"
proof -
  let ?obs = "s_observers (mw_session m t)"
  let ?d = "\<lambda>(k, cb). mw_deliver ctx t m (msg k cb)"
  have no_throw: "out k h \<noteq> HidlBadFunctionCall" for k h using key [of k h] by auto
  have all: "mw_deliver_all ctx t m (map (\<lambda>(k, cb). msg k cb) ?obs) = concat (map ?d ?obs)"
    using no_throw [symmetric]
    by (subst mw_deliver_all_concat) (auto simp: each comp_def case_prod_unfold split: option.splits)
  have distinct: "distinct (map fst ?obs)"
    using inv by (simp add: mw_inv_def sessions_inv_def session_inv_def)
  have "distinct (concat (map ?d ?obs))"
    by (rule distinct_concat_keys [OF distinct, where key = notified_cookie])
      (auto simp: each key split: option.splits)
  moreover have "set (concat (map ?d ?obs)) = {out k h | k h. mw_lookup ctx t m k = Some h}"
  proof (rule set_eqI, rule iffI)
    fix x assume "x \<in> set (concat (map ?d ?obs))"
    then show "x \<in> {out k h | k h. mw_lookup ctx t m k = Some h}"
      by (auto simp: each split: option.splits) metis
  next
    fix x assume "x \<in> {out k h | k h. mw_lookup ctx t m k = Some h}"
    then obtain k h where x: "x = out k h" and k: "mw_lookup ctx t m k = Some h" by blast
    from mw_lookup_observer [OF inv k] have "(k, mw_callbacks ctx t h) \<in> set ?obs"
      by (rule map_of_SomeD)
    moreover from each [OF this] have "x \<in> set (?d (k, mw_callbacks ctx t h))" by (simp add: x k)
    ultimately show "x \<in> set (concat (map ?d ?obs))" by force
  qed
  ultimately show ?thesis unfolding all by blast
qed

lemma mw_table_lookup:
  assumes "mw_inv ctx m" "mc_sc ctx t \<noteq> mc_sc ctx ST_UNKNOWN" "(k, cb) \<in> set (s_observers (mw_session m t))"
  shows "legacy_callback_table m t k = mw_lookup ctx t m k
   \<and> map_of (s_observers (mw_session m t)) k = Some cb"
proof -
  have "distinct (map fst (s_observers (mw_session m t)))"
    using assms(1) by (simp add: mw_inv_def sessions_inv_def session_inv_def)
  with assms(3) have some: "map_of (s_observers (mw_session m t)) k = Some cb"
    by (simp add: map_of_is_SomeI)
  then have "k \<noteq> kObserversCookieUndefined (mc_sc ctx)"
    using mw_undefined_unused [OF assms(1,2)] by auto
  with some show ?thesis by (simp add: mw_lookup_def)
qed

lemma deliver_control_result:
  assumes "mw_inv ctx m" "mc_sc ctx t \<noteq> mc_sc ctx ST_UNKNOWN"
    "(k, cb) \<in> set (s_observers (mw_session m t))" "control_result_cb cb \<noteq> None"
  shows "mw_deliver ctx t m (ControlResult (the (control_result_cb cb)) k start_resp status)
    = (case mw_lookup ctx t m k of None \<Rightarrow> []
       | Some h \<Rightarrow> [HidlControlResult (the (hcb_control_result h)) k start_resp (to_hidl_status status)])"
proof -
  note k = mw_table_lookup [OF assms(1-3)]
  show ?thesis
  proof (cases "mw_lookup ctx t m k")
    case None
    then have "\<not> mw_owned ctx t cb"
      using mw_observer_lookup [OF assms(1,2) conjunct2 [OF k]] by fastforce
    with assms(4) None show ?thesis by (auto simp: mw_owned_def)
  next
    case (Some h)
    with mw_lookup_observer [OF assms(1,2) Some] k have "cb = mw_callbacks ctx t h" by simp
    with assms(4) Some k show ?thesis
      by (auto simp: mw_callbacks_def mw_control_result_def)
  qed
qed

lemma deliver_session_changed:
  assumes "mw_inv ctx m" "mc_sc ctx t \<noteq> mc_sc ctx ST_UNKNOWN"
    "(k, cb) \<in> set (s_observers (mw_session m t))" "session_changed_cb cb \<noteq> None"
  shows "mw_deliver ctx t m (SessionChanged (the (session_changed_cb cb)) k)
    = (case mw_lookup ctx t m k of None \<Rightarrow> []
       | Some h \<Rightarrow> [HidlSessionChanged (the (hcb_session_changed h)) k])"
proof -
  note k = mw_table_lookup [OF assms(1-3)]
  show ?thesis
  proof (cases "mw_lookup ctx t m k")
    case None
    then have "\<not> mw_owned ctx t cb"
      using mw_observer_lookup [OF assms(1,2) conjunct2 [OF k]] by fastforce
    with assms(4) None show ?thesis by (auto simp: mw_owned_def)
  next
    case (Some h)
    with mw_lookup_observer [OF assms(1,2) Some] k have "cb = mw_callbacks ctx t h" by simp
    with assms(4) Some k show ?thesis
      by (auto simp: mw_callbacks_def mw_session_changed_def)
  qed
qed

text \<open>Every observer has both closures, so that no report throws.\<close>

definition closures_complete :: "session \<Rightarrow> bool" where
  "closures_complete s \<longleftrightarrow>
     list_all (\<lambda>(k, cb). control_result_cb cb \<noteq> None \<and> session_changed_cb cb \<noteq> None) (s_observers s)"

lemma mw_reports:
  assumes "mw_inv ctx m" "mc_sc ctx t \<noteq> mc_sc ctx ST_UNKNOWN" "closures_complete (mw_session m t)"
  shows "distinct (mw_deliver_all ctx t m (ReportControlStatus start_resp status (mw_session m t)))
     \<and> set (mw_deliver_all ctx t m (ReportControlStatus start_resp status (mw_session m t)))
      = {HidlControlResult (the (hcb_control_result h)) k start_resp (to_hidl_status status) | k h.
           mw_lookup ctx t m k = Some h}" (is ?control)
    and "distinct (mw_deliver_all ctx t m (ReportSessionStatus (mw_session m t)))
     \<and> set (mw_deliver_all ctx t m (ReportSessionStatus (mw_session m t)))
      = {HidlSessionChanged (the (hcb_session_changed h)) k | k h. mw_lookup ctx t m k = Some h}" (is ?changed)
proof -
  let ?s = "mw_session m t"
  have c: "control_result_cb cb \<noteq> None" "session_changed_cb cb \<noteq> None"
    if "(k, cb) \<in> set (s_observers ?s)" for k cb
    using assms(3) that by (auto simp: closures_complete_def list_all_iff)
  have "ReportControlStatus start_resp status ?s
      = map (\<lambda>(k, cb). ControlResult (the (control_result_cb cb)) k start_resp status) (s_observers ?s)"
    by (rule ReportControlStatus_all) (use c in auto)
  then show ?control
    using deliver_entries [OF assms(1,2), where msg = "\<lambda>k cb. ControlResult (the (control_result_cb cb)) k start_resp status"
        and out = "\<lambda>k h. HidlControlResult (the (hcb_control_result h)) k start_resp (to_hidl_status status)"]
      deliver_control_result [OF assms(1,2) _ c(1)] by simp
  have "ReportSessionStatus ?s
      = map (\<lambda>(k, cb). SessionChanged (the (session_changed_cb cb)) k) (s_observers ?s)"
    by (rule ReportSessionStatus_all) (use c in auto)
  then show ?changed
    using deliver_entries [OF assms(1,2), where msg = "\<lambda>k cb. SessionChanged (the (session_changed_cb cb)) k"
        and out = "\<lambda>k h. HidlSessionChanged (the (hcb_session_changed h)) k"]
      deliver_session_changed [OF assms(1,2) _ c(2)] by simp
qed

section \<open>Properties\<close>

lemma registry_appends:
  assumes "registry_inv sc s" "fst (RegisterStatusCback sc cb s) \<noteq> kObserversCookieUndefined sc"
  shows "s_observers (snd (RegisterStatusCback sc cb s))
    = s_observers s @ [(fst (RegisterStatusCback sc cb s), cb)]"
proof -
  have "session_inv sc s" using assms(1) by (simp add: registry_inv_def)
  then show ?thesis
    by (rule RegisterStatusCback_cases [where callbacks = cb]) (use assms(2) in simp_all)
qed

text \<open>
  C23: When the AIDL session of a known type reports a control result or a change, and no
  observer has an empty closure, every HIDL observer that the middleware has registered for
  the type gets the report exactly once, under its cookie and with the translated status,
  and no other HIDL closure is entered.
\<close>

theorem mw_report_reaches_each:
  assumes "mw_reach ctx m" "mc_sc ctx t \<noteq> mc_sc ctx ST_UNKNOWN" "closures_complete (mw_session m t)"
  shows "distinct (mw_deliver_all ctx t m (ReportControlStatus start_resp status (mw_session m t)))
     \<and> set (mw_deliver_all ctx t m (ReportControlStatus start_resp status (mw_session m t)))
       = {HidlControlResult f k start_resp (to_hidl_status status) | f k.
            \<exists>h. mw_lookup ctx t m k = Some h \<and> hcb_control_result h = Some f}
     \<and> distinct (mw_deliver_all ctx t m (ReportSessionStatus (mw_session m t)))
     \<and> set (mw_deliver_all ctx t m (ReportSessionStatus (mw_session m t)))
       = {HidlSessionChanged f k | f k.
            \<exists>h. mw_lookup ctx t m k = Some h \<and> hcb_session_changed h = Some f}"
proof -
  note inv = mw_reach_inv [OF assms(1)]
  have full: "hcb_control_result h \<noteq> None" "hcb_session_changed h \<noteq> None"
    if "mw_lookup ctx t m k = Some h" for k h
    using map_of_SomeD [OF mw_lookup_observer [OF inv assms(2) that]] assms(3)
    by (auto simp: closures_complete_def list_all_iff mw_callbacks_def)
  have "{HidlControlResult (the (hcb_control_result h)) k start_resp (to_hidl_status status) | k h.
            mw_lookup ctx t m k = Some h}
      = {HidlControlResult f k start_resp (to_hidl_status status) | f k.
            \<exists>h. mw_lookup ctx t m k = Some h \<and> hcb_control_result h = Some f}"
    using full(1) by (safe; simp; metis option.collapse option.sel)
  moreover have "{HidlSessionChanged (the (hcb_session_changed h)) k | k h. mw_lookup ctx t m k = Some h}
      = {HidlSessionChanged f k | f k.
            \<exists>h. mw_lookup ctx t m k = Some h \<and> hcb_session_changed h = Some f}"
    using full(2) by (safe; simp; metis option.collapse option.sel)
  ultimately show ?thesis using mw_reports [OF inv assms(2,3)] by simp
qed

definition example_mw_ctx :: mw_ctx where
  "example_mw_ctx = \<lparr>mc_sc = example_code, mc_closure = (\<lambda>t. 100)\<rparr>"

definition example_hidl_callbacks :: HidlCallbacks where
  "example_hidl_callbacks = \<lparr>hcb_control_result = Some 5, hcb_session_changed = Some 6\<rparr>"

definition example_mw :: middleware where
  "example_mw = snd (Mw_RegisterControlResultCback example_mw_ctx HST_A2DP_SOFTWARE_ENCODING_DATAPATH
     example_hidl_callbacks \<lparr>mw_sessions = (\<lambda>t. None), legacy_callback_table = (\<lambda>t k. None)\<rparr>)"

lemma example_mw_reach: "mw_reach example_mw_ctx example_mw"
  unfolding example_mw_def by (intro mw_reach.intros)

lemma example_mw_lookup:
  "mw_lookup example_mw_ctx A2DP_SOFTWARE_ENCODING_DATAPATH example_mw 0x0100 = Some example_hidl_callbacks"
  "closures_complete (mw_session example_mw A2DP_SOFTWARE_ENCODING_DATAPATH)"
  by code_simp+

theorem mw_report_reaches_each_witness:
  "HidlControlResult 5 0x0100 True HIDL_FAILURE \<in> set (mw_deliver_all example_mw_ctx
     A2DP_SOFTWARE_ENCODING_DATAPATH example_mw
     (ReportControlStatus True RECONFIGURATION (mw_session example_mw A2DP_SOFTWARE_ENCODING_DATAPATH)))"
proof -
  have known: "mc_sc example_mw_ctx A2DP_SOFTWARE_ENCODING_DATAPATH \<noteq> mc_sc example_mw_ctx ST_UNKNOWN"
    by (simp add: example_mw_ctx_def example_code_def)
  have "hcb_control_result example_hidl_callbacks = Some 5" by (simp add: example_hidl_callbacks_def)
  with example_mw_lookup(1) show ?thesis
    using mw_report_reaches_each [OF example_mw_reach known example_mw_lookup(2),
        of True RECONFIGURATION] by auto
qed

lemma mw_deliver_all_ignored:
  "mw_deliver ctx t m n = [] \<Longrightarrow> mw_deliver_all ctx t m (ns @ [n]) = mw_deliver_all ctx t m ns"
  by (induction ns) (auto simp: Let_def)

lemma mw_deliver_all_table:
  "legacy_callback_table m' t = legacy_callback_table m t \<Longrightarrow> mw_deliver_all ctx t m' ns = mw_deliver_all ctx t m ns"
proof (induction ns)
  case (Cons n ns)
  then have "mw_deliver ctx t m' n = mw_deliver ctx t m n" by (cases n) simp_all
  with Cons show ?case by (simp add: Let_def)
qed simp

text \<open>
  Registration is not atomic: when the session reports after the middleware has
  registered its closures and before it has filled its table, the new HIDL observer misses
  the report, although its cookie is registered; the others get theirs as before.
\<close>

theorem mw_registration_window:
  fixes h defines "t \<equiv> from_session_type_2_0 h"
  assumes "mw_reach ctx m" "mc_sc ctx t \<noteq> mc_sc ctx ST_UNKNOWN" "closures_complete (mw_session m t)"
    and "hcb_control_result c \<noteq> None" "hcb_session_changed c \<noteq> None"
    and "mw_register_session ctx h c m = (cookie, m')" "cookie \<noteq> kObserversCookieUndefined (mc_sc ctx)"
  shows "map_of (s_observers (mw_session m' t)) cookie = Some (mw_callbacks ctx t c)
     \<and> mw_deliver_all ctx t m' (ReportControlStatus start_resp status (mw_session m' t))
       = mw_deliver_all ctx t m (ReportControlStatus start_resp status (mw_session m t))
     \<and> mw_deliver_all ctx t m' (ReportSessionStatus (mw_session m' t))
       = mw_deliver_all ctx t m (ReportSessionStatus (mw_session m t))"
proof -
  let ?s = "mw_session m t" and ?cb = "mw_callbacks ctx t c"
  note inv = mw_reach_inv [OF assms(2)]
  have reg: "registry_inv (mc_sc ctx) ?s" by (rule mw_registry_inv [OF inv assms(3)])
  have m': "fst (RegisterStatusCback (mc_sc ctx) ?cb ?s) = cookie"
    "mw_session m' t = snd (RegisterStatusCback (mc_sc ctx) ?cb ?s)"
    "legacy_callback_table m' t = legacy_callback_table m t"
    using assms(7) by (auto simp: mw_register_session_def RegisterControlResultCback_def Let_def
        case_prod_beta on_session_result on_session_session_of t_def)
  have new: "s_observers (mw_session m' t) = s_observers ?s @ [(cookie, ?cb)]"
    "map_of (s_observers ?s) cookie = None"
    using aidl.register_fresh [OF reg, of ?cb] m'(1)
      registry_appends [OF reg, of ?cb, unfolded m'(1), OF assms(8)]
    by (simp_all add: m'(2))
  have "mw_lookup ctx t m cookie = None"
    using mw_lookup_observer [OF inv assms(3)] new(2) by (cases "mw_lookup ctx t m cookie") auto
  then have none: "legacy_callback_table m t cookie = None" using assms(8) by (simp add: mw_lookup_def)
  have complete: "\<forall>ob \<in> set (s_observers (mw_session m' t)).
      control_result_cb (snd ob) \<noteq> None \<and> session_changed_cb (snd ob) \<noteq> None"
    using assms(4-6) by (auto simp: new closures_complete_def list_all_iff mw_callbacks_def)
  have "ReportControlStatus start_resp status (mw_session m' t)
      = ReportControlStatus start_resp status ?s @ [ControlResult (the (control_result_cb ?cb)) cookie start_resp status]"
    using complete by (simp add: ReportControlStatus_all new)
  moreover have "ReportSessionStatus (mw_session m' t)
      = ReportSessionStatus ?s @ [SessionChanged (the (session_changed_cb ?cb)) cookie]"
    using complete by (simp add: ReportSessionStatus_all new)
  ultimately show ?thesis
    using new none by (simp add: mw_deliver_all_table [OF m'(3)] mw_deliver_all_ignored
        mw_control_result_def mw_session_changed_def map_of_append_fresh observers_lookup_None
        del: map_of_append)
qed

theorem mw_registration_window_witness:
  "mw_deliver_all example_mw_ctx A2DP_SOFTWARE_ENCODING_DATAPATH example_mw (ReportSessionStatus
     (mw_session (snd (mw_register_session example_mw_ctx HST_A2DP_SOFTWARE_ENCODING_DATAPATH
        example_hidl_callbacks example_mw)) A2DP_SOFTWARE_ENCODING_DATAPATH))
   = [HidlSessionChanged 6 0x0100]"
proof -
  have t: "from_session_type_2_0 HST_A2DP_SOFTWARE_ENCODING_DATAPATH = A2DP_SOFTWARE_ENCODING_DATAPATH"
    by code_simp
  have known: "mc_sc example_mw_ctx A2DP_SOFTWARE_ENCODING_DATAPATH \<noteq> mc_sc example_mw_ctx ST_UNKNOWN"
    by (simp add: example_mw_ctx_def example_code_def)
  have k: "fst (mw_register_session example_mw_ctx HST_A2DP_SOFTWARE_ENCODING_DATAPATH
      example_hidl_callbacks example_mw) \<noteq> kObserversCookieUndefined (mc_sc example_mw_ctx)"
    by code_simp
  have one: "mw_deliver_all example_mw_ctx A2DP_SOFTWARE_ENCODING_DATAPATH example_mw
      (ReportSessionStatus (mw_session example_mw A2DP_SOFTWARE_ENCODING_DATAPATH)) = [HidlSessionChanged 6 0x0100]"
    by code_simp
  show ?thesis
    using mw_registration_window [where h = HST_A2DP_SOFTWARE_ENCODING_DATAPATH, unfolded t,
        OF example_mw_reach known example_mw_lookup(2) _ _ prod.collapse [symmetric] k]
      one mw_deliver_all_table [of "snd (mw_register_session example_mw_ctx HST_A2DP_SOFTWARE_ENCODING_DATAPATH
        example_hidl_callbacks example_mw)" A2DP_SOFTWARE_ENCODING_DATAPATH example_mw example_mw_ctx]
    by (simp add: example_hidl_callbacks_def mw_register_session_def Let_def case_prod_beta)
qed

end
