(* ===== verification/Hidl_Session_Facts.thy ===== *)
theory Hidl_Session_Facts
  imports Hidl_Control Hidl_Middleware_Facts
begin

text \<open>
  What the HIDL sessions promise. Without the AIDL service a session behaves like an AIDL
  session, which the abstraction \<open>as_aidl\<close> makes precise for readiness, registration and the
  data path; with it, the control interface is the AIDL one. Version 2.1 keeps its own
  configuration, and gives back the one it was started with.
\<close>

section \<open>A HIDL session as an AIDL session\<close>

text \<open>
  The AIDL session has the same interface, queue and observers. Its configuration is always
  set, because a HIDL session does not test it; its type says whether a queue is needed.
\<close>

definition as_aidl_callbacks :: "HidlCallbacks \<Rightarrow> PortStatusCallbacks" where
  "as_aidl_callbacks h =
     \<lparr>control_result_cb = hcb_control_result h, session_changed_cb = hcb_session_changed h,
      audio_configuration_changed_cb = None, low_latency_mode_allowed_cb = None\<rparr>"

definition as_aidl_type :: "HidlSessionType \<Rightarrow> SessionType" where
  "as_aidl_type t = (if t = HST_A2DP_HARDWARE_OFFLOAD_DATAPATH then A2DP_HARDWARE_OFFLOAD_ENCODING_DATAPATH
     else A2DP_SOFTWARE_ENCODING_DATAPATH)"

definition as_aidl :: "hidl_session \<Rightarrow> session" where
  "as_aidl s =
     \<lparr>s_session_type = as_aidl_type (hs_session_type s),
      s_stack_iface = hs_stack_iface s, s_data_mq = hs_mDataMQ s,
      s_audio_config = Some (default_audio_config (as_aidl_type (hs_session_type s))),
      s_latency_modes = [], s_low_latency_allowed = True,
      s_observers = map (apsnd as_aidl_callbacks) (hs_observers s)\<rparr>"

definition as_code :: "hidl_ctx \<Rightarrow> HidlSessionType \<Rightarrow> session_code" where
  "as_code ctx h t = (if t = ST_UNKNOWN then hx_code ctx HST_UNKNOWN else hx_code ctx h)"

lemma hidl_ready_as_aidl: "hidl_ready s = IsSessionReady (as_aidl s)"
  by (auto simp: hidl_ready_def IsSessionReady_def as_aidl_def as_aidl_type_def is_hardware_session_def Let_def)

section \<open>Registration\<close>

lemma next_cookie_keys:
  fixes obs :: "(u16 \<times> 'a) list" and obs' :: "(u16 \<times> 'b) list"
  assumes "fst ` set obs = fst ` set obs'"
  shows "next_cookie obs c u = next_cookie obs' c u"
  using assms
proof (induction obs c u rule: next_cookie.induct)
  case (1 obs c u)
  then show ?case by (subst (1 2) next_cookie.simps) auto
qed

lemma as_aidl_type_known: "as_aidl_type t \<noteq> ST_UNKNOWN"
  by (simp add: as_aidl_type_def)

lemma hidl_cookies_as_aidl:
  "Hidl_ObserversCookieGetInitValue (hx_code ctx) t = ObserversCookieGetInitValue (as_code ctx t) (as_aidl_type t)"
  "Hidl_ObserversCookieGetUpperBound (hx_code ctx) t = ObserversCookieGetUpperBound (as_code ctx t) (as_aidl_type t)"
  "Hidl_kObserversCookieUndefined (hx_code ctx) = kObserversCookieUndefined (as_code ctx t)"
  by (simp_all add: Hidl_ObserversCookieGetInitValue_def ObserversCookieGetInitValue_def
      Hidl_ObserversCookieGetUpperBound_def ObserversCookieGetUpperBound_def as_aidl_type_known
      Hidl_kObserversCookieUndefined_def kObserversCookieUndefined_def as_code_def)

lemma hidl_register_as_aidl:
  fixes s defines "t \<equiv> hs_session_type s"
  shows "fst (hidl_register ctx c s) = fst (RegisterStatusCback (as_code ctx t) (as_aidl_callbacks c) (as_aidl s))"
    "as_aidl (snd (hidl_register ctx c s)) = snd (RegisterStatusCback (as_code ctx t) (as_aidl_callbacks c) (as_aidl s))"
    "hs_session_type (snd (hidl_register ctx c s)) = t"
proof -
  have k: "next_cookie (map (apsnd as_aidl_callbacks) (hs_observers s)) a b = next_cookie (hs_observers s) a b" for a b
    by (rule next_cookie_keys) (simp add: image_image)
  show "fst (hidl_register ctx c s) = fst (RegisterStatusCback (as_code ctx t) (as_aidl_callbacks c) (as_aidl s))"
    "as_aidl (snd (hidl_register ctx c s)) = snd (RegisterStatusCback (as_code ctx t) (as_aidl_callbacks c) (as_aidl s))"
    "hs_session_type (snd (hidl_register ctx c s)) = t"
    by (simp_all add: hidl_register_def RegisterStatusCback_def Let_def hidl_cookies_as_aidl(1,2)
        hidl_cookies_as_aidl(3) [of ctx t] as_aidl_def k t_def)
qed

lemma hidl_unregister_as_aidl: "as_aidl (hidl_unregister k s) = UnregisterStatusCback k (as_aidl s)"
  by (simp add: hidl_unregister_def UnregisterStatusCback_def as_aidl_def alist_erase_def filter_map comp_def)

lemma map_of_apsnd: "map_of (map (apsnd f) xs) k = map_option f (map_of xs k)"
  by (induction xs) auto

lemma as_aidl_lookup: "map_of (s_observers (as_aidl s)) = map_option as_aidl_callbacks \<circ> map_of (hs_observers s)"
  by (rule ext) (simp add: as_aidl_def map_of_apsnd)

lemma as_aidl_callbacks_inj: "inj as_aidl_callbacks"
  by (rule injI) (simp add: as_aidl_callbacks_def HidlCallbacks.equality)

definition hidl_registry_inv :: "hidl_ctx \<Rightarrow> hidl_session \<Rightarrow> bool" where
  "hidl_registry_inv ctx s \<longleftrightarrow> registry_inv (as_code ctx (hs_session_type s)) (as_aidl s)"

interpretation hidl: callback_registry "hidl_registry_inv ctx" "\<lambda>s. map_of (hs_observers s)"
  "hidl_register ctx" hidl_unregister "Hidl_kObserversCookieUndefined (hx_code ctx)"
  for ctx
proof unfold_locales
  fix s c assume inv: "hidl_registry_inv ctx s"
  define sc where "sc = as_code ctx (hs_session_type s)"
  have reg: "registry_inv sc (as_aidl s)" using inv by (simp add: hidl_registry_inv_def sc_def)
  have undef: "Hidl_kObserversCookieUndefined (hx_code ctx) = kObserversCookieUndefined sc"
    by (simp add: sc_def hidl_cookies_as_aidl(3) [symmetric])
  note step = hidl_register_as_aidl [of ctx c s, folded sc_def]
  have lookup_eq: "map_of (hs_observers s1) = f"
    if "map_of (s_observers (as_aidl s1)) = map_option as_aidl_callbacks \<circ> f" for s1 f
  proof
    fix k
    from that have "map_option as_aidl_callbacks (map_of (hs_observers s1) k) = map_option as_aidl_callbacks (f k)"
      unfolding as_aidl_lookup by (metis comp_apply)
    then show "map_of (hs_observers s1) k = f k"
      using option.inj_map [OF as_aidl_callbacks_inj] by (simp add: inj_eq)
  qed
  show "hidl_registry_inv ctx (snd (hidl_register ctx c s))"
    using aidl.register_inv [OF reg] by (simp add: hidl_registry_inv_def step sc_def)
  show "hidl_registry_inv ctx (hidl_unregister k s)" for k
    using aidl.unregister_inv [OF reg]
    by (simp add: hidl_registry_inv_def hidl_unregister_as_aidl sc_def) (simp add: hidl_unregister_def)
  show "map_of (hs_observers s) (Hidl_kObserversCookieUndefined (hx_code ctx)) = None"
    using aidl.undefined_unused [OF reg] by (simp add: undef as_aidl_lookup)
  show "map_of (hs_observers (snd (hidl_register ctx c s))) = map_of (hs_observers s)"
    if "fst (hidl_register ctx c s) = Hidl_kObserversCookieUndefined (hx_code ctx)"
    using aidl.register_fails [OF reg, of "as_aidl_callbacks c"] that
    by (intro lookup_eq) (simp add: step undef as_aidl_lookup)
  show "map_of (hs_observers s) (fst (hidl_register ctx c s)) = None"
    using aidl.register_fresh [OF reg, of "as_aidl_callbacks c"] by (simp add: step as_aidl_lookup)
  show "map_of (hs_observers (snd (hidl_register ctx c s)))
      = (map_of (hs_observers s))(fst (hidl_register ctx c s) \<mapsto> c)"
    if "fst (hidl_register ctx c s) \<noteq> Hidl_kObserversCookieUndefined (hx_code ctx)"
    using aidl.register_lookup [OF reg, of "as_aidl_callbacks c"] that
    by (intro lookup_eq) (simp add: step undef as_aidl_lookup fun_eq_iff)
  show "map_of (hs_observers (hidl_unregister k s)) = (map_of (hs_observers s))(k := None)" for k
    by (simp add: hidl_unregister_def alist_erase_map_of)
qed

section \<open>The data path\<close>

definition as_aidl_poll :: "hidl_poll \<Rightarrow> fmq_poll" where
  "as_aidl_poll p =
     \<lparr>poll_session = as_aidl (hpoll_session p), poll_available = hpoll_available p,
      poll_write_ok = hpoll_write_ok p, poll_read = hpoll_read p\<rparr>"

lemma as_aidl_poll_parts [simp]:
  "IsSessionReady (poll_session (as_aidl_poll p)) = hidl_ready (hpoll_session p)"
  "(s_data_mq (poll_session (as_aidl_poll p)) = None) = (hs_mDataMQ (hpoll_session p) = None)"
  "poll_available (as_aidl_poll p) = hpoll_available p"
  "poll_write_ok (as_aidl_poll p) = hpoll_write_ok p"
  "poll_read (as_aidl_poll p) = hpoll_read p"
  by (simp_all add: as_aidl_poll_def hidl_ready_as_aidl) (simp add: as_aidl_def)

lemma Hidl_OutWrite_loop_as_aidl:
  "Hidl_OutWrite_loop polls buffer bytes t = OutWrite_loop (as_aidl_poll \<circ> polls) buffer bytes t"
proof (induction "bytes - pcm_total t + pcm_timeout_ms t" arbitrary: t rule: less_induct)
  case less
  show ?case
    by (subst Hidl_OutWrite_loop.simps, subst OutWrite_loop.simps)
      (auto simp: Let_def kWritePollMs_def intro!: less.hyps)
qed

lemma Hidl_InRead_loop_as_aidl:
  "Hidl_InRead_loop polls bytes t = InRead_loop (as_aidl_poll \<circ> polls) bytes t"
proof (induction "bytes - pcm_total t + pcm_timeout_ms t" arbitrary: t rule: less_induct)
  case less
  show ?case
    by (subst Hidl_InRead_loop.simps, subst InRead_loop.simps)
      (auto simp: Let_def kReadPollMs_def split: option.splits intro!: less.hyps)
qed

lemma Hidl_pcm_as_aidl:
  "\<not> hx_aidl ctx \<Longrightarrow> Hidl_OutWritePcmData ctx aidl_polls polls b bytes s m
     = (OutWritePcmData (as_aidl_poll \<circ> polls) b bytes, s, m)"
  "\<not> hx_aidl ctx \<Longrightarrow> Hidl_InReadPcmData ctx aidl_polls polls b bytes s m
     = (InReadPcmData (as_aidl_poll \<circ> polls) b bytes, s, m)"
  by (auto simp: Hidl_OutWritePcmData_def OutWritePcmData_def Hidl_InReadPcmData_def InReadPcmData_def
      Hidl_OutWrite_loop_as_aidl Hidl_InRead_loop_as_aidl Let_def split: option.splits)

section \<open>The process\<close>

text \<open>As with the AIDL sessions, creation on demand cannot be observed.\<close>

definition hidl_of :: "hidl_ctx \<Rightarrow> hidl_process \<Rightarrow> HidlSessionType \<Rightarrow> hidl_session" where
  "hidl_of ctx p t =
     (case hp_sessions p t of None \<Rightarrow> Hidl_BluetoothAudioSession ctx t | Some s \<Rightarrow> s)"

definition hidl21_new :: "hidl_ctx \<Rightarrow> HidlSessionType \<Rightarrow> hidl_session_2_1" where
  "hidl21_new ctx t =
     \<lparr>hs21_session_type_2_1 =
        (if is_2_0_session_type t \<or> is_unsupported_2_1_session_type t then HST_UNKNOWN else t),
      hs21_raw_session_type = t, hs21_audio_config_2_1 = union_2_1 (hx_junk ctx)\<rparr>"

definition hidl21_of :: "hidl_ctx \<Rightarrow> hidl_process \<Rightarrow> HidlSessionType \<Rightarrow> hidl_session_2_1" where
  "hidl21_of ctx p t = (case hp_sessions_2_1 p t of None \<Rightarrow> hidl21_new ctx t | Some s \<Rightarrow> s)"

text \<open>Every instance has the type it is kept under.\<close>

definition hidl_wf :: "hidl_ctx \<Rightarrow> hidl_process \<Rightarrow> bool" where
  "hidl_wf ctx p \<longleftrightarrow>
     (\<forall>t. hs_session_type (hidl_of ctx p t) = t
        \<and> hs21_raw_session_type (hidl21_of ctx p t) = t
        \<and> hs21_session_type_2_1 (hidl21_of ctx p t) = hs21_session_type_2_1 (hidl21_new ctx t))"

lemma on_hidl_result: "fst (on_hidl ctx t meth p) = fst (meth (hidl_of ctx p t) (hp_middleware p))"
  by (simp add: on_hidl_def Hidl_GetSessionInstance_def hidl_of_def Let_def case_prod_beta split: option.split)

lemma on_hidl_state:
  fixes ctx t meth p defines "r \<equiv> meth (hidl_of ctx p t) (hp_middleware p)"
  shows "hidl_of ctx (snd (on_hidl ctx t meth p)) = (hidl_of ctx p)(t := fst (snd r))"
    "hp_middleware (snd (on_hidl ctx t meth p)) = snd (snd r)"
    "hidl21_of ctx (snd (on_hidl ctx t meth p)) = hidl21_of ctx p"
  unfolding r_def
  by (rule ext, simp_all add: on_hidl_def Hidl_GetSessionInstance_def hidl_of_def hidl21_of_def Let_def
      case_prod_beta fun_eq_iff split: option.split)

lemma instance_2_0:
  "fst (Hidl_GetSessionInstance ctx t p) = hidl_of ctx p t"
  "hidl_of ctx (snd (Hidl_GetSessionInstance ctx t p)) = hidl_of ctx p"
  "hidl21_of ctx (snd (Hidl_GetSessionInstance ctx t p)) = hidl21_of ctx p"
  by (auto simp: Hidl_GetSessionInstance_def hidl_of_def hidl21_of_def Let_def fun_eq_iff split: option.split)

lemma instance_2_1:
  "fst (Hidl_GetSessionInstance_2_1 ctx t p) = hidl21_of ctx p t"
  "hidl_of ctx (snd (Hidl_GetSessionInstance_2_1 ctx t p)) = hidl_of ctx p"
  "hidl21_of ctx (snd (Hidl_GetSessionInstance_2_1 ctx t p)) = hidl21_of ctx p"
  "hp_middleware (snd (Hidl_GetSessionInstance_2_1 ctx t p)) = hp_middleware p"
  by (auto simp: Hidl_GetSessionInstance_2_1_def Hidl_BluetoothAudioSession_2_1_def hidl21_of_def
      hidl21_new_def hidl_of_def Hidl_GetSessionInstance_def Let_def fun_eq_iff split: option.split)

lemma on_hidl_2_1_result:
  "hidl_wf ctx p \<Longrightarrow> fst (on_hidl_2_1 ctx t meth p) = fst (meth (hidl_of ctx p t) (hp_middleware p))"
  by (simp add: on_hidl_2_1_def case_prod_beta on_hidl_result instance_2_1 hidl_wf_def)

lemma on_hidl_2_1_state:
  fixes ctx t meth p defines "r \<equiv> meth (hidl_of ctx p t) (hp_middleware p)"
  assumes "hidl_wf ctx p"
  shows "hidl_of ctx (snd (on_hidl_2_1 ctx t meth p)) = (hidl_of ctx p)(t := fst (snd r))"
    "hp_middleware (snd (on_hidl_2_1 ctx t meth p)) = snd (snd r)"
    "hidl21_of ctx (snd (on_hidl_2_1 ctx t meth p)) = hidl21_of ctx p"
  using assms by (simp_all add: on_hidl_2_1_def case_prod_beta on_hidl_state instance_2_1 hidl_wf_def)

definition hidl_start :: hidl_process where
  "hidl_start = \<lparr>hp_middleware = \<lparr>mw_sessions = (\<lambda>t. None), legacy_callback_table = (\<lambda>t k. None)\<rparr>,
     hp_sessions = (\<lambda>t. None), hp_sessions_2_1 = (\<lambda>t. None)\<rparr>"

lemma hidl_wf_start: "hidl_wf ctx hidl_start"
  by (simp add: hidl_wf_def hidl_start_def hidl_of_def hidl21_of_def Hidl_BluetoothAudioSession_def
      hidl21_new_def)

text \<open>A method that leaves the type of its object alone keeps the process well formed.\<close>

lemma hidl_wf_method:
  assumes "hidl_wf ctx p"
    "\<And>s m. hs_session_type (fst (snd (meth s m))) = hs_session_type s"
  shows "hidl_wf ctx (snd (on_hidl ctx t meth p))" "hidl_wf ctx (snd (on_hidl_2_1 ctx t meth p))"
  using assms by (simp_all add: hidl_wf_def on_hidl_state on_hidl_2_1_state [unfolded hidl_wf_def])

lemma Hidl_methods_type:
  "hs_session_type (fst (snd (Hidl_IsSessionReady ctx s m))) = hs_session_type s"
  "hs_session_type (fst (snd (Hidl_RegisterStatusCback ctx c s m))) = hs_session_type s"
  "hs_session_type (fst (snd (Hidl_UnregisterStatusCback ctx k s m))) = hs_session_type s"
  "hs_session_type (fst (snd (Hidl_OnSessionEnded ctx s m))) = hs_session_type s"
  "hs_session_type (snd (Hidl_OnSessionStarted ctx i q cfg s)) = hs_session_type s"
  by (auto simp: Hidl_IsSessionReady_def via_middleware_def case_prod_beta Hidl_RegisterStatusCback_def
      hidl_register_as_aidl Hidl_UnregisterStatusCback_def hidl_unregister_def Hidl_OnSessionEnded_def
      Hidl_UpdateDataPath_def Hidl_OnSessionStarted_def Hidl_UpdateAudioConfig_def Let_def
      split: option.splits)

section \<open>With the AIDL service\<close>

lemma hidl_via_aidl:
  assumes "hx_aidl ctx"
  shows "Hidl_IsSessionReady ctx s m = via_middleware (Mw_IsSessionReady (hs_session_type s)) s m"
    "Hidl_StartStream ctx ok s m = via_middleware (Mw_StartStream (hs_session_type s) ok) s m"
    "Hidl_SuspendStream ctx ok s m = via_middleware (Mw_SuspendStream (hs_session_type s) ok) s m"
    "Hidl_StopStream ctx s m = via_middleware (Mw_StopStream (hs_session_type s)) s m"
    "Hidl_UpdateTracksMetadata ctx tracks ok s m
       = via_middleware (Mw_UpdateTracksMetadata (hs_session_type s) tracks ok) s m"
    "Hidl_OutWritePcmData ctx ap hp b n s m = via_middleware (Mw_OutWritePcmData (hs_session_type s) ap b n) s m"
    "Hidl_InReadPcmData ctx ap hp b n s m = via_middleware (Mw_InReadPcmData (hs_session_type s) ap b n) s m"
  using assms
  by (simp_all add: Hidl_IsSessionReady_def Hidl_StartStream_def Hidl_SuspendStream_def
      Hidl_StopStream_def Hidl_UpdateTracksMetadata_def Hidl_OutWritePcmData_def Hidl_InReadPcmData_def)

lemmas mw_call_defs = Mw_IsSessionReady_def Mw_StartStream_def Mw_SuspendStream_def Mw_StopStream_def
  Mw_UpdateTracksMetadata_def Mw_OutWritePcmData_def Mw_InReadPcmData_def

lemma via_on_aidl:
  "fst (via_middleware (on_aidl h call) s m) = fst (call (from_session_type_2_0 h) (mw_sessions m))"
  "fst (snd (via_middleware (on_aidl h call) s m)) = s"
  "mw_sessions (snd (snd (via_middleware (on_aidl h call) s m)))
     = snd (call (from_session_type_2_0 h) (mw_sessions m))"
  "legacy_callback_table (snd (snd (via_middleware (on_aidl h call) s m))) = legacy_callback_table m"
  by (simp_all add: via_middleware_def case_prod_beta on_aidl_result on_aidl_state)

definition control_agrees ::
  "hidl_ctx \<Rightarrow> hidl_process \<Rightarrow> 'r \<times> hidl_process \<Rightarrow> 'r \<times> sessions_map \<Rightarrow> bool" where
  "control_agrees ctx p hidl_result aidl_result \<longleftrightarrow>
     fst hidl_result = fst aidl_result
   \<and> mw_sessions (hp_middleware (snd hidl_result)) = snd aidl_result
   \<and> legacy_callback_table (hp_middleware (snd hidl_result)) = legacy_callback_table (hp_middleware p)
   \<and> hidl_of ctx (snd hidl_result) = hidl_of ctx p"

lemma on_hidl_2_1_agrees:
  assumes "hidl_wf ctx p"
    "\<And>s m. meth s m = via_middleware (on_aidl (hs_session_type s) call) s m"
  shows "control_agrees ctx p (on_hidl_2_1 ctx t meth p)
    (call (from_session_type_2_0 t) (mw_sessions (hp_middleware p)))"
  using assms unfolding control_agrees_def
  by (simp add: on_hidl_2_1_result on_hidl_2_1_state via_on_aidl hidl_wf_def fun_upd_idem)

text \<open>
  C24: When the AIDL service is available, each control call of version 2.1 that starts,
  suspends, stops, asks or moves data returns what the AIDL control interface returns for the
  translated type, has its effect on the AIDL sessions, and leaves the HIDL sessions alone.
\<close>

theorem hidl_control_is_aidl_control:
  fixes t p defines "u \<equiv> from_session_type_2_0 t" and "ss \<equiv> mw_sessions (hp_middleware p)"
  assumes "hx_aidl ctx" "hidl_wf ctx p"
  shows "control_agrees ctx p (HControl21_IsSessionReady ctx t p) (Control_IsSessionReady u ss)
   \<and> control_agrees ctx p (HControl21_StartStream ctx t ok p) (Control_StartStream u False ok ss)
   \<and> control_agrees ctx p (HControl21_SuspendStream ctx t ok p) (Control_SuspendStream u ok ss)
   \<and> control_agrees ctx p (HControl21_StopStream ctx t p) (Control_StopStream u ss)
   \<and> control_agrees ctx p (HControl21_UpdateTracksMetadata ctx t tracks ok p)
       (Control_UpdateSourceMetadata u tracks ok ss)
   \<and> control_agrees ctx p (HControl21_OutWritePcmData ctx t ap hp b n p) (Control_OutWritePcmData u ap b n ss)
   \<and> control_agrees ctx p (HControl21_InReadPcmData ctx t ap hp b n p) (Control_InReadPcmData u ap b n ss)"
  unfolding u_def ss_def HControl21_IsSessionReady_def HControl21_StartStream_def
    HControl21_SuspendStream_def HControl21_StopStream_def HControl21_UpdateTracksMetadata_def
    HControl21_OutWritePcmData_def HControl21_InReadPcmData_def
  by (intro conjI on_hidl_2_1_agrees [OF assms(4), where call = Control_IsSessionReady]
      on_hidl_2_1_agrees [OF assms(4), where call = "\<lambda>t. Control_StartStream t False ok"]
      on_hidl_2_1_agrees [OF assms(4), where call = "\<lambda>t. Control_SuspendStream t ok"]
      on_hidl_2_1_agrees [OF assms(4), where call = Control_StopStream]
      on_hidl_2_1_agrees [OF assms(4), where call = "\<lambda>t. Control_UpdateSourceMetadata t tracks ok"]
      on_hidl_2_1_agrees [OF assms(4), where call = "\<lambda>t. Control_OutWritePcmData t ap b n"]
      on_hidl_2_1_agrees [OF assms(4), where call = "\<lambda>t. Control_InReadPcmData t ap b n"])
    (simp_all add: hidl_via_aidl [OF assms(3)] mw_call_defs)

definition example_junk :: hidl_junk where
  "example_junk =
     \<lparr>junk_sbc = \<lparr>hsbc_sampleRate = RATE_UNKNOWN, hsbc_channelMode = HSbcCM_UNKNOWN, hsbc_blockLength = BLOCKS_4,
        hsbc_numSubbands = SUBBAND_4, hsbc_allocMethod = HALLOC_MD_S, hsbc_bitsPerSample = BITS_UNKNOWN,
        hsbc_minBitpool = 0, hsbc_maxBitpool = 0\<rparr>,
      junk_aac = \<lparr>haac_objectType = HMPEG2_LC, haac_sampleRate = RATE_UNKNOWN, haac_channelMode = HCM_UNKNOWN,
        haac_variableBitRateEnabled = VBR_ENABLED, haac_bitsPerSample = BITS_UNKNOWN\<rparr>,
      junk_ldac = \<lparr>hldac_sampleRate = RATE_UNKNOWN, hldac_channelMode = HLdacCM_UNKNOWN,
        hldac_qualityIndex = QUALITY_HIGH, hldac_bitsPerSample = BITS_UNKNOWN\<rparr>,
      union_codec = haptxConfig \<lparr>haptx_sampleRate = RATE_UNKNOWN, haptx_channelMode = HCM_UNKNOWN,
        haptx_bitsPerSample = BITS_UNKNOWN\<rparr>,
      junk_lc3 = \<lparr>hlc3_pcmBitDepth = BITS_UNKNOWN, hlc3_samplingFrequency = RATE_UNKNOWN,
        hlc3_frameDuration = DURATION_7500US, hlc3_octetsPerFrame = 0, hlc3_blocksPerSdu = 0\<rparr>,
      zero_lc3 = \<lparr>hlc3_pcmBitDepth = BITS_UNKNOWN, hlc3_samplingFrequency = RATE_UNKNOWN,
        hlc3_frameDuration = DURATION_10000US, hlc3_octetsPerFrame = 0, hlc3_blocksPerSdu = 0\<rparr>,
      union_2_0 = H20_pcmConfig kInvalidPcmParameters,
      union_2_1 = H21_pcmConfig \<lparr>hpcm21_sampleRate = RATE_UNKNOWN, hpcm21_channelMode = HCM_UNKNOWN,
        hpcm21_bitsPerSample = BITS_UNKNOWN, hpcm21_dataIntervalUs = 0\<rparr>\<rparr>"

definition example_hidl_code :: "HidlSessionType \<Rightarrow> u8" where
  "example_hidl_code t = (case t of HST_UNKNOWN \<Rightarrow> 0 | HST_A2DP_SOFTWARE_ENCODING_DATAPATH \<Rightarrow> 1
     | HST_LE_AUDIO_SOFTWARE_ENCODING_DATAPATH \<Rightarrow> 4 | _ \<Rightarrow> 14)"

definition example_hidl_ctx :: "bool \<Rightarrow> hidl_ctx" where
  "example_hidl_ctx aidl =
     \<lparr>hx_mw = example_mw_ctx, hx_code = example_hidl_code, hx_junk = example_junk, hx_aidl = aidl\<rparr>"

definition example_hidl_process :: hidl_process where
  "example_hidl_process = hidl_start\<lparr>hp_middleware := \<lparr>mw_sessions =
     (\<lambda>t. None)(A2DP_SOFTWARE_ENCODING_DATAPATH \<mapsto> example_session), legacy_callback_table = (\<lambda>t k. None)\<rparr>\<rparr>"

lemma example_hidl_wf: "hidl_wf ctx example_hidl_process"
  using hidl_wf_start [of ctx]
  by (simp add: hidl_wf_def example_hidl_process_def hidl_of_def hidl21_of_def)

theorem hidl_control_is_aidl_control_witness:
  "fst (HControl21_StartStream (example_hidl_ctx True) HST_A2DP_SOFTWARE_ENCODING_DATAPATH True example_hidl_process)
     = (True, [Call_startStream False])"
proof -
  have "hx_aidl (example_hidl_ctx True)" by (simp add: example_hidl_ctx_def)
  from hidl_control_is_aidl_control [OF this example_hidl_wf, of HST_A2DP_SOFTWARE_ENCODING_DATAPATH]
  have "fst (HControl21_StartStream (example_hidl_ctx True) HST_A2DP_SOFTWARE_ENCODING_DATAPATH True example_hidl_process)
    = fst (Control_StartStream (from_session_type_2_0 HST_A2DP_SOFTWARE_ENCODING_DATAPATH) False True
        (mw_sessions (hp_middleware example_hidl_process)))"
    by (simp add: control_agrees_def)
  also have "\<dots> = (True, [Call_startStream False])" by code_simp
  finally show ?thesis .
qed

section \<open>Without the AIDL service\<close>

definition is_hidl_software :: "HidlSessionType \<Rightarrow> bool" where
  "is_hidl_software t \<longleftrightarrow>
     t = HST_A2DP_SOFTWARE_ENCODING_DATAPATH \<or> t = HST_HEARING_AID_SOFTWARE_ENCODING_DATAPATH
   \<or> t = HST_LE_AUDIO_SOFTWARE_ENCODING_DATAPATH \<or> t = HST_LE_AUDIO_SOFTWARE_DECODED_DATAPATH"

lemma hidl_local_ready: "\<not> hx_aidl ctx \<Longrightarrow> Hidl_IsSessionReady ctx s m = (hidl_ready s, s, m)"
  by (simp add: Hidl_IsSessionReady_def)

lemma on_hidl_ready:
  assumes "\<not> hx_aidl ctx" "hidl_ready (hidl_of ctx p t)"
  shows "fst (on_hidl ctx t (Hidl_IsSessionReady ctx) p)"
    "hidl_of ctx (snd (on_hidl ctx t (Hidl_IsSessionReady ctx) p)) = hidl_of ctx p"
  using assms by (simp_all add: on_hidl_result on_hidl_state hidl_local_ready)

lemma hidl_started:
  assumes "hidl_config_accepted (hs_session_type s) c" "mq_isValid mq"
  shows "Hidl_OnSessionStarted ctx (Some i) (Some mq) c s = (Hidl_ReportSessionStatus s,
    s\<lparr>hs_audio_config := c, hs_mDataMQ := Some mq, hs_stack_iface := Some i\<rparr>)"
  using assms by (simp add: Hidl_OnSessionStarted_def Hidl_UpdateAudioConfig_def Hidl_UpdateDataPath_def
      Hidl_ReportSessionStatus_def)

lemma Hidl_GetAudioConfig_2_1_local:
  assumes "\<not> hx_aidl ctx" "hidl_wf ctx p" "hidl_ready (hidl_of ctx p t)"
  shows "fst (Hidl_GetAudioConfig_2_1 ctx t p) =
    (if hs21_session_type_2_1 (hidl21_of ctx p t) \<noteq> HST_UNKNOWN
     then Some (hs21_audio_config_2_1 (hidl21_of ctx p t))
     else config_to_2_1 ctx (hs_audio_config (hidl_of ctx p t)))"
  using assms
  by (simp add: Hidl_GetAudioConfig_2_1_def case_prod_beta instance_2_1 on_hidl_result on_hidl_state
      hidl_wf_def hidl_local_ready Hidl_GetAudioConfig_def Let_def)

text \<open>What a start and the reads after it give, for both kinds of types.\<close>

definition starts_with ::
  "hidl_ctx \<Rightarrow> HidlSessionType \<Rightarrow> nat \<Rightarrow> DataMQ \<Rightarrow> HidlPcmParameters_2_1 \<Rightarrow> HidlPcmParameters_2_1
     \<Rightarrow> hidl_process \<Rightarrow> bool" where
  "starts_with ctx t i mq c c' p \<longleftrightarrow>
     (\<exists>p'. HReport21_OnSessionStarted ctx t (Some i) (Some mq) (H21_pcmConfig c) p
         = Some (Hidl_ReportSessionStatus (hidl_of ctx p t), p')
       \<and> fst (HControl21_IsSessionReady ctx t p')
       \<and> fst (HControl21_GetAudioConfig ctx t p') = Some (H21_pcmConfig c'))"

lemma hidl21_start_2_0:
  assumes "\<not> hx_aidl ctx" "hidl_wf ctx p" "union_2_1 (hx_junk ctx) = H21_pcmConfig z"
    and "is_hidl_software t" "mq_isValid mq" and True: "is_2_0_session_type t"
  shows "starts_with ctx t i mq c (c\<lparr>hpcm21_dataIntervalUs := 0\<rparr>) p"
proof -
  let ?p1 = "snd (Hidl_GetSessionInstance_2_1 ctx t p)"
  note at = assms(2) [unfolded hidl_wf_def, rule_format, of t]
  define c0 where "c0 = H20_pcmConfig \<lparr>hpcm_sampleRate = hpcm21_sampleRate c,
    hpcm_channelMode = hpcm21_channelMode c, hpcm_bitsPerSample = hpcm21_bitsPerSample c\<rparr>"
  define meth :: "(hidl_notification list) hidl_method" where
    "meth = (\<lambda>s m. let (ns, s) = Hidl_OnSessionStarted ctx (Some i) (Some mq) c0 s in (ns, s, m))"
  have acc: "hidl_config_accepted (hs_session_type (hidl_of ctx p t)) c0"
    using at assms(4) True
    by (auto simp: hidl_config_accepted_def c0_def is_hidl_software_def is_2_0_session_type_def)
  let ?p2 = "snd (on_hidl ctx t meth ?p1)"
  have start: "HReport21_OnSessionStarted ctx t (Some i) (Some mq) (H21_pcmConfig c) p
      = Some (on_hidl ctx t meth ?p1)"
    using at True by (simp add: HReport21_OnSessionStarted_def Hidl_OnSessionStarted_2_1_def
        case_prod_beta instance_2_1 hidl21_new_def config_to_2_0_def meth_def c0_def Let_def)
  have s2: "hidl_of ctx ?p2 t = (hidl_of ctx p t)\<lparr>hs_audio_config := c0, hs_mDataMQ := Some mq,
      hs_stack_iface := Some i\<rparr>"
    by (simp add: on_hidl_state instance_2_1 meth_def hidl_started [OF acc assms(5)])
  have wf: "hidl_wf ctx ?p2"
    by (rule hidl_wf_method) (use assms(2) in \<open>simp_all add: hidl_wf_def instance_2_1 meth_def
      case_prod_beta Hidl_methods_type\<close>)
  have ready: "hidl_ready (hidl_of ctx ?p2 t)" by (simp add: s2 hidl_ready_def assms(5))
  have "fst (on_hidl ctx t meth ?p1) = Hidl_ReportSessionStatus (hidl_of ctx p t)"
    by (simp add: on_hidl_result instance_2_1 meth_def hidl_started [OF acc assms(5)])
  moreover have "fst (HControl21_IsSessionReady ctx t ?p2)"
    using assms(1) ready by (simp add: HControl21_IsSessionReady_def on_hidl_2_1_result [OF wf] hidl_local_ready)
  moreover have "fst (HControl21_GetAudioConfig ctx t ?p2) = Some (H21_pcmConfig (c\<lparr>hpcm21_dataIntervalUs := 0\<rparr>))"
    using at True wf [unfolded hidl_wf_def, rule_format, of t] assms(3)
    by (simp add: HControl21_GetAudioConfig_def Hidl_GetAudioConfig_2_1_local [OF assms(1) wf ready]
        hidl21_new_def s2 c0_def config_to_2_1_def)
  ultimately show ?thesis unfolding starts_with_def using start by (intro exI [of _ ?p2]) (simp add: prod_eq_iff)
qed

lemma hidl21_start_2_1:
  assumes "\<not> hx_aidl ctx" "hidl_wf ctx p"
    and "is_hidl_software t" "mq_isValid mq" and False: "\<not> is_2_0_session_type t"
  shows "starts_with ctx t i mq c c p"
proof -
  let ?p1 = "snd (Hidl_GetSessionInstance_2_1 ctx t p)"
  let ?p2 = "snd (Hidl_GetSessionInstance ctx t ?p1)"
  let ?s21 = "hidl21_of ctx p t" and ?s = "hidl_of ctx p t"
  define p3 where "p3 = ?p2\<lparr>hp_sessions := (hp_sessions ?p2)(t \<mapsto> ?s\<lparr>hs_mDataMQ := Some mq, hs_stack_iface := Some i\<rparr>),
    hp_sessions_2_1 := (hp_sessions_2_1 ?p2)(t \<mapsto> ?s21\<lparr>hs21_audio_config_2_1 := H21_pcmConfig c\<rparr>)\<rparr>"
  note at = assms(2) [unfolded hidl_wf_def, rule_format, of t]
  have type: "hs21_session_type_2_1 ?s21 = t" "t \<noteq> HST_UNKNOWN"
    using at assms(3) False
    by (auto simp: hidl21_new_def is_hidl_software_def is_2_0_session_type_def is_unsupported_2_1_session_type_def)
  have acc: "hidl_config_accepted_2_1 t (H21_pcmConfig c)"
    using assms(3) False by (auto simp: hidl_config_accepted_2_1_def is_hidl_software_def is_2_0_session_type_def)
  have inst: "fst (Hidl_GetSessionInstance ctx t ?p1) = ?s" "hidl_of ctx ?p2 = hidl_of ctx p"
    "hidl21_of ctx ?p2 = hidl21_of ctx p"
    by (simp_all add: instance_2_0 instance_2_1)
  have "HReport21_OnSessionStarted ctx t (Some i) (Some mq) (H21_pcmConfig c) p
      = Some (Hidl_ReportSessionStatus ?s, p3)"
    using at type acc assms(4) inst(1)
    by (simp add: HReport21_OnSessionStarted_def Hidl_OnSessionStarted_2_1_def case_prod_beta instance_2_1
        start_2_1_def Hidl_UpdateAudioConfig_2_1_def Hidl_UpdateDataPath_def Let_def p3_def
        Hidl_ReportSessionStatus_def)
  moreover have of3: "hidl_of ctx p3 = (hidl_of ctx p)(t := ?s\<lparr>hs_mDataMQ := Some mq, hs_stack_iface := Some i\<rparr>)"
    "hidl21_of ctx p3 = (hidl21_of ctx p)(t := ?s21\<lparr>hs21_audio_config_2_1 := H21_pcmConfig c\<rparr>)"
    using inst(2,3) by (auto simp: p3_def hidl_of_def hidl21_of_def fun_eq_iff)
  moreover have wf: "hidl_wf ctx p3" using assms(2) by (simp add: hidl_wf_def of3)
  moreover have ready: "hidl_ready (hidl_of ctx p3 t)" by (simp add: of3 hidl_ready_def assms(4))
  moreover have "fst (HControl21_IsSessionReady ctx t p3)"
    using assms(1) ready by (simp add: HControl21_IsSessionReady_def on_hidl_2_1_result [OF wf] hidl_local_ready)
  moreover have "fst (HControl21_GetAudioConfig ctx t p3) = Some (H21_pcmConfig c)"
    using type by (simp add: HControl21_GetAudioConfig_def Hidl_GetAudioConfig_2_1_local [OF assms(1) wf ready] of3)
  ultimately show ?thesis unfolding starts_with_def by blast
qed

text \<open>
  Without the AIDL service, a start of a software session of version 2.1 with a valid
  queue makes the session ready, tells its observers, and the configuration read back is
  the given one; only the types of version 2.0 lose the data interval, which becomes 0.
\<close>

theorem hidl21_start_then_get:
  assumes "\<not> hx_aidl ctx" "hidl_wf ctx p" "union_2_1 (hx_junk ctx) = H21_pcmConfig z"
    and "is_hidl_software t" "mq_isValid mq"
  shows "\<exists>p'. HReport21_OnSessionStarted ctx t (Some i) (Some mq) (H21_pcmConfig c) p
       = Some (Hidl_ReportSessionStatus (hidl_of ctx p t), p')
     \<and> fst (HControl21_IsSessionReady ctx t p')
     \<and> fst (HControl21_GetAudioConfig ctx t p')
       = Some (H21_pcmConfig (if is_2_0_session_type t then c\<lparr>hpcm21_dataIntervalUs := 0\<rparr> else c))"
  using hidl21_start_2_0 [OF assms] hidl21_start_2_1 [OF assms(1,2,4,5)]
  by (cases "is_2_0_session_type t") (auto simp: starts_with_def)

definition example_pcm_2_1 :: HidlPcmParameters_2_1 where
  "example_pcm_2_1 = \<lparr>hpcm21_sampleRate = RATE_48000, hpcm21_channelMode = HCM_STEREO,
     hpcm21_bitsPerSample = BITS_16, hpcm21_dataIntervalUs = 10000\<rparr>"

theorem hidl21_start_then_get_witness:
  "(\<exists>ns p'. HReport21_OnSessionStarted (example_hidl_ctx False) HST_A2DP_SOFTWARE_ENCODING_DATAPATH (Some 7)
       (Some \<lparr>mq_descriptor = 0, mq_isValid = True\<rparr>) (H21_pcmConfig example_pcm_2_1) hidl_start = Some (ns, p')
     \<and> fst (HControl21_GetAudioConfig (example_hidl_ctx False) HST_A2DP_SOFTWARE_ENCODING_DATAPATH p')
       = Some (H21_pcmConfig (example_pcm_2_1\<lparr>hpcm21_dataIntervalUs := 0\<rparr>)))
   \<and> (\<exists>ns p'. HReport21_OnSessionStarted (example_hidl_ctx False) HST_LE_AUDIO_SOFTWARE_ENCODING_DATAPATH (Some 7)
       (Some \<lparr>mq_descriptor = 0, mq_isValid = True\<rparr>) (H21_pcmConfig example_pcm_2_1) hidl_start = Some (ns, p')
     \<and> fst (HControl21_GetAudioConfig (example_hidl_ctx False) HST_LE_AUDIO_SOFTWARE_ENCODING_DATAPATH p')
       = Some (H21_pcmConfig example_pcm_2_1))"
proof -
  have ctx: "\<not> hx_aidl (example_hidl_ctx False)"
    "union_2_1 (hx_junk (example_hidl_ctx False)) = H21_pcmConfig \<lparr>hpcm21_sampleRate = RATE_UNKNOWN,
       hpcm21_channelMode = HCM_UNKNOWN, hpcm21_bitsPerSample = BITS_UNKNOWN, hpcm21_dataIntervalUs = 0\<rparr>"
    by (simp_all add: example_hidl_ctx_def example_junk_def)
  note start = hidl21_start_then_get [OF ctx(1) hidl_wf_start ctx(2), of _ "\<lparr>mq_descriptor = 0, mq_isValid = True\<rparr>" 7 example_pcm_2_1]
  have "is_hidl_software HST_A2DP_SOFTWARE_ENCODING_DATAPATH" "is_hidl_software HST_LE_AUDIO_SOFTWARE_ENCODING_DATAPATH"
    "is_2_0_session_type HST_A2DP_SOFTWARE_ENCODING_DATAPATH" "\<not> is_2_0_session_type HST_LE_AUDIO_SOFTWARE_ENCODING_DATAPATH"
    by code_simp+
  then show ?thesis
    using start [of HST_A2DP_SOFTWARE_ENCODING_DATAPATH] start [of HST_LE_AUDIO_SOFTWARE_ENCODING_DATAPATH] by auto
qed

end
