(* ===== verification/Hidl_Port_Facts.thy ===== *)
theory Hidl_Port_Facts
  imports Hidl_Session_Facts
begin

text \<open>
  The HIDL port satisfies the contract that the streams rely on, so what they promise over
  an AIDL port they promise over a HIDL one. Behind the middleware it loads the same
  configuration as an AIDL port where HIDL can express it, and gets the stack's answers.
\<close>

section \<open>The stack moves the state one way\<close>

definition hport_follows :: "hidl_port \<Rightarrow> hidl_port \<Rightarrow> bool" where
  "hport_follows p p' \<longleftrightarrow>
     moves_to (hport_state p) (hport_state p') \<and> p' = p\<lparr>hport_state := hport_state p'\<rparr>"

lemma hport_follows_refl [simp]: "hport_follows p p"
  by (simp add: hport_follows_def)

lemma hport_follows_trans: "hport_follows p q \<Longrightarrow> hport_follows q r \<Longrightarrow> hport_follows p r"
  unfolding hport_follows_def by (cases p; cases q; cases r) (auto intro: moves_to_trans)

lemma hport_follows_same:
  assumes "hport_follows p p'"
  shows "hport_cookie p' = hport_cookie p" "hport_session_type p' = hport_session_type p"
    "hport_is_stereo_to_mono p' = hport_is_stereo_to_mono p" "HPort_in_use ctx p' = HPort_in_use ctx p"
    "moves_to (hport_state p) (hport_state p')"
  using assms unfolding hport_follows_def HPort_in_use_def by (cases p; cases p'; simp)+

lemma hport_follows_DISABLED:
  "hport_follows (p\<lparr>hport_state := DISABLED\<rparr>) q \<Longrightarrow> q = p\<lparr>hport_state := DISABLED\<rparr>"
  by (cases p; cases q) (simp add: hport_follows_def)

lemma HPort_ControlResultHandler_follows: "hport_follows p (HPort_ControlResultHandler ctx status p)"
  by (cases "hport_state p") (auto simp: HPort_ControlResultHandler_def hport_follows_def)

lemma HPort_deliver_follows: "hport_follows p (HPort_deliver ctx n p)"
  using HPort_ControlResultHandler_follows
  by (cases n) (auto simp: HPort_SessionChangedHandler_def hport_follows_def)

lemma fold_HPort_deliver_follows: "hport_follows p (fold (HPort_deliver ctx) ns p)"
  by (induction ns arbitrary: p) (auto intro: hport_follows_trans HPort_deliver_follows)

lemma hidl_env_step_follows: "hport_follows (hw_port w) (hw_port (hidl_env_step ctx e w))"
  by (simp add: hidl_env_step_def fold_HPort_deliver_follows split: prod.split)

lemma hidl_env_steps_follows: "hport_follows (hw_port w) (hw_port (hidl_env_steps ctx es w))"
  unfolding hidl_env_steps_def
  by (induction es arbitrary: w) (auto intro: hport_follows_trans hidl_env_step_follows)

lemma hidl_wait_for_follows: "hport_follows (hw_port w) (hw_port (snd (hidl_wait_for ctx pred batches w)))"
  by (induction batches arbitrary: w) (auto intro: hport_follows_trans hidl_env_steps_follows)

lemma hidl_wait_for_result:
  "fst (hidl_wait_for ctx pred batches w) \<longleftrightarrow> pred (HPort_GetState (snd (hidl_wait_for ctx pred batches w)))"
  by (induction batches arbitrary: w) auto

lemma HPort_CondwaitState_cases:
  "HPort_CondwaitState ctx STARTING batches w =
     (let w' = snd (hidl_wait_for ctx (\<lambda>s. s \<noteq> STARTING) batches w) in (HPort_GetState w' = STARTED, w'))"
  "HPort_CondwaitState ctx SUSPENDING batches w =
     (let w' = snd (hidl_wait_for ctx (\<lambda>s. s \<noteq> SUSPENDING) batches w) in (HPort_GetState w' = STANDBY, w'))"
  by (auto simp: HPort_CondwaitState_def Let_def case_prod_beta hidl_wait_for_result)

lemma HPort_SetState_port [simp]:
  "hw_port (HPort_SetState s w) = (hw_port w)\<lparr>hport_state := s\<rparr>"
  "hw_process (HPort_SetState s w) = hw_process w" "HPort_GetState (HPort_SetState s w) = s"
  by (simp_all add: HPort_SetState_def HPort_GetState_def)

section \<open>The control calls\<close>

definition hstart_call :: "hport_ctx \<Rightarrow> hidl_env \<Rightarrow> hidl_world \<Rightarrow> (bool \<times> port_call list) \<times> hidl_process" where
  "hstart_call ctx env w =
     HControl21_StartStream (hpc_ctx ctx) (hport_session_type (hw_port w)) (he_hal_ok env) (hw_process w)"

definition hsuspend_call :: "hport_ctx \<Rightarrow> hidl_env \<Rightarrow> hidl_world \<Rightarrow> (bool \<times> port_call list) \<times> hidl_process" where
  "hsuspend_call ctx env w =
     HControl21_SuspendStream (hpc_ctx ctx) (hport_session_type (hw_port w)) (he_hal_ok env) (hw_process w)"

definition hstart_requested :: "hport_ctx \<Rightarrow> hidl_env \<Rightarrow> hidl_world \<Rightarrow> hidl_world" where
  "hstart_requested ctx env w = hidl_env_steps ctx (he_during env)
     ((HPort_SetState STARTING w)\<lparr>hw_process := snd (hstart_call ctx env w)\<rparr>)"

definition hsuspend_requested :: "hport_ctx \<Rightarrow> hidl_env \<Rightarrow> hidl_world \<Rightarrow> hidl_world" where
  "hsuspend_requested ctx env w = hidl_env_steps ctx (he_during env)
     ((HPort_SetState SUSPENDING w)\<lparr>hw_process := snd (hsuspend_call ctx env w)\<rparr>)"

definition hstart_waited :: "hport_ctx \<Rightarrow> hidl_env \<Rightarrow> hidl_world \<Rightarrow> hidl_world" where
  "hstart_waited ctx env w =
     snd (hidl_wait_for ctx (\<lambda>s. s \<noteq> STARTING) (he_wait env) (hstart_requested ctx env w))"

definition hsuspend_waited :: "hport_ctx \<Rightarrow> hidl_env \<Rightarrow> hidl_world \<Rightarrow> hidl_world" where
  "hsuspend_waited ctx env w =
     snd (hidl_wait_for ctx (\<lambda>s. s \<noteq> SUSPENDING) (he_wait env) (hsuspend_requested ctx env w))"

lemma HPort_Start_cases:
  "HPort_Start ctx env w =
     (if \<not> HPort_in_use ctx (hw_port w) \<or> HPort_GetState w \<noteq> STANDBY then (False, [], w)
      else if \<not> fst (fst (hstart_call ctx env w))
      then (False, snd (fst (hstart_call ctx env w)), hstart_requested ctx env w)
      else (HPort_GetState (hstart_waited ctx env w) = STARTED, snd (fst (hstart_call ctx env w)),
            hstart_waited ctx env w))"
  by (auto simp: HPort_Start_def Let_def case_prod_beta hstart_waited_def hstart_requested_def
      hstart_call_def HPort_CondwaitState_cases)

lemma HPort_Suspend_cases:
  "HPort_Suspend ctx env w =
     (if \<not> HPort_in_use ctx (hw_port w) \<or> HPort_GetState w \<noteq> STARTED then (False, [], w)
      else if \<not> fst (fst (hsuspend_call ctx env w))
      then (False, snd (fst (hsuspend_call ctx env w)), hsuspend_requested ctx env w)
      else (HPort_GetState (hsuspend_waited ctx env w) = STANDBY, snd (fst (hsuspend_call ctx env w)),
            hsuspend_waited ctx env w))"
  by (auto simp: HPort_Suspend_def Let_def case_prod_beta hsuspend_waited_def hsuspend_requested_def
      hsuspend_call_def HPort_CondwaitState_cases)

lemma hstart_follows:
  "hport_follows ((hw_port w)\<lparr>hport_state := STARTING\<rparr>) (hw_port (hstart_requested ctx env w))"
  "hport_follows ((hw_port w)\<lparr>hport_state := STARTING\<rparr>) (hw_port (hstart_waited ctx env w))"
proof -
  show r: "hport_follows ((hw_port w)\<lparr>hport_state := STARTING\<rparr>) (hw_port (hstart_requested ctx env w))"
    unfolding hstart_requested_def by (rule hport_follows_trans [OF _ hidl_env_steps_follows]) simp
  show "hport_follows ((hw_port w)\<lparr>hport_state := STARTING\<rparr>) (hw_port (hstart_waited ctx env w))"
    unfolding hstart_waited_def by (rule hport_follows_trans [OF r hidl_wait_for_follows])
qed

lemma hsuspend_follows:
  "hport_follows ((hw_port w)\<lparr>hport_state := SUSPENDING\<rparr>) (hw_port (hsuspend_requested ctx env w))"
  "hport_follows ((hw_port w)\<lparr>hport_state := SUSPENDING\<rparr>) (hw_port (hsuspend_waited ctx env w))"
proof -
  show r: "hport_follows ((hw_port w)\<lparr>hport_state := SUSPENDING\<rparr>) (hw_port (hsuspend_requested ctx env w))"
    unfolding hsuspend_requested_def by (rule hport_follows_trans [OF _ hidl_env_steps_follows]) simp
  show "hport_follows ((hw_port w)\<lparr>hport_state := SUSPENDING\<rparr>) (hw_port (hsuspend_waited ctx env w))"
    unfolding hsuspend_waited_def by (rule hport_follows_trans [OF r hidl_wait_for_follows])
qed

lemma hport_follows_call:
  assumes "hport_follows (p\<lparr>hport_state := s\<rparr>) q"
  shows "HPort_in_use ctx q = HPort_in_use ctx p" "hport_session_type q = hport_session_type p"
    "moves_to s (hport_state q)"
  using hport_follows_same [OF assms] by (simp_all add: HPort_in_use_def)

lemma HPort_Start_same:
  "HPort_in_use ctx (hw_port (snd (snd (HPort_Start ctx e w)))) = HPort_in_use ctx (hw_port w)"
  using hport_follows_call [OF hstart_follows(1)] hport_follows_call [OF hstart_follows(2)]
  by (simp add: HPort_Start_cases)

lemma HPort_Suspend_same:
  "HPort_in_use ctx (hw_port (snd (snd (HPort_Suspend ctx e w)))) = HPort_in_use ctx (hw_port w)"
  "hport_session_type (hw_port (snd (snd (HPort_Suspend ctx e w)))) = hport_session_type (hw_port w)"
  "HPort_GetState w = STARTED \<Longrightarrow> HPort_in_use ctx (hw_port w)
     \<Longrightarrow> moves_to SUSPENDING (HPort_GetState (snd (snd (HPort_Suspend ctx e w))))"
  using hport_follows_call [OF hsuspend_follows(1)] hport_follows_call [OF hsuspend_follows(2)]
  by (simp_all add: HPort_Suspend_cases HPort_GetState_def)

lemma HPort_Stop_follows:
  "HPort_in_use ctx (hw_port w) \<Longrightarrow> hw_port (snd (HPort_Stop ctx e w)) = (hw_port w)\<lparr>hport_state := DISABLED\<rparr>"
proof -
  let ?v = "(HPort_SetState DISABLED w)\<lparr>hw_process :=
    snd (HControl21_StopStream (hpc_ctx ctx) (hport_session_type (hw_port w)) (hw_process w))\<rparr>"
  have "hw_port (hidl_env_steps ctx (he_during e) ?v) = (hw_port w)\<lparr>hport_state := DISABLED\<rparr>"
    by (rule hport_follows_DISABLED) (use hidl_env_steps_follows [of ?v ctx "he_during e"] in simp)
  then show "HPort_in_use ctx (hw_port w) \<Longrightarrow> ?thesis" by (simp add: HPort_Stop_def Let_def case_prod_beta)
qed

section \<open>The HIDL port as an object\<close>

text \<open>
  A configuration query that aborts does not return; the object is used where it does.
\<close>

definition hidl_ops ::
  "hport_ctx \<Rightarrow> (audio_config \<Rightarrow> hidl_world \<Rightarrow> (bool \<times> audio_config) option) \<Rightarrow> (u8 list \<Rightarrow> nat \<Rightarrow> u8 list)
     \<Rightarrow> (hidl_world, hidl_env) port_ops" where
  "hidl_ops ctx load downmix =
     \<lparr>op_SetUp = HPort_SetUp ctx,
      op_TearDown = HPort_TearDown ctx,
      op_ForcePcmStereoToMono = HPort_ForcePcmStereoToMono,
      op_Start = (\<lambda>e w. let (ok, calls, w) = HPort_Start ctx e w in (ok, w)),
      op_Suspend = (\<lambda>e w. let (ok, calls, w) = HPort_Suspend ctx e w in (ok, w)),
      op_Stop = (\<lambda>e w. snd (HPort_Stop ctx e w)),
      op_GetPresentationPosition = HPort_GetPresentationPosition ctx,
      op_GetState = HPort_GetState,
      op_SetState = HPort_SetState,
      op_IsA2dp = HPort_IsA2dp,
      op_IsLeAudio = HPort_IsLeAudio,
      op_GetPreferredDataIntervalUs = (\<lambda>w. the (HPort_GetPreferredDataIntervalUs ctx w)),
      op_LoadAudioConfig = (\<lambda>cfg w. the (load cfg w)),
      op_WriteData = HPort_WriteData ctx downmix,
      op_ReadData = HPort_ReadData ctx\<rparr>"

definition hidl_out_ops ::
  "hport_ctx \<Rightarrow> (u8 list \<Rightarrow> nat \<Rightarrow> u8 list) \<Rightarrow> (hidl_world, hidl_env) port_ops" where
  "hidl_out_ops ctx downmix = hidl_ops ctx (HPort_Out_LoadAudioConfig ctx) downmix"

definition hidl_in_ops ::
  "hport_ctx \<Rightarrow> (u8 list \<Rightarrow> nat \<Rightarrow> u8 list) \<Rightarrow> (hidl_world, hidl_env) port_ops" where
  "hidl_in_ops ctx downmix = hidl_ops ctx (HPort_In_LoadAudioConfig ctx) downmix"

definition hidl_sleep :: "hport_ctx \<Rightarrow> hidl_env \<Rightarrow> hidl_world \<Rightarrow> hidl_world" where
  "hidl_sleep ctx e w = hidl_env_steps ctx (he_during e) w"

text \<open>The bounds of the transfers are those of the AIDL session, with and without the service.\<close>

lemma Hidl_OutWritePcmData_bound:
  "fst (Hidl_OutWritePcmData ctx ap hp (Some b) n s m) = Some t \<Longrightarrow> pcm_total t \<le> n"
  by (cases "hx_aidl ctx")
    (auto simp: hidl_via_aidl mw_call_defs via_on_aidl control_defs on_session_result Hidl_pcm_as_aidl
      dest: OutWritePcmData_bound)

lemma Hidl_InReadPcmData_bound:
  "fst (Hidl_InReadPcmData ctx ap hp (Some b) n s m) = Some (b', t) \<Longrightarrow> pcm_total t \<le> n"
  by (cases "hx_aidl ctx")
    (auto simp: hidl_via_aidl mw_call_defs via_on_aidl control_defs on_session_result Hidl_pcm_as_aidl
      dest: InReadPcmData_bound)

lemma on_hidl_2_1_some: "\<exists>s m. fst (on_hidl_2_1 ctx t method p) = fst (method s m)"
  by (auto simp: on_hidl_2_1_def case_prod_beta on_hidl_result)

lemma HPort_WriteData_bound:
  assumes "HPort_WriteData ctx downmix e buffer n w = Some (k, sent)"
  shows "k \<le> n"
proof -
  have b: "pcm_total t \<le> n'"
    if "fst (HControl21_OutWritePcmData c t' ap hp (Some b) n' p) = Some t" for c t' ap hp b n' p t
    using that on_hidl_2_1_some [of c t' "Hidl_OutWritePcmData c ap hp (Some b) n'" p]
    by (auto simp: HControl21_OutWritePcmData_def dest!: sym [of "Some _"] dest: Hidl_OutWritePcmData_bound)
  have "n div 4 * 2 * 2 \<le> n" by simp
  then show ?thesis
    using assms by (auto simp: HPort_WriteData_def Let_def dest!: b split: if_splits)
qed

lemma HPort_ReadData_bound:
  assumes "HPort_ReadData ctx e buffer n w = Some (k, buffer')"
  shows "k \<le> n"
proof -
  have b: "pcm_total t \<le> n'"
    if "fst (HControl21_InReadPcmData c t' ap hp (Some b) n' p) = Some (b', t)" for c t' ap hp b n' p t b'
    using that on_hidl_2_1_some [of c t' "Hidl_InReadPcmData c ap hp (Some b) n'" p]
    by (auto simp: HControl21_InReadPcmData_def dest!: sym [of "Some _"] dest: Hidl_InReadPcmData_bound)
  show ?thesis using assms by (auto simp: HPort_ReadData_def dest!: b split: if_splits)
qed

lemma hidl_ops_port:
  "bluetooth_port (hidl_ops ctx load downmix) (\<lambda>w. HPort_in_use ctx (hw_port w)) (hidl_sleep ctx)"
proof
  fix w e n k s and buffer :: "u8 list"
  note ops = hidl_ops_def Let_def case_prod_beta
  let ?o = "hidl_ops ctx load downmix"
  show "op_GetState ?o (op_SetState ?o s w) = s"
    "HPort_in_use ctx (hw_port (op_SetState ?o s w)) = HPort_in_use ctx (hw_port w)"
    "op_IsA2dp ?o (op_SetState ?o s w) = op_IsA2dp ?o w"
    by (simp_all add: ops HPort_in_use_def HPort_IsA2dp_def)
  show "op_GetState ?o w = STANDBY \<and> op_GetState ?o (snd (op_Start ?o e w)) = STARTED"
    if "fst (op_Start ?o e w)"
    using that by (simp add: ops HPort_Start_cases split: if_splits)
  show "op_Start ?o e w = (False, w)"
    if "op_GetState ?o w \<noteq> STANDBY \<or> \<not> HPort_in_use ctx (hw_port w)"
    using that by (auto simp: ops HPort_Start_cases)
  show "HPort_in_use ctx (hw_port (snd (op_Start ?o e w))) = HPort_in_use ctx (hw_port w)"
    by (simp add: ops HPort_Start_same)
  show "op_GetState ?o w = STARTED \<and> op_GetState ?o (snd (op_Suspend ?o e w)) = STANDBY"
    if "fst (op_Suspend ?o e w)"
    using that by (simp add: ops HPort_Suspend_cases split: if_splits)
  show "op_Suspend ?o e w = (False, w)"
    if "op_GetState ?o w \<noteq> STARTED \<or> \<not> HPort_in_use ctx (hw_port w)"
    using that by (auto simp: ops HPort_Suspend_cases)
  show "HPort_in_use ctx (hw_port (snd (op_Suspend ?o e w))) = HPort_in_use ctx (hw_port w)"
    "op_IsA2dp ?o (snd (op_Suspend ?o e w)) = op_IsA2dp ?o w"
    by (simp_all add: ops HPort_Suspend_same HPort_IsA2dp_def)
  show "moves_to SUSPENDING (op_GetState ?o (snd (op_Suspend ?o e w)))"
    if "op_GetState ?o w = STARTED" "HPort_in_use ctx (hw_port w)"
    using that HPort_Suspend_same(3) by (simp add: ops)
  show "op_GetState ?o (op_Stop ?o e w) = DISABLED" if "HPort_in_use ctx (hw_port w)"
    using that by (simp add: ops HPort_Stop_follows HPort_GetState_def)
  show "op_Stop ?o e w = w" if "\<not> HPort_in_use ctx (hw_port w)"
    using that by (simp add: ops HPort_Stop_def)
  show "HPort_in_use ctx (hw_port (op_Stop ?o e w)) = HPort_in_use ctx (hw_port w)"
    by (cases "HPort_in_use ctx (hw_port w)")
      (simp_all add: ops HPort_Stop_follows, simp_all add: HPort_Stop_def HPort_in_use_def)
  show "\<not> HPort_in_use ctx (hw_port (op_TearDown ?o w))"
    by (simp add: ops HPort_TearDown_def HPort_in_use_def)
  show "moves_to (op_GetState ?o w) (op_GetState ?o (hidl_sleep ctx e w))"
    "HPort_in_use ctx (hw_port (hidl_sleep ctx e w)) = HPort_in_use ctx (hw_port w)"
    using hport_follows_same [OF hidl_env_steps_follows [of w ctx "he_during e"]]
    by (simp_all add: ops hidl_sleep_def HPort_GetState_def)
  show "k \<le> n" if "op_WriteData ?o e buffer n w = Some (k, sent)" for sent
    using that by (simp add: ops HPort_WriteData_bound)
  show "k \<le> n" if "op_ReadData ?o e buffer n w = Some (k, b)" for b
    using that by (simp add: ops HPort_ReadData_bound)
qed

interpretation hidl_port: bluetooth_port "hidl_ops ctx load downmix"
  "\<lambda>w. HPort_in_use ctx (hw_port w)" "hidl_sleep ctx" for ctx load downmix
  by (rule hidl_ops_port)

section \<open>Configurations behind the middleware\<close>

lemma Hidl_GetAudioConfig_2_1_aidl:
  assumes "hx_aidl ctx" "hidl_wf ctx p"
  shows "fst (HControl21_GetAudioConfig ctx t p) = to_hidl_audio_config_2_1 (hx_junk ctx)
    (the (GetAudioConfig (session_of (mw_sessions (hp_middleware p)) (from_session_type_2_1 t))))"
  using assms
  by (simp add: HControl21_GetAudioConfig_def Hidl_GetAudioConfig_2_1_def case_prod_beta instance_2_1
      Mw_GetAudioConfig_2_1_def hidl_wf_def control_defs on_session_result)

lemma unicast_translation_aborts: "to_hidl_leaudio_config_2_1 junk c = None"
  by (cases "le_codecConfig c") (simp_all add: to_hidl_leaudio_config_2_1_def)

lemma accepted_configs:
  assumes "config_accepted t c"
  shows "is_software_session t \<Longrightarrow> \<exists>x. c = pcmConfig x"
    "t = A2DP_HARDWARE_OFFLOAD_ENCODING_DATAPATH \<Longrightarrow> (\<exists>x. c = a2dpConfig x) \<or> (\<exists>x. c = a2dp x)"
    "t = LE_AUDIO_HARDWARE_OFFLOAD_ENCODING_DATAPATH \<or> t = LE_AUDIO_HARDWARE_OFFLOAD_DECODING_DATAPATH \<Longrightarrow>
       \<exists>x. c = leAudioConfig x"
    "t \<noteq> ST_UNKNOWN"
  using assms by (cases c; auto simp: config_accepted_def is_software_session_def Let_def)+

lemma GetAudioConfig_value:
  assumes "session_inv sc s" "s_session_type s = t"
  shows "(\<exists>c. GetAudioConfig s = Some c \<and> config_accepted t c) \<or> GetAudioConfig s = Some (default_audio_config t)"
  using assms by (auto simp: GetAudioConfig_def session_inv_def IsSessionReady_iff)

text \<open>
  With the AIDL service, a query of the configuration of version 2.1 aborts the process
  exactly for the two LE audio offload types, whatever state the session is in.
\<close>

theorem hidl_GetAudioConfig_aborts:
  assumes "hx_aidl ctx" "hidl_wf ctx p" "sessions_inv (mc_sc (hx_mw ctx)) (mw_sessions (hp_middleware p))"
  shows "fst (HControl21_GetAudioConfig ctx t p) = None
     \<longleftrightarrow> t = HST_LE_AUDIO_HARDWARE_OFFLOAD_ENCODING_DATAPATH \<or> t = HST_LE_AUDIO_HARDWARE_OFFLOAD_DECODING_DATAPATH"
proof -
  let ?u = "from_session_type_2_1 t"
  let ?s = "session_of (mw_sessions (hp_middleware p)) ?u"
  have "session_inv (mc_sc (hx_mw ctx)) ?s" "s_session_type ?s = ?u"
    using assms(3) by (simp_all add: sessions_inv_def)
  note val = GetAudioConfig_value [OF this]
  have u: "?u = (case t of
        HST_UNKNOWN \<Rightarrow> ST_UNKNOWN
      | HST_A2DP_SOFTWARE_ENCODING_DATAPATH \<Rightarrow> A2DP_SOFTWARE_ENCODING_DATAPATH
      | HST_A2DP_HARDWARE_OFFLOAD_DATAPATH \<Rightarrow> A2DP_HARDWARE_OFFLOAD_ENCODING_DATAPATH
      | HST_HEARING_AID_SOFTWARE_ENCODING_DATAPATH \<Rightarrow> HEARING_AID_SOFTWARE_ENCODING_DATAPATH
      | HST_LE_AUDIO_SOFTWARE_ENCODING_DATAPATH \<Rightarrow> LE_AUDIO_SOFTWARE_ENCODING_DATAPATH
      | HST_LE_AUDIO_SOFTWARE_DECODED_DATAPATH \<Rightarrow> LE_AUDIO_SOFTWARE_DECODING_DATAPATH
      | HST_LE_AUDIO_HARDWARE_OFFLOAD_ENCODING_DATAPATH \<Rightarrow> LE_AUDIO_HARDWARE_OFFLOAD_ENCODING_DATAPATH
      | HST_LE_AUDIO_HARDWARE_OFFLOAD_DECODING_DATAPATH \<Rightarrow> LE_AUDIO_HARDWARE_OFFLOAD_DECODING_DATAPATH)"
    by (cases t) (simp_all add: from_session_type_2_1_def session_type_2_1_to_aidl_map_def)
  from val obtain c where c: "GetAudioConfig ?s = Some c"
    and kind: "config_accepted ?u c \<or> c = default_audio_config ?u" by blast
  have "to_hidl_audio_config_2_1 (hx_junk ctx) c = None
     \<longleftrightarrow> t = HST_LE_AUDIO_HARDWARE_OFFLOAD_ENCODING_DATAPATH \<or> t = HST_LE_AUDIO_HARDWARE_OFFLOAD_DECODING_DATAPATH"
    using kind accepted_configs [of ?u c] unfolding u
    by (cases t) (auto simp: to_hidl_audio_config_2_1_def unicast_translation_aborts is_software_session_def)
  then show ?thesis by (simp add: Hidl_GetAudioConfig_2_1_aidl [OF assms(1,2)] c)
qed

theorem hidl_GetAudioConfig_aborts_witness:
  "fst (HControl21_GetAudioConfig (example_hidl_ctx True) HST_LE_AUDIO_HARDWARE_OFFLOAD_ENCODING_DATAPATH hidl_start) = None
   \<and> fst (HControl21_GetAudioConfig (example_hidl_ctx True) HST_A2DP_SOFTWARE_ENCODING_DATAPATH hidl_start) \<noteq> None"
proof -
  have "hx_aidl (example_hidl_ctx True)" by (simp add: example_hidl_ctx_def)
  moreover have "sessions_inv (mc_sc (hx_mw (example_hidl_ctx True))) (mw_sessions (hp_middleware hidl_start))"
    by (simp add: sessions_inv_def hidl_start_def session_of_def session_inv_def BluetoothAudioSession_def)
  ultimately show ?thesis
    using hidl_GetAudioConfig_aborts [of "example_hidl_ctx True" hidl_start, OF _ hidl_wf_start] by simp
qed

text \<open>
  A HIDL and an AIDL port on the same session, and a configuration that HIDL can express.
\<close>

definition same_session :: "port_ctx \<Rightarrow> world \<Rightarrow> hport_ctx \<Rightarrow> hidl_world \<Rightarrow> bool" where
  "same_session actx w ctx hw \<longleftrightarrow>
     hx_aidl (hpc_ctx ctx) \<and> hidl_wf (hpc_ctx ctx) (hw_process hw)
   \<and> in_use actx (w_port w) \<and> HPort_in_use ctx (hw_port hw)
   \<and> w_sessions w = mw_sessions (hp_middleware (hw_process hw))
   \<and> port_session_type (w_port w) = from_session_type_2_1 (hport_session_type (hw_port hw))
   \<and> port_is_stereo_to_mono (w_port w) = hport_is_stereo_to_mono (hw_port hw)"

definition hidl_expressible :: "PcmConfiguration \<Rightarrow> bool" where
  "hidl_expressible c \<longleftrightarrow>
     sampleRateHz c \<in> {8000, 16000, 24000, 32000, 44100, 48000, 88200, 96000, 176400, 192000}
   \<and> pcm_channelMode c \<in> {CM_MONO, CM_STEREO} \<and> bitsPerSample c \<in> {16, 24, 32}"

lemma rate_translation:
  "to_hidl_sample_rate_2_1 r = RATE_UNKNOWN \<longleftrightarrow>
     r \<notin> {8000, 16000, 24000, 32000, 44100, 48000, 88200, 96000, 176400, 192000}"
  "to_hidl_sample_rate_2_1 r \<noteq> RATE_UNKNOWN \<Longrightarrow>
     SampleRateToAudioFormat (to_hidl_sample_rate_2_1 r) = word_of_int r"
  by (auto simp: to_hidl_sample_rate_2_1_def sample_rate_to_hidl_2_1_map_def split: if_splits)

lemma channel_translation:
  "to_hidl_channel_mode m = HCM_UNKNOWN \<longleftrightarrow> m \<notin> {CM_MONO, CM_STEREO}"
  "to_hidl_channel_mode m \<noteq> HCM_UNKNOWN \<Longrightarrow>
     Hidl_OutputChannelModeToAudioFormat (to_hidl_channel_mode m) = OutputChannelModeToAudioFormat m
   \<and> Hidl_InputChannelModeToAudioFormat (to_hidl_channel_mode m) = InputChannelModeToAudioFormat m"
  by (cases m; simp)+

lemma bits_translation:
  "to_hidl_bits_per_sample b = BITS_UNKNOWN \<longleftrightarrow> b \<notin> {16, 24, 32}"
  "to_hidl_bits_per_sample b \<noteq> BITS_UNKNOWN \<Longrightarrow>
     Hidl_BitsPerSampleToAudioFormat (to_hidl_bits_per_sample b)
       = (if b = 24 then AUDIO_FORMAT_PCM_24_BIT_PACKED else BitsPerSampleToAudioFormat b t)"
  by (auto simp: to_hidl_bits_per_sample_def BitsPerSampleToAudioFormat_def)

lemma same_session_config:
  assumes "same_session actx w ctx hw" "hal_audio_config w = pcmConfig c"
  shows "hidl_hal_audio_config ctx hw = Some (H21_pcmConfig (to_hidl_pcm_config_2_1 c))"
  using assms Hidl_GetAudioConfig_2_1_aidl
  by (simp add: same_session_def hidl_hal_audio_config_def hal_audio_config_def control_defs
      on_session_result to_hidl_audio_config_2_1_def)

text \<open>
  An output stream gets the same configuration through a HIDL port as through an AIDL
  port on the same session, when HIDL can express it, except that 24 bits are always packed;
  otherwise the HIDL port refuses and leaves the caller's configuration as it was.
\<close>

theorem hidl_out_config_is_aidl_config:
  assumes "same_session actx w ctx hw" "hal_audio_config w = pcmConfig c"
  shows "HPort_Out_LoadAudioConfig ctx cfg hw =
    (if hidl_expressible c then
       Some (True, (snd (Out_LoadAudioConfig actx cfg w))\<lparr>ac_format :=
         (if bitsPerSample c = 24 then AUDIO_FORMAT_PCM_24_BIT_PACKED
          else ac_format (snd (Out_LoadAudioConfig actx cfg w)))\<rparr>)
     else Some (False, cfg))"
proof -
  note cfg = same_session_config [OF assms]
  let ?h = "to_hidl_pcm_config_2_1 c"
  have in_use: "HPort_in_use ctx (hw_port hw)" "in_use actx (w_port w)"
    "port_is_stereo_to_mono (w_port w) = hport_is_stereo_to_mono (hw_port hw)"
    using assms(1) by (simp_all add: same_session_def)
  have refused: "hpcm21_sampleRate ?h = RATE_UNKNOWN \<or> hpcm21_channelMode ?h = HCM_UNKNOWN
      \<or> hpcm21_bitsPerSample ?h = BITS_UNKNOWN \<longleftrightarrow> \<not> hidl_expressible c"
    unfolding hidl_expressible_def
    by (simp add: to_hidl_pcm_config_2_1_def rate_translation(1) channel_translation(1) bits_translation(1)
        del: insert_iff)
  show ?thesis
  proof (cases "hidl_expressible c")
    case False
    then show ?thesis using refused in_use(1) by (simp add: HPort_Out_LoadAudioConfig_def cfg)
  next
    case True
    then have ok: "to_hidl_sample_rate_2_1 (sampleRateHz c) \<noteq> RATE_UNKNOWN"
      "to_hidl_channel_mode (pcm_channelMode c) \<noteq> HCM_UNKNOWN"
      "to_hidl_bits_per_sample (bitsPerSample c) \<noteq> BITS_UNKNOWN"
      using refused by (simp_all add: to_hidl_pcm_config_2_1_def)
    have "pcm_channelMode c \<noteq> CM_UNKNOWN" using True by (auto simp: hidl_expressible_def)
    then show ?thesis
      using True in_use assms(2) ok
      by (simp add: HPort_Out_LoadAudioConfig_def Out_LoadAudioConfig_def cfg to_hidl_pcm_config_2_1_def
          rate_translation(2) channel_translation(2)
          bits_translation(2) [where t = "port_session_type (w_port w)"])
  qed
qed

definition example_stereo_pcm :: PcmConfiguration where
  "example_stereo_pcm =
     \<lparr>sampleRateHz = 48000, pcm_channelMode = CM_STEREO, bitsPerSample = 24, dataIntervalUs = 10000\<rparr>"

definition example_le_session :: session where
  "example_le_session = snd (OnSessionStarted (Some 7) (Some \<lparr>mq_descriptor = 0, mq_isValid = True\<rparr>)
     (pcmConfig example_stereo_pcm) [] (BluetoothAudioSession LE_AUDIO_SOFTWARE_ENCODING_DATAPATH))"

definition example_le_process :: hidl_process where
  "example_le_process = hidl_start\<lparr>hp_middleware := \<lparr>mw_sessions =
     (\<lambda>t. None)(LE_AUDIO_SOFTWARE_ENCODING_DATAPATH \<mapsto> example_le_session), legacy_callback_table = (\<lambda>t k. None)\<rparr>\<rparr>"

definition example_hport_ctx :: hport_ctx where
  "example_hport_ctx = \<lparr>hpc_ctx = example_hidl_ctx True, hpc_this = 3\<rparr>"

definition example_hidl_world :: hidl_world where
  "example_hidl_world = snd (HPort_SetUp example_hport_ctx AUDIO_DEVICE_OUT_BLE_HEADSET
     \<lparr>hw_process = example_le_process, hw_port = BluetoothAudioPortHidl example_hport_ctx\<rparr>)"

definition example_aidl_world :: world where
  "example_aidl_world = \<lparr>w_sessions = mw_sessions (hp_middleware (hw_process example_hidl_world)),
     w_port = \<lparr>port_cookie = 0x0401, port_state = STANDBY,
       port_session_type = LE_AUDIO_SOFTWARE_ENCODING_DATAPATH, port_is_stereo_to_mono = False\<rparr>\<rparr>"

lemma hidl_wf_SetUp:
  assumes "hidl_wf (hpc_ctx ctx) (hw_process w)"
  shows "hidl_wf (hpc_ctx ctx) (hw_process (snd (HPort_SetUp ctx device w)))"
  using assms
  by (auto simp: HPort_SetUp_def HPort_init_session_type_def Let_def case_prod_beta
      HControl21_IsSessionReady_def HControl21_RegisterControlResultCback_def
      split: option.split intro!: hidl_wf_method(2) Hidl_methods_type)

lemma example_same_session:
  "same_session \<lparr>pc_sc = example_code, pc_this = 9\<rparr> example_aidl_world example_hport_ctx example_hidl_world"
proof -
  have "hidl_wf (hpc_ctx example_hport_ctx) example_le_process"
    using hidl_wf_start [of "hpc_ctx example_hport_ctx"]
    by (simp add: hidl_wf_def example_le_process_def hidl_of_def hidl21_of_def)
  then have "hidl_wf (hpc_ctx example_hport_ctx) (hw_process example_hidl_world)"
    unfolding example_hidl_world_def by (intro hidl_wf_SetUp) simp
  moreover have "HPort_in_use example_hport_ctx (hw_port example_hidl_world)"
    "hport_session_type (hw_port example_hidl_world) = HST_LE_AUDIO_SOFTWARE_ENCODING_DATAPATH"
    "hport_is_stereo_to_mono (hw_port example_hidl_world) = False"
    "in_use \<lparr>pc_sc = example_code, pc_this = 9\<rparr> (w_port example_aidl_world)"
    "from_session_type_2_1 HST_LE_AUDIO_SOFTWARE_ENCODING_DATAPATH = LE_AUDIO_SOFTWARE_ENCODING_DATAPATH"
    by code_simp+
  ultimately show ?thesis
    by (simp add: same_session_def example_hport_ctx_def example_hidl_ctx_def example_aidl_world_def)
qed

theorem hidl_out_config_is_aidl_config_witness:
  "HPort_Out_LoadAudioConfig example_hport_ctx default_output_config example_hidl_world
     = Some (True, \<lparr>ac_sample_rate = 48000, ac_channel_mask = AUDIO_CHANNEL_OUT_STEREO,
         ac_format = AUDIO_FORMAT_PCM_24_BIT_PACKED\<rparr>)"
proof -
  have "hal_audio_config example_aidl_world = pcmConfig example_stereo_pcm" by code_simp
  moreover have "hidl_expressible example_stereo_pcm" "bitsPerSample example_stereo_pcm = 24"
    by (simp_all add: hidl_expressible_def example_stereo_pcm_def)
  moreover have "snd (Out_LoadAudioConfig \<lparr>pc_sc = example_code, pc_this = 9\<rparr> default_output_config example_aidl_world)
    = \<lparr>ac_sample_rate = 48000, ac_channel_mask = AUDIO_CHANNEL_OUT_STEREO, ac_format = AUDIO_FORMAT_PCM_8_24_BIT\<rparr>"
    by code_simp
  ultimately show ?thesis
    using hidl_out_config_is_aidl_config [OF example_same_session, of example_stereo_pcm default_output_config]
    by simp
qed

section \<open>The answer of the stack reaches the port\<close>

lemma HPort_deliver_other: "notified_cookie n \<noteq> Some (hport_cookie p) \<Longrightarrow> HPort_deliver ctx n p = p"
  by (cases n) auto

lemma fold_deliver_others:
  "(\<And>n. n \<in> set ns \<Longrightarrow> notified_cookie n \<noteq> Some (hport_cookie p)) \<Longrightarrow> fold (HPort_deliver ctx) ns p = p"
  by (induction ns) (simp_all add: HPort_deliver_other)

lemma fold_deliver_one:
  assumes "distinct ns" "n \<in> set ns"
    and "\<And>n'. n' \<in> set ns \<Longrightarrow> n' \<noteq> n \<Longrightarrow> notified_cookie n' \<noteq> Some (hport_cookie p)"
  shows "fold (HPort_deliver ctx) ns p = HPort_deliver ctx n p"
proof -
  obtain xs ys where ns: "ns = xs @ n # ys" using assms(2) by (auto dest: split_list)
  have "hport_cookie (HPort_deliver ctx n p) = hport_cookie p"
    by (rule hport_follows_same [OF HPort_deliver_follows])
  moreover have "fold (HPort_deliver ctx) xs p = p"
    by (rule fold_deliver_others) (use assms in \<open>auto simp: ns\<close>)
  moreover have "fold (HPort_deliver ctx) ys q = q" if "hport_cookie q = hport_cookie p" for q
    using assms that by (intro fold_deliver_others) (auto simp: ns)
  ultimately show ?thesis by (simp add: ns)
qed

text \<open>
  A HIDL port behind the middleware that is registered with its session, all of whose
  observers can be called.
\<close>

definition hport_registered :: "hport_ctx \<Rightarrow> hidl_world \<Rightarrow> bool" where
  "hport_registered ctx w \<longleftrightarrow>
     (let hx = hpc_ctx ctx; u = from_session_type_2_0 (hport_session_type (hw_port w));
          m = hp_middleware (hw_process w)
      in hx_aidl hx \<and> hidl_wf hx (hw_process w) \<and> HPort_in_use ctx (hw_port w)
       \<and> mw_inv (hx_mw hx) m \<and> mc_sc (hx_mw hx) u \<noteq> mc_sc (hx_mw hx) ST_UNKNOWN
       \<and> closures_complete (mw_session m u)
       \<and> mw_lookup (hx_mw hx) u m (hport_cookie (hw_port w)) = Some (HPort_callbacks ctx))"

lemma mw_inv_same:
  assumes "mw_inv ctx m" "session_of (mw_sessions m') = session_of (mw_sessions m)"
    "legacy_callback_table m' = legacy_callback_table m"
  shows "mw_inv ctx m'"
  using assms by (simp add: mw_inv_def mw_table_inv_def sessions_inv_def)

lemma hidl_answer:
  fixes w defines "u \<equiv> from_session_type_2_0 (hport_session_type (hw_port w))"
  assumes "hport_registered ctx w"
  shows "hw_port (hidl_env_step ctx (HEv_aidl (Ev_ControlStatus u b st)) w)
    = HPort_ControlResultHandler ctx (to_hidl_status st) (hw_port w)"
proof -
  let ?hx = "hpc_ctx ctx" and ?m = "hp_middleware (hw_process w)" and ?k = "hport_cookie (hw_port w)"
  let ?n = "HidlControlResult (hpc_this ctx) ?k b (to_hidl_status st)"
  let ?ns = "mw_deliver_all (hx_mw ?hx) u ?m (ReportControlStatus b st (mw_session ?m u))"
  have reg: "mw_inv (hx_mw ?hx) ?m" "mc_sc (hx_mw ?hx) u \<noteq> mc_sc (hx_mw ?hx) ST_UNKNOWN"
    "closures_complete (mw_session ?m u)" "mw_lookup (hx_mw ?hx) u ?m ?k = Some (HPort_callbacks ctx)"
    "HPort_in_use ctx (hw_port w)"
    using assms(2) by (simp_all add: hport_registered_def Let_def u_def)
  note reports = mw_reports(1) [OF reg(1-3), of b st]
  have "?n \<in> set ?ns" using reports reg(4) by (force simp: HPort_callbacks_def)
  moreover have "notified_cookie n' \<noteq> Some ?k" if "n' \<in> set ?ns" "n' \<noteq> ?n" for n'
    using reports reg(4) that by (auto simp: HPort_callbacks_def)
  ultimately have "fold (HPort_deliver ctx) ?ns (hw_port w) = HPort_deliver ctx ?n (hw_port w)"
    using reports by (intro fold_deliver_one) blast+
  then show ?thesis
    using reg(5)
    by (simp add: hidl_env_step_def mw_event_def case_prod_beta report_defs on_session_result)
qed

lemma hidl_call_agrees:
  fixes w defines "u \<equiv> from_session_type_2_0 (hport_session_type (hw_port w))"
    and "m \<equiv> hp_middleware (hw_process w)"
  assumes "hport_registered ctx w"
  shows "control_agrees (hpc_ctx ctx) (hw_process w) (hstart_call ctx env w)
      (Control_StartStream u False (he_hal_ok env) (mw_sessions m))"
    "control_agrees (hpc_ctx ctx) (hw_process w) (hsuspend_call ctx env w)
      (Control_SuspendStream u (he_hal_ok env) (mw_sessions m))"
proof -
  have aidl: "hx_aidl (hpc_ctx ctx)" and wf: "hidl_wf (hpc_ctx ctx) (hw_process w)"
    using assms(3) by (simp_all add: hport_registered_def Let_def)
  show "control_agrees (hpc_ctx ctx) (hw_process w) (hstart_call ctx env w)
      (Control_StartStream u False (he_hal_ok env) (mw_sessions m))"
    unfolding hstart_call_def HControl21_StartStream_def u_def m_def
    by (rule on_hidl_2_1_agrees [OF wf, where call = "\<lambda>t. Control_StartStream t False (he_hal_ok env)"])
      (simp add: hidl_via_aidl [OF aidl] mw_call_defs)
  show "control_agrees (hpc_ctx ctx) (hw_process w) (hsuspend_call ctx env w)
      (Control_SuspendStream u (he_hal_ok env) (mw_sessions m))"
    unfolding hsuspend_call_def HControl21_SuspendStream_def u_def m_def
    by (rule on_hidl_2_1_agrees [OF wf, where call = "\<lambda>t. Control_SuspendStream t (he_hal_ok env)"])
      (simp add: hidl_via_aidl [OF aidl] mw_call_defs)
qed

text \<open>A call that agrees with one that leaves the AIDL sessions as they are keeps the port registered.\<close>

lemma hport_registered_after:
  assumes "hport_registered ctx w" "control_agrees (hpc_ctx ctx) (hw_process w) r a"
    and "session_of (snd a) = session_of (mw_sessions (hp_middleware (hw_process w)))"
    and "hidl21_of (hpc_ctx ctx) (snd r) = hidl21_of (hpc_ctx ctx) (hw_process w)"
  shows "hport_registered ctx ((HPort_SetState s w)\<lparr>hw_process := snd r\<rparr>)"
proof -
  let ?m = "hp_middleware (hw_process w)" and ?m' = "hp_middleware (snd r)"
  have same: "session_of (mw_sessions ?m') = session_of (mw_sessions ?m)"
    "legacy_callback_table ?m' = legacy_callback_table ?m"
    "hidl_of (hpc_ctx ctx) (snd r) = hidl_of (hpc_ctx ctx) (hw_process w)"
    using assms(2,3) by (simp_all add: control_agrees_def)
  have "hidl_wf (hpc_ctx ctx) (snd r) = hidl_wf (hpc_ctx ctx) (hw_process w)"
    unfolding hidl_wf_def same(3) assms(4) ..
  moreover have "mw_lookup c u ?m' = mw_lookup c u ?m" for c u by (simp add: mw_lookup_def same(2))
  moreover have "mw_inv c ?m \<Longrightarrow> mw_inv c ?m'" for c by (rule mw_inv_same) (simp_all add: same)
  ultimately show ?thesis
    using assms(1) by (auto simp: hport_registered_def Let_def HPort_in_use_def same(1))
qed

lemma hidl_wait_answer:
  assumes "hport_registered ctx w" "\<not> pred (HPort_GetState w)"
    and "pred (hport_state (HPort_ControlResultHandler ctx (to_hidl_status st) (hw_port w)))"
  shows "HPort_GetState (snd (hidl_wait_for ctx pred
      ([HEv_aidl (Ev_ControlStatus (from_session_type_2_0 (hport_session_type (hw_port w))) b st)] # rest) w))
    = hport_state (HPort_ControlResultHandler ctx (to_hidl_status st) (hw_port w))"
proof -
  let ?w = "hidl_env_step ctx (HEv_aidl (Ev_ControlStatus (from_session_type_2_0 (hport_session_type (hw_port w))) b st)) w"
  have s: "HPort_GetState ?w = hport_state (HPort_ControlResultHandler ctx (to_hidl_status st) (hw_port w))"
    unfolding HPort_GetState_def by (subst hidl_answer [OF assms(1)]) (rule refl)
  with assms(3) have "hidl_wait_for ctx pred rest ?w = (True, ?w)" by (cases rest) simp_all
  with assms(2) s show ?thesis by (simp add: hidl_env_steps_def)
qed

text \<open>
  A HIDL port in standby that is registered behind the middleware starts when its AIDL
  session is ready, the request gets through and the stack answers with success in time; any
  other answer leaves it in standby. A started port suspends in the same way, and a failing
  answer disables it.
\<close>

theorem hidl_Start_Suspend_complete:
  fixes w env ctx
  defines "u \<equiv> from_session_type_2_0 (hport_session_type (hw_port w))"
  assumes "hport_registered ctx w" "IsSessionReady (mw_session (hp_middleware (hw_process w)) u)"
    and "he_hal_ok env" "he_during env = []"
    and "he_wait env = [HEv_aidl (Ev_ControlStatus u b st)] # rest"
  shows "(if HPort_GetState w = STANDBY then
        \<exists>w'. HPort_Start ctx env w = (st = SUCCESS, [Call_startStream False], w')
           \<and> HPort_GetState w' = (if st = SUCCESS then STARTED else STANDBY) else True)
   \<and> (if HPort_GetState w = STARTED then
        \<exists>w'. HPort_Suspend ctx env w = (st = SUCCESS, [Call_suspendStream], w')
           \<and> HPort_GetState w' = (if st = SUCCESS then STANDBY else DISABLED) else True)"
proof -
  let ?ss = "mw_sessions (hp_middleware (hw_process w))"
  have in_use: "HPort_in_use ctx (hw_port w)" using assms(2) by (simp add: hport_registered_def Let_def)
  have wf: "hidl_wf (hpc_ctx ctx) (hw_process w)" using assms(2) by (simp add: hport_registered_def Let_def)
  have status: "to_hidl_status st = HIDL_SUCCESS \<longleftrightarrow> st = SUCCESS" by (cases st) simp_all
  note start = hidl_call_agrees(1) [OF assms(2), of env, folded u_def]
    and suspend = hidl_call_agrees(2) [OF assms(2), of env, folded u_def]
  have calls: "fst (hstart_call ctx env w) = (True, [Call_startStream False])"
    "fst (hsuspend_call ctx env w) = (True, [Call_suspendStream])"
    using start suspend assms(3,4) by (simp_all add: control_agrees_def StartStream_def SuspendStream_def)
  have after: "hport_registered ctx (hstart_requested ctx env w)" "hport_registered ctx (hsuspend_requested ctx env w)"
    unfolding hstart_requested_def hsuspend_requested_def assms(5) hidl_env_steps_def fold_Nil id_apply
    by (rule hport_registered_after [OF assms(2) start Control_same_sessions(1)],
        simp add: hstart_call_def HControl21_StartStream_def on_hidl_2_1_state(3) [OF wf],
        rule hport_registered_after [OF assms(2) suspend Control_same_sessions(2)],
        simp add: hsuspend_call_def HControl21_SuspendStream_def on_hidl_2_1_state(3) [OF wf])
  have port: "hw_port (hstart_requested ctx env w) = (hw_port w)\<lparr>hport_state := STARTING\<rparr>"
    "hw_port (hsuspend_requested ctx env w) = (hw_port w)\<lparr>hport_state := SUSPENDING\<rparr>"
    by (simp_all add: hstart_requested_def hsuspend_requested_def assms(5) hidl_env_steps_def)
  have "HPort_GetState (hstart_waited ctx env w) = (if st = SUCCESS then STARTED else STANDBY)"
    using hidl_wait_answer [OF after(1), of "\<lambda>s. s \<noteq> STARTING" st b rest] in_use
    by (simp add: hstart_waited_def assms(6) port u_def HPort_GetState_def HPort_ControlResultHandler_def
        HPort_in_use_def status split: if_splits)
  moreover have "HPort_GetState (hsuspend_waited ctx env w) = (if st = SUCCESS then STANDBY else DISABLED)"
    using hidl_wait_answer [OF after(2), of "\<lambda>s. s \<noteq> SUSPENDING" st b rest] in_use
    by (simp add: hsuspend_waited_def assms(6) port u_def HPort_GetState_def HPort_ControlResultHandler_def
        HPort_in_use_def status split: if_splits)
  ultimately show ?thesis
    using in_use by (auto simp: HPort_Start_cases HPort_Suspend_cases calls)
qed

section \<open>Set-up behind the middleware\<close>

lemma undefined_cookies_agree:
  "hx_code ctx HST_UNKNOWN = sc ST_UNKNOWN \<Longrightarrow>
     Hidl_kObserversCookieUndefined (hx_code ctx) = kObserversCookieUndefined sc"
  by (simp add: Hidl_kObserversCookieUndefined_def kObserversCookieUndefined_def)

lemma closures_complete_register:
  assumes "registry_inv sc s" "closures_complete s" "control_result_cb cb \<noteq> None" "session_changed_cb cb \<noteq> None"
    "fst (RegisterStatusCback sc cb s) \<noteq> kObserversCookieUndefined sc"
  shows "closures_complete (snd (RegisterStatusCback sc cb s))"
  using assms(2-4) unfolding closures_complete_def registry_appends [OF assms(1,5)] by simp

lemma Hidl_Register_aidl:
  assumes "hx_aidl ctx" "hidl_wf ctx p"
  shows "fst (HControl21_RegisterControlResultCback ctx t cb p)
      = fst (Mw_RegisterControlResultCback (hx_mw ctx) t cb (hp_middleware p))"
    "hp_middleware (snd (HControl21_RegisterControlResultCback ctx t cb p))
      = snd (Mw_RegisterControlResultCback (hx_mw ctx) t cb (hp_middleware p))"
    "hidl_wf ctx (snd (HControl21_RegisterControlResultCback ctx t cb p))"
  using assms hidl_wf_method(2) [OF assms(2) Hidl_methods_type(2)]
  by (simp_all add: HControl21_RegisterControlResultCback_def on_hidl_2_1_result on_hidl_2_1_state
      Hidl_RegisterStatusCback_def via_middleware_def case_prod_beta hidl_wf_def)

lemma hidl_SetUp_registered:
  assumes "hx_aidl (hpc_ctx ctx)" "hidl_wf (hpc_ctx ctx) (hw_process w)"
    and "mw_inv (hx_mw (hpc_ctx ctx)) (hp_middleware (hw_process w))"
    and "hidl_session_type_of device = Some t" and u: "u = from_session_type_2_0 t"
    and "mc_sc (hx_mw (hpc_ctx ctx)) u \<noteq> mc_sc (hx_mw (hpc_ctx ctx)) ST_UNKNOWN"
    and "hx_code (hpc_ctx ctx) HST_UNKNOWN = mc_sc (hx_mw (hpc_ctx ctx)) ST_UNKNOWN"
    and "closures_complete (mw_session (hp_middleware (hw_process w)) u)"
    and "HPort_SetUp ctx device w = (True, w')"
  shows "hport_registered ctx w' \<and> HPort_GetState w' = STANDBY \<and> hport_session_type (hw_port w') = t
     \<and> IsSessionReady (mw_session (hp_middleware (hw_process w')) u)"
proof -
  let ?hx = "hpc_ctx ctx" and ?m = "hp_middleware (hw_process w)"
  let ?mw = "hx_mw ?hx" and ?cb = "HPort_callbacks ctx"
  let ?r1 = "HControl21_IsSessionReady ?hx t (hw_process w)"
  have agree: "control_agrees ?hx (hw_process w) ?r1 (Control_IsSessionReady u (mw_sessions ?m))"
    unfolding HControl21_IsSessionReady_def u
    by (rule on_hidl_2_1_agrees [OF assms(2), where call = Control_IsSessionReady])
      (simp add: hidl_via_aidl [OF assms(1)] mw_call_defs)
  let ?m1 = "hp_middleware (snd ?r1)"
  have same: "session_of (mw_sessions ?m1) = session_of (mw_sessions ?m)"
    "legacy_callback_table ?m1 = legacy_callback_table ?m"
    using agree by (simp_all add: control_agrees_def)
  have wf1: "hidl_wf ?hx (snd ?r1)"
    unfolding HControl21_IsSessionReady_def by (rule hidl_wf_method(2) [OF assms(2) Hidl_methods_type(1)])
  note register = Hidl_Register_aidl [OF assms(1) wf1, of t ?cb]
  let ?r2 = "Mw_RegisterControlResultCback ?mw t ?cb ?m1"
  have ok1: "mw_registry_ok ?mw t ?m1"
    using mw_inv_same [OF assms(3) same] assms(6) by (simp add: mw_registry_ok_def u)
  have undef: "hpc_undefined ctx = kObserversCookieUndefined (mc_sc ?mw)"
    by (rule undefined_cookies_agree) (rule assms(7))
  have w': "fst ?r1" "fst ?r2 \<noteq> hpc_undefined ctx" "hp_middleware (hw_process w') = snd ?r2"
    "hw_port w' = \<lparr>hport_session_type = t, hport_cookie = fst ?r2, hport_state = STANDBY,
      hport_is_stereo_to_mono = hport_is_stereo_to_mono (hw_port w)\<rparr>"
    "hidl_wf ?hx (hw_process w')"
    using assms(9) register
    by (auto simp: HPort_SetUp_def HPort_init_session_type_def assms(4) Let_def case_prod_beta split: if_splits)
  note parts = Mw_Register_parts [of ?mw t ?cb ?m1, unfolded Let_def, folded u]
  have reg: "registry_inv (mc_sc ?mw) (mw_session ?m u)" by (rule mw_registry_inv [OF assms(3,6)])
  have "closures_complete (snd (RegisterStatusCback (mc_sc ?mw) (mw_callbacks ?mw u ?cb) (mw_session ?m u)))"
    by (rule closures_complete_register [OF reg assms(8)])
      (use w'(2) parts(1) in \<open>simp_all add: mw_callbacks_def HPort_callbacks_def undef same(1)\<close>)
  moreover have "mw_lookup ?mw u (snd ?r2) (fst ?r2) = Some ?cb"
    using mw.register_lookup [OF ok1, of ?cb] w'(2) by (simp add: undef u)
  moreover have "mw_inv ?mw (snd ?r2)"
    using mw.register_inv [OF ok1, of ?cb] by (simp add: mw_registry_ok_def)
  moreover have "IsSessionReady (mw_session (snd ?r2) u)"
  proof -
    have "IsSessionReady (mw_session ?m u)"
      using w'(1) agree by (simp add: control_agrees_def)
    then show ?thesis
      by (simp add: parts(2) same(1) RegisterStatusCback_def Let_def IsSessionReady_def)
  qed
  ultimately show ?thesis
    using assms(1,6) w'(2-5) parts(2)
    by (simp add: hport_registered_def Let_def HPort_in_use_def HPort_GetState_def u same(1))
qed

lemma example_le_inv: "mw_inv example_mw_ctx (hp_middleware example_le_process)"
proof -
  let ?m0 = "\<lparr>mw_sessions = (\<lambda>t. None), legacy_callback_table = (\<lambda>t k. None)\<rparr> :: middleware"
  let ?e = "Ev_SessionStarted LE_AUDIO_SOFTWARE_ENCODING_DATAPATH (Some 7)
    (Some \<lparr>mq_descriptor = 0, mq_isValid = True\<rparr>) (pcmConfig example_stereo_pcm) []"
  have "mw_inv example_mw_ctx (snd (mw_event example_mw_ctx ?e ?m0))"
    by (rule mw_event_inv [OF mw_reach_inv [OF mw_reach.initial]]) simp
  moreover have "session_of (mw_sessions (hp_middleware example_le_process))
      = session_of (mw_sessions (snd (mw_event example_mw_ctx ?e ?m0)))"
    by (rule ext) (simp add: mw_event_parts, simp add: example_le_process_def example_le_session_def session_of_def)
  moreover have "legacy_callback_table (hp_middleware example_le_process)
      = legacy_callback_table (snd (mw_event example_mw_ctx ?e ?m0))"
    unfolding mw_event_parts by (simp add: example_le_process_def)
  ultimately show ?thesis by (rule mw_inv_same)
qed

definition example_hidl_env :: "BluetoothAudioStatus \<Rightarrow> hidl_env" where
  "example_hidl_env st = \<lparr>he_hal_ok = True, he_during = [],
     he_wait = [[HEv_aidl (Ev_ControlStatus LE_AUDIO_SOFTWARE_ENCODING_DATAPATH True st)]],
     he_position = None, he_hidl_position = None,
     he_polls = (\<lambda>_. \<lparr>poll_session = example_le_session, poll_available = 0, poll_write_ok = True,
       poll_read = (\<lambda>_. None)\<rparr>),
     he_hidl_polls = (\<lambda>_. \<lparr>hpoll_session = Hidl_BluetoothAudioSession (example_hidl_ctx True) HST_UNKNOWN,
       hpoll_available = 0, hpoll_write_ok = True, hpoll_read = (\<lambda>_. None)\<rparr>)\<rparr>"

theorem hidl_Start_Suspend_complete_witness:
  "(\<exists>w'. HPort_Start example_hport_ctx (example_hidl_env SUCCESS) example_hidl_world
       = (True, [Call_startStream False], w') \<and> HPort_GetState w' = STARTED)
   \<and> (\<exists>w'. HPort_Start example_hport_ctx (example_hidl_env FAILURE) example_hidl_world
       = (False, [Call_startStream False], w') \<and> HPort_GetState w' = STANDBY)"
proof -
  let ?w = "\<lparr>hw_process = example_le_process, hw_port = BluetoothAudioPortHidl example_hport_ctx\<rparr>"
  have wf: "hidl_wf (hpc_ctx example_hport_ctx) (hw_process ?w)"
    using hidl_wf_start [of "hpc_ctx example_hport_ctx"]
    by (simp add: hidl_wf_def example_le_process_def hidl_of_def hidl21_of_def)
  have u: "from_session_type_2_0 HST_LE_AUDIO_SOFTWARE_ENCODING_DATAPATH = LE_AUDIO_SOFTWARE_ENCODING_DATAPATH"
    by code_simp
  have "fst (HPort_SetUp example_hport_ctx AUDIO_DEVICE_OUT_BLE_HEADSET ?w)"
    "closures_complete (mw_session (hp_middleware (hw_process ?w)) LE_AUDIO_SOFTWARE_ENCODING_DATAPATH)"
    by code_simp+
  then have done_SetUp: "HPort_SetUp example_hport_ctx AUDIO_DEVICE_OUT_BLE_HEADSET ?w = (True, example_hidl_world)"
    "closures_complete (mw_session (hp_middleware (hw_process ?w)) LE_AUDIO_SOFTWARE_ENCODING_DATAPATH)"
    by (simp_all add: example_hidl_world_def prod_eq_iff)
  have env: "he_hal_ok (example_hidl_env st)" "he_during (example_hidl_env st) = []"
    "he_wait (example_hidl_env st) = [[HEv_aidl (Ev_ControlStatus LE_AUDIO_SOFTWARE_ENCODING_DATAPATH True st)]]" for st
    by (simp_all add: example_hidl_env_def)
  have "hport_registered example_hport_ctx example_hidl_world \<and> HPort_GetState example_hidl_world = STANDBY
     \<and> hport_session_type (hw_port example_hidl_world) = HST_LE_AUDIO_SOFTWARE_ENCODING_DATAPATH
     \<and> IsSessionReady (mw_session (hp_middleware (hw_process example_hidl_world)) LE_AUDIO_SOFTWARE_ENCODING_DATAPATH)"
    by (rule hidl_SetUp_registered [OF _ wf _ _ u [symmetric] _ _ done_SetUp(2) done_SetUp(1)])
      (use example_le_inv in \<open>simp_all add: example_hport_ctx_def example_hidl_ctx_def example_mw_ctx_def
        example_code_def example_hidl_code_def\<close>)
  then have "\<exists>w'. HPort_Start example_hport_ctx (example_hidl_env st) example_hidl_world
       = (st = SUCCESS, [Call_startStream False], w') \<and> HPort_GetState w' = (if st = SUCCESS then STARTED else STANDBY)"
    for st
    using hidl_Start_Suspend_complete [where ctx = example_hport_ctx and w = example_hidl_world
        and env = "example_hidl_env st" and b = True and st = st and rest = "[]"]
    by (simp add: u env)
  from this [of SUCCESS] this [of FAILURE] show ?thesis by simp
qed

end
