(* ===== verification/Hidl_Codecs.thy ===== *)
theory Hidl_Codecs
  imports Hidl_Types
begin

text \<open>
  The supported codecs of the HIDL interfaces (\<open>utils/session/BluetoothAudioSupportedCodecsDB.cpp\<close>
  and its \<open>_2_1\<close> variant). Here the enumerations are used as sets of bits, so a field is a
  32-bit word. The numbers of the enumerators belong to the interface and are the parameter
  \<open>nums\<close>.
\<close>

section \<open>Numbers and records\<close>

record hidl_numbers =
  num_rate :: "SampleRate \<Rightarrow> u32"
  num_channel :: "HidlChannelMode \<Rightarrow> u32"
  num_bits :: "BitsPerSample \<Rightarrow> u32"
  num_sbc_channel :: "HidlSbcChannelMode \<Rightarrow> u32"
  num_sbc_blocks :: "HidlSbcBlockLength \<Rightarrow> u32"
  num_sbc_subbands :: "HidlSbcNumSubbands \<Rightarrow> u32"
  num_sbc_alloc :: "HidlSbcAllocMethod \<Rightarrow> u32"
  num_aac_object :: "HidlAacObjectType \<Rightarrow> u32"
  num_ldac_channel :: "HidlLdacChannelMode \<Rightarrow> u32"
  num_ldac_quality :: "HidlLdacQualityIndex \<Rightarrow> u32"

record PcmBits =
  pb_sampleRate :: u32
  pb_channelMode :: u32
  pb_bitsPerSample :: u32

record PcmBits_2_1 =
  pb21_sampleRate :: u32
  pb21_channelMode :: u32
  pb21_bitsPerSample :: u32
  pb21_dataIntervalUs :: u32

record SbcBits =
  sb_sampleRate :: u32
  sb_channelMode :: u32
  sb_blockLength :: u32
  sb_numSubbands :: u32
  sb_allocMethod :: u32
  sb_bitsPerSample :: u32
  sb_minBitpool :: u8
  sb_maxBitpool :: u8

record AacBits =
  ab_objectType :: u32
  ab_sampleRate :: u32
  ab_channelMode :: u32
  ab_variableBitRateEnabled :: HidlAacVariableBitRate
  ab_bitsPerSample :: u32

record LdacBits =
  lb_sampleRate :: u32
  lb_channelMode :: u32
  lb_qualityIndex :: u32
  lb_bitsPerSample :: u32

record AptxBits =
  xb_sampleRate :: u32
  xb_channelMode :: u32
  xb_bitsPerSample :: u32

datatype CodecBits =
    sbcBits SbcBits | aacBits AacBits | ldacBits LdacBits | aptxBits AptxBits

datatype HidlCapabilities =
    hdefaultCapabilities
  | hsbcCapabilities SbcBits
  | haacCapabilities AacBits
  | hldacCapabilities LdacBits
  | haptxCapabilities AptxBits

record HidlCodecCapabilities =
  hcap_codecType :: HidlCodecType
  hcap_capabilities :: HidlCapabilities

record CodecBitsConfiguration =
  cb_codecType :: HidlCodecType
  cb_encodedAudioBitrate :: u32
  cb_config :: CodecBits

section \<open>Default capabilities\<close>

definition Hidl_kDefaultSoftwarePcmCapabilities :: "hidl_numbers \<Rightarrow> PcmBits" where
  "Hidl_kDefaultSoftwarePcmCapabilities nums =
     \<lparr>pb_sampleRate = num_rate nums RATE_44100 OR num_rate nums RATE_48000 OR num_rate nums RATE_88200
        OR num_rate nums RATE_96000 OR num_rate nums RATE_16000 OR num_rate nums RATE_24000,
      pb_channelMode = num_channel nums HCM_MONO OR num_channel nums HCM_STEREO,
      pb_bitsPerSample = num_bits nums BITS_16 OR num_bits nums BITS_24 OR num_bits nums BITS_32\<rparr>"

definition Hidl_kDefaultOffloadSbcCapability :: "hidl_numbers \<Rightarrow> SbcBits" where
  "Hidl_kDefaultOffloadSbcCapability nums =
     \<lparr>sb_sampleRate = num_rate nums RATE_44100,
      sb_channelMode = num_sbc_channel nums HSbcCM_MONO OR num_sbc_channel nums HSbcCM_JOINT_STEREO,
      sb_blockLength = num_sbc_blocks nums BLOCKS_4 OR num_sbc_blocks nums BLOCKS_8
        OR num_sbc_blocks nums BLOCKS_12 OR num_sbc_blocks nums BLOCKS_16,
      sb_numSubbands = num_sbc_subbands nums SUBBAND_8,
      sb_allocMethod = num_sbc_alloc nums HALLOC_MD_L,
      sb_bitsPerSample = num_bits nums BITS_16,
      sb_minBitpool = 2, sb_maxBitpool = 53\<rparr>"

definition Hidl_kDefaultOffloadAacCapability :: "hidl_numbers \<Rightarrow> AacBits" where
  "Hidl_kDefaultOffloadAacCapability nums =
     \<lparr>ab_objectType = num_aac_object nums HMPEG2_LC,
      ab_sampleRate = num_rate nums RATE_44100,
      ab_channelMode = num_channel nums HCM_STEREO,
      ab_variableBitRateEnabled = VBR_ENABLED,
      ab_bitsPerSample = num_bits nums BITS_16\<rparr>"

definition Hidl_kDefaultOffloadLdacCapability :: "hidl_numbers \<Rightarrow> LdacBits" where
  "Hidl_kDefaultOffloadLdacCapability nums =
     \<lparr>lb_sampleRate = num_rate nums RATE_44100 OR num_rate nums RATE_48000 OR num_rate nums RATE_88200
        OR num_rate nums RATE_96000,
      lb_channelMode = num_ldac_channel nums HLdacCM_DUAL OR num_ldac_channel nums HLdacCM_STEREO,
      lb_qualityIndex = num_ldac_quality nums QUALITY_HIGH,
      lb_bitsPerSample = num_bits nums BITS_16 OR num_bits nums BITS_24 OR num_bits nums BITS_32\<rparr>"

definition Hidl_kDefaultOffloadAptxCapability :: "hidl_numbers \<Rightarrow> AptxBits" where
  "Hidl_kDefaultOffloadAptxCapability nums =
     \<lparr>xb_sampleRate = num_rate nums RATE_44100 OR num_rate nums RATE_48000,
      xb_channelMode = num_channel nums HCM_STEREO,
      xb_bitsPerSample = num_bits nums BITS_16\<rparr>"

definition Hidl_kDefaultOffloadAptxHdCapability :: "hidl_numbers \<Rightarrow> AptxBits" where
  "Hidl_kDefaultOffloadAptxHdCapability nums =
     \<lparr>xb_sampleRate = num_rate nums RATE_44100 OR num_rate nums RATE_48000,
      xb_channelMode = num_channel nums HCM_STEREO,
      xb_bitsPerSample = num_bits nums BITS_24\<rparr>"

definition Hidl_kDefaultOffloadA2dpCodecCapabilities :: "HidlCodecCapabilities list" where
  "Hidl_kDefaultOffloadA2dpCodecCapabilities =
     map (\<lambda>t. \<lparr>hcap_codecType = t, hcap_capabilities = hdefaultCapabilities\<rparr>)
       [HCT_SBC, HCT_AAC, HCT_LDAC, HCT_APTX, HCT_APTX_HD]"

section \<open>Checks\<close>

text \<open>
  The loop of \<open>IsSingleBit\<close>: \<open>test_bit\<close> is \<open>2 ^ i\<close>, and the loop breaks after \<open>0x80000000\<close>,
  that is at \<open>i = 31\<close>.
\<close>

function IsSingleBit_loop :: "u32 \<Rightarrow> u32 \<Rightarrow> nat \<Rightarrow> bool \<Rightarrow> bool" where
  "IsSingleBit_loop bitmasks bitfield i single =
     (let test_bit = push_bit i 1 in
      if \<not> (test_bit \<le> bitmasks \<and> test_bit \<le> bitfield) then single
      else if bitfield AND test_bit \<noteq> 0 \<and> bitmasks AND test_bit \<noteq> 0 then
        (if single then False
         else if i \<ge> 31 then True else IsSingleBit_loop bitmasks bitfield (i + 1) True)
      else if i \<ge> 31 then single else IsSingleBit_loop bitmasks bitfield (i + 1) single)"
  by pat_completeness auto
termination by (relation "measure (\<lambda>(bitmasks, bitfield, i, single). 31 - i)") auto

declare IsSingleBit_loop.simps [simp del]

definition IsSingleBit :: "u32 \<Rightarrow> u32 \<Rightarrow> bool" where
  "IsSingleBit bitmasks bitfield = IsSingleBit_loop bitmasks bitfield 0 False"

fun Hidl_IsOffloadSbcConfigurationValid :: "hidl_numbers \<Rightarrow> CodecBits \<Rightarrow> bool" where
  "Hidl_IsOffloadSbcConfigurationValid nums (sbcBits sbc_data) \<longleftrightarrow>
     (let cap = Hidl_kDefaultOffloadSbcCapability nums in
      if \<not> IsSingleBit (sb_sampleRate sbc_data) 0xff \<or> \<not> IsSingleBit (sb_channelMode sbc_data) 0x0f
         \<or> \<not> IsSingleBit (sb_blockLength sbc_data) 0xf0 \<or> \<not> IsSingleBit (sb_numSubbands sbc_data) 0x0c
         \<or> \<not> IsSingleBit (sb_allocMethod sbc_data) 0x03 \<or> \<not> IsSingleBit (sb_bitsPerSample sbc_data) 0x07
         \<or> sb_minBitpool sbc_data > sb_maxBitpool sbc_data then False
      else sb_sampleRate sbc_data AND sb_sampleRate cap \<noteq> 0
         \<and> sb_channelMode sbc_data AND sb_channelMode cap \<noteq> 0
         \<and> sb_blockLength sbc_data AND sb_blockLength cap \<noteq> 0
         \<and> sb_numSubbands sbc_data AND sb_numSubbands cap \<noteq> 0
         \<and> sb_allocMethod sbc_data AND sb_allocMethod cap \<noteq> 0
         \<and> sb_bitsPerSample sbc_data AND sb_bitsPerSample cap \<noteq> 0
         \<and> sb_minBitpool cap \<le> sb_minBitpool sbc_data
         \<and> sb_maxBitpool sbc_data \<le> sb_maxBitpool cap)"
| "Hidl_IsOffloadSbcConfigurationValid nums _ \<longleftrightarrow> False"

fun Hidl_IsOffloadAacConfigurationValid :: "hidl_numbers \<Rightarrow> CodecBits \<Rightarrow> bool" where
  "Hidl_IsOffloadAacConfigurationValid nums (aacBits aac_data) \<longleftrightarrow>
     (let cap = Hidl_kDefaultOffloadAacCapability nums in
      if \<not> IsSingleBit (ab_objectType aac_data) 0xf0 \<or> \<not> IsSingleBit (ab_sampleRate aac_data) 0xff
         \<or> \<not> IsSingleBit (ab_channelMode aac_data) 0x03 \<or> \<not> IsSingleBit (ab_bitsPerSample aac_data) 0x07
      then False
      else ab_objectType aac_data AND ab_objectType cap \<noteq> 0
         \<and> ab_sampleRate aac_data AND ab_sampleRate cap \<noteq> 0
         \<and> ab_channelMode aac_data AND ab_channelMode cap \<noteq> 0
         \<and> (ab_variableBitRateEnabled aac_data = VBR_DISABLED \<or> ab_variableBitRateEnabled cap = VBR_ENABLED)
         \<and> ab_bitsPerSample aac_data AND ab_bitsPerSample cap \<noteq> 0)"
| "Hidl_IsOffloadAacConfigurationValid nums _ \<longleftrightarrow> False"

fun Hidl_IsOffloadLdacConfigurationValid :: "hidl_numbers \<Rightarrow> CodecBits \<Rightarrow> bool" where
  "Hidl_IsOffloadLdacConfigurationValid nums (ldacBits ldac_data) \<longleftrightarrow>
     (let cap = Hidl_kDefaultOffloadLdacCapability nums in
      if \<not> IsSingleBit (lb_sampleRate ldac_data) 0xff \<or> \<not> IsSingleBit (lb_channelMode ldac_data) 0x07
         \<or> (lb_qualityIndex ldac_data > num_ldac_quality nums QUALITY_LOW
            \<and> lb_qualityIndex ldac_data \<noteq> num_ldac_quality nums QUALITY_ABR)
         \<or> \<not> IsSingleBit (lb_bitsPerSample ldac_data) 0x07 then False
      else lb_sampleRate ldac_data AND lb_sampleRate cap \<noteq> 0
         \<and> lb_channelMode ldac_data AND lb_channelMode cap \<noteq> 0
         \<and> lb_bitsPerSample ldac_data AND lb_bitsPerSample cap \<noteq> 0)"
| "Hidl_IsOffloadLdacConfigurationValid nums _ \<longleftrightarrow> False"

fun Hidl_IsOffloadAptxConfigurationValid :: "hidl_numbers \<Rightarrow> CodecBits \<Rightarrow> bool" where
  "Hidl_IsOffloadAptxConfigurationValid nums (aptxBits aptx_data) \<longleftrightarrow>
     (let cap = Hidl_kDefaultOffloadAptxCapability nums in
      if \<not> IsSingleBit (xb_sampleRate aptx_data) 0xff \<or> \<not> IsSingleBit (xb_channelMode aptx_data) 0x03
         \<or> \<not> IsSingleBit (xb_bitsPerSample aptx_data) 0x07 then False
      else xb_sampleRate aptx_data AND xb_sampleRate cap \<noteq> 0
         \<and> xb_channelMode aptx_data AND xb_channelMode cap \<noteq> 0
         \<and> xb_bitsPerSample aptx_data AND xb_bitsPerSample cap \<noteq> 0)"
| "Hidl_IsOffloadAptxConfigurationValid nums _ \<longleftrightarrow> False"

fun Hidl_IsOffloadAptxHdConfigurationValid :: "hidl_numbers \<Rightarrow> CodecBits \<Rightarrow> bool" where
  "Hidl_IsOffloadAptxHdConfigurationValid nums (aptxBits aptx_data) \<longleftrightarrow>
     (let cap = Hidl_kDefaultOffloadAptxHdCapability nums in
      if \<not> IsSingleBit (xb_sampleRate aptx_data) 0xff \<or> \<not> IsSingleBit (xb_channelMode aptx_data) 0x03
         \<or> \<not> IsSingleBit (xb_bitsPerSample aptx_data) 0x07 then False
      else xb_sampleRate aptx_data AND xb_sampleRate cap \<noteq> 0
         \<and> xb_channelMode aptx_data AND xb_channelMode cap \<noteq> 0
         \<and> xb_bitsPerSample aptx_data AND xb_bitsPerSample cap \<noteq> 0)"
| "Hidl_IsOffloadAptxHdConfigurationValid nums _ \<longleftrightarrow> False"

definition Hidl_IsSoftwarePcmConfigurationValid :: "hidl_numbers \<Rightarrow> PcmBits \<Rightarrow> bool" where
  "Hidl_IsSoftwarePcmConfigurationValid nums pcm_config =
     (let cap = Hidl_kDefaultSoftwarePcmCapabilities nums in
      if pb_sampleRate pcm_config \<notin> num_rate nums ` {RATE_44100, RATE_48000, RATE_88200, RATE_96000, RATE_16000, RATE_24000}
         \<or> pb_bitsPerSample pcm_config \<notin> num_bits nums ` {BITS_16, BITS_24, BITS_32}
         \<or> pb_channelMode pcm_config \<notin> num_channel nums ` {HCM_MONO, HCM_STEREO} then False
      else pb_sampleRate pcm_config AND pb_sampleRate cap \<noteq> 0
         \<and> pb_bitsPerSample pcm_config AND pb_bitsPerSample cap \<noteq> 0
         \<and> pb_channelMode pcm_config AND pb_channelMode cap \<noteq> 0)"

definition Hidl_IsOffloadCodecConfigurationValid ::
  "hidl_numbers \<Rightarrow> HidlSessionType \<Rightarrow> CodecBitsConfiguration \<Rightarrow> bool" where
  "Hidl_IsOffloadCodecConfigurationValid nums session_type cc =
     (if session_type \<noteq> HST_A2DP_HARDWARE_OFFLOAD_DATAPATH then False
      else if cb_encodedAudioBitrate cc < 0x00000001 \<or> 0x00ffffff < cb_encodedAudioBitrate cc then False
      else let codec_specific = cb_config cc in
      case cb_codecType cc of
        HCT_SBC \<Rightarrow> Hidl_IsOffloadSbcConfigurationValid nums codec_specific
      | HCT_AAC \<Rightarrow> Hidl_IsOffloadAacConfigurationValid nums codec_specific
      | HCT_LDAC \<Rightarrow> Hidl_IsOffloadLdacConfigurationValid nums codec_specific
      | HCT_APTX \<Rightarrow> Hidl_IsOffloadAptxConfigurationValid nums codec_specific
      | HCT_APTX_HD \<Rightarrow> Hidl_IsOffloadAptxHdConfigurationValid nums codec_specific
      | HCT_UNKNOWN \<Rightarrow> False)"

section \<open>What is advertised\<close>

definition Hidl_GetSoftwarePcmCapabilities :: "hidl_numbers \<Rightarrow> PcmBits list" where
  "Hidl_GetSoftwarePcmCapabilities nums = [Hidl_kDefaultSoftwarePcmCapabilities nums]"

definition Hidl_fill_capability :: "hidl_numbers \<Rightarrow> HidlCodecCapabilities \<Rightarrow> HidlCodecCapabilities" where
  "Hidl_fill_capability nums c =
     (case hcap_codecType c of
        HCT_SBC \<Rightarrow> c\<lparr>hcap_capabilities := hsbcCapabilities (Hidl_kDefaultOffloadSbcCapability nums)\<rparr>
      | HCT_AAC \<Rightarrow> c\<lparr>hcap_capabilities := haacCapabilities (Hidl_kDefaultOffloadAacCapability nums)\<rparr>
      | HCT_LDAC \<Rightarrow> c\<lparr>hcap_capabilities := hldacCapabilities (Hidl_kDefaultOffloadLdacCapability nums)\<rparr>
      | HCT_APTX \<Rightarrow> c\<lparr>hcap_capabilities := haptxCapabilities (Hidl_kDefaultOffloadAptxCapability nums)\<rparr>
      | HCT_APTX_HD \<Rightarrow> c\<lparr>hcap_capabilities := haptxCapabilities (Hidl_kDefaultOffloadAptxHdCapability nums)\<rparr>
      | HCT_UNKNOWN \<Rightarrow> \<lparr>hcap_codecType = HCT_UNKNOWN, hcap_capabilities = hdefaultCapabilities\<rparr>)"

definition Hidl_GetOffloadCodecCapabilities :: "hidl_numbers \<Rightarrow> HidlSessionType \<Rightarrow> HidlCodecCapabilities list" where
  "Hidl_GetOffloadCodecCapabilities nums session_type =
     (if session_type \<noteq> HST_A2DP_HARDWARE_OFFLOAD_DATAPATH then []
      else map (Hidl_fill_capability nums) Hidl_kDefaultOffloadA2dpCodecCapabilities)"

section \<open>Version 2.1\<close>

definition codecs_is_2_0_session_type :: "HidlSessionType \<Rightarrow> bool" where
  "codecs_is_2_0_session_type session_type \<longleftrightarrow>
     session_type = HST_A2DP_SOFTWARE_ENCODING_DATAPATH
   \<or> session_type = HST_A2DP_HARDWARE_OFFLOAD_DATAPATH
   \<or> session_type = HST_HEARING_AID_SOFTWARE_ENCODING_DATAPATH"

definition kDefaultSoftwarePcmCapabilities_2_1 :: "hidl_numbers \<Rightarrow> PcmBits_2_1" where
  "kDefaultSoftwarePcmCapabilities_2_1 nums =
     \<lparr>pb21_sampleRate = num_rate nums RATE_44100 OR num_rate nums RATE_48000 OR num_rate nums RATE_88200
        OR num_rate nums RATE_96000 OR num_rate nums RATE_16000 OR num_rate nums RATE_24000,
      pb21_channelMode = num_channel nums HCM_MONO OR num_channel nums HCM_STEREO,
      pb21_bitsPerSample = num_bits nums BITS_16 OR num_bits nums BITS_24 OR num_bits nums BITS_32,
      pb21_dataIntervalUs = 0\<rparr>"

definition GetSoftwarePcmCapabilities_2_1 :: "hidl_numbers \<Rightarrow> PcmBits_2_1 list" where
  "GetSoftwarePcmCapabilities_2_1 nums = [kDefaultSoftwarePcmCapabilities_2_1 nums]"

definition GetOffloadCodecCapabilities_2_1 :: "hidl_numbers \<Rightarrow> HidlSessionType \<Rightarrow> HidlCodecCapabilities list" where
  "GetOffloadCodecCapabilities_2_1 nums session_type =
     (if codecs_is_2_0_session_type session_type then Hidl_GetOffloadCodecCapabilities nums session_type else [])"

definition IsSoftwarePcmConfigurationValid_2_1 :: "hidl_numbers \<Rightarrow> PcmBits_2_1 \<Rightarrow> bool" where
  "IsSoftwarePcmConfigurationValid_2_1 nums pcm_config =
     (let cap = kDefaultSoftwarePcmCapabilities_2_1 nums in
      if pb21_sampleRate pcm_config \<notin> num_rate nums ` {RATE_44100, RATE_48000, RATE_88200, RATE_96000, RATE_16000, RATE_24000}
         \<or> pb21_bitsPerSample pcm_config \<notin> num_bits nums ` {BITS_16, BITS_24, BITS_32}
         \<or> pb21_channelMode pcm_config \<notin> num_channel nums ` {HCM_MONO, HCM_STEREO} then False
      else pb21_sampleRate pcm_config AND pb21_sampleRate cap \<noteq> 0
         \<and> pb21_bitsPerSample pcm_config AND pb21_bitsPerSample cap \<noteq> 0
         \<and> pb21_channelMode pcm_config AND pb21_channelMode cap \<noteq> 0
         \<and> pb21_dataIntervalUs pcm_config \<noteq> 0)"

definition IsOffloadCodecConfigurationValid_2_1 ::
  "hidl_numbers \<Rightarrow> HidlSessionType \<Rightarrow> CodecBitsConfiguration \<Rightarrow> bool" where
  "IsOffloadCodecConfigurationValid_2_1 nums session_type cc =
     (if codecs_is_2_0_session_type session_type
      then Hidl_IsOffloadCodecConfigurationValid nums session_type cc else False)"

definition IsOffloadLeAudioConfigurationValid :: "HidlSessionType \<Rightarrow> HidlLc3CodecConfiguration \<Rightarrow> bool" where
  "IsOffloadLeAudioConfigurationValid session_type c \<longleftrightarrow>
     \<not> (session_type \<noteq> HST_LE_AUDIO_HARDWARE_OFFLOAD_ENCODING_DATAPATH
        \<and> session_type \<noteq> HST_LE_AUDIO_HARDWARE_OFFLOAD_DECODING_DATAPATH)"

end
