(* ===== verification/Hidl_Codecs_Facts.thy ===== *)
theory Hidl_Codecs_Facts
  imports Hidl_Codecs
begin

text \<open>
  What the checks of the HIDL codec database decide: \<open>IsSingleBit\<close> is the existence of
  exactly one common bit, so that an accepted offload configuration picks one value per field,
  and picks it among the advertised ones.
\<close>

section \<open>The test for a single bit\<close>

lemma test_bit_and: "w AND 2 ^ i = (0 :: u32) \<longleftrightarrow> \<not> bit w i"
  by (simp add: and_exp_eq_0_iff_not_bit)

lemma uint_test_bit: "i < 32 \<Longrightarrow> uint ((2 :: u32) ^ i) = 2 ^ i"
  by (rule uint_2p) (simp add: word_greater_zero_iff)

lemma small_word_bits:
  fixes w :: u32
  assumes "\<not> 2 ^ i \<le> w" "i < 32" "i \<le> j"
  shows "\<not> bit w j"
proof -
  have "uint w < 2 ^ i" using assms(1,2) by (simp add: word_le_def uint_test_bit)
  also have "2 ^ i \<le> (2 :: int) ^ j" using assms(3) by simp
  finally have "uint w < 2 ^ j" .
  then have "\<not> bit (uint w) j" by (simp add: bit_iff_odd zdiv_eq_0_iff)
  then show ?thesis by (simp add: bit_uint_iff bit_imp_le_length [of w j] ) (auto dest: bit_imp_le_length)
qed

definition common_bits_from :: "u32 \<Rightarrow> u32 \<Rightarrow> nat \<Rightarrow> nat set" where
  "common_bits_from bitmasks bitfield i = {k. i \<le> k \<and> bit bitmasks k \<and> bit bitfield k}"

lemma common_bits_none:
  "i < 32 \<Longrightarrow> \<not> (2 ^ i \<le> m \<and> 2 ^ i \<le> f) \<Longrightarrow> common_bits_from m f i = {}"
  using small_word_bits [of i m] small_word_bits [of i f] by (auto simp: common_bits_from_def)

lemma common_bits_step:
  "common_bits_from m f i = (if bit m i \<and> bit f i then insert i (common_bits_from m f (i + 1))
                             else common_bits_from m f (i + 1))"
  by (auto simp: common_bits_from_def le_less Suc_le_eq)

lemma common_bits_end: "i \<ge> 32 \<Longrightarrow> common_bits_from m f i = {}"
  by (auto simp: common_bits_from_def dest: bit_imp_le_length)

lemma common_bits_fresh [simp]: "i \<notin> common_bits_from m f (Suc i)"
  by (simp add: common_bits_from_def)

lemma common_bits_finite [simp]: "finite (common_bits_from m f i)"
  by (rule finite_subset [of _ "{..<32}"]) (auto simp: common_bits_from_def dest: bit_imp_le_length)

lemma IsSingleBit_loop_card:
  "i < 32 \<Longrightarrow> IsSingleBit_loop m f i single \<longleftrightarrow> card (common_bits_from m f i) + of_bool single = 1"
proof (induction m f i single rule: IsSingleBit_loop.induct)
  case (1 m f i single)
  show ?case
  proof (cases "2 ^ i \<le> m \<and> 2 ^ i \<le> f")
    case False
    with 1 show ?thesis by (subst IsSingleBit_loop.simps) (simp add: common_bits_none)
  next
    case le: True
    have fin: "i \<ge> 31 \<Longrightarrow> common_bits_from m f (Suc i) = {}" by (simp add: common_bits_end)
    show ?thesis
      using 1 le fin
      by (subst IsSingleBit_loop.simps) (auto simp: test_bit_and common_bits_step [of m f i] Let_def not_le)
  qed
qed

lemma IsSingleBit_ex1: "IsSingleBit bitmasks bitfield \<longleftrightarrow> (\<exists>!k. bit (bitmasks AND bitfield) k)"
proof -
  have "common_bits_from bitmasks bitfield 0 = {k. bit (bitmasks AND bitfield) k}"
    by (auto simp: common_bits_from_def bit_and_iff)
  then show ?thesis
    by (auto simp: IsSingleBit_def IsSingleBit_loop_card card_1_singleton_iff set_eq_iff)
qed

text \<open>For every mask and every field, the loop of \<open>IsSingleBit\<close> (which walks the bits upwards,
  stops at the first bit above either word and gives up on the second hit) answers yes exactly
  when one and only one bit is set in both words.\<close>

lemma IsSingleBit_exact: "IsSingleBit bitmasks bitfield \<longleftrightarrow> card {k. bit (bitmasks AND bitfield) k} = 1"
  by (auto simp: IsSingleBit_ex1 card_1_singleton_iff set_eq_iff)

section \<open>An accepted configuration is one of the advertised ones\<close>

text \<open>
  \<open>picks field_bits cap f\<close>: within the bits of its type, the field holds a single value, and it is
  one of those of the capability.
\<close>

definition picks :: "u32 \<Rightarrow> u32 \<Rightarrow> u32 \<Rightarrow> bool" where
  "picks field_bits cap f \<longleftrightarrow> (\<exists>k. f AND field_bits = 2 ^ k \<and> k < 32 \<and> bit cap k)"

lemma single_bit_is_power:
  fixes w :: u32
  assumes "\<exists>!k. bit w k"
  obtains k where "w = 2 ^ k" "k < 32"
proof -
  obtain k where k: "bit w k" "\<And>j. bit w j \<Longrightarrow> j = k" using assms by blast
  have "k < 32" using bit_imp_le_length [OF k(1)] by simp
  moreover have "w = 2 ^ k"
  proof (rule bit_word_eqI)
    fix j assume "j < LENGTH(32)"
    show "bit w j \<longleftrightarrow> bit (2 ^ k :: u32) j"
    proof (cases "j = k")
      case True
      then show ?thesis using k(1) \<open>k < 32\<close> by (simp add: bit_exp_iff)
    next
      case False
      then have "\<not> bit w j" using k(2) by blast
      then show ?thesis using False by (simp add: bit_exp_iff)
    qed
  qed
  ultimately show thesis using that by blast
qed

lemma single_bit_picks:
  assumes "IsSingleBit f field_bits" "f AND cap \<noteq> 0" "cap AND field_bits = cap"
  shows "picks field_bits cap f"
proof -
  obtain k where k: "f AND field_bits = 2 ^ k" "k < 32"
    using assms(1) single_bit_is_power unfolding IsSingleBit_ex1 by blast
  have "2 ^ k AND cap = f AND cap" using assms(3) by (metis k(1) and.assoc and.commute)
  then have "bit cap k" using assms(2) test_bit_and [of cap k] by (simp add: and.commute)
  with k show ?thesis unfolding picks_def by blast
qed

fun capability_admits :: "HidlCapabilities \<Rightarrow> CodecBits \<Rightarrow> bool" where
  "capability_admits (hsbcCapabilities c) (sbcBits b) \<longleftrightarrow>
     picks 0xff (sb_sampleRate c) (sb_sampleRate b) \<and> picks 0x0f (sb_channelMode c) (sb_channelMode b)
   \<and> picks 0xf0 (sb_blockLength c) (sb_blockLength b) \<and> picks 0x0c (sb_numSubbands c) (sb_numSubbands b)
   \<and> picks 0x03 (sb_allocMethod c) (sb_allocMethod b) \<and> picks 0x07 (sb_bitsPerSample c) (sb_bitsPerSample b)
   \<and> sb_minBitpool c \<le> sb_minBitpool b \<and> sb_minBitpool b \<le> sb_maxBitpool b \<and> sb_maxBitpool b \<le> sb_maxBitpool c"
| "capability_admits (haacCapabilities c) (aacBits b) \<longleftrightarrow>
     picks 0xf0 (ab_objectType c) (ab_objectType b) \<and> picks 0xff (ab_sampleRate c) (ab_sampleRate b)
   \<and> picks 0x03 (ab_channelMode c) (ab_channelMode b) \<and> picks 0x07 (ab_bitsPerSample c) (ab_bitsPerSample b)"
| "capability_admits (hldacCapabilities c) (ldacBits b) \<longleftrightarrow>
     picks 0xff (lb_sampleRate c) (lb_sampleRate b) \<and> picks 0x07 (lb_channelMode c) (lb_channelMode b)
   \<and> picks 0x07 (lb_bitsPerSample c) (lb_bitsPerSample b)"
| "capability_admits (haptxCapabilities c) (aptxBits b) \<longleftrightarrow>
     picks 0xff (xb_sampleRate c) (xb_sampleRate b) \<and> picks 0x03 (xb_channelMode c) (xb_channelMode b)
   \<and> picks 0x07 (xb_bitsPerSample c) (xb_bitsPerSample b)"
| "capability_admits _ _ \<longleftrightarrow> False"

text \<open>
  What the interface documents of the numbers the tables use: each enumerator lies in the bits
  the check of its field reads.
\<close>

definition within :: "u32 \<Rightarrow> u32 \<Rightarrow> bool" where "within field_bits w \<longleftrightarrow> w AND field_bits = w"

lemma within_or [simp]: "within field_bits v \<Longrightarrow> within field_bits w \<Longrightarrow> within field_bits (v OR w)"
  by (simp add: within_def bit.conj_disj_distrib2)

definition hidl_numbers_ok :: "hidl_numbers \<Rightarrow> bool" where
  "hidl_numbers_ok nums \<longleftrightarrow>
     (\<forall>r \<in> {RATE_44100, RATE_48000, RATE_88200, RATE_96000}. within 0xff (num_rate nums r))
   \<and> (\<forall>c \<in> {HCM_MONO, HCM_STEREO}. within 0x03 (num_channel nums c))
   \<and> (\<forall>b. within 0x07 (num_bits nums b)) \<and> (\<forall>c. within 0x0f (num_sbc_channel nums c))
   \<and> (\<forall>b. within 0xf0 (num_sbc_blocks nums b)) \<and> (\<forall>b. within 0x0c (num_sbc_subbands nums b))
   \<and> (\<forall>a. within 0x03 (num_sbc_alloc nums a)) \<and> (\<forall>a. within 0xf0 (num_aac_object nums a))
   \<and> (\<forall>c. within 0x07 (num_ldac_channel nums c))"

lemma single_bit_within: "IsSingleBit f field_bits \<Longrightarrow> f AND cap \<noteq> 0 \<Longrightarrow> within field_bits cap \<Longrightarrow> picks field_bits cap f"
  by (rule single_bit_picks) (simp_all add: within_def)

lemma capability_fields_within:
  assumes "hidl_numbers_ok nums"
  shows "within 0xff (sb_sampleRate (Hidl_kDefaultOffloadSbcCapability nums))"
    "within 0x0f (sb_channelMode (Hidl_kDefaultOffloadSbcCapability nums))"
    "within 0xf0 (sb_blockLength (Hidl_kDefaultOffloadSbcCapability nums))"
    "within 0x0c (sb_numSubbands (Hidl_kDefaultOffloadSbcCapability nums))"
    "within 0x03 (sb_allocMethod (Hidl_kDefaultOffloadSbcCapability nums))"
    "within 0x07 (sb_bitsPerSample (Hidl_kDefaultOffloadSbcCapability nums))"
    "within 0xf0 (ab_objectType (Hidl_kDefaultOffloadAacCapability nums))"
    "within 0xff (ab_sampleRate (Hidl_kDefaultOffloadAacCapability nums))"
    "within 0x03 (ab_channelMode (Hidl_kDefaultOffloadAacCapability nums))"
    "within 0x07 (ab_bitsPerSample (Hidl_kDefaultOffloadAacCapability nums))"
    "within 0xff (lb_sampleRate (Hidl_kDefaultOffloadLdacCapability nums))"
    "within 0x07 (lb_channelMode (Hidl_kDefaultOffloadLdacCapability nums))"
    "within 0x07 (lb_bitsPerSample (Hidl_kDefaultOffloadLdacCapability nums))"
    "within 0xff (xb_sampleRate (Hidl_kDefaultOffloadAptxCapability nums))"
    "within 0x03 (xb_channelMode (Hidl_kDefaultOffloadAptxCapability nums))"
    "within 0x07 (xb_bitsPerSample (Hidl_kDefaultOffloadAptxCapability nums))"
    "within 0xff (xb_sampleRate (Hidl_kDefaultOffloadAptxHdCapability nums))"
    "within 0x03 (xb_channelMode (Hidl_kDefaultOffloadAptxHdCapability nums))"
    "within 0x07 (xb_bitsPerSample (Hidl_kDefaultOffloadAptxHdCapability nums))"
  using assms
  by (simp_all add: hidl_numbers_ok_def Hidl_kDefaultOffloadSbcCapability_def
      Hidl_kDefaultOffloadAacCapability_def Hidl_kDefaultOffloadLdacCapability_def
      Hidl_kDefaultOffloadAptxCapability_def Hidl_kDefaultOffloadAptxHdCapability_def)

lemmas offload_checks =
  Hidl_IsOffloadSbcConfigurationValid.simps Hidl_IsOffloadAacConfigurationValid.simps
  Hidl_IsOffloadLdacConfigurationValid.simps Hidl_IsOffloadAptxConfigurationValid.simps
  Hidl_IsOffloadAptxHdConfigurationValid.simps

lemma check_admits:
  assumes "hidl_numbers_ok nums"
  shows "Hidl_IsOffloadSbcConfigurationValid nums b
      \<Longrightarrow> capability_admits (hsbcCapabilities (Hidl_kDefaultOffloadSbcCapability nums)) b"
    "Hidl_IsOffloadAacConfigurationValid nums b
      \<Longrightarrow> capability_admits (haacCapabilities (Hidl_kDefaultOffloadAacCapability nums)) b"
    "Hidl_IsOffloadLdacConfigurationValid nums b
      \<Longrightarrow> capability_admits (hldacCapabilities (Hidl_kDefaultOffloadLdacCapability nums)) b"
    "Hidl_IsOffloadAptxConfigurationValid nums b
      \<Longrightarrow> capability_admits (haptxCapabilities (Hidl_kDefaultOffloadAptxCapability nums)) b"
    "Hidl_IsOffloadAptxHdConfigurationValid nums b
      \<Longrightarrow> capability_admits (haptxCapabilities (Hidl_kDefaultOffloadAptxHdCapability nums)) b"
  using capability_fields_within [OF assms]
  by (cases b; auto simp: Let_def offload_checks not_less split: if_splits intro!: single_bit_within)+

text \<open>whatever numbers the enumerators have (within the bits of their fields), an offload
  configuration that \<open>IsOffloadCodecConfigurationValid\<close> accepts is for the A2DP offload session,
  has a bit rate of 1 to 0xffffff, and every field the code checks holds a single value that the
  capability which \<open>GetOffloadCodecCapabilities\<close> returns for its codec advertises (with the bit
  pool of SBC inside the advertised range).\<close>

theorem offload_config_valid_is_advertised:
  assumes "hidl_numbers_ok nums" "Hidl_IsOffloadCodecConfigurationValid nums session_type cc"
  shows "session_type = HST_A2DP_HARDWARE_OFFLOAD_DATAPATH
       \<and> cb_encodedAudioBitrate cc \<noteq> 0 \<and> cb_encodedAudioBitrate cc \<le> 0xffffff
       \<and> (\<exists>cap. cap \<in> set (Hidl_GetOffloadCodecCapabilities nums session_type)
              \<and> hcap_codecType cap = cb_codecType cc \<and> capability_admits (hcap_capabilities cap) (cb_config cc))"
proof -
  have st: "session_type = HST_A2DP_HARDWARE_OFFLOAD_DATAPATH"
    and rate: "cb_encodedAudioBitrate cc \<noteq> 0" "cb_encodedAudioBitrate cc \<le> 0xffffff"
    using assms(2) by (auto simp: Hidl_IsOffloadCodecConfigurationValid_def not_less split: if_splits)
  have "capability_admits (hcap_capabilities
          (Hidl_fill_capability nums \<lparr>hcap_codecType = cb_codecType cc, hcap_capabilities = hdefaultCapabilities\<rparr>)) (cb_config cc)
      \<and> cb_codecType cc \<noteq> HCT_UNKNOWN"
    using assms(2) check_admits [OF assms(1)]
    by (auto simp: Hidl_IsOffloadCodecConfigurationValid_def Hidl_fill_capability_def Let_def
        split: if_splits HidlCodecType.splits)
  moreover have "hcap_codecType (Hidl_fill_capability nums
       \<lparr>hcap_codecType = cb_codecType cc, hcap_capabilities = hdefaultCapabilities\<rparr>) = cb_codecType cc"
    by (simp add: Hidl_fill_capability_def split: HidlCodecType.splits)
  ultimately show ?thesis
    using st rate
    by (cases "cb_codecType cc")
      (auto simp: Hidl_GetOffloadCodecCapabilities_def Hidl_kDefaultOffloadA2dpCodecCapabilities_def)
qed

definition example_numbers :: hidl_numbers where
  "example_numbers =
     \<lparr>num_rate = (\<lambda>r. case r of RATE_44100 \<Rightarrow> 1 | RATE_48000 \<Rightarrow> 2 | RATE_88200 \<Rightarrow> 4 | RATE_96000 \<Rightarrow> 8
        | RATE_176400 \<Rightarrow> 0x10 | RATE_192000 \<Rightarrow> 0x20 | RATE_16000 \<Rightarrow> 0x40 | RATE_24000 \<Rightarrow> 0x80
        | RATE_8000 \<Rightarrow> 0x100 | RATE_32000 \<Rightarrow> 0x200 | RATE_UNKNOWN \<Rightarrow> 0),
      num_channel = (\<lambda>c. case c of HCM_UNKNOWN \<Rightarrow> 0 | HCM_MONO \<Rightarrow> 1 | HCM_STEREO \<Rightarrow> 2),
      num_bits = (\<lambda>b. case b of BITS_UNKNOWN \<Rightarrow> 0 | BITS_16 \<Rightarrow> 1 | BITS_24 \<Rightarrow> 2 | BITS_32 \<Rightarrow> 4),
      num_sbc_channel = (\<lambda>c. case c of HSbcCM_UNKNOWN \<Rightarrow> 0 | HSbcCM_JOINT_STEREO \<Rightarrow> 1
        | HSbcCM_STEREO \<Rightarrow> 2 | HSbcCM_DUAL \<Rightarrow> 4 | HSbcCM_MONO \<Rightarrow> 8),
      num_sbc_blocks = (\<lambda>b. case b of BLOCKS_4 \<Rightarrow> 0x80 | BLOCKS_8 \<Rightarrow> 0x40 | BLOCKS_12 \<Rightarrow> 0x20 | BLOCKS_16 \<Rightarrow> 0x10),
      num_sbc_subbands = (\<lambda>b. case b of SUBBAND_4 \<Rightarrow> 8 | SUBBAND_8 \<Rightarrow> 4),
      num_sbc_alloc = (\<lambda>a. case a of HALLOC_MD_S \<Rightarrow> 2 | HALLOC_MD_L \<Rightarrow> 1),
      num_aac_object = (\<lambda>a. case a of HMPEG2_LC \<Rightarrow> 0x80 | HMPEG4_LC \<Rightarrow> 0x40 | HMPEG4_LTP \<Rightarrow> 0x20
        | HMPEG4_SCALABLE \<Rightarrow> 0x10),
      num_ldac_channel = (\<lambda>c. case c of HLdacCM_UNKNOWN \<Rightarrow> 0 | HLdacCM_STEREO \<Rightarrow> 1 | HLdacCM_DUAL \<Rightarrow> 2
        | HLdacCM_MONO \<Rightarrow> 4),
      num_ldac_quality = (\<lambda>q. case q of QUALITY_HIGH \<Rightarrow> 0 | QUALITY_MID \<Rightarrow> 1 | QUALITY_LOW \<Rightarrow> 2
        | QUALITY_ABR \<Rightarrow> 0x7f)\<rparr>"

lemma example_numbers_ok: "hidl_numbers_ok example_numbers"
  by (auto simp: hidl_numbers_ok_def example_numbers_def within_def split: HidlSbcChannelMode.split
      HidlSbcBlockLength.split HidlSbcNumSubbands.split HidlSbcAllocMethod.split
      HidlAacObjectType.split HidlLdacChannelMode.split BitsPerSample.split)

definition example_sbc_bits :: CodecBitsConfiguration where
  "example_sbc_bits =
     \<lparr>cb_codecType = HCT_SBC, cb_encodedAudioBitrate = 328000,
      cb_config = sbcBits \<lparr>sb_sampleRate = 1, sb_channelMode = 1, sb_blockLength = 0x10, sb_numSubbands = 4,
        sb_allocMethod = 1, sb_bitsPerSample = 1, sb_minBitpool = 2, sb_maxBitpool = 53\<rparr>\<rparr>"

lemma example_sbc_valid:
  "Hidl_IsOffloadCodecConfigurationValid example_numbers HST_A2DP_HARDWARE_OFFLOAD_DATAPATH example_sbc_bits"
  by code_simp

theorem offload_config_valid_is_advertised_witness:
  "cb_encodedAudioBitrate example_sbc_bits \<noteq> 0
   \<and> (\<exists>cap. cap \<in> set (Hidl_GetOffloadCodecCapabilities example_numbers HST_A2DP_HARDWARE_OFFLOAD_DATAPATH)
          \<and> hcap_codecType cap = HCT_SBC \<and> capability_admits (hcap_capabilities cap) (cb_config example_sbc_bits))"
  using offload_config_valid_is_advertised [OF example_numbers_ok example_sbc_valid]
  by (simp add: example_sbc_bits_def)

end
