(* ===== verification/Hal_Util.thy ===== *)
theory Hal_Util
  imports Bt_Prelude Complex_Main
begin

text \<open>
  What the wrappers of the legacy audio HAL share (\<open>src/audio/hal/Util.h\<close>,
  \<open>ParametersUtil.cpp\<close>). A legacy HAL is not in the repository: a call of it is a function on
  its state \<open>'h\<close> that returns the status first and the state last, and a function pointer that
  may be null is an option. The class \<open>AudioParameter\<close> of the media library is the parameter
  \<open>audio_parameter\<close>.
\<close>

section \<open>Results\<close>

datatype HalResult =
    Result_OK | Result_NOT_INITIALIZED | Result_INVALID_ARGUMENTS | Result_INVALID_STATE
  | Result_NOT_SUPPORTED

text \<open>The error numbers, and the statuses of \<open>utils/Errors.h\<close>, which are negated error numbers.\<close>

definition hal_EINVAL :: int where "hal_EINVAL = 22"
definition hal_ENODATA :: int where "hal_ENODATA = 61"
definition hal_ENODEV :: int where "hal_ENODEV = 19"
definition hal_ENOSYS :: int where "hal_ENOSYS = 38"
definition BAD_VALUE :: int where "BAD_VALUE = - 22"
definition INVALID_OPERATION :: int where "INVALID_OPERATION = - 38"

lemmas hal_errno_defs =
  hal_EINVAL_def hal_ENODATA_def hal_ENODEV_def hal_ENOSYS_def BAD_VALUE_def INVALID_OPERATION_def

definition analyzeStatus :: "int \<Rightarrow> HalResult" where
  "analyzeStatus status =
     (if status = 0 then Result_OK
      else if status = - hal_EINVAL then Result_INVALID_ARGUMENTS
      else if status = - hal_ENODATA then Result_INVALID_STATE
      else if status = - hal_ENODEV then Result_NOT_INITIALIZED
      else if status = - hal_ENOSYS then Result_NOT_SUPPORTED
      else Result_INVALID_STATE)"

lemma analyzeStatus_OK [simp]: "analyzeStatus status = Result_OK \<longleftrightarrow> status = 0"
  by (simp add: analyzeStatus_def)

text \<open>
  A call through a pointer that may be null, and one that is always there. The lists of
  ignored errors decide only what is logged.
\<close>

definition hal_call :: "('h \<Rightarrow> int \<times> 'h) \<Rightarrow> 'h \<Rightarrow> HalResult \<times> 'h" where
  "hal_call f h = (let (status, h) = f h in (analyzeStatus status, h))"

definition hal_optional :: "('h \<Rightarrow> int \<times> 'h) option \<Rightarrow> 'h \<Rightarrow> HalResult \<times> 'h" where
  "hal_optional f h = (case f of None \<Rightarrow> (Result_NOT_SUPPORTED, h) | Some g \<Rightarrow> hal_call g h)"

text \<open>
  A query through a pointer that may be null: the value is an out parameter with an initial
  value, which the HAL may leave alone.
\<close>

definition hal_query :: "('a \<Rightarrow> 'h \<Rightarrow> int \<times> 'a \<times> 'h) option \<Rightarrow> 'a \<Rightarrow> 'h \<Rightarrow> HalResult \<times> 'a \<times> 'h" where
  "hal_query f v h =
     (case f of None \<Rightarrow> (Result_NOT_SUPPORTED, v, h)
      | Some g \<Rightarrow> (let (status, v, h) = g v h in (analyzeStatus status, v, h)))"

section \<open>Gains\<close>

text \<open>A floating point number, as far as comparisons can tell.\<close>

datatype hal_float = Float_NaN | Float_infinity bool | Float_value rat

fun isGainNormalized :: "hal_float \<Rightarrow> bool" where
  "isGainNormalized (Float_value gain) \<longleftrightarrow> gain \<ge> 0 \<and> gain \<le> 1"
| "isGainNormalized _ \<longleftrightarrow> False"

section \<open>Versions\<close>

text \<open>The interface version a library is compiled for: \<open>MAJOR_VERSION\<close> and \<open>MINOR_VERSION\<close>.\<close>

record api_version =
  api_MAJOR :: nat
  api_MINOR :: nat

definition api_7_1 :: "api_version \<Rightarrow> bool" where
  "api_7_1 v \<longleftrightarrow> api_MAJOR v = 7 \<and> api_MINOR v = 1"

section \<open>Parameters\<close>

record 'p audio_parameter =
  ap_empty :: 'p
  ap_new :: "string \<Rightarrow> 'p"
  ap_add :: "string \<Rightarrow> string \<Rightarrow> 'p \<Rightarrow> 'p"
  ap_addInt :: "string \<Rightarrow> int \<Rightarrow> 'p \<Rightarrow> 'p"
  ap_addFloat :: "string \<Rightarrow> hal_float \<Rightarrow> 'p \<Rightarrow> 'p"
  ap_addKey :: "string \<Rightarrow> 'p \<Rightarrow> 'p"
  ap_get :: "string \<Rightarrow> 'p \<Rightarrow> int \<times> string"
  ap_getInt :: "string \<Rightarrow> int \<Rightarrow> 'p \<Rightarrow> int \<times> int"
  ap_getAt :: "nat \<Rightarrow> 'p \<Rightarrow> int \<times> string \<times> string"
  ap_size :: "'p \<Rightarrow> nat"
  ap_keysToString :: "'p \<Rightarrow> string"
  ap_toString :: "'p \<Rightarrow> string"
  ap_valueOn :: string
  ap_valueOff :: string

text \<open>The pure virtual methods of \<open>ParametersUtil\<close>, which streams and devices implement.\<close>

record 'h hal_parameters =
  halGetParameters :: "string \<Rightarrow> 'h \<Rightarrow> string option \<times> 'h"
  halSetParameters :: "string \<Rightarrow> 'h \<Rightarrow> int \<times> 'h"

definition getHalStatusToResult :: "int \<Rightarrow> HalResult" where
  "getHalStatusToResult status =
     (if status = 0 then Result_OK
      else if status = BAD_VALUE then Result_NOT_SUPPORTED
      else if status = INVALID_OPERATION then Result_INVALID_ARGUMENTS
      else Result_INVALID_ARGUMENTS)"

lemma getHalStatusToResult_OK [simp]: "getHalStatusToResult status = Result_OK \<longleftrightarrow> status = 0"
  by (simp add: getHalStatusToResult_def)

definition getParams :: "'p audio_parameter \<Rightarrow> 'h hal_parameters \<Rightarrow> 'p \<Rightarrow> 'h \<Rightarrow> 'p \<times> 'h" where
  "getParams ap hp keys h =
     (let (halValues, h) = halGetParameters hp (ap_keysToString ap keys) h
      in (ap_new ap (case halValues of Some paramsAndValues \<Rightarrow> paramsAndValues | None \<Rightarrow> ''''), h))"

definition getParam_string ::
  "'p audio_parameter \<Rightarrow> 'h hal_parameters \<Rightarrow> string \<Rightarrow> 'p \<Rightarrow> 'h \<Rightarrow> HalResult \<times> string \<times> 'h" where
  "getParam_string ap hp name context_params h =
     (let (params, h) = getParams ap hp (ap_addKey ap name context_params) h;
          (status, text_value) = ap_get ap name params
      in (getHalStatusToResult status, text_value, h))"

definition getParam_int ::
  "'p audio_parameter \<Rightarrow> 'h hal_parameters \<Rightarrow> string \<Rightarrow> int \<Rightarrow> 'h \<Rightarrow> HalResult \<times> int \<times> 'h" where
  "getParam_int ap hp name old h =
     (let (params, h) = getParams ap hp (ap_addKey ap name (ap_empty ap)) h;
          (status, v) = ap_getInt ap name old params
      in (getHalStatusToResult status, v, h))"

definition getParam_bool ::
  "'p audio_parameter \<Rightarrow> 'h hal_parameters \<Rightarrow> string \<Rightarrow> 'h \<Rightarrow> HalResult \<times> bool \<times> 'h" where
  "getParam_bool ap hp name h =
     (let (retval, halValue, h) = getParam_string ap hp name (ap_empty ap) h
      in if retval = Result_OK then
           (if halValue = '''' then (Result_NOT_SUPPORTED, False, h)
            else (retval, halValue \<noteq> ap_valueOff ap, h))
         else (retval, False, h))"

text \<open>
  The answer of \<open>getParametersImpl\<close>: the pairs up to the first one that cannot be read, in
  which case the list is emptied.
\<close>

fun getAt_loop :: "'p audio_parameter \<Rightarrow> 'p \<Rightarrow> nat list \<Rightarrow> int + (string \<times> string) list" where
  "getAt_loop ap halValues [] = Inr []"
| "getAt_loop ap halValues (i # is) =
     (let (status, halKey, halValue) = ap_getAt ap i halValues
      in if status \<noteq> 0 then Inl status
         else case getAt_loop ap halValues is of
           Inl status \<Rightarrow> Inl status
         | Inr result \<Rightarrow> Inr ((halKey, halValue) # result))"

definition add_pairs :: "'p audio_parameter \<Rightarrow> (string \<times> string) list \<Rightarrow> 'p \<Rightarrow> 'p" where
  "add_pairs ap pairs p = fold (\<lambda>(k, v). ap_add ap k v) pairs p"

definition getParametersImpl ::
  "'p audio_parameter \<Rightarrow> 'h hal_parameters \<Rightarrow> (string \<times> string) list \<Rightarrow> string list \<Rightarrow> 'h
     \<Rightarrow> HalResult \<times> (string \<times> string) list \<times> 'h" where
  "getParametersImpl ap hp context_params keys h =
     (let halKeys = fold (ap_addKey ap) keys (add_pairs ap context_params (ap_empty ap));
          (halValues, h) = getParams ap hp halKeys h;
          retval = (if keys = [] \<or> ap_size ap halValues \<noteq> 0 then Result_OK else Result_NOT_SUPPORTED)
      in case getAt_loop ap halValues [0..<ap_size ap halValues] of
           Inl status \<Rightarrow> (getHalStatusToResult status, [], h)
         | Inr result \<Rightarrow> (retval, result, h))"

definition setParams :: "'p audio_parameter \<Rightarrow> 'h hal_parameters \<Rightarrow> 'p \<Rightarrow> 'h \<Rightarrow> HalResult \<times> 'h" where
  "setParams ap hp param = hal_call (halSetParameters hp (ap_toString ap param))"

definition setParam_string ::
  "'p audio_parameter \<Rightarrow> 'h hal_parameters \<Rightarrow> string \<Rightarrow> string \<Rightarrow> 'h \<Rightarrow> HalResult \<times> 'h" where
  "setParam_string ap hp name v = setParams ap hp (ap_add ap name v (ap_empty ap))"

definition setParam_bool ::
  "'p audio_parameter \<Rightarrow> 'h hal_parameters \<Rightarrow> string \<Rightarrow> bool \<Rightarrow> 'h \<Rightarrow> HalResult \<times> 'h" where
  "setParam_bool ap hp name v =
     setParams ap hp (ap_add ap name (if v then ap_valueOn ap else ap_valueOff ap) (ap_empty ap))"

definition setParam_int ::
  "'p audio_parameter \<Rightarrow> 'h hal_parameters \<Rightarrow> string \<Rightarrow> int \<Rightarrow> 'h \<Rightarrow> HalResult \<times> 'h" where
  "setParam_int ap hp name v = setParams ap hp (ap_addInt ap name v (ap_empty ap))"

definition setParam_float ::
  "'p audio_parameter \<Rightarrow> 'h hal_parameters \<Rightarrow> string \<Rightarrow> hal_float \<Rightarrow> 'h \<Rightarrow> HalResult \<times> 'h" where
  "setParam_float ap hp name v = setParams ap hp (ap_addFloat ap name v (ap_empty ap))"

definition setParametersImpl ::
  "'p audio_parameter \<Rightarrow> 'h hal_parameters \<Rightarrow> (string \<times> string) list \<Rightarrow> (string \<times> string) list \<Rightarrow> 'h
     \<Rightarrow> HalResult \<times> 'h" where
  "setParametersImpl ap hp context_params parameters =
     setParams ap hp (add_pairs ap parameters (add_pairs ap context_params (ap_empty ap)))"

text \<open>
  A device address is converted by the interface's utilities (\<open>to_hal\<close>), to the type of the
  device and the string of its address.
\<close>

definition setParam_address ::
  "'p audio_parameter \<Rightarrow> 'h hal_parameters \<Rightarrow> ('a \<Rightarrow> int + (int \<times> string)) \<Rightarrow> string \<Rightarrow> 'a \<Rightarrow> 'h
     \<Rightarrow> HalResult \<times> 'h" where
  "setParam_address ap hp to_hal name address h =
     (case to_hal address of
        Inl _ \<Rightarrow> (Result_INVALID_ARGUMENTS, h)
      | Inr (halDeviceType, halDeviceAddress) \<Rightarrow>
          setParams ap hp (ap_addInt ap name halDeviceType (ap_new ap halDeviceAddress)) h)"

end
