(* ===== verification/Hal_Stream.thy ===== *)
theory Hal_Stream
  imports Hal_Util
begin

text \<open>
  The part that input and output streams share (\<open>src/audio/hal/Stream.cpp\<close>, \<open>Stream.h\<close>): the
  class \<open>Stream\<close> over the common functions of a legacy stream, and the template \<open>StreamMmap\<close>.
  Methods that exist for some interface versions only have the versions in their comment.
\<close>

section \<open>The legacy stream and the conversions\<close>

record 'h audio_stream =
  as_get_sample_rate :: "'h \<Rightarrow> u32"
  as_get_buffer_size :: "'h \<Rightarrow> u64"
  as_get_channels :: "'h \<Rightarrow> u32"
  as_get_format :: "'h \<Rightarrow> u32"
  as_standby :: "'h \<Rightarrow> int \<times> 'h"
  as_dump :: "int \<Rightarrow> 'h \<Rightarrow> int \<times> 'h"
  as_parameters :: "'h hal_parameters"
  as_add_audio_effect :: "nat \<Rightarrow> 'h \<Rightarrow> int \<times> 'h"
  as_remove_audio_effect :: "nat \<Rightarrow> 'h \<Rightarrow> int \<times> 'h"

text \<open>
  The conversions between interface types and legacy types, by the names of the interface's
  utilities: \<^term>\<open>Inl\<close> is an error status. \<open>'a\<close> is a device address, \<open>'b\<close> a basic audio
  configuration, \<open>'f\<close> a format, \<open>'m\<close> a channel mask. The keys are those of the media library.
\<close>

record hal_config_base =
  hcb_sample_rate :: u32
  hcb_channel_mask :: u32
  hcb_format :: u32

record hal_config_options =
  hco_config :: hal_config_base
  hco_formatSpecified :: bool
  hco_sRateSpecified :: bool
  hco_channelMaskSpecified :: bool

record ('a, 'b, 'f, 'm) stream_conversions =
  cv_deviceAddressToHal :: "'a \<Rightarrow> int + (int \<times> string)"
  cv_deviceAddressFromHal :: "int \<Rightarrow> int + 'a"
  cv_noAddress :: 'a
  cv_audioConfigBaseFromHal :: "hal_config_base \<Rightarrow> bool \<Rightarrow> int \<times> 'b"
  cv_audioConfigBaseOptionalToHal :: "'b \<Rightarrow> int + hal_config_options"
  cv_audioFormatsFromHal :: "string list \<Rightarrow> 'f list"
  cv_audioFormatToHal :: "'f \<Rightarrow> int + int"
  cv_audioChannelMasksFromHal :: "string list \<Rightarrow> 'm list"
  cv_splitString :: "string \<Rightarrow> char \<Rightarrow> string list"
  cv_listSeparator :: char
  cv_samplingRatesFromString :: "string \<Rightarrow> u32 list"
  cv_channelMasksFromString :: "string \<Rightarrow> u32 list"
  cv_formatsFromString :: "string \<Rightarrow> u32 list"

record stream_keys =
  keyFrameCount :: string
  keySamplingRate :: string
  keyChannels :: string
  keyFormat :: string
  keyRouting :: string
  keyStreamHwAvSync :: string
  keyStreamSupportedFormats :: string
  keyStreamSupportedSamplingRates :: string
  keyStreamSupportedChannels :: string
  keyDeviceConnect :: string
  keyDeviceDisconnect :: string
  keyStreamFormat :: string

record ('p, 'a, 'b, 'f, 'm) stream_env =
  sv_ap :: "'p audio_parameter"
  sv_cv :: "('a, 'b, 'f, 'm) stream_conversions"
  sv_keys :: stream_keys
  sv_effects :: "u64 \<Rightarrow> nat option"

record 'h Stream =
  st_mIsInput :: bool
  st_mStream :: "'h audio_stream"

abbreviation st_params :: "'h Stream \<Rightarrow> 'h hal_parameters" where
  "st_params s \<equiv> as_parameters (st_mStream s)"

definition MAX_BUFFER_SIZE :: u32 where "MAX_BUFFER_SIZE = push_bit 30 2"

section \<open>Plain queries and settings\<close>

text \<open>A C++ \<open>int\<close> that becomes an unsigned value of 64 bits, and an unsigned value read as \<open>int\<close>.\<close>

definition Stream_getFrameCount ::
  "('p, 'a, 'b, 'f, 'm) stream_env \<Rightarrow> int \<Rightarrow> 'h Stream \<Rightarrow> 'h \<Rightarrow> u64 \<times> 'h" where
  "Stream_getFrameCount e junk s h =
     (let (retval, halFrameCount, h) = getParam_int (sv_ap e) (st_params s) (keyFrameCount (sv_keys e)) junk h
      in (if retval = Result_OK then word_of_int halFrameCount else 0, h))"

definition Stream_getBufferSize :: "'h Stream \<Rightarrow> 'h \<Rightarrow> u64" where
  "Stream_getBufferSize s h = as_get_buffer_size (st_mStream s) h"

definition Stream_getSampleRate :: "'h Stream \<Rightarrow> 'h \<Rightarrow> u32" where
  "Stream_getSampleRate s h = as_get_sample_rate (st_mStream s) h"

definition Stream_getChannelMask :: "'h Stream \<Rightarrow> 'h \<Rightarrow> u32" where
  "Stream_getChannelMask s h = as_get_channels (st_mStream s) h"

definition Stream_getFormat :: "'h Stream \<Rightarrow> 'h \<Rightarrow> u32" where
  "Stream_getFormat s h = as_get_format (st_mStream s) h"

definition Stream_setSampleRate ::
  "('p, 'a, 'b, 'f, 'm) stream_env \<Rightarrow> u32 \<Rightarrow> 'h Stream \<Rightarrow> 'h \<Rightarrow> HalResult \<times> 'h" where
  "Stream_setSampleRate e sampleRateHz s =
     setParam_int (sv_ap e) (st_params s) (keySamplingRate (sv_keys e)) (sint sampleRateHz)"

definition Stream_setChannelMask ::
  "('p, 'a, 'b, 'f, 'm) stream_env \<Rightarrow> u32 \<Rightarrow> 'h Stream \<Rightarrow> 'h \<Rightarrow> HalResult \<times> 'h" where
  "Stream_setChannelMask e mask_bits s =
     setParam_int (sv_ap e) (st_params s) (keyChannels (sv_keys e)) (sint mask_bits)"

definition Stream_setFormat ::
  "('p, 'a, 'b, 'f, 'm) stream_env \<Rightarrow> u32 \<Rightarrow> 'h Stream \<Rightarrow> 'h \<Rightarrow> HalResult \<times> 'h" where
  "Stream_setFormat e format s =
     setParam_int (sv_ap e) (st_params s) (keyFormat (sv_keys e)) (sint format)"

definition Stream_setHwAvSync ::
  "('p, 'a, 'b, 'f, 'm) stream_env \<Rightarrow> u32 \<Rightarrow> 'h Stream \<Rightarrow> 'h \<Rightarrow> HalResult \<times> 'h" where
  "Stream_setHwAvSync e hwAvSync s =
     setParam_int (sv_ap e) (st_params s) (keyStreamHwAvSync (sv_keys e)) (sint hwAvSync)"

definition Stream_standby :: "'h Stream \<Rightarrow> 'h \<Rightarrow> HalResult \<times> 'h" where
  "Stream_standby s = hal_call (as_standby (st_mStream s))"

definition Stream_addEffect ::
  "('p, 'a, 'b, 'f, 'm) stream_env \<Rightarrow> u64 \<Rightarrow> 'h Stream \<Rightarrow> 'h \<Rightarrow> HalResult \<times> 'h" where
  "Stream_addEffect e effectId s h =
     (case sv_effects e effectId of
        Some halEffect \<Rightarrow> hal_call (as_add_audio_effect (st_mStream s) halEffect) h
      | None \<Rightarrow> (Result_INVALID_ARGUMENTS, h))"

definition Stream_removeEffect ::
  "('p, 'a, 'b, 'f, 'm) stream_env \<Rightarrow> u64 \<Rightarrow> 'h Stream \<Rightarrow> 'h \<Rightarrow> HalResult \<times> 'h" where
  "Stream_removeEffect e effectId s h =
     (case sv_effects e effectId of
        Some halEffect \<Rightarrow> hal_call (as_remove_audio_effect (st_mStream s) halEffect) h
      | None \<Rightarrow> (Result_INVALID_ARGUMENTS, h))"

text \<open>The file descriptor of the handle, when the handle has exactly one.\<close>

definition Stream_debug :: "int list option \<Rightarrow> 'h Stream \<Rightarrow> 'h \<Rightarrow> 'h" where
  "Stream_debug fd s h =
     (case fd of Some [fd0] \<Rightarrow> snd (hal_call (as_dump (st_mStream s) fd0) h) | _ \<Rightarrow> h)"

section \<open>Supported values, up to version 6\<close>

text \<open>
  The three queries have one shape: the answer of the HAL is a string that the media library
  splits, and an empty list counts as not supported.
\<close>

definition supported_values ::
  "('p, 'a, 'b, 'f, 'm) stream_env \<Rightarrow> string \<Rightarrow> 'p \<Rightarrow> (string \<Rightarrow> u32 list) \<Rightarrow> 'h Stream \<Rightarrow> 'h
     \<Rightarrow> HalResult \<times> u32 list \<times> 'h" where
  "supported_values e key context_params parse s h =
     (let (retval, halListValue, h) = getParam_string (sv_ap e) (st_params s) key context_params h
      in if retval = Result_OK then
           (let found = parse halListValue
            in (if found = [] then Result_NOT_SUPPORTED else retval, found, h))
         else (retval, [], h))"

definition Stream_getSupportedSampleRates ::
  "('p, 'a, 'b, 'f, 'm) stream_env \<Rightarrow> u32 \<Rightarrow> 'h Stream \<Rightarrow> 'h \<Rightarrow> HalResult \<times> u32 list \<times> 'h" where
  "Stream_getSupportedSampleRates e format =
     supported_values e (keyStreamSupportedSamplingRates (sv_keys e))
       (ap_addInt (sv_ap e) (keyStreamFormat (sv_keys e)) (sint format) (ap_empty (sv_ap e)))
       (cv_samplingRatesFromString (sv_cv e))"

definition Stream_getSupportedChannelMasks ::
  "('p, 'a, 'b, 'f, 'm) stream_env \<Rightarrow> u32 \<Rightarrow> 'h Stream \<Rightarrow> 'h \<Rightarrow> HalResult \<times> u32 list \<times> 'h" where
  "Stream_getSupportedChannelMasks e format =
     supported_values e (keyStreamSupportedChannels (sv_keys e))
       (ap_addInt (sv_ap e) (keyStreamFormat (sv_keys e)) (sint format) (ap_empty (sv_ap e)))
       (cv_channelMasksFromString (sv_cv e))"

definition Stream_getSupportedFormats ::
  "('p, 'a, 'b, 'f, 'm) stream_env \<Rightarrow> 'h Stream \<Rightarrow> 'h \<Rightarrow> HalResult \<times> u32 list \<times> 'h" where
  "Stream_getSupportedFormats e =
     supported_values e (keyStreamSupportedFormats (sv_keys e)) (ap_empty (sv_ap e))
       (cv_formatsFromString (sv_cv e))"

definition Stream_getAudioProperties_6 :: "'h Stream \<Rightarrow> 'h \<Rightarrow> u32 \<times> u32 \<times> u32" where
  "Stream_getAudioProperties_6 s h =
     (as_get_sample_rate (st_mStream s) h, as_get_channels (st_mStream s) h, as_get_format (st_mStream s) h)"

section \<open>Profiles, from version 7\<close>

record ('f, 'm) AudioProfile =
  ap_format :: 'f
  ap_sampleRates :: "u32 list"
  ap_channelMasks :: "'m list"

text \<open>
  \<open>std::stoi\<close> in base ten: blanks, an optional sign, and the longest run of digits; it throws
  (\<^term>\<open>None\<close>) without a digit and for a number that is no \<open>int\<close>.
\<close>

definition is_digit :: "char \<Rightarrow> bool" where "is_digit c \<longleftrightarrow> (48 :: nat) \<le> of_char c \<and> (of_char c :: nat) \<le> 57"
definition is_blank :: "char \<Rightarrow> bool" where "is_blank c \<longleftrightarrow> c \<in> {CHR '' '', CHR 0x09, CHR 0x0A, CHR 0x0B, CHR 0x0C, CHR 0x0D}"

definition digits_value :: "string \<Rightarrow> int" where
  "digits_value ds = fold (\<lambda>c n. 10 * n + (of_char c - 48)) ds 0"

definition stoi :: "string \<Rightarrow> int option" where
  "stoi text_value =
     (let rest = dropWhile is_blank text_value;
          negative = (case rest of c # _ \<Rightarrow> c = CHR ''-'' | [] \<Rightarrow> False);
          unsigned_part = (case rest of c # cs \<Rightarrow> if c = CHR ''-'' \<or> c = CHR ''+'' then cs else rest | [] \<Rightarrow> []);
          ds = takeWhile is_digit unsigned_part;
          n = (if negative then - digits_value ds else digits_value ds)
      in if ds = [] \<or> n < - (2 ^ 31) \<or> n > 2 ^ 31 - 1 then None else Some n)"

text \<open>
  One round of the loop over the formats: a failing query ends the loop with its result
  (\<^term>\<open>Inl\<close>), and a rate that is no number ends the process (\<^term>\<open>None\<close>).
\<close>

definition profile_of_format ::
  "('p, 'a, 'b, 'f, 'm) stream_env \<Rightarrow> 'h Stream \<Rightarrow> 'f \<Rightarrow> int \<Rightarrow> 'h
     \<Rightarrow> ((HalResult + ('f, 'm) AudioProfile list) \<times> 'h) option" where
  "profile_of_format e s format halFormat h =
     (let ap = sv_ap e; cv = sv_cv e;
          context_params = ap_addInt ap (keyStreamFormat (sv_keys e)) halFormat (ap_empty ap);
          (retval, halListValue, h) =
            getParam_string ap (st_params s) (keyStreamSupportedSamplingRates (sv_keys e)) context_params h
      in if retval \<noteq> Result_OK then Some (Inl retval, h)
         else let sampleRates = map stoi (cv_splitString cv halListValue (cv_listSeparator cv))
         in if None \<in> set sampleRates then None
         else let (retval, halListValue, h) =
                getParam_string ap (st_params s) (keyStreamSupportedChannels (sv_keys e)) context_params h
         in if retval \<noteq> Result_OK then Some (Inl retval, h)
         else let channelMasks =
                cv_audioChannelMasksFromHal cv (cv_splitString cv halListValue (cv_listSeparator cv))
         in Some (Inr (if channelMasks \<noteq> [] \<and> sampleRates \<noteq> [] then
                     [\<lparr>ap_format = format, ap_sampleRates = map (word_of_int \<circ> the) sampleRates,
                       ap_channelMasks = channelMasks\<rparr>]
                   else []), h))"

fun profiles_loop ::
  "('p, 'a, 'b, 'f, 'm) stream_env \<Rightarrow> 'h Stream \<Rightarrow> 'f list \<Rightarrow> HalResult \<Rightarrow> 'h
     \<Rightarrow> (HalResult \<times> ('f, 'm) AudioProfile list \<times> 'h) option" where
  "profiles_loop e s [] retval h = Some (retval, [], h)"
| "profiles_loop e s (format # formats) retval h =
     (case cv_audioFormatToHal (sv_cv e) format of
        Inl _ \<Rightarrow> profiles_loop e s formats retval h
      | Inr halFormat \<Rightarrow>
          (case profile_of_format e s format halFormat h of
             None \<Rightarrow> None
           | Some (Inl retval, h) \<Rightarrow> Some (retval, [], h)
           | Some (Inr profile, h) \<Rightarrow>
               map_option (\<lambda>(retval, profiles, h). (retval, profile @ profiles, h))
                 (profiles_loop e s formats Result_OK h)))"

definition Stream_getSupportedProfiles ::
  "('p, 'a, 'b, 'f, 'm) stream_env \<Rightarrow> 'h Stream \<Rightarrow> 'h
     \<Rightarrow> (HalResult \<times> ('f, 'm) AudioProfile list \<times> 'h) option" where
  "Stream_getSupportedProfiles e s h =
     (let ap = sv_ap e; cv = sv_cv e;
          (retval, halListValue, h) =
            getParam_string ap (st_params s) (keyStreamSupportedFormats (sv_keys e)) (ap_empty ap) h
      in if retval \<noteq> Result_OK then Some (retval, [], h)
         else let formats = cv_audioFormatsFromHal cv (cv_splitString cv halListValue (cv_listSeparator cv))
         in map_option (\<lambda>(retval, profiles, h).
                if profiles \<noteq> [] then (retval, profiles, h) else (Result_NOT_SUPPORTED, [], h))
              (profiles_loop e s formats retval h))"

definition Stream_getAudioProperties ::
  "('p, 'a, 'b, 'f, 'm) stream_env \<Rightarrow> 'h Stream \<Rightarrow> 'h \<Rightarrow> HalResult \<times> 'b" where
  "Stream_getAudioProperties e s h =
     (let (status, configBase) = cv_audioConfigBaseFromHal (sv_cv e)
            \<lparr>hcb_sample_rate = as_get_sample_rate (st_mStream s) h,
             hcb_channel_mask = as_get_channels (st_mStream s) h,
             hcb_format = as_get_format (st_mStream s) h\<rparr> (st_mIsInput s)
      in (analyzeStatus status, configBase))"

text \<open>A setting that is specified; the first one that fails ends the method.\<close>

definition set_if :: "bool \<Rightarrow> ('h \<Rightarrow> HalResult \<times> 'h) \<Rightarrow> ('h \<Rightarrow> HalResult \<times> 'h) \<Rightarrow> 'h \<Rightarrow> HalResult \<times> 'h" where
  "set_if specified setting rest h =
     (if specified then
        (let (retval, h) = setting h in if retval \<noteq> Result_OK then (retval, h) else rest h)
      else rest h)"

definition Stream_setAudioProperties ::
  "('p, 'a, 'b, 'f, 'm) stream_env \<Rightarrow> 'b \<Rightarrow> 'h Stream \<Rightarrow> 'h \<Rightarrow> HalResult \<times> 'h" where
  "Stream_setAudioProperties e config s h =
     (case cv_audioConfigBaseOptionalToHal (sv_cv e) config of
        Inl status \<Rightarrow> (analyzeStatus status, h)
      | Inr specified \<Rightarrow>
         (let c = hco_config specified
          in set_if (hco_sRateSpecified specified) (Stream_setSampleRate e (hcb_sample_rate c) s)
              (set_if (hco_channelMaskSpecified specified) (Stream_setChannelMask e (hcb_channel_mask c) s)
                (set_if (hco_formatSpecified specified) (Stream_setFormat e (hcb_format c) s)
                  (\<lambda>h. (Result_OK, h)))) h))"

section \<open>Devices and parameters\<close>

text \<open>Version 2; the type of the device is returned as it is.\<close>

definition Stream_getDevice ::
  "('p, 'a, 'b, 'f, 'm) stream_env \<Rightarrow> 'h Stream \<Rightarrow> 'h \<Rightarrow> int \<times> 'h" where
  "Stream_getDevice e s h =
     (let (retval, device, h) = getParam_int (sv_ap e) (st_params s) (keyRouting (sv_keys e)) 0 h
      in (if retval = Result_OK then device else 0, h))"

definition Stream_setDevice ::
  "('p, 'a, 'b, 'f, 'm) stream_env \<Rightarrow> 'a \<Rightarrow> 'h Stream \<Rightarrow> 'h \<Rightarrow> HalResult \<times> 'h" where
  "Stream_setDevice e address s =
     setParam_address (sv_ap e) (st_params s) (cv_deviceAddressToHal (sv_cv e)) (keyRouting (sv_keys e)) address"

definition Stream_setConnectedState ::
  "('p, 'a, 'b, 'f, 'm) stream_env \<Rightarrow> 'a \<Rightarrow> bool \<Rightarrow> 'h Stream \<Rightarrow> 'h \<Rightarrow> HalResult \<times> 'h" where
  "Stream_setConnectedState e address is_connected s =
     setParam_address (sv_ap e) (st_params s) (cv_deviceAddressToHal (sv_cv e))
       (if is_connected then keyDeviceConnect (sv_keys e) else keyDeviceDisconnect (sv_keys e)) address"

text \<open>From version 4.\<close>

definition Stream_getDevices ::
  "('p, 'a, 'b, 'f, 'm) stream_env \<Rightarrow> 'h Stream \<Rightarrow> 'h \<Rightarrow> HalResult \<times> 'a list \<times> 'h" where
  "Stream_getDevices e s h =
     (let (retval, halDevice, h) = getParam_int (sv_ap e) (st_params s) (keyRouting (sv_keys e)) 0 h
      in if retval = Result_OK then
           (case cv_deviceAddressFromHal (sv_cv e) halDevice of
              Inl status \<Rightarrow> (analyzeStatus status, [cv_noAddress (sv_cv e)], h)
            | Inr address \<Rightarrow> (Result_OK, [address], h))
         else (retval, [], h))"

definition Stream_setDevices ::
  "('p, 'a, 'b, 'f, 'm) stream_env \<Rightarrow> 'a list \<Rightarrow> 'h Stream \<Rightarrow> 'h \<Rightarrow> HalResult \<times> 'h" where
  "Stream_setDevices e devices s h =
     (if length devices > 1 then (Result_NOT_SUPPORTED, h)
      else let address = (case devices of [a] \<Rightarrow> a | _ \<Rightarrow> cv_noAddress (sv_cv e))
      in setParam_address (sv_ap e) (st_params s) (cv_deviceAddressToHal (sv_cv e)) (keyRouting (sv_keys e)) address h)"

definition Stream_getParameters ::
  "('p, 'a, 'b, 'f, 'm) stream_env \<Rightarrow> (string \<times> string) list \<Rightarrow> string list \<Rightarrow> 'h Stream \<Rightarrow> 'h
     \<Rightarrow> HalResult \<times> (string \<times> string) list \<times> 'h" where
  "Stream_getParameters e context_params keys s =
     getParametersImpl (sv_ap e) (st_params s) context_params keys"

definition Stream_setParameters ::
  "('p, 'a, 'b, 'f, 'm) stream_env \<Rightarrow> (string \<times> string) list \<Rightarrow> (string \<times> string) list \<Rightarrow> 'h Stream \<Rightarrow> 'h
     \<Rightarrow> HalResult \<times> 'h" where
  "Stream_setParameters e context_params parameters s =
     setParametersImpl (sv_ap e) (st_params s) context_params parameters"

section \<open>Memory-mapped streams\<close>

record mmap_hal_buffer =
  mh_shared_memory_fd :: int
  mh_buffer_size_frames :: int
  mh_burst_size_frames :: int
  mh_flags :: u32

record 'h mmap_stream =
  mm_start :: "('h \<Rightarrow> int \<times> 'h) option"
  mm_stop :: "('h \<Rightarrow> int \<times> 'h) option"
  mm_create_mmap_buffer :: "(int \<Rightarrow> 'h \<Rightarrow> int \<times> mmap_hal_buffer \<times> 'h) option"
  mm_get_mmap_position :: "('h \<Rightarrow> int \<times> (int \<times> int) \<times> 'h) option"

record MmapBufferInfo =
  mb_sharedMemory :: "(int \<times> u64) option"
  mb_flags :: u32
  mb_bufferSizeFrames :: u32
  mb_burstSizeFrames :: u32

definition MmapBufferInfo_default :: MmapBufferInfo where
  "MmapBufferInfo_default = \<lparr>mb_sharedMemory = None, mb_flags = 0, mb_bufferSizeFrames = 0, mb_burstSizeFrames = 0\<rparr>"

definition StreamMmap_start :: "'h mmap_stream \<Rightarrow> 'h \<Rightarrow> HalResult \<times> 'h" where
  "StreamMmap_start s = hal_optional (mm_start s)"

definition StreamMmap_stop :: "'h mmap_stream \<Rightarrow> 'h \<Rightarrow> HalResult \<times> 'h" where
  "StreamMmap_stop s = hal_optional (mm_stop s)"

text \<open>
  \<open>shareable\<close> is the bit \<open>AUDIO_MMAP_APPLICATION_SHAREABLE\<close>, which is also the interface's flag.
  The absolute value of the least \<open>int\<close> is undefined: the method is then \<^term>\<open>None\<close>.
\<close>

definition mmap_info ::
  "api_version \<Rightarrow> u32 \<Rightarrow> u64 \<Rightarrow> mmap_hal_buffer \<Rightarrow> MmapBufferInfo" where
  "mmap_info v shareable frameSize halInfo =
     (let applicationShareable = (mh_flags halInfo AND shareable \<noteq> 0 \<or> mh_buffer_size_frames halInfo < 0);
          frames = \<bar>mh_buffer_size_frames halInfo\<bar>
      in \<lparr>mb_sharedMemory = Some (mh_shared_memory_fd halInfo, frameSize * word_of_int frames),
          mb_flags = (if api_MAJOR v = 2 then 0
                      else mh_flags halInfo OR (if applicationShareable then shareable else 0)),
          mb_bufferSizeFrames =
            word_of_int (if api_MAJOR v = 2 \<and> applicationShareable then - frames else frames),
          mb_burstSizeFrames = word_of_int (mh_burst_size_frames halInfo)\<rparr>)"

definition StreamMmap_createMmapBuffer ::
  "api_version \<Rightarrow> u32 \<Rightarrow> int \<Rightarrow> u64 \<Rightarrow> 'h mmap_stream \<Rightarrow> 'h \<Rightarrow> (HalResult \<times> MmapBufferInfo \<times> 'h) option" where
  "StreamMmap_createMmapBuffer v shareable minSizeFrames frameSize s h =
     (case mm_create_mmap_buffer s of
        None \<Rightarrow> Some (Result_NOT_SUPPORTED, MmapBufferInfo_default, h)
      | Some create \<Rightarrow>
          if minSizeFrames \<le> 0 then Some (Result_INVALID_ARGUMENTS, MmapBufferInfo_default, h)
          else let (status, halInfo, h) = create minSizeFrames h; retval = analyzeStatus status
          in if retval \<noteq> Result_OK then Some (retval, MmapBufferInfo_default, h)
             else if mh_buffer_size_frames halInfo = - (2 ^ 31) then None
             else Some (retval, mmap_info v shareable frameSize halInfo, h))"

definition StreamMmap_getMmapPosition :: "'h mmap_stream \<Rightarrow> 'h \<Rightarrow> HalResult \<times> (int \<times> int) option \<times> 'h" where
  "StreamMmap_getMmapPosition s h =
     (case mm_get_mmap_position s of
        None \<Rightarrow> (Result_NOT_SUPPORTED, None, h)
      | Some get_position \<Rightarrow>
         (let (status, halPosition, h) = get_position h; retval = analyzeStatus status
          in (retval, if retval = Result_OK then Some halPosition else None, h)))"

end
