(* ===== verification/Hal_Device_State.thy ===== *)
theory Hal_Device_State
  imports Hal_Stream
begin

text \<open>
  The members of the class \<open>Device\<close> (\<open>src/audio/hal/Device.h\<close>) and the operations on them
  that streams use: a device counts its open streams and can be closed without any. The
  message queues of the streams and their event flags are those of the library \<open>libfmq\<close>, parameters.
\<close>

section \<open>The legacy device, as far as closing goes\<close>

text \<open>A legacy stream is known to its device by a handle.\<close>

record 'h hal_device =
  hd_version :: u32
  hd_close :: "'h \<Rightarrow> int \<times> 'h"
  hd_close_output_stream :: "nat \<Rightarrow> 'h \<Rightarrow> 'h"
  hd_close_input_stream :: "nat \<Rightarrow> 'h \<Rightarrow> 'h"

record Device =
  dev_mIsClosed :: bool
  dev_mOpenedStreamsCount :: int

definition Device_new :: Device where
  "Device_new = \<lparr>dev_mIsClosed = False, dev_mOpenedStreamsCount = 0\<rparr>"

text \<open>The process aborts (\<^term>\<open>None\<close>) when no stream is counted.\<close>

definition Device_closeOutputStream ::
  "('h, 'z) hal_device_scheme \<Rightarrow> nat \<Rightarrow> Device \<Rightarrow> 'h \<Rightarrow> (Device \<times> 'h) option" where
  "Device_closeOutputStream hw stream d h =
     (let h = hd_close_output_stream hw stream h
      in if dev_mOpenedStreamsCount d = 0 then None
         else Some (d\<lparr>dev_mOpenedStreamsCount := dev_mOpenedStreamsCount d - 1\<rparr>, h))"

definition Device_closeInputStream ::
  "('h, 'z) hal_device_scheme \<Rightarrow> nat \<Rightarrow> Device \<Rightarrow> 'h \<Rightarrow> (Device \<times> 'h) option" where
  "Device_closeInputStream hw stream d h =
     (let h = hd_close_input_stream hw stream h
      in if dev_mOpenedStreamsCount d = 0 then None
         else Some (d\<lparr>dev_mOpenedStreamsCount := dev_mOpenedStreamsCount d - 1\<rparr>, h))"

definition Device_doClose :: "('h, 'z) hal_device_scheme \<Rightarrow> Device \<Rightarrow> 'h \<Rightarrow> HalResult \<times> Device \<times> 'h" where
  "Device_doClose hw d h =
     (if dev_mIsClosed d \<or> dev_mOpenedStreamsCount d \<noteq> 0 then (Result_INVALID_STATE, d, h)
      else let d = d\<lparr>dev_mIsClosed := True\<rparr>; (retval, h) = hal_call (hd_close hw) h
      in (retval, d, h))"

section \<open>Message queues\<close>

text \<open>
  The functions of a message queue of items \<open>'a\<close> with the state \<open>'q\<close>. Reading and writing
  take all the items asked for, or fail.
\<close>

record ('q, 'a) fmq =
  fmq_availableToRead :: "'q \<Rightarrow> nat"
  fmq_availableToWrite :: "'q \<Rightarrow> nat"
  fmq_read :: "nat \<Rightarrow> 'q \<Rightarrow> ('a list \<times> 'q) option"
  fmq_write :: "'a list \<Rightarrow> 'q \<Rightarrow> 'q option"

definition fmq_read1 :: "('q, 'a) fmq \<Rightarrow> 'q \<Rightarrow> ('a \<times> 'q) option" where
  "fmq_read1 mq q = (case fmq_read mq 1 q of Some (x # _, q) \<Rightarrow> Some (x, q) | _ \<Rightarrow> None)"

text \<open>
  The documented behaviour: a queue holds at most \<open>cap\<close> items, in order. \<open>items\<close> reads off
  what it holds.
\<close>

definition fifo :: "('q, 'a) fmq \<Rightarrow> ('q \<Rightarrow> 'a list) \<Rightarrow> bool" where
  "fifo mq items \<longleftrightarrow>
     (\<forall>q. fmq_availableToRead mq q = length (items q))
   \<and> (\<forall>n q. case fmq_read mq n q of
        None \<Rightarrow> length (items q) < n
      | Some (xs, q') \<Rightarrow> items q = xs @ items q' \<and> length xs = n
          \<and> fmq_availableToWrite mq q' = fmq_availableToWrite mq q + n)
   \<and> (\<forall>xs q. case fmq_write mq xs q of
        None \<Rightarrow> fmq_availableToWrite mq q < length xs
      | Some q' \<Rightarrow> items q' = items q @ xs \<and> fmq_availableToWrite mq q = fmq_availableToWrite mq q' + length xs)"

lemma fifo_available: "fifo mq items \<Longrightarrow> fmq_availableToRead mq q = length (items q)"
  by (simp add: fifo_def)

lemma fifo_read:
  assumes "fifo mq items" "fmq_read mq n q = Some (xs, q')"
  shows "items q = xs @ items q'" "length xs = n" "fmq_availableToWrite mq q' = fmq_availableToWrite mq q + n"
  using assms unfolding fifo_def by (metis (mono_tags, lifting) option.case(2) prod.case)+

lemma fifo_read_None: "fifo mq items \<Longrightarrow> fmq_read mq n q = None \<Longrightarrow> length (items q) < n"
  unfolding fifo_def by (metis (mono_tags, lifting) option.case(1))

lemma fifo_write:
  assumes "fifo mq items" "fmq_write mq xs q = Some q'"
  shows "items q' = items q @ xs" "fmq_availableToWrite mq q = fmq_availableToWrite mq q' + length xs"
  using assms unfolding fifo_def by (metis (mono_tags, lifting) option.case(2))+

lemma fifo_write_None: "fifo mq items \<Longrightarrow> fmq_write mq xs q = None \<Longrightarrow> fmq_availableToWrite mq q < length xs"
  unfolding fifo_def by (metis (mono_tags, lifting) option.case(1))

lemma fifo_read1:
  assumes "fifo mq items" "fmq_read1 mq q = Some (x, q')"
  shows "items q = x # items q'" "fmq_availableToWrite mq q' = fmq_availableToWrite mq q + 1"
proof -
  from assms(2) obtain xs where r: "fmq_read mq 1 q = Some (x # xs, q')"
    unfolding fmq_read1_def by (auto split: option.splits list.splits)
  show "items q = x # items q'" "fmq_availableToWrite mq q' = fmq_availableToWrite mq q + 1"
    using fifo_read [OF assms(1) r] by auto
qed

lemma fifo_read1_None: "fifo mq items \<Longrightarrow> fmq_read1 mq q = None \<Longrightarrow> items q = []"
  using fifo_read_None [of mq items 1 q] fifo_read [of mq items 1 q]
  by (force simp: fmq_read1_def split: option.splits list.splits)

text \<open>A queue as a list with its free places, the concrete queue of the examples.\<close>

record 'a list_queue =
  lq_free :: nat
  lq_items :: "'a list"

definition list_fmq :: "('a list_queue, 'a) fmq" where
  "list_fmq =
     \<lparr>fmq_availableToRead = (\<lambda>q. length (lq_items q)),
      fmq_availableToWrite = lq_free,
      fmq_read = (\<lambda>n q. if n \<le> length (lq_items q)
         then Some (take n (lq_items q), \<lparr>lq_free = lq_free q + n, lq_items = drop n (lq_items q)\<rparr>) else None),
      fmq_write = (\<lambda>xs q. if length xs \<le> lq_free q
         then Some \<lparr>lq_free = lq_free q - length xs, lq_items = lq_items q @ xs\<rparr> else None)\<rparr>"

lemma list_fmq_fifo: "fifo list_fmq lq_items"
  by (simp add: fifo_def list_fmq_def)

section \<open>Event flags\<close>

text \<open>
  The class \<open>EventFlag\<close> of the library, over a word of the shared memory, with the interface's two
  bits. Waking sets bits of the word. \<open>ef_wait bits word efState word'\<close> says that a wait for bits
  can return on the word, with the bits it found and the word it leaves; while there is no such
  return it blocks.
\<close>

record event_flag =
  ef_NOT_EMPTY :: u32
  ef_NOT_FULL :: u32
  ef_wake :: "u32 \<Rightarrow> u32 \<Rightarrow> u32"
  ef_wait :: "u32 \<Rightarrow> u32 \<Rightarrow> u32 \<Rightarrow> u32 \<Rightarrow> bool"

text \<open>
  The documented behaviour: a wait takes exactly the bits asked for, and does not block when one
  of them is set. It may also return without any.
\<close>

definition event_flag_ok :: "event_flag \<Rightarrow> bool" where
  "event_flag_ok ef \<longleftrightarrow>
     ef_NOT_EMPTY ef \<noteq> 0 \<and> ef_NOT_FULL ef \<noteq> 0 \<and> ef_NOT_EMPTY ef AND ef_NOT_FULL ef = 0
   \<and> (\<forall>bits w. ef_wake ef bits w = w OR bits)
   \<and> (\<forall>bits w st w'. ef_wait ef bits w st w' \<longrightarrow> st = w AND bits \<and> w' = w AND NOT bits)
   \<and> (\<forall>bits w. w AND bits \<noteq> 0 \<longrightarrow> (\<exists>st w'. ef_wait ef bits w st w'))"

lemma event_flag_wake:
  assumes "event_flag_ok ef"
  shows "bits \<noteq> 0 \<Longrightarrow> ef_wake ef bits w AND bits \<noteq> 0"
    and "w AND bits \<noteq> 0 \<Longrightarrow> ef_wake ef other w AND bits \<noteq> 0"
proof -
  have "ef_wake ef bits w AND bits = bits" "ef_wake ef other w AND bits = (w AND bits) OR (other AND bits)"
    using assms by (auto simp: event_flag_ok_def bit_eq_iff bit_simps)
  then show "bits \<noteq> 0 \<Longrightarrow> ef_wake ef bits w AND bits \<noteq> 0"
    and "w AND bits \<noteq> 0 \<Longrightarrow> ef_wake ef other w AND bits \<noteq> 0"
    by (auto simp: bit_eq_iff bit_simps)
qed

lemma event_flag_wait_other:
  assumes "event_flag_ok ef" "ef_wait ef other w st w'" "other AND bits = 0"
  shows "w' AND bits = w AND bits"
proof -
  have "w' = w AND NOT other" using assms(1,2) by (auto simp: event_flag_ok_def)
  moreover have "bit bits n \<Longrightarrow> \<not> bit other n" for n using arg_cong [OF assms(3), of "\<lambda>x. bit x n"] by (simp add: bit_simps)
  ultimately show ?thesis by (auto simp: bit_eq_iff bit_simps)
qed

text \<open>The event flag of the examples: a wait returns only with a bit.\<close>

definition example_flag :: event_flag where
  "example_flag = \<lparr>ef_NOT_EMPTY = 1, ef_NOT_FULL = 2, ef_wake = (\<lambda>bits w. w OR bits),
     ef_wait = (\<lambda>bits w st w'. w AND bits \<noteq> 0 \<and> st = w AND bits \<and> w' = w AND NOT bits)\<rparr>"

lemma example_flag_ok: "event_flag_ok example_flag"
  by (simp add: event_flag_ok_def example_flag_def)

end
