(* ===== verification/Hal_Stream_Out.thy ===== *)
theory Hal_Stream_Out
  imports Hal_Device_State
begin

text \<open>
  Output streams of the legacy HAL wrapper (\<open>src/audio/hal/StreamOut.cpp\<close>): the writer thread
  with its three message queues, preparing, closing and destroying a stream, and the
  methods that pass a call on. The thread is a program counter; one step of it is one atomic
  action of its loop. Methods of \<open>StreamOut\<close> that only forward to the common \<open>Stream\<close> or to
  \<open>StreamMmap\<close> are those of \<open>Hal_Stream\<close>.
\<close>

section \<open>The legacy output stream\<close>

type_synonym hal_TimeSpec = "u64 \<times> u64"

record hal_track =
  ht_usage :: int
  ht_content_type :: int
  ht_gain :: hal_float

record hal_track_v7 =
  ht7_base :: hal_track
  ht7_channel_mask :: u32
  ht7_tags :: string

record hal_playback_rate =
  pr_mSpeed :: hal_float
  pr_mPitch :: hal_float
  pr_mStretchMode :: int
  pr_mFallbackMode :: int

record 'h audio_stream_out =
  aso_handle :: nat
  aso_get_latency :: "'h \<Rightarrow> u32"
  aso_set_volume :: "(hal_float \<Rightarrow> hal_float \<Rightarrow> 'h \<Rightarrow> int \<times> 'h) option"
  aso_write :: "u8 list \<Rightarrow> 'h \<Rightarrow> int \<times> 'h"
  aso_get_render_position :: "u32 \<Rightarrow> 'h \<Rightarrow> int \<times> u32 \<times> 'h"
  aso_get_next_write_timestamp :: "(int \<Rightarrow> 'h \<Rightarrow> int \<times> int \<times> 'h) option"
  aso_set_callback :: "('h \<Rightarrow> int \<times> 'h) option"
  aso_pause :: "('h \<Rightarrow> int \<times> 'h) option"
  aso_resume :: "('h \<Rightarrow> int \<times> 'h) option"
  aso_drain :: "(bool \<Rightarrow> 'h \<Rightarrow> int \<times> 'h) option"
  aso_flush :: "('h \<Rightarrow> int \<times> 'h) option"
  aso_get_presentation_position :: "('h \<Rightarrow> int \<times> u64 option \<times> hal_TimeSpec \<times> 'h) option"
  aso_update_source_metadata :: "(hal_track list \<Rightarrow> 'h \<Rightarrow> 'h) option"
  aso_update_source_metadata_v7 :: "(hal_track_v7 list \<Rightarrow> 'h \<Rightarrow> 'h) option"
  aso_get_dual_mono_mode :: "(int \<Rightarrow> 'h \<Rightarrow> int \<times> int \<times> 'h) option"
  aso_set_dual_mono_mode :: "(int \<Rightarrow> 'h \<Rightarrow> int \<times> 'h) option"
  aso_get_audio_description_mix_level :: "(hal_float \<Rightarrow> 'h \<Rightarrow> int \<times> hal_float \<times> 'h) option"
  aso_set_audio_description_mix_level :: "(hal_float \<Rightarrow> 'h \<Rightarrow> int \<times> 'h) option"
  aso_get_playback_rate_parameters :: "(hal_playback_rate \<Rightarrow> 'h \<Rightarrow> int \<times> hal_playback_rate \<times> 'h) option"
  aso_set_playback_rate_parameters :: "(hal_playback_rate \<Rightarrow> 'h \<Rightarrow> int \<times> 'h) option"
  aso_set_event_callback :: "('h \<Rightarrow> int \<times> 'h) option"
  aso_set_latency_mode :: "(int \<Rightarrow> 'h \<Rightarrow> int \<times> 'h) option"
  aso_get_recommended_latency_modes :: "(nat \<Rightarrow> 'h \<Rightarrow> int \<times> int list \<times> nat \<times> 'h) option"
  aso_set_latency_mode_callback :: "('h \<Rightarrow> int \<times> 'h) option"

section \<open>The writer thread\<close>

datatype WriteCommand = Write_WRITE | Write_GET_PRESENTATION_POSITION | Write_GET_LATENCY | Write_other int

text \<open>
  The reply is a union. A failing position query may store the frames and nothing else; what
  the union then reads is the parameter \<open>union_frames\<close>.
\<close>

datatype write_reply =
    Reply_written int
  | Reply_presentationPosition u64 hal_TimeSpec
  | Reply_latencyMs u32

record WriteStatus =
  ws_replyTo :: WriteCommand
  ws_retval :: HalResult
  ws_reply :: write_reply

text \<open>
  The points of the loop: the test of the stop flag, the wait for the event flag, reading the
  command, its switch, the write to the HAL with the bytes in the buffer, writing the
  status, and waking the client.
\<close>

datatype writer_pc =
    Pc_test | Pc_wait | Pc_command | Pc_switch | Pc_write "u8 list" | Pc_status | Pc_wake | Pc_exit

text \<open>The event flag is the word that lies with the data queue.\<close>

record ('c, 'd, 's) WriteThread =
  wt_commandMQ :: 'c
  wt_dataMQ :: 'd
  wt_statusMQ :: 's
  wt_efWord :: u32
  wt_mStatus :: WriteStatus
  wt_pc :: writer_pc

record ('c, 'd, 's) writer_mqs =
  wq_command :: "('c, WriteCommand) fmq"
  wq_data :: "('d, u8) fmq"
  wq_status :: "('s, WriteStatus) fmq"

text \<open>What a step does to the outside: calls of the HAL, the reply and whether it was taken.\<close>

datatype out_event =
    Ev_command WriteCommand
  | Ev_hal_write "u8 list"
  | Ev_hal_position
  | Ev_hal_latency
  | Ev_reply WriteStatus bool
  | Ev_wake
  | Ev_sent "u8 list"
  | Ev_asked WriteCommand
  | Ev_answered WriteStatus

definition getPresentationPositionImpl ::
  "'h audio_stream_out \<Rightarrow> 'h \<Rightarrow> HalResult \<times> u64 option \<times> hal_TimeSpec option \<times> 'h" where
  "getPresentationPositionImpl stream h =
     (case aso_get_presentation_position stream of
        None \<Rightarrow> (Result_NOT_SUPPORTED, None, None, h)
      | Some get_position \<Rightarrow>
         (let (status, frames, halTimeStamp, h) = get_position h; retval = analyzeStatus status
          in (retval, frames, if retval = Result_OK then Some halTimeStamp else None, h)))"

text \<open>\<open>doWrite\<close> up to its call of the HAL, and the rest of it.\<close>

definition doWrite_take ::
  "('c, 'd, 's) writer_mqs \<Rightarrow> ('c, 'd, 's) WriteThread \<Rightarrow> ('c, 'd, 's) WriteThread" where
  "doWrite_take mqs t =
     (let availToRead = fmq_availableToRead (wq_data mqs) (wt_dataMQ t);
          t = t\<lparr>wt_mStatus := (wt_mStatus t)\<lparr>ws_retval := Result_OK, ws_reply := Reply_written 0\<rparr>\<rparr>
      in case fmq_read (wq_data mqs) availToRead (wt_dataMQ t) of
           Some (mBuffer, q) \<Rightarrow> t\<lparr>wt_dataMQ := q, wt_pc := Pc_write mBuffer\<rparr>
         | None \<Rightarrow> t\<lparr>wt_pc := Pc_status\<rparr>)"

definition doWrite_hal ::
  "'h audio_stream_out \<Rightarrow> u8 list \<Rightarrow> ('c, 'd, 's) WriteThread \<Rightarrow> 'h \<Rightarrow> ('c, 'd, 's) WriteThread \<times> 'h" where
  "doWrite_hal stream mBuffer t h =
     (let (writeResult, h) = aso_write stream mBuffer h
      in (t\<lparr>wt_mStatus := (if writeResult \<ge> 0 then (wt_mStatus t)\<lparr>ws_reply := Reply_written writeResult\<rparr>
              else (wt_mStatus t)\<lparr>ws_retval := analyzeStatus writeResult\<rparr>), wt_pc := Pc_status\<rparr>, h))"

definition doGetPresentationPosition ::
  "'h audio_stream_out \<Rightarrow> (write_reply \<Rightarrow> u64 \<Rightarrow> write_reply) \<Rightarrow> ('c, 'd, 's) WriteThread \<Rightarrow> 'h
     \<Rightarrow> ('c, 'd, 's) WriteThread \<times> 'h" where
  "doGetPresentationPosition stream union_frames t h =
     (let (retval, frames, timeStamp, h) = getPresentationPositionImpl stream h;
          old = ws_reply (wt_mStatus t);
          reply = (case (frames, timeStamp) of
              (Some f, Some ts) \<Rightarrow> Reply_presentationPosition f ts
            | (Some f, None) \<Rightarrow> union_frames old f
            | (None, _) \<Rightarrow> old)
      in (t\<lparr>wt_mStatus := (wt_mStatus t)\<lparr>ws_retval := retval, ws_reply := reply\<rparr>, wt_pc := Pc_status\<rparr>, h))"

definition doGetLatency ::
  "'h audio_stream_out \<Rightarrow> ('c, 'd, 's) WriteThread \<Rightarrow> 'h \<Rightarrow> ('c, 'd, 's) WriteThread" where
  "doGetLatency stream t h =
     t\<lparr>wt_mStatus := (wt_mStatus t)\<lparr>ws_retval := Result_OK, ws_reply := Reply_latencyMs (aso_get_latency stream h)\<rparr>,
       wt_pc := Pc_status\<rparr>"

text \<open>
  One step. \<open>stop\<close> is what the load of the stop flag finds; \<open>waited\<close> is what the wait for
  \<open>NOT_EMPTY\<close> returns, the bits and the word it leaves.
\<close>

definition WriteThread_step ::
  "('c, 'd, 's) writer_mqs \<Rightarrow> event_flag \<Rightarrow> 'h audio_stream_out \<Rightarrow> (write_reply \<Rightarrow> u64 \<Rightarrow> write_reply) \<Rightarrow> bool
     \<Rightarrow> u32 \<times> u32 \<Rightarrow> ('c, 'd, 's) WriteThread \<Rightarrow> 'h \<Rightarrow> ('c, 'd, 's) WriteThread \<times> 'h \<times> out_event list" where
  "WriteThread_step mqs ef stream union_frames stop waited t h =
     (case wt_pc t of
        Pc_test \<Rightarrow> (t\<lparr>wt_pc := if stop then Pc_exit else Pc_wait\<rparr>, h, [])
      | Pc_wait \<Rightarrow>
         (t\<lparr>wt_efWord := snd waited, wt_pc := if fst waited AND ef_NOT_EMPTY ef \<noteq> 0 then Pc_command else Pc_test\<rparr>, h, [])
      | Pc_command \<Rightarrow>
         (case fmq_read1 (wq_command mqs) (wt_commandMQ t) of
            None \<Rightarrow> (t\<lparr>wt_pc := Pc_test\<rparr>, h, [])
          | Some (replyTo, q) \<Rightarrow>
              (t\<lparr>wt_commandMQ := q, wt_mStatus := (wt_mStatus t)\<lparr>ws_replyTo := replyTo\<rparr>, wt_pc := Pc_switch\<rparr>,
               h, [Ev_command replyTo]))
      | Pc_switch \<Rightarrow>
         (case ws_replyTo (wt_mStatus t) of
            Write_WRITE \<Rightarrow> (doWrite_take mqs t, h, [])
          | Write_GET_PRESENTATION_POSITION \<Rightarrow>
              (let (t, h) = doGetPresentationPosition stream union_frames t h in (t, h, [Ev_hal_position]))
          | Write_GET_LATENCY \<Rightarrow> (doGetLatency stream t h, h, [Ev_hal_latency])
          | Write_other _ \<Rightarrow>
              (t\<lparr>wt_mStatus := (wt_mStatus t)\<lparr>ws_retval := Result_NOT_SUPPORTED\<rparr>, wt_pc := Pc_status\<rparr>, h, []))
      | Pc_write mBuffer \<Rightarrow>
         (let (t, h) = doWrite_hal stream mBuffer t h in (t, h, [Ev_hal_write mBuffer]))
      | Pc_status \<Rightarrow>
         (case fmq_write (wq_status mqs) [wt_mStatus t] (wt_statusMQ t) of
            Some q \<Rightarrow> (t\<lparr>wt_statusMQ := q, wt_pc := Pc_wake\<rparr>, h, [Ev_reply (wt_mStatus t) True])
          | None \<Rightarrow> (t\<lparr>wt_pc := Pc_wake\<rparr>, h, [Ev_reply (wt_mStatus t) False]))
      | Pc_wake \<Rightarrow> (t\<lparr>wt_efWord := ef_wake ef (ef_NOT_FULL ef) (wt_efWord t), wt_pc := Pc_test\<rparr>, h, [Ev_wake])
      | Pc_exit \<Rightarrow> (t, h, []))"

section \<open>The stream\<close>

text \<open>
  The members; the queues, the event flag and the thread are set together. Callbacks are
  numbers. \<open>so_hal_closed\<close> is no member: it says that the legacy stream was closed.
\<close>

record ('c, 'd, 's) StreamOut =
  so_mWriteThread :: "('c, 'd, 's) WriteThread option"
  so_mStopWriteThread :: bool
  so_mCallback :: "nat option"
  so_mEventCallback :: "nat option"
  so_mLatencyModeCallback :: "nat option"
  so_hal_closed :: bool

definition StreamOut_new :: "('c, 'd, 's) StreamOut" where
  "StreamOut_new =
     \<lparr>so_mWriteThread = None, so_mStopWriteThread = False, so_mCallback = None, so_mEventCallback = None,
      so_mLatencyModeCallback = None, so_hal_closed = False\<rparr>"

text \<open>What the library and the system answer while a stream is prepared; the event flag has the word it finds.\<close>

record ('c, 'd, 's) prepare_env =
  pe_commandMQ :: "'c \<times> bool"
  pe_dataMQ :: "nat \<Rightarrow> 'd \<times> bool"
  pe_statusMQ :: "'s \<times> bool"
  pe_event_flag :: "u32 option"
  pe_init :: bool
  pe_run :: bool
  pe_mStatus :: WriteStatus

definition buffer_size_ok :: "u32 \<Rightarrow> u32 \<Rightarrow> bool" where
  "buffer_size_ok frameSize framesCount \<longleftrightarrow>
     \<not> (frameSize = 0 \<or> framesCount = 0) \<and> \<not> (frameSize > MAX_BUFFER_SIZE div framesCount)"

definition prepareForWriting ::
  "('c, 'd, 's) prepare_env \<Rightarrow> u32 \<Rightarrow> u32 \<Rightarrow> ('c, 'd, 's) StreamOut \<Rightarrow> HalResult \<times> ('c, 'd, 's) StreamOut" where
  "prepareForWriting e frameSize framesCount s =
     (if so_mWriteThread s \<noteq> None then (Result_INVALID_STATE, s)
      else if \<not> buffer_size_ok frameSize framesCount then (Result_INVALID_ARGUMENTS, s)
      else let (commandMQ, c_valid) = pe_commandMQ e;
               (dataMQ, d_valid) = pe_dataMQ e (unat (frameSize * framesCount));
               (statusMQ, s_valid) = pe_statusMQ e
      in if \<not> c_valid \<or> \<not> d_valid \<or> \<not> s_valid then (Result_INVALID_ARGUMENTS, s)
         else if pe_event_flag e = None then (Result_INVALID_ARGUMENTS, s)
         else if \<not> pe_init e then (Result_INVALID_ARGUMENTS, s)
         else if \<not> pe_run e then (Result_INVALID_ARGUMENTS, s)
         else (Result_OK, s\<lparr>so_mWriteThread := Some
                 \<lparr>wt_commandMQ = commandMQ, wt_dataMQ = dataMQ, wt_statusMQ = statusMQ,
                  wt_efWord = the (pe_event_flag e), wt_mStatus = pe_mStatus e, wt_pc = Pc_test\<rparr>\<rparr>))"

text \<open>
  Closing. From version 6 on it also closes the legacy stream, without waiting for the
  thread; up to version 5 the destructor does, after it.
\<close>

definition StreamOut_closeHal ::
  "('h, 'z) hal_device_scheme \<Rightarrow> nat \<Rightarrow> ('c, 'd, 's) StreamOut \<times> Device \<times> 'h
     \<Rightarrow> (('c, 'd, 's) StreamOut \<times> Device \<times> 'h) option" where
  "StreamOut_closeHal hw handle = (\<lambda>(s, d, h).
     map_option (\<lambda>(d, h). (s\<lparr>so_hal_closed := True\<rparr>, d, h)) (Device_closeOutputStream hw handle d h))"

text \<open>The wake-up call of \<open>close\<close>: the event flag is set exactly when there is a thread.\<close>

definition StreamOut_wake :: "event_flag \<Rightarrow> ('c, 'd, 's) StreamOut \<Rightarrow> ('c, 'd, 's) StreamOut" where
  "StreamOut_wake ef s =
     s\<lparr>so_mWriteThread := map_option (wt_efWord_update (ef_wake ef (ef_NOT_EMPTY ef))) (so_mWriteThread s)\<rparr>"

definition StreamOut_close ::
  "event_flag \<Rightarrow> api_version \<Rightarrow> ('h, 'z) hal_device_scheme \<Rightarrow> nat \<Rightarrow> ('c, 'd, 's) StreamOut \<times> Device \<times> 'h
     \<Rightarrow> (HalResult \<times> ('c, 'd, 's) StreamOut \<times> Device \<times> 'h) option" where
  "StreamOut_close ef v hw handle = (\<lambda>(s, d, h).
     if so_mStopWriteThread s then Some (Result_INVALID_STATE, s, d, h)
     else let s = StreamOut_wake ef (s\<lparr>so_mStopWriteThread := True\<rparr>)
     in if api_MAJOR v \<ge> 6 then map_option (\<lambda>x. (Result_OK, x)) (StreamOut_closeHal hw handle (s, d, h))
        else Some (Result_OK, s, d, h))"

text \<open>
  The destructor after its call of \<open>close\<close>: the join returns only when the thread has left
  its loop, so the rest is enabled (\<open>can_join\<close>) only then.
\<close>

definition can_join :: "('c, 'd, 's) StreamOut \<Rightarrow> bool" where
  "can_join s \<longleftrightarrow> (case so_mWriteThread s of None \<Rightarrow> True | Some t \<Rightarrow> wt_pc t = Pc_exit)"

definition StreamOut_destroy ::
  "api_version \<Rightarrow> ('h, 'z) hal_device_scheme \<Rightarrow> nat \<Rightarrow> ('c, 'd, 's) StreamOut \<times> Device \<times> 'h
     \<Rightarrow> (('c, 'd, 's) StreamOut \<times> Device \<times> 'h) option" where
  "StreamOut_destroy v hw handle = (\<lambda>(s, d, h).
     let s = s\<lparr>so_mCallback := None\<rparr>
     in if api_MAJOR v \<le> 5 then StreamOut_closeHal hw handle (s, d, h) else Some (s, d, h))"

section \<open>Methods\<close>

definition StreamOut_getLatency :: "'h audio_stream_out \<Rightarrow> 'h \<Rightarrow> u32" where
  "StreamOut_getLatency stream h = aso_get_latency stream h"

definition StreamOut_setVolume ::
  "'h audio_stream_out \<Rightarrow> hal_float \<Rightarrow> hal_float \<Rightarrow> 'h \<Rightarrow> HalResult \<times> 'h" where
  "StreamOut_setVolume stream left_gain right_gain h =
     (case aso_set_volume stream of
        None \<Rightarrow> (Result_NOT_SUPPORTED, h)
      | Some set_volume \<Rightarrow>
          if \<not> isGainNormalized left_gain then (Result_INVALID_ARGUMENTS, h)
          else hal_call (set_volume left_gain right_gain) h)"

definition StreamOut_getRenderPosition :: "'h audio_stream_out \<Rightarrow> u32 \<Rightarrow> 'h \<Rightarrow> HalResult \<times> u32 \<times> 'h" where
  "StreamOut_getRenderPosition stream junk h =
     (let (status, halDspFrames, h) = aso_get_render_position stream junk h
      in (analyzeStatus status, halDspFrames, h))"

definition StreamOut_getNextWriteTimestamp :: "'h audio_stream_out \<Rightarrow> 'h \<Rightarrow> HalResult \<times> int \<times> 'h" where
  "StreamOut_getNextWriteTimestamp stream = hal_query (aso_get_next_write_timestamp stream) 0"

definition StreamOut_setCallback ::
  "'h audio_stream_out \<Rightarrow> nat \<Rightarrow> ('c, 'd, 's) StreamOut \<Rightarrow> 'h \<Rightarrow> HalResult \<times> ('c, 'd, 's) StreamOut \<times> 'h" where
  "StreamOut_setCallback stream callback s h =
     (case aso_set_callback stream of
        None \<Rightarrow> (Result_NOT_SUPPORTED, s, h)
      | Some set_callback \<Rightarrow>
         (let (status, h) = set_callback h
          in (analyzeStatus status, if status = 0 then s\<lparr>so_mCallback := Some callback\<rparr> else s, h)))"

definition StreamOut_clearCallback ::
  "'h audio_stream_out \<Rightarrow> ('c, 'd, 's) StreamOut \<Rightarrow> HalResult \<times> ('c, 'd, 's) StreamOut" where
  "StreamOut_clearCallback stream s =
     (if aso_set_callback stream = None then (Result_NOT_SUPPORTED, s)
      else (Result_OK, s\<lparr>so_mCallback := None\<rparr>))"

datatype stream_callback_event = CBK_WRITE_READY | CBK_DRAIN_READY | CBK_ERROR | CBK_other int

text \<open>The call that an event of the HAL becomes: the callback and its method.\<close>

definition asyncCallback ::
  "stream_callback_event \<Rightarrow> ('c, 'd, 's) StreamOut \<Rightarrow> (nat \<times> stream_callback_event) option" where
  "asyncCallback event s =
     (case so_mCallback s of
        None \<Rightarrow> None
      | Some callback \<Rightarrow> (case event of CBK_other _ \<Rightarrow> None | _ \<Rightarrow> Some (callback, event)))"

definition StreamOut_supportsPauseAndResume :: "'h audio_stream_out \<Rightarrow> bool \<times> bool" where
  "StreamOut_supportsPauseAndResume stream = (aso_pause stream \<noteq> None, aso_resume stream \<noteq> None)"

definition StreamOut_pause :: "'h audio_stream_out \<Rightarrow> 'h \<Rightarrow> HalResult \<times> 'h" where
  "StreamOut_pause stream = hal_optional (aso_pause stream)"

definition StreamOut_resume :: "'h audio_stream_out \<Rightarrow> 'h \<Rightarrow> HalResult \<times> 'h" where
  "StreamOut_resume stream = hal_optional (aso_resume stream)"

definition StreamOut_supportsDrain :: "'h audio_stream_out \<Rightarrow> bool" where
  "StreamOut_supportsDrain stream \<longleftrightarrow> aso_drain stream \<noteq> None"

definition StreamOut_drain :: "'h audio_stream_out \<Rightarrow> bool \<Rightarrow> 'h \<Rightarrow> HalResult \<times> 'h" where
  "StreamOut_drain stream early_notify = hal_optional (map_option (\<lambda>drain. drain early_notify) (aso_drain stream))"

definition StreamOut_flush :: "'h audio_stream_out \<Rightarrow> 'h \<Rightarrow> HalResult \<times> 'h" where
  "StreamOut_flush stream = hal_optional (aso_flush stream)"

definition StreamOut_getPresentationPosition ::
  "'h audio_stream_out \<Rightarrow> 'h \<Rightarrow> HalResult \<times> u64 \<times> hal_TimeSpec \<times> 'h" where
  "StreamOut_getPresentationPosition stream h =
     (let (retval, frames, timeStamp, h) = getPresentationPositionImpl stream h
      in (retval, case frames of Some f \<Rightarrow> f | None \<Rightarrow> 0, case timeStamp of Some t \<Rightarrow> t | None \<Rightarrow> (0, 0), h))"

text \<open>
  Metadata, from version 4. \<open>to_hal\<close> is the conversion of the interface's utilities up to
  version 6, whose status is ignored, and \<open>to_hal_v7\<close> the one from version 7.
\<close>

definition doUpdateSourceMetadata ::
  "api_version \<Rightarrow> ('m \<Rightarrow> hal_track list) \<Rightarrow> ('m \<Rightarrow> int + hal_track_v7 list) \<Rightarrow> (hal_track list \<Rightarrow> 'h \<Rightarrow> 'h)
     \<Rightarrow> 'm \<Rightarrow> 'h \<Rightarrow> HalResult \<times> 'h" where
  "doUpdateSourceMetadata v to_hal to_hal_v7 update metadata h =
     (if api_MAJOR v \<le> 6 then (Result_OK, update (to_hal metadata) h)
      else case to_hal_v7 metadata of
          Inr halTracksV7 \<Rightarrow> (Result_OK, update (map ht7_base halTracksV7) h)
        | Inl status \<Rightarrow> (analyzeStatus status, h))"

definition doUpdateSourceMetadataV7 ::
  "('m \<Rightarrow> int + hal_track_v7 list) \<Rightarrow> (hal_track_v7 list \<Rightarrow> 'h \<Rightarrow> 'h) \<Rightarrow> 'm \<Rightarrow> 'h \<Rightarrow> HalResult \<times> 'h" where
  "doUpdateSourceMetadataV7 to_hal_v7 update metadata h =
     (case to_hal_v7 metadata of
        Inl status \<Rightarrow> (analyzeStatus status, h)
      | Inr halTracks \<Rightarrow> (Result_OK, update halTracks h))"

text \<open>Up to version 6 the method has no result; \<open>v3_2\<close> is the device version \<open>3.2\<close>.\<close>

definition updateSourceMetadata ::
  "api_version \<Rightarrow> u32 \<Rightarrow> ('m \<Rightarrow> hal_track list) \<Rightarrow> ('m \<Rightarrow> int + hal_track_v7 list) \<Rightarrow> ('h, 'z) hal_device_scheme
     \<Rightarrow> 'h audio_stream_out \<Rightarrow> 'm \<Rightarrow> 'h \<Rightarrow> HalResult option \<times> 'h" where
  "updateSourceMetadata v v3_2 to_hal to_hal_v7 hw stream metadata h =
     (if api_MAJOR v \<le> 6 then
        (case aso_update_source_metadata stream of
           None \<Rightarrow> (None, h)
         | Some update \<Rightarrow> (None, snd (doUpdateSourceMetadata v to_hal to_hal_v7 update metadata h)))
      else if hd_version hw < v3_2 then
        (case aso_update_source_metadata stream of
           None \<Rightarrow> (Some Result_NOT_SUPPORTED, h)
         | Some update \<Rightarrow> apfst Some (doUpdateSourceMetadata v to_hal to_hal_v7 update metadata h))
      else (case aso_update_source_metadata_v7 stream of
           None \<Rightarrow> (Some Result_NOT_SUPPORTED, h)
         | Some update \<Rightarrow> apfst Some (doUpdateSourceMetadataV7 to_hal_v7 update metadata h)))"

text \<open>From version 6.\<close>

definition StreamOut_getDualMonoMode :: "'h audio_stream_out \<Rightarrow> int \<Rightarrow> 'h \<Rightarrow> HalResult \<times> int \<times> 'h" where
  "StreamOut_getDualMonoMode stream mode_off = hal_query (aso_get_dual_mono_mode stream) mode_off"

definition StreamOut_setDualMonoMode :: "'h audio_stream_out \<Rightarrow> int \<Rightarrow> 'h \<Rightarrow> HalResult \<times> 'h" where
  "StreamOut_setDualMonoMode stream mode =
     hal_optional (map_option (\<lambda>f. f mode) (aso_set_dual_mono_mode stream))"

definition StreamOut_getAudioDescriptionMixLevel ::
  "'h audio_stream_out \<Rightarrow> 'h \<Rightarrow> HalResult \<times> hal_float \<times> 'h" where
  "StreamOut_getAudioDescriptionMixLevel stream =
     hal_query (aso_get_audio_description_mix_level stream) (Float_infinity False)"

definition StreamOut_setAudioDescriptionMixLevel ::
  "'h audio_stream_out \<Rightarrow> hal_float \<Rightarrow> 'h \<Rightarrow> HalResult \<times> 'h" where
  "StreamOut_setAudioDescriptionMixLevel stream leveldB =
     hal_optional (map_option (\<lambda>f. f leveldB) (aso_set_audio_description_mix_level stream))"

definition StreamOut_getPlaybackRateParameters ::
  "'h audio_stream_out \<Rightarrow> hal_playback_rate \<Rightarrow> 'h \<Rightarrow> HalResult \<times> hal_playback_rate \<times> 'h" where
  "StreamOut_getPlaybackRateParameters stream initial = hal_query (aso_get_playback_rate_parameters stream) initial"

definition StreamOut_setPlaybackRateParameters ::
  "'h audio_stream_out \<Rightarrow> hal_playback_rate \<Rightarrow> 'h \<Rightarrow> HalResult \<times> 'h" where
  "StreamOut_setPlaybackRateParameters stream rate =
     hal_optional (map_option (\<lambda>f. f rate) (aso_set_playback_rate_parameters stream))"

definition StreamOut_setEventCallback ::
  "'h audio_stream_out \<Rightarrow> nat \<Rightarrow> ('c, 'd, 's) StreamOut \<Rightarrow> 'h \<Rightarrow> HalResult \<times> ('c, 'd, 's) StreamOut \<times> 'h" where
  "StreamOut_setEventCallback stream callback s h =
     (case aso_set_event_callback stream of
        None \<Rightarrow> (Result_NOT_SUPPORTED, s, h)
      | Some set_callback \<Rightarrow>
         (let (status, h) = set_callback h
          in (analyzeStatus status, if status = 0 then s\<lparr>so_mEventCallback := Some callback\<rparr> else s, h)))"

text \<open>The bytes of the metadata are delimited by the library; \<open>format_changed\<close> is the event's type.\<close>

definition asyncEventCallback ::
  "bool \<Rightarrow> u8 list \<Rightarrow> ('c, 'd, 's) StreamOut \<Rightarrow> (nat \<times> u8 list) option" where
  "asyncEventCallback format_changed audioMetadata s =
     (case so_mEventCallback s of
        None \<Rightarrow> None
      | Some eventCallback \<Rightarrow> if format_changed then Some (eventCallback, audioMetadata) else None)"

text \<open>Version 7.1; \<open>cnt\<close> is the size of the array the HAL fills.\<close>

definition StreamOut_setLatencyMode :: "'h audio_stream_out \<Rightarrow> int \<Rightarrow> 'h \<Rightarrow> HalResult \<times> 'h" where
  "StreamOut_setLatencyMode stream mode =
     hal_optional (map_option (\<lambda>f. f mode) (aso_set_latency_mode stream))"

definition StreamOut_getRecommendedLatencyModes ::
  "nat \<Rightarrow> 'h audio_stream_out \<Rightarrow> 'h \<Rightarrow> HalResult \<times> int list \<times> 'h" where
  "StreamOut_getRecommendedLatencyModes cnt stream h =
     (case aso_get_recommended_latency_modes stream of
        None \<Rightarrow> (Result_NOT_SUPPORTED, [], h)
      | Some get_modes \<Rightarrow>
         (let (status, modes, num_modes, h) = get_modes cnt h
          in if status \<noteq> 0 then (Result_NOT_SUPPORTED, [], h)
             else if num_modes = 0 \<or> num_modes > cnt then (Result_INVALID_STATE, [], h)
             else (Result_OK, take num_modes modes, h)))"

definition latencyModeCallback ::
  "nat \<Rightarrow> int list \<Rightarrow> nat \<Rightarrow> ('c, 'd, 's) StreamOut \<Rightarrow> (nat \<times> int list) option" where
  "latencyModeCallback cnt modes num_modes s =
     (case so_mLatencyModeCallback s of
        None \<Rightarrow> None
      | Some callback \<Rightarrow>
          if num_modes = 0 \<or> num_modes > cnt then None else Some (callback, take num_modes modes))"

definition StreamOut_setLatencyModeCallback ::
  "'h audio_stream_out \<Rightarrow> nat \<Rightarrow> ('c, 'd, 's) StreamOut \<Rightarrow> 'h \<Rightarrow> HalResult \<times> ('c, 'd, 's) StreamOut \<times> 'h" where
  "StreamOut_setLatencyModeCallback stream callback s h =
     (case aso_set_latency_mode_callback stream of
        None \<Rightarrow> (Result_NOT_SUPPORTED, s, h)
      | Some set_callback \<Rightarrow>
         (let (status, h) = set_callback h
          in (analyzeStatus status, if status = 0 then s\<lparr>so_mLatencyModeCallback := Some callback\<rparr> else s, h)))"

end
