(* ===== verification/Hal_Writer_Facts.thy ===== *)
theory Hal_Writer_Facts
  imports Hal_Stream_Out
begin

text \<open>
  The writer thread and the rest of the world: a client on the other end of the queues, and
  the calls that prepare, close and destroy the stream, in any order. The facts: nothing
  that the client sends is lost or reordered, each command gets one reply, the thread ends
  soon after a close, and which versions call a closed legacy stream.
\<close>

section \<open>The world of a stream\<close>

record ('c, 'd, 's, 'h) out_world =
  ow_out :: "('c, 'd, 's) StreamOut"
  ow_device :: Device
  ow_hal :: 'h
  ow_destroyed :: bool

record ('c, 'd, 's, 'h) out_config =
  oc_version :: api_version
  oc_hw :: "'h hal_device"
  oc_stream :: "'h audio_stream_out"
  oc_mqs :: "('c, 'd, 's) writer_mqs"
  oc_ef :: event_flag
  oc_union :: "write_reply \<Rightarrow> u64 \<Rightarrow> write_reply"
  oc_commands :: "'c \<Rightarrow> WriteCommand list"
  oc_data :: "'d \<Rightarrow> u8 list"
  oc_statuses :: "'s \<Rightarrow> WriteStatus list"

definition out_queues_ok :: "('c, 'd, 's, 'h) out_config \<Rightarrow> bool" where
  "out_queues_ok c \<longleftrightarrow> fifo (wq_command (oc_mqs c)) (oc_commands c)
     \<and> fifo (wq_data (oc_mqs c)) (oc_data c) \<and> fifo (wq_status (oc_mqs c)) (oc_statuses c)"

text \<open>New queues are empty, and there is room for one status.\<close>

definition fresh_queues :: "('c, 'd, 's, 'h) out_config \<Rightarrow> ('c, 'd, 's) prepare_env \<Rightarrow> bool" where
  "fresh_queues c e \<longleftrightarrow> oc_commands c (fst (pe_commandMQ e)) = []
     \<and> (\<forall>n. oc_data c (fst (pe_dataMQ e n)) = [])
     \<and> oc_statuses c (fst (pe_statusMQ e)) = [] \<and> fmq_availableToWrite (wq_status (oc_mqs c)) (fst (pe_statusMQ e)) = 1"

definition ow_thread :: "('c, 'd, 's, 'h) out_world \<Rightarrow> ('c, 'd, 's) WriteThread option" where
  "ow_thread w = so_mWriteThread (ow_out w)"

definition set_thread ::
  "('c, 'd, 's) WriteThread \<Rightarrow> 'h \<Rightarrow> ('c, 'd, 's, 'h) out_world \<Rightarrow> ('c, 'd, 's, 'h) out_world" where
  "set_thread t h w = w\<lparr>ow_out := (ow_out w)\<lparr>so_mWriteThread := Some t\<rparr>, ow_hal := h\<rparr>"

text \<open>A step of the thread, as a function of what its wait returns; a wait that does not return is no step.\<close>

definition run_thread ::
  "('c, 'd, 's, 'h) out_config \<Rightarrow> u32 \<times> u32 \<Rightarrow> ('c, 'd, 's) WriteThread \<Rightarrow> ('c, 'd, 's, 'h) out_world
     \<Rightarrow> out_event list \<times> ('c, 'd, 's, 'h) out_world" where
  "run_thread c waited t w =
     (let (t', h, evs) = WriteThread_step (oc_mqs c) (oc_ef c) (oc_stream c) (oc_union c)
            (so_mStopWriteThread (ow_out w)) waited t (ow_hal w)
      in (evs, set_thread t' h w))"

inductive out_thread_step ::
  "('c, 'd, 's, 'h) out_config \<Rightarrow> ('c, 'd, 's, 'h) out_world \<Rightarrow> out_event list \<Rightarrow> ('c, 'd, 's, 'h) out_world \<Rightarrow> bool"
  for c where
  thread: "\<not> ow_destroyed w \<Longrightarrow> ow_thread w = Some t \<Longrightarrow> wt_pc t \<noteq> Pc_exit
    \<Longrightarrow> (wt_pc t = Pc_wait \<Longrightarrow> ef_wait (oc_ef c) (ef_NOT_EMPTY (oc_ef c)) (wt_efWord t) (fst waited) (snd waited))
    \<Longrightarrow> out_thread_step c w (fst (run_thread c waited t w)) (snd (run_thread c waited t w))"

text \<open>
  The other steps; the events are what happens at the ends of the queues. The client wakes the
  thread and waits for the bit \<open>NOT_FULL\<close> when it likes.
\<close>

inductive out_env_step ::
  "('c, 'd, 's, 'h) out_config \<Rightarrow> ('c, 'd, 's, 'h) out_world \<Rightarrow> out_event list \<Rightarrow> ('c, 'd, 's, 'h) out_world \<Rightarrow> bool"
  for c where
  prepare: "\<not> ow_destroyed w \<Longrightarrow> fresh_queues c e
    \<Longrightarrow> prepareForWriting e frameSize framesCount (ow_out w) = (retval, s)
    \<Longrightarrow> out_env_step c w [] (w\<lparr>ow_out := s\<rparr>)"
| send: "ow_thread w = Some t \<Longrightarrow> fmq_write (wq_data (oc_mqs c)) xs (wt_dataMQ t) = Some q
    \<Longrightarrow> out_env_step c w [Ev_sent xs] (set_thread (t\<lparr>wt_dataMQ := q\<rparr>) (ow_hal w) w)"
| ask: "ow_thread w = Some t \<Longrightarrow> fmq_write (wq_command (oc_mqs c)) [cmd] (wt_commandMQ t) = Some q
    \<Longrightarrow> out_env_step c w [Ev_asked cmd] (set_thread (t\<lparr>wt_commandMQ := q\<rparr>) (ow_hal w) w)"
| answer: "ow_thread w = Some t \<Longrightarrow> fmq_read1 (wq_status (oc_mqs c)) (wt_statusMQ t) = Some (st, q)
    \<Longrightarrow> out_env_step c w [Ev_answered st] (set_thread (t\<lparr>wt_statusMQ := q\<rparr>) (ow_hal w) w)"
| notify: "ow_thread w = Some t
    \<Longrightarrow> out_env_step c w [] (set_thread
          (t\<lparr>wt_efWord := ef_wake (oc_ef c) (ef_NOT_EMPTY (oc_ef c)) (wt_efWord t)\<rparr>) (ow_hal w) w)"
| await: "ow_thread w = Some t \<Longrightarrow> ef_wait (oc_ef c) (ef_NOT_FULL (oc_ef c)) (wt_efWord t) st word
    \<Longrightarrow> out_env_step c w [] (set_thread (t\<lparr>wt_efWord := word\<rparr>) (ow_hal w) w)"
| close: "\<not> ow_destroyed w
    \<Longrightarrow> StreamOut_close (oc_ef c) (oc_version c) (oc_hw c) (aso_handle (oc_stream c)) (ow_out w, ow_device w, ow_hal w)
        = Some (retval, s, d, h)
    \<Longrightarrow> out_env_step c w [] (w\<lparr>ow_out := s, ow_device := d, ow_hal := h\<rparr>)"
| destroy: "\<not> ow_destroyed w \<Longrightarrow> so_mStopWriteThread (ow_out w) \<Longrightarrow> can_join (ow_out w)
    \<Longrightarrow> StreamOut_destroy (oc_version c) (oc_hw c) (aso_handle (oc_stream c)) (ow_out w, ow_device w, ow_hal w)
        = Some (s, d, h)
    \<Longrightarrow> out_env_step c w [] (w\<lparr>ow_out := s, ow_device := d, ow_hal := h, ow_destroyed := True\<rparr>)"
| others: "out_env_step c w [] (w\<lparr>ow_device := d, ow_hal := h\<rparr>)"

inductive out_reach :: "('c, 'd, 's, 'h) out_config \<Rightarrow> ('c, 'd, 's, 'h) out_world \<Rightarrow> out_event list \<Rightarrow> bool"
  for c where
  opened: "ow_out w = StreamOut_new \<Longrightarrow> \<not> ow_destroyed w \<Longrightarrow> out_reach c w []"
| thread_step: "out_reach c w tr \<Longrightarrow> out_thread_step c w evs w' \<Longrightarrow> out_reach c w' (tr @ evs)"
| env_step: "out_reach c w tr \<Longrightarrow> out_env_step c w evs w' \<Longrightarrow> out_reach c w' (tr @ evs)"

section \<open>One step of the thread\<close>

lemmas thread_defs = WriteThread_step_def doWrite_take_def doWrite_hal_def doGetPresentationPosition_def
  doGetLatency_def Let_def

text \<open>What is between the queues: bytes that were taken but not yet written, and a command without a reply.\<close>

fun pc_bytes :: "writer_pc \<Rightarrow> u8 list" where
  "pc_bytes (Pc_write mBuffer) = mBuffer"
| "pc_bytes _ = []"

fun pc_busy :: "writer_pc \<Rightarrow> bool" where
  "pc_busy Pc_switch = True"
| "pc_busy (Pc_write _) = True"
| "pc_busy Pc_status = True"
| "pc_busy _ = False"

definition wt_current :: "('c, 'd, 's) WriteThread \<Rightarrow> WriteCommand list" where
  "wt_current t = (if pc_busy (wt_pc t) then [ws_replyTo (wt_mStatus t)] else [])"

definition written_bytes :: "out_event list \<Rightarrow> u8 list" where
  "written_bytes tr = concat (map (\<lambda>e. case e of Ev_hal_write xs \<Rightarrow> xs | _ \<Rightarrow> []) tr)"
definition sent_bytes :: "out_event list \<Rightarrow> u8 list" where
  "sent_bytes tr = concat (map (\<lambda>e. case e of Ev_sent xs \<Rightarrow> xs | _ \<Rightarrow> []) tr)"
definition asked_commands :: "out_event list \<Rightarrow> WriteCommand list" where
  "asked_commands tr = concat (map (\<lambda>e. case e of Ev_asked x \<Rightarrow> [x] | _ \<Rightarrow> []) tr)"
definition taken_commands :: "out_event list \<Rightarrow> WriteCommand list" where
  "taken_commands tr = concat (map (\<lambda>e. case e of Ev_command x \<Rightarrow> [x] | _ \<Rightarrow> []) tr)"
definition all_replies :: "out_event list \<Rightarrow> WriteStatus list" where
  "all_replies tr = concat (map (\<lambda>e. case e of Ev_reply x _ \<Rightarrow> [x] | _ \<Rightarrow> []) tr)"
definition sent_replies :: "out_event list \<Rightarrow> WriteStatus list" where
  "sent_replies tr = concat (map (\<lambda>e. case e of Ev_reply x True \<Rightarrow> [x] | _ \<Rightarrow> []) tr)"
definition answered_replies :: "out_event list \<Rightarrow> WriteStatus list" where
  "answered_replies tr = concat (map (\<lambda>e. case e of Ev_answered x \<Rightarrow> [x] | _ \<Rightarrow> []) tr)"

lemmas trace_defs = written_bytes_def sent_bytes_def asked_commands_def taken_commands_def all_replies_def
  sent_replies_def answered_replies_def

lemma trace_append [simp]:
  "written_bytes (xs @ ys) = written_bytes xs @ written_bytes ys"
  "sent_bytes (xs @ ys) = sent_bytes xs @ sent_bytes ys"
  "asked_commands (xs @ ys) = asked_commands xs @ asked_commands ys"
  "taken_commands (xs @ ys) = taken_commands xs @ taken_commands ys"
  "all_replies (xs @ ys) = all_replies xs @ all_replies ys"
  "sent_replies (xs @ ys) = sent_replies xs @ sent_replies ys"
  "answered_replies (xs @ ys) = answered_replies xs @ answered_replies ys"
  by (simp_all add: trace_defs)

lemma trace_Nil [simp]:
  "written_bytes [] = []" "sent_bytes [] = []" "asked_commands [] = []" "taken_commands [] = []"
  "all_replies [] = []" "sent_replies [] = []" "answered_replies [] = []"
  by (simp_all add: trace_defs)

text \<open>How a step of the thread moves what it has: each account is a chain of three places.\<close>

definition accounts_move ::
  "('c, 'd, 's, 'h) out_config \<Rightarrow> ('c, 'd, 's) WriteThread \<Rightarrow> ('c, 'd, 's) WriteThread \<Rightarrow> out_event list \<Rightarrow> bool" where
  "accounts_move c t t' evs \<longleftrightarrow>
     pc_bytes (wt_pc t) @ oc_data c (wt_dataMQ t) = written_bytes evs @ pc_bytes (wt_pc t') @ oc_data c (wt_dataMQ t')
   \<and> oc_commands c (wt_commandMQ t) = taken_commands evs @ oc_commands c (wt_commandMQ t')
   \<and> wt_current t @ taken_commands evs = map ws_replyTo (all_replies evs) @ wt_current t'
   \<and> oc_statuses c (wt_statusMQ t') = oc_statuses c (wt_statusMQ t) @ sent_replies evs
   \<and> fmq_availableToWrite (wq_status (oc_mqs c)) (wt_statusMQ t)
       = fmq_availableToWrite (wq_status (oc_mqs c)) (wt_statusMQ t') + length (sent_replies evs)
   \<and> sent_bytes evs = [] \<and> asked_commands evs = [] \<and> answered_replies evs = []
   \<and> (all_replies evs = sent_replies evs \<or> fmq_availableToWrite (wq_status (oc_mqs c)) (wt_statusMQ t) = 0)"

lemma thread_accounts:
  assumes "out_queues_ok c" "WriteThread_step (oc_mqs c) ef f u stop waited t h = (t', h', evs)"
  shows "accounts_move c t t' evs"
proof (cases "wt_pc t")
  case Pc_command
  have fifo: "fifo (wq_command (oc_mqs c)) (oc_commands c)" using assms(1) by (simp add: out_queues_ok_def)
  show ?thesis
  proof (cases "fmq_read1 (wq_command (oc_mqs c)) (wt_commandMQ t)")
    case (Some r)
    then show ?thesis using assms(2) Pc_command fifo_read1(1) [OF fifo, of "wt_commandMQ t" "fst r" "snd r"]
      by (auto simp: thread_defs accounts_move_def trace_defs wt_current_def split: prod.splits)
  qed (use assms(2) Pc_command in \<open>auto simp: thread_defs accounts_move_def trace_defs wt_current_def\<close>)
next
  case Pc_switch
  have fifo: "fifo (wq_data (oc_mqs c)) (oc_data c)" using assms(1) by (simp add: out_queues_ok_def)
  note read = fifo_read [OF fifo, of _ "wt_dataMQ t"] and avail = fifo_available [OF fifo]
  show ?thesis
  proof (cases "ws_replyTo (wt_mStatus t)")
    case Write_WRITE
    have "oc_data c (wt_dataMQ t) = xs @ oc_data c q \<and> oc_data c q = []"
      if "fmq_read (wq_data (oc_mqs c)) (fmq_availableToRead (wq_data (oc_mqs c)) (wt_dataMQ t)) (wt_dataMQ t) = Some (xs, q)"
      for xs q using read [OF that] by (simp add: avail)
    with assms(2) Pc_switch Write_WRITE show ?thesis
      by (auto simp: thread_defs accounts_move_def trace_defs wt_current_def split: option.splits)
  qed (use assms(2) Pc_switch in \<open>auto simp: thread_defs accounts_move_def trace_defs wt_current_def
      split: prod.splits option.splits\<close>)
next
  case Pc_status
  have fifo: "fifo (wq_status (oc_mqs c)) (oc_statuses c)" using assms(1) by (simp add: out_queues_ok_def)
  show ?thesis
  proof (cases "fmq_write (wq_status (oc_mqs c)) [wt_mStatus t] (wt_statusMQ t)")
    case None
    then show ?thesis using assms(2) Pc_status fifo_write_None [OF fifo None]
      by (auto simp: thread_defs accounts_move_def trace_defs wt_current_def)
  next
    case (Some q)
    then show ?thesis using assms(2) Pc_status fifo_write [OF fifo Some]
      by (auto simp: thread_defs accounts_move_def trace_defs wt_current_def)
  qed
qed (use assms(2) in \<open>auto simp: thread_defs accounts_move_def trace_defs wt_current_def split: prod.splits if_splits\<close>)

section \<open>Nothing is lost\<close>

text \<open>
  The accounts of a stream with a trace: bytes, commands and replies are in one of the
  places between the client and the HAL, in order.
\<close>

definition out_accounts ::
  "('c, 'd, 's, 'h) out_config \<Rightarrow> ('c, 'd, 's, 'h) out_world \<Rightarrow> out_event list \<Rightarrow> bool" where
  "out_accounts c w tr \<longleftrightarrow>
     (case ow_thread w of
        None \<Rightarrow> sent_bytes tr = [] \<and> written_bytes tr = [] \<and> asked_commands tr = [] \<and> taken_commands tr = []
          \<and> all_replies tr = [] \<and> sent_replies tr = [] \<and> answered_replies tr = []
      | Some t \<Rightarrow> sent_bytes tr = written_bytes tr @ pc_bytes (wt_pc t) @ oc_data c (wt_dataMQ t)
          \<and> asked_commands tr = taken_commands tr @ oc_commands c (wt_commandMQ t)
          \<and> taken_commands tr = map ws_replyTo (all_replies tr) @ wt_current t
          \<and> sent_replies tr = answered_replies tr @ oc_statuses c (wt_statusMQ t)
          \<and> fmq_availableToWrite (wq_status (oc_mqs c)) (wt_statusMQ t) + length (oc_statuses c (wt_statusMQ t)) = 1)"

text \<open>Closing changes nothing of the thread but the word of the event flag.\<close>

lemma StreamOut_closeHal_thread:
  "StreamOut_closeHal hw k (s, d, h) = Some (s', d', h')
     \<Longrightarrow> so_mWriteThread s' = so_mWriteThread s \<and> so_mStopWriteThread s' = so_mStopWriteThread s"
  by (auto simp: StreamOut_closeHal_def)

lemma close_keeps_thread:
  assumes "StreamOut_close ef v hw k (s, d, h) = Some (retval, s', d', h')"
  obtains g where "so_mWriteThread s' = map_option (wt_efWord_update g) (so_mWriteThread s)"
    "\<not> so_mStopWriteThread s \<Longrightarrow> g = ef_wake ef (ef_NOT_EMPTY ef)" "so_mStopWriteThread s \<Longrightarrow> s' = s"
proof (cases "so_mStopWriteThread s")
  case True
  then have "s' = s" using assms by (simp add: StreamOut_close_def)
  moreover have "map_option (wt_efWord_update (\<lambda>x. x)) (so_mWriteThread s) = so_mWriteThread s"
    by (cases "so_mWriteThread s") simp_all
  ultimately show thesis using True by (intro that [of "\<lambda>x. x"]) simp_all
next
  case False
  then have "so_mWriteThread s' = so_mWriteThread (StreamOut_wake ef (s\<lparr>so_mStopWriteThread := True\<rparr>))"
    using assms StreamOut_closeHal_thread by (fastforce simp: StreamOut_close_def Let_def split: if_splits)
  then show thesis using False by (intro that) (simp_all add: StreamOut_wake_def)
qed

lemma destroy_keeps_thread:
  "StreamOut_destroy v hw k (s, d, h) = Some (s', d', h') \<Longrightarrow> so_mWriteThread s' = so_mWriteThread s"
  by (auto simp: StreamOut_destroy_def StreamOut_closeHal_def Let_def split: if_splits)

lemma prepare_cases:
  assumes "prepareForWriting e frameSize framesCount s = (retval, s')"
  obtains (refused) "retval \<noteq> Result_OK" "s' = s"
  | (ready) "retval = Result_OK" "so_mWriteThread s = None" "buffer_size_ok frameSize framesCount"
      "s' = s\<lparr>so_mWriteThread := Some
         \<lparr>wt_commandMQ = fst (pe_commandMQ e), wt_dataMQ = fst (pe_dataMQ e (unat (frameSize * framesCount))),
          wt_statusMQ = fst (pe_statusMQ e), wt_efWord = the (pe_event_flag e), wt_mStatus = pe_mStatus e, wt_pc = Pc_test\<rparr>\<rparr>"
  using assms unfolding prepareForWriting_def Let_def by (auto split: if_splits prod.splits)

lemma out_accounts_thread:
  assumes ok: "out_queues_ok c" and "out_thread_step c w evs w'" "out_accounts c w tr"
  shows "out_accounts c w' (tr @ evs)"
  using assms(2)
proof cases
  case (thread t waited)
  obtain t' h evs' where r: "WriteThread_step (oc_mqs c) (oc_ef c) (oc_stream c) (oc_union c)
      (so_mStopWriteThread (ow_out w)) waited t (ow_hal w) = (t', h, evs')" by (metis prod_cases3)
  have "accounts_move c t t' evs'" by (rule thread_accounts [OF ok r])
  then show ?thesis
    using assms(3) thread r
    by (auto simp: out_accounts_def accounts_move_def set_thread_def ow_thread_def run_thread_def)
qed

lemma out_accounts_env:
  assumes ok: "out_queues_ok c" and "out_env_step c w evs w'" "out_accounts c w tr"
  shows "out_accounts c w' (tr @ evs)"
  using assms(2)
proof cases
  case (prepare e frameSize framesCount retval s)
  from prepare(5) show ?thesis
  proof (cases rule: prepare_cases)
    case refused
    then show ?thesis using assms(3) prepare by (simp add: out_accounts_def ow_thread_def)
  next
    case ready
    then show ?thesis
      using assms(3) prepare by (simp add: out_accounts_def ow_thread_def fresh_queues_def wt_current_def)
  qed
next
  case (send t xs q)
  have fifo: "fifo (wq_data (oc_mqs c)) (oc_data c)" using ok by (simp add: out_queues_ok_def)
  from send assms(3) show ?thesis
    by (simp add: out_accounts_def set_thread_def ow_thread_def wt_current_def trace_defs fifo_write [OF fifo])
next
  case (ask t cmd q)
  have fifo: "fifo (wq_command (oc_mqs c)) (oc_commands c)" using ok by (simp add: out_queues_ok_def)
  from ask assms(3) show ?thesis
    by (simp add: out_accounts_def set_thread_def ow_thread_def wt_current_def trace_defs fifo_write [OF fifo])
next
  case (answer t st q)
  have fifo: "fifo (wq_status (oc_mqs c)) (oc_statuses c)" using ok by (simp add: out_queues_ok_def)
  from answer assms(3) show ?thesis
    by (simp add: out_accounts_def set_thread_def ow_thread_def wt_current_def trace_defs fifo_read1 [OF fifo])
next
  case (notify t)
  then show ?thesis using assms(3) by (simp add: out_accounts_def set_thread_def ow_thread_def wt_current_def)
next
  case (await t st word)
  then show ?thesis using assms(3) by (simp add: out_accounts_def set_thread_def ow_thread_def wt_current_def)
next
  case (close retval s d h)
  from close_keeps_thread [OF close(4)] obtain g where
    "so_mWriteThread s = map_option (wt_efWord_update g) (so_mWriteThread (ow_out w))" .
  then show ?thesis using assms(3) close
    by (cases "so_mWriteThread (ow_out w)") (simp_all add: out_accounts_def ow_thread_def wt_current_def)
next
  case (destroy s d h)
  then show ?thesis using assms(3) destroy_keeps_thread [OF destroy(6)] by (simp add: out_accounts_def ow_thread_def)
next
  case (others d h)
  then show ?thesis using assms(3) by (simp add: out_accounts_def ow_thread_def)
qed

lemma out_reach_accounts:
  assumes "out_queues_ok c" "out_reach c w tr"
  shows "out_accounts c w tr"
  using assms(2)
proof induction
  case (opened w)
  then show ?case by (simp add: out_accounts_def ow_thread_def StreamOut_new_def)
next
  case (thread_step w tr evs w')
  then show ?case using out_accounts_thread [OF assms(1)] by blast
next
  case (env_step w tr evs w')
  then show ?case using out_accounts_env [OF assms(1)] by blast
qed

section \<open>The end of the thread\<close>

text \<open>How many steps the thread has left once the stop flag is set.\<close>

fun pc_rank :: "writer_pc \<Rightarrow> nat" where
  "pc_rank Pc_exit = 0"
| "pc_rank Pc_test = 1"
| "pc_rank Pc_wake = 2"
| "pc_rank Pc_status = 3"
| "pc_rank (Pc_write _) = 4"
| "pc_rank Pc_switch = 5"
| "pc_rank Pc_command = 6"
| "pc_rank Pc_wait = 7"

lemma pc_rank_le: "pc_rank p \<le> 7"
  by (cases p) auto

lemma thread_rank:
  assumes "WriteThread_step mqs ef f u stop waited t h = (t', h', evs)" "stop" "wt_pc t \<noteq> Pc_exit"
  shows "pc_rank (wt_pc t') < pc_rank (wt_pc t)"
  using assms
  by (cases "wt_pc t"; cases "ws_replyTo (wt_mStatus t)")
    (auto simp: thread_defs split: prod.splits option.splits if_splits)

lemma thread_exits_on_stop:
  assumes "WriteThread_step mqs ef f u stop waited t h = (t', h', evs)" "wt_pc t' = Pc_exit"
  shows "stop \<or> wt_pc t = Pc_exit"
  using assms
  by (cases "wt_pc t"; cases "ws_replyTo (wt_mStatus t)")
    (auto simp: thread_defs split: prod.splits option.splits if_splits)

text \<open>A run with the number of its steps that are the thread's.\<close>

inductive out_run ::
  "('c, 'd, 's, 'h) out_config \<Rightarrow> nat \<Rightarrow> ('c, 'd, 's, 'h) out_world \<Rightarrow> ('c, 'd, 's, 'h) out_world \<Rightarrow> bool"
  for c where
  here: "out_run c 0 w w"
| by_thread: "out_run c n w w1 \<Longrightarrow> out_thread_step c w1 evs w2 \<Longrightarrow> out_run c (Suc n) w w2"
| by_env: "out_run c n w w1 \<Longrightarrow> out_env_step c w1 evs w2 \<Longrightarrow> out_run c n w w2"

definition ow_rank :: "('c, 'd, 's, 'h) out_world \<Rightarrow> nat" where
  "ow_rank w = (case ow_thread w of None \<Rightarrow> 1 | Some t \<Rightarrow> pc_rank (wt_pc t))"

lemma StreamOut_close_stops:
  "StreamOut_close ef v hw k (s, d, h) = Some (retval, s', d', h') \<Longrightarrow> so_mStopWriteThread s'"
  by (auto simp: StreamOut_close_def StreamOut_wake_def StreamOut_closeHal_def Let_def split: if_splits)

lemma StreamOut_destroy_stops:
  "StreamOut_destroy v hw k (s, d, h) = Some (s', d', h') \<Longrightarrow> so_mStopWriteThread s' = so_mStopWriteThread s"
  by (auto simp: StreamOut_destroy_def StreamOut_closeHal_def Let_def split: if_splits)

lemma out_env_rank:
  assumes "out_env_step c w evs w'" "so_mStopWriteThread (ow_out w)"
  shows "so_mStopWriteThread (ow_out w') \<and> ow_rank w' \<le> ow_rank w"
  using assms(1)
proof cases
  case (prepare e frameSize framesCount retval s)
  from prepare(5) show ?thesis
    by (cases rule: prepare_cases) (use assms(2) prepare in \<open>simp_all add: ow_rank_def ow_thread_def\<close>)
next
  case (close retval s d h)
  from close_keeps_thread [OF close(4)] obtain g where
    "so_mWriteThread s = map_option (wt_efWord_update g) (so_mWriteThread (ow_out w))" .
  then show ?thesis using close StreamOut_close_stops [OF close(4)]
    by (cases "so_mWriteThread (ow_out w)") (simp_all add: ow_rank_def ow_thread_def)
next
  case (destroy s d h)
  then show ?thesis using destroy_keeps_thread [OF destroy(6)] StreamOut_destroy_stops [OF destroy(6)]
    by (simp add: ow_rank_def ow_thread_def)
qed (use assms(2) in \<open>simp_all add: ow_rank_def ow_thread_def set_thread_def\<close>)

lemma out_thread_rank:
  assumes "out_thread_step c w evs w'" "so_mStopWriteThread (ow_out w)"
  shows "so_mStopWriteThread (ow_out w') \<and> ow_rank w' < ow_rank w"
  using assms(1)
proof cases
  case (thread t waited)
  obtain t' h evs' where r: "WriteThread_step (oc_mqs c) (oc_ef c) (oc_stream c) (oc_union c) True waited t (ow_hal w)
      = (t', h, evs')" by (metis prod_cases3)
  from thread_rank [OF r] show ?thesis
    using thread assms(2) r by (simp add: run_thread_def set_thread_def ow_rank_def ow_thread_def)
qed

lemma out_run_rank:
  "out_run c n w w' \<Longrightarrow> so_mStopWriteThread (ow_out w) \<Longrightarrow> so_mStopWriteThread (ow_out w') \<and> n + ow_rank w' \<le> ow_rank w"
proof (induction rule: out_run.induct)
  case (by_thread n w w1 evs w2)
  then show ?case using out_thread_rank by fastforce
next
  case (by_env n w w1 evs w2)
  then show ?case using out_env_rank by fastforce
qed simp

text \<open>A closed stream's thread that is at its wait has been woken, or will not wait.\<close>

definition wake_pending :: "event_flag \<Rightarrow> ('c, 'd, 's) StreamOut \<Rightarrow> bool" where
  "wake_pending ef s \<longleftrightarrow> (so_mStopWriteThread s \<longrightarrow>
     (\<forall>t. so_mWriteThread s = Some t \<longrightarrow> wt_pc t = Pc_wait \<longrightarrow> wt_efWord t AND ef_NOT_EMPTY ef \<noteq> 0))"

lemma wake_pending_thread:
  assumes "out_thread_step c w evs w'"
  shows "wake_pending (oc_ef c) (ow_out w')"
  using assms
proof cases
  case (thread t waited)
  obtain t' h evs' where r: "WriteThread_step (oc_mqs c) (oc_ef c) (oc_stream c) (oc_union c)
      (so_mStopWriteThread (ow_out w)) waited t (ow_hal w) = (t', h, evs')" by (metis prod_cases3)
  have "wt_pc t' \<noteq> Pc_wait" if "so_mStopWriteThread (ow_out w)"
  proof
    assume "wt_pc t' = Pc_wait"
    with thread_rank [OF r that thread(5)] pc_rank_le [of "wt_pc t"] show False by simp
  qed
  with thread r show ?thesis by (simp add: wake_pending_def run_thread_def set_thread_def)
qed

lemma wake_pending_env:
  assumes ef: "event_flag_ok (oc_ef c)" and "out_env_step c w evs w'" "wake_pending (oc_ef c) (ow_out w)"
  shows "wake_pending (oc_ef c) (ow_out w')"
  using assms(2)
proof cases
  case (prepare e frameSize framesCount retval s)
  from prepare(5) show ?thesis
    by (cases rule: prepare_cases) (use assms(3) prepare in \<open>auto simp: wake_pending_def\<close>)
next
  case (notify t)
  then show ?thesis using assms(3) event_flag_wake(2) [OF ef]
    by (auto simp: wake_pending_def set_thread_def ow_thread_def)
next
  case (await t st word)
  have "ef_NOT_FULL (oc_ef c) AND ef_NOT_EMPTY (oc_ef c) = 0" using ef by (simp add: event_flag_ok_def and.commute)
  from event_flag_wait_other [OF ef await(4) this] show ?thesis using assms(3) await
    by (auto simp: wake_pending_def set_thread_def ow_thread_def)
next
  case (close retval s d h)
  have bit: "ef_NOT_EMPTY (oc_ef c) \<noteq> 0" using ef by (simp add: event_flag_ok_def)
  from close_keeps_thread [OF close(4)] obtain g where
    g: "so_mWriteThread s = map_option (wt_efWord_update g) (so_mWriteThread (ow_out w))"
      "\<not> so_mStopWriteThread (ow_out w) \<Longrightarrow> g = ef_wake (oc_ef c) (ef_NOT_EMPTY (oc_ef c))"
      "so_mStopWriteThread (ow_out w) \<Longrightarrow> s = ow_out w" by blast
  show ?thesis
  proof (cases "so_mStopWriteThread (ow_out w)")
    case True
    with g(3) assms(3) close show ?thesis by simp
  next
    case False
    with g(1,2) close event_flag_wake(1) [OF ef bit] show ?thesis by (auto simp: wake_pending_def)
  qed
next
  case (destroy s d h)
  then show ?thesis using assms(3) destroy_keeps_thread [OF destroy(6)] StreamOut_destroy_stops [OF destroy(6)]
    by (simp add: wake_pending_def)
qed (use assms(3) in \<open>auto simp: wake_pending_def set_thread_def ow_thread_def\<close>)

lemma out_reach_wake_pending:
  assumes "event_flag_ok (oc_ef c)" "out_reach c w tr"
  shows "wake_pending (oc_ef c) (ow_out w)"
  using assms(2)
proof induction
  case (opened w)
  then show ?case by (simp add: wake_pending_def StreamOut_new_def)
next
  case (thread_step w tr evs w')
  then show ?case using wake_pending_thread by blast
next
  case (env_step w tr evs w')
  then show ?case using wake_pending_env [OF assms(1)] by blast
qed

lemma out_run_reach: "out_run c n w w' \<Longrightarrow> out_reach c w tr \<Longrightarrow> \<exists>tr'. out_reach c w' tr'"
proof (induction rule: out_run.induct)
  case (by_thread n w w1 evs w2)
  then show ?case using out_reach.thread_step by blast
next
  case (by_env n w w1 evs w2)
  then show ?case using out_reach.env_step by blast
qed blast

lemma thread_can_step:
  assumes ef: "event_flag_ok (oc_ef c)" and "out_reach c w tr" "so_mStopWriteThread (ow_out w)"
    and "\<not> ow_destroyed w" "\<not> can_join (ow_out w)"
  shows "\<exists>evs w'. out_thread_step c w evs w'"
proof -
  from assms(5) obtain t where t: "ow_thread w = Some t" "wt_pc t \<noteq> Pc_exit"
    by (auto simp: can_join_def ow_thread_def split: option.splits)
  have "wt_pc t = Pc_wait \<Longrightarrow> wt_efWord t AND ef_NOT_EMPTY (oc_ef c) \<noteq> 0"
    using out_reach_wake_pending [OF ef assms(2)] t(1) assms(3) by (simp add: wake_pending_def ow_thread_def)
  then obtain st word where
    "wt_pc t = Pc_wait \<Longrightarrow> ef_wait (oc_ef c) (ef_NOT_EMPTY (oc_ef c)) (wt_efWord t) st word"
    using ef unfolding event_flag_ok_def by blast
  with out_thread_step.thread [OF assms(4) t, of c "(st, word)"] show ?thesis by auto
qed

text \<open>C38: After a close the writer thread ends: however client and device behave, it makes at most seven
  more steps of its loop, and it is never blocked: at every moment it can make the next one, until it has
  left the loop, which is when the destructor's join returns. A thread that waits for the client is
  woken by the close itself. It relies on the documented behaviour of event flags.\<close>

theorem writer_ends_after_close:
  assumes "event_flag_ok (oc_ef c)" "out_reach c w tr" "so_mStopWriteThread (ow_out w)"
    and "out_run c n w w'" "\<not> ow_destroyed w'"
  shows "n \<le> 7 \<and> so_mStopWriteThread (ow_out w')
    \<and> (can_join (ow_out w') \<or> (\<exists>evs w2. out_thread_step c w' evs w2))"
proof -
  have "n + ow_rank w' \<le> ow_rank w" and stop: "so_mStopWriteThread (ow_out w')"
    using out_run_rank [OF assms(4,3)] by auto
  moreover have "ow_rank w \<le> 7" using pc_rank_le by (simp add: ow_rank_def split: option.split)
  moreover obtain tr' where "out_reach c w' tr'" using out_run_reach [OF assms(4,2)] by blast
  ultimately show ?thesis using thread_can_step [OF assms(1) _ stop assms(5)] by force
qed

text \<open>C25: At every moment of a stream's life, whatever the order of the steps of the thread, the client
  and the framework: the bytes the client sent are those written to the HAL, then those taken but not
  yet written, then those in the queue, in this order; the commands asked are those with a reply, then
  the one at work, then those in the queue; replies reach the client in order, and one is dropped only
  when the client has left an earlier one in the queue.\<close>

theorem writer_loses_nothing:
  assumes "out_queues_ok c" "out_reach c w tr" "ow_thread w = Some t"
  shows "sent_bytes tr = written_bytes tr @ pc_bytes (wt_pc t) @ oc_data c (wt_dataMQ t)
    \<and> asked_commands tr = map ws_replyTo (all_replies tr) @ wt_current t @ oc_commands c (wt_commandMQ t)
    \<and> sent_replies tr = answered_replies tr @ oc_statuses c (wt_statusMQ t)
    \<and> (fmq_write (wq_status (oc_mqs c)) [st] (wt_statusMQ t) \<noteq> None \<or> sent_replies tr \<noteq> answered_replies tr)"
proof -
  have "fifo (wq_status (oc_mqs c)) (oc_statuses c)" using assms(1) by (simp add: out_queues_ok_def)
  from fifo_write_None [OF this, of "[st]" "wt_statusMQ t"] out_reach_accounts [OF assms(1,2)] assms(3)
  show ?thesis by (auto simp: out_accounts_def)
qed

section \<open>Calls of a closed stream\<close>

lemma closed_is_destroyed:
  assumes "out_reach c w tr" "api_MAJOR (oc_version c) \<le> 5"
  shows "so_hal_closed (ow_out w) \<Longrightarrow> ow_destroyed w"
  using assms(1)
proof induction
  case (opened w)
  then show ?case by (simp add: StreamOut_new_def)
next
  case (thread_step w tr evs w')
  from thread_step(2,1,3,4) show ?case
    by cases (auto simp: run_thread_def set_thread_def case_prod_beta)
next
  case (env_step w tr evs w')
  from env_step(2) show ?case
  proof cases
    case (prepare e frameSize framesCount retval s)
    from prepare(5) show ?thesis
      by (cases rule: prepare_cases) (use env_step prepare in \<open>auto\<close>)
  qed (use env_step assms(2) in \<open>auto simp: set_thread_def StreamOut_close_def StreamOut_wake_def StreamOut_destroy_def
      StreamOut_closeHal_def Let_def split: if_splits\<close>)
qed

lemma close_then_write:
  assumes "api_MAJOR (oc_version c) \<ge> 6" "out_reach c w tr" "\<not> ow_destroyed w" "ow_thread w = Some t"
    and "wt_pc t = Pc_write mBuffer" "\<not> so_mStopWriteThread (ow_out w)" "dev_mOpenedStreamsCount (ow_device w) \<noteq> 0"
  obtains w1 t1 where "out_reach c w1 tr" "\<not> ow_destroyed w1" "ow_thread w1 = Some t1" "wt_pc t1 = Pc_write mBuffer"
    "so_hal_closed (ow_out w1)"
proof -
  obtain s d h where closing: "StreamOut_close (oc_ef c) (oc_version c) (oc_hw c) (aso_handle (oc_stream c))
      (ow_out w, ow_device w, ow_hal w) = Some (Result_OK, s, d, h)" and closed: "so_hal_closed s"
    using assms(1,6,7)
    by (auto simp: StreamOut_close_def StreamOut_closeHal_def Device_closeOutputStream_def Let_def)
  from close_keeps_thread [OF closing] obtain g where
    "so_mWriteThread s = map_option (wt_efWord_update g) (so_mWriteThread (ow_out w))" by blast
  with out_reach.env_step [OF assms(2) out_env_step.close [OF assms(3) closing]] assms(3-5) closed
  show thesis
    by (intro that [of "w\<lparr>ow_out := s, ow_device := d, ow_hal := h\<rparr>" "wt_efWord_update g t"]) (auto simp: ow_thread_def)
qed

text \<open>C39: Take any moment at which the writer thread is about to hand bytes to the legacy stream and
  nobody has closed the stream yet. From version 6 on, and only then, it can come to a call of a legacy
  stream that is already closed: \<open>close\<close> closes it at once, while up to version 5 the destructor does so
  after the join.\<close>

theorem write_to_closed_stream:
  assumes "out_reach c w tr" "\<not> ow_destroyed w" "ow_thread w = Some t" "wt_pc t = Pc_write mBuffer"
    and "\<not> so_mStopWriteThread (ow_out w)" "dev_mOpenedStreamsCount (ow_device w) \<noteq> 0"
  shows "api_MAJOR (oc_version c) \<ge> 6 \<longleftrightarrow>
    (\<exists>w1 tr1 evs w2. out_reach c w1 tr1 \<and> so_hal_closed (ow_out w1) \<and> out_thread_step c w1 (Ev_hal_write mBuffer # evs) w2)"
proof
  assume "api_MAJOR (oc_version c) \<ge> 6"
  from close_then_write [OF this assms]
  obtain w1 t1 where w1: "out_reach c w1 tr" "\<not> ow_destroyed w1" "ow_thread w1 = Some t1"
    "wt_pc t1 = Pc_write mBuffer" "so_hal_closed (ow_out w1)" .
  moreover have "out_thread_step c w1 [Ev_hal_write mBuffer] (snd (run_thread c (0, 0) t1 w1))"
    using out_thread_step.thread [OF w1(2,3), of c "(0, 0)"] w1(4)
    by (simp add: run_thread_def thread_defs case_prod_beta)
  ultimately show "\<exists>w1 tr1 evs w2. out_reach c w1 tr1 \<and> so_hal_closed (ow_out w1)
      \<and> out_thread_step c w1 (Ev_hal_write mBuffer # evs) w2" by blast
next
  assume "\<exists>w1 tr1 evs w2. out_reach c w1 tr1 \<and> so_hal_closed (ow_out w1)
      \<and> out_thread_step c w1 (Ev_hal_write mBuffer # evs) w2"
  then obtain w1 tr1 evs w2 where w1: "out_reach c w1 tr1" "so_hal_closed (ow_out w1)"
    "out_thread_step c w1 (Ev_hal_write mBuffer # evs) w2" by blast
  from w1(3) have "\<not> ow_destroyed w1" by cases
  then show "api_MAJOR (oc_version c) \<ge> 6" using closed_is_destroyed [OF w1(1) _ w1(2)] by linarith
qed

section \<open>An example\<close>

text \<open>
  A HAL that takes all it is given and counts it, list queues, and a client that asks for a
  write of two bytes; \<open>v\<close> is the interface version.
\<close>

definition example_hal_out :: "nat audio_stream_out" where
  "example_hal_out =
     \<lparr>aso_handle = 1, aso_get_latency = (\<lambda>h. 20), aso_set_volume = None,
      aso_write = (\<lambda>xs h. (int (length xs), h + length xs)), aso_get_render_position = (\<lambda>v h. (0, v, h)),
      aso_get_next_write_timestamp = None, aso_set_callback = None, aso_pause = None, aso_resume = None,
      aso_drain = None, aso_flush = None, aso_get_presentation_position = None, aso_update_source_metadata = None,
      aso_update_source_metadata_v7 = None, aso_get_dual_mono_mode = None, aso_set_dual_mono_mode = None,
      aso_get_audio_description_mix_level = None, aso_set_audio_description_mix_level = None,
      aso_get_playback_rate_parameters = None, aso_set_playback_rate_parameters = None,
      aso_set_event_callback = None, aso_set_latency_mode = None, aso_get_recommended_latency_modes = None,
      aso_set_latency_mode_callback = None\<rparr>"

definition example_out_config ::
  "api_version \<Rightarrow> (WriteCommand list_queue, u8 list_queue, WriteStatus list_queue, nat) out_config" where
  "example_out_config v =
     \<lparr>oc_version = v,
      oc_hw = \<lparr>hd_version = 0, hd_close = (\<lambda>h. (0, h)), hd_close_output_stream = (\<lambda>_ h. h),
        hd_close_input_stream = (\<lambda>_ h. h)\<rparr>,
      oc_stream = example_hal_out,
      oc_mqs = \<lparr>wq_command = list_fmq, wq_data = list_fmq, wq_status = list_fmq\<rparr>, oc_ef = example_flag,
      oc_union = (\<lambda>r f. r), oc_commands = lq_items, oc_data = lq_items, oc_statuses = lq_items\<rparr>"

lemma example_out_queues: "out_queues_ok (example_out_config v)"
  by (simp add: out_queues_ok_def example_out_config_def list_fmq_fifo)

definition example_status :: WriteStatus where
  "example_status = \<lparr>ws_replyTo = Write_WRITE, ws_retval = Result_OK, ws_reply = Reply_written 0\<rparr>"

definition example_writer ::
  "(WriteCommand list_queue, u8 list_queue, WriteStatus list_queue) WriteThread" where
  "example_writer =
     \<lparr>wt_commandMQ = \<lparr>lq_free = 1, lq_items = []\<rparr>, wt_dataMQ = \<lparr>lq_free = 8, lq_items = []\<rparr>,
      wt_statusMQ = \<lparr>lq_free = 1, lq_items = []\<rparr>, wt_efWord = 0, wt_mStatus = example_status, wt_pc = Pc_test\<rparr>"

definition example_out_prepare ::
  "(WriteCommand list_queue, u8 list_queue, WriteStatus list_queue) prepare_env" where
  "example_out_prepare =
     \<lparr>pe_commandMQ = (\<lparr>lq_free = 1, lq_items = []\<rparr>, True), pe_dataMQ = (\<lambda>n. (\<lparr>lq_free = n, lq_items = []\<rparr>, True)),
      pe_statusMQ = (\<lparr>lq_free = 1, lq_items = []\<rparr>, True), pe_event_flag = Some 0, pe_init = True, pe_run = True,
      pe_mStatus = example_status\<rparr>"

definition example_out_world ::
  "(WriteCommand list_queue, u8 list_queue, WriteStatus list_queue) WriteThread option
     \<Rightarrow> (WriteCommand list_queue, u8 list_queue, WriteStatus list_queue, nat) out_world" where
  "example_out_world t =
     \<lparr>ow_out = StreamOut_new\<lparr>so_mWriteThread := t\<rparr>, ow_device = Device_new\<lparr>dev_mOpenedStreamsCount := 1\<rparr>,
      ow_hal = 0, ow_destroyed = False\<rparr>"

definition example_asked ::
  "(WriteCommand list_queue, u8 list_queue, WriteStatus list_queue) WriteThread" where
  "example_asked = example_writer\<lparr>wt_commandMQ := \<lparr>lq_free = 0, lq_items = [Write_WRITE]\<rparr>,
     wt_dataMQ := \<lparr>lq_free = 6, lq_items = [1, 2]\<rparr>\<rparr>"

definition example_writing ::
  "(WriteCommand list_queue, u8 list_queue, WriteStatus list_queue) WriteThread" where
  "example_writing = example_writer\<lparr>wt_pc := Pc_write [1, 2]\<rparr>"

lemma example_out_asked:
  "out_reach (example_out_config v) (example_out_world (Some example_asked)) [Ev_asked Write_WRITE, Ev_sent [1, 2]]"
proof -
  let ?c = "example_out_config v"
  have "out_reach ?c (example_out_world None) []"
    by (rule out_reach.opened) (simp_all add: example_out_world_def StreamOut_new_def)
  moreover have "fresh_queues ?c example_out_prepare"
    by (simp add: fresh_queues_def example_out_config_def example_out_prepare_def list_fmq_def)
  moreover have "prepareForWriting example_out_prepare 4 2 (ow_out (example_out_world None))
    = (Result_OK, ow_out (example_out_world (Some example_writer)))"
    by (simp add: prepareForWriting_def example_out_world_def example_out_prepare_def example_writer_def
        StreamOut_new_def buffer_size_ok_def MAX_BUFFER_SIZE_def)
  ultimately have ready: "out_reach ?c (example_out_world (Some example_writer)) []"
    using out_reach.env_step [OF _ out_env_step.prepare [of "example_out_world None" ?c example_out_prepare 4 2]]
    by (fastforce simp: example_out_world_def)
  have asked: "out_env_step ?c (example_out_world (Some example_writer)) [Ev_asked Write_WRITE]
     (example_out_world (Some (example_writer\<lparr>wt_commandMQ := \<lparr>lq_free = 0, lq_items = [Write_WRITE]\<rparr>\<rparr>)))"
    using out_env_step.ask [of "example_out_world (Some example_writer)" example_writer ?c Write_WRITE]
    by (simp add: ow_thread_def example_out_world_def example_out_config_def list_fmq_def example_writer_def
        set_thread_def)
  have sent: "out_env_step ?c
     (example_out_world (Some (example_writer\<lparr>wt_commandMQ := \<lparr>lq_free = 0, lq_items = [Write_WRITE]\<rparr>\<rparr>)))
     [Ev_sent [1, 2]] (example_out_world (Some example_asked))"
    using out_env_step.send [of "example_out_world (Some (example_writer\<lparr>wt_commandMQ := \<lparr>lq_free = 0, lq_items = [Write_WRITE]\<rparr>\<rparr>))"
        "example_writer\<lparr>wt_commandMQ := \<lparr>lq_free = 0, lq_items = [Write_WRITE]\<rparr>\<rparr>" ?c "[1, 2]"]
    by (simp add: ow_thread_def example_out_world_def example_out_config_def list_fmq_def example_writer_def
        set_thread_def example_asked_def)
  from out_reach.env_step [OF out_reach.env_step [OF ready asked] sent] show ?thesis by simp
qed

lemmas example_out_defs = run_thread_def example_out_world_def example_asked_def example_writer_def thread_defs
  example_out_config_def list_fmq_def set_thread_def StreamOut_new_def fmq_read1_def example_status_def
  example_writing_def example_flag_def

lemma example_out_move:
  assumes "\<exists>tr. out_reach (example_out_config v) (example_out_world (Some t)) tr" "wt_pc t \<noteq> Pc_exit"
    and "wt_pc t = Pc_wait \<Longrightarrow> wt_efWord t = 1"
    and "snd (run_thread (example_out_config v) (1, 0) t (example_out_world (Some t))) = example_out_world (Some t')"
  shows "\<exists>tr. out_reach (example_out_config v) (example_out_world (Some t')) tr"
proof -
  let ?w = "example_out_world (Some t)"
  have wait: "wt_pc t = Pc_wait \<Longrightarrow> ef_wait (oc_ef (example_out_config v)) (ef_NOT_EMPTY (oc_ef (example_out_config v)))
      (wt_efWord t) (fst (1, 0)) (snd (1, 0))" using assms(3) by (simp add: example_out_config_def example_flag_def)
  have w: "\<not> ow_destroyed ?w" "ow_thread ?w = Some t" by (simp_all add: example_out_world_def ow_thread_def)
  from assms(1) obtain tr where "out_reach (example_out_config v) ?w tr" ..
  from out_reach.thread_step [OF this out_thread_step.thread [OF w assms(2) wait]] show ?thesis
    unfolding assms(4) by blast
qed

text \<open>The thread before and after the client has woken it.\<close>

lemma example_out_waiting:
  "\<exists>tr. out_reach (example_out_config v) (example_out_world (Some (example_asked\<lparr>wt_pc := Pc_wait\<rparr>))) tr"
proof -
  have "\<exists>tr. out_reach (example_out_config v) (example_out_world (Some example_asked)) tr" using example_out_asked by blast
  then show ?thesis by (rule example_out_move) (simp_all add: example_out_defs)
qed

lemma example_out_writing:
  "\<exists>tr. out_reach (example_out_config v) (example_out_world (Some example_writing)) tr"
proof -
  let ?c = "example_out_config v" and ?t = "example_asked\<lparr>wt_pc := Pc_wait\<rparr>"
  have "out_env_step ?c (example_out_world (Some ?t)) [] (example_out_world (Some (?t\<lparr>wt_efWord := 1\<rparr>)))"
    using out_env_step.notify [of "example_out_world (Some ?t)" ?t ?c]
    by (simp add: ow_thread_def example_out_defs)
  with example_out_waiting have "\<exists>tr. out_reach ?c (example_out_world (Some (?t\<lparr>wt_efWord := 1\<rparr>))) tr"
    by (metis out_reach.env_step)
  then have "\<exists>tr. out_reach ?c (example_out_world (Some (example_asked\<lparr>wt_pc := Pc_command\<rparr>))) tr"
    by (rule example_out_move) (simp_all add: example_out_defs)
  then have "\<exists>tr. out_reach ?c (example_out_world (Some (example_asked\<lparr>wt_pc := Pc_switch,
      wt_commandMQ := \<lparr>lq_free = 1, lq_items = []\<rparr>\<rparr>))) tr"
    by (rule example_out_move) (simp_all add: example_out_defs)
  then show ?thesis by (rule example_out_move) (simp_all add: example_out_defs)
qed

text \<open>The stream closed while its thread waits: the word is no longer the one the thread waits on.\<close>

definition example_out_closed ::
  "(WriteCommand list_queue, u8 list_queue, WriteStatus list_queue, nat) out_world" where
  "example_out_closed = (example_out_world (Some (example_asked\<lparr>wt_pc := Pc_wait, wt_efWord := 1\<rparr>)))
     \<lparr>ow_out := (ow_out (example_out_world (Some (example_asked\<lparr>wt_pc := Pc_wait, wt_efWord := 1\<rparr>))))
        \<lparr>so_mStopWriteThread := True\<rparr>\<rparr>"

lemma example_out_closed_reach:
  "\<exists>tr. out_reach (example_out_config \<lparr>api_MAJOR = 5, api_MINOR = 0\<rparr>) example_out_closed tr"
proof -
  let ?c = "example_out_config \<lparr>api_MAJOR = 5, api_MINOR = 0\<rparr>"
  let ?w = "example_out_world (Some (example_asked\<lparr>wt_pc := Pc_wait\<rparr>))"
  have "StreamOut_close (oc_ef ?c) (oc_version ?c) (oc_hw ?c) (aso_handle (oc_stream ?c)) (ow_out ?w, ow_device ?w, ow_hal ?w)
      = Some (Result_OK, ow_out example_out_closed, ow_device ?w, ow_hal ?w)"
    by (simp add: StreamOut_close_def StreamOut_wake_def example_out_defs example_out_closed_def)
  from out_env_step.close [OF _ this] have "out_env_step ?c ?w [] example_out_closed"
    by (simp add: example_out_closed_def example_out_world_def)
  with example_out_waiting show ?thesis by (metis out_reach.env_step)
qed

theorem writer_loses_nothing_witness:
  "sent_bytes [Ev_asked Write_WRITE, Ev_sent [1, 2]] = oc_data (example_out_config \<lparr>api_MAJOR = 7, api_MINOR = 1\<rparr>) (wt_dataMQ example_asked)
   \<and> asked_commands [Ev_asked Write_WRITE, Ev_sent [1, 2]] = [Write_WRITE]"
proof -
  have "ow_thread (example_out_world (Some example_asked)) = Some example_asked"
    by (simp add: ow_thread_def example_out_world_def)
  from writer_loses_nothing [OF example_out_queues example_out_asked this]
  show ?thesis
    by (simp add: written_bytes_def example_asked_def example_writer_def wt_current_def all_replies_def
        example_out_config_def asked_commands_def)
qed

theorem write_to_closed_stream_witness:
  "(\<exists>w1 tr1 evs w2. out_reach (example_out_config \<lparr>api_MAJOR = 7, api_MINOR = 1\<rparr>) w1 tr1 \<and> so_hal_closed (ow_out w1)
      \<and> out_thread_step (example_out_config \<lparr>api_MAJOR = 7, api_MINOR = 1\<rparr>) w1 (Ev_hal_write [1, 2] # evs) w2)
   \<and> (\<nexists>w1 tr1 evs w2. out_reach (example_out_config \<lparr>api_MAJOR = 5, api_MINOR = 0\<rparr>) w1 tr1 \<and> so_hal_closed (ow_out w1)
      \<and> out_thread_step (example_out_config \<lparr>api_MAJOR = 5, api_MINOR = 0\<rparr>) w1 (Ev_hal_write [1, 2] # evs) w2)"
proof -
  have w: "\<not> ow_destroyed (example_out_world (Some example_writing))"
    "ow_thread (example_out_world (Some example_writing)) = Some example_writing"
    "wt_pc example_writing = Pc_write [1, 2]"
    "\<not> so_mStopWriteThread (ow_out (example_out_world (Some example_writing)))"
    "dev_mOpenedStreamsCount (ow_device (example_out_world (Some example_writing))) \<noteq> 0"
    by (simp_all add: example_out_world_def example_writing_def ow_thread_def StreamOut_new_def)
  obtain tr7 where "out_reach (example_out_config \<lparr>api_MAJOR = 7, api_MINOR = 1\<rparr>) (example_out_world (Some example_writing)) tr7"
    using example_out_writing by blast
  from write_to_closed_stream [OF this w] have v7: "7 \<ge> (6 :: nat) \<longleftrightarrow> (\<exists>w1 tr1 evs w2.
      out_reach (example_out_config \<lparr>api_MAJOR = 7, api_MINOR = 1\<rparr>) w1 tr1 \<and> so_hal_closed (ow_out w1)
      \<and> out_thread_step (example_out_config \<lparr>api_MAJOR = 7, api_MINOR = 1\<rparr>) w1 (Ev_hal_write [1, 2] # evs) w2)"
    by (simp only: example_out_config_def out_config.select_convs api_version.select_convs)
  obtain tr5 where "out_reach (example_out_config \<lparr>api_MAJOR = 5, api_MINOR = 0\<rparr>) (example_out_world (Some example_writing)) tr5"
    using example_out_writing by blast
  from write_to_closed_stream [OF this w] have v5: "5 \<ge> (6 :: nat) \<longleftrightarrow> (\<exists>w1 tr1 evs w2.
      out_reach (example_out_config \<lparr>api_MAJOR = 5, api_MINOR = 0\<rparr>) w1 tr1 \<and> so_hal_closed (ow_out w1)
      \<and> out_thread_step (example_out_config \<lparr>api_MAJOR = 5, api_MINOR = 0\<rparr>) w1 (Ev_hal_write [1, 2] # evs) w2)"
    by (simp only: example_out_config_def out_config.select_convs api_version.select_convs)
  have "(7 :: nat) \<ge> 6" "\<not> (5 :: nat) \<ge> 6" by simp_all
  with v7 v5 show ?thesis by (simp only: not_True_eq_False simp_thms)
qed

theorem writer_ends_after_close_witness:
  "so_mStopWriteThread (ow_out example_out_closed) \<and> \<not> can_join (ow_out example_out_closed)
   \<and> (\<exists>evs w2. out_thread_step (example_out_config \<lparr>api_MAJOR = 5, api_MINOR = 0\<rparr>) example_out_closed evs w2)"
proof -
  let ?c = "example_out_config \<lparr>api_MAJOR = 5, api_MINOR = 0\<rparr>"
  have w: "so_mStopWriteThread (ow_out example_out_closed)" "\<not> ow_destroyed example_out_closed"
    "\<not> can_join (ow_out example_out_closed)"
    by (simp_all add: example_out_closed_def example_out_world_def can_join_def)
  have ef: "event_flag_ok (oc_ef ?c)" using example_flag_ok by (simp add: example_out_config_def)
  obtain tr where reach: "out_reach ?c example_out_closed tr" using example_out_closed_reach by blast
  from writer_ends_after_close [OF ef reach w(1) out_run.here w(2)] w show ?thesis by blast
qed

end
