(* ===== verification/Hal_Stream_In.thy ===== *)
theory Hal_Stream_In
  imports Hal_Stream_Out
begin

text \<open>
  Input streams of the legacy HAL wrapper (\<open>src/audio/hal/StreamIn.cpp\<close>): the reader thread
  with its three message queues, preparing, closing and destroying a stream, and the
  methods that pass a call on. It follows \<open>Hal_Stream_Out\<close>.
\<close>

section \<open>The legacy input stream\<close>

record 'h audio_stream_in =
  asi_handle :: nat
  asi_set_gain :: "hal_float \<Rightarrow> 'h \<Rightarrow> int \<times> 'h"
  asi_read :: "nat \<Rightarrow> 'h \<Rightarrow> int \<times> u8 list \<times> 'h"
  asi_get_input_frames_lost :: "'h \<Rightarrow> u32 \<times> 'h"
  asi_get_capture_position :: "('h \<Rightarrow> int \<times> (u64 \<times> u64) \<times> 'h) option"
  asi_update_sink_metadata :: "(hal_track list \<Rightarrow> 'h \<Rightarrow> 'h) option"
  asi_update_sink_metadata_v7 :: "(hal_track_v7 list \<Rightarrow> 'h \<Rightarrow> 'h) option"
  asi_get_active_microphones :: "(nat \<Rightarrow> 'h \<Rightarrow> int \<times> nat list \<times> nat \<times> 'h) option"
  asi_set_microphone_direction :: "(int \<Rightarrow> 'h \<Rightarrow> int \<times> 'h) option"
  asi_set_microphone_field_dimension :: "(hal_float \<Rightarrow> 'h \<Rightarrow> int \<times> 'h) option"

section \<open>The reader thread\<close>

datatype ReadCommand = Read_READ | Read_GET_CAPTURE_POSITION | Read_other int

record ReadParameters =
  rp_command :: ReadCommand
  rp_read :: u64

datatype read_reply = Reply_read int | Reply_capturePosition u64 u64

record ReadStatus =
  rs_replyTo :: ReadCommand
  rs_retval :: HalResult
  rs_reply :: read_reply

text \<open>
  The points of the loop. \<open>Rc_read\<close> is the call of the HAL with the number of bytes to read,
  \<open>Rc_data\<close> the write of what it returned to the data queue.
\<close>

datatype reader_pc =
    Rc_test | Rc_wait | Rc_command | Rc_switch | Rc_read nat | Rc_data "u8 list" | Rc_status | Rc_wake | Rc_exit

record ('c, 'd, 's) ReadThread =
  rt_commandMQ :: 'c
  rt_dataMQ :: 'd
  rt_statusMQ :: 's
  rt_efWord :: u32
  rt_mParameters :: ReadParameters
  rt_mStatus :: ReadStatus
  rt_pc :: reader_pc

record ('c, 'd, 's) reader_mqs =
  rq_command :: "('c, ReadParameters) fmq"
  rq_data :: "('d, u8) fmq"
  rq_status :: "('s, ReadStatus) fmq"

datatype in_event =
    Iv_command ReadCommand
  | Iv_hal_read "u8 list"
  | Iv_hal_position
  | Iv_data "u8 list" bool
  | Iv_reply ReadStatus bool
  | Iv_wake
  | Iv_received "u8 list"
  | Iv_asked ReadCommand
  | Iv_answered ReadStatus

definition getCapturePositionImpl :: "'h audio_stream_in \<Rightarrow> 'h \<Rightarrow> HalResult \<times> (u64 \<times> u64) option \<times> 'h" where
  "getCapturePositionImpl stream h =
     (case asi_get_capture_position stream of
        None \<Rightarrow> (Result_NOT_SUPPORTED, None, h)
      | Some get_position \<Rightarrow>
         (let (status, position, h) = get_position h; retval = analyzeStatus status
          in (retval, if retval = Result_OK then Some position else None, h)))"

text \<open>\<open>doRead\<close> in three parts: up to the call of the HAL, the call, and the write to the queue.\<close>

definition doRead_size ::
  "('c, 'd, 's) reader_mqs \<Rightarrow> ('c, 'd, 's) ReadThread \<Rightarrow> ('c, 'd, 's) ReadThread" where
  "doRead_size mqs t =
     (let availableToWrite = fmq_availableToWrite (rq_data mqs) (rt_dataMQ t);
          requestedToRead = unat (rp_read (rt_mParameters t))
      in t\<lparr>rt_pc := Rc_read (if requestedToRead > availableToWrite then availableToWrite else requestedToRead)\<rparr>)"

definition doRead_hal ::
  "'h audio_stream_in \<Rightarrow> nat \<Rightarrow> ('c, 'd, 's) ReadThread \<Rightarrow> 'h \<Rightarrow> ('c, 'd, 's) ReadThread \<times> 'h \<times> in_event list" where
  "doRead_hal stream requestedToRead t h =
     (let (readResult, mBuffer, h) = asi_read stream requestedToRead h;
          status = (rt_mStatus t)\<lparr>rs_retval := Result_OK\<rparr>
      in if readResult \<ge> 0 then
           (let bytes = take (nat readResult) mBuffer
            in (t\<lparr>rt_mStatus := status\<lparr>rs_reply := Reply_read readResult\<rparr>, rt_pc := Rc_data bytes\<rparr>, h,
                [Iv_hal_read bytes]))
         else (t\<lparr>rt_mStatus := status\<lparr>rs_retval := analyzeStatus readResult\<rparr>, rt_pc := Rc_status\<rparr>, h,
               [Iv_hal_read []]))"

definition doRead_data ::
  "('c, 'd, 's) reader_mqs \<Rightarrow> u8 list \<Rightarrow> ('c, 'd, 's) ReadThread \<Rightarrow> ('c, 'd, 's) ReadThread \<times> in_event list" where
  "doRead_data mqs bytes t =
     (case fmq_write (rq_data mqs) bytes (rt_dataMQ t) of
        Some q \<Rightarrow> (t\<lparr>rt_dataMQ := q, rt_pc := Rc_status\<rparr>, [Iv_data bytes True])
      | None \<Rightarrow> (t\<lparr>rt_pc := Rc_status\<rparr>, [Iv_data bytes False]))"

definition doGetCapturePosition ::
  "'h audio_stream_in \<Rightarrow> ('c, 'd, 's) ReadThread \<Rightarrow> 'h \<Rightarrow> ('c, 'd, 's) ReadThread \<times> 'h" where
  "doGetCapturePosition stream t h =
     (let (retval, position, h) = getCapturePositionImpl stream h;
          status = (rt_mStatus t)\<lparr>rs_retval := retval\<rparr>
      in (t\<lparr>rt_mStatus := (case position of
              Some (frames, time) \<Rightarrow> status\<lparr>rs_reply := Reply_capturePosition frames time\<rparr>
            | None \<Rightarrow> status), rt_pc := Rc_status\<rparr>, h))"

text \<open>One step; \<open>waited\<close> is what the wait for \<open>NOT_FULL\<close> returns.\<close>

definition ReadThread_step ::
  "('c, 'd, 's) reader_mqs \<Rightarrow> event_flag \<Rightarrow> 'h audio_stream_in \<Rightarrow> bool \<Rightarrow> u32 \<times> u32 \<Rightarrow> ('c, 'd, 's) ReadThread \<Rightarrow> 'h
     \<Rightarrow> ('c, 'd, 's) ReadThread \<times> 'h \<times> in_event list" where
  "ReadThread_step mqs ef stream stop waited t h =
     (case rt_pc t of
        Rc_test \<Rightarrow> (t\<lparr>rt_pc := if stop then Rc_exit else Rc_wait\<rparr>, h, [])
      | Rc_wait \<Rightarrow>
         (t\<lparr>rt_efWord := snd waited, rt_pc := if fst waited AND ef_NOT_FULL ef \<noteq> 0 then Rc_command else Rc_test\<rparr>, h, [])
      | Rc_command \<Rightarrow>
         (case fmq_read1 (rq_command mqs) (rt_commandMQ t) of
            None \<Rightarrow> (t\<lparr>rt_pc := Rc_test\<rparr>, h, [])
          | Some (parameters, q) \<Rightarrow>
              (t\<lparr>rt_commandMQ := q, rt_mParameters := parameters,
                 rt_mStatus := (rt_mStatus t)\<lparr>rs_replyTo := rp_command parameters\<rparr>, rt_pc := Rc_switch\<rparr>,
               h, [Iv_command (rp_command parameters)]))
      | Rc_switch \<Rightarrow>
         (case rp_command (rt_mParameters t) of
            Read_READ \<Rightarrow> (doRead_size mqs t, h, [])
          | Read_GET_CAPTURE_POSITION \<Rightarrow>
              (let (t, h) = doGetCapturePosition stream t h in (t, h, [Iv_hal_position]))
          | Read_other _ \<Rightarrow>
              (t\<lparr>rt_mStatus := (rt_mStatus t)\<lparr>rs_retval := Result_NOT_SUPPORTED\<rparr>, rt_pc := Rc_status\<rparr>, h, []))
      | Rc_read requestedToRead \<Rightarrow> doRead_hal stream requestedToRead t h
      | Rc_data bytes \<Rightarrow> (let (t, evs) = doRead_data mqs bytes t in (t, h, evs))
      | Rc_status \<Rightarrow>
         (case fmq_write (rq_status mqs) [rt_mStatus t] (rt_statusMQ t) of
            Some q \<Rightarrow> (t\<lparr>rt_statusMQ := q, rt_pc := Rc_wake\<rparr>, h, [Iv_reply (rt_mStatus t) True])
          | None \<Rightarrow> (t\<lparr>rt_pc := Rc_wake\<rparr>, h, [Iv_reply (rt_mStatus t) False]))
      | Rc_wake \<Rightarrow> (t\<lparr>rt_efWord := ef_wake ef (ef_NOT_EMPTY ef) (rt_efWord t), rt_pc := Rc_test\<rparr>, h, [Iv_wake])
      | Rc_exit \<Rightarrow> (t, h, []))"

section \<open>The stream\<close>

record ('c, 'd, 's) StreamIn =
  si_mReadThread :: "('c, 'd, 's) ReadThread option"
  si_mStopReadThread :: bool
  si_hal_closed :: bool

definition StreamIn_new :: "('c, 'd, 's) StreamIn" where
  "StreamIn_new = \<lparr>si_mReadThread = None, si_mStopReadThread = False, si_hal_closed = False\<rparr>"

record ('c, 'd, 's) prepare_read_env =
  pr_commandMQ :: "'c \<times> bool"
  pr_dataMQ :: "nat \<Rightarrow> 'd \<times> bool"
  pr_statusMQ :: "'s \<times> bool"
  pr_event_flag :: "u32 option"
  pr_init :: bool
  pr_run :: bool
  pr_mParameters :: ReadParameters
  pr_mStatus :: ReadStatus

definition prepareForReading ::
  "('c, 'd, 's) prepare_read_env \<Rightarrow> u32 \<Rightarrow> u32 \<Rightarrow> ('c, 'd, 's) StreamIn \<Rightarrow> HalResult \<times> ('c, 'd, 's) StreamIn" where
  "prepareForReading e frameSize framesCount s =
     (if si_mReadThread s \<noteq> None then (Result_INVALID_STATE, s)
      else if \<not> buffer_size_ok frameSize framesCount then (Result_INVALID_ARGUMENTS, s)
      else let (commandMQ, c_valid) = pr_commandMQ e;
               (dataMQ, d_valid) = pr_dataMQ e (unat (frameSize * framesCount));
               (statusMQ, s_valid) = pr_statusMQ e
      in if \<not> c_valid \<or> \<not> d_valid \<or> \<not> s_valid then (Result_INVALID_ARGUMENTS, s)
         else if pr_event_flag e = None then (Result_INVALID_ARGUMENTS, s)
         else if \<not> pr_init e then (Result_INVALID_ARGUMENTS, s)
         else if \<not> pr_run e then (Result_INVALID_ARGUMENTS, s)
         else (Result_OK, s\<lparr>si_mReadThread := Some
                 \<lparr>rt_commandMQ = commandMQ, rt_dataMQ = dataMQ, rt_statusMQ = statusMQ,
                  rt_efWord = the (pr_event_flag e), rt_mParameters = pr_mParameters e, rt_mStatus = pr_mStatus e, rt_pc = Rc_test\<rparr>\<rparr>))"

definition StreamIn_closeHal ::
  "('h, 'z) hal_device_scheme \<Rightarrow> nat \<Rightarrow> ('c, 'd, 's) StreamIn \<times> Device \<times> 'h
     \<Rightarrow> (('c, 'd, 's) StreamIn \<times> Device \<times> 'h) option" where
  "StreamIn_closeHal hw handle = (\<lambda>(s, d, h).
     map_option (\<lambda>(d, h). (s\<lparr>si_hal_closed := True\<rparr>, d, h)) (Device_closeInputStream hw handle d h))"

definition StreamIn_wake :: "event_flag \<Rightarrow> ('c, 'd, 's) StreamIn \<Rightarrow> ('c, 'd, 's) StreamIn" where
  "StreamIn_wake ef s =
     s\<lparr>si_mReadThread := map_option (rt_efWord_update (ef_wake ef (ef_NOT_FULL ef))) (si_mReadThread s)\<rparr>"

definition StreamIn_close ::
  "event_flag \<Rightarrow> api_version \<Rightarrow> ('h, 'z) hal_device_scheme \<Rightarrow> nat \<Rightarrow> ('c, 'd, 's) StreamIn \<times> Device \<times> 'h
     \<Rightarrow> (HalResult \<times> ('c, 'd, 's) StreamIn \<times> Device \<times> 'h) option" where
  "StreamIn_close ef v hw handle = (\<lambda>(s, d, h).
     if si_mStopReadThread s then Some (Result_INVALID_STATE, s, d, h)
     else let s = StreamIn_wake ef (s\<lparr>si_mStopReadThread := True\<rparr>)
     in if api_MAJOR v \<ge> 6 then map_option (\<lambda>x. (Result_OK, x)) (StreamIn_closeHal hw handle (s, d, h))
        else Some (Result_OK, s, d, h))"

definition in_can_join :: "('c, 'd, 's) StreamIn \<Rightarrow> bool" where
  "in_can_join s \<longleftrightarrow> (case si_mReadThread s of None \<Rightarrow> True | Some t \<Rightarrow> rt_pc t = Rc_exit)"

definition StreamIn_destroy ::
  "api_version \<Rightarrow> ('h, 'z) hal_device_scheme \<Rightarrow> nat \<Rightarrow> ('c, 'd, 's) StreamIn \<times> Device \<times> 'h
     \<Rightarrow> (('c, 'd, 's) StreamIn \<times> Device \<times> 'h) option" where
  "StreamIn_destroy v hw handle = (\<lambda>(s, d, h).
     if api_MAJOR v \<le> 5 then StreamIn_closeHal hw handle (s, d, h) else Some (s, d, h))"

section \<open>Methods\<close>

text \<open>\<open>from_hal\<close> converts the number of an audio source; \<open>none\<close> is the source's default.\<close>

definition StreamIn_getAudioSource ::
  "'p audio_parameter \<Rightarrow> string \<Rightarrow> int \<Rightarrow> (int \<Rightarrow> int + 'src) \<Rightarrow> 'src \<Rightarrow> 'h Stream \<Rightarrow> 'h \<Rightarrow> HalResult \<times> 'src \<times> 'h" where
  "StreamIn_getAudioSource ap keyInputSource junk from_hal none s h =
     (let (retval, halSource, h) = getParam_int ap (st_params s) keyInputSource junk h
      in if retval = Result_OK then
           (case from_hal halSource of
              Inl status \<Rightarrow> (analyzeStatus status, none, h)
            | Inr source \<Rightarrow> (Result_OK, source, h))
         else (retval, none, h))"

definition StreamIn_setGain :: "'h audio_stream_in \<Rightarrow> hal_float \<Rightarrow> 'h \<Rightarrow> HalResult \<times> 'h" where
  "StreamIn_setGain stream gain h =
     (if \<not> isGainNormalized gain then (Result_INVALID_ARGUMENTS, h) else hal_call (asi_set_gain stream gain) h)"

definition StreamIn_getInputFramesLost :: "'h audio_stream_in \<Rightarrow> 'h \<Rightarrow> u32 \<times> 'h" where
  "StreamIn_getInputFramesLost stream = asi_get_input_frames_lost stream"

definition StreamIn_getCapturePosition :: "'h audio_stream_in \<Rightarrow> 'h \<Rightarrow> HalResult \<times> (u64 \<times> u64) \<times> 'h" where
  "StreamIn_getCapturePosition stream h =
     (let (retval, position, h) = getCapturePositionImpl stream h
      in (retval, case position of Some p \<Rightarrow> p | None \<Rightarrow> (0, 0), h))"

definition doUpdateSinkMetadata ::
  "api_version \<Rightarrow> ('m \<Rightarrow> hal_track list) \<Rightarrow> ('m \<Rightarrow> int + hal_track_v7 list) \<Rightarrow> (hal_track list \<Rightarrow> 'h \<Rightarrow> 'h)
     \<Rightarrow> 'm \<Rightarrow> 'h \<Rightarrow> HalResult \<times> 'h" where
  "doUpdateSinkMetadata v to_hal to_hal_v7 update metadata h =
     (if api_MAJOR v \<le> 6 then (Result_OK, update (to_hal metadata) h)
      else case to_hal_v7 metadata of
          Inr halTracksV7 \<Rightarrow> (Result_OK, update (map ht7_base halTracksV7) h)
        | Inl status \<Rightarrow> (analyzeStatus status, h))"

definition doUpdateSinkMetadataV7 ::
  "('m \<Rightarrow> int + hal_track_v7 list) \<Rightarrow> (hal_track_v7 list \<Rightarrow> 'h \<Rightarrow> 'h) \<Rightarrow> 'm \<Rightarrow> 'h \<Rightarrow> HalResult \<times> 'h" where
  "doUpdateSinkMetadataV7 to_hal_v7 update metadata h =
     (case to_hal_v7 metadata of
        Inl status \<Rightarrow> (analyzeStatus status, h)
      | Inr halTracks \<Rightarrow> (Result_OK, update halTracks h))"

definition updateSinkMetadata ::
  "api_version \<Rightarrow> u32 \<Rightarrow> ('m \<Rightarrow> hal_track list) \<Rightarrow> ('m \<Rightarrow> int + hal_track_v7 list) \<Rightarrow> ('h, 'z) hal_device_scheme
     \<Rightarrow> 'h audio_stream_in \<Rightarrow> 'm \<Rightarrow> 'h \<Rightarrow> HalResult option \<times> 'h" where
  "updateSinkMetadata v v3_2 to_hal to_hal_v7 hw stream metadata h =
     (if api_MAJOR v \<le> 6 then
        (case asi_update_sink_metadata stream of
           None \<Rightarrow> (None, h)
         | Some update \<Rightarrow> (None, snd (doUpdateSinkMetadata v to_hal to_hal_v7 update metadata h)))
      else if hd_version hw < v3_2 then
        (case asi_update_sink_metadata stream of
           None \<Rightarrow> (Some Result_NOT_SUPPORTED, h)
         | Some update \<Rightarrow> apfst Some (doUpdateSinkMetadata v to_hal to_hal_v7 update metadata h))
      else (case asi_update_sink_metadata_v7 stream of
           None \<Rightarrow> (Some Result_NOT_SUPPORTED, h)
         | Some update \<Rightarrow> apfst Some (doUpdateSinkMetadataV7 to_hal_v7 update metadata h)))"

text \<open>
  The array has room for \<open>max_count\<close> microphones; a HAL that reports more has the method read
  past it, which is \<^term>\<open>None\<close>. \<open>from_hal\<close> converts one.
\<close>

definition hal_microphones ::
  "nat \<Rightarrow> (nat \<Rightarrow> 'mic) \<Rightarrow> (nat \<Rightarrow> 'h \<Rightarrow> int \<times> nat list \<times> nat \<times> 'h) option \<Rightarrow> 'h
     \<Rightarrow> (HalResult \<times> 'mic list \<times> 'h) option" where
  "hal_microphones max_count from_hal getter h =
     (case getter of
        None \<Rightarrow> Some (Result_NOT_SUPPORTED, [], h)
      | Some get_microphones \<Rightarrow>
         (let (status, mic_array, actual_mics, h) = get_microphones max_count h
          in if status \<noteq> 0 then Some (Result_NOT_SUPPORTED, [], h)
             else if actual_mics > max_count then None
             else Some (Result_OK, map from_hal (take actual_mics mic_array), h)))"

definition StreamIn_getActiveMicrophones ::
  "nat \<Rightarrow> (nat \<Rightarrow> 'mic) \<Rightarrow> 'h audio_stream_in \<Rightarrow> 'h \<Rightarrow> (HalResult \<times> 'mic list \<times> 'h) option" where
  "StreamIn_getActiveMicrophones max_count from_hal stream =
     hal_microphones max_count from_hal (asi_get_active_microphones stream)"

text \<open>\<open>valid\<close> is the interface's check of an enumerator.\<close>

definition StreamIn_setMicrophoneDirection ::
  "(int \<Rightarrow> bool) \<Rightarrow> 'h audio_stream_in \<Rightarrow> int \<Rightarrow> 'h \<Rightarrow> HalResult \<times> 'h" where
  "StreamIn_setMicrophoneDirection valid stream direction h =
     (case asi_set_microphone_direction stream of
        None \<Rightarrow> (Result_NOT_SUPPORTED, h)
      | Some set_direction \<Rightarrow>
          if \<not> valid direction then (Result_INVALID_ARGUMENTS, h) else hal_call (set_direction direction) h)"

fun zoom_in_range :: "hal_float \<Rightarrow> bool" where
  "zoom_in_range (Float_value zoom) \<longleftrightarrow> \<not> (zoom < -1 \<or> zoom > 1)"
| "zoom_in_range _ \<longleftrightarrow> False"

definition StreamIn_setMicrophoneFieldDimension ::
  "'h audio_stream_in \<Rightarrow> hal_float \<Rightarrow> 'h \<Rightarrow> HalResult \<times> 'h" where
  "StreamIn_setMicrophoneFieldDimension stream zoom h =
     (case asi_set_microphone_field_dimension stream of
        None \<Rightarrow> (Result_NOT_SUPPORTED, h)
      | Some set_dimension \<Rightarrow>
          if \<not> zoom_in_range zoom then (Result_INVALID_ARGUMENTS, h) else hal_call (set_dimension zoom) h)"

end
