(* ===== verification/Hal_Reader_Facts.thy ===== *)
theory Hal_Reader_Facts
  imports Hal_Stream_In
begin

text \<open>
  The reader thread and the rest of the world: what the legacy stream delivers reaches the
  client complete and in order, each command gets one reply, and the thread ends soon after
  a close.
\<close>

section \<open>The world of an input stream\<close>

record ('c, 'd, 's, 'h) in_world =
  iw_in :: "('c, 'd, 's) StreamIn"
  iw_device :: Device
  iw_hal :: 'h
  iw_destroyed :: bool

record ('c, 'd, 's, 'h) in_config =
  ic_version :: api_version
  ic_hw :: "'h hal_device"
  ic_stream :: "'h audio_stream_in"
  ic_mqs :: "('c, 'd, 's) reader_mqs"
  ic_ef :: event_flag
  ic_commands :: "'c \<Rightarrow> ReadParameters list"
  ic_data :: "'d \<Rightarrow> u8 list"
  ic_statuses :: "'s \<Rightarrow> ReadStatus list"

definition in_queues_ok :: "('c, 'd, 's, 'h) in_config \<Rightarrow> bool" where
  "in_queues_ok c \<longleftrightarrow> fifo (rq_command (ic_mqs c)) (ic_commands c)
     \<and> fifo (rq_data (ic_mqs c)) (ic_data c) \<and> fifo (rq_status (ic_mqs c)) (ic_statuses c)"

text \<open>A legacy stream reads no more than it is asked to, and fills the buffer as far as it says.\<close>

definition hal_read_ok :: "'h audio_stream_in \<Rightarrow> bool" where
  "hal_read_ok f \<longleftrightarrow> (\<forall>n h. fst (asi_read f n h) \<le> int n)"

definition fresh_in_queues :: "('c, 'd, 's, 'h) in_config \<Rightarrow> ('c, 'd, 's) prepare_read_env \<Rightarrow> bool" where
  "fresh_in_queues c e \<longleftrightarrow> ic_commands c (fst (pr_commandMQ e)) = []
     \<and> (\<forall>n. ic_data c (fst (pr_dataMQ e n)) = [])
     \<and> ic_statuses c (fst (pr_statusMQ e)) = [] \<and> fmq_availableToWrite (rq_status (ic_mqs c)) (fst (pr_statusMQ e)) = 1"

definition iw_thread :: "('c, 'd, 's, 'h) in_world \<Rightarrow> ('c, 'd, 's) ReadThread option" where
  "iw_thread w = si_mReadThread (iw_in w)"

definition set_reader ::
  "('c, 'd, 's) ReadThread \<Rightarrow> 'h \<Rightarrow> ('c, 'd, 's, 'h) in_world \<Rightarrow> ('c, 'd, 's, 'h) in_world" where
  "set_reader t h w = w\<lparr>iw_in := (iw_in w)\<lparr>si_mReadThread := Some t\<rparr>, iw_hal := h\<rparr>"

definition run_reader ::
  "('c, 'd, 's, 'h) in_config \<Rightarrow> u32 \<times> u32 \<Rightarrow> ('c, 'd, 's) ReadThread \<Rightarrow> ('c, 'd, 's, 'h) in_world
     \<Rightarrow> in_event list \<times> ('c, 'd, 's, 'h) in_world" where
  "run_reader c waited t w =
     (let (t', h, evs) = ReadThread_step (ic_mqs c) (ic_ef c) (ic_stream c) (si_mStopReadThread (iw_in w)) waited t (iw_hal w)
      in (evs, set_reader t' h w))"

inductive in_thread_step ::
  "('c, 'd, 's, 'h) in_config \<Rightarrow> ('c, 'd, 's, 'h) in_world \<Rightarrow> in_event list \<Rightarrow> ('c, 'd, 's, 'h) in_world \<Rightarrow> bool"
  for c where
  thread: "\<not> iw_destroyed w \<Longrightarrow> iw_thread w = Some t \<Longrightarrow> rt_pc t \<noteq> Rc_exit
    \<Longrightarrow> (rt_pc t = Rc_wait \<Longrightarrow> ef_wait (ic_ef c) (ef_NOT_FULL (ic_ef c)) (rt_efWord t) (fst waited) (snd waited))
    \<Longrightarrow> in_thread_step c w (fst (run_reader c waited t w)) (snd (run_reader c waited t w))"

inductive in_env_step ::
  "('c, 'd, 's, 'h) in_config \<Rightarrow> ('c, 'd, 's, 'h) in_world \<Rightarrow> in_event list \<Rightarrow> ('c, 'd, 's, 'h) in_world \<Rightarrow> bool"
  for c where
  prepare: "\<not> iw_destroyed w \<Longrightarrow> fresh_in_queues c e
    \<Longrightarrow> prepareForReading e frameSize framesCount (iw_in w) = (retval, s)
    \<Longrightarrow> in_env_step c w [] (w\<lparr>iw_in := s\<rparr>)"
| receive: "iw_thread w = Some t \<Longrightarrow> fmq_read (rq_data (ic_mqs c)) n (rt_dataMQ t) = Some (xs, q)
    \<Longrightarrow> in_env_step c w [Iv_received xs] (set_reader (t\<lparr>rt_dataMQ := q\<rparr>) (iw_hal w) w)"
| ask: "iw_thread w = Some t \<Longrightarrow> fmq_write (rq_command (ic_mqs c)) [p] (rt_commandMQ t) = Some q
    \<Longrightarrow> in_env_step c w [Iv_asked (rp_command p)] (set_reader (t\<lparr>rt_commandMQ := q\<rparr>) (iw_hal w) w)"
| answer: "iw_thread w = Some t \<Longrightarrow> fmq_read1 (rq_status (ic_mqs c)) (rt_statusMQ t) = Some (st, q)
    \<Longrightarrow> in_env_step c w [Iv_answered st] (set_reader (t\<lparr>rt_statusMQ := q\<rparr>) (iw_hal w) w)"
| notify: "iw_thread w = Some t
    \<Longrightarrow> in_env_step c w [] (set_reader
          (t\<lparr>rt_efWord := ef_wake (ic_ef c) (ef_NOT_FULL (ic_ef c)) (rt_efWord t)\<rparr>) (iw_hal w) w)"
| await: "iw_thread w = Some t \<Longrightarrow> ef_wait (ic_ef c) (ef_NOT_EMPTY (ic_ef c)) (rt_efWord t) st word
    \<Longrightarrow> in_env_step c w [] (set_reader (t\<lparr>rt_efWord := word\<rparr>) (iw_hal w) w)"
| close: "\<not> iw_destroyed w
    \<Longrightarrow> StreamIn_close (ic_ef c) (ic_version c) (ic_hw c) (asi_handle (ic_stream c)) (iw_in w, iw_device w, iw_hal w)
        = Some (retval, s, d, h)
    \<Longrightarrow> in_env_step c w [] (w\<lparr>iw_in := s, iw_device := d, iw_hal := h\<rparr>)"
| destroy: "\<not> iw_destroyed w \<Longrightarrow> si_mStopReadThread (iw_in w) \<Longrightarrow> in_can_join (iw_in w)
    \<Longrightarrow> StreamIn_destroy (ic_version c) (ic_hw c) (asi_handle (ic_stream c)) (iw_in w, iw_device w, iw_hal w)
        = Some (s, d, h)
    \<Longrightarrow> in_env_step c w [] (w\<lparr>iw_in := s, iw_device := d, iw_hal := h, iw_destroyed := True\<rparr>)"
| others: "in_env_step c w [] (w\<lparr>iw_device := d, iw_hal := h\<rparr>)"

inductive in_reach :: "('c, 'd, 's, 'h) in_config \<Rightarrow> ('c, 'd, 's, 'h) in_world \<Rightarrow> in_event list \<Rightarrow> bool"
  for c where
  opened: "iw_in w = StreamIn_new \<Longrightarrow> \<not> iw_destroyed w \<Longrightarrow> in_reach c w []"
| thread_step: "in_reach c w tr \<Longrightarrow> in_thread_step c w evs w' \<Longrightarrow> in_reach c w' (tr @ evs)"
| env_step: "in_reach c w tr \<Longrightarrow> in_env_step c w evs w' \<Longrightarrow> in_reach c w' (tr @ evs)"

section \<open>One step of the thread\<close>

lemmas reader_defs = ReadThread_step_def doRead_size_def doRead_hal_def doRead_data_def
  doGetCapturePosition_def Let_def

fun rc_bytes :: "reader_pc \<Rightarrow> u8 list" where
  "rc_bytes (Rc_data bytes) = bytes"
| "rc_bytes _ = []"

fun rc_busy :: "reader_pc \<Rightarrow> bool" where
  "rc_busy Rc_switch = True"
| "rc_busy (Rc_read _) = True"
| "rc_busy (Rc_data _) = True"
| "rc_busy Rc_status = True"
| "rc_busy _ = False"

text \<open>The room in the data queue that the thread counts on.\<close>

fun rc_room :: "reader_pc \<Rightarrow> nat" where
  "rc_room (Rc_read n) = n"
| "rc_room (Rc_data bytes) = length bytes"
| "rc_room _ = 0"

definition rt_current :: "('c, 'd, 's) ReadThread \<Rightarrow> ReadCommand list" where
  "rt_current t = (if rc_busy (rt_pc t) then [rs_replyTo (rt_mStatus t)] else [])"

definition hal_read_bytes :: "in_event list \<Rightarrow> u8 list" where
  "hal_read_bytes tr = concat (map (\<lambda>e. case e of Iv_hal_read xs \<Rightarrow> xs | _ \<Rightarrow> []) tr)"
definition received_bytes :: "in_event list \<Rightarrow> u8 list" where
  "received_bytes tr = concat (map (\<lambda>e. case e of Iv_received xs \<Rightarrow> xs | _ \<Rightarrow> []) tr)"
definition in_asked :: "in_event list \<Rightarrow> ReadCommand list" where
  "in_asked tr = concat (map (\<lambda>e. case e of Iv_asked x \<Rightarrow> [x] | _ \<Rightarrow> []) tr)"
definition in_taken :: "in_event list \<Rightarrow> ReadCommand list" where
  "in_taken tr = concat (map (\<lambda>e. case e of Iv_command x \<Rightarrow> [x] | _ \<Rightarrow> []) tr)"
definition in_replies :: "in_event list \<Rightarrow> ReadStatus list" where
  "in_replies tr = concat (map (\<lambda>e. case e of Iv_reply x _ \<Rightarrow> [x] | _ \<Rightarrow> []) tr)"
definition in_sent_replies :: "in_event list \<Rightarrow> ReadStatus list" where
  "in_sent_replies tr = concat (map (\<lambda>e. case e of Iv_reply x True \<Rightarrow> [x] | _ \<Rightarrow> []) tr)"
definition in_answered :: "in_event list \<Rightarrow> ReadStatus list" where
  "in_answered tr = concat (map (\<lambda>e. case e of Iv_answered x \<Rightarrow> [x] | _ \<Rightarrow> []) tr)"

lemmas in_trace_defs = hal_read_bytes_def received_bytes_def in_asked_def in_taken_def in_replies_def
  in_sent_replies_def in_answered_def

lemma in_trace_append [simp]:
  "hal_read_bytes (xs @ ys) = hal_read_bytes xs @ hal_read_bytes ys"
  "received_bytes (xs @ ys) = received_bytes xs @ received_bytes ys"
  "in_asked (xs @ ys) = in_asked xs @ in_asked ys"
  "in_taken (xs @ ys) = in_taken xs @ in_taken ys"
  "in_replies (xs @ ys) = in_replies xs @ in_replies ys"
  "in_sent_replies (xs @ ys) = in_sent_replies xs @ in_sent_replies ys"
  "in_answered (xs @ ys) = in_answered xs @ in_answered ys"
  by (simp_all add: in_trace_defs)

lemma in_trace_Nil [simp]:
  "hal_read_bytes [] = []" "received_bytes [] = []" "in_asked [] = []" "in_taken [] = []"
  "in_replies [] = []" "in_sent_replies [] = []" "in_answered [] = []"
  by (simp_all add: in_trace_defs)

definition reader_move ::
  "('c, 'd, 's, 'h) in_config \<Rightarrow> ('c, 'd, 's) ReadThread \<Rightarrow> ('c, 'd, 's) ReadThread \<Rightarrow> in_event list \<Rightarrow> bool" where
  "reader_move c t t' evs \<longleftrightarrow>
     ic_data c (rt_dataMQ t') @ rc_bytes (rt_pc t') = ic_data c (rt_dataMQ t) @ rc_bytes (rt_pc t) @ hal_read_bytes evs
   \<and> rc_room (rt_pc t') \<le> fmq_availableToWrite (rq_data (ic_mqs c)) (rt_dataMQ t')
   \<and> ic_commands c (rt_commandMQ t) = ic_commands c (rt_commandMQ t') @ [] \<and> in_taken evs = []
   \<and> rt_current t = map rs_replyTo (in_replies evs) @ rt_current t'
   \<and> ic_statuses c (rt_statusMQ t') = ic_statuses c (rt_statusMQ t) @ in_sent_replies evs
   \<and> fmq_availableToWrite (rq_status (ic_mqs c)) (rt_statusMQ t)
       = fmq_availableToWrite (rq_status (ic_mqs c)) (rt_statusMQ t') + length (in_sent_replies evs)
   \<and> received_bytes evs = [] \<and> in_asked evs = [] \<and> in_answered evs = []"

text \<open>The step that takes a command is the only one that touches the command queue.\<close>

definition reader_takes ::
  "('c, 'd, 's, 'h) in_config \<Rightarrow> ('c, 'd, 's) ReadThread \<Rightarrow> ('c, 'd, 's) ReadThread \<Rightarrow> in_event list \<Rightarrow> bool" where
  "reader_takes c t t' evs \<longleftrightarrow> rt_pc t = Rc_command \<and>
     (\<exists>p. ic_commands c (rt_commandMQ t) = p # ic_commands c (rt_commandMQ t') \<and> evs = [Iv_command (rp_command p)]
        \<and> rt_current t' = [rp_command p])
     \<and> rt_dataMQ t' = rt_dataMQ t \<and> rt_statusMQ t' = rt_statusMQ t \<and> rc_room (rt_pc t') = 0 \<and> rc_bytes (rt_pc t') = []"

lemma reader_accounts:
  assumes "in_queues_ok c" "hal_read_ok f" "ReadThread_step (ic_mqs c) ef f stop waited t h = (t', h', evs)"
    and room: "rc_room (rt_pc t) \<le> fmq_availableToWrite (rq_data (ic_mqs c)) (rt_dataMQ t)"
  shows "reader_move c t t' evs \<or> reader_takes c t t' evs"
proof -
  have fifos: "fifo (rq_command (ic_mqs c)) (ic_commands c)" "fifo (rq_data (ic_mqs c)) (ic_data c)"
    "fifo (rq_status (ic_mqs c)) (ic_statuses c)" using assms(1) by (simp_all add: in_queues_ok_def)
  show ?thesis
  proof (cases "rt_pc t")
    case Rc_command
    show ?thesis
    proof (cases "fmq_read1 (rq_command (ic_mqs c)) (rt_commandMQ t)")
      case (Some r)
      then show ?thesis using assms(3) Rc_command fifo_read1(1) [OF fifos(1), of "rt_commandMQ t" "fst r" "snd r"]
        by (auto simp: reader_defs reader_takes_def rt_current_def split: prod.splits)
    qed (use assms(3) Rc_command in \<open>auto simp: reader_defs reader_move_def in_trace_defs rt_current_def\<close>)
  next
    case Rc_switch
    then show ?thesis using assms(3)
      by (cases "rp_command (rt_mParameters t)")
        (auto simp: reader_defs reader_move_def in_trace_defs rt_current_def split: prod.splits option.splits)
  next
    case (Rc_read n)
    have "fst (asi_read f n h) \<le> int n" using assms(2) by (simp add: hal_read_ok_def)
    then show ?thesis using assms(3) Rc_read room
      by (auto simp: reader_defs reader_move_def in_trace_defs rt_current_def split: prod.splits if_splits)
  next
    case (Rc_data bytes)
    then obtain q where q: "fmq_write (rq_data (ic_mqs c)) bytes (rt_dataMQ t) = Some q"
      using room fifo_write_None [OF fifos(2), of bytes "rt_dataMQ t"]
      by (cases "fmq_write (rq_data (ic_mqs c)) bytes (rt_dataMQ t)") auto
    then show ?thesis using assms(3) Rc_data fifo_write(1) [OF fifos(2) q]
      by (auto simp: reader_defs reader_move_def in_trace_defs rt_current_def)
  next
    case Rc_status
    show ?thesis
    proof (cases "fmq_write (rq_status (ic_mqs c)) [rt_mStatus t] (rt_statusMQ t)")
      case None
      then show ?thesis using assms(3) Rc_status
        by (auto simp: reader_defs reader_move_def in_trace_defs rt_current_def)
    next
      case (Some q)
      then show ?thesis using assms(3) Rc_status fifo_write [OF fifos(3) Some]
        by (auto simp: reader_defs reader_move_def in_trace_defs rt_current_def)
    qed
  qed (use assms(3) in \<open>auto simp: reader_defs reader_move_def in_trace_defs rt_current_def split: if_splits\<close>)
qed

section \<open>Nothing is lost\<close>

definition in_accounts ::
  "('c, 'd, 's, 'h) in_config \<Rightarrow> ('c, 'd, 's, 'h) in_world \<Rightarrow> in_event list \<Rightarrow> bool" where
  "in_accounts c w tr \<longleftrightarrow>
     (case iw_thread w of
        None \<Rightarrow> hal_read_bytes tr = [] \<and> received_bytes tr = [] \<and> in_asked tr = [] \<and> in_taken tr = []
          \<and> in_replies tr = [] \<and> in_sent_replies tr = [] \<and> in_answered tr = []
      | Some t \<Rightarrow> hal_read_bytes tr = received_bytes tr @ ic_data c (rt_dataMQ t) @ rc_bytes (rt_pc t)
          \<and> rc_room (rt_pc t) \<le> fmq_availableToWrite (rq_data (ic_mqs c)) (rt_dataMQ t)
          \<and> in_asked tr = in_taken tr @ map rp_command (ic_commands c (rt_commandMQ t))
          \<and> in_taken tr = map rs_replyTo (in_replies tr) @ rt_current t
          \<and> in_sent_replies tr = in_answered tr @ ic_statuses c (rt_statusMQ t)
          \<and> fmq_availableToWrite (rq_status (ic_mqs c)) (rt_statusMQ t) + length (ic_statuses c (rt_statusMQ t)) = 1)"

lemma StreamIn_closeHal_thread:
  "StreamIn_closeHal hw k (s, d, h) = Some (s', d', h')
     \<Longrightarrow> si_mReadThread s' = si_mReadThread s \<and> si_mStopReadThread s' = si_mStopReadThread s"
  by (auto simp: StreamIn_closeHal_def)

lemma in_close_keeps_thread:
  assumes "StreamIn_close ef v hw k (s, d, h) = Some (retval, s', d', h')"
  obtains g where "si_mReadThread s' = map_option (rt_efWord_update g) (si_mReadThread s)"
    "\<not> si_mStopReadThread s \<Longrightarrow> g = ef_wake ef (ef_NOT_FULL ef)" "si_mStopReadThread s \<Longrightarrow> s' = s"
    "si_mStopReadThread s'"
proof (cases "si_mStopReadThread s")
  case True
  then have "s' = s" using assms by (simp add: StreamIn_close_def)
  moreover have "map_option (rt_efWord_update (\<lambda>x. x)) (si_mReadThread s) = si_mReadThread s"
    by (cases "si_mReadThread s") simp_all
  ultimately show thesis using True by (intro that [of "\<lambda>x. x"]) simp_all
next
  case False
  let ?s = "StreamIn_wake ef (s\<lparr>si_mStopReadThread := True\<rparr>)"
  have "si_mReadThread s' = si_mReadThread ?s \<and> si_mStopReadThread s' = si_mStopReadThread ?s"
    using assms False StreamIn_closeHal_thread by (fastforce simp: StreamIn_close_def Let_def split: if_splits)
  then show thesis using False by (intro that) (simp_all add: StreamIn_wake_def)
qed

lemma in_destroy_keeps_thread:
  "StreamIn_destroy v hw k (s, d, h) = Some (s', d', h')
     \<Longrightarrow> si_mReadThread s' = si_mReadThread s \<and> si_mStopReadThread s' = si_mStopReadThread s"
  by (auto simp: StreamIn_destroy_def StreamIn_closeHal_def Let_def split: if_splits)

lemma prepare_in_cases:
  assumes "prepareForReading e frameSize framesCount s = (retval, s')"
  obtains (refused) "retval \<noteq> Result_OK" "s' = s"
  | (ready) "retval = Result_OK" "si_mReadThread s = None" "buffer_size_ok frameSize framesCount"
      "s' = s\<lparr>si_mReadThread := Some
         \<lparr>rt_commandMQ = fst (pr_commandMQ e), rt_dataMQ = fst (pr_dataMQ e (unat (frameSize * framesCount))),
          rt_statusMQ = fst (pr_statusMQ e), rt_efWord = the (pr_event_flag e), rt_mParameters = pr_mParameters e, rt_mStatus = pr_mStatus e,
          rt_pc = Rc_test\<rparr>\<rparr>"
  using assms unfolding prepareForReading_def Let_def by (auto split: if_splits prod.splits)

lemma in_accounts_thread:
  assumes ok: "in_queues_ok c" "hal_read_ok (ic_stream c)" and "in_thread_step c w evs w'" "in_accounts c w tr"
  shows "in_accounts c w' (tr @ evs)"
  using assms(3)
proof cases
  case (thread t waited)
  obtain t' h evs' where r: "ReadThread_step (ic_mqs c) (ic_ef c) (ic_stream c) (si_mStopReadThread (iw_in w)) waited t (iw_hal w)
      = (t', h, evs')" by (metis prod_cases3)
  have "rc_room (rt_pc t) \<le> fmq_availableToWrite (rq_data (ic_mqs c)) (rt_dataMQ t)"
    using assms(4) thread by (simp add: in_accounts_def)
  from reader_accounts [OF ok r this] show ?thesis
  proof
    assume "reader_move c t t' evs'"
    then show ?thesis using assms(4) thread r
      by (auto simp: in_accounts_def reader_move_def set_reader_def iw_thread_def run_reader_def)
  next
    assume "reader_takes c t t' evs'"
    then show ?thesis using assms(4) thread r
      by (auto simp: in_accounts_def reader_takes_def set_reader_def iw_thread_def run_reader_def in_trace_defs
          rt_current_def)
  qed
qed

lemma in_accounts_env:
  assumes ok: "in_queues_ok c" and "in_env_step c w evs w'" "in_accounts c w tr"
  shows "in_accounts c w' (tr @ evs)"
proof -
  have fifos: "fifo (rq_command (ic_mqs c)) (ic_commands c)" "fifo (rq_data (ic_mqs c)) (ic_data c)"
    "fifo (rq_status (ic_mqs c)) (ic_statuses c)" using ok by (simp_all add: in_queues_ok_def)
  from assms(2) show ?thesis
  proof cases
    case (prepare e frameSize framesCount retval s)
    from prepare(5) show ?thesis
    proof (cases rule: prepare_in_cases)
      case refused
      then show ?thesis using assms(3) prepare by (simp add: in_accounts_def iw_thread_def)
    next
      case ready
      then show ?thesis
        using assms(3) prepare by (simp add: in_accounts_def iw_thread_def fresh_in_queues_def rt_current_def)
    qed
  next
    case (receive t n xs q)
    then show ?thesis using assms(3) fifo_read [OF fifos(2), of n "rt_dataMQ t" xs q]
      by (simp add: in_accounts_def set_reader_def iw_thread_def rt_current_def in_trace_defs)
  next
    case (ask t p q)
    then show ?thesis using assms(3) fifo_write [OF fifos(1), of "[p]" "rt_commandMQ t" q]
      by (simp add: in_accounts_def set_reader_def iw_thread_def rt_current_def in_trace_defs)
  next
    case (answer t st q)
    then show ?thesis using assms(3) fifo_read1 [OF fifos(3), of "rt_statusMQ t" st q]
      by (simp add: in_accounts_def set_reader_def iw_thread_def rt_current_def in_trace_defs)
  next
    case (notify t)
    then show ?thesis using assms(3) by (simp add: in_accounts_def set_reader_def iw_thread_def rt_current_def)
  next
    case (await t st word)
    then show ?thesis using assms(3) by (simp add: in_accounts_def set_reader_def iw_thread_def rt_current_def)
  next
    case (close retval s d h)
    from in_close_keeps_thread [OF close(4)] obtain g where
      "si_mReadThread s = map_option (rt_efWord_update g) (si_mReadThread (iw_in w))" by blast
    then show ?thesis using assms(3) close
      by (cases "si_mReadThread (iw_in w)") (simp_all add: in_accounts_def iw_thread_def rt_current_def)
  next
    case (destroy s d h)
    then show ?thesis using assms(3) in_destroy_keeps_thread [OF destroy(6)] by (simp add: in_accounts_def iw_thread_def)
  next
    case (others d h)
    then show ?thesis using assms(3) by (simp add: in_accounts_def iw_thread_def)
  qed
qed

lemma in_reach_accounts:
  assumes "in_queues_ok c" "hal_read_ok (ic_stream c)" "in_reach c w tr"
  shows "in_accounts c w tr"
  using assms(3)
proof induction
  case (opened w)
  then show ?case by (simp add: in_accounts_def iw_thread_def StreamIn_new_def)
next
  case (thread_step w tr evs w')
  then show ?case using in_accounts_thread [OF assms(1,2)] by blast
next
  case (env_step w tr evs w')
  then show ?case using in_accounts_env [OF assms(1)] by blast
qed

text \<open>C26: At every moment of an input stream's life, whatever the order of the steps of thread, client
  and framework, and if the HAL reads no more than it is asked for: the bytes that the HAL delivered are
  those the client has received, then those in the data queue, then those about to be put there, in this
  order; the write to the data queue never fails; commands and replies correspond one to one, and the
  client gets the replies in order.\<close>

theorem reader_loses_nothing:
  assumes "in_queues_ok c" "hal_read_ok (ic_stream c)" "in_reach c w tr" "iw_thread w = Some t"
  shows "hal_read_bytes tr = received_bytes tr @ ic_data c (rt_dataMQ t) @ rc_bytes (rt_pc t)
    \<and> fmq_write (rq_data (ic_mqs c)) (rc_bytes (rt_pc t)) (rt_dataMQ t) \<noteq> None
    \<and> in_asked tr = map rs_replyTo (in_replies tr) @ rt_current t @ map rp_command (ic_commands c (rt_commandMQ t))
    \<and> in_sent_replies tr = in_answered tr @ ic_statuses c (rt_statusMQ t)"
proof -
  have acc: "in_accounts c w tr" by (rule in_reach_accounts [OF assms(1-3)])
  have fifo: "fifo (rq_data (ic_mqs c)) (ic_data c)" using assms(1) by (simp add: in_queues_ok_def)
  have "length (rc_bytes (rt_pc t)) \<le> rc_room (rt_pc t)" by (cases "rt_pc t") simp_all
  with acc have "fmq_write (rq_data (ic_mqs c)) (rc_bytes (rt_pc t)) (rt_dataMQ t) \<noteq> None"
    using fifo_write_None [OF fifo, of "rc_bytes (rt_pc t)" "rt_dataMQ t"] assms(4) by (auto simp: in_accounts_def)
  with acc assms(4) show ?thesis by (simp add: in_accounts_def)
qed

section \<open>The end of the thread\<close>

fun rc_rank :: "reader_pc \<Rightarrow> nat" where
  "rc_rank Rc_exit = 0"
| "rc_rank Rc_test = 1"
| "rc_rank Rc_wake = 2"
| "rc_rank Rc_status = 3"
| "rc_rank (Rc_data _) = 4"
| "rc_rank (Rc_read _) = 5"
| "rc_rank Rc_switch = 6"
| "rc_rank Rc_command = 7"
| "rc_rank Rc_wait = 8"

lemma rc_rank_le: "rc_rank p \<le> 8"
  by (cases p) auto

lemma reader_rank:
  assumes "ReadThread_step mqs ef f stop waited t h = (t', h', evs)" "stop" "rt_pc t \<noteq> Rc_exit"
  shows "rc_rank (rt_pc t') < rc_rank (rt_pc t)"
  using assms
  by (cases "rt_pc t"; cases "rp_command (rt_mParameters t)")
    (auto simp: reader_defs split: prod.splits option.splits if_splits)

text \<open>What a close leaves until the thread has ended, with a bound on the thread's remaining steps.\<close>

definition reader_ending :: "event_flag \<Rightarrow> nat \<Rightarrow> ('c, 'd, 's) StreamIn \<Rightarrow> bool" where
  "reader_ending ef n s \<longleftrightarrow> si_mStopReadThread s
     \<and> (case si_mReadThread s of None \<Rightarrow> 1 \<le> n
        | Some t \<Rightarrow> rc_rank (rt_pc t) \<le> n \<and> (rt_pc t = Rc_wait \<longrightarrow> rt_efWord t AND ef_NOT_FULL ef \<noteq> 0))"

lemma reader_ending_thread:
  assumes "in_thread_step c w evs w'" "reader_ending (ic_ef c) n (iw_in w)"
  shows "\<exists>m < n. reader_ending (ic_ef c) m (iw_in w')"
  using assms(1)
proof cases
  case (thread t waited)
  obtain t' h evs' where r: "ReadThread_step (ic_mqs c) (ic_ef c) (ic_stream c) (si_mStopReadThread (iw_in w)) waited t (iw_hal w)
      = (t', h, evs')" by (metis prod_cases3)
  have e: "si_mStopReadThread (iw_in w)" "rc_rank (rt_pc t) \<le> n"
    using assms(2) thread by (simp_all add: reader_ending_def iw_thread_def)
  have less: "rc_rank (rt_pc t') < rc_rank (rt_pc t)" by (rule reader_rank [OF r e(1) thread(5)])
  moreover have "rt_pc t' \<noteq> Rc_wait" using less rc_rank_le [of "rt_pc t"] by auto
  ultimately have "reader_ending (ic_ef c) (rc_rank (rt_pc t')) (iw_in w')"
    using thread r e by (simp add: reader_ending_def run_reader_def set_reader_def)
  with less e(2) show ?thesis by (intro exI [of _ "rc_rank (rt_pc t')"]) simp
qed

lemma reader_ending_env:
  assumes ef: "event_flag_ok (ic_ef c)" and "in_env_step c w evs w'" "reader_ending (ic_ef c) n (iw_in w)"
  shows "reader_ending (ic_ef c) n (iw_in w')"
  using assms(2)
proof cases
  case (prepare e frameSize framesCount retval s)
  from prepare(5) show ?thesis
    by (cases rule: prepare_in_cases) (use assms(3) prepare in \<open>auto simp: reader_ending_def\<close>)
next
  case (notify t)
  then show ?thesis using assms(3) event_flag_wake(2) [OF ef]
    by (auto simp: reader_ending_def set_reader_def iw_thread_def)
next
  case (await t st word)
  have "ef_NOT_EMPTY (ic_ef c) AND ef_NOT_FULL (ic_ef c) = 0" using ef by (simp add: event_flag_ok_def)
  from event_flag_wait_other [OF ef await(4) this] show ?thesis using assms(3) await
    by (auto simp: reader_ending_def set_reader_def iw_thread_def)
next
  case (close retval s d h)
  from in_close_keeps_thread [OF close(4)] have "s = iw_in w" using assms(3) by (auto simp: reader_ending_def)
  with close assms(3) show ?thesis by simp
next
  case (destroy s d h)
  then show ?thesis using assms(3) in_destroy_keeps_thread [OF destroy(6)] by (simp add: reader_ending_def)
qed (use assms(3) in \<open>auto simp: reader_ending_def set_reader_def iw_thread_def\<close>)

lemma close_starts_ending:
  assumes ef: "event_flag_ok ef" and close: "StreamIn_close ef v hw k (s, d, h) = Some (Result_OK, s', d', h')"
  shows "reader_ending ef 8 s'"
proof -
  have "\<not> si_mStopReadThread s" using close by (auto simp: StreamIn_close_def)
  with in_close_keeps_thread [OF close] obtain g where
    g: "si_mReadThread s' = map_option (rt_efWord_update g) (si_mReadThread s)" "g = ef_wake ef (ef_NOT_FULL ef)"
      "si_mStopReadThread s'" by blast
  have "ef_NOT_FULL ef \<noteq> 0" using ef by (simp add: event_flag_ok_def)
  from event_flag_wake(1) [OF ef this] g rc_rank_le show ?thesis
    by (auto simp: reader_ending_def split: option.split)
qed

lemma reader_not_blocked:
  assumes ef: "event_flag_ok (ic_ef c)" and "reader_ending (ic_ef c) n (iw_in w)"
    and "\<not> iw_destroyed w" "\<not> in_can_join (iw_in w)"
  shows "\<exists>evs w'. in_thread_step c w evs w'"
proof -
  from assms(4) obtain t where t: "iw_thread w = Some t" "rt_pc t \<noteq> Rc_exit"
    by (auto simp: in_can_join_def iw_thread_def split: option.splits)
  have "rt_pc t = Rc_wait \<Longrightarrow> rt_efWord t AND ef_NOT_FULL (ic_ef c) \<noteq> 0"
    using assms(2) t(1) by (simp add: reader_ending_def iw_thread_def)
  then obtain st word where "rt_pc t = Rc_wait \<Longrightarrow> ef_wait (ic_ef c) (ef_NOT_FULL (ic_ef c)) (rt_efWord t) st word"
    using ef unfolding event_flag_ok_def by blast
  with in_thread_step.thread [OF assms(3) t, of c "(st, word)"] show ?thesis by auto
qed

text \<open>
  From a close on, a state that bounds the steps the thread has left is kept by all others and
  lowered by each step of the thread; in such a state the thread is not blocked.
\<close>

theorem reader_ends_after_close:
  assumes "event_flag_ok (ic_ef c)"
  shows "StreamIn_close (ic_ef c) v hw k (s, d, h) = Some (Result_OK, s', d', h') \<Longrightarrow> reader_ending (ic_ef c) 8 s'"
    and "reader_ending (ic_ef c) n (iw_in w) \<Longrightarrow> in_thread_step c w evs w' \<Longrightarrow> \<exists>m < n. reader_ending (ic_ef c) m (iw_in w')"
    and "reader_ending (ic_ef c) n (iw_in w) \<Longrightarrow> in_env_step c w evs w' \<Longrightarrow> reader_ending (ic_ef c) n (iw_in w')"
    and "reader_ending (ic_ef c) n (iw_in w) \<Longrightarrow> \<not> iw_destroyed w \<Longrightarrow> \<not> in_can_join (iw_in w)
      \<Longrightarrow> \<exists>evs w'. in_thread_step c w evs w'"
  by (erule close_starts_ending [OF assms], erule (1) reader_ending_thread, erule (1) reader_ending_env [OF assms],
      erule (2) reader_not_blocked [OF assms])

section \<open>An example\<close>

text \<open>A HAL that delivers zeros, as many as asked for, and counts them; the client asks for two bytes.\<close>

definition example_hal_in :: "nat audio_stream_in" where
  "example_hal_in =
     \<lparr>asi_handle = 2, asi_set_gain = (\<lambda>_ h. (0, h)), asi_read = (\<lambda>n h. (int n, replicate n 0, h + n)),
      asi_get_input_frames_lost = (\<lambda>h. (0, h)), asi_get_capture_position = None, asi_update_sink_metadata = None,
      asi_update_sink_metadata_v7 = None, asi_get_active_microphones = None, asi_set_microphone_direction = None,
      asi_set_microphone_field_dimension = None\<rparr>"

definition example_in_config ::
  "api_version \<Rightarrow> (ReadParameters list_queue, u8 list_queue, ReadStatus list_queue, nat) in_config" where
  "example_in_config v =
     \<lparr>ic_version = v,
      ic_hw = \<lparr>hd_version = 0, hd_close = (\<lambda>h. (0, h)), hd_close_output_stream = (\<lambda>_ h. h),
        hd_close_input_stream = (\<lambda>_ h. h)\<rparr>,
      ic_stream = example_hal_in,
      ic_mqs = \<lparr>rq_command = list_fmq, rq_data = list_fmq, rq_status = list_fmq\<rparr>, ic_ef = example_flag,
      ic_commands = lq_items, ic_data = lq_items, ic_statuses = lq_items\<rparr>"

lemma example_in_ok: "in_queues_ok (example_in_config v)" "hal_read_ok (ic_stream (example_in_config v))"
  by (simp_all add: in_queues_ok_def hal_read_ok_def example_in_config_def example_hal_in_def list_fmq_fifo)

definition example_read2 :: ReadParameters where
  "example_read2 = \<lparr>rp_command = Read_READ, rp_read = 2\<rparr>"

definition example_reader ::
  "ReadParameters list \<Rightarrow> u8 list \<Rightarrow> reader_pc
     \<Rightarrow> (ReadParameters list_queue, u8 list_queue, ReadStatus list_queue) ReadThread" where
  "example_reader commands bytes pc =
     \<lparr>rt_commandMQ = \<lparr>lq_free = 1 - length commands, lq_items = commands\<rparr>,
      rt_dataMQ = \<lparr>lq_free = 8 - length bytes, lq_items = bytes\<rparr>,
      rt_statusMQ = \<lparr>lq_free = 1, lq_items = []\<rparr>, rt_efWord = 0, rt_mParameters = example_read2,
      rt_mStatus = \<lparr>rs_replyTo = Read_READ, rs_retval = Result_OK, rs_reply = Reply_read 2\<rparr>, rt_pc = pc\<rparr>"

definition example_in_prepare ::
  "(ReadParameters list_queue, u8 list_queue, ReadStatus list_queue) prepare_read_env" where
  "example_in_prepare =
     \<lparr>pr_commandMQ = (\<lparr>lq_free = 1, lq_items = []\<rparr>, True), pr_dataMQ = (\<lambda>n. (\<lparr>lq_free = n, lq_items = []\<rparr>, True)),
      pr_statusMQ = (\<lparr>lq_free = 1, lq_items = []\<rparr>, True), pr_event_flag = Some 0, pr_init = True, pr_run = True,
      pr_mParameters = example_read2,
      pr_mStatus = \<lparr>rs_replyTo = Read_READ, rs_retval = Result_OK, rs_reply = Reply_read 2\<rparr>\<rparr>"

definition example_in_world ::
  "(ReadParameters list_queue, u8 list_queue, ReadStatus list_queue) ReadThread option \<Rightarrow> nat
     \<Rightarrow> (ReadParameters list_queue, u8 list_queue, ReadStatus list_queue, nat) in_world" where
  "example_in_world t h =
     \<lparr>iw_in = StreamIn_new\<lparr>si_mReadThread := t\<rparr>, iw_device = Device_new\<lparr>dev_mOpenedStreamsCount := 1\<rparr>,
      iw_hal = h, iw_destroyed = False\<rparr>"

lemma example_in_moves:
  assumes "in_reach (example_in_config v) (example_in_world (Some t) h) tr" "rt_pc t \<noteq> Rc_exit"
    and "rt_pc t = Rc_wait \<Longrightarrow> rt_efWord t = 2"
    and "run_reader (example_in_config v) (2, 0) t (example_in_world (Some t) h) = (evs, example_in_world (Some t') h')"
  shows "in_reach (example_in_config v) (example_in_world (Some t') h') (tr @ evs)"
proof -
  have wait: "rt_pc t = Rc_wait \<Longrightarrow> ef_wait (ic_ef (example_in_config v)) (ef_NOT_FULL (ic_ef (example_in_config v)))
      (rt_efWord t) (fst (2, 0)) (snd (2, 0))" using assms(3) by (simp add: example_in_config_def example_flag_def)
  have w: "\<not> iw_destroyed (example_in_world (Some t) h)" "iw_thread (example_in_world (Some t) h) = Some t"
    by (simp_all add: example_in_world_def iw_thread_def)
  from in_reach.thread_step [OF assms(1) in_thread_step.thread [OF w assms(2) wait]] show ?thesis
    unfolding assms(4) fst_conv snd_conv .
qed

lemma example_in_read:
  "in_reach (example_in_config v) (example_in_world (Some (example_reader [] [] (Rc_data [0, 0]))) 2)
     [Iv_asked Read_READ, Iv_command Read_READ, Iv_hal_read [0, 0]]"
proof -
  let ?c = "example_in_config v"
  have "in_reach ?c (example_in_world None 0) []"
    by (rule in_reach.opened) (simp_all add: example_in_world_def StreamIn_new_def)
  moreover have "fresh_in_queues ?c example_in_prepare"
    by (simp add: fresh_in_queues_def example_in_config_def example_in_prepare_def list_fmq_def)
  moreover have "prepareForReading example_in_prepare 4 2 (iw_in (example_in_world None 0))
    = (Result_OK, iw_in (example_in_world (Some (example_reader [] [] Rc_test)) 0))"
    by (simp add: prepareForReading_def example_in_world_def example_in_prepare_def example_reader_def
        StreamIn_new_def buffer_size_ok_def MAX_BUFFER_SIZE_def)
  ultimately have "in_reach ?c (example_in_world (Some (example_reader [] [] Rc_test)) 0) []"
    using in_reach.env_step [OF _ in_env_step.prepare [of "example_in_world None 0" ?c example_in_prepare 4 2]]
    by (fastforce simp: example_in_world_def)
  moreover have "in_env_step ?c (example_in_world (Some (example_reader [] [] Rc_test)) 0) [Iv_asked Read_READ]
     (example_in_world (Some (example_reader [example_read2] [] Rc_test)) 0)"
    using in_env_step.ask [of "example_in_world (Some (example_reader [] [] Rc_test)) 0" "example_reader [] [] Rc_test"
        ?c example_read2]
    by (simp add: iw_thread_def example_in_world_def example_in_config_def list_fmq_def example_reader_def
        set_reader_def example_read2_def)
  ultimately have asked: "in_reach ?c (example_in_world (Some (example_reader [example_read2] [] Rc_test)) 0)
     ([] @ [Iv_asked Read_READ])"
    by (rule in_reach.env_step)
  note defs = run_reader_def example_in_world_def example_reader_def reader_defs example_in_config_def list_fmq_def
    set_reader_def StreamIn_new_def fmq_read1_def example_read2_def example_hal_in_def example_flag_def
  let ?t = "example_reader [example_read2] [] Rc_wait"
  have waiting: "in_reach ?c (example_in_world (Some ?t) 0) (([] @ [Iv_asked Read_READ]) @ [])"
    by (rule example_in_moves [OF asked]) (simp_all add: defs)
  have "in_env_step ?c (example_in_world (Some ?t) 0) [] (example_in_world (Some (?t\<lparr>rt_efWord := 2\<rparr>)) 0)"
    using in_env_step.notify [of "example_in_world (Some ?t) 0" ?t ?c] by (simp add: iw_thread_def defs)
  from in_reach.env_step [OF waiting this] have woken: "in_reach ?c (example_in_world (Some (?t\<lparr>rt_efWord := 2\<rparr>)) 0)
     [Iv_asked Read_READ]" by simp
  have "in_reach ?c (example_in_world (Some (example_reader [example_read2] [] Rc_command)) 0)
     ([Iv_asked Read_READ] @ [])" by (rule example_in_moves [OF woken]) (simp_all add: defs)
  then have "in_reach ?c (example_in_world (Some (example_reader [] [] Rc_switch)) 0)
     (([Iv_asked Read_READ] @ []) @ [Iv_command Read_READ])"
    by (rule example_in_moves) (simp_all add: defs)
  then have "in_reach ?c (example_in_world (Some (example_reader [] [] (Rc_read 2))) 0)
     ((([Iv_asked Read_READ] @ []) @ [Iv_command Read_READ]) @ [])"
    by (rule example_in_moves) (simp_all add: defs)
  then have "in_reach ?c (example_in_world (Some (example_reader [] [] (Rc_data [0, 0]))) 2)
     (((([Iv_asked Read_READ] @ []) @ [Iv_command Read_READ]) @ []) @ [Iv_hal_read [0, 0]])"
    by (rule example_in_moves) (simp_all add: defs numeral_2_eq_2)
  then show ?thesis by simp
qed

theorem reader_loses_nothing_witness:
  "hal_read_bytes [Iv_asked Read_READ, Iv_command Read_READ, Iv_hal_read [0, 0]] = [0, 0]
   \<and> in_asked [Iv_asked Read_READ, Iv_command Read_READ, Iv_hal_read [0, 0]] = [Read_READ]"
proof -
  have "iw_thread (example_in_world (Some (example_reader [] [] (Rc_data [0, 0]))) 2)
      = Some (example_reader [] [] (Rc_data [0, 0]))"
    by (simp add: iw_thread_def example_in_world_def)
  from reader_loses_nothing [OF example_in_ok example_in_read this]
  show ?thesis
    by (simp add: received_bytes_def example_reader_def rt_current_def in_replies_def example_in_config_def)
qed

end
