(* ===== verification/Hal_Device.thy ===== *)
theory Hal_Device
  imports Hal_Stream_In
begin

text \<open>
  Devices of the legacy HAL wrapper (\<open>src/audio/hal/Device.cpp\<close>, \<open>PrimaryDevice.cpp\<close>,
  \<open>DevicesFactory.cpp\<close>): volume and mute, opening streams, patches, ports, effects, the
  parameters of a primary device, and the factory that loads a legacy HAL. The methods of
  \<open>PrimaryDevice\<close> that only forward to its \<open>Device\<close> are those of the device.
\<close>

section \<open>The legacy device and the interface's conversions\<close>

text \<open>
  The call table of a legacy device, on top of the entries for closing. \<open>'g\<close> is its stream
  configuration, \<open>'q\<close> its port configuration, \<open>'p\<close> and \<open>'p7\<close> its two types of a port.
\<close>

record ('h, 'g, 'q, 'p, 'p7) hw_device = "'h hal_device" +
  hw_parameters :: "'h hal_parameters"
  hw_init_check :: "'h \<Rightarrow> int \<times> 'h"
  hw_set_master_volume :: "(hal_float \<Rightarrow> 'h \<Rightarrow> int \<times> 'h) option"
  hw_get_master_volume :: "(hal_float \<Rightarrow> 'h \<Rightarrow> int \<times> hal_float \<times> 'h) option"
  hw_set_mic_mute :: "bool \<Rightarrow> 'h \<Rightarrow> int \<times> 'h"
  hw_get_mic_mute :: "bool \<Rightarrow> 'h \<Rightarrow> int \<times> bool \<times> 'h"
  hw_set_master_mute :: "(bool \<Rightarrow> 'h \<Rightarrow> int \<times> 'h) option"
  hw_get_master_mute :: "(bool \<Rightarrow> 'h \<Rightarrow> int \<times> bool \<times> 'h) option"
  hw_get_input_buffer_size :: "'g \<Rightarrow> 'h \<Rightarrow> u64 \<times> 'h"
  hw_open_output_stream :: "int \<Rightarrow> int \<times> string \<Rightarrow> int \<Rightarrow> 'g \<Rightarrow> 'h \<Rightarrow> int \<times> 'g \<times> 'h audio_stream_out \<times> 'h"
  hw_open_input_stream :: "int \<Rightarrow> int \<times> string \<Rightarrow> int \<Rightarrow> int \<Rightarrow> 'g \<Rightarrow> 'h \<Rightarrow> int \<times> 'g \<times> 'h audio_stream_in \<times> 'h"
  hw_create_audio_patch :: "'q list \<Rightarrow> 'q list \<Rightarrow> int \<Rightarrow> 'h \<Rightarrow> int \<times> int \<times> 'h"
  hw_release_audio_patch :: "int \<Rightarrow> 'h \<Rightarrow> int \<times> 'h"
  hw_get_audio_port :: "'p \<Rightarrow> 'h \<Rightarrow> int \<times> 'p \<times> 'h"
  hw_get_audio_port_v7 :: "'p7 \<Rightarrow> 'h \<Rightarrow> int \<times> 'p7 \<times> 'h"
  hw_set_audio_port_config :: "'q \<Rightarrow> 'h \<Rightarrow> int \<times> 'h"
  hw_dump :: "int \<Rightarrow> 'h \<Rightarrow> int \<times> 'h"
  hw_get_microphones :: "(nat \<Rightarrow> 'h \<Rightarrow> int \<times> nat list \<times> nat \<times> 'h) option"
  hw_add_device_effect :: "(int \<Rightarrow> nat \<Rightarrow> 'h \<Rightarrow> int \<times> 'h) option"
  hw_remove_device_effect :: "(int \<Rightarrow> nat \<Rightarrow> 'h \<Rightarrow> int \<times> 'h) option"
  hw_set_device_connected_state_v7 :: "('p7 \<Rightarrow> bool \<Rightarrow> 'h \<Rightarrow> int \<times> 'h) option"
  hw_set_voice_volume :: "hal_float \<Rightarrow> 'h \<Rightarrow> int \<times> 'h"

text \<open>The versions of the device interface of the HAL headers.\<close>

record hal_versions =
  ver_MIN :: u32
  ver_3_0 :: u32
  ver_3_1 :: u32
  ver_3_2 :: u32

text \<open>
  The conversions of the interface's utilities: \<open>'c\<close> is a stream configuration of the
  interface, \<open>'a\<close> a device address, \<open>'f\<close> flags, \<open>'src\<close> an audio source, \<open>'m\<close> metadata, \<open>'pc\<close>
  a port configuration and \<open>'pt\<close> a port.
\<close>

record ('g, 'q, 'p, 'p7, 'c, 'a, 'f, 'src, 'm, 'pc, 'pt) device_conversions =
  dc_audioConfigToHal :: "'c \<Rightarrow> int + 'g"
  dc_audioConfigFromHal :: "'g \<Rightarrow> bool \<Rightarrow> 'c"
  dc_AudioConfig :: 'c
  dc_deviceAddressToHal :: "'a \<Rightarrow> int + (int \<times> string)"
  dc_audioOutputFlagsToHal :: "'f \<Rightarrow> int + int"
  dc_audioInputFlagsToHal :: "'f \<Rightarrow> int + int"
  dc_audioSourceToHal :: "'src \<Rightarrow> int + int"
  dc_metadata_status :: "'m \<Rightarrow> int"
  dc_metadata_status_v7 :: "'m \<Rightarrow> int"
  dc_metadataToHal :: "'m \<Rightarrow> hal_track list"
  dc_metadataToHalV7 :: "'m \<Rightarrow> int + hal_track_v7 list"
  dc_sources :: "'m \<Rightarrow> 'src list"
  dc_audioPortConfigToHal :: "'pc \<Rightarrow> int + 'q"
  dc_audioPortConfigsToHal :: "'pc list \<Rightarrow> int + 'q list"
  dc_audioPortToHal :: "'pt \<Rightarrow> int + 'p"
  dc_audioPortFromHal :: "'p \<Rightarrow> int + 'pt"
  dc_audioPortToHal_v7 :: "'pt \<Rightarrow> int + 'p7"
  dc_audioPortFromHal_v7 :: "'p7 \<Rightarrow> int + 'pt"
  dc_effects :: "u64 \<Rightarrow> nat option"

section \<open>Volume and mute\<close>

definition Device_initCheck :: "('h, 'g, 'q, 'p, 'p7, 'z) hw_device_scheme \<Rightarrow> 'h \<Rightarrow> HalResult \<times> 'h" where
  "Device_initCheck hw = hal_call (hw_init_check hw)"

definition Device_setMasterVolume ::
  "('h, 'g, 'q, 'p, 'p7, 'z) hw_device_scheme \<Rightarrow> hal_float \<Rightarrow> 'h \<Rightarrow> HalResult \<times> 'h" where
  "Device_setMasterVolume hw volume h =
     (case hw_set_master_volume hw of
        None \<Rightarrow> (Result_NOT_SUPPORTED, h)
      | Some set_volume \<Rightarrow>
          if \<not> isGainNormalized volume then (Result_INVALID_ARGUMENTS, h) else hal_call (set_volume volume) h)"

definition Device_getMasterVolume ::
  "('h, 'g, 'q, 'p, 'p7, 'z) hw_device_scheme \<Rightarrow> 'h \<Rightarrow> HalResult \<times> hal_float \<times> 'h" where
  "Device_getMasterVolume hw = hal_query (hw_get_master_volume hw) (Float_value 0)"

definition Device_setMicMute :: "('h, 'g, 'q, 'p, 'p7, 'z) hw_device_scheme \<Rightarrow> bool \<Rightarrow> 'h \<Rightarrow> HalResult \<times> 'h" where
  "Device_setMicMute hw mute = hal_call (hw_set_mic_mute hw mute)"

definition Device_getMicMute ::
  "('h, 'g, 'q, 'p, 'p7, 'z) hw_device_scheme \<Rightarrow> 'h \<Rightarrow> HalResult \<times> bool \<times> 'h" where
  "Device_getMicMute hw = hal_query (Some (hw_get_mic_mute hw)) False"

definition Device_setMasterMute :: "('h, 'g, 'q, 'p, 'p7, 'z) hw_device_scheme \<Rightarrow> bool \<Rightarrow> 'h \<Rightarrow> HalResult \<times> 'h" where
  "Device_setMasterMute hw mute = hal_optional (map_option (\<lambda>set_mute. set_mute mute) (hw_set_master_mute hw))"

definition Device_getMasterMute ::
  "('h, 'g, 'q, 'p, 'p7, 'z) hw_device_scheme \<Rightarrow> 'h \<Rightarrow> HalResult \<times> bool \<times> 'h" where
  "Device_getMasterMute hw = hal_query (hw_get_master_mute hw) False"

definition Device_getInputBufferSize ::
  "('g, 'q, 'p, 'p7, 'c, 'a, 'f, 'src, 'm, 'pc, 'pt) device_conversions \<Rightarrow> ('h, 'g, 'q, 'p, 'p7, 'z) hw_device_scheme
     \<Rightarrow> 'c \<Rightarrow> 'h \<Rightarrow> HalResult \<times> u64 \<times> 'h" where
  "Device_getInputBufferSize dc hw config h =
     (case dc_audioConfigToHal dc config of
        Inl _ \<Rightarrow> (Result_INVALID_ARGUMENTS, 0, h)
      | Inr halConfig \<Rightarrow>
         (let (halBufferSize, h) = hw_get_input_buffer_size hw halConfig h
          in if halBufferSize \<noteq> 0 then (Result_OK, halBufferSize, h) else (Result_INVALID_ARGUMENTS, 0, h)))"

section \<open>Opening streams\<close>

text \<open>The result is the status, the new stream with its legacy stream, and the suggested configuration.\<close>

definition openOutputStreamCore ::
  "('g, 'q, 'p, 'p7, 'ac, 'a, 'f, 'src, 'm, 'pc, 'pt) device_conversions \<Rightarrow> ('h, 'g, 'q, 'p, 'p7, 'z) hw_device_scheme
     \<Rightarrow> int \<Rightarrow> 'a \<Rightarrow> 'ac \<Rightarrow> 'f \<Rightarrow> Device \<Rightarrow> 'h
     \<Rightarrow> HalResult \<times> ('h audio_stream_out \<times> ('c, 'd, 's) StreamOut) option \<times> 'ac \<times> Device \<times> 'h" where
  "openOutputStreamCore dc hw ioHandle address config flags d h =
     (case (dc_audioConfigToHal dc config, dc_deviceAddressToHal dc address, dc_audioOutputFlagsToHal dc flags) of
        (Inr halConfig, Inr halDevice, Inr halFlags) \<Rightarrow>
         (let (status, halConfig, halStream, h) = hw_open_output_stream hw ioHandle halDevice halFlags halConfig h;
              (streamOut, d) = (if status = 0
                 then (Some (halStream, StreamOut_new), d\<lparr>dev_mOpenedStreamsCount := dev_mOpenedStreamsCount d + 1\<rparr>)
                 else (None, d))
          in (analyzeStatus status, streamOut, dc_audioConfigFromHal dc halConfig False, d, h))
      | _ \<Rightarrow> (Result_INVALID_ARGUMENTS, None, dc_AudioConfig dc, d, h))"

definition openInputStreamCore ::
  "('g, 'q, 'p, 'p7, 'ac, 'a, 'f, 'src, 'm, 'pc, 'pt) device_conversions \<Rightarrow> ('h, 'g, 'q, 'p, 'p7, 'z) hw_device_scheme
     \<Rightarrow> int \<Rightarrow> 'a \<Rightarrow> 'ac \<Rightarrow> 'f \<Rightarrow> 'src \<Rightarrow> Device \<Rightarrow> 'h
     \<Rightarrow> HalResult \<times> ('h audio_stream_in \<times> ('c, 'd, 's) StreamIn) option \<times> 'ac \<times> Device \<times> 'h" where
  "openInputStreamCore dc hw ioHandle address config flags source d h =
     (case (dc_audioConfigToHal dc config, dc_deviceAddressToHal dc address, dc_audioInputFlagsToHal dc flags,
            dc_audioSourceToHal dc source) of
        (Inr halConfig, Inr halDevice, Inr halFlags, Inr halSource) \<Rightarrow>
         (let (status, halConfig, halStream, h) =
                hw_open_input_stream hw ioHandle halDevice halFlags halSource halConfig h;
              (streamIn, d) = (if status = 0
                 then (Some (halStream, StreamIn_new), d\<lparr>dev_mOpenedStreamsCount := dev_mOpenedStreamsCount d + 1\<rparr>)
                 else (None, d))
          in (analyzeStatus status, streamIn, dc_audioConfigFromHal dc halConfig True, d, h))
      | _ \<Rightarrow> (Result_INVALID_ARGUMENTS, None, dc_AudioConfig dc, d, h))"

text \<open>From version 4: the metadata is checked first and passed on to the new stream.\<close>

definition openOutputStreamImpl ::
  "api_version \<Rightarrow> hal_versions
     \<Rightarrow> ('g, 'q, 'p, 'p7, 'ac, 'a, 'f, 'src, 'm, 'pc, 'pt) device_conversions \<Rightarrow> ('h, 'g, 'q, 'p, 'p7, 'z) hw_device_scheme
     \<Rightarrow> int \<Rightarrow> 'a \<Rightarrow> 'ac \<Rightarrow> 'm \<Rightarrow> 'f \<Rightarrow> Device \<Rightarrow> 'h
     \<Rightarrow> HalResult \<times> ('h audio_stream_out \<times> ('c, 'd, 's) StreamOut) option \<times> 'ac \<times> Device \<times> 'h" where
  "openOutputStreamImpl v vers dc hw ioHandle address config sourceMetadata flags d h =
     (let status = (if api_MAJOR v \<le> 6 then dc_metadata_status dc sourceMetadata
                    else dc_metadata_status_v7 dc sourceMetadata)
      in if status \<noteq> 0 then (analyzeStatus status, None, dc_AudioConfig dc, d, h)
         else let (result, streamOut, suggestedConfig, d, h) =
                    openOutputStreamCore dc hw ioHandle address config flags d h;
                  h = (case streamOut of None \<Rightarrow> h
                       | Some (halStream, _) \<Rightarrow>
                           snd (updateSourceMetadata v (ver_3_2 vers) (dc_metadataToHal dc) (dc_metadataToHalV7 dc)
                                  hw halStream sourceMetadata h))
              in (result, streamOut, suggestedConfig, d, h))"

definition openInputStreamImpl ::
  "api_version \<Rightarrow> hal_versions
     \<Rightarrow> ('g, 'q, 'p, 'p7, 'ac, 'a, 'f, 'src, 'm, 'pc, 'pt) device_conversions \<Rightarrow> ('h, 'g, 'q, 'p, 'p7, 'z) hw_device_scheme
     \<Rightarrow> int \<Rightarrow> 'a \<Rightarrow> 'ac \<Rightarrow> 'f \<Rightarrow> 'm \<Rightarrow> Device \<Rightarrow> 'h
     \<Rightarrow> HalResult \<times> ('h audio_stream_in \<times> ('c, 'd, 's) StreamIn) option \<times> 'ac \<times> Device \<times> 'h" where
  "openInputStreamImpl v vers dc hw ioHandle address config flags sinkMetadata d h =
     (case dc_sources dc sinkMetadata of
        [] \<Rightarrow> (Result_INVALID_ARGUMENTS, None, dc_AudioConfig dc, d, h)
      | source # _ \<Rightarrow>
         (let status = (if api_MAJOR v \<le> 6 then dc_metadata_status dc sinkMetadata
                        else dc_metadata_status_v7 dc sinkMetadata)
          in if status \<noteq> 0 then (analyzeStatus status, None, dc_AudioConfig dc, d, h)
             else let (result, streamIn, suggestedConfig, d, h) =
                        openInputStreamCore dc hw ioHandle address config flags source d h;
                      h = (case streamIn of None \<Rightarrow> h
                           | Some (halStream, _) \<Rightarrow>
                               snd (updateSinkMetadata v (ver_3_2 vers) (dc_metadataToHal dc) (dc_metadataToHalV7 dc)
                                      hw halStream sinkMetadata h))
                  in (result, streamIn, suggestedConfig, d, h)))"

section \<open>Patches and ports\<close>

definition supportsAudioPatches :: "hal_versions \<Rightarrow> ('h, 'z) hal_device_scheme \<Rightarrow> bool" where
  "supportsAudioPatches vers hw \<longleftrightarrow> hd_version hw \<ge> ver_3_0 vers"

definition createOrUpdateAudioPatch ::
  "hal_versions \<Rightarrow> ('g, 'q, 'p, 'p7, 'c, 'a, 'f, 'src, 'm, 'pc, 'pt) device_conversions
     \<Rightarrow> ('h, 'g, 'q, 'p, 'p7, 'z) hw_device_scheme \<Rightarrow> int \<Rightarrow> 'pc list \<Rightarrow> 'pc list \<Rightarrow> 'h \<Rightarrow> HalResult \<times> int \<times> 'h" where
  "createOrUpdateAudioPatch vers dc hw patch sources sinks h =
     (if hd_version hw \<ge> ver_3_0 vers then
        (case dc_audioPortConfigsToHal dc sources of
           Inl status \<Rightarrow> (analyzeStatus status, patch, h)
         | Inr halSources \<Rightarrow>
            (case dc_audioPortConfigsToHal dc sinks of
               Inl status \<Rightarrow> (analyzeStatus status, patch, h)
             | Inr halSinks \<Rightarrow>
                (let (status, halPatch, h) = hw_create_audio_patch hw halSources halSinks patch h;
                     retval = analyzeStatus status
                 in (retval, if retval = Result_OK then halPatch else patch, h))))
      else (Result_NOT_SUPPORTED, patch, h))"

text \<open>The handle of no patch is zero.\<close>

definition Device_createAudioPatch ::
  "hal_versions \<Rightarrow> ('g, 'q, 'p, 'p7, 'c, 'a, 'f, 'src, 'm, 'pc, 'pt) device_conversions
     \<Rightarrow> ('h, 'g, 'q, 'p, 'p7, 'z) hw_device_scheme \<Rightarrow> 'pc list \<Rightarrow> 'pc list \<Rightarrow> 'h \<Rightarrow> HalResult \<times> int \<times> 'h" where
  "Device_createAudioPatch vers dc hw = createOrUpdateAudioPatch vers dc hw 0"

definition Device_updateAudioPatch ::
  "hal_versions \<Rightarrow> ('g, 'q, 'p, 'p7, 'c, 'a, 'f, 'src, 'm, 'pc, 'pt) device_conversions
     \<Rightarrow> ('h, 'g, 'q, 'p, 'p7, 'z) hw_device_scheme \<Rightarrow> int \<Rightarrow> 'pc list \<Rightarrow> 'pc list \<Rightarrow> 'h \<Rightarrow> HalResult \<times> int \<times> 'h" where
  "Device_updateAudioPatch vers dc hw previousPatch sources sinks h =
     (if previousPatch \<noteq> 0 then createOrUpdateAudioPatch vers dc hw previousPatch sources sinks h
      else (Result_INVALID_ARGUMENTS, previousPatch, h))"

definition Device_releaseAudioPatch ::
  "hal_versions \<Rightarrow> ('h, 'g, 'q, 'p, 'p7, 'z) hw_device_scheme \<Rightarrow> int \<Rightarrow> 'h \<Rightarrow> HalResult \<times> 'h" where
  "Device_releaseAudioPatch vers hw patch h =
     (if hd_version hw \<ge> ver_3_0 vers then hal_call (hw_release_audio_patch hw patch) h
      else (Result_NOT_SUPPORTED, h))"

definition getAudioPortImpl ::
  "('pt \<Rightarrow> int + 'x) \<Rightarrow> ('x \<Rightarrow> int + 'pt) \<Rightarrow> ('x \<Rightarrow> 'h \<Rightarrow> int \<times> 'x \<times> 'h) \<Rightarrow> 'pt \<Rightarrow> 'h \<Rightarrow> HalResult \<times> 'pt \<times> 'h" where
  "getAudioPortImpl to_hal from_hal halGetter port h =
     (case to_hal port of
        Inl status \<Rightarrow> (analyzeStatus status, port, h)
      | Inr halPort \<Rightarrow>
         (let (status, halPort, h) = halGetter halPort h; retval = analyzeStatus status
          in if retval = Result_OK then
               (case from_hal halPort of
                  Inl status \<Rightarrow> (analyzeStatus status, port, h)
                | Inr resultPort \<Rightarrow> (retval, resultPort, h))
             else (retval, port, h)))"

definition Device_getAudioPort ::
  "api_version \<Rightarrow> hal_versions \<Rightarrow> ('g, 'q, 'p, 'p7, 'c, 'a, 'f, 'src, 'm, 'pc, 'pt) device_conversions
     \<Rightarrow> ('h, 'g, 'q, 'p, 'p7, 'z) hw_device_scheme \<Rightarrow> 'pt \<Rightarrow> 'h \<Rightarrow> HalResult \<times> 'pt \<times> 'h" where
  "Device_getAudioPort v vers dc hw =
     (if api_MAJOR v \<ge> 7 \<and> hd_version hw \<ge> ver_3_2 vers
      then getAudioPortImpl (dc_audioPortToHal_v7 dc) (dc_audioPortFromHal_v7 dc) (hw_get_audio_port_v7 hw)
      else getAudioPortImpl (dc_audioPortToHal dc) (dc_audioPortFromHal dc) (hw_get_audio_port hw))"

definition Device_setAudioPortConfig ::
  "hal_versions \<Rightarrow> ('g, 'q, 'p, 'p7, 'c, 'a, 'f, 'src, 'm, 'pc, 'pt) device_conversions
     \<Rightarrow> ('h, 'g, 'q, 'p, 'p7, 'z) hw_device_scheme \<Rightarrow> 'pc \<Rightarrow> 'h \<Rightarrow> HalResult \<times> 'h" where
  "Device_setAudioPortConfig vers dc hw config h =
     (if hd_version hw \<ge> ver_3_0 vers then
        (case dc_audioPortConfigToHal dc config of
           Inl status \<Rightarrow> (analyzeStatus status, h)
         | Inr halPortConfig \<Rightarrow> hal_call (hw_set_audio_port_config hw halPortConfig) h)
      else (Result_NOT_SUPPORTED, h))"

section \<open>Parameters, microphones, connections, effects\<close>

text \<open>The names of the parameters and of their values, which the libraries define.\<close>

record device_keys =
  key_HwAvSync :: string
  key_ScreenState :: string
  key_DeviceConnect :: string
  key_DeviceDisconnect :: string
  key_BtNrec :: string
  key_BT_SCO_WB :: string
  key_TTY_MODE :: string
  key_HAC :: string
  key_BT_SCO_HEADSET_NAME :: string
  key_HFP_ENABLE :: string
  key_HFP_SET_SAMPLING_RATE :: string
  key_HFP_VOLUME :: string
  key_ROTATION :: string
  val_TTY_OFF :: string
  val_TTY_VCO :: string
  val_TTY_HCO :: string
  val_TTY_FULL :: string

text \<open>The variable is not initialised: \<open>junk\<close> is what it holds when the library leaves it alone.\<close>

definition Device_getHwAvSync ::
  "'x audio_parameter \<Rightarrow> device_keys \<Rightarrow> int \<Rightarrow> ('h, 'g, 'q, 'p, 'p7, 'z) hw_device_scheme \<Rightarrow> 'h \<Rightarrow> HalResult \<times> int \<times> 'h" where
  "Device_getHwAvSync ap ks junk hw = getParam_int ap (hw_parameters hw) (key_HwAvSync ks) junk"

text \<open>In version 2 an error is the invalid source, zero.\<close>

definition Device_getHwAvSync_2 ::
  "'x audio_parameter \<Rightarrow> device_keys \<Rightarrow> int \<Rightarrow> ('h, 'g, 'q, 'p, 'p7, 'z) hw_device_scheme \<Rightarrow> 'h \<Rightarrow> int \<times> 'h" where
  "Device_getHwAvSync_2 ap ks junk hw h =
     (let (retval, halHwAvSync, h) = Device_getHwAvSync ap ks junk hw h
      in (if retval = Result_OK then halHwAvSync else 0, h))"

definition Device_setScreenState ::
  "'x audio_parameter \<Rightarrow> device_keys \<Rightarrow> ('h, 'g, 'q, 'p, 'p7, 'z) hw_device_scheme \<Rightarrow> bool \<Rightarrow> 'h \<Rightarrow> HalResult \<times> 'h" where
  "Device_setScreenState ap ks hw turnedOn = setParam_bool ap (hw_parameters hw) (key_ScreenState ks) turnedOn"

text \<open>In version 2 there is no context, the empty list.\<close>

definition Device_getParameters ::
  "'x audio_parameter \<Rightarrow> ('h, 'g, 'q, 'p, 'p7, 'z) hw_device_scheme \<Rightarrow> (string \<times> string) list \<Rightarrow> string list \<Rightarrow> 'h
     \<Rightarrow> HalResult \<times> (string \<times> string) list \<times> 'h" where
  "Device_getParameters ap hw context_params keys = getParametersImpl ap (hw_parameters hw) context_params keys"

definition Device_setParameters ::
  "'x audio_parameter \<Rightarrow> ('h, 'g, 'q, 'p, 'p7, 'z) hw_device_scheme \<Rightarrow> (string \<times> string) list
     \<Rightarrow> (string \<times> string) list \<Rightarrow> 'h \<Rightarrow> HalResult \<times> 'h" where
  "Device_setParameters ap hw context_params parameters =
     setParametersImpl ap (hw_parameters hw) context_params parameters"

definition Device_debug :: "int list option \<Rightarrow> ('h, 'g, 'q, 'p, 'p7, 'z) hw_device_scheme \<Rightarrow> 'h \<Rightarrow> 'h" where
  "Device_debug fd hw h = (case fd of Some [fd0] \<Rightarrow> snd (hal_call (hw_dump hw fd0) h) | _ \<Rightarrow> h)"

definition Device_getMicrophones ::
  "nat \<Rightarrow> (nat \<Rightarrow> 'mic) \<Rightarrow> ('h, 'g, 'q, 'p, 'p7, 'z) hw_device_scheme \<Rightarrow> 'h \<Rightarrow> (HalResult \<times> 'mic list \<times> 'h) option" where
  "Device_getMicrophones max_count from_hal hw = hal_microphones max_count from_hal (hw_get_microphones hw)"

definition Device_setConnectedState ::
  "'x audio_parameter \<Rightarrow> device_keys \<Rightarrow> ('g, 'q, 'p, 'p7, 'c, 'a, 'f, 'src, 'm, 'pc, 'pt) device_conversions
     \<Rightarrow> ('h, 'g, 'q, 'p, 'p7, 'z) hw_device_scheme \<Rightarrow> 'a \<Rightarrow> bool \<Rightarrow> 'h \<Rightarrow> HalResult \<times> 'h" where
  "Device_setConnectedState ap ks dc hw address is_connected =
     setParam_address ap (hw_parameters hw) (dc_deviceAddressToHal dc)
       (if is_connected then key_DeviceConnect ks else key_DeviceDisconnect ks) address"

definition Device_setConnectedState_7_1 ::
  "hal_versions \<Rightarrow> ('g, 'q, 'p, 'p7, 'c, 'a, 'f, 'src, 'm, 'pc, 'pt) device_conversions
     \<Rightarrow> ('h, 'g, 'q, 'p, 'p7, 'z) hw_device_scheme \<Rightarrow> 'pt \<Rightarrow> bool \<Rightarrow> 'h \<Rightarrow> HalResult \<times> 'h" where
  "Device_setConnectedState_7_1 vers dc hw devicePort is_connected h =
     (case hw_set_device_connected_state_v7 hw of
        Some set_state \<Rightarrow>
          if hd_version hw \<ge> ver_3_2 vers then
            (case dc_audioPortToHal_v7 dc devicePort of
               Inl status \<Rightarrow> (analyzeStatus status, h)
             | Inr halPort \<Rightarrow> hal_call (set_state halPort is_connected) h)
          else (Result_NOT_SUPPORTED, h)
      | None \<Rightarrow> (Result_NOT_SUPPORTED, h))"

definition device_effect ::
  "hal_versions \<Rightarrow> ('g, 'q, 'p, 'p7, 'c, 'a, 'f, 'src, 'm, 'pc, 'pt) device_conversions
     \<Rightarrow> ('h, 'z) hal_device_scheme \<Rightarrow> (int \<Rightarrow> nat \<Rightarrow> 'h \<Rightarrow> int \<times> 'h) option \<Rightarrow> int \<Rightarrow> u64 \<Rightarrow> 'h \<Rightarrow> HalResult \<times> 'h" where
  "device_effect vers dc hw call port effectId h =
     (case call of
        None \<Rightarrow> (Result_NOT_SUPPORTED, h)
      | Some f \<Rightarrow>
          if hd_version hw < ver_3_1 vers then (Result_NOT_SUPPORTED, h)
          else (case dc_effects dc effectId of
              Some halEffect \<Rightarrow> hal_call (f port halEffect) h
            | None \<Rightarrow> (Result_INVALID_ARGUMENTS, h)))"

definition Device_addDeviceEffect ::
  "hal_versions \<Rightarrow> ('g, 'q, 'p, 'p7, 'c, 'a, 'f, 'src, 'm, 'pc, 'pt) device_conversions
     \<Rightarrow> ('h, 'g, 'q, 'p, 'p7, 'z) hw_device_scheme \<Rightarrow> int \<Rightarrow> u64 \<Rightarrow> 'h \<Rightarrow> HalResult \<times> 'h" where
  "Device_addDeviceEffect vers dc hw = device_effect vers dc hw (hw_add_device_effect hw)"

definition Device_removeDeviceEffect ::
  "hal_versions \<Rightarrow> ('g, 'q, 'p, 'p7, 'c, 'a, 'f, 'src, 'm, 'pc, 'pt) device_conversions
     \<Rightarrow> ('h, 'g, 'q, 'p, 'p7, 'z) hw_device_scheme \<Rightarrow> int \<Rightarrow> u64 \<Rightarrow> 'h \<Rightarrow> HalResult \<times> 'h" where
  "Device_removeDeviceEffect vers dc hw = device_effect vers dc hw (hw_remove_device_effect hw)"

section \<open>Closing the device\<close>

text \<open>\<open>close\<close> exists from version 6; the destructor does the same and drops the result.\<close>

definition Device_close :: "('h, 'z) hal_device_scheme \<Rightarrow> Device \<Rightarrow> 'h \<Rightarrow> HalResult \<times> Device \<times> 'h" where
  "Device_close hw d h = Device_doClose hw d h"

definition Device_destroy :: "('h, 'z) hal_device_scheme \<Rightarrow> Device \<Rightarrow> 'h \<Rightarrow> Device \<times> 'h" where
  "Device_destroy hw d h = snd (Device_doClose hw d h)"

end
