(* ===== verification/Hal_Primary.thy ===== *)
theory Hal_Primary
  imports Hal_Device
begin

text \<open>
  What a primary device adds to a device (\<open>src/audio/hal/PrimaryDevice.cpp\<close>): voice volume,
  call mode, headset and hands-free parameters, the TTY mode and the rotation; and the
  factory that loads a legacy HAL and makes devices (\<open>DevicesFactory.cpp\<close>).
\<close>

section \<open>Voice volume and mode\<close>

datatype AudioMode =
    Mode_NORMAL | Mode_RINGTONE | Mode_IN_CALL | Mode_IN_COMMUNICATION | Mode_CALL_SCREEN | Mode_other int

record ('h, 'g, 'q, 'p, 'p7) primary_hw_device = "('h, 'g, 'q, 'p, 'p7) hw_device" +
  hw_set_mode :: "AudioMode \<Rightarrow> 'h \<Rightarrow> int \<times> 'h"

definition Primary_setVoiceVolume ::
  "('h, 'g, 'q, 'p, 'p7, 'z) hw_device_scheme \<Rightarrow> hal_float \<Rightarrow> 'h \<Rightarrow> HalResult \<times> 'h" where
  "Primary_setVoiceVolume hw volume h =
     (if \<not> isGainNormalized volume then (Result_INVALID_ARGUMENTS, h) else hal_call (hw_set_voice_volume hw volume) h)"

definition Primary_setMode ::
  "api_version \<Rightarrow> ('h, 'g, 'q, 'p, 'p7, 'z) primary_hw_device_scheme \<Rightarrow> AudioMode \<Rightarrow> 'h \<Rightarrow> HalResult \<times> 'h" where
  "Primary_setMode v hw mode h =
     (if mode \<in> {Mode_NORMAL, Mode_RINGTONE, Mode_IN_CALL, Mode_IN_COMMUNICATION}
         \<or> (api_MAJOR v \<ge> 6 \<and> mode = Mode_CALL_SCREEN)
      then hal_call (hw_set_mode hw mode) h
      else (Result_INVALID_ARGUMENTS, h))"

section \<open>Headset and hands-free parameters\<close>

definition Primary_getBtScoNrecEnabled ::
  "'x audio_parameter \<Rightarrow> device_keys \<Rightarrow> ('h, 'g, 'q, 'p, 'p7, 'z) hw_device_scheme \<Rightarrow> 'h \<Rightarrow> HalResult \<times> bool \<times> 'h" where
  "Primary_getBtScoNrecEnabled ap ks hw = getParam_bool ap (hw_parameters hw) (key_BtNrec ks)"

definition Primary_setBtScoNrecEnabled ::
  "'x audio_parameter \<Rightarrow> device_keys \<Rightarrow> ('h, 'g, 'q, 'p, 'p7, 'z) hw_device_scheme \<Rightarrow> bool \<Rightarrow> 'h \<Rightarrow> HalResult \<times> 'h" where
  "Primary_setBtScoNrecEnabled ap ks hw = setParam_bool ap (hw_parameters hw) (key_BtNrec ks)"

definition Primary_getBtScoWidebandEnabled ::
  "'x audio_parameter \<Rightarrow> device_keys \<Rightarrow> ('h, 'g, 'q, 'p, 'p7, 'z) hw_device_scheme \<Rightarrow> 'h \<Rightarrow> HalResult \<times> bool \<times> 'h" where
  "Primary_getBtScoWidebandEnabled ap ks hw = getParam_bool ap (hw_parameters hw) (key_BT_SCO_WB ks)"

definition Primary_setBtScoWidebandEnabled ::
  "'x audio_parameter \<Rightarrow> device_keys \<Rightarrow> ('h, 'g, 'q, 'p, 'p7, 'z) hw_device_scheme \<Rightarrow> bool \<Rightarrow> 'h \<Rightarrow> HalResult \<times> 'h" where
  "Primary_setBtScoWidebandEnabled ap ks hw = setParam_bool ap (hw_parameters hw) (key_BT_SCO_WB ks)"

definition Primary_getHacEnabled ::
  "'x audio_parameter \<Rightarrow> device_keys \<Rightarrow> ('h, 'g, 'q, 'p, 'p7, 'z) hw_device_scheme \<Rightarrow> 'h \<Rightarrow> HalResult \<times> bool \<times> 'h" where
  "Primary_getHacEnabled ap ks hw = getParam_bool ap (hw_parameters hw) (key_HAC ks)"

definition Primary_setHacEnabled ::
  "'x audio_parameter \<Rightarrow> device_keys \<Rightarrow> ('h, 'g, 'q, 'p, 'p7, 'z) hw_device_scheme \<Rightarrow> bool \<Rightarrow> 'h \<Rightarrow> HalResult \<times> 'h" where
  "Primary_setHacEnabled ap ks hw = setParam_bool ap (hw_parameters hw) (key_HAC ks)"

definition Primary_setBtScoHeadsetDebugName ::
  "'x audio_parameter \<Rightarrow> device_keys \<Rightarrow> ('h, 'g, 'q, 'p, 'p7, 'z) hw_device_scheme \<Rightarrow> string \<Rightarrow> 'h \<Rightarrow> HalResult \<times> 'h" where
  "Primary_setBtScoHeadsetDebugName ap ks hw = setParam_string ap (hw_parameters hw) (key_BT_SCO_HEADSET_NAME ks)"

definition Primary_getBtHfpEnabled ::
  "'x audio_parameter \<Rightarrow> device_keys \<Rightarrow> ('h, 'g, 'q, 'p, 'p7, 'z) hw_device_scheme \<Rightarrow> 'h \<Rightarrow> HalResult \<times> bool \<times> 'h" where
  "Primary_getBtHfpEnabled ap ks hw = getParam_bool ap (hw_parameters hw) (key_HFP_ENABLE ks)"

definition Primary_setBtHfpEnabled ::
  "'x audio_parameter \<Rightarrow> device_keys \<Rightarrow> ('h, 'g, 'q, 'p, 'p7, 'z) hw_device_scheme \<Rightarrow> bool \<Rightarrow> 'h \<Rightarrow> HalResult \<times> 'h" where
  "Primary_setBtHfpEnabled ap ks hw = setParam_bool ap (hw_parameters hw) (key_HFP_ENABLE ks)"

text \<open>The rate is cast to \<open>int\<close>, so one of \<open>2\<^sup>3\<^sup>1\<close> or more is passed on as a negative number.\<close>

definition Primary_setBtHfpSampleRate ::
  "'x audio_parameter \<Rightarrow> device_keys \<Rightarrow> ('h, 'g, 'q, 'p, 'p7, 'z) hw_device_scheme \<Rightarrow> u32 \<Rightarrow> 'h \<Rightarrow> HalResult \<times> 'h" where
  "Primary_setBtHfpSampleRate ap ks hw sampleRateHz =
     setParam_int ap (hw_parameters hw) (key_HFP_SET_SAMPLING_RATE ks) (sint sampleRateHz)"

text \<open>
  \<open>times15\<close> is the product with 15 in single precision; \<open>std::round\<close> of a number that is not
  negative rounds halves up.
\<close>

fun hfp_volume :: "(rat \<Rightarrow> rat) \<Rightarrow> hal_float \<Rightarrow> int" where
  "hfp_volume times15 (Float_value volume) = \<lfloor>times15 volume + 1 / 2\<rfloor>"
| "hfp_volume times15 _ = 0"

definition Primary_setBtHfpVolume ::
  "(rat \<Rightarrow> rat) \<Rightarrow> 'x audio_parameter \<Rightarrow> device_keys \<Rightarrow> ('h, 'g, 'q, 'p, 'p7, 'z) hw_device_scheme \<Rightarrow> hal_float \<Rightarrow> 'h
     \<Rightarrow> HalResult \<times> 'h" where
  "Primary_setBtHfpVolume times15 ap ks hw volume h =
     (if \<not> isGainNormalized volume then (Result_INVALID_ARGUMENTS, h)
      else setParam_int ap (hw_parameters hw) (key_HFP_VOLUME ks) (hfp_volume times15 volume) h)"

text \<open>A rotation is a number of quarter turns.\<close>

definition Primary_updateRotation ::
  "'x audio_parameter \<Rightarrow> device_keys \<Rightarrow> ('h, 'g, 'q, 'p, 'p7, 'z) hw_device_scheme \<Rightarrow> nat \<Rightarrow> 'h \<Rightarrow> HalResult \<times> 'h" where
  "Primary_updateRotation ap ks hw rotation =
     setParam_int ap (hw_parameters hw) (key_ROTATION ks) (int rotation * 90)"

section \<open>TTY mode\<close>

datatype TtyMode = Tty_OFF | Tty_VCO | Tty_HCO | Tty_FULL | Tty_other int

fun convertTtyModeFromHIDL :: "device_keys \<Rightarrow> TtyMode \<Rightarrow> string option" where
  "convertTtyModeFromHIDL ks Tty_OFF = Some (val_TTY_OFF ks)"
| "convertTtyModeFromHIDL ks Tty_VCO = Some (val_TTY_VCO ks)"
| "convertTtyModeFromHIDL ks Tty_HCO = Some (val_TTY_HCO ks)"
| "convertTtyModeFromHIDL ks Tty_FULL = Some (val_TTY_FULL ks)"
| "convertTtyModeFromHIDL ks (Tty_other _) = None"

definition convertTtyModeToHIDL :: "device_keys \<Rightarrow> string \<Rightarrow> TtyMode" where
  "convertTtyModeToHIDL ks halMode =
     (if halMode = val_TTY_OFF ks then Tty_OFF
      else if halMode = val_TTY_VCO ks then Tty_VCO
      else if halMode = val_TTY_HCO ks then Tty_HCO
      else if halMode = val_TTY_FULL ks then Tty_FULL
      else Tty_other (-1))"

definition Primary_getTtyMode ::
  "'x audio_parameter \<Rightarrow> device_keys \<Rightarrow> ('h, 'g, 'q, 'p, 'p7, 'z) hw_device_scheme \<Rightarrow> 'h
     \<Rightarrow> HalResult \<times> TtyMode \<times> 'h" where
  "Primary_getTtyMode ap ks hw h =
     (let (retval, halMode, h) = getParam_string ap (hw_parameters hw) (key_TTY_MODE ks) (ap_empty ap) h
      in if retval \<noteq> Result_OK then (retval, Tty_OFF, h)
         else let mode = convertTtyModeToHIDL ks halMode
              in if mode = Tty_other (-1) then (Result_INVALID_STATE, Tty_OFF, h) else (Result_OK, mode, h))"

definition Primary_setTtyMode ::
  "'x audio_parameter \<Rightarrow> device_keys \<Rightarrow> ('h, 'g, 'q, 'p, 'p7, 'z) hw_device_scheme \<Rightarrow> TtyMode \<Rightarrow> 'h
     \<Rightarrow> HalResult \<times> 'h" where
  "Primary_setTtyMode ap ks hw mode h =
     (case convertTtyModeFromHIDL ks mode of
        None \<Rightarrow> (Result_INVALID_ARGUMENTS, h)
      | Some modeStr \<Rightarrow> setParam_string ap (hw_parameters hw) (key_TTY_MODE ks) modeStr h)"

section \<open>The factory\<close>

text \<open>
  The module loader of the system: finding a module by its name, and opening its device.
\<close>

record ('h, 'mod, 'hw) module_loader =
  ml_get_module :: "string \<Rightarrow> 'h \<Rightarrow> int \<times> 'mod \<times> 'h"
  ml_open :: "'mod \<Rightarrow> 'h \<Rightarrow> int \<times> 'hw \<times> 'h"
  ml_PRIMARY :: string
  ml_A2DP :: string
  ml_USB :: string
  ml_REMOTE_SUBMIX :: string
  ml_STUB :: string

definition loadAudioInterface ::
  "hal_versions \<Rightarrow> ('h, 'mod, ('h, 'z) hal_device_scheme) module_loader \<Rightarrow> string \<Rightarrow> 'h
     \<Rightarrow> (int + ('h, 'z) hal_device_scheme) \<times> 'h" where
  "loadAudioInterface vers ml if_name h =
     (let (rc, mod_found, h) = ml_get_module ml if_name h
      in if rc \<noteq> 0 then (Inl rc, h)
         else let (rc, dev, h) = ml_open ml mod_found h
         in if rc \<noteq> 0 then (Inl rc, h)
            else if hd_version dev < ver_MIN vers then (Inl (- hal_EINVAL), snd (hd_close dev h))
            else (Inr dev, h))"

text \<open>The two classes of devices; a primary device holds a \<open>Device\<close>.\<close>

datatype device_shim = Shim_Device | Shim_PrimaryDevice

definition openDevice_shim ::
  "hal_versions \<Rightarrow> ('h, 'mod, ('h, 'z) hal_device_scheme) module_loader \<Rightarrow> device_shim \<Rightarrow> string \<Rightarrow> 'h
     \<Rightarrow> HalResult \<times> (device_shim \<times> ('h, 'z) hal_device_scheme \<times> Device) option \<times> 'h" where
  "openDevice_shim vers ml shim moduleName h =
     (case loadAudioInterface vers ml moduleName h of
        (Inr halDevice, h) \<Rightarrow> (Result_OK, Some (shim, halDevice, Device_new), h)
      | (Inl halStatus, h) \<Rightarrow>
          (if halStatus = - hal_EINVAL then Result_NOT_INITIALIZED else Result_INVALID_ARGUMENTS, None, h))"

datatype factory_device = FD_PRIMARY | FD_A2DP | FD_USB | FD_R_SUBMIX | FD_STUB | FD_other int

fun openDevice_2 ::
  "hal_versions \<Rightarrow> ('h, 'mod, ('h, 'z) hal_device_scheme) module_loader \<Rightarrow> factory_device \<Rightarrow> 'h
     \<Rightarrow> HalResult \<times> (device_shim \<times> ('h, 'z) hal_device_scheme \<times> Device) option \<times> 'h" where
  "openDevice_2 vers ml FD_PRIMARY h = openDevice_shim vers ml Shim_PrimaryDevice (ml_PRIMARY ml) h"
| "openDevice_2 vers ml FD_A2DP h = openDevice_shim vers ml Shim_Device (ml_A2DP ml) h"
| "openDevice_2 vers ml FD_USB h = openDevice_shim vers ml Shim_Device (ml_USB ml) h"
| "openDevice_2 vers ml FD_R_SUBMIX h = openDevice_shim vers ml Shim_Device (ml_REMOTE_SUBMIX ml) h"
| "openDevice_2 vers ml FD_STUB h = openDevice_shim vers ml Shim_Device (ml_STUB ml) h"
| "openDevice_2 vers ml (FD_other _) h = (Result_INVALID_ARGUMENTS, None, h)"

text \<open>From version 4.\<close>

definition openDevice ::
  "hal_versions \<Rightarrow> ('h, 'mod, ('h, 'z) hal_device_scheme) module_loader \<Rightarrow> string \<Rightarrow> 'h
     \<Rightarrow> HalResult \<times> (device_shim \<times> ('h, 'z) hal_device_scheme \<times> Device) option \<times> 'h" where
  "openDevice vers ml moduleName h =
     (if moduleName = ml_PRIMARY ml then openDevice_shim vers ml Shim_PrimaryDevice moduleName h
      else openDevice_shim vers ml Shim_Device moduleName h)"

definition openPrimaryDevice ::
  "hal_versions \<Rightarrow> ('h, 'mod, ('h, 'z) hal_device_scheme) module_loader \<Rightarrow> 'h
     \<Rightarrow> HalResult \<times> (device_shim \<times> ('h, 'z) hal_device_scheme \<times> Device) option \<times> 'h" where
  "openPrimaryDevice vers ml h = openDevice_shim vers ml Shim_PrimaryDevice (ml_PRIMARY ml) h"

text \<open>In version 7.1 the answer is the \<open>Device\<close> in a primary device.\<close>

definition openDevice_7_1 ::
  "hal_versions \<Rightarrow> ('h, 'mod, ('h, 'z) hal_device_scheme) module_loader \<Rightarrow> string \<Rightarrow> 'h
     \<Rightarrow> HalResult \<times> (device_shim \<times> ('h, 'z) hal_device_scheme \<times> Device) option \<times> 'h" where
  "openDevice_7_1 vers ml moduleName h =
     (if moduleName = ml_PRIMARY ml then
        (case openDevice_shim vers ml Shim_PrimaryDevice (ml_PRIMARY ml) h of
           (Result_OK, Some (_, hw, d), h) \<Rightarrow> (Result_OK, Some (Shim_Device, hw, d), h)
         | (result, _, h) \<Rightarrow> (result, None, h))
      else openDevice_shim vers ml Shim_Device moduleName h)"

end
