(* ===== verification/Hal_Device_Facts.thy ===== *)
theory Hal_Device_Facts
  imports Hal_Primary
begin

text \<open>
  The life of a device with its streams: the count of open streams is exact in every order of
  calls, so the assertion in the closing methods never fails and a legacy device is closed at
  most once, without open streams. Then the bounds of the buffer sizes and the answers of the
  primary device's parameters.
\<close>

section \<open>The streams of a device\<close>

datatype ('c, 'd, 's) stream_object = Obj_out "('c, 'd, 's) StreamOut" | Obj_in "('c, 'd, 's) StreamIn"

record ('c, 'd, 's) life_stream =
  ls_object :: "('c, 'd, 's) stream_object"
  ls_handle :: nat
  ls_destroyed :: bool

fun obj_stopped :: "('c, 'd, 's) stream_object \<Rightarrow> bool" where
  "obj_stopped (Obj_out s) = so_mStopWriteThread s"
| "obj_stopped (Obj_in s) = si_mStopReadThread s"

fun obj_hal_closed :: "('c, 'd, 's) stream_object \<Rightarrow> bool" where
  "obj_hal_closed (Obj_out s) = so_hal_closed s"
| "obj_hal_closed (Obj_in s) = si_hal_closed s"

fun obj_can_join :: "('c, 'd, 's) stream_object \<Rightarrow> bool" where
  "obj_can_join (Obj_out s) = can_join s"
| "obj_can_join (Obj_in s) = in_can_join s"

fun obj_close ::
  "event_flag \<Rightarrow> api_version \<Rightarrow> ('h, 'z) hal_device_scheme \<Rightarrow> nat \<Rightarrow> ('c, 'd, 's) stream_object \<Rightarrow> Device \<Rightarrow> 'h
     \<Rightarrow> (HalResult \<times> ('c, 'd, 's) stream_object \<times> Device \<times> 'h) option" where
  "obj_close ef v hw k (Obj_out s) d h =
     map_option (\<lambda>(r, s, d, h). (r, Obj_out s, d, h)) (StreamOut_close ef v hw k (s, d, h))"
| "obj_close ef v hw k (Obj_in s) d h =
     map_option (\<lambda>(r, s, d, h). (r, Obj_in s, d, h)) (StreamIn_close ef v hw k (s, d, h))"

fun obj_destroy ::
  "api_version \<Rightarrow> ('h, 'z) hal_device_scheme \<Rightarrow> nat \<Rightarrow> ('c, 'd, 's) stream_object \<Rightarrow> Device \<Rightarrow> 'h
     \<Rightarrow> (('c, 'd, 's) stream_object \<times> Device \<times> 'h) option" where
  "obj_destroy v hw k (Obj_out s) d h =
     map_option (\<lambda>(s, d, h). (Obj_out s, d, h)) (StreamOut_destroy v hw k (s, d, h))"
| "obj_destroy v hw k (Obj_in s) d h =
     map_option (\<lambda>(s, d, h). (Obj_in s, d, h)) (StreamIn_destroy v hw k (s, d, h))"

record ('c, 'd, 's, 'h) life_world =
  lw_device :: Device
  lw_hal :: 'h
  lw_streams :: "('c, 'd, 's) life_stream list"
  lw_gone :: bool

definition stream_open :: "('c, 'd, 's) life_stream \<Rightarrow> bool" where
  "stream_open s \<longleftrightarrow> \<not> obj_hal_closed (ls_object s)"

definition open_streams :: "('c, 'd, 's, 'h) life_world \<Rightarrow> nat" where
  "open_streams w = length (filter stream_open (lw_streams w))"

text \<open>A close of the legacy device, with the number of legacy streams open at this moment.\<close>

datatype life_event = Le_hal_close nat

text \<open>
  The HAL with a counter of the calls that close the device. A step runs on the counted HAL, so
  its events are the calls that were really made.
\<close>

definition counted :: "('h, 'z) hal_device_scheme \<Rightarrow> ('h \<times> nat) hal_device" where
  "counted hw =
     \<lparr>hd_version = hd_version hw,
      hd_close = (\<lambda>(h, n). let (r, h) = hd_close hw h in (r, (h, Suc n))),
      hd_close_output_stream = (\<lambda>k (h, n). (hd_close_output_stream hw k h, n)),
      hd_close_input_stream = (\<lambda>k (h, n). (hd_close_input_stream hw k h, n))\<rparr>"

definition hal_closes :: "('c, 'd, 's, 'h) life_world \<Rightarrow> nat \<Rightarrow> life_event list" where
  "hal_closes w n = replicate n (Le_hal_close (open_streams w))"

text \<open>
  The steps: opening a stream, closing one, the end of a destructor once its thread can be
  joined (it begins with a close), closing the device, and its destructor, which runs when no
  stream refers to it any more. In \<open>others\<close> the HAL and a stream's thread and callbacks do
  whatever they do.
\<close>

inductive life_step ::
  "event_flag \<Rightarrow> api_version \<Rightarrow> ('g, 'q, 'p, 'p7, 'ac, 'a, 'f, 'src, 'm, 'pc, 'pt) device_conversions
     \<Rightarrow> ('h, 'g, 'q, 'p, 'p7, 'z) hw_device_scheme
     \<Rightarrow> ('c, 'd, 's, 'h) life_world \<Rightarrow> life_event list \<Rightarrow> ('c, 'd, 's, 'h) life_world \<Rightarrow> bool"
  for ef v dc hw where
  open_out: "\<not> lw_gone w \<Longrightarrow> openOutputStreamCore dc hw ioHandle address config flags (lw_device w) (lw_hal w)
      = (result, stream, suggested, d, h)
    \<Longrightarrow> life_step ef v dc hw w [] (w\<lparr>lw_device := d, lw_hal := h, lw_streams := lw_streams w @
          (case stream of None \<Rightarrow> []
           | Some (hs, s) \<Rightarrow> [\<lparr>ls_object = Obj_out s, ls_handle = aso_handle hs, ls_destroyed = False\<rparr>])\<rparr>)"
| open_in: "\<not> lw_gone w \<Longrightarrow> openInputStreamCore dc hw ioHandle address config flags source (lw_device w) (lw_hal w)
      = (result, stream, suggested, d, h)
    \<Longrightarrow> life_step ef v dc hw w [] (w\<lparr>lw_device := d, lw_hal := h, lw_streams := lw_streams w @
          (case stream of None \<Rightarrow> []
           | Some (hs, s) \<Rightarrow> [\<lparr>ls_object = Obj_in s, ls_handle = asi_handle hs, ls_destroyed = False\<rparr>])\<rparr>)"
| close_stream: "i < length (lw_streams w) \<Longrightarrow> s = lw_streams w ! i \<Longrightarrow> \<not> ls_destroyed s
    \<Longrightarrow> obj_close ef v (counted hw) (ls_handle s) (ls_object s) (lw_device w) (lw_hal w, 0) = Some (result, obj, d, h, n)
    \<Longrightarrow> life_step ef v dc hw w (hal_closes w n) (w\<lparr>lw_device := d, lw_hal := h, lw_streams := (lw_streams w)[i := s\<lparr>ls_object := obj\<rparr>]\<rparr>)"
| destroy_stream: "i < length (lw_streams w) \<Longrightarrow> s = lw_streams w ! i \<Longrightarrow> \<not> ls_destroyed s
    \<Longrightarrow> obj_stopped (ls_object s) \<Longrightarrow> obj_can_join (ls_object s)
    \<Longrightarrow> obj_destroy v (counted hw) (ls_handle s) (ls_object s) (lw_device w) (lw_hal w, 0) = Some (obj, d, h, n)
    \<Longrightarrow> life_step ef v dc hw w (hal_closes w n) (w\<lparr>lw_device := d, lw_hal := h,
          lw_streams := (lw_streams w)[i := s\<lparr>ls_object := obj, ls_destroyed := True\<rparr>]\<rparr>)"
| close_device: "\<not> lw_gone w \<Longrightarrow> api_MAJOR v \<ge> 6 \<Longrightarrow> Device_close (counted hw) (lw_device w) (lw_hal w, 0) = (result, d, h, n)
    \<Longrightarrow> life_step ef v dc hw w (hal_closes w n) (w\<lparr>lw_device := d, lw_hal := h\<rparr>)"
| destroy_device: "\<not> lw_gone w \<Longrightarrow> list_all ls_destroyed (lw_streams w)
    \<Longrightarrow> Device_destroy (counted hw) (lw_device w) (lw_hal w, 0) = (d, h, n)
    \<Longrightarrow> life_step ef v dc hw w (hal_closes w n) (w\<lparr>lw_device := d, lw_hal := h, lw_gone := True\<rparr>)"
| others: "length ss = length (lw_streams w)
    \<Longrightarrow> list_all2 (\<lambda>s s'. ls_destroyed s' = ls_destroyed s \<and> obj_stopped (ls_object s') = obj_stopped (ls_object s)
          \<and> obj_hal_closed (ls_object s') = obj_hal_closed (ls_object s)) (lw_streams w) ss
    \<Longrightarrow> life_step ef v dc hw w [] (w\<lparr>lw_streams := ss, lw_hal := h\<rparr>)"

inductive life_reach ::
  "event_flag \<Rightarrow> api_version \<Rightarrow> ('g, 'q, 'p, 'p7, 'ac, 'a, 'f, 'src, 'm, 'pc, 'pt) device_conversions
     \<Rightarrow> ('h, 'g, 'q, 'p, 'p7, 'z) hw_device_scheme \<Rightarrow> ('c, 'd, 's, 'h) life_world \<Rightarrow> life_event list \<Rightarrow> bool"
  for ef v dc hw where
  made: "life_reach ef v dc hw \<lparr>lw_device = Device_new, lw_hal = h, lw_streams = [], lw_gone = False\<rparr> []"
| step: "life_reach ef v dc hw w tr \<Longrightarrow> life_step ef v dc hw w evs w' \<Longrightarrow> life_reach ef v dc hw w' (tr @ evs)"

section \<open>The count is exact\<close>

text \<open>Whether a legacy stream is closed can be told from the members, in a way that depends on the version.\<close>

definition life_stream_ok :: "api_version \<Rightarrow> ('c, 'd, 's) life_stream \<Rightarrow> bool" where
  "life_stream_ok v s \<longleftrightarrow>
     (if api_MAJOR v \<ge> 6 then obj_hal_closed (ls_object s) = obj_stopped (ls_object s)
      else obj_hal_closed (ls_object s) = ls_destroyed s)
   \<and> (ls_destroyed s \<longrightarrow> obj_stopped (ls_object s))"

definition life_inv :: "api_version \<Rightarrow> ('c, 'd, 's, 'h) life_world \<Rightarrow> bool" where
  "life_inv v w \<longleftrightarrow> dev_mOpenedStreamsCount (lw_device w) = int (open_streams w)
     \<and> (\<forall>s \<in> set (lw_streams w). life_stream_ok v s)"

lemma filter_update:
  "i < length xs \<Longrightarrow> int (length (filter P (xs[i := y])))
     = int (length (filter P xs)) - (if P (xs ! i) then 1 else 0) + (if P y then 1 else 0)"
proof (induction xs arbitrary: i)
  case (Cons x xs)
  show ?case
  proof (cases i)
    case (Suc j)
    with Cons.prems Cons.IH [of j] show ?thesis by (simp split: if_splits)
  qed simp
qed simp

lemma open_streams_pos: "i < length (lw_streams w) \<Longrightarrow> stream_open (lw_streams w ! i) \<Longrightarrow> open_streams w \<noteq> 0"
  unfolding open_streams_def by (metis filter_empty_conv length_0_conv nth_mem)

text \<open>Closing and destroying on a stream whose members are in order.\<close>

lemmas hal_close_defs = StreamOut_wake_def StreamIn_wake_def StreamOut_close_def StreamOut_closeHal_def StreamIn_close_def StreamIn_closeHal_def
  StreamOut_destroy_def StreamIn_destroy_def Device_closeOutputStream_def Device_closeInputStream_def

lemma obj_close_result:
  assumes "life_stream_ok v s" "\<not> ls_destroyed s" "stream_open s \<Longrightarrow> dev_mOpenedStreamsCount d \<noteq> 0"
  shows "obj_close ef v hw k (ls_object s) d h \<noteq> None"
    and "obj_close ef v hw k (ls_object s) d h = Some (result, obj, d', h')
      \<Longrightarrow> life_stream_ok v (s\<lparr>ls_object := obj\<rparr>) \<and> dev_mIsClosed d' = dev_mIsClosed d
        \<and> dev_mOpenedStreamsCount d' - dev_mOpenedStreamsCount d
           = (if stream_open (s\<lparr>ls_object := obj\<rparr>) then 1 else 0) - (if stream_open s then 1 else 0)"
  using assms by (cases "ls_object s"; auto simp: hal_close_defs life_stream_ok_def stream_open_def Let_def split: if_splits)+

lemma obj_destroy_result:
  assumes "life_stream_ok v s" "\<not> ls_destroyed s" "obj_stopped (ls_object s)"
    and "stream_open s \<Longrightarrow> dev_mOpenedStreamsCount d \<noteq> 0"
  shows "obj_destroy v hw k (ls_object s) d h \<noteq> None"
    and "obj_destroy v hw k (ls_object s) d h = Some (obj, d', h')
      \<Longrightarrow> life_stream_ok v (s\<lparr>ls_object := obj, ls_destroyed := True\<rparr>) \<and> dev_mIsClosed d' = dev_mIsClosed d
        \<and> dev_mOpenedStreamsCount d' - dev_mOpenedStreamsCount d
           = (if stream_open (s\<lparr>ls_object := obj, ls_destroyed := True\<rparr>) then 1 else 0) - (if stream_open s then 1 else 0)"
  using assms by (cases "ls_object s"; auto simp: hal_close_defs life_stream_ok_def stream_open_def Let_def split: if_splits)+

text \<open>The calls that close the device, of each operation.\<close>

lemma obj_close_counted:
  "obj_close ef v (counted hw) k obj d (h, n) = Some (result, obj', d', h', n') \<Longrightarrow> n' = n"
  "obj_destroy v (counted hw) k obj d (h, n) = Some (obj', d', h', n') \<Longrightarrow> n' = n"
  by (cases obj; auto simp: hal_close_defs counted_def Let_def split: if_splits)+

definition close_once :: "Device \<Rightarrow> Device \<Rightarrow> nat \<Rightarrow> bool" where
  "close_once d d' n \<longleftrightarrow> dev_mOpenedStreamsCount d' = dev_mOpenedStreamsCount d
     \<and> (if dev_mIsClosed d \<or> dev_mOpenedStreamsCount d \<noteq> 0 then d' = d \<and> n = 0 else dev_mIsClosed d' \<and> n = 1)"

lemma doClose_result:
  "Device_doClose (counted hw) d (h, 0) = (result, d', h', n) \<Longrightarrow> close_once d d' n"
  by (auto simp: Device_doClose_def counted_def hal_call_def close_once_def Let_def split: if_splits prod.splits)

lemma destroy_result:
  assumes "Device_destroy (counted hw) d (h, 0) = (d', h', n)"
  shows "close_once d d' n"
  by (rule doClose_result [of hw d h "fst (Device_doClose (counted hw) d (h, 0))" d' h' n])
    (use assms in \<open>simp add: Device_destroy_def prod_eq_iff\<close>)

lemma open_stream_counted:
  assumes "life_inv v w" "i < length (lw_streams w)" "stream_open (lw_streams w ! i)"
  shows "dev_mOpenedStreamsCount (lw_device w) \<noteq> 0"
  using assms open_streams_pos by (simp add: life_inv_def)

lemma life_inv_update:
  assumes "life_inv v w" "i < length (lw_streams w)" "life_stream_ok v s'"
    and "dev_mOpenedStreamsCount d' - dev_mOpenedStreamsCount (lw_device w)
       = (if stream_open s' then 1 else 0) - (if stream_open (lw_streams w ! i) then 1 else 0)"
  shows "life_inv v (w\<lparr>lw_device := d', lw_hal := h', lw_streams := (lw_streams w)[i := s']\<rparr>)"
proof -
  have "set ((lw_streams w)[i := s']) \<subseteq> insert s' (set (lw_streams w))" by (rule set_update_subset_insert)
  with assms show ?thesis by (auto simp: life_inv_def open_streams_def filter_update)
qed

lemma life_inv_step:
  assumes "life_inv v w" "life_step ef v dc hw w evs w'"
  shows "life_inv v w'"
  using assms(2)
proof cases
  case (open_out ioHandle address config flags result stream suggested d h)
  then show ?thesis using assms(1)
    by (auto simp: openOutputStreamCore_def Let_def life_inv_def open_streams_def stream_open_def life_stream_ok_def
        StreamOut_new_def split: sum.splits prod.splits if_splits)
next
  case (open_in ioHandle address config flags source result stream suggested d h)
  then show ?thesis using assms(1)
    by (auto simp: openInputStreamCore_def Let_def life_inv_def open_streams_def stream_open_def life_stream_ok_def
        StreamIn_new_def split: sum.splits prod.splits if_splits)
next
  case (close_stream i s result obj d h n)
  have ok: "life_stream_ok v s" using assms(1) close_stream by (simp add: life_inv_def)
  have "stream_open s \<Longrightarrow> dev_mOpenedStreamsCount (lw_device w) \<noteq> 0"
    using open_stream_counted [OF assms(1) close_stream(3)] close_stream(4) by simp
  from obj_close_result(2) [OF ok close_stream(5) this close_stream(6)]
  show ?thesis using life_inv_update [OF assms(1) close_stream(3)] close_stream(2,4) by simp
next
  case (destroy_stream i s obj d h n)
  have ok: "life_stream_ok v s" using assms(1) destroy_stream by (simp add: life_inv_def)
  have "stream_open s \<Longrightarrow> dev_mOpenedStreamsCount (lw_device w) \<noteq> 0"
    using open_stream_counted [OF assms(1) destroy_stream(3)] destroy_stream(4) by simp
  from obj_destroy_result(2) [OF ok destroy_stream(5,6) this destroy_stream(8)]
  show ?thesis using life_inv_update [OF assms(1) destroy_stream(3)] destroy_stream(2,4) by simp
next
  case (close_device result d h n)
  then have "close_once (lw_device w) d n" using doClose_result by (simp add: Device_close_def)
  then show ?thesis using assms(1) close_device by (simp add: close_once_def life_inv_def open_streams_def)
next
  case (destroy_device d h n)
  then show ?thesis using assms(1) destroy_result [OF destroy_device(5)]
    by (simp add: close_once_def life_inv_def open_streams_def)
next
  case (others ss h)
  have "length (filter stream_open ss) = length (filter stream_open (lw_streams w))"
    using others(4) by (induction rule: list_all2_induct) (auto simp: stream_open_def)
  moreover have "\<forall>s \<in> set ss. life_stream_ok v s"
  proof
    fix s assume "s \<in> set ss"
    then obtain i where i: "i < length ss" "s = ss ! i" by (metis in_set_conv_nth)
    then have "life_stream_ok v (lw_streams w ! i)" using assms(1) others(3) by (simp add: life_inv_def)
    with i others(4) show "life_stream_ok v s" by (auto simp: list_all2_conv_all_nth life_stream_ok_def)
  qed
  ultimately show ?thesis using others assms(1) by (simp add: life_inv_def open_streams_def)
qed

lemma life_step_events:
  assumes "life_inv v w" "life_step ef v dc hw w evs w'"
  shows "(evs = [] \<and> (dev_mIsClosed (lw_device w') = dev_mIsClosed (lw_device w)))
    \<or> (evs = [Le_hal_close 0] \<and> \<not> dev_mIsClosed (lw_device w) \<and> dev_mIsClosed (lw_device w'))"
  using assms(2)
proof cases
  case (open_out ioHandle address config flags result stream suggested d h)
  then show ?thesis
    by (auto simp: openOutputStreamCore_def Let_def split: sum.splits prod.splits if_splits)
next
  case (open_in ioHandle address config flags source result stream suggested d h)
  then show ?thesis
    by (auto simp: openInputStreamCore_def Let_def split: sum.splits prod.splits if_splits)
next
  case (close_stream i s result obj d h n)
  have ok: "life_stream_ok v s" using assms(1) close_stream by (simp add: life_inv_def)
  have "stream_open s \<Longrightarrow> dev_mOpenedStreamsCount (lw_device w) \<noteq> 0"
    using open_stream_counted [OF assms(1) close_stream(3)] close_stream(4) by simp
  from obj_close_result(2) [OF ok close_stream(5) this close_stream(6)] obj_close_counted(1) [OF close_stream(6)] close_stream(1,2)
  show ?thesis by (simp add: hal_closes_def)
next
  case (destroy_stream i s obj d h n)
  have ok: "life_stream_ok v s" using assms(1) destroy_stream by (simp add: life_inv_def)
  have "stream_open s \<Longrightarrow> dev_mOpenedStreamsCount (lw_device w) \<noteq> 0"
    using open_stream_counted [OF assms(1) destroy_stream(3)] destroy_stream(4) by simp
  from obj_destroy_result(2) [OF ok destroy_stream(5,6) this destroy_stream(8)] obj_close_counted(2) [OF destroy_stream(8)]
    destroy_stream(1,2)
  show ?thesis by (simp add: hal_closes_def)
next
  case (close_device result d h n)
  then have "close_once (lw_device w) d n" using doClose_result by (simp add: Device_close_def)
  with assms(1) close_device show ?thesis
    by (auto simp: close_once_def life_inv_def hal_closes_def open_streams_def split: if_splits)
next
  case (destroy_device d h n)
  then show ?thesis using assms(1) destroy_result [OF destroy_device(5)]
    by (auto simp: close_once_def life_inv_def hal_closes_def split: if_splits)
qed simp

lemma life_reach_inv:
  "life_reach ef v dc hw w tr \<Longrightarrow> life_inv v w
     \<and> tr = (if dev_mIsClosed (lw_device w) then [Le_hal_close 0] else [])"
proof (induction rule: life_reach.induct)
  case (made h)
  then show ?case by (simp add: life_inv_def Device_new_def open_streams_def)
next
  case (step w tr evs w')
  then show ?case using life_inv_step life_step_events by (metis append_Nil append_Nil2)
qed

text \<open>C27: In every order of opening, closing and destroying streams and of closing the device, in every
  version: the device counts exactly its open legacy streams; closing or destroying a stream never runs
  into the assertion that the count is not zero; and the call that closes the legacy device is made at most
  once, at a moment without open legacy streams.\<close>

theorem device_life:
  assumes "life_reach ef v dc hw w tr"
  shows "dev_mOpenedStreamsCount (lw_device w) = int (open_streams w)
    \<and> (\<forall>i < length (lw_streams w). let s = lw_streams w ! i in \<not> ls_destroyed s
      \<longrightarrow> obj_close ef v hw (ls_handle s) (ls_object s) (lw_device w) (lw_hal w) \<noteq> None
        \<and> (obj_stopped (ls_object s)
            \<longrightarrow> obj_destroy v hw (ls_handle s) (ls_object s) (lw_device w) (lw_hal w) \<noteq> None))
    \<and> (tr = [] \<or> tr = [Le_hal_close 0])"
proof -
  have inv: "life_inv v w" "tr = [] \<or> tr = [Le_hal_close 0]"
    using life_reach_inv [OF assms] by (simp_all split: if_splits)
  have "let s = lw_streams w ! i in \<not> ls_destroyed s
      \<longrightarrow> obj_close ef v hw (ls_handle s) (ls_object s) (lw_device w) (lw_hal w) \<noteq> None
        \<and> (obj_stopped (ls_object s)
            \<longrightarrow> obj_destroy v hw (ls_handle s) (ls_object s) (lw_device w) (lw_hal w) \<noteq> None)"
    if i: "i < length (lw_streams w)" for i
  proof -
    have ok: "life_stream_ok v (lw_streams w ! i)" using inv(1) i by (simp add: life_inv_def)
    note counted = open_stream_counted [OF inv(1) i]
    show ?thesis unfolding Let_def
      using obj_close_result(1) [OF ok _ counted] obj_destroy_result(1) [OF ok _ _ counted] by metis
  qed
  moreover have "dev_mOpenedStreamsCount (lw_device w) = int (open_streams w)" using inv(1) by (simp add: life_inv_def)
  ultimately show ?thesis using inv(2) by blast
qed

section \<open>Buffer sizes\<close>

lemma MAX_BUFFER_SIZE_unat: "unat MAX_BUFFER_SIZE = 2 ^ 31"
  by (simp add: MAX_BUFFER_SIZE_def)

lemma buffer_size_ok_iff:
  "buffer_size_ok frameSize framesCount \<longleftrightarrow>
     0 < unat frameSize * unat framesCount \<and> unat frameSize * unat framesCount \<le> 2 ^ 31"
proof (cases "framesCount = 0")
  case False
  then have pos: "0 < unat framesCount" by (simp add: unat_gt_0)
  have "frameSize \<le> MAX_BUFFER_SIZE div framesCount \<longleftrightarrow> unat frameSize \<le> 2 ^ 31 div unat framesCount"
    by (simp add: word_le_nat_alt unat_div MAX_BUFFER_SIZE_unat)
  also have "\<dots> \<longleftrightarrow> unat frameSize * unat framesCount \<le> 2 ^ 31" by (rule less_eq_div_iff_mult_less_eq [OF pos])
  finally show ?thesis using False pos by (auto simp: buffer_size_ok_def unat_gt_0 not_less)
qed (simp add: buffer_size_ok_def)

lemma buffer_size_ok_unat:
  "buffer_size_ok frameSize framesCount \<Longrightarrow> unat (frameSize * framesCount) = unat frameSize * unat framesCount"
  by (simp add: buffer_size_ok_iff unat_word_ariths)

text \<open>What the library and the system have to answer for a data queue of \<open>n\<close> bytes.\<close>

definition prepare_env_ok :: "('c, 'd, 's) prepare_env \<Rightarrow> nat \<Rightarrow> bool" where
  "prepare_env_ok e n \<longleftrightarrow> snd (pe_commandMQ e) \<and> snd (pe_dataMQ e n) \<and> snd (pe_statusMQ e)
     \<and> pe_event_flag e \<noteq> None \<and> pe_init e \<and> pe_run e"

definition prepare_read_env_ok :: "('c, 'd, 's) prepare_read_env \<Rightarrow> nat \<Rightarrow> bool" where
  "prepare_read_env_ok e n \<longleftrightarrow> snd (pr_commandMQ e) \<and> snd (pr_dataMQ e n) \<and> snd (pr_statusMQ e)
     \<and> pr_event_flag e \<noteq> None \<and> pr_init e \<and> pr_run e"

text \<open>C40: A stream is prepared for writing or reading exactly when it was not prepared before, the exact
  product of frame size and count is between one and two to the power 31, and the library and the system
  give what is needed. The data queue then has exactly this many bytes, so the product of 32-bit numbers
  never wraps; a refused preparation leaves the stream as it was. The largest buffer is thus 2 GiB, while
  the comment at \<open>MAX_BUFFER_SIZE\<close> in \<open>Stream.h\<close> speaks of 1 GiB.\<close>

theorem prepare_bounds:
  assumes "prepareForWriting e frameSize framesCount s = (retval, s')"
    and "prepareForReading e2 frameSize framesCount s2 = (retval2, s2')"
    and "n = unat frameSize * unat framesCount"
  shows "(retval = Result_OK \<longleftrightarrow> so_mWriteThread s = None \<and> n \<in> {1..2 ^ 31} \<and> prepare_env_ok e n)
    \<and> (if retval = Result_OK then map_option wt_dataMQ (so_mWriteThread s') = Some (fst (pe_dataMQ e n)) else s' = s)
    \<and> (retval2 = Result_OK \<longleftrightarrow> si_mReadThread s2 = None \<and> n \<in> {1..2 ^ 31} \<and> prepare_read_env_ok e2 n)
    \<and> (if retval2 = Result_OK then map_option rt_dataMQ (si_mReadThread s2') = Some (fst (pr_dataMQ e2 n)) else s2' = s2)"
proof -
  have ok: "buffer_size_ok frameSize framesCount \<longleftrightarrow> n \<in> {1..2 ^ 31}"
    using assms(3) by (simp add: buffer_size_ok_iff Suc_le_eq)
  have n: "buffer_size_ok frameSize framesCount \<Longrightarrow> unat (frameSize * framesCount) = n"
    using assms(3) by (simp add: buffer_size_ok_unat)
  have out: "(retval = Result_OK \<longleftrightarrow> so_mWriteThread s = None \<and> n \<in> {1..2 ^ 31} \<and> prepare_env_ok e n)
    \<and> (if retval = Result_OK then map_option wt_dataMQ (so_mWriteThread s') = Some (fst (pe_dataMQ e n)) else s' = s)"
    unfolding ok [symmetric] using assms(1) n unfolding prepareForWriting_def prepare_env_ok_def Let_def
    by (auto split: if_splits prod.splits)
  have inp: "(retval2 = Result_OK \<longleftrightarrow> si_mReadThread s2 = None \<and> n \<in> {1..2 ^ 31} \<and> prepare_read_env_ok e2 n)
    \<and> (if retval2 = Result_OK then map_option rt_dataMQ (si_mReadThread s2') = Some (fst (pr_dataMQ e2 n)) else s2' = s2)"
    unfolding ok [symmetric] using assms(2) n unfolding prepareForReading_def prepare_read_env_ok_def Let_def
    by (auto split: if_splits prod.splits)
  from out inp show ?thesis by blast
qed

section \<open>The TTY mode\<close>

text \<open>The conversions are inverse to each other when the library's four names differ.\<close>

lemma tty_mode_inverse:
  assumes "distinct [val_TTY_OFF ks, val_TTY_VCO ks, val_TTY_HCO ks, val_TTY_FULL ks]"
  shows "convertTtyModeFromHIDL ks mode = Some name \<Longrightarrow> convertTtyModeToHIDL ks name = mode"
    and "convertTtyModeToHIDL ks name \<noteq> Tty_other (-1) \<Longrightarrow> convertTtyModeFromHIDL ks (convertTtyModeToHIDL ks name) = Some name"
  using assms by (cases mode; auto simp: convertTtyModeToHIDL_def split: if_splits)+

section \<open>Examples\<close>

text \<open>A HAL that accepts everything and counts its calls, with one output stream open on it.\<close>

definition example_audio_out :: "nat audio_stream_out" where
  "example_audio_out =
     \<lparr>aso_handle = 1, aso_get_latency = (\<lambda>h. 20), aso_set_volume = None,
      aso_write = (\<lambda>xs h. (int (length xs), h + length xs)), aso_get_render_position = (\<lambda>v h. (0, v, h)),
      aso_get_next_write_timestamp = None, aso_set_callback = None, aso_pause = None, aso_resume = None,
      aso_drain = None, aso_flush = None, aso_get_presentation_position = None, aso_update_source_metadata = None,
      aso_update_source_metadata_v7 = None, aso_get_dual_mono_mode = None, aso_set_dual_mono_mode = None,
      aso_get_audio_description_mix_level = None, aso_set_audio_description_mix_level = None,
      aso_get_playback_rate_parameters = None, aso_set_playback_rate_parameters = None,
      aso_set_event_callback = None, aso_set_latency_mode = None, aso_get_recommended_latency_modes = None,
      aso_set_latency_mode_callback = None\<rparr>"

definition example_audio_in :: "nat audio_stream_in" where
  "example_audio_in =
     \<lparr>asi_handle = 2, asi_set_gain = (\<lambda>_ h. (0, h)), asi_read = (\<lambda>n h. (int n, replicate n 0, h + n)),
      asi_get_input_frames_lost = (\<lambda>h. (0, h)), asi_get_capture_position = None, asi_update_sink_metadata = None,
      asi_update_sink_metadata_v7 = None, asi_get_active_microphones = None, asi_set_microphone_direction = None,
      asi_set_microphone_field_dimension = None\<rparr>"

definition example_hw :: "(nat, unit, unit, unit, unit) hw_device" where
  "example_hw =
     \<lparr>hd_version = 0, hd_close = (\<lambda>h. (0, h + 1)), hd_close_output_stream = (\<lambda>_ h. h + 1),
      hd_close_input_stream = (\<lambda>_ h. h + 1),
      hw_parameters = \<lparr>halGetParameters = (\<lambda>_ h. (None, h)), halSetParameters = (\<lambda>_ h. (0, h))\<rparr>,
      hw_init_check = (\<lambda>h. (0, h)), hw_set_master_volume = None, hw_get_master_volume = None,
      hw_set_mic_mute = (\<lambda>_ h. (0, h)), hw_get_mic_mute = (\<lambda>b h. (0, b, h)), hw_set_master_mute = None,
      hw_get_master_mute = None, hw_get_input_buffer_size = (\<lambda>_ h. (0, h)),
      hw_open_output_stream = (\<lambda>_ _ _ g h. (0, g, example_audio_out, h + 1)),
      hw_open_input_stream = (\<lambda>_ _ _ _ g h. (0, g, example_audio_in, h + 1)),
      hw_create_audio_patch = (\<lambda>_ _ p h. (0, p, h)), hw_release_audio_patch = (\<lambda>_ h. (0, h)),
      hw_get_audio_port = (\<lambda>p h. (0, p, h)), hw_get_audio_port_v7 = (\<lambda>p h. (0, p, h)),
      hw_set_audio_port_config = (\<lambda>_ h. (0, h)), hw_dump = (\<lambda>_ h. (0, h)), hw_get_microphones = None,
      hw_add_device_effect = None, hw_remove_device_effect = None, hw_set_device_connected_state_v7 = None,
      hw_set_voice_volume = (\<lambda>_ h. (0, h))\<rparr>"

definition example_conversions ::
  "(unit, unit, unit, unit, unit, unit, unit, unit, unit, unit, unit) device_conversions" where
  "example_conversions =
     \<lparr>dc_audioConfigToHal = Inr, dc_audioConfigFromHal = (\<lambda>g _. g), dc_AudioConfig = (),
      dc_deviceAddressToHal = (\<lambda>_. Inr (2, '''')), dc_audioOutputFlagsToHal = (\<lambda>_. Inr 0),
      dc_audioInputFlagsToHal = (\<lambda>_. Inr 0), dc_audioSourceToHal = (\<lambda>_. Inr 1), dc_metadata_status = (\<lambda>_. 0),
      dc_metadata_status_v7 = (\<lambda>_. 0), dc_metadataToHal = (\<lambda>_. []), dc_metadataToHalV7 = (\<lambda>_. Inr []),
      dc_sources = (\<lambda>_. []), dc_audioPortConfigToHal = Inr, dc_audioPortConfigsToHal = Inr, dc_audioPortToHal = Inr,
      dc_audioPortFromHal = Inr, dc_audioPortToHal_v7 = Inr, dc_audioPortFromHal_v7 = Inr, dc_effects = (\<lambda>_. None)\<rparr>"

definition example_life :: "(nat, nat, nat, nat) life_world" where
  "example_life =
     \<lparr>lw_device = \<lparr>dev_mIsClosed = False, dev_mOpenedStreamsCount = 1\<rparr>, lw_hal = 1,
      lw_streams = [\<lparr>ls_object = Obj_out StreamOut_new, ls_handle = 1, ls_destroyed = False\<rparr>], lw_gone = False\<rparr>"

lemma example_life_reach: "life_reach example_flag \<lparr>api_MAJOR = 7, api_MINOR = 1\<rparr> example_conversions example_hw example_life []"
proof -
  let ?w = "\<lparr>lw_device = Device_new, lw_hal = 0, lw_streams = [], lw_gone = False\<rparr> :: (nat, nat, nat, nat) life_world"
  have opened: "openOutputStreamCore example_conversions example_hw 13 () () () (lw_device ?w) (lw_hal ?w)
      = (Result_OK, Some (example_audio_out, StreamOut_new), (), lw_device example_life, 1)"
    by (simp add: openOutputStreamCore_def example_conversions_def example_hw_def example_life_def Device_new_def)
  from life_reach.step [OF life_reach.made life_step.open_out [OF _ opened]] show ?thesis
    by (simp add: example_life_def example_audio_out_def)
qed

theorem device_life_witness:
  "dev_mOpenedStreamsCount (lw_device example_life) = 1 \<and> open_streams example_life = 1
   \<and> obj_close example_flag \<lparr>api_MAJOR = 7, api_MINOR = 1\<rparr> example_hw 1 (Obj_out (StreamOut_new :: (nat, nat, nat) StreamOut))
       (lw_device example_life) (lw_hal example_life) \<noteq> None"
proof -
  have one: "open_streams example_life = 1"
    by (simp add: open_streams_def stream_open_def example_life_def StreamOut_new_def)
  have s: "0 < length (lw_streams example_life)"
    "lw_streams example_life ! 0 = \<lparr>ls_object = Obj_out StreamOut_new, ls_handle = 1, ls_destroyed = False\<rparr>"
    by (simp_all add: example_life_def)
  note life = device_life [OF example_life_reach]
  have "let s = lw_streams example_life ! 0 in \<not> ls_destroyed s
      \<longrightarrow> obj_close example_flag \<lparr>api_MAJOR = 7, api_MINOR = 1\<rparr> example_hw (ls_handle s) (ls_object s)
            (lw_device example_life) (lw_hal example_life) \<noteq> None"
    using life s(1) unfolding Let_def by blast
  then have "obj_close example_flag \<lparr>api_MAJOR = 7, api_MINOR = 1\<rparr> example_hw 1 (Obj_out (StreamOut_new :: (nat, nat, nat) StreamOut))
       (lw_device example_life) (lw_hal example_life) \<noteq> None"
    unfolding s(2) Let_def by (simp only: life_stream.select_convs simp_thms)
  with one life show ?thesis by simp
qed

definition example_prepare_out :: "(nat, nat, nat) prepare_env" where
  "example_prepare_out =
     \<lparr>pe_commandMQ = (1, True), pe_dataMQ = (\<lambda>n. (n, True)), pe_statusMQ = (1, True), pe_event_flag = Some 0,
      pe_init = True, pe_run = True,
      pe_mStatus = \<lparr>ws_replyTo = Write_WRITE, ws_retval = Result_OK, ws_reply = Reply_written 0\<rparr>\<rparr>"

definition example_prepare_in :: "(nat, nat, nat) prepare_read_env" where
  "example_prepare_in =
     \<lparr>pr_commandMQ = (1, True), pr_dataMQ = (\<lambda>n. (n, True)), pr_statusMQ = (1, True), pr_event_flag = Some 0,
      pr_init = True, pr_run = True, pr_mParameters = \<lparr>rp_command = Read_READ, rp_read = 0\<rparr>,
      pr_mStatus = \<lparr>rs_replyTo = Read_READ, rs_retval = Result_OK, rs_reply = Reply_read 0\<rparr>\<rparr>"

theorem prepare_bounds_witness:
  "fst (prepareForWriting example_prepare_out 65536 32768 StreamOut_new) = Result_OK
   \<and> map_option wt_dataMQ (so_mWriteThread (snd (prepareForWriting example_prepare_out 65536 32768 StreamOut_new)))
     = Some 2147483648
   \<and> fst (prepareForReading example_prepare_in 65536 32768 StreamIn_new) = Result_OK"
proof -
  have n: "2147483648 = unat (65536 :: u32) * unat (32768 :: u32)" by simp
  have env: "prepare_env_ok example_prepare_out 2147483648" "prepare_read_env_ok example_prepare_in 2147483648"
    "so_mWriteThread (StreamOut_new :: (nat, nat, nat) StreamOut) = None"
    "si_mReadThread (StreamIn_new :: (nat, nat, nat) StreamIn) = None"
    by (simp_all add: prepare_env_ok_def prepare_read_env_ok_def example_prepare_out_def example_prepare_in_def
        StreamOut_new_def StreamIn_new_def)
  from prepare_bounds [OF prod.collapse [symmetric] prod.collapse [symmetric] n,
      of example_prepare_out StreamOut_new example_prepare_in StreamIn_new] env
  have "fst (prepareForWriting example_prepare_out 65536 32768 StreamOut_new) = Result_OK"
    "map_option wt_dataMQ (so_mWriteThread (snd (prepareForWriting example_prepare_out 65536 32768 StreamOut_new)))
      = Some (fst (pe_dataMQ example_prepare_out 2147483648))"
    "fst (prepareForReading example_prepare_in 65536 32768 StreamIn_new) = Result_OK"
    by simp_all
  moreover have "fst (pe_dataMQ example_prepare_out 2147483648) = 2147483648" by (simp add: example_prepare_out_def)
  ultimately show ?thesis by simp
qed

end
