(* ===== verification/Prop_Area.thy ===== *)
theory Prop_Area
  imports Bt_Prelude
begin

text \<open>
  The property area of the reset tool (\<open>src/resetprop/.../systemproperties\<close>): a piece of
  shared memory that holds a trie of name tokens, the siblings of a level in a binary tree
  (\<open>prop_area.cpp\<close>, \<open>prop_area.h\<close>, \<open>prop_info.cpp\<close>, \<open>prop_info.h\<close>). Objects lie at offsets
  of the memory and refer to each other by offset. The model is a map from offsets to the
  structs that were placed there: the memory is a file extended with zeros, and objects are
  never freed, so memory that was not placed is zero. An access to an offset where no struct
  of the right kind begins, and a loop that does not end, are the outer \<^term>\<open>None\<close>; a null
  pointer is an inner one.
\<close>

section \<open>The structs\<close>

text \<open>\<open>PROP_VALUE_MAX\<close> of the system headers; a name is a string without its final NUL.\<close>

definition PROP_VALUE_MAX :: nat where "PROP_VALUE_MAX = 92"

record prop_bt =
  bt_name :: string
  bt_prop :: nat
  bt_left :: nat
  bt_right :: nat
  bt_children :: nat

text \<open>The union of the short value and of the error message with the offset of a long value, as bytes.\<close>

record prop_info =
  pi_serial :: u32
  pi_union :: string
  pi_name :: string

datatype pa_object = Obj_bt prop_bt | Obj_info prop_info | Obj_bytes string

record prop_area =
  pa_bytes_used :: nat
  pa_serial :: u32
  pa_data :: "nat \<Rightarrow> pa_object option"

definition sizeof_prop_bt :: nat where "sizeof_prop_bt = 20"
definition sizeof_prop_info :: nat where "sizeof_prop_info = 96"
definition sizeof_prop_area :: nat where "sizeof_prop_area = 128"

definition prop_bt_new :: "string \<Rightarrow> prop_bt" where
  "prop_bt_new name = \<lparr>bt_name = name, bt_prop = 0, bt_left = 0, bt_right = 0, bt_children = 0\<rparr>"

text \<open>A new area has room for the root node, which is all zero.\<close>

definition prop_area_new :: prop_area where
  "prop_area_new = \<lparr>pa_bytes_used = sizeof_prop_bt, pa_serial = 0, pa_data = [0 \<mapsto> Obj_bt (prop_bt_new '''')]\<rparr>"

section \<open>Property infos\<close>

definition kLongFlag :: u32 where "kLongFlag = push_bit 16 1"
definition kLongLegacyErrorBufferSize :: nat where "kLongLegacyErrorBufferSize = 56"

definition kLongLegacyError :: string where
  "kLongLegacyError = ''Must use __system_property_read_callback() to read''"

definition NUL :: char where "NUL = CHR 0x00"

text \<open>A 32-bit number in memory, the lowest byte first.\<close>

definition le32 :: "nat \<Rightarrow> string" where
  "le32 n = map (\<lambda>i. char_of (n div 256 ^ i)) [0..<4]"

definition of_le32 :: "string \<Rightarrow> nat" where
  "of_le32 cs = foldr (\<lambda>c n. of_char c + 256 * n) cs 0"

definition prop_info_short :: "string \<Rightarrow> string \<Rightarrow> prop_info" where
  "prop_info_short name value_chars =
     \<lparr>pi_serial = push_bit 24 (of_nat (length value_chars)),
      pi_union = value_chars @ replicate (PROP_VALUE_MAX - length value_chars) NUL, pi_name = name\<rparr>"

definition prop_info_long :: "string \<Rightarrow> nat \<Rightarrow> prop_info" where
  "prop_info_long name long_offset =
     \<lparr>pi_serial = push_bit 24 (of_nat (length kLongLegacyError)) OR kLongFlag,
      pi_union = kLongLegacyError @ replicate (kLongLegacyErrorBufferSize - length kLongLegacyError) NUL
        @ le32 long_offset @ replicate (PROP_VALUE_MAX - kLongLegacyErrorBufferSize - 4) NUL,
      pi_name = name\<rparr>"

definition pi_is_long :: "prop_info \<Rightarrow> bool" where
  "pi_is_long i \<longleftrightarrow> pi_serial i AND kLongFlag \<noteq> 0"

definition pi_long_offset :: "prop_info \<Rightarrow> nat" where
  "pi_long_offset i = of_le32 (take 4 (drop kLongLegacyErrorBufferSize (pi_union i)))"

text \<open>A C string ends at its first NUL.\<close>

definition c_string :: "string \<Rightarrow> string" where
  "c_string cs = takeWhile (\<lambda>c. c \<noteq> NUL) cs"

text \<open>The long value lies at an offset from its info. The sum wraps like the pointers' low bits.\<close>

definition pi_long_value :: "prop_area \<Rightarrow> nat \<Rightarrow> prop_info \<Rightarrow> string option" where
  "pi_long_value pa off i =
     (case pa_data pa (off + pi_long_offset i) of Some (Obj_bytes cs) \<Rightarrow> Some (c_string cs) | _ \<Rightarrow> None)"

section \<open>Allocation\<close>

definition deref_bt :: "prop_area \<Rightarrow> nat \<Rightarrow> prop_bt option" where
  "deref_bt pa off = (case pa_data pa off of Some (Obj_bt bt) \<Rightarrow> Some bt | _ \<Rightarrow> None)"

definition deref_info :: "prop_area \<Rightarrow> nat \<Rightarrow> prop_info option" where
  "deref_info pa off = (case pa_data pa off of Some (Obj_info i) \<Rightarrow> Some i | _ \<Rightarrow> None)"

definition put_object :: "nat \<Rightarrow> pa_object \<Rightarrow> prop_area \<Rightarrow> prop_area" where
  "put_object off x pa = pa\<lparr>pa_data := (pa_data pa)(off \<mapsto> x)\<rparr>"

definition BIONIC_ALIGN :: "nat \<Rightarrow> nat" where
  "BIONIC_ALIGN size_bytes = (size_bytes + 3) div 4 * 4"

text \<open>
  \<open>ds\<close> is \<open>pa_data_size_\<close>, which all areas share. The sum is computed with 64 bits, the
  number of bytes used has 32.
\<close>

definition allocate_obj :: "nat \<Rightarrow> nat \<Rightarrow> prop_area \<Rightarrow> (nat \<times> prop_area) option" where
  "allocate_obj ds size_bytes pa =
     (let aligned = BIONIC_ALIGN size_bytes
      in if pa_bytes_used pa + aligned > ds then None
         else Some (pa_bytes_used pa, pa\<lparr>pa_bytes_used := (pa_bytes_used pa + aligned) mod 2 ^ 32\<rparr>))"

definition new_prop_bt :: "nat \<Rightarrow> string \<Rightarrow> prop_area \<Rightarrow> (nat \<times> prop_area) option" where
  "new_prop_bt ds name pa =
     (case allocate_obj ds (sizeof_prop_bt + length name + 1) pa of
        None \<Rightarrow> None
      | Some (new_offset, pa) \<Rightarrow> Some (new_offset, put_object new_offset (Obj_bt (prop_bt_new name)) pa))"

text \<open>When the room is enough for the info but not for its long value, the info's room is lost.\<close>

definition new_prop_info :: "nat \<Rightarrow> string \<Rightarrow> string \<Rightarrow> prop_area \<Rightarrow> nat option \<times> prop_area" where
  "new_prop_info ds name value_chars pa =
     (case allocate_obj ds (sizeof_prop_info + length name + 1) pa of
        None \<Rightarrow> (None, pa)
      | Some (new_offset, pa) \<Rightarrow>
          if length value_chars \<ge> PROP_VALUE_MAX then
            (case allocate_obj ds (length value_chars + 1) pa of
               None \<Rightarrow> (None, pa)
             | Some (long_value_offset, pa) \<Rightarrow>
                 (Some new_offset,
                  put_object new_offset
                    (Obj_info (prop_info_long name ((2 ^ 32 + long_value_offset - new_offset) mod 2 ^ 32)))
                    (put_object long_value_offset (Obj_bytes value_chars) pa)))
          else (Some new_offset, put_object new_offset (Obj_info (prop_info_short name value_chars)) pa))"

definition to_prop_obj :: "nat \<Rightarrow> nat \<Rightarrow> nat option" where
  "to_prop_obj ds off = (if off > ds then None else Some off)"

section \<open>Finding a node\<close>

text \<open>The sign of \<open>strncmp\<close>, of bytes; a string that has ended reads as NUL.\<close>

fun strncmp :: "string \<Rightarrow> string \<Rightarrow> nat \<Rightarrow> int" where
  "strncmp s1 s2 0 = 0"
| "strncmp s1 s2 (Suc n) =
     (let c1 = (case s1 of [] \<Rightarrow> NUL | c # _ \<Rightarrow> c); c2 = (case s2 of [] \<Rightarrow> NUL | c # _ \<Rightarrow> c)
      in if c1 \<noteq> c2 then int (of_char c1) - int (of_char c2)
         else if c1 = NUL then 0 else strncmp (tl s1) (tl s2) n)"

definition cmp_prop_name :: "string \<Rightarrow> string \<Rightarrow> int" where
  "cmp_prop_name one two =
     (if length one < length two then -1 else if length one > length two then 1
      else strncmp one two (length one))"

text \<open>The three links of a node that lead to other nodes.\<close>

datatype bt_link = Link_left | Link_right | Link_children

fun get_link :: "bt_link \<Rightarrow> prop_bt \<Rightarrow> nat" where
  "get_link Link_left bt = bt_left bt"
| "get_link Link_right bt = bt_right bt"
| "get_link Link_children bt = bt_children bt"

fun set_link :: "bt_link \<Rightarrow> nat \<Rightarrow> prop_bt \<Rightarrow> prop_bt" where
  "set_link Link_left off bt = bt\<lparr>bt_left := off\<rparr>"
| "set_link Link_right off bt = bt\<lparr>bt_right := off\<rparr>"
| "set_link Link_children off bt = bt\<lparr>bt_children := off\<rparr>"

text \<open>A new node that is linked to the node \<open>bt\<close> at \<open>current\<close>; nothing happens without room.\<close>

definition new_linked :: "nat \<Rightarrow> bt_link \<Rightarrow> nat \<Rightarrow> prop_bt \<Rightarrow> string \<Rightarrow> prop_area \<Rightarrow> nat option \<times> prop_area" where
  "new_linked ds l current bt name pa =
     (case new_prop_bt ds name pa of
        None \<Rightarrow> (None, pa)
      | Some (new_offset, pa) \<Rightarrow> (Some new_offset, put_object current (Obj_bt (set_link l new_offset bt)) pa))"

text \<open>The search in the binary tree of siblings, from a node that is not null.\<close>

partial_function (option) find_sibling ::
  "nat \<Rightarrow> nat \<Rightarrow> string \<Rightarrow> bool \<Rightarrow> prop_area \<Rightarrow> (nat option \<times> prop_area) option" where
  "find_sibling ds current name alloc_if_needed pa =
     (case deref_bt pa current of
        None \<Rightarrow> None
      | Some bt \<Rightarrow>
         (let ret = cmp_prop_name name (bt_name bt); l = (if ret < 0 then Link_left else Link_right)
          in if ret = 0 then Some (Some current, pa)
             else if get_link l bt \<noteq> 0 then
               (case to_prop_obj ds (get_link l bt) of
                  None \<Rightarrow> Some (None, pa)
                | Some next_node \<Rightarrow> find_sibling ds next_node name alloc_if_needed pa)
             else if \<not> alloc_if_needed then Some (None, pa)
             else Some (new_linked ds l current bt name pa)))"

text \<open>The tokens of a name, between its dots.\<close>

fun name_tokens :: "string \<Rightarrow> string list" where
  "name_tokens [] = [[]]"
| "name_tokens (c # cs) =
     (if c = CHR ''.'' then [] # name_tokens cs
      else case name_tokens cs of token # rest \<Rightarrow> (c # token) # rest | [] \<Rightarrow> [[c]])"

text \<open>The walk down the trie, one round of the loop for each token that is left.\<close>

fun find_node ::
  "nat \<Rightarrow> nat \<Rightarrow> string list \<Rightarrow> bool \<Rightarrow> prop_area \<Rightarrow> (nat option \<times> prop_area) option" where
  "find_node ds current [] alloc_if_needed pa = Some (Some current, pa)"
| "find_node ds current (token # rest) alloc_if_needed pa =
     (if token = '''' then Some (None, pa)
      else case deref_bt pa current of
        None \<Rightarrow> None
      | Some bt \<Rightarrow>
         (let (root, pa) =
                (if bt_children bt \<noteq> 0 then (to_prop_obj ds (bt_children bt), pa)
                 else if alloc_if_needed then new_linked ds Link_children current bt token pa
                 else (None, pa))
          in case root of
               None \<Rightarrow> Some (None, pa)
             | Some root_off \<Rightarrow>
                (case find_sibling ds root_off token alloc_if_needed pa of
                   Some (Some node, pa) \<Rightarrow> find_node ds node rest alloc_if_needed pa
                 | other \<Rightarrow> other)))"

definition find_prop_bt :: "nat \<Rightarrow> nat \<Rightarrow> string \<Rightarrow> bool \<Rightarrow> prop_area \<Rightarrow> (nat option \<times> prop_area) option" where
  "find_prop_bt ds trie name alloc_if_needed pa = find_node ds trie (name_tokens name) alloc_if_needed pa"

definition find_property ::
  "nat \<Rightarrow> nat \<Rightarrow> string \<Rightarrow> string \<Rightarrow> bool \<Rightarrow> prop_area \<Rightarrow> (nat option \<times> prop_area) option" where
  "find_property ds trie name value_chars alloc_if_needed pa =
     (case find_prop_bt ds trie name alloc_if_needed pa of
        Some (Some current, pa) \<Rightarrow>
          (case deref_bt pa current of
             None \<Rightarrow> None
           | Some bt \<Rightarrow>
               if bt_prop bt \<noteq> 0 then Some (to_prop_obj ds (bt_prop bt), pa)
               else if alloc_if_needed then
                 (case new_prop_info ds name value_chars pa of
                    (None, pa) \<Rightarrow> Some (None, pa)
                  | (Some new_offset, pa) \<Rightarrow>
                      Some (Some new_offset, put_object current (Obj_bt (bt\<lparr>bt_prop := new_offset\<rparr>)) pa))
               else Some (None, pa))
      | other \<Rightarrow> other)"

section \<open>The operations\<close>

definition pa_find :: "nat \<Rightarrow> string \<Rightarrow> prop_area \<Rightarrow> nat option option" where
  "pa_find ds name pa = map_option fst (find_property ds 0 name '''' False pa)"

definition pa_add :: "nat \<Rightarrow> string \<Rightarrow> string \<Rightarrow> prop_area \<Rightarrow> (bool \<times> prop_area) option" where
  "pa_add ds name value_chars pa =
     map_option (\<lambda>(info, pa). (info \<noteq> None, pa)) (find_property ds 0 name value_chars True pa)"

definition pa_del :: "nat \<Rightarrow> string \<Rightarrow> prop_area \<Rightarrow> (bool \<times> prop_area) option" where
  "pa_del ds name pa =
     (case find_prop_bt ds 0 name False pa of
        None \<Rightarrow> None
      | Some (None, pa) \<Rightarrow> Some (False, pa)
      | Some (Some node, pa) \<Rightarrow>
          (case deref_bt pa node of
             None \<Rightarrow> None
           | Some bt \<Rightarrow> Some (True, put_object node (Obj_bt (bt\<lparr>bt_prop := 0\<rparr>)) pa)))"

text \<open>
  The traversal, with the infos that the callback is called for. The results of the recursive
  calls are compared with zero as numbers, which truth values never are below, so they do not
  matter.
\<close>

partial_function (option) foreach_property :: "nat \<Rightarrow> nat option \<Rightarrow> prop_area \<Rightarrow> (bool \<times> nat list) option" where
  "foreach_property ds trie pa =
     (case trie of
        None \<Rightarrow> Some (False, [])
      | Some off \<Rightarrow>
         (case deref_bt pa off of
            None \<Rightarrow> None
          | Some bt \<Rightarrow>
              Option.bind
                (if bt_left bt \<noteq> 0 then foreach_property ds (to_prop_obj ds (bt_left bt)) pa else Some (True, []))
                (\<lambda>lefts.
              if bt_prop bt \<noteq> 0 \<and> to_prop_obj ds (bt_prop bt) = None then Some (False, snd lefts)
              else Option.bind
                (if bt_children bt \<noteq> 0 then foreach_property ds (to_prop_obj ds (bt_children bt)) pa
                 else Some (True, []))
                (\<lambda>below. Option.bind
                (if bt_right bt \<noteq> 0 then foreach_property ds (to_prop_obj ds (bt_right bt)) pa else Some (True, []))
                (\<lambda>rights.
              Some (True, snd lefts @ (if bt_prop bt \<noteq> 0 then [bt_prop bt] else []) @ snd below @ snd rights))))))"

definition pa_foreach :: "nat \<Rightarrow> prop_area \<Rightarrow> (bool \<times> nat list) option" where
  "pa_foreach ds pa = foreach_property ds (Some 0) pa"

end
