(* ===== verification/Prop_Info_Parser.thy ===== *)
theory Prop_Info_Parser
  imports Prop_Area
begin

text \<open>
  The parser of the serialized property contexts (\<open>property_info_parser.cpp\<close>,
  \<open>property_info_parser.h\<close>): a file that holds a trie of property names, walked in place to
  find the context of a property. The file is the string of its bytes. \<^term>\<open>None\<close> is a read
  of a null pointer or of bytes behind the file's end; a string of the file has to end within it.
\<close>

section \<open>Serialized data\<close>

definition read_u32 :: "string \<Rightarrow> nat \<Rightarrow> nat option" where
  "read_u32 bytes off = (if off + 4 \<le> length bytes then Some (of_le32 (take 4 (drop off bytes))) else None)"

definition read_c_string :: "string \<Rightarrow> nat \<Rightarrow> string option" where
  "read_c_string bytes off = (if NUL \<in> set (drop off bytes) then Some (c_string (drop off bytes)) else None)"

definition sizeof_PropertyInfoArea :: nat where "sizeof_PropertyInfoArea = 24"

definition hdr_minimum_supported_version :: "string \<Rightarrow> nat option" where
  "hdr_minimum_supported_version bytes = read_u32 bytes 4"

definition hdr_size :: "string \<Rightarrow> nat option" where "hdr_size bytes = read_u32 bytes 8"

definition hdr_contexts_offset :: "string \<Rightarrow> nat option" where "hdr_contexts_offset bytes = read_u32 bytes 12"

definition hdr_types_offset :: "string \<Rightarrow> nat option" where "hdr_types_offset bytes = read_u32 bytes 16"

definition hdr_root_offset :: "string \<Rightarrow> nat option" where "hdr_root_offset bytes = read_u32 bytes 20"

text \<open>An offset of the file as a pointer: null beyond the size that the header states.\<close>

definition checked_offset :: "string \<Rightarrow> nat \<Rightarrow> nat option" where
  "checked_offset bytes off =
     Option.bind (hdr_size bytes) (\<lambda>s. if off \<noteq> 0 \<and> off > s then None else Some off)"

definition sd_c_string :: "string \<Rightarrow> nat \<Rightarrow> string option" where
  "sd_c_string bytes off = Option.bind (checked_offset bytes off) (read_c_string bytes)"

definition sd_uint32_array :: "string \<Rightarrow> nat \<Rightarrow> nat \<Rightarrow> nat option" where
  "sd_uint32_array bytes off i = Option.bind (checked_offset bytes off) (\<lambda>p. read_u32 bytes (p + 4 * i))"

section \<open>Entries and nodes\<close>

text \<open>The index that stands for no context or type.\<close>

definition no_index :: nat where "no_index = 2 ^ 32 - 1"

definition entry_name_offset :: "string \<Rightarrow> nat \<Rightarrow> nat option" where "entry_name_offset bytes e = read_u32 bytes e"
definition entry_namelen :: "string \<Rightarrow> nat \<Rightarrow> nat option" where "entry_namelen bytes e = read_u32 bytes (e + 4)"
definition entry_context_index :: "string \<Rightarrow> nat \<Rightarrow> nat option" where "entry_context_index bytes e = read_u32 bytes (e + 8)"
definition entry_type_index :: "string \<Rightarrow> nat \<Rightarrow> nat option" where "entry_type_index bytes e = read_u32 bytes (e + 12)"

text \<open>A node is the offset of its struct, or null.\<close>

type_synonym trie_node = "nat option"

definition node_field :: "string \<Rightarrow> trie_node \<Rightarrow> nat \<Rightarrow> nat option" where
  "node_field bytes node i = Option.bind node (\<lambda>base. read_u32 bytes (base + 4 * i))"

definition node_property_entry :: "string \<Rightarrow> trie_node \<Rightarrow> nat option" where
  "node_property_entry bytes node = node_field bytes node 0"

definition node_name :: "string \<Rightarrow> trie_node \<Rightarrow> string option" where
  "node_name bytes node =
     Option.bind (node_property_entry bytes node) (\<lambda>e. Option.bind (entry_name_offset bytes e) (sd_c_string bytes))"

definition node_context_index :: "string \<Rightarrow> trie_node \<Rightarrow> nat option" where
  "node_context_index bytes node = Option.bind (node_property_entry bytes node) (entry_context_index bytes)"

definition node_type_index :: "string \<Rightarrow> trie_node \<Rightarrow> nat option" where
  "node_type_index bytes node = Option.bind (node_property_entry bytes node) (entry_type_index bytes)"

definition num_child_nodes :: "string \<Rightarrow> trie_node \<Rightarrow> nat option" where
  "num_child_nodes bytes node = node_field bytes node 1"

definition child_node :: "string \<Rightarrow> trie_node \<Rightarrow> nat \<Rightarrow> trie_node" where
  "child_node bytes node n = Option.bind (node_field bytes node 2) (\<lambda>a. sd_uint32_array bytes a n)"

definition num_prefixes :: "string \<Rightarrow> trie_node \<Rightarrow> nat option" where
  "num_prefixes bytes node = node_field bytes node 3"

definition prefix_entry :: "string \<Rightarrow> trie_node \<Rightarrow> nat \<Rightarrow> nat option" where
  "prefix_entry bytes node n = Option.bind (node_field bytes node 4) (\<lambda>a. sd_uint32_array bytes a n)"

definition num_exact_matches :: "string \<Rightarrow> trie_node \<Rightarrow> nat option" where
  "num_exact_matches bytes node = node_field bytes node 5"

definition exact_match_entry :: "string \<Rightarrow> trie_node \<Rightarrow> nat \<Rightarrow> nat option" where
  "exact_match_entry bytes node n = Option.bind (node_field bytes node 6) (\<lambda>a. sd_uint32_array bytes a n)"

definition root_node :: "string \<Rightarrow> trie_node option" where
  "root_node bytes = Option.bind (hdr_root_offset bytes) (\<lambda>off.
     Option.bind (hdr_size bytes) (\<lambda>s. Some (if off \<noteq> 0 \<and> off > s then None else Some off)))"

definition num_contexts :: "string \<Rightarrow> nat option" where
  "num_contexts bytes = Option.bind (hdr_contexts_offset bytes) (\<lambda>off. sd_uint32_array bytes off 0)"

definition num_types :: "string \<Rightarrow> nat option" where
  "num_types bytes = Option.bind (hdr_types_offset bytes) (\<lambda>off. sd_uint32_array bytes off 0)"

text \<open>The names of contexts and types lie in an array behind its size; the sum has 32 bits.\<close>

definition info_context :: "string \<Rightarrow> nat \<Rightarrow> string option" where
  "info_context bytes i = Option.bind (hdr_contexts_offset bytes) (\<lambda>off.
     Option.bind (sd_uint32_array bytes ((off + 4) mod 2 ^ 32) i) (read_c_string bytes))"

definition info_type :: "string \<Rightarrow> nat \<Rightarrow> string option" where
  "info_type bytes i = Option.bind (hdr_types_offset bytes) (\<lambda>off.
     Option.bind (sd_uint32_array bytes ((off + 4) mod 2 ^ 32) i) (read_c_string bytes))"

section \<open>Searching\<close>

text \<open>
  The binary search. The result of \<open>f\<close> is the order of the element with respect to what is
  sought. Computing the middle overflows when the sum of the bounds does not fit the integers.
\<close>

function find_between :: "(nat \<Rightarrow> int option) \<Rightarrow> int \<Rightarrow> int \<Rightarrow> int option" where
  "find_between f bottom upper =
     (if upper \<ge> bottom then
        if upper + bottom \<ge> 2 ^ 31 \<or> bottom < 0 then None
        else let search = (upper + bottom) div 2
             in case f (nat search) of
                  None \<Rightarrow> None
                | Some cmp \<Rightarrow> if cmp = 0 then Some search
                    else if cmp < 0 then find_between f (search + 1) upper
                    else find_between f bottom (search - 1)
      else Some (- 1))"
  by auto
termination
  by (relation "measure (\<lambda>(f, bottom, upper). nat (upper - bottom + 1))") auto

declare find_between.simps [simp del]

text \<open>The number of elements less one is computed with 32 bits and read as a signed number.\<close>

definition Find_in :: "nat \<Rightarrow> (nat \<Rightarrow> int option) \<Rightarrow> int option" where
  "Find_in array_length f = find_between f 0 (sint (of_nat array_length - 1 :: u32))"

fun strcmp :: "string \<Rightarrow> string \<Rightarrow> int" where
  "strcmp s1 s2 = strncmp s1 s2 (Suc (max (length s1) (length s2)))"

definition FindContextIndex :: "string \<Rightarrow> string \<Rightarrow> int option" where
  "FindContextIndex bytes ctx = Option.bind (num_contexts bytes) (\<lambda>n.
     Find_in n (\<lambda>i. Option.bind (hdr_contexts_offset bytes) (\<lambda>off.
       Option.bind (sd_uint32_array bytes ((off + 4) mod 2 ^ 32) i) (\<lambda>s.
       map_option (\<lambda>cs. strcmp cs ctx) (sd_c_string bytes s)))))"

definition FindTypeIndex :: "string \<Rightarrow> string \<Rightarrow> int option" where
  "FindTypeIndex bytes typ = Option.bind (num_types bytes) (\<lambda>n.
     Find_in n (\<lambda>i. Option.bind (hdr_types_offset bytes) (\<lambda>off.
       Option.bind (sd_uint32_array bytes ((off + 4) mod 2 ^ 32) i) (\<lambda>s.
       map_option (\<lambda>cs. strcmp cs typ) (sd_c_string bytes s)))))"

text \<open>The order of a child's name and a token; a token that the name only begins with sorts before.\<close>

definition cmp_child :: "string \<Rightarrow> string \<Rightarrow> int" where
  "cmp_child child_name token =
     (let cmp = strncmp child_name token (length token)
      in if cmp = 0 \<and> length child_name > length token then 1 else cmp)"

definition FindChildForString :: "string \<Rightarrow> trie_node \<Rightarrow> string \<Rightarrow> trie_node option option" where
  "FindChildForString bytes node token = Option.bind (num_child_nodes bytes node) (\<lambda>n.
     Option.bind (Find_in n (\<lambda>i. map_option (\<lambda>cn. cmp_child cn token) (node_name bytes (child_node bytes node i)))) (\<lambda>i.
     Some (if i = - 1 then None else Some (child_node bytes node (nat i)))))"

text \<open>An index of an entry replaces the one found before, if the entry has one.\<close>

definition pick_index :: "nat \<Rightarrow> nat \<Rightarrow> nat" where
  "pick_index i old = (if i \<noteq> no_index then i else old)"

text \<open>The prefixes from the \<open>i\<close>-th, of which \<open>k\<close> are left; the first that matches counts.\<close>

fun check_prefixes_from ::
  "string \<Rightarrow> trie_node \<Rightarrow> string \<Rightarrow> nat \<Rightarrow> nat \<Rightarrow> nat \<times> nat \<Rightarrow> (nat \<times> nat) option" where
  "check_prefixes_from bytes node remaining i 0 ct = Some ct"
| "check_prefixes_from bytes node remaining i (Suc k) ct =
     Option.bind (prefix_entry bytes node i) (\<lambda>e.
     Option.bind (entry_namelen bytes e) (\<lambda>prefix_len.
     if prefix_len > length remaining then check_prefixes_from bytes node remaining (i + 1) k ct
     else Option.bind (entry_name_offset bytes e) (\<lambda>name_off.
       Option.bind (sd_c_string bytes name_off) (\<lambda>prefix.
       if strncmp prefix remaining prefix_len = 0 then
         Option.bind (entry_context_index bytes e) (\<lambda>c.
         Option.bind (entry_type_index bytes e) (\<lambda>t.
         Some (pick_index c (fst ct), pick_index t (snd ct))))
       else check_prefixes_from bytes node remaining (i + 1) k ct))))"

definition CheckPrefixMatch :: "string \<Rightarrow> string \<Rightarrow> trie_node \<Rightarrow> nat \<times> nat \<Rightarrow> (nat \<times> nat) option" where
  "CheckPrefixMatch bytes remaining node ct =
     Option.bind (num_prefixes bytes node) (\<lambda>n. check_prefixes_from bytes node remaining 0 n ct)"

text \<open>One round of the walk for each token; the walk ends at the last token or without a child.\<close>

fun walk_info ::
  "string \<Rightarrow> string list \<Rightarrow> trie_node \<Rightarrow> nat \<times> nat \<Rightarrow> (trie_node \<times> string \<times> nat \<times> nat) option" where
  "walk_info bytes [] node ct = None"
| "walk_info bytes (token # rest) node (c, t) =
     (let remaining = concat (token # map (\<lambda>s. CHR ''.'' # s) rest)
      in Option.bind (node_context_index bytes node) (\<lambda>c1.
         Option.bind (node_type_index bytes node) (\<lambda>t1.
         Option.bind (CheckPrefixMatch bytes remaining node (pick_index c1 c, pick_index t1 t)) (\<lambda>ct.
         if rest = [] then Some (node, remaining, ct)
         else Option.bind (FindChildForString bytes node token) (\<lambda>child.
           case child of None \<Rightarrow> Some (node, remaining, ct)
           | Some child \<Rightarrow> walk_info bytes rest child ct)))))"

fun find_exact_from :: "string \<Rightarrow> trie_node \<Rightarrow> string \<Rightarrow> nat \<Rightarrow> nat \<Rightarrow> nat option option" where
  "find_exact_from bytes node remaining i 0 = Some None"
| "find_exact_from bytes node remaining i (Suc k) =
     Option.bind (exact_match_entry bytes node i) (\<lambda>e.
     Option.bind (entry_name_offset bytes e) (\<lambda>name_off.
     Option.bind (sd_c_string bytes name_off) (\<lambda>cs.
     if cs = remaining then Some (Some e) else find_exact_from bytes node remaining (i + 1) k)))"

definition GetPropertyInfoIndexes :: "string \<Rightarrow> string \<Rightarrow> (nat \<times> nat) option" where
  "GetPropertyInfoIndexes bytes name =
     Option.bind (root_node bytes) (\<lambda>root.
     Option.bind (walk_info bytes (name_tokens name) root (no_index, no_index)) (\<lambda>(node, remaining, ct).
     Option.bind (num_exact_matches bytes node) (\<lambda>n.
     Option.bind (find_exact_from bytes node remaining 0 n) (\<lambda>exact.
     case exact of
       Some e \<Rightarrow>
         Option.bind (entry_context_index bytes e) (\<lambda>c.
         Option.bind (entry_type_index bytes e) (\<lambda>t.
         Some (pick_index c (fst ct), pick_index t (snd ct))))
     | None \<Rightarrow> CheckPrefixMatch bytes remaining node ct))))"

definition GetPropertyInfo :: "string \<Rightarrow> string \<Rightarrow> (string option \<times> string option) option" where
  "GetPropertyInfo bytes property =
     Option.bind (GetPropertyInfoIndexes bytes property) (\<lambda>(c, t).
     Option.bind (if c = no_index then Some None else map_option Some (info_context bytes c)) (\<lambda>ctx.
     Option.bind (if t = no_index then Some None else map_option Some (info_type bytes t)) (\<lambda>typ.
     Some (ctx, typ))))"

section \<open>The file\<close>

record file_stat =
  st_uid :: nat
  st_gid :: nat
  st_mode :: u32
  st_size :: nat

definition S_IWGRP :: u32 where "S_IWGRP = 16"
definition S_IWOTH :: u32 where "S_IWOTH = 2"

text \<open>A file that only its owner, the superuser, can write, and that is large enough.\<close>

definition stat_ok :: "nat \<Rightarrow> file_stat \<Rightarrow> bool" where
  "stat_ok min_size s \<longleftrightarrow>
     \<not> (st_uid s \<noteq> 0 \<or> st_gid s \<noteq> 0 \<or> st_mode s AND (S_IWGRP OR S_IWOTH) \<noteq> 0 \<or> st_size s < min_size)"

text \<open>
  \<open>stat\<close> is what \<open>fstat\<close> gives, if the file can be opened; \<open>mapped\<close> are the bytes of the
  mapping, if that succeeds.
\<close>

definition LoadPath :: "file_stat option \<Rightarrow> string option \<Rightarrow> string option option" where
  "LoadPath stat mapped =
     (case stat of
        None \<Rightarrow> Some None
      | Some s \<Rightarrow>
         if \<not> stat_ok sizeof_PropertyInfoArea s then Some None
         else case mapped of
                None \<Rightarrow> Some None
              | Some bytes \<Rightarrow>
                 Option.bind (hdr_minimum_supported_version bytes) (\<lambda>v.
                 Option.bind (hdr_size bytes) (\<lambda>size.
                 if v > 1 \<or> size \<noteq> st_size s then Some None else Some (Some bytes))))"

end
