(* ===== verification/Prop_Contexts.thy ===== *)
theory Prop_Contexts
  imports Prop_Info_Parser
begin

text \<open>
  The files that the property areas lie in, and the three ways in which a property name leads
  to its area (\<open>prop_area.cpp\<close> for the mapping, \<open>context_node.cpp\<close>, \<open>contexts_pre_split.h\<close>,
  \<open>contexts_split.cpp\<close>, \<open>contexts_serialized.cpp\<close>). The memory of an area is shared with the
  other users of its file, so a mapped area is referred to by the name of its file. What the
  kernel answers is a record of functions; an abort and a null pointer that is followed are the
  outer \<^term>\<open>None\<close>.
\<close>

section \<open>Files and mappings\<close>

definition PROP_AREA_MAGIC :: nat where "PROP_AREA_MAGIC = 0x504f5250"
definition PROP_AREA_VERSION :: nat where "PROP_AREA_VERSION = 0xfc6ed0ab"
definition PA_SIZE :: nat where "PA_SIZE = 128 * 1024"
definition PROP_FILENAME_MAX :: nat where "PROP_FILENAME_MAX = 1024"

record prop_file =
  pf_stat :: file_stat
  pf_magic :: nat
  pf_version :: nat
  pf_area :: prop_area

datatype create_result = Created | Create_failed | Create_denied

record prop_env =
  pe_create :: "string \<Rightarrow> create_result"
  pe_setxattr :: "string \<Rightarrow> string \<Rightarrow> bool"
  pe_truncate :: "string \<Rightarrow> bool"
  pe_mmap :: "string \<Rightarrow> bool"
  pe_readable :: "string \<Rightarrow> bool"
  pe_is_dir :: "string \<Rightarrow> bool"
  pe_lines :: "string \<Rightarrow> string list option"
  pe_info_stat :: "file_stat option"
  pe_info_bytes :: "string option"

text \<open>The files by name, and the size of the last area that was mapped, which is a static member.\<close>

record prop_world =
  pw_files :: "string \<Rightarrow> prop_file option"
  pw_data_size :: nat

definition area_file :: "nat \<Rightarrow> prop_area \<Rightarrow> prop_file" where
  "area_file bytes_size pa =
     \<lparr>pf_stat = \<lparr>st_uid = 0, st_gid = 0, st_mode = 0x124, st_size = bytes_size\<rparr>,
      pf_magic = PROP_AREA_MAGIC, pf_version = PROP_AREA_VERSION, pf_area = pa\<rparr>"

text \<open>A new area. The flag is only ever set, and only when the caller gave one.\<close>

definition map_prop_area_rw ::
  "prop_env \<Rightarrow> string \<Rightarrow> string \<Rightarrow> bool option \<Rightarrow> prop_world \<Rightarrow> (bool \<times> bool option \<times> prop_world) option" where
  "map_prop_area_rw env filename ctx fsetxattr_failed w =
     (case (if pw_files w filename \<noteq> None then Create_failed else pe_create env filename) of
        Create_denied \<Rightarrow> None
      | Create_failed \<Rightarrow> Some (False, fsetxattr_failed, w)
      | Created \<Rightarrow>
         (let flag = (if pe_setxattr env filename ctx then fsetxattr_failed
                      else map_option (\<lambda>_. True) fsetxattr_failed)
          in if \<not> pe_truncate env filename then Some (False, flag, w)
             else let w = w\<lparr>pw_data_size := PA_SIZE - sizeof_prop_area\<rparr>
                  in if \<not> pe_mmap env filename then Some (False, flag, w)
                     else Some (True, flag, w\<lparr>pw_files := (pw_files w)(filename \<mapsto> area_file PA_SIZE prop_area_new)\<rparr>)))"

definition map_fd_rw :: "bool \<Rightarrow> prop_file \<Rightarrow> prop_world \<Rightarrow> bool \<times> prop_world" where
  "map_fd_rw mmap_ok f w =
     (if \<not> stat_ok sizeof_prop_area (pf_stat f) then (False, w)
      else let w = w\<lparr>pw_data_size := st_size (pf_stat f) - sizeof_prop_area\<rparr>
           in if \<not> mmap_ok then (False, w)
              else (\<not> (pf_magic f \<noteq> PROP_AREA_MAGIC \<or> pf_version f \<noteq> PROP_AREA_VERSION), w))"

definition map_prop_area :: "prop_env \<Rightarrow> string \<Rightarrow> prop_world \<Rightarrow> bool \<times> prop_world" where
  "map_prop_area env filename w =
     (case pw_files w filename of None \<Rightarrow> (False, w) | Some f \<Rightarrow> map_fd_rw (pe_mmap env filename) f w)"

section \<open>Context nodes\<close>

text \<open>A node's area is the name of its file, once that is mapped.\<close>

record context_node =
  cn_context :: string
  cn_filename :: string
  cn_pa :: "string option"
  cn_no_access :: bool

definition ContextNode_new :: "string \<Rightarrow> string \<Rightarrow> context_node" where
  "ContextNode_new ctx filename = \<lparr>cn_context = ctx, cn_filename = filename, cn_pa = None, cn_no_access = False\<rparr>"

text \<open>The name of the file, if it fits the buffer.\<close>

definition joined_path :: "string \<Rightarrow> string \<Rightarrow> string option" where
  "joined_path dir name =
     (let path = dir @ ''/'' @ name in if length path \<ge> PROP_FILENAME_MAX then None else Some path)"

definition ContextNode_Open ::
  "prop_env \<Rightarrow> bool \<Rightarrow> bool option \<Rightarrow> context_node \<Rightarrow> prop_world
   \<Rightarrow> (bool \<times> bool option \<times> context_node \<times> prop_world) option" where
  "ContextNode_Open env access_rw fsetxattr_failed n w =
     (if cn_pa n \<noteq> None then Some (True, fsetxattr_failed, n, w)
      else case joined_path (cn_filename n) (cn_context n) of
             None \<Rightarrow> Some (False, fsetxattr_failed, n, w)
           | Some filename \<Rightarrow>
              if access_rw then
                map_option (\<lambda>(ok, flag, w). (ok, flag, n\<lparr>cn_pa := if ok then Some filename else None\<rparr>, w))
                  (map_prop_area_rw env filename (cn_context n) fsetxattr_failed w)
              else case map_prop_area env filename w of
                     (ok, w) \<Rightarrow> Some (ok, fsetxattr_failed, n\<lparr>cn_pa := if ok then Some filename else None\<rparr>, w))"

definition ContextNode_CheckAccess :: "prop_env \<Rightarrow> context_node \<Rightarrow> bool" where
  "ContextNode_CheckAccess env n =
     (case joined_path (cn_filename n) (cn_context n) of None \<Rightarrow> False | Some filename \<Rightarrow> pe_readable env filename)"

text \<open>Opening for reading, which never aborts.\<close>

definition ContextNode_OpenRead :: "prop_env \<Rightarrow> context_node \<Rightarrow> prop_world \<Rightarrow> bool \<times> context_node \<times> prop_world" where
  "ContextNode_OpenRead env n w =
     (case ContextNode_Open env False None n w of
        Some (ok, _, n, w) \<Rightarrow> (ok, n, w) | None \<Rightarrow> (False, n, w))"

definition ContextNode_CheckAccessAndOpen ::
  "prop_env \<Rightarrow> context_node \<Rightarrow> prop_world \<Rightarrow> bool \<times> context_node \<times> prop_world" where
  "ContextNode_CheckAccessAndOpen env n w =
     (let (n, w) =
            (if cn_pa n = None \<and> \<not> cn_no_access n then
               (if ContextNode_CheckAccess env n
                then case ContextNode_OpenRead env n w of
                       (ok, n, w) \<Rightarrow> (if ok then n else n\<lparr>cn_no_access := True\<rparr>, w)
                else (n\<lparr>cn_no_access := True\<rparr>, w))
             else (n, w))
      in (cn_pa n \<noteq> None, n, w))"

definition ContextNode_Unmap :: "context_node \<Rightarrow> context_node" where
  "ContextNode_Unmap n = n\<lparr>cn_pa := None\<rparr>"

definition ContextNode_ResetAccess :: "prop_env \<Rightarrow> context_node \<Rightarrow> context_node" where
  "ContextNode_ResetAccess env n =
     (if \<not> ContextNode_CheckAccess env n then (ContextNode_Unmap n)\<lparr>cn_no_access := True\<rparr>
      else n\<lparr>cn_no_access := False\<rparr>)"

text \<open>Opening all nodes for writing: whether one failed, the flag, the nodes.\<close>

fun open_nodes_rw ::
  "prop_env \<Rightarrow> context_node list \<Rightarrow> bool \<Rightarrow> bool option \<Rightarrow> prop_world
   \<Rightarrow> (bool \<times> bool option \<times> context_node list \<times> prop_world) option" where
  "open_nodes_rw env [] open_failed flag w = Some (open_failed, flag, [], w)"
| "open_nodes_rw env (n # ns) open_failed flag w =
     Option.bind (ContextNode_Open env True flag n w) (\<lambda>(ok, flag, n, w).
     Option.bind (open_nodes_rw env ns (open_failed \<or> \<not> ok) flag w) (\<lambda>(open_failed, flag, ns, w).
     Some (open_failed, flag, n # ns, w)))"

text \<open>The areas of the nodes that can be opened, in order, with the area size of that moment.\<close>

fun open_nodes_read ::
  "prop_env \<Rightarrow> context_node list \<Rightarrow> prop_world \<Rightarrow> (string \<times> nat) list \<times> context_node list \<times> prop_world" where
  "open_nodes_read env [] w = ([], [], w)"
| "open_nodes_read env (n # ns) w =
     (let (ok, n, w) = ContextNode_CheckAccessAndOpen env n w;
          visit = (if ok then [(the (cn_pa n), pw_data_size w)] else []);
          (areas, ns, w) = open_nodes_read env ns w
      in (visit @ areas, n # ns, w))"

definition map_serial_area ::
  "prop_env \<Rightarrow> bool \<Rightarrow> string \<Rightarrow> bool option \<Rightarrow> prop_world
   \<Rightarrow> (string option \<times> bool option \<times> prop_world) option" where
  "map_serial_area env access_rw dir fsetxattr_failed w =
     (case joined_path dir ''properties_serial'' of
        None \<Rightarrow> Some (None, fsetxattr_failed, w)
      | Some filename \<Rightarrow>
         if access_rw then
           map_option (\<lambda>(ok, flag, w). (if ok then Some filename else None, flag, w))
             (map_prop_area_rw env filename ''u:object_r:properties_serial:s0'' fsetxattr_failed w)
         else case map_prop_area env filename w of
                (ok, w) \<Rightarrow> Some (if ok then Some filename else None, fsetxattr_failed, w))"

section \<open>Split contexts\<close>

text \<open>
  A prefix leads to the context with a name; the contexts' names are distinct, so the name
  stands for the pointer.
\<close>

record contexts_split =
  cs_filename :: string
  cs_prefixes :: "(string \<times> string) list"
  cs_contexts :: "context_node list"
  cs_serial :: "string option"

fun ListAddAfterLen :: "(string \<times> string) list \<Rightarrow> string \<Rightarrow> string \<Rightarrow> (string \<times> string) list" where
  "ListAddAfterLen [] prefix ctx = [(prefix, ctx)]"
| "ListAddAfterLen (p # ps) prefix ctx =
     (if length (fst p) < length prefix \<or> take 1 (fst p) = ''*'' then (prefix, ctx) # p # ps
      else p # ListAddAfterLen ps prefix ctx)"

definition is_space :: "char \<Rightarrow> bool" where
  "is_space c \<longleftrightarrow> c \<in> {CHR '' '', CHR 0x09, CHR 0x0A, CHR 0x0B, CHR 0x0C, CHR 0x0D}"

text \<open>At most \<open>n\<close> entries of a line. The line ends where the entries' end was computed.\<close>

fun read_spec_entry :: "nat \<Rightarrow> string \<Rightarrow> string list" where
  "read_spec_entry 0 cs = []"
| "read_spec_entry (Suc n) cs =
     (if cs = [] then []
      else let rest = dropWhile is_space cs; entry = takeWhile (\<lambda>c. \<not> is_space c) rest
           in if entry = [] then [] else entry # read_spec_entry n (drop (length entry) rest))"

text \<open>The byte before an empty line is read, which is not of the line.\<close>

definition read_spec_entries :: "string \<Rightarrow> nat \<Rightarrow> string list option" where
  "read_spec_entries line num_args =
     (let line_buf = c_string line
      in if line_buf = [] then None
         else let text = (if last line_buf = CHR 0x0A then butlast line_buf else line_buf);
                  buf = dropWhile is_space text
              in if buf = [] \<or> take 1 buf = ''#'' then Some [] else Some (read_spec_entry num_args buf))"

fun add_spec_line :: "contexts_split \<Rightarrow> string list \<Rightarrow> contexts_split" where
  "add_spec_line cs [prop_prefix, ctx] =
     (if strncmp prop_prefix ''ctl.'' 4 = 0 then cs
      else if ctx \<in> cn_context ` set (cs_contexts cs)
      then cs\<lparr>cs_prefixes := ListAddAfterLen (cs_prefixes cs) prop_prefix ctx\<rparr>
      else cs\<lparr>cs_contexts := ContextNode_new ctx (cs_filename cs) # cs_contexts cs,
              cs_prefixes := ListAddAfterLen (cs_prefixes cs) prop_prefix ctx\<rparr>)"
| "add_spec_line cs entries = cs"

fun add_spec_lines :: "contexts_split \<Rightarrow> string list \<Rightarrow> contexts_split option" where
  "add_spec_lines cs [] = Some cs"
| "add_spec_lines cs (line # rest) =
     Option.bind (read_spec_entries line 2) (\<lambda>entries. add_spec_lines (add_spec_line cs entries) rest)"

definition InitializePropertiesFromFile ::
  "prop_env \<Rightarrow> string \<Rightarrow> contexts_split \<Rightarrow> (bool \<times> contexts_split) option" where
  "InitializePropertiesFromFile env filename cs =
     (case pe_lines env filename of
        None \<Rightarrow> Some (False, cs)
      | Some lines \<Rightarrow> map_option (Pair True) (add_spec_lines cs lines))"

definition Split_InitializeProperties :: "prop_env \<Rightarrow> contexts_split \<Rightarrow> (bool \<times> contexts_split) option" where
  "Split_InitializeProperties env cs =
     Option.bind (InitializePropertiesFromFile env ''/property_contexts'' cs) (\<lambda>(ok, cs).
     if ok then Some (True, cs)
     else if pe_readable env ''/system/etc/selinux/plat_property_contexts'' then
       Option.bind (InitializePropertiesFromFile env ''/system/etc/selinux/plat_property_contexts'' cs) (\<lambda>(ok, cs).
       if \<not> ok then Some (False, cs)
       else map_option (\<lambda>(_, cs). (True, cs))
         (if pe_readable env ''/vendor/etc/selinux/vendor_property_contexts''
          then InitializePropertiesFromFile env ''/vendor/etc/selinux/vendor_property_contexts'' cs
          else InitializePropertiesFromFile env ''/vendor/etc/selinux/nonplat_property_contexts'' cs))
     else
       Option.bind (InitializePropertiesFromFile env ''/plat_property_contexts'' cs) (\<lambda>(ok, cs).
       if \<not> ok then Some (False, cs)
       else map_option (\<lambda>(_, cs). (True, cs))
         (if pe_readable env ''/vendor_property_contexts''
          then InitializePropertiesFromFile env ''/vendor_property_contexts'' cs
          else InitializePropertiesFromFile env ''/nonplat_property_contexts'' cs)))"

text \<open>The areas stay in their files; what is freed are the lists and the mappings.\<close>

definition Split_FreeAndUnmap :: "contexts_split \<Rightarrow> contexts_split" where
  "Split_FreeAndUnmap cs = cs\<lparr>cs_prefixes := [], cs_contexts := [], cs_serial := None\<rparr>"

definition Split_Initialize ::
  "prop_env \<Rightarrow> bool \<Rightarrow> string \<Rightarrow> bool option \<Rightarrow> prop_world
   \<Rightarrow> (bool \<times> bool option \<times> contexts_split \<times> prop_world) option" where
  "Split_Initialize env writable filename fsetxattr_failed w =
     Option.bind (Split_InitializeProperties env
       \<lparr>cs_filename = filename, cs_prefixes = [], cs_contexts = [], cs_serial = None\<rparr>) (\<lambda>(ok, cs).
     if \<not> ok then Some (False, fsetxattr_failed, cs, w)
     else if writable then
       Option.bind (open_nodes_rw env (cs_contexts cs) False (map_option (\<lambda>_. False) fsetxattr_failed) w)
         (\<lambda>(open_failed, flag, nodes, w).
       let cs = cs\<lparr>cs_contexts := nodes\<rparr>
       in if open_failed then Some (False, flag, Split_FreeAndUnmap cs, w)
          else Option.bind (map_serial_area env True filename flag w) (\<lambda>(pa, flag, w).
            if pa = None then Some (False, flag, Split_FreeAndUnmap cs, w)
            else Some (True, flag, cs\<lparr>cs_serial := pa\<rparr>, w)))
     else
       Option.bind (map_serial_area env False filename None w) (\<lambda>(pa, _, w).
       if pa = None then Some (False, fsetxattr_failed, Split_FreeAndUnmap cs, w)
       else Some (True, fsetxattr_failed, cs\<lparr>cs_serial := pa\<rparr>, w)))"

definition prefix_matches :: "string \<Rightarrow> string \<Rightarrow> bool" where
  "prefix_matches name prefix \<longleftrightarrow> take 1 prefix = ''*'' \<or> strncmp prefix name (length prefix) = 0"

text \<open>Opening the node of a context; the other nodes stay.\<close>

fun open_named :: "prop_env \<Rightarrow> string \<Rightarrow> context_node list \<Rightarrow> prop_world \<Rightarrow> string option \<times> context_node list \<times> prop_world" where
  "open_named env ctx [] w = (None, [], w)"
| "open_named env ctx (n # ns) w =
     (if cn_context n = ctx then
        (if cn_pa n = None
         then case ContextNode_OpenRead env n w of (_, n, w) \<Rightarrow> (cn_pa n, n # ns, w)
         else (cn_pa n, n # ns, w))
      else case open_named env ctx ns w of (pa, ns, w) \<Rightarrow> (pa, n # ns, w))"

definition Split_GetPropAreaForName ::
  "prop_env \<Rightarrow> string \<Rightarrow> contexts_split \<Rightarrow> prop_world \<Rightarrow> string option \<times> contexts_split \<times> prop_world" where
  "Split_GetPropAreaForName env name cs w =
     (case List.find (\<lambda>p. prefix_matches name (fst p)) (cs_prefixes cs) of
        None \<Rightarrow> (None, cs, w)
      | Some p \<Rightarrow>
         (case open_named env (snd p) (cs_contexts cs) w of
            (pa, nodes, w) \<Rightarrow> (pa, cs\<lparr>cs_contexts := nodes\<rparr>, w)))"

section \<open>Serialized contexts\<close>

record contexts_serialized =
  cz_filename :: string
  cz_file :: "string option"
  cz_nodes :: "context_node list"
  cz_serial :: "string option"

fun info_contexts :: "string \<Rightarrow> nat \<Rightarrow> nat \<Rightarrow> string list option" where
  "info_contexts bytes i 0 = Some []"
| "info_contexts bytes i (Suc n) =
     Option.bind (info_context bytes i) (\<lambda>c. map_option (Cons c) (info_contexts bytes (i + 1) n))"

definition InitializeContextNodes :: "bool \<Rightarrow> contexts_serialized \<Rightarrow> (bool \<times> contexts_serialized) option" where
  "InitializeContextNodes anon_mmap cz =
     Option.bind (cz_file cz) (\<lambda>bytes. Option.bind (num_contexts bytes) (\<lambda>n.
     if \<not> anon_mmap then Some (False, cz)
     else map_option (\<lambda>cs. (True, cz\<lparr>cz_nodes := map (\<lambda>c. ContextNode_new c (cz_filename cz)) cs\<rparr>))
       (info_contexts bytes 0 n)))"

definition Serialized_FreeAndUnmap :: "contexts_serialized \<Rightarrow> contexts_serialized" where
  "Serialized_FreeAndUnmap cz = cz\<lparr>cz_file := None, cz_nodes := [], cz_serial := None\<rparr>"

definition Serialized_InitializeProperties ::
  "prop_env \<Rightarrow> bool \<Rightarrow> contexts_serialized \<Rightarrow> (bool \<times> contexts_serialized) option" where
  "Serialized_InitializeProperties env anon_mmap cz =
     Option.bind (LoadPath (pe_info_stat env) (pe_info_bytes env)) (\<lambda>file.
     if file = None then Some (False, cz)
     else Option.bind (InitializeContextNodes anon_mmap (cz\<lparr>cz_file := file\<rparr>)) (\<lambda>(ok, cz).
       if \<not> ok then Some (False, Serialized_FreeAndUnmap cz) else Some (True, cz)))"

definition Serialized_Initialize ::
  "prop_env \<Rightarrow> bool \<Rightarrow> bool \<Rightarrow> string \<Rightarrow> bool option \<Rightarrow> prop_world
   \<Rightarrow> (bool \<times> bool option \<times> contexts_serialized \<times> prop_world) option" where
  "Serialized_Initialize env anon_mmap writable filename fsetxattr_failed w =
     Option.bind (Serialized_InitializeProperties env anon_mmap
       \<lparr>cz_filename = filename, cz_file = None, cz_nodes = [], cz_serial = None\<rparr>) (\<lambda>(ok, cz).
     if \<not> ok then Some (False, fsetxattr_failed, cz, w)
     else if writable then
       Option.bind (open_nodes_rw env (cz_nodes cz) False (map_option (\<lambda>_. False) fsetxattr_failed) w)
         (\<lambda>(open_failed, flag, nodes, w).
       let cz = cz\<lparr>cz_nodes := nodes\<rparr>
       in if open_failed then Some (False, flag, Serialized_FreeAndUnmap cz, w)
          else Option.bind (map_serial_area env True filename flag w) (\<lambda>(pa, flag, w).
            if pa = None then Some (False, flag, Serialized_FreeAndUnmap cz, w)
            else Some (True, flag, cz\<lparr>cz_serial := pa\<rparr>, w)))
     else
       Option.bind (map_serial_area env False filename None w) (\<lambda>(pa, _, w).
       if pa = None then Some (False, fsetxattr_failed, Serialized_FreeAndUnmap cz, w)
       else Some (True, fsetxattr_failed, cz\<lparr>cz_serial := pa\<rparr>, w)))"

definition Serialized_GetPropAreaForName ::
  "prop_env \<Rightarrow> string \<Rightarrow> contexts_serialized \<Rightarrow> prop_world \<Rightarrow> (string option \<times> contexts_serialized \<times> prop_world) option" where
  "Serialized_GetPropAreaForName env name cz w =
     Option.bind (cz_file cz) (\<lambda>bytes. Option.bind (GetPropertyInfoIndexes bytes name) (\<lambda>(i, _).
     if i = no_index \<or> i \<ge> length (cz_nodes cz) then Some (None, cz, w)
     else let n = cz_nodes cz ! i
          in if cn_pa n = None
             then case ContextNode_OpenRead env n w of
                    (_, n, w) \<Rightarrow> Some (cn_pa n, cz\<lparr>cz_nodes := (cz_nodes cz)[i := n]\<rparr>, w)
             else Some (cn_pa n, cz, w)))"

section \<open>The three kinds of contexts\<close>

datatype contexts = Pre_split "string option" | Split contexts_split | Serialized contexts_serialized

definition PreSplit_Initialize :: "prop_env \<Rightarrow> string \<Rightarrow> prop_world \<Rightarrow> bool \<times> contexts \<times> prop_world" where
  "PreSplit_Initialize env filename w =
     (case map_prop_area env filename w of
        (ok, w) \<Rightarrow> (ok, Pre_split (if ok then Some filename else None), w))"

fun GetPropAreaForName ::
  "prop_env \<Rightarrow> string \<Rightarrow> contexts \<Rightarrow> prop_world \<Rightarrow> (string option \<times> contexts \<times> prop_world) option" where
  "GetPropAreaForName env name (Pre_split pa) w = Some (pa, Pre_split pa, w)"
| "GetPropAreaForName env name (Split cs) w =
     (case Split_GetPropAreaForName env name cs w of (pa, cs, w) \<Rightarrow> Some (pa, Split cs, w))"
| "GetPropAreaForName env name (Serialized cz) w =
     map_option (\<lambda>(pa, cz, w). (pa, Serialized cz, w)) (Serialized_GetPropAreaForName env name cz w)"

fun GetSerialPropArea :: "contexts \<Rightarrow> string option" where
  "GetSerialPropArea (Pre_split pa) = pa"
| "GetSerialPropArea (Split cs) = cs_serial cs"
| "GetSerialPropArea (Serialized cz) = cz_serial cz"

text \<open>The areas that a traversal visits, opened when they can be.\<close>

fun ForEach_areas :: "prop_env \<Rightarrow> contexts \<Rightarrow> prop_world \<Rightarrow> ((string \<times> nat) list \<times> contexts \<times> prop_world) option" where
  "ForEach_areas env (Pre_split pa) w = map_option (\<lambda>f. ([(f, pw_data_size w)], Pre_split pa, w)) pa"
| "ForEach_areas env (Split cs) w =
     (case open_nodes_read env (cs_contexts cs) w of
        (areas, nodes, w) \<Rightarrow> Some (areas, Split (cs\<lparr>cs_contexts := nodes\<rparr>), w))"
| "ForEach_areas env (Serialized cz) w =
     (case open_nodes_read env (cz_nodes cz) w of
        (areas, nodes, w) \<Rightarrow> Some (areas, Serialized (cz\<lparr>cz_nodes := nodes\<rparr>), w))"

fun ResetAccess :: "prop_env \<Rightarrow> contexts \<Rightarrow> contexts" where
  "ResetAccess env (Pre_split pa) = Pre_split pa"
| "ResetAccess env (Split cs) = Split (cs\<lparr>cs_contexts := map (ContextNode_ResetAccess env) (cs_contexts cs)\<rparr>)"
| "ResetAccess env (Serialized cz) = Serialized (cz\<lparr>cz_nodes := map (ContextNode_ResetAccess env) (cz_nodes cz)\<rparr>)"

end
