(* ===== verification/Prop_Service.thy ===== *)
theory Prop_Service
  imports Prop_Contexts
begin

text \<open>
  The system properties (\<open>system_properties.cpp\<close>, \<open>system_property_api.cpp\<close>): looking up a
  name through the contexts, reading, updating, adding and deleting properties, and waiting for
  changes. A pointer to a property is the file of its area with its offset. A read of a property
  that another process left in the middle of an update waits forever; this, an abort and an
  invalid pointer are the outer \<^term>\<open>None\<close>.
\<close>

record system_properties =
  sp_initialized :: bool
  sp_filename :: string
  sp_contexts :: "contexts option"
  sp_world :: prop_world

type_synonym info_ref = "string \<times> nat"

section \<open>Initialization\<close>

definition SystemProperties_Init ::
  "prop_env \<Rightarrow> bool \<Rightarrow> string \<Rightarrow> system_properties \<Rightarrow> (bool \<times> system_properties) option" where
  "SystemProperties_Init env anon_mmap filename sp =
     (if sp_initialized sp then Some (True, sp)
      else if length filename \<ge> PROP_FILENAME_MAX then Some (False, sp)
      else let sp = sp\<lparr>sp_filename := filename\<rparr>; w = sp_world sp
           in Option.bind
             (if pe_is_dir env filename then
                (if pe_readable env ''/dev/__properties__/property_info'' then
                   map_option (\<lambda>(ok, _, cz, w). (ok, Serialized cz, w)) (Serialized_Initialize env anon_mmap False filename None w)
                 else map_option (\<lambda>(ok, _, cs, w). (ok, Split cs, w)) (Split_Initialize env False filename None w))
              else Some (PreSplit_Initialize env filename w)) (\<lambda>(ok, c, w).
           Some (ok, sp\<lparr>sp_contexts := Some c, sp_world := w, sp_initialized := ok\<rparr>)))"

definition SystemProperties_AreaInit ::
  "prop_env \<Rightarrow> bool \<Rightarrow> string \<Rightarrow> bool option \<Rightarrow> system_properties \<Rightarrow> (bool \<times> bool option \<times> system_properties) option" where
  "SystemProperties_AreaInit env anon_mmap filename fsetxattr_failed sp =
     (if length filename \<ge> PROP_FILENAME_MAX then Some (False, fsetxattr_failed, sp)
      else Option.bind (Serialized_Initialize env anon_mmap True filename fsetxattr_failed (sp_world sp)) (\<lambda>(ok, flag, cz, w).
        Some (ok, flag, sp\<lparr>sp_filename := filename, sp_contexts := Some (Serialized cz), sp_world := w,
          sp_initialized := sp_initialized sp \<or> ok\<rparr>)))"

definition PROP_FILENAME :: string where "PROP_FILENAME = ''/dev/__properties__''"

definition api_properties_init :: "prop_env \<Rightarrow> bool \<Rightarrow> system_properties \<Rightarrow> (int \<times> system_properties) option" where
  "api_properties_init env anon_mmap sp =
     map_option (\<lambda>(ok, sp). (if ok then 0 else - 1, sp)) (SystemProperties_Init env anon_mmap PROP_FILENAME sp)"

definition api_property_area_init :: "prop_env \<Rightarrow> bool \<Rightarrow> system_properties \<Rightarrow> (int \<times> system_properties) option" where
  "api_property_area_init env anon_mmap sp =
     map_option (\<lambda>(ok, flag, sp). (if ok \<and> flag = Some False then 0 else - 1, sp))
       (SystemProperties_AreaInit env anon_mmap PROP_FILENAME (Some False) sp)"

section \<open>Areas of the state\<close>

definition sp_area :: "string \<Rightarrow> system_properties \<Rightarrow> prop_area option" where
  "sp_area f sp = map_option pf_area (pw_files (sp_world sp) f)"

definition put_area :: "string \<Rightarrow> prop_area \<Rightarrow> system_properties \<Rightarrow> system_properties" where
  "put_area f pa sp =
     sp\<lparr>sp_world := (sp_world sp)\<lparr>pw_files := (pw_files (sp_world sp))
       (f := map_option (\<lambda>pf. pf\<lparr>pf_area := pa\<rparr>) (pw_files (sp_world sp) f))\<rparr>\<rparr>"

definition deref_ref :: "info_ref \<Rightarrow> system_properties \<Rightarrow> prop_info option" where
  "deref_ref pi sp = Option.bind (sp_area (fst pi) sp) (\<lambda>pa. deref_info pa (snd pi))"

definition sp_GetPropAreaForName :: "prop_env \<Rightarrow> string \<Rightarrow> system_properties \<Rightarrow> (string option \<times> system_properties) option" where
  "sp_GetPropAreaForName env name sp =
     Option.bind (sp_contexts sp) (\<lambda>c.
     Option.bind (GetPropAreaForName env name c (sp_world sp)) (\<lambda>(pa, c, w).
     Some (pa, sp\<lparr>sp_contexts := Some c, sp_world := w\<rparr>)))"

definition sp_GetSerialPropArea :: "system_properties \<Rightarrow> string option option" where
  "sp_GetSerialPropArea sp = map_option GetSerialPropArea (sp_contexts sp)"

text \<open>Adding one to the serial of the area that announces changes; it wraps.\<close>

definition bump_serial :: "string \<Rightarrow> system_properties \<Rightarrow> system_properties option" where
  "bump_serial f sp = map_option (\<lambda>pa. put_area f (pa\<lparr>pa_serial := pa_serial pa + 1\<rparr>) sp) (sp_area f sp)"

section \<open>Reading\<close>

definition minus_one_u32 :: u32 where "minus_one_u32 = - 1"

definition AreaSerial :: "system_properties \<Rightarrow> u32 option" where
  "AreaSerial sp =
     (if \<not> sp_initialized sp then Some minus_one_u32
      else Option.bind (sp_GetSerialPropArea sp) (\<lambda>pa.
        case pa of None \<Rightarrow> Some minus_one_u32 | Some f \<Rightarrow> map_option pa_serial (sp_area f sp)))"

definition sp_Find :: "prop_env \<Rightarrow> string \<Rightarrow> system_properties \<Rightarrow> (info_ref option \<times> system_properties) option" where
  "sp_Find env name sp =
     (if \<not> sp_initialized sp then Some (None, sp)
      else Option.bind (sp_GetPropAreaForName env name sp) (\<lambda>(f, sp).
        case f of
          None \<Rightarrow> Some (None, sp)
        | Some f \<Rightarrow> Option.bind (sp_area f sp) (\<lambda>pa.
            map_option (\<lambda>off. (map_option (Pair f) off, sp)) (pa_find (pw_data_size (sp_world sp)) name pa))))"

definition is_read_only :: "string \<Rightarrow> bool" where "is_read_only name \<longleftrightarrow> strncmp name ''ro.'' 3 = 0"

definition SERIAL_DIRTY :: "u32 \<Rightarrow> bool" where "SERIAL_DIRTY serial \<longleftrightarrow> serial AND 1 \<noteq> 0"
definition SERIAL_VALUE_LEN :: "u32 \<Rightarrow> nat" where "SERIAL_VALUE_LEN serial = unat (drop_bit 24 serial)"

text \<open>The serial, once it is not dirty.\<close>

definition sp_Serial :: "prop_info \<Rightarrow> u32 option" where
  "sp_Serial i = (if SERIAL_DIRTY (pi_serial i) then None else Some (pi_serial i))"

definition PROP_NAME_MAX :: nat where "PROP_NAME_MAX = 32"

text \<open>The length, the name (shortened to the caller's buffer) and the value, as strings.\<close>

definition sp_Read :: "info_ref \<Rightarrow> system_properties \<Rightarrow> (nat \<times> string \<times> string) option" where
  "sp_Read pi sp =
     Option.bind (deref_ref pi sp) (\<lambda>i.
     Option.bind (sp_Serial i) (\<lambda>serial.
     let len = SERIAL_VALUE_LEN serial
     in if len + 1 > PROP_VALUE_MAX then None
        else Some (len, take (PROP_NAME_MAX - 1) (pi_name i), c_string (take (len + 1) (pi_union i)))))"

definition sp_ReadCallback :: "info_ref \<Rightarrow> system_properties \<Rightarrow> (string \<times> string \<times> u32) option" where
  "sp_ReadCallback pi sp =
     Option.bind (sp_area (fst pi) sp) (\<lambda>pa.
     Option.bind (deref_info pa (snd pi)) (\<lambda>i.
     Option.bind (sp_Serial i) (\<lambda>serial.
     if is_read_only (pi_name i) then
       (if pi_is_long i then map_option (\<lambda>v. (pi_name i, v, serial)) (pi_long_value pa (snd pi) i)
        else Some (pi_name i, c_string (pi_union i), serial))
     else let len = SERIAL_VALUE_LEN serial
          in if len > PROP_VALUE_MAX then None
             else Some (pi_name i, c_string (take len (pi_union i)), serial))))"

definition sp_Get :: "prop_env \<Rightarrow> string \<Rightarrow> system_properties \<Rightarrow> ((nat \<times> string) \<times> system_properties) option" where
  "sp_Get env name sp =
     Option.bind (sp_Find env name sp) (\<lambda>(pi, sp).
     case pi of
       Some pi \<Rightarrow> map_option (\<lambda>(len, _, v). ((len, v), sp)) (sp_Read pi sp)
     | None \<Rightarrow> Some ((0, ''''), sp))"

section \<open>Changing\<close>

text \<open>The value and its NUL over the bytes of the union; the rest stays.\<close>

definition strlcpy_union :: "string \<Rightarrow> string \<Rightarrow> nat \<Rightarrow> string" where
  "strlcpy_union bytes v len = take len v @ [NUL] @ drop (length (take len v) + 1) bytes"

definition updated_info :: "string \<Rightarrow> nat \<Rightarrow> prop_info \<Rightarrow> prop_info" where
  "updated_info v len i =
     (let serial = pi_serial i OR 1
      in i\<lparr>pi_union := strlcpy_union (pi_union i) v len,
           pi_serial := push_bit 24 (of_nat len) OR ((serial + 1) AND 0xffffff)\<rparr>)"

definition sp_Update :: "info_ref \<Rightarrow> string \<Rightarrow> nat \<Rightarrow> system_properties \<Rightarrow> (int \<times> system_properties) option" where
  "sp_Update pi v len sp =
     (if len \<ge> PROP_VALUE_MAX then Some (- 1, sp)
      else if \<not> sp_initialized sp then Some (- 1, sp)
      else Option.bind (sp_GetSerialPropArea sp) (\<lambda>f.
        case f of
          None \<Rightarrow> Some (- 1, sp)
        | Some f \<Rightarrow>
            Option.bind (sp_area (fst pi) sp) (\<lambda>pa.
            Option.bind (deref_info pa (snd pi)) (\<lambda>i.
            map_option (Pair 0)
              (bump_serial f (put_area (fst pi) (put_object (snd pi) (Obj_info (updated_info v len i)) pa) sp))))))"

definition sp_Add :: "prop_env \<Rightarrow> string \<Rightarrow> string \<Rightarrow> system_properties \<Rightarrow> (int \<times> system_properties) option" where
  "sp_Add env name v sp =
     (if length v \<ge> PROP_VALUE_MAX \<and> \<not> is_read_only name then Some (- 1, sp)
      else if length name < 1 then Some (- 1, sp)
      else if \<not> sp_initialized sp then Some (- 1, sp)
      else Option.bind (sp_GetSerialPropArea sp) (\<lambda>s.
        case s of
          None \<Rightarrow> Some (- 1, sp)
        | Some s \<Rightarrow> Option.bind (sp_GetPropAreaForName env name sp) (\<lambda>(f, sp).
            case f of
              None \<Rightarrow> Some (- 1, sp)
            | Some f \<Rightarrow>
                Option.bind (sp_area f sp) (\<lambda>pa.
                Option.bind (pa_add (pw_data_size (sp_world sp)) name v pa) (\<lambda>(ret, pa).
                let sp = put_area f pa sp
                in if \<not> ret then Some (- 1, sp) else map_option (Pair 0) (bump_serial s sp))))))"

definition sp_Delete :: "prop_env \<Rightarrow> string \<Rightarrow> system_properties \<Rightarrow> (int \<times> system_properties) option" where
  "sp_Delete env name sp =
     (if \<not> sp_initialized sp then Some (- 1, sp)
      else Option.bind (sp_GetSerialPropArea sp) (\<lambda>s.
        case s of
          None \<Rightarrow> Some (- 1, sp)
        | Some s \<Rightarrow> Option.bind (sp_GetPropAreaForName env name sp) (\<lambda>(f, sp).
            case f of
              None \<Rightarrow> Some (- 1, sp)
            | Some f \<Rightarrow>
                Option.bind (sp_area f sp) (\<lambda>pa.
                Option.bind (pa_del (pw_data_size (sp_world sp)) name pa) (\<lambda>(ret, pa).
                let sp = put_area f pa sp
                in if \<not> ret then Some (- 1, sp) else map_option (Pair 0) (bump_serial s sp))))))"

section \<open>Waiting\<close>

text \<open>
  Each round waits, and then loads the serial: whether the wait timed out, and the number that
  is loaded. The result is \<^term>\<open>None\<close> while the caller still waits.
\<close>

fun wait_rounds :: "u32 \<Rightarrow> (bool \<times> u32) list \<Rightarrow> (bool \<times> u32 option) option" where
  "wait_rounds old_serial [] = None"
| "wait_rounds old_serial ((timed_out, new_serial) # rest) =
     (if timed_out then Some (False, None)
      else if new_serial = old_serial then wait_rounds old_serial rest
      else Some (True, Some new_serial))"

text \<open>The error result is a number that converts to true; the new serial is then not written.\<close>

definition sp_Wait :: "info_ref option \<Rightarrow> u32 \<Rightarrow> (bool \<times> u32) list \<Rightarrow> system_properties \<Rightarrow> (bool \<times> u32 option) option" where
  "sp_Wait pi old_serial rounds sp =
     (if pi = None \<and> \<not> sp_initialized sp then Some (True, None)
      else if pi = None then
        Option.bind (sp_GetSerialPropArea sp) (\<lambda>f.
        if f = None then Some (True, None) else wait_rounds old_serial rounds)
      else wait_rounds old_serial rounds)"

text \<open>A number that was not written is not initialized.\<close>

definition sp_WaitAny :: "u32 \<Rightarrow> (bool \<times> u32) list \<Rightarrow> system_properties \<Rightarrow> u32 option" where
  "sp_WaitAny old_serial rounds sp = Option.bind (sp_Wait None old_serial rounds sp) snd"

section \<open>Visiting all properties\<close>

fun foreach_areas :: "system_properties \<Rightarrow> (string \<times> nat) list \<Rightarrow> info_ref list option" where
  "foreach_areas sp [] = Some []"
| "foreach_areas sp ((f, ds) # rest) =
     Option.bind (sp_area f sp) (\<lambda>pa.
     Option.bind (pa_foreach ds pa) (\<lambda>(_, offs).
     map_option (\<lambda>more. map (Pair f) offs @ more) (foreach_areas sp rest)))"

text \<open>The properties that the function is called for, in order.\<close>

definition sp_Foreach :: "prop_env \<Rightarrow> system_properties \<Rightarrow> (int \<times> info_ref list \<times> system_properties) option" where
  "sp_Foreach env sp =
     (if \<not> sp_initialized sp then Some (- 1, [], sp)
      else Option.bind (sp_contexts sp) (\<lambda>c.
        Option.bind (ForEach_areas env c (sp_world sp)) (\<lambda>(areas, c, w).
        let sp = sp\<lparr>sp_contexts := Some c, sp_world := w\<rparr>
        in map_option (\<lambda>infos. (0, infos, sp)) (foreach_areas sp areas))))"

definition sp_FindNth :: "prop_env \<Rightarrow> nat \<Rightarrow> system_properties \<Rightarrow> (info_ref option \<times> system_properties) option" where
  "sp_FindNth env n sp =
     map_option (\<lambda>(_, infos, sp). (if n < length infos then Some (infos ! n) else None, sp)) (sp_Foreach env sp)"

end
