(* ===== verification/Reset_Tool.thy ===== *)
theory Reset_Tool
  imports Prop_Service "HOL-Library.Char_ord" "HOL-Library.List_Lexorder"
begin

text \<open>
  The reset tool (\<open>resetprop.cpp\<close>, \<open>persist_properties.cpp\<close>, \<open>system_property_set.cpp\<close>,
  \<open>private/resetprop.h\<close>): reading, setting and deleting properties behind the back of the
  property service or through it, the persistent properties, and the command line. Copying a
  value into a buffer that is too small, reading at a place outside a buffer and following a
  null pointer are the outer \<^term>\<open>None\<close>.
\<close>

section \<open>Setting through the property service\<close>

text \<open>
  The property service: the error of connecting, what becomes of the properties with a message,
  if it is sent whole, and the answer to it, if one is received whole.
\<close>

record property_service =
  sv_connect_error :: "int option"
  sv_send :: "string \<Rightarrow> system_properties \<Rightarrow> system_properties option"
  sv_answer :: "string \<Rightarrow> system_properties \<Rightarrow> int option"

definition PROP_MSG_SETPROP :: nat where "PROP_MSG_SETPROP = 1"
definition PROP_MSG_SETPROP2 :: nat where "PROP_MSG_SETPROP2 = 0x00020001"
definition PROP_SUCCESS :: int where "PROP_SUCCESS = 0"

text \<open>A string in a buffer of \<open>n\<close> bytes that was cleared before.\<close>

definition strlcpy_buffer :: "string \<Rightarrow> nat \<Rightarrow> string" where
  "strlcpy_buffer s n = take (n - 1) s @ replicate (n - length (take (n - 1) s)) NUL"

definition prop_msg :: "string \<Rightarrow> string \<Rightarrow> string" where
  "prop_msg key v = le32 PROP_MSG_SETPROP @ strlcpy_buffer key PROP_NAME_MAX @ strlcpy_buffer v PROP_VALUE_MAX"

text \<open>After the message was sent the service is waited for, but a timeout counts as a success too.\<close>

definition send_prop_msg :: "property_service \<Rightarrow> string \<Rightarrow> system_properties \<Rightarrow> int \<times> system_properties" where
  "send_prop_msg sv msg sp =
     (case sv_connect_error sv of
        Some e \<Rightarrow> (e, sp)
      | None \<Rightarrow> (case sv_send sv msg sp of None \<Rightarrow> (- 1, sp) | Some sp \<Rightarrow> (0, sp)))"

definition WriteUint32 :: "nat \<Rightarrow> string \<Rightarrow> string" where
  "WriteUint32 n out = out @ le32 n"

definition WriteString :: "string \<Rightarrow> string \<Rightarrow> string" where
  "WriteString s out = (let out = WriteUint32 (length s) out in if length s = 0 then out else out @ s)"

definition prop_msg2 :: "string \<Rightarrow> string \<Rightarrow> string" where
  "prop_msg2 key v = WriteString v (WriteString key (WriteUint32 PROP_MSG_SETPROP2 ''''))"

text \<open>The number that a string starts with, after white space and a sign.\<close>

fun atoll_digits :: "nat \<Rightarrow> string \<Rightarrow> nat" where
  "atoll_digits acc [] = acc"
| "atoll_digits acc (c # cs) =
     (if CHR ''0'' \<le> c \<and> c \<le> CHR ''9'' then atoll_digits (10 * acc + (of_char c - 48)) cs else acc)"

definition atoll :: "string \<Rightarrow> int" where
  "atoll s =
     (case dropWhile is_space s of
        c # cs \<Rightarrow> if c = CHR ''-'' then - int (atoll_digits 0 cs)
                  else if c = CHR ''+'' then int (atoll_digits 0 cs) else int (atoll_digits 0 (c # cs))
      | [] \<Rightarrow> 0)"

definition kServiceVersionPropertyName :: string where
  "kServiceVersionPropertyName = ''ro.property_service.version''"

definition detect_protocol_version :: "prop_env \<Rightarrow> system_properties \<Rightarrow> (nat \<times> system_properties) option" where
  "detect_protocol_version env sp =
     map_option (\<lambda>((len, v), sp). (if len = 0 then 1 else if (of_int (atoll v) :: u32) \<ge> 2 then 2 else 1, sp))
       (sp_Get env kServiceVersionPropertyName sp)"

text \<open>The version is detected once, and kept. A null pointer is a \<^term>\<open>None\<close> argument.\<close>

definition system_property_set ::
  "prop_env \<Rightarrow> property_service \<Rightarrow> string option \<Rightarrow> string option \<Rightarrow> nat \<Rightarrow> system_properties
   \<Rightarrow> (int \<times> nat \<times> system_properties) option" where
  "system_property_set env sv key v version sp =
     (case key of
        None \<Rightarrow> Some (- 1, version, sp)
      | Some key \<Rightarrow>
         let v = (case v of None \<Rightarrow> '''' | Some v \<Rightarrow> v)
         in Option.bind (if version = 0 then detect_protocol_version env sp else Some (version, sp)) (\<lambda>(version, sp).
            if version = 1 then
              (if length key \<ge> PROP_NAME_MAX \<or> length v \<ge> PROP_VALUE_MAX then Some (- 1, version, sp)
               else case send_prop_msg sv (prop_msg key v) sp of (r, sp) \<Rightarrow> Some (r, version, sp))
            else if length v \<ge> PROP_VALUE_MAX \<and> strncmp key ''ro.'' 3 \<noteq> 0 then Some (- 1, version, sp)
            else if sv_connect_error sv \<noteq> None then Some (- 1, version, sp)
            else case sv_send sv (prop_msg2 key v) sp of
                   None \<Rightarrow> Some (- 1, version, sp)
                 | Some sp2 \<Rightarrow>
                     Some (if sv_answer sv (prop_msg2 key v) sp = Some PROP_SUCCESS then 0 else - 1, version, sp2)))"

section \<open>State of the tool\<close>

text \<open>
  The persistent properties: the bytes of the file of all, and the directory with a file for
  each, in the order of its entries; a file's content is \<^term>\<open>None\<close> when it cannot be read.
  Decoding and encoding that file is the library's, and is a pair of functions: the records that
  are decoded, and the bytes of records, if they can be written.
\<close>

record persist_codec =
  pc_decode :: "string \<Rightarrow> (string \<times> string) list"
  pc_encode :: "(string \<times> string) list \<Rightarrow> string option"

record reset_tool =
  rt_sp :: system_properties
  rt_use_pb :: bool
  rt_version :: nat
  rt_pb_bytes :: string
  rt_pb_exists :: bool
  rt_dir :: "(string \<times> string option) list option"

record tool_env =
  te_prop :: prop_env
  te_anon_mmap :: bool
  te_service :: property_service
  te_codec :: persist_codec
  te_lines :: "string \<Rightarrow> string list option"

definition is_legal_char :: "char \<Rightarrow> bool" where
  "is_legal_char c \<longleftrightarrow> c \<in> {CHR ''_'', CHR ''-'', CHR ''@'', CHR '':''}
     \<or> list_ex (\<lambda>(first, final). first \<le> c \<and> c \<le> final)
          [(CHR ''a'', CHR ''z''), (CHR ''A'', CHR ''Z''), (CHR ''0'', CHR ''9'')]"

text \<open>The characters from the first on, with the one before.\<close>

fun legal_chars :: "char \<Rightarrow> string \<Rightarrow> bool" where
  "legal_chars prev [] = True"
| "legal_chars prev (c # cs) =
     (if c = CHR ''.'' then prev \<noteq> CHR ''.'' \<and> legal_chars c cs
      else is_legal_char c \<and> legal_chars c cs)"

definition check_legal_property_name :: "string \<Rightarrow> bool" where
  "check_legal_property_name name \<longleftrightarrow>
     \<not> length name < 1 \<and> name ! 0 \<noteq> CHR ''.'' \<and> name ! (length name - 1) \<noteq> CHR ''.''
   \<and> legal_chars NUL name"

definition init_resetprop :: "tool_env \<Rightarrow> reset_tool \<Rightarrow> (int \<times> reset_tool) option" where
  "init_resetprop te rt =
     map_option (\<lambda>(r, sp). (if r \<noteq> 0 then - 1 else 0, rt\<lparr>rt_use_pb := rt_use_pb rt \<or> rt_pb_exists rt, rt_sp := sp\<rparr>))
       (api_properties_init (te_prop te) (te_anon_mmap te) (rt_sp rt))"

text \<open>Copying a string into a buffer for a value.\<close>

definition strcpy_value :: "string \<Rightarrow> string option" where
  "strcpy_value v = (if length v < PROP_VALUE_MAX then Some v else None)"

section \<open>Persistent properties\<close>

definition PERSISTENT_PROPERTY_DIR :: string where "PERSISTENT_PROPERTY_DIR = ''/data/property''"

text \<open>Whether the file has a value. The NUL is written behind the bytes read.\<close>

definition file_getprop :: "string \<Rightarrow> reset_tool \<Rightarrow> (bool \<times> string) option" where
  "file_getprop name rt =
     (case Option.bind (rt_dir rt) (\<lambda>d. map_of d name) of
        None \<Rightarrow> Some (False, '''')
      | Some content \<Rightarrow> Option.bind content (\<lambda>cs.
          if length cs \<ge> PROP_VALUE_MAX then None
          else let v = c_string cs in Some (v \<noteq> '''', v)))"

definition pb_records :: "tool_env \<Rightarrow> reset_tool \<Rightarrow> (string \<times> string) list" where
  "pb_records te rt = pc_decode (te_codec te) (rt_pb_bytes rt)"

fun files_getprop :: "reset_tool \<Rightarrow> string list \<Rightarrow> (string \<times> string) list option" where
  "files_getprop rt [] = Some []"
| "files_getprop rt (n # ns) =
     (if n = ''.'' \<or> n = ''..'' then files_getprop rt ns
      else Option.bind (file_getprop n rt) (\<lambda>(found, v).
        map_option (\<lambda>more. (if found then [(n, v)] else []) @ more) (files_getprop rt ns)))"

text \<open>All names and values that the callback is called for.\<close>

definition persist_getprops :: "tool_env \<Rightarrow> reset_tool \<Rightarrow> (string \<times> string) list option" where
  "persist_getprops te rt =
     (if rt_use_pb rt then Some (pb_records te rt)
      else Option.bind (rt_dir rt) (\<lambda>d. files_getprop rt (map fst d)))"

text \<open>A later record of the name overwrites the value.\<close>

fun pb_getprop_cb :: "string \<Rightarrow> (string \<times> string) list \<Rightarrow> string \<Rightarrow> string option" where
  "pb_getprop_cb name [] v = Some v"
| "pb_getprop_cb name ((n, x) # rest) v =
     (if n = name then Option.bind (strcpy_value x) (pb_getprop_cb name rest) else pb_getprop_cb name rest v)"

definition persist_getprop :: "tool_env \<Rightarrow> string \<Rightarrow> reset_tool \<Rightarrow> string option" where
  "persist_getprop te name rt =
     (if rt_use_pb rt then pb_getprop_cb name (pb_records te rt) ''''
      else map_option (\<lambda>(found, v). if found then v else '''') (file_getprop name rt))"

fun erase_first :: "string \<Rightarrow> (string \<times> string) list \<Rightarrow> (string \<times> string) list option" where
  "erase_first name [] = None"
| "erase_first name ((n, v) # rest) =
     (if n = name then Some rest else map_option (Cons (n, v)) (erase_first name rest))"

definition all_fit :: "(string \<times> string) list \<Rightarrow> bool" where
  "all_fit ps \<longleftrightarrow> (\<forall>p \<in> set ps. length (snd p) < PROP_VALUE_MAX)"

text \<open>The new file replaces the old one only after it was written whole.\<close>

definition persist_deleteprop :: "tool_env \<Rightarrow> string \<Rightarrow> reset_tool \<Rightarrow> (bool \<times> reset_tool) option" where
  "persist_deleteprop te name rt =
     (if rt_use_pb rt then
        (if \<not> all_fit (pb_records te rt) then None
         else case erase_first name (pb_records te rt) of
                None \<Rightarrow> Some (False, rt)
              | Some rest \<Rightarrow>
                 (case pc_encode (te_codec te) rest of
                    None \<Rightarrow> Some (False, rt)
                  | Some bytes \<Rightarrow> Some (True, rt\<lparr>rt_pb_bytes := bytes\<rparr>)))
      else case rt_dir rt of
             None \<Rightarrow> Some (False, rt)
           | Some d \<Rightarrow>
              if name \<in> fst ` set d then Some (True, rt\<lparr>rt_dir := Some (filter (\<lambda>p. fst p \<noteq> name) d)\<rparr>)
              else Some (False, rt))"

section \<open>Getting, setting and deleting\<close>

definition prop_exist :: "tool_env \<Rightarrow> string \<Rightarrow> reset_tool \<Rightarrow> (int \<times> reset_tool) option" where
  "prop_exist te name rt =
     Option.bind (init_resetprop te rt) (\<lambda>(r, rt).
     if r \<noteq> 0 then Some (0, rt)
     else map_option (\<lambda>(pi, sp). (if pi \<noteq> None then 1 else 0, rt\<lparr>rt_sp := sp\<rparr>)) (sp_Find (te_prop te) name (rt_sp rt)))"

definition is_persist :: "string \<Rightarrow> bool" where "is_persist name \<longleftrightarrow> strncmp name ''persist.'' 8 = 0"

definition getprop :: "tool_env \<Rightarrow> string \<Rightarrow> bool \<Rightarrow> reset_tool \<Rightarrow> (string \<times> reset_tool) option" where
  "getprop te name persist rt =
     (if \<not> check_legal_property_name name then Some ('''', rt)
      else Option.bind (init_resetprop te rt) (\<lambda>(r, rt).
        if r \<noteq> 0 then Some ('''', rt)
        else Option.bind (sp_Find (te_prop te) name (rt_sp rt)) (\<lambda>(pi, sp).
          let rt = rt\<lparr>rt_sp := sp\<rparr>
          in case pi of
               None \<Rightarrow>
                 if persist \<and> is_persist name then map_option (\<lambda>v. (v, rt)) (persist_getprop te name rt)
                 else Some ('''', rt)
             | Some pi \<Rightarrow>
                 Option.bind (sp_ReadCallback pi sp) (\<lambda>(_, v, _). map_option (\<lambda>v. (v, rt)) (strcpy_value v)))))"

text \<open>The names and values of properties that a traversal visits.\<close>

fun read_props :: "system_properties \<Rightarrow> info_ref list \<Rightarrow> (string \<times> string) list option" where
  "read_props sp [] = Some []"
| "read_props sp (pi # rest) =
     Option.bind (sp_ReadCallback pi sp) (\<lambda>(n, v, _). map_option (Cons (n, v)) (read_props sp rest))"

fun collect_props :: "(string \<times> string) list \<Rightarrow> (string \<times> string) list \<Rightarrow> (string \<times> string) list option" where
  "collect_props prop_list [] = Some prop_list"
| "collect_props prop_list ((n, v) # rest) =
     Option.bind (strcpy_value v) (\<lambda>v. collect_props (prop_list @ [(n, v)]) rest)"

fun collect_unique_props :: "(string \<times> string) list \<Rightarrow> (string \<times> string) list \<Rightarrow> (string \<times> string) list option" where
  "collect_unique_props prop_list [] = Some prop_list"
| "collect_unique_props prop_list ((n, v) # rest) =
     (if n \<in> fst ` set prop_list then collect_unique_props prop_list rest
      else Option.bind (strcpy_value v) (\<lambda>v. collect_unique_props (prop_list @ [(n, v)]) rest))"

definition getprops :: "tool_env \<Rightarrow> bool \<Rightarrow> reset_tool \<Rightarrow> ((string \<times> string) list \<times> reset_tool) option" where
  "getprops te persist rt =
     Option.bind (init_resetprop te rt) (\<lambda>(r, rt).
     if r \<noteq> 0 then Some ([], rt)
     else Option.bind (sp_Foreach (te_prop te) (rt_sp rt)) (\<lambda>(_, infos, sp).
       let rt = rt\<lparr>rt_sp := sp\<rparr>
       in Option.bind (read_props sp infos) (\<lambda>ps.
          Option.bind (collect_props [] ps) (\<lambda>prop_list.
          if persist then
            Option.bind (persist_getprops te rt) (\<lambda>more. map_option (\<lambda>l. (l, rt)) (collect_unique_props prop_list more))
          else Some (prop_list, rt)))))"

definition prop_line :: "string \<times> string \<Rightarrow> string" where
  "prop_line p = ''['' @ fst p @ '']: ['' @ snd p @ '']''"

text \<open>Sorted by name, by the codes of the characters.\<close>

definition print_props :: "tool_env \<Rightarrow> bool \<Rightarrow> reset_tool \<Rightarrow> (string list \<times> reset_tool) option" where
  "print_props te persist rt =
     map_option (\<lambda>(prop_list, rt). (map prop_line (sort_key fst prop_list), rt)) (getprops te persist rt)"

definition deleteprop :: "tool_env \<Rightarrow> string \<Rightarrow> bool \<Rightarrow> reset_tool \<Rightarrow> (int \<times> reset_tool) option" where
  "deleteprop te name persist rt =
     (if \<not> check_legal_property_name name then Some (1, rt)
      else Option.bind (init_resetprop te rt) (\<lambda>(r, rt).
        if r \<noteq> 0 then Some (- 1, rt)
        else Option.bind (if persist \<and> is_persist name then persist_deleteprop te name rt else Some (persist, rt)) (\<lambda>(persist, rt).
          map_option (\<lambda>(d, sp). (if d \<noteq> 0 \<and> \<not> (persist \<and> is_persist name) then 1 else 0, rt\<lparr>rt_sp := sp\<rparr>))
            (sp_Delete (te_prop te) name (rt_sp rt)))))"

definition set_by_service :: "tool_env \<Rightarrow> string \<Rightarrow> string \<Rightarrow> reset_tool \<Rightarrow> (int \<times> reset_tool) option" where
  "set_by_service te name v rt =
     map_option (\<lambda>(r, version, sp). (r, rt\<lparr>rt_version := version, rt_sp := sp\<rparr>))
       (system_property_set (te_prop te) (te_service te) (Some name) (Some v) (rt_version rt) (rt_sp rt))"

definition setprop :: "tool_env \<Rightarrow> string \<Rightarrow> string \<Rightarrow> bool \<Rightarrow> reset_tool \<Rightarrow> (int \<times> reset_tool) option" where
  "setprop te name v trigger rt =
     (if \<not> check_legal_property_name name then Some (1, rt)
      else Option.bind (init_resetprop te rt) (\<lambda>(r, rt).
        if r \<noteq> 0 then Some (- 1, rt)
        else Option.bind (sp_Find (te_prop te) name (rt_sp rt)) (\<lambda>(pi, sp).
          let rt = rt\<lparr>rt_sp := sp\<rparr>
          in case pi of
               Some pi \<Rightarrow>
                 if trigger then
                   Option.bind (if strncmp name ''ro.'' 3 = 0 then map_option snd (deleteprop te name False rt) else Some rt)
                     (set_by_service te name v)
                 else map_option (\<lambda>(r, sp). (r, rt\<lparr>rt_sp := sp\<rparr>)) (sp_Update pi v (length v) sp)
             | None \<Rightarrow>
                 if trigger then set_by_service te name v rt
                 else map_option (\<lambda>(r, sp). (r, rt\<lparr>rt_sp := sp\<rparr>)) (sp_Add (te_prop te) name v sp))))"

section \<open>Property files\<close>

definition drop_right :: "(char \<Rightarrow> bool) \<Rightarrow> string \<Rightarrow> string" where
  "drop_right P cs = rev (dropWhile P (rev cs))"

text \<open>A line without the line break and blanks at its ends.\<close>

definition trim_line :: "string \<Rightarrow> string" where
  "trim_line line = dropWhile (\<lambda>c. c = CHR '' '') (c_string (drop_right (\<lambda>c. c = CHR 0x0A \<or> c = CHR '' '') line))"

definition parse_prop_line :: "string \<Rightarrow> (string \<times> string) option" where
  "parse_prop_line line =
     (let key = takeWhile (\<lambda>c. c \<noteq> CHR ''='') line
      in if take 1 line = ''#'' \<or> key = line \<or> key = '''' then None
         else Some (key, drop (length key + 1) line))"

definition parse_prop_file :: "string list \<Rightarrow> (string \<times> string) list" where
  "parse_prop_file lines = List.map_filter (\<lambda>l. parse_prop_line (trim_line l)) lines"

fun setprops :: "tool_env \<Rightarrow> (string \<times> string) list \<Rightarrow> bool \<Rightarrow> reset_tool \<Rightarrow> reset_tool option" where
  "setprops te [] trigger rt = Some rt"
| "setprops te ((k, v) # rest) trigger rt =
     Option.bind (setprop te k v trigger rt) (\<lambda>(_, rt). setprops te rest trigger rt)"

definition load_prop_file :: "tool_env \<Rightarrow> string \<Rightarrow> bool \<Rightarrow> reset_tool \<Rightarrow> reset_tool option" where
  "load_prop_file te filename trigger rt =
     Option.bind (init_resetprop te rt) (\<lambda>(r, rt).
     if r \<noteq> 0 then Some rt
     else case te_lines te filename of
            None \<Rightarrow> Some rt
          | Some lines \<Rightarrow> setprops te (parse_prop_file lines) trigger rt)"

section \<open>The command line\<close>

record tool_flags =
  tf_verbose :: bool
  tf_trigger :: bool
  tf_persist :: bool

datatype tool_command = Usage | Load_file string | Delete_prop string | Print_props | Get_prop string | Set_prop string string

text \<open>
  The letters of an argument that begins with a dash, \<open>argv\<close> from this argument on. A dash that
  starts no option is taken as the letter after it in the source, the one for verbose output.
\<close>

fun flag_letters :: "string list \<Rightarrow> string \<Rightarrow> tool_flags \<Rightarrow> tool_command + tool_flags" where
  "flag_letters argv [] fl = Inr fl"
| "flag_letters argv (c # cs) fl =
     (if c = CHR ''-'' \<and> take 1 argv = [''--file''] \<and> length argv = 2 then Inl (Load_file (argv ! 1))
      else if c = CHR ''-'' \<and> take 1 argv = [''--delete''] \<and> length argv = 2 then Inl (Delete_prop (argv ! 1))
      else if c = CHR ''-'' \<and> take 1 argv = [''--help''] then Inl Usage
      else if c = CHR ''-'' \<or> c = CHR ''v'' then flag_letters argv cs (fl\<lparr>tf_verbose := True\<rparr>)
      else if c = CHR ''p'' then flag_letters argv cs (fl\<lparr>tf_persist := True\<rparr>)
      else if c = CHR ''n'' then flag_letters argv cs (fl\<lparr>tf_trigger := False\<rparr>)
      else Inl Usage)"

fun parse_args :: "string list \<Rightarrow> tool_flags \<Rightarrow> tool_command \<times> tool_flags" where
  "parse_args [] fl = (Print_props, fl)"
| "parse_args (arg # rest) fl =
     (if take 1 arg = ''-'' then
        (case flag_letters (arg # rest) (tl arg) fl of
           Inl command \<Rightarrow> (command, fl)
         | Inr fl \<Rightarrow> parse_args rest fl)
      else case rest of
             [] \<Rightarrow> (Get_prop arg, fl)
           | [v] \<Rightarrow> (Set_prop arg v, fl)
           | _ \<Rightarrow> (Usage, fl))"

definition initial_flags :: tool_flags where
  "initial_flags = \<lparr>tf_verbose = False, tf_trigger = True, tf_persist = False\<rparr>"

text \<open>The flags that count are those before the option, with its own letters' effect on the way.\<close>

definition resetprop_main :: "tool_env \<Rightarrow> string list \<Rightarrow> reset_tool \<Rightarrow> (int \<times> string list \<times> reset_tool) option" where
  "resetprop_main te args rt =
     (case parse_args args initial_flags of
        (Usage, fl) \<Rightarrow> Some (1, [], rt)
      | (Load_file f, fl) \<Rightarrow> map_option (\<lambda>rt. (0, [], rt)) (load_prop_file te f (tf_trigger fl) rt)
      | (Delete_prop name, fl) \<Rightarrow> map_option (\<lambda>(r, rt). (r, [], rt)) (deleteprop te name (tf_persist fl) rt)
      | (Print_props, fl) \<Rightarrow> map_option (\<lambda>(out, rt). (0, out, rt)) (print_props te (tf_persist fl) rt)
      | (Get_prop name, fl) \<Rightarrow>
          map_option (\<lambda>(v, rt). if v = '''' then (1, [], rt) else (0, [v], rt)) (getprop te name (tf_persist fl) rt)
      | (Set_prop name v, fl) \<Rightarrow> map_option (\<lambda>(r, rt). (r, [], rt)) (setprop te name v (tf_trigger fl) rt))"

end
