(* ===== verification/Prop_Area_Tree.thy ===== *)
theory Prop_Area_Tree
  imports Prop_Area
begin

text \<open>
  Well-formed property areas: a tree whose links go to higher offsets, so every walk ends. New
  nodes keep it well formed and change nothing that was found; a name has a node of its own.
\<close>

section \<open>Comparing names\<close>

lemma strncmp_refl [simp]: "strncmp s s n = 0"
  by (induction n arbitrary: s) (auto simp: Let_def)

lemma strncmp_eq_0:
  "NUL \<notin> set s1 \<Longrightarrow> NUL \<notin> set s2 \<Longrightarrow> length s1 = length s2 \<Longrightarrow> strncmp s1 s2 (length s1) = 0 \<longleftrightarrow> s1 = s2"
proof (induction s1 arbitrary: s2)
  case (Cons c s1)
  then obtain d s2' where s2: "s2 = d # s2'" by (cases s2) auto
  have "int (of_char c) - int (of_char d) = 0 \<longleftrightarrow> c = d" by simp
  with Cons show ?case by (auto simp: s2 Let_def)
qed simp

lemma cmp_prop_name_refl [simp]: "cmp_prop_name s s = 0"
  by (simp add: cmp_prop_name_def)

lemma cmp_prop_name_eq_0: "NUL \<notin> set s1 \<Longrightarrow> NUL \<notin> set s2 \<Longrightarrow> cmp_prop_name s1 s2 = 0 \<longleftrightarrow> s1 = s2"
  using strncmp_eq_0 [of s1 s2] by (auto simp: cmp_prop_name_def)

section \<open>Tokens\<close>

lemma name_tokens_not_Nil [simp]: "name_tokens name \<noteq> []"
  by (induction name rule: name_tokens.induct) (auto split: list.splits)

lemma name_tokens_inj: "name_tokens s1 = name_tokens s2 \<Longrightarrow> s1 = s2"
proof (induction s1 arbitrary: s2)
  case Nil
  then show ?case by (cases s2) (auto split: if_splits list.splits dest: sym)
next
  case (Cons c s1)
  obtain t ts where t: "name_tokens s1 = t # ts" by (cases "name_tokens s1") auto
  from Cons.prems have ne: "s2 \<noteq> []" by (auto split: if_splits simp: t)
  then obtain d s2' where s2: "s2 = d # s2'" by (cases s2) auto
  obtain u us where u: "name_tokens s2' = u # us" by (cases "name_tokens s2'") auto
  from Cons.prems have "c = d \<and> name_tokens s1 = name_tokens s2'" by (auto simp: s2 t u split: if_splits)
  with Cons.IH show ?case by (simp add: s2)
qed

lemma name_tokens_chars: "token \<in> set (name_tokens name) \<Longrightarrow> set token \<subseteq> set name"
  by (induction name arbitrary: token rule: name_tokens.induct) (fastforce split: list.splits if_splits)+

section \<open>Well-formed areas\<close>

fun obj_size :: "pa_object \<Rightarrow> nat" where
  "obj_size (Obj_bt bt) = sizeof_prop_bt + length (bt_name bt) + 1"
| "obj_size (Obj_info i) = sizeof_prop_info + length (pi_name i) + 1"
| "obj_size (Obj_bytes cs) = length cs + 1"

definition bt_edge :: "prop_area \<Rightarrow> nat \<Rightarrow> bt_link \<Rightarrow> nat \<Rightarrow> bool" where
  "bt_edge pa p l off \<longleftrightarrow> (\<exists>b. deref_bt pa p = Some b \<and> get_link l b = off) \<and> off \<noteq> 0"

text \<open>The root's empty name has no byte of its own, and is never read.\<close>

definition obj_end :: "nat \<Rightarrow> pa_object \<Rightarrow> nat" where
  "obj_end off x = (if off = 0 then sizeof_prop_bt else off + obj_size x)"

text \<open>
  The objects lie below the bytes used and do not overlap; the root has no siblings and no
  property; links go to nodes at higher offsets, no two of them to the same; properties refer
  to infos, no two nodes to the same.
\<close>

definition area_objects_ok :: "prop_area \<Rightarrow> bool" where
  "area_objects_ok pa \<longleftrightarrow>
     (\<forall>off x. pa_data pa off = Some x \<longrightarrow> obj_end off x \<le> pa_bytes_used pa)
   \<and> (\<forall>off off2 x. pa_data pa off = Some x \<longrightarrow> pa_data pa off2 \<noteq> None \<longrightarrow> off < off2 \<longrightarrow> obj_end off x \<le> off2)"

definition area_tree_ok :: "prop_area \<Rightarrow> bool" where
  "area_tree_ok pa \<longleftrightarrow>
     (\<exists>b. deref_bt pa 0 = Some b \<and> bt_left b = 0 \<and> bt_right b = 0 \<and> bt_prop b = 0)
   \<and> (\<forall>p l off. bt_edge pa p l off \<longrightarrow> p < off \<and> deref_bt pa off \<noteq> None)
   \<and> (\<forall>p q l m off. bt_edge pa p l off \<longrightarrow> bt_edge pa q m off \<longrightarrow> p = q \<and> l = m)
   \<and> (\<forall>p b. deref_bt pa p = Some b \<longrightarrow> NUL \<notin> set (bt_name b))
   \<and> (\<forall>p b. deref_bt pa p = Some b \<longrightarrow> bt_prop b \<noteq> 0 \<longrightarrow> deref_info pa (bt_prop b) \<noteq> None)
   \<and> (\<forall>p q b c. deref_bt pa p = Some b \<longrightarrow> deref_bt pa q = Some c \<longrightarrow> bt_prop b \<noteq> 0 \<longrightarrow> bt_prop b = bt_prop c \<longrightarrow> p = q)"

definition area_ok :: "nat \<Rightarrow> prop_area \<Rightarrow> bool" where
  "area_ok ds pa \<longleftrightarrow> ds < 2 ^ 32 \<and> pa_bytes_used pa \<le> ds \<and> area_objects_ok pa \<and> area_tree_ok pa"

lemma deref_bt_data [simp]: "deref_bt pa off = Some b \<longleftrightarrow> pa_data pa off = Some (Obj_bt b)"
  by (auto simp: deref_bt_def split: option.splits pa_object.splits)

lemma deref_info_data [simp]: "deref_info pa off = Some i \<longleftrightarrow> pa_data pa off = Some (Obj_info i)"
  by (auto simp: deref_info_def split: option.splits pa_object.splits)

lemma obj_end_gt: "off < obj_end off x"
  by (cases x) (simp_all add: obj_end_def sizeof_prop_bt_def)

lemma area_edge:
  assumes "area_ok ds pa" "pa_data pa p = Some (Obj_bt b)" "get_link l b \<noteq> 0"
  obtains c where "p < get_link l b" "pa_data pa (get_link l b) = Some (Obj_bt c)"
proof -
  have "bt_edge pa p l (get_link l b)" using assms(2,3) by (simp add: bt_edge_def)
  with assms(1) have "p < get_link l b \<and> deref_bt pa (get_link l b) \<noteq> None"
    unfolding area_ok_def area_tree_ok_def by blast
  then show thesis using that by (cases "deref_bt pa (get_link l b)") auto
qed

lemma area_below:
  assumes "area_ok ds pa" "pa_data pa off = Some x"
  shows "off < pa_bytes_used pa"
proof -
  have "obj_end off x \<le> pa_bytes_used pa" using assms by (auto simp: area_ok_def area_objects_ok_def)
  with obj_end_gt [of off x] show ?thesis by linarith
qed

lemma area_to_prop_obj [simp]:
  assumes "area_ok ds pa" "pa_data pa off = Some x"
  shows "to_prop_obj ds off = Some off"
  using area_below [OF assms] assms(1) by (simp add: to_prop_obj_def area_ok_def)

lemma area_fresh: "area_ok ds pa \<Longrightarrow> pa_bytes_used pa \<le> off \<Longrightarrow> pa_data pa off = None"
  using area_below [of ds pa off] by (cases "pa_data pa off") auto

text \<open>Links go up, so a property of all nodes can be proved from those they link to.\<close>

lemma area_induct [consumes 2, case_names node]:
  assumes ok: "area_ok ds pa" and node: "pa_data pa cur = Some (Obj_bt b)"
    and step: "\<And>p b. pa_data pa p = Some (Obj_bt b)
      \<Longrightarrow> (\<And>l c. get_link l b \<noteq> 0 \<Longrightarrow> pa_data pa (get_link l b) = Some (Obj_bt c) \<Longrightarrow> P (get_link l b)) \<Longrightarrow> P p"
  shows "P cur"
  using node
proof (induction "pa_bytes_used pa - cur" arbitrary: cur b rule: less_induct)
  case less
  show ?case
  proof (rule step [OF less.prems])
    fix l c assume l: "get_link l b \<noteq> 0" "pa_data pa (get_link l b) = Some (Obj_bt c)"
    obtain "cur < get_link l b" using area_edge [OF ok less.prems l(1)] by metis
    moreover have "get_link l b < pa_bytes_used pa" by (rule area_below [OF ok l(2)])
    ultimately show "P (get_link l b)" by (intro less.hyps [OF _ l(2)]) linarith
  qed
qed

lemma get_link_new [simp]: "get_link l (prop_bt_new name) = 0"
  by (cases l) (simp_all add: prop_bt_new_def)

lemma prop_bt_new_sel [simp]:
  "bt_name (prop_bt_new name) = name" "bt_prop (prop_bt_new name) = 0"
  "bt_left (prop_bt_new name) = 0" "bt_right (prop_bt_new name) = 0" "bt_children (prop_bt_new name) = 0"
  by (simp_all add: prop_bt_new_def)

lemma prop_area_new_ok: "sizeof_prop_bt \<le> ds \<Longrightarrow> ds < 2 ^ 32 \<Longrightarrow> area_ok ds prop_area_new"
  by (auto simp: area_ok_def area_objects_ok_def area_tree_ok_def prop_area_new_def bt_edge_def
      obj_end_def split: if_splits)

lemma get_set_link [simp]: "get_link l (set_link m off b) = (if l = m then off else get_link l b)"
  by (cases l; cases m) simp_all

lemma set_link_sel [simp]: "bt_name (set_link l off b) = bt_name b" "bt_prop (set_link l off b) = bt_prop b"
  by (cases l; simp)+

lemma put_object_sel [simp]:
  "pa_data (put_object off x pa) = (pa_data pa)(off \<mapsto> x)" "pa_bytes_used (put_object off x pa) = pa_bytes_used pa"
  "pa_serial (put_object off x pa) = pa_serial pa"
  by (simp_all add: put_object_def)

section \<open>Growing\<close>

text \<open>
  What adding nodes does: nodes keep their names, properties and links, but null links may come
  to lead to new nodes; new objects are nodes without a property that link to new nodes only.
\<close>

definition bt_extends :: "prop_area \<Rightarrow> prop_area \<Rightarrow> bool" where
  "bt_extends pa pa' \<longleftrightarrow>
     (\<forall>off b. pa_data pa off = Some (Obj_bt b) \<longrightarrow> (\<exists>b'. pa_data pa' off = Some (Obj_bt b')
        \<and> bt_name b' = bt_name b \<and> bt_prop b' = bt_prop b
        \<and> (\<forall>l. get_link l b' = get_link l b \<or> get_link l b = 0 \<and> pa_data pa (get_link l b') = None)))
   \<and> (\<forall>off x. pa_data pa off = Some x \<longrightarrow> \<not> (\<exists>b. x = Obj_bt b) \<longrightarrow> pa_data pa' off = Some x)
   \<and> (\<forall>off. pa_data pa off = None \<longrightarrow> pa_data pa' off = None \<or> (\<exists>b'. pa_data pa' off = Some (Obj_bt b')
        \<and> bt_prop b' = 0 \<and> (\<forall>l. get_link l b' = 0 \<or> pa_data pa (get_link l b') = None)))"

lemma bt_extendsD:
  assumes "bt_extends pa pa'"
  shows "pa_data pa off = Some (Obj_bt b) \<Longrightarrow> \<exists>b'. pa_data pa' off = Some (Obj_bt b')
        \<and> bt_name b' = bt_name b \<and> bt_prop b' = bt_prop b
        \<and> (\<forall>l. get_link l b' = get_link l b \<or> get_link l b = 0 \<and> pa_data pa (get_link l b') = None)"
    and "pa_data pa off = Some x \<Longrightarrow> \<not> (\<exists>b. x = Obj_bt b) \<Longrightarrow> pa_data pa' off = Some x"
    and "pa_data pa off = None \<Longrightarrow> pa_data pa' off = Some x \<Longrightarrow> \<exists>b'. x = Obj_bt b' \<and> bt_prop b' = 0
        \<and> (\<forall>l. get_link l b' = 0 \<or> pa_data pa (get_link l b') = None)"
  using assms unfolding bt_extends_def by (blast, blast, metis option.distinct(1) option.inject)

lemma bt_extends_kept: "bt_extends pa pa' \<Longrightarrow> pa_data pa' off = None \<Longrightarrow> pa_data pa off = None"
  using bt_extendsD(1,2) [of pa pa' off] by (metis not_Some_eq option.distinct(1))

lemma bt_extends_refl [simp]: "bt_extends pa pa"
  by (auto simp: bt_extends_def)

lemma bt_extends_trans:
  assumes "bt_extends pa1 pa2" "bt_extends pa2 pa3"
  shows "bt_extends pa1 pa3"
  unfolding bt_extends_def
proof (intro conjI allI impI)
  fix off b assume "pa_data pa1 off = Some (Obj_bt b)"
  from bt_extendsD(1) [OF assms(1) this] obtain b2 where b2: "pa_data pa2 off = Some (Obj_bt b2)"
    "bt_name b2 = bt_name b" "bt_prop b2 = bt_prop b"
    "\<forall>l. get_link l b2 = get_link l b \<or> get_link l b = 0 \<and> pa_data pa1 (get_link l b2) = None" by blast
  from bt_extendsD(1) [OF assms(2) b2(1)] obtain b3 where b3: "pa_data pa3 off = Some (Obj_bt b3)"
    "bt_name b3 = bt_name b2" "bt_prop b3 = bt_prop b2"
    "\<forall>l. get_link l b3 = get_link l b2 \<or> get_link l b2 = 0 \<and> pa_data pa2 (get_link l b3) = None" by blast
  have "get_link l b3 = get_link l b \<or> get_link l b = 0 \<and> pa_data pa1 (get_link l b3) = None" for l
    using b2(4) b3(4) bt_extends_kept [OF assms(1)] by metis
  with b2 b3 show "\<exists>b'. pa_data pa3 off = Some (Obj_bt b') \<and> bt_name b' = bt_name b \<and> bt_prop b' = bt_prop b
      \<and> (\<forall>l. get_link l b' = get_link l b \<or> get_link l b = 0 \<and> pa_data pa1 (get_link l b') = None)" by auto
next
  fix off x assume "pa_data pa1 off = Some x" "\<not> (\<exists>b. x = Obj_bt b)"
  then show "pa_data pa3 off = Some x" using bt_extendsD(2) assms by metis
next
  fix off assume none: "pa_data pa1 off = None"
  show "pa_data pa3 off = None \<or> (\<exists>b'. pa_data pa3 off = Some (Obj_bt b') \<and> bt_prop b' = 0
      \<and> (\<forall>l. get_link l b' = 0 \<or> pa_data pa1 (get_link l b') = None))"
  proof (cases "pa_data pa2 off")
    case None
    then show ?thesis using bt_extendsD(3) [OF assms(2), of off] bt_extends_kept [OF assms(1)]
      by (metis not_None_eq)
  next
    case (Some x)
    from bt_extendsD(3) [OF assms(1) none Some] obtain b2 where b2: "x = Obj_bt b2" "bt_prop b2 = 0"
      "\<forall>l. get_link l b2 = 0 \<or> pa_data pa1 (get_link l b2) = None" by blast
    from bt_extendsD(1) [OF assms(2), of off b2] Some b2(1) obtain b3 where b3: "pa_data pa3 off = Some (Obj_bt b3)"
      "bt_prop b3 = bt_prop b2"
      "\<forall>l. get_link l b3 = get_link l b2 \<or> get_link l b2 = 0 \<and> pa_data pa2 (get_link l b3) = None" by blast
    have "get_link l b3 = 0 \<or> pa_data pa1 (get_link l b3) = None" for l
      using b2(3) b3(3) bt_extends_kept [OF assms(1)] by metis
    with b2 b3 show ?thesis by auto
  qed
qed

text \<open>A new object at the end of the used bytes.\<close>

lemma allocate_obj_Some:
  assumes "area_ok ds pa" "allocate_obj ds n pa = Some (off, pa')"
  shows "off = pa_bytes_used pa" "pa_data pa' = pa_data pa" "off + n \<le> pa_bytes_used pa'" "pa_bytes_used pa' \<le> ds"
    "pa_serial pa' = pa_serial pa"
proof -
  have "ds < 2 ^ 32" using assms(1) by (simp add: area_ok_def)
  with assms(2) show "off = pa_bytes_used pa" "pa_data pa' = pa_data pa" "off + n \<le> pa_bytes_used pa'"
    "pa_bytes_used pa' \<le> ds" "pa_serial pa' = pa_serial pa"
    by (auto simp: allocate_obj_def Let_def BIONIC_ALIGN_def split: if_splits)
qed

lemma area_used_pos: "area_ok ds pa \<Longrightarrow> 0 < pa_bytes_used pa"
  using area_below [of ds pa 0] by (auto simp: area_ok_def area_tree_ok_def)

text \<open>The effect of linking a new node to the node \<open>b\<close> at \<open>cur\<close>.\<close>

lemma linked_edges:
  assumes "pa_data pa cur = Some (Obj_bt b)" "get_link l b = 0" "pa_data pa off = None" "off \<noteq> 0"
    and "pa_data pa' = (pa_data pa)(off \<mapsto> Obj_bt (prop_bt_new name), cur \<mapsto> Obj_bt (set_link l off b))"
  shows "bt_edge pa' p m to_off \<longleftrightarrow> (p = cur \<and> m = l \<and> to_off = off) \<or> bt_edge pa p m to_off"
  using assms by (auto simp: bt_edge_def split: if_splits)

lemma linked_ok:
  assumes ok: "area_ok ds pa" and cur: "pa_data pa cur = Some (Obj_bt b)" "get_link l b = 0" "cur = 0 \<Longrightarrow> l = Link_children"
    and name: "NUL \<notin> set name" and off: "off = pa_bytes_used pa"
    and data: "pa_data pa' = (pa_data pa)(off \<mapsto> Obj_bt (prop_bt_new name), cur \<mapsto> Obj_bt (set_link l off b))"
    and used: "off + (sizeof_prop_bt + length name + 1) \<le> pa_bytes_used pa'" "pa_bytes_used pa' \<le> ds"
  shows "area_ok ds pa'" "bt_extends pa pa'"
proof -
  have fresh: "pa_data pa off = None" "off \<noteq> 0" "cur < off"
    using area_fresh [OF ok] area_used_pos [OF ok] area_below [OF ok cur(1)] off by auto
  note edges = linked_edges [OF cur(1,2) fresh(1,2) data]
  have tree: "area_tree_ok pa" and objs: "area_objects_ok pa" using ok by (simp_all add: area_ok_def)
  obtain r where root: "pa_data pa 0 = Some (Obj_bt r)" "bt_left r = 0" "bt_right r = 0" "bt_prop r = 0"
    using tree by (auto simp: area_tree_ok_def)
  have tree': "area_tree_ok pa'"
    unfolding area_tree_ok_def
  proof (intro conjI allI impI)
    show "\<exists>b. deref_bt pa' 0 = Some b \<and> bt_left b = 0 \<and> bt_right b = 0 \<and> bt_prop b = 0"
      using root cur(1,3) fresh(2) data by (cases "cur = 0") auto
  next
    fix p m to_off assume "bt_edge pa' p m to_off"
    then have to: "(p = cur \<and> to_off = off) \<or> (p < to_off \<and> (\<exists>c. pa_data pa to_off = Some (Obj_bt c)))"
      using edges tree unfolding area_tree_ok_def by (metis deref_bt_data not_None_eq)
    then show "p < to_off" using fresh(3) by blast
    show "deref_bt pa' to_off \<noteq> None" using to data by (cases "to_off = cur") auto
  next
    fix p q m n to_off assume "bt_edge pa' p m to_off" "bt_edge pa' q n to_off"
    moreover have "\<not> bt_edge pa x y off" for x y
      using tree fresh(1) unfolding area_tree_ok_def by (metis deref_bt_data not_None_eq option.distinct(1))
    moreover have "bt_edge pa p m to_off \<Longrightarrow> bt_edge pa q n to_off \<Longrightarrow> p = q \<and> m = n"
      using tree unfolding area_tree_ok_def by blast
    ultimately have "p = q \<and> m = n" unfolding edges by blast
    then show "p = q" "m = n" by simp_all
  next
    fix p c assume "deref_bt pa' p = Some c"
    then show "NUL \<notin> set (bt_name c)"
      using tree name cur(1) data unfolding area_tree_ok_def by (auto split: if_splits)
  next
    fix p c assume c: "deref_bt pa' p = Some c" "bt_prop c \<noteq> 0"
    then have "\<exists>i. pa_data pa (bt_prop c) = Some (Obj_info i)"
      using tree cur(1) data unfolding area_tree_ok_def by (auto split: if_splits)
    then show "deref_info pa' (bt_prop c) \<noteq> None" using data fresh(1) cur(1) by auto
  next
    fix p q c d assume c: "deref_bt pa' p = Some c" "deref_bt pa' q = Some d" "bt_prop c \<noteq> 0" "bt_prop c = bt_prop d"
    have "\<exists>c1. deref_bt pa r = Some c1 \<and> bt_prop c1 = bt_prop e" if "deref_bt pa' r = Some e" "bt_prop e \<noteq> 0" for r e
      using that cur(1) data by (cases "r = cur"; cases "r = off") (auto split: if_splits)
    then obtain c1 d1 where "deref_bt pa p = Some c1" "deref_bt pa q = Some d1" "bt_prop c1 = bt_prop c" "bt_prop d1 = bt_prop d"
      using c by metis
    moreover have "\<forall>p q b c. deref_bt pa p = Some b \<longrightarrow> deref_bt pa q = Some c \<longrightarrow> bt_prop b \<noteq> 0 \<longrightarrow> bt_prop b = bt_prop c \<longrightarrow> p = q"
      using tree unfolding area_tree_ok_def by blast
    ultimately show "p = q" using c(3,4) by metis
  qed
  have old: "\<exists>y. pa_data pa o1 = Some y \<and> obj_end o1 x = obj_end o1 y"
    if "pa_data pa' o1 = Some x" "o1 \<noteq> off" for o1 x
    using that cur(1) data by (auto simp: obj_end_def split: if_splits)
  have new: "obj_end off x = off + (sizeof_prop_bt + length name + 1)" if "pa_data pa' off = Some x" for x
    using that data fresh(2,3) by (auto simp: obj_end_def)
  have objs': "area_objects_ok pa'"
    unfolding area_objects_ok_def
  proof (intro conjI allI impI)
    fix o1 x assume "pa_data pa' o1 = Some x"
    then show "obj_end o1 x \<le> pa_bytes_used pa'" using old [of o1 x] objs used(1) off fresh(2) new
      unfolding area_objects_ok_def by (cases "o1 = off") (fastforce+)
  next
    fix o1 o2 x assume o: "pa_data pa' o1 = Some x" "pa_data pa' o2 \<noteq> None" "o1 < o2"
    show "obj_end o1 x \<le> o2"
    proof (cases "o1 = off")
      case True
      then have "pa_data pa o2 = None" using area_fresh [OF ok] off o(3) by simp
      then have "o2 = off \<or> o2 = cur" using o(2) data by (auto split: if_splits)
      then show ?thesis using True o(3) fresh(3) by auto
    next
      case False
      from old [OF o(1) False] obtain y where y: "pa_data pa o1 = Some y" "obj_end o1 x = obj_end o1 y" by blast
      show ?thesis
      proof (cases "o2 = off")
        case True
        then show ?thesis using y objs off unfolding area_objects_ok_def by force
      next
        case False
        then have "pa_data pa o2 \<noteq> None" using o(2) data cur(1) by (auto split: if_splits)
        then show ?thesis using y objs o(3) unfolding area_objects_ok_def by force
      qed
    qed
  qed
  from tree' objs' show "area_ok ds pa'" using ok used(2) by (simp add: area_ok_def)
  show "bt_extends pa pa'"
    unfolding bt_extends_def using data cur(1,2) fresh by auto
qed

lemma new_linked_cases:
  assumes ok: "area_ok ds pa" and cur: "pa_data pa cur = Some (Obj_bt b)" "get_link l b = 0" "cur = 0 \<Longrightarrow> l = Link_children"
    and name: "NUL \<notin> set name" and new: "new_linked ds l cur b name pa = (r, pa')"
  obtains (full) "r = None" "pa' = pa"
  | (linked) off where "r = Some off" "off \<noteq> 0" "pa_data pa off = None" "area_ok ds pa'" "bt_extends pa pa'"
      "pa_data pa' off = Some (Obj_bt (prop_bt_new name))" "pa_data pa' cur = Some (Obj_bt (set_link l off b))"
      "pa_serial pa' = pa_serial pa"
proof (cases "allocate_obj ds (sizeof_prop_bt + length name + 1) pa")
  case None
  then show thesis using new full by (simp add: new_linked_def new_prop_bt_def)
next
  case (Some r0)
  then obtain off pa0 where alloc: "allocate_obj ds (sizeof_prop_bt + length name + 1) pa = Some (off, pa0)"
    by (cases r0) auto
  note a = allocate_obj_Some [OF ok alloc]
  have pa': "r = Some off" "pa' = put_object cur (Obj_bt (set_link l off b))
      (put_object off (Obj_bt (prop_bt_new name)) pa0)"
    using new alloc by (simp_all add: new_linked_def new_prop_bt_def)
  have data: "pa_data pa' = (pa_data pa)(off \<mapsto> Obj_bt (prop_bt_new name), cur \<mapsto> Obj_bt (set_link l off b))"
    by (simp add: pa' a(2))
  have used: "off + (sizeof_prop_bt + length name + 1) \<le> pa_bytes_used pa'" "pa_bytes_used pa' \<le> ds"
    using a(3,4) by (simp_all add: pa')
  have "cur < off" using area_below [OF ok cur(1)] a(1) by simp
  then show thesis
    using linked_ok [OF ok cur name a(1) data used] area_fresh [OF ok, of off] area_used_pos [OF ok] a(1,5) data
    by (intro linked [OF pa'(1)]) (simp_all add: pa')
qed

section \<open>Searching the siblings\<close>

lemma find_sibling_step:
  assumes "area_ok ds pa" "pa_data pa cur = Some (Obj_bt b)"
  shows "find_sibling ds cur name alloc pa =
     (let ret = cmp_prop_name name (bt_name b); l = (if ret < 0 then Link_left else Link_right)
      in if ret = 0 then Some (Some cur, pa)
         else if get_link l b \<noteq> 0 then find_sibling ds (get_link l b) name alloc pa
         else if \<not> alloc then Some (None, pa)
         else Some (new_linked ds l cur b name pa))"
proof -
  have "get_link l b \<noteq> 0 \<Longrightarrow> to_prop_obj ds (get_link l b) = Some (get_link l b)" for l
    using area_edge [OF assms, of l] assms(1) by (metis area_to_prop_obj)
  moreover have "deref_bt pa cur = Some b" using assms(2) by simp
  ultimately show ?thesis
    by (subst find_sibling.simps) (simp add: Let_def del: deref_bt_data)
qed

lemma find_sibling_defined:
  assumes ok: "area_ok ds pa" and cur: "pa_data pa cur = Some (Obj_bt b)"
  shows "\<exists>r. find_sibling ds cur name False pa = Some (r, pa) \<and> (\<forall>x. r = Some x \<longrightarrow> (\<exists>c. pa_data pa x = Some (Obj_bt c)))"
  using ok cur
proof (induction rule: area_induct)
  case (node p b)
  let ?l = "if cmp_prop_name name (bt_name b) < 0 then Link_left else Link_right"
  show ?case
  proof (cases "cmp_prop_name name (bt_name b) = 0 \<or> get_link ?l b = 0")
    case True
    then show ?thesis using node.hyps(1) by (auto simp: find_sibling_step [OF ok node.hyps(1)] Let_def)
  next
    case False
    then obtain c where "pa_data pa (get_link ?l b) = Some (Obj_bt c)" using area_edge [OF ok node.hyps(1)] by metis
    with node.IH False show ?thesis by (simp add: find_sibling_step [OF ok node.hyps(1)] Let_def)
  qed
qed

text \<open>What is found stays found when the area grows, and what is found anew is a new node.\<close>

lemma find_sibling_kept:
  assumes ok: "area_ok ds pa" and ok': "area_ok ds pa'" and ext: "bt_extends pa pa'"
    and cur: "pa_data pa cur = Some (Obj_bt b)"
  shows "find_sibling ds cur name False pa = Some (Some x, pa) \<Longrightarrow> find_sibling ds cur name False pa' = Some (Some x, pa')"
  using ok cur
proof (induction rule: area_induct)
  case (node p b)
  let ?l = "if cmp_prop_name name (bt_name b) < 0 then Link_left else Link_right"
  obtain b' where b': "pa_data pa' p = Some (Obj_bt b')" "bt_name b' = bt_name b"
    "\<And>l. get_link l b \<noteq> 0 \<Longrightarrow> get_link l b' = get_link l b"
    using bt_extendsD(1) [OF ext node.hyps(1)] by metis
  note steps = find_sibling_step [OF ok node.hyps(1)] find_sibling_step [OF ok' b'(1)]
  show ?case
  proof (cases "cmp_prop_name name (bt_name b) = 0 \<or> get_link ?l b = 0")
    case True
    then show ?thesis using node.prems by (auto simp: steps b'(2) Let_def split: if_splits)
  next
    case False
    then obtain c where "pa_data pa (get_link ?l b) = Some (Obj_bt c)" using area_edge [OF ok node.hyps(1)] by metis
    with node.IH node.prems False show ?thesis by (auto simp: steps b'(2,3) Let_def)
  qed
qed

lemma find_sibling_new:
  assumes ok: "area_ok ds pa" and ok': "area_ok ds pa'" and ext: "bt_extends pa pa'"
    and cur: "pa_data pa' cur = Some (Obj_bt b')"
  shows "find_sibling ds cur name False pa' = Some (Some x, pa')
    \<Longrightarrow> (pa_data pa cur = None \<or> find_sibling ds cur name False pa = Some (None, pa)) \<Longrightarrow> pa_data pa x = None"
  using ok' cur
proof (induction rule: area_induct)
  case (node p b')
  let ?l = "if cmp_prop_name name (bt_name b') < 0 then Link_left else Link_right"
  note step' = find_sibling_step [OF ok' node.hyps(1)]
  have next_node: "get_link ?l b' \<noteq> 0 \<and> find_sibling ds (get_link ?l b') name False pa' = Some (Some x, pa')"
    if "cmp_prop_name name (bt_name b') \<noteq> 0"
    using node.prems(1) that by (auto simp: step' Let_def split: if_splits)
  have target: "\<exists>c. pa_data pa' (get_link ?l b') = Some (Obj_bt c)" if "get_link ?l b' \<noteq> 0"
    using area_edge [OF ok' node.hyps(1) that] by metis
  show ?case
  proof (cases "pa_data pa p")
    case None
    have "get_link l b' = 0 \<or> pa_data pa (get_link l b') = None" for l
      using bt_extendsD(3) [OF ext None node.hyps(1)] by auto
    then have "get_link ?l b' \<noteq> 0 \<Longrightarrow> pa_data pa (get_link ?l b') = None" by metis
    then show ?thesis using node.IH next_node target None node.prems(1)
      by (cases "cmp_prop_name name (bt_name b') = 0") (auto simp: step' Let_def)
  next
    case (Some y)
    with bt_extendsD(2) [OF ext Some] node.hyps(1) obtain b where b: "pa_data pa p = Some (Obj_bt b)" by fastforce
    from bt_extendsD(1) [OF ext b] node.hyps(1) have same: "bt_name b' = bt_name b"
      "get_link l b' = get_link l b \<or> get_link l b = 0 \<and> pa_data pa (get_link l b') = None" for l by auto
    note step = find_sibling_step [OF ok b]
    have none: "find_sibling ds p name False pa = Some (None, pa)" using node.prems(2) b by simp
    then have ne: "cmp_prop_name name (bt_name b') \<noteq> 0" by (auto simp: step same(1) Let_def)
    have "pa_data pa (get_link ?l b') = None \<or> find_sibling ds (get_link ?l b') name False pa = Some (None, pa)"
      using same(2) [of ?l] none ne next_node [OF ne] by (auto simp: step same(1) Let_def split: if_splits)
    then show ?thesis using node.IH next_node [OF ne] target by blast
  qed
qed

text \<open>Searching with allocation: the node is found, or made where the search ended, or there is no room.\<close>

lemma find_sibling_alloc:
  assumes ok: "area_ok ds pa" and name: "NUL \<notin> set name" and cur: "pa_data pa cur = Some (Obj_bt b)"
  shows "cur \<noteq> 0 \<Longrightarrow> \<exists>r pa'. find_sibling ds cur name True pa = Some (r, pa') \<and> area_ok ds pa' \<and> bt_extends pa pa'
     \<and> pa_serial pa' = pa_serial pa
     \<and> (\<forall>x. r = Some x \<longrightarrow> find_sibling ds cur name False pa' = Some (Some x, pa'))
     \<and> (\<forall>x. find_sibling ds cur name False pa = Some (Some x, pa) \<longrightarrow> r = Some x \<and> pa' = pa)"
  using ok cur
proof (induction rule: area_induct)
  case (node p b)
  let ?l = "if cmp_prop_name name (bt_name b) < 0 then Link_left else Link_right"
  note step = find_sibling_step [OF ok node.hyps(1)]
  show ?case
  proof (cases "cmp_prop_name name (bt_name b) = 0")
    case True
    then show ?thesis by (simp add: step Let_def ok)
  next
    case ne: False
    show ?thesis
    proof (cases "get_link ?l b = 0")
      case False
      then obtain c where c: "p < get_link ?l b" "pa_data pa (get_link ?l b) = Some (Obj_bt c)"
        using area_edge [OF ok node.hyps(1)] by metis
      from node.IH [OF False c(2)] c(1) obtain r pa' where r: "find_sibling ds (get_link ?l b) name True pa = Some (r, pa')"
        "area_ok ds pa'" "bt_extends pa pa'" "pa_serial pa' = pa_serial pa"
        "\<forall>x. r = Some x \<longrightarrow> find_sibling ds (get_link ?l b) name False pa' = Some (Some x, pa')"
        "\<forall>x. find_sibling ds (get_link ?l b) name False pa = Some (Some x, pa) \<longrightarrow> r = Some x \<and> pa' = pa" by auto
      obtain b' where b': "pa_data pa' p = Some (Obj_bt b')" "bt_name b' = bt_name b" "get_link ?l b' = get_link ?l b"
        using bt_extendsD(1) [OF r(3) node.hyps(1)] False by metis
      have "find_sibling ds p name False pa' = find_sibling ds (get_link ?l b) name False pa'"
        using find_sibling_step [OF r(2) b'(1), of name False] ne False by (simp add: b'(2,3) Let_def)
      moreover have "find_sibling ds p name alloc pa = find_sibling ds (get_link ?l b) name alloc pa" for alloc
        using step [of name alloc] ne False by (simp add: Let_def)
      ultimately show ?thesis using r by auto
    next
      case True
      obtain r pa' where new: "new_linked ds ?l p b name pa = (r, pa')" by (cases "new_linked ds ?l p b name pa")
      have found: "find_sibling ds p name True pa = Some (r, pa')" "find_sibling ds p name False pa = Some (None, pa)"
        using step ne True new by (simp_all add: Let_def)
      have zero: "p = 0 \<Longrightarrow> ?l = Link_children" using node.prems by simp
      consider (full) "r = None" "pa' = pa"
        | (linked) off where "r = Some off" "off \<noteq> 0" "area_ok ds pa'" "bt_extends pa pa'" "pa_serial pa' = pa_serial pa"
          "pa_data pa' off = Some (Obj_bt (prop_bt_new name))" "pa_data pa' p = Some (Obj_bt (set_link ?l off b))"
        using new_linked_cases [OF ok node.hyps(1) True zero name new] by metis
      then show ?thesis
      proof cases
        case full
        then show ?thesis using found ok by simp
      next
        case (linked off)
        have "find_sibling ds off name False pa' = Some (Some off, pa')"
          using find_sibling_step [OF linked(3,6)] by simp
        then have "find_sibling ds p name False pa' = Some (Some off, pa')"
          using find_sibling_step [OF linked(3,7), of name False] ne linked(2) by (simp add: Let_def)
        then show ?thesis using found linked by simp
      qed
    qed
  qed
qed

section \<open>Walking the trie\<close>

lemma find_node_step:
  assumes ok: "area_ok ds pa" and cur: "pa_data pa cur = Some (Obj_bt b)" and token: "token \<noteq> ''''"
  shows "find_node ds cur (token # rest) False pa =
     (if bt_children b = 0 then Some (None, pa)
      else case find_sibling ds (bt_children b) token False pa of
             Some (Some node, pa) \<Rightarrow> find_node ds node rest False pa
           | other \<Rightarrow> other)"
proof -
  have "bt_children b \<noteq> 0 \<Longrightarrow> to_prop_obj ds (bt_children b) = Some (bt_children b)"
    using area_edge [OF ok cur, of Link_children] ok by (metis area_to_prop_obj get_link.simps(3))
  moreover have "deref_bt pa cur = Some b" using cur by simp
  ultimately show ?thesis using token by (simp add: Let_def del: deref_bt_data)
qed

lemma find_node_empty [simp]: "find_node ds cur ('''' # rest) alloc pa = Some (None, pa)"
  by simp

lemma area_children:
  assumes "area_ok ds pa" "pa_data pa p = Some (Obj_bt b)" "bt_children b \<noteq> 0"
  obtains c where "p < bt_children b" "pa_data pa (bt_children b) = Some (Obj_bt c)"
  using area_edge [OF assms(1,2), of Link_children] assms(3) by auto

lemma find_node_defined:
  assumes ok: "area_ok ds pa" and cur: "pa_data pa cur = Some (Obj_bt b)"
  shows "\<exists>r. find_node ds cur tokens False pa = Some (r, pa) \<and> (\<forall>x. r = Some x \<longrightarrow> (\<exists>c. pa_data pa x = Some (Obj_bt c)))"
  using cur
proof (induction tokens arbitrary: cur b)
  case (Cons token rest)
  show ?case
  proof (cases "token = '''' \<or> bt_children b = 0")
    case True
    then show ?thesis using find_node_step [OF ok Cons.prems] by (cases "token = ''''") simp_all
  next
    case False
    then obtain c where "pa_data pa (bt_children b) = Some (Obj_bt c)" using area_children [OF ok Cons.prems] by metis
    from find_sibling_defined [OF ok this, of token] obtain r where
      r: "find_sibling ds (bt_children b) token False pa = Some (r, pa)" "\<And>x. r = Some x \<Longrightarrow> \<exists>c. pa_data pa x = Some (Obj_bt c)"
      by blast
    show ?thesis
    proof (cases r)
      case None
      then show ?thesis using False r(1) find_node_step [OF ok Cons.prems] by simp
    next
      case (Some x)
      with r(2) obtain d where "pa_data pa x = Some (Obj_bt d)" by blast
      from Cons.IH [OF this] show ?thesis using False r(1) Some find_node_step [OF ok Cons.prems] by simp
    qed
  qed
qed auto

lemma find_node_Cons_found:
  assumes ok: "area_ok ds pa" and cur: "pa_data pa cur = Some (Obj_bt b)"
  shows "find_node ds cur (token # rest) False pa = Some (Some x, pa) \<longleftrightarrow> token \<noteq> '''' \<and> bt_children b \<noteq> 0
    \<and> (\<exists>y. find_sibling ds (bt_children b) token False pa = Some (Some y, pa) \<and> find_node ds y rest False pa = Some (Some x, pa))"
proof (cases "token = '''' \<or> bt_children b = 0")
  case True
  then show ?thesis using find_node_step [OF ok cur] by (cases "token = ''''") simp_all
next
  case False
  then obtain c where "pa_data pa (bt_children b) = Some (Obj_bt c)" using area_children [OF ok cur] by metis
  from find_sibling_defined [OF ok this, of token] obtain r where "find_sibling ds (bt_children b) token False pa = Some (r, pa)"
    by blast
  with False show ?thesis using find_node_step [OF ok cur] by (cases r) simp_all
qed

lemma find_node_kept:
  assumes ok: "area_ok ds pa" and ok': "area_ok ds pa'" and ext: "bt_extends pa pa'"
    and cur: "pa_data pa cur = Some (Obj_bt b)"
  shows "find_node ds cur tokens False pa = Some (Some x, pa) \<Longrightarrow> find_node ds cur tokens False pa' = Some (Some x, pa')"
  using cur
proof (induction tokens arbitrary: cur b)
  case (Cons token rest)
  obtain b' where b': "pa_data pa' cur = Some (Obj_bt b')" "bt_children b \<noteq> 0 \<Longrightarrow> bt_children b' = bt_children b"
    using bt_extendsD(1) [OF ext Cons.prems(2)] by (metis get_link.simps(3))
  from Cons.prems(1) obtain y where y: "token \<noteq> ''''" "bt_children b \<noteq> 0"
    "find_sibling ds (bt_children b) token False pa = Some (Some y, pa)" "find_node ds y rest False pa = Some (Some x, pa)"
    unfolding find_node_Cons_found [OF ok Cons.prems(2)] by blast
  obtain c where c: "pa_data pa (bt_children b) = Some (Obj_bt c)" using area_children [OF ok Cons.prems(2) y(2)] by metis
  obtain d where "pa_data pa y = Some (Obj_bt d)" using find_sibling_defined [OF ok c, of token] y(3) by auto
  from Cons.IH [OF y(4) this] show ?case
    unfolding find_node_Cons_found [OF ok' b'(1)] using y(1,2) b'(2) find_sibling_kept [OF ok ok' ext c y(3)] by simp
qed simp

lemma find_node_new:
  assumes ok: "area_ok ds pa" and ok': "area_ok ds pa'" and ext: "bt_extends pa pa'"
    and cur: "pa_data pa' cur = Some (Obj_bt b')"
  shows "find_node ds cur tokens False pa' = Some (Some x, pa')
    \<Longrightarrow> pa_data pa cur = None \<or> find_node ds cur tokens False pa = Some (None, pa) \<Longrightarrow> pa_data pa x = None"
  using cur
proof (induction tokens arbitrary: cur b')
  case (Cons token rest)
  from Cons.prems(1) obtain y where y: "token \<noteq> ''''" "bt_children b' \<noteq> 0"
    "find_sibling ds (bt_children b') token False pa' = Some (Some y, pa')" "find_node ds y rest False pa' = Some (Some x, pa')"
    unfolding find_node_Cons_found [OF ok' Cons.prems(3)] by blast
  obtain c where c: "pa_data pa' (bt_children b') = Some (Obj_bt c)" using area_children [OF ok' Cons.prems(3) y(2)] by metis
  obtain d where d: "pa_data pa' y = Some (Obj_bt d)" using find_sibling_defined [OF ok' c, of token] y(3) by auto
  have "pa_data pa y = None \<or> find_node ds y rest False pa = Some (None, pa)"
  proof (cases "pa_data pa cur")
    case None
    from bt_extendsD(3) [OF ext None Cons.prems(3)] y(2) have "pa_data pa (bt_children b') = None"
      by (metis get_link.simps(3) pa_object.inject(1))
    then show ?thesis using find_sibling_new [OF ok ok' ext c y(3)] by simp
  next
    case (Some z)
    with bt_extendsD(2) [OF ext Some] Cons.prems(3) obtain b where b: "pa_data pa cur = Some (Obj_bt b)" by fastforce
    show ?thesis
    proof (cases "bt_children b = 0")
      case True
      then have "pa_data pa (bt_children b') = None"
        using bt_extendsD(1) [OF ext b] Cons.prems(3) y(2) by (metis get_link.simps(3) option.inject pa_object.inject(1))
      then show ?thesis using find_sibling_new [OF ok ok' ext c y(3)] by simp
    next
      case False
      then have same: "bt_children b' = bt_children b"
        using bt_extendsD(1) [OF ext b] Cons.prems(3) by (metis get_link.simps(3) option.inject pa_object.inject(1))
      obtain e where e: "pa_data pa (bt_children b) = Some (Obj_bt e)" using area_children [OF ok b False] by metis
      from find_sibling_defined [OF ok e, of token] obtain r where r: "find_sibling ds (bt_children b) token False pa = Some (r, pa)"
        by blast
      show ?thesis
      proof (cases r)
        case None
        then show ?thesis using find_sibling_new [OF ok ok' ext c y(3)] r same by simp
      next
        case (Some v)
        then have "v = y" using find_sibling_kept [OF ok ok' ext e] r y(3) same by simp
        moreover have "find_node ds cur (token # rest) False pa = Some (None, pa)" using Cons.prems(2) b by simp
        ultimately show ?thesis using find_node_step [OF ok b y(1)] False r Some by simp
      qed
    qed
  qed
  from Cons.IH [OF y(4) this d] show ?case .
qed simp

lemma find_node_alloc_sibling:
  assumes ok: "area_ok ds pa1" and ok': "area_ok ds pa'" and ext: "bt_extends pa1 pa'"
    and cur: "pa_data pa1 cur = Some (Obj_bt b)" "bt_children b \<noteq> 0" "token \<noteq> ''''"
    and sib: "find_sibling ds (bt_children b) token False pa1 = Some (Some y, pa1)"
    and below: "find_node ds y rest False pa' = Some (Some x, pa')"
  shows "find_node ds cur (token # rest) False pa' = Some (Some x, pa')"
proof -
  obtain b' where b': "pa_data pa' cur = Some (Obj_bt b')" "bt_children b' = bt_children b"
    using bt_extendsD(1) [OF ext cur(1)] cur(2) by (metis get_link.simps(3))
  obtain c where c: "pa_data pa1 (bt_children b) = Some (Obj_bt c)" using area_children [OF ok cur(1,2)] by metis
  show ?thesis
    unfolding find_node_Cons_found [OF ok' b'(1)]
    using cur(2,3) b'(2) below find_sibling_kept [OF ok ok' ext c sib] by simp
qed

text \<open>The walk with allocation finds a node, or makes those that miss as long as there is room.\<close>

definition alloc_result ::
  "nat \<Rightarrow> nat \<Rightarrow> string list \<Rightarrow> prop_area \<Rightarrow> nat option \<Rightarrow> prop_area \<Rightarrow> bool" where
  "alloc_result ds cur tokens pa r pa' \<longleftrightarrow> area_ok ds pa' \<and> bt_extends pa pa' \<and> pa_serial pa' = pa_serial pa
     \<and> (\<forall>x. r = Some x \<longrightarrow> find_node ds cur tokens False pa' = Some (Some x, pa'))
     \<and> (\<forall>x. find_node ds cur tokens False pa = Some (Some x, pa) \<longrightarrow> r = Some x \<and> pa' = pa)"

lemma find_node_alloc:
  assumes "area_ok ds pa" "pa_data pa cur = Some (Obj_bt b)" "\<forall>t \<in> set tokens. NUL \<notin> set t"
  shows "\<exists>r pa'. find_node ds cur tokens True pa = Some (r, pa') \<and> alloc_result ds cur tokens pa r pa'"
  using assms
proof (induction tokens arbitrary: cur b pa)
  case Nil
  then show ?case by (simp add: alloc_result_def)
next
  case (Cons token rest)
  note ok = Cons.prems(1) and cur = Cons.prems(2)
  have nul: "NUL \<notin> set token" "\<forall>t \<in> set rest. NUL \<notin> set t" using Cons.prems(3) by auto
  have deref: "deref_bt pa cur = Some b" using cur by simp
  show ?case
  proof (cases "token = ''''")
    case True
    then show ?thesis using ok by (simp add: alloc_result_def)
  next
    case tok: False
    show ?thesis
    proof (cases "bt_children b = 0")
      case False
      obtain c where c: "cur < bt_children b" "pa_data pa (bt_children b) = Some (Obj_bt c)"
        using area_children [OF ok cur False] by metis
      from find_sibling_alloc [OF ok nul(1) c(2)] False obtain r1 pa1 where
        r1: "find_sibling ds (bt_children b) token True pa = Some (r1, pa1)" "area_ok ds pa1" "bt_extends pa pa1"
          "pa_serial pa1 = pa_serial pa"
          "\<And>x. r1 = Some x \<Longrightarrow> find_sibling ds (bt_children b) token False pa1 = Some (Some x, pa1)"
          "\<And>x. find_sibling ds (bt_children b) token False pa = Some (Some x, pa) \<Longrightarrow> r1 = Some x \<and> pa1 = pa" by blast
      have eq: "find_node ds cur (token # rest) True pa =
          (case r1 of None \<Rightarrow> Some (None, pa1) | Some y \<Rightarrow> find_node ds y rest True pa1)"
        using tok deref False area_to_prop_obj [OF ok c(2)] r1(1) by (simp del: deref_bt_data split: option.splits)
      show ?thesis
      proof (cases r1)
        case None
        then have "\<not> find_node ds cur (token # rest) False pa = Some (Some x, pa)" for x
          using r1(6) unfolding find_node_Cons_found [OF ok cur] by auto
        then show ?thesis using eq None r1(2-4) by (simp add: alloc_result_def del: find_node.simps)
      next
        case (Some y)
        obtain b1 where b1: "pa_data pa1 cur = Some (Obj_bt b1)" "bt_children b1 = bt_children b"
          using bt_extendsD(1) [OF r1(3) cur] False by (metis get_link.simps(3))
        obtain c1 where "pa_data pa1 (bt_children b) = Some (Obj_bt c1)"
          using area_children [OF r1(2) b1(1)] b1(2) False by metis
        from find_sibling_defined [OF r1(2) this, of token] r1(5) [OF Some]
        obtain d where d: "pa_data pa1 y = Some (Obj_bt d)" by auto
        from Cons.IH [OF r1(2) d nul(2)] obtain r pa' where
          r: "find_node ds y rest True pa1 = Some (r, pa')" "alloc_result ds y rest pa1 r pa'" by blast
        have found: "find_node ds cur (token # rest) False pa' = Some (Some x, pa')" if "r = Some x" for x
          using r(2) that b1(2) False tok r1(5) [OF Some]
          by (intro find_node_alloc_sibling [OF r1(2) _ _ b1(1)]) (auto simp: alloc_result_def simp del: find_node.simps)
        have same: "r = Some x \<and> pa' = pa" if "find_node ds cur (token # rest) False pa = Some (Some x, pa)" for x
          using that r1(6) r(2) Some unfolding find_node_Cons_found [OF ok cur] by (auto simp: alloc_result_def)
        show ?thesis
          using eq Some r found same r1(3,4) bt_extends_trans [OF r1(3)] by (auto simp: alloc_result_def simp del: find_node.simps)
      qed
    next
      case True
      obtain r1 pa1 where new: "new_linked ds Link_children cur b token pa = (r1, pa1)"
        by (cases "new_linked ds Link_children cur b token pa")
      have none: "find_node ds cur (token # rest) False pa = Some (None, pa)"
        using find_node_step [OF ok cur tok] True by simp
      have "get_link Link_children b = 0" using True by simp
      then consider (full) "r1 = None" "pa1 = pa"
        | (linked) off where "r1 = Some off" "off \<noteq> 0" "area_ok ds pa1" "bt_extends pa pa1" "pa_serial pa1 = pa_serial pa"
          "pa_data pa1 off = Some (Obj_bt (prop_bt_new token))" "pa_data pa1 cur = Some (Obj_bt (set_link Link_children off b))"
        using new_linked_cases [OF ok cur _ _ nul(1) new] by metis
      then show ?thesis
      proof cases
        case full
        then show ?thesis using new tok deref True none ok by (simp add: alloc_result_def del: deref_bt_data)
      next
        case (linked off)
        have sib: "find_sibling ds off token alloc pa1 = Some (Some off, pa1)" for alloc
          using find_sibling_step [OF linked(3,6), of token alloc] by simp
        have eq: "find_node ds cur (token # rest) True pa = find_node ds off rest True pa1"
          using tok deref True new linked(1) sib by (simp del: deref_bt_data)
        from Cons.IH [OF linked(3,6) nul(2)] obtain r pa' where
          r: "find_node ds off rest True pa1 = Some (r, pa')" "alloc_result ds off rest pa1 r pa'" by blast
        have found: "find_node ds cur (token # rest) False pa' = Some (Some x, pa')" if "r = Some x" for x
          using r(2) that linked(2) tok sib
          by (intro find_node_alloc_sibling [OF linked(3) _ _ linked(7)]) (auto simp: alloc_result_def simp del: find_node.simps)
        show ?thesis
          using eq r found none linked(5) bt_extends_trans [OF linked(4)] by (auto simp: alloc_result_def simp del: find_node.simps)
      qed
    qed
  qed
qed

section \<open>Paths\<close>

text \<open>The tokens of a node. A node has one parent, so the tokens are its own.\<close>

inductive node_at :: "prop_area \<Rightarrow> nat \<Rightarrow> string list \<Rightarrow> bool" for pa where
  root: "node_at pa 0 []"
| child: "node_at pa p ts \<Longrightarrow> bt_edge pa p Link_children x \<Longrightarrow> pa_data pa x = Some (Obj_bt b)
    \<Longrightarrow> node_at pa x (ts @ [bt_name b])"
| sibling: "node_at pa p (ts @ [t]) \<Longrightarrow> bt_edge pa p l x \<Longrightarrow> l \<noteq> Link_children \<Longrightarrow> pa_data pa x = Some (Obj_bt b)
    \<Longrightarrow> node_at pa x (ts @ [bt_name b])"

lemma edge_unique:
  assumes "area_ok ds pa" "bt_edge pa p l x" "bt_edge pa q m x"
  shows "p = q \<and> l = m"
  using assms unfolding area_ok_def area_tree_ok_def by blast

lemma edge_up:
  assumes "area_ok ds pa" "bt_edge pa p l x"
  shows "p < x"
  using assms unfolding area_ok_def area_tree_ok_def by blast

lemma node_at_unique:
  assumes ok: "area_ok ds pa"
  shows "node_at pa x ts \<Longrightarrow> node_at pa x ts2 \<Longrightarrow> ts = ts2"
proof (induction arbitrary: ts2 rule: node_at.induct)
  case root
  then show ?case using edge_up [OF ok] by (cases rule: node_at.cases) auto
next
  case (child p ts x b)
  from child.prems show ?case
  proof (cases rule: node_at.cases)
    case root
    then show ?thesis using edge_up [OF ok child.hyps(2)] by simp
  next
    case (child q us b2)
    then show ?thesis using edge_unique [OF ok child.hyps(2)] child.IH \<open>pa_data pa x = Some (Obj_bt b)\<close> by fastforce
  next
    case (sibling q us t l b2)
    then show ?thesis using edge_unique [OF ok child.hyps(2)] by fastforce
  qed
next
  case (sibling p ts t l x b)
  from sibling.prems show ?case
  proof (cases rule: node_at.cases)
    case root
    then show ?thesis using edge_up [OF ok sibling.hyps(2)] by simp
  next
    case (child q us b2)
    then show ?thesis using edge_unique [OF ok sibling.hyps(2)] sibling.hyps(3) by fastforce
  next
    case other: (sibling q us u m b2)
    then have "p = q" using edge_unique [OF ok sibling.hyps(2)] by blast
    with sibling.IH [of "us @ [u]"] other sibling.hyps(4) show ?thesis by simp
  qed
qed

lemma node_at_last: "node_at pa x (ts @ [t]) \<Longrightarrow> pa_data pa x = Some (Obj_bt b) \<Longrightarrow> t = bt_name b"
  by (erule node_at.cases) auto

lemma area_name: "area_ok ds pa \<Longrightarrow> pa_data pa x = Some (Obj_bt b) \<Longrightarrow> NUL \<notin> set (bt_name b)"
  unfolding area_ok_def area_tree_ok_def by simp

lemma find_sibling_at:
  assumes ok: "area_ok ds pa" and name: "NUL \<notin> set name" and cur: "pa_data pa cur = Some (Obj_bt b)"
  shows "node_at pa cur (ts @ [t]) \<Longrightarrow> find_sibling ds cur name False pa = Some (Some x, pa) \<Longrightarrow> node_at pa x (ts @ [name])"
  using ok cur
proof (induction arbitrary: t rule: area_induct)
  case (node p b)
  note step = find_sibling_step [OF ok node.hyps(1)]
  let ?l = "if cmp_prop_name name (bt_name b) < 0 then Link_left else Link_right"
  show ?case
  proof (cases "cmp_prop_name name (bt_name b) = 0")
    case True
    then have "name = bt_name b" using cmp_prop_name_eq_0 [OF name area_name [OF ok node.hyps(1)]] by simp
    moreover have "x = p" using node.prems(2) True by (simp add: step Let_def)
    ultimately show ?thesis using node.prems(1) node_at_last [OF node.prems(1) node.hyps(1)] by simp
  next
    case False
    with node.prems(2) have l: "get_link ?l b \<noteq> 0" "find_sibling ds (get_link ?l b) name False pa = Some (Some x, pa)"
      by (auto simp: step Let_def split: if_splits)
    then obtain c where c: "pa_data pa (get_link ?l b) = Some (Obj_bt c)" using area_edge [OF ok node.hyps(1)] by metis
    have "bt_edge pa p ?l (get_link ?l b)" using node.hyps(1) l(1) by (simp add: bt_edge_def)
    from node_at.sibling [OF node.prems(1) this _ c] have "node_at pa (get_link ?l b) (ts @ [bt_name c])" by simp
    from node.IH [OF l(1) c this l(2)] show ?thesis .
  qed
qed

lemma find_node_at:
  assumes ok: "area_ok ds pa" and cur: "pa_data pa cur = Some (Obj_bt b)"
  shows "\<forall>t \<in> set tokens. NUL \<notin> set t \<Longrightarrow> node_at pa cur ts
    \<Longrightarrow> find_node ds cur tokens False pa = Some (Some x, pa) \<Longrightarrow> node_at pa x (ts @ tokens)"
  using cur
proof (induction tokens arbitrary: cur b ts)
  case (Cons token rest)
  from Cons.prems(3) obtain y where y: "bt_children b \<noteq> 0"
    "find_sibling ds (bt_children b) token False pa = Some (Some y, pa)" "find_node ds y rest False pa = Some (Some x, pa)"
    unfolding find_node_Cons_found [OF ok Cons.prems(4)] by blast
  obtain c where c: "pa_data pa (bt_children b) = Some (Obj_bt c)" using area_children [OF ok Cons.prems(4) y(1)] by metis
  obtain d where d: "pa_data pa y = Some (Obj_bt d)" using find_sibling_defined [OF ok c, of token] y(2) by auto
  have "bt_edge pa cur Link_children (bt_children b)" using Cons.prems(4) y(1) by (simp add: bt_edge_def)
  from node_at.child [OF Cons.prems(2) this c] have "node_at pa (bt_children b) (ts @ [bt_name c])" .
  from find_sibling_at [OF ok _ c this y(2)] Cons.prems(1) have "node_at pa y (ts @ [token])" by simp
  from Cons.IH [OF _ this y(3) d] Cons.prems(1) show ?case by simp
qed simp

abbreviation name_ok :: "string \<Rightarrow> bool" where "name_ok name \<equiv> NUL \<notin> set name"

lemma name_ok_tokens: "name_ok name \<Longrightarrow> \<forall>t \<in> set (name_tokens name). NUL \<notin> set t"
  using name_tokens_chars by blast

lemma area_root: "area_ok ds pa \<Longrightarrow> \<exists>b. pa_data pa 0 = Some (Obj_bt b)"
  by (auto simp: area_ok_def area_tree_ok_def)

text \<open>A name is found at a node of its own, which is not the root.\<close>

definition name_node :: "nat \<Rightarrow> string \<Rightarrow> prop_area \<Rightarrow> nat option" where
  "name_node ds name pa = Option.bind (find_prop_bt ds 0 name False pa) fst"

lemma find_prop_bt_node:
  assumes "area_ok ds pa"
  shows "find_prop_bt ds 0 name False pa = Some (name_node ds name pa, pa)"
    "name_node ds name pa = Some x \<Longrightarrow> \<exists>b. pa_data pa x = Some (Obj_bt b)"
proof -
  obtain b where "pa_data pa 0 = Some (Obj_bt b)" using area_root [OF assms] by blast
  from find_node_defined [OF assms this, of "name_tokens name"]
  show "find_prop_bt ds 0 name False pa = Some (name_node ds name pa, pa)"
    "name_node ds name pa = Some x \<Longrightarrow> \<exists>b. pa_data pa x = Some (Obj_bt b)"
    by (auto simp: name_node_def find_prop_bt_def)
qed

lemma name_node_found:
  "area_ok ds pa \<Longrightarrow> name_node ds name pa = r \<longleftrightarrow> find_node ds 0 (name_tokens name) False pa = Some (r, pa)"
  using find_prop_bt_node(1) [of ds pa name] by (auto simp: find_prop_bt_def)

lemma name_node_at:
  assumes "area_ok ds pa" "name_ok name" "name_node ds name pa = Some x"
  shows "node_at pa x (name_tokens name)"
  using find_node_at [OF assms(1) _ name_ok_tokens [OF assms(2)] node_at.root] area_root [OF assms(1)] assms(3)
  by (auto simp: name_node_found [OF assms(1)])

lemma name_node_inj:
  assumes "area_ok ds pa" "name_ok name1" "name_ok name2" "name_node ds name1 pa = Some x" "name_node ds name2 pa = Some x"
  shows "name1 = name2"
  using node_at_unique [OF assms(1) name_node_at [OF assms(1,2,4)] name_node_at [OF assms(1,3,5)]]
  by (rule name_tokens_inj)

lemma name_node_pos:
  assumes "area_ok ds pa" "name_ok name" "name_node ds name pa = Some x"
  shows "x \<noteq> 0"
  using node_at_unique [OF assms(1) name_node_at [OF assms], of "[]"] node_at.root name_tokens_not_Nil by metis

section \<open>Finding\<close>

lemma area_prop:
  assumes "area_ok ds pa" "pa_data pa x = Some (Obj_bt b)" "bt_prop b \<noteq> 0"
  obtains i where "pa_data pa (bt_prop b) = Some (Obj_info i)"
  using assms unfolding area_ok_def area_tree_ok_def by (metis deref_bt_data deref_info_data not_None_eq)

definition node_prop :: "prop_area \<Rightarrow> nat \<Rightarrow> nat option" where
  "node_prop pa x = (case pa_data pa x of Some (Obj_bt b) \<Rightarrow> if bt_prop b = 0 then None else Some (bt_prop b) | _ \<Rightarrow> None)"

lemma pa_find_node:
  assumes ok: "area_ok ds pa"
  shows "pa_find ds name pa = Some (Option.bind (name_node ds name pa) (node_prop pa))"
proof (cases "name_node ds name pa")
  case None
  then show ?thesis by (simp add: pa_find_def find_property_def find_prop_bt_node(1) [OF ok])
next
  case (Some x)
  obtain b where b: "pa_data pa x = Some (Obj_bt b)" using find_prop_bt_node(2) [OF ok Some] by blast
  have "bt_prop b \<noteq> 0 \<Longrightarrow> to_prop_obj ds (bt_prop b) = Some (bt_prop b)"
    using area_prop [OF ok b] ok by (metis area_to_prop_obj)
  then show ?thesis using b
    by (simp add: pa_find_def find_property_def find_prop_bt_node(1) [OF ok] Some node_prop_def deref_bt_def)
qed

lemma node_prop_Some:
  "node_prop pa x = Some off \<longleftrightarrow> (\<exists>b. pa_data pa x = Some (Obj_bt b) \<and> bt_prop b = off) \<and> off \<noteq> 0"
  by (auto simp: node_prop_def split: option.splits pa_object.splits)

lemma pa_find_Some:
  assumes "area_ok ds pa"
  shows "pa_find ds name pa = Some (Some off) \<longleftrightarrow> (\<exists>x b. name_node ds name pa = Some x
    \<and> pa_data pa x = Some (Obj_bt b) \<and> bt_prop b = off) \<and> off \<noteq> 0"
  by (auto simp: pa_find_node [OF assms] bind_eq_Some_conv node_prop_Some)

lemma pa_find_info:
  assumes "area_ok ds pa" "pa_find ds name pa = Some (Some off)"
  shows "\<exists>i. deref_info pa off = Some i"
  using assms(2) area_prop [OF assms(1)] unfolding pa_find_Some [OF assms(1)] by (metis deref_info_data)

text \<open>Two names do not share a property.\<close>

lemma pa_find_inj:
  assumes "area_ok ds pa" "name_ok name1" "name_ok name2"
    "pa_find ds name1 pa = Some (Some off)" "pa_find ds name2 pa = Some (Some off)"
  shows "name1 = name2"
proof -
  obtain x1 x2 b1 b2 where x: "name_node ds name1 pa = Some x1" "name_node ds name2 pa = Some x2"
    "pa_data pa x1 = Some (Obj_bt b1)" "pa_data pa x2 = Some (Obj_bt b2)" "bt_prop b1 = off" "bt_prop b2 = off" "off \<noteq> 0"
    using assms(4,5) unfolding pa_find_Some [OF assms(1)] by blast
  then have "x1 = x2" using assms(1) unfolding area_ok_def area_tree_ok_def by (metis deref_bt_data)
  with name_node_inj [OF assms(1-3)] x(1,2) show ?thesis by metis
qed

lemma pa_find_grown:
  assumes ok: "area_ok ds pa" and ok': "area_ok ds pa'" and ext: "bt_extends pa pa'"
  shows "pa_find ds name pa' = pa_find ds name pa"
proof -
  obtain b where b: "pa_data pa 0 = Some (Obj_bt b)" using area_root [OF ok] by blast
  obtain b' where b': "pa_data pa' 0 = Some (Obj_bt b')" using area_root [OF ok'] by blast
  show ?thesis
  proof (cases "name_node ds name pa")
    case (Some x)
    then have found: "find_node ds 0 (name_tokens name) False pa = Some (Some x, pa)" by (simp add: name_node_found [OF ok])
    from find_node_kept [OF ok ok' ext b found] have "name_node ds name pa' = Some x" by (simp add: name_node_found [OF ok'])
    moreover obtain c where c: "pa_data pa x = Some (Obj_bt c)" using find_prop_bt_node(2) [OF ok Some] by blast
    ultimately show ?thesis using bt_extendsD(1) [OF ext c] Some
      by (auto simp: pa_find_node [OF ok] pa_find_node [OF ok'] node_prop_def)
  next
    case None
    show ?thesis
    proof (cases "name_node ds name pa'")
      case (Some x)
      then have "pa_data pa x = None"
        using find_node_new [OF ok ok' ext b', of "name_tokens name" x] None
        by (simp add: name_node_found [OF ok'] name_node_found [OF ok])
      moreover obtain c where "pa_data pa' x = Some (Obj_bt c)" using find_prop_bt_node(2) [OF ok' Some] by blast
      ultimately have "node_prop pa' x = None" using bt_extendsD(3) [OF ext] by (force simp: node_prop_def)
      with Some None show ?thesis by (simp add: pa_find_node [OF ok] pa_find_node [OF ok'])
    qed (simp add: None pa_find_node [OF ok] pa_find_node [OF ok'])
  qed
qed

end
