(* ===== verification/Prop_Area_Facts.thy ===== *)
theory Prop_Area_Facts
  imports Prop_Area_Tree
begin

text \<open>
  The property area implements a map from names to properties: adding and deleting keep it well
  formed, change what is found for the name they are given, and for no other name.
\<close>

section \<open>Values\<close>

text \<open>The value as its readers see it.\<close>

definition info_value :: "prop_area \<Rightarrow> nat \<Rightarrow> prop_info \<Rightarrow> string option" where
  "info_value pa off i =
     (if pi_is_long i then pi_long_value pa off i
      else Some (take (unat (drop_bit 24 (pi_serial i))) (pi_union i)))"

lemma of_le32_le32: "n < 2 ^ 32 \<Longrightarrow> of_le32 (le32 n) = n"
proof -
  assume n: "n < 2 ^ 32"
  have upto: "[0..<4] = [0, 1, 2, 3 :: nat]" by code_simp
  have "of_le32 (le32 n) = n mod 256 + 256 * (n div 256 mod 256 + 256 * (n div 256 ^ 2 mod 256 + 256 * (n div 256 ^ 3 mod 256)))"
    using upto by (simp add: of_le32_def le32_def del: upt_Suc)
  also have "\<dots> = n"
  proof -
    have "n div 256 ^ 3 < 256" using n by (simp add: less_mult_imp_div_less)
    moreover have "n div 256 ^ 2 = n div 256 div 256" "n div 256 ^ 3 = n div 256 ^ 2 div 256"
      by (simp_all add: div_mult2_eq)
    ultimately show ?thesis by (metis mod_less mult_div_mod_eq add.commute mult.commute)
  qed
  finally show ?thesis .
qed

lemma length_le32 [simp]: "length (le32 n) = 4"
  by (simp add: le32_def)

lemma kLongLegacyError_length: "length kLongLegacyError = 50"
  by (simp add: kLongLegacyError_def)

lemma pi_long_offset_long: "n < 2 ^ 32 \<Longrightarrow> pi_long_offset (prop_info_long name n) = n"
  by (simp add: pi_long_offset_def prop_info_long_def kLongLegacyErrorBufferSize_def kLongLegacyError_length of_le32_le32)

lemma pi_is_long_long: "pi_is_long (prop_info_long name n)"
  unfolding pi_is_long_def prop_info_long_def kLongFlag_def kLongLegacyError_length by simp

lemma short_serial:
  assumes "length v < PROP_VALUE_MAX"
  shows "\<not> pi_is_long (prop_info_short name v)" "unat (drop_bit 24 (pi_serial (prop_info_short name v))) = length v"
proof -
  have len: "length v < 92" using assms by (simp add: PROP_VALUE_MAX_def)
  have "push_bit 24 (of_nat (length v)) AND push_bit 16 1 = (0 :: u32)"
    by (rule bit_word_eqI) (simp only: bit_and_iff bit_push_bit_iff bit_1_iff bit_0_eq, auto)
  then show "\<not> pi_is_long (prop_info_short name v)"
    by (simp add: pi_is_long_def prop_info_short_def kLongFlag_def)
  have "push_bit 24 (of_nat (length v)) = (of_nat (length v * 2 ^ 24) :: u32)"
    by (simp add: push_bit_eq_mult)
  moreover have "unat (of_nat (length v * 2 ^ 24) :: u32) = length v * 2 ^ 24"
    using len by (subst unat_of_nat) simp
  ultimately have "unat (push_bit 24 (of_nat (length v)) :: u32) = length v * 2 ^ 24" by (simp only:)
  moreover have "unat (drop_bit 24 w) = unat w div 2 ^ 24" for w :: u32
    by (metis unat_drop_bit_eq drop_bit_eq_div)
  ultimately show "unat (drop_bit 24 (pi_serial (prop_info_short name v))) = length v"
    by (simp add: prop_info_short_def)
qed

lemma pi_name_new [simp]: "pi_name (prop_info_short name v) = name" "pi_name (prop_info_long name n) = name"
  by (simp_all add: prop_info_short_def prop_info_long_def)

lemma info_value_short: "length v < PROP_VALUE_MAX \<Longrightarrow> info_value pa off (prop_info_short name v) = Some v"
  using short_serial [of v name] by (simp add: info_value_def) (simp add: prop_info_short_def)

lemma info_value_long:
  assumes "n < 2 ^ 32" "pa_data pa (off + n) = Some (Obj_bytes v)" "NUL \<notin> set v"
  shows "info_value pa off (prop_info_long name n) = Some v"
proof -
  have "c_string v = v" using assms(3) by (auto simp: c_string_def takeWhile_eq_all_conv)
  with assms(1,2) show ?thesis by (simp add: info_value_def pi_is_long_long pi_long_value_def pi_long_offset_long)
qed

section \<open>Changing properties\<close>

text \<open>The same trie: the nodes keep their names and links.\<close>

definition same_trie :: "prop_area \<Rightarrow> prop_area \<Rightarrow> bool" where
  "same_trie pa pa' \<longleftrightarrow> (\<forall>off b. pa_data pa off = Some (Obj_bt b)
     \<longrightarrow> (\<exists>p. pa_data pa' off = Some (Obj_bt (b\<lparr>bt_prop := p\<rparr>))))"

lemma get_link_prop [simp]: "get_link l (b\<lparr>bt_prop := p\<rparr>) = get_link l b"
  by (cases l) simp_all

lemma same_trieI: "(\<And>p b. pa_data pa p = Some (Obj_bt b) \<Longrightarrow> pa_data pa' p = Some (Obj_bt b)) \<Longrightarrow> same_trie pa pa'"
  unfolding same_trie_def
proof (intro allI impI)
  fix p b assume "\<And>p b. pa_data pa p = Some (Obj_bt b) \<Longrightarrow> pa_data pa' p = Some (Obj_bt b)" "pa_data pa p = Some (Obj_bt b)"
  then show "\<exists>q. pa_data pa' p = Some (Obj_bt (b\<lparr>bt_prop := q\<rparr>))" by (intro exI [of _ "bt_prop b"]) simp
qed

lemma find_sibling_same:
  assumes ok: "area_ok ds pa" and ok': "area_ok ds pa'" and same: "same_trie pa pa'"
    and cur: "pa_data pa cur = Some (Obj_bt b)"
  shows "find_sibling ds cur name False pa = Some (r, pa) \<Longrightarrow> find_sibling ds cur name False pa' = Some (r, pa')"
  using ok cur
proof (induction rule: area_induct)
  case (node p b)
  let ?l = "if cmp_prop_name name (bt_name b) < 0 then Link_left else Link_right"
  obtain q where q: "pa_data pa' p = Some (Obj_bt (b\<lparr>bt_prop := q\<rparr>))" using same node.hyps(1) unfolding same_trie_def by blast
  note steps = find_sibling_step [OF ok node.hyps(1)] find_sibling_step [OF ok' q]
  show ?case
  proof (cases "cmp_prop_name name (bt_name b) = 0 \<or> get_link ?l b = 0")
    case True
    then show ?thesis using node.prems by (auto simp: steps Let_def split: if_splits)
  next
    case False
    then obtain c where "pa_data pa (get_link ?l b) = Some (Obj_bt c)" using area_edge [OF ok node.hyps(1)] by metis
    with node.IH node.prems False show ?thesis by (auto simp: steps Let_def)
  qed
qed

lemma find_node_same:
  assumes ok: "area_ok ds pa" and ok': "area_ok ds pa'" and same: "same_trie pa pa'"
    and cur: "pa_data pa cur = Some (Obj_bt b)"
  shows "find_node ds cur tokens False pa = Some (r, pa) \<Longrightarrow> find_node ds cur tokens False pa' = Some (r, pa')"
  using cur
proof (induction tokens arbitrary: cur b)
  case (Cons token rest)
  obtain q where q: "pa_data pa' cur = Some (Obj_bt (b\<lparr>bt_prop := q\<rparr>))" using same Cons.prems(2) unfolding same_trie_def by blast
  show ?case
  proof (cases "token = '''' \<or> bt_children b = 0")
    case True
    then show ?thesis using Cons.prems(1) find_node_step [OF ok Cons.prems(2)] find_node_step [OF ok' q]
      by (cases "token = ''''") simp_all
  next
    case False
    then have tok: "token \<noteq> ''''" by simp
    obtain c where c: "pa_data pa (bt_children b) = Some (Obj_bt c)" using False area_children [OF ok Cons.prems(2)] by metis
    from find_sibling_defined [OF ok c, of token] obtain s where
      s: "find_sibling ds (bt_children b) token False pa = Some (s, pa)" "\<And>x. s = Some x \<Longrightarrow> \<exists>d. pa_data pa x = Some (Obj_bt d)"
      by blast
    note s' = find_sibling_same [OF ok ok' same c s(1)]
    show ?thesis
    proof (cases s)
      case None
      then show ?thesis
        using Cons.prems(1) s(1) s' False find_node_step [OF ok Cons.prems(2) tok] find_node_step [OF ok' q tok] by simp
    next
      case (Some x)
      with s(2) obtain d where d: "pa_data pa x = Some (Obj_bt d)" by blast
      have "find_node ds x rest False pa = Some (r, pa)"
        using Cons.prems(1) s(1) Some False find_node_step [OF ok Cons.prems(2) tok] by simp
      from Cons.IH [OF this d] show ?thesis using s' Some False find_node_step [OF ok' q tok] by simp
    qed
  qed
qed simp

lemma name_node_same:
  assumes ok: "area_ok ds pa" and ok': "area_ok ds pa'" and same: "same_trie pa pa'"
  shows "name_node ds name pa' = name_node ds name pa"
proof -
  obtain b where "pa_data pa 0 = Some (Obj_bt b)" using area_root [OF ok] by blast
  moreover have "find_node ds 0 (name_tokens name) False pa = Some (name_node ds name pa, pa)"
    using name_node_found [OF ok, of name] by blast
  ultimately show ?thesis using find_node_same [OF ok ok' same] name_node_found [OF ok', of name] by blast
qed

text \<open>Storing a new object that is not a node, and setting the property of a node.\<close>

lemma store_object_ok:
  assumes ok: "area_ok ds pa" and x: "\<not> (\<exists>b. x = Obj_bt b)" and off: "pa_bytes_used pa \<le> off"
    and data: "pa_data pa' = (pa_data pa)(off \<mapsto> x)"
    and used: "off + obj_size x \<le> pa_bytes_used pa'" "pa_bytes_used pa' \<le> ds"
  shows "area_ok ds pa'"
proof -
  have fresh: "pa_data pa off = None" "off \<noteq> 0" using area_fresh [OF ok off] area_used_pos [OF ok] off by auto
  have tree: "area_tree_ok pa" and objs: "area_objects_ok pa" using ok by (simp_all add: area_ok_def)
  have bt: "deref_bt pa' = deref_bt pa" using x data fresh(1) by (auto simp: deref_bt_def fun_eq_iff split: pa_object.splits)
  have info: "deref_info pa p \<noteq> None \<Longrightarrow> deref_info pa' p \<noteq> None" for p
    using data fresh(1) by (auto simp: deref_info_def split: option.splits)
  have tree': "area_tree_ok pa'"
    unfolding area_tree_ok_def bt_edge_def bt
  proof (intro conjI)
    show "\<forall>p b. deref_bt pa p = Some b \<longrightarrow> bt_prop b \<noteq> 0 \<longrightarrow> deref_info pa' (bt_prop b) \<noteq> None"
      using tree info unfolding area_tree_ok_def by blast
  qed (use tree in \<open>unfold area_tree_ok_def bt_edge_def, blast\<close>)+
  have objs': "area_objects_ok pa'"
    unfolding area_objects_ok_def
  proof (intro conjI allI impI)
    fix o1 y assume y: "pa_data pa' o1 = Some y"
    show "obj_end o1 y \<le> pa_bytes_used pa'"
    proof (cases "o1 = off")
      case True
      then show ?thesis using y data used(1) fresh(2) by (simp add: obj_end_def)
    next
      case False
      then have "obj_end o1 y \<le> pa_bytes_used pa" using y data objs by (simp add: area_objects_ok_def)
      with off used(1) show ?thesis by linarith
    qed
  next
    fix o1 o2 y assume o: "pa_data pa' o1 = Some y" "pa_data pa' o2 \<noteq> None" "o1 < o2"
    show "obj_end o1 y \<le> o2"
    proof (cases "o1 = off")
      case True
      then show ?thesis using o(2,3) data off area_fresh [OF ok, of o2] by auto
    next
      case False
      then have y: "pa_data pa o1 = Some y" using o(1) data by simp
      show ?thesis
      proof (cases "o2 = off")
        case True
        have "obj_end o1 y \<le> pa_bytes_used pa" using y objs by (simp add: area_objects_ok_def)
        with True off show ?thesis by linarith
      next
        case False
        then have "pa_data pa o2 \<noteq> None" using o(2) data by simp
        then show ?thesis using y o(3) objs unfolding area_objects_ok_def by blast
      qed
    qed
  qed
  from tree' objs' show ?thesis using ok used(2) by (simp add: area_ok_def)
qed

lemma set_prop_ok:
  assumes ok: "area_ok ds pa" and x: "pa_data pa x = Some (Obj_bt b)" "x \<noteq> 0"
    and off: "off = 0 \<or> deref_info pa off \<noteq> None \<and> (\<forall>q c. pa_data pa q = Some (Obj_bt c) \<longrightarrow> bt_prop c \<noteq> off)"
    and data: "pa_data pa' = (pa_data pa)(x \<mapsto> Obj_bt (b\<lparr>bt_prop := off\<rparr>))" and used: "pa_bytes_used pa' = pa_bytes_used pa"
  shows "area_ok ds pa'" "same_trie pa pa'"
proof -
  have tree: "area_tree_ok pa" and objs: "area_objects_ok pa" using ok by (simp_all add: area_ok_def)
  have edges: "bt_edge pa' p l to_off \<longleftrightarrow> bt_edge pa p l to_off" for p l to_off
    using data x(1) by (auto simp: bt_edge_def)
  have bt: "\<exists>c0. deref_bt pa p = Some c0 \<and> bt_name c = bt_name c0 \<and> bt_prop c = (if p = x then off else bt_prop c0)"
    if "deref_bt pa' p = Some c" for p c
    using that data x(1) by (auto split: if_splits)
  have info: "deref_info pa' p = deref_info pa p" for p using data x(1) by (simp add: deref_info_def)
  have node: "deref_bt pa p \<noteq> None \<Longrightarrow> deref_bt pa' p \<noteq> None" for p using data by (auto simp: deref_bt_def)
  have "area_tree_ok pa'"
    unfolding area_tree_ok_def edges info
  proof (intro conjI)
    show "\<exists>b. deref_bt pa' 0 = Some b \<and> bt_left b = 0 \<and> bt_right b = 0 \<and> bt_prop b = 0"
      using tree data x(2) unfolding area_tree_ok_def by (simp add: deref_bt_def)
    show "\<forall>p l off. bt_edge pa p l off \<longrightarrow> p < off \<and> deref_bt pa' off \<noteq> None"
      using tree node unfolding area_tree_ok_def by blast
    show "\<forall>p q l m off. bt_edge pa p l off \<longrightarrow> bt_edge pa q m off \<longrightarrow> p = q \<and> l = m"
      using tree unfolding area_tree_ok_def by blast
    show "\<forall>p b. deref_bt pa' p = Some b \<longrightarrow> NUL \<notin> set (bt_name b)"
      using tree bt unfolding area_tree_ok_def by metis
    show "\<forall>p b. deref_bt pa' p = Some b \<longrightarrow> bt_prop b \<noteq> 0 \<longrightarrow> deref_info pa (bt_prop b) \<noteq> None"
      using tree bt off unfolding area_tree_ok_def by metis
    have uniq: "\<And>p q b c. deref_bt pa p = Some b \<Longrightarrow> deref_bt pa q = Some c \<Longrightarrow> bt_prop b \<noteq> 0 \<Longrightarrow> bt_prop b = bt_prop c \<Longrightarrow> p = q"
      using tree unfolding area_tree_ok_def by blast
    show "\<forall>p q b c. deref_bt pa' p = Some b \<longrightarrow> deref_bt pa' q = Some c \<longrightarrow> bt_prop b \<noteq> 0 \<longrightarrow> bt_prop b = bt_prop c \<longrightarrow> p = q"
    proof (intro allI impI)
      fix p q c d assume c: "deref_bt pa' p = Some c" "deref_bt pa' q = Some d" "bt_prop c \<noteq> 0" "bt_prop c = bt_prop d"
      from bt [OF c(1)] bt [OF c(2)] obtain c0 d0 where
        p: "deref_bt pa p = Some c0" "bt_prop c = (if p = x then off else bt_prop c0)" and
        q: "deref_bt pa q = Some d0" "bt_prop d = (if q = x then off else bt_prop d0)" by blast
      show "p = q"
        using uniq [OF p(1) q(1)] p q c(3,4) off by (auto split: if_splits)
    qed
  qed
  moreover have "area_objects_ok pa'"
  proof -
    have "\<exists>z. pa_data pa o1 = Some z \<and> obj_end o1 y = obj_end o1 z" if "pa_data pa' o1 = Some y" for o1 y
      using that data x(1) by (auto simp: obj_end_def split: if_splits)
    moreover have "pa_data pa' o2 \<noteq> None \<Longrightarrow> pa_data pa o2 \<noteq> None" for o2 using data x(1) by (auto split: if_splits)
    ultimately show ?thesis using objs used unfolding area_objects_ok_def by metis
  qed
  ultimately show "area_ok ds pa'" using ok used by (simp add: area_ok_def)
  show "same_trie pa pa'"
    unfolding same_trie_def
  proof (intro allI impI)
    fix p c assume "pa_data pa p = Some (Obj_bt c)"
    then show "\<exists>q. pa_data pa' p = Some (Obj_bt (c\<lparr>bt_prop := q\<rparr>))"
      using data x(1) by (cases "p = x") (auto intro: exI [of _ "bt_prop c"])
  qed
qed

lemma used_ok:
  assumes "area_ok ds pa" "pa_data pa' = pa_data pa" "pa_bytes_used pa \<le> pa_bytes_used pa'" "pa_bytes_used pa' \<le> ds"
  shows "area_ok ds pa'"
proof -
  have "deref_bt pa' = deref_bt pa" "deref_info pa' = deref_info pa"
    by (simp_all add: fun_eq_iff deref_bt_def deref_info_def assms(2))
  then have "area_tree_ok pa' = area_tree_ok pa" by (simp only: area_tree_ok_def bt_edge_def)
  then have "area_tree_ok pa'" using assms(1) by (simp only: area_ok_def)
  moreover have "area_objects_ok pa'"
    unfolding area_objects_ok_def assms(2)
  proof (intro conjI allI impI)
    fix off x assume "pa_data pa off = Some x"
    then have "obj_end off x \<le> pa_bytes_used pa" using assms(1) by (simp add: area_ok_def area_objects_ok_def)
    with assms(3) show "obj_end off x \<le> pa_bytes_used pa'" by linarith
  next
    fix off off2 x assume "pa_data pa off = Some x" "pa_data pa off2 \<noteq> None" "off < off2"
    then show "obj_end off x \<le> off2" using assms(1) unfolding area_ok_def area_objects_ok_def by blast
  qed
  ultimately show ?thesis using assms(1,4) by (simp add: area_ok_def)
qed

text \<open>The infos that are made for a value: short ones as they are, long ones at some offset.\<close>

definition new_infos :: "string \<Rightarrow> string \<Rightarrow> prop_info set" where
  "new_infos name v = (if length v < PROP_VALUE_MAX then {prop_info_short name v} else range (prop_info_long name))"

lemma new_prop_info_cases:
  assumes ok: "area_ok ds pa" and new: "new_prop_info ds name v pa = (r, pa')"
  obtains (full) "r = None" "pa_data pa' = pa_data pa" "area_ok ds pa'" "pa_serial pa' = pa_serial pa"
  | (stored) off i where "r = Some off" "off \<noteq> 0" "pa_data pa off = None" "area_ok ds pa'" "pa_serial pa' = pa_serial pa"
      "pa_data pa' off = Some (Obj_info i)"
      "pi_name i = name \<and> i \<in> new_infos name v" "NUL \<notin> set v \<Longrightarrow> info_value pa' off i = Some v"
      "\<And>p x. pa_data pa p = Some x \<Longrightarrow> pa_data pa' p = Some x" "same_trie pa pa'"
      "\<And>p b. pa_data pa' p = Some (Obj_bt b) \<Longrightarrow> pa_data pa p = Some (Obj_bt b)"
proof (cases "allocate_obj ds (sizeof_prop_info + length name + 1) pa")
  case None
  then show thesis using new ok by (intro full) (simp_all add: new_prop_info_def)
next
  case (Some r0)
  then obtain off pa0 where alloc: "allocate_obj ds (sizeof_prop_info + length name + 1) pa = Some (off, pa0)"
    by (cases r0) auto
  note a = allocate_obj_Some [OF ok alloc]
  have fresh: "pa_data pa off = None" "off \<noteq> 0" using area_fresh [OF ok] area_used_pos [OF ok] a(1) by auto
  have ok0: "area_ok ds pa0" using used_ok [OF ok a(2) _ a(4)] a(1,3) by simp
  show thesis
  proof (cases "PROP_VALUE_MAX \<le> length v")
    case False
    let ?i = "prop_info_short name v"
    have r: "r = Some off" "pa' = put_object off (Obj_info ?i) pa0" using new alloc False by (simp_all add: new_prop_info_def)
    have data: "pa_data pa' = (pa_data pa)(off \<mapsto> Obj_info ?i)" by (simp add: r(2) a(2))
    have ok': "area_ok ds pa'"
      using a(1,3,4) by (intro store_object_ok [OF ok _ _ data]) (simp_all add: r(2) prop_info_short_def)
    have same: "same_trie pa pa'"
      using data fresh(1) by (intro same_trieI) auto
    have kept: "pa_data pa p = Some x \<Longrightarrow> pa_data pa' p = Some x" for p x using data fresh(1) by auto
    have bts: "pa_data pa' p = Some (Obj_bt b) \<Longrightarrow> pa_data pa p = Some (Obj_bt b)" for p b
      using data by (simp split: if_splits)
    have info: "pa_data pa' off = Some (Obj_info ?i)" and ser: "pa_serial pa' = pa_serial pa" using data a(5) by (simp_all add: r(2))
    have found: "info_value pa' off ?i = Some v" using False by (intro info_value_short) simp
    show thesis by (rule stored [OF r(1) fresh(2,1) ok' ser info _ found kept same bts]) (use False in \<open>simp add: new_infos_def\<close>)
  next
    case True
    show thesis
    proof (cases "allocate_obj ds (length v + 1) pa0")
      case None
      then show thesis using new alloc True ok0 a(2,5) by (intro full) (simp_all add: new_prop_info_def)
    next
      case (Some r1)
      then obtain long pa1 where alloc1: "allocate_obj ds (length v + 1) pa0 = Some (long, pa1)" by (cases r1) auto
      note a1 = allocate_obj_Some [OF ok0 alloc1]
      let ?i = "prop_info_long name ((2 ^ 32 + long - off) mod 2 ^ 32)"
      have lt: "off < long" "long < 2 ^ 32" using a(3) a1(1,3,4) ok by (auto simp: area_ok_def)
      then have n: "(2 ^ 32 + long - off) mod 2 ^ 32 = long - off"
        by (metis Nat.add_diff_assoc less_imp_diff_less less_imp_le_nat mod_add_self1 mod_less)
      have r: "r = Some off" "pa' = put_object off (Obj_info ?i) (put_object long (Obj_bytes v) pa1)"
        using new alloc alloc1 True by (simp_all add: new_prop_info_def)
      let ?pa = "put_object off (Obj_info ?i) pa0"
      have ok1: "area_ok ds ?pa"
        using a(1,3,4) by (intro store_object_ok [OF ok, of "Obj_info ?i" off]) (simp_all add: prop_info_long_def a(2))
      have data1: "pa_data pa' = (pa_data ?pa)(long \<mapsto> Obj_bytes v)"
        using lt by (auto simp: r(2) a(2) a1(2) fun_eq_iff)
      have ok': "area_ok ds pa'"
        using a1(1,3,4) by (intro store_object_ok [OF ok1 _ _ data1]) (simp_all add: r(2))
      have data: "pa_data pa' = (pa_data pa)(long \<mapsto> Obj_bytes v, off \<mapsto> Obj_info ?i)" by (simp add: r(2) a(2) a1(2))
      have fresh2: "pa_data pa long = None" using area_fresh [OF ok] a(1) lt by simp
      have same: "same_trie pa pa'"
        using data fresh(1) fresh2 by (intro same_trieI) auto
      have found: "info_value pa' off ?i = Some v" if "NUL \<notin> set v"
        using lt that data unfolding n by (intro info_value_long) auto
      have kept: "pa_data pa p = Some x \<Longrightarrow> pa_data pa' p = Some x" for p x using data fresh(1) fresh2 by auto
      have bts: "pa_data pa' p = Some (Obj_bt b) \<Longrightarrow> pa_data pa p = Some (Obj_bt b)" for p b
        using data by (simp split: if_splits)
      have info: "pa_data pa' off = Some (Obj_info ?i)" and ser: "pa_serial pa' = pa_serial pa"
        using data a(5) a1(5) by (simp_all add: r(2))
      show thesis by (rule stored [OF r(1) fresh(2,1) ok' ser info _ found kept same bts]) (use True in \<open>auto simp: new_infos_def\<close>)
    qed
  qed
qed

text \<open>The outcome of adding.\<close>

definition add_outcome :: "nat \<Rightarrow> string \<Rightarrow> string \<Rightarrow> prop_area \<Rightarrow> bool \<Rightarrow> prop_area \<Rightarrow> bool" where
  "add_outcome ds name v pa added pa' \<longleftrightarrow> area_ok ds pa' \<and> pa_serial pa' = pa_serial pa
     \<and> (\<forall>n. name_ok n \<longrightarrow> n \<noteq> name \<or> \<not> added \<or> pa_find ds name pa \<noteq> Some None \<longrightarrow> pa_find ds n pa' = pa_find ds n pa)
     \<and> (\<forall>off x. pa_data pa off = Some x \<longrightarrow> \<not> (\<exists>b. x = Obj_bt b) \<longrightarrow> pa_data pa' off = Some x)
     \<and> (pa_find ds name pa \<noteq> Some None \<longrightarrow> added \<and> pa' = pa)
     \<and> (added \<longrightarrow> (\<exists>off i. pa_find ds name pa' = Some (Some off) \<and> deref_info pa' off = Some i
          \<and> (pa_find ds name pa = Some None \<longrightarrow> pa_data pa off = None \<and> pi_name i = name
               \<and> i \<in> new_infos name v
               \<and> (NUL \<notin> set v \<longrightarrow> info_value pa' off i = Some v))))"

lemma pa_add_outcome:
  assumes ok: "area_ok ds pa" and name: "name_ok name"
  shows "\<exists>added pa'. pa_add ds name v pa = Some (added, pa') \<and> add_outcome ds name v pa added pa'"
proof -
  obtain b0 where b0: "pa_data pa 0 = Some (Obj_bt b0)" using area_root [OF ok] by blast
  from find_node_alloc [OF ok b0 name_ok_tokens [OF name]] obtain r pa1 where
    walk: "find_prop_bt ds 0 name True pa = Some (r, pa1)" and res: "alloc_result ds 0 (name_tokens name) pa r pa1"
    unfolding find_prop_bt_def by blast
  have ok1: "area_ok ds pa1" and ext: "bt_extends pa pa1" and ser: "pa_serial pa1 = pa_serial pa"
    using res by (simp_all add: alloc_result_def)
  have found1: "name_node ds name pa1 = Some x" if "r = Some x" for x
    using res that by (simp add: alloc_result_def name_node_found [OF ok1])
  have same1: "r = Some x \<and> pa1 = pa" if "name_node ds name pa = Some x" for x
    using res that by (simp add: alloc_result_def name_node_found [OF ok])
  have find1: "pa_find ds n pa1 = pa_find ds n pa" for n by (rule pa_find_grown [OF ok ok1 ext])
  have kept1: "pa_data pa1 off = Some x" if "pa_data pa off = Some x" "\<not> (\<exists>b. x = Obj_bt b)" for off x
    by (rule bt_extendsD(2) [OF ext that])
  show ?thesis
  proof (cases r)
    case None
    then have none: "pa_find ds name pa = Some None" using same1 by (cases "name_node ds name pa") (auto simp: pa_find_node [OF ok])
    have "pa_add ds name v pa = Some (False, pa1)" by (simp add: pa_add_def find_property_def walk None)
    moreover have "add_outcome ds name v pa False pa1"
      using ok1 ser find1 kept1 none by (simp add: add_outcome_def)
    ultimately show ?thesis by blast
  next
    case (Some x)
    note node = found1 [OF Some]
    obtain b where b: "pa_data pa1 x = Some (Obj_bt b)" using find_prop_bt_node(2) [OF ok1 node] by blast
    show ?thesis
    proof (cases "bt_prop b = 0")
      case False
      have f1: "pa_find ds name pa1 = Some (Some (bt_prop b))" using node b False by (auto simp: pa_find_Some [OF ok1])
      then have "pa_find ds name pa = Some (Some (bt_prop b))" by (simp add: find1)
      then have "pa1 = pa" using same1 unfolding pa_find_Some [OF ok] by blast
      obtain i where i: "pa_data pa1 (bt_prop b) = Some (Obj_info i)" using area_prop [OF ok1 b False] by blast
      have "pa_add ds name v pa = Some (True, pa1)"
        using False area_to_prop_obj [OF ok1 i] b by (simp add: pa_add_def find_property_def walk Some deref_bt_def)
      moreover have "add_outcome ds name v pa True pa1"
        using ok f1 i \<open>pa1 = pa\<close> by (auto simp: add_outcome_def)
      ultimately show ?thesis by blast
    next
      case True
      then have none: "pa_find ds name pa = Some None"
        using node b by (simp add: find1 [symmetric] pa_find_node [OF ok1] node_prop_def)
      have x0: "x \<noteq> 0" by (rule name_node_pos [OF ok1 name node])
      obtain r2 pa2 where new: "new_prop_info ds name v pa1 = (r2, pa2)" by (cases "new_prop_info ds name v pa1")
      from ok1 new show ?thesis
      proof (cases rule: new_prop_info_cases)
        case full
        have ext2: "bt_extends pa1 pa2" using full(2) by (auto simp: bt_extends_def)
        have "pa_add ds name v pa = Some (False, pa2)"
          using True b new full(1) by (simp add: pa_add_def find_property_def walk Some deref_bt_def)
        moreover have "add_outcome ds name v pa False pa2"
          using full ser none find1 pa_find_grown [OF ok1 full(3) ext2] kept1 by (simp add: add_outcome_def)
        ultimately show ?thesis by blast
      next
        case (stored off i)
        let ?pa3 = "put_object x (Obj_bt (b\<lparr>bt_prop := off\<rparr>)) pa2"
        have b2: "pa_data pa2 x = Some (Obj_bt b)" by (rule stored(9) [OF b])
        have unused: "bt_prop c \<noteq> off" if "pa_data pa2 q = Some (Obj_bt c)" for q c
        proof
          assume eq: "bt_prop c = off"
          with area_prop [OF ok1 stored(11) [OF that]] stored(2,3) show False by auto
        qed
        have ok3: "area_ok ds ?pa3" and same3: "same_trie pa2 ?pa3"
          using set_prop_ok [OF stored(4) b2 x0, of off ?pa3] stored(6) unused by auto
        have nodes3: "name_node ds n ?pa3 = name_node ds n pa1" for n
          using name_node_same [OF ok1 stored(4,10)] name_node_same [OF stored(4) ok3 same3] by simp
        have props3: "node_prop ?pa3 p = node_prop pa1 p" if "p \<noteq> x" "pa_data pa1 p = Some (Obj_bt c)" for p c
          using that stored(9) by (simp add: node_prop_def)
        have others: "pa_find ds n ?pa3 = pa_find ds n pa" if n: "name_ok n" "n \<noteq> name" for n
        proof (cases "name_node ds n pa1")
          case None
          then show ?thesis by (simp add: find1 [symmetric] pa_find_node [OF ok1] pa_find_node [OF ok3] nodes3)
        next
          case (Some p)
          have "p \<noteq> x" using name_node_inj [OF ok1 n(1) name Some] node n(2) by blast
          moreover obtain c where "pa_data pa1 p = Some (Obj_bt c)" using find_prop_bt_node(2) [OF ok1 Some] by blast
          ultimately show ?thesis
            using props3 Some by (simp add: find1 [symmetric] pa_find_node [OF ok1] pa_find_node [OF ok3] nodes3)
        qed
        have this_one: "pa_find ds name ?pa3 = Some (Some off)"
          using stored(2) nodes3 node by (auto simp: pa_find_Some [OF ok3])
        have "off \<noteq> x" using stored(3) b by auto
        then have i3: "pa_data ?pa3 off = Some (Obj_info i)" using stored(6) by simp
        have val: "info_value ?pa3 off i = Some v" if "NUL \<notin> set v"
        proof -
          have "pi_long_value ?pa3 off i = pi_long_value pa2 off i"
            using b2 by (cases "off + pi_long_offset i = x") (simp_all add: pi_long_value_def)
          with stored(8) [OF that] show ?thesis by (simp add: info_value_def split: if_splits)
        qed
        have kept3: "pa_data ?pa3 p = Some y" if "pa_data pa p = Some y" "\<not> (\<exists>b. y = Obj_bt b)" for p y
          using stored(9) [OF kept1 [OF that]] that(2) b2 by (cases "p = x") auto
        have fresh: "pa_data pa off = None" using bt_extends_kept [OF ext stored(3)] .
        have "pa_add ds name v pa = Some (True, ?pa3)"
          using True b new stored(1) by (simp add: pa_add_def find_property_def walk Some deref_bt_def)
        moreover have "add_outcome ds name v pa True ?pa3"
          unfolding add_outcome_def using ok3 ser stored(5,7) others none kept3 this_one i3 val fresh by auto
        ultimately show ?thesis by blast
      qed
    qed
  qed
qed

text \<open>Deleting: the node stays, its property and the long value's bytes are not reused.\<close>

lemma pa_del_outcome:
  assumes ok: "area_ok ds pa" and name: "name_ok name"
  shows "\<exists>deleted pa'. pa_del ds name pa = Some (deleted, pa') \<and> area_ok ds pa' \<and> pa_serial pa' = pa_serial pa
     \<and> (pa_find ds name pa \<noteq> Some None \<longrightarrow> deleted)
     \<and> pa_find ds name pa' = Some None
     \<and> (\<forall>n. name_ok n \<longrightarrow> n \<noteq> name \<longrightarrow> pa_find ds n pa' = pa_find ds n pa)
     \<and> (\<forall>off x. pa_data pa off = Some x \<longrightarrow> \<not> (\<exists>b. x = Obj_bt b) \<longrightarrow> pa_data pa' off = Some x)"
proof (cases "name_node ds name pa")
  case None
  then have "pa_del ds name pa = Some (False, pa)" by (simp add: pa_del_def find_prop_bt_node(1) [OF ok])
  moreover have "pa_find ds name pa = Some None" using None by (simp add: pa_find_node [OF ok])
  ultimately show ?thesis using ok by (intro exI [of _ False] exI [of _ pa]) simp
next
  case (Some x)
  obtain b where b: "pa_data pa x = Some (Obj_bt b)" using find_prop_bt_node(2) [OF ok Some] by blast
  let ?pa = "put_object x (Obj_bt (b\<lparr>bt_prop := 0\<rparr>)) pa"
  have x0: "x \<noteq> 0" by (rule name_node_pos [OF ok name Some])
  have ok': "area_ok ds ?pa" and same: "same_trie pa ?pa" using set_prop_ok [OF ok b x0, of 0 ?pa] by auto
  have nodes: "name_node ds n ?pa = name_node ds n pa" for n by (rule name_node_same [OF ok ok' same])
  have others: "pa_find ds n ?pa = pa_find ds n pa" if n: "name_ok n" "n \<noteq> name" for n
  proof (cases "name_node ds n pa")
    case None
    then show ?thesis by (simp add: pa_find_node [OF ok] pa_find_node [OF ok'] nodes)
  next
    case other: (Some p)
    then have "p \<noteq> x" using name_node_inj [OF ok n(1) name other] Some n(2) by blast
    then show ?thesis using other by (simp add: pa_find_node [OF ok] pa_find_node [OF ok'] nodes node_prop_def)
  qed
  have "pa_del ds name pa = Some (True, ?pa)" using b by (simp add: pa_del_def find_prop_bt_node(1) [OF ok] Some deref_bt_def)
  moreover have "pa_find ds name ?pa = Some None" using Some by (simp add: pa_find_node [OF ok'] nodes node_prop_def)
  ultimately show ?thesis using ok' others b by (intro exI [of _ True] exI [of _ ?pa]) auto
qed

end
