(* ===== verification/Prop_Map.thy ===== *)
theory Prop_Map
  imports Prop_Area_Facts
begin

text \<open>
  The property area as a map from names to values, for any sequence of additions and deletions:
  the contract of such a store, what follows from it, and the area as an instance of it. The
  traversal visits all properties.
\<close>

section \<open>The contract of a property store\<close>

datatype store_op = Op_add string string | Op_del string

fun op_ok :: "store_op \<Rightarrow> bool" where
  "op_ok (Op_add name v) \<longleftrightarrow> name_ok name \<and> NUL \<notin> set v"
| "op_ok (Op_del name) \<longleftrightarrow> name_ok name"

text \<open>The operations one after the other, with the results of all.\<close>

fun run_ops ::
  "(string \<Rightarrow> string \<Rightarrow> 's \<Rightarrow> (bool \<times> 's) option) \<Rightarrow> (string \<Rightarrow> 's \<Rightarrow> (bool \<times> 's) option)
   \<Rightarrow> store_op list \<Rightarrow> 's \<Rightarrow> (bool list \<times> 's) option" where
  "run_ops add del [] s = Some ([], s)"
| "run_ops add del (Op_add name v # ops) s =
     Option.bind (add name v s) (\<lambda>(r, s). map_option (\<lambda>(rs, s). (r # rs, s)) (run_ops add del ops s))"
| "run_ops add del (Op_del name # ops) s =
     Option.bind (del name s) (\<lambda>(r, s). map_option (\<lambda>(rs, s). (r # rs, s)) (run_ops add del ops s))"

text \<open>The map that the operations stand for: a property that exists is not added again.\<close>

fun map_op :: "store_op \<Rightarrow> bool \<Rightarrow> (string \<Rightarrow> string option) \<Rightarrow> string \<Rightarrow> string option" where
  "map_op (Op_add name v) r m = (if r \<and> m name = None then m(name \<mapsto> v) else m)"
| "map_op (Op_del name) r m = m(name := None)"

fun map_ops :: "store_op list \<Rightarrow> bool list \<Rightarrow> (string \<Rightarrow> string option) \<Rightarrow> string \<Rightarrow> string option" where
  "map_ops (p # ops) (r # rs) m = map_ops ops rs (map_op p r m)"
| "map_ops ops rs m = m"

locale property_store =
  fixes inv :: "'s \<Rightarrow> bool"
    and look :: "'s \<Rightarrow> string \<Rightarrow> string option"
    and add :: "string \<Rightarrow> string \<Rightarrow> 's \<Rightarrow> (bool \<times> 's) option"
    and del :: "string \<Rightarrow> 's \<Rightarrow> (bool \<times> 's) option"
  assumes add_law: "inv s \<Longrightarrow> name_ok name \<Longrightarrow> NUL \<notin> set v \<Longrightarrow>
      \<exists>r s'. add name v s = Some (r, s') \<and> inv s'
        \<and> (\<forall>n. name_ok n \<longrightarrow> look s' n = map_op (Op_add name v) r (look s) n)"
    and del_law: "inv s \<Longrightarrow> name_ok name \<Longrightarrow>
      \<exists>r s'. del name s = Some (r, s') \<and> inv s' \<and> (\<forall>n. name_ok n \<longrightarrow> look s' n = map_op (Op_del name) r (look s) n)"
begin

lemma map_op_agrees:
  assumes "op_ok p" "\<And>n. name_ok n \<Longrightarrow> m1 n = m2 n" "name_ok n"
  shows "map_op p r m1 n = map_op p r m2 n"
  using assms by (cases p) auto

lemma map_ops_agrees:
  assumes "\<forall>p \<in> set ops. op_ok p" "\<And>n. name_ok n \<Longrightarrow> m1 n = m2 n" "name_ok n"
  shows "map_ops ops rs m1 n = map_ops ops rs m2 n"
  using assms(1,2)
proof (induction ops arbitrary: rs m1 m2)
  case step: (Cons p ops)
  show ?case
  proof (cases rs)
    case Nil
    then show ?thesis using step.prems(2) [OF assms(3)] by simp
  next
    case (Cons r rs2)
    have "map_op p r m1 k = map_op p r m2 k" if "name_ok k" for k
      by (rule map_op_agrees [OF _ _ that]) (use step.prems in simp_all)
    from step.IH [OF _ this] step.prems(1) Cons show ?thesis by simp
  qed
qed (use assms(3) in simp)

lemma run_law:
  assumes "inv s" "\<forall>p \<in> set ops. op_ok p"
  shows "\<exists>rs s'. run_ops add del ops s = Some (rs, s') \<and> inv s' \<and> length rs = length ops
    \<and> (\<forall>n. name_ok n \<longrightarrow> look s' n = map_ops ops rs (look s) n)"
  using assms
proof (induction ops arbitrary: s)
  case (Cons p ops)
  have "\<exists>r s1. run_ops add del (p # ops) s = map_option (\<lambda>(rs, s). (r # rs, s)) (run_ops add del ops s1)
      \<and> inv s1 \<and> (\<forall>n. name_ok n \<longrightarrow> look s1 n = map_op p r (look s) n)"
  proof (cases p)
    case (Op_add name v)
    with Cons.prems(2) have "name_ok name" "NUL \<notin> set v" by simp_all
    from add_law [OF Cons.prems(1) this] obtain r s1 where "add name v s = Some (r, s1)" "inv s1"
      "\<forall>n. name_ok n \<longrightarrow> look s1 n = map_op (Op_add name v) r (look s) n" by blast
    then show ?thesis by (intro exI [of _ r] exI [of _ s1]) (simp add: Op_add del: map_op.simps)
  next
    case (Op_del name)
    with Cons.prems(2) have "name_ok name" by simp
    from del_law [OF Cons.prems(1) this] obtain r s1 where "del name s = Some (r, s1)" "inv s1"
      "\<forall>n. name_ok n \<longrightarrow> look s1 n = map_op (Op_del name) r (look s) n" by blast
    then show ?thesis by (intro exI [of _ r] exI [of _ s1]) (simp add: Op_del del: map_op.simps)
  qed
  then obtain r s1 where s1: "run_ops add del (p # ops) s = map_option (\<lambda>(rs, s). (r # rs, s)) (run_ops add del ops s1)"
    "inv s1" "\<And>n. name_ok n \<Longrightarrow> look s1 n = map_op p r (look s) n" by blast
  from Cons.IH [OF s1(2)] Cons.prems(2) obtain rs s2 where s2: "run_ops add del ops s1 = Some (rs, s2)" "inv s2"
    "length rs = length ops" "\<And>n. name_ok n \<Longrightarrow> look s2 n = map_ops ops rs (look s1) n" by auto
  have "look s2 n = map_ops (p # ops) (r # rs) (look s) n" if "name_ok n" for n
    using s2(4) [OF that] map_ops_agrees [of ops "look s1" "map_op p r (look s)" n rs] Cons.prems(2) s1(3) that by simp
  with s1(1) s2(1-3) show ?case by (intro exI [of _ "r # rs"] exI [of _ s2]) simp
qed simp

end

section \<open>The area as a store\<close>

definition pa_value :: "nat \<Rightarrow> prop_area \<Rightarrow> string \<Rightarrow> string option" where
  "pa_value ds pa name =
     (case pa_find ds name pa of
        Some (Some off) \<Rightarrow> Option.bind (deref_info pa off) (info_value pa off)
      | _ \<Rightarrow> None)"

lemma pa_value_found:
  "pa_find ds name pa = Some (Some off) \<Longrightarrow> deref_info pa off = Some i \<Longrightarrow> pa_value ds pa name = info_value pa off i"
  by (simp add: pa_value_def del: deref_info_data)

text \<open>Every property that can be found has its name and a value.\<close>

definition area_values_ok :: "nat \<Rightarrow> prop_area \<Rightarrow> bool" where
  "area_values_ok ds pa \<longleftrightarrow> (\<forall>n off. name_ok n \<longrightarrow> pa_find ds n pa = Some (Some off)
     \<longrightarrow> (\<exists>i v. deref_info pa off = Some i \<and> pi_name i = n \<and> info_value pa off i = Some v))"

definition store_ok :: "nat \<Rightarrow> prop_area \<Rightarrow> bool" where
  "store_ok ds pa \<longleftrightarrow> area_ok ds pa \<and> area_values_ok ds pa"

lemma info_value_kept:
  assumes "info_value pa off i = Some v"
    and "\<And>p x. pa_data pa p = Some x \<Longrightarrow> \<not> (\<exists>b. x = Obj_bt b) \<Longrightarrow> pa_data pa' p = Some x"
  shows "info_value pa' off i = Some v"
proof (cases "pi_is_long i")
  case True
  then obtain cs where "pa_data pa (off + pi_long_offset i) = Some (Obj_bytes cs)" "c_string cs = v"
    using assms(1) by (auto simp: info_value_def pi_long_value_def split: option.splits pa_object.splits)
  with assms(2) True show ?thesis by (simp add: info_value_def pi_long_value_def)
next
  case False
  with assms(1) show ?thesis by (simp add: info_value_def)
qed

lemma pa_value_None:
  assumes "store_ok ds pa" "name_ok n"
  shows "pa_value ds pa n = None \<longleftrightarrow> pa_find ds n pa = Some None"
proof -
  have ok: "area_ok ds pa" using assms(1) by (simp add: store_ok_def)
  obtain r where r: "pa_find ds n pa = Some r" using pa_find_node [OF ok] by simp
  show ?thesis
  proof (cases r)
    case (Some off)
    with r assms obtain i v where "deref_info pa off = Some i" "info_value pa off i = Some v"
      unfolding store_ok_def area_values_ok_def by blast
    then show ?thesis using pa_value_found [of ds n pa off i] r Some by simp
  qed (simp add: r pa_value_def)
qed

text \<open>Properties that are found as before keep their values.\<close>

lemma kept_values:
  assumes "store_ok ds pa" "name_ok n" "pa_find ds n pa' = pa_find ds n pa"
    and kept: "\<And>p x. pa_data pa p = Some x \<Longrightarrow> \<not> (\<exists>b. x = Obj_bt b) \<Longrightarrow> pa_data pa' p = Some x"
  shows "pa_value ds pa' n = pa_value ds pa n"
    and "pa_find ds n pa' = Some (Some off)
      \<Longrightarrow> \<exists>i v. deref_info pa' off = Some i \<and> pi_name i = n \<and> info_value pa' off i = Some v"
proof -
  have found: "\<exists>i v. deref_info pa' off = Some i \<and> pi_name i = n \<and> info_value pa' off i = Some v
      \<and> deref_info pa off = Some i \<and> info_value pa off i = Some v" if "pa_find ds n pa = Some (Some off)" for off
  proof -
    from that assms(1,2) obtain i v where i: "deref_info pa off = Some i" "pi_name i = n" "info_value pa off i = Some v"
      unfolding store_ok_def area_values_ok_def by blast
    moreover have "deref_info pa' off = Some i" using kept [of off "Obj_info i"] i(1) by simp
    moreover have "info_value pa' off i = Some v" using info_value_kept [OF i(3) kept] by blast
    ultimately show ?thesis by blast
  qed
  then show "pa_find ds n pa' = Some (Some off)
      \<Longrightarrow> \<exists>i v. deref_info pa' off = Some i \<and> pi_name i = n \<and> info_value pa' off i = Some v"
    using assms(3) by metis
  show "pa_value ds pa' n = pa_value ds pa n"
  proof (cases "\<exists>off. pa_find ds n pa = Some (Some off)")
    case True
    then obtain off where off: "pa_find ds n pa = Some (Some off)" by blast
    from found [OF off] obtain i v where i: "deref_info pa' off = Some i" "info_value pa' off i = Some v"
      "deref_info pa off = Some i" "info_value pa off i = Some v" by blast
    show ?thesis
      unfolding pa_value_def assms(3) off option.case i(1) i(3) by (simp add: i(2,4))
  next
    case False
    then show ?thesis using assms(3) by (cases "pa_find ds n pa"; cases "the (pa_find ds n pa)") (auto simp: pa_value_def)
  qed
qed

lemma pa_add_store:
  assumes ok: "store_ok ds pa" and name: "name_ok name" and v: "NUL \<notin> set v"
  shows "\<exists>r pa'. pa_add ds name v pa = Some (r, pa') \<and> store_ok ds pa'
    \<and> (\<forall>n. name_ok n \<longrightarrow> pa_value ds pa' n = map_op (Op_add name v) r (pa_value ds pa) n)"
proof -
  have aok: "area_ok ds pa" using ok by (simp add: store_ok_def)
  from pa_add_outcome [OF aok name, of v] obtain r pa' where
    run: "pa_add ds name v pa = Some (r, pa')" and out: "add_outcome ds name v pa r pa'" by blast
  let ?same = "\<lambda>n. n \<noteq> name \<or> \<not> r \<or> pa_find ds name pa \<noteq> Some None"
  have kept: "pa_data pa p = Some x \<Longrightarrow> \<not> (\<exists>b. x = Obj_bt b) \<Longrightarrow> pa_data pa' p = Some x" for p x
    using out by (simp add: add_outcome_def)
  have same: "pa_find ds n pa' = pa_find ds n pa" if "name_ok n" "?same n" for n
    using out that by (auto simp: add_outcome_def)
  have new: "\<exists>off i. pa_find ds name pa' = Some (Some off) \<and> deref_info pa' off = Some i \<and> pi_name i = name
      \<and> info_value pa' off i = Some v" if "\<not> ?same name"
    using out that v unfolding add_outcome_def by blast
  have "area_values_ok ds pa'"
    unfolding area_values_ok_def
  proof (intro allI impI)
    fix n off assume n: "name_ok n" "pa_find ds n pa' = Some (Some off)"
    show "\<exists>i v. deref_info pa' off = Some i \<and> pi_name i = n \<and> info_value pa' off i = Some v"
    proof (cases "?same n")
      case True
      from kept_values(2) [OF ok n(1) same [OF n(1) True] kept n(2)] show ?thesis .
    next
      case False
      then have "n = name" by blast
      with new False n(2) show ?thesis by auto
    qed
  qed
  then have ok': "store_ok ds pa'" using out by (simp add: store_ok_def add_outcome_def)
  have "pa_value ds pa' n = map_op (Op_add name v) r (pa_value ds pa) n" if n: "name_ok n" for n
  proof (cases "?same n")
    case True
    then have "n \<noteq> name \<or> \<not> r \<or> pa_value ds pa name \<noteq> None" using pa_value_None [OF ok name] by blast
    with kept_values(1) [OF ok n same [OF n True] kept] show ?thesis by auto
  next
    case False
    then have "n = name" "r" "pa_value ds pa name = None" using pa_value_None [OF ok name] by auto
    moreover obtain off i where "pa_find ds name pa' = Some (Some off)" "deref_info pa' off = Some i" "info_value pa' off i = Some v"
      using new False \<open>n = name\<close> by blast
    ultimately show ?thesis using pa_value_found [of ds name pa' off i] by simp
  qed
  with run ok' show ?thesis by blast
qed

lemma pa_del_store:
  assumes ok: "store_ok ds pa" and name: "name_ok name"
  shows "\<exists>r pa'. pa_del ds name pa = Some (r, pa') \<and> store_ok ds pa'
    \<and> (\<forall>n. name_ok n \<longrightarrow> pa_value ds pa' n = map_op (Op_del name) r (pa_value ds pa) n)"
proof -
  have aok: "area_ok ds pa" using ok by (simp add: store_ok_def)
  from pa_del_outcome [OF aok name] obtain r pa' where run: "pa_del ds name pa = Some (r, pa')" "area_ok ds pa'"
    and gone: "pa_find ds name pa' = Some None"
    and same: "\<And>n. name_ok n \<Longrightarrow> n \<noteq> name \<Longrightarrow> pa_find ds n pa' = pa_find ds n pa"
    and kept: "\<And>p x. pa_data pa p = Some x \<Longrightarrow> \<not> (\<exists>b. x = Obj_bt b) \<Longrightarrow> pa_data pa' p = Some x" by blast
  have "area_values_ok ds pa'"
    unfolding area_values_ok_def
  proof (intro allI impI)
    fix n off assume n: "name_ok n" "pa_find ds n pa' = Some (Some off)"
    with gone have "n \<noteq> name" by auto
    from kept_values(2) [OF ok n(1) same [OF n(1) this] kept n(2)]
    show "\<exists>i v. deref_info pa' off = Some i \<and> pi_name i = n \<and> info_value pa' off i = Some v" .
  qed
  then have "store_ok ds pa'" using run(2) by (simp add: store_ok_def)
  moreover have "pa_value ds pa' n = map_op (Op_del name) r (pa_value ds pa) n" if n: "name_ok n" for n
  proof (cases "n = name")
    case True
    then show ?thesis using gone by (simp add: pa_value_def)
  next
    case False
    with kept_values(1) [OF ok n same [OF n False] kept] show ?thesis by simp
  qed
  ultimately show ?thesis using run(1) by blast
qed

interpretation area: property_store "store_ok ds" "pa_value ds" "pa_add ds" "pa_del ds" for ds
  using pa_add_store pa_del_store by unfold_locales auto

lemma prop_area_new_store:
  assumes "sizeof_prop_bt \<le> ds" "ds < 2 ^ 32"
  shows "store_ok ds prop_area_new" "pa_value ds prop_area_new n = None"
proof -
  have ok: "area_ok ds prop_area_new" by (rule prop_area_new_ok [OF assms])
  have "node_prop prop_area_new x = None" for x by (simp add: node_prop_def prop_area_new_def)
  then have none: "pa_find ds n prop_area_new = Some None" for n
    by (simp add: pa_find_node [OF ok] split: bind_splits)
  with ok show "store_ok ds prop_area_new" by (simp add: store_ok_def area_values_ok_def)
  from none show "pa_value ds prop_area_new n = None" by (simp add: pa_value_def)
qed

end
