(* ===== verification/Prop_Area_Room.thy ===== *)
theory Prop_Area_Room
  imports Prop_Map
begin

text \<open>
  When adding succeeds, and what a traversal visits: a name whose tokens are not empty is added
  whenever there is room for its nodes, its info and its value.
\<close>

section \<open>Room\<close>

definition node_room :: "string \<Rightarrow> nat" where
  "node_room token = BIONIC_ALIGN (sizeof_prop_bt + length token + 1)"

definition info_room :: "string \<Rightarrow> string \<Rightarrow> nat" where
  "info_room name v = BIONIC_ALIGN (sizeof_prop_info + length name + 1)
     + (if length v \<ge> PROP_VALUE_MAX then BIONIC_ALIGN (length v + 1) else 0)"

text \<open>The room that adding takes at most.\<close>

definition add_room :: "string \<Rightarrow> string \<Rightarrow> nat" where
  "add_room name v = (\<Sum>t\<leftarrow>name_tokens name. node_room t) + info_room name v"

text \<open>Allocations of \<open>n\<close> bytes in all: what they take, and that they only fail without room.\<close>

definition within_room :: "nat \<Rightarrow> nat \<Rightarrow> prop_area \<Rightarrow> bool \<Rightarrow> prop_area \<Rightarrow> bool" where
  "within_room ds n pa failed pa' \<longleftrightarrow> pa_bytes_used pa \<le> pa_bytes_used pa' \<and> pa_bytes_used pa' \<le> pa_bytes_used pa + n
     \<and> (failed \<longrightarrow> ds < pa_bytes_used pa + n)"

lemma within_room_trans:
  "within_room ds n pa False pa1 \<Longrightarrow> within_room ds m pa1 failed pa2 \<Longrightarrow> within_room ds (n + m) pa failed pa2"
  by (auto simp: within_room_def)

lemma within_room_refl [simp]: "within_room ds n pa False pa"
  by (simp add: within_room_def)

lemma within_room_more: "within_room ds n pa failed pa' \<Longrightarrow> n \<le> m \<Longrightarrow> within_room ds m pa failed pa'"
  by (auto simp: within_room_def)

lemma allocate_obj_room:
  assumes "area_ok ds pa"
  shows "allocate_obj ds n pa = None \<Longrightarrow> within_room ds (BIONIC_ALIGN n) pa True pa"
    and "allocate_obj ds n pa = Some (off, pa') \<Longrightarrow> within_room ds (BIONIC_ALIGN n) pa False pa'"
  using assms by (auto simp: allocate_obj_def within_room_def Let_def area_ok_def split: if_splits)

lemma new_linked_room:
  assumes "area_ok ds pa" "new_linked ds l cur b token pa = (r, pa')"
  shows "within_room ds (node_room token) pa (r = None) pa'"
  using assms allocate_obj_room [OF assms(1), of "sizeof_prop_bt + length token + 1"]
  by (auto simp: new_linked_def new_prop_bt_def node_room_def within_room_def split: option.splits)

lemma find_sibling_room:
  assumes ok: "area_ok ds pa" and cur: "pa_data pa cur = Some (Obj_bt b)"
  shows "find_sibling ds cur name True pa = Some (r, pa') \<Longrightarrow> within_room ds (node_room name) pa (r = None) pa'"
  using ok cur
proof (induction rule: area_induct)
  case (node p b)
  let ?l = "if cmp_prop_name name (bt_name b) < 0 then Link_left else Link_right"
  note step = find_sibling_step [OF ok node.hyps(1)]
  consider (here) "cmp_prop_name name (bt_name b) = 0" | (next_node) "cmp_prop_name name (bt_name b) \<noteq> 0" "get_link ?l b \<noteq> 0"
    | (new_node) "cmp_prop_name name (bt_name b) \<noteq> 0" "get_link ?l b = 0" by blast
  then show ?case
  proof cases
    case here
    then show ?thesis using node.prems by (auto simp: step Let_def)
  next
    case next_node
    then obtain c where c: "pa_data pa (get_link ?l b) = Some (Obj_bt c)" using area_edge [OF ok node.hyps(1)] by metis
    have "find_sibling ds (get_link ?l b) name True pa = Some (r, pa')" using node.prems next_node by (simp add: step Let_def)
    from node.IH [OF next_node(2) c this] show ?thesis .
  next
    case new_node
    then have "new_linked ds ?l p b name pa = (r, pa')" using node.prems by (simp add: step Let_def)
    from new_linked_room [OF ok this] show ?thesis .
  qed
qed

lemma find_node_room:
  assumes "area_ok ds pa" "pa_data pa cur = Some (Obj_bt b)" "\<forall>t \<in> set tokens. NUL \<notin> set t \<and> t \<noteq> ''''"
    "find_node ds cur tokens True pa = Some (r, pa')"
  shows "within_room ds (\<Sum>t\<leftarrow>tokens. node_room t) pa (r = None) pa'"
  using assms
proof (induction tokens arbitrary: cur b pa)
  case (Cons token rest)
  note ok = Cons.prems(1) and cur = Cons.prems(2)
  have nul: "NUL \<notin> set token" "token \<noteq> ''''" "\<forall>t \<in> set rest. NUL \<notin> set t \<and> t \<noteq> ''''" using Cons.prems(3) by auto
  have deref: "deref_bt pa cur = Some b" using cur by simp
  show ?case
  proof (cases "bt_children b = 0")
    case False
    obtain c where c: "cur < bt_children b" "pa_data pa (bt_children b) = Some (Obj_bt c)"
      using area_children [OF ok cur False] by metis
    from find_sibling_alloc [OF ok nul(1) c(2)] False obtain r1 pa1 where
      r1: "find_sibling ds (bt_children b) token True pa = Some (r1, pa1)" "area_ok ds pa1" "bt_extends pa pa1"
        "\<And>x. r1 = Some x \<Longrightarrow> find_sibling ds (bt_children b) token False pa1 = Some (Some x, pa1)" by blast
    have eq: "find_node ds cur (token # rest) True pa =
        (case r1 of None \<Rightarrow> Some (None, pa1) | Some y \<Rightarrow> find_node ds y rest True pa1)"
      using nul(2) deref False area_to_prop_obj [OF ok c(2)] r1(1) by (simp del: deref_bt_data split: option.splits)
    note room = find_sibling_room [OF ok c(2) r1(1)]
    show ?thesis
    proof (cases r1)
      case None
      then have "r = None" "pa' = pa1" using eq Cons.prems(4) by simp_all
      then show ?thesis using within_room_more [OF room] None by simp
    next
      case (Some y)
      obtain b1 where b1: "pa_data pa1 cur = Some (Obj_bt b1)" "bt_children b1 = bt_children b"
        using bt_extendsD(1) [OF r1(3) cur] False by (metis get_link.simps(3))
      obtain c1 where "pa_data pa1 (bt_children b) = Some (Obj_bt c1)"
        using area_children [OF r1(2) b1(1)] b1(2) False by metis
      from find_sibling_defined [OF r1(2) this, of token] r1(4) [OF Some]
      obtain d where d: "pa_data pa1 y = Some (Obj_bt d)" by auto
      have "find_node ds y rest True pa1 = Some (r, pa')" using eq Some Cons.prems(4) by simp
      from within_room_trans [OF _ Cons.IH [OF r1(2) d nul(3) this]] room Some show ?thesis by simp
    qed
  next
    case True
    obtain r1 pa1 where new: "new_linked ds Link_children cur b token pa = (r1, pa1)"
      by (cases "new_linked ds Link_children cur b token pa")
    note room = new_linked_room [OF ok new]
    have "get_link Link_children b = 0" using True by simp
    then consider (full) "r1 = None" "pa1 = pa"
      | (linked) off where "r1 = Some off" "area_ok ds pa1" "pa_data pa1 off = Some (Obj_bt (prop_bt_new token))"
      using new_linked_cases [OF ok cur _ _ nul(1) new] by metis
    then show ?thesis
    proof cases
      case full
      then have "r = None" "pa' = pa1" using new nul(2) deref True Cons.prems(4) by (simp_all del: deref_bt_data)
      then show ?thesis using within_room_more [OF room] full by simp
    next
      case (linked off)
      have "find_sibling ds off token True pa1 = Some (Some off, pa1)"
        using find_sibling_step [OF linked(2,3), of token True] by simp
      then have "find_node ds off rest True pa1 = Some (r, pa')"
        using nul(2) deref True new linked(1) Cons.prems(4) by (simp del: deref_bt_data)
      from within_room_trans [OF _ Cons.IH [OF linked(2,3) nul(3) this]] room linked(1) show ?thesis by simp
    qed
  qed
qed auto

lemma new_prop_info_room:
  assumes ok: "area_ok ds pa" and new: "new_prop_info ds name v pa = (r, pa')"
  shows "within_room ds (info_room name v) pa (r = None) pa'"
proof (cases "allocate_obj ds (sizeof_prop_info + length name + 1) pa")
  case None
  then show ?thesis using new within_room_more [OF allocate_obj_room(1) [OF ok None]]
    by (simp add: new_prop_info_def info_room_def)
next
  case (Some r0)
  then obtain off pa0 where alloc: "allocate_obj ds (sizeof_prop_info + length name + 1) pa = Some (off, pa0)"
    by (cases r0) auto
  note room = allocate_obj_room(2) [OF ok alloc]
  note a = allocate_obj_Some [OF ok alloc]
  have ok0: "area_ok ds pa0" using used_ok [OF ok a(2) _ a(4)] a(1,3) by simp
  show ?thesis
  proof (cases "length v \<ge> PROP_VALUE_MAX")
    case False
    then have "r = Some off" "pa_bytes_used pa' = pa_bytes_used pa0" using new alloc by (auto simp: new_prop_info_def)
    then show ?thesis using room False by (simp add: within_room_def info_room_def)
  next
    case True
    show ?thesis
    proof (cases "allocate_obj ds (length v + 1) pa0")
      case None
      then have "r = None" "pa' = pa0" using new alloc True by (simp_all add: new_prop_info_def)
      then show ?thesis using within_room_trans [OF room allocate_obj_room(1) [OF ok0 None]] True by (simp add: info_room_def)
    next
      case (Some r1)
      then obtain long pa1 where alloc1: "allocate_obj ds (length v + 1) pa0 = Some (long, pa1)" by (cases r1) auto
      then have "r \<noteq> None" "pa_bytes_used pa' = pa_bytes_used pa1" using new alloc True by (auto simp: new_prop_info_def)
      then show ?thesis
        using within_room_trans [OF room allocate_obj_room(2) [OF ok0 alloc1]] True by (auto simp: info_room_def within_room_def)
    qed
  qed
qed

definition tokens_ok :: "string \<Rightarrow> bool" where
  "tokens_ok name \<longleftrightarrow> '''' \<notin> set (name_tokens name)"

lemma pa_add_room:
  assumes ok: "area_ok ds pa" and name: "name_ok name" "tokens_ok name" and add: "pa_add ds name v pa = Some (added, pa')"
  shows "within_room ds (add_room name v) pa (\<not> added) pa'"
proof -
  obtain b0 where b0: "pa_data pa 0 = Some (Obj_bt b0)" using area_root [OF ok] by blast
  have toks: "\<forall>t \<in> set (name_tokens name). NUL \<notin> set t \<and> t \<noteq> ''''"
    using name_ok_tokens [OF name(1)] name(2) by (auto simp: tokens_ok_def)
  from find_node_alloc [OF ok b0 name_ok_tokens [OF name(1)]] obtain r pa1 where
    walk: "find_prop_bt ds 0 name True pa = Some (r, pa1)" and res: "alloc_result ds 0 (name_tokens name) pa r pa1"
    unfolding find_prop_bt_def by blast
  have ok1: "area_ok ds pa1" using res by (simp add: alloc_result_def)
  have room: "within_room ds (\<Sum>t\<leftarrow>name_tokens name. node_room t) pa (r = None) pa1"
    using find_node_room [OF ok b0 toks] walk by (simp add: find_prop_bt_def)
  show ?thesis
  proof (cases r)
    case None
    then have "\<not> added" "pa' = pa1" using add walk by (auto simp: pa_add_def find_property_def)
    then show ?thesis using within_room_more [OF room, of "add_room name v"] None by (simp add: add_room_def)
  next
    case (Some x)
    then have "name_node ds name pa1 = Some x" using res by (simp add: alloc_result_def name_node_found [OF ok1])
    then obtain b where b: "pa_data pa1 x = Some (Obj_bt b)" using find_prop_bt_node(2) [OF ok1] by blast
    show ?thesis
    proof (cases "bt_prop b = 0")
      case False
      obtain i where "pa_data pa1 (bt_prop b) = Some (Obj_info i)" using area_prop [OF ok1 b False] by blast
      then have "added" "pa' = pa1"
        using add walk Some b False area_to_prop_obj [OF ok1] by (auto simp: pa_add_def find_property_def deref_bt_def)
      then show ?thesis using within_room_more [OF room, of "add_room name v"] Some by (simp add: add_room_def)
    next
      case True
      obtain r2 pa2 where new: "new_prop_info ds name v pa1 = (r2, pa2)" by (cases "new_prop_info ds name v pa1")
      have "added = (r2 \<noteq> None)" "pa_bytes_used pa' = pa_bytes_used pa2"
        using add walk Some b True new by (auto simp: pa_add_def find_property_def deref_bt_def split: option.splits)
      moreover have "within_room ds (add_room name v) pa (r2 = None) pa2"
        using within_room_trans [OF _ new_prop_info_room [OF ok1 new]] room Some by (simp add: add_room_def)
      ultimately show ?thesis by (simp add: within_room_def)
    qed
  qed
qed

section \<open>The traversal\<close>

text \<open>The nodes below a node, which a traversal from it reaches.\<close>

inductive below :: "prop_area \<Rightarrow> nat \<Rightarrow> nat \<Rightarrow> bool" for pa where
  self: "below pa x x"
| link: "bt_edge pa x l y \<Longrightarrow> below pa y z \<Longrightarrow> below pa x z"

lemma below_link: "below pa x y \<Longrightarrow> bt_edge pa y l z \<Longrightarrow> below pa x z"
  by (induction rule: below.induct) (auto intro: below.intros)

lemma node_at_below: "node_at pa x ts \<Longrightarrow> below pa 0 x"
  by (induction rule: node_at.induct) (auto intro: below.intros below_link)

lemma foreach_step:
  assumes ok: "area_ok ds pa" and cur: "pa_data pa cur = Some (Obj_bt b)"
  shows "foreach_property ds (Some cur) pa =
     Option.bind (if bt_left b \<noteq> 0 then foreach_property ds (Some (bt_left b)) pa else Some (True, [])) (\<lambda>lefts.
     Option.bind (if bt_children b \<noteq> 0 then foreach_property ds (Some (bt_children b)) pa else Some (True, [])) (\<lambda>below.
     Option.bind (if bt_right b \<noteq> 0 then foreach_property ds (Some (bt_right b)) pa else Some (True, [])) (\<lambda>rights.
     Some (True, snd lefts @ (if bt_prop b \<noteq> 0 then [bt_prop b] else []) @ snd below @ snd rights))))"
proof -
  have links: "get_link l b \<noteq> 0 \<Longrightarrow> to_prop_obj ds (get_link l b) = Some (get_link l b)" for l
    using area_edge [OF ok cur, of l] ok by (metis area_to_prop_obj)
  have info: "bt_prop b \<noteq> 0 \<Longrightarrow> to_prop_obj ds (bt_prop b) = Some (bt_prop b)"
    using area_prop [OF ok cur] ok by (metis area_to_prop_obj)
  have "deref_bt pa cur = Some b" using cur by simp
  then show ?thesis
    using info links [of Link_left] links [of Link_right] links [of Link_children]
    by (subst foreach_property.simps) (simp del: deref_bt_data cong: if_cong)
qed

text \<open>The properties of the nodes that a traversal reaches.\<close>

definition props_below :: "prop_area \<Rightarrow> nat \<Rightarrow> nat set" where
  "props_below pa x = {off. \<exists>y. below pa x y \<and> node_prop pa y = Some off}"

lemma ex_bt_link: "(\<exists>l. P l) \<longleftrightarrow> P Link_left \<or> P Link_children \<or> P Link_right"
  by (metis bt_link.exhaust)

lemma props_below_step:
  assumes "pa_data pa x = Some (Obj_bt b)"
  shows "off \<in> props_below pa x \<longleftrightarrow> bt_prop b \<noteq> 0 \<and> off = bt_prop b
    \<or> bt_left b \<noteq> 0 \<and> off \<in> props_below pa (bt_left b) \<or> bt_children b \<noteq> 0 \<and> off \<in> props_below pa (bt_children b)
    \<or> bt_right b \<noteq> 0 \<and> off \<in> props_below pa (bt_right b)"
proof -
  have reach: "below pa x y \<longleftrightarrow> y = x \<or> (\<exists>l. get_link l b \<noteq> 0 \<and> below pa (get_link l b) y)" for y
    using assms by (subst below.simps) (auto simp: bt_edge_def)
  have here: "node_prop pa x = Some off \<longleftrightarrow> bt_prop b \<noteq> 0 \<and> off = bt_prop b" for off
    using assms by (auto simp: node_prop_def)
  have "off \<in> props_below pa x \<longleftrightarrow> bt_prop b \<noteq> 0 \<and> off = bt_prop b
      \<or> (\<exists>l. get_link l b \<noteq> 0 \<and> off \<in> props_below pa (get_link l b))" for off
    unfolding props_below_def mem_Collect_eq reach here [symmetric] by blast
  then show ?thesis by (simp add: ex_bt_link)
qed

lemma foreach_below:
  assumes ok: "area_ok ds pa" and cur: "pa_data pa cur = Some (Obj_bt b)"
  shows "\<exists>infos. foreach_property ds (Some cur) pa = Some (True, infos) \<and> set infos = props_below pa cur"
  using ok cur
proof (induction rule: area_induct)
  case (node p b)
  have part: "\<exists>infos. (if get_link l b \<noteq> 0 then foreach_property ds (Some (get_link l b)) pa else Some (True, [])) = Some (True, infos)
      \<and> set infos = (if get_link l b \<noteq> 0 then props_below pa (get_link l b) else {})" for l
  proof (cases "get_link l b = 0")
    case False
    then obtain c where "pa_data pa (get_link l b) = Some (Obj_bt c)" using area_edge [OF ok node.hyps(1)] by metis
    from node.IH [OF False this] False show ?thesis by simp
  qed simp
  obtain i1 where i1: "(if bt_left b \<noteq> 0 then foreach_property ds (Some (bt_left b)) pa else Some (True, [])) = Some (True, i1)"
    "set i1 = (if bt_left b \<noteq> 0 then props_below pa (bt_left b) else {})"
    using part [of Link_left, unfolded get_link.simps] by blast
  obtain i2 where i2: "(if bt_children b \<noteq> 0 then foreach_property ds (Some (bt_children b)) pa else Some (True, [])) = Some (True, i2)"
    "set i2 = (if bt_children b \<noteq> 0 then props_below pa (bt_children b) else {})"
    using part [of Link_children, unfolded get_link.simps] by blast
  obtain i3 where i3: "(if bt_right b \<noteq> 0 then foreach_property ds (Some (bt_right b)) pa else Some (True, [])) = Some (True, i3)"
    "set i3 = (if bt_right b \<noteq> 0 then props_below pa (bt_right b) else {})"
    using part [of Link_right, unfolded get_link.simps] by blast
  have "foreach_property ds (Some p) pa = Some (True, i1 @ (if bt_prop b \<noteq> 0 then [bt_prop b] else []) @ i2 @ i3)"
    unfolding foreach_step [OF ok node.hyps(1)] i1(1) i2(1) i3(1) by simp
  moreover have "set (i1 @ (if bt_prop b \<noteq> 0 then [bt_prop b] else []) @ i2 @ i3) = props_below pa p"
    by (auto simp: set_eq_iff props_below_step [OF node.hyps(1)] i1(2) i2(2) i3(2))
  ultimately show ?case by blast
qed

lemma pa_foreach_visits:
  assumes ok: "area_ok ds pa"
  shows "\<exists>infos. pa_foreach ds pa = Some (True, infos)
    \<and> (\<forall>n off. name_ok n \<longrightarrow> pa_find ds n pa = Some (Some off) \<longrightarrow> off \<in> set infos)
    \<and> (\<forall>off \<in> set infos. \<exists>i. deref_info pa off = Some i)"
proof -
  obtain b where b: "pa_data pa 0 = Some (Obj_bt b)" using area_root [OF ok] by blast
  from foreach_below [OF ok b] obtain infos where infos: "pa_foreach ds pa = Some (True, infos)" "set infos = props_below pa 0"
    unfolding pa_foreach_def by blast
  have "off \<in> set infos" if n: "name_ok n" "pa_find ds n pa = Some (Some off)" for n off
  proof -
    from n(2) obtain x where x: "name_node ds n pa = Some x" "node_prop pa x = Some off"
      unfolding pa_find_Some [OF ok] node_prop_Some by blast
    have "below pa 0 x" by (rule node_at_below [OF name_node_at [OF ok n(1) x(1)]])
    with x(2) infos(2) show ?thesis by (auto simp: props_below_def)
  qed
  moreover have "\<exists>i. deref_info pa off = Some i" if "off \<in> set infos" for off
  proof -
    from that infos(2) obtain x c where "pa_data pa x = Some (Obj_bt c)" "bt_prop c = off" "off \<noteq> 0"
      by (auto simp: props_below_def node_prop_Some)
    then show ?thesis using area_prop [OF ok] by (metis deref_info_data)
  qed
  ultimately show ?thesis using infos(1) by blast
qed

section \<open>Properties\<close>

text \<open>
  C28: A new property area is a map. Whatever names are added and deleted, in whatever order,
  every operation returns, and afterwards each name is found with the value that it was last
  added with while it was not there, or is not found; an addition that fails changes nothing.
\<close>

theorem area_refines_map:
  assumes "sizeof_prop_bt \<le> ds" "ds < 2 ^ 32" "\<forall>p \<in> set ops. op_ok p"
  shows "\<exists>rs pa. run_ops (pa_add ds) (pa_del ds) ops prop_area_new = Some (rs, pa) \<and> length rs = length ops
    \<and> area_ok ds pa \<and> (\<forall>n. name_ok n \<longrightarrow> pa_value ds pa n = map_ops ops rs (\<lambda>_. None) n)"
proof -
  note new = prop_area_new_store [OF assms(1,2)]
  from area.run_law [OF new(1) assms(3)] obtain rs pa where
    r: "run_ops (pa_add ds) (pa_del ds) ops prop_area_new = Some (rs, pa)" "store_ok ds pa" "length rs = length ops"
      "\<And>n. name_ok n \<Longrightarrow> pa_value ds pa n = map_ops ops rs (pa_value ds prop_area_new) n" by blast
  have "pa_value ds prop_area_new = (\<lambda>_. None)" using new(2) by blast
  with r show ?thesis by (auto simp: store_ok_def)
qed

theorem area_refines_map_witness:
  "\<exists>rs pa. run_ops (pa_add 1000) (pa_del 1000) [Op_add ''a.b'' ''x'', Op_del ''a.c''] prop_area_new = Some (rs, pa)
    \<and> pa_value 1000 pa ''a.b'' = (if rs ! 0 then Some ''x'' else None)"
proof -
  let ?ops = "[Op_add ''a.b'' ''x'', Op_del ''a.c'']"
  have ok: "sizeof_prop_bt \<le> 1000" "(1000 :: nat) < 2 ^ 32" "\<forall>p \<in> set ?ops. op_ok p"
    by (simp_all add: sizeof_prop_bt_def NUL_def)
  from area_refines_map [OF ok] obtain rs pa where r: "run_ops (pa_add 1000) (pa_del 1000) ?ops prop_area_new = Some (rs, pa)"
    "length rs = length ?ops" "\<forall>n. name_ok n \<longrightarrow> pa_value 1000 pa n = map_ops ?ops rs (\<lambda>_. None) n" by blast
  obtain r1 r2 where rs: "rs = [r1, r2]" using r(2) by (auto simp: length_Suc_conv)
  have "name_ok ''a.b''" by (simp add: NUL_def)
  with r(3) have "pa_value 1000 pa ''a.b'' = map_ops ?ops rs (\<lambda>_. None) ''a.b''" by blast
  then show ?thesis using r(1) rs by auto
qed

text \<open>
  C32: Adding succeeds whenever it should: a name without empty tokens is added to a well-formed
  area that has room for a node for each token, for the property and for a long value, and never
  takes more room than that; the only other outcome of adding is that there is not that much room.
\<close>

theorem area_add_has_room:
  assumes "area_ok ds pa" "name_ok name" "tokens_ok name"
  shows "\<exists>added pa'. pa_add ds name v pa = Some (added, pa')
    \<and> (added \<or> pa_bytes_used pa + add_room name v > ds)
    \<and> pa_bytes_used pa \<le> pa_bytes_used pa' \<and> pa_bytes_used pa' \<le> pa_bytes_used pa + add_room name v"
proof -
  from pa_add_outcome [OF assms(1,2), of v] obtain added pa' where run: "pa_add ds name v pa = Some (added, pa')" by blast
  from pa_add_room [OF assms run] run show ?thesis by (auto simp: within_room_def)
qed

theorem area_add_has_room_witness:
  "\<exists>pa'. pa_add 1000 ''ro.a'' ''x'' prop_area_new = Some (True, pa') \<and> pa_bytes_used pa' \<le> 20 + 152"
proof -
  have "area_ok 1000 prop_area_new" by (rule prop_area_new_ok) (simp_all add: sizeof_prop_bt_def)
  moreover have "name_ok ''ro.a''" "tokens_ok ''ro.a''" by (simp_all add: NUL_def tokens_ok_def)
  moreover have "add_room ''ro.a'' ''x'' = 152" by code_simp
  moreover have "pa_bytes_used prop_area_new = 20" by (simp add: prop_area_new_def sizeof_prop_bt_def)
  ultimately show ?thesis using area_add_has_room [of 1000 prop_area_new "''ro.a''" "''x''"] by force
qed

text \<open>
  A traversal of a well-formed area ends, calls the callback for every property that can be
  found by some name, and only for properties.
\<close>

theorem area_foreach_visits:
  assumes "area_ok ds pa"
  shows "\<exists>infos. pa_foreach ds pa = Some (True, infos)
    \<and> (\<forall>n off. name_ok n \<longrightarrow> pa_find ds n pa = Some (Some off) \<longrightarrow> off \<in> set infos)
    \<and> (\<forall>off \<in> set infos. \<exists>i. deref_info pa off = Some i)"
  by (rule pa_foreach_visits [OF assms])

theorem area_foreach_visits_witness: "\<exists>infos. pa_foreach 1000 prop_area_new = Some (True, infos)"
proof -
  have "area_ok 1000 prop_area_new" by (rule prop_area_new_ok) (simp_all add: sizeof_prop_bt_def)
  from area_foreach_visits [OF this] show ?thesis by blast
qed

end
