(* ===== verification/Prop_Service_Facts.thy ===== *)
theory Prop_Service_Facts
  imports Prop_Service Prop_Area_Room
begin

text \<open>
  Lookups through the contexts do not change once the area is mapped, and adding, updating and
  deleting a property there has the effect on later reads that it should have.
\<close>

section \<open>Areas with the same nodes\<close>

lemma pa_find_same_nodes:
  assumes ok: "area_ok ds pa" and ok': "area_ok ds pa'"
    and same: "\<And>p b. pa_data pa' p = Some (Obj_bt b) \<longleftrightarrow> pa_data pa p = Some (Obj_bt b)"
  shows "pa_find ds n pa' = pa_find ds n pa"
proof -
  have "same_trie pa pa'" by (rule same_trieI) (simp add: same)
  then have nodes: "name_node ds n pa' = name_node ds n pa" by (rule name_node_same [OF ok ok'])
  have "node_prop pa' = node_prop pa"
    by (rule ext) (metis node_prop_Some not_None_eq same)
  with nodes show ?thesis by (simp add: pa_find_node [OF ok] pa_find_node [OF ok'])
qed

definition same_data :: "prop_area \<Rightarrow> prop_area \<Rightarrow> bool" where
  "same_data pa pa' \<longleftrightarrow> pa_data pa' = pa_data pa \<and> pa_bytes_used pa' = pa_bytes_used pa"

lemma same_data_facts:
  assumes "same_data pa pa'" "area_ok ds pa"
  shows "area_ok ds pa'" "pa_find ds n pa' = pa_find ds n pa" "deref_info pa' off = deref_info pa off"
    "pi_long_value pa' off i = pi_long_value pa off i"
proof -
  have d: "pa_data pa' = pa_data pa" "pa_bytes_used pa' = pa_bytes_used pa" using assms(1) by (simp_all add: same_data_def)
  show ok': "area_ok ds pa'" by (rule used_ok [OF assms(2) d(1)]) (use assms(2) d(2) in \<open>simp_all add: area_ok_def\<close>)
  show "pa_find ds n pa' = pa_find ds n pa" by (rule pa_find_same_nodes [OF assms(2) ok']) (simp add: d(1))
  show "deref_info pa' off = deref_info pa off" "pi_long_value pa' off i = pi_long_value pa off i"
    by (simp_all add: deref_info_def pi_long_value_def d(1))
qed

text \<open>Replacing an info by one with the same name.\<close>

lemma put_info_ok:
  assumes ok: "area_ok ds pa" and i: "pa_data pa off = Some (Obj_info i)" "pi_name i' = pi_name i"
  shows "area_ok ds (put_object off (Obj_info i') pa)"
    and "pa_find ds n (put_object off (Obj_info i') pa) = pa_find ds n pa"
proof -
  let ?pa = "put_object off (Obj_info i') pa"
  have bts: "pa_data ?pa p = Some (Obj_bt b) \<longleftrightarrow> pa_data pa p = Some (Obj_bt b)" for p b using i(1) by auto
  then have bt: "deref_bt ?pa = deref_bt pa" using i(1) by (auto simp: deref_bt_def fun_eq_iff)
  have info: "deref_info ?pa p = None \<longleftrightarrow> deref_info pa p = None" for p using i(1) by (simp add: deref_info_def)
  have "area_tree_ok ?pa" using ok unfolding area_ok_def area_tree_ok_def bt_edge_def bt info by blast
  moreover have "area_objects_ok ?pa"
  proof -
    have was: "\<exists>y. pa_data pa p = Some y \<and> obj_end p x = obj_end p y" if "pa_data ?pa p = Some x" for p x
      using that i by (auto simp: obj_end_def split: if_splits)
    have none: "pa_data ?pa p \<noteq> None \<Longrightarrow> pa_data pa p \<noteq> None" for p using i(1) by (auto split: if_splits)
    from ok have objs: "area_objects_ok pa" by (simp add: area_ok_def)
    show ?thesis
      unfolding area_objects_ok_def
    proof (intro conjI allI impI)
      fix p x assume "pa_data ?pa p = Some x"
      from was [OF this] objs show "obj_end p x \<le> pa_bytes_used ?pa" unfolding area_objects_ok_def by fastforce
    next
      fix p q x assume x: "pa_data ?pa p = Some x" "pa_data ?pa q \<noteq> None" "p < q"
      from was [OF x(1)] none [OF x(2)] x(3) objs show "obj_end p x \<le> q" unfolding area_objects_ok_def by metis
    qed
  qed
  ultimately show ok': "area_ok ds ?pa" using ok by (simp add: area_ok_def)
  show "pa_find ds n ?pa = pa_find ds n pa" by (rule pa_find_same_nodes [OF ok ok' bts])
qed

section \<open>Mapped areas\<close>

text \<open>The contexts lead from a name to an area that is mapped.\<close>

fun mapped_area :: "string \<Rightarrow> contexts \<Rightarrow> string \<Rightarrow> bool" where
  "mapped_area name (Pre_split pa) f \<longleftrightarrow> pa = Some f"
| "mapped_area name (Split cs) f \<longleftrightarrow>
     (case List.find (\<lambda>p. prefix_matches name (fst p)) (cs_prefixes cs) of
        None \<Rightarrow> False
      | Some p \<Rightarrow> (case List.find (\<lambda>n. cn_context n = snd p) (cs_contexts cs) of None \<Rightarrow> False | Some n \<Rightarrow> cn_pa n = Some f))"
| "mapped_area name (Serialized cz) f \<longleftrightarrow>
     (case Option.bind (cz_file cz) (\<lambda>bytes. GetPropertyInfoIndexes bytes name) of
        None \<Rightarrow> False
      | Some ct \<Rightarrow> fst ct \<noteq> no_index \<and> fst ct < length (cz_nodes cz) \<and> cn_pa (cz_nodes cz ! fst ct) = Some f)"

lemma open_named_mapped:
  "List.find (\<lambda>n. cn_context n = ctx) ns = Some n \<Longrightarrow> cn_pa n = Some f \<Longrightarrow> open_named env ctx ns w = (Some f, ns, w)"
  by (induction ns arbitrary: w) (auto split: if_splits)

lemma mapped_area_lookup: "mapped_area name c f \<Longrightarrow> GetPropAreaForName env name c w = Some (Some f, c, w)"
proof (cases c)
  case (Split cs)
  assume "mapped_area name c f"
  with Split obtain p n where "List.find (\<lambda>p. prefix_matches name (fst p)) (cs_prefixes cs) = Some p"
    "List.find (\<lambda>n. cn_context n = snd p) (cs_contexts cs) = Some n" "cn_pa n = Some f"
    by (auto split: option.splits)
  then show ?thesis using Split open_named_mapped [of "snd p" "cs_contexts cs" n f env w]
    by (simp add: Split_GetPropAreaForName_def)
qed (auto simp: Serialized_GetPropAreaForName_def Let_def split: option.splits bind_splits)

lemma ContextNode_OpenRead_facts:
  "ContextNode_OpenRead env n w = (ok, n', w') \<Longrightarrow> cn_context n' = cn_context n \<and> pw_files w' = pw_files w"
  by (auto simp: ContextNode_OpenRead_def ContextNode_Open_def map_prop_area_def map_fd_rw_def Let_def
      split: option.splits if_splits prod.splits)

lemma open_named_result:
  assumes "open_named env ctx ns w = (Some f, ns', w')"
  shows "(\<exists>n. List.find (\<lambda>n. cn_context n = ctx) ns' = Some n \<and> cn_pa n = Some f) \<and> pw_files w' = pw_files w"
  using assms
proof (induction ns arbitrary: ns' w')
  case (Cons n ns)
  show ?case
  proof (cases "cn_context n = ctx")
    case True
    obtain ok n1 w1 where "ContextNode_OpenRead env n w = (ok, n1, w1)" by (cases "ContextNode_OpenRead env n w") auto
    with Cons.prems True ContextNode_OpenRead_facts [OF this] show ?thesis by (auto split: if_splits)
  next
    case False
    with Cons show ?thesis by (auto split: prod.splits)
  qed
qed simp

text \<open>A lookup that succeeds maps the area, and leaves the memory of the areas alone.\<close>

lemma lookup_maps_area:
  assumes "GetPropAreaForName env name c w = Some (Some f, c', w')"
  shows "mapped_area name c' f \<and> pw_files w' = pw_files w \<and> GetSerialPropArea c' = GetSerialPropArea c"
proof (cases c)
  case (Pre_split pa)
  with assms show ?thesis by auto
next
  case (Split cs)
  with assms obtain p ns where p: "List.find (\<lambda>p. prefix_matches name (fst p)) (cs_prefixes cs) = Some p"
    "open_named env (snd p) (cs_contexts cs) w = (Some f, ns, w')" "c' = contexts.Split (cs\<lparr>cs_contexts := ns\<rparr>)"
    by (auto simp: Split_GetPropAreaForName_def split: option.splits prod.splits)
  with open_named_result [OF p(2)] Split show ?thesis by auto
next
  case (Serialized cz)
  with assms obtain bytes i t where b: "cz_file cz = Some bytes" "GetPropertyInfoIndexes bytes name = Some (i, t)"
    by (auto simp: Serialized_GetPropAreaForName_def bind_eq_Some_conv)
  then show ?thesis using assms Serialized ContextNode_OpenRead_facts [of env "cz_nodes cz ! i" w]
    by (auto simp: Serialized_GetPropAreaForName_def Let_def split: if_splits prod.splits)
qed

section \<open>The state\<close>

lemma sp_area_put [simp]:
  "sp_area g (put_area f pa sp) = (if g = f then map_option (\<lambda>_. pa) (sp_area f sp) else sp_area g sp)"
  by (simp add: sp_area_def put_area_def option.map_comp comp_def)

lemma put_area_sel [simp]:
  "sp_initialized (put_area f pa sp) = sp_initialized sp" "sp_contexts (put_area f pa sp) = sp_contexts sp"
  "pw_data_size (sp_world (put_area f pa sp)) = pw_data_size (sp_world sp)" "sp_filename (put_area f pa sp) = sp_filename sp"
  by (simp_all add: put_area_def)

abbreviation sp_ds :: "system_properties \<Rightarrow> nat" where "sp_ds sp \<equiv> pw_data_size (sp_world sp)"

text \<open>The properties are initialized, and the name has a well-formed area that is mapped.\<close>

definition sp_ready :: "system_properties \<Rightarrow> string \<Rightarrow> string \<Rightarrow> bool" where
  "sp_ready sp name f \<longleftrightarrow> sp_initialized sp
     \<and> (\<exists>c s. sp_contexts sp = Some c \<and> mapped_area name c f \<and> GetSerialPropArea c = Some s \<and> sp_area s sp \<noteq> None)
     \<and> (\<exists>pa. sp_area f sp = Some pa \<and> area_ok (sp_ds sp) pa)"

lemma sp_readyE:
  assumes "sp_ready sp name f"
  obtains s sa pa where "sp_initialized sp" "sp_GetSerialPropArea sp = Some (Some s)" "sp_area s sp = Some sa"
    "sp_GetPropAreaForName env name sp = Some (Some f, sp)" "sp_area f sp = Some pa" "area_ok (sp_ds sp) pa"
proof -
  from assms obtain c s pa where c: "sp_initialized sp" "sp_contexts sp = Some c" "mapped_area name c f"
    "GetSerialPropArea c = Some s" "sp_area s sp \<noteq> None" "sp_area f sp = Some pa" "area_ok (sp_ds sp) pa"
    unfolding sp_ready_def by blast
  then obtain sa where "sp_area s sp = Some sa" by blast
  moreover have "sp_GetPropAreaForName env name sp = Some (Some f, sp)"
    using c(2) mapped_area_lookup [OF c(3), of env "sp_world sp"] by (simp add: sp_GetPropAreaForName_def)
  ultimately show thesis using that [of s sa pa] c by (simp add: sp_GetSerialPropArea_def)
qed

lemma sp_Find_ready:
  assumes "sp_ready sp name f" "sp_area f sp = Some pa" "pa_find (sp_ds sp) name pa = Some r"
  shows "sp_Find env name sp = Some (map_option (Pair f) r, sp)"
  using assms by (auto simp: sp_Find_def elim: sp_readyE [of sp name f env])

text \<open>The value that is read by name.\<close>

definition sp_value :: "prop_env \<Rightarrow> string \<Rightarrow> system_properties \<Rightarrow> string option" where
  "sp_value env name sp =
     (case sp_Find env name sp of
        Some (Some pi, sp) \<Rightarrow> map_option (\<lambda>(_, v, _). v) (sp_ReadCallback pi sp)
      | _ \<Rightarrow> None)"

definition found_same :: "prop_env \<Rightarrow> string \<Rightarrow> system_properties \<Rightarrow> system_properties \<Rightarrow> bool" where
  "found_same env n sp sp' \<longleftrightarrow> (\<forall>r. sp_Find env n sp = Some (r, sp) \<longrightarrow> sp_Find env n sp' = Some (r, sp'))
     \<and> (\<forall>v. sp_value env n sp = Some v \<longrightarrow> sp_value env n sp' = Some v)"

definition others_kept :: "prop_env \<Rightarrow> string \<Rightarrow> system_properties \<Rightarrow> system_properties \<Rightarrow> bool" where
  "others_kept env name sp sp' \<longleftrightarrow>
     (\<forall>n g. n \<noteq> name \<longrightarrow> name_ok n \<longrightarrow> sp_ready sp n g \<longrightarrow> sp_ready sp' n g \<and> found_same env n sp sp')"

text \<open>The effect on the area of a name: infos that others use and long values stay.\<close>

definition area_frame :: "nat \<Rightarrow> string \<Rightarrow> prop_area \<Rightarrow> prop_area \<Rightarrow> bool" where
  "area_frame ds name pa pa' \<longleftrightarrow> area_ok ds pa'
     \<and> (\<forall>n. name_ok n \<longrightarrow> n \<noteq> name \<longrightarrow> pa_find ds n pa' = pa_find ds n pa
         \<and> (\<forall>off i. pa_find ds n pa = Some (Some off) \<longrightarrow> deref_info pa off = Some i \<longrightarrow> deref_info pa' off = Some i))
     \<and> (\<forall>p cs. pa_data pa p = Some (Obj_bytes cs) \<longrightarrow> pa_data pa' p = Some (Obj_bytes cs))"

text \<open>The state changes in the area of \<open>f\<close>, and in serials.\<close>

definition sp_frame :: "string \<Rightarrow> prop_area \<Rightarrow> system_properties \<Rightarrow> system_properties \<Rightarrow> bool" where
  "sp_frame f pa' sp sp' \<longleftrightarrow> sp_initialized sp' = sp_initialized sp \<and> sp_contexts sp' = sp_contexts sp \<and> sp_ds sp' = sp_ds sp
     \<and> (\<exists>x. sp_area f sp' = Some x \<and> same_data pa' x)
     \<and> (\<forall>g. g \<noteq> f \<longrightarrow> rel_option same_data (sp_area g sp) (sp_area g sp'))"

lemma same_data_refl [simp]: "same_data pa pa"
  by (simp add: same_data_def)

lemma rel_same_data_refl [simp]: "rel_option same_data x x"
  by (cases x) simp_all

lemma sp_frame_put: "sp_area f sp \<noteq> None \<Longrightarrow> sp_frame f pa' sp (put_area f pa' sp)"
  by (auto simp: sp_frame_def)

lemma sp_frame_bump:
  assumes "sp_area f sp = Some pa" "sp_area s sp = Some sa" "pa_serial pa' = pa_serial pa"
  shows "\<exists>sp' x. bump_serial s (put_area f pa' sp) = Some sp' \<and> sp_frame f pa' sp sp'
    \<and> sp_area s sp' = Some x \<and> pa_serial x = pa_serial sa + 1"
  using assms by (auto simp: bump_serial_def sp_frame_def same_data_def)

lemma sp_frame_ready:
  assumes fr: "sp_frame f pa' sp sp'" and ok: "area_ok (sp_ds sp) pa'" and ready: "sp_ready sp n g"
  shows "sp_ready sp' n g"
proof -
  from ready obtain c s pa where c: "sp_initialized sp" "sp_contexts sp = Some c" "mapped_area n c g"
    "GetSerialPropArea c = Some s" "sp_area s sp \<noteq> None" "sp_area g sp = Some pa" "area_ok (sp_ds sp) pa"
    unfolding sp_ready_def by blast
  have areas: "\<exists>y. sp_area h sp' = Some y \<and> (h = f \<and> same_data pa' y \<or> h \<noteq> f \<and> same_data x y)" if "sp_area h sp = Some x" for h x
    using fr that by (cases "h = f") (auto simp: sp_frame_def option_rel_Some1)
  from areas [OF c(6)] obtain y where "sp_area g sp' = Some y" "area_ok (sp_ds sp) y"
    using same_data_facts(1) ok c(7) by blast
  moreover from c(5) areas have "sp_area s sp' \<noteq> None" by fastforce
  ultimately show ?thesis using c(1-4) fr by (auto simp: sp_ready_def sp_frame_def)
qed

lemma sp_ReadCallback_cong:
  assumes "sp_area f sp = Some x" "sp_area f sp' = Some y" "deref_info x off = Some i" "deref_info y off = Some i"
    and "\<And>cs. pa_data x (off + pi_long_offset i) = Some (Obj_bytes cs) \<Longrightarrow> pa_data y (off + pi_long_offset i) = Some (Obj_bytes cs)"
    and "sp_ReadCallback (f, off) sp = Some r"
  shows "sp_ReadCallback (f, off) sp' = Some r"
proof -
  have i: "pa_data x off = Some (Obj_info i)" "pa_data y off = Some (Obj_info i)" using assms(3,4) by simp_all
  have "pi_long_value x off i = Some v \<Longrightarrow> pi_long_value y off i = Some v" for v
    using assms(5) by (auto simp: pi_long_value_def split: option.splits pa_object.splits)
  with assms(6) show ?thesis
    unfolding sp_ReadCallback_def fst_conv snd_conv assms(1,2) bind.bind_lunit assms(3,4)
    by (auto simp: bind_eq_Some_conv split: if_splits)
qed

lemma frame_others:
  assumes fr: "sp_frame f pa' sp sp'" and pa: "sp_area f sp = Some pa" "area_ok (sp_ds sp) pa"
    and frame: "area_frame (sp_ds sp) name pa pa'"
  shows "others_kept env name sp sp'"
  unfolding others_kept_def
proof (intro allI impI conjI)
  fix n g assume n: "n \<noteq> name" "name_ok n" and ready: "sp_ready sp n g"
  have okpa': "area_ok (sp_ds sp) pa'" using frame by (simp add: area_frame_def)
  show ready': "sp_ready sp' n g" by (rule sp_frame_ready [OF fr okpa' ready])
  have ds: "sp_ds sp' = sp_ds sp" using fr by (simp add: sp_frame_def)
  from ready obtain x where x: "sp_area g sp = Some x" "area_ok (sp_ds sp) x" unfolding sp_ready_def by blast
  obtain y where y: "sp_area g sp' = Some y" "pa_find (sp_ds sp) n y = pa_find (sp_ds sp) n x"
    "\<And>off i. pa_find (sp_ds sp) n x = Some (Some off) \<Longrightarrow> deref_info x off = Some i \<Longrightarrow> deref_info y off = Some i"
    "\<And>p cs. pa_data x p = Some (Obj_bytes cs) \<Longrightarrow> pa_data y p = Some (Obj_bytes cs)"
  proof (cases "g = f")
    case True
    from fr obtain y where y: "sp_area f sp' = Some y" "same_data pa' y" by (auto simp: sp_frame_def)
    have x': "x = pa" using x pa True by simp
    note sd = same_data_facts [OF y(2) okpa']
    show thesis
    proof (rule that [of y])
      show "sp_area g sp' = Some y" using True y(1) by simp
      show "pa_find (sp_ds sp) n y = pa_find (sp_ds sp) n x" using frame n by (simp add: sd(2) x' area_frame_def)
      show "deref_info y off = Some i" if "pa_find (sp_ds sp) n x = Some (Some off)" "deref_info x off = Some i" for off i
        unfolding sd(3) using frame n that x' unfolding area_frame_def by blast
      show "pa_data y p = Some (Obj_bytes cs)" if "pa_data x p = Some (Obj_bytes cs)" for p cs
        using frame that y(2) unfolding area_frame_def same_data_def x' by simp
    qed
  next
    case False
    with fr have "rel_option same_data (sp_area g sp) (sp_area g sp')" by (simp add: sp_frame_def)
    with x(1) obtain y where y: "sp_area g sp' = Some y" "same_data x y" by (auto simp: option_rel_Some1)
    note sd = same_data_facts [OF y(2) x(2)]
    show thesis by (rule that [OF y(1) sd(2)]) (use sd(3) y(2) in \<open>simp_all add: same_data_def\<close>)
  qed
  obtain r where r: "pa_find (sp_ds sp) n x = Some r" using pa_find_node [OF x(2)] by simp
  have find1: "sp_Find env n sp = Some (map_option (Pair g) r, sp)" by (rule sp_Find_ready [OF ready x(1) r])
  have find2: "sp_Find env n sp' = Some (map_option (Pair g) r, sp')"
    by (rule sp_Find_ready [OF ready' y(1)]) (simp add: ds y(2) r)
  have "sp_value env n sp' = Some v" if v: "sp_value env n sp = Some v" for v
  proof -
    from v obtain off a b where off: "r = Some off" "sp_ReadCallback (g, off) sp = Some (a, v, b)"
      by (auto simp: sp_value_def find1 split: option.splits)
    with r pa_find_info [OF x(2)] obtain i where i: "deref_info x off = Some i" by metis
    have "deref_info y off = Some i" using y(3) r off(1) i by simp
    from sp_ReadCallback_cong [OF x(1) y(1) i this y(4) off(2)] show ?thesis
      by (simp add: sp_value_def find2 off(1))
  qed
  then show "found_same env n sp sp'" by (simp add: found_same_def find1 find2)
qed

section \<open>Reading values\<close>

lemma c_string_NUL: "NUL \<notin> set v \<Longrightarrow> c_string (v @ NUL # rest) = v"
  by (auto simp: c_string_def takeWhile_append)

lemma c_string_id: "NUL \<notin> set v \<Longrightarrow> c_string v = v"
  by (auto simp: c_string_def)

text \<open>An info holds a short value, in a way that all readers agree on.\<close>

definition holds_value :: "prop_info \<Rightarrow> string \<Rightarrow> bool" where
  "holds_value i v \<longleftrightarrow> \<not> SERIAL_DIRTY (pi_serial i) \<and> SERIAL_VALUE_LEN (pi_serial i) = length v \<and> length v < PROP_VALUE_MAX
     \<and> NUL \<notin> set v \<and> (\<exists>rest. pi_union i = v @ NUL # rest) \<and> (is_read_only (pi_name i) \<longrightarrow> \<not> pi_is_long i)"

lemma holds_value_read:
  assumes "holds_value i v" "sp_area f sp = Some pa" "deref_info pa off = Some i"
  shows "sp_ReadCallback (f, off) sp = Some (pi_name i, v, pi_serial i)"
    "sp_Read (f, off) sp = Some (length v, take (PROP_NAME_MAX - 1) (pi_name i), v)"
proof -
  from assms(1) obtain rest where rest: "pi_union i = v @ NUL # rest" unfolding holds_value_def by blast
  have i: "pa_data pa off = Some (Obj_info i)" using assms(3) by simp
  have d: "deref_info pa off = Some i" by (rule assms(3))
  show "sp_ReadCallback (f, off) sp = Some (pi_name i, v, pi_serial i)"
    unfolding sp_ReadCallback_def fst_conv snd_conv assms(2) bind.bind_lunit d
    using assms(1) by (auto simp: holds_value_def sp_Serial_def rest c_string_NUL c_string_id Let_def)
  show "sp_Read (f, off) sp = Some (length v, take (PROP_NAME_MAX - 1) (pi_name i), v)"
    unfolding sp_Read_def deref_ref_def fst_conv snd_conv assms(2) bind.bind_lunit d
    using assms(1) by (auto simp: holds_value_def sp_Serial_def rest c_string_NUL Let_def)
qed

lemma short_holds_value:
  assumes "length v < PROP_VALUE_MAX" "NUL \<notin> set v"
  shows "holds_value (prop_info_short name v) v"
proof -
  obtain m where m: "PROP_VALUE_MAX - length v = Suc m" using assms(1) by (cases "PROP_VALUE_MAX - length v") auto
  have "push_bit 24 (of_nat (length v)) AND (1 :: u32) = 0"
    by (rule bit_word_eqI) (simp only: bit_and_iff bit_push_bit_iff bit_1_iff bit_0_eq, auto)
  then have "\<not> SERIAL_DIRTY (pi_serial (prop_info_short name v))" by (simp add: SERIAL_DIRTY_def prop_info_short_def)
  moreover have "pi_union (prop_info_short name v) = v @ NUL # replicate m NUL" by (simp add: prop_info_short_def m)
  ultimately show ?thesis
    using short_serial [OF assms(1), of name] assms by (auto simp: holds_value_def SERIAL_VALUE_LEN_def)
qed

text \<open>The serial after an update: even, and with the new length.\<close>

lemma updated_serial:
  assumes "len < PROP_VALUE_MAX"
  shows "\<not> SERIAL_DIRTY (pi_serial (updated_info v len i))" "SERIAL_VALUE_LEN (pi_serial (updated_info v len i)) = len"
proof -
  define s :: u32 where "s = (pi_serial i OR 1) + 1"
  have len: "len < 256" using assms by (simp add: PROP_VALUE_MAX_def)
  have ser: "pi_serial (updated_info v len i) = push_bit 24 (of_nat len) OR (s AND 0xffffff)"
    by (simp add: updated_info_def Let_def s_def)
  have "even s" unfolding s_def by (simp add: even_or_iff)
  then have "\<not> bit s 0" by (simp add: bit_0)
  then have "(push_bit 24 (of_nat len) OR (s AND 0xffffff)) AND 1 = 0"
    by (intro bit_word_eqI) (auto simp: bit_simps bit_1_iff simp del: push_bit_of_nat)
  then show "\<not> SERIAL_DIRTY (pi_serial (updated_info v len i))" by (simp add: SERIAL_DIRTY_def ser)
  have mask: "(0xffffff :: u32) = mask 24" by (simp add: mask_eq_exp_minus_1)
  have "drop_bit 24 (push_bit 24 (of_nat len :: u32) OR (s AND mask 24)) = drop_bit 24 (push_bit 24 (of_nat len))"
    by (intro bit_word_eqI) (auto simp: bit_simps)
  moreover have "unat (drop_bit 24 (push_bit 24 (of_nat len) :: u32)) = len"
    using short_serial(2) [of "replicate len NUL" "''''"] assms by (simp add: prop_info_short_def)
  ultimately show "SERIAL_VALUE_LEN (pi_serial (updated_info v len i)) = len"
    by (simp add: SERIAL_VALUE_LEN_def ser mask)
qed

lemma updated_holds_value:
  assumes "length v < PROP_VALUE_MAX" "NUL \<notin> set v"
    and "is_read_only (pi_name i) \<Longrightarrow> \<not> pi_is_long (updated_info v (length v) i)"
  shows "holds_value (updated_info v (length v) i) v"
proof -
  have "pi_union (updated_info v (length v) i) = v @ NUL # drop (length v + 1) (pi_union i)"
    "pi_name (updated_info v (length v) i) = pi_name i"
    by (simp_all add: updated_info_def strlcpy_union_def Let_def)
  with assms updated_serial [OF assms(1), of v i] show ?thesis by (simp add: holds_value_def)
qed

section \<open>The effect of changes\<close>

lemma sp_value_holds:
  assumes ready: "sp_ready sp name f" and x: "sp_area f sp = Some x" "pa_find (sp_ds sp) name x = Some (Some off)"
    and i: "deref_info x off = Some i" "holds_value i v"
  shows "sp_Find env name sp = Some (Some (f, off), sp)" "sp_value env name sp = Some v"
    "sp_ReadCallback (f, off) sp = Some (pi_name i, v, pi_serial i)"
proof -
  show find: "sp_Find env name sp = Some (Some (f, off), sp)" using sp_Find_ready [OF ready x] by simp
  show read: "sp_ReadCallback (f, off) sp = Some (pi_name i, v, pi_serial i)" by (rule holds_value_read(1) [OF i(2) x(1) i(1)])
  show "sp_value env name sp = Some v" by (simp add: sp_value_def find read)
qed

lemma add_outcome_frame:
  assumes "area_ok ds pa" "add_outcome ds name v pa added pa'"
  shows "area_frame ds name pa pa'"
  unfolding area_frame_def
proof (intro conjI allI impI)
  show "area_ok ds pa'" using assms(2) by (simp add: add_outcome_def)
  fix n assume n: "name_ok n" "n \<noteq> name"
  then show "pa_find ds n pa' = pa_find ds n pa" using assms(2) by (simp add: add_outcome_def)
  fix off i assume "deref_info pa off = Some i"
  then have "pa_data pa off = Some (Obj_info i)" by simp
  then have "pa_data pa' off = Some (Obj_info i)" using assms(2) by (auto simp: add_outcome_def)
  then show "deref_info pa' off = Some i" by simp
qed (use assms(2) in \<open>auto simp: add_outcome_def\<close>)

text \<open>What adding a short value comes to.\<close>

definition set_outcome ::
  "prop_env \<Rightarrow> string \<Rightarrow> string \<Rightarrow> string \<Rightarrow> system_properties \<Rightarrow> int \<Rightarrow> system_properties \<Rightarrow> bool" where
  "set_outcome env f name v sp r sp' \<longleftrightarrow> sp_ready sp' name f \<and> others_kept env name sp sp'
     \<and> (r = 0 \<longrightarrow> sp_value env name sp' = Some v) \<and> (r \<noteq> 0 \<longrightarrow> found_same env name sp sp')"

lemma found_same_frame:
  assumes fr: "sp_frame f pa' sp sp'" and pa: "sp_area f sp = Some pa"
    and ok: "area_ok (sp_ds sp) pa'" and ready: "sp_ready sp name f"
    and same: "pa_find (sp_ds sp) name pa' = Some None" "pa_find (sp_ds sp) name pa = Some None"
  shows "found_same env name sp sp'"
proof -
  have ready': "sp_ready sp' name f" by (rule sp_frame_ready [OF fr ok ready])
  obtain y where y: "sp_area f sp' = Some y" "same_data pa' y" using fr by (auto simp: sp_frame_def)
  have "sp_Find env name sp = Some (None, sp)" using sp_Find_ready [OF ready pa same(2)] by simp
  moreover have "sp_Find env name sp' = Some (None, sp')"
    using sp_Find_ready [OF ready' y(1), of None] same_data_facts(2) [OF y(2) ok] same(1) fr by (simp add: sp_frame_def)
  ultimately show ?thesis by (simp add: found_same_def sp_value_def)
qed

lemma sp_Add_outcome:
  assumes ready: "sp_ready sp name f" and pa: "sp_area f sp = Some pa" "pa_find (sp_ds sp) name pa = Some None"
    and name: "name_ok name" "name \<noteq> ''''" and v: "length v < PROP_VALUE_MAX" "NUL \<notin> set v"
  shows "\<exists>r sp'. sp_Add env name v sp = Some (r, sp') \<and> (r = 0 \<or> r = - 1) \<and> set_outcome env f name v sp r sp'
    \<and> (tokens_ok name \<longrightarrow> pa_bytes_used pa + add_room name v \<le> sp_ds sp \<longrightarrow> r = 0)"
proof -
  from ready obtain s sa pa0 where st: "sp_initialized sp" "sp_GetSerialPropArea sp = Some (Some s)" "sp_area s sp = Some sa"
    "sp_GetPropAreaForName env name sp = Some (Some f, sp)" "sp_area f sp = Some pa0" "area_ok (sp_ds sp) pa0"
    by (rule sp_readyE)
  then have ok: "area_ok (sp_ds sp) pa" using pa(1) by simp
  from pa_add_outcome [OF ok name(1), of v] obtain added pa' where
    run: "pa_add (sp_ds sp) name v pa = Some (added, pa')" and out: "add_outcome (sp_ds sp) name v pa added pa'" by blast
  have ok': "area_ok (sp_ds sp) pa'" and ser: "pa_serial pa' = pa_serial pa" using out by (simp_all add: add_outcome_def)
  note frame = add_outcome_frame [OF ok out]
  have room: "tokens_ok name \<Longrightarrow> pa_bytes_used pa + add_room name v \<le> sp_ds sp \<Longrightarrow> added"
    using pa_add_room [OF ok name(1) _ run] by (auto simp: within_room_def)
  have start: "sp_Add env name v sp =
      (if \<not> added then Some (- 1, put_area f pa' sp) else map_option (Pair 0) (bump_serial s (put_area f pa' sp)))"
    using v(1) name(2) st(1,2,4) pa(1) run by (simp add: sp_Add_def Let_def Suc_le_eq)
  show ?thesis
  proof (cases added)
    case False
    have fr: "sp_frame f pa' sp (put_area f pa' sp)" by (rule sp_frame_put) (simp add: pa(1))
    have none: "pa_find (sp_ds sp) name pa' = Some None" using out name(1) False pa(2) by (auto simp: add_outcome_def)
    have "set_outcome env f name v sp (- 1) (put_area f pa' sp)"
      using sp_frame_ready [OF fr ok' ready] frame_others [OF fr pa(1) ok frame] found_same_frame [OF fr pa(1) ok' ready none pa(2)]
      by (simp add: set_outcome_def)
    with start False room show ?thesis by auto
  next
    case True
    from sp_frame_bump [OF pa(1) st(3) ser] obtain sp' where sp': "bump_serial s (put_area f pa' sp) = Some sp'"
      and fr: "sp_frame f pa' sp sp'" by blast
    from out True pa(2) v obtain off i where i: "pa_find (sp_ds sp) name pa' = Some (Some off)" "deref_info pa' off = Some i"
      "i = prop_info_short name v" by (auto simp: add_outcome_def new_infos_def)
    have ready': "sp_ready sp' name f" by (rule sp_frame_ready [OF fr ok' ready])
    obtain y where y: "sp_area f sp' = Some y" "same_data pa' y" using fr by (auto simp: sp_frame_def)
    note sd = same_data_facts [OF y(2) ok']
    have "pa_find (sp_ds sp') name y = Some (Some off)" using fr i(1) sd(2) by (simp add: sp_frame_def)
    moreover have "deref_info y off = Some (prop_info_short name v)" unfolding sd(3) using i(2,3) by blast
    ultimately have "sp_value env name sp' = Some v"
      using sp_value_holds(2) [OF ready' y(1) _ _ short_holds_value [OF v]] by blast
    then have "set_outcome env f name v sp 0 sp'"
      using ready' frame_others [OF fr pa(1) ok frame] by (simp add: set_outcome_def)
    with start True sp' show ?thesis by auto
  qed
qed

lemma sp_Update_outcome:
  assumes ready: "sp_ready sp name f" and pa: "sp_area f sp = Some pa" "pa_find (sp_ds sp) name pa = Some (Some off)"
    and i: "deref_info pa off = Some i" and name: "name_ok name" and v: "length v < PROP_VALUE_MAX" "NUL \<notin> set v"
    and short: "is_read_only (pi_name i) \<Longrightarrow> \<not> pi_is_long (updated_info v (length v) i)"
  shows "\<exists>sp'. sp_Update (f, off) v (length v) sp = Some (0, sp') \<and> set_outcome env f name v sp 0 sp'"
proof -
  from ready obtain s sa pa0 where st: "sp_initialized sp" "sp_GetSerialPropArea sp = Some (Some s)" "sp_area s sp = Some sa"
    "sp_GetPropAreaForName env name sp = Some (Some f, sp)" "sp_area f sp = Some pa0" "area_ok (sp_ds sp) pa0"
    by (rule sp_readyE)
  then have ok: "area_ok (sp_ds sp) pa" using pa(1) by simp
  let ?i = "updated_info v (length v) i"
  let ?pa = "put_object off (Obj_info ?i) pa"
  have d: "pa_data pa off = Some (Obj_info i)" using i by simp
  have nm: "pi_name ?i = pi_name i" by (simp add: updated_info_def Let_def)
  note put = put_info_ok [OF ok d nm]
  have frame: "area_frame (sp_ds sp) name pa ?pa"
    unfolding area_frame_def
  proof (intro conjI allI impI)
    fix n off2 j assume n: "name_ok n" "n \<noteq> name" "pa_find (sp_ds sp) n pa = Some (Some off2)" "deref_info pa off2 = Some j"
    then have "off2 \<noteq> off" using pa_find_inj [OF ok n(1) name n(3)] pa(2) by blast
    with n(4) show "deref_info ?pa off2 = Some j" by simp
  next
    fix p cs assume "pa_data pa p = Some (Obj_bytes cs)"
    with d show "pa_data ?pa p = Some (Obj_bytes cs)" by auto
  qed (use put in auto)
  from sp_frame_bump [OF pa(1) st(3), of ?pa] obtain sp' where sp': "bump_serial s (put_area f ?pa sp) = Some sp'"
    and fr: "sp_frame f ?pa sp sp'" by auto
  have ready': "sp_ready sp' name f" by (rule sp_frame_ready [OF fr put(1) ready])
  obtain y where y: "sp_area f sp' = Some y" "same_data ?pa y" using fr by (auto simp: sp_frame_def)
  note sd = same_data_facts [OF y(2) put(1)]
  have "pa_find (sp_ds sp') name y = Some (Some off)" using fr pa(2) sd(2) put(2) by (simp add: sp_frame_def)
  moreover have "deref_info y off = Some ?i" unfolding sd(3) by simp
  ultimately have "sp_value env name sp' = Some v"
    using sp_value_holds(2) [OF ready' y(1)] updated_holds_value [OF v short] by blast
  then have "set_outcome env f name v sp 0 sp'"
    using ready' frame_others [OF fr pa(1) ok frame] by (simp add: set_outcome_def)
  moreover have "sp_Update (f, off) v (length v) sp = Some (0, sp')"
    unfolding sp_Update_def fst_conv snd_conv st(2) pa(1) bind.bind_lunit i
    using v(1) st(1) sp' by simp
  ultimately show ?thesis by blast
qed

lemma sp_Delete_outcome:
  assumes ready: "sp_ready sp name f" and name: "name_ok name"
  shows "\<exists>r sp'. sp_Delete env name sp = Some (r, sp') \<and> (r = 0 \<or> r = - 1) \<and> sp_ready sp' name f
    \<and> others_kept env name sp sp' \<and> sp_Find env name sp' = Some (None, sp')
    \<and> (sp_Find env name sp \<noteq> Some (None, sp) \<longrightarrow> r = 0)"
proof -
  from ready obtain s sa pa where st: "sp_initialized sp" "sp_GetSerialPropArea sp = Some (Some s)" "sp_area s sp = Some sa"
    "sp_GetPropAreaForName env name sp = Some (Some f, sp)" "sp_area f sp = Some pa" "area_ok (sp_ds sp) pa"
    by (rule sp_readyE)
  note ok = st(6) and pa = st(5)
  from pa_del_outcome [OF ok name] obtain deleted pa' where run: "pa_del (sp_ds sp) name pa = Some (deleted, pa')"
    "area_ok (sp_ds sp) pa'" "pa_serial pa' = pa_serial pa" "pa_find (sp_ds sp) name pa \<noteq> Some None \<Longrightarrow> deleted"
    and gone: "pa_find (sp_ds sp) name pa' = Some None"
    and same: "\<And>n. name_ok n \<Longrightarrow> n \<noteq> name \<Longrightarrow> pa_find (sp_ds sp) n pa' = pa_find (sp_ds sp) n pa"
    and kept: "\<And>p x. pa_data pa p = Some x \<Longrightarrow> \<not> (\<exists>b. x = Obj_bt b) \<Longrightarrow> pa_data pa' p = Some x" by blast
  have frame: "area_frame (sp_ds sp) name pa pa'"
    unfolding area_frame_def
  proof (intro conjI allI impI)
    fix off i assume "deref_info pa off = Some i"
    then have "pa_data pa' off = Some (Obj_info i)" using kept by simp
    then show "deref_info pa' off = Some i" by simp
  qed (use run(2) same kept in auto)
  have start: "sp_Delete env name sp =
      (if \<not> deleted then Some (- 1, put_area f pa' sp) else map_option (Pair 0) (bump_serial s (put_area f pa' sp)))"
    using st run(1) by (simp add: sp_Delete_def Let_def)
  have found: "deleted" if "sp_Find env name sp \<noteq> Some (None, sp)"
    using that sp_Find_ready [OF ready pa, of None env] run(4) by fastforce
  obtain r sp' where sp': "sp_Delete env name sp = Some (r, sp')" "r = 0 \<or> r = - 1" "deleted \<Longrightarrow> r = 0" "sp_frame f pa' sp sp'"
  proof (cases deleted)
    case True
    from sp_frame_bump [OF pa st(3) run(3)] start True that [of 0] show thesis by auto
  next
    case False
    with start that [of "- 1"] sp_frame_put [of f sp pa'] pa show thesis by auto
  qed
  note fr = sp'(4)
  have ready': "sp_ready sp' name f" by (rule sp_frame_ready [OF fr run(2) ready])
  obtain y where y: "sp_area f sp' = Some y" "same_data pa' y" using fr by (auto simp: sp_frame_def)
  have "sp_Find env name sp' = Some (None, sp')"
    using sp_Find_ready [OF ready' y(1), of None] same_data_facts(2) [OF y(2) run(2)] gone fr by (simp add: sp_frame_def)
  with sp' ready' frame_others [OF fr pa ok frame] found show ?thesis by blast
qed

section \<open>Long values\<close>

text \<open>An update of a long info stays long, and does not reach the offset of the long value.\<close>

lemma updated_long:
  assumes "length v < kLongLegacyErrorBufferSize"
  shows "pi_is_long (updated_info v (length v) (prop_info_long name n))"
    "pi_long_offset (updated_info v (length v) (prop_info_long name n)) = pi_long_offset (prop_info_long name n)"
proof -
  let ?i = "prop_info_long name n"
  have "(pi_serial ?i OR 1) + 1 = push_bit 24 50 + 0x10002"
    by (simp add: prop_info_long_def kLongLegacyError_length kLongFlag_def)
  then have "((pi_serial ?i OR 1) + 1) AND 0xffffff = 0x10002" by simp
  then have ser: "pi_serial (updated_info v (length v) ?i) = push_bit 24 (of_nat (length v)) OR 0x10002"
    by (simp add: updated_info_def Let_def)
  have "bit (push_bit 24 (of_nat (length v)) OR 0x10002 :: u32) 16"
    by (simp add: bit_or_iff)
  then have "bit (pi_serial (updated_info v (length v) ?i)) 16" unfolding ser .
  moreover have "bit kLongFlag 16" unfolding kLongFlag_def bit_push_bit_iff by simp
  ultimately have "bit (pi_serial (updated_info v (length v) ?i) AND kLongFlag) 16" by (simp only: bit_and_iff simp_thms)
  then show "pi_is_long (updated_info v (length v) ?i)" by (auto simp: pi_is_long_def)
  have "drop kLongLegacyErrorBufferSize (strlcpy_union (pi_union ?i) v (length v)) = drop kLongLegacyErrorBufferSize (pi_union ?i)"
  proof -
    obtain m where "kLongLegacyErrorBufferSize - length v = Suc m" "length v + Suc m = kLongLegacyErrorBufferSize"
      using assms by (cases "kLongLegacyErrorBufferSize - length v") auto
    then show ?thesis by (simp add: strlcpy_union_def add.commute)
  qed
  then show "pi_long_offset (updated_info v (length v) ?i) = pi_long_offset ?i"
    by (simp add: pi_long_offset_def updated_info_def Let_def)
qed

lemma sp_Update_long:
  assumes ready: "sp_ready sp name f" and pa: "sp_area f sp = Some pa" "pa_find (sp_ds sp) name pa = Some (Some off)"
    and i: "deref_info pa off = Some (prop_info_long name n)" and ro: "is_read_only name"
    and v: "length v < kLongLegacyErrorBufferSize"
  shows "\<exists>sp'. sp_Update (f, off) v (length v) sp = Some (0, sp') \<and> sp_ready sp' name f
    \<and> sp_value env name sp' = sp_value env name sp \<and> sp_Get env name sp' = Some ((length v, c_string v), sp')"
proof -
  from ready obtain s sa pa0 where st: "sp_initialized sp" "sp_GetSerialPropArea sp = Some (Some s)" "sp_area s sp = Some sa"
    "sp_GetPropAreaForName env name sp = Some (Some f, sp)" "sp_area f sp = Some pa0" "area_ok (sp_ds sp) pa0"
    by (rule sp_readyE)
  then have ok: "area_ok (sp_ds sp) pa" using pa(1) by simp
  let ?j = "prop_info_long name n"
  let ?i = "updated_info v (length v) ?j"
  let ?pa = "put_object off (Obj_info ?i) pa"
  have d: "pa_data pa off = Some (Obj_info ?j)" using i by simp
  have nm: "pi_name ?i = pi_name ?j" by (simp add: updated_info_def Let_def)
  note put = put_info_ok [OF ok d nm]
  from sp_frame_bump [OF pa(1) st(3), of ?pa] obtain sp' where sp': "bump_serial s (put_area f ?pa sp) = Some sp'"
    and fr: "sp_frame f ?pa sp sp'" by auto
  have ready': "sp_ready sp' name f" by (rule sp_frame_ready [OF fr put(1) ready])
  obtain y where y: "sp_area f sp' = Some y" "same_data ?pa y" using fr by (auto simp: sp_frame_def)
  note sd = same_data_facts [OF y(2) put(1)]
  have find': "sp_Find env name sp' = Some (Some (f, off), sp')"
    using sp_Find_ready [OF ready' y(1), of "Some off"] fr pa(2) sd(2) put(2) by (simp add: sp_frame_def)
  have find: "sp_Find env name sp = Some (Some (f, off), sp)" using sp_Find_ready [OF ready pa] by simp
  have v92: "length v < PROP_VALUE_MAX" using v by (simp add: PROP_VALUE_MAX_def kLongLegacyErrorBufferSize_def)
  have "\<not> SERIAL_DIRTY (pi_serial ?i)" by (rule updated_serial(1) [OF v92])
  then have ser: "sp_Serial ?i = Some (pi_serial ?i)" by (simp add: sp_Serial_def)
  have "\<not> SERIAL_DIRTY (pi_serial ?j)"
    by (simp add: SERIAL_DIRTY_def prop_info_long_def kLongLegacyError_length kLongFlag_def)
  then have ser0: "sp_Serial ?j = Some (pi_serial ?j)" by (simp add: sp_Serial_def)
  have dy: "deref_info y off = Some ?i" unfolding sd(3) by simp
  have "pi_long_value y off ?i = pi_long_value pa off ?j"
  proof -
    have "pi_long_value ?pa off ?i = pi_long_value pa off ?j"
      unfolding pi_long_value_def updated_long(2) [OF v] using d by (cases "pi_long_offset ?j = 0") simp_all
    then show ?thesis using sd(4) by simp
  qed
  then have "sp_value env name sp' = sp_value env name sp"
    unfolding sp_value_def find find' option.case prod.case sp_ReadCallback_def fst_conv snd_conv y(1) pa(1)
      bind.bind_lunit i dy ser ser0 nm
    using ro updated_long(1) [OF v] pi_is_long_long by (simp add: option.map_comp comp_def)
  moreover have "sp_Update (f, off) v (length v) sp = Some (0, sp')"
    unfolding sp_Update_def fst_conv snd_conv st(2) pa(1) bind.bind_lunit i
    using v92 st(1) sp' by simp
  moreover have "sp_Get env name sp' = Some ((length v, c_string v), sp')"
  proof -
    have "take (length v + 1) (pi_union ?i) = v @ [NUL]" by (simp add: updated_info_def strlcpy_union_def Let_def)
    then have "sp_Read (f, off) sp' = Some (length v, take (PROP_NAME_MAX - 1) (pi_name ?i), c_string (v @ [NUL]))"
      unfolding sp_Read_def deref_ref_def fst_conv snd_conv y(1) bind.bind_lunit dy ser Let_def updated_serial(2) [OF v92]
      using v92 by simp
    moreover have "c_string (v @ [NUL]) = c_string v" by (induction v) (simp_all add: c_string_def)
    ultimately show ?thesis by (simp add: sp_Get_def find')
  qed
  ultimately show ?thesis using ready' by blast
qed

end
