(* ===== verification/Reset_Tool_Facts.thy ===== *)
theory Reset_Tool_Facts
  imports Reset_Tool Prop_Service_Facts
begin

text \<open>
  The reset tool sets what it later gets: names that pass its check are names the areas can
  hold, a property set behind the back of the property service reads back, a deleted one is
  gone, and both leave the other properties alone. Then the messages to the property service,
  and what goes wrong with long values.
\<close>

section \<open>Legal names\<close>

lemma legal_chars_tokens:
  "legal_chars prev cs \<and> (if cs = [] then prev \<noteq> CHR ''.'' else last cs \<noteq> CHR ''.'') \<longleftrightarrow>
     (\<forall>c \<in> set cs. c = CHR ''.'' \<or> is_legal_char c) \<and> '''' \<notin> set (tl (name_tokens cs))
     \<and> (prev = CHR ''.'' \<longrightarrow> hd (name_tokens cs) \<noteq> '''')"
proof (induction cs arbitrary: prev)
  case (Cons c cs)
  obtain t ts where t: "name_tokens cs = t # ts" by (cases "name_tokens cs") auto
  have last: "last (c # cs) = (if cs = [] then c else last cs)" by simp
  show ?case
  proof (cases "c = CHR ''.''")
    case True
    have l: "legal_chars prev (c # cs) \<longleftrightarrow> prev \<noteq> CHR ''.'' \<and> legal_chars (CHR ''.'') cs" using True by simp
    have n: "name_tokens (c # cs) = [] # t # ts" using True by (simp add: t)
    have e: "(if cs = [] then CHR ''.'' \<noteq> CHR ''.'' else last cs \<noteq> CHR ''.'') \<longleftrightarrow> last (c # cs) \<noteq> CHR ''.''"
      unfolding last using True by simp
    have s: "(\<forall>x \<in> set (c # cs). x = CHR ''.'' \<or> is_legal_char x) \<longleftrightarrow> (\<forall>x \<in> set cs. x = CHR ''.'' \<or> is_legal_char x)"
      using True by simp
    show ?thesis
      using Cons.IH [of "CHR ''.''"] unfolding l n s e t by (simp del: last.simps split del: if_split) blast
  next
    case False
    have l: "legal_chars prev (c # cs) \<longleftrightarrow> is_legal_char c \<and> legal_chars c cs" using False by simp
    have n: "name_tokens (c # cs) = (c # t) # ts" using False by (simp add: t)
    have e: "(if cs = [] then c \<noteq> CHR ''.'' else last cs \<noteq> CHR ''.'') \<longleftrightarrow> last (c # cs) \<noteq> CHR ''.''"
      unfolding last by simp
    have s: "(\<forall>x \<in> set (c # cs). x = CHR ''.'' \<or> is_legal_char x) \<longleftrightarrow>
        is_legal_char c \<and> (\<forall>x \<in> set cs. x = CHR ''.'' \<or> is_legal_char x)" using False by simp
    show ?thesis
      using Cons.IH [of c] False unfolding l n s e t by (simp del: last.simps split del: if_split)
  qed
qed simp

lemma legal_name_iff:
  "check_legal_property_name name \<longleftrightarrow> tokens_ok name \<and> (\<forall>c \<in> set name. c = CHR ''.'' \<or> is_legal_char c)"
proof (cases name)
  case Nil
  then show ?thesis by (simp add: check_legal_property_name_def tokens_ok_def)
next
  case (Cons c cs)
  obtain t ts where t: "name_tokens cs = t # ts" by (cases "name_tokens cs") auto
  have first: "c \<noteq> CHR ''.'' \<longleftrightarrow> hd (name_tokens name) \<noteq> ''''" using Cons t by simp
  have toks: "tokens_ok name \<longleftrightarrow> hd (name_tokens name) \<noteq> '''' \<and> '''' \<notin> set (tl (name_tokens name))"
    unfolding tokens_ok_def by (cases "name_tokens name") auto
  have "name ! (length name - 1) = last name" using Cons by (simp add: last_conv_nth)
  then have "check_legal_property_name name \<longleftrightarrow> c \<noteq> CHR ''.'' \<and> legal_chars NUL name \<and> last name \<noteq> CHR ''.''"
    unfolding check_legal_property_name_def using Cons by auto
  with legal_chars_tokens [of NUL name] first toks Cons show ?thesis by (auto simp: NUL_def)
qed

lemma legal_name_ok:
  assumes "check_legal_property_name name"
  shows "name_ok name" "tokens_ok name" "name \<noteq> ''''"
proof -
  have "\<not> is_legal_char NUL" by (simp add: is_legal_char_def NUL_def less_eq_char_def)
  moreover have "NUL \<noteq> CHR ''.''" by (simp add: NUL_def)
  ultimately show "name_ok name" using assms unfolding legal_name_iff by blast
  show "tokens_ok name" using assms unfolding legal_name_iff by blast
  then show "name \<noteq> ''''" by (auto simp: tokens_ok_def)
qed

section \<open>Setting, getting and deleting\<close>

lemma init_ready:
  "sp_initialized (rt_sp rt) \<Longrightarrow> init_resetprop te rt = Some (0, rt\<lparr>rt_use_pb := rt_use_pb rt \<or> rt_pb_exists rt\<rparr>)"
  by (simp add: init_resetprop_def api_properties_init_def SystemProperties_Init_def)

lemma ready_initialized: "sp_ready sp name f \<Longrightarrow> sp_initialized sp"
  by (simp add: sp_ready_def)

text \<open>What is got of a property that can be read.\<close>

lemma getprop_value:
  assumes legal: "check_legal_property_name name" and ready: "sp_ready (rt_sp rt) name f"
    and got: "sp_value (te_prop te) name (rt_sp rt) = Some v" and short: "length v < PROP_VALUE_MAX"
  shows "map_option fst (getprop te name persist rt) = Some v"
proof -
  let ?sp = "rt_sp rt"
  from ready obtain pa where pa: "sp_area f ?sp = Some pa" "area_ok (sp_ds ?sp) pa" unfolding sp_ready_def by blast
  obtain r where "pa_find (sp_ds ?sp) name pa = Some r" using pa_find_node [OF pa(2)] by simp
  from sp_Find_ready [OF ready pa(1) this] have find: "sp_Find (te_prop te) name ?sp = Some (map_option (Pair f) r, ?sp)" .
  with got obtain off a b where "r = Some off" "sp_ReadCallback (f, off) ?sp = Some (a, v, b)"
    by (auto simp: sp_value_def split: option.splits)
  with find short legal init_ready [OF ready_initialized [OF ready], of te] show ?thesis
    by (simp add: getprop_def Let_def strcpy_value_def)
qed

lemma getprop_none:
  assumes legal: "check_legal_property_name name" and init: "sp_initialized (rt_sp rt)"
    and none: "sp_Find (te_prop te) name (rt_sp rt) = Some (None, rt_sp rt)"
  shows "map_option fst (getprop te name False rt) = Some ''''"
  using legal none init_ready [OF init, of te] by (simp add: getprop_def Let_def)

text \<open>
  A long value of a read-only property cannot be replaced; nor can a short one when the serial
  has counted up to the bit that marks long values.
\<close>

definition replaceable :: "string \<Rightarrow> string \<Rightarrow> system_properties \<Rightarrow> bool" where
  "replaceable name v sp \<longleftrightarrow> (\<forall>f off pa i. sp_area f sp = Some pa \<longrightarrow> pa_find (sp_ds sp) name pa = Some (Some off)
     \<longrightarrow> deref_info pa off = Some i \<longrightarrow> is_read_only (pi_name i) \<longrightarrow> \<not> pi_is_long (updated_info v (length v) i))"

lemma setprop_outcome:
  assumes legal: "check_legal_property_name name" and ready: "sp_ready (rt_sp rt) name f"
    and v: "length v < PROP_VALUE_MAX" "NUL \<notin> set v" and rep: "replaceable name v (rt_sp rt)"
  shows "\<exists>r rt1. setprop te name v False rt = Some (r, rt1) \<and> (r = 0 \<or> r = - 1)
     \<and> set_outcome (te_prop te) f name v (rt_sp rt) r (rt_sp rt1)
     \<and> (\<forall>pa. sp_area f (rt_sp rt) = Some pa \<longrightarrow> pa_bytes_used pa + add_room name v \<le> sp_ds (rt_sp rt) \<longrightarrow> r = 0)"
proof -
  let ?sp = "rt_sp rt"
  note nm = legal_name_ok [OF legal]
  from ready obtain pa where pa: "sp_area f ?sp = Some pa" "area_ok (sp_ds ?sp) pa" unfolding sp_ready_def by blast
  obtain r where r: "pa_find (sp_ds ?sp) name pa = Some r" using pa_find_node [OF pa(2)] by simp
  have find: "sp_Find (te_prop te) name ?sp = Some (map_option (Pair f) r, ?sp)" by (rule sp_Find_ready [OF ready pa(1) r])
  note init = init_ready [OF ready_initialized [OF ready], of te]
  show ?thesis
  proof (cases r)
    case None
    from sp_Add_outcome [OF ready pa(1) _ nm(1,3) v, of "te_prop te"] r None obtain q sp' where
      add: "sp_Add (te_prop te) name v ?sp = Some (q, sp')" "q = 0 \<or> q = - 1" "set_outcome (te_prop te) f name v ?sp q sp'"
        "tokens_ok name \<longrightarrow> pa_bytes_used pa + add_room name v \<le> sp_ds ?sp \<longrightarrow> q = 0" by auto
    have "setprop te name v False rt = Some (q, rt\<lparr>rt_use_pb := rt_use_pb rt \<or> rt_pb_exists rt, rt_sp := sp'\<rparr>)"
      using legal init find None add(1) by (simp add: setprop_def Let_def)
    with add(2-4) nm(2) pa(1) show ?thesis by auto
  next
    case (Some off)
    from pa_find_info [OF pa(2)] r Some obtain i where i: "deref_info pa off = Some i" by blast
    have short: "is_read_only (pi_name i) \<Longrightarrow> \<not> pi_is_long (updated_info v (length v) i)"
      using rep pa(1) r Some i unfolding replaceable_def by blast
    from sp_Update_outcome [OF ready pa(1) _ i nm(1) v short, of "te_prop te"] r Some obtain sp' where
      upd: "sp_Update (f, off) v (length v) ?sp = Some (0, sp')" "set_outcome (te_prop te) f name v ?sp 0 sp'" by auto
    have "setprop te name v False rt = Some (0, rt\<lparr>rt_use_pb := rt_use_pb rt \<or> rt_pb_exists rt, rt_sp := sp'\<rparr>)"
      using legal init find Some upd(1) by (simp add: setprop_def Let_def)
    with upd(2) show ?thesis by auto
  qed
qed

lemma deleteprop_outcome:
  assumes legal: "check_legal_property_name name" and ready: "sp_ready (rt_sp rt) name f"
  shows "\<exists>r rt1. deleteprop te name False rt = Some (r, rt1) \<and> sp_ready (rt_sp rt1) name f
     \<and> others_kept (te_prop te) name (rt_sp rt) (rt_sp rt1)
     \<and> sp_Find (te_prop te) name (rt_sp rt1) = Some (None, rt_sp rt1)
     \<and> (sp_Find (te_prop te) name (rt_sp rt) \<noteq> Some (None, rt_sp rt) \<longrightarrow> r = 0)"
proof -
  from sp_Delete_outcome [OF ready legal_name_ok(1) [OF legal], of "te_prop te"] obtain r sp' where
    del: "sp_Delete (te_prop te) name (rt_sp rt) = Some (r, sp')" "sp_ready sp' name f"
      "others_kept (te_prop te) name (rt_sp rt) sp'" "sp_Find (te_prop te) name sp' = Some (None, sp')"
      "sp_Find (te_prop te) name (rt_sp rt) \<noteq> Some (None, rt_sp rt) \<longrightarrow> r = 0" by blast
  have "deleteprop te name False rt = Some (if r \<noteq> 0 then 1 else 0,
      rt\<lparr>rt_use_pb := rt_use_pb rt \<or> rt_pb_exists rt, rt_sp := sp'\<rparr>)"
    using legal init_ready [OF ready_initialized [OF ready], of te] del(1) by (simp add: deleteprop_def)
  with del(2-5) show ?thesis by auto
qed

section \<open>Messages\<close>

lemma le32_length [simp]: "length (le32 n) = 4"
  by (simp add: le32_def)

lemma le32_inject: "m < 2 ^ 32 \<Longrightarrow> n < 2 ^ 32 \<Longrightarrow> le32 m = le32 n \<longleftrightarrow> m = n"
  using of_le32_le32 by metis

lemma padded_inject:
  assumes "NUL \<notin> set xs" "NUL \<notin> set ys" "xs @ replicate m NUL = ys @ replicate n NUL"
  shows "xs = ys"
proof -
  have "takeWhile (\<lambda>c. c \<noteq> NUL) (zs @ replicate k NUL) = zs" if "NUL \<notin> set zs" for zs k
    using that by (induction zs) (auto simp: takeWhile_replicate)
  with assms show ?thesis by metis
qed

text \<open>The bytes of the two messages; the names and values of the old one have to fit.\<close>

lemma prop_msg_bytes:
  assumes "length key < PROP_NAME_MAX" "length v < PROP_VALUE_MAX"
  shows "prop_msg key v = le32 PROP_MSG_SETPROP @ (key @ replicate (PROP_NAME_MAX - length key) NUL)
     @ v @ replicate (PROP_VALUE_MAX - length v) NUL"
  using assms by (simp add: prop_msg_def strlcpy_buffer_def)

lemma prop_msg2_bytes: "prop_msg2 key v = le32 PROP_MSG_SETPROP2 @ le32 (length key) @ key @ le32 (length v) @ v"
  by (simp add: prop_msg2_def WriteString_def WriteUint32_def Let_def)

lemma prop_msg_inject:
  assumes "length key < PROP_NAME_MAX" "length v < PROP_VALUE_MAX" "NUL \<notin> set key" "NUL \<notin> set v"
    and "length key' < PROP_NAME_MAX" "length v' < PROP_VALUE_MAX" "NUL \<notin> set key'" "NUL \<notin> set v'"
  shows "prop_msg key v = prop_msg key' v' \<longleftrightarrow> key = key' \<and> v = v'"
proof
  assume "prop_msg key v = prop_msg key' v'"
  then have "(key @ replicate (PROP_NAME_MAX - length key) NUL) @ v @ replicate (PROP_VALUE_MAX - length v) NUL
      = (key' @ replicate (PROP_NAME_MAX - length key') NUL) @ v' @ replicate (PROP_VALUE_MAX - length v') NUL"
    unfolding prop_msg_bytes [OF assms(1,2)] prop_msg_bytes [OF assms(5,6)] same_append_eq .
  moreover have "length (key @ replicate (PROP_NAME_MAX - length key) NUL)
      = length (key' @ replicate (PROP_NAME_MAX - length key') NUL)" using assms(1,5) by simp
  ultimately have "key @ replicate (PROP_NAME_MAX - length key) NUL = key' @ replicate (PROP_NAME_MAX - length key') NUL
      \<and> v @ replicate (PROP_VALUE_MAX - length v) NUL = v' @ replicate (PROP_VALUE_MAX - length v') NUL"
    by (metis append_eq_append_conv)
  then show "key = key' \<and> v = v'" using padded_inject [OF assms(3,7)] padded_inject [OF assms(4,8)] by blast
qed simp

lemma sized_string_inject:
  assumes "length xs < 2 ^ 32" "length ys < 2 ^ 32"
  shows "le32 (length xs) @ xs @ r = le32 (length ys) @ ys @ s \<longleftrightarrow> xs = ys \<and> r = s"
  using le32_inject [OF assms] by (auto simp: append_eq_append_conv)

lemma prop_msg2_inject:
  assumes "length key < 2 ^ 32" "length v < 2 ^ 32" "length key' < 2 ^ 32" "length v' < 2 ^ 32"
  shows "prop_msg2 key v @ r = prop_msg2 key' v' @ s \<longleftrightarrow> key = key' \<and> v = v' \<and> r = s"
  unfolding prop_msg2_bytes append_assoc same_append_eq
  using sized_string_inject [OF assms(1,3)] sized_string_inject [OF assms(2,4)] by blast

section \<open>Properties\<close>

text \<open>An area of its own in a file, as the only one.\<close>

definition one_area :: "prop_area \<Rightarrow> system_properties" where
  "one_area pa = \<lparr>sp_initialized = True, sp_filename = ''p'', sp_contexts = Some (Pre_split (Some ''p'')),
     sp_world = \<lparr>pw_files = [''p'' \<mapsto> area_file PA_SIZE pa], pw_data_size = PA_SIZE - sizeof_prop_area\<rparr>\<rparr>"

lemma one_area_facts [simp]:
  "sp_area ''p'' (one_area pa) = Some pa" "sp_ds (one_area pa) = PA_SIZE - sizeof_prop_area"
  by (simp_all add: one_area_def sp_area_def area_file_def)

lemma one_area_ready:
  assumes "area_ok (PA_SIZE - sizeof_prop_area) pa"
  shows "sp_ready (one_area pa) name ''p''"
proof -
  have "sp_initialized (one_area pa)" "sp_contexts (one_area pa) = Some (Pre_split (Some ''p''))" by (simp_all add: one_area_def)
  with assms show ?thesis by (simp add: sp_ready_def)
qed

lemma new_area_ok: "area_ok (PA_SIZE - sizeof_prop_area) prop_area_new"
  by (rule prop_area_new_ok) (simp_all add: PA_SIZE_def sizeof_prop_area_def sizeof_prop_bt_def)

lemmas add_room_defs = add_room_def info_room_def node_room_def BIONIC_ALIGN_def sizeof_prop_bt_def sizeof_prop_info_def
  sizeof_prop_area_def PROP_VALUE_MAX_def PA_SIZE_def prop_area_new_def

lemma new_area_none: "pa_find (PA_SIZE - sizeof_prop_area) name prop_area_new = Some None"
proof -
  have "node_prop prop_area_new x = None" for x by (simp add: node_prop_def prop_area_new_def)
  then show ?thesis by (simp add: pa_find_node [OF new_area_ok] split: bind_splits)
qed

text \<open>
  C30: What is set is what is got, as long as values are short. Take a legal name whose area is
  mapped, a value of less than 92 bytes, and a property that can be replaced: none of that name, one
  that is not read-only, or a read-only one that is not marked as long after the update. Setting it
  without the property service returns; when it reports success, getting the name gives the value,
  and it reports success when the area has room; in any case all other properties keep their values
  and can still be found. (A read-only property with a long value is not replaceable: setting it
  reports success, and getting it still gives the old value.)
\<close>

theorem setprop_then_getprop:
  assumes "check_legal_property_name name" "sp_ready (rt_sp rt) name f"
    and "length v < PROP_VALUE_MAX" "NUL \<notin> set v" "replaceable name v (rt_sp rt)"
  shows "\<exists>r rt1. setprop te name v False rt = Some (r, rt1)
    \<and> (r = 0 \<longrightarrow> map_option fst (getprop te name persist rt1) = Some v)
    \<and> others_kept (te_prop te) name (rt_sp rt) (rt_sp rt1)
    \<and> (\<forall>pa. sp_area f (rt_sp rt) = Some pa \<longrightarrow> pa_bytes_used pa + add_room name v \<le> sp_ds (rt_sp rt) \<longrightarrow> r = 0)"
proof -
  from setprop_outcome [OF assms, of te] obtain r rt1 where s: "setprop te name v False rt = Some (r, rt1)"
    "set_outcome (te_prop te) f name v (rt_sp rt) r (rt_sp rt1)"
    "\<forall>pa. sp_area f (rt_sp rt) = Some pa \<longrightarrow> pa_bytes_used pa + add_room name v \<le> sp_ds (rt_sp rt) \<longrightarrow> r = 0" by blast
  then have o: "sp_ready (rt_sp rt1) name f" "others_kept (te_prop te) name (rt_sp rt) (rt_sp rt1)"
    "r = 0 \<Longrightarrow> sp_value (te_prop te) name (rt_sp rt1) = Some v" by (simp_all add: set_outcome_def)
  from getprop_value [OF assms(1) o(1) o(3) assms(3)] s(1,3) o(2) show ?thesis by blast
qed

definition one_tool :: "prop_area \<Rightarrow> reset_tool" where
  "one_tool pa = \<lparr>rt_sp = one_area pa, rt_use_pb = False, rt_version = 0, rt_pb_bytes = '''', rt_pb_exists = False, rt_dir = None\<rparr>"

definition plain_env :: tool_env where
  "plain_env = \<lparr>te_prop = \<lparr>pe_create = (\<lambda>_. Create_failed), pe_setxattr = (\<lambda>_ _. True), pe_truncate = (\<lambda>_. True),
       pe_mmap = (\<lambda>_. True), pe_readable = (\<lambda>_. True), pe_is_dir = (\<lambda>_. False), pe_lines = (\<lambda>_. None),
       pe_info_stat = None, pe_info_bytes = None\<rparr>,
     te_anon_mmap = True, te_service = \<lparr>sv_connect_error = Some 2, sv_send = (\<lambda>_ _. None), sv_answer = (\<lambda>_ _. None)\<rparr>,
     te_codec = \<lparr>pc_decode = (\<lambda>_. []), pc_encode = (\<lambda>_. None)\<rparr>, te_lines = (\<lambda>_. None)\<rparr>"

theorem setprop_then_getprop_witness:
  "\<exists>rt1. setprop plain_env ''ro.a'' ''x'' False (one_tool prop_area_new) = Some (0, rt1)
    \<and> map_option fst (getprop plain_env ''ro.a'' False rt1) = Some ''x''"
proof -
  have legal: "check_legal_property_name ''ro.a''" by code_simp
  have ready: "sp_ready (rt_sp (one_tool prop_area_new)) ''ro.a'' ''p''"
    using one_area_ready [OF new_area_ok] by (simp add: one_tool_def)
  have v: "length ''x'' < PROP_VALUE_MAX" "NUL \<notin> set ''x''" by (simp_all add: PROP_VALUE_MAX_def NUL_def)
  have rep: "replaceable ''ro.a'' ''x'' (rt_sp (one_tool prop_area_new))"
    unfolding replaceable_def
  proof (intro allI impI)
    fix f off pa i
    assume "sp_area f (rt_sp (one_tool prop_area_new)) = Some pa"
      and find: "pa_find (sp_ds (rt_sp (one_tool prop_area_new))) ''ro.a'' pa = Some (Some off)"
    then have "pa = prop_area_new" by (auto simp: one_tool_def one_area_def sp_area_def area_file_def split: if_splits)
    with find show "\<not> pi_is_long (updated_info ''x'' (length ''x'') i)" by (simp add: one_tool_def new_area_none)
  qed
  have room: "pa_bytes_used prop_area_new + add_room ''ro.a'' ''x'' \<le> sp_ds (one_area prop_area_new)"
    by (simp add: add_room_defs)
  from setprop_then_getprop [OF legal ready v rep, of plain_env False] room show ?thesis by (auto simp: one_tool_def)
qed

text \<open>
  C31: Deleting works. For a legal name whose area is mapped it returns; afterwards the property
  is not found and getting it gives the empty string, all others are as before, and when there
  was a property the result is the one for success.
\<close>

theorem deleteprop_then_getprop:
  assumes "check_legal_property_name name" "sp_ready (rt_sp rt) name f"
  shows "\<exists>r rt1. deleteprop te name False rt = Some (r, rt1)
    \<and> map_option fst (getprop te name False rt1) = Some ''''
    \<and> others_kept (te_prop te) name (rt_sp rt) (rt_sp rt1)
    \<and> (sp_Find (te_prop te) name (rt_sp rt) = Some (None, rt_sp rt) \<or> r = 0)"
proof -
  from deleteprop_outcome [OF assms, of te] obtain r rt1 where d: "deleteprop te name False rt = Some (r, rt1)"
    "sp_ready (rt_sp rt1) name f" "others_kept (te_prop te) name (rt_sp rt) (rt_sp rt1)"
    "sp_Find (te_prop te) name (rt_sp rt1) = Some (None, rt_sp rt1)"
    "sp_Find (te_prop te) name (rt_sp rt) \<noteq> Some (None, rt_sp rt) \<longrightarrow> r = 0" by blast
  from getprop_none [OF assms(1) ready_initialized [OF d(2)] d(4)] d(1,3,5) show ?thesis by blast
qed

theorem deleteprop_then_getprop_witness:
  "\<exists>r rt1. deleteprop plain_env ''ro.a'' False (one_tool prop_area_new) = Some (r, rt1)
    \<and> map_option fst (getprop plain_env ''ro.a'' False rt1) = Some ''''"
proof -
  have legal: "check_legal_property_name ''ro.a''" by code_simp
  have ready: "sp_ready (rt_sp (one_tool prop_area_new)) ''ro.a'' ''p''"
    using one_area_ready [OF new_area_ok] by (simp add: one_tool_def)
  from deleteprop_then_getprop [OF legal ready, of plain_env] show ?thesis by blast
qed

text \<open>
  C35: The names the tool accepts are those that consist of letters, digits, dots and four other
  signs, with no empty part before, between or after the dots.
\<close>

theorem legal_names_exactly:
  "check_legal_property_name name \<longleftrightarrow>
     '''' \<notin> set (name_tokens name) \<and> (\<forall>c \<in> set name. c = CHR ''.'' \<or> is_legal_char c)"
  by (simp add: legal_name_iff tokens_ok_def)

theorem legal_names_exactly_witness: "check_legal_property_name ''ro.a-b'' \<and> \<not> check_legal_property_name ''ro..a''"
proof -
  have "'''' \<notin> set (name_tokens ''ro.a-b'') \<and> (\<forall>c \<in> set ''ro.a-b''. c = CHR ''.'' \<or> is_legal_char c)" by code_simp
  moreover have "'''' \<in> set (name_tokens ''ro..a'')" by code_simp
  ultimately show ?thesis unfolding legal_names_exactly by blast
qed

text \<open>
  C36: The messages to the property service are complete and unambiguous. The old protocol sends the
  struct of 128 bytes, the command and the name and value padded with zeros; the new one sends the
  command and then the name and the value with their lengths before them. Two requests that the old
  protocol admits are told apart by their bytes, and in the new protocol two requests of any lengths
  that a 32-bit number can hold are told apart by the first bytes of the stream, whatever follows.
\<close>

theorem set_messages_unambiguous:
  assumes "length key < 2 ^ 32" "length v < 2 ^ 32" "length key' < 2 ^ 32" "length v' < 2 ^ 32"
    and "NUL \<notin> set key" "NUL \<notin> set v" "NUL \<notin> set key'" "NUL \<notin> set v'"
  shows "(length key < PROP_NAME_MAX \<and> length v < PROP_VALUE_MAX \<longrightarrow> length (prop_msg key v) = 128
      \<and> prop_msg key v = le32 PROP_MSG_SETPROP @ (key @ replicate (PROP_NAME_MAX - length key) NUL)
          @ v @ replicate (PROP_VALUE_MAX - length v) NUL
      \<and> (length key' < PROP_NAME_MAX \<and> length v' < PROP_VALUE_MAX \<longrightarrow>
          (prop_msg key v = prop_msg key' v' \<longleftrightarrow> key = key' \<and> v = v')))
    \<and> prop_msg2 key v = le32 PROP_MSG_SETPROP2 @ le32 (length key) @ key @ le32 (length v) @ v
    \<and> (prop_msg2 key v @ r = prop_msg2 key' v' @ s \<longleftrightarrow> key = key' \<and> v = v' \<and> r = s)"
proof (intro conjI impI)
  assume k: "length key < PROP_NAME_MAX \<and> length v < PROP_VALUE_MAX"
  then show "prop_msg key v = le32 PROP_MSG_SETPROP @ (key @ replicate (PROP_NAME_MAX - length key) NUL)
          @ v @ replicate (PROP_VALUE_MAX - length v) NUL" by (simp only: prop_msg_bytes)
  then show "length (prop_msg key v) = 128" using k by (simp add: PROP_NAME_MAX_def PROP_VALUE_MAX_def)
  assume "length key' < PROP_NAME_MAX \<and> length v' < PROP_VALUE_MAX"
  then show "prop_msg key v = prop_msg key' v' \<longleftrightarrow> key = key' \<and> v = v'"
    using prop_msg_inject [OF _ _ assms(5,6) _ _ assms(7,8)] k by blast
next
  show "prop_msg2 key v = le32 PROP_MSG_SETPROP2 @ le32 (length key) @ key @ le32 (length v) @ v" by (rule prop_msg2_bytes)
  show "prop_msg2 key v @ r = prop_msg2 key' v' @ s \<longleftrightarrow> key = key' \<and> v = v' \<and> r = s"
    by (rule prop_msg2_inject [OF assms(1-4)])
qed

theorem set_messages_unambiguous_witness:
  "length (prop_msg ''a.b'' ''x'') = 128 \<and> prop_msg ''a.b'' ''x'' \<noteq> prop_msg ''a.b'' ''y''
   \<and> prop_msg2 ''a.b'' ''x'' @ ''c'' \<noteq> prop_msg2 ''a.bx'' '''' @ ''''"
proof -
  have "length ''a.b'' < 2 ^ 32" "length ''x'' < 2 ^ 32" "length ''y'' < 2 ^ 32" "length ''a.bx'' < 2 ^ 32" "length '''' < 2 ^ 32"
    "NUL \<notin> set ''a.b''" "NUL \<notin> set ''x''" "NUL \<notin> set ''y''" "NUL \<notin> set ''a.bx''" "NUL \<notin> set ''''"
    "length ''a.b'' < PROP_NAME_MAX" "length ''x'' < PROP_VALUE_MAX" "length ''y'' < PROP_VALUE_MAX"
    by (simp_all add: NUL_def PROP_NAME_MAX_def PROP_VALUE_MAX_def)
  note ok = this
  have "''x'' \<noteq> ''y''" "''a.b'' \<noteq> ''a.bx''" by simp_all
  with set_messages_unambiguous [OF ok(1,2,1,3,6,7,6,8), of "''''" "''''"]
    set_messages_unambiguous [OF ok(1,2,4,5,6,7,9,10), of "''c''" "''''"] ok(11-13)
  show ?thesis by blast
qed

text \<open>
  C37: A long value of a read-only property is not replaced by updating it to a value of less than 56
  bytes, which is where the offset of the long value lies: the update reports success, but who reads
  through \<open>ReadCallback\<close>, as the reset tool does, still gets the old value, while \<open>Get\<close> and \<open>Read\<close>
  give the new one, so readers disagree.
\<close>

theorem long_value_stays:
  assumes "sp_ready sp name f" "sp_area f sp = Some pa" "pa_find (sp_ds sp) name pa = Some (Some off)"
    and "deref_info pa off = Some (prop_info_long name n)" "is_read_only name" "length v < kLongLegacyErrorBufferSize"
  shows "\<exists>sp'. sp_Update (f, off) v (length v) sp = Some (0, sp') \<and> sp_value env name sp' = sp_value env name sp
    \<and> sp_Get env name sp' = Some ((length v, c_string v), sp')"
  using sp_Update_long [OF assms, of env] by blast

theorem long_value_stays_witness:
  "\<exists>pa off sp'. pa_add (PA_SIZE - sizeof_prop_area) ''ro.a'' (replicate 92 CHR ''x'') prop_area_new = Some (True, pa)
    \<and> sp_Update (''p'', off) ''y'' (length ''y'') (one_area pa) = Some (0, sp')
    \<and> sp_value (te_prop plain_env) ''ro.a'' sp' = sp_value (te_prop plain_env) ''ro.a'' (one_area pa)
    \<and> map_option (snd \<circ> fst) (sp_Get (te_prop plain_env) ''ro.a'' sp') = Some ''y''"
proof -
  let ?ds = "PA_SIZE - sizeof_prop_area" and ?n = "''ro.a''" and ?v = "replicate 92 CHR ''x''"
  have nm: "name_ok ?n" "tokens_ok ?n" by (simp_all add: NUL_def tokens_ok_def)
  from pa_add_outcome [OF new_area_ok nm(1), of ?v] obtain added pa where
    a: "pa_add ?ds ?n ?v prop_area_new = Some (added, pa)" "add_outcome ?ds ?n ?v prop_area_new added pa" by blast
  have "pa_bytes_used prop_area_new + add_room ?n ?v \<le> ?ds" by (simp add: add_room_defs)
  with pa_add_room [OF new_area_ok nm a(1)] have added: "added" by (auto simp: within_room_def)
  with a(2) new_area_none obtain off i where i: "pa_find ?ds ?n pa = Some (Some off)" "deref_info pa off = Some i" "i \<in> new_infos ?n ?v"
    unfolding add_outcome_def by blast
  then obtain m where m: "deref_info pa off = Some (prop_info_long ?n m)" by (auto simp: new_infos_def PROP_VALUE_MAX_def)
  have ready: "sp_ready (one_area pa) ?n ''p''" using a(2) by (intro one_area_ready) (simp add: add_outcome_def)
  have found: "pa_find (sp_ds (one_area pa)) ?n pa = Some (Some off)" using i(1) by simp
  have ro: "is_read_only ?n" by code_simp
  have "c_string ''y'' = ''y''" by code_simp
  with long_value_stays [OF ready one_area_facts(1) found m ro, of "''y''" "te_prop plain_env"] show ?thesis
    using a(1) added by (auto simp: kLongLegacyErrorBufferSize_def)
qed

end
