(* ===== verification/Prop_Seqlock.thy ===== *)
theory Prop_Seqlock
  imports Prop_Service_Facts
begin

text \<open>
  A reader and a writer of one property at the same time (\<open>Update\<close>, \<open>Serial\<close> and
  \<open>ReadCallback\<close> of \<open>system_properties.cpp\<close>): the writer marks the serial as dirty, copies the
  value byte by byte and stores the new serial; the reader loads a clean serial, copies the bytes
  and starts over unless the serial is still the same. Of a read-only property the reader copies
  nothing: it hands out the place of the value itself, and the callback reads there. The steps of both interleave; each sees the
  stores of the other in order, which is what the fences of the source are for.
\<close>

section \<open>The steps\<close>

text \<open>
  A reader of a read-only property reads bytes up to the first NUL (\<open>Rd_direct\<close>), or the long value,
  which no update writes (\<open>Rd_long\<close>).
\<close>

datatype prop_reader = Rd_start | Rd_copy u32 string | Rd_direct u32 string | Rd_long u32 | Rd_done u32 string

text \<open>The writer has a value and the number of its bytes that are copied; the history are all values so far.\<close>

record seq_state =
  sq_info :: prop_info
  sq_writer :: "(string \<times> nat) option"
  sq_reader :: prop_reader
  sq_history :: "string list"

definition upd_begin :: "string \<Rightarrow> seq_state \<Rightarrow> seq_state" where
  "upd_begin v st = st\<lparr>sq_info := (sq_info st)\<lparr>pi_serial := pi_serial (sq_info st) OR 1\<rparr>, sq_writer := Some (v, 0)\<rparr>"

definition upd_byte :: "string \<Rightarrow> nat \<Rightarrow> seq_state \<Rightarrow> seq_state" where
  "upd_byte v k st = st\<lparr>sq_info := (sq_info st)\<lparr>pi_union := (pi_union (sq_info st))[k := (v @ [NUL]) ! k]\<rparr>,
     sq_writer := Some (v, k + 1)\<rparr>"

definition upd_end :: "string \<Rightarrow> seq_state \<Rightarrow> seq_state" where
  "upd_end v st = st\<lparr>sq_info := (sq_info st)\<lparr>pi_serial :=
       push_bit 24 (of_nat (length v)) OR ((pi_serial (sq_info st) + 1) AND 0xffffff)\<rparr>,
     sq_writer := None, sq_history := sq_history st @ [v]\<rparr>"

definition rd_check :: "u32 \<Rightarrow> string \<Rightarrow> seq_state \<Rightarrow> seq_state" where
  "rd_check s buf st = st\<lparr>sq_reader := (if pi_serial (sq_info st) = s then Rd_done s buf else Rd_start)\<rparr>"

inductive prop_step :: "seq_state \<Rightarrow> seq_state \<Rightarrow> bool" where
  begin_update: "sq_writer st = None \<Longrightarrow> length v < PROP_VALUE_MAX \<Longrightarrow> NUL \<notin> set v \<Longrightarrow> prop_step st (upd_begin v st)"
| copy_in: "sq_writer st = Some (v, k) \<Longrightarrow> k \<le> length v \<Longrightarrow> prop_step st (upd_byte v k st)"
| end_update: "sq_writer st = Some (v, Suc (length v)) \<Longrightarrow> prop_step st (upd_end v st)"
| load_serial: "sq_reader st = Rd_start \<Longrightarrow> \<not> is_read_only (pi_name (sq_info st))
    \<Longrightarrow> \<not> SERIAL_DIRTY (pi_serial (sq_info st)) \<Longrightarrow> prop_step st (st\<lparr>sq_reader := Rd_copy (pi_serial (sq_info st)) []\<rparr>)"
| copy_out: "sq_reader st = Rd_copy s buf \<Longrightarrow> length buf < SERIAL_VALUE_LEN s
    \<Longrightarrow> prop_step st (st\<lparr>sq_reader := Rd_copy s (buf @ [pi_union (sq_info st) ! length buf])\<rparr>)"
| check_serial: "sq_reader st = Rd_copy s buf \<Longrightarrow> length buf = SERIAL_VALUE_LEN s \<Longrightarrow> prop_step st (rd_check s buf st)"
| load_read_only: "sq_reader st = Rd_start \<Longrightarrow> is_read_only (pi_name (sq_info st))
    \<Longrightarrow> \<not> SERIAL_DIRTY (pi_serial (sq_info st))
    \<Longrightarrow> prop_step st (st\<lparr>sq_reader := (if pi_is_long (sq_info st) then Rd_long (pi_serial (sq_info st))
          else Rd_direct (pi_serial (sq_info st)) [])\<rparr>)"
| direct_byte: "sq_reader st = Rd_direct s buf \<Longrightarrow> length buf < length (pi_union (sq_info st))
    \<Longrightarrow> prop_step st (st\<lparr>sq_reader := (if pi_union (sq_info st) ! length buf = NUL then Rd_done s buf
          else Rd_direct s (buf @ [pi_union (sq_info st) ! length buf]))\<rparr>)"

inductive_cases prop_stepE: "prop_step st st'"

text \<open>A property with a value that no one reads or writes yet.\<close>

definition seq_init :: "prop_info \<Rightarrow> string \<Rightarrow> seq_state" where
  "seq_init i v = \<lparr>sq_info = i, sq_writer = None, sq_reader = Rd_start, sq_history = [v]\<rparr>"

section \<open>Serials\<close>

definition counter :: "u32 \<Rightarrow> nat" where
  "counter s = unat s mod 2 ^ 24"

lemma dirty_odd: "SERIAL_DIRTY s \<longleftrightarrow> odd (unat s)"
proof -
  have "s AND 1 = (if odd s then 1 else 0)" by (simp add: and_one_eq odd_iff_mod_2_eq_one even_iff_mod_2_eq_zero)
  moreover have "odd s \<longleftrightarrow> odd (unat s)" by (simp add: bit_0 [symmetric] bit_unsigned_iff)
  ultimately show ?thesis by (simp add: SERIAL_DIRTY_def)
qed

lemma value_len_div: "SERIAL_VALUE_LEN s = unat s div 2 ^ 24"
  by (metis SERIAL_VALUE_LEN_def unat_drop_bit_eq drop_bit_eq_div)

text \<open>The serial that an update ends with, after it made an even serial dirty.\<close>

lemma end_serial:
  fixes s :: u32 and v :: string
  assumes even: "\<not> SERIAL_DIRTY s" and len: "length v < PROP_VALUE_MAX"
  shows "\<not> SERIAL_DIRTY (push_bit 24 (of_nat (length v)) OR (((s OR 1) + 1) AND 0xffffff))"
    "SERIAL_VALUE_LEN (push_bit 24 (of_nat (length v)) OR (((s OR 1) + 1) AND 0xffffff)) = length v"
    "counter (push_bit 24 (of_nat (length v)) OR (((s OR 1) + 1) AND 0xffffff)) = (counter s + 2) mod 2 ^ 24"
proof -
  let ?i = "\<lparr>pi_serial = s, pi_union = '''', pi_name = ''''\<rparr>"
  let ?t = "push_bit 24 (of_nat (length v)) OR (((s OR 1) + 1) AND 0xffffff)"
  have t: "pi_serial (updated_info v (length v) ?i) = ?t" by (simp add: updated_info_def Let_def)
  show "\<not> SERIAL_DIRTY ?t" "SERIAL_VALUE_LEN ?t = length v"
    using updated_serial [OF len, of v ?i] unfolding t by blast+
  have "\<not> bit s 0" using even unfolding dirty_odd bit_0 [symmetric] by (simp add: bit_unsigned_iff del: bit_0)
  then have "s OR 1 = s + 1" by (intro disjunctive_add [symmetric]) (auto simp: bit_1_iff intro!: gr0I)
  then have two: "(s OR 1) + 1 = s + 2" by simp
  have mask: "(0xffffff :: u32) = mask 24" by (simp add: mask_eq_exp_minus_1)
  have "take_bit 24 ?t = take_bit 24 (s + 2)"
    unfolding two mask by (intro bit_word_eqI) (auto simp: bit_simps)
  then have "unat (take_bit 24 ?t) = unat (take_bit 24 (s + 2))" by (rule arg_cong)
  moreover have "unat (take_bit 24 w) = unat w mod 2 ^ 24" for w :: u32
    by (subst unsigned_take_bit_eq, rule take_bit_eq_mod)
  ultimately have "unat ?t mod 2 ^ 24 = unat (s + 2) mod 2 ^ 24" by (simp only:)
  moreover have "unat (s + 2) mod 2 ^ 24 = (unat s + 2) mod 2 ^ 24"
    by (simp add: unat_word_ariths mod_mod_cancel)
  ultimately show "counter ?t = (counter s + 2) mod 2 ^ 24"
    unfolding counter_def by (simp only: mod_add_left_eq)
qed

lemma dirty_or_one [simp]: "SERIAL_DIRTY (s OR 1)"
proof -
  have "(s OR 1) AND 1 = (1 :: u32)" by (rule bit_word_eqI) (auto simp: bit_simps)
  then show ?thesis by (simp add: SERIAL_DIRTY_def)
qed

section \<open>The invariant\<close>

text \<open>The counter of the serial that goes with the \<open>n\<close>-th value.\<close>

definition counter_at :: "nat \<Rightarrow> nat \<Rightarrow> nat" where
  "counter_at base n = (base + 2 * n) mod 2 ^ 24"

definition memory_inv :: "nat \<Rightarrow> prop_info \<Rightarrow> (string \<times> nat) option \<Rightarrow> string list \<Rightarrow> bool" where
  "memory_inv base i wr hist \<longleftrightarrow>
     length (pi_union i) = PROP_VALUE_MAX \<and> hist \<noteq> []
   \<and> (case wr of
        None \<Rightarrow> \<not> SERIAL_DIRTY (pi_serial i) \<and> SERIAL_VALUE_LEN (pi_serial i) = length (last hist)
          \<and> counter (pi_serial i) = counter_at base (length hist - 1)
          \<and> length (last hist) < PROP_VALUE_MAX \<and> take (length (last hist)) (pi_union i) = last hist
      | Some (v, k) \<Rightarrow> (\<exists>s. pi_serial i = s OR 1 \<and> \<not> SERIAL_DIRTY s \<and> counter s = counter_at base (length hist - 1))
          \<and> length v < PROP_VALUE_MAX \<and> k \<le> Suc (length v) \<and> take k (pi_union i) = take k (v @ [NUL]))"

definition reader_inv :: "nat \<Rightarrow> prop_info \<Rightarrow> (string \<times> nat) option \<Rightarrow> string list \<Rightarrow> prop_reader \<Rightarrow> bool" where
  "reader_inv base i wr hist rd \<longleftrightarrow>
     (case rd of
        Rd_start \<Rightarrow> True
      | Rd_copy s buf \<Rightarrow> \<not> SERIAL_DIRTY s \<and> length buf \<le> SERIAL_VALUE_LEN s
          \<and> (\<exists>c < length hist. counter s = counter_at base c \<and> SERIAL_VALUE_LEN s = length (hist ! c)
              \<and> (Suc c = length hist \<and> wr = None \<longrightarrow> buf = take (length buf) (pi_union i)))
      | Rd_direct s buf \<Rightarrow> is_read_only (pi_name i)
      | Rd_long s \<Rightarrow> is_read_only (pi_name i)
      | Rd_done s buf \<Rightarrow> \<not> is_read_only (pi_name i) \<longrightarrow> length hist \<le> 2 ^ 23 \<longrightarrow> buf \<in> set hist)"

definition seq_inv :: "nat \<Rightarrow> seq_state \<Rightarrow> bool" where
  "seq_inv base st \<longleftrightarrow> even base \<and> memory_inv base (sq_info st) (sq_writer st) (sq_history st)
     \<and> reader_inv base (sq_info st) (sq_writer st) (sq_history st) (sq_reader st)"

lemma counter_at_le:
  assumes "counter_at base c = counter_at base d" "d < 2 ^ 23" "c \<le> d"
  shows "c = d"
proof (rule ccontr)
  assume "c \<noteq> d"
  then have lt: "c < d" using assms(3) by simp
  have "(base + 2 * d) mod 2 ^ 24 = (base + 2 * c) mod 2 ^ 24" using assms(1) by (simp add: counter_at_def)
  moreover have "base + 2 * c \<le> base + 2 * d" using lt by simp
  ultimately have "2 ^ 24 dvd (base + 2 * d) - (base + 2 * c)" by (simp only: mod_eq_dvd_iff_nat)
  then have "2 ^ 24 dvd 2 * (d - c)" by (simp add: diff_mult_distrib2)
  moreover have "0 < 2 * (d - c)" "2 * (d - c) < 2 ^ 24" using lt assms(2) by auto
  ultimately show False by (meson nat_dvd_not_less)
qed

lemma counter_at_inj:
  "counter_at base c = counter_at base d \<Longrightarrow> c < 2 ^ 23 \<Longrightarrow> d < 2 ^ 23 \<Longrightarrow> c = d"
  using counter_at_le [of base c d] counter_at_le [of base d c] by (metis linear)

lemma take_Suc_list_update:
  "k < length xs \<Longrightarrow> take (Suc k) (xs[k := x]) = take k xs @ [x]"
  by (simp add: take_Suc_conv_app_nth)

lemma reader_inv_busy:
  assumes "reader_inv base i wr hist rd" "rd \<noteq> Rd_start" "pi_name i' = pi_name i"
  shows "reader_inv base i' (Some w) hist rd"
  using assms by (auto simp: reader_inv_def split: prop_reader.splits)

lemma prop_step_inv:
  assumes inv: "seq_inv base st" and step: "prop_step st st'"
  shows "seq_inv base st'"
  using step
proof (cases rule: prop_step.cases)
  case (begin_update v)
  have mem: "memory_inv base (sq_info st') (sq_writer st') (sq_history st')"
    using inv begin_update by (auto simp: seq_inv_def memory_inv_def upd_begin_def)
  have "reader_inv base (sq_info st') (sq_writer st') (sq_history st') (sq_reader st')"
    using inv begin_update reader_inv_busy [of base "sq_info st" "sq_writer st" "sq_history st" "sq_reader st"]
    by (cases "sq_reader st = Rd_start") (simp_all add: seq_inv_def upd_begin_def reader_inv_def)
  with mem inv show ?thesis by (simp add: seq_inv_def)
next
  case (copy_in v k)
  have k: "k < length (pi_union (sq_info st))" "length v < PROP_VALUE_MAX" "take k (pi_union (sq_info st)) = take k (v @ [NUL])"
    using inv copy_in by (simp_all add: seq_inv_def memory_inv_def)
  have "take (Suc k) ((pi_union (sq_info st))[k := (v @ [NUL]) ! k]) = take (Suc k) (v @ [NUL])"
  proof -
    have "take (Suc k) (v @ [NUL]) = take k (v @ [NUL]) @ [(v @ [NUL]) ! k]"
      by (rule take_Suc_conv_app_nth) (use copy_in(3) in simp)
    then show ?thesis by (simp only: take_Suc_list_update [OF k(1)] k(3))
  qed
  then have mem: "memory_inv base (sq_info st') (sq_writer st') (sq_history st')"
    using inv copy_in by (auto simp: seq_inv_def memory_inv_def upd_byte_def)
  have "reader_inv base (sq_info st') (sq_writer st') (sq_history st') (sq_reader st')"
    using inv copy_in reader_inv_busy [of base "sq_info st" "sq_writer st" "sq_history st" "sq_reader st"]
    by (cases "sq_reader st = Rd_start") (simp_all add: seq_inv_def upd_byte_def reader_inv_def)
  with mem inv show ?thesis by (simp add: seq_inv_def)
next
  case (end_update v)
  from inv end_update obtain s where s: "pi_serial (sq_info st) = s OR 1" "\<not> SERIAL_DIRTY s"
    "counter s = counter_at base (length (sq_history st) - 1)" "length v < PROP_VALUE_MAX" "sq_history st \<noteq> []"
    "take (Suc (length v)) (pi_union (sq_info st)) = v @ [NUL]" "length (pi_union (sq_info st)) = PROP_VALUE_MAX"
    by (auto simp: seq_inv_def memory_inv_def)
  obtain n where n: "length (sq_history st) = Suc n" using s(5) by (cases "sq_history st") auto
  have "counter_at base (Suc n) = (base + 2 * n + 2) mod 2 ^ 24" by (simp add: counter_at_def)
  also have "\<dots> = ((base + 2 * n) mod 2 ^ 24 + 2) mod 2 ^ 24" by (simp only: mod_add_left_eq)
  finally have "counter_at base (length (sq_history st)) = (counter s + 2) mod 2 ^ 24"
    using s(3) n by (simp only: counter_at_def diff_Suc_1)
  moreover have "take (length v) (pi_union (sq_info st)) = v"
    using arg_cong [OF s(6), of "take (length v)"] by simp
  ultimately have mem: "memory_inv base (sq_info st') (sq_writer st') (sq_history st')"
    using end_serial [OF s(2,4)] s end_update(1) by (simp add: memory_inv_def upd_end_def)
  have "reader_inv base (sq_info st') (sq_writer st') (sq_history st') (sq_reader st')"
  proof (cases "sq_reader st")
    case (Rd_copy t buf)
    with inv obtain c where c: "\<not> SERIAL_DIRTY t" "length buf \<le> SERIAL_VALUE_LEN t" "c < length (sq_history st)"
      "counter t = counter_at base c" "SERIAL_VALUE_LEN t = length (sq_history st ! c)"
      by (auto simp: seq_inv_def reader_inv_def)
    then show ?thesis using Rd_copy end_update(1) by (auto simp: reader_inv_def upd_end_def nth_append intro!: exI [of _ c])
  qed (use inv end_update(1) in \<open>auto simp: seq_inv_def reader_inv_def upd_end_def\<close>)
  with mem inv show ?thesis by (simp add: seq_inv_def)
next
  case load_serial
  have "sq_writer st = None"
  proof (cases "sq_writer st")
    case (Some w)
    obtain v k where "w = (v, k)" by (cases w)
    with inv Some obtain s where "pi_serial (sq_info st) = s OR 1" by (auto simp: seq_inv_def memory_inv_def)
    then have "SERIAL_DIRTY (pi_serial (sq_info st))" by simp
    with load_serial show ?thesis by simp
  qed
  with inv load_serial show ?thesis
    by (auto simp: seq_inv_def memory_inv_def reader_inv_def last_conv_nth intro!: exI [of _ "length (sq_history st) - 1"])
next
  case (copy_out s buf)
  from inv copy_out obtain c where c: "\<not> SERIAL_DIRTY s" "c < length (sq_history st)" "counter s = counter_at base c"
    "SERIAL_VALUE_LEN s = length (sq_history st ! c)"
    "Suc c = length (sq_history st) \<and> sq_writer st = None \<longrightarrow> buf = take (length buf) (pi_union (sq_info st))"
    by (auto simp: seq_inv_def reader_inv_def)
  have "buf @ [pi_union (sq_info st) ! length buf] = take (Suc (length buf)) (pi_union (sq_info st))"
    if now: "Suc c = length (sq_history st)" "sq_writer st = None"
  proof -
    have "sq_history st \<noteq> []" using c(2) by auto
    then have "last (sq_history st) = sq_history st ! c" by (simp add: last_conv_nth now(1) [symmetric])
    then have "length buf < length (pi_union (sq_info st))"
      using inv now copy_out(3) c(4) by (simp add: seq_inv_def memory_inv_def)
    moreover have "buf = take (length buf) (pi_union (sq_info st))" using c(5) now by blast
    ultimately show ?thesis by (simp add: take_Suc_conv_app_nth)
  qed
  with c copy_out inv show ?thesis by (auto simp: seq_inv_def reader_inv_def intro!: exI [of _ c])
next
  case (check_serial s buf)
  from inv check_serial obtain c where c: "\<not> SERIAL_DIRTY s" "c < length (sq_history st)" "counter s = counter_at base c"
    "SERIAL_VALUE_LEN s = length (sq_history st ! c)"
    "Suc c = length (sq_history st) \<and> sq_writer st = None \<longrightarrow> buf = take (length buf) (pi_union (sq_info st))"
    by (auto simp: seq_inv_def reader_inv_def)
  have "buf \<in> set (sq_history st)" if same: "pi_serial (sq_info st) = s" and few: "length (sq_history st) \<le> 2 ^ 23"
  proof -
    have idle: "sq_writer st = None"
    proof (cases "sq_writer st")
      case (Some w)
      obtain v k where "w = (v, k)" by (cases w)
      with inv Some obtain t where "pi_serial (sq_info st) = t OR 1" by (auto simp: seq_inv_def memory_inv_def)
      then have "SERIAL_DIRTY s" using same by (metis dirty_or_one)
      with c(1) show ?thesis by simp
    qed
    have m: "counter s = counter_at base (length (sq_history st) - 1)" "sq_history st \<noteq> []"
      "take (length (last (sq_history st))) (pi_union (sq_info st)) = last (sq_history st)"
      "SERIAL_VALUE_LEN s = length (last (sq_history st))"
      using inv idle same by (auto simp: seq_inv_def memory_inv_def)
    have "c = length (sq_history st) - 1"
      using counter_at_inj [of base c "length (sq_history st) - 1"] c(2,3) m(1,2) few by (cases "sq_history st") auto
    then have "buf = take (length buf) (pi_union (sq_info st))" using c(2,5) idle by simp
    then have "buf = last (sq_history st)" using m(3,4) check_serial(3) by simp
    then show ?thesis using m(2) by simp
  qed
  with c inv check_serial show ?thesis by (auto simp: seq_inv_def reader_inv_def rd_check_def)
next
  case load_read_only
  with inv show ?thesis by (simp add: seq_inv_def reader_inv_def)
next
  case (direct_byte s buf)
  with inv show ?thesis by (simp add: seq_inv_def reader_inv_def)
qed

lemma prop_steps_inv: "prop_step\<^sup>*\<^sup>* st st' \<Longrightarrow> seq_inv base st \<Longrightarrow> seq_inv base st'"
  by (induction rule: rtranclp_induct) (auto intro: prop_step_inv)

lemma seq_init_inv:
  assumes "holds_value i v" "length (pi_union i) = PROP_VALUE_MAX"
  shows "seq_inv (counter (pi_serial i)) (seq_init i v)"
proof -
  have "even (counter (pi_serial i))"
    using assms(1) by (simp add: holds_value_def dirty_odd counter_def even_iff_mod_2_eq_zero mod_mod_cancel)
  moreover have "take (length v) (pi_union i) = v" using assms(1) by (auto simp: holds_value_def)
  moreover have "counter (pi_serial i) < 2 ^ 24" by (simp add: counter_def)
  ultimately show ?thesis
    using assms by (auto simp: seq_inv_def seq_init_def memory_inv_def reader_inv_def holds_value_def counter_at_def)
qed

section \<open>The steps without interference\<close>

lemma prop_steps_seq: "prop_step a b \<Longrightarrow> prop_step\<^sup>*\<^sup>* b c \<Longrightarrow> prop_step c d \<Longrightarrow> prop_step\<^sup>*\<^sup>* a d"
  by (meson converse_rtranclp_into_rtranclp rtranclp.rtrancl_into_rtrancl)

lemma writer_bytes:
  assumes "sq_writer st = Some (v, 0)" "length (pi_union (sq_info st)) = PROP_VALUE_MAX" "length v < PROP_VALUE_MAX"
  shows "k \<le> Suc (length v) \<Longrightarrow> prop_step\<^sup>*\<^sup>* st
    (st\<lparr>sq_info := (sq_info st)\<lparr>pi_union := take k (v @ [NUL]) @ drop k (pi_union (sq_info st))\<rparr>, sq_writer := Some (v, k)\<rparr>)"
proof (induction k)
  case 0
  have "st\<lparr>sq_info := (sq_info st)\<lparr>pi_union := take 0 (v @ [NUL]) @ drop 0 (pi_union (sq_info st))\<rparr>, sq_writer := Some (v, 0)\<rparr> = st"
    using assms(1) by simp
  then show ?case by (simp only: rtranclp.rtrancl_refl)
next
  case (Suc k)
  let ?u = "pi_union (sq_info st)"
  let ?st = "st\<lparr>sq_info := (sq_info st)\<lparr>pi_union := take k (v @ [NUL]) @ drop k ?u\<rparr>, sq_writer := Some (v, k)\<rparr>"
  have "prop_step ?st (upd_byte v k ?st)" by (rule prop_step.copy_in) (use Suc.prems in simp_all)
  moreover have "(take k (v @ [NUL]) @ drop k ?u)[k := (v @ [NUL]) ! k] = take (Suc k) (v @ [NUL]) @ drop (Suc k) ?u"
  proof -
    have "drop k ?u = ?u ! k # drop (Suc k) ?u" using Suc.prems assms(2,3) by (simp add: Cons_nth_drop_Suc)
    moreover have "take (Suc k) (v @ [NUL]) = take k (v @ [NUL]) @ [(v @ [NUL]) ! k]"
      by (rule take_Suc_conv_app_nth) (use Suc.prems in simp)
    ultimately show ?thesis using Suc.prems by (simp add: list_update_append)
  qed
  ultimately have "prop_step ?st (st\<lparr>sq_info := (sq_info st)\<lparr>pi_union := take (Suc k) (v @ [NUL]) @ drop (Suc k) ?u\<rparr>,
      sq_writer := Some (v, Suc k)\<rparr>)" by (simp add: upd_byte_def)
  with Suc.IH Suc.prems show ?case by (meson Suc_leD rtranclp.rtrancl_into_rtrancl)
qed

text \<open>The steps of an update come to what the update of the whole does.\<close>

lemma writer_alone:
  assumes "sq_writer st = None" "length (pi_union (sq_info st)) = PROP_VALUE_MAX" "length v < PROP_VALUE_MAX" "NUL \<notin> set v"
  shows "prop_step\<^sup>*\<^sup>* st (st\<lparr>sq_info := updated_info v (length v) (sq_info st), sq_history := sq_history st @ [v]\<rparr>)"
proof -
  let ?st1 = "upd_begin v st"
  let ?u = "take (Suc (length v)) (v @ [NUL]) @ drop (Suc (length v)) (pi_union (sq_info ?st1))"
  let ?st2 = "?st1\<lparr>sq_info := (sq_info ?st1)\<lparr>pi_union := ?u\<rparr>, sq_writer := Some (v, Suc (length v))\<rparr>"
  have first: "prop_step st ?st1" by (rule prop_step.begin_update [OF assms(1,3,4)])
  have mid: "prop_step\<^sup>*\<^sup>* ?st1 ?st2"
    by (rule writer_bytes) (use assms in \<open>simp_all add: upd_begin_def\<close>)
  have fin: "prop_step ?st2 (upd_end v ?st2)" by (rule prop_step.end_update) simp
  have eq: "upd_end v ?st2 = st\<lparr>sq_info := updated_info v (length v) (sq_info st), sq_history := sq_history st @ [v]\<rparr>"
    using assms(1) by (simp add: upd_end_def upd_begin_def updated_info_def strlcpy_union_def Let_def)
  show ?thesis
    using prop_steps_seq [OF first mid fin] unfolding eq .
qed

lemma reader_bytes:
  assumes "sq_reader st = Rd_copy s []" "SERIAL_VALUE_LEN s \<le> length (pi_union (sq_info st))"
  shows "k \<le> SERIAL_VALUE_LEN s \<Longrightarrow> prop_step\<^sup>*\<^sup>* st (st\<lparr>sq_reader := Rd_copy s (take k (pi_union (sq_info st)))\<rparr>)"
proof (induction k)
  case 0
  have "st\<lparr>sq_reader := Rd_copy s (take 0 (pi_union (sq_info st)))\<rparr> = st" using assms(1) by simp
  then show ?case by (simp only: rtranclp.rtrancl_refl)
next
  case (Suc k)
  let ?u = "pi_union (sq_info st)"
  let ?st = "st\<lparr>sq_reader := Rd_copy s (take k ?u)\<rparr>"
  have len: "length (take k ?u) = k" using Suc.prems assms(2) by simp
  have "prop_step ?st (?st\<lparr>sq_reader := Rd_copy s (take k ?u @ [pi_union (sq_info ?st) ! length (take k ?u)])\<rparr>)"
    by (rule prop_step.copy_out) (use Suc.prems len in simp_all)
  moreover have "take k ?u @ [?u ! k] = take (Suc k) ?u"
    using Suc.prems assms(2) by (simp add: take_Suc_conv_app_nth)
  ultimately have "prop_step ?st (st\<lparr>sq_reader := Rd_copy s (take (Suc k) ?u)\<rparr>)" using len by simp
  with Suc.IH Suc.prems show ?case by (meson Suc_leD rtranclp.rtrancl_into_rtrancl)
qed

lemma reader_alone:
  assumes inv: "seq_inv base st" and idle: "sq_writer st = None" "sq_reader st = Rd_start"
    and name: "\<not> is_read_only (pi_name (sq_info st))"
  shows "prop_step\<^sup>*\<^sup>* st (st\<lparr>sq_reader := Rd_done (pi_serial (sq_info st)) (last (sq_history st))\<rparr>)"
proof -
  let ?s = "pi_serial (sq_info st)" and ?u = "pi_union (sq_info st)"
  have m: "\<not> SERIAL_DIRTY ?s" "SERIAL_VALUE_LEN ?s = length (last (sq_history st))" "length ?u = PROP_VALUE_MAX"
    "length (last (sq_history st)) < PROP_VALUE_MAX" "take (length (last (sq_history st))) ?u = last (sq_history st)"
    using inv idle(1) by (simp_all add: seq_inv_def memory_inv_def)
  let ?st1 = "st\<lparr>sq_reader := Rd_copy ?s []\<rparr>"
  let ?st2 = "?st1\<lparr>sq_reader := Rd_copy ?s (take (SERIAL_VALUE_LEN ?s) ?u)\<rparr>"
  have first: "prop_step st ?st1" by (rule prop_step.load_serial [OF idle(2) name m(1)])
  have mid: "prop_step\<^sup>*\<^sup>* ?st1 ?st2"
    using reader_bytes [of ?st1 ?s "SERIAL_VALUE_LEN ?s"] m by simp
  have fin: "prop_step ?st2 (rd_check ?s (take (SERIAL_VALUE_LEN ?s) ?u) ?st2)"
    by (rule prop_step.check_serial) (use m in simp_all)
  have eq: "rd_check ?s (take (SERIAL_VALUE_LEN ?s) ?u) ?st2 = st\<lparr>sq_reader := Rd_done ?s (last (sq_history st))\<rparr>"
    using m by (simp add: rd_check_def)
  show ?thesis
    using prop_steps_seq [OF first mid fin] unfolding eq .
qed

lemma prop_steps_name: "prop_step\<^sup>*\<^sup>* st st' \<Longrightarrow> pi_name (sq_info st') = pi_name (sq_info st)"
  by (induction rule: rtranclp_induct)
    (auto elim!: prop_stepE simp: upd_begin_def upd_byte_def upd_end_def rd_check_def)

section \<open>Read-only properties\<close>

text \<open>
  The reset tool also updates read-only properties, which the comment in \<open>ReadCallback\<close> says never
  change: a reader of one can get a value that is put together from two.
\<close>

lemma read_only_value_torn:
  "\<exists>st s. prop_step\<^sup>*\<^sup>* (seq_init (prop_info_short ''ro.a'' ''xx'') ''xx'') st
     \<and> sq_reader st = Rd_done s ''xy'' \<and> sq_history st = [''xx'', ''yy'']"
proof -
  let ?i = "prop_info_short ''ro.a'' ''xx''" and ?a = "seq_init (prop_info_short ''ro.a'' ''xx'') ''xx''"
  let ?s = "pi_serial ?i"
  have i: "is_read_only (pi_name ?i)" "\<not> SERIAL_DIRTY ?s" "\<not> pi_is_long ?i" "pi_union ?i ! 0 = CHR ''x''"
    "length (pi_union ?i) = PROP_VALUE_MAX"
    by code_simp+
  let ?b = "?a\<lparr>sq_reader := Rd_direct ?s []\<rparr>" and ?c = "?a\<lparr>sq_reader := Rd_direct ?s ''x''\<rparr>"
  have "prop_step ?a ?b" using prop_step.load_read_only [of ?a] i(1-3) by (simp add: seq_init_def)
  moreover have "prop_step ?b ?c"
    using prop_step.direct_byte [of ?b ?s "[]"] i(4,5) by (simp add: seq_init_def PROP_VALUE_MAX_def NUL_def)
  moreover define d where "d = ?c\<lparr>sq_info := updated_info ''yy'' 2 ?i, sq_history := [''xx'', ''yy'']\<rparr>"
  have "prop_step\<^sup>*\<^sup>* ?c d"
    using writer_alone [of ?c "''yy''"] i(5) by (simp add: seq_init_def PROP_VALUE_MAX_def NUL_def d_def numeral_2_eq_2)
  moreover have u: "pi_union (sq_info d) ! 1 = CHR ''y''" "pi_union (sq_info d) ! 2 = NUL"
    "length (pi_union (sq_info d)) = PROP_VALUE_MAX" unfolding d_def by code_simp+
  have rd: "sq_reader d = Rd_direct ?s ''x''" "sq_history d = [''xx'', ''yy'']" by (simp_all add: d_def)
  let ?e = "d\<lparr>sq_reader := Rd_direct ?s ''xy''\<rparr>"
  have "prop_step d ?e"
    using prop_step.direct_byte [OF rd(1)] u by (simp add: PROP_VALUE_MAX_def NUL_def)
  moreover have "prop_step ?e (d\<lparr>sq_reader := Rd_done ?s ''xy''\<rparr>)"
    using prop_step.direct_byte [of ?e ?s "''xy''"] u by (simp add: PROP_VALUE_MAX_def numeral_2_eq_2)
  ultimately have "prop_step\<^sup>*\<^sup>* ?a (d\<lparr>sq_reader := Rd_done ?s ''xy''\<rparr>)"
    by (meson prop_steps_seq r_into_rtranclp rtranclp_trans)
  with rd(2) show ?thesis by (intro exI [of _ "d\<lparr>sq_reader := Rd_done ?s ''xy''\<rparr>"]) simp
qed

section \<open>Properties\<close>

text \<open>
  C29: Readers of a property that is not read-only get no torn values. However the steps of a reader
  and of any number of updates interleave, as long as there are no more of them than the counter of
  the serial tells apart, a value that the reader returns is one that was written as a whole; and a
  reader that is not disturbed gets the last one.
\<close>

theorem reads_are_not_torn:
  assumes "holds_value i v" "length (pi_union i) = PROP_VALUE_MAX" "\<not> is_read_only (pi_name i)"
    and "prop_step\<^sup>*\<^sup>* (seq_init i v) st"
  shows "(sq_reader st = Rd_done s buf \<and> length (sq_history st) \<le> 2 ^ 23 \<longrightarrow> buf \<in> set (sq_history st))
    \<and> (sq_writer st = None \<and> sq_reader st = Rd_start \<longrightarrow>
        prop_step\<^sup>*\<^sup>* st (st\<lparr>sq_reader := Rd_done (pi_serial (sq_info st)) (last (sq_history st))\<rparr>))"
proof -
  have inv: "seq_inv (counter (pi_serial i)) st" by (rule prop_steps_inv [OF assms(4) seq_init_inv [OF assms(1,2)]])
  have name: "\<not> is_read_only (pi_name (sq_info st))"
    using prop_steps_name [OF assms(4)] assms(3) by (simp add: seq_init_def)
  with inv show ?thesis using reader_alone [OF inv] by (auto simp: seq_inv_def reader_inv_def)
qed

theorem reads_are_not_torn_witness:
  "\<exists>st. prop_step\<^sup>*\<^sup>* (seq_init (prop_info_short ''a'' ''x'') ''x'') st \<and> sq_history st = [''x'', ''y''] \<and> sq_writer st = None
    \<and> prop_step\<^sup>*\<^sup>* st (st\<lparr>sq_reader := Rd_done (pi_serial (sq_info st)) ''y''\<rparr>)"
proof -
  let ?i = "prop_info_short ''a'' ''x''"
  have i: "holds_value ?i ''x''" by (rule short_holds_value) (simp_all add: PROP_VALUE_MAX_def NUL_def)
  have len: "length (pi_union ?i) = PROP_VALUE_MAX" by (simp add: prop_info_short_def PROP_VALUE_MAX_def)
  let ?st = "(seq_init ?i ''x'')\<lparr>sq_info := updated_info ''y'' (length ''y'') ?i, sq_history := [''x'', ''y'']\<rparr>"
  have run: "prop_step\<^sup>*\<^sup>* (seq_init ?i ''x'') ?st"
    using writer_alone [of "seq_init ?i ''x''" "''y''"] len by (simp add: seq_init_def PROP_VALUE_MAX_def NUL_def)
  have name: "\<not> is_read_only (pi_name ?i)" by code_simp
  from reads_are_not_torn [OF i len name run] have "prop_step\<^sup>*\<^sup>* ?st
      (?st\<lparr>sq_reader := Rd_done (pi_serial (sq_info ?st)) (last (sq_history ?st))\<rparr>)" by (simp add: seq_init_def)
  with run show ?thesis by (intro exI [of _ ?st]) (simp add: seq_init_def)
qed

end
