(* ===== verification/Prop_Lookup_Facts.thy ===== *)
theory Prop_Lookup_Facts
  imports Prop_Contexts Prop_Area_Tree
begin

text \<open>
  The two searches that lead from a name to its context: the binary search of the serialized
  contexts, and the list of prefixes of the split contexts.
\<close>

section \<open>Binary search\<close>

text \<open>The elements are in order: those that come before what is sought, then those equal, then those after.\<close>

definition in_order :: "nat \<Rightarrow> (nat \<Rightarrow> int) \<Rightarrow> bool" where
  "in_order n g \<longleftrightarrow> (\<forall>i j. i \<le> j \<longrightarrow> j < n \<longrightarrow> (g j < 0 \<longrightarrow> g i < 0) \<and> (g i > 0 \<longrightarrow> g j > 0))"

definition search_result :: "nat \<Rightarrow> (nat \<Rightarrow> int) \<Rightarrow> int \<Rightarrow> bool" where
  "search_result n g k \<longleftrightarrow> (if \<exists>i < n. g i = 0 then 0 \<le> k \<and> k < int n \<and> g (nat k) = 0 else k = - 1)"

lemma find_between_correct:
  assumes f: "\<And>i. i < n \<Longrightarrow> f i = Some (g i)" and ord: "in_order n g" and n: "n \<le> 2 ^ 30"
  shows "0 \<le> bottom \<Longrightarrow> upper < int n \<Longrightarrow> (\<forall>i < n. g i = 0 \<longrightarrow> bottom \<le> int i \<and> int i \<le> upper)
    \<Longrightarrow> \<exists>k. find_between f bottom upper = Some k \<and> search_result n g k"
proof (induction "nat (upper - bottom + 1)" arbitrary: bottom upper rule: less_induct)
  case less
  show ?case
  proof (cases "bottom \<le> upper")
    case False
    then have "\<not> (\<exists>i < n. g i = 0)" using less.prems(3) by force
    then show ?thesis using False by (subst find_between.simps) (simp add: search_result_def)
  next
    case True
    let ?m = "(upper + bottom) div 2"
    have m: "bottom \<le> ?m" "?m \<le> upper" using True by auto
    then have mn: "nat ?m < n" using less.prems(1,2) by linarith
    have small: "upper + bottom < 2 ^ 31" using True less.prems(2) n by simp
    have eq: "find_between f bottom upper = (if g (nat ?m) = 0 then Some ?m
        else if g (nat ?m) < 0 then find_between f (?m + 1) upper else find_between f bottom (?m - 1))"
      using True small less.prems(1) f [OF mn] by (subst find_between.simps) (simp add: Let_def)
    consider (here) "g (nat ?m) = 0" | (above) "g (nat ?m) < 0" | (under) "g (nat ?m) > 0" by linarith
    then show ?thesis
    proof cases
      case here
      then have "search_result n g ?m" using mn m less.prems(1,2) by (auto simp: search_result_def)
      then show ?thesis using eq here by simp
    next
      case above
      have "\<forall>i < n. g i = 0 \<longrightarrow> ?m + 1 \<le> int i \<and> int i \<le> upper"
      proof (intro allI impI conjI)
        fix i assume i: "i < n" "g i = 0"
        show "int i \<le> upper" using less.prems(3) i by blast
        have "\<not> i \<le> nat ?m" using ord i(2) above mn unfolding in_order_def by fastforce
        then show "?m + 1 \<le> int i" by linarith
      qed
      with less.hyps [of upper "?m + 1"] less.prems(1,2) m show ?thesis using eq above by simp
    next
      case under
      have "\<forall>i < n. g i = 0 \<longrightarrow> bottom \<le> int i \<and> int i \<le> ?m - 1"
      proof (intro allI impI conjI)
        fix i assume i: "i < n" "g i = 0"
        show "bottom \<le> int i" using less.prems(3) i by blast
        have "\<not> nat ?m \<le> i" using ord i under unfolding in_order_def by fastforce
        then show "int i \<le> ?m - 1" by linarith
      qed
      with less.hyps [of "?m - 1" bottom] less.prems(1,2) m show ?thesis using eq under by simp
    qed
  qed
qed

lemma sint_less_one:
  assumes "n \<le> 2 ^ 30"
  shows "sint (of_nat n - 1 :: u32) = int n - 1"
proof -
  have "(of_nat n - 1 :: u32) = word_of_int (int n - 1)" by simp
  moreover have "sint (word_of_int (int n - 1) :: u32) = int n - 1"
    using assms by (subst signed_of_int) (simp add: signed_take_bit_int_eq_self)
  ultimately show ?thesis by (simp only:)
qed

text \<open>
  C34: The binary search is right. On an array in order whose size fits it returns, without
  overflow and reading only elements of the array, an index of an element that is equal to what
  is sought, or minus one if there is none.
\<close>

theorem Find_in_correct:
  assumes "\<And>i. i < n \<Longrightarrow> f i = Some (g i)" "in_order n g" "n \<le> 2 ^ 30"
  shows "\<exists>k. Find_in n f = Some k
    \<and> (if \<exists>i < n. g i = 0 then 0 \<le> k \<and> k < int n \<and> g (nat k) = 0 else k = - 1)"
  using find_between_correct [OF assms, of 0 "int n - 1"]
  by (auto simp: Find_in_def sint_less_one [OF assms(3)] search_result_def)

theorem Find_in_correct_witness:
  "Find_in 3 (\<lambda>i. if i < 3 then Some (int i - 1) else None) = Some 1"
proof -
  let ?f = "\<lambda>i. if i < 3 then Some (int i - 1) else None"
  have "in_order 3 (\<lambda>i. int i - 1)" by (auto simp: in_order_def)
  from Find_in_correct [OF _ this, of ?f] obtain k where k: "Find_in 3 ?f = Some k"
    "if \<exists>i < 3. int i - 1 = 0 then 0 \<le> k \<and> k < int 3 \<and> int (nat k) - 1 = 0 else k = - 1" by auto
  have "\<exists>i < 3. int i - 1 = 0" by (rule exI [of _ 1]) simp
  with k show ?thesis by auto
qed

section \<open>Prefixes\<close>

lemma strncmp_prefix:
  "NUL \<notin> set p \<Longrightarrow> strncmp p s (length p) = 0 \<longleftrightarrow> take (length p) s = p"
proof (induction p arbitrary: s)
  case (Cons c p)
  show ?case
  proof (cases s)
    case Nil
    with Cons.prems show ?thesis by (auto simp: Let_def)
  next
    case (Cons d s2)
    have "int (of_char c) - int (of_char d) = 0 \<longleftrightarrow> c = d" by simp
    with Cons Cons.IH Cons.prems show ?thesis by (auto simp: Let_def)
  qed
qed simp

abbreviation is_star :: "string \<times> string \<Rightarrow> bool" where "is_star p \<equiv> take 1 (fst p) = ''*''"

definition before_prefix :: "string \<times> string \<Rightarrow> string \<times> string \<Rightarrow> bool" where
  "before_prefix p q \<longleftrightarrow> (is_star p \<longrightarrow> is_star q) \<and> (\<not> is_star q \<longrightarrow> length (fst q) \<le> length (fst p))"

definition entry_ok :: "string \<times> string \<Rightarrow> bool" where
  "entry_ok p \<longleftrightarrow> fst p \<noteq> '''' \<and> NUL \<notin> set (fst p) \<and> (is_star p \<longrightarrow> fst p = ''*'')"

lemma set_ListAddAfterLen [simp]: "set (ListAddAfterLen ps prefix ctx) = insert (prefix, ctx) (set ps)"
  by (induction ps) auto

lemma ListAddAfterLen_sorted:
  assumes "entry_ok (prefix, ctx)"
  shows "sorted_wrt before_prefix ps \<Longrightarrow> \<forall>p \<in> set ps. entry_ok p \<Longrightarrow> sorted_wrt before_prefix (ListAddAfterLen ps prefix ctx)"
proof (induction ps)
  case (Cons p ps)
  have rest: "before_prefix p q" if "q \<in> set ps" for q using Cons.prems(1) that by simp
  show ?case
  proof (cases "length (fst p) < length prefix \<or> is_star p")
    case True
    have "before_prefix (prefix, ctx) q" if q: "q \<in> set (p # ps)" for q
    proof (cases "is_star p")
      case star: True
      then have "is_star q" using q rest [of q] by (cases "q = p") (simp_all add: before_prefix_def)
      then show ?thesis by (simp add: before_prefix_def)
    next
      case False
      then have long: "length (fst p) < length prefix" using True by blast
      have "fst p \<noteq> ''''" using Cons.prems(2) by (simp add: entry_ok_def)
      then have "2 \<le> length prefix" using long by (cases "fst p") auto
      then have "\<not> is_star (prefix, ctx)" using assms by (auto simp: entry_ok_def)
      moreover have "length (fst q) \<le> length prefix" if "\<not> is_star q"
        using q long rest [of q] that by (cases "q = p") (simp_all add: before_prefix_def)
      ultimately show ?thesis by (simp add: before_prefix_def)
    qed
    with True Cons.prems(1) show ?thesis by simp
  next
    case False
    have "before_prefix p (prefix, ctx)" using False by (simp add: before_prefix_def)
    with False Cons rest show ?thesis by auto
  qed
qed simp

definition add_prefixes :: "(string \<times> string) list \<Rightarrow> (string \<times> string) list" where
  "add_prefixes entries = foldl (\<lambda>ps e. ListAddAfterLen ps (fst e) (snd e)) [] entries"

lemma add_prefixes_snoc: "add_prefixes (es @ [e]) = ListAddAfterLen (add_prefixes es) (fst e) (snd e)"
  by (simp add: add_prefixes_def)

lemma add_prefixes_facts:
  "\<forall>e \<in> set es. entry_ok e \<Longrightarrow> set (add_prefixes es) = set es \<and> sorted_wrt before_prefix (add_prefixes es)"
proof (induction es rule: rev_induct)
  case Nil
  then show ?case by (simp add: add_prefixes_def)
next
  case (snoc e es)
  then show ?case using ListAddAfterLen_sorted [of "fst e" "snd e" "add_prefixes es"] by (simp add: add_prefixes_snoc)
qed

lemma find_sorted:
  assumes "sorted_wrt R ps" "List.find P ps = Some p"
  shows "p \<in> set ps" "P p" "\<And>q. q \<in> set ps \<Longrightarrow> P q \<Longrightarrow> q = p \<or> R p q"
  using assms by (induction ps) (auto split: if_splits)

text \<open>
  C33: A property belongs to the longest prefix. However the entries of the specification files
  are ordered, the first prefix of the list that fits a name is one of the entries, is the
  beginning of the name or a star, and is at least as long as every other prefix that begins the
  name; a star is only found when no prefix begins the name, and nothing is found when nothing fits.
\<close>

theorem longest_prefix_found:
  assumes "\<forall>e \<in> set entries. entry_ok e"
  shows "case List.find (\<lambda>p. prefix_matches name (fst p)) (add_prefixes entries) of
      None \<Rightarrow> (\<forall>e \<in> set entries. take (length (fst e)) name \<noteq> fst e \<and> fst e \<noteq> ''*'')
    | Some p \<Rightarrow> p \<in> set entries \<and> (fst p = ''*'' \<or> take (length (fst p)) name = fst p)
        \<and> (\<forall>e \<in> set entries. take (length (fst e)) name = fst e \<longrightarrow> fst e \<noteq> ''*'' \<longrightarrow>
            fst p \<noteq> ''*'' \<and> length (fst e) \<le> length (fst p))"
proof -
  note facts = add_prefixes_facts [OF assms]
  have fits: "prefix_matches name (fst e) \<longleftrightarrow> fst e = ''*'' \<or> take (length (fst e)) name = fst e" if "e \<in> set entries" for e
    using assms that strncmp_prefix [of "fst e" name] by (auto simp: prefix_matches_def entry_ok_def)
  have star: "is_star e \<longleftrightarrow> fst e = ''*''" if "e \<in> set entries" for e
    using assms that by (auto simp: entry_ok_def)
  show ?thesis
  proof (cases "List.find (\<lambda>p. prefix_matches name (fst p)) (add_prefixes entries)")
    case None
    then have "\<forall>e \<in> set entries. \<not> prefix_matches name (fst e)" using facts by (auto simp: find_None_iff)
    then show ?thesis unfolding None option.case using fits by blast
  next
    case (Some p)
    note fs = find_sorted [OF conjunct2 [OF facts] Some]
    have p: "p \<in> set entries" using fs(1) facts by simp
    have "fst p \<noteq> ''*'' \<and> length (fst e) \<le> length (fst p)"
      if e: "e \<in> set entries" "take (length (fst e)) name = fst e" "fst e \<noteq> ''*''" for e
    proof -
      have "e = p \<or> before_prefix p e" using fs(3) [of e] e(1,2) fits [OF e(1)] facts by simp
      then show ?thesis using e(3) star [OF e(1)] star [OF p] by (auto simp: before_prefix_def)
    qed
    moreover have "fst p = ''*'' \<or> take (length (fst p)) name = fst p" using fs(2) fits [OF p] by blast
    ultimately show ?thesis unfolding Some option.case using p by blast
  qed
qed

theorem longest_prefix_found_witness:
  "List.find (\<lambda>p. prefix_matches ''ro.ab'' (fst p)) (add_prefixes [(''*'', ''d''), (''ro.'', ''r''), (''ro.a'', ''a'')])
     = Some (''ro.a'', ''a'')"
proof -
  let ?es = "[(''*'', ''d''), (''ro.'', ''r''), (''ro.a'', ''a'')]"
  have ok: "\<forall>e \<in> set ?es. entry_ok e" by (simp add: entry_ok_def NUL_def)
  note th = longest_prefix_found [OF ok, of "''ro.ab''"]
  obtain p where p: "List.find (\<lambda>p. prefix_matches ''ro.ab'' (fst p)) (add_prefixes ?es) = Some p"
    using th by (cases "List.find (\<lambda>p. prefix_matches ''ro.ab'' (fst p)) (add_prefixes ?es)") auto
  then have "\<forall>e \<in> set ?es. take (length (fst e)) ''ro.ab'' = fst e \<longrightarrow> fst e \<noteq> ''*'' \<longrightarrow> length (fst e) \<le> length (fst p)"
    and es: "p \<in> set ?es" using th by (simp_all only: option.case, blast+)
  then have "4 \<le> length (fst p)" by (auto dest: bspec [of _ _ "(''ro.a'', ''a'')"])
  with es have "p = (''ro.a'', ''a'')" by auto
  with p show ?thesis by simp
qed

end
