(* ===== verification/Spec2Isabelle.thy ===== *)
theory Spec2Isabelle
  imports Codec_Factory Provider_Facts Stream_Device Stream_In_Facts LeAudio_Codecs LeAudio_Offload_Facts
    Hidl_Port_Facts Hidl_Codecs_Facts Hal_Writer_Facts Hal_Reader_Facts Hal_Device_Facts
    Reset_Tool_Facts Prop_Seqlock Prop_Lookup_Facts
begin

text \<open>
  The Bluetooth audio HAL (\<open>src/bluetooth/audio\<close>), the wrapper of the legacy audio HAL
  (\<open>src/audio/hal\<close>) and the property reset tool (\<open>src/resetprop\<close>) of the device tree, as a
  library of executable definitions with the theorems that make them correct.

  Bluetooth audio. The Bluetooth stack and the audio framework meet in a session, one per
  kind of audio path. The stack opens a provider (\<open>hal/\<close>), negotiates a codec and starts the
  provider's session; the framework opens a stream (\<open>hw/\<close>), whose port registers callbacks
  with the session, asks the stack through it to start and suspend, and moves PCM data
  through the session's message queue. The stack answers by reports that the session hands
  to the callbacks.

  Its theories; paths are relative to \<open>src/bluetooth/audio\<close>.

  \<open>Bt_Prelude\<close>: word types, C++ unsigned division (a zero divisor is \<open>None\<close>), lists and
  association lists. \<open>Audio_Types\<close>: the data of the AIDL interfaces.

  \<open>A2dp_Bits\<close> (\<open>hal/A2dpBits.h\<close>), \<open>Codec_Sbc\<close>, \<open>Codec_Aac\<close> (\<open>hal/A2dpOffloadCodecSbc.cpp\<close>,
  \<open>hal/A2dpOffloadCodecAac.cpp\<close>) and \<open>Codec_Factory\<close> (\<open>hal/A2dpOffloadCodecFactory.cpp\<close>):
  capabilities, parsing and building of configurations as functions on byte lists, and the
  negotiation over a list of codecs. Their lemmas show that what is built is accepted by the
  parser and lies within both sides' capabilities, and where it does not.

  \<open>Codec_Db\<close> (\<open>utils/aidl_session/BluetoothAudioCodecs.cpp\<close>): the tables of supported codecs
  and the check of a configuration, equivalent to membership in what is advertised.

  \<open>Session\<close>, \<open>Session_Facts\<close> (\<open>utils/aidl_session/BluetoothAudioSession.cpp\<close>): the record
  \<open>session\<close> has the class's members; observers are an association list from cookies to
  callbacks. Notifications and calls to the stack are lists of data that an operation
  returns; the success of a binder call is an argument. The PCM loops take the state that
  each round finds as a function of the round's number; they end because a round transfers
  data or uses up one of 1000 milliseconds. The locale \<open>callback_registry\<close> is the contract of
  registration, interpreted on the session as \<open>aidl\<close>. \<open>Session_Control\<close>
  (\<open>BluetoothAudioSessionControl.h\<close>, \<open>BluetoothAudioSessionReport.h\<close>): the sessions of the
  process as a map, and the two static interfaces.

  \<open>Provider\<close>, \<open>Provider_Facts\<close> (\<open>hal/*AudioProvider.cpp\<close>, \<open>hal/BluetoothAudioProviderFactory.cpp\<close>):
  a provider is a record with its class as a tag; a call returns its status, the queue, the
  notifications, the provider and the sessions. The lemmas relate a provider to the session
  of its type: what a start that succeeds or is refused leaves, and how a session ends.

  \<open>LeAudio_Types\<close>: the LE audio data of the interfaces, and faults as values. \<open>LeAudio_Settings\<close>,
  \<open>LeAudio_Settings_Facts\<close> (\<open>BluetoothLeAudioAseConfigurationSettingProvider.cpp\<close>): the import of
  the flatbuffers tables into the two globals, when it is defined, and what it gives.
  \<open>LeAudio_Codecs\<close> (\<open>BluetoothLeAudioCodecsProvider.cpp\<close>): capabilities and codec information from
  the offload settings, and that the two stores exclude each other. \<open>LeAudio_Offload\<close>,
  \<open>LeAudio_Offload_Facts\<close> (\<open>hal/LeAudioOffloadAudioProvider.cpp\<close>): the unicast, QoS and broadcast
  queries, with the unicast answer as a set.

  \<open>Port_Aidl\<close>, \<open>Port_Facts\<close> (\<open>hw/device_port_proxy.cc\<close>): the port's members and the sessions form
  the world of a call. What the stack does during a call is a list of events; a waiting
  thread wakes after each batch of them, and the end of the batches is the timeout. The
  lemmas show that reports move a port one way only, and what each control call promises.
  \<open>Port_Interface\<close> (\<open>hw/device_port_proxy.h\<close>): the class \<open>BluetoothAudioPort\<close> as a record of
  methods, its contract as the locale \<open>bluetooth_port\<close>, interpreted on the AIDL port as
  \<open>aidl_port\<close>.

  \<open>Stream_Out\<close>, \<open>Stream_In\<close> and their \<open>_Facts\<close> (\<open>hw/stream_apis.cc\<close>): streams over any port; the
  facts are proved in the locale and then stated for the AIDL port. \<open>Stream_Device\<close>
  (\<open>hw/audio_bluetooth_hw.cc\<close>): the device. \<open>Audio_Utils\<close> (\<open>hw/utils.cc\<close>): parameter strings and
  frame counts.

  \<open>Hidl_Types\<close>, \<open>Hidl_Codecs\<close>, \<open>Hidl_Codecs_Facts\<close> (\<open>utils/session/BluetoothAudioSupportedCodecsDB.cpp\<close>
  and its version 2.1): the data of the HIDL interfaces and the tables of codecs as bit sets.
  \<open>Hidl_Middleware\<close>, \<open>Hidl_Middleware_Facts\<close> (\<open>utils/aidl_session/HidlToAidlMiddleware.cpp\<close>): the
  calls of the HIDL interfaces as calls on the AIDL session, and the table of their callbacks.
  \<open>Hidl_Session\<close>, \<open>Hidl_Control\<close>, \<open>Hidl_Session_Facts\<close> (\<open>utils/session/BluetoothAudioSession.cpp\<close> and
  its version 2.1, with the control and report interfaces): the session that either works on its
  own members or forwards to the middleware; the facts show that then its control calls are the
  AIDL ones. \<open>Hidl_Port\<close>, \<open>Hidl_Port_Facts\<close> (\<open>hw/device_port_proxy_hidl.cc\<close>): the second
  implementation of the port's interface.

  Legacy audio HAL (\<open>src/audio/hal\<close>). A stream or device of the interface wraps one of the legacy
  HAL, which is a record of functions on its own state \<open>'h\<close>. \<open>Hal_Util\<close> (\<open>Util.h\<close>,
  \<open>ParametersUtil.cpp\<close>): results and parameters. \<open>Hal_Stream\<close> (\<open>Stream.cpp\<close>), \<open>Hal_Stream_Out\<close>
  (\<open>StreamOut.cpp\<close>) and \<open>Hal_Stream_In\<close> (\<open>StreamIn.cpp\<close>): streams, and their writer and reader
  threads as functions of a program point. \<open>Hal_Device_State\<close>, \<open>Hal_Device\<close>, \<open>Hal_Primary\<close>
  (\<open>Device.cpp\<close>, \<open>PrimaryDevice.cpp\<close>, \<open>DevicesFactory.cpp\<close>): devices. \<open>Hal_Writer_Facts\<close> and
  \<open>Hal_Reader_Facts\<close>: a step relation interleaves the thread with the client of the queues and the
  calls of the framework; no byte is lost, commands get one reply each, and the thread ends after
  a close, which wakes it from its wait for the event flag. \<open>Hal_Device_Facts\<close>: the stream count of a device is exact in every order of calls.

  Reset tool (\<open>src/resetprop/Magisk/native/jni\<close>; directories below are relative to it).
  \<open>Prop_Area\<close> (\<open>systemproperties/prop_area.cpp\<close>, \<open>prop_info.cpp\<close>): the property area as a map from
  offsets to structs. \<open>Prop_Area_Tree\<close> and \<open>Prop_Area_Facts\<close> define when an area is well formed
  (the siblings of each level are a search tree, links lead to placed objects) and show that
  every operation keeps it so and returns; \<open>Prop_Map\<close> states what a store of properties promises
  as the locale \<open>property_store\<close>, interpreted on the area as \<open>area\<close>; \<open>Prop_Area_Room\<close> bounds the
  room that is used and refines the area to a map. \<open>Prop_Info_Parser\<close>
  (\<open>systemproperties/property_info_parser.cpp\<close>) reads the serialized property information from
  words; \<open>Prop_Contexts\<close> (\<open>contexts_split.cpp\<close>, \<open>contexts_serialized.cpp\<close>, \<open>contexts_pre_split.h\<close>,
  \<open>context_node.cpp\<close>) leads from a name to its area, and \<open>Prop_Lookup_Facts\<close> shows its two searches
  correct. \<open>Prop_Service\<close>, \<open>Prop_Service_Facts\<close> (\<open>system_properties.cpp\<close>): the properties of a
  process. \<open>Prop_Seqlock\<close>: an update and a read as interleaved steps of copying bytes, for both kinds of
  properties.
  \<open>Reset_Tool\<close>, \<open>Reset_Tool_Facts\<close> (\<open>resetprop/*.cpp\<close>, \<open>utils/file.cpp\<close>): the tool, its messages
  to the property service, and what it gets after it sets or deletes.

  Bounds and fuel. No definition has fuel: a loop whose end depends on the memory it reads is a
  \<open>partial_function\<close>, where not returning is \<^term>\<open>None\<close>, and the lemmas show that it returns on
  well-formed memory; other loops have a measure. The threads of the legacy HAL are steps, with a
  bound on the number of steps after a close.

  Parameters. Code that is not in the repository is an argument: the numbering of session
  types (\<open>session_code\<close>), string splitting (\<open>is_split\<close> states what it promises), frame sizes,
  the stereo mixer, clocks, binder results, the constants of
  \<open>system/audio.h\<close>, the numbers of the LE audio enumerators (\<open>aidl_numbers\<close>), the reading of
  the settings files, the legacy HAL, the message queues and event flags of \<open>libfmq\<close> (\<open>fifo\<close> and \<open>event_flag_ok\<close> state
  what they promise), the media library's \<open>AudioParameter\<close>, and for the reset
  tool the files it finds (\<open>prop_env\<close>) and the property service.

  Concurrency. A call on a port or a stream is atomic except where it waits or makes a
  binder call: there the events of its environment take place, in order.

  Not modelled. The vendored nanopb (\<open>external/nanopb\<close>): its encoder and decoder of the persistent
  properties are parameters. Of \<open>utils/\<close> of the reset tool only the parsing of property files is
  modelled; the rest wraps system calls. \<open>src/init\<close> and \<open>src/cmds\<close> write properties, mounts and
  device files and make binder calls, without a state of their own. Logging is left out
  everywhere, and so are the dumps for debugging.
\<close>

end
